(* ===== verification/Webpp_Prelude.thy ===== *)
theory Webpp_Prelude
  imports Main "HOL-Library.Word" "HOL-Library.Char_ord" "HOL-Library.Monad_Syntax"
begin

text \<open>
  The vocabulary shared by every component of the development: the machine integer types of
  the C++ code, character codes, checked memory accesses, and the collections of rewrite rules
  that the component proofs use.

  An access through a pointer or an index is a \<^const>\<open>Option.bind\<close>-style partial
  operation: \<open>load\<close> and \<open>store\<close> return \<^const>\<open>None\<close> when the
  cell is outside of the array, which in C++ is undefined behaviour. A function of the model
  that returns \<^const>\<open>None\<close> therefore has undefined behaviour on that input, and
  a theorem that it never returns \<^const>\<open>None\<close> is a memory-safety theorem.
\<close>

section \<open>Machine integers and characters\<close>

type_synonym u8 = "8 word"
type_synonym u16 = "16 word"
type_synonym u32 = "32 word"
type_synonym u64 = "64 word"

abbreviation ord :: "char \<Rightarrow> nat" where
  "ord \<equiv> of_char"

named_theorems char_class "facts on classes of ASCII characters"
named_theorems safety "memory-safety facts: a checked operation does not return None"
named_theorems codec "print/parse facts of the textual and binary formats"

lemma ord_less_256 [simp]: "ord c < 256"
  using nat_of_char_less_256 [of c] by simp

lemma ord_char_of_less [simp]: "n < 256 \<Longrightarrow> ord (char_of (n::nat)) = n"
  by simp

lemma char_eq_ord_iff: "c = d \<longleftrightarrow> ord c = ord d"
  by (metis char_of_char)

lemma unat_u8_less [simp]: "unat (w :: u8) < 256"
  using unsigned_less [of w, where ?'a = nat] by simp

lemma unat_of_nat_u8: "n < 256 \<Longrightarrow> unat (of_nat n :: u8) = n"
  by (simp add: unat_of_nat take_bit_nat_eq_self)

lemma of_nat_unat_u8 [simp]: "(of_nat (unat w) :: u8) = w"
  by simp

text \<open>The result of a three-way comparison.\<close>

datatype partial_ordering = po_less | po_greater | po_equivalent | po_unordered

section \<open>Checked accesses to arrays\<close>

definition load :: "'a list \<Rightarrow> nat \<Rightarrow> 'a option" where
  "load xs i = (if i < length xs then Some (xs ! i) else None)"

definition store :: "'a list \<Rightarrow> nat \<Rightarrow> 'a \<Rightarrow> 'a list option" where
  "store xs i v = (if i < length xs then Some (xs[i := v]) else None)"

lemma load_in [safety, simp]: "i < length xs \<Longrightarrow> load xs i = Some (xs ! i)"
  by (simp add: load_def)

lemma store_in [safety, simp]: "i < length xs \<Longrightarrow> store xs i v = Some (xs[i := v])"
  by (simp add: store_def)

lemma load_store_same: "store xs i v = Some ys \<Longrightarrow> load ys i = Some v"
  by (auto simp: store_def load_def split: if_splits)

lemma store_length: "store xs i v = Some ys \<Longrightarrow> length ys = length xs"
  by (auto simp: store_def split: if_splits)

section \<open>Lists\<close>

lemma list_update_split:
  "i < length xs \<Longrightarrow> xs[i := v] = take i xs @ v # drop (Suc i) xs"
  by (rule upd_conv_take_nth_drop)

lemma take_list_update_Suc:
  "i < length xs \<Longrightarrow> take (Suc i) (xs[i := v]) = take i xs @ [v]"
  by (simp add: take_Suc_conv_app_nth)

lemma drop_list_update_Suc: "drop (Suc i) (xs[i := v]) = drop (Suc i) xs"
  by simp

lemma nth_Cons_numeral_simps:
  "(x # xs) ! numeral k = xs ! (pred_numeral k)"
  by (simp add: numeral_eq_Suc)

section \<open>The interface of a textual format\<close>

text \<open>
  A format has a printer, that is defined on the well-formed values, and a parser that accepts
  what the printer writes. In a canonical format the parser accepts nothing else.
\<close>

locale text_codec =
  fixes wf :: "'a \<Rightarrow> bool" and print :: "'a \<Rightarrow> string option" and parse :: "string \<Rightarrow> 'a option"
  assumes print_defined: "wf x \<Longrightarrow> \<exists>text. print x = Some text"
    and parse_print: "wf x \<Longrightarrow> print x = Some text \<Longrightarrow> parse text = Some x"
begin

lemma print_inj: "wf x \<Longrightarrow> wf y \<Longrightarrow> print x = print y \<Longrightarrow> x = y"
  using print_defined parse_print by (metis option.inject)

lemma round_trip: "wf x \<Longrightarrow> Option.bind (print x) parse = Some x"
  using print_defined [of x] parse_print [of x] by auto

text \<open>Printing what was parsed is a normal form: parsing it again gives the same value.\<close>

lemma normal_form:
  assumes "parse text = Some x" "wf x"
  shows "Option.bind (Option.bind (parse text) print) parse = parse text"
  using assms round_trip by simp

end

locale canonical_codec = text_codec +
  assumes parse_wf: "parse text = Some x \<Longrightarrow> wf x"
    and print_parse: "parse text = Some x \<Longrightarrow> print x = Some text"
begin

lemma parse_iff: "parse text = Some x \<longleftrightarrow> wf x \<and> print x = Some text"
  using parse_wf print_parse parse_print by blast

lemma parse_inj: "parse text = Some x \<Longrightarrow> parse text' = Some x \<Longrightarrow> text = text'"
  using print_parse by (metis option.inject)

end

end
