(* ===== verification/Ip_Status.thy ===== *)
theory Ip_Status
  imports Webpp_Prelude
begin

text \<open>
  \<^verbatim>\<open>webpp/ip/ip.hpp\<close> and the status texts of
  \<^verbatim>\<open>webpp/ip/inet_pton.hpp\<close>: the sizes of the two address families and the
  status codes of the parsers. The codes are chosen so that one byte can hold either a prefix
  length (at most 128) or an error (246 and above); \<open>status4_of_code\<close> and its
  companions are the casts back from that byte, partial because a cast of any other value is not
  an enumerator.
\<close>

section \<open>Sizes\<close>

definition max_ipv4_str_len :: nat where "max_ipv4_str_len = 15"
definition max_ipv6_str_len :: nat where "max_ipv6_str_len = 45"
definition uint16_byte_count :: nat where "uint16_byte_count = 2"
definition ipv4_byte_count :: nat where "ipv4_byte_count = 4"
definition ipv6_byte_count :: nat where "ipv6_byte_count = 16"
definition ipv4_max_prefix :: u8 where "ipv4_max_prefix = 32"
definition ipv6_max_prefix :: u8 where "ipv6_max_prefix = 128"

lemmas ip_sizes = max_ipv4_str_len_def max_ipv6_str_len_def uint16_byte_count_def
  ipv4_byte_count_def ipv6_byte_count_def ipv4_max_prefix_def ipv6_max_prefix_def

section \<open>Status enumerations\<close>

datatype ip_address_status =
    ip_valid | ip_valid_special | ip_too_little_octets | ip_too_many_octets
  | ip_invalid_octet_range | ip_invalid_leading_zero | ip_invalid_character
  | ip_bad_ending | ip_invalid_prefix | ip_invalid_colon_usage

datatype inet_pton4_status =
    v4_valid | v4_valid_special | v4_too_little_octets | v4_too_many_octets
  | v4_invalid_octet_range | v4_invalid_leading_zero | v4_invalid_character
  | v4_bad_ending | v4_invalid_prefix

datatype inet_pton6_status =
    v6_valid | v6_valid_special | v6_invalid_character | v6_bad_ending
  | v6_invalid_prefix | v6_invalid_octet_range | v6_invalid_colon_usage

fun ip_address_status_code :: "ip_address_status \<Rightarrow> u8" where
  "ip_address_status_code ip_valid = 255"
| "ip_address_status_code ip_valid_special = 254"
| "ip_address_status_code ip_too_little_octets = 253"
| "ip_address_status_code ip_too_many_octets = 252"
| "ip_address_status_code ip_invalid_octet_range = 251"
| "ip_address_status_code ip_invalid_leading_zero = 250"
| "ip_address_status_code ip_invalid_character = 249"
| "ip_address_status_code ip_bad_ending = 248"
| "ip_address_status_code ip_invalid_prefix = 247"
| "ip_address_status_code ip_invalid_colon_usage = 246"

fun inet_pton4_status_code :: "inet_pton4_status \<Rightarrow> u8" where
  "inet_pton4_status_code v4_valid = ip_address_status_code ip_valid"
| "inet_pton4_status_code v4_valid_special = ip_address_status_code ip_valid_special"
| "inet_pton4_status_code v4_too_little_octets = ip_address_status_code ip_too_little_octets"
| "inet_pton4_status_code v4_too_many_octets = ip_address_status_code ip_too_many_octets"
| "inet_pton4_status_code v4_invalid_octet_range = ip_address_status_code ip_invalid_octet_range"
| "inet_pton4_status_code v4_invalid_leading_zero = ip_address_status_code ip_invalid_leading_zero"
| "inet_pton4_status_code v4_invalid_character = ip_address_status_code ip_invalid_character"
| "inet_pton4_status_code v4_bad_ending = ip_address_status_code ip_bad_ending"
| "inet_pton4_status_code v4_invalid_prefix = ip_address_status_code ip_invalid_prefix"

fun inet_pton6_status_code :: "inet_pton6_status \<Rightarrow> u8" where
  "inet_pton6_status_code v6_valid = ip_address_status_code ip_valid"
| "inet_pton6_status_code v6_valid_special = ip_address_status_code ip_valid_special"
| "inet_pton6_status_code v6_invalid_character = ip_address_status_code ip_invalid_character"
| "inet_pton6_status_code v6_bad_ending = ip_address_status_code ip_bad_ending"
| "inet_pton6_status_code v6_invalid_prefix = ip_address_status_code ip_invalid_prefix"
| "inet_pton6_status_code v6_invalid_octet_range = ip_address_status_code ip_invalid_octet_range"
| "inet_pton6_status_code v6_invalid_colon_usage = ip_address_status_code ip_invalid_colon_usage"

section \<open>Validity of a status\<close>

definition is_valid4 :: "inet_pton4_status \<Rightarrow> bool" where
  "is_valid4 s \<longleftrightarrow> s = v4_valid \<or> s = v4_valid_special"

definition is_valid6 :: "inet_pton6_status \<Rightarrow> bool" where
  "is_valid6 s \<longleftrightarrow> s = v6_valid \<or> s = v6_valid_special"

definition is_valid_ip :: "ip_address_status \<Rightarrow> bool" where
  "is_valid_ip s \<longleftrightarrow> s = ip_valid \<or> s = ip_valid_special"

section \<open>Casts from the byte that stores a status\<close>

definition status_of_code :: "('s \<Rightarrow> u8) \<Rightarrow> 's list \<Rightarrow> u8 \<Rightarrow> 's option" where
  "status_of_code code all b = find (\<lambda>s. code s = b) all"

definition all_status4 :: "inet_pton4_status list" where
  "all_status4 = [v4_valid, v4_valid_special, v4_too_little_octets, v4_too_many_octets,
     v4_invalid_octet_range, v4_invalid_leading_zero, v4_invalid_character, v4_bad_ending,
     v4_invalid_prefix]"

definition all_status6 :: "inet_pton6_status list" where
  "all_status6 = [v6_valid, v6_valid_special, v6_invalid_character, v6_bad_ending,
     v6_invalid_prefix, v6_invalid_octet_range, v6_invalid_colon_usage]"

definition all_status_ip :: "ip_address_status list" where
  "all_status_ip = [ip_valid, ip_valid_special, ip_too_little_octets, ip_too_many_octets,
     ip_invalid_octet_range, ip_invalid_leading_zero, ip_invalid_character, ip_bad_ending,
     ip_invalid_prefix, ip_invalid_colon_usage]"

abbreviation "status4_of_code \<equiv> status_of_code inet_pton4_status_code all_status4"
abbreviation "status6_of_code \<equiv> status_of_code inet_pton6_status_code all_status6"
abbreviation "status_ip_of_code \<equiv> status_of_code ip_address_status_code all_status_ip"

lemma status4_of_code_code [simp]: "status4_of_code (inet_pton4_status_code s) = Some s"
  by (cases s) (simp_all add: status_of_code_def all_status4_def)

lemma status6_of_code_code [simp]: "status6_of_code (inet_pton6_status_code s) = Some s"
  by (cases s) (simp_all add: status_of_code_def all_status6_def)

lemma status_ip_of_code_code [simp]: "status_ip_of_code (ip_address_status_code s) = Some s"
  by (cases s) (simp_all add: status_of_code_def all_status_ip_def)

lemma status4_code_not_prefix: "\<not> inet_pton4_status_code s \<le> ipv6_max_prefix"
  by (cases s) (simp_all add: ipv6_max_prefix_def)

lemma status6_code_not_prefix: "\<not> inet_pton6_status_code s \<le> ipv6_max_prefix"
  by (cases s) (simp_all add: ipv6_max_prefix_def)

lemma ip_status_code_not_prefix: "\<not> ip_address_status_code s \<le> ipv6_max_prefix"
  by (cases s) (simp_all add: ipv6_max_prefix_def)

lemma status4_code_inj: "inet_pton4_status_code s = inet_pton4_status_code t \<longleftrightarrow> s = t"
  by (metis option.inject status4_of_code_code)

lemma status6_code_inj: "inet_pton6_status_code s = inet_pton6_status_code t \<longleftrightarrow> s = t"
  by (metis option.inject status6_of_code_code)

section \<open>Status texts\<close>

fun status4_to_string :: "inet_pton4_status \<Rightarrow> string" where
  "status4_to_string v4_valid = ''Valid IPv4 address''"
| "status4_to_string v4_valid_special =
     ''Valid IPv4 address, also found the specified special character at the end''"
| "status4_to_string v4_too_little_octets =
     ''The IPv4 doesn'' @ [CHR 0x27] @ ''t have enough octets; it should contain exactly 4 octets''"
| "status4_to_string v4_invalid_octet_range =
     ''At least one of the IPv4 octets is of an invalid range''"
| "status4_to_string v4_too_many_octets =
     ''The IPv4 has too many octets; it should contain exactly 4 octets''"
| "status4_to_string v4_invalid_leading_zero =
     ''The IPv4'' @ [CHR 0x27] @ ''s octet started with a zero which is not valid''"
| "status4_to_string v4_invalid_character = ''Invalid character found in the IPv4''"
| "status4_to_string v4_bad_ending = ''IPv4 ended unexpectedly''"
| "status4_to_string v4_invalid_prefix = ''IPv4 has an invalid prefix''"

fun status6_to_string :: "inet_pton6_status \<Rightarrow> string" where
  "status6_to_string v6_valid = ''Valid IPv6 address''"
| "status6_to_string v6_valid_special =
     ''Valid IPv6 address, also found the specified special character at the end''"
| "status6_to_string v6_invalid_octet_range =
     ''At least one of the IPv6 octets is of an invalid range.''"
| "status6_to_string v6_invalid_colon_usage = ''The colon is used in the wrong place in IPv6''"
| "status6_to_string v6_bad_ending = ''The IPv6 ended unexpectedly''"
| "status6_to_string v6_invalid_character = ''Invalid character found in the IPv6''"
| "status6_to_string v6_invalid_prefix = ''IPv6 has an invalid prefix''"

end
