(* ===== verification/Inet_Ntop4.thy ===== *)
theory Inet_Ntop4
  imports Ip_Status
begin

text \<open>
  \<^verbatim>\<open>inet_ntop4\<close> of \<^verbatim>\<open>webpp/ip/inet_ntop.hpp\<close>: an IPv4 address
  is printed as four decimal octets. The C++ writes through an output iterator and returns it; the
  model returns the characters written, so the returned iterator is the start plus their number.
\<close>

section \<open>Printing\<close>

definition digit_char :: "nat \<Rightarrow> char" where
  "digit_char d = char_of (48 + d)"

text \<open>The macro \<^verbatim>\<open>WEBPP_PUT_CHAR\<close>: one octet without leading zeros.\<close>

definition put_octet :: "u8 \<Rightarrow> string" where
  "put_octet src =
     (let n = unat src in
      if n < 10 then [digit_char n]
      else if n < 100 then [digit_char (n div 10), digit_char (n mod 10)]
      else [digit_char (n div 100), digit_char (n mod 100 div 10), digit_char (n mod 10)])"

definition inet_ntop4 :: "u8 list \<Rightarrow> string option" where
  "inet_ntop4 src =
     Option.bind (load src 0) (\<lambda>o0. Option.bind (load src 1) (\<lambda>o1.
     Option.bind (load src 2) (\<lambda>o2. Option.bind (load src 3) (\<lambda>o3.
       Some (put_octet o0 @ CHR ''.'' # put_octet o1 @ CHR ''.'' # put_octet o2
         @ CHR ''.'' # put_octet o3)))))"

section \<open>Digits\<close>

definition is_digit :: "char \<Rightarrow> bool" where
  "is_digit c \<longleftrightarrow> CHR ''0'' \<le> c \<and> c \<le> CHR ''9''"

lemma is_digit_ord: "is_digit c \<longleftrightarrow> 48 \<le> ord c \<and> ord c \<le> 57"
  by (simp add: is_digit_def less_eq_char_def)

lemma ord_digit_char [simp]: "d < 10 \<Longrightarrow> ord (digit_char d) = 48 + d"
  by (simp add: digit_char_def)

lemma is_digit_digit_char [simp, char_class]: "d < 10 \<Longrightarrow> is_digit (digit_char d)"
  by (simp add: is_digit_ord)

lemma digit_char_of_digit: "is_digit c \<Longrightarrow> digit_char (ord c - 48) = c"
  by (simp add: digit_char_def is_digit_ord)

lemma not_digit_chars [simp, char_class]:
  "\<not> is_digit CHR ''.''" "\<not> is_digit CHR '':''" "\<not> is_digit CHR ''/''"
  by (simp_all add: is_digit_ord)

lemma put_octet_not_Nil [simp]: "put_octet v \<noteq> []"
  by (simp add: put_octet_def Let_def)

lemma length_put_octet: "length (put_octet v) \<le> 3"
  by (simp add: put_octet_def Let_def)

lemma length_put_octet_pos: "0 < length (put_octet v)"
  by simp

lemma unat_u8_div_100: "unat (v :: u8) div 100 < 10"
  using unat_u8_less [of v] by (intro less_mult_imp_div_less) linarith

lemma put_octet_digits [char_class]: "c \<in> set (put_octet v) \<Longrightarrow> is_digit c"
  using unat_u8_div_100 [of v] by (auto simp: put_octet_def Let_def split: if_splits)

lemma put_octet_0: "put_octet 0 = [digit_char 0]"
  by (simp add: put_octet_def)

text \<open>Appending a digit to the text of a nonzero octet prints ten times the octet plus the digit.\<close>

lemma put_octet_snoc:
  assumes "0 < unat v" "d < 10" "unat v * 10 + d < 256"
  shows "put_octet (of_nat (unat v * 10 + d)) = put_octet v @ [digit_char d]"
proof -
  let ?n = "unat v * 10 + d"
  have u: "unat (of_nat ?n :: u8) = ?n" using assms(3) by (rule unat_of_nat_u8)
  have dm: "?n div 10 = unat v" "?n mod 10 = d" using assms(2) by simp_all
  show ?thesis
  proof (cases "unat v < 10")
    case True
    then have "\<not> ?n < 10" "?n < 100" using assms(1,2) by simp_all
    then show ?thesis
      unfolding put_octet_def Let_def u dm using True by simp
  next
    case False
    then have "\<not> ?n < 10" "\<not> ?n < 100" "unat v < 100" using assms(3) by simp_all
    moreover have "?n div 100 = unat v div 10" "?n mod 100 div 10 = unat v mod 10"
      using div_mult2_eq [of ?n 10 10] mod_mult2_eq [of ?n 10 10] dm assms(2) by simp_all
    ultimately show ?thesis
      unfolding put_octet_def Let_def u dm using False by simp
  qed
qed

lemma inet_ntop4_four [simp]:
  "inet_ntop4 [a, b, c, d] = Some (put_octet a @ CHR ''.'' # put_octet b @ CHR ''.'' # put_octet c
     @ CHR ''.'' # put_octet d)"
  by (simp add: inet_ntop4_def load_def nth_Cons_numeral_simps)

lemma inet_ntop4_defined [safety]: "4 \<le> length src \<Longrightarrow> inet_ntop4 src \<noteq> None"
  by (auto simp: inet_ntop4_def load_def numeral_eq_Suc Suc_le_length_iff)

end
