(* ===== verification/Casts.thy ===== *)
theory Casts
  imports Inet_Ntop4
begin

text \<open>
  \<^verbatim>\<open>webpp/convert/casts.hpp\<close>: the conversion of a text to an integer. The
  template \<^verbatim>\<open>to\<close> is modelled for the unsigned integer types, whose arithmetic
  wraps around (\<open>to_unsigned\<close>, at any width), and for \<^verbatim>\<open>int\<close>
  (\<open>to_int32\<close>), where an overflow is undefined behaviour, hence \<^const>\<open>None\<close>.
  A character is a signed byte, as on the usual platforms.
\<close>

section \<open>The conversion\<close>

datatype integer_casting_errors = invalid_character | invalid_base

fun casting_error_to_string :: "integer_casting_errors \<Rightarrow> string" where
  "casting_error_to_string invalid_character = ''Invalid character found''"
| "casting_error_to_string invalid_base =
     ''The specified string contains characters that are not in the valid base''"

datatype error_handling_strategy = throw_errors | use_expected | assume_safe

text \<open>The value of an integer in a variable of type \<^verbatim>\<open>char\<close>.\<close>

definition schar :: "int \<Rightarrow> int" where
  "schar n = (n + 128) mod 256 - 128"

definition char_value :: "char \<Rightarrow> int" where
  "char_value c = schar (int (ord c))"

text \<open>The value of one character; the check is skipped when the strategy assumes a safe input.\<close>

definition char_digit ::
  "error_handling_strategy \<Rightarrow> int \<Rightarrow> (int \<Rightarrow> bool) \<Rightarrow> char \<Rightarrow> integer_casting_errors + int" where
  "char_digit strategy base above_base c =
     (let cur_ch = char_value c in
      if base \<le> 10 then
        (if strategy \<noteq> assume_safe \<and> (cur_ch < 48 \<or> cur_ch > 57) then Inl invalid_character
         else Inr (schar (cur_ch - 48)))
      else
        (let cur_ch = (if cur_ch \<ge> 97 then schar (cur_ch - (97 - 10))
                       else if cur_ch \<ge> 65 then schar (cur_ch - (65 - 10))
                       else schar (cur_ch - 48)) in
         if strategy \<noteq> assume_safe \<and> above_base cur_ch then Inl invalid_base else Inr cur_ch))"

fun to_unsigned_loop ::
  "error_handling_strategy \<Rightarrow> int \<Rightarrow> 'w::len word \<Rightarrow> string \<Rightarrow> integer_casting_errors + 'w word" where
  "to_unsigned_loop strategy base ret [] = Inr ret"
| "to_unsigned_loop strategy base ret (c # pos) =
     (case char_digit strategy base (\<lambda>d. (of_int d :: 'w word) > of_int base) c of
        Inl e \<Rightarrow> Inl e
      | Inr cur_ch \<Rightarrow> to_unsigned_loop strategy base (ret * of_int base + of_int cur_ch) pos)"

definition skip_sign :: "string \<Rightarrow> string" where
  "skip_sign str = (case str of c # s \<Rightarrow> if c = CHR ''-'' \<or> c = CHR ''+'' then s else str | [] \<Rightarrow> [])"

definition to_unsigned ::
  "error_handling_strategy \<Rightarrow> int \<Rightarrow> string \<Rightarrow> integer_casting_errors + 'w::len word" where
  "to_unsigned strategy base str =
     (if str = [] then Inr 0
      else map_sum id (\<lambda>ret. ret * (if hd str = CHR ''-'' then -1 else 1))
        (to_unsigned_loop strategy base 0 (skip_sign str)))"

text \<open>The signed 32 bit instance: each step must stay within the range of the type.\<close>

definition int32_range :: "int \<Rightarrow> bool" where
  "int32_range n \<longleftrightarrow> - (2 ^ 31) \<le> n \<and> n < 2 ^ 31"

definition checked32 :: "int \<Rightarrow> int option" where
  "checked32 n = (if int32_range n then Some n else None)"

fun to_int32_loop ::
  "error_handling_strategy \<Rightarrow> int \<Rightarrow> int \<Rightarrow> string \<Rightarrow> (integer_casting_errors + int) option" where
  "to_int32_loop strategy base ret [] = Some (Inr ret)"
| "to_int32_loop strategy base ret (c # pos) =
     (case char_digit strategy base (\<lambda>d. d > base) c of
        Inl e \<Rightarrow> Some (Inl e)
      | Inr cur_ch \<Rightarrow>
          Option.bind (checked32 (ret * base)) (\<lambda>ret. Option.bind (checked32 (ret + cur_ch)) (\<lambda>ret.
            to_int32_loop strategy base ret pos)))"

definition to_int32 :: "error_handling_strategy \<Rightarrow> int \<Rightarrow> string \<Rightarrow> (integer_casting_errors + int) option" where
  "to_int32 strategy base str =
     (if str = [] then Some (Inr 0)
      else Option.bind (to_int32_loop strategy base 0 (skip_sign str)) (\<lambda>r.
        case r of Inl e \<Rightarrow> Some (Inl e)
        | Inr ret \<Rightarrow> map_option Inr (checked32 (ret * (if hd str = CHR ''-'' then -1 else 1)))))"

text \<open>The named functions: the first assumes a safe input, the second checks it.\<close>

definition to_uint :: "string \<Rightarrow> integer_casting_errors + u32" where
  "to_uint = to_unsigned assume_safe 10"

definition try_to_uint :: "string \<Rightarrow> integer_casting_errors + u32" where
  "try_to_uint = to_unsigned use_expected 10"

section \<open>Digits\<close>

lemma schar_id [simp]: "-128 \<le> n \<Longrightarrow> n < 128 \<Longrightarrow> schar n = n"
  by (simp add: schar_def)

lemma schar_high: "128 \<le> n \<Longrightarrow> n < 256 \<Longrightarrow> schar n = n - 256"
proof -
  assume n: "128 \<le> n" "n < 256"
  have "n + 128 = (n - 128) + 256" by simp
  then have "(n + 128) mod 256 = (n - 128) mod 256" by (metis mod_add_self2)
  also have "\<dots> = n - 128" using n by (simp add: mod_pos_pos_trivial)
  finally show ?thesis by (simp add: schar_def)
qed

lemma char_value_ascii: "ord c < 128 \<Longrightarrow> char_value c = int (ord c)"
  by (simp add: char_value_def)

lemma char_value_digit_iff: "48 \<le> char_value c \<and> char_value c \<le> 57 \<longleftrightarrow> is_digit c"
proof (cases "ord c < 128")
  case True
  then show ?thesis by (auto simp: char_value_ascii is_digit_ord)
next
  case False
  have "int (ord c) < 256" using ord_less_256 [of c] by linarith
  with False have "char_value c < 0" by (simp add: char_value_def schar_high)
  with False show ?thesis by (auto simp: is_digit_ord)
qed

definition digit_value :: "char \<Rightarrow> nat" where
  "digit_value c = ord c - 48"

text \<open>The number a text of digits denotes.\<close>

definition digits_value :: "string \<Rightarrow> nat" where
  "digits_value s = foldl (\<lambda>n c. n * 10 + digit_value c) 0 s"

lemma char_digit_digit [simp]:
  "is_digit c \<Longrightarrow> char_digit strategy 10 above_base c = Inr (int (digit_value c))"
  by (auto simp: char_digit_def Let_def char_value_ascii is_digit_ord digit_value_def of_nat_diff)

lemma char_digit_not_digit:
  "\<not> is_digit c \<Longrightarrow> strategy \<noteq> assume_safe \<Longrightarrow> char_digit strategy 10 above_base c = Inl invalid_character"
  using char_value_digit_iff [of c] by (auto simp: char_digit_def Let_def not_less)

lemma to_unsigned_loop_digits:
  "\<forall>c \<in> set s. is_digit c \<Longrightarrow> to_unsigned_loop strategy 10 (of_nat n) s =
     Inr (of_nat (foldl (\<lambda>n c. n * 10 + digit_value c) n s) :: 'w::len word)"
proof (induction s arbitrary: n)
  case Nil
  then show ?case by simp
next
  case (Cons c s)
  have "of_nat n * 10 + of_nat (digit_value c) = (of_nat (n * 10 + digit_value c) :: 'w word)" by simp
  with Cons show ?case by (simp del: of_nat_add of_nat_mult)
qed

lemma to_unsigned_loop_error:
  assumes "\<not> (\<forall>c \<in> set s. is_digit c)" "strategy \<noteq> assume_safe"
  shows "to_unsigned_loop strategy 10 ret s = Inl invalid_character"
  using assms(1)
proof (induction s arbitrary: ret)
  case Nil
  then show ?case by simp
next
  case (Cons c s)
  then show ?case
    using char_digit_not_digit [OF _ assms(2)] by (cases "is_digit c") auto
qed

lemma to_unsigned_digits:
  assumes "s \<noteq> []" "\<forall>c \<in> set s. is_digit c"
  shows "to_unsigned strategy 10 s = Inr (of_nat (digits_value s) :: 'w::len word)"
proof -
  obtain c s' where s: "s = c # s'" using assms(1) by (cases s) auto
  with assms(2) have "is_digit c" by simp
  then have "c \<noteq> CHR ''-''" "c \<noteq> CHR ''+''" by (auto simp: is_digit_ord)
  with s to_unsigned_loop_digits [OF assms(2), of strategy 0, where 'w = 'w] show ?thesis
    by (simp add: to_unsigned_def skip_sign_def digits_value_def del: to_unsigned_loop.simps)
qed

lemma digits_value_bound: "list_all is_digit s \<Longrightarrow> digits_value s < 10 ^ length s"
proof (induction s rule: rev_induct)
  case Nil
  then show ?case by (simp add: digits_value_def)
next
  case (snoc c s)
  then have "digits_value s < 10 ^ length s" "digit_value c < 10"
    by (auto simp: digit_value_def is_digit_ord)
  then show ?case by (simp add: digits_value_def)
qed

lemma unat_of_nat_u32_small: "n < 4294967296 \<Longrightarrow> unat (of_nat n :: u32) = n"
  by (simp add: unat_of_nat take_bit_nat_eq_self)

lemma to_uint_digits:
  assumes "s \<noteq> []" "list_all is_digit s"
  shows "to_uint s = Inr (of_nat (digits_value s))"
  using to_unsigned_digits [OF assms(1)] assms(2) by (simp add: to_uint_def list_all_iff)

section \<open>What the checked conversion accepts\<close>

text \<open>The checked decimal conversion to an unsigned type of any width: the empty text is zero; a
  text of digits after an optional sign is its value modulo two to the width, negated after a
  minus sign; any other text is the error of an invalid character. An overflow is silent, and a
  sign alone is zero.\<close>

theorem to_unsigned_decimal:
  "(to_unsigned use_expected 10 s :: integer_casting_errors + 'w::len word) =
     (if s = [] then Inr 0
      else if list_all is_digit (skip_sign s)
      then Inr (of_nat (digits_value (skip_sign s)) * (if hd s = CHR ''-'' then -1 else 1))
      else Inl invalid_character)"
proof (cases "list_all is_digit (skip_sign s)")
  case True
  then have "\<forall>c \<in> set (skip_sign s). is_digit c" by (simp add: list_all_iff)
  from to_unsigned_loop_digits [OF this, of use_expected 0, where 'w = 'w] True show ?thesis
    by (simp add: to_unsigned_def digits_value_def)
next
  case False
  then have "\<not> (\<forall>c \<in> set (skip_sign s). is_digit c)" by (simp add: list_all_iff)
  from to_unsigned_loop_error [OF this, of use_expected "0 :: 'w word"] False show ?thesis
    by (simp add: to_unsigned_def skip_sign_def)
qed

text \<open>
  In base sixteen the bound is not strict: the letter \<^verbatim>\<open>g\<close> has the value
  sixteen, is not above the base, and is accepted.
\<close>

lemma to_unsigned_hex_accepts_g: "(to_unsigned use_expected 16 ''g'' :: integer_casting_errors + u32) = Inr 16"
  by code_simp

lemma to_unsigned_overflow_is_silent:
  "(to_unsigned use_expected 10 ''4294967296'' :: integer_casting_errors + u32) = Inr 0"
  by code_simp

end
