(* ===== verification/Ascii_Validators.thy ===== *)
theory Ascii_Validators
  imports Casts
begin

text \<open>
  \<^verbatim>\<open>webpp/strings/validators.hpp\<close>, the classes of characters and texts of
  the namespace \<^verbatim>\<open>ascii::is\<close>. Reading the first or the last character of an
  empty text is undefined behaviour, hence the options.
\<close>

section \<open>Character and text classes\<close>

definition is_whitespace :: "char \<Rightarrow> bool" where
  "is_whitespace c \<longleftrightarrow> c = CHR '' '' \<or> c = CHR 0x0A \<or> c = CHR 0x0D \<or> c = CHR 0x09
     \<or> c = CHR 0x0C \<or> c = CHR 0x0B"

definition is_rtrimmed :: "string \<Rightarrow> bool option" where
  "is_rtrimmed str = map_option (\<lambda>c. \<not> is_whitespace c) (load (rev str) 0)"

definition is_ltrimmed :: "string \<Rightarrow> bool option" where
  "is_ltrimmed str = map_option (\<lambda>c. \<not> is_whitespace c) (load str 0)"

definition is_trimmed :: "string \<Rightarrow> bool option" where
  "is_trimmed str =
     Option.bind (is_ltrimmed str) (\<lambda>l. if l then is_rtrimmed str else Some False)"

fun all_digits :: "string \<Rightarrow> bool" where
  "all_digits [] \<longleftrightarrow> True"
| "all_digits (c # s) \<longleftrightarrow> (if \<not> is_digit c then False else all_digits s)"

definition is_digit_str :: "string \<Rightarrow> bool" where
  "is_digit_str str \<longleftrightarrow> all_digits str \<and> str \<noteq> []"

definition is_number_char :: "char \<Rightarrow> bool" where
  "is_number_char c \<longleftrightarrow> is_digit c \<or> c = CHR ''.''"

fun number_loop :: "bool \<Rightarrow> string \<Rightarrow> bool" where
  "number_loop is_first [] \<longleftrightarrow> True"
| "number_loop is_first (c # s) \<longleftrightarrow>
     (if \<not> is_digit c then (if is_first \<and> c = CHR ''.'' then number_loop False s else False)
      else number_loop is_first s)"

definition is_number_str :: "string \<Rightarrow> bool" where
  "is_number_str str \<longleftrightarrow> number_loop True str \<and> str \<noteq> []"

definition is_lowercase :: "char \<Rightarrow> bool" where
  "is_lowercase c \<longleftrightarrow> CHR ''a'' \<le> c \<and> c \<le> CHR ''z''"

fun is_lowercase_str :: "string \<Rightarrow> bool" where
  "is_lowercase_str [] \<longleftrightarrow> True"
| "is_lowercase_str (c # s) \<longleftrightarrow> (if \<not> is_lowercase c then False else is_lowercase_str s)"

definition is_uppercase :: "char \<Rightarrow> bool" where
  "is_uppercase c \<longleftrightarrow> CHR ''A'' \<le> c \<and> c \<le> CHR ''Z''"

fun is_uppercase_str :: "string \<Rightarrow> bool" where
  "is_uppercase_str [] \<longleftrightarrow> True"
| "is_uppercase_str (c # s) \<longleftrightarrow> (if \<not> is_uppercase c then False else is_uppercase_str s)"

definition is_integer_str :: "string \<Rightarrow> bool" where
  "is_integer_str str \<longleftrightarrow> is_digit_str str"

definition is_uint8 :: "string \<Rightarrow> bool" where
  "is_uint8 str \<longleftrightarrow> str \<noteq> [] \<and> length str \<le> 3 \<and> is_digit_str str
     \<and> (case to_uint str of Inr n \<Rightarrow> n \<le> 255 | Inl _ \<Rightarrow> False)"

definition is_hex_char :: "char \<Rightarrow> bool" where
  "is_hex_char c \<longleftrightarrow> CHR ''0'' \<le> c \<and> c \<le> CHR ''9'' \<or> CHR ''a'' \<le> c \<and> c \<le> CHR ''f''
     \<or> CHR ''A'' \<le> c \<and> c \<le> CHR ''F''"

definition is_hex_str :: "string \<Rightarrow> bool" where
  "is_hex_str str \<longleftrightarrow> list_all is_hex_char (skip_sign str) \<and> str \<noteq> []"

section \<open>Facts\<close>

lemma all_digits_iff: "all_digits s \<longleftrightarrow> list_all is_digit s"
  by (induction s) auto

lemma is_digit_str_iff: "is_digit_str s \<longleftrightarrow> s \<noteq> [] \<and> list_all is_digit s"
  by (auto simp: is_digit_str_def all_digits_iff)

lemma number_loop_False: "number_loop False s \<longleftrightarrow> list_all is_digit s"
  by (induction s) auto

lemma number_loop_True:
  "number_loop True s \<longleftrightarrow>
     list_all is_digit s \<or> (\<exists>a b. s = a @ CHR ''.'' # b \<and> list_all is_digit a \<and> list_all is_digit b)"
proof (induction s)
  case Nil
  then show ?case by simp
next
  case (Cons c s)
  have dot: "(\<exists>a b. c # s = a @ CHR ''.'' # b \<and> list_all is_digit a \<and> list_all is_digit b) \<longleftrightarrow>
      c = CHR ''.'' \<and> list_all is_digit s \<or>
      is_digit c \<and> (\<exists>a b. s = a @ CHR ''.'' # b \<and> list_all is_digit a \<and> list_all is_digit b)"
    (is "?L \<longleftrightarrow> ?R")
  proof
    assume ?L
    then obtain a b where "c # s = a @ CHR ''.'' # b" "list_all is_digit a" "list_all is_digit b" by blast
    then show ?R by (cases a) auto
  next
    assume ?R
    then show ?L
    proof (elim disjE conjE exE)
      assume "c = CHR ''.''" "list_all is_digit s"
      then show ?L by (intro exI [of _ "[]"] exI [of _ s]) simp
    next
      fix a b
      assume "is_digit c" "s = a @ CHR ''.'' # b" "list_all is_digit a" "list_all is_digit b"
      then show ?L by (intro exI [of _ "c # a"] exI [of _ b]) simp
    qed
  qed
  show ?case using Cons dot by (auto simp: number_loop_False)
qed

text \<open>A text is a number exactly when it consists of digits with at most one dot, which may stand
  anywhere, even alone, and is not empty; it is an eight bit number exactly when it has one to
  three digits whose value is at most 255, leading zeros allowed.\<close>

theorem is_number_and_uint8:
  "(is_number_str s \<longleftrightarrow> s \<noteq> [] \<and>
     (list_all is_digit s \<or> (\<exists>a b. s = a @ CHR ''.'' # b \<and> list_all is_digit a \<and> list_all is_digit b)))
   \<and> (is_uint8 s \<longleftrightarrow> s \<noteq> [] \<and> length s \<le> 3 \<and> list_all is_digit s \<and> digits_value s \<le> 255)"
proof
  show "is_number_str s \<longleftrightarrow> s \<noteq> [] \<and>
     (list_all is_digit s \<or> (\<exists>a b. s = a @ CHR ''.'' # b \<and> list_all is_digit a \<and> list_all is_digit b))"
    by (auto simp: is_number_str_def number_loop_True)
  have "(of_nat (digits_value s) :: u32) \<le> 255 \<longleftrightarrow> digits_value s \<le> 255"
    if "length s \<le> 3" "list_all is_digit s"
  proof -
    have "digits_value s < 10 ^ 3"
      using digits_value_bound [OF that(2)] power_increasing [OF that(1), of "10 :: nat"] by linarith
    then have "unat (of_nat (digits_value s) :: u32) = digits_value s" by (simp add: unat_of_nat_u32_small)
    then show ?thesis by (simp add: word_le_nat_alt)
  qed
  then show "is_uint8 s \<longleftrightarrow> s \<noteq> [] \<and> length s \<le> 3 \<and> list_all is_digit s \<and> digits_value s \<le> 255"
    by (auto simp: is_uint8_def is_digit_str_iff to_uint_digits)
qed

end
