(* ===== verification/Ascii_Hex.thy ===== *)
theory Ascii_Hex
  imports Webpp_Prelude
begin

text \<open>
  \<^verbatim>\<open>webpp/strings/hex.hpp\<close>: hexadecimal digits. A character is its code, a
  natural number, because the C++ templates are used with several character types.
  The classification functions are total; \<open>hex_digit_safe\<close> returns the default value
  for anything that is not a digit.
\<close>

section \<open>Digit values\<close>

definition hex_digit_safe :: "bool \<Rightarrow> bool \<Rightarrow> int \<Rightarrow> nat \<Rightarrow> int" where
  "hex_digit_safe support_uppercase support_hex default_value c =
     (if 48 \<le> c \<and> c \<le> 57 then int c - 48
      else if support_hex \<and> 97 \<le> c \<and> c \<le> 102 then int c - 97 + 10
      else if support_hex \<and> support_uppercase \<and> 65 \<le> c \<and> c \<le> 70 then int c - 65 + 10
      else default_value)"

definition hex_digit :: "bool \<Rightarrow> int \<Rightarrow> nat \<Rightarrow> int" where
  "hex_digit support_hex not_a_number c = hex_digit_safe True support_hex not_a_number c"

abbreviation hex_value :: "nat \<Rightarrow> int" where
  "hex_value \<equiv> hex_digit_safe True True (-1)"

definition is_lowercase_hex :: "nat \<Rightarrow> bool" where
  "is_lowercase_hex c \<longleftrightarrow> (c \<ge> 48 \<and> c \<le> 57) \<or> (c \<ge> 97 \<and> c \<le> 102)"

definition is_uppercase_hex :: "nat \<Rightarrow> bool" where
  "is_uppercase_hex c \<longleftrightarrow> (c \<ge> 48 \<and> c \<le> 57) \<or> (c \<ge> 65 \<and> c \<le> 70)"

definition is_hex_digit :: "nat \<Rightarrow> bool" where
  "is_hex_digit c \<longleftrightarrow>
     (c \<ge> 48 \<and> c \<le> 57) \<or> (c \<ge> 65 \<and> c \<le> 70) \<or> (c \<ge> 97 \<and> c \<le> 102)"

text \<open>
  The lookup table of \<open>hex_to_binary\<close> covers the codes from \<open>'0'\<close> to
  \<open>'f'\<close>; outside of that range the function assumes a false condition, which is
  undefined behaviour.
\<close>

definition hex_to_binary_table :: "nat list" where
  "hex_to_binary_table =
     [0, 1, 2, 3, 4, 5, 6, 7, 8, 9, 0, 0, 0, 0, 0, 0, 0, 10, 11, 12, 13, 14, 15, 0, 0, 0, 0, 0,
      0, 0, 0, 0, 0, 0, 0, 0, 0, 0, 0, 0, 0, 0, 0, 0, 0, 0, 0, 0, 0, 10, 11, 12, 13, 14, 15]"

definition hex_to_binary :: "nat \<Rightarrow> nat option" where
  "hex_to_binary c =
     (if c \<ge> 48 \<and> c \<le> 102 then load hex_to_binary_table (c - 48) else None)"

definition hex_chars :: "char list" where
  "hex_chars = ''0123456789abcdef''"

section \<open>Facts\<close>

lemma hex_value_nonneg_iff: "0 \<le> hex_value c \<longleftrightarrow> is_hex_digit c"
  by (auto simp: hex_digit_safe_def is_hex_digit_def)

lemma hex_value_less_16: "hex_value c < 16"
  by (auto simp: hex_digit_safe_def)

lemma hex_value_ge: "-1 \<le> hex_value c"
  by (auto simp: hex_digit_safe_def)

lemma is_hex_digit_cases: "is_hex_digit c \<longleftrightarrow> is_lowercase_hex c \<or> is_uppercase_hex c"
  by (auto simp: is_hex_digit_def is_lowercase_hex_def is_uppercase_hex_def)

lemma nibble_cases:
  assumes "n < (16::nat)"
  shows "n = 15 \<or> n = 7 \<or> n = 11 \<or> n = 3 \<or> 
    n = 13 \<or> n = 5 \<or> n = 9 \<or> n = 1 \<or> n = 14 \<or> n = 6 \<or> n = 10 \<or> n = 2 \<or> n = 12 \<or> n = 4 \<or> n = 8 \<or> n = 0"
  using assms by presburger

lemma hex_value_hex_chars [codec]:
  assumes "n < 16"
  shows "hex_value (ord (hex_chars ! n)) = int n"
  using nibble_cases [OF assms]
  by (elim disjE) (simp_all add: hex_chars_def hex_digit_safe_def)

lemma hex_chars_not_separator [char_class]:
  assumes "n < 16"
  shows "hex_chars ! n \<noteq> CHR '':''" and "hex_chars ! n \<noteq> CHR ''.''"
    and "hex_chars ! n \<noteq> CHR ''/''"
  using nibble_cases [OF assms] by (elim disjE; simp add: hex_chars_def)+

end
