(* ===== verification/Inet_Ntop6.thy ===== *)
theory Inet_Ntop6
  imports Ascii_Hex Inet_Ntop4
begin

unbundle bit_operations_syntax

text \<open>
  \<^verbatim>\<open>inet_ntop6\<close> of \<^verbatim>\<open>webpp/ip/inet_ntop.hpp\<close>. The
  sixteen bytes are printed as eight groups of hexadecimal digits; a longest run of zero groups is
  printed as \<^verbatim>\<open>::\<close>, and an IPv4-mapped address in mixed notation. The local
  array \<open>hexa\<close> holds eight rows of five characters, each ended by a NUL; the scan that
  fills it also finds the run. The model returns the characters written; the terminating NUL that
  the C++ writes after them is not part of the returned range.
\<close>

section \<open>Printing\<close>

definition NUL :: char where "NUL = CHR 0x00"

text \<open>One row of the array: the group of two bytes without leading zeros.\<close>

definition hex_row :: "u8 \<Rightarrow> u8 \<Rightarrow> string" where
  "hex_row b0 b1 =
     (let skip = True;
          high = drop_bit 4 b0;
          (row, skip) = (if high \<noteq> 0 then ([hex_chars ! unat high], False) else ([], skip));
          high = b0 AND 0x0F;
          (row, skip) = (if \<not> skip \<or> high \<noteq> 0 then (row @ [hex_chars ! unat high], False)
                         else (row, skip));
          high = drop_bit 4 b1;
          row = (if \<not> skip \<or> high \<noteq> 0 then row @ [hex_chars ! unat high] else row);
          high = b1 AND 0x0F;
          row = row @ [hex_chars ! unat high]
      in row @ replicate (5 - length row) NUL)"

text \<open>The scan: the rows written so far, the current run \<open>j\<close> and the longest one.\<close>

fun ntop6_scan ::
  "u8 list \<Rightarrow> nat list \<Rightarrow> string \<Rightarrow> nat \<Rightarrow> nat \<Rightarrow> int \<Rightarrow> (string \<times> nat \<times> int) option" where
  "ntop6_scan src [] hexa j longest_count longest_index = Some (hexa, longest_count, longest_index)"
| "ntop6_scan src (i # is) hexa j longest_count longest_index =
     Option.bind (load src (i + i)) (\<lambda>b0. Option.bind (load src (i + i + 1)) (\<lambda>b1.
       let hexa = hexa @ hex_row b0 b1 in
       if b0 = 0 \<and> b1 = 0 then
         (if j + 1 \<ge> longest_count
          then ntop6_scan src is hexa (j + 1) (j + 1) (int i - int (j + 1) + 1)
          else ntop6_scan src is hexa (j + 1) longest_count longest_index)
       else ntop6_scan src is hexa 0 longest_count longest_index))"

text \<open>The loop that copies a row up to its NUL.\<close>

definition copy_row :: "string \<Rightarrow> nat \<Rightarrow> string" where
  "copy_row hexa i = takeWhile (\<lambda>c. c \<noteq> NUL) (drop (i * 5) hexa)"

definition row_sep :: "string \<Rightarrow> nat \<Rightarrow> string" where
  "row_sep hexa index = copy_row hexa index @ (if index \<noteq> 7 then '':'' else [])"

definition inet_ntop6 :: "u8 list \<Rightarrow> string option" where
  "inet_ntop6 src =
     Option.bind (ntop6_scan src [0..<8] [] 0 0 (-1)) (\<lambda>(hexa, longest_count, longest_index).
     Option.bind (load src 10) (\<lambda>b10. Option.bind (load src 11) (\<lambda>b11.
       let out = (if longest_index = 0 then '':'' else []) in
       if longest_index = 0 \<and> longest_count = 5 \<and> b10 = 0xFF \<and> b11 = 0xFF
       then map_option (\<lambda>text. out @ '':ffff:'' @ text) (inet_ntop4 (drop 12 src))
       else if longest_index = -1
       then Some (out @ concat (map (\<lambda>i. copy_row hexa i @ '':'') [0..<7]) @ copy_row hexa 7)
       else Some (out @ concat (map (row_sep hexa) [0..<nat longest_index]) @ '':''
                  @ concat (map (row_sep hexa) [nat longest_index + longest_count..<8])))))"

section \<open>Rows\<close>

text \<open>The digits of a group: its four nibbles without leading zeros, and at least one.\<close>

definition group_nibbles :: "u8 \<Rightarrow> u8 \<Rightarrow> nat list" where
  "group_nibbles b0 b1 =
     (let ns = dropWhile (\<lambda>n. n = 0) [unat b0 div 16, unat b0 mod 16, unat b1 div 16]
      in ns @ [unat b1 mod 16])"

definition group_text :: "u8 \<Rightarrow> u8 \<Rightarrow> string" where
  "group_text b0 b1 = map (\<lambda>n. hex_chars ! n) (group_nibbles b0 b1)"

lemma unat_u8_div_16: "unat (b :: u8) div 16 < 16"
  by (intro less_mult_imp_div_less) simp

lemma unat_high_nibble: "unat (drop_bit 4 b :: u8) = unat b div 16"
  unfolding unat_drop_bit_eq by (simp add: drop_bit_eq_div)

lemma unat_low_nibble: "unat (b AND 15 :: u8) = unat b mod 16"
proof -
  have "b AND 15 = take_bit 4 b" by (simp add: take_bit_eq_mask mask_eq_exp_minus_1)
  also have "unat (take_bit 4 b) = take_bit 4 (unat b)" by (simp only: unsigned_take_bit_eq)
  finally show ?thesis by (simp add: take_bit_eq_mod)
qed

lemma u8_eq_0_iff: "(b :: u8) = 0 \<longleftrightarrow> unat b = 0"
  by (simp add: unat_eq_0)

lemma group_nibbles_less: "n \<in> set (group_nibbles b0 b1) \<Longrightarrow> n < 16"
  using unat_u8_div_16 [of b0] unat_u8_div_16 [of b1]
  by (auto simp: group_nibbles_def Let_def split: if_splits)

lemma length_group_nibbles: "0 < length (group_nibbles b0 b1) \<and> length (group_nibbles b0 b1) \<le> 4"
  by (auto simp: group_nibbles_def Let_def)

lemma foldl_group_nibbles:
  "foldl (\<lambda>v n. v * 16 + n) 0 (group_nibbles b0 b1) = unat b0 * 256 + unat b1"
proof -
  have "unat b0 = unat b0 div 16 * 16 + unat b0 mod 16" "unat b1 = unat b1 div 16 * 16 + unat b1 mod 16"
    by simp_all
  then show ?thesis by (auto simp: group_nibbles_def Let_def)
qed

lemma hex_chars_not_NUL: "n < 16 \<Longrightarrow> hex_chars ! n \<noteq> NUL"
  by (drule nibble_cases) (elim disjE; simp add: hex_chars_def NUL_def)

lemma hex_row_group: "hex_row b0 b1 = group_text b0 b1 @ replicate (5 - length (group_text b0 b1)) NUL"
  unfolding hex_row_def group_text_def group_nibbles_def Let_def u8_eq_0_iff unat_high_nibble unat_low_nibble
  by simp

lemma length_hex_row: "length (hex_row b0 b1) = 5"
  using length_group_nibbles [of b0 b1] by (simp add: hex_row_group group_text_def)

lemma takeWhile_hex_row: "takeWhile (\<lambda>c. c \<noteq> NUL) (hex_row b0 b1 @ rest) = group_text b0 b1"
proof -
  obtain k where k: "5 - length (group_text b0 b1) = Suc k"
    using length_group_nibbles [of b0 b1] by (cases "5 - length (group_text b0 b1)") (auto simp: group_text_def)
  have "\<forall>c \<in> set (group_text b0 b1). c \<noteq> NUL"
    using group_nibbles_less hex_chars_not_NUL by (fastforce simp: group_text_def)
  then show ?thesis by (simp add: hex_row_group k takeWhile_append)
qed

section \<open>The scan finds the last longest run of zero groups\<close>

definition zero_group :: "u8 list \<Rightarrow> nat \<Rightarrow> bool" where
  "zero_group src k \<longleftrightarrow> src ! (k + k) = 0 \<and> src ! (k + k + 1) = 0"

definition zero_run :: "u8 list \<Rightarrow> nat \<Rightarrow> nat \<Rightarrow> bool" where
  "zero_run src a n \<longleftrightarrow> (\<forall>k. a \<le> k \<and> k < a + n \<longrightarrow> zero_group src k)"

text \<open>\<open>longest\<close> holds of the run found among the first \<open>i\<close> groups.\<close>

definition longest_run :: "u8 list \<Rightarrow> nat \<Rightarrow> nat \<Rightarrow> int \<Rightarrow> bool" where
  "longest_run src i longest_count longest_index \<longleftrightarrow>
     (if longest_index = -1 then longest_count = 0
      else 0 \<le> longest_index \<and> 0 < longest_count \<and> nat longest_index + longest_count \<le> i
        \<and> zero_run src (nat longest_index) longest_count) \<and>
     (\<forall>a n. 0 < n \<and> a + n \<le> i \<and> zero_run src a n \<longrightarrow>
        n < longest_count \<or> n = longest_count \<and> int a \<le> longest_index)"

definition current_run :: "u8 list \<Rightarrow> nat \<Rightarrow> nat \<Rightarrow> bool" where
  "current_run src i j \<longleftrightarrow> j \<le> i \<and> zero_run src (i - j) j \<and> (j < i \<longrightarrow> \<not> zero_group src (i - j - 1))"

lemma zero_run_in_current:
  assumes "current_run src i j" "0 < n" "a + n = i" "zero_run src a n"
  shows "n \<le> j"
proof (rule ccontr)
  assume "\<not> n \<le> j"
  with assms(1,3) have "j < i" "a \<le> i - j - 1" "i - j - 1 < a + n"
    by (auto simp: current_run_def)
  with assms(1,4) show False by (auto simp: current_run_def zero_run_def)
qed

lemma zero_run_Suc: "zero_run src a (Suc n) \<longleftrightarrow> zero_run src a n \<and> zero_group src (a + n)"
  by (auto simp: zero_run_def less_Suc_eq)

lemma current_run_Suc:
  assumes "current_run src i j" "zero_group src i"
  shows "current_run src (Suc i) (Suc j)"
  using assms by (auto simp: current_run_def zero_run_Suc)

lemma current_run_0: "\<not> zero_group src i \<Longrightarrow> current_run src (Suc i) 0"
  by (auto simp: current_run_def zero_run_def)

lemma longest_run_skip:
  assumes "longest_run src i lc li" "current_run src (Suc i) j" "j < lc \<or> j = 0"
  shows "longest_run src (Suc i) lc li"
proof -
  have "n < lc \<or> n = lc \<and> int a \<le> li" if "0 < n" "a + n \<le> Suc i" "zero_run src a n" for a n
  proof (cases "a + n = Suc i")
    case True
    from zero_run_in_current [OF assms(2) that(1) True that(3)] assms(3) that(1) show ?thesis by auto
  next
    case False
    with that assms(1) show ?thesis by (simp add: longest_run_def)
  qed
  with assms(1) show ?thesis by (auto simp: longest_run_def split: if_splits)
qed

lemma longest_run_new:
  assumes "longest_run src i lc li" "current_run src (Suc i) (Suc j)" "lc \<le> Suc j"
  shows "longest_run src (Suc i) (Suc j) (int i - int j)"
proof -
  from assms(2) have j: "j \<le> i" "zero_run src (i - j) (Suc j)" by (auto simp: current_run_def)
  have "n < Suc j \<or> n = Suc j \<and> int a \<le> int i - int j"
    if "0 < n" "a + n \<le> Suc i" "zero_run src a n" for a n
  proof (cases "a + n = Suc i")
    case True
    from zero_run_in_current [OF assms(2) that(1) True that(3)] True show ?thesis by linarith
  next
    case False
    with that have le: "a + n \<le> i" by simp
    with that assms(1) have "n < lc \<or> n = lc \<and> int a \<le> li" by (simp add: longest_run_def)
    with le assms(3) show ?thesis by linarith
  qed
  moreover have "nat (int i - int j) = i - j" "int i - int j \<noteq> -1" using j(1) by auto
  ultimately show ?thesis using j by (auto simp: longest_run_def)
qed

abbreviation group_row :: "u8 list \<Rightarrow> nat \<Rightarrow> string" where
  "group_row src k \<equiv> hex_row (src ! (k + k)) (src ! (k + k + 1))"

definition all_rows :: "u8 list \<Rightarrow> string" where
  "all_rows src = concat (map (group_row src) [0..<8])"

abbreviation group_at :: "u8 list \<Rightarrow> nat \<Rightarrow> string" where
  "group_at src k \<equiv> group_text (src ! (k + k)) (src ! (k + k + 1))"

lemma ntop6_scan_spec:
  assumes "length src = 16" "i \<le> 8" "current_run src i j" "longest_run src i lc li"
  shows "\<exists>lc' li'. ntop6_scan src [i..<8] hexa j lc li =
      Some (hexa @ concat (map (group_row src) [i..<8]), lc', li') \<and> longest_run src 8 lc' li'"
  using assms(2-)
proof (induction i arbitrary: hexa j lc li rule: inc_induct)
  case base
  then show ?case by simp
next
  case (step i)
  have upt: "[i..<8] = i # [Suc i..<8]" using step.hyps(2) by (simp add: upt_conv_Cons)
  have ld: "load src (i + i) = Some (src ! (i + i))" "load src (Suc (i + i)) = Some (src ! Suc (i + i))"
    using assms(1) step.hyps(2) by simp_all
  show ?case
  proof (cases "zero_group src i")
    case True
    note cur = current_run_Suc [OF step.prems(1) True]
    show ?thesis
    proof (cases "lc \<le> Suc j")
      case lc: True
      from step.IH [OF cur longest_run_new [OF step.prems(2) cur lc], of "hexa @ group_row src i"]
      show ?thesis using True lc by (simp add: upt ld zero_group_def Let_def)
    next
      case lc: False
      then have "longest_run src (Suc i) lc li" using longest_run_skip [OF step.prems(2) cur] by simp
      from step.IH [OF cur this, of "hexa @ group_row src i"]
      show ?thesis using True lc by (simp add: upt ld zero_group_def Let_def)
    qed
  next
    case False
    note cur = current_run_0 [OF False]
    from step.IH [OF cur longest_run_skip [OF step.prems(2) cur], of "hexa @ group_row src i"]
    show ?thesis using False by (auto simp: upt ld zero_group_def Let_def)
  qed
qed

lemma ntop6_scan_start:
  assumes "length src = 16"
  obtains lc li where "ntop6_scan src [0..<8] [] 0 0 (-1) =
      Some (all_rows src, lc, li)" "longest_run src 8 lc li"
proof -
  have "current_run src 0 0" "longest_run src 0 0 (-1)"
    by (auto simp: current_run_def zero_run_def longest_run_def)
  from ntop6_scan_spec [OF assms _ this, of "[]"] that show thesis
    unfolding all_rows_def [symmetric] by auto
qed

lemma drop_rows: "i \<le> length rows \<Longrightarrow> \<forall>r \<in> set rows. length r = 5 \<Longrightarrow>
    drop (i * 5) (concat rows) = concat (drop i rows)"
proof (induction rows arbitrary: i)
  case Nil
  then show ?case by simp
next
  case (Cons r rows)
  then show ?case by (cases i) (auto simp: add.commute)
qed

lemma drop_map_upt: "i < n \<Longrightarrow> drop i (map f [0..<n]) = f i # map f [Suc i..<n]"
  by (simp only: drop_map drop_upt add_0_left) (simp only: upt_conv_Cons list.map)

lemma copy_row_at:
  assumes "i < 8"
  shows "copy_row (all_rows src) i = group_at src i"
proof -
  have "drop (i * 5) (all_rows src) = concat (drop i (map (group_row src) [0..<8]))"
    unfolding all_rows_def using assms by (intro drop_rows) (auto simp: length_hex_row simp del: upt_rec_numeral)
  also have "\<dots> = group_row src i @ concat (map (group_row src) [Suc i..<8])"
    by (simp only: drop_map_upt [OF assms] concat.simps)
  finally show ?thesis by (simp add: copy_row_def takeWhile_hex_row)
qed

section \<open>What is printed\<close>

text \<open>The groups from \<open>a\<close> up to \<open>b\<close>, separated by colons.\<close>

definition groups_sep :: "u8 list \<Rightarrow> nat \<Rightarrow> nat \<Rightarrow> string" where
  "groups_sep src a b = concat (map (\<lambda>k. group_at src k @ '':'') [a..<b])"

definition groups_end :: "u8 list \<Rightarrow> nat \<Rightarrow> string" where
  "groups_end src a = (if a < 8 then groups_sep src a 7 @ group_at src 7 else [])"

lemma groups_sep_Cons: "a < b \<Longrightarrow> groups_sep src a b = group_at src a @ CHR '':'' # groups_sep src (Suc a) b"
  by (simp add: groups_sep_def upt_conv_Cons)

lemma groups_end_Cons: "a < 7 \<Longrightarrow> groups_end src a = group_at src a @ CHR '':'' # groups_end src (Suc a)"
  by (simp add: groups_end_def groups_sep_Cons)

lemma row_sep_groups:
  assumes "b \<le> 7"
  shows "concat (map (row_sep (all_rows src)) [a..<b]) = groups_sep src a b"
proof -
  have "map (row_sep (all_rows src)) [a..<b] = map (\<lambda>k. group_at src k @ '':'') [a..<b]"
    using assms copy_row_at by (auto simp: row_sep_def)
  then show ?thesis by (simp only: groups_sep_def)
qed

lemma row_sep_groups_end:
  assumes "a \<le> 8"
  shows "concat (map (row_sep (all_rows src)) [a..<8]) = groups_end src a"
proof (cases "a = 8")
  case True
  then show ?thesis by (simp add: groups_end_def)
next
  case False
  with assms have "[a..<8] = [a..<7] @ [7]" using upt_Suc_append [of a 7] by simp
  then show ?thesis
    using row_sep_groups [of 7 src a] copy_row_at [of 7 src] False assms
    by (simp add: groups_end_def row_sep_def del: upt_rec_numeral)
qed

lemma inet_ntop6_groups:
  assumes "length src = 16"
  shows "\<exists>lc li. longest_run src 8 lc li \<and> inet_ntop6 src =
    (if li = 0 \<and> lc = 5 \<and> src ! 10 = 0xFF \<and> src ! 11 = 0xFF
     then map_option (\<lambda>text. ''::ffff:'' @ text) (inet_ntop4 (drop 12 src))
     else if li = -1 then Some (groups_end src 0)
     else Some ((if li = 0 then '':'' else groups_sep src 0 (nat li)) @ '':'' @ groups_end src (nat li + lc)))"
proof -
  from ntop6_scan_start [OF assms] obtain lc li where
    scan: "ntop6_scan src [0..<8] [] 0 0 (-1) = Some (all_rows src, lc, li)" and run: "longest_run src 8 lc li" .
  have ld: "load src 10 = Some (src ! 10)" "load src 11 = Some (src ! 11)" using assms by simp_all
  have rows7: "concat (map (\<lambda>i. copy_row (all_rows src) i @ '':'') [0..<7]) @ copy_row (all_rows src) 7
    = groups_end src 0"
  proof -
    have "map (\<lambda>i. copy_row (all_rows src) i @ '':'') [0..<7] = map (\<lambda>k. group_at src k @ '':'') [0..<7]"
      by (rule map_cong) (auto simp: copy_row_at simp del: upt_rec_numeral)
    moreover have "copy_row (all_rows src) 7 = group_at src 7" by (rule copy_row_at) simp
    ultimately show ?thesis by (simp only: groups_end_def groups_sep_def) simp
  qed
  have "nat li + lc \<le> 8" "nat li \<le> 7" if "li \<noteq> -1"
    using run that by (auto simp: longest_run_def)
  then have "inet_ntop6 src =
    (if li = 0 \<and> lc = 5 \<and> src ! 10 = 0xFF \<and> src ! 11 = 0xFF
     then map_option (\<lambda>text. ''::ffff:'' @ text) (inet_ntop4 (drop 12 src))
     else if li = -1 then Some (groups_end src 0)
     else Some ((if li = 0 then '':'' else groups_sep src 0 (nat li)) @ '':'' @ groups_end src (nat li + lc)))"
    unfolding inet_ntop6_def scan ld Option.bind.simps prod.case Let_def
    using rows7 row_sep_groups [of "nat li" src 0] row_sep_groups_end [of "nat li + lc" src]
    by (simp add: groups_sep_def del: upt_rec_numeral)
  with run show ?thesis by blast
qed

end
