(* ===== verification/Inet_Pton4.thy ===== *)
theory Inet_Pton4
  imports Inet_Ntop4
begin

text \<open>
  \<^verbatim>\<open>inet_pton4\<close> and \<^verbatim>\<open>parse_prefix\<close> of
  \<^verbatim>\<open>webpp/ip/inet_pton.hpp\<close>. The input iterator is the list of the characters
  not yet read; a parser returns it where the C++ leaves it. The output pointer is an index into
  an array \<open>buf\<close>: a result of \<^const>\<open>None\<close> is an access outside of the array.
  The caller chooses the base index because the IPv6 parser lets this one write into the middle
  of its own array.
\<close>

section \<open>The prefix length after an address\<close>

definition parse_prefix :: "string \<Rightarrow> int \<times> string" where
  "parse_prefix src =
     (case src of
        [] \<Rightarrow> (-1, src)
      | c0 # s1 \<Rightarrow>
          if \<not> is_digit c0 then (-1, src)
          else let prefix = int (ord c0) - 48 in
            (case s1 of
               [] \<Rightarrow> (prefix, s1)
             | c1 # s2 \<Rightarrow>
                 if \<not> is_digit c1 then (-1, s1)
                 else if prefix = 0 then (-1, s1)
                 else let prefix = prefix * 10 + (int (ord c1) - 48) in
                   (case s2 of
                      [] \<Rightarrow> (prefix, s2)
                    | c2 # s3 \<Rightarrow>
                        if \<not> is_digit c2 then (-1, s2)
                        else let prefix = prefix * 10 + (int (ord c2) - 48) in
                          if s3 \<noteq> [] then (-1, s3) else (prefix, s3))))"

section \<open>The address parser\<close>

type_synonym pton4_result = "inet_pton4_status \<times> u8 list \<times> string"

fun inet_pton4_loop ::
  "char \<Rightarrow> u8 list \<Rightarrow> nat \<Rightarrow> bool \<Rightarrow> nat \<Rightarrow> string \<Rightarrow> pton4_result option" where
  "inet_pton4_loop special buf out saw_digit octets [] =
     Some (if octets \<noteq> 4 then v4_too_little_octets else v4_valid, buf, [])"
| "inet_pton4_loop special buf out saw_digit octets (cur_char # src) =
     (if is_digit cur_char then
        (case load buf out of
           None \<Rightarrow> None
         | Some cur \<Rightarrow>
             let new_i = unat cur * 10 + (ord cur_char - 48) in
             if saw_digit \<and> cur = 0 then Some (v4_invalid_leading_zero, buf, src)
             else if new_i > 255 then Some (v4_invalid_octet_range, buf, src)
             else let buf = buf[out := of_nat new_i] in
               if \<not> saw_digit then
                 if octets + 1 > 4 then Some (v4_too_many_octets, buf, src)
                 else inet_pton4_loop special buf out True (octets + 1) src
               else inet_pton4_loop special buf out saw_digit octets src)
      else if cur_char = CHR ''.'' \<and> saw_digit then
        if octets = 4 then Some (v4_bad_ending, buf, src)
        else (case store buf (out + 1) 0 of
                None \<Rightarrow> None
              | Some buf \<Rightarrow> inet_pton4_loop special buf (out + 1) False octets src)
      else if octets = 4 \<and> cur_char = special
        then Some (v4_valid_special, buf, cur_char # src)
      else Some (v4_invalid_character, buf, cur_char # src))"

definition inet_pton4_at :: "char \<Rightarrow> u8 list \<Rightarrow> nat \<Rightarrow> string \<Rightarrow> pton4_result option" where
  "inet_pton4_at special buf out src =
     (case store buf out 0 of
        None \<Rightarrow> None
      | Some buf \<Rightarrow> inet_pton4_loop special buf out False 0 src)"

definition inet_pton4 :: "char \<Rightarrow> u8 list \<Rightarrow> string \<Rightarrow> pton4_result option" where
  "inet_pton4 special buf src = inet_pton4_at special buf 0 src"

text \<open>The overload that also parses a prefix length; the prefix variable is threaded through.\<close>

definition inet_pton4_prefix ::
  "char \<Rightarrow> u8 list \<Rightarrow> u8 \<Rightarrow> string \<Rightarrow> (inet_pton4_status \<times> u8 list \<times> u8 \<times> string) option"
where
  "inet_pton4_prefix prefix_character buf prefix src =
     (case inet_pton4 prefix_character buf src of
        None \<Rightarrow> None
      | Some (res, buf, src) \<Rightarrow>
          if res = v4_valid_special \<and> src \<noteq> [] \<and> hd src = prefix_character then
            (let (prefix_tmp, src) = parse_prefix (tl src) in
             if prefix_tmp = -1 \<or> prefix_tmp > 32 then Some (v4_invalid_prefix, buf, prefix, src)
             else Some (res, buf, of_int prefix_tmp, src))
          else Some (res, buf, prefix, src))"

section \<open>Memory safety\<close>

text \<open>
  The invariant of the loop: the current octet is cell \<open>octets - 1\<close> relative to the base once
  a digit was seen, and cell \<open>octets\<close> (of a smaller count) before that.
\<close>

definition pton4_inv :: "u8 list \<Rightarrow> nat \<Rightarrow> nat \<Rightarrow> bool \<Rightarrow> nat \<Rightarrow> bool" where
  "pton4_inv buf base out saw_digit octets \<longleftrightarrow>
     base + 4 \<le> length buf \<and>
     (if saw_digit then 1 \<le> octets \<and> octets \<le> 4 \<and> out = base + octets - 1
      else octets < 4 \<and> out = base + octets \<and> buf ! out = 0)"

lemma pton4_inv_start: "base + 4 \<le> length buf \<Longrightarrow> pton4_inv (buf[base := 0]) base base False 0"
  by (simp add: pton4_inv_def)

lemma inet_pton4_loop_ok:
  assumes "pton4_inv buf base out saw_digit octets"
  shows "\<exists>st buf' rest. inet_pton4_loop special buf out saw_digit octets src = Some (st, buf', rest)
    \<and> length buf' = length buf \<and> take base buf' = take base buf
    \<and> drop (base + 4) buf' = drop (base + 4) buf
    \<and> st \<noteq> v4_too_many_octets \<and> st \<noteq> v4_invalid_prefix
    \<and> (st = v4_valid_special \<longrightarrow> rest \<noteq> [] \<and> hd rest = special)
    \<and> (st = v4_valid \<longrightarrow> rest = [])"
  using assms
proof (induction src arbitrary: buf out saw_digit octets)
  case Nil
  then show ?case by auto
next
  case (Cons c src)
  from Cons.prems have out: "out < length buf" "base \<le> out" "out < base + 4"
    by (auto simp: pton4_inv_def split: if_splits)
  show ?case
  proof (cases "is_digit c")
    case True
    let ?n = "unat (buf ! out) * 10 + (ord c - 48)"
    let ?buf = "buf[out := of_nat ?n]"
    show ?thesis
    proof (cases "saw_digit \<and> buf ! out = 0 \<or> 255 < ?n")
      case True
      with \<open>is_digit c\<close> out show ?thesis by (auto simp: Let_def)
    next
      case False
      have "pton4_inv ?buf base out True (if saw_digit then octets else octets + 1)"
        using Cons.prems by (auto simp: pton4_inv_def split: if_splits)
      from Cons.IH [OF this] have "\<exists>st buf' rest. inet_pton4_loop special ?buf out True
          (if saw_digit then octets else octets + 1) src = Some (st, buf', rest)
        \<and> length buf' = length ?buf \<and> take base buf' = take base ?buf
        \<and> drop (base + 4) buf' = drop (base + 4) ?buf
        \<and> st \<noteq> v4_too_many_octets \<and> st \<noteq> v4_invalid_prefix
        \<and> (st = v4_valid_special \<longrightarrow> rest \<noteq> [] \<and> hd rest = special)
        \<and> (st = v4_valid \<longrightarrow> rest = [])" .
      moreover have "\<not> octets + 1 > 4" if "\<not> saw_digit"
        using Cons.prems that by (simp add: pton4_inv_def)
      ultimately show ?thesis
        using False out \<open>is_digit c\<close> by (cases saw_digit) (auto simp: Let_def)
    qed
  next
    case False
    show ?thesis
    proof (cases "c = CHR ''.'' \<and> saw_digit \<and> octets \<noteq> 4")
      case True
      then have "pton4_inv (buf[out + 1 := 0]) base (out + 1) False octets"
        and "out + 1 < length buf" "out + 1 < base + 4"
        using Cons.prems by (auto simp: pton4_inv_def)
      with Cons.IH [OF this(1)] True out show ?thesis by auto
    next
      case no: False
      with False show ?thesis by auto
    qed
  qed
qed

section \<open>Dotted text is parsed to its octets\<close>

fun join_octets :: "u8 list \<Rightarrow> string" where
  "join_octets [] = []"
| "join_octets [v] = put_octet v"
| "join_octets (v # vs) = put_octet v @ CHR ''.'' # join_octets vs"

lemma join_octets_Cons: "vs \<noteq> [] \<Longrightarrow> join_octets (v # vs) = put_octet v @ CHR ''.'' # join_octets vs"
  by (cases vs) auto

lemma inet_ntop4_join: "length src = 4 \<Longrightarrow> inet_ntop4 src = Some (join_octets src)"
  by (auto simp: numeral_eq_Suc length_Suc_conv inet_ntop4_def load_def)

text \<open>The array after the cells from \<open>i\<close> on were overwritten with \<open>vs\<close>.\<close>

definition overwrite :: "'a list \<Rightarrow> nat \<Rightarrow> 'a list \<Rightarrow> 'a list" where
  "overwrite buf i vs = take i buf @ vs @ drop (i + length vs) buf"

lemma length_overwrite [simp]: "i + length vs \<le> length buf \<Longrightarrow> length (overwrite buf i vs) = length buf"
  by (simp add: overwrite_def)

lemma overwrite_one: "i < length buf \<Longrightarrow> buf[i := v] = overwrite buf i [v]"
  by (simp add: overwrite_def list_update_split)

lemma overwrite_update_Cons:
  "i + 1 + length vs \<le> length buf \<Longrightarrow>
   overwrite (buf[i := v, Suc i := w]) (Suc i) vs = overwrite buf i (v # vs)" if "vs \<noteq> []"
  using that
  by (cases vs) (auto simp: overwrite_def list_update_split take_Suc_conv_app_nth nth_append
      min_def drop_Cons' add.commute simp flip: Cons_nth_drop_Suc)

lemma loop_first_digit:
  assumes "d < 10" "out < length buf" "buf ! out = 0" "octets < 4"
  shows "inet_pton4_loop special buf out False octets (digit_char d # src) =
     inet_pton4_loop special (buf[out := of_nat d]) out True (octets + 1) src"
  using assms by (simp add: Let_def)

lemma loop_next_digit:
  assumes "d < 10" "out < length buf" "buf ! out = of_nat a" "0 < a" "a * 10 + d < 256"
  shows "inet_pton4_loop special buf out True octets (digit_char d # src) =
     inet_pton4_loop special (buf[out := of_nat (a * 10 + d)]) out True octets src"
proof -
  have "unat (of_nat a :: u8) = a" using assms by (intro unat_of_nat_u8) simp
  moreover from this have "(of_nat a :: u8) \<noteq> 0" using assms(4) by auto
  ultimately show ?thesis using assms by (simp add: Let_def)
qed

lemma loop_octet:
  assumes "out < length buf" "buf ! out = 0" "octets < 4"
  shows "inet_pton4_loop special buf out False octets (put_octet v @ src) =
     inet_pton4_loop special (buf[out := v]) out True (octets + 1) src"
proof -
  let ?n = "unat v"
  have n: "?n < 256" by simp
  have v: "of_nat ?n = v" by simp
  consider "?n < 10" | "10 \<le> ?n" "?n < 100" | "100 \<le> ?n" by linarith
  then show ?thesis
  proof cases
    case 1
    then show ?thesis
      using assms by (simp add: put_octet_def Let_def loop_first_digit del: inet_pton4_loop.simps)
  next
    case 2
    have q: "?n div 10 < 10" "?n mod 10 < 10" "0 < ?n div 10" "?n div 10 * 10 + ?n mod 10 = ?n"
      using 2 by auto
    have po: "put_octet v = [digit_char (?n div 10), digit_char (?n mod 10)]"
      using 2 by (simp add: put_octet_def Let_def)
    have "inet_pton4_loop special buf out False octets (put_octet v @ src) =
      inet_pton4_loop special (buf[out := of_nat (?n div 10)]) out True (octets + 1)
        (digit_char (?n mod 10) # src)"
      using po q assms by (simp add: loop_first_digit del: inet_pton4_loop.simps)
    also have "\<dots> = inet_pton4_loop special (buf[out := v]) out True (octets + 1) src"
      using q n assms loop_next_digit [of "?n mod 10" out "buf[out := of_nat (?n div 10)]" "?n div 10"]
      by (simp del: inet_pton4_loop.simps)
    finally show ?thesis .
  next
    case 3
    let ?h = "?n div 100" and ?t = "?n mod 100 div 10" and ?u = "?n mod 10"
    have q: "?h < 10" "?t < 10" "?u < 10" "0 < ?h" "?h * 10 + ?t = ?n div 10" "0 < ?n div 10"
      "?n div 10 * 10 + ?u = ?n"
      using 3 unat_u8_div_100 [of v] mod_mult2_eq [of ?n 10 10] div_mult2_eq [of ?n 10 10]
        div_le_mono [of 100 ?n 10]
      by (auto simp: div_greater_zero_iff)
    have po: "put_octet v = [digit_char ?h, digit_char ?t, digit_char ?u]"
      using 3 by (simp add: put_octet_def Let_def)
    from q have q': "?h * 10 + ?t < 256" using n by linarith
    have "inet_pton4_loop special buf out False octets (put_octet v @ src) =
      inet_pton4_loop special (buf[out := of_nat ?h]) out True (octets + 1)
        (digit_char ?t # digit_char ?u # src)"
      using po q assms by (simp add: loop_first_digit del: inet_pton4_loop.simps)
    also have "\<dots> = inet_pton4_loop special (buf[out := of_nat (?n div 10)]) out True (octets + 1)
        (digit_char ?u # src)"
      using q q' assms loop_next_digit [of ?t out "buf[out := of_nat ?h]" ?h]
      by (simp del: inet_pton4_loop.simps)
    also have "\<dots> = inet_pton4_loop special (buf[out := v]) out True (octets + 1) src"
      using q n assms loop_next_digit [of ?u out "buf[out := of_nat (?n div 10)]" "?n div 10"]
      by (simp del: inet_pton4_loop.simps)
    finally show ?thesis .
  qed
qed

lemma loop_join_octets:
  assumes "vs \<noteq> []" "out + length vs \<le> length buf" "buf ! out = 0" "octets + length vs \<le> 4"
  shows "inet_pton4_loop special buf out False octets (join_octets vs @ src) =
     inet_pton4_loop special (overwrite buf out vs) (out + length vs - 1) True (octets + length vs) src"
  using assms
proof (induction vs arbitrary: buf out octets)
  case Nil
  then show ?case by simp
next
  case (Cons v vs)
  show ?case
  proof (cases "vs = []")
    case True
    with Cons.prems show ?thesis
      by (simp add: loop_octet overwrite_one del: inet_pton4_loop.simps)
  next
    case False
    with Cons.prems have len: "0 < length vs" "out + 1 + length vs \<le> length buf" "octets + 1 + length vs \<le> 4"
      by simp_all
    have "inet_pton4_loop special buf out False octets (join_octets (v # vs) @ src) =
      inet_pton4_loop special (buf[out := v]) out True (octets + 1) (CHR ''.'' # join_octets vs @ src)"
      using False Cons.prems
      by (simp add: join_octets_Cons loop_octet del: inet_pton4_loop.simps join_octets.simps)
    also have "\<dots> = inet_pton4_loop special (buf[out := v, Suc out := 0]) (Suc out) False (octets + 1)
        (join_octets vs @ src)"
    proof -
      have "octets + 1 \<noteq> 4" "Suc out < length buf" using len by linarith+
      then show ?thesis by simp
    qed
    also have "\<dots> = inet_pton4_loop special (overwrite (buf[out := v, Suc out := 0]) (Suc out) vs)
        (Suc out + length vs - 1) True (octets + 1 + length vs) src"
    proof (intro Cons.IH)
      have "Suc out < length (buf[out := v])" using len unfolding length_list_update by linarith
      then show "buf[out := v, Suc out := 0] ! Suc out = 0" by (rule nth_list_update_eq)
    qed (use False len in simp_all)
    finally show ?thesis
      using False len by (simp add: overwrite_update_Cons del: inet_pton4_loop.simps)
  qed
qed

lemma inet_pton4_at_join:
  assumes "length vs = 4" "base + 4 \<le> length buf"
  shows "inet_pton4_at special buf base (join_octets vs @ src) =
     inet_pton4_loop special (overwrite buf base vs) (base + 3) True 4 src"
proof -
  have "vs \<noteq> []" using assms(1) by auto
  moreover have "overwrite (buf[base := 0]) base vs = overwrite buf base vs"
    using assms by (simp add: overwrite_def)
  ultimately show ?thesis
    using assms loop_join_octets [of vs base "buf[base := 0]" 0 special src]
    by (simp add: inet_pton4_at_def add.commute del: inet_pton4_loop.simps)
qed

section \<open>Only dotted text is accepted\<close>

lemma overwrite_at_cell: "i < length buf \<Longrightarrow> overwrite buf i vs ! i = (case vs of [] \<Rightarrow> buf ! i | v # _ \<Rightarrow> v)"
  by (cases vs) (auto simp: overwrite_def nth_append)

lemma overwrite_overwrite_Cons:
  "i < length buf \<Longrightarrow> overwrite (buf[i := w]) i (v # vs) = overwrite buf i (v # vs)"
  by (simp add: overwrite_def)

lemma overwrite_next_zero:
  assumes "Suc i < length buf"
  shows "overwrite (buf[Suc i := w]) (Suc i) (v # vs) = overwrite buf i (buf ! i # v # vs)"
  using assms by (simp add: overwrite_def take_Suc_conv_app_nth)

lemma put_octet_of_digit: "d < 10 \<Longrightarrow> put_octet (of_nat d) = [digit_char d]"
  by (simp add: put_octet_def Let_def unat_of_nat_u8)

text \<open>
  What a successful run has consumed: the rest of the current octet (if one is open) and the
  octets that are still missing, each printed without leading zeros.
\<close>

definition consumed :: "bool \<Rightarrow> u8 \<Rightarrow> string \<Rightarrow> u8 list \<Rightarrow> string \<Rightarrow> bool" where
  "consumed saw_digit cur src vs rest \<longleftrightarrow>
     (if saw_digit then put_octet cur @ src = join_octets vs @ rest
      else src = join_octets vs @ rest)"

lemma inet_pton4_loop_sound:
  assumes "pton4_inv buf base out saw_digit octets"
    and "inet_pton4_loop special buf out saw_digit octets src = Some (st, buf', rest)"
    and "is_valid4 st"
  shows "\<exists>vs. length vs = (if saw_digit then 5 - octets else 4 - octets)
    \<and> consumed saw_digit (buf ! out) src vs rest \<and> buf' = overwrite buf out vs"
  using assms
proof (induction src arbitrary: buf out saw_digit octets)
  case Nil
  then have "saw_digit" "octets = 4" "st = v4_valid" "buf' = buf" "rest = []" "out < length buf"
    by (auto simp: pton4_inv_def is_valid4_def split: if_splits)
  then have "length [buf ! out] = 5 - octets" "consumed True (buf ! out) [] [buf ! out] rest"
    "buf' = overwrite buf out [buf ! out]"
    by (simp_all add: consumed_def flip: overwrite_one)
  with \<open>saw_digit\<close> show ?case by metis
next
  case (Cons c src)
  from Cons.prems(1) have out: "out < length buf" by (auto simp: pton4_inv_def split: if_splits)
  show ?case
  proof (cases "is_digit c")
    case True
    let ?d = "ord c - 48" and ?cur = "buf ! out"
    let ?n = "unat ?cur * 10 + ?d"
    let ?buf = "buf[out := of_nat ?n]"
    have d: "?d < 10" "digit_char ?d = c" using True digit_char_of_digit [OF True] by (auto simp: is_digit_ord)
    from Cons.prems(2,3) True out have ok: "\<not> (saw_digit \<and> ?cur = 0)" "?n < 256"
      by (auto simp: Let_def is_valid4_def split: if_splits)
    let ?oct = "if saw_digit then octets else octets + 1"
    have inv: "pton4_inv ?buf base out True ?oct"
      using Cons.prems(1) by (auto simp: pton4_inv_def split: if_splits)
    have "\<not> octets + 1 > 4" if "\<not> saw_digit" using Cons.prems(1) that by (simp add: pton4_inv_def)
    with Cons.prems(2) True out ok have "inet_pton4_loop special ?buf out True ?oct src = Some (st, buf', rest)"
      by (cases saw_digit) (auto simp: Let_def split: if_splits)
    from Cons.IH [OF inv this Cons.prems(3)] obtain vs where
      vs: "length vs = 5 - ?oct" "consumed True (?buf ! out) src vs rest" "buf' = overwrite ?buf out vs"
      by auto
    from inv have "?oct \<le> 4" by (simp add: pton4_inv_def)
    with vs(1) obtain v vs' where Cons_vs: "vs = v # vs'" by (cases vs) auto
    have "consumed saw_digit ?cur (c # src) vs rest"
    proof (cases saw_digit)
      case True
      with ok have "0 < unat ?cur" by (simp add: unat_gt_0)
      from put_octet_snoc [OF this d(1) ok(2)] vs(2) True d(2) out show ?thesis
        by (simp add: consumed_def)
    next
      case False
      with Cons.prems(1) have "?cur = 0" by (metis pton4_inv_def)
      with vs(2) False d out show ?thesis by (simp add: consumed_def put_octet_of_digit)
    qed
    moreover have "buf' = overwrite buf out vs"
      using vs(3) out by (simp add: Cons_vs overwrite_overwrite_Cons)
    ultimately show ?thesis using vs(1) by (auto split: if_splits)
  next
    case False
    show ?thesis
    proof (cases "c = CHR ''.'' \<and> saw_digit \<and> octets \<noteq> 4")
      case True
      then have inv: "pton4_inv (buf[out + 1 := 0]) base (out + 1) False octets"
        and out1: "out + 1 < length buf" and oct: "octets < 4"
        using Cons.prems(1) by (auto simp: pton4_inv_def)
      from Cons.prems(2) True False out1
      have "inet_pton4_loop special (buf[out + 1 := 0]) (out + 1) False octets src = Some (st, buf', rest)"
        by simp
      from Cons.IH [OF inv this Cons.prems(3)] obtain vs where
        vs: "length vs = 4 - octets" "src = join_octets vs @ rest"
          "buf' = overwrite (buf[out + 1 := 0]) (out + 1) vs"
        by (auto simp: consumed_def)
      from vs(1) oct obtain v vs' where Cons_vs: "vs = v # vs'" by (cases vs) auto
      have "length (buf ! out # vs) = 5 - octets" using vs(1) oct by simp
      moreover have "consumed True (buf ! out) (c # src) (buf ! out # vs) rest"
        using vs(2) True by (simp add: consumed_def join_octets_Cons Cons_vs)
      moreover have "buf' = overwrite buf out (buf ! out # vs)"
        using vs(3) out1 by (simp add: Cons_vs overwrite_next_zero)
      ultimately show ?thesis using True by (auto intro: exI [of _ "buf ! out # vs"])
    next
      case no: False
      with False Cons.prems(2,3) have "octets = 4" "c = special" "st = v4_valid_special" "buf' = buf"
        "rest = c # src"
        by (auto simp: is_valid4_def split: if_splits)
      moreover from \<open>octets = 4\<close> Cons.prems(1) have "saw_digit"
        by (cases saw_digit) (simp_all add: pton4_inv_def)
      moreover have "buf = overwrite buf out [buf ! out]" using out by (simp flip: overwrite_one)
      ultimately have "length [buf ! out] = 5 - octets"
        "consumed True (buf ! out) (c # src) [buf ! out] rest" "buf' = overwrite buf out [buf ! out]"
        by (simp_all add: consumed_def)
      with \<open>saw_digit\<close> show ?thesis by metis
    qed
  qed
qed

section \<open>The contract of the address parser\<close>

lemma inet_pton4_at_ok:
  assumes "base + 4 \<le> length buf"
  shows "\<exists>st buf' rest. inet_pton4_at special buf base src = Some (st, buf', rest)
    \<and> length buf' = length buf \<and> take base buf' = take base buf
    \<and> drop (base + 4) buf' = drop (base + 4) buf
    \<and> st \<noteq> v4_too_many_octets \<and> st \<noteq> v4_invalid_prefix
    \<and> (st = v4_valid_special \<longrightarrow> rest \<noteq> [] \<and> hd rest = special)
    \<and> (st = v4_valid \<longrightarrow> rest = [])"
proof -
  have "base + 4 \<le> length (buf[base := 0])" and lt: "base < length buf" using assms by simp_all
  from inet_pton4_loop_ok [OF pton4_inv_start [OF assms], of special src] lt
  show ?thesis by (simp add: inet_pton4_at_def)
qed

lemma inet_pton4_at_sound:
  assumes "base + 4 \<le> length buf"
    and "inet_pton4_at special buf base src = Some (st, buf', rest)" and "is_valid4 st"
  shows "\<exists>vs. length vs = 4 \<and> src = join_octets vs @ rest \<and> buf' = overwrite buf base vs"
proof -
  have lt: "base < length buf" using assms(1) by simp
  with assms(2) have "inet_pton4_loop special (buf[base := 0]) base False 0 src = Some (st, buf', rest)"
    by (simp add: inet_pton4_at_def)
  from inet_pton4_loop_sound [OF pton4_inv_start [OF assms(1)] this assms(3)]
  obtain vs where vs: "length vs = 4" "src = join_octets vs @ rest"
    "buf' = overwrite (buf[base := 0]) base vs"
    by (auto simp: consumed_def)
  moreover from vs(1) have "overwrite (buf[base := 0]) base vs = overwrite buf base vs"
    by (simp add: overwrite_def)
  ultimately show ?thesis by metis
qed

lemma inet_pton4_at_complete:
  assumes "base + 4 \<le> length buf" "length vs = 4"
  shows "inet_pton4_at special buf base (join_octets vs) = Some (v4_valid, overwrite buf base vs, [])"
    and "\<not> is_digit c \<Longrightarrow> c \<noteq> CHR ''.'' \<Longrightarrow>
      inet_pton4_at special buf base (join_octets vs @ c # src) =
        Some (if c = special then v4_valid_special else v4_invalid_character,
              overwrite buf base vs, c # src)"
  using inet_pton4_at_join [OF assms(2,1), of special "[]"]
    inet_pton4_at_join [OF assms(2,1), of special "c # src"]
  by simp_all

lemma overwrite_all: "length buf = length vs \<Longrightarrow> overwrite buf 0 vs = vs"
  by (simp add: overwrite_def)

text \<open>C1: The IPv4 parser accepts a whole text, whatever the special character, exactly when the text
  is the dotted decimal print of the four octets it stores; it then consumes the whole text. No
  leading zeros, missing octets, octets above 255 or trailing characters are accepted.\<close>

theorem inet_pton4_accepts_iff:
  assumes "length buf = 4"
  shows "inet_pton4 special buf src = Some (v4_valid, vs, rest) \<longleftrightarrow>
    length vs = 4 \<and> rest = [] \<and> inet_ntop4 vs = Some src"
proof
  assume r: "inet_pton4 special buf src = Some (v4_valid, vs, rest)"
  then have r0: "inet_pton4_at special buf 0 src = Some (v4_valid, vs, rest)" by (simp add: inet_pton4_def)
  from assms have b: "0 + 4 \<le> length buf" by simp
  from inet_pton4_at_sound [OF b r0] obtain ws where
    ws: "length ws = 4" "src = join_octets ws @ rest" "vs = overwrite buf 0 ws"
    by (auto simp: is_valid4_def)
  moreover from inet_pton4_at_ok [OF b, of special src] r0 have "rest = []" by auto
  ultimately show "length vs = 4 \<and> rest = [] \<and> inet_ntop4 vs = Some src"
    using assms by (simp add: overwrite_all inet_ntop4_join)
next
  assume "length vs = 4 \<and> rest = [] \<and> inet_ntop4 vs = Some src"
  then have "length vs = 4" "rest = []" "src = join_octets vs" by (auto simp: inet_ntop4_join)
  with assms show "inet_pton4 special buf src = Some (v4_valid, vs, rest)"
    using inet_pton4_at_complete(1) [of 0 buf vs special]
    by (simp add: inet_pton4_def overwrite_all)
qed

lemma inet_pton4_accepts_iff_witness:
  "inet_pton4 (CHR ''/'') [9, 9, 9, 9] ''192.168.0.1'' = Some (v4_valid, [192, 168, 0, 1], [])"
proof -
  have "inet_ntop4 [192, 168, 0, 1] = Some ''192.168.0.1''" by code_simp
  then show ?thesis
    using inet_pton4_accepts_iff [of "[9, 9, 9, 9]" "CHR ''/''" "''192.168.0.1''" "[192, 168, 0, 1]" "[]"]
    by simp
qed

text \<open>Memory safety of the IPv4 parser: on an array with four cells from the base index on, for
  every input text, it never accesses a cell outside of those four, leaves all other cells
  unchanged, and it never reports too many octets nor an invalid prefix: a fifth octet is always
  reported as a bad ending.\<close>

theorem inet_pton4_at_memory_safe:
  assumes "base + 4 \<le> length buf"
  shows "\<exists>st buf' rest. inet_pton4_at special buf base src = Some (st, buf', rest)
    \<and> length buf' = length buf \<and> take base buf' = take base buf
    \<and> drop (base + 4) buf' = drop (base + 4) buf
    \<and> st \<noteq> v4_too_many_octets \<and> st \<noteq> v4_invalid_prefix"
  using inet_pton4_at_ok [OF assms, of special src] by blast

lemma inet_pton4_at_memory_safe_witness:
  "\<exists>st buf' rest. inet_pton4_at (CHR '']'') [7, 0, 0, 0, 0, 8] 1 ''1.2.3.4.5'' = Some (st, buf', rest)
    \<and> length buf' = length [7, 0, 0, 0, 0, 8 :: u8] \<and> take 1 buf' = take 1 [7, 0, 0, 0, 0, 8]
    \<and> drop (1 + 4) buf' = drop (1 + 4) [7, 0, 0, 0, 0, 8]
    \<and> st \<noteq> v4_too_many_octets \<and> st \<noteq> v4_invalid_prefix"
  by (rule inet_pton4_at_memory_safe) simp

section \<open>Prefix lengths\<close>

lemma parse_prefix_put_octet: "parse_prefix (put_octet v) = (int (unat v), [])"
proof -
  let ?n = "unat v"
  consider "?n < 10" | "10 \<le> ?n" "?n < 100" | "100 \<le> ?n" by linarith
  then show ?thesis
  proof cases
    case 1
    then show ?thesis by (simp add: parse_prefix_def put_octet_def Let_def)
  next
    case 2
    then have "?n div 10 < 10" "?n mod 10 < 10" "0 < ?n div 10" "int (?n div 10) * 10 + int (?n mod 10) = int ?n"
      by (auto simp: zdiv_int zmod_int)
    then show ?thesis using 2 by (simp add: parse_prefix_def put_octet_def Let_def)
  next
    case 3
    have h: "?n div 100 < 10" "?n mod 100 div 10 < 10" "?n mod 10 < 10" "0 < ?n div 100"
      using 3 unat_u8_div_100 [of v] mod_mult2_eq [of ?n 10 10] by (auto simp: div_greater_zero_iff)
    have "(?n div 100 * 10 + ?n mod 100 div 10) * 10 + ?n mod 10 = ?n"
      using mod_mult2_eq [of ?n 10 10] div_mult2_eq [of ?n 10 10] by simp
    then have "(int (?n div 100) * 10 + int (?n mod 100 div 10)) * 10 + int (?n mod 10) = int ?n"
      by (metis of_nat_add of_nat_mult of_nat_numeral)
    then show ?thesis using 3 h by (simp add: parse_prefix_def put_octet_def Let_def)
  qed
qed

lemma parse_prefix_Nil: "parse_prefix [] = (-1, [])"
  and parse_prefix_1: "parse_prefix [c0] = (if is_digit c0 then (int (ord c0) - 48, []) else (-1, [c0]))"
  by (simp_all add: parse_prefix_def)

lemma parse_prefix_2:
  "parse_prefix [c0, c1] =
     (if \<not> is_digit c0 then (-1, [c0, c1]) else if \<not> is_digit c1 \<or> ord c0 = 48 then (-1, [c1])
      else ((int (ord c0) - 48) * 10 + (int (ord c1) - 48), []))"
  by (simp add: parse_prefix_def Let_def)

lemma parse_prefix_3:
  "parse_prefix (c0 # c1 # c2 # s3) =
     (if \<not> is_digit c0 then (-1, c0 # c1 # c2 # s3)
      else if \<not> is_digit c1 \<or> ord c0 = 48 then (-1, c1 # c2 # s3)
      else if \<not> is_digit c2 then (-1, c2 # s3) else if s3 \<noteq> [] then (-1, s3)
      else (((int (ord c0) - 48) * 10 + (int (ord c1) - 48)) * 10 + (int (ord c2) - 48), []))"
  by (simp add: parse_prefix_def Let_def)

lemma parse_prefix_shapes:
  assumes "parse_prefix src = (p, rest)" "p \<noteq> -1"
  shows "rest = [] \<and> (
     (\<exists>c0. src = [c0] \<and> is_digit c0 \<and> p = int (ord c0 - 48)) \<or>
     (\<exists>c0 c1. src = [c0, c1] \<and> is_digit c0 \<and> is_digit c1 \<and> 0 < ord c0 - 48
        \<and> p = int ((ord c0 - 48) * 10 + (ord c1 - 48))) \<or>
     (\<exists>c0 c1 c2. src = [c0, c1, c2] \<and> is_digit c0 \<and> is_digit c1 \<and> is_digit c2 \<and> 0 < ord c0 - 48
        \<and> p = int (((ord c0 - 48) * 10 + (ord c1 - 48)) * 10 + (ord c2 - 48))))"
proof -
  consider "src = []" | c0 where "src = [c0]" | c0 c1 where "src = [c0, c1]"
    | c0 c1 c2 s3 where "src = c0 # c1 # c2 # s3"
    by (metis list.exhaust)
  then show ?thesis
    using assms
    by cases (auto simp: parse_prefix_Nil parse_prefix_1 parse_prefix_2 parse_prefix_3 is_digit_ord
      of_nat_diff split: if_splits)
qed

lemma parse_prefix_sound:
  assumes "parse_prefix src = (p, rest)" "p \<noteq> -1" "p < 256"
  shows "0 \<le> p \<and> rest = [] \<and> src = put_octet (of_int p)"
proof -
  have d: "\<And>c. is_digit c \<Longrightarrow> ord c - 48 < 10 \<and> digit_char (ord c - 48) = c"
    by (auto simp: is_digit_ord digit_char_of_digit)
  have snoc: "put_octet (of_nat (a * 10 + d)) = put_octet (of_nat a) @ [digit_char d]"
    if "0 < a" "d < 10" "a * 10 + d < 256" for a d :: nat
  proof -
    have "unat (of_nat a :: u8) = a" using that by (intro unat_of_nat_u8) simp
    with put_octet_snoc [of "of_nat a" d] that show ?thesis by simp
  qed
  have two: "put_octet (of_nat ((ord c0 - 48) * 10 + (ord c1 - 48))) = [c0, c1]"
    if "is_digit c0" "is_digit c1" "0 < ord c0 - 48" for c0 c1
  proof -
    from d [OF that(1)] d [OF that(2)] have lt: "(ord c0 - 48) * 10 + (ord c1 - 48) < 256" by linarith
    have "put_octet (of_nat (ord c0 - 48)) = [c0]"
      using d [OF that(1)] put_octet_of_digit [of "ord c0 - 48"] by (simp only:)
    with snoc [OF that(3) conjunct1 [OF d [OF that(2)]] lt] d [OF that(2)] show ?thesis
      by (simp only: append_Cons append_Nil)
  qed
  from parse_prefix_shapes [OF assms(1,2)] show ?thesis
  proof (elim conjE disjE exE)
    fix c0 assume "src = [c0]" "is_digit c0" "p = int (ord c0 - 48)" "rest = []"
    with d [of c0] show ?thesis by (simp only: of_int_of_nat_eq put_octet_of_digit) simp
  next
    fix c0 c1
    assume *: "src = [c0, c1]" "is_digit c0" "is_digit c1" "0 < ord c0 - 48" "rest = []"
      "p = int ((ord c0 - 48) * 10 + (ord c1 - 48))"
    have "put_octet (of_nat ((ord c0 - 48) * 10 + (ord c1 - 48)) :: u8) = [c0, c1]"
      using two [OF *(2,3,4)] .
    with * show ?thesis by (simp only: of_int_of_nat_eq of_nat_0_le_iff simp_thms)
  next
    fix c0 c1 c2
    assume *: "src = [c0, c1, c2]" "is_digit c0" "is_digit c1" "is_digit c2" "0 < ord c0 - 48" "rest = []"
      "p = int (((ord c0 - 48) * 10 + (ord c1 - 48)) * 10 + (ord c2 - 48))"
    let ?a = "ord c0 - 48" and ?b = "ord c1 - 48" and ?e = "ord c2 - 48"
    have "int ((?a * 10 + ?b) * 10 + ?e) < int 256" using assms(3) by (simp only: *(7) of_nat_numeral)
    then have lt: "(?a * 10 + ?b) * 10 + ?e < 256" by (simp only: of_nat_less_iff)
    have "0 < ?a * 10 + ?b" using *(5) by simp
    from snoc [OF this conjunct1 [OF d [OF *(4)]] lt] two [OF *(2,3,5)] d [OF *(4)]
    have "put_octet (of_nat ((?a * 10 + ?b) * 10 + ?e)) = [c0, c1, c2]"
      by (simp only: append_Cons append_Nil)
    with * show ?thesis by (simp only: of_int_of_nat_eq of_nat_0_le_iff simp_thms)
  qed
qed

section \<open>Addresses with a prefix length\<close>

lemma put_octet_le_32: "0 \<le> p \<Longrightarrow> p \<le> 32 \<Longrightarrow> unat (of_int p :: u8) = nat p"
  using unat_of_nat_u8 [of "nat p"] by simp

lemma inet_pton4_prefix_accepts:
  assumes "length buf = 4" "\<not> is_digit pc" "pc \<noteq> CHR ''.''"
  shows "inet_pton4_prefix pc buf p0 src = Some (v4_valid_special, vs, p, rest) \<longleftrightarrow>
    length vs = 4 \<and> rest = [] \<and> p \<le> 32 \<and>
    (\<exists>text. inet_ntop4 vs = Some text \<and> src = text @ pc # put_octet p)"
proof -
  have b: "0 + 4 \<le> length buf" using assms(1) by simp
  show ?thesis
  proof
    assume r: "inet_pton4_prefix pc buf p0 src = Some (v4_valid_special, vs, p, rest)"
    from inet_pton4_at_ok [OF b, of pc src] obtain st buf' rest' where
      r0: "inet_pton4_at pc buf 0 src = Some (st, buf', rest')"
      and hd: "st = v4_valid_special \<longrightarrow> rest' \<noteq> [] \<and> hd rest' = pc" by auto
    obtain q rest'' where pp: "parse_prefix (tl rest') = (q, rest'')" by (cases "parse_prefix (tl rest')")
    from r r0 hd pp have st: "st = v4_valid_special" and q: "q \<noteq> -1" "q \<le> 32"
      and *: "vs = buf'" "p = of_int q" "rest = rest''"
      by (auto simp: inet_pton4_prefix_def inet_pton4_def split: if_splits)
    from inet_pton4_at_sound [OF b r0] st obtain ws where
      ws: "length ws = 4" "src = join_octets ws @ rest'" "buf' = overwrite buf 0 ws"
      by (auto simp: is_valid4_def)
    from parse_prefix_sound [OF pp q(1)] q have ps: "0 \<le> q" "rest'' = []" "tl rest' = put_octet (of_int q)"
      by simp_all
    from put_octet_le_32 [OF ps(1) q(2)] have "p \<le> 32"
      using ps(1) q(2) by (simp add: *(2) word_le_nat_alt)
    moreover have "src = join_octets ws @ pc # put_octet p"
      using ws(2) hd st ps(3) *(2) by (cases rest') auto
    ultimately show "length vs = 4 \<and> rest = [] \<and> p \<le> 32 \<and>
      (\<exists>text. inet_ntop4 vs = Some text \<and> src = text @ pc # put_octet p)"
      using * ps(2) ws assms(1) by (simp add: overwrite_all inet_ntop4_join)
  next
    assume "length vs = 4 \<and> rest = [] \<and> p \<le> 32 \<and>
      (\<exists>text. inet_ntop4 vs = Some text \<and> src = text @ pc # put_octet p)"
    then have vs: "length vs = 4" "rest = []" "p \<le> 32" "src = join_octets vs @ pc # put_octet p"
      by (auto simp: inet_ntop4_join)
    from inet_pton4_at_complete(2) [OF b vs(1) assms(2,3), of pc "put_octet p"] vs
    have "inet_pton4 pc buf src = Some (v4_valid_special, vs, pc # put_octet p)"
      using assms(1) by (simp add: inet_pton4_def overwrite_all)
    moreover have "uint p \<le> 32" using vs(3) by (simp add: word_le_def)
    moreover have "uint p \<noteq> -1" using uint_ge_0 [of p] by linarith
    ultimately show "inet_pton4_prefix pc buf p0 src = Some (v4_valid_special, vs, p, rest)"
      by (simp add: inet_pton4_prefix_def parse_prefix_put_octet vs(2))
  qed
qed

text \<open>C30: With a prefix character that cannot be part of an address, the IPv4 parser accepts an
  address with a prefix length exactly when the text is the print of the four octets, the prefix
  character, and the decimal print of a number of at most 32 without leading zeros; that number
  and those octets are what it stores, and nothing of the text is left.\<close>

theorem inet_pton4_prefix_accepts_iff:
  assumes "length buf = 4" "\<not> is_digit pc" "pc \<noteq> CHR ''.''"
  shows "inet_pton4_prefix pc buf p0 src = Some (v4_valid_special, vs, p, rest) \<longleftrightarrow>
    length vs = 4 \<and> rest = [] \<and> p \<le> 32 \<and>
    (\<exists>text. inet_ntop4 vs = Some text \<and> src = text @ pc # put_octet p)"
  by (rule inet_pton4_prefix_accepts [OF assms])

lemma inet_pton4_prefix_accepts_iff_witness:
  "inet_pton4_prefix (CHR ''/'') [0, 0, 0, 0] 255 ''10.0.0.0/8'' =
     Some (v4_valid_special, [10, 0, 0, 0], 8, [])"
proof -
  have "inet_ntop4 [10, 0, 0, 0] = Some ''10.0.0.0''" "put_octet 8 = ''8''" by code_simp+
  then show ?thesis
    by (subst inet_pton4_prefix_accepts_iff) (simp_all add: is_digit_ord)
qed

end
