(* ===== verification/Inet_Pton6.thy ===== *)
theory Inet_Pton6
  imports Inet_Ntop6 Inet_Pton4
begin

text \<open>
  \<^verbatim>\<open>inet_pton6\<close> of \<^verbatim>\<open>webpp/ip/inet_pton.hpp\<close>. The loop
  keeps the output index, the position of the \<^verbatim>\<open>::\<close>, the start of the current
  token (for an IPv4 tail, which is parsed again by \<open>inet_pton4\<close>), the number and the
  value of the hexadecimal digits seen, and the last character read, which is uninitialised before
  the first one. A result of \<^const>\<open>None\<close> is an access outside of the sixteen bytes, or
  a use of that uninitialised character.
\<close>

section \<open>The parser\<close>

record pton6_state =
  p6_buf :: "u8 list"
  p6_out :: nat
  p6_colon :: "nat option"
  p6_token :: string
  p6_hex_seen :: nat
  p6_val :: u32
  p6_cur :: "char option"

datatype pton6_exit =
    Pton6_Return inet_pton6_status "u8 list" string
  | Pton6_Break pton6_state string

text \<open>The two bytes of the value seen are appended.\<close>

definition pton6_put16 :: "pton6_state \<Rightarrow> pton6_state option" where
  "pton6_put16 st =
     Option.bind (store (p6_buf st) (p6_out st) (ucast (drop_bit 8 (p6_val st) AND 0xFF))) (\<lambda>buf.
     Option.bind (store buf (p6_out st + 1) (ucast (p6_val st AND 0xFF))) (\<lambda>buf.
       Some (st\<lparr>p6_buf := buf, p6_out := p6_out st + 2\<rparr>)))"

text \<open>What the status of an IPv4 tail becomes.\<close>

fun pton6_of_pton4 :: "inet_pton4_status \<Rightarrow> inet_pton6_status" where
  "pton6_of_pton4 v4_valid_special = v6_valid"
| "pton6_of_pton4 v4_valid = v6_valid"
| "pton6_of_pton4 v4_bad_ending = v6_bad_ending"
| "pton6_of_pton4 v4_too_little_octets = v6_bad_ending"
| "pton6_of_pton4 v4_invalid_leading_zero = v6_bad_ending"
| "pton6_of_pton4 v4_too_many_octets = v6_bad_ending"
| "pton6_of_pton4 v4_invalid_octet_range = v6_invalid_octet_range"
| "pton6_of_pton4 v4_invalid_character = v6_invalid_character"
| "pton6_of_pton4 v4_invalid_prefix = v6_invalid_prefix"

definition pton6_ipv4_tail :: "pton6_state \<Rightarrow> pton6_exit option" where
  "pton6_ipv4_tail st =
     Option.bind (inet_pton4_at (CHR ''/'') (p6_buf st) (p6_out st) (p6_token st)) (\<lambda>(s4, buf, src).
       if s4 = v4_valid_special
       then (case src of
               [] \<Rightarrow> None
             | c # _ \<Rightarrow> Some (Pton6_Break (st\<lparr>p6_buf := buf, p6_cur := Some c,
                 p6_out := p6_out st + ipv4_byte_count, p6_hex_seen := 0\<rparr>) src))
       else if s4 = v4_valid
       then Some (Pton6_Break (st\<lparr>p6_buf := buf, p6_out := p6_out st + ipv4_byte_count,
                p6_hex_seen := 0\<rparr>) src)
       else Some (Pton6_Return (pton6_of_pton4 s4) buf src))"

fun inet_pton6_loop :: "char \<Rightarrow> pton6_state \<Rightarrow> string \<Rightarrow> pton6_exit option" where
  "inet_pton6_loop special st [] = Some (Pton6_Break st [])"
| "inet_pton6_loop special st (c # src) =
     (let st = st\<lparr>p6_cur := Some c\<rparr>; digit = hex_value (ord c) in
      if digit \<ge> 0 then
        (if p6_hex_seen st = 4 then Some (Pton6_Return v6_invalid_octet_range (p6_buf st) src)
         else let val = push_bit 4 (p6_val st) OR of_int digit in
           if val > 0xFFFF then Some (Pton6_Return v6_invalid_octet_range (p6_buf st) src)
           else inet_pton6_loop special (st\<lparr>p6_val := val, p6_hex_seen := p6_hex_seen st + 1\<rparr>) src)
      else if c = CHR '':'' then
        (let st = st\<lparr>p6_token := src\<rparr> in
         if p6_hex_seen st = 0 then
           (if p6_colon st \<noteq> None then Some (Pton6_Return v6_invalid_colon_usage (p6_buf st) src)
            else inet_pton6_loop special (st\<lparr>p6_colon := Some (p6_out st)\<rparr>) src)
         else if src = [] then Some (Pton6_Return v6_bad_ending (p6_buf st) src)
         else if p6_out st + uint16_byte_count > ipv6_byte_count
         then Some (Pton6_Return v6_invalid_octet_range (p6_buf st) src)
         else (case pton6_put16 st of
                 None \<Rightarrow> None
               | Some st \<Rightarrow> inet_pton6_loop special (st\<lparr>p6_hex_seen := 0, p6_val := 0\<rparr>) src))
      else if c = CHR ''.'' \<and> p6_out st + ipv4_byte_count \<le> ipv6_byte_count
              \<and> (p6_out st \<noteq> 0 \<or> p6_colon st \<noteq> None)
      then pton6_ipv4_tail st
      else if c = special then Some (Pton6_Break st (c # src))
      else Some (Pton6_Return v6_invalid_character (p6_buf st) (c # src)))"

text \<open>Replacing the \<^verbatim>\<open>::\<close>: the bytes after it are moved to the end of the array.\<close>

fun pton6_shift :: "u8 list \<Rightarrow> nat \<Rightarrow> nat \<Rightarrow> nat \<Rightarrow> (u8 list \<times> nat) option" where
  "pton6_shift buf right_ptr colon out =
     (if out = colon then Some (buf, right_ptr)
      else case out of
        0 \<Rightarrow> None
      | Suc out' \<Rightarrow>
          (case right_ptr of
             0 \<Rightarrow> None
           | Suc right' \<Rightarrow>
               (case load buf out' of
                  None \<Rightarrow> None
                | Some b \<Rightarrow>
                    (case store buf right' b of
                       None \<Rightarrow> None
                     | Some buf \<Rightarrow> pton6_shift buf right' colon out'))))"

function pton6_fill :: "u8 list \<Rightarrow> nat \<Rightarrow> nat \<Rightarrow> u8 list option" where
  "pton6_fill buf colon right_ptr =
     (if colon = right_ptr then Some buf
      else if colon < length buf then pton6_fill (buf[colon := 0]) (colon + 1) right_ptr
      else None)"
  by pat_completeness auto
termination by (relation "measure (\<lambda>(buf, colon, _). length buf - colon)") auto

declare pton6_shift.simps [simp del] pton6_fill.simps [simp del]

type_synonym pton6_result = "inet_pton6_status \<times> u8 list \<times> string"

definition pton6_close :: "char \<Rightarrow> pton6_state \<Rightarrow> string \<Rightarrow> pton6_result option" where
  "pton6_close special st src =
     (if p6_colon st \<noteq> None \<and> p6_out st = ipv6_byte_count
      then Some (v6_bad_ending, p6_buf st, src)
      else Option.bind
        (case p6_colon st of
           None \<Rightarrow> Some (p6_buf st, p6_out st)
         | Some colon \<Rightarrow>
             Option.bind (pton6_shift (p6_buf st) ipv6_byte_count colon (p6_out st)) (\<lambda>(buf, right_ptr).
             Option.bind (pton6_fill buf colon right_ptr) (\<lambda>buf. Some (buf, ipv6_byte_count))))
        (\<lambda>(buf, out).
           if out \<noteq> ipv6_byte_count then Some (v6_bad_ending, buf, src)
           else (case p6_cur st of
                   None \<Rightarrow> None
                 | Some c \<Rightarrow> Some (if c = special then v6_valid_special else v6_valid, buf, src))))"

definition inet_pton6_finish :: "char \<Rightarrow> pton6_state \<Rightarrow> string \<Rightarrow> pton6_result option" where
  "inet_pton6_finish special st src =
     (if p6_hex_seen st > 0 \<and> p6_out st + uint16_byte_count > ipv6_byte_count
      then Some (v6_invalid_octet_range, p6_buf st, src)
      else Option.bind (if p6_hex_seen st > 0 then pton6_put16 st else Some st)
             (\<lambda>st. pton6_close special st src))"

definition pton6_init :: "u8 list \<Rightarrow> string \<Rightarrow> pton6_state" where
  "pton6_init buf src = \<lparr>p6_buf = buf, p6_out = 0, p6_colon = None, p6_token = src,
     p6_hex_seen = 0, p6_val = 0, p6_cur = None\<rparr>"

definition inet_pton6 :: "char \<Rightarrow> u8 list \<Rightarrow> string \<Rightarrow> pton6_result option" where
  "inet_pton6 special buf src =
     (case src of
        [] \<Rightarrow> Some (v6_bad_ending, buf, src)
      | c # src' \<Rightarrow>
          if c = CHR '':'' \<and> (src' = [] \<or> hd src' \<noteq> CHR '':'')
          then Some (v6_invalid_colon_usage, buf, src')
          else let src = (if c = CHR '':'' then src' else src) in
            Option.bind (inet_pton6_loop special (pton6_init buf src) src) (\<lambda>e.
              case e of
                Pton6_Return status buf src \<Rightarrow> Some (status, buf, src)
              | Pton6_Break st src \<Rightarrow> inet_pton6_finish special st src))"

text \<open>The overload with a prefix length calls the parser with its default special character.\<close>

definition inet_pton6_prefix ::
  "char \<Rightarrow> u8 list \<Rightarrow> u8 \<Rightarrow> string \<Rightarrow> (inet_pton6_status \<times> u8 list \<times> u8 \<times> string) option"
where
  "inet_pton6_prefix prefix_character buf prefix src =
     Option.bind (inet_pton6 (CHR ''/'') buf src) (\<lambda>(res, buf, src).
       if res = v6_valid_special then
         (case src of
            [] \<Rightarrow> None
          | c # src' \<Rightarrow>
              if c = prefix_character then
                (let (prefix_tmp, src) = parse_prefix src' in
                 if prefix_tmp = -1 \<or> prefix_tmp > 128 then Some (v6_invalid_prefix, buf, prefix, src)
                 else Some (res, buf, of_int prefix_tmp, src))
              else Some (res, buf, prefix, src))
       else Some (res, buf, prefix, src))"

section \<open>The zero fill\<close>

lemma pton6_shift_ok:
  assumes "colon \<le> out" "out \<le> right" "right \<le> length buf"
  shows "pton6_shift buf right colon out =
    Some (take (right - (out - colon)) buf @ drop colon (take out buf) @ drop right buf, right - (out - colon))"
  using assms
proof (induction out arbitrary: buf right)
  case 0
  then show ?case by (simp add: pton6_shift.simps)
next
  case (Suc out)
  show ?case
  proof (cases "Suc out = colon")
    case True
    then show ?thesis by (simp add: pton6_shift.simps)
  next
    case False
    with Suc.prems obtain r where r: "right = Suc r" "colon \<le> out" "out \<le> r" "r < length buf"
      by (cases right) auto
    let ?buf = "buf[r := buf ! out]"
    have "pton6_shift buf right colon (Suc out) = pton6_shift ?buf r colon out"
      using r False by (simp add: pton6_shift.simps [of _ _ _ "Suc _"])
    also have "\<dots> = Some (take (r - (out - colon)) ?buf @ drop colon (take out ?buf) @ drop r ?buf, r - (out - colon))"
      using Suc.IH [of r ?buf] r by simp
    also have "take (r - (out - colon)) ?buf = take (r - (out - colon)) buf" using r by simp
    also have "take out ?buf = take out buf" using r by simp
    also have "drop r ?buf = buf ! out # drop (Suc r) buf"
      using r by (simp add: drop_list_update_Suc flip: Cons_nth_drop_Suc)
    also have "drop colon (take out buf) @ buf ! out # drop (Suc r) buf =
      drop colon (take (Suc out) buf) @ drop (Suc r) buf"
      using r by (simp add: take_Suc_conv_app_nth)
    finally show ?thesis using r by (simp add: Suc_diff_le)
  qed
qed

lemma pton6_fill_ok:
  assumes "colon \<le> right" "right \<le> length buf"
  shows "pton6_fill buf colon right = Some (take colon buf @ replicate (right - colon) 0 @ drop right buf)"
  using assms
proof (induction buf colon right rule: pton6_fill.induct)
  case (1 buf colon right)
  show ?case
  proof (cases "colon = right")
    case True
    then show ?thesis by (simp add: pton6_fill.simps)
  next
    case False
    with 1 have lt: "colon < length buf" "colon < right" by simp_all
    then obtain k where k: "right - colon = Suc k" "right - (colon + 1) = k"
      by (metis Suc_diff_Suc add.commute plus_1_eq_Suc)
    have "pton6_fill buf colon right = pton6_fill (buf[colon := 0]) (colon + 1) right"
      using lt by (subst pton6_fill.simps) simp
    also have "\<dots> = Some (take (colon + 1) (buf[colon := 0]) @ replicate k 0 @ drop right (buf[colon := 0]))"
      using 1 lt k by simp
    also have "\<dots> = Some (take colon buf @ replicate (right - colon) 0 @ drop right buf)"
      using lt k by (simp add: take_list_update_Suc)
    finally show ?thesis .
  qed
qed

text \<open>The bytes between \<open>colon\<close> and \<open>out\<close> moved to the end, zeros in between.\<close>

definition zero_extend :: "u8 list \<Rightarrow> nat \<Rightarrow> nat \<Rightarrow> u8 list" where
  "zero_extend buf colon out = take colon buf @ replicate (length buf - out) 0 @ drop colon (take out buf)"

lemma length_zero_extend [simp]: "colon \<le> out \<Longrightarrow> out \<le> length buf \<Longrightarrow> length (zero_extend buf colon out) = length buf"
  by (simp add: zero_extend_def)

lemma pton6_expand:
  assumes "colon \<le> out" "out \<le> 16" "length buf = 16"
  shows "Option.bind (pton6_shift buf 16 colon out) (\<lambda>(buf, right). pton6_fill buf colon right)
    = Some (zero_extend buf colon out)"
proof -
  let ?r = "16 - (out - colon)"
  let ?b = "take ?r buf @ drop colon (take out buf) @ drop 16 buf"
  have le: "colon \<le> ?r" "?r \<le> 16" using assms by auto
  have "pton6_shift buf 16 colon out = Some (?b, ?r)" using pton6_shift_ok [of colon out 16 buf] assms by simp
  moreover have "length ?b = 16" using assms by simp
  then have "pton6_fill ?b colon ?r = Some (take colon ?b @ replicate (?r - colon) 0 @ drop ?r ?b)"
    using le by (intro pton6_fill_ok) (simp_all only:)
  moreover have "take colon ?b = take colon buf" "drop ?r ?b = drop colon (take out buf)" "?r - colon = 16 - out"
    using assms le by (simp_all add: min_def)
  ultimately show ?thesis using assms by (simp add: zero_extend_def)
qed

section \<open>Memory safety\<close>

definition pton6_inv :: "pton6_state \<Rightarrow> bool" where
  "pton6_inv st \<longleftrightarrow> length (p6_buf st) = 16 \<and> p6_out st \<le> 16
     \<and> (\<forall>colon. p6_colon st = Some colon \<longrightarrow> colon \<le> p6_out st)"

fun pton6_exit_ok :: "pton6_exit \<Rightarrow> bool" where
  "pton6_exit_ok (Pton6_Return s buf src) \<longleftrightarrow> \<not> is_valid6 s \<and> length buf = 16"
| "pton6_exit_ok (Pton6_Break st src) \<longleftrightarrow> pton6_inv st \<and> p6_cur st \<noteq> None
     \<and> (src \<noteq> [] \<longrightarrow> p6_cur st = Some (hd src))"

lemma pton6_put16_ok:
  assumes "p6_out st + 2 \<le> length (p6_buf st)"
  shows "pton6_put16 st = Some (st\<lparr>p6_buf := (p6_buf st)[p6_out st := ucast (drop_bit 8 (p6_val st) AND 0xFF),
     p6_out st + 1 := ucast (p6_val st AND 0xFF)], p6_out := p6_out st + 2\<rparr>)"
  using assms by (simp add: pton6_put16_def)

lemma pton6_put16_inv:
  assumes "pton6_inv st" "p6_out st + 2 \<le> 16"
  obtains st1 where "pton6_put16 st = Some st1" "pton6_inv st1" "p6_cur st1 = p6_cur st"
proof -
  from assms have "p6_out st + 2 \<le> length (p6_buf st)" by (simp add: pton6_inv_def)
  from pton6_put16_ok [OF this] assms show thesis
    by - (rule that, assumption, auto simp: pton6_inv_def intro: le_SucI)
qed

lemma pton6_ipv4_tail_ok:
  assumes "pton6_inv st" "p6_out st + 4 \<le> 16" "p6_cur st \<noteq> None"
  shows "\<exists>e. pton6_ipv4_tail st = Some e \<and> pton6_exit_ok e"
proof -
  from assms have "p6_out st + 4 \<le> length (p6_buf st)" by (simp add: pton6_inv_def)
  from inet_pton4_at_ok [OF this, of "CHR ''/''" "p6_token st"] obtain s4 buf' rest where
    "inet_pton4_at (CHR ''/'') (p6_buf st) (p6_out st) (p6_token st) = Some (s4, buf', rest)"
    "length buf' = length (p6_buf st)" "s4 = v4_valid_special \<longrightarrow> rest \<noteq> []" "s4 = v4_valid \<longrightarrow> rest = []"
    by blast
  with assms show ?thesis
    by (cases s4) (auto simp: pton6_ipv4_tail_def pton6_inv_def is_valid6_def ipv4_byte_count_def
      split: option.splits list.splits)
qed

lemma inet_pton6_loop_ok:
  assumes "pton6_inv st" "p6_cur st \<noteq> None \<or> src \<noteq> []"
  shows "\<exists>e. inet_pton6_loop special st src = Some e \<and> pton6_exit_ok e"
  using assms
proof (induction src arbitrary: st)
  case Nil
  then show ?case by (simp)
next
  case (Cons c src)
  let ?st = "st\<lparr>p6_cur := Some c\<rparr>"
  have inv: "pton6_inv ?st" using Cons.prems by (simp add: pton6_inv_def)
  let ?tok = "?st\<lparr>p6_token := src\<rparr>"
  consider "0 \<le> hex_value (ord c)" | "\<not> 0 \<le> hex_value (ord c)" "c = CHR '':''"
    | "\<not> 0 \<le> hex_value (ord c)" "c \<noteq> CHR '':''" by blast
  then show ?case
  proof cases
    case 1
    let ?val = "push_bit 4 (p6_val ?st) OR of_int (hex_value (ord c))"
    have "pton6_inv (?st\<lparr>p6_val := ?val, p6_hex_seen := p6_hex_seen ?st + 1\<rparr>)"
      using inv by (simp add: pton6_inv_def)
    from Cons.IH [OF this] 1 inv show ?thesis
      by (simp add: Let_def is_valid6_def pton6_inv_def)
  next
    case 2
    have colon: "pton6_inv (?tok\<lparr>p6_colon := Some (p6_out ?tok)\<rparr>)"
      using inv by (simp add: pton6_inv_def)
    have out: "p6_out ?tok + 2 \<le> length (p6_buf ?tok)" if "p6_out st + 2 \<le> 16"
      using inv that by (simp add: pton6_inv_def)
    have put: "pton6_inv ((the (pton6_put16 ?tok))\<lparr>p6_hex_seen := 0, p6_val := 0\<rparr>)
        \<and> p6_cur (the (pton6_put16 ?tok)) = Some c"
      if "p6_out st + 2 \<le> 16"
      using pton6_put16_ok [OF out [OF that]] inv that by (auto simp: pton6_inv_def split: option.splits)
    show ?thesis
      using 2 inv Cons.IH [OF colon] Cons.IH [OF conjunct1 [OF put]] pton6_put16_ok [OF out] put
      by (auto simp: Let_def is_valid6_def pton6_inv_def ipv6_byte_count_def uint16_byte_count_def)
  next
    case 3
    from pton6_ipv4_tail_ok [OF inv] have
      "p6_out st + 4 \<le> 16 \<Longrightarrow> \<exists>e. pton6_ipv4_tail ?st = Some e \<and> pton6_exit_ok e" by simp
    with 3 inv show ?thesis
      by (auto simp: Let_def is_valid6_def ipv4_byte_count_def ipv6_byte_count_def pton6_inv_def)
  qed
qed

text \<open>A special character that is neither a hexadecimal digit nor a separator.\<close>

definition plain_special :: "char \<Rightarrow> bool" where
  "plain_special c \<longleftrightarrow> \<not> 0 \<le> hex_value (ord c) \<and> c \<noteq> CHR '':'' \<and> c \<noteq> CHR ''.''"

lemma plain_special_slash [simp]: "plain_special (CHR ''/'')" "plain_special (CHR '']'')"
  by (simp_all add: plain_special_def hex_digit_safe_def)

lemma pton6_ipv4_tail_special:
  assumes "pton6_ipv4_tail st = Some (Pton6_Break st' [])" "pton6_inv st" "p6_out st + 4 \<le> 16"
  shows "p6_cur st' = p6_cur st"
proof -
  from assms(2,3) have "p6_out st + 4 \<le> length (p6_buf st)" by (simp add: pton6_inv_def)
  from inet_pton4_at_ok [OF this, of "CHR ''/''" "p6_token st"] assms(1) show ?thesis
    by (auto simp: pton6_ipv4_tail_def split: if_splits list.splits)
qed

lemma inet_pton6_loop_special:
  assumes "inet_pton6_loop special st src = Some (Pton6_Break st' [])" "plain_special special"
    "pton6_inv st" "p6_cur st \<noteq> Some special"
  shows "p6_cur st' \<noteq> Some special"
  using assms
proof (induction src arbitrary: st)
  case Nil
  then show ?case by simp
next
  case (Cons c src)
  let ?st = "st\<lparr>p6_cur := Some c\<rparr>"
  have inv: "pton6_inv ?st" using Cons.prems by (simp add: pton6_inv_def)
  let ?tok = "?st\<lparr>p6_token := src\<rparr>"
  consider "0 \<le> hex_value (ord c)" | "\<not> 0 \<le> hex_value (ord c)" "c = CHR '':''"
    | "\<not> 0 \<le> hex_value (ord c)" "c \<noteq> CHR '':''" by blast
  then show ?case
  proof cases
    case 1
    then have "c \<noteq> special" using Cons.prems(2) by (auto simp: plain_special_def)
    let ?st1 = "?st\<lparr>p6_val := push_bit 4 (p6_val ?st) OR of_int (hex_value (ord c)),
        p6_hex_seen := p6_hex_seen ?st + 1\<rparr>"
    have "pton6_inv ?st1" using inv by (simp add: pton6_inv_def)
    moreover have "p6_cur ?st1 \<noteq> Some special" using \<open>c \<noteq> special\<close> by simp
    moreover have "inet_pton6_loop special ?st1 src = Some (Pton6_Break st' [])"
      using Cons.prems(1) 1 by (auto simp: Let_def split: if_splits)
    ultimately show ?thesis using Cons.prems(2) by (intro Cons.IH)
  next
    case 2
    then have "c \<noteq> special" using Cons.prems(2) by (auto simp: plain_special_def)
    moreover have "pton6_inv (?tok\<lparr>p6_colon := Some (p6_out ?tok)\<rparr>)"
      using inv by (simp add: pton6_inv_def)
    moreover have "pton6_inv (st'\<lparr>p6_hex_seen := 0, p6_val := 0\<rparr>) \<and> p6_cur st' = Some c"
      if "pton6_put16 ?tok = Some st'" "p6_out st + 2 \<le> 16" for st'
    proof -
      have "pton6_inv ?tok" "p6_out ?tok + 2 \<le> 16" using inv that(2) by (simp_all add: pton6_inv_def)
      from pton6_put16_inv [OF this] that(1) show ?thesis by (auto simp: pton6_inv_def)
    qed
    ultimately show ?thesis
      using Cons.prems 2
      by (auto simp: Let_def ipv6_byte_count_def uint16_byte_count_def not_less dest: Cons.IH
        split: if_splits option.splits)
  next
    case 3
    show ?thesis
    proof (cases "c = CHR ''.'' \<and> p6_out st + 4 \<le> 16 \<and> (p6_out st \<noteq> 0 \<or> p6_colon st \<noteq> None)")
      case True
      with Cons.prems 3 have "pton6_ipv4_tail ?st = Some (Pton6_Break st' [])"
        by (simp add: Let_def ipv4_byte_count_def ipv6_byte_count_def split: if_splits)
      from pton6_ipv4_tail_special [OF this inv] True Cons.prems(2) show ?thesis
        by (auto simp: plain_special_def)
    next
      case False
      with Cons.prems 3 show ?thesis
        by (auto simp: Let_def ipv4_byte_count_def ipv6_byte_count_def split: if_splits)
    qed
  qed
qed

lemma pton6_close_eq:
  assumes "pton6_inv st"
  shows "pton6_close special st src =
    (if p6_colon st \<noteq> None \<and> p6_out st = 16 then Some (v6_bad_ending, p6_buf st, src)
     else case p6_colon st of
       None \<Rightarrow> if p6_out st \<noteq> 16 then Some (v6_bad_ending, p6_buf st, src)
         else map_option (\<lambda>c. (if c = special then v6_valid_special else v6_valid, p6_buf st, src)) (p6_cur st)
     | Some colon \<Rightarrow> map_option (\<lambda>c. (if c = special then v6_valid_special else v6_valid,
         zero_extend (p6_buf st) colon (p6_out st), src)) (p6_cur st))"
proof (cases "p6_colon st")
  case None
  then show ?thesis by (simp add: pton6_close_def ipv6_byte_count_def split: option.splits)
next
  case (Some colon)
  with pton6_expand [of colon "p6_out st" "p6_buf st"] assms show ?thesis
    by (auto simp: pton6_close_def pton6_inv_def ipv6_byte_count_def split: Option.bind_splits option.splits)
qed

lemma pton6_close_ok:
  assumes "pton6_inv st" "p6_cur st \<noteq> None"
  shows "\<exists>s buf. pton6_close special st src = Some (s, buf, src) \<and> length buf = 16
    \<and> (s = v6_valid_special \<longrightarrow> p6_cur st = Some special)"
proof -
  from assms(2) obtain c where "p6_cur st = Some c" by auto
  then show ?thesis
    using assms(1) by (cases "p6_colon st") (simp_all add: pton6_close_eq pton6_inv_def)
qed

lemma inet_pton6_finish_ok:
  assumes "pton6_exit_ok (Pton6_Break st src)"
  shows "\<exists>s buf. inet_pton6_finish special st src = Some (s, buf, src) \<and> length buf = 16
    \<and> (s = v6_valid_special \<longrightarrow> p6_cur st = Some special)"
proof -
  from assms have inv: "pton6_inv st" and cur: "p6_cur st \<noteq> None" by simp_all
  show ?thesis
  proof (cases "p6_hex_seen st > 0 \<and> p6_out st + 2 > 16")
    case True
    with inv show ?thesis
      by (auto simp: inet_pton6_finish_def pton6_inv_def ipv6_byte_count_def uint16_byte_count_def)
  next
    case False
    let ?r = "if p6_hex_seen st > 0 then pton6_put16 st else Some st"
    obtain st1 where st1: "?r = Some st1" "pton6_inv st1" "p6_cur st1 = p6_cur st"
    proof (cases "p6_hex_seen st > 0")
      case True
      with False have "p6_out st + 2 \<le> 16" by simp
      from pton6_put16_inv [OF inv this] True that show thesis by auto
    next
      case False
      with inv that show thesis by simp
    qed
    from False st1(1) have "inet_pton6_finish special st src = pton6_close special st1 src"
      by (auto simp: inet_pton6_finish_def ipv6_byte_count_def uint16_byte_count_def)
    with pton6_close_ok [OF st1(2)] st1(3) cur show ?thesis by auto
  qed
qed

section \<open>Reading one group\<close>

lemma push_bit_or_nibble:
  fixes v :: u32
  assumes "unat v < 4096" "n < 16"
  shows "push_bit 4 v OR of_nat n = of_nat (unat v * 16 + n)"
proof -
  have "push_bit 4 v AND of_nat n = (0 :: u32)"
  proof (rule bit_word_eqI)
    fix k assume "k < LENGTH(32)"
    have "\<not> bit (of_nat n :: u32) k" if "4 \<le> k"
    proof -
      have "n div 2 ^ k = 0"
      proof -
        have "n < 2 ^ 4" using assms(2) by simp
        also have "(2::nat) ^ 4 \<le> 2 ^ k" using that by (rule power_increasing) simp
        finally show ?thesis by simp
      qed
      then have "\<not> bit n k" by (simp add: bit_iff_odd)
      then show ?thesis by (simp add: bit_of_nat_iff)
    qed
    then show "bit (push_bit 4 v AND of_nat n) k = bit (0 :: u32) k"
      by (auto simp: bit_and_iff bit_push_bit_iff)
  qed
  from disjunctive_add_eq_or [OF this]
  have "push_bit 4 v OR of_nat n = push_bit 4 v + of_nat n" by (rule sym)
  moreover have "push_bit 4 v = of_nat (unat v * 16)"
    by (simp add: push_bit_eq_mult)
  ultimately show ?thesis by (simp only: of_nat_add)
qed

lemma unat_of_nat_u32: "n < 2 ^ 32 \<Longrightarrow> unat (of_nat n :: u32) = n"
  by (simp add: unat_of_nat take_bit_nat_eq_self)

lemma loop_nibble:
  assumes "n < 16" "p6_hex_seen st < 4" "unat (p6_val st) < 16 ^ p6_hex_seen st"
  shows "inet_pton6_loop special st (hex_chars ! n # src) =
    inet_pton6_loop special (st\<lparr>p6_cur := Some (hex_chars ! n),
      p6_val := of_nat (unat (p6_val st) * 16 + n), p6_hex_seen := p6_hex_seen st + 1\<rparr>) src"
proof -
  have "(16::nat) ^ p6_hex_seen st \<le> 16 ^ 3" using assms(2) by (intro power_increasing) simp_all
  with assms(3) have lt: "unat (p6_val st) < 4096" by simp
  have val: "push_bit 4 (p6_val st) OR of_nat n = of_nat (unat (p6_val st) * 16 + n)"
    using push_bit_or_nibble [OF lt assms(1)] .
  have "unat (of_nat (unat (p6_val st) * 16 + n) :: u32) = unat (p6_val st) * 16 + n"
    using lt assms(1) by (intro unat_of_nat_u32) simp
  then have "\<not> (of_nat (unat (p6_val st) * 16 + n) :: u32) > 0xFFFF"
    using lt assms(1) by (simp only: word_less_nat_alt) simp
  then show ?thesis
    using assms(1,2) hex_value_hex_chars [OF assms(1)] val
    by (simp add: Let_def del: of_nat_add of_nat_mult)
qed

lemma loop_nibbles:
  assumes "\<forall>n \<in> set ns. n < 16" "ns \<noteq> []" "p6_hex_seen st + length ns \<le> 4"
    "unat (p6_val st) < 16 ^ p6_hex_seen st"
  shows "inet_pton6_loop special st (map (\<lambda>n. hex_chars ! n) ns @ src) =
    inet_pton6_loop special (st\<lparr>p6_cur := Some (hex_chars ! last ns),
      p6_val := of_nat (foldl (\<lambda>v n. v * 16 + n) (unat (p6_val st)) ns),
      p6_hex_seen := p6_hex_seen st + length ns\<rparr>) src"
  using assms
proof (induction ns arbitrary: st)
  case Nil
  then show ?case by simp
next
  case (Cons n ns)
  let ?v = "unat (p6_val st) * 16 + n"
  let ?st = "st\<lparr>p6_cur := Some (hex_chars ! n), p6_val := of_nat ?v, p6_hex_seen := p6_hex_seen st + 1\<rparr>"
  have n: "n < 16" using Cons.prems(1) by simp
  have step: "inet_pton6_loop special st (hex_chars ! n # src') = inet_pton6_loop special ?st src'" for src'
    using Cons.prems n by (intro loop_nibble) simp_all
  have le: "(16::nat) ^ (p6_hex_seen st + 1) \<le> 16 ^ 4" using Cons.prems by (intro power_increasing) simp_all
  have v: "?v < 16 ^ (p6_hex_seen st + 1)" using Cons.prems(4) n by simp
  with le have u: "unat (of_nat ?v :: u32) = ?v" by (intro unat_of_nat_u32) simp
  show ?case
  proof (cases "ns = []")
    case True
    then show ?thesis using step by simp
  next
    case False
    have "inet_pton6_loop special ?st (map (\<lambda>n. hex_chars ! n) ns @ src) =
      inet_pton6_loop special (?st\<lparr>p6_cur := Some (hex_chars ! last ns),
        p6_val := of_nat (foldl (\<lambda>v n. v * 16 + n) (unat (p6_val ?st)) ns),
        p6_hex_seen := p6_hex_seen ?st + length ns\<rparr>) src"
    proof (rule Cons.IH)
      show "unat (p6_val ?st) < 16 ^ p6_hex_seen ?st" using v u by simp
    qed (use Cons.prems False in simp_all)
    then show ?thesis using step u False by (simp del: of_nat_add of_nat_mult)
  qed
qed

lemma loop_group:
  assumes "p6_hex_seen st = 0" "p6_val st = 0"
  shows "inet_pton6_loop special st (group_text b0 b1 @ src) =
    inet_pton6_loop special (st\<lparr>p6_cur := Some (last (group_text b0 b1)),
      p6_val := of_nat (unat b0 * 256 + unat b1), p6_hex_seen := length (group_text b0 b1)\<rparr>) src"
proof -
  have "group_nibbles b0 b1 \<noteq> []" using length_group_nibbles [of b0 b1] by auto
  then show ?thesis
    using loop_nibbles [of "group_nibbles b0 b1" st special src] assms length_group_nibbles [of b0 b1]
      group_nibbles_less
    by (simp add: group_text_def foldl_group_nibbles last_map del: of_nat_add of_nat_mult)
qed

lemma pton6_bytes:
  "ucast (drop_bit 8 (of_nat (unat b0 * 256 + unat b1) :: u32) AND 0xFF) = (b0 :: u8)"
  "ucast ((of_nat (unat b0 * 256 + unat b1) :: u32) AND 0xFF) = (b1 :: u8)"
proof -
  let ?v = "unat b0 * 256 + unat b1"
  have "?v < 65536" using unat_u8_less [of b0] unat_u8_less [of b1] by linarith
  then have u: "unat (of_nat ?v :: u32) = ?v" by (intro unat_of_nat_u32) simp
  have m: "w AND 0xFF = take_bit 8 w" for w :: u32
    by (simp add: take_bit_eq_mask mask_eq_exp_minus_1)
  have t: "ucast (take_bit 8 w) = (of_nat (unat w) :: u8)" for w :: u32
    by (rule bit_word_eqI) (simp add: bit_take_bit_iff bit_ucast_iff bit_of_nat_iff bit_unsigned_iff)
  have "unat (drop_bit 8 (of_nat ?v :: u32)) = ?v div 256"
    unfolding unat_drop_bit_eq u by (simp add: drop_bit_eq_div)
  also have "\<dots> = unat b0" using unat_u8_less [of b1] by simp
  finally show "ucast (drop_bit 8 (of_nat ?v :: u32) AND 0xFF) = b0"
    unfolding m t by simp
  have "(of_nat ?v :: u8) = of_nat (unat b1)"
    unfolding word_of_nat_eq_iff by (simp add: take_bit_eq_mod)
  then have "(of_nat ?v :: u8) = b1" by simp
  then show "ucast ((of_nat ?v :: u32) AND 0xFF) = b1" unfolding m t u .
qed

end
