(* ===== verification/Inet6_Roundtrip.thy ===== *)
theory Inet6_Roundtrip
  imports Inet_Pton6
begin

text \<open>
  The contract of the IPv6 parser and printer of \<^verbatim>\<open>webpp/ip\<close>: memory
  safety, the prefixed form, and that parsing what \<open>inet_ntop6\<close> printed gives the
  sixteen bytes back, for every address, with the compressed run and in the mixed IPv4 notation.
\<close>

section \<open>A whole parse\<close>

definition pton6_run :: "char \<Rightarrow> pton6_state \<Rightarrow> string \<Rightarrow> pton6_result option" where
  "pton6_run special st src =
     Option.bind (inet_pton6_loop special st src) (\<lambda>e.
       case e of
         Pton6_Return status buf src \<Rightarrow> Some (status, buf, src)
       | Pton6_Break st src \<Rightarrow> inet_pton6_finish special st src)"

lemma inet_pton6_run:
  "inet_pton6 special buf (c # src) =
     (if c = CHR '':'' \<and> (src = [] \<or> hd src \<noteq> CHR '':'')
      then Some (v6_invalid_colon_usage, buf, src)
      else if c = CHR '':'' then pton6_run special (pton6_init buf src) src
      else pton6_run special (pton6_init buf (c # src)) (c # src))"
  by (simp add: inet_pton6_def pton6_run_def Let_def)

lemma pton6_inv_init: "length buf = 16 \<Longrightarrow> pton6_inv (pton6_init buf src)"
  by (simp add: pton6_inv_def pton6_init_def)

lemma pton6_run_ok:
  assumes "pton6_inv st" "p6_cur st \<noteq> None \<or> src \<noteq> []"
  shows "\<exists>s buf rest. pton6_run special st src = Some (s, buf, rest) \<and> length buf = 16
    \<and> (s = v6_valid_special \<and> plain_special special \<and> p6_cur st \<noteq> Some special \<longrightarrow>
         rest \<noteq> [] \<and> hd rest = special)"
proof -
  from inet_pton6_loop_ok [OF assms, of special] obtain e where
    e: "inet_pton6_loop special st src = Some e" "pton6_exit_ok e" by blast
  show ?thesis
  proof (cases e)
    case (Pton6_Return s buf rest)
    with e show ?thesis by (auto simp: pton6_run_def is_valid6_def)
  next
    case (Pton6_Break st' rest)
    with e have ok: "pton6_exit_ok (Pton6_Break st' rest)" by simp
    from inet_pton6_finish_ok [OF ok, of special] obtain s buf where
      fin: "inet_pton6_finish special st' rest = Some (s, buf, rest)" "length buf = 16"
        "s = v6_valid_special \<longrightarrow> p6_cur st' = Some special" by blast
    have "rest \<noteq> [] \<and> hd rest = special"
      if "s = v6_valid_special" "plain_special special" "p6_cur st \<noteq> Some special"
      using inet_pton6_loop_special [OF _ that(2) assms(1) that(3), of src st'] e(1) Pton6_Break ok fin(3) that(1)
      by (cases "rest = []") auto
    with fin e(1) Pton6_Break show ?thesis by (simp add: pton6_run_def)
  qed
qed

lemma inet_pton6_ok:
  assumes "length buf = 16"
  shows "\<exists>s buf' rest. inet_pton6 special buf src = Some (s, buf', rest) \<and> length buf' = 16
    \<and> (s = v6_valid_special \<and> plain_special special \<longrightarrow> rest \<noteq> [] \<and> hd rest = special)"
proof (cases src)
  case Nil
  with assms show ?thesis by (simp add: inet_pton6_def)
next
  case (Cons c src')
  have cur: "p6_cur (pton6_init buf s) = None" for s by (simp add: pton6_init_def)
  show ?thesis
  proof (cases "c = CHR '':'' \<and> (src' = [] \<or> hd src' \<noteq> CHR '':'')")
    case True
    with Cons assms show ?thesis by (simp add: inet_pton6_run)
  next
    case False
    then show ?thesis
      using Cons pton6_run_ok [OF pton6_inv_init [OF assms], of src' src' special]
        pton6_run_ok [OF pton6_inv_init [OF assms], of src src special]
      by (auto simp: inet_pton6_run cur)
  qed
qed

text \<open>C3: Memory safety of the IPv6 parser and of its overload with a prefix length: on a sixteen
  byte array, for every input text and every special character, it neither writes outside of the
  array nor compares the character variable before it is initialised, and the array keeps its
  size.\<close>

theorem inet_pton6_memory_safe:
  assumes "length buf = 16"
  shows "(\<exists>s buf' rest. inet_pton6 special buf src = Some (s, buf', rest) \<and> length buf' = 16)
    \<and> (\<exists>s buf' p' rest. inet_pton6_prefix special buf p src = Some (s, buf', p', rest) \<and> length buf' = 16)"
proof -
  from inet_pton6_ok [OF assms, of "CHR ''/''" src] obtain s buf' rest where
    "inet_pton6 (CHR ''/'') buf src = Some (s, buf', rest)" "length buf' = 16"
    "s = v6_valid_special \<longrightarrow> rest \<noteq> []" by auto
  then have "\<exists>s buf' p' rest. inet_pton6_prefix special buf p src = Some (s, buf', p', rest) \<and> length buf' = 16"
    by (auto simp: inet_pton6_prefix_def split: prod.splits list.splits)
  with inet_pton6_ok [OF assms, of special src] show ?thesis by blast
qed

lemma inet_pton6_memory_safe_witness:
  "(\<exists>s buf' rest. inet_pton6 (CHR '']'') (replicate 16 0) ''::1]'' = Some (s, buf', rest) \<and> length buf' = 16)
    \<and> (\<exists>s buf' p' rest. inet_pton6_prefix (CHR '']'') (replicate 16 0) 255 ''::1]'' = Some (s, buf', p', rest)
         \<and> length buf' = 16)"
  by (rule inet_pton6_memory_safe) simp

section \<open>Reading the groups of a printed address\<close>

text \<open>Between two groups: the bytes \<open>w\<close> are written and no digit was seen yet.\<close>

definition pton6_at :: "pton6_state \<Rightarrow> u8 list \<Rightarrow> nat option \<Rightarrow> bool" where
  "pton6_at st w colon \<longleftrightarrow> length (p6_buf st) = 16 \<and> length w \<le> 16 \<and> p6_out st = length w
     \<and> take (length w) (p6_buf st) = w \<and> p6_hex_seen st = 0 \<and> p6_val st = 0 \<and> p6_colon st = colon"

lemma pton6_at_init: "length buf = 16 \<Longrightarrow> pton6_at (pton6_init buf src) [] None"
  by (simp add: pton6_at_def pton6_init_def)

lemma hex_value_colon: "\<not> 0 \<le> hex_value (ord CHR '':'')"
  by (simp add: hex_digit_safe_def)

lemma take_two_updates:
  assumes "length w + 2 \<le> length xs" "take (length w) xs = w"
  shows "take (length w + 2) (xs[length w := a, length w + 1 := b]) = w @ [a, b]"
  using assms by (simp add: take_Suc_conv_app_nth numeral_2_eq_2)

lemma put16_group:
  assumes "pton6_at st w k" "length w + 2 \<le> 16" "p6_val st' = of_nat (unat b0 * 256 + unat b1)"
    "p6_buf st' = p6_buf st" "p6_out st' = p6_out st"
  shows "pton6_put16 st' = Some (st'\<lparr>p6_buf := (p6_buf st)[length w := b0, length w + 1 := b1],
    p6_out := length w + 2\<rparr>)"
proof -
  have "p6_out st' + 2 \<le> length (p6_buf st')" using assms by (simp add: pton6_at_def)
  from pton6_put16_ok [OF this] show ?thesis
    using assms(1,4,5) unfolding assms(3) pton6_bytes by (simp add: pton6_at_def)
qed

lemma loop_group_colon:
  assumes "pton6_at st w k" "length w + 2 \<le> 16" "rest \<noteq> []"
  obtains st' where
    "inet_pton6_loop special st (group_text b0 b1 @ CHR '':'' # rest) = inet_pton6_loop special st' rest"
    "pton6_at st' (w @ [b0, b1]) k" "p6_token st' = rest" "p6_cur st' = Some CHR '':''"
proof -
  let ?st1 = "st\<lparr>p6_val := of_nat (unat b0 * 256 + unat b1),
      p6_hex_seen := length (group_text b0 b1), p6_cur := Some CHR '':'', p6_token := rest\<rparr>"
  let ?st2 = "?st1\<lparr>p6_buf := (p6_buf st)[length w := b0, length w + 1 := b1], p6_out := length w + 2\<rparr>"
  have put: "pton6_put16 ?st1 = Some ?st2"
    using put16_group [OF assms(1,2), of ?st1 b0 b1] by simp
  have "0 < length (group_text b0 b1)"
    using length_group_nibbles [of b0 b1] by (simp add: group_text_def)
  then have "inet_pton6_loop special st (group_text b0 b1 @ CHR '':'' # rest) =
      inet_pton6_loop special (?st2\<lparr>p6_hex_seen := 0, p6_val := 0\<rparr>) rest"
    using assms put hex_value_colon
    by (subst loop_group)
       (simp_all add: pton6_at_def Let_def uint16_byte_count_def ipv6_byte_count_def del: of_nat_add of_nat_mult)
  moreover have "pton6_at (?st2\<lparr>p6_hex_seen := 0, p6_val := 0\<rparr>) (w @ [b0, b1]) k"
    using assms(1,2) take_two_updates [of w "p6_buf st" b0 b1] by (simp add: pton6_at_def)
  ultimately show thesis by (rule that) simp_all
qed

lemma loop_colon:
  assumes "pton6_at st w None"
  obtains st' where "inet_pton6_loop special st (CHR '':'' # src) = inet_pton6_loop special st' src"
    "pton6_at st' w (Some (length w))" "p6_token st' = src" "p6_cur st' = Some CHR '':''"
proof
  let ?st = "st\<lparr>p6_cur := Some CHR '':'', p6_token := src, p6_colon := Some (p6_out st)\<rparr>"
  show "inet_pton6_loop special st (CHR '':'' # src) = inet_pton6_loop special ?st src"
    using assms hex_value_colon by (simp add: pton6_at_def Let_def)
qed (use assms in \<open>simp_all add: pton6_at_def\<close>)

lemma drop_two:
  assumes "k < 8" "length src = 16"
  shows "drop (2 * k) src = src ! (k + k) # src ! (k + k + 1) # drop (2 * Suc k) src"
  using assms by (simp add: Cons_nth_drop_Suc mult_2)

lemma loop_groups_sep:
  assumes "length src = 16" "rest \<noteq> []" "a \<le> b" "b \<le> 8" "pton6_at st w k" "length w + 2 * (b - a) \<le> 16"
  shows "\<exists>st'. inet_pton6_loop special st (groups_sep src a b @ rest) = inet_pton6_loop special st' rest
    \<and> pton6_at st' (w @ take (2 * (b - a)) (drop (2 * a) src)) k"
  using assms(3-)
proof (induction a arbitrary: st w rule: inc_induct)
  case base
  then show ?case by (auto simp: groups_sep_def)
next
  case (step a)
  let ?rest = "groups_sep src (Suc a) b @ rest"
  have "length w + 2 \<le> 16" "?rest \<noteq> []" using step.prems step.hyps assms(2) by auto
  from loop_group_colon [OF step.prems(2) this, of special "src ! (a + a)" "src ! (a + a + 1)"] obtain st1 where
    st1: "inet_pton6_loop special st (group_at src a @ CHR '':'' # ?rest) = inet_pton6_loop special st1 ?rest"
      "pton6_at st1 (w @ [src ! (a + a), src ! (a + a + 1)]) k" by auto
  from step.hyps have b: "b - a = Suc (b - Suc a)" by simp
  have "take (2 * (b - a)) (drop (2 * a) src) =
      src ! (a + a) # src ! (a + a + 1) # take (2 * (b - Suc a)) (drop (2 * Suc a) src)"
    using drop_two [of a src] assms(1) step.hyps step.prems(1) by (simp add: b)
  moreover have "length (w @ [src ! (a + a), src ! (a + a + 1)]) + 2 * (b - Suc a) \<le> 16"
    using step.prems(3) b by simp
  from step.IH [OF step.prems(1) st1(2) this] obtain st2 where
    "inet_pton6_loop special st1 ?rest = inet_pton6_loop special st2 rest"
    "pton6_at st2 ((w @ [src ! (a + a), src ! (a + a + 1)]) @ take (2 * (b - Suc a)) (drop (2 * Suc a) src)) k"
    by blast
  ultimately show ?case
    using st1(1) step.hyps by (auto simp: groups_sep_Cons)
qed

section \<open>Finishing\<close>

definition pton6_value :: "u8 list \<Rightarrow> nat option \<Rightarrow> u8 list" where
  "pton6_value w colon =
     (case colon of None \<Rightarrow> w | Some i \<Rightarrow> take i w @ replicate (16 - length w) 0 @ drop i w)"

definition pton6_complete :: "u8 list \<Rightarrow> nat option \<Rightarrow> bool" where
  "pton6_complete w colon \<longleftrightarrow>
     (case colon of None \<Rightarrow> length w = 16 | Some i \<Rightarrow> i \<le> length w \<and> length w < 16)"

abbreviation "special_status special c \<equiv> (if c = special then v6_valid_special else v6_valid)"

lemma close_written:
  assumes "length (p6_buf st) = 16" "p6_out st = length w" "take (length w) (p6_buf st) = w"
    "p6_colon st = k" "p6_cur st = Some c" "pton6_complete w k"
  shows "pton6_close special st src = Some (special_status special c, pton6_value w k, src)"
proof -
  have inv: "pton6_inv st"
    using assms by (auto simp: pton6_inv_def pton6_complete_def split: option.splits)
  show ?thesis
  proof (cases k)
    case None
    with assms show ?thesis by (simp add: pton6_close_eq [OF inv] pton6_complete_def pton6_value_def)
  next
    case (Some i)
    with assms have i: "i \<le> length w" "length w < 16" by (simp_all add: pton6_complete_def)
    have "take i (p6_buf st) = take i w" using i assms(3) by (metis min.absorb1 take_take)
    then have "zero_extend (p6_buf st) i (length w) = pton6_value w k"
      using assms(1,3) Some by (simp add: zero_extend_def pton6_value_def)
    with i assms Some show ?thesis by (simp add: pton6_close_eq [OF inv])
  qed
qed

lemma finish_at:
  assumes "pton6_at st w k" "p6_cur st = Some c" "pton6_complete w k"
  shows "inet_pton6_finish special st src = Some (special_status special c, pton6_value w k, src)"
proof -
  from assms(1) have "length (p6_buf st) = 16" "p6_out st = length w" "take (length w) (p6_buf st) = w"
    "p6_colon st = k" by (simp_all add: pton6_at_def)
  from close_written [OF this assms(2,3), of special src] assms(1) show ?thesis
    by (simp add: inet_pton6_finish_def pton6_at_def)
qed

lemma finish_group:
  assumes "pton6_at st w k" "pton6_complete (w @ [b0, b1]) k" "0 < n"
  shows "inet_pton6_finish special
      (st\<lparr>p6_val := of_nat (unat b0 * 256 + unat b1), p6_hex_seen := n, p6_cur := Some c\<rparr>) src
    = Some (special_status special c, pton6_value (w @ [b0, b1]) k, src)"
proof -
  let ?st = "st\<lparr>p6_val := of_nat (unat b0 * 256 + unat b1), p6_hex_seen := n, p6_cur := Some c\<rparr>"
  let ?st1 = "?st\<lparr>p6_buf := (p6_buf st)[length w := b0, length w + 1 := b1], p6_out := length w + 2\<rparr>"
  from assms(2) have le: "length w + 2 \<le> 16" by (auto simp: pton6_complete_def split: option.splits)
  have put: "pton6_put16 ?st = Some ?st1" using put16_group [OF assms(1) le, of ?st b0 b1] by simp
  have "length (p6_buf ?st1) = 16" "p6_out ?st1 = length (w @ [b0, b1])"
    "take (length (w @ [b0, b1])) (p6_buf ?st1) = w @ [b0, b1]" "p6_colon ?st1 = k" "p6_cur ?st1 = Some c"
    using assms(1) le take_two_updates [of w "p6_buf st" b0 b1] by (simp_all add: pton6_at_def)
  note fin = close_written [OF this assms(2), of special src]
  have "p6_hex_seen ?st > 0" "\<not> (p6_out ?st + uint16_byte_count > ipv6_byte_count)"
    using assms(1,3) le by (simp_all add: pton6_at_def uint16_byte_count_def ipv6_byte_count_def)
  with fin put show ?thesis
    unfolding inet_pton6_finish_def by (simp only: Option.bind.simps if_True if_False simp_thms)
qed

text \<open>What may follow a printed address: nothing, or the special character.\<close>

definition ends_at :: "char \<Rightarrow> string \<Rightarrow> bool" where
  "ends_at special rest \<longleftrightarrow> rest = [] \<or> hd rest = special"

abbreviation "end_status rest \<equiv> (if rest = [] then v6_valid else v6_valid_special)"

lemma run_at_end:
  assumes "pton6_at st w k" "pton6_complete w k" "p6_cur st = Some c" "c \<noteq> special"
    "plain_special special" "ends_at special rest"
  shows "pton6_run special st rest = Some (end_status rest, pton6_value w k, rest)"
proof (cases rest)
  case Nil
  with assms finish_at [OF assms(1,3,2)] show ?thesis by (simp add: pton6_run_def)
next
  case (Cons d r)
  with assms(6) have d: "d = special" by (simp add: ends_at_def)
  have "pton6_at (st\<lparr>p6_cur := Some special\<rparr>) w k" using assms(1) by (simp add: pton6_at_def)
  from finish_at [OF this _ assms(2)] Cons d assms(5) show ?thesis
    by (simp add: pton6_run_def Let_def plain_special_def)
qed

lemma run_group_end:
  assumes "pton6_at st w k" "pton6_complete (w @ [b0, b1]) k" "plain_special special" "ends_at special rest"
  shows "pton6_run special st (group_text b0 b1 @ rest) =
    Some (end_status rest, pton6_value (w @ [b0, b1]) k, rest)"
proof -
  let ?n = "length (group_text b0 b1)"
  let ?st = "\<lambda>c. st\<lparr>p6_val := of_nat (unat b0 * 256 + unat b1), p6_hex_seen := ?n, p6_cur := Some c\<rparr>"
  have n: "0 < ?n" using length_group_nibbles [of b0 b1] by (simp add: group_text_def)
  obtain m where m: "m < 16" "last (group_text b0 b1) = hex_chars ! m"
  proof
    have "group_nibbles b0 b1 \<noteq> []" using n by (auto simp: group_text_def)
    then show "last (group_text b0 b1) = hex_chars ! last (group_nibbles b0 b1)"
      and "last (group_nibbles b0 b1) < 16"
      using group_nibbles_less [OF last_in_set] by (simp_all add: group_text_def last_map)
  qed
  then have ne: "last (group_text b0 b1) \<noteq> special"
    using hex_value_hex_chars [of m] assms(3) by (auto simp: plain_special_def)
  have "inet_pton6_loop special st (group_text b0 b1 @ rest) =
      inet_pton6_loop special (?st (last (group_text b0 b1))) rest"
    using assms(1)
    by (subst loop_group)
       (simp_all add: pton6_at_def, rule arg_cong2 [where f = "inet_pton6_loop special"],
        simp_all add: pton6_state.equality)
  moreover have "inet_pton6_loop special (?st (last (group_text b0 b1))) rest =
      Some (Pton6_Break (?st (if rest = [] then last (group_text b0 b1) else special)) rest)"
    using assms(3,4) by (cases rest) (simp_all add: Let_def plain_special_def ends_at_def)
  ultimately show ?thesis
    using finish_group [OF assms(1,2) n] ne by (simp add: pton6_run_def)
qed

section \<open>The round trip\<close>

lemma run_groups_end:
  assumes "length src = 16" "a \<le> 8" "pton6_at st w k" "pton6_complete (w @ drop (2 * a) src) k"
    "a = 8 \<longrightarrow> (\<exists>c. p6_cur st = Some c \<and> c \<noteq> special)" "plain_special special" "ends_at special rest"
  shows "pton6_run special st (groups_end src a @ rest) =
    Some (end_status rest, pton6_value (w @ drop (2 * a) src) k, rest)"
proof (cases "a = 8")
  case True
  with assms(5) obtain c where "p6_cur st = Some c" "c \<noteq> special" by blast
  from run_at_end [OF assms(3) _ this assms(6,7)] assms(1,4) True show ?thesis
    by (simp add: groups_end_def)
next
  case False
  with assms(2) have a: "a \<le> 7" by simp
  let ?rest = "group_at src 7 @ rest" and ?w = "w @ take (2 * (7 - a)) (drop (2 * a) src)"
  have ne: "?rest \<noteq> []"
    using length_group_nibbles [of "src ! (7 + 7)" "src ! (7 + 7 + 1)"] by (auto simp: group_text_def)
  from assms(1,4) have le: "length w + (16 - 2 * a) \<le> 16"
    by (auto simp: pton6_complete_def split: option.splits)
  then have "length w + 2 * (7 - a) \<le> 16" by simp
  from loop_groups_sep [OF assms(1) ne a _ assms(3) this, of special] obtain st' where
    st': "inet_pton6_loop special st (groups_sep src a 7 @ ?rest) = inet_pton6_loop special st' ?rest"
      "pton6_at st' ?w k" by auto
  have "drop (2 * a) src = take (2 * (7 - a)) (drop (2 * a) src) @ drop (2 * 7) src"
  proof -
    have "2 * 7 = 2 * (7 - a) + 2 * a" using a by simp
    then show ?thesis by (metis append_take_drop_id drop_drop)
  qed
  moreover have "drop (2 * 7) src = [src ! (7 + 7), src ! (7 + 7 + 1)]"
    using drop_two [of 7 src] assms(1) by simp
  ultimately have w: "w @ drop (2 * a) src = ?w @ [src ! (7 + 7), src ! (7 + 7 + 1)]" by simp
  have "pton6_run special st (groups_end src a @ rest) = pton6_run special st' ?rest"
    using st'(1) a by (simp add: pton6_run_def groups_end_def)
  also have "\<dots> = Some (end_status rest, pton6_value (w @ drop (2 * a) src) k, rest)"
    unfolding w by (rule run_group_end [OF st'(2) _ assms(6,7)]) (use assms(4) w in simp)
  finally show ?thesis .
qed

lemma zero_run_bytes:
  assumes "length src = 16" "zero_run src a n" "a + n \<le> 8"
  shows "take (2 * n) (drop (2 * a) src) = replicate (2 * n) 0"
  using assms(2,3)
proof (induction n arbitrary: a)
  case 0
  then show ?case by simp
next
  case (Suc n)
  then have "zero_group src a" "zero_run src (Suc a) n" by (auto simp: zero_run_def)
  moreover have "take (2 * n) (drop (2 * Suc a) src) = replicate (2 * n) 0"
    by (rule Suc.IH) (use \<open>zero_run src (Suc a) n\<close> Suc.prems in simp_all)
  ultimately show ?case
    using drop_two [of a src] assms(1) Suc.prems(2) by (simp add: zero_group_def)
qed

lemma value_of_run:
  assumes "length src = 16" "zero_run src a n" "a + n \<le> 8" "0 < n"
  shows "pton6_complete (take (2 * a) src @ drop (2 * (a + n)) src) (Some (2 * a))"
    and "pton6_value (take (2 * a) src @ drop (2 * (a + n)) src) (Some (2 * a)) = src"
proof -
  have len: "length (take (2 * a) src @ drop (2 * (a + n)) src) = 16 - 2 * n" "length (take (2 * a) src) = 2 * a"
    using assms by simp_all
  then show "pton6_complete (take (2 * a) src @ drop (2 * (a + n)) src) (Some (2 * a))"
    using assms(3,4) by (simp add: pton6_complete_def)
  have "16 - (16 - 2 * n) = 2 * n" using assms(3) by simp
  then have "pton6_value (take (2 * a) src @ drop (2 * (a + n)) src) (Some (2 * a)) =
      take (2 * a) src @ replicate (2 * n) 0 @ drop (2 * (a + n)) src"
    using len by (simp add: pton6_value_def)
  moreover have "replicate (2 * n) 0 @ drop (2 * (a + n)) src = drop (2 * a) src"
  proof -
    have "drop (2 * (a + n)) src = drop (2 * n) (drop (2 * a) src)" by (simp add: algebra_simps)
    then show ?thesis using zero_run_bytes [OF assms(1,2,3)] by (metis append_take_drop_id)
  qed
  ultimately show "pton6_value (take (2 * a) src @ drop (2 * (a + n)) src) (Some (2 * a)) = src"
    by simp
qed

lemma group_text_not_colon: "\<exists>c cs. group_text b0 b1 = c # cs \<and> c \<noteq> CHR '':''"
proof -
  have "group_nibbles b0 b1 \<noteq> []" using length_group_nibbles [of b0 b1] by auto
  then obtain n ns where "group_nibbles b0 b1 = n # ns" by (cases "group_nibbles b0 b1") auto
  moreover from this have "n < 16" using group_nibbles_less [of n b0 b1] by simp
  ultimately show ?thesis using hex_chars_not_separator(1) [of n] by (auto simp: group_text_def)
qed

lemma inet_pton6_starts_group:
  "inet_pton6 special buf (group_text b0 b1 @ src) =
    pton6_run special (pton6_init buf (group_text b0 b1 @ src)) (group_text b0 b1 @ src)"
proof -
  obtain c cs where "group_text b0 b1 = c # cs" "c \<noteq> CHR '':''" using group_text_not_colon by blast
  then show ?thesis by (simp add: inet_pton6_run)
qed

lemma pton6_run_loop_eq:
  "inet_pton6_loop special st src = inet_pton6_loop special st' src' \<Longrightarrow>
   pton6_run special st src = pton6_run special st' src'"
  by (simp add: pton6_run_def)

text \<open>The compressed form, for any zero run and not just the longest one.\<close>

lemma pton6_compressed:
  assumes "length src = 16" "length buf = 16" "zero_run src a n" "a + n \<le> 8" "0 < n"
    "plain_special special" "ends_at special rest"
  shows "inet_pton6 special buf
      ((if a = 0 then '':'' else groups_sep src 0 a) @ '':'' @ groups_end src (a + n) @ rest) =
    Some (end_status rest, src, rest)"
proof -
  note val = value_of_run [OF assms(1,3,4,5)]
  have run: "pton6_run special st (CHR '':'' # groups_end src (a + n) @ rest) = Some (end_status rest, src, rest)"
    if st: "pton6_at st (take (2 * a) src) None" for st
  proof -
    from loop_colon [OF st, of special "groups_end src (a + n) @ rest"] obtain st' where
      st': "inet_pton6_loop special st (CHR '':'' # groups_end src (a + n) @ rest) =
          inet_pton6_loop special st' (groups_end src (a + n) @ rest)"
        "pton6_at st' (take (2 * a) src) (Some (length (take (2 * a) src)))" "p6_cur st' = Some CHR '':''" by auto
    have len: "length (take (2 * a) src) = 2 * a" using assms(1,4) by simp
    have "CHR '':'' \<noteq> special" using assms(6) by (auto simp: plain_special_def)
    with run_groups_end [OF assms(1,4) st'(2) _ _ assms(6,7)] val st'(3) show ?thesis
      unfolding len using pton6_run_loop_eq [OF st'(1)] by simp
  qed
  show ?thesis
  proof (cases "a = 0")
    case True
    with run [of "pton6_init buf (CHR '':'' # groups_end src (a + n) @ rest)"] pton6_at_init [OF assms(2)]
    show ?thesis by (simp add: inet_pton6_run)
  next
    case False
    let ?rest = "CHR '':'' # groups_end src (a + n) @ rest"
    let ?text = "groups_sep src 0 a @ ?rest"
    from False have sep: "?text = group_at src 0 @ CHR '':'' # groups_sep src 1 a @ ?rest"
      by (simp add: groups_sep_Cons)
    have "0 \<le> a" "a \<le> 8" "length [] + 2 * (a - 0) \<le> 16" using assms(4) by simp_all
    from loop_groups_sep [OF assms(1) _ this(1,2) pton6_at_init [OF assms(2)] this(3), of ?rest special ?text]
    obtain st where st: "inet_pton6_loop special (pton6_init buf ?text) ?text = inet_pton6_loop special st ?rest"
      "pton6_at st (take (2 * a) src) None" by auto
    have "inet_pton6 special buf ?text = pton6_run special (pton6_init buf ?text) ?text"
      unfolding sep by (rule inet_pton6_starts_group)
    also have "\<dots> = Some (end_status rest, src, rest)"
      using pton6_run_loop_eq [OF st(1)] run [OF st(2)] by simp
    finally show ?thesis using False by simp
  qed
qed

lemma pton6_full:
  assumes "length src = 16" "length buf = 16" "plain_special special" "ends_at special rest"
  shows "inet_pton6 special buf (groups_end src 0 @ rest) = Some (end_status rest, src, rest)"
proof -
  have "inet_pton6 special buf (groups_end src 0 @ rest) =
      pton6_run special (pton6_init buf (groups_end src 0 @ rest)) (groups_end src 0 @ rest)"
    by (simp add: groups_end_Cons inet_pton6_starts_group del: One_nat_def)
  also have "\<dots> = Some (end_status rest, src, rest)"
    using run_groups_end [OF assms(1) _ pton6_at_init [OF assms(2)] _ _ assms(3,4), of 0] assms(1)
    by (simp add: pton6_complete_def pton6_value_def)
  finally show ?thesis .
qed

section \<open>The mixed notation\<close>

lemma digit_char_hex: "d < 10 \<Longrightarrow> digit_char d = hex_chars ! d"
proof -
  assume "d < 10"
  then have "d = 0 \<or> d = 1 \<or> d = 2 \<or> d = 3 \<or> d = 4 \<or> d = 5 \<or> d = 6 \<or> d = 7 \<or> d = 8 \<or> d = 9"
    by presburger
  moreover have "hex_chars ! 0 = CHR ''0'' \<and> hex_chars ! 1 = CHR ''1'' \<and> hex_chars ! 2 = CHR ''2''
    \<and> hex_chars ! 3 = CHR ''3'' \<and> hex_chars ! 4 = CHR ''4'' \<and> hex_chars ! 5 = CHR ''5''
    \<and> hex_chars ! 6 = CHR ''6'' \<and> hex_chars ! 7 = CHR ''7'' \<and> hex_chars ! 8 = CHR ''8''
    \<and> hex_chars ! 9 = CHR ''9''" by (simp add: hex_chars_def)
  moreover from \<open>d < 10\<close> have "ord (digit_char d) = 48 + d" by simp
  ultimately show ?thesis by (elim disjE) (simp_all add: char_eq_ord_iff)
qed

lemma put_octet_nibbles:
  obtains ns where "put_octet v = map (\<lambda>n. hex_chars ! n) ns" "\<forall>n \<in> set ns. n < 16" "ns \<noteq> []" "length ns \<le> 3"
proof
  let ?ns = "map (\<lambda>c. ord c - 48) (put_octet v)"
  have "ord c - 48 < 10 \<and> digit_char (ord c - 48) = c" if "c \<in> set (put_octet v)" for c
    using put_octet_digits [OF that] digit_char_of_digit by (auto simp: is_digit_ord)
  note d = this
  show "put_octet v = map (\<lambda>n. hex_chars ! n) ?ns"
    using d by (simp add: o_def map_idI flip: digit_char_hex)
  show "\<forall>n \<in> set ?ns. n < 16" using d by fastforce
  show "?ns \<noteq> []" "length ?ns \<le> 3" using length_put_octet [of v] by simp_all
qed

lemma loop_mixed:
  assumes "pton6_at st w k" "w \<noteq> []" "length w \<le> 12" "length vs = 4" "p6_token st = join_octets vs @ rest"
    "ends_at (CHR ''/'') rest"
  shows "\<exists>st'. inet_pton6_loop special st (join_octets vs @ rest) = Some (Pton6_Break st' rest)
    \<and> length (p6_buf st') = 16 \<and> p6_out st' = length (w @ vs) \<and> take (length (w @ vs)) (p6_buf st') = w @ vs
    \<and> p6_colon st' = k \<and> p6_hex_seen st' = 0 \<and> p6_cur st' = Some (if rest = [] then CHR ''.'' else CHR ''/'')"
proof -
  from assms(4) obtain v vs' where vs: "vs = v # vs'" "length vs' = 3" by (cases vs) auto
  then have "vs' \<noteq> []" by auto
  from put_octet_nibbles obtain ns where
    ns: "put_octet v = map (\<lambda>n. hex_chars ! n) ns" "\<forall>n \<in> set ns. n < 16" "ns \<noteq> []" "length ns \<le> 3" .
  let ?text = "join_octets vs @ rest"
  let ?st = "st\<lparr>p6_cur := Some (hex_chars ! last ns),
      p6_val := of_nat (foldl (\<lambda>v n. v * 16 + n) (unat (p6_val st)) ns), p6_hex_seen := p6_hex_seen st + length ns\<rparr>"
  let ?dot = "?st\<lparr>p6_cur := Some CHR ''.''\<rparr>"
  from assms(1) have st: "p6_hex_seen st = 0" "p6_val st = 0" "p6_out st = length w" "length (p6_buf st) = 16"
    "take (length w) (p6_buf st) = w" "p6_colon st = k"
    by (simp_all add: pton6_at_def)
  have "inet_pton6_loop special st ?text = inet_pton6_loop special ?st (CHR ''.'' # join_octets vs' @ rest)"
    using loop_nibbles [OF ns(2,3), of st special "CHR ''.'' # join_octets vs' @ rest"] ns(1,4) st vs(1) \<open>vs' \<noteq> []\<close>
    by (simp add: join_octets_Cons)
  also have "\<dots> = pton6_ipv4_tail ?dot"
    using assms(2,3) st by (simp add: Let_def hex_digit_safe_def ipv4_byte_count_def ipv6_byte_count_def)
  finally have loop: "inet_pton6_loop special st ?text = pton6_ipv4_tail ?dot" .
  have b: "length w + 4 \<le> length (p6_buf st)" using assms(3) st(4) by simp
  let ?buf = "overwrite (p6_buf st) (length w) vs"
  have pton4: "inet_pton4_at (CHR ''/'') (p6_buf st) (length w) ?text =
      Some (if rest = [] then v4_valid else v4_valid_special, ?buf, rest)"
  proof (cases rest)
    case Nil
    then show ?thesis using inet_pton4_at_complete(1) [OF b assms(4)] by simp
  next
    case (Cons c r)
    with assms(6) have "c = CHR ''/''" by (simp add: ends_at_def)
    with Cons show ?thesis
      using inet_pton4_at_complete(2) [OF b assms(4), of "CHR ''/''" "CHR ''/''" r] by simp
  qed
  have buf: "length ?buf = 16" "take (length w + 4) ?buf = w @ vs"
    using b st assms(4) by (simp_all add: overwrite_def)
  show ?thesis
  proof (cases rest)
    case Nil
    with loop pton4 buf st assms(4,5) show ?thesis
      by (simp add: pton6_ipv4_tail_def ipv4_byte_count_def add.commute)
  next
    case (Cons c r)
    with assms(6) have "c = CHR ''/''" by (simp add: ends_at_def)
    with Cons loop pton4 buf st assms(4,5) show ?thesis
      by (simp add: pton6_ipv4_tail_def ipv4_byte_count_def add.commute)
  qed
qed

lemma pton6_mapped:
  assumes "length buf = 16" "length vs = 4" "plain_special special"
    "rest = [] \<or> special = CHR ''/'' \<and> ends_at (CHR ''/'') rest"
  shows "inet_pton6 special buf (''::ffff:'' @ join_octets vs @ rest) =
    Some (end_status rest, replicate 10 0 @ [255, 255] @ vs, rest)"
proof -
  let ?v4 = "join_octets vs @ rest"
  have ffff: "group_text 255 255 = ''ffff''" by code_simp
  have ends: "ends_at (CHR ''/'') rest" using assms(4) by (auto simp: ends_at_def)
  define tail where "tail = group_text 255 255 @ CHR '':'' # ?v4"
  obtain st1 where
    st1: "inet_pton6_loop special (pton6_init buf (CHR '':'' # tail)) (CHR '':'' # tail)
        = inet_pton6_loop special st1 tail" "pton6_at st1 [] (Some (length ([] :: u8 list)))"
    by (rule loop_colon [OF pton6_at_init [OF assms(1)]])
  then have at1: "pton6_at st1 [] (Some 0)" by simp
  have le: "length ([] :: u8 list) + 2 \<le> 16" by simp
  have ne: "?v4 \<noteq> []" using assms(2) by (cases vs; cases "tl vs") auto
  obtain st2 where
    st2: "inet_pton6_loop special st1 tail = inet_pton6_loop special st2 ?v4"
      "pton6_at st2 [255, 255] (Some 0)" "p6_token st2 = ?v4"
    unfolding tail_def by (rule loop_group_colon [OF at1 le ne, unfolded append_Nil])
  from loop_mixed [OF st2(2) _ _ assms(2) st2(3) ends, of special] obtain st3 where
    st3: "inet_pton6_loop special st2 ?v4 = Some (Pton6_Break st3 rest)" "length (p6_buf st3) = 16"
      "p6_out st3 = length ([255, 255] @ vs)" "take (length ([255, 255] @ vs)) (p6_buf st3) = [255, 255] @ vs"
      "p6_colon st3 = Some 0" "p6_hex_seen st3 = 0"
      "p6_cur st3 = Some (if rest = [] then CHR ''.'' else CHR ''/'')"
    by (auto simp del: inet_pton6_loop.simps)
  have "pton6_complete ([255, 255] @ vs) (Some 0)" using assms(2) by (simp add: pton6_complete_def)
  from close_written [OF st3(2-5,7) this, of special rest]
  have "inet_pton6_finish special st3 rest =
      Some (special_status special (if rest = [] then CHR ''.'' else CHR ''/''),
        pton6_value ([255, 255] @ vs) (Some 0), rest)"
    using st3(6) by (simp add: inet_pton6_finish_def)
  moreover have "pton6_value ([255, 255] @ vs) (Some 0) = replicate 10 0 @ [255, 255] @ vs"
    using assms(2) by (simp add: pton6_value_def)
  moreover have "special_status special (if rest = [] then CHR ''.'' else CHR ''/'') = end_status rest"
    using assms(3,4) by (auto simp: plain_special_def)
  moreover have "''::ffff:'' @ ?v4 = CHR '':'' # CHR '':'' # tail" by (simp add: tail_def ffff)
  ultimately show ?thesis
    using st1(1) st2(1) st3(1) by (simp add: inet_pton6_run pton6_run_def del: inet_pton6_loop.simps)
qed

section \<open>Printed addresses are parsed to themselves\<close>

lemma split_mapped:
  assumes "length src = 16" "zero_run src 0 5" "src ! 10 = 0xFF" "src ! 11 = 0xFF"
  shows "replicate 10 0 @ [255, 255] @ drop 12 src = src"
proof -
  have "take 10 src = replicate 10 0" using zero_run_bytes [OF assms(1,2)] by simp
  moreover have "drop 10 src = [255, 255] @ drop 12 src"
    using drop_two [of 5 src] assms(1,3,4) by simp
  ultimately show ?thesis by (metis append_take_drop_id)
qed

lemma pton6_ntop6:
  assumes "length src = 16" "length buf = 16" "plain_special special" "inet_ntop6 src = Some text"
    "rest = [] \<or> special = CHR ''/'' \<and> ends_at (CHR ''/'') rest"
  shows "inet_pton6 special buf (text @ rest) = Some (end_status rest, src, rest)"
proof -
  have ends: "ends_at special rest" using assms(5) by (auto simp: ends_at_def)
  from inet_ntop6_groups [OF assms(1)] obtain lc li where run: "longest_run src 8 lc li" and
    shown: "Some text = (if li = 0 \<and> lc = 5 \<and> src ! 10 = 0xFF \<and> src ! 11 = 0xFF
     then map_option (\<lambda>text. ''::ffff:'' @ text) (inet_ntop4 (drop 12 src))
     else if li = -1 then Some (groups_end src 0)
     else Some ((if li = 0 then '':'' else groups_sep src 0 (nat li)) @ '':'' @ groups_end src (nat li + lc)))"
    unfolding assms(4) by blast
  consider (mapped) "li = 0" "lc = 5" "src ! 10 = 0xFF" "src ! 11 = 0xFF" | (full) "li = -1"
    | (run) "\<not> (li = 0 \<and> lc = 5 \<and> src ! 10 = 0xFF \<and> src ! 11 = 0xFF)" "li \<noteq> -1" by blast
  then show ?thesis
  proof cases
    case mapped
    have vs: "length (drop 12 src) = 4" using assms(1) by simp
    have "text = ''::ffff:'' @ join_octets (drop 12 src)"
      using shown mapped inet_ntop4_join [OF vs] by simp
    moreover have "zero_run src 0 5" using run mapped by (simp add: longest_run_def)
    ultimately show ?thesis
      using pton6_mapped [OF assms(2) vs assms(3,5)] split_mapped [OF assms(1)] mapped by simp
  next
    case full
    with shown have "text = groups_end src 0" by simp
    with pton6_full [OF assms(1,2,3) ends] show ?thesis by simp
  next
    case run': run
    with shown have "text = (if li = 0 then '':'' else groups_sep src 0 (nat li)) @ '':'' @ groups_end src (nat li + lc)"
      by (simp split: if_splits)
    moreover from run run'(2) have "zero_run src (nat li) lc" "nat li + lc \<le> 8" "0 < lc" "0 \<le> li"
      by (auto simp: longest_run_def)
    moreover from this have "nat li = 0 \<longleftrightarrow> li = 0" by simp
    ultimately show ?thesis
      using pton6_compressed [OF assms(1,2) _ _ _ assms(3) ends, of "nat li" lc] by simp
  qed
qed

definition ntop6_wf :: "u8 list \<Rightarrow> bool" where "ntop6_wf src \<longleftrightarrow> length src = 16"

text \<open>The bytes of a text that is a whole address.\<close>

definition pton6_bytes_of :: "string \<Rightarrow> u8 list option" where
  "pton6_bytes_of text =
     (case inet_pton6 (CHR ''/'') (replicate 16 0) text of
        Some (v6_valid, bytes, _) \<Rightarrow> Some bytes
      | _ \<Rightarrow> None)"

definition pton4_bytes_of :: "string \<Rightarrow> u8 list option" where
  "pton4_bytes_of text =
     (case inet_pton4 (CHR ''/'') (replicate 4 0) text of
        Some (v4_valid, bytes, _) \<Rightarrow> Some bytes
      | _ \<Rightarrow> None)"

interpretation ip6_text: text_codec ntop6_wf inet_ntop6 pton6_bytes_of
proof
  fix x
  assume "ntop6_wf x"
  then have len: "length x = 16" by (simp add: ntop6_wf_def)
  have "inet_ntop4 (drop 12 x) \<noteq> None" using len by (intro inet_ntop4_defined) simp
  with inet_ntop6_groups [OF len] show "\<exists>text. inet_ntop6 x = Some text"
    by (auto split: if_splits)
  show "pton6_bytes_of t = Some x" if "inet_ntop6 x = Some t" for t
    using pton6_ntop6 [OF len _ plain_special_slash(1) that, of "replicate 16 0" "[]"]
    by (simp add: pton6_bytes_of_def)
qed

interpretation ip4_text: canonical_codec "\<lambda>src. length src = 4" inet_ntop4 pton4_bytes_of
proof
  fix x :: "u8 list" and t
  have b: "0 + 4 \<le> length (replicate 4 0 :: u8 list)" by simp
  show "\<exists>t. inet_ntop4 x = Some t" if "length x = 4" using inet_ntop4_join [OF that] by blast
  show "pton4_bytes_of t = Some x" if "length x = 4" "inet_ntop4 x = Some t"
    using inet_pton4_at_complete(1) [OF b that(1), of "CHR ''/''"] that inet_ntop4_join [OF that(1)]
    by (simp add: pton4_bytes_of_def inet_pton4_def overwrite_all)
  assume "pton4_bytes_of t = Some x"
  then obtain rest where r: "inet_pton4_at (CHR ''/'') (replicate 4 0) 0 t = Some (v4_valid, x, rest)"
    by (auto simp: pton4_bytes_of_def inet_pton4_def split: option.splits inet_pton4_status.splits)
  from inet_pton4_at_sound [OF b r] inet_pton4_at_ok [OF b, of "CHR ''/''" t] r
  have "length x = 4 \<and> t = join_octets x" by (auto simp: is_valid4_def overwrite_all)
  then show "length x = 4" "inet_ntop4 x = Some t" by (simp_all add: inet_ntop4_join)
qed

lemma ends_at_slash: "ends_at (CHR ''/'') (CHR ''/'' # s)"
  by (simp add: ends_at_def)

lemma uint_le_128:
  fixes p :: u8
  assumes "p \<le> 128"
  shows "uint p \<noteq> -1 \<and> \<not> uint p > 128"
proof -
  have "uint p \<le> 128" using assms by (simp add: word_le_def)
  with uint_ge_0 [of p] show ?thesis by linarith
qed

text \<open>C2: Parsing what the IPv6 printer wrote gives the sixteen bytes back, for every address: alone,
  with any special character that is neither a hexadecimal digit nor a separator, and followed by
  a slash and a prefix length of at most 128. This covers the compressed run of zeros wherever it
  stands and the mixed notation of the IPv4-mapped addresses.\<close>

theorem inet_pton6_parses_printed:
  assumes "length src = 16" "length buf = 16" "inet_ntop6 src = Some t" "plain_special special" "p \<le> 128"
  shows "inet_pton6 special buf t = Some (v6_valid, src, [])
    \<and> inet_pton6_prefix (CHR ''/'') buf p0 (t @ CHR ''/'' # put_octet p) = Some (v6_valid_special, src, p, [])"
proof
  show "inet_pton6 special buf t = Some (v6_valid, src, [])"
    using pton6_ntop6 [OF assms(1,2,4,3), of "[]"] by simp
  from pton6_ntop6 [OF assms(1,2) plain_special_slash(1) assms(3), of "CHR ''/'' # put_octet p"]
  have "inet_pton6 (CHR ''/'') buf (t @ CHR ''/'' # put_octet p) =
      Some (v6_valid_special, src, CHR ''/'' # put_octet p)"
    by (simp add: ends_at_slash)
  with uint_le_128 [OF assms(5)]
  show "inet_pton6_prefix (CHR ''/'') buf p0 (t @ CHR ''/'' # put_octet p) = Some (v6_valid_special, src, p, [])"
    by (simp add: inet_pton6_prefix_def parse_prefix_put_octet)
qed

lemma inet_pton6_parses_printed_witness:
  "inet_pton6 (CHR '']'') (replicate 16 7) ''::ffff:1.2.3.4'' =
      Some (v6_valid, replicate 10 0 @ [255, 255, 1, 2, 3, 4], [])
   \<and> inet_pton6_prefix (CHR ''/'') (replicate 16 7) 255 (''::ffff:1.2.3.4'' @ CHR ''/'' # put_octet 96) =
      Some (v6_valid_special, replicate 10 0 @ [255, 255, 1, 2, 3, 4], 96, [])"
proof (rule inet_pton6_parses_printed)
  show "inet_ntop6 (replicate 10 0 @ [255, 255, 1, 2, 3, 4]) = Some ''::ffff:1.2.3.4''" by code_simp
qed simp_all

text \<open>The IPv6 printer compresses one run of zero groups exactly when there is a zero group, and
  that run is a longest one, the last of the longest; everything else is printed group by group.
  Only an address whose longest run is the first five groups, followed by the two bytes 0xFF, is
  printed in the mixed notation.\<close>

theorem inet_ntop6_compresses_longest_run:
  assumes "length src = 16"
  shows "\<exists>n i. longest_run src 8 n i \<and> inet_ntop6 src =
    (if i = 0 \<and> n = 5 \<and> src ! 10 = 0xFF \<and> src ! 11 = 0xFF
     then map_option (\<lambda>t. ''::ffff:'' @ t) (inet_ntop4 (drop 12 src))
     else if i = -1 then Some (groups_end src 0)
     else Some ((if i = 0 then '':'' else groups_sep src 0 (nat i)) @ '':'' @ groups_end src (nat i + n)))"
  by (rule inet_ntop6_groups [OF assms])

lemma inet_ntop6_compresses_longest_run_witness:
  "\<exists>n i. longest_run [0,1, 0,0, 0,0, 0,2, 0,0, 0,0, 0,3, 0,4] 8 n i \<and>
    Some ''1:0:0:2::3:4'' = (if i = 0 \<and> n = 5 \<and> (0::u8) = 0xFF \<and> (0::u8) = 0xFF
     then map_option (\<lambda>t. ''::ffff:'' @ t) (inet_ntop4 [0,3, 0,4])
     else if i = -1 then Some (groups_end [0,1, 0,0, 0,0, 0,2, 0,0, 0,0, 0,3, 0,4] 0)
     else Some ((if i = 0 then '':'' else groups_sep [0,1, 0,0, 0,0, 0,2, 0,0, 0,0, 0,3, 0,4] 0 (nat i))
            @ '':'' @ groups_end [0,1, 0,0, 0,0, 0,2, 0,0, 0,0, 0,3, 0,4] (nat i + n)))"
proof -
  let ?src = "[0,1, 0,0, 0,0, 0,2, 0,0, 0,0, 0,3, 0,4] :: u8 list"
  have "inet_ntop6 ?src = Some ''1:0:0:2::3:4''" by code_simp
  moreover have "length ?src = 16" "?src ! 10 = 0" "?src ! 11 = 0" "drop 12 ?src = [0,3, 0,4]" by simp_all
  ultimately show ?thesis using inet_ntop6_compresses_longest_run [of ?src] by (simp only:)
qed

text \<open>Two addresses with the same printed text are the same address, for both families: the
  printers lose nothing.\<close>

theorem printed_addresses_distinct:
  "(ntop6_wf a \<and> ntop6_wf b \<and> inet_ntop6 a = inet_ntop6 b \<longrightarrow> a = b) \<and>
   (length c = 4 \<and> length d = 4 \<and> inet_ntop4 c = inet_ntop4 d \<longrightarrow> c = d)"
  using ip6_text.print_inj ip4_text.print_inj by blast

lemma printed_addresses_distinct_witness:
  "inet_ntop6 (replicate 16 0) \<noteq> inet_ntop6 (replicate 16 1) \<and> inet_ntop4 [1, 2, 3, 4] \<noteq> inet_ntop4 [12, 3, 4, 5]"
  using printed_addresses_distinct [of "replicate 16 0" "replicate 16 1" "[1, 2, 3, 4]" "[12, 3, 4, 5]"]
  by (auto simp: ntop6_wf_def numeral_eq_Suc simp del: inet_ntop4_four)

end
