(* ===== verification/Ip_Validators.thy ===== *)
theory Ip_Validators
  imports Ascii_Validators Inet6_Roundtrip
begin

text \<open>
  \<^verbatim>\<open>webpp/ip/ip_validators.hpp\<close>: predicates on the texts of addresses and of
  subnet masks. A \<^verbatim>\<open>remove_prefix\<close> past the end of the view is undefined
  behaviour and gives \<^const>\<open>None\<close>.
\<close>

section \<open>Subnet masks\<close>

text \<open>The loop shifts the leading ones out; it ends because each round drops a set bit.\<close>

definition set_bits_count :: "'w::len word \<Rightarrow> nat" where
  "set_bits_count w = card {i. i < LENGTH('w) \<and> bit w i}"

definition top_mask :: "'w::len word" where
  "top_mask = push_bit (LENGTH('w) - 1) 1"

definition shl1 :: "'w::len word \<Rightarrow> 'w word" where
  "shl1 w = push_bit 1 w"

lemma bit_top_mask: "bit (top_mask :: 'w::len word) i \<longleftrightarrow> i = LENGTH('w) - 1"
  unfolding top_mask_def bit_push_bit_iff by (auto simp: bit_1_iff)

lemma bit_shl1: "bit (shl1 w) i \<longleftrightarrow> 0 < i \<and> i < LENGTH('w) \<and> bit w (i - 1)"
  for w :: "'w::len word"
  unfolding shl1_def bit_push_bit_iff by auto

lemma top_mask_iff: "octet AND top_mask = top_mask \<longleftrightarrow> bit octet (LENGTH('w) - 1)"
  for octet :: "'w::len word"
proof
  assume "octet AND top_mask = top_mask"
  then have "bit (octet AND top_mask) (LENGTH('w) - 1)" by (simp only: bit_top_mask)
  then show "bit octet (LENGTH('w) - 1)" by (simp add: bit_and_iff)
next
  assume "bit octet (LENGTH('w) - 1)"
  then show "octet AND top_mask = top_mask"
    by (intro bit_word_eqI) (auto simp: bit_top_mask bit_and_iff)
qed

lemma set_bits_shift:
  fixes octet :: "'w::len word"
  assumes "bit octet (LENGTH('w) - 1)"
  shows "set_bits_count (shl1 octet) < set_bits_count octet"
proof -
  let ?A = "{i. i < LENGTH('w) \<and> bit (shl1 octet) i}"
  let ?B = "{i. i < LENGTH('w) \<and> bit octet i}"
  have "(\<lambda>i. i - 1) ` ?A \<subseteq> ?B - {LENGTH('w) - 1}"
    by (auto simp: bit_shl1)
  moreover have "inj_on (\<lambda>i. i - 1) ?A" by (rule inj_onI) (auto simp: bit_shl1)
  moreover have "finite ?B" by simp
  ultimately have "card ?A \<le> card (?B - {LENGTH('w) - 1})" by (intro card_inj_on_le) auto
  also have "\<dots> < card ?B" using assms \<open>finite ?B\<close> by (intro card_Diff1_less) auto
  finally show ?thesis by (simp add: set_bits_count_def)
qed

function subnet_octet :: "'w::len word \<Rightarrow> bool" where
  "subnet_octet octet =
     (if octet AND top_mask = top_mask then subnet_octet (shl1 octet) else octet = 0)"
  by pat_completeness auto
termination by (relation "measure set_bits_count") (auto simp: top_mask_iff set_bits_shift)

declare subnet_octet.simps [simp del]

definition subnet_step :: "nat \<Rightarrow> string \<Rightarrow> (string option) option" where
  "subnet_step octet_index str =
     (let octet_str = takeWhile (\<lambda>c. c \<noteq> CHR ''.'') str in
      if length octet_str > 3 \<or> \<not> is_digit_str octet_str then Some None
      else (case to_uint octet_str of
              Inl _ \<Rightarrow> Some None
            | Inr octet_int \<Rightarrow>
                if octet_int > 255 \<or> subnet_octet octet_int then Some None
                else (let n = length octet_str + (if octet_index \<noteq> 3 then 1 else 0) in
                      if n \<le> length str then Some (Some (drop n str)) else None)))"

text \<open>\<^term>\<open>Some None\<close> is the early return of false.\<close>

definition is_subnet_str :: "string \<Rightarrow> bool option" where
  "is_subnet_str str =
     Option.bind (subnet_step 0 str) (\<lambda>r0. case r0 of None \<Rightarrow> Some False | Some str \<Rightarrow>
     Option.bind (subnet_step 1 str) (\<lambda>r1. case r1 of None \<Rightarrow> Some False | Some str \<Rightarrow>
     Option.bind (subnet_step 2 str) (\<lambda>r2. case r2 of None \<Rightarrow> Some False | Some str \<Rightarrow>
     Option.bind (subnet_step 3 str) (\<lambda>r3. case r3 of None \<Rightarrow> Some False | Some str \<Rightarrow>
       Some (str = [])))))"

definition is_subnet_octets :: "u8 list \<Rightarrow> bool" where
  "is_subnet_octets octets = list_all subnet_octet octets"

section \<open>Addresses\<close>

text \<open>The arrays are not initialised before the parsers write them; any content gives the same.\<close>

definition is_ipv4 :: "string \<Rightarrow> bool option" where
  "is_ipv4 str = map_option (\<lambda>(status, _, _). status = v4_valid)
     (inet_pton4 (CHR ''/'') (replicate 4 0) str)"

definition is_ipv4_prefix :: "string \<Rightarrow> bool option" where
  "is_ipv4_prefix str = map_option (\<lambda>(status, _, prefix_val, _). is_valid4 status \<and> prefix_val \<le> ipv4_max_prefix)
     (inet_pton4_prefix (CHR ''/'') (replicate 4 0) (inet_pton4_status_code v4_valid) str)"

definition is_ipv6 :: "string \<Rightarrow> bool option" where
  "is_ipv6 str = map_option (\<lambda>(status, _, _). status = v6_valid)
     (inet_pton6 (CHR ''/'') (replicate 16 0) str)"

definition is_ipv6_prefix :: "string \<Rightarrow> bool option" where
  "is_ipv6_prefix str = map_option (\<lambda>(status, _, prefix_val, _). is_valid6 status \<and> prefix_val \<le> ipv6_max_prefix)
     (inet_pton6_prefix (CHR ''/'') (replicate 16 0) (inet_pton6_status_code v6_valid) str)"

definition is_ip :: "string \<Rightarrow> bool option" where
  "is_ip str = Option.bind (is_ipv4 str) (\<lambda>b. if b then Some True else is_ipv6 str)"

section \<open>A subnet octet is a run of ones followed by zeros\<close>

definition leading_ones :: "'w::len word \<Rightarrow> bool" where
  "leading_ones w \<longleftrightarrow> (\<forall>i j. i < j \<and> j < LENGTH('w) \<and> bit w i \<longrightarrow> bit w j)"

lemma leading_ones_shl1:
  fixes w :: "'w::len word"
  assumes "bit w (LENGTH('w) - 1)"
  shows "leading_ones (shl1 w) \<longleftrightarrow> leading_ones w"
proof
  assume l: "leading_ones (shl1 w)"
  have "bit w j" if "i < j" "j < LENGTH('w)" "bit w i" for i j
  proof (cases "Suc j < LENGTH('w)")
    case True
    with that l have "bit (shl1 w) (Suc j)"
      unfolding leading_ones_def by (elim allE [of _ "Suc i"] allE [of _ "Suc j"]) (auto simp: bit_shl1)
    then show ?thesis by (simp add: bit_shl1)
  next
    case False
    with that(2) have "j = LENGTH('w) - 1" by simp
    with assms show ?thesis by simp
  qed
  then show "leading_ones w" by (auto simp: leading_ones_def)
next
  assume "leading_ones w"
  then have "bit w (j - 1)" if "0 < i" "i < j" "j < LENGTH('w)" "bit w (i - 1)" for i j
    unfolding leading_ones_def using that by (elim allE [of _ "i - 1"] allE [of _ "j - 1"]) auto
  then show "leading_ones (shl1 w)" by (auto simp: leading_ones_def bit_shl1)
qed

lemma leading_ones_no_top:
  fixes w :: "'w::len word"
  assumes "\<not> bit w (LENGTH('w) - 1)"
  shows "leading_ones w \<longleftrightarrow> w = 0"
proof
  assume l: "leading_ones w"
  show "w = 0"
  proof (rule bit_word_eqI)
    fix i assume "i < LENGTH('w)"
    then have "i < LENGTH('w) - 1 \<or> i = LENGTH('w) - 1" by linarith
    with l assms show "bit w i = bit (0 :: 'w word) i" unfolding leading_ones_def by auto
  qed
qed (simp add: leading_ones_def)

lemma subnet_octet_iff: "subnet_octet w \<longleftrightarrow> leading_ones w" for w :: "'w::len word"
proof (induction w rule: subnet_octet.induct)
  case (1 w)
  show ?case
  proof (cases "w AND top_mask = top_mask")
    case True
    with 1 show ?thesis
      by (subst subnet_octet.simps) (simp add: leading_ones_shl1 top_mask_iff)
  next
    case False
    then show ?thesis
      by (subst subnet_octet.simps) (simp add: leading_ones_no_top top_mask_iff)
  qed
qed

lemma subnet_octet_small:
  fixes n :: u32
  assumes "n \<le> 255"
  shows "subnet_octet n \<longleftrightarrow> n = 0"
proof -
  have "\<not> bit n 31"
  proof -
    have "unat n \<le> 255" using assms by (simp add: word_le_nat_alt)
    then have "\<not> bit (unat n) 31" by (simp add: bit_iff_odd)
    then show ?thesis by (simp add: bit_unsigned_iff)
  qed
  then show ?thesis by (simp add: subnet_octet_iff leading_ones_no_top)
qed

text \<open>A byte is a valid octet of a subnet mask exactly when its set bits are leading ones, and the
  mask given as four octets is accepted exactly when each octet is such a byte on its own; the
  octets are not compared with each other.\<close>

theorem is_subnet_octets_iff:
  "is_subnet_octets octets \<longleftrightarrow> list_all leading_ones octets"
  by (simp add: is_subnet_octets_def subnet_octet_iff list_all_iff)

lemma is_subnet_octets_not_contiguous: "is_subnet_octets [0, 255, 0, 255]"
  by code_simp

section \<open>The textual subnet mask\<close>

definition octet_text :: "string \<Rightarrow> bool" where
  "octet_text t \<longleftrightarrow> t \<noteq> [] \<and> length t \<le> 3 \<and> list_all is_digit t \<and> 1 \<le> digits_value t \<and> digits_value t \<le> 255"

lemma octet_text_no_dot: "octet_text t \<Longrightarrow> \<forall>c \<in> set t. c \<noteq> CHR ''.''"
  by (auto simp: octet_text_def list_all_iff)

lemma subnet_step_octet:
  assumes t: "t = takeWhile (\<lambda>c. c \<noteq> CHR ''.'') str"
  shows "subnet_step i str =
    (if \<not> octet_text t then Some None
     else (let n = length t + (if i \<noteq> 3 then 1 else 0) in
           if n \<le> length str then Some (Some (drop n str)) else None))"
proof (cases "length t \<le> 3 \<and> is_digit_str t")
  case False
  then show ?thesis
    by (auto simp: subnet_step_def Let_def octet_text_def is_digit_str_iff simp flip: t)
next
  case True
  then have dig: "t \<noteq> []" "list_all is_digit t" by (simp_all add: is_digit_str_iff)
  have "digits_value t < 10 ^ 3"
    using digits_value_bound [OF dig(2)] power_increasing [of "length t" 3 "10 :: nat"] True by auto
  then have u: "unat (of_nat (digits_value t) :: u32) = digits_value t" by (simp add: unat_of_nat_u32_small)
  then have le: "(of_nat (digits_value t) :: u32) \<le> 255 \<longleftrightarrow> digits_value t \<le> 255"
    by (simp add: word_le_nat_alt)
  have "(of_nat (digits_value t) :: u32) = 0 \<longleftrightarrow> digits_value t = 0"
    using u by (metis unat_eq_0)
  then have "octet_text t \<longleftrightarrow> \<not> ((of_nat (digits_value t) :: u32) > 255 \<or> subnet_octet (of_nat (digits_value t) :: u32))"
    using subnet_octet_small [of "of_nat (digits_value t)"] le dig True by (auto simp: octet_text_def not_less)
  then show ?thesis
    using True to_uint_digits [OF dig] by (simp add: subnet_step_def Let_def flip: t)
qed

lemma subnet_step_Some:
  "subnet_step i str = Some (Some str') \<longleftrightarrow>
     (\<exists>t. octet_text t \<and> (if i = 3 then str = t @ str' \<and> (str' = [] \<or> hd str' = CHR ''.'')
                       else str = t @ CHR ''.'' # str'))"
  (is "?L \<longleftrightarrow> ?R")
proof
  define t where "t = takeWhile (\<lambda>c. c \<noteq> CHR ''.'') str"
  define d where "d = dropWhile (\<lambda>c. c \<noteq> CHR ''.'') str"
  have str: "str = t @ d" by (simp add: t_def d_def)
  have hd: "d = [] \<or> hd d = CHR ''.''"
    unfolding d_def using hd_dropWhile [of "\<lambda>c. c \<noteq> CHR ''.''" str] by blast
  assume ?L
  then have o: "octet_text t" and le: "length t + (if i \<noteq> 3 then 1 else 0) \<le> length str"
    and str': "str' = drop (length t + (if i \<noteq> 3 then 1 else 0)) str"
    by (auto simp: subnet_step_octet [OF t_def] Let_def split: if_splits)
  show ?R
  proof (cases "i = 3")
    case True
    with str' str have "str' = d" by simp
    with True o str hd show ?thesis by auto
  next
    case False
    with le str hd obtain d' where "d = CHR ''.'' # d'" by (cases d) auto
    with False str' str o show ?thesis by auto
  qed
next
  assume ?R
  then obtain t where t: "octet_text t" "if i = 3 then str = t @ str' \<and> (str' = [] \<or> hd str' = CHR ''.'')
    else str = t @ CHR ''.'' # str'" by blast
  then have "takeWhile (\<lambda>c. c \<noteq> CHR ''.'') str = t"
    using octet_text_no_dot [OF t(1)] by (cases str') (auto simp: takeWhile_append split: if_splits)
  from subnet_step_octet [OF this [symmetric], of i] t show ?L by (auto simp: Let_def split: if_splits)
qed

lemma bind_step_True:
  "Option.bind r (\<lambda>x. case x of None \<Rightarrow> Some False | Some s \<Rightarrow> f s) = Some True \<longleftrightarrow>
     (\<exists>s. r = Some (Some s) \<and> f s = Some True)"
  by (cases r) (auto split: option.splits)

text \<open>The textual subnet mask check accepts exactly the texts of four octets of one to three
  digits, separated by dots, whose values are all between 1 and 255: a zero octet is refused, and
  the bits of the octets are not looked at, so every such address counts as a mask.\<close>

theorem is_subnet_str_iff:
  "is_subnet_str str = Some True \<longleftrightarrow>
     (\<exists>a b c d. octet_text a \<and> octet_text b \<and> octet_text c \<and> octet_text d
        \<and> str = a @ CHR ''.'' # b @ CHR ''.'' # c @ CHR ''.'' # d)"
  unfolding is_subnet_str_def bind_step_True
  by (auto simp: subnet_step_Some)

text \<open>
  The mask of a network with 24 bits is refused, an ordinary address is accepted, and a text with
  too few dots removes a prefix longer than the view.
\<close>

lemma is_subnet_str_examples:
  "is_subnet_str ''255.255.255.0'' = Some False"
  "is_subnet_str ''1.2.3.4'' = Some True"
  "is_subnet_str ''1'' = None"
  by code_simp+

section \<open>Address texts\<close>

text \<open>The address checks are total, and they accept what the printers write: a text is an IPv4
  address exactly when it is the print of four octets, the print of every IPv6 address is an IPv6
  address, and both are accepted as an address.\<close>

theorem is_ip_accepts_printed:
  "is_ipv4 str = Some (\<exists>octets. length octets = 4 \<and> inet_ntop4 octets = Some str)
   \<and> is_ipv6 str \<noteq> None \<and> is_ip str \<noteq> None
   \<and> (\<not> is_ipv4 str = Some True \<or> is_ip str = Some True)
   \<and> (\<not> (\<exists>bytes. length bytes = 16 \<and> inet_ntop6 bytes = Some str) \<or>
        is_ipv6 str = Some True \<and> is_ip str = Some True)"
proof -
  have b: "0 + 4 \<le> length (replicate 4 0 :: u8 list)" by simp
  from inet_pton4_at_ok [OF b, of "CHR ''/''" str] obtain st buf' rest where
    r: "inet_pton4 (CHR ''/'') (replicate 4 0) str = Some (st, buf', rest)"
    and v: "st = v4_valid \<longrightarrow> rest = []"
    by (auto simp: inet_pton4_def)
  have v4: "is_ipv4 str = Some (\<exists>octets. length octets = 4 \<and> inet_ntop4 octets = Some str)"
  proof (cases "st = v4_valid")
    case True
    with r v have "pton4_bytes_of str = Some buf'" by (simp add: pton4_bytes_of_def)
    with ip4_text.parse_iff r True show ?thesis by (auto simp: is_ipv4_def)
  next
    case False
    then have "pton4_bytes_of str = None"
      using r by (auto simp: pton4_bytes_of_def split: inet_pton4_status.splits)
    with ip4_text.parse_print r False show ?thesis by (auto simp: is_ipv4_def)
  qed
  from inet_pton6_ok [of "replicate 16 0" "CHR ''/''" str] have v6: "is_ipv6 str \<noteq> None"
    by (auto simp: is_ipv6_def)
  have printed: "is_ipv6 str = Some True" if "length bytes = 16" "inet_ntop6 bytes = Some str" for bytes
    using pton6_ntop6 [OF that(1) _ plain_special_slash(1) that(2), of "replicate 16 0" "[]"]
    by (simp add: is_ipv6_def)
  have ip: "is_ip str = (if is_ipv4 str = Some True then Some True else is_ipv6 str)"
    by (simp add: is_ip_def v4)
  then have "is_ip str \<noteq> None" using v6 by (cases "is_ipv4 str = Some True") simp_all
  moreover have "is_ip str = Some True" if "is_ipv6 str = Some True" using that ip by simp
  ultimately show ?thesis using v4 v6 ip printed by (metis)
qed

lemma is_ip_accepts_printed_witness:
  "is_ipv6 ''::1'' = Some True \<and> is_ip ''::1'' = Some True"
proof -
  have "inet_ntop6 (replicate 15 0 @ [1]) = Some ''::1''" by code_simp
  then have "\<exists>bytes. length bytes = 16 \<and> inet_ntop6 bytes = Some ''::1''"
    by (intro exI [of _ "replicate 15 0 @ [1]"]) simp
  then show ?thesis using is_ip_accepts_printed [of "''::1''"] by blast
qed

text \<open>The check of an IPv4 address with a prefix accepts exactly the print of four octets, a slash
  and the print of a number of at most 32; an address without a prefix is not accepted.\<close>

theorem is_ipv4_prefix_iff:
  "is_ipv4_prefix str = Some True \<longleftrightarrow>
     (\<exists>octets t p. length octets = 4 \<and> inet_ntop4 octets = Some t \<and> p \<le> 32 \<and> str = t @ CHR ''/'' # put_octet p)"
proof
  assume acc: "is_ipv4_prefix str = Some True"
  then obtain st buf p rest where
    r: "inet_pton4_prefix (CHR ''/'') (replicate 4 0) 255 str = Some (st, buf, p, rest)"
    and st: "is_valid4 st" and p: "p \<le> 32"
    by (auto simp: is_ipv4_prefix_def ipv4_max_prefix_def)
  have "st = v4_valid_special"
  proof (rule ccontr)
    assume "st \<noteq> v4_valid_special"
    with st have "st = v4_valid" by (simp add: is_valid4_def)
    with r have "p = 255" by (auto simp: inet_pton4_prefix_def split: option.splits prod.splits if_splits)
    with p show False by simp
  qed
  with r have "inet_pton4_prefix (CHR ''/'') (replicate 4 0) 255 str = Some (v4_valid_special, buf, p, rest)"
    by simp
  then show "\<exists>octets t p. length octets = 4 \<and> inet_ntop4 octets = Some t \<and> p \<le> 32 \<and> str = t @ CHR ''/'' # put_octet p"
    by (simp add: inet_pton4_prefix_accepts) blast
next
  assume "\<exists>octets t p. length octets = 4 \<and> inet_ntop4 octets = Some t \<and> p \<le> 32 \<and> str = t @ CHR ''/'' # put_octet p"
  then obtain octets p where "inet_pton4_prefix (CHR ''/'') (replicate 4 0) 255 str = Some (v4_valid_special, octets, p, [])"
    "p \<le> 32"
    by (auto simp: inet_pton4_prefix_accepts)
  then show "is_ipv4_prefix str = Some True"
    by (simp add: is_ipv4_prefix_def is_valid4_def ipv4_max_prefix_def)
qed

end
