(* ===== verification/Ipv4.thy ===== *)
theory Ipv4
  imports Ip_Validators
begin

text \<open>
  \<^verbatim>\<open>webpp/ip/ipv4.hpp\<close>: the class \<^verbatim>\<open>ipv4\<close>, an address of
  32 bits and a byte that holds either a prefix length or the status of the parser. A shift by the
  width of the type or more is undefined behaviour and gives \<^const>\<open>None\<close>.
  The constructors that take a text or an array for the subnet share \<open>subnet_prefix_str\<close>
  and \<open>subnet_prefix_octets\<close>.
\<close>

section \<open>The state\<close>

datatype ipv4 = Ipv4 (ip4_data: u32) (ip4_prefix: u8)

text \<open>The defaulted comparison: the address first, then the prefix.\<close>

definition ipv4_less_eq :: "ipv4 \<Rightarrow> ipv4 \<Rightarrow> bool" where
  "ipv4_less_eq a b \<longleftrightarrow> ip4_data a < ip4_data b \<or> ip4_data a = ip4_data b \<and> ip4_prefix a \<le> ip4_prefix b"

definition ipv4_less :: "ipv4 \<Rightarrow> ipv4 \<Rightarrow> bool" where
  "ipv4_less a b \<longleftrightarrow> ip4_data a < ip4_data b \<or> ip4_data a = ip4_data b \<and> ip4_prefix a < ip4_prefix b"

instantiation ipv4 :: linorder
begin

definition less_eq_ipv4 :: "ipv4 \<Rightarrow> ipv4 \<Rightarrow> bool" where "less_eq_ipv4 = ipv4_less_eq"

definition less_ipv4 :: "ipv4 \<Rightarrow> ipv4 \<Rightarrow> bool" where "less_ipv4 = ipv4_less"

instance
  by standard (auto simp: less_eq_ipv4_def less_ipv4_def ipv4_less_eq_def ipv4_less_def intro: ipv4.expand)

end

definition prefix_status4 :: "inet_pton4_status \<Rightarrow> u8" where
  "prefix_status4 status = inet_pton4_status_code status"

abbreviation "no_prefix4 \<equiv> prefix_status4 v4_valid"

section \<open>Prefix lengths and subnets\<close>

text \<open>The loop over a mask with one bit; the flag says that it ran to its end.\<close>

function prefix_bits :: "'w::len word \<Rightarrow> 'w word \<Rightarrow> u8 \<Rightarrow> u8 \<times> bool" where
  "prefix_bits octets bmask prefix =
     (if bmask = 0 then (prefix, True)
      else if octets AND bmask = bmask then prefix_bits octets (drop_bit 1 bmask) (prefix + 1)
      else (prefix, False))"
  by pat_completeness auto
termination
proof (relation "measure (\<lambda>(_, bmask, _). unat bmask)")
  fix octets bmask :: "'w::len word" and prefix :: u8
  assume "bmask \<noteq> 0"
  then have "0 < unat bmask" by (simp add: unat_gt_0)
  then have "unat bmask div 2 < unat bmask" by simp
  moreover have "unat (drop_bit 1 bmask) = unat bmask div 2"
    unfolding unat_drop_bit_eq by (simp add: drop_bit_eq_div)
  ultimately show "((octets, drop_bit 1 bmask, prefix + 1), (octets, bmask, prefix)) \<in> measure (\<lambda>(_, bmask, _). unat bmask)"
    by simp
qed simp

declare prefix_bits.simps [simp del]

definition to_prefix_u32 :: "u32 \<Rightarrow> u8" where
  "to_prefix_u32 octets = fst (prefix_bits octets 0x80000000 0)"

fun to_prefix_octets_loop :: "u8 list \<Rightarrow> u8 \<Rightarrow> u8" where
  "to_prefix_octets_loop [] prefix = prefix"
| "to_prefix_octets_loop (octet # octets) prefix =
     (case prefix_bits octet 0x80 prefix of
        (prefix, True) \<Rightarrow> to_prefix_octets_loop octets prefix
      | (prefix, False) \<Rightarrow> prefix)"

definition to_prefix_octets :: "u8 list \<Rightarrow> u8" where
  "to_prefix_octets octets = to_prefix_octets_loop octets 0"

definition to_prefix_str :: "string \<Rightarrow> u8 option" where
  "to_prefix_str str =
     map_option (\<lambda>(status, bin, _). if status = v4_valid then to_prefix_octets bin else 0)
       (inet_pton4 (CHR ''/'') (replicate 4 0) str)"

definition shl_u32 :: "u32 \<Rightarrow> nat \<Rightarrow> u32 option" where
  "shl_u32 v n = (if n < 32 then Some (push_bit n v) else None)"

text \<open>The difference is computed in \<^verbatim>\<open>int\<close> and converted to 32 bits.\<close>

definition host_bits :: "u8 \<Rightarrow> nat" where
  "host_bits prefix = unat (of_int (32 - int (unat prefix)) :: u32)"

definition to_subnet :: "u8 \<Rightarrow> u32 option" where
  "to_subnet prefix = shl_u32 0xFFFFFFFF (host_bits prefix)"

definition u32_octets :: "u32 \<Rightarrow> u8 list" where
  "u32_octets d = [ucast (drop_bit 24 d AND 0xFF), ucast (drop_bit 16 d AND 0xFF),
     ucast (drop_bit 8 d AND 0xFF), ucast (d AND 0xFF)]"

definition to_subnet_array :: "u8 \<Rightarrow> u8 list option" where
  "to_subnet_array prefix = map_option u32_octets (to_subnet prefix)"

section \<open>Construction\<close>

definition parse_octets :: "u8 list \<Rightarrow> u32 option" where
  "parse_octets ip =
     Option.bind (load ip 0) (\<lambda>o0. Option.bind (load ip 1) (\<lambda>o1.
     Option.bind (load ip 2) (\<lambda>o2. Option.bind (load ip 3) (\<lambda>o3.
       Some (push_bit 24 (ucast o0) OR push_bit 16 (ucast o1) OR push_bit 8 (ucast o2) OR ucast o3)))))"

definition ipv4_default :: ipv4 where
  "ipv4_default = Ipv4 0 no_prefix4"

definition ipv4_parse :: "ipv4 \<Rightarrow> string \<Rightarrow> ipv4 option" where
  "ipv4_parse ip str =
     Option.bind (inet_pton4_prefix (CHR ''/'') (replicate 4 0) no_prefix4 str) (\<lambda>(res, bin, prefix, _).
       if is_valid4 res then map_option (\<lambda>data. Ipv4 data prefix) (parse_octets bin)
       else Some (Ipv4 (ip4_data ip) (prefix_status4 res)))"

definition checked_prefix4 :: "u8 \<Rightarrow> u8" where
  "checked_prefix4 prefix_val =
     (if prefix_val > ipv4_max_prefix \<and> prefix_val \<noteq> no_prefix4
      then prefix_status4 v4_invalid_prefix else prefix_val)"

definition ipv4_is_valid :: "ipv4 \<Rightarrow> bool" where
  "ipv4_is_valid ip \<longleftrightarrow> ip4_prefix ip \<le> ipv4_max_prefix \<or> ip4_prefix ip = no_prefix4"

definition subnet_prefix_str :: "string \<Rightarrow> u8 option" where
  "subnet_prefix_str subnet =
     Option.bind (is_subnet_str subnet) (\<lambda>ok.
       if ok then to_prefix_str subnet else Some (prefix_status4 v4_invalid_prefix))"

definition subnet_prefix_octets :: "u8 list \<Rightarrow> u8" where
  "subnet_prefix_octets subnet =
     (if is_subnet_octets subnet then to_prefix_octets subnet else prefix_status4 v4_invalid_prefix)"

definition ipv4_invalid :: ipv4 where
  "ipv4_invalid = Ipv4 0 (prefix_status4 v4_invalid_prefix)"

definition ipv4_of_int :: "u32 \<Rightarrow> u8 \<Rightarrow> ipv4" where
  "ipv4_of_int ip_addr prefix = Ipv4 ip_addr (checked_prefix4 prefix)"

definition ipv4_any :: ipv4 where "ipv4_any = ipv4_of_int 0 no_prefix4"
definition ipv4_loopback :: ipv4 where "ipv4_loopback = ipv4_of_int 0x7F000001 no_prefix4"
definition ipv4_broadcast :: ipv4 where "ipv4_broadcast = ipv4_of_int 0xFFFFFFFF no_prefix4"

definition ipv4_of_string :: "string \<Rightarrow> ipv4 option" where
  "ipv4_of_string ip_addr = ipv4_parse ipv4_default ip_addr"

definition ipv4_of_string_with :: "string \<Rightarrow> u8 option \<Rightarrow> ipv4 option" where
  "ipv4_of_string_with ip_addr prefix =
     Option.bind (ipv4_parse ipv4_default ip_addr) (\<lambda>ip.
       if ipv4_is_valid ip then map_option (Ipv4 (ip4_data ip)) prefix else Some ip)"

definition ipv4_of_string_subnet :: "string \<Rightarrow> string \<Rightarrow> ipv4 option" where
  "ipv4_of_string_subnet ip_addr subnet = ipv4_of_string_with ip_addr (subnet_prefix_str subnet)"

definition ipv4_of_string_octets :: "string \<Rightarrow> u8 list \<Rightarrow> ipv4 option" where
  "ipv4_of_string_octets ip_addr subnet = ipv4_of_string_with ip_addr (Some (subnet_prefix_octets subnet))"

definition ipv4_of_string_prefix :: "string \<Rightarrow> u8 \<Rightarrow> ipv4 option" where
  "ipv4_of_string_prefix ip_addr prefix_val = ipv4_of_string_with ip_addr (Some (checked_prefix4 prefix_val))"

definition ipv4_of_octets :: "u8 list \<Rightarrow> u8 \<Rightarrow> ipv4 option" where
  "ipv4_of_octets ip_addr prefix = map_option (\<lambda>d. Ipv4 d (checked_prefix4 prefix)) (parse_octets ip_addr)"

definition ipv4_of_octets_subnet :: "u8 list \<Rightarrow> string \<Rightarrow> ipv4 option" where
  "ipv4_of_octets_subnet ip_addr subnet =
     Option.bind (parse_octets ip_addr) (\<lambda>d. map_option (Ipv4 d) (subnet_prefix_str subnet))"

definition ipv4_of_octets_octets :: "u8 list \<Rightarrow> u8 list \<Rightarrow> ipv4 option" where
  "ipv4_of_octets_octets ip_addr subnet =
     map_option (\<lambda>d. Ipv4 d (subnet_prefix_octets subnet)) (parse_octets ip_addr)"

definition ipv4_of_int_subnet :: "u32 \<Rightarrow> string \<Rightarrow> ipv4 option" where
  "ipv4_of_int_subnet ip_addr subnet = map_option (Ipv4 ip_addr) (subnet_prefix_str subnet)"

section \<open>Assignment and comparison\<close>

definition ipv4_assign_string :: "ipv4 \<Rightarrow> string \<Rightarrow> ipv4 option" where
  "ipv4_assign_string ip ip_addr = map_option (\<lambda>ip. Ipv4 (ip4_data ip) no_prefix4) (ipv4_parse ip ip_addr)"

definition ipv4_assign_int :: "ipv4 \<Rightarrow> u32 \<Rightarrow> ipv4" where
  "ipv4_assign_int ip ip_addr = Ipv4 ip_addr no_prefix4"

datatype strong_ordering = so_less | so_equal | so_greater

definition spaceship :: "'a::linorder \<Rightarrow> 'a \<Rightarrow> strong_ordering" where
  "spaceship a b = (if a < b then so_less else if a = b then so_equal else so_greater)"

definition ipv4_compare_octets :: "ipv4 \<Rightarrow> u8 list \<Rightarrow> strong_ordering option" where
  "ipv4_compare_octets ip other = map_option (spaceship (ip4_data ip)) (parse_octets other)"

definition ipv4_compare_int :: "ipv4 \<Rightarrow> u32 \<Rightarrow> strong_ordering" where
  "ipv4_compare_int ip ip_addr = spaceship (ip4_data ip) ip_addr"

definition ipv4_compare_string :: "ipv4 \<Rightarrow> string \<Rightarrow> strong_ordering option" where
  "ipv4_compare_string ip ip_addr =
     map_option (\<lambda>other. spaceship (ip4_data other) (ip4_data ip)) (ipv4_of_string ip_addr)"

definition ipv4_eq_string :: "ipv4 \<Rightarrow> string \<Rightarrow> bool option" where
  "ipv4_eq_string ip ip_addr = map_option (\<lambda>other. ip4_data other = ip4_data ip) (ipv4_of_string ip_addr)"

definition ipv4_eq :: "ipv4 \<Rightarrow> ipv4 \<Rightarrow> bool" where
  "ipv4_eq ip ip_addr \<longleftrightarrow> ip4_prefix ip = ip4_prefix ip_addr \<and> ip4_data ip = ip4_data ip_addr"

definition ipv4_eq_int :: "ipv4 \<Rightarrow> u32 \<Rightarrow> bool" where
  "ipv4_eq_int ip ip_addr \<longleftrightarrow> ip4_data ip = ip_addr"

definition ipv4_eq_octets :: "ipv4 \<Rightarrow> u8 list \<Rightarrow> bool option" where
  "ipv4_eq_octets ip ip_addr = map_option (\<lambda>d. ip4_data ip = d) (parse_octets ip_addr)"

section \<open>Observers\<close>

definition ipv4_octets :: "ipv4 \<Rightarrow> u8 list" where
  "ipv4_octets ip = u32_octets (ip4_data ip)"

definition ipv4_to_string :: "ipv4 \<Rightarrow> string option" where
  "ipv4_to_string ip = inet_ntop4 (ipv4_octets ip)"

definition ipv4_in_range :: "ipv4 \<Rightarrow> ipv4 \<Rightarrow> ipv4 \<Rightarrow> bool" where
  "ipv4_in_range ip start finish \<longleftrightarrow> ip \<ge> start \<and> ip \<le> finish"

definition ipv4_set_prefix :: "ipv4 \<Rightarrow> u8 \<Rightarrow> ipv4" where
  "ipv4_set_prefix ip prefix_val = Ipv4 (ip4_data ip) (checked_prefix4 prefix_val)"

definition ipv4_set_prefix_str :: "ipv4 \<Rightarrow> string \<Rightarrow> ipv4 option" where
  "ipv4_set_prefix_str ip subnet = map_option (ipv4_set_prefix ip) (to_prefix_str subnet)"

definition ipv4_set_prefix_octets :: "ipv4 \<Rightarrow> u8 list \<Rightarrow> ipv4" where
  "ipv4_set_prefix_octets ip subnet = ipv4_set_prefix ip (to_prefix_octets subnet)"

definition ipv4_clear_prefix :: "ipv4 \<Rightarrow> ipv4" where
  "ipv4_clear_prefix ip = ipv4_set_prefix ip no_prefix4"

definition ipv4_has_prefix :: "ipv4 \<Rightarrow> bool" where
  "ipv4_has_prefix ip \<longleftrightarrow> ip4_prefix ip \<le> ipv4_max_prefix"

definition ipv4_has_valid_prefix :: "ipv4 \<Rightarrow> bool" where
  "ipv4_has_valid_prefix ip \<longleftrightarrow> ip4_prefix ip \<noteq> prefix_status4 v4_invalid_prefix"

definition ipv4_is_in_subnet :: "ipv4 \<Rightarrow> ipv4 \<Rightarrow> bool option" where
  "ipv4_is_in_subnet ip ip_addr =
     Option.bind (shl_u32 0xFFFFFFFF (host_bits (ip4_prefix ip_addr))) (\<lambda>m1.
     Option.bind (shl_u32 0xFFFFFFFF (host_bits (ip4_prefix ip_addr))) (\<lambda>m2.
       Some (ip4_data ip AND m1 = ip4_data ip_addr AND m2)))"

definition ipv4_in_net :: "ipv4 \<Rightarrow> u8 list \<Rightarrow> u8 \<Rightarrow> bool option" where
  "ipv4_in_net ip net prefix = Option.bind (ipv4_of_octets net prefix) (ipv4_is_in_subnet ip)"

definition ipv4_is_loopback :: "ipv4 \<Rightarrow> bool option" where
  "ipv4_is_loopback ip = ipv4_in_net ip [127, 0, 0, 0] 8"

definition ipv4_is_link_local :: "ipv4 \<Rightarrow> bool option" where
  "ipv4_is_link_local ip = ipv4_in_net ip [169, 254, 0, 0] 16"

definition ipv4_is_broadcast :: "ipv4 \<Rightarrow> bool" where
  "ipv4_is_broadcast ip \<longleftrightarrow> 0xFFFFFFFF = ip4_data ip"

definition ipv4_is_private :: "ipv4 \<Rightarrow> bool option" where
  "ipv4_is_private ip =
     Option.bind (ipv4_in_net ip [192, 168, 0, 0] 16) (\<lambda>class_C.
       if class_C then Some True
       else Option.bind (ipv4_of_octets [172, 16, 0, 0] no_prefix4) (\<lambda>class_B_start.
         Option.bind (ipv4_of_octets [172, 31, 255, 255] no_prefix4) (\<lambda>class_B_finish.
           if ipv4_in_range ip class_B_start class_B_finish then Some True
           else ipv4_in_net ip [10, 0, 0, 0] 8)))"

definition ipv4_is_nonroutable :: "ipv4 \<Rightarrow> bool option" where
  "ipv4_is_nonroutable ip =
     map_option (\<lambda>private. let ip_addr = ip4_data ip in
         private \<or> ip_addr \<le> 0x00FFFFFF
       \<or> ip_addr \<ge> 0xC0000000 \<and> ip_addr \<le> 0xC00000FF
       \<or> ip_addr \<ge> 0xC0000200 \<and> ip_addr \<le> 0xC00002FF
       \<or> ip_addr \<ge> 0xC6120000 \<and> ip_addr \<le> 0xC613FFFF
       \<or> ip_addr \<ge> 0xC6336400 \<and> ip_addr \<le> 0xC63364FF
       \<or> ip_addr \<ge> 0xCB007100 \<and> ip_addr \<le> 0xCB0071FF
       \<or> ip_addr \<ge> 0xE0000000 \<and> ip_addr \<le> 0xFFFFFFFF) (ipv4_is_private ip)"

definition ipv4_is_multicast :: "ipv4 \<Rightarrow> bool" where
  "ipv4_is_multicast ip \<longleftrightarrow> ip4_data ip AND 0xF0000000 = 0xE0000000"

definition ipv4_is_public :: "ipv4 \<Rightarrow> bool option" where
  "ipv4_is_public ip = map_option Not (ipv4_is_private ip)"

definition ipv4_is_zero :: "ipv4 \<Rightarrow> bool" where
  "ipv4_is_zero ip \<longleftrightarrow> ip4_data ip = 0"

definition ipv4_reversed :: "ipv4 \<Rightarrow> ipv4 option" where
  "ipv4_reversed ip =
     (let d = ip4_data ip in
      ipv4_of_octets [ucast (d AND 0xFF), ucast (drop_bit 8 d AND 0xFF), ucast (drop_bit 16 d AND 0xFF),
        ucast (drop_bit 24 d AND 0xFF)] (ip4_prefix ip))"

definition ipv4_mask :: "ipv4 \<Rightarrow> nat \<Rightarrow> ipv4 option" where
  "ipv4_mask ip num_bits =
     map_option (\<lambda>fragment. ipv4_of_int (ip4_data ip AND fragment) no_prefix4)
       (shl_u32 (NOT 0) (32 - min num_bits 32))"

definition ipv4_starts_with :: "ipv4 \<Rightarrow> ipv4 \<Rightarrow> nat \<Rightarrow> bool option" where
  "ipv4_starts_with ip ip_addr inp_prefix =
     Option.bind (ipv4_mask ip inp_prefix) (\<lambda>a. Option.bind (ipv4_mask ip_addr inp_prefix) (\<lambda>b.
       Some (ip4_data a = ip4_data b)))"

text \<open>The array form, for an array of at most four octets; the missing ones are zero.\<close>

definition ipv4_starts_with_octets :: "ipv4 \<Rightarrow> u8 list \<Rightarrow> nat \<Rightarrow> bool option" where
  "ipv4_starts_with_octets ip inp_octets inp_prefix =
     (if length inp_octets = 0 then Some (ipv4_is_zero ip)
      else Option.bind (ipv4_of_octets (inp_octets @ replicate (4 - length inp_octets) 0) no_prefix4)
             (\<lambda>ip_addr. ipv4_starts_with ip ip_addr inp_prefix))"

definition ipv4_status :: "ipv4 \<Rightarrow> inet_pton4_status option" where
  "ipv4_status ip =
     (if ip4_prefix ip \<le> ipv4_max_prefix then Some v4_valid else status4_of_code (ip4_prefix ip))"

definition ipv4_status_string :: "ipv4 \<Rightarrow> string option" where
  "ipv4_status_string ip = map_option status4_to_string (ipv4_status ip)"

end
