(* ===== verification/Ipv4_Laws.thy ===== *)
theory Ipv4_Laws
  imports Ipv4
begin

text \<open>
  The laws of the IPv4 class: octets and integers, prefix lengths and subnets, the printed form,
  the subnet tests and the ranges, and the invariant on the byte that holds the prefix or the
  status.
\<close>

section \<open>Octets and the integer\<close>

definition join4 :: "u8 \<Rightarrow> u8 \<Rightarrow> u8 \<Rightarrow> u8 \<Rightarrow> u32" where
  "join4 a b c d = push_bit 24 (ucast a) OR push_bit 16 (ucast b) OR push_bit 8 (ucast c) OR ucast d"

lemma parse_octets_four [simp]: "parse_octets [a, b, c, d] = Some (join4 a b c d)"
  by (simp add: parse_octets_def join4_def load_def nth_Cons_numeral_simps)

lemma bit_u8_to_u32: "bit (ucast w :: u32) i \<longleftrightarrow> i < 8 \<and> bit (w :: u8) i"
  using bit_imp_le_length [of w i] by (auto simp: bit_ucast_iff)

lemma bit_u32_to_u8: "bit (ucast w :: u8) i \<longleftrightarrow> i < 8 \<and> bit (w :: u32) i"
  by (auto simp: bit_ucast_iff)

lemma bit_join4:
  "bit (join4 a b c d) i \<longleftrightarrow>
     (if i < 8 then bit d i else if i < 16 then bit c (i - 8) else if i < 24 then bit b (i - 16)
      else i < 32 \<and> bit a (i - 24))"
  unfolding join4_def bit_or_iff bit_push_bit_iff bit_u8_to_u32 by auto

lemma bit_byte_mask: "bit (0xFF :: u32) i \<longleftrightarrow> i < 8"
proof -
  have "(0xFF :: u32) = mask 8" by (simp add: mask_eq_exp_minus_1)
  then show ?thesis by (simp only: bit_mask_iff) auto
qed

lemma bit_octet_of_0: "bit (ucast (w AND 0xFF) :: u8) i \<longleftrightarrow> i < 8 \<and> bit (w :: u32) i"
  unfolding bit_u32_to_u8 bit_and_iff bit_byte_mask by auto

lemma u32_octets_join4 [simp]: "u32_octets (join4 a b c d) = [a, b, c, d]"
  unfolding u32_octets_def
  by (simp only: list.inject simp_thms; intro conjI bit_word_eqI)
     (simp_all only: bit_octet_of_0 bit_drop_bit_eq o_apply bit_join4, simp_all)

lemma length_u32_octets [simp]: "length (u32_octets d) = 4"
  by (simp add: u32_octets_def)

lemma join4_octets:
  "join4 (ucast (drop_bit 24 d AND 0xFF)) (ucast (drop_bit 16 d AND 0xFF)) (ucast (drop_bit 8 d AND 0xFF))
     (ucast (d AND 0xFF)) = d"
  by (rule bit_word_eqI, simp only: bit_octet_of_0 bit_drop_bit_eq o_apply bit_join4) auto

lemma parse_u32_octets [simp]: "parse_octets (u32_octets d) = Some d"
  unfolding u32_octets_def parse_octets_four join4_octets ..

lemma parse_octets_of_four: "length bs = 4 \<Longrightarrow> \<exists>d. parse_octets bs = Some d \<and> u32_octets d = bs"
  by (auto simp: numeral_eq_Suc length_Suc_conv)

section \<open>Leading ones\<close>

text \<open>The number of set bits in a row from bit \<open>n - 1\<close> down.\<close>

fun leading_count :: "'w::len word \<Rightarrow> nat \<Rightarrow> nat" where
  "leading_count w 0 = 0"
| "leading_count w (Suc n) = (if bit w n then Suc (leading_count w n) else 0)"

lemma leading_count_le: "leading_count w n \<le> n"
  by (induction n) auto

lemma leading_count_cong: "(\<And>i. i < n \<Longrightarrow> bit v i = bit w i) \<Longrightarrow> leading_count v n = leading_count w n"
  by (induction n) auto

lemma leading_count_eq:
  "k \<le> n \<Longrightarrow> leading_count w n = k \<longleftrightarrow>
     (\<forall>i. n - k \<le> i \<and> i < n \<longrightarrow> bit w i) \<and> (k < n \<longrightarrow> \<not> bit w (n - k - 1))"
proof (induction n arbitrary: k)
  case 0
  then show ?case by simp
next
  case (Suc n)
  show ?case
  proof (cases k)
    case 0
    then show ?thesis by auto
  next
    case (Suc j)
    then have "j \<le> n" using Suc.prems by simp
    then have "(\<forall>i. Suc n - k \<le> i \<and> i < Suc n \<longrightarrow> bit w i) \<longleftrightarrow> bit w n \<and> (\<forall>i. n - j \<le> i \<and> i < n \<longrightarrow> bit w i)"
      using Suc by (auto simp: less_Suc_eq)
    with Suc.IH [OF \<open>j \<le> n\<close>] Suc show ?thesis by auto
  qed
qed

lemma leading_count_add:
  assumes "\<And>i. i < m \<Longrightarrow> bit v i = bit w (n + i)"
  shows "leading_count w (n + m) = (if leading_count v m = m then m + leading_count w n else leading_count v m)"
  using assms
proof (induction m)
  case 0
  then show ?case by simp
next
  case (Suc m)
  then show ?case using leading_count_le [of v m] by auto
qed

text \<open>The mask of the loop: one bit, and no bit after the last.\<close>

definition one_bit :: "nat \<Rightarrow> 'w::len word" where
  "one_bit n = (if n = 0 then 0 else push_bit (n - 1) 1)"

lemma bit_one_bit: "bit (one_bit n :: 'w::len word) i \<longleftrightarrow> 0 < n \<and> i = n - 1 \<and> i < LENGTH('w)"
  unfolding one_bit_def by (cases "n = 0") (simp, simp only: if_False bit_push_bit_iff bit_1_iff, auto)

lemma drop_one_bit: "Suc n \<le> LENGTH('w) \<Longrightarrow> drop_bit 1 (one_bit (Suc n) :: 'w::len word) = one_bit n"
  by (rule bit_word_eqI) (auto simp: bit_drop_bit_eq bit_one_bit)

lemma and_one_bit: "n < LENGTH('w) \<Longrightarrow> w AND one_bit (Suc n) = one_bit (Suc n) \<longleftrightarrow> bit (w :: 'w::len word) n"
proof
  assume n: "n < LENGTH('w)" and "w AND one_bit (Suc n) = one_bit (Suc n)"
  then have "bit (w AND one_bit (Suc n)) n" by (simp add: bit_one_bit)
  then show "bit w n" by (simp add: bit_and_iff)
next
  assume "bit w n"
  then show "w AND one_bit (Suc n) = one_bit (Suc n)"
    by (intro bit_word_eqI) (auto simp: bit_and_iff bit_one_bit)
qed

lemma one_bit_not_0: "n < LENGTH('w) \<Longrightarrow> (one_bit (Suc n) :: 'w::len word) \<noteq> 0"
proof
  assume "n < LENGTH('w)" "(one_bit (Suc n) :: 'w word) = 0"
  then have "bit (0 :: 'w word) n" using bit_one_bit [of "Suc n" n, where 'w = 'w] by simp
  then show False by simp
qed

lemma prefix_bits_count:
  "n \<le> LENGTH('w) \<Longrightarrow> prefix_bits (w :: 'w::len word) (one_bit n) p =
     (p + of_nat (leading_count w n), leading_count w n = n)"
proof (induction n arbitrary: p)
  case 0
  then show ?case by (subst prefix_bits.simps) (simp add: one_bit_def)
next
  case (Suc n)
  then have n: "n < LENGTH('w)" by simp
  have "prefix_bits w (one_bit (Suc n)) p = (if bit w n then prefix_bits w (one_bit n) (p + 1) else (p, False))"
    using one_bit_not_0 [OF n] and_one_bit [OF n, of w] drop_one_bit [OF Suc.prems]
    by (subst prefix_bits.simps) simp
  with Suc.IH n show ?case by simp
qed

section \<open>Prefix lengths\<close>

lemma one_bit_u32: "0x80000000 = (one_bit 32 :: u32)"
  by (simp add: one_bit_def)

lemma one_bit_u8: "0x80 = (one_bit 8 :: u8)"
  by (simp add: one_bit_def)

lemma to_prefix_u32_count: "to_prefix_u32 d = of_nat (leading_count d 32)"
  unfolding to_prefix_u32_def one_bit_u32 by (simp add: prefix_bits_count)

lemma leading_count_join4:
  "leading_count (join4 a b c d) 32 =
     (if leading_count a 8 = 8 then 8 + (if leading_count b 8 = 8 then 8 + (if leading_count c 8 = 8
        then 8 + leading_count d 8 else leading_count c 8) else leading_count b 8) else leading_count a 8)"
proof -
  let ?w = "join4 a b c d"
  have "leading_count ?w (24 + 8) = (if leading_count a 8 = 8 then 8 + leading_count ?w 24 else leading_count a 8)"
    by (rule leading_count_add) (simp add: bit_join4)
  moreover have "leading_count ?w (16 + 8) = (if leading_count b 8 = 8 then 8 + leading_count ?w 16 else leading_count b 8)"
    by (rule leading_count_add) (simp add: bit_join4)
  moreover have "leading_count ?w (8 + 8) = (if leading_count c 8 = 8 then 8 + leading_count ?w 8 else leading_count c 8)"
    by (rule leading_count_add) (simp add: bit_join4)
  moreover have "leading_count ?w 8 = leading_count d 8"
    by (rule leading_count_cong) (simp add: bit_join4)
  ultimately show ?thesis by (simp only: numeral_plus_numeral semiring_norm)
qed

lemma to_prefix_octets_four:
  "to_prefix_octets [a, b, c, d] = of_nat (leading_count (join4 a b c d) 32)"
proof -
  have step: "to_prefix_octets_loop (w # ws) p =
      (if leading_count w 8 = 8 then to_prefix_octets_loop ws (p + 8) else p + of_nat (leading_count w 8))"
    for w ws p
    unfolding to_prefix_octets_loop.simps one_bit_u8
    by (subst prefix_bits_count) (auto split: if_splits)
  show ?thesis
    unfolding to_prefix_octets_def leading_count_join4 step to_prefix_octets_loop.simps(1) by simp
qed

lemma leading_count_32_le: "leading_count w 32 \<le> 32"
  by (rule leading_count_le)

lemma to_prefix_octets_le:
  assumes "length bs = 4"
  shows "to_prefix_octets bs \<le> ipv4_max_prefix"
proof -
  from parse_octets_of_four [OF assms] obtain a b c d where "bs = [a, b, c, d]"
    by (auto simp: u32_octets_def)
  moreover have "unat (of_nat (leading_count (join4 a b c d) 32) :: u8) \<le> 32"
    using leading_count_32_le [of "join4 a b c d"] by (simp add: unat_of_nat_u8)
  ultimately show ?thesis by (simp add: to_prefix_octets_four ipv4_max_prefix_def word_le_nat_alt)
qed

lemma host_bits_le: "p \<le> 32 \<Longrightarrow> host_bits p = 32 - unat p"
proof -
  assume "p \<le> 32"
  then have le: "unat p \<le> 32" by (simp add: word_le_nat_alt)
  then have "(of_int (32 - int (unat p)) :: u32) = of_nat (32 - unat p)" by (simp add: of_nat_diff)
  moreover have "unat (of_nat (32 - unat p) :: u32) = 32 - unat p" by (rule unat_of_nat_u32) simp
  ultimately show ?thesis by (simp only: host_bits_def)
qed

lemma host_bits_gt:
  assumes "p > 32"
  shows "host_bits p \<ge> 32"
proof -
  have gt: "32 < unat p" "unat p < 256" using assms by (simp_all add: word_less_nat_alt)
  let ?n = "4294967328 - unat p"
  have le: "unat p \<le> 4294967328" using gt by linarith
  have "(of_nat ?n :: u32) = of_nat 4294967328 - of_nat (unat p)" using le by (rule of_nat_diff)
  also have "(of_nat 4294967328 :: u32) = 32" by simp
  finally have "(of_int (32 - int (unat p)) :: u32) = of_nat ?n" by simp
  moreover have "unat (of_nat ?n :: u32) = ?n" using gt by (intro unat_of_nat_u32) simp
  ultimately have "host_bits p = ?n" by (simp only: host_bits_def)
  then show ?thesis using gt by linarith
qed

lemma shl_host_bits:
  "shl_u32 w (host_bits p) = (if 1 \<le> p \<and> p \<le> 32 then Some (push_bit (32 - unat p) w) else None)"
proof -
  consider "p = 0" | "1 \<le> p" "p \<le> 32" | "p > 32"
    by (metis linorder_not_less not_less_iff_gr_or_eq word_gt_0 word_less_1 linorder_le_less_linear)
  then show ?thesis
  proof cases
    case 1
    then show ?thesis by (simp add: shl_u32_def host_bits_le)
  next
    case 2
    then have "0 < unat p" by (simp add: word_le_nat_alt)
    with 2 show ?thesis by (simp add: shl_u32_def host_bits_le)
  next
    case 3
    with host_bits_gt [OF 3] show ?thesis by (simp add: shl_u32_def not_le)
  qed
qed

lemma bit_high_mask: "bit (push_bit n 0xFFFFFFFF :: u32) i \<longleftrightarrow> n \<le> i \<and> i < 32"
proof -
  have "(0xFFFFFFFF :: u32) = mask 32" by (simp add: mask_eq_exp_minus_1)
  then show ?thesis by (simp only: bit_push_bit_iff bit_mask_iff) auto
qed

lemma bit_high_mask_not_0: "bit (push_bit n (NOT 0) :: u32) i \<longleftrightarrow> n \<le> i \<and> i < 32"
  unfolding bit_push_bit_iff bit_not_iff by auto

lemma and_high_mask_eq_iff:
  assumes "\<And>i. bit m i \<longleftrightarrow> n \<le> i \<and> i < 32"
  shows "(d AND m = e AND m) \<longleftrightarrow> drop_bit n d = drop_bit n (e :: u32)"
proof
  assume eq: "d AND m = e AND m"
  show "drop_bit n d = drop_bit n e"
  proof (rule bit_word_eqI)
    fix i
    have "bit (d AND m) (n + i) = bit (e AND m) (n + i)" using eq by simp
    then show "bit (drop_bit n d) i = bit (drop_bit n e) i"
      using assms [of "n + i"] bit_imp_le_length [of d "n + i"] bit_imp_le_length [of e "n + i"]
      by (auto simp: bit_and_iff bit_drop_bit_eq)
  qed
next
  assume eq: "drop_bit n d = drop_bit n e"
  have "bit d i = bit e i" if "n \<le> i" for i
  proof -
    have "bit (drop_bit n d) (i - n) = bit (drop_bit n e) (i - n)" using eq by simp
    with that show ?thesis by (simp add: bit_drop_bit_eq)
  qed
  then show "d AND m = e AND m"
    by (intro bit_word_eqI) (auto simp: bit_and_iff assms)
qed

text \<open>C22: Prefix lengths and subnets are inverse to each other: the integer and the octet form of the
  conversion to a prefix agree, a prefix from 1 to 32 is the prefix of its subnet, and exactly for
  the prefix 0 and those above 32 the shift of the conversion to a subnet is undefined.\<close>

theorem prefix_subnet_inverse:
  "to_prefix_octets (u32_octets d) = to_prefix_u32 d
   \<and> (to_subnet p = None \<longleftrightarrow> \<not> (1 \<le> p \<and> p \<le> 32))
   \<and> (case to_subnet p of None \<Rightarrow> p = 0 \<or> p > 32
        | Some subnet \<Rightarrow> to_prefix_u32 subnet = p \<and> to_prefix_octets (u32_octets subnet) = p)"
proof -
  have eq: "to_prefix_octets (u32_octets d) = to_prefix_u32 d" for d
    unfolding to_prefix_u32_count u32_octets_def to_prefix_octets_four join4_octets ..
  have "to_prefix_u32 (push_bit (32 - unat p) 0xFFFFFFFF) = p" if "1 \<le> p" "p \<le> 32"
  proof -
    have p: "0 < unat p" "unat p \<le> 32" using that by (simp_all add: word_le_nat_alt)
    have "leading_count (push_bit (32 - unat p) 0xFFFFFFFF :: u32) 32 = unat p"
      using p by (subst leading_count_eq) (auto simp: bit_high_mask)
    then show ?thesis by (simp add: to_prefix_u32_count)
  qed
  moreover have "p = 0 \<or> p > 32" if "\<not> (1 \<le> p \<and> p \<le> 32)"
    using that by (auto simp: not_le word_less_1)
  ultimately show ?thesis by (simp add: eq to_subnet_def shl_host_bits)
qed

end
