(* ===== verification/Ipv4_Class.thy ===== *)
theory Ipv4_Class
  imports Ipv4_Laws
begin

text \<open>
  The contract of the class \<^verbatim>\<open>ipv4\<close>: its subnet tests and ranges, the text
  constructor and the printer, and the invariant on the byte that holds a prefix or a status.
\<close>

section \<open>Subnets and ranges\<close>

lemma is_in_subnet_iff:
  "ipv4_is_in_subnet ip net =
     (if 1 \<le> ip4_prefix net \<and> ip4_prefix net \<le> 32
      then Some (drop_bit (32 - unat (ip4_prefix net)) (ip4_data ip) =
                 drop_bit (32 - unat (ip4_prefix net)) (ip4_data net))
      else None)"
  by (simp add: ipv4_is_in_subnet_def shl_host_bits and_high_mask_eq_iff [OF bit_high_mask])

lemma drop_bit_u32_eq_iff:
  fixes d e :: u32
  shows "drop_bit n d = drop_bit n e \<longleftrightarrow> unat d div 2 ^ n = unat e div 2 ^ n"
proof -
  have "drop_bit n d = drop_bit n e \<longleftrightarrow> unat (drop_bit n d) = unat (drop_bit n e)"
    by (simp only: word_unat_eq_iff)
  then show ?thesis unfolding unat_drop_bit_eq by (simp add: drop_bit_eq_div)
qed

lemma div_eq_iff_range:
  fixes n m k :: nat
  assumes "0 < m"
  shows "n div m = k \<longleftrightarrow> k * m \<le> n \<and> n \<le> k * m + (m - 1)"
proof
  assume "n div m = k"
  then show "k * m \<le> n \<and> n \<le> k * m + (m - 1)"
    using div_times_less_eq_dividend [of n m] dividend_less_div_times [OF assms, of n] by auto
next
  assume "k * m \<le> n \<and> n \<le> k * m + (m - 1)"
  then show "n div m = k" using assms by (intro div_nat_eqI) (auto simp: mult.commute)
qed

lemma in_net_range:
  assumes "length net = 4" "parse_octets net = Some e" "1 \<le> p" "p \<le> 32"
    "unat e mod 2 ^ (32 - unat p) = 0"
  shows "ipv4_in_net ip net p =
    Some (unat e \<le> unat (ip4_data ip) \<and> unat (ip4_data ip) \<le> unat e + (2 ^ (32 - unat p) - 1))"
proof -
  let ?m = "(2::nat) ^ (32 - unat p)"
  have cp: "checked_prefix4 p = p" using leD [OF assms(4)] by (simp add: checked_prefix4_def ipv4_max_prefix_def)
  have e: "unat e div ?m * ?m = unat e" using assms(5) by (metis add.right_neutral div_mult_mod_eq)
  have "ipv4_in_net ip net p = Some (unat (ip4_data ip) div ?m = unat e div ?m)"
    using assms(2-4) cp
    by (simp add: ipv4_in_net_def ipv4_of_octets_def is_in_subnet_iff drop_bit_u32_eq_iff)
  then show ?thesis by (subst (asm) div_eq_iff_range) (simp_all add: e)
qed

lemma join4_values:
  "unat (join4 127 0 0 0) = 0x7F000000" "unat (join4 169 254 0 0) = 0xA9FE0000"
  "unat (join4 192 168 0 0) = 0xC0A80000" "unat (join4 10 0 0 0) = 0x0A000000"
  "join4 172 16 0 0 = 0xAC100000" "join4 172 31 255 255 = 0xAC1FFFFF"
  by (simp_all add: join4_def)

text \<open>The subnet test compares the leading bits given by the prefix of the other address and is
  undefined when that prefix is missing or zero. The loopback and link local tests are the ranges
  127.0.0.0/8 and 169.254.0.0/16, and the private test is 10.0.0.0/8, 192.168.0.0/16 and 172.16.0.0/12, except
  that the very first address of the latter is not private when it carries a prefix, because the
  comparison of two addresses also compares their prefixes.\<close>

theorem ipv4_subnet_ranges:
  "ipv4_is_in_subnet ip net =
     (if 1 \<le> ip4_prefix net \<and> ip4_prefix net \<le> 32
      then Some (drop_bit (32 - unat (ip4_prefix net)) (ip4_data ip) =
                 drop_bit (32 - unat (ip4_prefix net)) (ip4_data net))
      else None)
   \<and> ipv4_is_loopback ip = Some (0x7F000000 \<le> ip4_data ip \<and> ip4_data ip \<le> 0x7FFFFFFF)
   \<and> ipv4_is_link_local ip = Some (0xA9FE0000 \<le> ip4_data ip \<and> ip4_data ip \<le> 0xA9FEFFFF)
   \<and> ipv4_is_private ip = Some
        (0x0A000000 \<le> ip4_data ip \<and> ip4_data ip \<le> 0x0AFFFFFF
         \<or> 0xC0A80000 \<le> ip4_data ip \<and> ip4_data ip \<le> 0xC0A8FFFF
         \<or> 0xAC100000 \<le> ip4_data ip \<and> ip4_data ip \<le> 0xAC1FFFFF
            \<and> (if ip4_data ip = 0xAC100000 then ip4_prefix ip = 255 else True))"
proof -
  have top: "w \<le> (255 :: u8)" for w
  proof -
    have "unat w \<le> 255" using unat_u8_less [of w] by linarith
    then show ?thesis by (simp add: word_le_nat_alt)
  qed
  then have eq255: "255 \<le> w \<longleftrightarrow> w = (255 :: u8)" for w by (metis order_antisym order_refl)
  have lo: "ipv4_is_loopback ip = Some (0x7F000000 \<le> ip4_data ip \<and> ip4_data ip \<le> 0x7FFFFFFF)"
    unfolding ipv4_is_loopback_def
    by (subst in_net_range [where e = "join4 127 0 0 0"]) (simp_all add: join4_values word_le_nat_alt)
  have ll: "ipv4_is_link_local ip = Some (0xA9FE0000 \<le> ip4_data ip \<and> ip4_data ip \<le> 0xA9FEFFFF)"
    unfolding ipv4_is_link_local_def
    by (subst in_net_range [where e = "join4 169 254 0 0"]) (simp_all add: join4_values word_le_nat_alt)
  have a: "ipv4_in_net ip [10, 0, 0, 0] 8 = Some (0x0A000000 \<le> ip4_data ip \<and> ip4_data ip \<le> 0x0AFFFFFF)"
    by (subst in_net_range [where e = "join4 10 0 0 0"]) (simp_all add: join4_values word_le_nat_alt)
  have c: "ipv4_in_net ip [192, 168, 0, 0] 16 = Some (0xC0A80000 \<le> ip4_data ip \<and> ip4_data ip \<le> 0xC0A8FFFF)"
    by (subst in_net_range [where e = "join4 192 168 0 0"]) (simp_all add: join4_values word_le_nat_alt)
  have b: "ipv4_in_range ip (Ipv4 0xAC100000 255) (Ipv4 0xAC1FFFFF 255) \<longleftrightarrow>
      0xAC100000 \<le> ip4_data ip \<and> ip4_data ip \<le> 0xAC1FFFFF \<and> (ip4_data ip \<noteq> 0xAC100000 \<or> ip4_prefix ip = 255)"
    unfolding ipv4_in_range_def less_eq_ipv4_def ipv4_less_eq_def ipv4.sel eq255
    using top by (auto simp: order.order_iff_strict)
  have of: "ipv4_of_octets [172, 16, 0, 0] no_prefix4 = Some (Ipv4 0xAC100000 255)"
    "ipv4_of_octets [172, 31, 255, 255] no_prefix4 = Some (Ipv4 0xAC1FFFFF 255)"
    by (simp_all add: ipv4_of_octets_def join4_values checked_prefix4_def prefix_status4_def)
  show ?thesis
    unfolding ipv4_is_private_def a c of Option.bind.simps b using is_in_subnet_iff [of ip net] lo ll by auto
qed

section \<open>Texts\<close>

lemma no_prefix4_val: "no_prefix4 = 255"
  by (simp add: prefix_status4_def)

lemma pton4_prefix_total:
  "\<exists>st buf p rest. inet_pton4_prefix (CHR ''/'') (replicate 4 0) p0 str = Some (st, buf, p, rest)
     \<and> length buf = 4 \<and> (is_valid4 st \<longrightarrow> p = p0 \<and> inet_ntop4 buf = Some str \<or>
          p \<le> 32 \<and> (\<exists>t. inet_ntop4 buf = Some t \<and> str = t @ CHR ''/'' # put_octet p))"
proof -
  have b: "0 + 4 \<le> length (replicate 4 0 :: u8 list)" by simp
  from inet_pton4_at_ok [OF b, of "CHR ''/''" str] obtain st buf rest where
    r: "inet_pton4_at (CHR ''/'') (replicate 4 0) 0 str = Some (st, buf, rest)" "length buf = 4"
      "st = v4_valid_special \<longrightarrow> rest \<noteq> [] \<and> hd rest = CHR ''/''" "st = v4_valid \<longrightarrow> rest = []" by auto
  then have r': "inet_pton4 (CHR ''/'') (replicate 4 0) str = Some (st, buf, rest)" by (simp add: inet_pton4_def)
  have valid: "inet_ntop4 buf = Some str" if "st = v4_valid"
  proof -
    have "is_valid4 st" using that by (simp add: is_valid4_def)
    from inet_pton4_at_sound [OF b r(1) this] r(4) that show ?thesis by (auto simp: overwrite_all inet_ntop4_join)
  qed
  obtain q rest' where q: "parse_prefix (tl rest) = (q, rest')" by (cases "parse_prefix (tl rest)")
  show ?thesis
  proof (cases "st = v4_valid_special")
    case False
    with r' r(2) valid show ?thesis by (auto simp: inet_pton4_prefix_def is_valid4_def)
  next
    case True
    show ?thesis
    proof (cases "q = -1 \<or> q > 32")
      case True
      with r' r(2,3) q \<open>st = v4_valid_special\<close> show ?thesis by (simp add: inet_pton4_prefix_def is_valid4_def)
    next
      case False
      with r' r(2,3) q True have ok: "inet_pton4_prefix (CHR ''/'') (replicate 4 0) p0 str =
          Some (v4_valid_special, buf, of_int q, rest')"
        by (simp add: inet_pton4_prefix_def)
      have "length (replicate 4 0 :: u8 list) = 4" "\<not> is_digit CHR ''/''" "CHR ''/'' \<noteq> CHR ''.''" by simp_all
      from iffD1 [OF inet_pton4_prefix_accepts [OF this] ok] ok show ?thesis by blast
    qed
  qed
qed

lemma ipv4_parse_total:
  obtains (plain) d where "ipv4_parse ip str = Some (Ipv4 d no_prefix4)" "inet_ntop4 (u32_octets d) = Some str"
  | (prefixed) d p t where "ipv4_parse ip str = Some (Ipv4 d p)" "p \<le> 32"
      "inet_ntop4 (u32_octets d) = Some t" "str = t @ CHR ''/'' # put_octet p"
  | (error) st where "ipv4_parse ip str = Some (Ipv4 (ip4_data ip) (prefix_status4 st))" "\<not> is_valid4 st"
proof -
  from pton4_prefix_total [of no_prefix4 str] obtain st buf p rest where
    r: "inet_pton4_prefix (CHR ''/'') (replicate 4 0) no_prefix4 str = Some (st, buf, p, rest)" "length buf = 4"
    and v: "is_valid4 st \<longrightarrow> p = no_prefix4 \<and> inet_ntop4 buf = Some str \<or>
          p \<le> 32 \<and> (\<exists>t. inet_ntop4 buf = Some t \<and> str = t @ CHR ''/'' # put_octet p)" by blast
  from parse_octets_of_four [OF r(2)] obtain d where d: "parse_octets buf = Some d" "u32_octets d = buf" by blast
  have eq: "ipv4_parse ip str = (if is_valid4 st then Some (Ipv4 d p) else Some (Ipv4 (ip4_data ip) (prefix_status4 st)))"
    using r d by (simp add: ipv4_parse_def)
  show thesis
    using eq v d plain prefixed error by (cases "is_valid4 st") auto
qed

lemma invalid_status4_not_valid: "\<not> is_valid4 st \<Longrightarrow> \<not> ipv4_is_valid (Ipv4 d (prefix_status4 st))"
  by (cases st) (simp_all add: ipv4_is_valid_def is_valid4_def prefix_status4_def ipv4_max_prefix_def)

text \<open>The text constructor is total and valid exactly for the addresses and the addresses with a
  prefix length: a valid result is the address whose print is the text, without a prefix, or
  followed by a slash and its prefix. An invalid one is 0.0.0.0 with the status of the parser.\<close>

lemma ipv4_of_string_valid_iff:
  "\<exists>ip. ipv4_of_string str = Some ip
   \<and> (ipv4_is_valid ip \<longleftrightarrow>
        (\<exists>d. inet_ntop4 (u32_octets d) = Some str \<and> ip = Ipv4 d no_prefix4) \<or>
        (\<exists>d p t. inet_ntop4 (u32_octets d) = Some t \<and> p \<le> 32 \<and> str = t @ CHR ''/'' # put_octet p
           \<and> ip = Ipv4 d p))
   \<and> (ipv4_is_valid ip \<or> (\<exists>st. ip = Ipv4 0 (prefix_status4 st) \<and> ipv4_status ip = Some st))"
proof (cases rule: ipv4_parse_total [of ipv4_default str])
  case (plain d)
  then show ?thesis by (auto simp: ipv4_of_string_def ipv4_is_valid_def)
next
  case (prefixed d p t)
  then show ?thesis by (auto simp: ipv4_of_string_def ipv4_is_valid_def ipv4_max_prefix_def)
next
  case (error st)
  then have "\<not> ipv4_is_valid (Ipv4 0 (prefix_status4 st))" by (simp add: invalid_status4_not_valid)
  moreover have "ipv4_status (Ipv4 0 (prefix_status4 st)) = Some st"
    using calculation by (simp add: ipv4_status_def ipv4_is_valid_def) (simp add: prefix_status4_def)
  ultimately show ?thesis
    using error by (auto simp: ipv4_of_string_def ipv4_default_def ipv4_is_valid_def ipv4_max_prefix_def)
qed

text \<open>The class as a textual format: the addresses without a prefix.\<close>

definition ipv4_checked_of_string :: "string \<Rightarrow> ipv4 option" where
  "ipv4_checked_of_string str =
     (case ipv4_of_string str of Some ip \<Rightarrow> if ipv4_is_valid ip then Some ip else None | None \<Rightarrow> None)"

lemma ipv4_of_string_print:
  assumes "inet_ntop4 (u32_octets d) = Some str"
  shows "ipv4_of_string str = Some (Ipv4 d no_prefix4)"
proof -
  have b: "0 + 4 \<le> length (replicate 4 0 :: u8 list)" by simp
  have "str = join_octets (u32_octets d)" using assms inet_ntop4_join [of "u32_octets d"] by simp
  with inet_pton4_at_complete(1) [OF b, of "u32_octets d" "CHR ''/''"]
  have "inet_pton4 (CHR ''/'') (replicate 4 0) str = Some (v4_valid, u32_octets d, [])"
    by (simp add: inet_pton4_def overwrite_all)
  then show ?thesis
    by (simp add: ipv4_of_string_def ipv4_parse_def inet_pton4_prefix_def is_valid4_def)
qed

interpretation ipv4_text: text_codec "\<lambda>ip. ip4_prefix ip = no_prefix4" ipv4_to_string ipv4_checked_of_string
proof
  fix ip t
  assume wf: "ip4_prefix ip = no_prefix4"
  show "\<exists>t. ipv4_to_string ip = Some t"
    using inet_ntop4_join [of "u32_octets (ip4_data ip)"] by (simp add: ipv4_to_string_def ipv4_octets_def)
  assume "ipv4_to_string ip = Some t"
  then have "ipv4_of_string t = Some (Ipv4 (ip4_data ip) no_prefix4)"
    by (intro ipv4_of_string_print) (simp add: ipv4_to_string_def ipv4_octets_def)
  moreover have "Ipv4 (ip4_data ip) no_prefix4 = ip" using wf by (cases ip) simp
  ultimately show "ipv4_checked_of_string t = Some ip"
    using wf by (simp add: ipv4_checked_of_string_def ipv4_is_valid_def)
qed

text \<open>Printing an IPv4 address and constructing an address from the text gives it back, without
  its prefix; so addresses with the same text have the same 32 bits.\<close>

theorem ipv4_print_parse:
  "Option.bind (ipv4_to_string ip) ipv4_checked_of_string = Some (ipv4_clear_prefix ip)
   \<and> (ipv4_to_string ip = ipv4_to_string ip' \<longleftrightarrow> ip4_data ip = ip4_data ip')"
proof -
  have clear: "ip4_prefix (ipv4_clear_prefix ip) = no_prefix4"
    "ipv4_to_string (ipv4_clear_prefix ip) = ipv4_to_string ip"
    "ip4_data (ipv4_clear_prefix ip) = ip4_data ip" for ip
    by (simp_all add: ipv4_clear_prefix_def ipv4_set_prefix_def checked_prefix4_def ipv4_to_string_def ipv4_octets_def)
  have "Option.bind (ipv4_to_string ip) ipv4_checked_of_string = Some (ipv4_clear_prefix ip)"
    using ipv4_text.round_trip [OF clear(1) [of ip]] clear(2) by simp
  moreover have "ip4_data ip = ip4_data ip'" if "ipv4_to_string ip = ipv4_to_string ip'"
    using ipv4_text.print_inj [OF clear(1) [of ip] clear(1) [of ip']] that clear(2,3) by metis
  ultimately show ?thesis by (auto simp: ipv4_to_string_def ipv4_octets_def)
qed

section \<open>The prefix byte is always a prefix or a status\<close>

text \<open>The objects a program can build: every constructor, assignment and change of the prefix.\<close>

inductive ipv4_reachable :: "ipv4 \<Rightarrow> bool" where
  default: "ipv4_reachable ipv4_default"
| invalid: "ipv4_reachable ipv4_invalid"
| of_int: "ipv4_reachable (ipv4_of_int n p)"
| of_int_subnet: "ipv4_of_int_subnet n subnet = Some ip \<Longrightarrow> ipv4_reachable ip"
| of_octets: "ipv4_of_octets bs p = Some ip \<Longrightarrow> ipv4_reachable ip"
| of_octets_subnet: "ipv4_of_octets_subnet bs subnet = Some ip \<Longrightarrow> ipv4_reachable ip"
| of_octets_octets: "length ss = 4 \<Longrightarrow> ipv4_of_octets_octets bs ss = Some ip \<Longrightarrow> ipv4_reachable ip"
| of_string: "ipv4_of_string str = Some ip \<Longrightarrow> ipv4_reachable ip"
| of_string_subnet: "ipv4_of_string_subnet str subnet = Some ip \<Longrightarrow> ipv4_reachable ip"
| of_string_octets: "length ss = 4 \<Longrightarrow> ipv4_of_string_octets str ss = Some ip \<Longrightarrow> ipv4_reachable ip"
| of_string_prefix: "ipv4_of_string_prefix str p = Some ip \<Longrightarrow> ipv4_reachable ip"
| assign_string: "ipv4_reachable ip \<Longrightarrow> ipv4_assign_string ip str = Some ip' \<Longrightarrow> ipv4_reachable ip'"
| assign_int: "ipv4_reachable ip \<Longrightarrow> ipv4_reachable (ipv4_assign_int ip n)"
| set_prefix: "ipv4_reachable ip \<Longrightarrow> ipv4_reachable (ipv4_set_prefix ip p)"
| set_prefix_str: "ipv4_reachable ip \<Longrightarrow> ipv4_set_prefix_str ip str = Some ip' \<Longrightarrow> ipv4_reachable ip'"
| set_prefix_octets: "ipv4_reachable ip \<Longrightarrow> ipv4_reachable (ipv4_set_prefix_octets ip ss)"
| reversed: "ipv4_reachable ip \<Longrightarrow> ipv4_reversed ip = Some ip' \<Longrightarrow> ipv4_reachable ip'"
| masked: "ipv4_reachable ip \<Longrightarrow> ipv4_mask ip n = Some ip' \<Longrightarrow> ipv4_reachable ip'"

definition prefix_or_status4 :: "u8 \<Rightarrow> bool" where
  "prefix_or_status4 p \<longleftrightarrow> p \<le> ipv4_max_prefix \<or> (\<exists>st. p = inet_pton4_status_code st)"

lemma prefix_or_status4_code [simp]: "prefix_or_status4 (inet_pton4_status_code st)"
  "prefix_or_status4 (prefix_status4 st)"
  by (auto simp: prefix_or_status4_def prefix_status4_def)

lemma status4_code_255: "inet_pton4_status_code st = 255 \<longleftrightarrow> st = v4_valid"
  by (cases st) simp_all

lemma prefix_or_status4_values [simp]: "prefix_or_status4 255" "prefix_or_status4 247"
  using prefix_or_status4_code(1) [of v4_valid] prefix_or_status4_code(1) [of v4_invalid_prefix] by simp_all

lemma prefix_or_status4_small: "p \<le> ipv4_max_prefix \<Longrightarrow> prefix_or_status4 p"
  by (simp add: prefix_or_status4_def)

lemma prefix_or_status4_checked [simp]: "prefix_or_status4 (checked_prefix4 p)"
  by (cases "p \<le> ipv4_max_prefix")
     (auto simp: checked_prefix4_def prefix_or_status4_small prefix_status4_def not_le)

lemma prefix_or_status4_octets: "length ss = 4 \<Longrightarrow> prefix_or_status4 (subnet_prefix_octets ss)"
  by (simp add: subnet_prefix_octets_def prefix_or_status4_small to_prefix_octets_le)

lemma prefix_or_status4_str: "subnet_prefix_str subnet = Some p \<Longrightarrow> prefix_or_status4 p"
proof -
  assume sp: "subnet_prefix_str subnet = Some p"
  have b: "0 + 4 \<le> length (replicate 4 0 :: u8 list)" by simp
  from inet_pton4_at_ok [OF b, of "CHR ''/''" subnet] obtain st bin rest where
    r: "inet_pton4 (CHR ''/'') (replicate 4 0) subnet = Some (st, bin, rest)" and len: "length bin = 4"
    by (auto simp: inet_pton4_def)
  have "prefix_or_status4 q" if "to_prefix_str subnet = Some q" for q
    using that r to_prefix_octets_le [OF len]
    by (auto simp: to_prefix_str_def prefix_or_status4_def split: if_splits)
  with sp show ?thesis by (auto simp: subnet_prefix_str_def split: Option.bind_splits if_splits)
qed

lemma prefix_or_status4_parse: "ipv4_parse ip str = Some ip' \<Longrightarrow> prefix_or_status4 (ip4_prefix ip')"
  by (cases rule: ipv4_parse_total [of ip str])
     (auto simp: prefix_or_status4_small ipv4_max_prefix_def simp flip: no_prefix4_val)

lemma prefix_or_status4_with:
  "ipv4_of_string_with str p = Some ip \<Longrightarrow> (\<And>q. p = Some q \<Longrightarrow> prefix_or_status4 q) \<Longrightarrow> prefix_or_status4 (ip4_prefix ip)"
  by (auto simp: ipv4_of_string_with_def dest: prefix_or_status4_parse split: Option.bind_splits if_splits)

lemmas ipv4_constructor_defs = ipv4_default_def ipv4_invalid_def ipv4_of_int_def ipv4_of_int_subnet_def
  ipv4_of_octets_def ipv4_of_octets_subnet_def ipv4_of_octets_octets_def ipv4_of_string_def
  ipv4_of_string_subnet_def ipv4_of_string_octets_def ipv4_of_string_prefix_def ipv4_assign_string_def
  ipv4_assign_int_def ipv4_set_prefix_def ipv4_set_prefix_str_def ipv4_set_prefix_octets_def
  ipv4_reversed_def ipv4_mask_def

lemma ipv4_reachable_prefix:
  assumes "ipv4_reachable ip"
  shows "prefix_or_status4 (ip4_prefix ip)"
  using assms
  by (induction rule: ipv4_reachable.induct)
     (auto simp: ipv4_constructor_defs prefix_or_status4_octets Let_def
       dest: prefix_or_status4_str prefix_or_status4_parse prefix_or_status4_with
       split: Option.bind_splits)

text \<open>C19: Whatever constructors, assignments and prefix changes a program applies, the byte of an IPv4
  object is a prefix length of at most 32 or the code of a status: the status function never casts
  a value that is not an enumerator, and it reports a valid address exactly for a valid object.\<close>

theorem ipv4_reachable_status:
  assumes "ipv4_reachable ip"
  shows "\<exists>st. ipv4_status ip = Some st \<and> (ipv4_is_valid ip \<longleftrightarrow> st = v4_valid)"
  using ipv4_reachable_prefix [OF assms]
  by (auto simp: prefix_or_status4_def ipv4_status_def ipv4_is_valid_def prefix_status4_def status4_code_255)

lemma ipv4_reachable_status_witness:
  "\<exists>st. ipv4_status (ipv4_set_prefix (ipv4_of_int 0x7F000001 99) 8) = Some st
     \<and> (ipv4_is_valid (ipv4_set_prefix (ipv4_of_int 0x7F000001 99) 8) \<longleftrightarrow> st = v4_valid)"
  by (rule ipv4_reachable_status, rule ipv4_reachable.set_prefix, rule ipv4_reachable.of_int)

lemma ipv4_of_string_total: "\<exists>ip. ipv4_of_string str = Some ip"
  by (cases rule: ipv4_parse_total [of ipv4_default str]) (auto simp: ipv4_of_string_def)

lemma ipv4_parse_default:
  "ipv4_parse ip str =
     map_option (\<lambda>r. if ipv4_is_valid r then r else Ipv4 (ip4_data ip) (ip4_prefix r)) (ipv4_of_string str)"
proof -
  from pton4_prefix_total [of no_prefix4 str] obtain st buf p rest where
    r: "inet_pton4_prefix (CHR ''/'') (replicate 4 0) no_prefix4 str = Some (st, buf, p, rest)" "length buf = 4"
    and v: "is_valid4 st \<longrightarrow> p = no_prefix4 \<or> p \<le> 32" by blast
  from parse_octets_of_four [OF r(2)] obtain d where d: "parse_octets buf = Some d" by blast
  show ?thesis
    using r(1) d v invalid_status4_not_valid [of st]
    by (auto simp: ipv4_of_string_def ipv4_parse_def ipv4_is_valid_def ipv4_max_prefix_def)
qed

text \<open>Assigning a text always gives an object that counts as valid and has no prefix: a text that is
  no address leaves the old address in place and marks it valid, and a prefix in the text is lost.\<close>

lemma ipv4_assign_string_always_valid:
  "\<exists>ip'. ipv4_assign_string ip str = Some ip' \<and> ipv4_is_valid ip' \<and> \<not> ipv4_has_prefix ip'
     \<and> ip4_data ip' = (case ipv4_checked_of_string str of Some p \<Rightarrow> ip4_data p | None \<Rightarrow> ip4_data ip)"
proof -
  have ok: "ipv4_is_valid (Ipv4 d no_prefix4)" "\<not> ipv4_has_prefix (Ipv4 d no_prefix4)" for d
    by (simp_all add: ipv4_is_valid_def ipv4_has_prefix_def prefix_status4_def ipv4_max_prefix_def)
  have parse: "ipv4_parse ip str =
      map_option (\<lambda>r. if ipv4_is_valid r then r else Ipv4 (ip4_data ip) (ip4_prefix r)) (ipv4_of_string str)"
    by (rule ipv4_parse_default)
  from ipv4_of_string_total obtain r where "ipv4_of_string str = Some r" by blast
  with parse ok show ?thesis
    by (auto simp: ipv4_assign_string_def ipv4_checked_of_string_def)
qed


end
