(* ===== verification/Ipv6.thy ===== *)
theory Ipv6
  imports Ipv4_Class "HOL-Library.List_Lexorder"
begin

text \<open>
  \<^verbatim>\<open>webpp/ip/ipv6.hpp\<close>: the class \<^verbatim>\<open>ipv6\<close>, sixteen bytes
  and a byte that holds either a prefix length or the status of the parser. Unlike the IPv4 class,
  the parser writes straight into the bytes of the object. The format library that prints the
  expanded form is a parameter of \<open>ipv6_expanded_string\<close>.
\<close>

section \<open>The state\<close>

datatype ipv6 = Ipv6 (ip6_data: "u8 list") (ip6_prefix: u8)

text \<open>The defaulted comparison: the bytes in lexicographic order, then the prefix.\<close>

definition ipv6_less_eq :: "ipv6 \<Rightarrow> ipv6 \<Rightarrow> bool" where
  "ipv6_less_eq a b \<longleftrightarrow> ip6_data a < ip6_data b \<or> ip6_data a = ip6_data b \<and> ip6_prefix a \<le> ip6_prefix b"

definition ipv6_less :: "ipv6 \<Rightarrow> ipv6 \<Rightarrow> bool" where
  "ipv6_less a b \<longleftrightarrow> ip6_data a < ip6_data b \<or> ip6_data a = ip6_data b \<and> ip6_prefix a < ip6_prefix b"

instantiation ipv6 :: linorder
begin

definition less_eq_ipv6 :: "ipv6 \<Rightarrow> ipv6 \<Rightarrow> bool" where "less_eq_ipv6 = ipv6_less_eq"

definition less_ipv6 :: "ipv6 \<Rightarrow> ipv6 \<Rightarrow> bool" where "less_ipv6 = ipv6_less"

instance
  by standard (auto simp: less_eq_ipv6_def less_ipv6_def ipv6_less_eq_def ipv6_less_def intro: ipv6.expand)

end

definition prefix_status6 :: "inet_pton6_status \<Rightarrow> u8" where
  "prefix_status6 status = inet_pton6_status_code status"

abbreviation "no_prefix6 \<equiv> prefix_status6 v6_valid"

datatype ipv6_scope =
  node_local | interface_local | link_local | realm_local | admin_local | site_local | org_local | global_scope

fun ipv6_scope_code :: "ipv6_scope \<Rightarrow> u8" where
  "ipv6_scope_code node_local = 0"
| "ipv6_scope_code interface_local = 1"
| "ipv6_scope_code link_local = 2"
| "ipv6_scope_code realm_local = 3"
| "ipv6_scope_code admin_local = 4"
| "ipv6_scope_code site_local = 5"
| "ipv6_scope_code org_local = 8"
| "ipv6_scope_code global_scope = 14"

definition ipv6_default :: ipv6 where
  "ipv6_default = Ipv6 (replicate 16 0) no_prefix6"

section \<open>Wider octets\<close>

text \<open>\<^verbatim>\<open>to_octets_t\<close>: the bytes of wider octets, the high byte first.\<close>

definition be_bytes :: "nat \<Rightarrow> 'w::len word \<Rightarrow> u8 list" where
  "be_bytes n w = map (\<lambda>i. ucast (drop_bit (8 * (n - 1 - i)) w AND 0xFF)) [0..<n]"

definition to_octets_t64 :: "u64 list \<Rightarrow> u8 list" where
  "to_octets_t64 octets = be_bytes 8 (octets ! 0) @ be_bytes 8 (octets ! 1)"

definition to_octets_t32 :: "u32 list \<Rightarrow> u8 list" where
  "to_octets_t32 octets = be_bytes 4 (octets ! 0) @ be_bytes 4 (octets ! 1) @ be_bytes 4 (octets ! 2)
     @ be_bytes 4 (octets ! 3)"

definition to_octets_t16 :: "u16 list \<Rightarrow> u8 list" where
  "to_octets_t16 octets = be_bytes 2 (octets ! 0) @ be_bytes 2 (octets ! 1) @ be_bytes 2 (octets ! 2)
     @ be_bytes 2 (octets ! 3) @ be_bytes 2 (octets ! 4) @ be_bytes 2 (octets ! 5)
     @ be_bytes 2 (octets ! 6) @ be_bytes 2 (octets ! 7)"

definition octets16_at :: "u8 list \<Rightarrow> nat \<Rightarrow> u16" where
  "octets16_at octets k = push_bit 8 (ucast (octets ! k)) OR ucast (octets ! (k + 1))"

definition octets32_at :: "u8 list \<Rightarrow> nat \<Rightarrow> u32" where
  "octets32_at octets k =
     push_bit 24 (ucast (octets ! k)) OR push_bit 16 (ucast (octets ! (k + 1)))
     OR push_bit 8 (ucast (octets ! (k + 2))) OR ucast (octets ! (k + 3))"

definition octets64_at :: "u8 list \<Rightarrow> nat \<Rightarrow> u64" where
  "octets64_at octets k =
     push_bit 56 (ucast (octets ! k)) OR push_bit 48 (ucast (octets ! (k + 1)))
     OR push_bit 40 (ucast (octets ! (k + 2))) OR push_bit 32 (ucast (octets ! (k + 3)))
     OR push_bit 24 (ucast (octets ! (k + 4))) OR push_bit 16 (ucast (octets ! (k + 5)))
     OR push_bit 8 (ucast (octets ! (k + 6))) OR ucast (octets ! (k + 7))"

definition ipv6_octets8 :: "ipv6 \<Rightarrow> u8 list" where
  "ipv6_octets8 ip = ip6_data ip"

definition ipv6_octets16 :: "ipv6 \<Rightarrow> u16 list" where
  "ipv6_octets16 ip = map (octets16_at (ipv6_octets8 ip)) [0, 2, 4, 6, 8, 10, 12, 14]"

definition ipv6_octets32 :: "ipv6 \<Rightarrow> u32 list" where
  "ipv6_octets32 ip = map (octets32_at (ipv6_octets8 ip)) [0, 4, 8, 12]"

definition ipv6_octets64 :: "ipv6 \<Rightarrow> u64 list" where
  "ipv6_octets64 ip = map (octets64_at (ipv6_octets8 ip)) [0, 8]"

section \<open>Construction and assignment\<close>

definition ipv6_parse :: "ipv6 \<Rightarrow> string \<Rightarrow> ipv6 option" where
  "ipv6_parse ip str =
     map_option (\<lambda>(status, data, prefix, _).
         Ipv6 data (if is_valid6 status then prefix else prefix_status6 status))
       (inet_pton6_prefix (CHR ''/'') (ip6_data ip) no_prefix6 str)"

definition ipv6_set_prefix :: "ipv6 \<Rightarrow> u8 \<Rightarrow> ipv6" where
  "ipv6_set_prefix ip prefix_value =
     (if prefix_value = no_prefix6 then Ipv6 (ip6_data ip) no_prefix6
      else if prefix_value > ipv6_max_prefix then Ipv6 (replicate 16 0) (prefix_status6 v6_invalid_prefix)
      else Ipv6 (ip6_data ip) prefix_value)"

definition ipv6_is_valid :: "ipv6 \<Rightarrow> bool" where
  "ipv6_is_valid ip \<longleftrightarrow> ip6_prefix ip \<le> ipv6_max_prefix \<or> ip6_prefix ip = no_prefix6"

definition ipv6_of_string :: "string \<Rightarrow> ipv6 option" where
  "ipv6_of_string str = ipv6_parse ipv6_default str"

definition ipv6_of_string_prefix :: "string \<Rightarrow> u8 \<Rightarrow> ipv6 option" where
  "ipv6_of_string_prefix str prefix_value =
     map_option (\<lambda>ip. if ipv6_is_valid ip then ipv6_set_prefix ip prefix_value else ip)
       (ipv6_parse ipv6_default str)"

definition ipv6_of_octets8 :: "u8 list \<Rightarrow> u8 \<Rightarrow> ipv6" where
  "ipv6_of_octets8 octets prefix_value = ipv6_set_prefix (Ipv6 octets no_prefix6) prefix_value"

definition ipv6_of_octets16 :: "u16 list \<Rightarrow> u8 \<Rightarrow> ipv6" where
  "ipv6_of_octets16 octets prefix_value = ipv6_set_prefix (Ipv6 (to_octets_t16 octets) no_prefix6) prefix_value"

definition ipv6_of_octets32 :: "u32 list \<Rightarrow> u8 \<Rightarrow> ipv6" where
  "ipv6_of_octets32 octets prefix_value = ipv6_set_prefix (Ipv6 (to_octets_t32 octets) no_prefix6) prefix_value"

definition ipv6_of_octets64 :: "u64 list \<Rightarrow> u8 \<Rightarrow> ipv6" where
  "ipv6_of_octets64 octets prefix_value = ipv6_set_prefix (Ipv6 (to_octets_t64 octets) no_prefix6) prefix_value"

definition ipv6_of_prefix :: "u8 \<Rightarrow> ipv6" where
  "ipv6_of_prefix prefix_value = ipv6_set_prefix ipv6_default prefix_value"

definition ipv6_invalid :: ipv6 where
  "ipv6_invalid = ipv6_of_prefix (prefix_status6 v6_invalid_prefix)"

definition ipv6_any :: ipv6 where
  "ipv6_any = ipv6_default"

definition ipv6_loopback :: ipv6 where
  "ipv6_loopback = ipv6_of_octets64 [0, 1] no_prefix6"

definition ipv6_assign_string :: "ipv6 \<Rightarrow> string \<Rightarrow> ipv6 option" where
  "ipv6_assign_string ip str = map_option (\<lambda>ip. Ipv6 (ip6_data ip) no_prefix6) (ipv6_parse ip str)"

definition ipv6_assign_octets8 :: "ipv6 \<Rightarrow> u8 list \<Rightarrow> ipv6" where
  "ipv6_assign_octets8 ip octets = Ipv6 octets no_prefix6"

definition ipv6_assign_octets16 :: "ipv6 \<Rightarrow> u16 list \<Rightarrow> ipv6" where
  "ipv6_assign_octets16 ip octets = Ipv6 (to_octets_t16 octets) no_prefix6"

definition ipv6_assign_octets32 :: "ipv6 \<Rightarrow> u32 list \<Rightarrow> ipv6" where
  "ipv6_assign_octets32 ip octets = Ipv6 (to_octets_t32 octets) no_prefix6"

definition ipv6_assign_octets64 :: "ipv6 \<Rightarrow> u64 list \<Rightarrow> ipv6" where
  "ipv6_assign_octets64 ip octets = Ipv6 (to_octets_t64 octets) no_prefix6"

definition ipv6_eq_string :: "ipv6 \<Rightarrow> string \<Rightarrow> bool option" where
  "ipv6_eq_string ip str = map_option (\<lambda>other. ip6_data other = ip6_data ip) (ipv6_of_string str)"

definition ipv6_eq :: "ipv6 \<Rightarrow> ipv6 \<Rightarrow> bool" where
  "ipv6_eq ip other \<longleftrightarrow> ip6_prefix ip = ip6_prefix other \<and> ip6_data ip = ip6_data other"

definition ipv6_eq_octets8 :: "ipv6 \<Rightarrow> u8 list \<Rightarrow> bool" where
  "ipv6_eq_octets8 ip octets \<longleftrightarrow> ip6_data ip = octets"

definition ipv6_eq_octets16 :: "ipv6 \<Rightarrow> u16 list \<Rightarrow> bool" where
  "ipv6_eq_octets16 ip octets \<longleftrightarrow> ipv6_octets16 ip = octets"

definition ipv6_eq_octets32 :: "ipv6 \<Rightarrow> u32 list \<Rightarrow> bool" where
  "ipv6_eq_octets32 ip octets \<longleftrightarrow> ipv6_octets32 ip = octets"

definition ipv6_eq_octets64 :: "ipv6 \<Rightarrow> u64 list \<Rightarrow> bool" where
  "ipv6_eq_octets64 ip octets \<longleftrightarrow> ipv6_octets64 ip = octets"

section \<open>Classes of addresses\<close>

text \<open>The bytes of the object are an array of sixteen, so a constant index is always inside.\<close>

abbreviation oct6 :: "ipv6 \<Rightarrow> nat \<Rightarrow> u8" where
  "oct6 ip i \<equiv> ipv6_octets8 ip ! i"

definition ipv6_is_multicast :: "ipv6 \<Rightarrow> bool" where
  "ipv6_is_multicast ip \<longleftrightarrow> oct6 ip 0 = 0xFF"

definition ipv6_multicast_scope :: "ipv6 \<Rightarrow> u8" where
  "ipv6_multicast_scope ip = oct6 ip 1 AND 0xF"

definition ipv6_is_link_local :: "ipv6 \<Rightarrow> bool" where
  "ipv6_is_link_local ip \<longleftrightarrow> oct6 ip 0 = 0xFE \<and> oct6 ip 1 AND 0xC0 = 0x80"

definition ipv6_is_loopback :: "ipv6 \<Rightarrow> bool" where
  "ipv6_is_loopback ip \<longleftrightarrow>
     ipv6_octets8 ip = [0, 0, 0, 0, 0, 0, 0, 0, 0, 0, 0, 0, 0, 0, 0, 1] \<or>
     ipv6_octets8 ip = [0, 0, 0, 0, 0, 0, 0, 0, 0, 0, 0xFF, 0xFF, 0x7F, 0, 0, 1]"

definition ipv6_get_scope :: "ipv6 \<Rightarrow> u8" where
  "ipv6_get_scope ip =
     (if ipv6_is_multicast ip then ipv6_multicast_scope ip
      else if ipv6_is_link_local ip then ipv6_scope_code link_local
      else if ipv6_is_loopback ip then ipv6_scope_code node_local
      else ipv6_scope_code global_scope)"

text \<open>A shift of a 64 bit value; the amount is reduced modulo 64 by the caller.\<close>

definition ipv6_mask :: "ipv6 \<Rightarrow> nat \<Rightarrow> ipv6" where
  "ipv6_mask ip num_bits =
     (let num_bits = min num_bits 128;
          ones = NOT (0 :: u64);
          fragment = push_bit ((128 - num_bits) mod 64) ones;
          high = (if num_bits \<le> 64 then fragment else ones);
          low = (if num_bits \<le> 64 then 0 else fragment);
          octets = ipv6_octets64 ip
      in ipv6_of_octets64 [high AND octets ! 0, low AND octets ! 1] no_prefix6)"

definition ipv6_is_zero :: "ipv6 \<Rightarrow> bool" where
  "ipv6_is_zero ip \<longleftrightarrow> ipv6_octets8 ip = replicate 16 0"

definition ipv6_is_unspecified :: "ipv6 \<Rightarrow> bool" where
  "ipv6_is_unspecified ip \<longleftrightarrow> ipv6_is_zero ip"

definition ipv6_is_multicast_global :: "ipv6 \<Rightarrow> bool" where
  "ipv6_is_multicast_global ip \<longleftrightarrow> oct6 ip 0 = 0xFF \<and> oct6 ip 1 AND 0x0F = 0x0E"

definition ipv6_is_multicast_link_local :: "ipv6 \<Rightarrow> bool" where
  "ipv6_is_multicast_link_local ip \<longleftrightarrow> oct6 ip 0 = 0xFF \<and> oct6 ip 1 AND 0x0F = 0x02"

definition ipv6_is_multicast_node_local :: "ipv6 \<Rightarrow> bool" where
  "ipv6_is_multicast_node_local ip \<longleftrightarrow> oct6 ip 0 = 0xFF \<and> oct6 ip 1 AND 0x0F = 0x01"

definition ipv6_is_multicast_org_local :: "ipv6 \<Rightarrow> bool" where
  "ipv6_is_multicast_org_local ip \<longleftrightarrow> oct6 ip 0 = 0xFF \<and> oct6 ip 1 AND 0x0F = 0x08"

definition ipv6_is_multicast_site_local :: "ipv6 \<Rightarrow> bool" where
  "ipv6_is_multicast_site_local ip \<longleftrightarrow> oct6 ip 0 = 0xFF \<and> oct6 ip 1 AND 0x0F = 0x05"

definition ipv6_is_site_local :: "ipv6 \<Rightarrow> bool" where
  "ipv6_is_site_local ip \<longleftrightarrow> oct6 ip 0 = 0xFE \<and> oct6 ip 1 AND 0xC0 = 0xC0"

definition ipv6_is_v4_mapped :: "ipv6 \<Rightarrow> bool" where
  "ipv6_is_v4_mapped ip \<longleftrightarrow>
     oct6 ip 0 = 0 \<and> oct6 ip 1 = 0 \<and> oct6 ip 2 = 0 \<and> oct6 ip 3 = 0 \<and> oct6 ip 4 = 0 \<and> oct6 ip 5 = 0
     \<and> oct6 ip 6 = 0 \<and> oct6 ip 7 = 0 \<and> oct6 ip 8 = 0 \<and> oct6 ip 9 = 0
     \<and> oct6 ip 10 = 0xFF \<and> oct6 ip 11 = 0xFF"

definition ipv6_is_link_local_multicast :: "ipv6 \<Rightarrow> bool" where
  "ipv6_is_link_local_multicast ip \<longleftrightarrow>
     ipv6_is_multicast ip \<and> ipv6_get_scope ip = ipv6_scope_code link_local"

text \<open>The well-known multicast addresses: two bytes, thirteen zeros, and the last byte.\<close>

definition multicast_address :: "ipv6 \<Rightarrow> u8 \<Rightarrow> u8 \<Rightarrow> bool" where
  "multicast_address ip b1 b15 \<longleftrightarrow>
     oct6 ip 0 = 0xFF \<and> oct6 ip 1 = b1 \<and> oct6 ip 2 = 0 \<and> oct6 ip 3 = 0 \<and> oct6 ip 4 = 0 \<and> oct6 ip 5 = 0
     \<and> oct6 ip 6 = 0 \<and> oct6 ip 7 = 0 \<and> oct6 ip 8 = 0 \<and> oct6 ip 9 = 0 \<and> oct6 ip 10 = 0 \<and> oct6 ip 11 = 0
     \<and> oct6 ip 12 = 0 \<and> oct6 ip 13 = 0 \<and> oct6 ip 14 = 0 \<and> oct6 ip 15 = b15"

definition ipv6_is_link_local_all_nodes_multicast :: "ipv6 \<Rightarrow> bool" where
  "ipv6_is_link_local_all_nodes_multicast ip \<longleftrightarrow> multicast_address ip 0x02 0x01"

definition ipv6_is_link_local_all_routers_multicast :: "ipv6 \<Rightarrow> bool" where
  "ipv6_is_link_local_all_routers_multicast ip \<longleftrightarrow> multicast_address ip 0x02 0x02"

definition ipv6_is_realm_local_multicast :: "ipv6 \<Rightarrow> bool" where
  "ipv6_is_realm_local_multicast ip \<longleftrightarrow>
     ipv6_is_multicast ip \<and> ipv6_get_scope ip = ipv6_scope_code realm_local"

definition ipv6_is_realm_local_all_nodes_multicast :: "ipv6 \<Rightarrow> bool" where
  "ipv6_is_realm_local_all_nodes_multicast ip \<longleftrightarrow>
     ipv6_is_multicast ip \<and> ipv6_get_scope ip = ipv6_scope_code realm_local"

definition ipv6_is_realm_local_all_routers_multicast :: "ipv6 \<Rightarrow> bool" where
  "ipv6_is_realm_local_all_routers_multicast ip \<longleftrightarrow> multicast_address ip 0x03 0x02"

definition ipv6_is_realm_local_all_mpl_forwarders :: "ipv6 \<Rightarrow> bool" where
  "ipv6_is_realm_local_all_mpl_forwarders ip \<longleftrightarrow> multicast_address ip 0x03 0xFC"

definition ipv6_is_multicast_larger_than_realm_local :: "ipv6 \<Rightarrow> bool" where
  "ipv6_is_multicast_larger_than_realm_local ip \<longleftrightarrow>
     ipv6_is_multicast ip \<and> ipv6_get_scope ip > ipv6_scope_code realm_local"

definition ipv6_is_routing_locator :: "ipv6 \<Rightarrow> bool" where
  "ipv6_is_routing_locator ip \<longleftrightarrow>
     oct6 ip 8 = 0 \<and> oct6 ip 9 = 0 \<and> oct6 ip 10 = 0 \<and> oct6 ip 11 = 0xFF \<and> oct6 ip 12 = 0xFE
     \<and> oct6 ip 13 = 0 \<and> oct6 ip 14 < 0xFC \<and> oct6 ip 14 AND 0x02 = 0"

definition ipv6_is_anycast_routing_locator :: "ipv6 \<Rightarrow> bool" where
  "ipv6_is_anycast_routing_locator ip \<longleftrightarrow>
     oct6 ip 8 = 0 \<and> oct6 ip 9 = 0 \<and> oct6 ip 10 = 0 \<and> oct6 ip 11 = 0xFF \<and> oct6 ip 12 = 0xFE
     \<and> oct6 ip 13 = 0 \<and> oct6 ip 14 = 0xFC"

definition ipv6_is_anycast_service_locator :: "ipv6 \<Rightarrow> bool" where
  "ipv6_is_anycast_service_locator ip \<longleftrightarrow>
     ipv6_is_anycast_routing_locator ip \<and> oct6 ip (16 - 2) = 0xFC
     \<and> oct6 ip (16 - 1) \<ge> 0x10 \<and> oct6 ip (16 - 1) \<le> 0x2F"

definition ipv6_is_subnet_router_anycast :: "ipv6 \<Rightarrow> bool" where
  "ipv6_is_subnet_router_anycast ip \<longleftrightarrow>
     oct6 ip 8 = 0 \<and> oct6 ip 9 = 0 \<and> oct6 ip 10 = 0 \<and> oct6 ip 11 = 0
     \<and> oct6 ip 12 = 0 \<and> oct6 ip 13 = 0 \<and> oct6 ip 14 = 0 \<and> oct6 ip 15 = 0"

definition ipv6_is_reserved_subnet_anycast :: "ipv6 \<Rightarrow> bool" where
  "ipv6_is_reserved_subnet_anycast ip \<longleftrightarrow>
     oct6 ip 8 = 0xFD \<and> oct6 ip 15 = 0x80 \<and> oct6 ip 9 = 0xFF \<and> oct6 ip 10 = 0xFF
     \<and> oct6 ip 11 = 0xFF \<and> oct6 ip 12 = 0xFF \<and> oct6 ip 13 = 0xFF \<and> oct6 ip 14 = 0xFF"

definition ipv6_is_iid_reserved :: "ipv6 \<Rightarrow> bool" where
  "ipv6_is_iid_reserved ip \<longleftrightarrow>
     ipv6_is_subnet_router_anycast ip \<or> ipv6_is_reserved_subnet_anycast ip \<or> ipv6_is_anycast_routing_locator ip"

text \<open>The interface identifier: the last eight bytes.\<close>

definition ipv6_iid :: "ipv6 \<Rightarrow> u8 list" where
  "ipv6_iid ip = drop 8 (ip6_data ip)"

fun copy_iid :: "u8 list \<Rightarrow> nat \<Rightarrow> u8 list \<Rightarrow> u8 list option" where
  "copy_iid data i [] = Some data"
| "copy_iid data i (b # piid) = Option.bind (store data i b) (\<lambda>data. copy_iid data (i + 1) piid)"

definition ipv6_set_iid :: "ipv6 \<Rightarrow> u8 list \<Rightarrow> ipv6 option" where
  "ipv6_set_iid ip piid =
     (if length piid < 8 then None
      else map_option (\<lambda>data. Ipv6 data (ip6_prefix ip)) (copy_iid (ip6_data ip) 8 (take 8 piid)))"

definition ipv6_mapped_v4 :: "ipv6 \<Rightarrow> ipv4 option" where
  "ipv6_mapped_v4 ip =
     (if \<not> ipv6_is_valid ip \<or> \<not> ipv6_is_v4_mapped ip then Some ipv4_default
      else ipv4_of_octets [ip6_data ip ! 12, ip6_data ip ! 13, ip6_data ip ! 14, ip6_data ip ! 15] no_prefix4)"

text \<open>\<^verbatim>\<open>starts_with\<close> an array compares the array itself with the masked bytes.\<close>

definition ipv6_starts_with_octets :: "ipv6 \<Rightarrow> u8 list \<Rightarrow> nat \<Rightarrow> bool" where
  "ipv6_starts_with_octets ip inp_octets inp_prefix \<longleftrightarrow>
     inp_octets = take (length inp_octets) (ipv6_octets8 (ipv6_mask ip inp_prefix))"

definition ipv6_starts_with :: "ipv6 \<Rightarrow> ipv6 \<Rightarrow> nat \<Rightarrow> bool" where
  "ipv6_starts_with ip ip_addr inp_prefix \<longleftrightarrow>
     ipv6_octets8 (ipv6_mask ip_addr inp_prefix) = ipv6_octets8 (ipv6_mask ip inp_prefix)"

definition ipv6_is_private :: "ipv6 \<Rightarrow> bool option" where
  "ipv6_is_private ip =
     Option.bind (ipv6_mapped_v4 ip) (\<lambda>v4.
     Option.bind (if ipv4_is_zero v4 then Some False else ipv4_is_private v4) (\<lambda>private.
       if private then Some True
       else Some (ipv6_is_loopback ip \<or> ipv6_starts_with_octets ip [0xFC, 0x00] 7)))"

definition ipv6_is_broadcast :: "ipv6 \<Rightarrow> bool" where
  "ipv6_is_broadcast ip \<longleftrightarrow> [0xFF02000000000000, 0x1] = ipv6_octets64 ip"

definition ipv6_is_routable :: "ipv6 \<Rightarrow> bool" where
  "ipv6_is_routable ip \<longleftrightarrow>
     ipv6_starts_with_octets ip [0x20, 0x00] 3 \<or> ipv6_is_multicast ip \<and> ipv6_multicast_scope ip = 0xE"

definition ipv6_is_nonroutable :: "ipv6 \<Rightarrow> bool" where
  "ipv6_is_nonroutable ip \<longleftrightarrow> \<not> ipv6_is_routable ip"

section \<open>Texts, prefix and status\<close>

definition ipv6_expanded_string :: "(u16 \<Rightarrow> string) \<Rightarrow> ipv6 \<Rightarrow> string" where
  "ipv6_expanded_string format_04x ip =
     (let octets = ipv6_octets16 ip in
      format_04x (octets ! 0) @ '':'' @ format_04x (octets ! 1) @ '':'' @ format_04x (octets ! 2) @ '':''
      @ format_04x (octets ! 3) @ '':'' @ format_04x (octets ! 4) @ '':'' @ format_04x (octets ! 5) @ '':''
      @ format_04x (octets ! 6) @ '':'' @ format_04x (octets ! 7))"

definition ipv6_has_prefix :: "ipv6 \<Rightarrow> bool" where
  "ipv6_has_prefix ip \<longleftrightarrow> ip6_prefix ip \<le> ipv6_max_prefix"

text \<open>The prefix is followed by a NUL that counts as part of the text.\<close>

definition ipv6_to_string :: "ipv6 \<Rightarrow> string option" where
  "ipv6_to_string ip =
     map_option (\<lambda>t. if ipv6_has_prefix ip
         then t @ CHR ''/'' # (let p = unat (ip6_prefix ip) in
                (if p < 10 then [digit_char p]
                 else if p < 100 then [digit_char (p div 10), digit_char (p mod 10)]
                 else [digit_char (p div 100), digit_char (p mod 100 div 10), digit_char (p mod 10)])) @ [NUL]
         else t)
       (inet_ntop6 (ip6_data ip))"

definition ipv6_ip_to_string :: "ipv6 \<Rightarrow> string option" where
  "ipv6_ip_to_string ip = inet_ntop6 (ip6_data ip)"

definition ipv6_clear_prefix :: "ipv6 \<Rightarrow> ipv6" where
  "ipv6_clear_prefix ip = ipv6_set_prefix ip no_prefix6"

definition ipv6_reversed :: "ipv6 \<Rightarrow> ipv6" where
  "ipv6_reversed ip =
     (let d = ip6_data ip in
      ipv6_of_octets8 [d ! 14, d ! 15, d ! 12, d ! 13, d ! 10, d ! 11, d ! 8, d ! 9,
        d ! 6, d ! 7, d ! 4, d ! 5, d ! 2, d ! 3, d ! 0, d ! 1] (ip6_prefix ip))"

definition ipv6_status :: "ipv6 \<Rightarrow> inet_pton6_status option" where
  "ipv6_status ip =
     (if ip6_prefix ip \<le> ipv6_max_prefix then Some v6_valid else status6_of_code (ip6_prefix ip))"

definition ipv6_status_string :: "ipv6 \<Rightarrow> string option" where
  "ipv6_status_string ip = map_option status6_to_string (ipv6_status ip)"

end
