(* ===== verification/Ipv6_Class.thy ===== *)
theory Ipv6_Class
  imports Ipv6
begin

text \<open>
  The contract of the class \<^verbatim>\<open>ipv6\<close>: the views of its bytes as wider octets,
  the mask, the texts, the embedded IPv4 address, and the invariant on its sixteen bytes and its
  prefix byte.
\<close>

section \<open>Wider octets\<close>

lemma bit_u8_up: "bit (ucast w :: 'w::len word) i \<longleftrightarrow> i < LENGTH('w) \<and> i < 8 \<and> bit (w :: u8) i"
  using bit_imp_le_length [of w i] by (auto simp: bit_ucast_iff)

lemma bit_to_byte: "bit (ucast (w AND 0xFF) :: u8) i \<longleftrightarrow> i < 8 \<and> bit (w :: 'w::len word) i"
proof -
  have "bit (0xFF :: 'w word) i \<longleftrightarrow> i < 8 \<and> i < LENGTH('w)"
  proof -
    have "(0xFF :: 'w word) = mask 8" by (simp add: mask_eq_exp_minus_1)
    then show ?thesis by (simp only: bit_mask_iff) auto
  qed
  then show ?thesis
    using bit_imp_le_length [of w i] by (auto simp: bit_ucast_iff bit_and_iff)
qed

lemma bit_byte_at: "bit (ucast (drop_bit k w AND 0xFF) :: u8) i \<longleftrightarrow> i < 8 \<and> bit (w :: 'w::len word) (k + i)"
  unfolding bit_to_byte bit_drop_bit_eq by simp

lemma bit_placed:
  "bit (push_bit m (ucast b) :: 'w::len word) i \<longleftrightarrow> m \<le> i \<and> i < m + 8 \<and> i < LENGTH('w) \<and> bit (b :: u8) (i - m)"
  unfolding bit_push_bit_iff bit_u8_up by auto

lemma bit_octets16_at:
  "bit (octets16_at d k) i \<longleftrightarrow> (if i < 8 then bit (d ! (k + 1)) i else i < 16 \<and> bit (d ! k) (i - 8))"
  unfolding octets16_at_def bit_or_iff bit_push_bit_iff bit_u8_up by auto

lemma bit_octets32_at:
  "bit (octets32_at d k) i \<longleftrightarrow>
     (if i < 8 then bit (d ! (k + 3)) i else if i < 16 then bit (d ! (k + 2)) (i - 8)
      else if i < 24 then bit (d ! (k + 1)) (i - 16) else i < 32 \<and> bit (d ! k) (i - 24))"
  unfolding octets32_at_def bit_or_iff bit_push_bit_iff bit_u8_up by auto

lemma bit_octets64_at:
  "bit (octets64_at d k) i \<longleftrightarrow>
     (if i < 8 then bit (d ! (k + 7)) i else if i < 16 then bit (d ! (k + 6)) (i - 8)
      else if i < 24 then bit (d ! (k + 5)) (i - 16) else if i < 32 then bit (d ! (k + 4)) (i - 24)
      else if i < 40 then bit (d ! (k + 3)) (i - 32) else if i < 48 then bit (d ! (k + 2)) (i - 40)
      else if i < 56 then bit (d ! (k + 1)) (i - 48) else i < 64 \<and> bit (d ! k) (i - 56))"
proof -
  note unf = octets64_at_def bit_or_iff bit_placed bit_u8_up
  consider "i < 8" | "8 \<le> i" "i < 16" | "16 \<le> i" "i < 24" | "24 \<le> i" "i < 32" | "32 \<le> i" "i < 40"
    | "40 \<le> i" "i < 48" | "48 \<le> i" "i < 56" | "56 \<le> i" "i < 64" | "64 \<le> i"
    by linarith
  then show ?thesis
    unfolding unf by cases simp_all
qed

lemma upt_8: "[0..<8] = [0, 1, 2, 3, 4, 5, 6, 7]" by (simp add: upt_rec)
lemma upt_4: "[0..<4] = [0, 1, 2, 3]" by (simp add: upt_rec)
lemma upt_2: "[0..<2] = [0, 1]" by (simp add: upt_rec)

lemma be_bytes_2: "be_bytes 2 w = [ucast (drop_bit 8 w AND 0xFF), ucast (drop_bit 0 w AND 0xFF)]"
  unfolding be_bytes_def upt_2 list.map by simp

lemma be_bytes_4: "be_bytes 4 w = [ucast (drop_bit 24 w AND 0xFF), ucast (drop_bit 16 w AND 0xFF),
    ucast (drop_bit 8 w AND 0xFF), ucast (drop_bit 0 w AND 0xFF)]"
  unfolding be_bytes_def upt_4 list.map by simp

lemma be_bytes_8: "be_bytes 8 w = [ucast (drop_bit 56 w AND 0xFF), ucast (drop_bit 48 w AND 0xFF),
    ucast (drop_bit 40 w AND 0xFF), ucast (drop_bit 32 w AND 0xFF), ucast (drop_bit 24 w AND 0xFF),
    ucast (drop_bit 16 w AND 0xFF), ucast (drop_bit 8 w AND 0xFF), ucast (drop_bit 0 w AND 0xFF)]"
  unfolding be_bytes_def upt_8 list.map by simp

lemma bit_byte_at_0: "bit (ucast (drop_bit 0 w AND 0xFF) :: u8) i \<longleftrightarrow> i < 8 \<and> bit (w :: 'w::len word) i"
  unfolding bit_byte_at by simp

lemma be_bytes_octets64:
  "be_bytes 8 (octets64_at d k) =
     [d ! k, d ! (k + 1), d ! (k + 2), d ! (k + 3), d ! (k + 4), d ! (k + 5), d ! (k + 6), d ! (k + 7)]"
  unfolding be_bytes_8 list.inject
  by (intro conjI refl; rule bit_word_eqI; unfold bit_byte_at bit_octets64_at; simp)

lemma octets64_be_bytes:
  "octets64_at (ws @ be_bytes 8 w @ rest) (length ws) = w"
proof (rule bit_word_eqI)
  fix i :: nat
  assume "i < LENGTH(64)"
  then have i: "i < 64" by simp
  let ?d = "ws @ be_bytes 8 w @ rest"
  have nth: "?d ! (length ws + j) = ucast (drop_bit (8 * (7 - j)) w AND 0xFF)" if "j < 8" for j
    using that by (simp add: nth_append be_bytes_def)
  have b: "bit (?d ! (length ws + j)) n \<longleftrightarrow> n < 8 \<and> bit w (8 * (7 - j) + n)" if "j < 8" for j n
    unfolding nth [OF that] bit_byte_at ..
  consider "i < 8" | "8 \<le> i" "i < 16" | "16 \<le> i" "i < 24" | "24 \<le> i" "i < 32" | "32 \<le> i" "i < 40"
    | "40 \<le> i" "i < 48" | "48 \<le> i" "i < 56" | "56 \<le> i" "i < 64"
    using i by linarith
  then show "bit (octets64_at ?d (length ws)) i = bit w i"
    unfolding bit_octets64_at
    using b [of 0] b [of 1] b [of 2] b [of 3] b [of 4] b [of 5] b [of 6] b [of 7]
    by cases (simp_all add: i less_diff_conv2 del: append_assoc)
qed

lemma length_be_bytes [simp]: "length (be_bytes n w) = n"
  by (simp add: be_bytes_def)

lemma list_16: "length d = 16 \<Longrightarrow> d = [d ! 0, d ! 1, d ! 2, d ! 3, d ! 4, d ! 5, d ! 6, d ! 7,
    d ! 8, d ! 9, d ! 10, d ! 11, d ! 12, d ! 13, d ! 14, d ! 15]"
  by (rule nth_equalityI) (auto simp: less_Suc_eq numeral_eq_Suc nth_Cons')

lemma to_octets_t64_view:
  assumes "length d = 16"
  shows "to_octets_t64 (map (octets64_at d) [0, 8]) = d"
proof -
  have "to_octets_t64 (map (octets64_at d) [0, 8]) = [d ! 0, d ! 1, d ! 2, d ! 3, d ! 4, d ! 5, d ! 6, d ! 7,
    d ! 8, d ! 9, d ! 10, d ! 11, d ! 12, d ! 13, d ! 14, d ! 15]"
    by (simp add: to_octets_t64_def be_bytes_octets64 del: add_2_eq_Suc add_2_eq_Suc')
  also have "\<dots> = d" by (rule list_16 [OF assms, symmetric])
  finally show ?thesis .
qed

lemma octets64_view_to: "map (octets64_at (to_octets_t64 [a, b])) [0, 8] = [a, b]"
  using octets64_be_bytes [of "[]" a "be_bytes 8 b"] octets64_be_bytes [of "be_bytes 8 a" b "[]"]
  by (simp add: to_octets_t64_def)

lemma be_bytes_octets32:
  "be_bytes 4 (octets32_at d k) = [d ! k, d ! (k + 1), d ! (k + 2), d ! (k + 3)]"
  unfolding be_bytes_4 list.inject
  by (intro conjI refl; rule bit_word_eqI; unfold bit_byte_at bit_octets32_at; simp)

lemma be_bytes_octets16: "be_bytes 2 (octets16_at d k) = [d ! k, d ! (k + 1)]"
  unfolding be_bytes_2 list.inject
  by (intro conjI refl; rule bit_word_eqI; unfold bit_byte_at bit_octets16_at; simp)

definition ipv6_wf :: "ipv6 \<Rightarrow> bool" where
  "ipv6_wf ip \<longleftrightarrow> length (ip6_data ip) = 16"

lemma ipv6_octets64_of: "ipv6_octets64 (ipv6_of_octets64 [a, b] no_prefix6) = [a, b]"
  using octets64_view_to [of a b]
  by (simp only: ipv6_octets64_def ipv6_octets8_def ipv6_of_octets64_def ipv6_set_prefix_def simp_thms if_True ipv6.sel)

text \<open>The views of an IPv6 address as 16, 32 and 64 bit octets lose nothing: converting each of
  them back to bytes gives the sixteen bytes, and the 64 bit view of an address built from two
  64 bit octets is those octets.\<close>

theorem ipv6_views_round_trip:
  assumes "ipv6_wf ip"
  shows "to_octets_t64 (ipv6_octets64 ip) = ipv6_octets8 ip
    \<and> to_octets_t32 (ipv6_octets32 ip) = ipv6_octets8 ip
    \<and> to_octets_t16 (ipv6_octets16 ip) = ipv6_octets8 ip
    \<and> ipv6_octets64 (ipv6_of_octets64 [a, b] no_prefix6) = [a, b]"
proof -
  let ?d = "ip6_data ip"
  have len: "length ?d = 16" using assms by (simp add: ipv6_wf_def)
  have all: "[?d ! 0, ?d ! 1, ?d ! 2, ?d ! 3, ?d ! 4, ?d ! 5, ?d ! 6, ?d ! 7,
    ?d ! 8, ?d ! 9, ?d ! 10, ?d ! 11, ?d ! 12, ?d ! 13, ?d ! 14, ?d ! 15] = ?d"
    by (rule list_16 [OF len, symmetric])
  have "to_octets_t32 (ipv6_octets32 ip) = ?d"
    by (subst all [symmetric]) (simp add: to_octets_t32_def ipv6_octets32_def ipv6_octets8_def be_bytes_octets32 del: add_2_eq_Suc add_2_eq_Suc')
  moreover have "to_octets_t16 (ipv6_octets16 ip) = ?d"
    by (subst all [symmetric]) (simp add: to_octets_t16_def ipv6_octets16_def ipv6_octets8_def be_bytes_octets16 del: add_2_eq_Suc add_2_eq_Suc')
  ultimately show ?thesis
    using to_octets_t64_view [OF len] ipv6_octets64_of [of a b]
    by (simp only: ipv6_octets64_def [of ip] ipv6_octets8_def simp_thms)
qed

lemma ipv6_views_round_trip_witness:
  "to_octets_t64 (ipv6_octets64 ipv6_loopback) = ipv6_octets8 ipv6_loopback
    \<and> to_octets_t32 (ipv6_octets32 ipv6_loopback) = ipv6_octets8 ipv6_loopback
    \<and> to_octets_t16 (ipv6_octets16 ipv6_loopback) = ipv6_octets8 ipv6_loopback
    \<and> ipv6_octets64 (ipv6_of_octets64 [7, 9] no_prefix6) = [7, 9]"
  by (rule ipv6_views_round_trip) code_simp

section \<open>The mask\<close>

text \<open>The most significant \<open>n\<close> bits of a 64 bit octet.\<close>

definition high_bits64 :: "nat \<Rightarrow> u64 \<Rightarrow> u64" where
  "high_bits64 n w = push_bit (64 - n) (drop_bit (64 - n) w)"

lemma and_ones_shift: "NOT (mask k) AND w = push_bit k (drop_bit k w)" for w :: u64
  by (rule bit_word_eqI; unfold bit_and_iff bit_push_bit_iff bit_drop_bit_eq bit_not_iff bit_mask_iff; auto)

text \<open>Masking keeps the given number of leading bits and clears the rest, for 1 to 128 bits and
  above; but masking with no bits at all keeps the first 64 bits instead of clearing everything.\<close>

theorem ipv6_mask_bits:
  "ipv6_octets64 (ipv6_mask ip n) =
     (if n = 0 then [ipv6_octets64 ip ! 0, 0]
      else if n \<le> 64 then [high_bits64 n (ipv6_octets64 ip ! 0), 0]
      else if n < 128 then [ipv6_octets64 ip ! 0, high_bits64 (n - 64) (ipv6_octets64 ip ! 1)]
      else ipv6_octets64 ip)"
proof -
  note view = ipv6_octets64_of
  let ?o = "ipv6_octets64 ip"
  have o: "[?o ! 0, ?o ! 1] = ?o" by (simp add: ipv6_octets64_def)
  consider "n = 0" | "0 < n" "n \<le> 64" | "64 < n" "n < 128" | "128 \<le> n" by linarith
  then show ?thesis
  proof cases
    case 1
    then show ?thesis by (simp add: ipv6_mask_def view)
  next
    case 2
    have "(128 - n) mod 64 = (if n = 64 then 0 else 64 - n)"
    proof (cases "n = 64")
      case False
      with 2 have "128 - n = (64 - n) + 64" by simp
      then have "(128 - n) mod 64 = (64 - n) mod 64" by (metis mod_add_self2)
      with 2 False show ?thesis by simp
    qed simp
    with 2 show ?thesis by (simp add: ipv6_mask_def view Let_def high_bits64_def and_ones_shift)
  next
    case 3
    then have "(128 - n) mod 64 = 64 - (n - 64)" by simp
    with 3 show ?thesis by (simp add: ipv6_mask_def view Let_def high_bits64_def and_ones_shift)
  next
    case 4
    with o show ?thesis by (simp add: ipv6_mask_def view Let_def min_def)
  qed
qed

section \<open>Texts\<close>

lemma no_prefix6_val: "no_prefix6 = 255"
  by (simp add: prefix_status6_def)

lemma ipv6_to_string_prefix:
  assumes "ipv6_has_prefix ip" "inet_ntop6 (ip6_data ip) = Some t"
  shows "ipv6_to_string ip = Some (t @ CHR ''/'' # put_octet (ip6_prefix ip) @ [NUL])"
  using assms by (simp add: ipv6_to_string_def put_octet_def Let_def)

lemma not_digit_NUL [simp]: "\<not> is_digit NUL"
  by (simp add: NUL_def is_digit_ord)

lemma parse_prefix_NUL: "fst (parse_prefix (put_octet p @ [NUL])) = -1"
proof -
  let ?n = "unat p"
  consider "?n < 10" | "10 \<le> ?n" "?n < 100" | "100 \<le> ?n" by linarith
  then show ?thesis
  proof cases
    case 1
    then show ?thesis by (simp add: put_octet_def Let_def parse_prefix_2)
  next
    case 2
    then have "?n div 10 < 10" "?n mod 10 < 10" by auto
    with 2 show ?thesis by (simp add: put_octet_def Let_def parse_prefix_3)
  next
    case 3
    with unat_u8_div_100 [of p] show ?thesis by (simp add: put_octet_def Let_def parse_prefix_3)
  qed
qed

lemma ipv6_parse_printed:
  assumes "length (ip6_data old) = 16" "length src = 16" "inet_ntop6 src = Some t"
  shows "ipv6_parse old t = Some (Ipv6 src no_prefix6)"
    and "p \<le> 128 \<Longrightarrow> ipv6_parse old (t @ CHR ''/'' # put_octet p) = Some (Ipv6 src p)"
    and "ipv6_parse old (t @ CHR ''/'' # put_octet q @ [NUL]) = Some (Ipv6 src (prefix_status6 v6_invalid_prefix))"
proof -
  note run = pton6_ntop6 [OF assms(2,1) plain_special_slash(1) assms(3)]
  have "inet_pton6 (CHR ''/'') (ip6_data old) t = Some (v6_valid, src, [])"
    using run [of "[]"] by simp
  then show "ipv6_parse old t = Some (Ipv6 src no_prefix6)"
    by (simp add: ipv6_parse_def inet_pton6_prefix_def is_valid6_def)
  have special: "inet_pton6 (CHR ''/'') (ip6_data old) (t @ CHR ''/'' # s) = Some (v6_valid_special, src, CHR ''/'' # s)"
    for s
    using run [of "CHR ''/'' # s"] by (simp add: ends_at_slash)
  show "ipv6_parse old (t @ CHR ''/'' # put_octet p) = Some (Ipv6 src p)" if "p \<le> 128"
    using special [of "put_octet p"] uint_le_128 [OF that]
    by (simp add: ipv6_parse_def inet_pton6_prefix_def is_valid6_def parse_prefix_put_octet)
  obtain r where "parse_prefix (put_octet q @ [NUL]) = (-1, r)"
    using parse_prefix_NUL [of q] by (cases "parse_prefix (put_octet q @ [NUL])") auto
  then show "ipv6_parse old (t @ CHR ''/'' # put_octet q @ [NUL]) = Some (Ipv6 src (prefix_status6 v6_invalid_prefix))"
    using special [of "put_octet q @ [NUL]"]
    by (simp add: ipv6_parse_def inet_pton6_prefix_def is_valid6_def)
qed

lemma ntop6_total: "length src = 16 \<Longrightarrow> \<exists>t. inet_ntop6 src = Some t"
  using ip6_text.print_defined by (auto simp: ntop6_wf_def)

definition ipv6_checked_of_string :: "string \<Rightarrow> ipv6 option" where
  "ipv6_checked_of_string str =
     (case ipv6_of_string str of Some ip \<Rightarrow> if ipv6_is_valid ip then Some ip else None | None \<Rightarrow> None)"

interpretation ipv6_text: text_codec "\<lambda>ip. ipv6_wf ip \<and> ip6_prefix ip = no_prefix6" ipv6_ip_to_string
  ipv6_checked_of_string
proof
  fix ip t
  assume wf: "ipv6_wf ip \<and> ip6_prefix ip = no_prefix6"
  then have len: "length (ip6_data ip) = 16" by (simp add: ipv6_wf_def)
  show "\<exists>t. ipv6_ip_to_string ip = Some t" using ntop6_total [OF len] by (simp add: ipv6_ip_to_string_def)
  assume "ipv6_ip_to_string ip = Some t"
  then have t: "inet_ntop6 (ip6_data ip) = Some t" by (simp add: ipv6_ip_to_string_def)
  have "length (ip6_data ipv6_default) = 16" by (simp add: ipv6_default_def)
  from ipv6_parse_printed(1) [OF this len t] wf
  show "ipv6_checked_of_string t = Some ip"
    by (cases ip) (simp add: ipv6_checked_of_string_def ipv6_of_string_def ipv6_is_valid_def)
qed

text \<open>C33: The address part of an IPv6 object is read back from its printed text, alone or with a slash
  and the prefix appended, so objects without prefix are determined by their text. But the text
  that includes the prefix ends with a NUL, and constructing an address from it fails with an
  invalid prefix, for every object that has a prefix.\<close>

theorem ipv6_text_round_trip:
  assumes "ipv6_wf ip"
  shows "\<exists>t. ipv6_ip_to_string ip = Some t
     \<and> ipv6_of_string t = Some (Ipv6 (ip6_data ip) no_prefix6)
     \<and> (if ipv6_has_prefix ip
         then ipv6_of_string (t @ CHR ''/'' # put_octet (ip6_prefix ip)) = Some ip
           \<and> ipv6_to_string ip = Some (t @ CHR ''/'' # put_octet (ip6_prefix ip) @ [NUL])
           \<and> Option.bind (ipv6_to_string ip) ipv6_of_string =
               Some (Ipv6 (ip6_data ip) (prefix_status6 v6_invalid_prefix))
         else ipv6_to_string ip = Some t)"
proof -
  have len: "length (ip6_data ip) = 16" using assms by (simp add: ipv6_wf_def)
  from ntop6_total [OF len] obtain t where t: "inet_ntop6 (ip6_data ip) = Some t" by blast
  have d: "length (ip6_data ipv6_default) = 16" by (simp add: ipv6_default_def)
  note parsed = ipv6_parse_printed [OF d len t]
  show ?thesis
  proof (cases "ipv6_has_prefix ip")
    case True
    then have "ip6_prefix ip \<le> 128" by (simp add: ipv6_has_prefix_def ipv6_max_prefix_def)
    from parsed(2) [OF this] parsed(1,3) ipv6_to_string_prefix [OF True t] t True show ?thesis
      by (simp add: ipv6_of_string_def ipv6_ip_to_string_def)
  next
    case False
    with t parsed(1) show ?thesis
      by (simp add: ipv6_of_string_def ipv6_ip_to_string_def ipv6_to_string_def)
  qed
qed

lemma ipv6_text_round_trip_witness:
  "ipv6_of_string ''::'' = Some (Ipv6 (replicate 16 0) no_prefix6)"
proof -
  have "ipv6_wf ipv6_any" "ipv6_ip_to_string ipv6_any = Some ''::''" "ip6_data ipv6_any = replicate 16 0"
    by code_simp+
  with ipv6_text_round_trip [of ipv6_any] show ?thesis by auto
qed

section \<open>The invariant of the class\<close>

inductive ipv6_reachable :: "ipv6 \<Rightarrow> bool" where
  default: "ipv6_reachable ipv6_default"
| of_prefix: "ipv6_reachable (ipv6_of_prefix p)"
| of_octets8: "length bs = 16 \<Longrightarrow> ipv6_reachable (ipv6_of_octets8 bs p)"
| of_octets16: "ipv6_reachable (ipv6_of_octets16 hs p)"
| of_octets32: "ipv6_reachable (ipv6_of_octets32 ws p)"
| of_octets64: "ipv6_reachable (ipv6_of_octets64 ds p)"
| of_string: "ipv6_of_string str = Some ip \<Longrightarrow> ipv6_reachable ip"
| of_string_prefix: "ipv6_of_string_prefix str p = Some ip \<Longrightarrow> ipv6_reachable ip"
| assign_string: "ipv6_reachable ip \<Longrightarrow> ipv6_assign_string ip str = Some ip' \<Longrightarrow> ipv6_reachable ip'"
| assign_octets8: "ipv6_reachable ip \<Longrightarrow> length bs = 16 \<Longrightarrow> ipv6_reachable (ipv6_assign_octets8 ip bs)"
| assign_octets16: "ipv6_reachable ip \<Longrightarrow> ipv6_reachable (ipv6_assign_octets16 ip hs)"
| assign_octets32: "ipv6_reachable ip \<Longrightarrow> ipv6_reachable (ipv6_assign_octets32 ip ws)"
| assign_octets64: "ipv6_reachable ip \<Longrightarrow> ipv6_reachable (ipv6_assign_octets64 ip ds)"
| set_prefix: "ipv6_reachable ip \<Longrightarrow> ipv6_reachable (ipv6_set_prefix ip p)"
| set_iid: "ipv6_reachable ip \<Longrightarrow> ipv6_set_iid ip piid = Some ip' \<Longrightarrow> ipv6_reachable ip'"
| masked: "ipv6_reachable ip \<Longrightarrow> ipv6_reachable (ipv6_mask ip n)"
| reversed: "ipv6_reachable ip \<Longrightarrow> ipv6_reachable (ipv6_reversed ip)"

definition ipv6_inv :: "ipv6 \<Rightarrow> bool" where
  "ipv6_inv ip \<longleftrightarrow> ipv6_wf ip \<and> (ip6_prefix ip \<le> ipv6_max_prefix \<or> (\<exists>st. ip6_prefix ip = inet_pton6_status_code st))"

lemma ipv6_inv_code [simp]: "length d = 16 \<Longrightarrow> ipv6_inv (Ipv6 d (prefix_status6 st))"
  by (auto simp: ipv6_inv_def ipv6_wf_def prefix_status6_def)

lemma ipv6_inv_no_prefix [simp]: "length d = 16 \<Longrightarrow> ipv6_inv (Ipv6 d 255)"
  using ipv6_inv_code [of d v6_valid] by (simp add: no_prefix6_val)

lemma ipv6_inv_prefix: "length d = 16 \<Longrightarrow> p \<le> ipv6_max_prefix \<Longrightarrow> ipv6_inv (Ipv6 d p)"
  by (simp add: ipv6_inv_def ipv6_wf_def)

lemma ipv6_inv_set_prefix: "length (ip6_data ip) = 16 \<Longrightarrow> ipv6_inv (ipv6_set_prefix ip p)"
  by (cases "p \<le> ipv6_max_prefix")
     (auto simp: ipv6_set_prefix_def not_le intro: ipv6_inv_prefix simp del: replicate.simps)

lemma ipv6_inv_wf: "ipv6_inv ip \<Longrightarrow> length (ip6_data ip) = 16"
  by (simp add: ipv6_inv_def ipv6_wf_def)

lemma length_to_octets [simp]:
  "length (to_octets_t16 hs) = 16" "length (to_octets_t32 ws) = 16" "length (to_octets_t64 ds) = 16"
  by (simp_all add: to_octets_t16_def to_octets_t32_def to_octets_t64_def)

lemma pton6_prefix_total:
  assumes "length buf = 16"
  shows "\<exists>st buf' p rest. inet_pton6_prefix (CHR ''/'') buf p0 str = Some (st, buf', p, rest)
    \<and> length buf' = 16 \<and> (p = p0 \<or> p \<le> ipv6_max_prefix)"
proof -
  from inet_pton6_ok [OF assms, of "CHR ''/''" str] obtain st buf' rest where
    r: "inet_pton6 (CHR ''/'') buf str = Some (st, buf', rest)" "length buf' = 16"
      "st = v6_valid_special \<longrightarrow> rest \<noteq> [] \<and> hd rest = CHR ''/''" by auto
  show ?thesis
  proof (cases "st = v6_valid_special")
    case False
    with r show ?thesis by (simp add: inet_pton6_prefix_def)
  next
    case True
    with r(3) obtain src where src: "rest = CHR ''/'' # src" by (cases rest) auto
    obtain q r' where q: "parse_prefix src = (q, r')" by (cases "parse_prefix src")
    have "of_int q \<le> (128 :: u8)" if "q \<noteq> -1" "q \<le> 128"
    proof -
      have "0 \<le> q" using parse_prefix_sound [OF q that(1)] that(2) by simp
      then have "unat (of_int q :: u8) = nat q" using unat_of_nat_u8 [of "nat q"] that(2) by simp
      then show ?thesis using that(2) \<open>0 \<le> q\<close> by (simp add: word_le_nat_alt)
    qed
    with r(1,2) True src q show ?thesis
      by (cases "q = -1 \<or> q > 128") (auto simp: inet_pton6_prefix_def ipv6_max_prefix_def)
  qed
qed

lemma ipv6_inv_parse:
  assumes "length (ip6_data ip) = 16"
  shows "\<exists>ip'. ipv6_parse ip str = Some ip' \<and> ipv6_inv ip'"
proof -
  from pton6_prefix_total [OF assms, of no_prefix6 str] obtain st buf' p rest where
    r: "inet_pton6_prefix (CHR ''/'') (ip6_data ip) no_prefix6 str = Some (st, buf', p, rest)"
      "length buf' = 16" "p = no_prefix6 \<or> p \<le> ipv6_max_prefix" by blast
  then have "ipv6_inv (Ipv6 buf' p)" by (auto intro: ipv6_inv_prefix simp: no_prefix6_val)
  with r show ?thesis by (simp add: ipv6_parse_def)
qed

lemma copy_iid_length: "copy_iid data i piid = Some data' \<Longrightarrow> length data' = length data"
  by (induction piid arbitrary: data i) (auto simp: store_length split: Option.bind_splits)

lemma status6_code_255: "inet_pton6_status_code st = 255 \<longleftrightarrow> st = v6_valid"
  by (cases st) simp_all

lemma ipv6_reachable_inv: "ipv6_reachable ip \<Longrightarrow> ipv6_inv ip"
proof (induction rule: ipv6_reachable.induct)
  case default
  then show ?case by (simp add: ipv6_default_def del: replicate.simps)
next
  case (of_string str ip)
  with ipv6_inv_parse [of ipv6_default str] show ?case
    by (auto simp: ipv6_of_string_def ipv6_default_def)
next
  case (of_string_prefix str p ip)
  with ipv6_inv_parse [of ipv6_default str] show ?case
    by (auto simp: ipv6_of_string_prefix_def ipv6_default_def ipv6_inv_set_prefix ipv6_inv_wf)
next
  case (assign_string ip str ip')
  with ipv6_inv_parse [OF ipv6_inv_wf, of ip str] show ?case
    by (auto simp: ipv6_assign_string_def ipv6_inv_wf no_prefix6_val)
next
  case (set_iid ip piid ip')
  then show ?case
    by (auto simp: ipv6_set_iid_def ipv6_inv_def ipv6_wf_def copy_iid_length split: if_splits)
qed (auto simp: ipv6_of_prefix_def ipv6_default_def ipv6_of_octets8_def ipv6_of_octets16_def ipv6_of_octets32_def
  ipv6_of_octets64_def ipv6_assign_octets8_def ipv6_assign_octets16_def ipv6_assign_octets32_def
  ipv6_assign_octets64_def ipv6_mask_def ipv6_reversed_def Let_def ipv6_inv_set_prefix ipv6_inv_wf no_prefix6_val)

text \<open>C20: Whatever constructors, assignments and changes a program applies, an IPv6 object has
  sixteen bytes and its other byte is a prefix length of at most 128 or the code of a status: the
  status function never casts a value that is not an enumerator, and it reports a valid address
  exactly for a valid object.\<close>

theorem ipv6_reachable_status:
  assumes "ipv6_reachable ip"
  shows "length (ip6_data ip) = 16
    \<and> (\<exists>st. ipv6_status ip = Some st \<and> (ipv6_is_valid ip \<longleftrightarrow> st = v6_valid))"
  using ipv6_reachable_inv [OF assms]
  by (auto simp: ipv6_inv_def ipv6_wf_def ipv6_status_def ipv6_is_valid_def prefix_status6_def status6_code_255)

lemma ipv6_reachable_status_witness:
  "length (ip6_data (ipv6_set_prefix ipv6_default 200)) = 16
    \<and> (\<exists>st. ipv6_status (ipv6_set_prefix ipv6_default 200) = Some st
         \<and> (ipv6_is_valid (ipv6_set_prefix ipv6_default 200) \<longleftrightarrow> st = v6_valid))"
  by (rule ipv6_reachable_status, rule ipv6_reachable.set_prefix, rule ipv6_reachable.default)

text \<open>
  Assigning a text that is no address: the parser has already overwritten a part of the bytes, and
  the object counts as valid.
\<close>

lemma ipv6_assign_garbage:
  "ipv6_assign_string (Ipv6 (replicate 16 0xAA) no_prefix6) ''1:2:zz'' =
     Some (Ipv6 ([0, 1, 0, 2] @ replicate 12 0xAA) no_prefix6)"
  "map_option ipv6_is_valid (ipv6_assign_string (Ipv6 (replicate 16 0xAA) no_prefix6) ''1:2:zz'') = Some True"
  by code_simp+

section \<open>The embedded IPv4 address\<close>

lemma mapped_longest_run:
  assumes "length src = 16" "zero_run src 0 5" "src ! 10 = 0xFF" "longest_run src 8 lc li"
  shows "lc = 5 \<and> li = 0"
proof -
  from assms(4) have longest: "\<And>a n. 0 < n \<Longrightarrow> a + n \<le> 8 \<Longrightarrow> zero_run src a n \<Longrightarrow> n < lc \<or> n = lc \<and> int a \<le> li"
    and run: "if li = -1 then lc = 0 else 0 \<le> li \<and> 0 < lc \<and> nat li + lc \<le> 8 \<and> zero_run src (nat li) lc"
    by (auto simp: longest_run_def)
  from longest [of 5 0] assms(2) have "5 \<le> lc" by auto
  with run have li: "0 \<le> li" "nat li + lc \<le> 8" "zero_run src (nat li) lc" by (auto split: if_splits)
  have "\<not> zero_group src 5" using assms(3) by (simp add: zero_group_def)
  with li(3) have "\<not> (nat li \<le> 5 \<and> 5 < nat li + lc)" by (auto simp: zero_run_def)
  with li(1,2) \<open>5 \<le> lc\<close> show ?thesis by linarith
qed

text \<open>A valid IPv6 object of the mapped form holds the IPv4 address of its last four bytes, and its
  printed text is the printed text of that IPv4 address after ::ffff:, whatever the four bytes are;
  every other object yields 0.0.0.0.\<close>

theorem ipv6_mapped_v4_text:
  assumes "ipv6_wf ip" "ipv6_is_valid ip"
  shows "if ipv6_is_v4_mapped ip
    then \<exists>v4. ipv6_mapped_v4 ip = Some v4 \<and> ipv4_octets v4 = drop 12 (ip6_data ip)
      \<and> ipv6_ip_to_string ip = map_option (\<lambda>t. ''::ffff:'' @ t) (ipv4_to_string v4)
    else ipv6_mapped_v4 ip = Some ipv4_default"
proof (cases "ipv6_is_v4_mapped ip")
  case False
  then show ?thesis by (simp add: ipv6_mapped_v4_def)
next
  case True
  let ?d = "ip6_data ip"
  have len: "length ?d = 16" using assms(1) by (simp add: ipv6_wf_def)
  have tail: "drop 12 ?d = [?d ! 12, ?d ! 13, ?d ! 14, ?d ! 15]"
    using drop_two [of 6 ?d] drop_two [of 7 ?d] len by simp
  let ?v4 = "Ipv4 (join4 (?d ! 12) (?d ! 13) (?d ! 14) (?d ! 15)) (checked_prefix4 no_prefix4)"
  have v4: "ipv6_mapped_v4 ip = Some ?v4"
    using True assms(2) by (simp add: ipv6_mapped_v4_def ipv4_of_octets_def)
  have oct: "ipv4_octets ?v4 = drop 12 ?d" by (simp add: ipv4_octets_def tail)
  have z: "?d ! 0 = 0" "?d ! 1 = 0" "?d ! 2 = 0" "?d ! 3 = 0" "?d ! 4 = 0" "?d ! 5 = 0" "?d ! 6 = 0"
    "?d ! 7 = 0" "?d ! 8 = 0" "?d ! 9 = 0" and ff: "?d ! 10 = 0xFF" "?d ! 11 = 0xFF"
    using True by (simp_all only: ipv6_is_v4_mapped_def ipv6_octets8_def)
  have "zero_group ?d k" if "k < 5" for k
  proof -
    from that have "k = 0 \<or> k = 1 \<or> k = 2 \<or> k = 3 \<or> k = 4" by linarith
    with z show ?thesis by (auto simp: zero_group_def numeral_eq_Suc)
  qed
  then have run: "zero_run ?d 0 5" by (simp add: zero_run_def)
  from inet_ntop6_groups [OF len] obtain lc li where l: "longest_run ?d 8 lc li" and
    t: "inet_ntop6 ?d = (if li = 0 \<and> lc = 5 \<and> ?d ! 10 = 0xFF \<and> ?d ! 11 = 0xFF
     then map_option (\<lambda>text. ''::ffff:'' @ text) (inet_ntop4 (drop 12 ?d))
     else if li = -1 then Some (groups_end ?d 0)
     else Some ((if li = 0 then '':'' else groups_sep ?d 0 (nat li)) @ '':'' @ groups_end ?d (nat li + lc)))"
    by blast
  from mapped_longest_run [OF len run ff(1) l] ff
  have "inet_ntop6 ?d = map_option (\<lambda>text. ''::ffff:'' @ text) (inet_ntop4 (drop 12 ?d))"
    unfolding t by (simp only: simp_thms if_True)
  then have "ipv6_ip_to_string ip = map_option (\<lambda>t. ''::ffff:'' @ t) (ipv4_to_string ?v4)"
    by (simp only: ipv6_ip_to_string_def ipv4_to_string_def oct)
  with True v4 oct show ?thesis by (simp only: if_True) blast
qed

lemma ipv6_mapped_v4_text_witness:
  "\<exists>v4. ipv6_mapped_v4 (Ipv6 (replicate 10 0 @ [255, 255, 127, 0, 0, 1]) 255) = Some v4
     \<and> ipv4_octets v4 = [127, 0, 0, 1]"
proof -
  let ?ip = "Ipv6 (replicate 10 0 @ [255, 255, 127, 0, 0, 1]) 255"
  have "ipv6_wf ?ip" "ipv6_is_valid ?ip" "ipv6_is_v4_mapped ?ip" "drop 12 (ip6_data ?ip) = [127, 0, 0, 1]"
    by code_simp+
  with ipv6_mapped_v4_text [OF this(1,2)] show ?thesis by auto
qed

end
