(* ===== verification/Ip_Address.thy ===== *)
theory Ip_Address
  imports Ipv6_Class
begin

text \<open>
  \<^verbatim>\<open>webpp/ip/ip_address.hpp\<close>: the variant of an IPv4 and an IPv6 address.
  \<^verbatim>\<open>pick\<close> is the case distinction of every member function.
\<close>

section \<open>The variant\<close>

datatype ip_address = V4 ipv4 | V6 ipv6

definition ip_parse :: "string \<Rightarrow> ip_address option" where
  "ip_parse ip_addr =
     Option.bind (ipv4_of_string ip_addr) (\<lambda>ip4.
     Option.bind (ipv4_status ip4) (\<lambda>status.
       if status = v4_invalid_character then map_option V6 (ipv6_of_string ip_addr)
       else Some (V4 ip4)))"

definition ip_invalid :: ip_address where
  "ip_invalid = V4 ipv4_invalid"

text \<open>The status byte is taken as the 32 bits of the address.\<close>

definition ip_default :: ip_address where
  "ip_default = V4 (ipv4_of_int (ucast (prefix_status4 v4_invalid_character)) no_prefix4)"

definition ip_of_string :: "string \<Rightarrow> ip_address option" where
  "ip_of_string ip_addr = ip_parse ip_addr"

definition ip_assign_string :: "ip_address \<Rightarrow> string \<Rightarrow> ip_address option" where
  "ip_assign_string ip ip_addr = ip_parse ip_addr"

definition ip_of_v4_octets :: "u8 list \<Rightarrow> u8 \<Rightarrow> ip_address option" where
  "ip_of_v4_octets octets prefix_val = map_option V4 (ipv4_of_octets octets prefix_val)"

definition ip_of_v4_octets_subnet :: "u8 list \<Rightarrow> string \<Rightarrow> ip_address option" where
  "ip_of_v4_octets_subnet octets subnet = map_option V4 (ipv4_of_octets_subnet octets subnet)"

definition ip_of_int :: "u32 \<Rightarrow> u8 \<Rightarrow> ip_address" where
  "ip_of_int ip prefix = V4 (ipv4_of_int ip prefix)"

definition ip_of_int_subnet :: "u32 \<Rightarrow> string \<Rightarrow> ip_address option" where
  "ip_of_int_subnet ip_addr subnet = map_option V4 (ipv4_of_int_subnet ip_addr subnet)"

definition ip_of_v4_octets_octets :: "u8 list \<Rightarrow> u8 list \<Rightarrow> ip_address option" where
  "ip_of_v4_octets_octets ip_addr subnet = map_option V4 (ipv4_of_octets_octets ip_addr subnet)"

definition ip_of_octets8 :: "u8 list \<Rightarrow> u8 \<Rightarrow> ip_address" where
  "ip_of_octets8 octets prefix_value = V6 (ipv6_of_octets8 octets prefix_value)"

definition ip_of_octets16 :: "u16 list \<Rightarrow> u8 \<Rightarrow> ip_address" where
  "ip_of_octets16 octets prefix_value = V6 (ipv6_of_octets16 octets prefix_value)"

definition ip_of_octets32 :: "u32 list \<Rightarrow> u8 \<Rightarrow> ip_address" where
  "ip_of_octets32 octets prefix_value = V6 (ipv6_of_octets32 octets prefix_value)"

definition ip_of_octets64 :: "u64 list \<Rightarrow> u8 \<Rightarrow> ip_address" where
  "ip_of_octets64 octets prefix_value = V6 (ipv6_of_octets64 octets prefix_value)"

section \<open>Comparison\<close>

definition ip_eq_v4 :: "ip_address \<Rightarrow> ipv4 \<Rightarrow> bool" where
  "ip_eq_v4 ip ip_addr = (case ip of V4 a \<Rightarrow> ipv4_eq a ip_addr | V6 _ \<Rightarrow> False)"

definition ip_eq_v6 :: "ip_address \<Rightarrow> ipv6 \<Rightarrow> bool" where
  "ip_eq_v6 ip ip_addr = (case ip of V4 _ \<Rightarrow> False | V6 a \<Rightarrow> ipv6_eq a ip_addr)"

definition ip_eq_string :: "ip_address \<Rightarrow> string \<Rightarrow> bool option" where
  "ip_eq_string ip str =
     map_option (\<lambda>addr. case (ip, addr) of (V4 a, V4 b) \<Rightarrow> ipv4_eq a b | (V6 a, V6 b) \<Rightarrow> ipv6_eq a b | _ \<Rightarrow> False)
       (ip_of_string str)"

datatype partial_ordering = po_less | po_equal | po_greater | po_unordered

fun po_of_strong :: "strong_ordering \<Rightarrow> partial_ordering" where
  "po_of_strong so_less = po_less"
| "po_of_strong so_equal = po_equal"
| "po_of_strong so_greater = po_greater"

definition ip_compare_v4 :: "ip_address \<Rightarrow> ipv4 \<Rightarrow> partial_ordering" where
  "ip_compare_v4 ip ip_addr = (case ip of V4 a \<Rightarrow> po_of_strong (spaceship a ip_addr) | V6 _ \<Rightarrow> po_unordered)"

definition ip_compare_v6 :: "ip_address \<Rightarrow> ipv6 \<Rightarrow> partial_ordering" where
  "ip_compare_v6 ip ip_addr = (case ip of V4 _ \<Rightarrow> po_unordered | V6 a \<Rightarrow> po_of_strong (spaceship a ip_addr))"

definition ip_compare :: "ip_address \<Rightarrow> ip_address \<Rightarrow> partial_ordering" where
  "ip_compare ip ip_addr =
     (case (ip, ip_addr) of
        (V4 a, V4 b) \<Rightarrow> po_of_strong (spaceship a b)
      | (V6 a, V6 b) \<Rightarrow> po_of_strong (spaceship a b)
      | _ \<Rightarrow> po_unordered)"

definition ip_compare_string :: "ip_address \<Rightarrow> string \<Rightarrow> partial_ordering option" where
  "ip_compare_string ip str = map_option (ip_compare ip) (ip_of_string str)"

section \<open>Observers\<close>

definition ip_is_v4 :: "ip_address \<Rightarrow> bool" where
  "ip_is_v4 ip = (case ip of V4 _ \<Rightarrow> True | V6 _ \<Rightarrow> False)"

definition ip_is_v6 :: "ip_address \<Rightarrow> bool" where
  "ip_is_v6 ip = (case ip of V4 _ \<Rightarrow> False | V6 _ \<Rightarrow> True)"

text \<open>\<^verbatim>\<open>as_v4\<close> and \<^verbatim>\<open>as_v6\<close> throw when the other alternative is held.\<close>

definition ip_as_v4 :: "ip_address \<Rightarrow> ipv4 option" where
  "ip_as_v4 ip = (case ip of V4 a \<Rightarrow> Some a | V6 _ \<Rightarrow> None)"

definition ip_as_v6 :: "ip_address \<Rightarrow> ipv6 option" where
  "ip_as_v6 ip = (case ip of V4 _ \<Rightarrow> None | V6 a \<Rightarrow> Some a)"

definition ip_has_prefix :: "ip_address \<Rightarrow> bool" where
  "ip_has_prefix ip = (case ip of V4 a \<Rightarrow> ipv4_has_prefix a | V6 a \<Rightarrow> ipv6_has_prefix a)"

definition ip_is_valid :: "ip_address \<Rightarrow> bool" where
  "ip_is_valid ip = (case ip of V4 a \<Rightarrow> ipv4_is_valid a | V6 a \<Rightarrow> ipv6_is_valid a)"

definition ip_is_zero :: "ip_address \<Rightarrow> bool" where
  "ip_is_zero ip = (case ip of V4 a \<Rightarrow> ipv4_is_zero a | V6 a \<Rightarrow> ipv6_is_zero a)"

definition ip_is_broadcast :: "ip_address \<Rightarrow> bool" where
  "ip_is_broadcast ip = (case ip of V4 a \<Rightarrow> ipv4_is_broadcast a | V6 a \<Rightarrow> ipv6_is_broadcast a)"

definition ip_is_multicast :: "ip_address \<Rightarrow> bool" where
  "ip_is_multicast ip = (case ip of V4 a \<Rightarrow> ipv4_is_multicast a | V6 a \<Rightarrow> ipv6_is_multicast a)"

definition ip_is_nonroutable :: "ip_address \<Rightarrow> bool option" where
  "ip_is_nonroutable ip = (case ip of V4 a \<Rightarrow> ipv4_is_nonroutable a | V6 a \<Rightarrow> Some (ipv6_is_nonroutable a))"

definition ip_is_private :: "ip_address \<Rightarrow> bool option" where
  "ip_is_private ip = (case ip of V4 a \<Rightarrow> ipv4_is_private a | V6 a \<Rightarrow> ipv6_is_private a)"

definition ip_is_loopback :: "ip_address \<Rightarrow> bool option" where
  "ip_is_loopback ip = (case ip of V4 a \<Rightarrow> ipv4_is_loopback a | V6 a \<Rightarrow> Some (ipv6_is_loopback a))"

definition ip_prefix :: "ip_address \<Rightarrow> u8" where
  "ip_prefix ip = (case ip of V4 a \<Rightarrow> ip4_prefix a | V6 a \<Rightarrow> ip6_prefix a)"

definition ip_status :: "ip_address \<Rightarrow> ip_address_status option" where
  "ip_status ip =
     (let prefix_val = ip_prefix ip in
      if prefix_val \<le> ipv6_max_prefix then Some ip_valid else status_ip_of_code prefix_val)"

definition ip_to_string :: "ip_address \<Rightarrow> string option" where
  "ip_to_string ip = (case ip of V4 a \<Rightarrow> ipv4_to_string a | V6 a \<Rightarrow> ipv6_to_string a)"

definition ip_status_string :: "ip_address \<Rightarrow> string option" where
  "ip_status_string ip = (case ip of V4 a \<Rightarrow> ipv4_status_string a | V6 a \<Rightarrow> ipv6_status_string a)"

section \<open>Which family a text belongs to\<close>

text \<open>
  The IPv4 parser reads the first group of an IPv6 address as an octet. \<open>dec_over v ns\<close>:
  reading the nibbles \<open>ns\<close> after the value \<open>v\<close> exceeds an octet before it meets a letter.
\<close>

fun dec_over :: "nat \<Rightarrow> nat list \<Rightarrow> bool" where
  "dec_over v [] \<longleftrightarrow> False"
| "dec_over v (n # ns) \<longleftrightarrow> n < 10 \<and> (v * 10 + n > 255 \<or> dec_over (v * 10 + n) ns)"

lemma hex_letter_not_digit: "10 \<le> n \<Longrightarrow> n < 16 \<Longrightarrow> \<not> is_digit (hex_chars ! n) \<and> hex_chars ! n \<noteq> CHR ''.''"
  using nibble_cases [of n] by (auto simp: hex_chars_def is_digit_ord)

lemma pton4_reads_group:
  assumes "\<forall>n \<in> set ns. n < 16" "out < length buf" "buf ! out = of_nat v" "v < 256" "octets < (if saw_digit then 4 else 3)"
    "saw_digit \<longrightarrow> 0 < v \<or> ns = []" "\<not> saw_digit \<longrightarrow> v = 0 \<and> (ns = [] \<or> hd ns \<noteq> 0 \<or> tl ns = [])"
  shows "\<exists>buf' rest'. inet_pton4_loop (CHR ''/'') buf out saw_digit octets (map (\<lambda>n. hex_chars ! n) ns @ CHR '':'' # rest)
    = Some (if dec_over v ns then v4_invalid_octet_range else v4_invalid_character, buf', rest')"
  using assms
proof (induction ns arbitrary: buf v saw_digit octets)
  case Nil
  then show ?case by simp
next
  case (Cons n ns)
  have n: "n < 16" using Cons.prems(1) by simp
  show ?case
  proof (cases "n < 10")
    case False
    with hex_letter_not_digit [of n] n Cons.prems(5) show ?thesis by (auto split: if_splits)
  next
    case True
    have u: "unat (of_nat v :: u8) = v" using Cons.prems(4) by (rule unat_of_nat_u8)
    then have nz: "\<not> (saw_digit \<and> (of_nat v :: u8) = 0)" using Cons.prems(6) by auto
    let ?v = "v * 10 + n"
    show ?thesis
    proof (cases "?v > 255")
      case over: True
      then show ?thesis
        using True u nz Cons.prems by (simp add: digit_char_hex [symmetric] Let_def del: of_nat_add of_nat_mult)
    next
      case False
      let ?buf = "buf[out := of_nat ?v]"
      have "\<exists>buf' rest'. inet_pton4_loop (CHR ''/'') ?buf out True (if saw_digit then octets else octets + 1)
          (map (\<lambda>n. hex_chars ! n) ns @ CHR '':'' # rest)
        = Some (if dec_over ?v ns then v4_invalid_octet_range else v4_invalid_character, buf', rest')"
      proof (rule Cons.IH)
        show "(if saw_digit then octets else octets + 1) < (if True then 4 else 3)"
          using Cons.prems(5) by (simp split: if_splits)
      qed (use Cons.prems False in auto)
      then show ?thesis
        using True False u nz Cons.prems
        by (cases saw_digit) (auto simp: digit_char_hex [symmetric] Let_def simp del: of_nat_add of_nat_mult)
    qed
  qed
qed

lemma group_nibbles_head:
  "group_nibbles b0 b1 = [] \<or> hd (group_nibbles b0 b1) \<noteq> 0 \<or> tl (group_nibbles b0 b1) = []"
  by (simp add: group_nibbles_def Let_def)

text \<open>The first group of a printed address, if the text starts with one.\<close>

definition first_group_over :: "u8 list \<Rightarrow> string \<Rightarrow> bool" where
  "first_group_over src t \<longleftrightarrow> t \<noteq> [] \<and> hd t \<noteq> CHR '':'' \<and> dec_over 0 (group_nibbles (src ! 0) (src ! 1))"

lemma printed6_starts:
  assumes "length src = 16" "inet_ntop6 src = Some t"
  obtains s where "t = CHR '':'' # s" | s where "t = group_text (src ! 0) (src ! 1) @ CHR '':'' # s"
proof -
  from inet_ntop6_groups [OF assms(1)] obtain lc li where run: "longest_run src 8 lc li" and
    shown: "Some t = (if li = 0 \<and> lc = 5 \<and> src ! 10 = 0xFF \<and> src ! 11 = 0xFF
     then map_option (\<lambda>text. ''::ffff:'' @ text) (inet_ntop4 (drop 12 src))
     else if li = -1 then Some (groups_end src 0)
     else Some ((if li = 0 then '':'' else groups_sep src 0 (nat li)) @ '':'' @ groups_end src (nat li + lc)))"
    unfolding assms(2) by blast
  have first: "groups_sep src 0 n = group_text (src ! 0) (src ! 1) @ CHR '':'' # groups_sep src 1 n" if "0 < n" for n
    using groups_sep_Cons [OF that, of src] by simp
  have "li = -1 \<or> 0 \<le> li" using run by (auto simp: longest_run_def split: if_splits)
  then consider "li = -1" | "li = 0" | "0 < li" by linarith
  then show thesis
  proof cases
    case 1
    with shown have "t = groups_end src 0" by simp
    also have "\<dots> = group_text (src ! 0) (src ! 1) @ CHR '':'' # groups_end src 1"
      using groups_end_Cons [of 0 src] by simp
    finally show thesis by (rule that(2))
  next
    case 2
    with shown have "\<exists>s. t = CHR '':'' # s"
      by (cases "inet_ntop4 (drop 12 src)") (auto split: if_splits)
    then show thesis using that(1) by blast
  next
    case 3
    then have "0 < nat li" by simp
    with shown 3 first [OF this] show thesis by (auto intro: that(2))
  qed
qed

lemma pton4_of_printed6:
  assumes "length src = 16" "inet_ntop6 src = Some t"
  shows "\<exists>buf' rest'. inet_pton4 (CHR ''/'') (replicate 4 0) t =
    Some (if first_group_over src t then v4_invalid_octet_range else v4_invalid_character, buf', rest')"
  using assms
proof (cases rule: printed6_starts)
  case (1 s)
  then show ?thesis by (simp add: inet_pton4_def inet_pton4_at_def first_group_over_def)
next
  case (2 s)
  let ?ns = "group_nibbles (src ! 0) (src ! 1)"
  have hd: "t \<noteq> [] \<and> hd t \<noteq> CHR '':''" using 2 group_text_not_colon [of "src ! 0" "src ! 1"] by auto
  have "\<exists>buf' rest'. inet_pton4_loop (CHR ''/'') (replicate 4 0) 0 False 0 (map (\<lambda>n. hex_chars ! n) ?ns @ CHR '':'' # s)
    = Some (if dec_over 0 ?ns then v4_invalid_octet_range else v4_invalid_character, buf', rest')"
    by (rule pton4_reads_group) (use group_nibbles_less group_nibbles_head in auto)
  moreover have "(replicate 4 0)[0 := 0] = (replicate 4 0 :: u8 list)" by (simp add: numeral_eq_Suc)
  ultimately show ?thesis
    using 2 hd by (simp add: inet_pton4_def inet_pton4_at_def first_group_over_def group_text_def)
qed

text \<open>C14: Constructing an address of either family from the printed text of an IPv6 address gives that
  IPv6 address exactly when the first group, read as decimal digits, does not exceed an octet. When
  it does, as in 2001:db8::1, the text is taken for an IPv4 address with an octet out of range, and
  the result is an invalid IPv4 address.\<close>

theorem ip_of_printed_ipv6:
  assumes "ipv6_wf ip" "ipv6_ip_to_string ip = Some t"
  shows "ip_of_string t =
    Some (if first_group_over (ip6_data ip) t
          then V4 (Ipv4 0 (prefix_status4 v4_invalid_octet_range))
          else V6 (Ipv6 (ip6_data ip) no_prefix6))"
proof -
  have len: "length (ip6_data ip) = 16" and t: "inet_ntop6 (ip6_data ip) = Some t"
    using assms by (simp_all add: ipv6_wf_def ipv6_ip_to_string_def)
  have d: "length (ip6_data ipv6_default) = 16" by (simp add: ipv6_default_def)
  have v6: "ipv6_of_string t = Some (Ipv6 (ip6_data ip) no_prefix6)"
    using ipv6_parse_printed(1) [OF d len t] by (simp add: ipv6_of_string_def)
  from pton4_of_printed6 [OF len t] obtain buf' rest' where
    r: "inet_pton4 (CHR ''/'') (replicate 4 0) t =
      Some (if first_group_over (ip6_data ip) t then v4_invalid_octet_range else v4_invalid_character, buf', rest')"
    by blast
  have v4: "ipv4_of_string t = Some (Ipv4 0 (prefix_status4
      (if first_group_over (ip6_data ip) t then v4_invalid_octet_range else v4_invalid_character)))"
    using r by (simp add: ipv4_of_string_def ipv4_parse_def inet_pton4_prefix_def is_valid4_def ipv4_default_def)
  have st: "ipv4_status (Ipv4 0 (prefix_status4 s)) = Some s" if "\<not> is_valid4 s" for s
  proof -
    have "\<not> prefix_status4 s \<le> ipv4_max_prefix" using that
      by (cases s) (simp_all add: prefix_status4_def ipv4_max_prefix_def is_valid4_def)
    then show ?thesis by (simp add: ipv4_status_def) (simp add: prefix_status4_def)
  qed
  show ?thesis
    using v4 v6 st [of v4_invalid_octet_range] st [of v4_invalid_character]
    by (simp add: ip_of_string_def ip_parse_def is_valid4_def split: if_splits)
qed

lemma ip_of_printed_ipv6_witness:
  "ip_of_string ''2001:db8::1'' = Some (V4 (Ipv4 0 (prefix_status4 v4_invalid_octet_range)))"
proof -
  let ?ip = "Ipv6 ([0x20, 0x01, 0x0d, 0xb8] @ replicate 11 0 @ [1]) no_prefix6"
  have "ipv6_wf ?ip" "ipv6_ip_to_string ?ip = Some ''2001:db8::1''"
    "first_group_over (ip6_data ?ip) ''2001:db8::1''" by code_simp+
  from ip_of_printed_ipv6 [OF this(1,2)] this(3) show ?thesis by simp
qed

section \<open>The status of an address of either family\<close>

fun status_of_v4 :: "inet_pton4_status \<Rightarrow> ip_address_status" where
  "status_of_v4 v4_valid = ip_valid"
| "status_of_v4 v4_valid_special = ip_valid_special"
| "status_of_v4 v4_too_little_octets = ip_too_little_octets"
| "status_of_v4 v4_too_many_octets = ip_too_many_octets"
| "status_of_v4 v4_invalid_octet_range = ip_invalid_octet_range"
| "status_of_v4 v4_invalid_leading_zero = ip_invalid_leading_zero"
| "status_of_v4 v4_invalid_character = ip_invalid_character"
| "status_of_v4 v4_bad_ending = ip_bad_ending"
| "status_of_v4 v4_invalid_prefix = ip_invalid_prefix"

fun status_of_v6 :: "inet_pton6_status \<Rightarrow> ip_address_status" where
  "status_of_v6 v6_valid = ip_valid"
| "status_of_v6 v6_valid_special = ip_valid_special"
| "status_of_v6 v6_invalid_character = ip_invalid_character"
| "status_of_v6 v6_bad_ending = ip_bad_ending"
| "status_of_v6 v6_invalid_prefix = ip_invalid_prefix"
| "status_of_v6 v6_invalid_octet_range = ip_invalid_octet_range"
| "status_of_v6 v6_invalid_colon_usage = ip_invalid_colon_usage"

lemma status_ip_of_v4: "status_ip_of_code (inet_pton4_status_code s) = Some (status_of_v4 s)"
  by (cases s) (simp_all only: inet_pton4_status_code.simps status_of_v4.simps status_ip_of_code_code)

lemma status_ip_of_v6: "status_ip_of_code (inet_pton6_status_code s) = Some (status_of_v6 s)"
  by (cases s) (simp_all only: inet_pton6_status_code.simps status_of_v6.simps status_ip_of_code_code)

lemma prefix4_le_6: "p \<le> ipv4_max_prefix \<Longrightarrow> p \<le> ipv6_max_prefix"
  by (simp add: ipv4_max_prefix_def ipv6_max_prefix_def word_le_nat_alt)

lemma ip_status_v4:
  assumes "ipv4_reachable a"
  shows "\<exists>st. ipv4_status a = Some st \<and> ip_status (V4 a) = Some (status_of_v4 st)"
proof (cases "ip4_prefix a \<le> ipv4_max_prefix")
  case True
  with prefix4_le_6 [OF True] show ?thesis by (simp add: ipv4_status_def ip_status_def ip_prefix_def)
next
  case False
  from ipv4_reachable_prefix [OF assms] False obtain st where "ip4_prefix a = inet_pton4_status_code st"
    by (auto simp: prefix_or_status4_def)
  with False status4_code_not_prefix [of st] show ?thesis
    by (simp add: ipv4_status_def ip_status_def ip_prefix_def status_ip_of_v4)
qed

lemma ip_status_v6:
  assumes "ipv6_reachable a"
  shows "\<exists>st. ipv6_status a = Some st \<and> ip_status (V6 a) = Some (status_of_v6 st)"
proof (cases "ip6_prefix a \<le> ipv6_max_prefix")
  case True
  then show ?thesis by (simp add: ipv6_status_def ip_status_def ip_prefix_def)
next
  case False
  with ipv6_reachable_inv [OF assms] obtain st where "ip6_prefix a = inet_pton6_status_code st"
    by (auto simp: ipv6_inv_def)
  with False status6_code_not_prefix [of st] show ?thesis
    by (simp add: ipv6_status_def ip_status_def ip_prefix_def status_ip_of_v6)
qed

text \<open>Constructing an address of either family from a text is total and its status is always
  defined: it is the status of the family that the text was taken for, and an IPv6 address is only
  tried when the IPv4 parser met an invalid character.\<close>

theorem ip_of_string_status:
  "\<exists>a sa. ipv4_of_string str = Some a \<and> ipv4_status a = Some sa \<and>
     (if sa = v4_invalid_character
      then \<exists>b sb. ipv6_of_string str = Some b \<and> ip_of_string str = Some (V6 b)
        \<and> ipv6_status b = Some sb \<and> ip_status (V6 b) = Some (status_of_v6 sb)
      else ip_of_string str = Some (V4 a) \<and> ip_status (V4 a) = Some (status_of_v4 sa))"
proof -
  from ipv4_of_string_total obtain a where a: "ipv4_of_string str = Some a" by blast
  from ip_status_v4 [OF ipv4_reachable.of_string [OF a]] obtain sa where
    sa: "ipv4_status a = Some sa" "ip_status (V4 a) = Some (status_of_v4 sa)" by blast
  have "length (ip6_data ipv6_default) = 16" by (simp add: ipv6_default_def)
  from ipv6_inv_parse [OF this, of str] obtain b where b: "ipv6_of_string str = Some b"
    by (auto simp: ipv6_of_string_def)
  from ip_status_v6 [OF ipv6_reachable.of_string [OF b]] obtain sb where
    "ipv6_status b = Some sb" "ip_status (V6 b) = Some (status_of_v6 sb)" by blast
  with a sa b show ?thesis by (simp add: ip_of_string_def ip_parse_def)
qed

text \<open>The default address, meant to be invalid, is the valid address 0.0.0.249.\<close>

lemma ip_default_is_valid: "ip_is_valid ip_default \<and> ip_to_string ip_default = Some ''0.0.0.249''"
  by code_simp

end
