(* ===== verification/Uri_Path.thy ===== *)
theory Uri_Path
  imports Webpp_Prelude "HOL-Library.Sublist"
begin

text \<open>
  The class \<^verbatim>\<open>basic_path\<close> of \<^verbatim>\<open>webpp/uri/path.hpp\<close>: the segments
  of a path, the removal of dot segments, comparisons and rendering. An iterator into the vector is an
  index. The loop of \<open>remove_dot_segments\<close> moves its iterator forwards and backwards, so it is
  a partial function, and that it returns for every path is a theorem. The lemmas relate it to a loop over
  two stacks and, for absolute paths, to the algorithm of RFC 3986.
\<close>

section \<open>The state\<close>

record basic_path =
  storage :: "string list"
  m_is_opaque :: bool

definition parent_dir :: string where "parent_dir = ''..''"
definition current_dir :: string where "current_dir = ''.''"

definition path_of :: "string list \<Rightarrow> basic_path" where
  "path_of segments = \<lparr>storage = segments, m_is_opaque = False\<rparr>"

definition path_is_absolute :: "basic_path \<Rightarrow> bool" where
  "path_is_absolute p \<longleftrightarrow> storage p \<noteq> [] \<and> hd (storage p) = []"

definition path_is_relative :: "basic_path \<Rightarrow> bool" where
  "path_is_relative p \<longleftrightarrow> \<not> path_is_absolute p"

definition path_has_value :: "basic_path \<Rightarrow> bool" where
  "path_has_value p \<longleftrightarrow> storage p \<noteq> [] \<and> \<not> (length (storage p) = 1 \<and> hd (storage p) = [])"

definition path_assign :: "string \<Rightarrow> basic_path \<Rightarrow> basic_path" where
  "path_assign raw p = p\<lparr>storage := [raw]\<rparr>"

definition path_set_opaque :: "bool \<Rightarrow> basic_path \<Rightarrow> basic_path" where
  "path_set_opaque value p = p\<lparr>m_is_opaque := value\<rparr>"

definition path_clear :: "basic_path \<Rightarrow> basic_path" where
  "path_clear p = p\<lparr>storage := []\<rparr>"

definition path_empty :: "basic_path \<Rightarrow> bool" where
  "path_empty p \<longleftrightarrow> storage p = []"

text \<open>\<open>pop_back\<close> on an empty vector is undefined.\<close>

definition path_pop_back :: "basic_path \<Rightarrow> basic_path option" where
  "path_pop_back p = (if storage p = [] then None else Some (p\<lparr>storage := butlast (storage p)\<rparr>))"

definition path_emplace_back :: "string \<Rightarrow> basic_path \<Rightarrow> basic_path" where
  "path_emplace_back segment p = p\<lparr>storage := storage p @ [segment]\<rparr>"

definition path_size :: "basic_path \<Rightarrow> nat" where
  "path_size p = length (storage p)"

definition path_index :: "nat \<Rightarrow> basic_path \<Rightarrow> string option" where
  "path_index index p = load (storage p) index"

section \<open>Removal of dot segments\<close>

definition erase_range :: "'a list \<Rightarrow> nat \<Rightarrow> nat \<Rightarrow> 'a list" where
  "erase_range xs a b = take a xs @ drop b xs"

partial_function (option) remove_dots_loop ::
  "bool \<Rightarrow> bool \<Rightarrow> string list \<Rightarrow> nat \<Rightarrow> string list option" where
  "remove_dots_loop remove_leading remove_empty xs pos =
     (if pos = length xs then Some xs
      else if remove_empty \<and> xs ! pos = []
        then remove_dots_loop remove_leading remove_empty (erase_range xs pos (Suc pos)) pos
      else if xs ! pos = current_dir
        then remove_dots_loop remove_leading remove_empty (erase_range xs pos (Suc pos)) pos
      else if xs ! pos = parent_dir \<and> pos \<noteq> 0 \<and> xs ! (pos - 1) = []
        then remove_dots_loop remove_leading remove_empty (erase_range xs pos (Suc pos)) pos
      else if xs ! pos = parent_dir \<and> pos \<noteq> 0 \<and> xs ! (pos - 1) \<noteq> parent_dir
        then if pos - 1 = 0 then Some (erase_range xs (pos - 1) (Suc pos))
             else remove_dots_loop remove_leading remove_empty (erase_range xs (pos - 1) (Suc pos)) (pos - 2)
      else if xs ! pos = parent_dir \<and> pos = 0 \<and> remove_leading
        then remove_dots_loop remove_leading remove_empty (erase_range xs pos (Suc pos)) pos
      else remove_dots_loop remove_leading remove_empty xs (Suc pos))"

definition remove_dot_segments :: "bool \<Rightarrow> bool \<Rightarrow> basic_path \<Rightarrow> basic_path option" where
  "remove_dot_segments remove_leading remove_empty p =
     (if storage p = [] then Some p
      else do { xs \<leftarrow> remove_dots_loop remove_leading remove_empty (storage p) 0;
                Some (p\<lparr>storage := xs\<rparr>) })"

definition path_normalize :: "bool \<Rightarrow> basic_path \<Rightarrow> basic_path option" where
  "path_normalize remove_empty_segments p = remove_dot_segments (path_is_absolute p) remove_empty_segments p"

section \<open>Text\<close>

definition join_segments :: "string list \<Rightarrow> string" where
  "join_segments xs = concat (map (\<lambda>seg. CHR ''/'' # seg) xs)"

text \<open>\<open>front\<close> of an empty vector is undefined.\<close>

definition render_path :: "string list \<Rightarrow> string \<Rightarrow> bool \<Rightarrow> string option" where
  "render_path xs out is_opaque =
     (if is_opaque then (if xs = [] then None else Some (out @ hd xs)) else Some (out @ join_segments xs))"

definition path_as_string :: "basic_path \<Rightarrow> string option" where
  "path_as_string p = render_path (storage p) [] (m_is_opaque p)"

definition raw_string_size :: "basic_path \<Rightarrow> u64" where
  "raw_string_size p = sum_list (map (\<lambda>slug. of_nat (length slug)) (storage p)) + of_nat (length (storage p)) - 1"

section \<open>Comparisons\<close>

definition path_compare :: "basic_path \<Rightarrow> basic_path \<Rightarrow> partial_ordering" where
  "path_compare lhs rhs =
     (if length (storage lhs) \<noteq> length (storage rhs)
      then if length (storage lhs) < length (storage rhs) then po_less else po_greater
      else if storage lhs = storage rhs then po_equivalent else po_unordered)"

definition path_equal :: "basic_path \<Rightarrow> basic_path \<Rightarrow> bool" where
  "path_equal lhs rhs \<longleftrightarrow> storage lhs = storage rhs"

text \<open>
  \<open>remove_prefix\<close> with more characters than the view has is undefined.
\<close>

fun equal_text_loop :: "string list \<Rightarrow> string \<Rightarrow> bool option" where
  "equal_text_loop [] str = Some True"
| "equal_text_loop (piece # pieces) str =
     (if \<not> prefix piece str then Some False
      else if length str < length piece + 1 then None
      else equal_text_loop pieces (drop (length piece + 1) str))"

definition path_equal_text :: "basic_path \<Rightarrow> string \<Rightarrow> bool option" where
  "path_equal_text p str = equal_text_loop (storage p) str"


section \<open>The loop over two stacks\<close>

text \<open>
  The segments before the iterator are a stack, whose top is the segment before the iterator.
\<close>

function dots_stack :: "bool \<Rightarrow> bool \<Rightarrow> string list \<Rightarrow> string list \<Rightarrow> string list" where
  "dots_stack rl re front [] = rev front"
| "dots_stack rl re front (s # rest) =
     (if re \<and> s = [] \<or> s = current_dir then dots_stack rl re front rest
      else if s = parent_dir then
        (case front of
           [] \<Rightarrow> if rl then dots_stack rl re [] rest else dots_stack rl re [s] rest
         | p # front' \<Rightarrow>
             if p = [] then dots_stack rl re front rest
             else if p = parent_dir then dots_stack rl re (s # front) rest
             else (case front' of [] \<Rightarrow> rest | q # front'' \<Rightarrow> dots_stack rl re front'' (q # rest)))
      else dots_stack rl re (s # front) rest)"
  by pat_completeness auto
termination
  by (relation "measure (\<lambda>(rl, re, front, rest). length front + 2 * length rest)") auto

lemma erase_here: "erase_range (rev front @ s # rest) (length front) (Suc (length front)) = rev front @ rest"
  by (simp add: erase_range_def)

lemma erase_pair: "erase_range (rev front @ p # s # rest) (length front) (Suc (Suc (length front))) = rev front @ rest"
  by (simp add: erase_range_def)

lemma dir_names [simp]: "[] \<noteq> current_dir" "[] \<noteq> parent_dir" "current_dir \<noteq> []" "parent_dir \<noteq> []" "current_dir \<noteq> parent_dir" "parent_dir \<noteq> current_dir"
  by (simp_all add: current_dir_def parent_dir_def)

lemma at_iterator: "(rev front @ s # rest) ! length front = s"
  by (metis length_rev nth_append_length)

lemma before_iterator: "(rev front @ p # s # rest) ! Suc (length front) = s" "(rev front @ p # s # rest) ! length front = p"
  using at_iterator [of "p # front" s rest] by (simp_all add: at_iterator)

lemma remove_dots_loop_stack:
  "remove_dots_loop rl re (rev front @ rest) (length front) = Some (dots_stack rl re front rest)"
proof (induction rl re front rest rule: dots_stack.induct)
  case (1 rl re front)
  then show ?case by (subst remove_dots_loop.simps) simp
next
  case (2 rl re front s rest)
  show ?case
  proof (cases front)
    case Nil
    show ?thesis
      using 2 Nil by (subst remove_dots_loop.simps) (auto simp: erase_range_def)
  next
    case (Cons p front')
    show ?thesis
    proof (cases front')
      case Nil
      then show ?thesis
        using 2 Cons by (subst remove_dots_loop.simps) (auto simp: erase_range_def)
    next
      case (Cons q front'')
      then show ?thesis
        using 2 \<open>front = p # front'\<close> before_iterator [of "q # front''" p s rest]
          erase_here [of "p # q # front''" s rest] erase_pair [of "q # front''" p s rest]
        by (subst remove_dots_loop.simps) auto
    qed
  qed
qed


section \<open>The reference\<close>

text \<open>
  What one segment does to the stack of the segments that are kept, and the rest of the path after the
  first parent segment that takes the only kept segment away.
\<close>

definition push_segment :: "bool \<Rightarrow> bool \<Rightarrow> string \<Rightarrow> string list \<Rightarrow> string list" where
  "push_segment rl re s front =
     (if re \<and> s = [] \<or> s = current_dir then front
      else if s = parent_dir then
        (case front of
           [] \<Rightarrow> if rl then [] else [s]
         | p # front' \<Rightarrow> if p = [] then front else if p = parent_dir then s # front else front')
      else s # front)"

fun rest_after_climb :: "bool \<Rightarrow> bool \<Rightarrow> string list \<Rightarrow> string list \<Rightarrow> string list option" where
  "rest_after_climb rl re front [] = None"
| "rest_after_climb rl re front (s # rest) =
     (if s = parent_dir \<and> (case front of [p] \<Rightarrow> p \<noteq> [] \<and> p \<noteq> parent_dir | _ \<Rightarrow> False) then Some rest
      else rest_after_climb rl re (push_segment rl re s front) rest)"

lemma rest_after_climb_Cons [simp]:
  "rest_after_climb rl re front (s # rest) =
     (if s = parent_dir \<and> (\<exists>p. front = [p] \<and> p \<noteq> [] \<and> p \<noteq> parent_dir) then Some rest
      else rest_after_climb rl re (push_segment rl re s front) rest)"
  by (auto split: list.splits)

declare rest_after_climb.simps(2) [simp del]

definition removed_dots :: "bool \<Rightarrow> bool \<Rightarrow> string list \<Rightarrow> string list" where
  "removed_dots rl re xs =
     (case rest_after_climb rl re [] xs of Some rest \<Rightarrow> rest | None \<Rightarrow> rev (fold (push_segment rl re) xs []))"

lemma push_skip: "re \<and> s = [] \<or> s = current_dir \<Longrightarrow> push_segment rl re s front = front"
  and push_plain: "\<not> (re \<and> s = [] \<or> s = current_dir) \<Longrightarrow> s \<noteq> parent_dir \<Longrightarrow> push_segment rl re s front = s # front"
  and push_parent: "push_segment rl re parent_dir [] = (if rl then [] else [parent_dir])"
    "push_segment rl re parent_dir (p # front) = (if p = [] then p # front else if p = parent_dir then parent_dir # p # front else front)"
  by (auto simp: push_segment_def)

lemmas push_eqs = push_skip push_plain push_parent

text \<open>A stack is settled when looking at its top again leaves it as it is.\<close>

fun settled :: "bool \<Rightarrow> bool \<Rightarrow> string list \<Rightarrow> bool" where
  "settled rl re [] = True"
| "settled rl re (s # front) \<longleftrightarrow>
     \<not> (re \<and> s = []) \<and> s \<noteq> current_dir \<and>
     (s = parent_dir \<longrightarrow> (if front = [] then \<not> rl else hd front = parent_dir)) \<and> settled rl re front"

lemma settled_push: "settled rl re front \<Longrightarrow> settled rl re (push_segment rl re s front)"
  by (cases front) (auto simp: push_segment_def)

lemma settled_top: "settled rl re (s # front) \<Longrightarrow> push_segment rl re s front = s # front"
  by (cases front) (auto simp: push_segment_def)

lemma settled_no_climb:
  "settled rl re (s # front) \<Longrightarrow> rest_after_climb rl re front (s # rest) = rest_after_climb rl re (s # front) rest"
  by (auto simp: settled_top simp del: settled.simps) auto

lemma dots_stack_result:
  "settled rl re front \<Longrightarrow>
   dots_stack rl re front xs =
     (case rest_after_climb rl re front xs of Some rest \<Rightarrow> rest | None \<Rightarrow> rev (fold (push_segment rl re) xs front))"
proof (induction rl re front xs rule: dots_stack.induct)
  case (1 rl re front)
  then show ?case by simp
next
  case (2 rl re front s rest)
  note settled = settled_push [OF 2(8), of s]
  show ?case
  proof (cases "s = parent_dir \<and> (\<exists>p q front''. front = p # q # front'' \<and> p \<noteq> [] \<and> p \<noteq> parent_dir)")
    case True
    then obtain p q front'' where front: "front = p # q # front''" "p \<noteq> []" "p \<noteq> parent_dir" and s: "s = parent_dir" by blast
    from front 2(8) have top: "settled rl re (q # front'')" by simp
    have "dots_stack rl re front (s # rest) = dots_stack rl re front'' (q # rest)"
      using front s by simp
    also have "\<dots> = (case rest_after_climb rl re (q # front'') rest of
        None \<Rightarrow> rev (fold (push_segment rl re) rest (q # front'')) | Some rest \<Rightarrow> rest)"
      using 2(6) [OF _ s front(1) front(2) front(3) refl] s top
      by (simp add: settled_no_climb [OF top] settled_top [OF top] del: rest_after_climb_Cons dots_stack.simps cong: option.case_cong)
    finally have result: "dots_stack rl re front (s # rest) = \<dots>" .
    have push: "push_segment rl re s front = q # front''"
      using front s by (simp add: push_segment_def)
    have "rest_after_climb rl re front (s # rest) = rest_after_climb rl re (q # front'') rest"
      using front(1) push by simp
    then show ?thesis
      by (simp add: push result del: dots_stack.simps cong: option.case_cong)
  next
    case False
    note other = False
    show ?thesis
    proof (cases "re \<and> s = [] \<or> s = current_dir")
      case True
      then show ?thesis
        using 2(1) 2(8) by (auto simp: push_skip cong: option.case_cong)
    next
      case False
      note skip = False
      show ?thesis
      proof (cases "s = parent_dir")
        case True
        show ?thesis
        proof (cases front)
          case Nil
          then show ?thesis
            using 2(2) 2(3) skip True settled by (cases rl) (simp_all add: push_eqs cong: option.case_cong)
        next
          case (Cons p front')
          then consider "p = []" | "p = parent_dir" | "front' = []" "p \<noteq> []" "p \<noteq> parent_dir"
            using other True by (cases front') auto
          then show ?thesis
            using 2(4) 2(5) 2(8) Cons skip True settled by cases (simp_all add: push_eqs cong: option.case_cong)
        qed
      next
        case False
        then show ?thesis
          using 2(7) [OF skip False] 2(8) skip settled by (auto simp: push_eqs cong: option.case_cong)
      qed
    qed
  qed
qed


lemma remove_dot_segments_result:
  "remove_dot_segments rl re p = Some (p\<lparr>storage := removed_dots rl re (storage p)\<rparr>)"
proof -
  have "remove_dots_loop rl re (storage p) 0 = Some (removed_dots rl re (storage p))"
    using remove_dots_loop_stack [of rl re "[]" "storage p"] dots_stack_result [of rl re "[]" "storage p"]
    by (simp only: removed_dots_def settled.simps rev.simps append_Nil list.size simp_thms)
  moreover have "removed_dots rl re [] = []" by (simp add: removed_dots_def)
  ultimately show ?thesis by (cases "storage p = []") (simp_all add: remove_dot_segments_def)
qed

lemma settled_fold: "settled rl re front \<Longrightarrow> settled rl re (fold (push_segment rl re) xs front)"
  by (induction xs arbitrary: front) (auto simp: settled_push)

lemma subseq_push: "subseq (rev (push_segment rl re s front)) (rev front @ [s])"
  by (auto simp: push_segment_def split: list.splits)

lemma subseq_fold: "subseq (rev (fold (push_segment rl re) xs front)) (rev front @ xs)"
proof (induction xs arbitrary: front)
  case (Cons s xs)
  have "subseq (rev (push_segment rl re s front) @ xs) ((rev front @ [s]) @ xs)"
    using subseq_push by (rule list_emb_append_mono) simp
  with Cons [of "push_segment rl re s front"] show ?case
    by (auto intro: subseq_order.order_trans)
qed simp

lemma rest_after_climb_suffix:
  "rest_after_climb rl re front xs = Some rest \<Longrightarrow> \<exists>ys. xs = ys @ parent_dir # rest"
proof (induction xs arbitrary: front)
  case (Cons s xs)
  then show ?case
  proof (cases "rest_after_climb rl re (push_segment rl re s front) xs = Some rest")
    case True
    with Cons.IH obtain ys where "xs = ys @ parent_dir # rest" by blast
    then show ?thesis by (intro exI [of _ "s # ys"]) simp
  qed (auto split: if_splits intro: exI [of _ "[]"])
qed simp

lemma removed_dots_subseq: "subseq (removed_dots rl re xs) xs"
proof (cases "rest_after_climb rl re [] xs")
  case None
  then show ?thesis using subseq_fold [of rl re xs "[]"] by (simp add: removed_dots_def)
next
  case (Some rest)
  then obtain ys where xs: "xs = (ys @ [parent_dir]) @ rest" using rest_after_climb_suffix by fastforce
  have "subseq rest ((ys @ [parent_dir]) @ rest)" by (rule list_emb_append2) simp
  then show ?thesis using Some xs by (simp add: removed_dots_def)
qed

text \<open>Below the root no parent segment takes the only segment away.\<close>

lemma push_root: "front \<noteq> [] \<Longrightarrow> last front = [] \<Longrightarrow> push_segment rl False s front \<noteq> [] \<and> last (push_segment rl False s front) = []"
  by (auto simp: push_segment_def split: list.splits)

lemma no_climb_root: "front \<noteq> [] \<Longrightarrow> last front = [] \<Longrightarrow> rest_after_climb rl False front xs = None"
  by (induction xs arbitrary: front) (auto simp: push_root)

lemma removed_dots_absolute:
  "removed_dots rl False ([] # xs) = rev (fold (push_segment rl False) xs [[]])"
proof -
  have push: "push_segment rl False [] [] = [[]]" by (simp add: push_segment_def)
  then have "rest_after_climb rl False [] ([] # xs) = None" using no_climb_root [of "[[]]" rl xs] by simp
  with push show ?thesis by (simp add: removed_dots_def)
qed

section \<open>The algorithm of RFC 3986\<close>

text \<open>
  Section 5.2.4: the input buffer and the output buffer.
\<close>

definition rfc_drop_last :: "string \<Rightarrow> string" where
  "rfc_drop_last out = rev (drop 1 (dropWhile (\<lambda>c. c \<noteq> CHR ''/'') (rev out)))"

function rfc_remove_dots :: "string \<Rightarrow> string \<Rightarrow> string" where
  "rfc_remove_dots inp out =
     (if inp = [] then out
      else if prefix ''../'' inp then rfc_remove_dots (drop 3 inp) out
      else if prefix ''./'' inp then rfc_remove_dots (drop 2 inp) out
      else if prefix ''/./'' inp then rfc_remove_dots (drop 2 inp) out
      else if inp = ''/.'' then rfc_remove_dots ''/'' out
      else if prefix ''/../'' inp then rfc_remove_dots (drop 3 inp) (rfc_drop_last out)
      else if inp = ''/..'' then rfc_remove_dots ''/'' (rfc_drop_last out)
      else if inp = ''.'' \<or> inp = ''..'' then rfc_remove_dots [] out
      else rfc_remove_dots (dropWhile (\<lambda>c. c \<noteq> CHR ''/'') (tl inp))
             (out @ hd inp # takeWhile (\<lambda>c. c \<noteq> CHR ''/'') (tl inp)))"
  by pat_completeness auto
termination
  by (relation "measure (\<lambda>(inp, out). length inp)") (auto simp: neq_Nil_conv less_Suc_eq_le length_dropWhile_le)

declare rfc_remove_dots.simps [simp del]

definition rfc_push :: "string \<Rightarrow> string list \<Rightarrow> string list" where
  "rfc_push s front = (if s = current_dir then front else if s = parent_dir then drop 1 front else s # front)"

lemma rfc_push: "rfc_push current_dir front = front" "rfc_push parent_dir front = drop 1 front"
    "s \<noteq> current_dir \<Longrightarrow> s \<noteq> parent_dir \<Longrightarrow> rfc_push s front = s # front"
  by (simp_all add: rfc_push_def)

definition dots_tail :: "string list \<Rightarrow> string" where
  "dots_tail xs = (if xs \<noteq> [] \<and> last xs \<in> {current_dir, parent_dir} then ''/'' else [])"


lemma join_segments_simps [simp]:
  "join_segments [] = []" "join_segments (s # xs) = CHR ''/'' # s @ join_segments xs"
  "join_segments (xs @ ys) = join_segments xs @ join_segments ys"
  by (simp_all add: join_segments_def)

lemma join_segments_cases: "join_segments xs = [] \<or> hd (join_segments xs) = CHR ''/''"
  by (cases xs) simp_all

lemma rfc_drop_last_join:
  "\<forall>s \<in> set front. CHR ''/'' \<notin> set s \<Longrightarrow> rfc_drop_last (join_segments (rev front)) = join_segments (rev (drop 1 front))"
proof (cases front)
  case (Cons s front')
  assume "\<forall>s \<in> set front. CHR ''/'' \<notin> set s"
  with Cons have "dropWhile (\<lambda>c. c \<noteq> CHR ''/'') (rev s @ CHR ''/'' # rev (join_segments (rev front'))) =
    CHR ''/'' # rev (join_segments (rev front'))"
    by (subst dropWhile_append2) auto
  with Cons show ?thesis by (simp add: rfc_drop_last_def)
qed (simp add: rfc_drop_last_def)

lemma rfc_slash: "rfc_remove_dots ''/'' out = out @ ''/''"
  by (simp add: rfc_remove_dots.simps [of "''/''"] rfc_remove_dots.simps [of "[]"])

lemma rfc_current: "rfc_remove_dots (CHR ''/'' # current_dir @ tail) out = (if tail = [] then out @ ''/'' else rfc_remove_dots tail out)"
  if "tail = [] \<or> hd tail = CHR ''/''"
  using that by (subst rfc_remove_dots.simps) (auto simp: rfc_slash neq_Nil_conv current_dir_def parent_dir_def)

lemma rfc_parent: "rfc_remove_dots (CHR ''/'' # parent_dir @ tail) out =
    (if tail = [] then rfc_drop_last out @ ''/'' else rfc_remove_dots tail (rfc_drop_last out))"
  if "tail = [] \<or> hd tail = CHR ''/''"
  using that by (subst rfc_remove_dots.simps) (auto simp: rfc_slash neq_Nil_conv current_dir_def parent_dir_def)

lemma split_segment:
  assumes "CHR ''/'' \<notin> set s" "tail = [] \<or> hd tail = CHR ''/''"
  shows "takeWhile (\<lambda>c. c \<noteq> CHR ''/'') (s @ tail) = s" "dropWhile (\<lambda>c. c \<noteq> CHR ''/'') (s @ tail) = tail"
proof -
  have "\<forall>c \<in> set s. c \<noteq> CHR ''/''" using assms(1) by auto
  then have "takeWhile (\<lambda>c. c \<noteq> CHR ''/'') (s @ tail) = s @ takeWhile (\<lambda>c. c \<noteq> CHR ''/'') tail"
    "dropWhile (\<lambda>c. c \<noteq> CHR ''/'') (s @ tail) = dropWhile (\<lambda>c. c \<noteq> CHR ''/'') tail"
    by (simp_all add: takeWhile_append2 dropWhile_append2)
  with assms(2) show "takeWhile (\<lambda>c. c \<noteq> CHR ''/'') (s @ tail) = s" "dropWhile (\<lambda>c. c \<noteq> CHR ''/'') (s @ tail) = tail"
    by (cases tail; simp)+
qed

lemma not_dot_prefix:
  assumes "CHR ''/'' \<notin> set s" "CHR ''/'' \<notin> set d" "s \<noteq> d" "tail = [] \<or> hd tail = CHR ''/''"
  shows "\<not> prefix (d @ ''/'') (s @ tail)" "s @ tail \<noteq> d"
proof -
  note first = split_segment(1) [OF assms(1,4)] split_segment(1) [OF assms(2)]
  show "\<not> prefix (d @ ''/'') (s @ tail)"
  proof
    assume "prefix (d @ ''/'') (s @ tail)"
    then obtain u where "s @ tail = d @ ''/'' @ u" by (auto simp: prefix_def)
    with first(1) first(2) [of "''/'' @ u"] have "s = d" by simp
    with assms(3) show False ..
  qed
  show "s @ tail \<noteq> d"
  proof
    assume "s @ tail = d"
    with first(1) first(2) [of "[]"] have "s = d" by simp
    with assms(3) show False ..
  qed
qed

lemma rfc_plain:
  assumes "CHR ''/'' \<notin> set s" "s \<noteq> current_dir" "s \<noteq> parent_dir" "tail = [] \<or> hd tail = CHR ''/''"
  shows "rfc_remove_dots (CHR ''/'' # s @ tail) out = rfc_remove_dots tail (out @ CHR ''/'' # s)"
proof -
  have "\<not> prefix ''/./'' (CHR ''/'' # s @ tail)" "CHR ''/'' # s @ tail \<noteq> ''/.''"
    using not_dot_prefix [OF assms(1) _ assms(2) assms(4)] by (simp_all add: current_dir_def)
  moreover have "\<not> prefix ''/../'' (CHR ''/'' # s @ tail)" "CHR ''/'' # s @ tail \<noteq> ''/..''"
    using not_dot_prefix [OF assms(1) _ assms(3) assms(4)] by (simp_all add: parent_dir_def)
  ultimately show ?thesis
    using split_segment [OF assms(1,4)] by (subst rfc_remove_dots.simps) simp
qed

lemma rfc_remove_dots_join:
  assumes "\<forall>s \<in> set xs. CHR ''/'' \<notin> set s" "\<forall>s \<in> set front. CHR ''/'' \<notin> set s"
  shows "rfc_remove_dots (join_segments xs) (join_segments (rev front)) =
    join_segments (rev (fold rfc_push xs front)) @ dots_tail xs"
  using assms
proof (induction xs arbitrary: front)
  case Nil
  then show ?case by (simp add: dots_tail_def rfc_remove_dots.simps)
next
  case (Cons s xs)
  have tail: "join_segments xs = [] \<or> hd (join_segments xs) = CHR ''/''" by (rule join_segments_cases)
  have IH: "rfc_remove_dots (join_segments xs) (join_segments (rev (rfc_push s front))) =
      join_segments (rev (fold rfc_push xs (rfc_push s front))) @ dots_tail xs"
    using Cons.prems by (intro Cons.IH) (auto simp: rfc_push_def dest: in_set_dropD)
  have nil: "join_segments xs = [] \<longleftrightarrow> xs = []" by (cases xs) simp_all
  consider "s = current_dir" | "s = parent_dir" | "s \<noteq> current_dir" "s \<noteq> parent_dir" by blast
  then show ?case
  proof cases
    case 1
    then show ?thesis
      using IH rfc_current [OF tail, of "join_segments (rev front)"] nil
      by (auto simp: dots_tail_def rfc_push)
  next
    case 2
    then show ?thesis
      using IH rfc_parent [OF tail, of "join_segments (rev front)"] nil rfc_drop_last_join [of front] Cons.prems
      by (auto simp: dots_tail_def rfc_push)
  next
    case 3
    then show ?thesis
      using IH rfc_plain [OF _ 3 tail] nil Cons.prems
      by (auto simp: dots_tail_def rfc_push rfc_remove_dots.simps [of "[]"])
  qed
qed

text \<open>Without empty segments the class removes what the standard removes.\<close>

lemma push_segment_rfc:
  assumes "[] \<notin> set front" "\<forall>s \<in> set front. s \<noteq> parent_dir" "s \<noteq> []"
  shows "push_segment rl False s (front @ [[]]) = rfc_push s front @ [[]]"
  using assms by (cases front) (auto simp: push_segment_def rfc_push_def)

lemma fold_push_rfc:
  assumes "[] \<notin> set front" "parent_dir \<notin> set front" "[] \<notin> set xs"
  shows "fold (push_segment rl False) xs (front @ [[]]) = fold rfc_push xs front @ [[]]"
  using assms
proof (induction xs arbitrary: front)
  case (Cons s xs)
  have "[] \<notin> set (rfc_push s front)" "parent_dir \<notin> set (rfc_push s front)"
    using Cons.prems by (auto simp: rfc_push_def dest: in_set_dropD split: if_splits)
  moreover have "push_segment rl False s (front @ [[]]) = rfc_push s front @ [[]]"
    using Cons.prems by (intro push_segment_rfc) auto
  ultimately show ?case using Cons by simp
qed simp


section \<open>Properties of normalisation\<close>

text \<open>C13: The removal of dot segments returns for every path and every choice of its arguments.
  It keeps the flag of an opaque path and only removes segments; the result is that of the stack, unless
  a parent segment takes away the only segment that is kept: then it is the rest of the path as it was.\<close>

theorem remove_dot_segments_returns:
  "\<exists>q. remove_dot_segments rl re p = Some q
    \<and> subseq (storage q) (storage p) \<and> m_is_opaque q = m_is_opaque p
    \<and> storage q = (case rest_after_climb rl re [] (storage p) of
        Some rest \<Rightarrow> rest | None \<Rightarrow> rev (fold (push_segment rl re) (storage p) []))"
  by (simp add: remove_dot_segments_result removed_dots_subseq) (simp add: removed_dots_def)

lemma absolute_kept:
  "settled rl False front \<Longrightarrow> front \<noteq> [] \<Longrightarrow> last front = [] \<Longrightarrow> parent_dir \<notin> set front \<and> current_dir \<notin> set front"
proof (induction front)
  case (Cons s front)
  then show ?case by (cases front) (auto split: if_splits)
qed simp

text \<open>C7: An absolute path without empty segments below the root is normalised to a path without
  dot segments, and its text is what the algorithm of RFC 3986 computes, except for the slash at the end
  that the standard keeps when the last segment is a dot segment. A path with two slashes next to
  each other is outside of this: after an empty segment a parent segment is erased alone, so that
  \<^verbatim>\<open>/a//../b\<close> becomes \<^verbatim>\<open>/a//b\<close> where the standard has \<^verbatim>\<open>/a/b\<close>.\<close>

theorem normalize_is_rfc3986:
  assumes "storage p = [] # segs" and "[] \<notin> set segs" and "\<forall>s \<in> set segs. CHR ''/'' \<notin> set s"
  shows "\<exists>kept. path_normalize False p = Some (p\<lparr>storage := [] # kept\<rparr>)
    \<and> set kept \<inter> {current_dir, parent_dir} = {}
    \<and> rfc_remove_dots (join_segments segs) [] = join_segments kept @ dots_tail segs"
proof -
  define kept where "kept = rev (fold rfc_push segs [])"
  have result: "removed_dots True False (storage p) = [] # kept"
    using removed_dots_absolute [of True segs] fold_push_rfc [of "[]" segs True] assms
    by (simp add: kept_def)
  have stack: "fold (push_segment True False) segs [[]] = rev kept @ [[]]"
    using fold_push_rfc [of "[]" segs True] assms by (simp add: kept_def)
  have "settled True False (rev kept @ [[]])"
    using settled_fold [of True False "[[]]" segs] by (simp add: stack)
  then have "set kept \<inter> {current_dir, parent_dir} = {}"
    using absolute_kept [of True "rev kept @ [[]]"] by auto
  moreover have "path_is_absolute p" using assms(1) by (simp add: path_is_absolute_def)
  ultimately show ?thesis
    using result rfc_remove_dots_join [of segs "[]"] assms(3)
    by (intro exI [of _ kept]) (simp add: path_normalize_def remove_dot_segments_result kept_def)
qed

theorem normalize_is_rfc3986_witness:
  "path_normalize False (path_of [[], ''a'', ''b'', ''..'', ''c'', ''.'']) = Some (path_of [[], ''a'', ''c''])
    \<and> rfc_remove_dots ''/a/b/../c/.'' [] = ''/a/c/''"
proof -
  let ?segs = "[''a'', ''b'', ''..'', ''c'', ''.'']"
  obtain kept where k: "path_normalize False (path_of ([] # ?segs)) = Some (path_of ([] # ?segs)\<lparr>storage := [] # kept\<rparr>)"
    "rfc_remove_dots (join_segments ?segs) [] = join_segments kept @ dots_tail ?segs"
    using normalize_is_rfc3986 [of "path_of ([] # ?segs)" ?segs] by (auto simp: path_of_def)
  have "removed_dots True False ([] # ?segs) = [[], ''a'', ''c'']" by code_simp
  with k(1) have "kept = [''a'', ''c'']"
    by (simp add: path_normalize_def remove_dot_segments_result path_is_absolute_def path_of_def)
  with k show ?thesis by (simp add: path_of_def dots_tail_def current_dir_def)
qed

text \<open>Two consequences of the early return and of the test for an empty segment.\<close>

lemma normalize_leaves_dots:
  "path_normalize True (path_of [[], ''a'', ''..'', ''.'', ''b'']) = Some (path_of [''.'', ''b''])"
proof -
  have "removed_dots True True [[], ''a'', ''..'', ''.'', ''b''] = [''.'', ''b'']" by code_simp
  then show ?thesis by (simp add: path_normalize_def remove_dot_segments_result path_is_absolute_def path_of_def)
qed

lemma normalize_stops_at_empty:
  "path_normalize False (path_of [[], ''a'', [], ''..'', ''b'']) = Some (path_of [[], ''a'', [], ''b''])
    \<and> rfc_remove_dots ''/a//../b'' [] = ''/a/b''"
proof -
  have "removed_dots True False [[], ''a'', [], ''..'', ''b''] = [[], ''a'', [], ''b'']" by code_simp
  moreover have "rfc_remove_dots ''/a//../b'' [] = ''/a/b''" by code_simp
  ultimately show ?thesis
    by (simp add: path_normalize_def remove_dot_segments_result path_is_absolute_def path_of_def)
qed

section \<open>Comparing with a text\<close>

fun pieces_text :: "string list \<Rightarrow> string \<Rightarrow> string" where
  "pieces_text (s # xs) (c # cs) = s @ c # pieces_text xs cs"
| "pieces_text _ _ = []"

lemma equal_text_loop_iff:
  "equal_text_loop xs str = Some True \<longleftrightarrow> (\<exists>cs rest. length cs = length xs \<and> str = pieces_text xs cs @ rest)"
proof (induction xs arbitrary: str)
  case (Cons s xs)
  show ?case
  proof
    assume t: "equal_text_loop (s # xs) str = Some True"
    then have "prefix s str" "length s < length str" "equal_text_loop xs (drop (length s + 1) str) = Some True"
      by (auto split: if_splits)
    moreover obtain c u where "str = s @ c # u"
      using calculation(1,2) by (auto simp: prefix_def) (metis neq_Nil_conv)
    ultimately obtain cs rest where "length cs = length xs" "str = s @ c # pieces_text xs cs @ rest"
      using Cons by auto
    then show "\<exists>cs rest. length cs = length (s # xs) \<and> str = pieces_text (s # xs) cs @ rest"
      by (intro exI [of _ "c # cs"] exI [of _ rest]) simp
  next
    assume "\<exists>cs rest. length cs = length (s # xs) \<and> str = pieces_text (s # xs) cs @ rest"
    then obtain c cs rest where "length cs = length xs" "str = s @ c # pieces_text xs cs @ rest"
      by (auto simp: length_Suc_conv)
    then show "equal_text_loop (s # xs) str = Some True" using Cons by auto
  qed
qed simp

lemma equal_text_loop_own: "xs \<noteq> [] \<Longrightarrow> equal_text_loop xs (tl (join_segments xs)) = None"
proof (induction xs)
  case (Cons s xs)
  then show ?case by (cases xs) (simp_all)
qed simp

text \<open>Comparing a path with a text is true exactly for the texts that begin with the
  segments, each followed by one character, whatever that character and the rest of the text are; compared
  with its segments separated by slashes, the view is shortened by more than it has, which is undefined.\<close>

theorem path_equal_text_results:
  "(path_equal_text p str = Some True
      \<longleftrightarrow> (\<exists>cs rest. length cs = length (storage p) \<and> str = pieces_text (storage p) cs @ rest))
    \<and> (path_equal_text p (tl (join_segments (storage p))) = None \<longleftrightarrow> storage p \<noteq> [])"
  by (auto simp: path_equal_text_def equal_text_loop_iff equal_text_loop_own)

end
