(* ===== verification/Charset.thy ===== *)
theory Charset
  imports Ascii_Validators
begin

text \<open>
  \<^verbatim>\<open>webpp/strings/charset.hpp\<close>: the three representations of a set of
  characters. A \<^verbatim>\<open>charset\<close> is the array of its members, a
  \<^verbatim>\<open>charmap\<close> and a \<^verbatim>\<open>bitmap\<close> are tables of booleans
  indexed by the character. The size \<open>N\<close> is the length of the list. The constructors
  are evaluated by the compiler, where an access outside of an array is an error, hence
  \<^const>\<open>None\<close>. An iterator into a range is the part of the range that it has not
  passed.
\<close>

section \<open>Character types\<close>

text \<open>What the code asks of a character type: its signedness and its largest value. A
  character is given by its value.\<close>

datatype char_kind = Char_Kind (kind_signed: bool) (kind_max: nat)

definition signed_char :: char_kind where "signed_char = Char_Kind True 127"
definition unsigned_char :: char_kind where "unsigned_char = Char_Kind False 255"
definition bool_kind :: char_kind where "bool_kind = Char_Kind False 1"
definition size_kind :: char_kind where "size_kind = Char_Kind False (2 ^ 64 - 1)"

text \<open>The type \<^verbatim>\<open>char\<close> is signed or not, depending on the platform.\<close>

definition char_kind_of :: "bool \<Rightarrow> char_kind" where
  "char_kind_of sg = (if sg then signed_char else unsigned_char)"

definition char_int :: "bool \<Rightarrow> char \<Rightarrow> int" where
  "char_int sg c = (if sg then char_value c else int (ord c))"

lemma char_int_ascii [simp]: "ord c < 128 \<Longrightarrow> char_int sg c = int (ord c)"
  by (simp add: char_int_def char_value_ascii)

lemma char_int_signed_high: "128 \<le> ord c \<Longrightarrow> char_int True c = int (ord c) - 256"
  by (simp add: char_int_def char_value_def schar_high)

lemma char_int_unsigned: "char_int False c = int (ord c)"
  by (simp add: char_int_def)

lemma char_int_nonneg_iff: "0 \<le> char_int sg c \<longleftrightarrow> \<not> sg \<or> ord c < 128"
proof (cases "sg \<and> 128 \<le> ord c")
  case True
  then show ?thesis using char_int_signed_high [of c] ord_less_256 [of c] by (simp del: ord_less_256)
next
  case False
  then show ?thesis by (auto simp: char_int_unsigned not_le)
qed

lemma nat_char_int: "0 \<le> char_int sg c \<Longrightarrow> nat (char_int sg c) = ord c"
  by (cases "ord c < 128") (auto simp: char_int_nonneg_iff char_int_unsigned)

section \<open>The loops over a range\<close>

fun contains_range :: "('c \<Rightarrow> bool option) \<Rightarrow> 'c list \<Rightarrow> bool option" where
  "contains_range contains [] = Some True"
| "contains_range contains (c # beg) =
     Option.bind (contains c) (\<lambda>b. if \<not> b then Some False else contains_range contains beg)"

fun find_first_not_in :: "('c \<Rightarrow> bool option) \<Rightarrow> 'c list \<Rightarrow> 'c list option" where
  "find_first_not_in contains [] = Some []"
| "find_first_not_in contains (c # beg) =
     Option.bind (contains c) (\<lambda>b. if \<not> b then Some (c # beg) else find_first_not_in contains beg)"

fun find_first_in :: "('c \<Rightarrow> bool option) \<Rightarrow> 'c list \<Rightarrow> 'c list option" where
  "find_first_in contains [] = Some []"
| "find_first_in contains (c # beg) =
     Option.bind (contains c) (\<lambda>b. if b then Some (c # beg) else find_first_in contains beg)"

text \<open>The fold \<^verbatim>\<open>(sets.contains(c) && ...)\<close> over a pack of sets.\<close>

fun all_contain :: "('c \<Rightarrow> bool option) list \<Rightarrow> 'c \<Rightarrow> bool option" where
  "all_contain [] c = Some True"
| "all_contain (contains # sets) c =
     Option.bind (contains c) (\<lambda>b. if b then all_contain sets c else Some False)"

section \<open>The class charset\<close>

type_synonym charset = "char list"

fun charset_loop :: "charset \<Rightarrow> char \<Rightarrow> bool" where
  "charset_loop [] character \<longleftrightarrow> False"
| "charset_loop (cur_ch # cs) character \<longleftrightarrow> (if cur_ch = character then True else charset_loop cs character)"

definition charset_contains :: "charset \<Rightarrow> char \<Rightarrow> bool" where
  "charset_contains cset character \<longleftrightarrow>
     (case cset of
        [] \<Rightarrow> False
      | [a] \<Rightarrow> character = a
      | [a, b] \<Rightarrow> character = a \<or> character = b
      | [a, b, c] \<Rightarrow> character = a \<or> character = b \<or> character = c
      | [a, b, c, d] \<Rightarrow> character = a \<or> character = b \<or> character = c \<or> character = d
      | _ \<Rightarrow> charset_loop cset character)"

definition charset_contains_str :: "charset \<Rightarrow> string \<Rightarrow> bool option" where
  "charset_contains_str cset = contains_range (\<lambda>c. Some (charset_contains cset c))"

definition charset_find_first_not_in :: "charset \<Rightarrow> string \<Rightarrow> string option" where
  "charset_find_first_not_in cset = find_first_not_in (\<lambda>c. Some (charset_contains cset c))"

definition charset_find_first_in :: "charset \<Rightarrow> string \<Rightarrow> string option" where
  "charset_find_first_in cset = find_first_in (\<lambda>c. Some (charset_contains cset c))"

text \<open>The constructor that merges charsets copies each one after the other.\<close>

definition charset_merge :: "charset list \<Rightarrow> charset" where
  "charset_merge sets = concat sets"

text \<open>The result of \<^verbatim>\<open>except\<close> is zero-initialised and has the difference of
  the sizes; writing past it does not compile.\<close>

fun charset_except_loop :: "charset list \<Rightarrow> charset \<Rightarrow> nat \<Rightarrow> charset \<Rightarrow> charset option" where
  "charset_except_loop sets [] index chars = Some chars"
| "charset_except_loop sets (character # cs) index chars =
     (if list_all (\<lambda>s. charset_contains s character) sets then charset_except_loop sets cs index chars
      else Option.bind (store chars index character) (charset_except_loop sets cs (index + 1)))"

definition charset_except :: "charset \<Rightarrow> charset list \<Rightarrow> charset option" where
  "charset_except cset sets =
     (if sum_list (map length sets) \<le> length cset
      then charset_except_loop sets cset 0 (replicate (length cset - sum_list (map length sets)) (CHR 0x00))
      else None)"

definition charset_set :: "charset \<Rightarrow> nat \<Rightarrow> char \<Rightarrow> charset option" where
  "charset_set cset pos val = store cset pos val"

text \<open>A range is instantiated with a first character that is not above the last.\<close>

definition charset_range :: "char \<Rightarrow> char \<Rightarrow> charset" where
  "charset_range first final = map char_of [ord first..<ord final] @ [final]"

definition NULL_CHAR :: charset where "NULL_CHAR = [CHR 0x00]"
definition LOWER_ALPHA :: charset where "LOWER_ALPHA = charset_range (CHR ''a'') (CHR ''z'')"
definition UPPER_ALPHA :: charset where "UPPER_ALPHA = charset_range (CHR ''A'') (CHR ''Z'')"
definition ALPHA :: charset where "ALPHA = charset_merge [LOWER_ALPHA, UPPER_ALPHA]"
definition DIGIT :: charset where "DIGIT = charset_range (CHR ''0'') (CHR ''9'')"
definition HEXDIG :: charset where
  "HEXDIG = charset_merge [DIGIT, charset_range (CHR ''A'') (CHR ''F''), charset_range (CHR ''a'') (CHR ''f'')]"
definition ALPHA_DIGIT :: charset where "ALPHA_DIGIT = charset_merge [ALPHA, DIGIT]"

section \<open>The class charmap\<close>

type_synonym charmap = "bool list"

fun set_at :: "nat list \<Rightarrow> charmap \<Rightarrow> charmap option" where
  "set_at [] out = Some out"
| "set_at (i # is) out = Option.bind (store out i True) (set_at is)"

text \<open>A negative character becomes an index that no table has.\<close>

definition char_indices :: "bool \<Rightarrow> char list \<Rightarrow> nat list" where
  "char_indices sg = map (\<lambda>c. nat (char_int sg c mod 2 ^ 64))"

fun xor_all :: "charmap \<Rightarrow> charmap \<Rightarrow> charmap" where
  "xor_all (s # cset) (b # out) = (b \<or> s) # xor_all cset out"
| "xor_all [] out = out"
| "xor_all cset [] = []"

definition charmap_of_chars :: "bool \<Rightarrow> nat \<Rightarrow> char list \<Rightarrow> charmap option" where
  "charmap_of_chars sg n data = set_at (char_indices sg data) (replicate n False)"

definition charmap_merge :: "nat \<Rightarrow> charmap list \<Rightarrow> charmap option" where
  "charmap_merge n sets =
     (if list_all (\<lambda>s. length s \<le> n) sets then Some (fold xor_all sets (replicate n False)) else None)"

fun charmap_of_charsets_loop :: "bool \<Rightarrow> charset list \<Rightarrow> charmap \<Rightarrow> charmap option" where
  "charmap_of_charsets_loop sg [] out = Some out"
| "charmap_of_charsets_loop sg (s # sets) out =
     Option.bind (set_at (char_indices sg s) out) (charmap_of_charsets_loop sg sets)"

definition charmap_of_charsets :: "bool \<Rightarrow> nat \<Rightarrow> charset list \<Rightarrow> charmap option" where
  "charmap_of_charsets sg n c_sets = charmap_of_charsets_loop sg c_sets (replicate n False)"

definition charmap_set :: "charmap \<Rightarrow> nat \<Rightarrow> bool \<Rightarrow> charmap option" where
  "charmap_set m pos val = store m pos val"

text \<open>The loop of \<^verbatim>\<open>except\<close> runs over the cells, that is over booleans, and uses
  each as a character.\<close>

fun charmap_except_loop :: "(int \<Rightarrow> bool option) list \<Rightarrow> bool list \<Rightarrow> charmap \<Rightarrow> charmap option" where
  "charmap_except_loop sets [] chars = Some chars"
| "charmap_except_loop sets (character # m) chars =
     Option.bind (all_contain sets (of_bool character)) (\<lambda>b.
       if b then charmap_except_loop sets m chars
       else Option.bind (charmap_set chars (of_bool character) True) (charmap_except_loop sets m))"

definition charmap_except :: "charmap \<Rightarrow> (int \<Rightarrow> bool option) list \<Rightarrow> charmap option" where
  "charmap_except m sets = charmap_except_loop sets m (replicate (length m) False)"

definition charmap_unsafe_contains :: "charmap \<Rightarrow> int \<Rightarrow> bool option" where
  "charmap_unsafe_contains m character = load m (nat (character mod 2 ^ 64))"

definition charmap_contains :: "char_kind \<Rightarrow> charmap \<Rightarrow> int \<Rightarrow> bool option" where
  "charmap_contains k m character =
     (if (kind_signed k \<or> length m < kind_max k) \<and> (character < 0 \<or> nat character > length m)
      then Some False
      else load m (nat character))"

definition charmap_find_first_not_in :: "char_kind \<Rightarrow> charmap \<Rightarrow> int list \<Rightarrow> int list option" where
  "charmap_find_first_not_in k m = find_first_not_in (charmap_contains k m)"

definition charmap_find_first_in :: "char_kind \<Rightarrow> charmap \<Rightarrow> int list \<Rightarrow> int list option" where
  "charmap_find_first_in k m = find_first_in (charmap_contains k m)"

definition charmap_contains_str :: "charmap \<Rightarrow> bool list \<Rightarrow> bool option" where
  "charmap_contains_str m inp_set = contains_range (charmap_contains bool_kind m) (map of_bool inp_set)"

definition charmap_range :: "nat \<Rightarrow> nat \<Rightarrow> charmap option" where
  "charmap_range first final =
     (if first \<le> final + 1 then set_at [first..<final + 1] (replicate (final + 1) False) else None)"

section \<open>The class bitmap\<close>

text \<open>The bits of the base class \<^verbatim>\<open>std::bitset\<close>, lowest first. Its function
  \<^verbatim>\<open>set\<close> throws for a position outside, which does not compile in a constructor.\<close>

type_synonym bitmap = "bool list"

definition bitmap_merge :: "bitmap \<Rightarrow> bitmap list \<Rightarrow> bitmap" where
  "bitmap_merge set1 sets = fold (\<lambda>s out. map2 (\<or>) out s) sets set1"

definition bitmap_of_bitmap_chars :: "bool \<Rightarrow> bitmap \<Rightarrow> char list \<Rightarrow> bitmap option" where
  "bitmap_of_bitmap_chars sg inp_bitmap chars = set_at (char_indices sg chars) inp_bitmap"

definition bitmap_of_chars :: "bool \<Rightarrow> nat \<Rightarrow> char list \<Rightarrow> bitmap option" where
  "bitmap_of_chars sg n chars = set_at (char_indices sg chars) (replicate n False)"

definition bitmap_of_sets :: "bool \<Rightarrow> nat \<Rightarrow> charset list \<Rightarrow> bitmap option" where
  "bitmap_of_sets sg n sets = set_at (char_indices sg (concat sets)) (replicate n False)"

fun bitmap_except_loop :: "(int \<Rightarrow> bool option) list \<Rightarrow> nat list \<Rightarrow> bitmap \<Rightarrow> bitmap option" where
  "bitmap_except_loop sets [] chars = Some chars"
| "bitmap_except_loop sets (character # cs) chars =
     Option.bind (all_contain sets (int character)) (\<lambda>b.
       if b then bitmap_except_loop sets cs chars
       else Option.bind (store chars character True) (bitmap_except_loop sets cs))"

definition bitmap_except :: "bitmap \<Rightarrow> (int \<Rightarrow> bool option) list \<Rightarrow> bitmap option" where
  "bitmap_except m sets = bitmap_except_loop sets [0..<length m] (replicate (length m) False)"

definition bitmap_unsafe_contains :: "bitmap \<Rightarrow> int \<Rightarrow> bool option" where
  "bitmap_unsafe_contains m character =
     (if character \<ge> 0 \<and> nat character \<le> length m then load m (nat character) else None)"

definition bitmap_contains :: "char_kind \<Rightarrow> bitmap \<Rightarrow> int \<Rightarrow> bool option" where
  "bitmap_contains k m character =
     (if (kind_signed k \<or> length m < kind_max k) \<and> (character < 0 \<or> nat character > length m)
      then Some False
      else load m (nat character))"

definition bitmap_contains_str :: "char_kind \<Rightarrow> bitmap \<Rightarrow> int list \<Rightarrow> bool option" where
  "bitmap_contains_str k m = contains_range (bitmap_contains k m)"

definition bitmap_find_first_not_in :: "char_kind \<Rightarrow> bitmap \<Rightarrow> int list \<Rightarrow> int list option" where
  "bitmap_find_first_not_in k m = find_first_not_in (bitmap_contains k m)"

definition bitmap_find_first_in :: "char_kind \<Rightarrow> bitmap \<Rightarrow> int list \<Rightarrow> int list option" where
  "bitmap_find_first_in k m = find_first_in (bitmap_contains k m)"

definition bitmap_empty :: "bitmap \<Rightarrow> bool" where
  "bitmap_empty m \<longleftrightarrow> length m = 0"

definition bitmap_range :: "nat \<Rightarrow> nat \<Rightarrow> nat \<Rightarrow> bitmap option" where
  "bitmap_range first final n =
     (if first \<le> final + 1 then set_at [first..<final + 1] (replicate n False) else None)"

section \<open>Membership\<close>

lemma charset_loop_iff: "charset_loop cs c \<longleftrightarrow> c \<in> set cs"
  by (induction cs) auto

lemma charset_contains_iff [simp]: "charset_contains cs c \<longleftrightarrow> c \<in> set cs"
  by (auto simp: charset_contains_def charset_loop_iff split: list.splits)

lemma set_charset_merge [simp]: "set (charset_merge sets) = (\<Union>s \<in> set sets. set s)"
  by (simp add: charset_merge_def)

lemma charset_range_upt: "ord a \<le> ord b \<Longrightarrow> charset_range a b = map char_of [ord a..<Suc (ord b)]"
  by (simp add: charset_range_def)

lemma set_charset_range: "ord a \<le> ord b \<Longrightarrow> set (charset_range a b) = {c. ord a \<le> ord c \<and> ord c \<le> ord b}"
proof -
  assume "ord a \<le> ord b"
  then have "set (charset_range a b) = char_of ` {ord a..ord b}"
    by (simp only: charset_range_upt set_map set_upt atLeastLessThanSuc_atLeastAtMost)
  also have "\<dots> = {c. ord a \<le> ord c \<and> ord c \<le> ord b}"
  proof (intro equalityI subsetI)
    fix c :: char assume "c \<in> char_of ` {ord a..ord b}"
    then obtain n where "c = char_of n" "ord a \<le> n" "n \<le> ord b" by auto
    moreover from this have "n < 256" using ord_less_256 [of b] by (rule_tac le_less_trans)
    ultimately show "c \<in> {c. ord a \<le> ord c \<and> ord c \<le> ord b}" by simp
  next
    fix c :: char assume "c \<in> {c. ord a \<le> ord c \<and> ord c \<le> ord b}"
    then show "c \<in> char_of ` {ord a..ord b}" by (intro image_eqI [of _ _ "ord c"]) simp_all
  qed
  finally show ?thesis .
qed

text \<open>Setting cells: it is defined when all the indices are inside, and adds them.\<close>

lemma set_at_iff:
  "set_at ixs out = Some m \<longleftrightarrow>
     (\<forall>i \<in> set ixs. i < length out) \<and> m = map (\<lambda>j. out ! j \<or> j \<in> set ixs) [0..<length out]"
proof (induction ixs arbitrary: out)
  case Nil
  then show ?case by (auto simp: map_nth)
next
  case (Cons i ixs)
  have "map (\<lambda>j. out[i := True] ! j \<or> j \<in> set ixs) [0..<length out]
      = map (\<lambda>j. out ! j \<or> j \<in> set (i # ixs)) [0..<length out]" if "i < length out"
    using that by (auto simp: nth_list_update)
  then show ?case
    by (cases "i < length out") (auto simp: Cons.IH store_def)
qed

lemma char_index_ascii: "0 \<le> char_int sg c \<Longrightarrow> nat (char_int sg c mod 2 ^ 64) = ord c"
proof -
  assume c: "0 \<le> char_int sg c"
  then have "char_int sg c = int (ord c)" using nat_char_int [OF c] by linarith
  moreover obtain n where "ord c = n" "n < 256" using ord_less_256 by blast
  ultimately show ?thesis by simp
qed

lemma char_index_negative:
  assumes "char_int sg c < 0"
  shows "256 \<le> nat (char_int sg c mod 2 ^ 64)"
proof -
  have sg: "sg" "128 \<le> ord c" using assms char_int_nonneg_iff [of sg c] by linarith+
  then have eq: "char_int sg c = int (ord c) - 256" using char_int_signed_high by simp
  obtain n where n: "int (ord c) = n" "128 \<le> n" "n < 256"
    using sg ord_less_256 [of c] by (metis of_nat_le_iff of_nat_less_iff of_nat_numeral)
  have "(n - 256) mod 2 ^ 64 = (n - 256 + 2 ^ 64) mod 2 ^ 64" by (simp only: mod_add_self2)
  also have "\<dots> = n - 256 + 2 ^ 64"
    using n by (intro mod_pos_pos_trivial) simp_all
  finally show ?thesis using n by (simp add: eq)
qed

lemma char_index_less_iff: "n \<le> 256 \<Longrightarrow> nat (char_int sg c mod 2 ^ 64) < n \<longleftrightarrow> 0 \<le> char_int sg c \<and> ord c < n"
  using char_index_ascii [of sg c] char_index_negative [of sg c] by (cases "0 \<le> char_int sg c") (simp_all del: power_numeral)

text \<open>A table built from characters: each is ASCII or the type is unsigned.\<close>

lemma set_at_chars_iff:
  assumes "length m0 \<le> 256"
  shows "set_at (char_indices sg cs) m0 = Some m \<longleftrightarrow>
    (\<forall>c \<in> set cs. 0 \<le> char_int sg c \<and> ord c < length m0) \<and>
    m = map (\<lambda>j. m0 ! j \<or> j \<in> ord ` set cs) [0..<length m0]"
proof -
  have "(\<lambda>c. nat (char_int sg c mod 2 ^ 64)) ` set cs = ord ` set cs"
    if "\<forall>c \<in> set cs. 0 \<le> char_int sg c"
    using that by (intro image_cong) (simp_all add: char_index_ascii del: power_numeral)
  then show ?thesis
    unfolding set_at_iff char_indices_def set_map ball_simps char_index_less_iff [OF assms]
    by (auto simp del: power_numeral)
qed

section \<open>The interface of a set of characters\<close>

text \<open>What the code that uses a set relies on: membership is defined for every character that
  it asks about. The searches are then the usual ones on lists.\<close>

locale char_set =
  fixes contains :: "'s \<Rightarrow> 'c \<Rightarrow> bool option" and wf :: "'s \<Rightarrow> bool" and member_of :: "'s \<Rightarrow> 'c \<Rightarrow> bool"
    and valid :: "'c \<Rightarrow> bool"
  assumes contains_member: "wf s \<Longrightarrow> valid c \<Longrightarrow> contains s c = Some (member_of s c)"
begin

lemma find_first_not_in_eq:
  "wf s \<Longrightarrow> list_all valid cs \<Longrightarrow> find_first_not_in (contains s) cs = Some (dropWhile (member_of s) cs)"
  by (induction cs) (auto simp: contains_member)

lemma find_first_in_eq:
  "wf s \<Longrightarrow> list_all valid cs \<Longrightarrow>
     find_first_in (contains s) cs = Some (dropWhile (\<lambda>c. \<not> member_of s c) cs)"
  by (induction cs) (auto simp: contains_member)

lemma contains_range_eq:
  "wf s \<Longrightarrow> list_all valid cs \<Longrightarrow> contains_range (contains s) cs = Some (list_all (member_of s) cs)"
  by (induction cs) (auto simp: contains_member)

text \<open>The two searches split the range: what was passed is all inside, or all outside.\<close>

lemma find_first_not_in_split:
  assumes "wf s" "list_all valid cs" "find_first_not_in (contains s) cs = Some r"
  shows "\<exists>p. cs = p @ r \<and> list_all (member_of s) p \<and> (r = [] \<or> \<not> member_of s (hd r))"
proof (intro exI conjI)
  have r: "r = dropWhile (member_of s) cs" using assms find_first_not_in_eq by simp
  show "cs = takeWhile (member_of s) cs @ r" by (simp add: r)
  show "list_all (member_of s) (takeWhile (member_of s) cs)"
    by (auto simp: list_all_iff dest: set_takeWhileD)
  show "r = [] \<or> \<not> member_of s (hd r)" 
    using hd_dropWhile [of "member_of s" cs] by (cases "r = []") (simp_all add: r)
qed

end

text \<open>A table serves a character type when it has a cell for each value that is not negative.\<close>

definition table_for :: "bool \<Rightarrow> bool list \<Rightarrow> bool" where
  "table_for sg m \<longleftrightarrow> (if sg then 128 \<le> length m else 256 \<le> length m)"

definition char_val :: "bool \<Rightarrow> int \<Rightarrow> bool" where
  "char_val sg v \<longleftrightarrow> (if sg then -128 \<le> v \<and> v < 128 else 0 \<le> v \<and> v < 256)"

definition table_member :: "bool list \<Rightarrow> int \<Rightarrow> bool" where
  "table_member m v \<longleftrightarrow> 0 \<le> v \<and> nat v < length m \<and> m ! nat v"

lemma char_val_char_int [simp]: "char_val sg (char_int sg c)"
proof (cases "ord c < 128")
  case False
  then show ?thesis
    using char_int_signed_high [of c] ord_less_256 [of c]
    by (cases sg) (simp_all add: char_val_def char_int_unsigned del: ord_less_256)
qed (simp add: char_val_def)

lemma bitmap_contains_table:
  assumes "table_for sg m" "char_val sg v"
  shows "bitmap_contains (char_kind_of sg) m v = Some (table_member m v)"
  using assms
  by (cases sg) (auto simp: bitmap_contains_def char_kind_of_def signed_char_def unsigned_char_def
      table_for_def char_val_def table_member_def load_def)

lemma charmap_contains_bitmap: "charmap_contains = bitmap_contains"
  by (intro ext) (simp add: charmap_contains_def bitmap_contains_def)

interpretation charset_set: char_set "\<lambda>s c. Some (charset_contains s c)" "\<lambda>_. True" "\<lambda>s c. c \<in> set s" "\<lambda>_. True"
  by unfold_locales simp

interpretation bitmap_signed: char_set "bitmap_contains (char_kind_of True)" "table_for True" table_member "char_val True"
  by unfold_locales (rule bitmap_contains_table)

interpretation bitmap_unsigned: char_set "bitmap_contains (char_kind_of False)" "table_for False" table_member "char_val False"
  by unfold_locales (rule bitmap_contains_table)

lemma bitmap_find_first_not_in_eq:
  "table_for sg m \<Longrightarrow> list_all (char_val sg) cs \<Longrightarrow>
     bitmap_find_first_not_in (char_kind_of sg) m cs = Some (dropWhile (table_member m) cs)"
  unfolding bitmap_find_first_not_in_def
  using bitmap_signed.find_first_not_in_eq bitmap_unsigned.find_first_not_in_eq by (cases sg) simp_all

lemma bitmap_find_first_in_eq:
  "table_for sg m \<Longrightarrow> list_all (char_val sg) cs \<Longrightarrow>
     bitmap_find_first_in (char_kind_of sg) m cs = Some (dropWhile (\<lambda>c. \<not> table_member m c) cs)"
  unfolding bitmap_find_first_in_def
  using bitmap_signed.find_first_in_eq bitmap_unsigned.find_first_in_eq by (cases sg) simp_all

lemma bitmap_contains_str_eq:
  "table_for sg m \<Longrightarrow> list_all (char_val sg) cs \<Longrightarrow>
     bitmap_contains_str (char_kind_of sg) m cs = Some (list_all (table_member m) cs)"
  unfolding bitmap_contains_str_def
  using bitmap_signed.contains_range_eq bitmap_unsigned.contains_range_eq by (cases sg) simp_all

section \<open>Properties\<close>

lemma char_int_inj: "char_int sg c = char_int sg d \<longleftrightarrow> c = d"
proof
  assume eq: "char_int sg c = char_int sg d"
  obtain m n where m: "ord c = m" "m < 256" and n: "ord d = n" "n < 256" using ord_less_256 by blast
  have "m = n"
    using eq m n char_int_ascii [of c sg] char_int_ascii [of d sg] char_int_signed_high [of c] char_int_signed_high [of d]
    by (cases sg; cases "m < 128"; cases "n < 128") (simp_all add: char_int_unsigned)
  then show "c = d" using m n by (simp add: char_eq_ord_iff)
qed simp

lemma table_member_of_sets:
  assumes m: "bitmap_of_sets sg n sets = Some m" and n: "n \<le> 256"
  shows "table_member m (char_int sg c) \<longleftrightarrow> c \<in> set (charset_merge sets)"
proof -
  have all: "\<forall>c \<in> set (concat sets). 0 \<le> char_int sg c \<and> ord c < n"
    and eq: "m = map (\<lambda>j. j \<in> ord ` set (concat sets)) [0..<n]"
    using m set_at_chars_iff [of "replicate n False" sg "concat sets" m] n by (auto simp: bitmap_of_sets_def)
  have "c \<in> set (concat sets)" if "ord c \<in> ord ` set (concat sets)"
    using that unfolding image_iff by (metis char_eq_ord_iff)
  moreover have "table_member m (char_int sg c) \<longleftrightarrow>
      0 \<le> char_int sg c \<and> ord c < n \<and> ord c \<in> ord ` set (concat sets)"
    by (cases "0 \<le> char_int sg c") (simp_all add: table_member_def eq nat_char_int cong: conj_cong del: set_concat)
  ultimately show ?thesis using all unfolding charset_merge_def by blast
qed

lemma length_bitmap_of_sets: "bitmap_of_sets sg n sets = Some m \<Longrightarrow> length m = n"
  by (auto simp: bitmap_of_sets_def set_at_iff)

lemma dropWhile_char_int:
  "(\<And>c. P (char_int sg c) \<longleftrightarrow> Q c) \<Longrightarrow> dropWhile P (map (char_int sg) str) = map (char_int sg) (dropWhile Q str)"
  by (simp add: dropWhile_map comp_def)

lemma bitmap_contains_guarded:
  assumes "char_val sg v" "length m \<le> 256"
  shows "bitmap_contains (char_kind_of sg) m v = (if v = int (length m) then None else Some (table_member m v))"
  using assms
  by (cases sg) (auto simp: bitmap_contains_def char_kind_of_def signed_char_def unsigned_char_def
      char_val_def table_member_def load_def)

lemma queries_map:
  assumes "\<And>c. contains (f c) = contains' c"
  shows "contains_range contains (map f cs) = contains_range contains' cs"
    and "find_first_in contains (map f cs) = map_option (map f) (find_first_in contains' cs)"
    and "find_first_not_in contains (map f cs) = map_option (map f) (find_first_not_in contains' cs)"
  by (induction cs) (auto simp: assms bind_eq_None_conv split: bind_splits)

text \<open>
  The membership test that a table of \<open>n\<close> cells answers: the guard lets the character with the value
  \<open>n\<close> through, and the table is read outside.
\<close>

definition guarded_contains :: "bool \<Rightarrow> nat \<Rightarrow> charset \<Rightarrow> char \<Rightarrow> bool option" where
  "guarded_contains sg n cset c = (if char_int sg c = int n then None else Some (charset_contains cset c))"

text \<open>C21: A bitmap of any size up to 256 that is built from charsets answers every query as the merged
  charset does, on platforms with signed and with unsigned characters: membership of a character, of a
  whole text, and the two searches, which stop at the same place; but a query that asks for the character
  whose value is the size of the bitmap reads outside of it. No character has that value when the
  bitmap has 128 cells or more, or 256 with unsigned characters.\<close>

theorem bitmap_refines_charset:
  assumes "bitmap_of_sets sg n sets = Some m" and "n \<le> 256"
  shows "bitmap_contains (char_kind_of sg) m (char_int sg c) = guarded_contains sg n (charset_merge sets) c
    \<and> bitmap_contains_str (char_kind_of sg) m (map (char_int sg) str)
      = contains_range (guarded_contains sg n (charset_merge sets)) str
    \<and> bitmap_find_first_in (char_kind_of sg) m (map (char_int sg) str)
      = map_option (map (char_int sg)) (find_first_in (guarded_contains sg n (charset_merge sets)) str)
    \<and> bitmap_find_first_not_in (char_kind_of sg) m (map (char_int sg) str)
      = map_option (map (char_int sg)) (find_first_not_in (guarded_contains sg n (charset_merge sets)) str)
    \<and> ((if sg then 128 \<le> n else n = 256) \<longrightarrow>
        guarded_contains sg n (charset_merge sets) = (\<lambda>c. Some (charset_contains (charset_merge sets) c)))"
proof -
  have "length m = n" using assms(1) by (rule length_bitmap_of_sets)
  then have member: "bitmap_contains (char_kind_of sg) m (char_int sg c) = guarded_contains sg n (charset_merge sets) c" for c
    using bitmap_contains_guarded [OF char_val_char_int, of m sg c] table_member_of_sets [OF assms] assms(2)
    by (simp add: guarded_contains_def)
  moreover have "guarded_contains sg n (charset_merge sets) = (\<lambda>c. Some (charset_contains (charset_merge sets) c))"
    if "if sg then 128 \<le> n else n = 256"
  proof
    fix c
    have "char_val sg (char_int sg c)" by simp
    then have "char_int sg c \<noteq> int n" using that by (auto simp: char_val_def split: if_splits)
    then show "guarded_contains sg n (charset_merge sets) c = Some (charset_contains (charset_merge sets) c)"
      by (simp add: guarded_contains_def)
  qed
  ultimately show ?thesis
    unfolding bitmap_contains_str_def bitmap_find_first_in_def bitmap_find_first_not_in_def
    using queries_map [where f = "char_int sg" and contains = "bitmap_contains (char_kind_of sg) m"
      and contains' = "guarded_contains sg n (charset_merge sets)" and cs = str, OF member] by blast
qed

theorem bitmap_refines_charset_witness:
  "\<exists>m. bitmap_of_sets True 100 [''ab'', ''-''] = Some m \<and>
     bitmap_contains (char_kind_of True) m (char_int True (CHR ''b'')) = Some True \<and>
     bitmap_contains (char_kind_of True) m (char_int True (CHR ''d'')) = None"
proof -
  obtain m where m: "bitmap_of_sets True 100 [''ab'', ''-''] = Some m"
    unfolding bitmap_of_sets_def using set_at_chars_iff [of "replicate 100 False" True "concat [''ab'', ''-'']"]
    by simp
  have "charset_contains (charset_merge [''ab'', ''-'']) (CHR ''b'')" by code_simp
  then show ?thesis
    using bitmap_refines_charset [OF m, of "CHR ''b''"] bitmap_refines_charset [OF m, of "CHR ''d''"] m
    by (simp add: guarded_contains_def)
qed

text \<open>A membership test of a table reads outside of it for exactly one character, the one
  whose value equals the size of the table: the guard admits that index. The test is safe for tables
  that are larger than the largest character.\<close>

theorem contains_out_of_bounds_iff:
  assumes "v \<le> int (kind_max k)" and "kind_signed k \<or> 0 \<le> v"
  shows "(bitmap_contains k m v = None \<longleftrightarrow> v = int (length m))
    \<and> (charmap_contains k m v = None \<longleftrightarrow> v = int (length m))
    \<and> (kind_max k < length m \<longrightarrow> bitmap_contains k m v \<noteq> None)"
  using assms by (auto simp: charmap_contains_bitmap bitmap_contains_def load_def)

theorem contains_out_of_bounds_iff_witness:
  "\<exists>m. charmap_range (ord (CHR ''0'')) (ord (CHR ''9'')) = Some m
     \<and> charmap_contains signed_char m (char_int True (CHR '':'')) = None"
proof -
  have "case charmap_range (ord (CHR ''0'')) (ord (CHR ''9'')) of Some m \<Rightarrow> length m = 58 | None \<Rightarrow> False"
    by code_simp
  then obtain m where "charmap_range (ord (CHR ''0'')) (ord (CHR ''9'')) = Some m" "length m = 58"
    by (auto split: option.splits)
  moreover have "char_int True (CHR '':'') = 58" by simp
  moreover have "charmap_contains signed_char m 58 = None"
    using contains_out_of_bounds_iff [of 58 signed_char m] \<open>length m = 58\<close> by (simp add: signed_char_def)
  ultimately show ?thesis by auto
qed

lemma charset_except_loop_eq:
  "length (filter (\<lambda>c. \<not> P c) cs) \<le> length rest \<Longrightarrow>
     (\<And>c. list_all (\<lambda>s. charset_contains s c) sets \<longleftrightarrow> P c) \<Longrightarrow>
     charset_except_loop sets cs (length done) (done @ rest)
       = Some (done @ filter (\<lambda>c. \<not> P c) cs @ drop (length (filter (\<lambda>c. \<not> P c) cs)) rest)"
proof (induction cs arbitrary: "done" rest)
  case (Cons c cs)
  show ?case
  proof (cases "P c")
    case False
    with Cons.prems(1) obtain r rest' where rest: "rest = r # rest'" by (cases rest) auto
    have "charset_except_loop sets cs (length (done @ [c])) ((done @ [c]) @ rest')
        = Some ((done @ [c]) @ filter (\<lambda>c. \<not> P c) cs @ drop (length (filter (\<lambda>c. \<not> P c) cs)) rest')"
      using Cons.prems False rest by (intro Cons.IH) auto
    then show ?thesis using False Cons.prems(2) by (simp add: rest list_update_append)
  qed (use Cons in simp)
qed simp

lemma bitmap_except_loop_eq:
  "(\<And>j. j \<in> set js \<Longrightarrow> j < length chars \<and> all_contain sets (int j) = Some (q j)) \<Longrightarrow>
     bitmap_except_loop sets js chars = set_at (filter (\<lambda>j. \<not> q j) js) chars"
proof (induction js arbitrary: chars)
  case (Cons j js)
  have "bitmap_except_loop sets js (chars[j := True]) = set_at (filter (\<lambda>j. \<not> q j) js) (chars[j := True])"
    using Cons.prems by (intro Cons.IH) simp
  then show ?case using Cons.prems [of j] Cons.IH Cons.prems by (simp add: store_def)
qed simp

lemma charmap_except_loop_cells:
  "charmap_except_loop sets m chars = Some r \<Longrightarrow>
     length r = length chars \<and> (\<forall>j. 1 < j \<longrightarrow> j < length r \<longrightarrow> r ! j = chars ! j)"
proof (induction m arbitrary: chars)
  case (Cons b m)
  then obtain w where w: "all_contain sets (of_bool b) = Some w" by (auto split: bind_splits)
  show ?case
  proof (cases w)
    case True
    then show ?thesis using Cons w by simp
  next
    case False
    then have "charmap_except_loop sets m (chars[of_bool b := True]) = Some r"
      using Cons.prems w by (auto simp: charmap_set_def store_def split: if_splits)
    from Cons.IH [OF this] show ?thesis by (cases b) auto
  qed
qed simp

text \<open>Excluding a subset from a charset leaves its other characters in their order. The
  same operation of a bitmap ignores the bitmap: it yields the complement of the excluded sets
  (of their intersection, when there are several). That of a charmap never contains a character above 1.\<close>

theorem except_results:
  assumes "distinct t" and "set t \<subseteq> set s" and "distinct s"
    and "\<And>j. j < length m \<Longrightarrow> all_contain sets (int j) = Some (q j)"
  shows "charset_except s [t] = Some (filter (\<lambda>c. c \<notin> set t) s)
    \<and> bitmap_except m sets = Some (map (\<lambda>j. \<not> q j) [0..<length m])
    \<and> (\<forall>r j. charmap_except m sets = Some r \<and> 1 < j \<and> j < length r \<longrightarrow> \<not> r ! j)"
proof (intro conjI allI impI)
  have "set s - set t = set (filter (\<lambda>c. c \<notin> set t) s)" by auto
  then have "card (set s - set t) = length (filter (\<lambda>c. c \<notin> set t) s)"
    using assms(3) distinct_card distinct_filter by metis
  then have len: "length (filter (\<lambda>c. c \<notin> set t) s) = length s - length t"
    using assms(1-3) card_Diff_subset [of "set t" "set s"] by (simp add: distinct_card)
  have "length t \<le> length s"
    using assms(1-3) card_mono [of "set s" "set t"] by (simp add: distinct_card)
  then show "charset_except s [t] = Some (filter (\<lambda>c. c \<notin> set t) s)"
    using charset_except_loop_eq [of "\<lambda>c. c \<in> set t" s "replicate (length s - length t) (CHR 0x00)" "[t]" "[]"] len
    by (simp add: charset_except_def)
next
  have "bitmap_except m sets = set_at (filter (\<lambda>j. \<not> q j) [0..<length m]) (replicate (length m) False)"
    unfolding bitmap_except_def using assms(4) by (intro bitmap_except_loop_eq) simp
  then show "bitmap_except m sets = Some (map (\<lambda>j. \<not> q j) [0..<length m])" by (simp add: set_at_iff)
next
  fix r j assume "charmap_except m sets = Some r \<and> 1 < j \<and> j < length r"
  then show "\<not> r ! j"
    using charmap_except_loop_cells [of sets m "replicate (length m) False" r] by (simp add: charmap_except_def)
qed

theorem except_results_witness:
  "charset_except ''abc'' [''b''] = Some ''ac''
   \<and> bitmap_except [False, True, False] [\<lambda>v. Some (v = 1)] = Some [True, False, True]"
  using except_results [of "''b''" "''abc''" "[False, True, False]" "[\<lambda>v. Some (v = 1)]" "\<lambda>j. j = 1"]
  by (simp add: upt_rec)

end
