(* ===== verification/Uri_Charsets.thy ===== *)
theory Uri_Charsets
  imports Charset
begin

text \<open>
  \<^verbatim>\<open>webpp/uri/details/constants.hpp\<close>: the sets of characters of the
  grammars of RFC 3986, as charsets, and the percent-encode sets and forbidden code points of the
  WHATWG URL standard, as tables of 256 cells. A table is built by the compiler; the parameter
  \<open>sg\<close> says whether \<^verbatim>\<open>char\<close> is signed there.
\<close>

section \<open>RFC 3986\<close>

definition TABS_OR_NEWLINES :: charset where
  "TABS_OR_NEWLINES = [CHR 0x0A, CHR 0x09, CHR 0x0D]"

definition ALLOWED_CHARACTERS_IN_URI :: charset where
  "ALLOWED_CHARACTERS_IN_URI =
     charset_merge [ALPHA, DIGIT, '';,/?:@&=+$-_.!~*'' @ [CHR 0x27] @ ''()#'']"

definition SCHEME_NOT_FIRST :: charset where
  "SCHEME_NOT_FIRST = charset_merge [ALPHA, DIGIT, ''+-.'']"

definition UNRESERVED :: charset where
  "UNRESERVED = charset_merge [ALPHA, DIGIT, ''-._~'']"

definition SUB_DELIMS :: charset where
  "SUB_DELIMS = ''!$&'' @ [CHR 0x27] @ ''()*+,;=''"

definition USER_INFO_NOT_PCT_ENCODED :: charset where
  "USER_INFO_NOT_PCT_ENCODED = charset_merge [UNRESERVED, SUB_DELIMS, '':'']"

definition IPV_FUTURE_LAST_PART :: charset where
  "IPV_FUTURE_LAST_PART = charset_merge [UNRESERVED, SUB_DELIMS, '':'']"

definition REG_NAME_NOT_PCT_ENCODED :: charset where
  "REG_NAME_NOT_PCT_ENCODED = charset_merge [UNRESERVED, SUB_DELIMS]"

definition PCHAR_NOT_PCT_ENCODED :: charset where
  "PCHAR_NOT_PCT_ENCODED = charset_merge [UNRESERVED, SUB_DELIMS, '':@'']"

definition QUERY_OR_FRAGMENT_NOT_PCT_ENCODED :: charset where
  "QUERY_OR_FRAGMENT_NOT_PCT_ENCODED = charset_merge [PCHAR_NOT_PCT_ENCODED, ''/?'']"

definition QUERY_NOT_PCT_ENCODED_WITHOUT_PLUS :: charset where
  "QUERY_NOT_PCT_ENCODED_WITHOUT_PLUS =
     charset_merge [UNRESERVED, ''!$&'' @ [CHR 0x27] @ ''()*,;=:@/?'']"

definition LEGAL_PATH_CHARS :: charset where
  "LEGAL_PATH_CHARS = charset_merge [PCHAR_NOT_PCT_ENCODED, ''/'']"

section \<open>WHATWG\<close>

abbreviation with_chars :: "bool \<Rightarrow> bitmap option \<Rightarrow> char list \<Rightarrow> bitmap option" where
  "with_chars sg m chars \<equiv> Option.bind m (\<lambda>m. bitmap_of_bitmap_chars sg m chars)"

abbreviation merged :: "bitmap option \<Rightarrow> bitmap option \<Rightarrow> bitmap option" where
  "merged m1 m2 \<equiv> Option.bind m1 (\<lambda>m1. Option.bind m2 (\<lambda>m2. Some (bitmap_merge m1 [m2])))"

definition ASCII_ALPHA :: "bool \<Rightarrow> bitmap option" where
  "ASCII_ALPHA sg = bitmap_of_sets sg 256 [ALPHA]"

definition C0_CONTROL_SET :: "bitmap option" where
  "C0_CONTROL_SET = bitmap_range 0x0 0x1F 256"

definition C0_CONTROL_ENCODE_SET :: "bitmap option" where
  "C0_CONTROL_ENCODE_SET = merged C0_CONTROL_SET (bitmap_range 0x7E 0xFF (0xFF + 1))"

definition FRAGMENT_ENCODE_SET :: "bool \<Rightarrow> bitmap option" where
  "FRAGMENT_ENCODE_SET sg = with_chars sg C0_CONTROL_ENCODE_SET [CHR '' '', CHR 0x22, CHR ''<'', CHR ''>'', CHR 0x60]"

definition QUERIES_ENCODE_SET :: "bool \<Rightarrow> bitmap option" where
  "QUERIES_ENCODE_SET sg = with_chars sg C0_CONTROL_ENCODE_SET [CHR '' '', CHR 0x22, CHR ''<'', CHR ''>'', CHR ''#'']"

definition SPECIAL_QUERIES_ENCODE_SET :: "bool \<Rightarrow> bitmap option" where
  "SPECIAL_QUERIES_ENCODE_SET sg = with_chars sg (QUERIES_ENCODE_SET sg) [CHR 0x27]"

definition PATH_ENCODE_SET :: "bool \<Rightarrow> bitmap option" where
  "PATH_ENCODE_SET sg = with_chars sg (QUERIES_ENCODE_SET sg) [CHR ''?'', CHR 0x60, CHR ''{'', CHR ''}'']"

definition USER_INFO_ENCODE_SET :: "bool \<Rightarrow> bitmap option" where
  "USER_INFO_ENCODE_SET sg =
     with_chars sg (merged (PATH_ENCODE_SET sg) (bitmap_range 0x5B 0x5E 256)) ''/:;=@|''"

definition COMPONENT_ENCODE_SET :: "bool \<Rightarrow> bitmap option" where
  "COMPONENT_ENCODE_SET sg =
     with_chars sg (merged (USER_INFO_ENCODE_SET sg) (bitmap_range 0x24 0x26 256)) ''+,''"

definition FORBIDDEN_HOST_CODE_POINTS :: "bool \<Rightarrow> bitmap option" where
  "FORBIDDEN_HOST_CODE_POINTS sg =
     bitmap_of_chars sg 256 [CHR 0x00, CHR 0x09, CHR 0x0D, CHR 0x0A, CHR '' '', CHR ''#'', CHR ''/'', CHR '':'',
       CHR ''<'', CHR ''>'', CHR ''?'', CHR ''@'', CHR ''['', CHR 0x5C, CHR '']'', CHR 0x5E, CHR ''|'']"

definition FORBIDDEN_DOMAIN_CODE_POINTS :: "bool \<Rightarrow> bitmap option" where
  "FORBIDDEN_DOMAIN_CODE_POINTS sg =
     with_chars sg (merged (FORBIDDEN_HOST_CODE_POINTS sg) C0_CONTROL_SET) [CHR ''%'', CHR 0x7F]"

section \<open>Tables as sets of codes\<close>

definition table_of :: "nat set \<Rightarrow> bitmap" where
  "table_of A = map (\<lambda>j. j \<in> A) [0..<256]"

lemma length_table_of [simp]: "length (table_of A) = 256"
  by (simp add: table_of_def)

lemma table_member_table_of: "table_member (table_of A) v \<longleftrightarrow> 0 \<le> v \<and> v < 256 \<and> nat v \<in> A"
  by (auto simp: table_member_def table_of_def)

lemma bitmap_range_table: "a \<le> b + 1 \<Longrightarrow> b < 256 \<Longrightarrow> bitmap_range a b 256 = Some (table_of {a..b})"
  by (auto simp: bitmap_range_def set_at_iff table_of_def)

lemma bitmap_merge_table: "bitmap_merge (table_of A) [table_of B] = table_of (A \<union> B)"
  by (auto simp: bitmap_merge_def table_of_def intro!: nth_equalityI)

lemma bitmap_add_chars_table:
  assumes "list_all (\<lambda>c. ord c < 128) cs"
  shows "bitmap_of_bitmap_chars sg (table_of A) cs = Some (table_of (A \<union> ord ` set cs))"
  using assms set_at_chars_iff [of "table_of A" sg cs "table_of (A \<union> ord ` set cs)"]
  by (auto simp: bitmap_of_bitmap_chars_def table_of_def list_all_iff char_int_nonneg_iff)

lemma bitmap_of_chars_table:
  assumes "list_all (\<lambda>c. ord c < 128) cs"
  shows "bitmap_of_chars sg 256 cs = Some (table_of (ord ` set cs))"
proof -
  have "replicate 256 False = table_of {}" by (auto simp: table_of_def intro: nth_equalityI)
  then show ?thesis
    using bitmap_add_chars_table [OF assms, of sg "{}"] by (simp add: bitmap_of_chars_def bitmap_of_bitmap_chars_def)
qed

lemmas table_facts = bitmap_range_table bitmap_merge_table bitmap_add_chars_table bitmap_of_chars_table

text \<open>The codes of each table.\<close>

definition c0_codes :: "nat set" where "c0_codes = {0..0x1F}"
definition encode_codes :: "nat set" where "encode_codes = c0_codes \<union> {0x7E..0xFF}"
definition query_codes :: "nat set" where "query_codes = encode_codes \<union> ord ` set [CHR '' '', CHR 0x22, CHR ''<'', CHR ''>'', CHR ''#'']"
definition path_codes :: "nat set" where "path_codes = query_codes \<union> ord ` set [CHR ''?'', CHR 0x60, CHR ''{'', CHR ''}'']"
definition userinfo_codes :: "nat set" where "userinfo_codes = path_codes \<union> {0x5B..0x5E} \<union> ord ` set ''/:;=@|''"

lemma c0_control_set: "C0_CONTROL_SET = Some (table_of c0_codes)"
  by (simp add: C0_CONTROL_SET_def c0_codes_def table_facts)

lemma c0_control_encode_set: "C0_CONTROL_ENCODE_SET = Some (table_of encode_codes)"
  using bitmap_range_table [of "0x7E" "0xFF"]
  by (simp add: C0_CONTROL_ENCODE_SET_def c0_control_set encode_codes_def bitmap_merge_table)

lemma fragment_encode_set:
  "FRAGMENT_ENCODE_SET sg = Some (table_of (encode_codes \<union> ord ` set [CHR '' '', CHR 0x22, CHR ''<'', CHR ''>'', CHR 0x60]))"
  unfolding FRAGMENT_ENCODE_SET_def c0_control_encode_set by (simp only: bind.bind_lunit) (rule bitmap_add_chars_table, simp)

lemma queries_encode_set: "QUERIES_ENCODE_SET sg = Some (table_of query_codes)"
  unfolding QUERIES_ENCODE_SET_def c0_control_encode_set query_codes_def
  by (simp only: bind.bind_lunit) (rule bitmap_add_chars_table, simp)

lemma special_queries_encode_set: "SPECIAL_QUERIES_ENCODE_SET sg = Some (table_of (query_codes \<union> ord ` set [CHR 0x27]))"
  unfolding SPECIAL_QUERIES_ENCODE_SET_def queries_encode_set
  by (simp only: bind.bind_lunit) (rule bitmap_add_chars_table, simp)

lemma path_encode_set: "PATH_ENCODE_SET sg = Some (table_of path_codes)"
  unfolding PATH_ENCODE_SET_def queries_encode_set path_codes_def
  by (simp only: bind.bind_lunit) (rule bitmap_add_chars_table, simp)

lemma user_info_encode_set: "USER_INFO_ENCODE_SET sg = Some (table_of userinfo_codes)"
  using bitmap_range_table [of "0x5B" "0x5E"]
    bitmap_add_chars_table [of "''/:;=@|''" sg "path_codes \<union> {0x5B..0x5E}"]
  by (simp add: USER_INFO_ENCODE_SET_def path_encode_set userinfo_codes_def bitmap_merge_table)

lemma component_encode_set:
  "COMPONENT_ENCODE_SET sg = Some (table_of (userinfo_codes \<union> {0x24..0x26} \<union> ord ` set ''+,''))"
  using bitmap_range_table [of "0x24" "0x26"]
    bitmap_add_chars_table [of "''+,''" sg "userinfo_codes \<union> {0x24..0x26}"]
  by (simp add: COMPONENT_ENCODE_SET_def user_info_encode_set bitmap_merge_table)

section \<open>Properties\<close>

definition in_table :: "bool \<Rightarrow> bitmap option \<Rightarrow> char \<Rightarrow> bool option" where
  "in_table sg m c = Option.bind m (\<lambda>m. bitmap_contains (char_kind_of sg) m (char_int sg c))"

lemma in_table_of:
  "in_table sg (Some (table_of A)) c = Some ((if sg then ord c < 128 else True) \<and> ord c \<in> A)"
proof -
  have "table_for sg (table_of A)" by (simp add: table_for_def)
  moreover have "char_int sg c < 256" using char_val_char_int [of sg c] by (cases sg) (simp_all add: char_val_def del: char_val_char_int)
  ultimately show ?thesis
    by (auto simp: in_table_def bitmap_contains_table table_member_table_of char_int_nonneg_iff nat_char_int)
qed

lemma ord_image_iff: "ord c \<in> ord ` set cs \<longleftrightarrow> c \<in> set cs"
  unfolding image_iff by (metis char_eq_ord_iff)

lemma ascii_member: "c \<in> set cs \<Longrightarrow> list_all (\<lambda>c. ord c < 128) cs \<Longrightarrow> ord c < 128"
  by (simp add: list_all_iff)

lemma in_table_extend:
  assumes "in_table sg (Some (table_of A)) c = Some b" and "list_all (\<lambda>c. ord c < 128) cs"
  shows "in_table sg (Some (table_of (A \<union> ord ` set cs))) c = Some (b \<or> c \<in> set cs)"
proof -
  have "ord c \<in> ord ` set cs \<longleftrightarrow> c \<in> set cs" by (rule ord_image_iff)
  then show ?thesis using assms ascii_member [of c cs] unfolding in_table_of by auto
qed

lemma in_table_chars:
  assumes "list_all (\<lambda>c. ord c < 128) cs"
  shows "in_table sg (Some (table_of (ord ` set cs))) c = Some (c \<in> set cs)"
  using in_table_extend [of sg "{}" c False cs] assms by (simp add: in_table_of)

lemma code_ranges:
  "{0x5B..0x5E} = ord ` set [CHR ''['', CHR 0x5C, CHR '']'', CHR 0x5E]"
  "{0x24..0x26} = ord ` set ''$%&''"
  by (auto simp: image_def)

lemma in_encode_table:
  "in_table sg C0_CONTROL_ENCODE_SET c = Some ((if sg then ord c < 128 else True) \<and> (ord c \<le> 0x1F \<or> 0x7E \<le> ord c))"
proof -
  have "ord c \<le> 255" using ord_less_256 [of c] by linarith
  then show ?thesis unfolding c0_control_encode_set in_table_of by (auto simp: encode_codes_def c0_codes_def)
qed

lemma in_queries_table:
  "in_table sg (QUERIES_ENCODE_SET sg) c =
     Some (((if sg then ord c < 128 else True) \<and> (ord c \<le> 0x1F \<or> 0x7E \<le> ord c))
       \<or> c \<in> set [CHR '' '', CHR 0x22, CHR ''<'', CHR ''>'', CHR ''#''])"
  unfolding queries_encode_set query_codes_def
  by (rule in_table_extend [OF in_encode_table [unfolded c0_control_encode_set]]) simp

lemma in_path_table:
  "in_table sg (QUERIES_ENCODE_SET sg) c = Some b \<Longrightarrow>
     in_table sg (PATH_ENCODE_SET sg) c = Some (b \<or> c \<in> set [CHR ''?'', CHR 0x60, CHR ''{'', CHR ''}''])"
  unfolding queries_encode_set path_encode_set path_codes_def by (rule in_table_extend) simp_all

lemma in_userinfo_table:
  "in_table sg (PATH_ENCODE_SET sg) c = Some b \<Longrightarrow>
     in_table sg (USER_INFO_ENCODE_SET sg) c
       = Some ((b \<or> c \<in> set [CHR ''['', CHR 0x5C, CHR '']'', CHR 0x5E]) \<or> c \<in> set ''/:;=@|'')"
  unfolding path_encode_set user_info_encode_set userinfo_codes_def code_ranges
  by (intro in_table_extend) simp_all

lemma in_component_table:
  "in_table sg (USER_INFO_ENCODE_SET sg) c = Some b \<Longrightarrow>
     in_table sg (COMPONENT_ENCODE_SET sg) c = Some ((b \<or> c \<in> set ''$%&'') \<or> c \<in> set ''+,'')"
  unfolding user_info_encode_set component_encode_set code_ranges by (intro in_table_extend) simp_all

lemma in_host_table:
  "in_table sg (FORBIDDEN_HOST_CODE_POINTS sg) c = Some (c \<in> set
     [CHR 0x00, CHR 0x09, CHR 0x0D, CHR 0x0A, CHR '' '', CHR ''#'', CHR ''/'', CHR '':'',
       CHR ''<'', CHR ''>'', CHR ''?'', CHR ''@'', CHR ''['', CHR 0x5C, CHR '']'', CHR 0x5E, CHR ''|''])"
  unfolding FORBIDDEN_HOST_CODE_POINTS_def
  by (subst bitmap_of_chars_table, simp, rule in_table_chars, simp)

lemma in_domain_table:
  assumes "in_table sg (FORBIDDEN_HOST_CODE_POINTS sg) c = Some b"
  shows "in_table sg (FORBIDDEN_DOMAIN_CODE_POINTS sg) c
    = Some ((b \<or> ord c \<le> 0x1F) \<or> c \<in> set [CHR ''%'', CHR 0x7F])"
proof -
  obtain A where A: "FORBIDDEN_HOST_CODE_POINTS sg = Some (table_of A)"
    unfolding FORBIDDEN_HOST_CODE_POINTS_def using bitmap_of_chars_table by auto
  have "in_table sg (Some (table_of (A \<union> c0_codes))) c = Some (b \<or> ord c \<le> 0x1F)"
    using assms unfolding A in_table_of by (auto simp: c0_codes_def)
  then have "in_table sg (Some (table_of (A \<union> c0_codes \<union> ord ` set [CHR ''%'', CHR 0x7F]))) c
      = Some ((b \<or> ord c \<le> 0x1F) \<or> c \<in> set [CHR ''%'', CHR 0x7F])"
    by (rule in_table_extend) simp
  moreover have "FORBIDDEN_DOMAIN_CODE_POINTS sg = Some (table_of (A \<union> c0_codes \<union> ord ` set [CHR ''%'', CHR 0x7F]))"
    unfolding FORBIDDEN_DOMAIN_CODE_POINTS_def A c0_control_set
    using bitmap_add_chars_table [of "[CHR ''%'', CHR 0x7F]" sg "A \<union> c0_codes"] by (simp add: bitmap_merge_table)
  ultimately show ?thesis by simp
qed

lemma in_fragment_table:
  "in_table sg C0_CONTROL_ENCODE_SET c = Some b \<Longrightarrow>
     in_table sg (FRAGMENT_ENCODE_SET sg) c = Some (b \<or> c \<in> set [CHR '' '', CHR 0x22, CHR ''<'', CHR ''>'', CHR 0x60])"
  unfolding c0_control_encode_set fragment_encode_set by (rule in_table_extend) simp_all

lemma in_special_queries_table:
  "in_table sg (QUERIES_ENCODE_SET sg) c = Some b \<Longrightarrow>
     in_table sg (SPECIAL_QUERIES_ENCODE_SET sg) c = Some (b \<or> c \<in> set [CHR 0x27])"
  unfolding queries_encode_set special_queries_encode_set by (rule in_table_extend) simp_all

text \<open>The tables are the percent-encode sets of the WHATWG URL standard, each extending the
  one before it, with two deviations: the C0 control set starts at the tilde (7E), which the standard
  leaves out, and on a platform with signed characters no table contains a code above 7F.\<close>

theorem whatwg_tables:
  "let base = (if sg then ord c < 128 else True) \<and> (ord c \<le> 0x1F \<or> 0x7E \<le> ord c);
       queries = base \<or> c \<in> set [CHR '' '', CHR 0x22, CHR ''#'', CHR ''<'', CHR ''>''];
       path = queries \<or> c \<in> set [CHR ''?'', CHR 0x60, CHR ''{'', CHR ''}''];
       userinfo = path \<or> c \<in> set ''/:;=@|['' \<or> c \<in> set [CHR 0x5C, CHR '']'', CHR 0x5E];
       host = c \<in> set [CHR 0x00, CHR 0x09, CHR 0x0A, CHR 0x0D, CHR 0x5C, CHR 0x5E] \<or> c \<in> set '' #/:<>?@[]|''
   in in_table sg C0_CONTROL_ENCODE_SET c = Some base
    \<and> in_table sg (FRAGMENT_ENCODE_SET sg) c
        = Some (base \<or> c \<in> set [CHR '' '', CHR 0x22, CHR ''<'', CHR ''>'', CHR 0x60])
    \<and> in_table sg (QUERIES_ENCODE_SET sg) c = Some queries
    \<and> in_table sg (SPECIAL_QUERIES_ENCODE_SET sg) c = Some (queries \<or> c = CHR 0x27)
    \<and> in_table sg (PATH_ENCODE_SET sg) c = Some path
    \<and> in_table sg (USER_INFO_ENCODE_SET sg) c = Some userinfo
    \<and> in_table sg (COMPONENT_ENCODE_SET sg) c = Some (userinfo \<or> c \<in> set ''$%&+,'')
    \<and> in_table sg (FORBIDDEN_HOST_CODE_POINTS sg) c = Some host
    \<and> in_table sg (FORBIDDEN_DOMAIN_CODE_POINTS sg) c
        = Some (host \<or> ord c \<le> 0x1F \<or> c = CHR ''%'' \<or> c = CHR 0x7F)"
proof -
  note queries = in_queries_table [of sg c]
  note path = in_path_table [OF queries]
  note userinfo = in_userinfo_table [OF path]
  note host = in_host_table [of sg c]
  show ?thesis
    unfolding Let_def queries path userinfo host in_encode_table in_fragment_table [OF in_encode_table]
      in_special_queries_table [OF queries] in_component_table [OF userinfo] in_domain_table [OF host]
    by auto
qed

definition alnum :: "char \<Rightarrow> bool" where
  "alnum c \<longleftrightarrow> ord c \<in> {0x30..0x39} \<union> {0x41..0x5A} \<union> {0x61..0x7A}"

lemma alpha_digit_member: "c \<in> set ALPHA \<or> c \<in> set DIGIT \<longleftrightarrow> alnum c"
  by (auto simp: alnum_def ALPHA_def DIGIT_def LOWER_ALPHA_def UPPER_ALPHA_def set_charset_range)

lemma unreserved_member: "c \<in> set UNRESERVED \<longleftrightarrow> alnum c \<or> c \<in> set ''-._~''"
  using alpha_digit_member [of c] by (auto simp: UNRESERVED_def)

lemma sub_delims_member: "c \<in> set SUB_DELIMS \<longleftrightarrow> c \<in> set ''!$&()*+,;='' \<or> c = CHR 0x27"
  by (auto simp: SUB_DELIMS_def)

lemma pchar_member: "c \<in> set PCHAR_NOT_PCT_ENCODED \<longleftrightarrow> c \<in> set UNRESERVED \<or> c \<in> set SUB_DELIMS \<or> c \<in> set '':@''"
  by (auto simp: PCHAR_NOT_PCT_ENCODED_def)

lemma scheme_member: "c \<in> set SCHEME_NOT_FIRST \<longleftrightarrow> alnum c \<or> c \<in> set ''+-.''"
  using alpha_digit_member [of c] by (auto simp: SCHEME_NOT_FIRST_def)

lemma not_alnum [simp]: "\<not> alnum CHR ''+''" "\<not> alnum CHR ''%''"
  by (simp_all add: alnum_def)

lemma merge_member:
  "c \<in> set (charset_merge [s1, s2]) \<longleftrightarrow> c \<in> set s1 \<or> c \<in> set s2"
  "c \<in> set (charset_merge [s1, s2, s3]) \<longleftrightarrow> c \<in> set s1 \<or> c \<in> set s2 \<or> c \<in> set s3"
  "c \<in> set [a] \<longleftrightarrow> c = a" "c \<in> set [a, b] \<longleftrightarrow> c = a \<or> c = b"
  by auto

text \<open>The charsets of RFC 3986 are as its grammar has them.\<close>

theorem rfc3986_charsets:
  "let unreserved = alnum c \<or> c \<in> set ''-._~'';
       sub_delims = c \<in> set ''!$&()*+,;='' \<or> c = CHR 0x27;
       pchar = unreserved \<or> sub_delims \<or> c = CHR '':'' \<or> c = CHR ''@''
   in (charset_contains SCHEME_NOT_FIRST c \<longleftrightarrow> alnum c \<or> c \<in> set ''+-.'')
    \<and> (charset_contains UNRESERVED c \<longleftrightarrow> unreserved)
    \<and> (charset_contains SUB_DELIMS c \<longleftrightarrow> sub_delims)
    \<and> (charset_contains REG_NAME_NOT_PCT_ENCODED c \<longleftrightarrow> unreserved \<or> sub_delims)
    \<and> (charset_contains USER_INFO_NOT_PCT_ENCODED c \<longleftrightarrow> unreserved \<or> sub_delims \<or> c = CHR '':'')
    \<and> (charset_contains IPV_FUTURE_LAST_PART c \<longleftrightarrow> unreserved \<or> sub_delims \<or> c = CHR '':'')
    \<and> (charset_contains PCHAR_NOT_PCT_ENCODED c \<longleftrightarrow> pchar)
    \<and> (charset_contains LEGAL_PATH_CHARS c \<longleftrightarrow> pchar \<or> c = CHR ''/'')
    \<and> (charset_contains QUERY_OR_FRAGMENT_NOT_PCT_ENCODED c \<longleftrightarrow> pchar \<or> c = CHR ''/'' \<or> c = CHR ''?'')
    \<and> (charset_contains QUERY_NOT_PCT_ENCODED_WITHOUT_PLUS c \<longleftrightarrow>
         (pchar \<or> c = CHR ''/'' \<or> c = CHR ''?'') \<and> c \<noteq> CHR ''+'')"
  unfolding Let_def charset_contains_iff
proof (intro conjI)
  let ?u = "alnum c \<or> c \<in> set ''-._~''" and ?s = "c \<in> set ''!$&()*+,;='' \<or> c = CHR 0x27"
  show "c \<in> set SCHEME_NOT_FIRST \<longleftrightarrow> alnum c \<or> c \<in> set ''+-.''" by (rule scheme_member)
  show "c \<in> set UNRESERVED \<longleftrightarrow> ?u" by (rule unreserved_member)
  show "c \<in> set SUB_DELIMS \<longleftrightarrow> ?s" by (rule sub_delims_member)
  note members = unreserved_member [of c] sub_delims_member [of c] pchar_member [of c]
  show "c \<in> set REG_NAME_NOT_PCT_ENCODED \<longleftrightarrow> ?u \<or> ?s" unfolding REG_NAME_NOT_PCT_ENCODED_def by (simp only: merge_member members disj_assoc)
  show "c \<in> set USER_INFO_NOT_PCT_ENCODED \<longleftrightarrow> ?u \<or> ?s \<or> c = CHR '':''"
    unfolding USER_INFO_NOT_PCT_ENCODED_def by (simp only: merge_member members disj_assoc)
  show "c \<in> set IPV_FUTURE_LAST_PART \<longleftrightarrow> ?u \<or> ?s \<or> c = CHR '':''"
    unfolding IPV_FUTURE_LAST_PART_def by (simp only: merge_member members disj_assoc)
  have pchar: "c \<in> set PCHAR_NOT_PCT_ENCODED \<longleftrightarrow> ?u \<or> ?s \<or> c = CHR '':'' \<or> c = CHR ''@''"
    by (simp only: merge_member members disj_assoc)
  then show "c \<in> set PCHAR_NOT_PCT_ENCODED \<longleftrightarrow> ?u \<or> ?s \<or> c = CHR '':'' \<or> c = CHR ''@''" .
  show "c \<in> set LEGAL_PATH_CHARS \<longleftrightarrow> (?u \<or> ?s \<or> c = CHR '':'' \<or> c = CHR ''@'') \<or> c = CHR ''/''"
    unfolding LEGAL_PATH_CHARS_def by (simp only: merge_member pchar disj_assoc)
  show "c \<in> set QUERY_OR_FRAGMENT_NOT_PCT_ENCODED
      \<longleftrightarrow> (?u \<or> ?s \<or> c = CHR '':'' \<or> c = CHR ''@'') \<or> c = CHR ''/'' \<or> c = CHR ''?''"
    unfolding QUERY_OR_FRAGMENT_NOT_PCT_ENCODED_def by (simp only: merge_member pchar disj_assoc)
  have "c \<in> set QUERY_NOT_PCT_ENCODED_WITHOUT_PLUS \<longleftrightarrow> ?u \<or> c \<in> set (''!$&'' @ [CHR 0x27] @ ''()*,;=:@/?'')"
    unfolding QUERY_NOT_PCT_ENCODED_WITHOUT_PLUS_def by (simp only: merge_member members disj_assoc)
  then show "c \<in> set QUERY_NOT_PCT_ENCODED_WITHOUT_PLUS
      \<longleftrightarrow> ((?u \<or> ?s \<or> c = CHR '':'' \<or> c = CHR ''@'') \<or> c = CHR ''/'' \<or> c = CHR ''?'') \<and> c \<noteq> CHR ''+''"
    by auto
qed

end
