(* ===== verification/Percent_Encoding.thy ===== *)
theory Percent_Encoding
  imports Uri_Charsets Ascii_Hex
begin

unbundle bit_operations_syntax

text \<open>
  \<^verbatim>\<open>webpp/uri/encoding.hpp\<close> and the table \<^verbatim>\<open>percent_hex_table\<close>
  of \<^verbatim>\<open>webpp/strings/hex.hpp\<close>: percent-encoding. A function takes the membership
  test of its set of characters, which is any of the sets of the theory \<open>Charset\<close>; the
  parameter \<open>sg\<close> says whether \<^verbatim>\<open>char\<close> is signed. The decoders return the
  result, the output, and where the iterator stopped (the rest of the text, or an index into the
  buffer of the in-place version).
\<close>

section \<open>The table\<close>

text \<open>One row per byte; the NUL that ends each row in the array ends the C string.\<close>

definition percent_hex_table :: "string list" where
  "percent_hex_table = [
      ''%00'', ''%01'', ''%02'', ''%03'', ''%04'', ''%05'', ''%06'', ''%07'', ''%08'', ''%09'', ''%0A'', ''%0B'', ''%0C'', ''%0D'', ''%0E'', ''%0F'',
      ''%10'', ''%11'', ''%12'', ''%13'', ''%14'', ''%15'', ''%16'', ''%17'', ''%18'', ''%19'', ''%1A'', ''%1B'', ''%1C'', ''%1D'', ''%1E'', ''%1F'',
      ''%20'', ''%21'', ''%22'', ''%23'', ''%24'', ''%25'', ''%26'', ''%27'', ''%28'', ''%29'', ''%2A'', ''%2B'', ''%2C'', ''%2D'', ''%2E'', ''%2F'',
      ''%30'', ''%31'', ''%32'', ''%33'', ''%34'', ''%35'', ''%36'', ''%37'', ''%38'', ''%39'', ''%3A'', ''%3B'', ''%3C'', ''%3D'', ''%3E'', ''%3F'',
      ''%40'', ''%41'', ''%42'', ''%43'', ''%44'', ''%45'', ''%46'', ''%47'', ''%48'', ''%49'', ''%4A'', ''%4B'', ''%4C'', ''%4D'', ''%4E'', ''%4F'',
      ''%50'', ''%51'', ''%52'', ''%53'', ''%54'', ''%55'', ''%56'', ''%57'', ''%58'', ''%59'', ''%5A'', ''%5B'', ''%5C'', ''%5D'', ''%5E'', ''%5F'',
      ''%60'', ''%61'', ''%62'', ''%63'', ''%64'', ''%65'', ''%66'', ''%67'', ''%68'', ''%69'', ''%6A'', ''%6B'', ''%6C'', ''%6D'', ''%6E'', ''%6F'',
      ''%70'', ''%71'', ''%72'', ''%73'', ''%74'', ''%75'', ''%76'', ''%77'', ''%78'', ''%79'', ''%7A'', ''%7B'', ''%7C'', ''%7D'', ''%7E'', ''%7F'',
      ''%80'', ''%81'', ''%82'', ''%83'', ''%84'', ''%85'', ''%86'', ''%87'', ''%88'', ''%89'', ''%8A'', ''%8B'', ''%8C'', ''%8D'', ''%8E'', ''%8F'',
      ''%90'', ''%91'', ''%92'', ''%93'', ''%94'', ''%95'', ''%96'', ''%97'', ''%98'', ''%99'', ''%9A'', ''%9B'', ''%9C'', ''%9D'', ''%9E'', ''%9F'',
      ''%A0'', ''%A1'', ''%A2'', ''%A3'', ''%A4'', ''%A5'', ''%A6'', ''%A7'', ''%A8'', ''%A9'', ''%AA'', ''%AB'', ''%AC'', ''%AD'', ''%AE'', ''%AF'',
      ''%B0'', ''%B1'', ''%B2'', ''%B3'', ''%B4'', ''%B5'', ''%B6'', ''%B7'', ''%B8'', ''%B9'', ''%BA'', ''%BB'', ''%BC'', ''%BD'', ''%BE'', ''%BF'',
      ''%C0'', ''%C1'', ''%C2'', ''%C3'', ''%C4'', ''%C5'', ''%C6'', ''%C7'', ''%C8'', ''%C9'', ''%CA'', ''%CB'', ''%CC'', ''%CD'', ''%CE'', ''%CF'',
      ''%D0'', ''%D1'', ''%D2'', ''%D3'', ''%D4'', ''%D5'', ''%D6'', ''%D7'', ''%D8'', ''%D9'', ''%DA'', ''%DB'', ''%DC'', ''%DD'', ''%DE'', ''%DF'',
      ''%E0'', ''%E1'', ''%E2'', ''%E3'', ''%E4'', ''%E5'', ''%E6'', ''%E7'', ''%E8'', ''%E9'', ''%EA'', ''%EB'', ''%EC'', ''%ED'', ''%EE'', ''%EF'',
      ''%F0'', ''%F1'', ''%F2'', ''%F3'', ''%F4'', ''%F5'', ''%F6'', ''%F7'', ''%F8'', ''%F9'', ''%FA'', ''%FB'', ''%FC'', ''%FD'', ''%FE'', ''%FF'']"

text \<open>The conversion of an integer to a character type.\<close>

definition kind_cast :: "char_kind \<Rightarrow> int \<Rightarrow> int" where
  "kind_cast k n =
     (let size = int (kind_max k) + 1 in
      if kind_signed k then (n + size) mod (2 * size) - size else n mod size)"

definition to_percent_hex :: "char_kind \<Rightarrow> int \<Rightarrow> string option" where
  "to_percent_hex k inp_int =
     (if inp_int \<le> kind_cast k 0xFF \<and> inp_int \<ge> kind_cast k 0
      then load percent_hex_table (nat (inp_int mod 256)) else None)"

section \<open>Encoding\<close>

datatype uri_encoding_policy = skip_chars | encode_chars

text \<open>Whether a character is copied as it is.\<close>

fun copied :: "uri_encoding_policy \<Rightarrow> (char \<Rightarrow> bool option) \<Rightarrow> char \<Rightarrow> bool option" where
  "copied skip_chars contains c = contains c"
| "copied encode_chars contains c = map_option Not (contains c)"

definition encode_uri_char ::
  "bool \<Rightarrow> uri_encoding_policy \<Rightarrow> (char \<Rightarrow> bool option) \<Rightarrow> char \<Rightarrow> string \<Rightarrow> string option" where
  "encode_uri_char sg policy chars inp_char output =
     Option.bind (copied policy chars inp_char) (\<lambda>b.
       if b then Some (output @ [inp_char])
       else map_option (\<lambda>hex. output @ hex) (to_percent_hex (char_kind_of sg) (char_int sg inp_char)))"

definition encode_uri_char_checked ::
  "bool \<Rightarrow> uri_encoding_policy \<Rightarrow> (char \<Rightarrow> bool option) \<Rightarrow> (char \<Rightarrow> bool option) \<Rightarrow> char \<Rightarrow> string
     \<Rightarrow> (bool \<times> string) option" where
  "encode_uri_char_checked sg policy policy_chars invalid_chars inp_char output =
     Option.bind (invalid_chars inp_char) (\<lambda>bad.
       if bad then Some (False, output)
       else Option.bind (copied policy policy_chars inp_char) (\<lambda>b.
         if b then Some (True, output @ [inp_char])
         else map_option (\<lambda>hex. (True, output @ hex)) (to_percent_hex (char_kind_of sg) (char_int sg inp_char))))"

fun encode_uri_component ::
  "bool \<Rightarrow> uri_encoding_policy \<Rightarrow> (char \<Rightarrow> bool option) \<Rightarrow> string \<Rightarrow> string \<Rightarrow> string option" where
  "encode_uri_component sg policy policy_chars [] output = Some output"
| "encode_uri_component sg policy policy_chars (ith_char # input) output =
     Option.bind (encode_uri_char sg policy policy_chars ith_char output)
       (encode_uri_component sg policy policy_chars input)"

fun encode_uri_component_checked ::
  "bool \<Rightarrow> uri_encoding_policy \<Rightarrow> (char \<Rightarrow> bool option) \<Rightarrow> (char \<Rightarrow> bool option) \<Rightarrow> string \<Rightarrow> string
     \<Rightarrow> (bool \<times> string \<times> string) option" where
  "encode_uri_component_checked sg policy policy_chars invalid_chars [] output = Some (True, output, [])"
| "encode_uri_component_checked sg policy policy_chars invalid_chars (c # pos) output =
     Option.bind (encode_uri_char_checked sg policy policy_chars invalid_chars c output) (\<lambda>(ok, output).
       if \<not> ok then Some (False, output, c # pos)
       else encode_uri_component_checked sg policy policy_chars invalid_chars pos output)"

section \<open>Decoding\<close>

text \<open>Both digits are looked up with all ones as the value of a character that is no digit.\<close>

definition decoded_char :: "char \<Rightarrow> char \<Rightarrow> int" where
  "decoded_char d1 d2 = push_bit 4 (hex_value (ord d1)) OR hex_value (ord d2)"

definition char_of_value :: "int \<Rightarrow> char" where
  "char_of_value v = char_of (nat (v mod 256))"

fun decode_uri_component ::
  "uri_encoding_policy \<Rightarrow> (char \<Rightarrow> bool option) \<Rightarrow> string \<Rightarrow> string \<Rightarrow> (bool \<times> string \<times> string) option" where
  "decode_uri_component policy chars [] output = Some (True, output, [])"
| "decode_uri_component policy chars (c # pos) output =
     (if c = CHR ''%'' then
        (case pos of
           d1 # d2 # rest \<Rightarrow>
             if decoded_char d1 d2 \<noteq> -1
             then decode_uri_component policy chars rest (output @ [char_of_value (decoded_char d1 d2)])
             else Some (False, output, d2 # rest)
         | _ \<Rightarrow> Some (False, output, pos))
      else Option.bind (copied policy chars c) (\<lambda>ok.
        if \<not> ok then Some (False, output, c # pos)
        else decode_uri_component policy chars pos (output @ [c])))"

text \<open>The in-place version: the characters from \<open>pos\<close> are read, those from
  \<open>out\<close> are written. A copied character is added to the one that it replaces.\<close>

definition char_add :: "char \<Rightarrow> char \<Rightarrow> char" where
  "char_add a b = char_of ((ord a + ord b) mod 256)"

function decode_inplace_loop ::
  "uri_encoding_policy \<Rightarrow> (char \<Rightarrow> bool option) \<Rightarrow> string \<Rightarrow> nat \<Rightarrow> nat \<Rightarrow> (bool \<times> string \<times> nat) option" where
  "decode_inplace_loop policy chars buf out pos =
     (if pos < length buf then
        (if buf ! pos = CHR ''%'' then
           (if pos + 2 \<ge> length buf then Some (False, buf, pos + 1)
            else (let decoded = decoded_char (buf ! (pos + 1)) (buf ! (pos + 2)) in
              if decoded \<noteq> -1
              then Option.bind (store buf out (char_of_value decoded)) (\<lambda>buf.
                     decode_inplace_loop policy chars buf (out + 1) (pos + 3))
              else map_option (\<lambda>buf. (False, buf, out)) (store buf out (CHR 0x00))))
         else Option.bind (copied policy chars (buf ! pos)) (\<lambda>ok.
           if \<not> ok then map_option (\<lambda>buf. (False, buf, out)) (store buf out (CHR 0x00))
           else Option.bind (load buf out) (\<lambda>old. Option.bind (store buf out (char_add old (buf ! pos))) (\<lambda>buf.
             decode_inplace_loop policy chars buf (out + 1) (pos + 1)))))
      else if out \<noteq> length buf then map_option (\<lambda>buf. (True, buf, out)) (store buf out (CHR 0x00))
      else Some (True, buf, out))"
  by pat_completeness auto
termination
  by (relation "measure (\<lambda>(_, _, buf, _, pos). length buf - pos)") (auto dest!: store_length)

declare decode_inplace_loop.simps [simp del]

definition decode_uri_component_inplace ::
  "uri_encoding_policy \<Rightarrow> (char \<Rightarrow> bool option) \<Rightarrow> string \<Rightarrow> (bool \<times> string \<times> nat) option" where
  "decode_uri_component_inplace policy chars buf = decode_inplace_loop policy chars buf 0 0"

text \<open>The test for an escape; the conjunction stops at the first false part.\<close>

definition validate_percent_encode :: "string \<Rightarrow> (bool \<times> string) option" where
  "validate_percent_encode pos =
     (case pos of
        c # rest \<Rightarrow>
          if c \<noteq> CHR ''%'' then None
          else if \<not> 2 \<le> length pos then Some (False, rest)
          else Option.bind (load rest 0) (\<lambda>d1.
            if \<not> is_hex_digit (ord d1) then Some (False, drop 1 rest)
            else Option.bind (load rest 1) (\<lambda>d2. Some (is_hex_digit (ord d2), drop 2 rest)))
      | [] \<Rightarrow> None)"

section \<open>Escapes\<close>

definition hex_upper :: "nat \<Rightarrow> char" where
  "hex_upper n = ''0123456789ABCDEF'' ! n"

lemma hex_value_hex_upper: "n < 16 \<Longrightarrow> hex_value (ord (hex_upper n)) = int n"
  by (drule nibble_cases) (elim disjE; simp add: hex_upper_def hex_digit_safe_def)

lemma percent_table_rows: "percent_hex_table = map (\<lambda>n. [CHR ''%'', hex_upper (n div 16), hex_upper (n mod 16)]) [0..<256]"
  unfolding percent_hex_table_def hex_upper_def by code_simp

lemma percent_table_nth:
  "n < 256 \<Longrightarrow> load percent_hex_table n = Some [CHR ''%'', hex_upper (n div 16), hex_upper (n mod 16)]"
  by (simp add: percent_table_rows load_def)

text \<open>On signed characters the bound is \<open>-1\<close>, so that the assumption never holds.\<close>

lemma to_percent_hex_char:
  "to_percent_hex (char_kind_of sg) (char_int sg c)
     = (if sg then None else Some [CHR ''%'', hex_upper (ord c div 16), hex_upper (ord c mod 16)])"
proof (cases sg)
  case True
  then show ?thesis
    by (simp add: to_percent_hex_def char_kind_of_def signed_char_def kind_cast_def)
next
  case False
  obtain n where n: "ord c = n" "n < 256" using ord_less_256 by blast
  then show ?thesis
    using False percent_table_nth [OF n(2)]
    by (simp add: to_percent_hex_def char_kind_of_def unsigned_char_def kind_cast_def char_int_unsigned nat_mod_as_int)
qed

lemma hex_value_range: "hex_value c = -1 \<or> (0 \<le> hex_value c \<and> hex_value c < 16)"
  by (auto simp: hex_digit_safe_def)

lemma or_nibble: "0 \<le> v \<Longrightarrow> v < 16 \<Longrightarrow> push_bit 4 u OR v = u * 16 + v" for u v :: int
proof -
  assume v: "0 \<le> v" "v < 16"
  have "push_bit 4 u AND v = 0"
  proof (rule bit_eqI)
    fix i :: nat
    have "\<not> bit v i" if "4 \<le> i"
    proof -
      have "v div 2 ^ i = 0"
        using v power_increasing [OF that, of "2 :: int"] by (intro div_pos_pos_trivial) auto
      then show ?thesis by (simp add: bit_iff_odd)
    qed
    then show "bit (push_bit 4 u AND v) i \<longleftrightarrow> bit (0 :: int) i"
      by (auto simp: bit_and_iff bit_push_bit_iff)
  qed
  then have "push_bit 4 u OR v = push_bit 4 u + v" by (simp add: disjunctive_add_eq_or)
  then show ?thesis by (simp add: push_bit_eq_mult)
qed

lemma decoded_char_eq:
  "decoded_char d1 d2 = (if is_hex_digit (ord d2) then hex_value (ord d1) * 16 + hex_value (ord d2) else -1)"
proof (cases "is_hex_digit (ord d2)")
  case True
  then have "0 \<le> hex_value (ord d2)" "hex_value (ord d2) < 16"
    using hex_value_nonneg_iff hex_value_less_16 by simp_all
  then show ?thesis using True by (simp add: decoded_char_def or_nibble)
next
  case False
  then have "hex_value (ord d2) = -1" using hex_value_range hex_value_nonneg_iff by blast
  then show ?thesis using False by (simp add: decoded_char_def)
qed

text \<open>An escape is accepted when its second digit is one, and the first digit is one too or the
  second is not the digit fifteen.\<close>

definition escape_ok :: "char \<Rightarrow> char \<Rightarrow> bool" where
  "escape_ok d1 d2 \<longleftrightarrow> is_hex_digit (ord d2) \<and> (is_hex_digit (ord d1) \<or> d2 \<notin> {CHR ''f'', CHR ''F''})"

lemma decoded_char_ok: "decoded_char d1 d2 \<noteq> -1 \<longleftrightarrow> escape_ok d1 d2"
proof -
  have f: "hex_value (ord d2) = 15 \<longleftrightarrow> d2 \<in> {CHR ''f'', CHR ''F''}"
    by (auto simp: hex_digit_safe_def char_eq_ord_iff [of d2])
  have d1: "is_hex_digit (ord d1) \<longleftrightarrow> hex_value (ord d1) \<noteq> -1"
    using hex_value_range [of "ord d1"] hex_value_nonneg_iff [of "ord d1"] by auto
  show ?thesis
  proof (cases "is_hex_digit (ord d2)")
    case True
    then have "0 \<le> hex_value (ord d2)" "hex_value (ord d2) < 16"
      using hex_value_nonneg_iff hex_value_less_16 by simp_all
    then show ?thesis
      using True d1 f hex_value_range [of "ord d1"] by (auto simp: decoded_char_eq escape_ok_def)
  qed (simp add: decoded_char_eq escape_ok_def)
qed

section \<open>The texts that the decoder accepts\<close>

datatype pct_token = Literal char | Escape char char

fun token_text :: "pct_token \<Rightarrow> string" where
  "token_text (Literal c) = [c]"
| "token_text (Escape d1 d2) = [CHR ''%'', d1, d2]"

fun token_char :: "pct_token \<Rightarrow> char" where
  "token_char (Literal c) = c"
| "token_char (Escape d1 d2) = char_of_value (decoded_char d1 d2)"

fun token_ok :: "uri_encoding_policy \<Rightarrow> (char \<Rightarrow> bool option) \<Rightarrow> pct_token \<Rightarrow> bool" where
  "token_ok policy chars (Literal c) \<longleftrightarrow> c \<noteq> CHR ''%'' \<and> copied policy chars c = Some True"
| "token_ok policy chars (Escape d1 d2) \<longleftrightarrow> escape_ok d1 d2"

abbreviation tokens_text :: "pct_token list \<Rightarrow> string" where
  "tokens_text ts \<equiv> concat (map token_text ts)"

lemma decode_tokens:
  "list_all (token_ok policy chars) ts \<Longrightarrow>
     decode_uri_component policy chars (tokens_text ts) out = Some (True, out @ map token_char ts, [])"
proof (induction ts arbitrary: out)
  case (Cons t ts)
  then show ?case by (cases t) (simp_all add: decoded_char_ok)
qed simp

lemma decode_sound:
  "decode_uri_component policy chars s out = Some (True, r, rest) \<Longrightarrow>
     rest = [] \<and> (\<exists>ts. list_all (token_ok policy chars) ts \<and> s = tokens_text ts \<and> r = out @ map token_char ts)"
proof (induction policy chars s out rule: decode_uri_component.induct)
  case (1 policy chars out)
  then show ?case by (auto intro: exI [of _ "[]"])
next
  case (2 policy chars c pos out)
  show ?case
  proof (cases "c = CHR ''%''")
    case True
    then obtain d1 d2 rest' where pos: "pos = d1 # d2 # rest'" "escape_ok d1 d2"
      and rec: "decode_uri_component policy chars rest' (out @ [char_of_value (decoded_char d1 d2)]) = Some (True, r, rest)"
      using "2.prems" by (auto split: list.splits if_splits simp: decoded_char_ok)
    have "decoded_char d1 d2 \<noteq> -1" using pos(2) by (simp add: decoded_char_ok)
    from "2.IH"(1) [OF True pos(1) refl this rec] obtain ts where
      "rest = []" "list_all (token_ok policy chars) ts" "rest' = tokens_text ts"
      "r = (out @ [char_of_value (decoded_char d1 d2)]) @ map token_char ts" by auto
    then show ?thesis using True pos by (intro conjI exI [of _ "Escape d1 d2 # ts"]) simp_all
  next
    case False
    then have ok: "copied policy chars c = Some True"
      and rec: "decode_uri_component policy chars pos (out @ [c]) = Some (True, r, rest)"
      using "2.prems" by (auto split: bind_splits if_splits)
    have "\<not> \<not> True" by simp
    from "2.IH"(2) [OF False ok this rec] obtain ts where
      "rest = []" "list_all (token_ok policy chars) ts" "pos = tokens_text ts"
      "r = (out @ [c]) @ map token_char ts" by auto
    then show ?thesis using False ok by (intro conjI exI [of _ "Literal c # ts"]) simp_all
  qed
qed

text \<open>C31: The decoder accepts a text exactly when it is a sequence of copied characters and of
  escapes, and then it returns their values and has read all of it. An escape needs two characters
  after the percent sign, and a hexadecimal digit at the second place; the first place may hold any
  character unless the second is the digit fifteen.\<close>

theorem decode_accepts_iff:
  "decode_uri_component policy chars s [] = Some (True, r, rest) \<longleftrightarrow>
     rest = [] \<and> (\<exists>ts. list_all (token_ok policy chars) ts \<and> s = concat (map token_text ts) \<and> r = map token_char ts)"
  using decode_sound [of policy chars s "[]" r rest] decode_tokens [of policy chars _ "[]"] by auto

lemma decode_accepts_bad_digit:
  "decode_uri_component skip_chars (\<lambda>c. Some (charset_contains ALPHA_DIGIT c)) ''%z1'' []
     = Some (True, [CHR 0xF1], [])"
  by (simp add: decoded_char_eq is_hex_digit_def char_of_value_def hex_digit_safe_def char_eq_ord_iff)

section \<open>Round trip\<close>

locale percent_set =
  fixes policy :: uri_encoding_policy and chars :: "char \<Rightarrow> bool option"
  assumes total: "chars c \<noteq> None" and percent: "copied policy chars (CHR ''%'') = Some False"
begin

lemma copied_total: "copied policy chars c \<noteq> None"
  using total [of c] by (cases policy) simp_all

text \<open>The encoder writes one token for each character.\<close>

definition token_of :: "char \<Rightarrow> pct_token" where
  "token_of c = (if copied policy chars c = Some True then Literal c
     else Escape (hex_upper (ord c div 16)) (hex_upper (ord c mod 16)))"

lemma encode_char_token:
  "encode_uri_char False policy chars c out = Some (out @ token_text (token_of c))"
  using copied_total [of c] by (auto simp: encode_uri_char_def token_of_def to_percent_hex_char)

lemma encode_tokens:
  "encode_uri_component False policy chars s out = Some (out @ tokens_text (map token_of s))"
  by (induction s arbitrary: out) (simp_all add: encode_char_token)

lemma is_hex_upper: "n < 16 \<Longrightarrow> is_hex_digit (ord (hex_upper n))"
  using hex_value_hex_upper [of n] hex_value_nonneg_iff [of "ord (hex_upper n)"] by simp

lemma token_of_ok: "token_ok policy chars (token_of c)" and token_char_of: "token_char (token_of c) = c"
proof -
  have n: "ord c div 16 < 16" "ord c mod 16 < 16" using ord_less_256 [of c] by (auto simp del: ord_less_256)
  show "token_ok policy chars (token_of c)"
    using percent n by (auto simp: token_of_def escape_ok_def is_hex_upper)
  have "decoded_char (hex_upper (ord c div 16)) (hex_upper (ord c mod 16)) = int (ord c)"
    using n by (simp add: decoded_char_eq is_hex_upper hex_value_hex_upper zdiv_int zmod_int)
  then have "char_of_value (decoded_char (hex_upper (ord c div 16)) (hex_upper (ord c mod 16))) = c"
    by (simp add: char_of_value_def nat_mod_as_int char_eq_ord_iff)
  then show "token_char (token_of c) = c" by (simp add: token_of_def)
qed

lemma decode_encoded:
  "decode_uri_component policy chars (tokens_text (map token_of s)) [] = Some (True, s, [])"
  using decode_tokens [of policy chars "map token_of s" "[]"]
  by (simp add: list_all_iff token_of_ok token_char_of comp_def)

lemma encoded_chars:
  "list_all (\<lambda>c. copied policy chars c = Some True \<or> c = CHR ''%'' \<or> is_uppercase_hex (ord c))
     (tokens_text (map token_of s))"
proof -
  have "is_uppercase_hex (ord (hex_upper n))" if "n < 16" for n
    using nibble_cases [OF that] by (elim disjE) (simp_all add: hex_upper_def is_uppercase_hex_def)
  moreover have "ord c div 16 < 16" for c :: char using ord_less_256 [of c] by (simp del: ord_less_256)
  ultimately show ?thesis by (auto simp: list_all_iff token_of_def)
qed

lemma encode_signed_defined_iff:
  "encode_uri_component True policy chars s out \<noteq> None \<longleftrightarrow> list_all (\<lambda>c. copied policy chars c = Some True) s"
proof (induction s arbitrary: out)
  case (Cons c s)
  then show ?case
    using copied_total [of c] by (auto simp: encode_uri_char_def to_percent_hex_char split: bind_splits if_splits)
qed simp

end

sublocale percent_set \<subseteq> percent_text: text_codec "\<lambda>_. True" "\<lambda>s. encode_uri_component False policy chars s []"
    "\<lambda>t. case decode_uri_component policy chars t [] of Some (True, s, _) \<Rightarrow> Some s | _ \<Rightarrow> None"
  by unfold_locales (auto simp: encode_tokens decode_encoded simp del: map_map)

interpretation pchar_set: percent_set skip_chars "\<lambda>c. Some (charset_contains PCHAR_NOT_PCT_ENCODED c)"
  by unfold_locales (simp_all add: pchar_member unreserved_member sub_delims_member)

interpretation user_info_set: percent_set skip_chars "\<lambda>c. Some (charset_contains USER_INFO_NOT_PCT_ENCODED c)"
  by unfold_locales (simp_all add: USER_INFO_NOT_PCT_ENCODED_def unreserved_member sub_delims_member)

interpretation component_set: percent_set encode_chars "in_table False (COMPONENT_ENCODE_SET False)"
proof unfold_locales
  fix c show "in_table False (COMPONENT_ENCODE_SET False) c \<noteq> None"
    using in_component_table [OF in_userinfo_table [OF in_path_table [OF in_queries_table [of False c]]]] by simp
  show "copied encode_chars (in_table False (COMPONENT_ENCODE_SET False)) CHR ''%'' = Some False"
    using in_component_table [OF in_userinfo_table [OF in_path_table [OF in_queries_table [of False "CHR ''%''"]]]] by simp
qed

text \<open>C15: For every set of characters that leaves the percent sign to be encoded, on a platform
  with unsigned characters any text is encoded, the encoding consists of copied characters, percent
  signs and upper case hexadecimal digits, and decoding it returns the text. On a platform with
  signed characters the encoder has undefined behaviour as soon as one character needs an escape.\<close>

theorem percent_round_trip:
  assumes "\<And>c. chars c \<noteq> None" and "copied policy chars (CHR ''%'') = Some False"
  shows "(\<exists>t. encode_uri_component False policy chars s [] = Some t
      \<and> decode_uri_component policy chars t [] = Some (True, s, [])
      \<and> list_all (\<lambda>c. copied policy chars c = Some True \<or> c = CHR ''%'' \<or> is_uppercase_hex (ord c)) t)
    \<and> (encode_uri_component True policy chars s [] \<noteq> None \<longleftrightarrow> list_all (\<lambda>c. copied policy chars c = Some True) s)"
proof -
  have set: "percent_set policy chars" using assms by unfold_locales
  note facts = percent_set.encode_tokens [OF set, of s "[]"] percent_set.decode_encoded [OF set, of s]
    percent_set.encoded_chars [OF set, of s] percent_set.encode_signed_defined_iff [OF set, of s "[]"]
  show ?thesis using facts by (simp del: map_map)
qed

theorem percent_round_trip_witness:
  "decode_uri_component skip_chars (\<lambda>c. Some (charset_contains ''ab'' c)) ''a%20b'' []
     = Some (True, ''a b'', [])
   \<and> encode_uri_component True skip_chars (\<lambda>c. Some (charset_contains ''ab'' c)) ''a b'' [] = None"
proof -
  let ?chars = "\<lambda>c. Some (charset_contains ''ab'' c)"
  have trip: "(\<exists>t. encode_uri_component False skip_chars ?chars ''a b'' [] = Some t
      \<and> decode_uri_component skip_chars ?chars t [] = Some (True, ''a b'', [])
      \<and> list_all (\<lambda>c. copied skip_chars ?chars c = Some True \<or> c = CHR ''%'' \<or> is_uppercase_hex (ord c)) t)
    \<and> (encode_uri_component True skip_chars ?chars ''a b'' [] \<noteq> None
        \<longleftrightarrow> list_all (\<lambda>c. copied skip_chars ?chars c = Some True) ''a b'')"
    by (rule percent_round_trip) simp_all
  have "encode_uri_component False skip_chars ?chars ''a b'' [] = Some ''a%20b''" by code_simp
  moreover have "\<not> list_all (\<lambda>c. copied skip_chars ?chars c = Some True) ''a b''" by code_simp
  ultimately show ?thesis using trip by auto
qed

section \<open>Decoding in place\<close>

fun inplace_char :: "char \<Rightarrow> pct_token \<Rightarrow> char" where
  "inplace_char old (Literal c) = char_add old c"
| "inplace_char old (Escape d1 d2) = char_of_value (decoded_char d1 d2)"

lemma drop_Cons_nth: "drop pos buf = x # r \<Longrightarrow> pos < length buf \<and> buf ! pos = x \<and> drop (Suc pos) buf = r"
  by (metis Cons_nth_drop_Suc drop_eq_Nil list.distinct(1) list.inject not_le)

lemma inplace_step:
  assumes IH: "\<exists>buf'. decode_inplace_loop policy chars (buf[out := v]) (Suc out) pos' = Some (True, buf', Suc out + length ts)
      \<and> length buf' = length buf \<and> take (Suc out) buf' = take (Suc out) (buf[out := v])
      \<and> (\<forall>i < length ts. buf' ! (Suc out + i) = inplace_char (buf[out := v] ! (Suc out + i)) (ts ! i))"
    and step: "decode_inplace_loop policy chars buf out pos = decode_inplace_loop policy chars (buf[out := v]) (Suc out) pos'"
    and v: "v = inplace_char (buf ! out) t" and out: "out < length buf"
  shows "\<exists>buf'. decode_inplace_loop policy chars buf out pos = Some (True, buf', out + length (t # ts))
      \<and> length buf' = length buf \<and> take out buf' = take out buf
      \<and> (\<forall>i < length (t # ts). buf' ! (out + i) = inplace_char (buf ! (out + i)) ((t # ts) ! i))"
proof -
  from IH obtain buf' where buf': "decode_inplace_loop policy chars (buf[out := v]) (Suc out) pos' = Some (True, buf', Suc out + length ts)"
      "length buf' = length buf" "take (Suc out) buf' = take (Suc out) (buf[out := v])"
      "\<forall>i < length ts. buf' ! (Suc out + i) = inplace_char (buf[out := v] ! (Suc out + i)) (ts ! i)" by blast
  have "buf' ! out = v"
    using buf'(2,3) out by (metis lessI nth_list_update_eq nth_take)
  moreover have "take out buf' = take out buf"
    using buf'(3) by (metis Suc_n_not_le_n nat_le_linear take_take min.absorb1 take_update_cancel order_refl)
  moreover have "buf' ! (out + i) = inplace_char (buf ! (out + i)) ((t # ts) ! i)" if "i < length (t # ts)" for i
    using that buf'(4) \<open>buf' ! out = v\<close> v by (cases i) simp_all
  ultimately show ?thesis using buf' step by auto
qed

lemma decode_inplace_tokens:
  "list_all (token_ok policy chars) ts \<Longrightarrow> drop pos buf = tokens_text ts \<Longrightarrow> out \<le> pos \<Longrightarrow> pos \<le> length buf \<Longrightarrow>
     \<exists>buf'. decode_inplace_loop policy chars buf out pos = Some (True, buf', out + length ts)
       \<and> length buf' = length buf \<and> take out buf' = take out buf
       \<and> (\<forall>i < length ts. buf' ! (out + i) = inplace_char (buf ! (out + i)) (ts ! i))"
proof (induction ts arbitrary: pos out buf)
  case Nil
  then show ?case by (auto simp: decode_inplace_loop.simps [of _ _ buf] store_def)
next
  case (Cons t ts)
  show ?case
  proof (cases t)
    case (Literal c)
    then have "pos < length buf" "buf ! pos = c" "drop (Suc pos) buf = tokens_text ts"
      using Cons.prems(2) drop_Cons_nth [of pos buf c] by simp_all
    moreover have "c \<noteq> CHR ''%''" "copied policy chars c = Some True" using Cons.prems(1) Literal by simp_all
    ultimately show ?thesis
      using Cons.prems Literal Cons.IH [of "Suc pos" "buf[out := char_add (buf ! out) c]" "Suc out"]
      by (intro inplace_step [where v = "char_add (buf ! out) c" and pos' = "Suc pos"])
        (simp_all add: decode_inplace_loop.simps [of _ _ buf])
  next
    case (Escape d1 d2)
    then have dropped: "drop pos buf = CHR ''%'' # d1 # d2 # tokens_text ts" using Cons.prems(2) by simp
    then have 1: "pos < length buf" "buf ! pos = CHR ''%''" "drop (Suc pos) buf = d1 # d2 # tokens_text ts"
      using drop_Cons_nth [OF dropped] by simp_all
    then have 2: "buf ! Suc pos = d1" "drop (Suc (Suc pos)) buf = d2 # tokens_text ts"
      using drop_Cons_nth [OF 1(3)] by simp_all
    then have 3: "Suc (Suc pos) < length buf" "buf ! Suc (Suc pos) = d2" "drop (Suc (Suc (Suc pos))) buf = tokens_text ts"
      using drop_Cons_nth [OF 2(2)] by simp_all
    have "decoded_char d1 d2 \<noteq> -1" using Cons.prems(1) Escape by (simp add: decoded_char_ok)
    then show ?thesis
      using 1 2 3 Cons.prems Escape
        Cons.IH [of "pos + 3" "buf[out := char_of_value (decoded_char d1 d2)]" "Suc out"]
      by (intro inplace_step [where v = "char_of_value (decoded_char d1 d2)" and pos' = "pos + 3"])
        (simp_all add: decode_inplace_loop.simps [of _ _ buf] numeral_3_eq_3)
  qed
qed

text \<open>Decoding in place accepts what the other decoder accepts and stops after as many
  characters, but only the escapes are decoded: a copied character is added, modulo 256, to the
  character of the encoded text at the place where it is written.\<close>

theorem decode_inplace_result:
  assumes "decode_uri_component policy chars s [] = Some (True, r, [])"
  shows "\<exists>ts buf. s = concat (map token_text ts) \<and> r = map token_char ts
    \<and> decode_uri_component_inplace policy chars s = Some (True, buf, length r)
    \<and> (\<forall>i < length r. buf ! i = (case ts ! i of Literal c \<Rightarrow> char_add (s ! i) c | Escape d1 d2 \<Rightarrow> r ! i))"
proof -
  obtain ts where ts: "list_all (token_ok policy chars) ts" "s = tokens_text ts" "r = map token_char ts"
    using decode_sound [OF assms] by auto
  obtain buf where buf: "decode_inplace_loop policy chars s 0 0 = Some (True, buf, length ts)"
      "\<forall>i < length ts. buf ! i = inplace_char (s ! i) (ts ! i)"
    using decode_inplace_tokens [OF ts(1), of 0 s 0] ts(2) by auto
  have "buf ! i = (case ts ! i of Literal c \<Rightarrow> char_add (s ! i) c | Escape d1 d2 \<Rightarrow> r ! i)" if "i < length r" for i
    using that buf(2) ts(3) by (cases "ts ! i") simp_all
  then show ?thesis using buf(1) ts by (auto simp: decode_uri_component_inplace_def)
qed

theorem decode_inplace_result_witness:
  "\<exists>ts buf. ''a%41'' = concat (map token_text ts) \<and> ''aA'' = map token_char ts
    \<and> decode_uri_component_inplace skip_chars (\<lambda>c. Some (charset_contains ''ab'' c)) ''a%41''
      = Some (True, buf, length ''aA'')
    \<and> (\<forall>i < length ''aA''. buf ! i
         = (case ts ! i of Literal c \<Rightarrow> char_add (''a%41'' ! i) c | Escape d1 d2 \<Rightarrow> ''aA'' ! i))"
proof (rule decode_inplace_result)
  show "decode_uri_component skip_chars (\<lambda>c. Some (charset_contains ''ab'' c)) ''a%41'' [] = Some (True, ''aA'', [])"
    by code_simp
qed

text \<open>The test for an escape holds exactly when the text starts with a percent sign and two
  hexadecimal digits, which are then skipped; but when the text ends after one hexadecimal digit, it
  reads past its end.\<close>

theorem validate_percent_encode_spec:
  "(validate_percent_encode (CHR ''%'' # s) = Some (True, rest) \<longleftrightarrow>
      (\<exists>d1 d2. s = d1 # d2 # rest \<and> is_hex_digit (ord d1) \<and> is_hex_digit (ord d2)))
   \<and> (validate_percent_encode (CHR ''%'' # s) = None \<longleftrightarrow> (\<exists>d. s = [d] \<and> is_hex_digit (ord d)))"
  by (cases s; cases "tl s") (auto simp: validate_percent_encode_def load_def)

end
