(* ===== verification/Path_Traverser.thy ===== *)
theory Path_Traverser
  imports Uri_Path Percent_Encoding
begin

text \<open>
  The file \<^verbatim>\<open>webpp/uri/path_traverser.hpp\<close>: \<open>path_traverser\<close>, which walks over the
  segments of a normalised path, and \<open>basic_path_iterator\<close>, which finds and decodes the segments of a
  text while it goes. Iterators are indices. The overload of \<open>check_segment\<close> that compares a
  character with a text, and \<open>operator->\<close> of the second class, do not compile when they are used.
\<close>

section \<open>The traverser of a parsed path\<close>

record path_traverser =
  traverser_path :: basic_path
  traverser_pos :: nat

definition traverser_new :: "basic_path \<Rightarrow> path_traverser option" where
  "traverser_new inp_path = do {
     path \<leftarrow> path_normalize True inp_path;
     Some \<lparr>traverser_path = path, traverser_pos = 0\<rparr> }"

definition traverser_assign :: "basic_path \<Rightarrow> path_traverser \<Rightarrow> path_traverser option" where
  "traverser_assign inp_path t = do {
     path \<leftarrow> path_normalize True inp_path;
     Some (t\<lparr>traverser_path := path, traverser_pos := 0\<rparr>) }"

definition traverser_reset :: "path_traverser \<Rightarrow> path_traverser" where
  "traverser_reset t = t\<lparr>traverser_pos := 0\<rparr>"

definition traverser_at_end :: "path_traverser \<Rightarrow> bool" where
  "traverser_at_end t \<longleftrightarrow> traverser_pos t = length (storage (traverser_path t))"

definition traverser_at_beginning :: "path_traverser \<Rightarrow> bool" where
  "traverser_at_beginning t \<longleftrightarrow> traverser_pos t = 0"

definition traverser_next :: "path_traverser \<Rightarrow> bool \<times> path_traverser" where
  "traverser_next t = (if traverser_at_end t then (False, t) else (True, t\<lparr>traverser_pos := traverser_pos t + 1\<rparr>))"

text \<open>The iterator is dereferenced: \<^const>\<open>None\<close> is undefined behaviour.\<close>

definition traverser_segment :: "path_traverser \<Rightarrow> string option" where
  "traverser_segment t = load (storage (traverser_path t)) (traverser_pos t)"

definition traverser_peek :: "path_traverser \<Rightarrow> string option option" where
  "traverser_peek t = (if traverser_at_end t then Some None else map_option Some (traverser_segment t))"

definition traverser_prev :: "path_traverser \<Rightarrow> path_traverser option" where
  "traverser_prev t = (if traverser_pos t = 0 then None else Some (t\<lparr>traverser_pos := traverser_pos t - 1\<rparr>))"

definition traverser_check_segment :: "string \<Rightarrow> path_traverser \<Rightarrow> (bool \<times> path_traverser) option" where
  "traverser_check_segment slug t =
     (if traverser_at_end t then Some (False, t)
      else do { seg \<leftarrow> traverser_segment t;
                Some (if seg = slug then (True, snd (traverser_next t)) else (False, t)) })"

section \<open>The iterator over a text\<close>

record path_iterator =
  it_path :: string
  it_pos :: nat
  it_seg :: string

definition it_new :: "string \<Rightarrow> path_iterator" where
  "it_new path = \<lparr>it_path = path, it_pos = 0, it_seg = []\<rparr>"

definition it_assign :: "string \<Rightarrow> path_iterator \<Rightarrow> path_iterator" where
  "it_assign path it = it\<lparr>it_path := path, it_pos := 0, it_seg := []\<rparr>"

definition it_size :: "path_iterator \<Rightarrow> nat" where
  "it_size it = length (it_path it) - it_pos it"

definition it_at_end :: "path_iterator \<Rightarrow> bool" where
  "it_at_end it \<longleftrightarrow> it_pos it = length (it_path it)"

definition it_at_beginning :: "path_iterator \<Rightarrow> bool" where
  "it_at_beginning it \<longleftrightarrow> it_pos it = 0"

definition it_reset :: "path_iterator \<Rightarrow> path_iterator" where
  "it_reset it = it\<lparr>it_pos := 0, it_seg := []\<rparr>"

definition allowed_chars :: "char \<Rightarrow> bool option" where
  "allowed_chars c = Some (charset_contains PCHAR_NOT_PCT_ENCODED c)"

text \<open>\<open>std::find\<close> from an iterator to the end.\<close>

definition find_slash :: "string \<Rightarrow> nat \<Rightarrow> nat" where
  "find_slash path pos = pos + length (takeWhile (\<lambda>c. c \<noteq> CHR ''/'') (drop pos path))"

definition text_between :: "string \<Rightarrow> nat \<Rightarrow> nat \<Rightarrow> string" where
  "text_between path a b = take (b - a) (drop a path)"

partial_function (option) it_next :: "path_iterator \<Rightarrow> (bool \<times> path_iterator) option" where
  "it_next it =
     (if it_at_end it then Some (False, it)
      else if find_slash (it_path it) (it_pos it) = it_pos it
        then it_next (it\<lparr>it_pos := it_pos it + 1\<rparr>)
      else (case decode_uri_component skip_chars allowed_chars
               (text_between (it_path it) (it_pos it) (find_slash (it_path it) (it_pos it))) [] of
          None \<Rightarrow> None
        | Some (False, out, _) \<Rightarrow> Some (False, it\<lparr>it_seg := out\<rparr>)
        | Some (True, out, _) \<Rightarrow>
            if find_slash (it_path it) (it_pos it) = length (it_path it)
            then Some (True, it\<lparr>it_seg := out, it_pos := find_slash (it_path it) (it_pos it)\<rparr>)
            else Some (True, it\<lparr>it_seg := out, it_pos := find_slash (it_path it) (it_pos it) + 1\<rparr>)))"

text \<open>The loop of \<open>peek\<close>: an iterator that is moved past the end is undefined.\<close>

function peek_start :: "string \<Rightarrow> nat \<Rightarrow> nat option" where
  "peek_start path pit =
     (if find_slash path pit = pit
      then if length path \<le> pit then None else peek_start path (pit + 1)
      else Some pit)"
  by pat_completeness auto
termination
  by (relation "measure (\<lambda>(path, pit). length path - pit)") auto

declare peek_start.simps [simp del]

definition it_peek :: "path_iterator \<Rightarrow> string option option" where
  "it_peek it =
     (if it_at_end it then Some None
      else do {
        pit \<leftarrow> peek_start (it_path it) (it_pos it);
        r \<leftarrow> decode_uri_component skip_chars allowed_chars
               (text_between (it_path it) pit (find_slash (it_path it) pit)) [];
        Some (if fst r then Some (fst (snd r)) else None) })"

definition it_check_segment :: "string \<Rightarrow> path_iterator \<Rightarrow> (bool \<times> path_iterator) option" where
  "it_check_segment slug it = do {
     r \<leftarrow> it_next it;
     Some (fst r \<and> it_seg (snd r) = slug, snd r) }"

section \<open>What a step of the iterator does\<close>

abbreviation is_slash :: "char \<Rightarrow> bool" where "is_slash c \<equiv> c = CHR ''/''"

definition ahead :: "path_iterator \<Rightarrow> string" where
  "ahead it = drop (it_pos it) (it_path it)"

lemma decode_allowed_total: "decode_uri_component skip_chars allowed_chars s out \<noteq> None"
  by (induction skip_chars allowed_chars s out rule: decode_uri_component.induct)
    (auto simp: allowed_chars_def split: list.splits bind_splits)


definition decoded :: "string \<Rightarrow> string option" where
  "decoded b = (case decode_uri_component skip_chars allowed_chars b [] of
     Some (True, out, _) \<Rightarrow> Some out | _ \<Rightarrow> None)"

text \<open>The parts of a text between slashes that are not empty.\<close>

function blocks :: "string \<Rightarrow> string list" where
  "blocks [] = []"
| "is_slash c \<Longrightarrow> blocks (c # t) = blocks t"
| "\<not> is_slash c \<Longrightarrow> blocks (c # t) = (c # takeWhile (\<lambda>c. \<not> is_slash c) t) # blocks (dropWhile (\<lambda>c. \<not> is_slash c) t)"
  by (metis list.exhaust) auto
termination
  by (relation "measure length") (auto simp: less_Suc_eq_le length_dropWhile_le)

lemma find_slash_ahead: "find_slash (it_path it) (it_pos it) = it_pos it + length (takeWhile (\<lambda>c. \<not> is_slash c) (ahead it))"
  by (simp add: find_slash_def ahead_def)

lemma ahead_nonempty: "it_pos it \<le> length (it_path it) \<Longrightarrow> it_at_end it \<longleftrightarrow> ahead it = []"
  by (auto simp: it_at_end_def ahead_def)

lemma ahead_step: "ahead it = c # t \<Longrightarrow> ahead (it\<lparr>it_pos := it_pos it + 1\<rparr>) = t \<and> it_pos it < length (it_path it)"
  unfolding ahead_def by (metis Cons_nth_drop_Suc Suc_eq_plus1 drop_eq_Nil linorder_not_le list.inject list.distinct(1)
    path_iterator.select_convs(1,2) path_iterator.surjective path_iterator.update_convs(2))

lemma it_next_end: "it_at_end it \<Longrightarrow> it_next it = Some (False, it)"
  by (subst it_next.simps) simp

lemma it_next_slash: "ahead it = c # t \<Longrightarrow> is_slash c \<Longrightarrow> it_next it = it_next (it\<lparr>it_pos := it_pos it + 1\<rparr>)"
  by (subst it_next.simps) (auto simp: find_slash_ahead it_at_end_def ahead_def)

lemma it_next_block:
  assumes "ahead it = c # t" "\<not> is_slash c"
  defines "b \<equiv> c # takeWhile (\<lambda>c. \<not> is_slash c) t"
  shows "it_next it = (case decode_uri_component skip_chars allowed_chars b [] of
      None \<Rightarrow> None
    | Some (False, out, _) \<Rightarrow> Some (False, it\<lparr>it_seg := out\<rparr>)
    | Some (True, out, _) \<Rightarrow> Some (True, it\<lparr>it_seg := out, it_pos := min (length (it_path it)) (it_pos it + length b + 1)\<rparr>))"
proof -
  have len: "length (it_path it) = it_pos it + Suc (length t)"
    using arg_cong [OF assms(1), of length] by (simp add: ahead_def)
  have find: "find_slash (it_path it) (it_pos it) = it_pos it + length b"
    using assms by (simp add: find_slash_ahead)
  have "text_between (it_path it) (it_pos it) (it_pos it + length b) = take (length b) (ahead it)"
    by (simp add: text_between_def ahead_def)
  also have "\<dots> = b" using assms takeWhile_eq_take [of "\<lambda>c. \<not> is_slash c" t] by simp
  finally have between: "text_between (it_path it) (it_pos it) (it_pos it + length b) = b" .
  have le: "length b \<le> Suc (length t)" by (simp add: b_def length_takeWhile_le)
  have fin: "\<not> it_at_end it" using len by (simp add: it_at_end_def)
  have pos: "length b \<noteq> 0" by (simp add: b_def)
  have last: "it_pos it + length b = length (it_path it) \<longleftrightarrow> \<not> it_pos it + length b + 1 \<le> length (it_path it)"
    using len le by auto
  obtain ok out r where "decode_uri_component skip_chars allowed_chars b [] = Some (ok, out, r)"
    using decode_allowed_total [of b "[]"] by auto
  then show ?thesis
    using pos last by (subst it_next.simps) (cases ok; simp add: find between fin min_def)
qed

lemma blocks_drop_slash: "blocks (drop 1 (dropWhile (\<lambda>c. \<not> is_slash c) t)) = blocks (dropWhile (\<lambda>c. \<not> is_slash c) t)"
proof (cases "dropWhile (\<lambda>c. \<not> is_slash c) t")
  case (Cons c u)
  then have "is_slash c" using hd_dropWhile [of "\<lambda>c. \<not> is_slash c" t] by simp
  with Cons show ?thesis by simp
next
  case Nil
  show ?thesis unfolding Nil by simp
qed

lemma it_next_blocks:
  assumes "it_pos it \<le> length (it_path it)"
  shows "case blocks (ahead it) of
      [] \<Rightarrow> it_next it = Some (False, it\<lparr>it_pos := length (it_path it)\<rparr>)
    | b # bs \<Rightarrow> (\<exists>it'. it_path it' = it_path it \<and> it_pos it' \<le> length (it_path it) \<and>
        (case decoded b of
           Some s \<Rightarrow> it_next it = Some (True, it') \<and> it_seg it' = s \<and> blocks (ahead it') = bs
         | None \<Rightarrow> it_next it = Some (False, it') \<and> it_next it' = Some (False, it') \<and> \<not> it_at_end it' \<and> blocks (ahead it') = b # bs))"
  using assms
proof (induction "ahead it" arbitrary: it)
  case Nil
  then have "it_at_end it" using ahead_nonempty by metis
  then show ?case using Nil it_next_end [of it] by (simp add: it_at_end_def)
next
  case (Cons c t)
  note step = ahead_step [OF Cons.hyps(2) [symmetric]]
  show ?case
  proof (cases "is_slash c")
    case True
    define it2 where "it2 = it\<lparr>it_pos := it_pos it + 1\<rparr>"
    have it2: "ahead it2 = t" "it_next it2 = it_next it" "it_path it2 = it_path it" "it_pos it2 \<le> length (it_path it)"
      "it2\<lparr>it_pos := n\<rparr> = it\<lparr>it_pos := n\<rparr>" for n
      using step it_next_slash [OF Cons.hyps(2) [symmetric] True] by (simp_all add: it2_def)
    have "blocks (ahead it) = blocks t"
      using True by (simp add: Cons.hyps(2) [symmetric])
    then show ?thesis
      using Cons.hyps(1) [of it2] by (simp only: it2 simp_thms)
  next
    case False
    define b where "b = c # takeWhile (\<lambda>c. \<not> is_slash c) t"
    note next' = it_next_block [OF Cons.hyps(2) [symmetric] False, folded b_def]
    obtain ok out r where d: "decode_uri_component skip_chars allowed_chars b [] = Some (ok, out, r)"
      using decode_allowed_total [of b "[]"] by auto
    have bl: "blocks (ahead it) = b # blocks (dropWhile (\<lambda>c. \<not> is_slash c) t)"
      using False by (simp add: Cons.hyps(2) [symmetric] b_def)
    show ?thesis
    proof (cases ok)
      case True
      let ?it = "it\<lparr>it_seg := out, it_pos := min (length (it_path it)) (it_pos it + length b + 1)\<rparr>"
      have len: "length (it_path it) = it_pos it + Suc (length t)"
        using arg_cong [OF Cons.hyps(2), of length] step by (simp add: ahead_def)
      have "ahead ?it = drop (length b + 1) (ahead it)"
        by (auto simp: ahead_def min_def add.commute)
      also have "\<dots> = drop 1 (dropWhile (\<lambda>c. \<not> is_slash c) t)"
        using dropWhile_eq_drop [of "\<lambda>c. \<not> is_slash c" t] by (simp add: Cons.hyps(2) [symmetric] b_def add.commute)
      finally have "blocks (ahead ?it) = blocks (dropWhile (\<lambda>c. \<not> is_slash c) t)"
        by (simp only: blocks_drop_slash)
      moreover have "it_next it = Some (True, ?it)" using next' d True by simp
      moreover have "decoded b = Some out" using d True by (simp add: decoded_def)
      ultimately show ?thesis
        unfolding bl list.case by (intro exI [of _ ?it]) simp
    next
      case ok: False
      let ?it = "it\<lparr>it_seg := out\<rparr>"
      have same: "ahead ?it = ahead it" by (simp add: ahead_def)
      have "it_next ?it = Some (False, ?it)"
        using it_next_block [of ?it c t] same Cons.hyps(2) False d ok by (simp add: b_def)
      moreover have "it_next it = Some (False, ?it)" using next' d ok by simp
      moreover have "decoded b = None" using d ok by (simp add: decoded_def)
      moreover have "\<not> it_at_end ?it \<and> it_pos ?it \<le> length (it_path it) \<and> it_path ?it = it_path it"
        using step by (simp add: it_at_end_def)
      ultimately show ?thesis
        unfolding bl list.case by (intro exI [of _ ?it]) (simp only: bl same option.case simp_thms)
    qed
  qed
qed


text \<open>The values that at most \<open>n\<close> successful calls of \<open>next\<close> leave in the iterator, and the iterator
  after the last call.\<close>

fun it_visits :: "nat \<Rightarrow> path_iterator \<Rightarrow> (string list \<times> path_iterator) option" where
  "it_visits 0 it = Some ([], it)"
| "it_visits (Suc n) it =
     (case it_next it of
        None \<Rightarrow> None
      | Some (False, it') \<Rightarrow> Some ([], it')
      | Some (True, it') \<Rightarrow> map_option (\<lambda>(xs, last_it). (it_seg it' # xs, last_it)) (it_visits n it'))"

definition visited :: "string list \<Rightarrow> string list" where
  "visited bs = map (\<lambda>b. the (decoded b)) (takeWhile (\<lambda>b. decoded b \<noteq> None) bs)"

lemma it_visits_blocks:
  assumes "it_pos it \<le> length (it_path it)" "length (blocks (ahead it)) < n"
  shows "\<exists>it'. it_visits n it = Some (visited (blocks (ahead it)), it') \<and> it_next it' = Some (False, it')
    \<and> (it_at_end it' \<longleftrightarrow> list_all (\<lambda>b. decoded b \<noteq> None) (blocks (ahead it)))"
  using assms
proof (induction "blocks (ahead it)" arbitrary: it n)
  case Nil
  then have "it_next it = Some (False, it\<lparr>it_pos := length (it_path it)\<rparr>)"
    using it_next_blocks [of it] by simp
  moreover have "it_next (it\<lparr>it_pos := length (it_path it)\<rparr>) = Some (False, it\<lparr>it_pos := length (it_path it)\<rparr>)"
    by (rule it_next_end) (simp add: it_at_end_def)
  ultimately show ?case
    using Nil by (cases n) (simp_all add: visited_def it_at_end_def Nil.hyps [symmetric])
next
  case (Cons b bs)
  then obtain m where n: "n = Suc m" by (cases n) auto
  note next' = it_next_blocks [OF Cons.prems(1), folded Cons.hyps(2), unfolded list.case]
  show ?case
  proof (cases "decoded b")
    case None
    then show ?thesis using next' n by (auto simp: visited_def Cons.hyps(2) [symmetric])
  next
    case (Some s)
    then obtain it' where it': "it_path it' = it_path it" "it_pos it' \<le> length (it_path it')" "it_next it = Some (True, it')"
      "it_seg it' = s" "blocks (ahead it') = bs"
      using next' by auto
    then show ?thesis
      using Cons.hyps(1) [of it' m] Cons.prems(2) Some n
      by (auto simp: visited_def Cons.hyps(2) [symmetric])
  qed
qed

text \<open>Looking ahead.\<close>

lemma peek_start_blocks:
  "pit \<le> length path \<Longrightarrow>
   (case blocks (drop pit path) of
      [] \<Rightarrow> peek_start path pit = None
    | b # bs \<Rightarrow> \<exists>q. peek_start path pit = Some q \<and> text_between path q (find_slash path q) = b)"
proof (induction "drop pit path" arbitrary: pit)
  case Nil
  then show ?case by (simp add: peek_start.simps find_slash_def)
next
  case (Cons c t)
  then have lt: "pit < length path" by (metis drop_eq_Nil linorder_not_le list.distinct(1))
  then have t: "drop (pit + 1) path = t" using Cons.hyps(2) by (metis Cons_nth_drop_Suc Suc_eq_plus1 list.inject)
  show ?case
  proof (cases "is_slash c")
    case True
    have "peek_start path pit = peek_start path (pit + 1)"
      using lt True by (subst peek_start.simps) (simp add: find_slash_def Cons.hyps(2) [symmetric])
    moreover have "blocks (drop pit path) = blocks t"
      using True by (simp add: Cons.hyps(2) [symmetric])
    ultimately show ?thesis
      using Cons.hyps(1) [of "pit + 1"] t lt by (simp only: t)
  next
    case False
    then have "peek_start path pit = Some pit"
      by (subst peek_start.simps) (simp add: find_slash_def Cons.hyps(2) [symmetric])
    moreover have "text_between path pit (find_slash path pit) = c # takeWhile (\<lambda>c. \<not> is_slash c) t"
      using False takeWhile_eq_take [of "\<lambda>c. \<not> is_slash c" "c # t"]
      by (simp add: text_between_def find_slash_def Cons.hyps(2) [symmetric])
    ultimately show ?thesis
      using False by (simp add: Cons.hyps(2) [symmetric])
  qed
qed

lemma it_peek_blocks:
  assumes "it_pos it \<le> length (it_path it)"
  shows "it_peek it = (if it_at_end it then Some None else case blocks (ahead it) of [] \<Rightarrow> None | b # _ \<Rightarrow> Some (decoded b))"
proof (cases "blocks (ahead it)")
  case Nil
  then show ?thesis using peek_start_blocks [OF assms] by (simp add: it_peek_def ahead_def)
next
  case (Cons b bs)
  then obtain q where "peek_start (it_path it) (it_pos it) = Some q" "text_between (it_path it) q (find_slash (it_path it) q) = b"
    using peek_start_blocks [OF assms] by (auto simp: ahead_def)
  moreover obtain ok out r where "decode_uri_component skip_chars allowed_chars b [] = Some (ok, out, r)"
    using decode_allowed_total [of b "[]"] by auto
  ultimately show ?thesis
    using Cons by (cases ok) (simp_all add: it_peek_def decoded_def)
qed


lemma blocks_empty_iff: "blocks t = [] \<longleftrightarrow> list_all is_slash t"
  by (induction t rule: blocks.induct) auto

lemma length_blocks: "length (blocks t) \<le> length t"
proof (induction t rule: blocks.induct)
  case (3 c t)
  then show ?case using length_dropWhile_le [of "\<lambda>c. \<not> is_slash c" t] by simp
qed auto

text \<open>The encoded segments of a path.\<close>

lemma blocks_join:
  "\<forall>t \<in> set ts. t \<noteq> [] \<and> CHR ''/'' \<notin> set t \<Longrightarrow> blocks (join_segments ts) = ts"
proof (induction ts)
  case (Cons t ts)
  then obtain c u where t: "t = c # u" "\<not> is_slash c" "CHR ''/'' \<notin> set u" by (cases t) auto
  note split = split_segment [OF t(3) join_segments_cases, of ts]
  show ?case using t split Cons by simp
qed simp


lemma allowed_chars_eq: "allowed_chars = (\<lambda>c. Some (charset_contains PCHAR_NOT_PCT_ENCODED c))"
  by (simp add: allowed_chars_def fun_eq_iff)

lemma slash_not_allowed: "allowed_chars (CHR ''/'') = Some False"
proof -
  have "\<not> alnum (CHR ''/'')" by (simp add: alnum_def)
  then show ?thesis
    by (simp add: allowed_chars_def pchar_member unreserved_member sub_delims_member)
qed

text \<open>An encoded segment is a block that is decoded to the segment.\<close>

lemma encoded_block:
  assumes "encode_uri_component False skip_chars allowed_chars s [] = Some t" "s \<noteq> []"
  shows "t \<noteq> []" "CHR ''/'' \<notin> set t" "decoded t = Some s"
proof -
  note t = pchar_set.encode_tokens [of s "[]", folded allowed_chars_eq]
  have "list_all (\<lambda>c. allowed_chars c = Some True \<or> c = CHR ''%'' \<or> is_uppercase_hex (ord c)) t"
    using pchar_set.encoded_chars [of s, folded allowed_chars_eq] t assms(1) by simp
  then show "CHR ''/'' \<notin> set t"
    by (auto simp: list_all_iff slash_not_allowed is_uppercase_hex_def dest!: bspec)
  show d: "decoded t = Some s"
    using pchar_set.decode_encoded [of s, folded allowed_chars_eq] t assms(1) by (simp add: decoded_def)
  show "t \<noteq> []"
    using d assms(2) by (auto simp: decoded_def)
qed

section \<open>Properties of the iterator\<close>

text \<open>C17: A loop over \<open>next\<close> reaches its end for every text. It visits the values of the parts
  between slashes that are not empty, up to the first part that cannot be decoded; the last call leaves
  an iterator on which every other call fails too, and which is at the end of the text exactly when every
  part was decoded.\<close>

theorem path_iterator_visits:
  "\<exists>it'. it_visits (Suc (length path)) (it_new path) = Some (visited (blocks path), it')
    \<and> it_next it' = Some (False, it')
    \<and> (it_at_end it' \<longleftrightarrow> list_all (\<lambda>b. decoded b \<noteq> None) (blocks path))"
  using it_visits_blocks [of "it_new path" "Suc (length path)"] length_blocks [of path]
  by (simp add: it_new_def ahead_def)

text \<open>C18: On a platform with unsigned characters, segments that are not empty, encoded and written after
  slashes, are visited as they were. An empty segment would be skipped.\<close>

theorem path_iterator_round_trip:
  assumes "list_all2 (\<lambda>s t. encode_uri_component False skip_chars allowed_chars s [] = Some t) segs texts"
    and "[] \<notin> set segs"
  shows "\<exists>it'. it_visits (Suc (length segs)) (it_new (join_segments texts)) = Some (segs, it') \<and> it_at_end it'"
proof -
  have enc: "\<forall>t \<in> set texts. t \<noteq> [] \<and> CHR ''/'' \<notin> set t" "map decoded texts = map Some segs"
    using assms
    by (induction segs texts rule: list_all2_induct) (auto simp: encoded_block dest: encoded_block(1))
  have b: "blocks (join_segments texts) = texts" using enc(1) by (rule blocks_join)
  have all: "list_all (\<lambda>b. decoded b \<noteq> None) texts"
  proof -
    have "None \<notin> set (map decoded texts)" unfolding enc(2) by auto
    then show ?thesis unfolding list_all_iff set_map by (metis image_eqI)
  qed
  then have "takeWhile (\<lambda>b. decoded b \<noteq> None) texts = texts" by (simp add: list_all_iff takeWhile_eq_all_conv)
  moreover have "map (\<lambda>b. the (decoded b)) texts = segs"
    using arg_cong [OF enc(2), of "map the"] by (simp add: comp_def)
  ultimately have "visited texts = segs" unfolding visited_def by (simp only:)
  moreover have "length texts = length segs" using assms(1) by (simp add: list_all2_lengthD)
  ultimately show ?thesis
    using it_visits_blocks [of "it_new (join_segments texts)" "Suc (length segs)"] b all
    by (auto simp: it_new_def ahead_def)
qed

theorem path_iterator_round_trip_witness:
  "\<exists>it'. it_visits 3 (it_new ''/a%20b/%2F'') = Some ([''a b'', ''/''], it') \<and> it_at_end it'"
proof -
  have "encode_uri_component False skip_chars allowed_chars ''a b'' [] = Some ''a%20b''"
    "encode_uri_component False skip_chars allowed_chars ''/'' [] = Some ''%2F''" by code_simp+
  then show ?thesis
    using path_iterator_round_trip [of "[''a b'', ''/'']" "[''a%20b'', ''%2F'']"] by (simp add: numeral_3_eq_3)
qed

text \<open>\<open>peek\<close> tells what \<open>next\<close> would find, but where only slashes are left it moves its
  iterator past the end of the text, which is undefined.\<close>

theorem path_iterator_peek:
  assumes "it_pos it \<le> length (it_path it)"
  shows "(it_peek it = None \<longleftrightarrow> \<not> it_at_end it \<and> list_all is_slash (ahead it))
    \<and> (it_peek it = Some (Some s) \<longleftrightarrow> (\<exists>it'. it_next it = Some (True, it') \<and> it_seg it' = s))"
proof (cases "it_at_end it")
  case True
  then show ?thesis by (simp add: it_peek_def it_next_end)
next
  case False
  note peek = it_peek_blocks [OF assms] and next' = it_next_blocks [OF assms]
  show ?thesis
  proof (cases "blocks (ahead it)")
    case Nil
    then show ?thesis using False peek next' blocks_empty_iff [of "ahead it"] by simp
  next
    case (Cons b bs)
    then have "\<not> list_all is_slash (ahead it)" using blocks_empty_iff [of "ahead it"] by simp
    then show ?thesis using False peek next' Cons by (cases "decoded b") auto
  qed
qed

theorem path_iterator_peek_witness:
  "it_peek \<lparr>it_path = ''a//'', it_pos = 2, it_seg = ''a''\<rparr> = None"
  using path_iterator_peek [THEN conjunct1, of "\<lparr>it_path = ''a//'', it_pos = 2, it_seg = ''a''\<rparr>"]
  by (simp add: it_at_end_def ahead_def)

section \<open>Properties of the traverser\<close>

fun traverser_walk :: "nat \<Rightarrow> path_traverser \<Rightarrow> path_traverser" where
  "traverser_walk 0 t = t"
| "traverser_walk (Suc n) t = traverser_walk n (snd (traverser_next t))"

lemma traverser_walk_pos:
  "traverser_pos t \<le> length (storage (traverser_path t)) \<Longrightarrow>
   traverser_walk n t = t\<lparr>traverser_pos := min (traverser_pos t + n) (length (storage (traverser_path t)))\<rparr>"
  by (induction n arbitrary: t) (auto simp: traverser_next_def traverser_at_end_def min_def)

text \<open>A new traverser visits the segments that are left after the normalisation, in their order, and its
  end is reached after the last one.\<close>

theorem traverser_visits:
  "\<exists>t. traverser_new p = Some t \<and> traverser_at_beginning t
    \<and> (let segs = removed_dots (path_is_absolute p) True (storage p) in
        map (\<lambda>n. traverser_peek (traverser_walk n t)) [0..<Suc (length segs)] = map (\<lambda>s. Some (Some s)) segs @ [Some None])"
proof -
  define segs where "segs = removed_dots (path_is_absolute p) True (storage p)"
  define t where "t = \<lparr>traverser_path = p\<lparr>storage := segs\<rparr>, traverser_pos = 0\<rparr>"
  have "traverser_new p = Some t"
    by (simp add: traverser_new_def path_normalize_def remove_dot_segments_result t_def segs_def)
  moreover have "traverser_peek (traverser_walk n t) = (if n < length segs then Some (Some (segs ! n)) else Some None)" for n
    using traverser_walk_pos [of t n]
    by (auto simp: t_def traverser_peek_def traverser_at_end_def traverser_segment_def min_def)
  moreover have "map (\<lambda>n. if n < length segs then Some (Some (segs ! n)) else Some None) [0..<Suc (length segs)] =
      map (\<lambda>s. Some (Some s)) segs @ [Some None]"
    by (rule nth_equalityI) (auto simp: nth_append less_Suc_eq)
  ultimately show ?thesis
    by (intro exI [of _ t]) (simp add: segs_def [symmetric] traverser_at_beginning_def t_def del: upt_Suc)
qed

end
