(* ===== verification/Unicode_Utf.thy ===== *)
theory Unicode_Utf
  imports Webpp_Prelude
begin

unbundle bit_operations_syntax

text \<open>
  \<^verbatim>\<open>webpp/unicode/unicode.hpp\<close>: UTF-8 and UTF-16. Each template has one
  definition per encoding, with the suffix 8 or 16. An iterator that moves forward is the list of the
  units that it has not passed; one that moves backward is the list of the units before it, the
  nearest first. Reading outside of the list gives \<^const>\<open>None\<close>. An output is the list of
  the units written.
\<close>

section \<open>Constants and classes\<close>

definition lead_surrogate_min :: "'w::len word" where "lead_surrogate_min = 0xD800"
definition lead_surrogate_max :: "'w::len word" where "lead_surrogate_max = 0xDBFF"
definition trail_surrogate_min :: "'w::len word" where "trail_surrogate_min = 0xDC00"
definition trail_surrogate_max :: "'w::len word" where "trail_surrogate_max = 0xDFFF"
definition lead_offset :: "'w::len word" where "lead_offset = lead_surrogate_min - drop_bit 10 0x10000"
definition surrogate_offset :: u32 where
  "surrogate_offset = 0x10000 - push_bit 10 lead_surrogate_min - trail_surrogate_min"
definition replacement_char :: u32 where "replacement_char = 0xFFFD"
definition max_bmp :: u32 where "max_bmp = 0xFFFF"
definition max_utf16 :: u32 where "max_utf16 = 0x10FFFF"
definition max_utf32 :: u32 where "max_utf32 = 0x7FFFFFFF"
definition max_legal_utf32 :: u32 where "max_legal_utf32 = 0x10FFFF"

definition mask8 :: "'w::len word \<Rightarrow> u8" where "mask8 oct = ucast (0xFF AND oct)"
definition mask16 :: "'w::len word \<Rightarrow> u16" where "mask16 oct = ucast (0xFFFF AND oct)"

definition is_trail :: "'w::len word \<Rightarrow> bool" where
  "is_trail oct \<longleftrightarrow> drop_bit 6 (mask8 oct) = 0x2"

definition is_lead_surrogate :: "'w::len word \<Rightarrow> bool" where
  "is_lead_surrogate code_point \<longleftrightarrow> code_point \<ge> lead_surrogate_min \<and> code_point \<le> lead_surrogate_max"

definition is_trail_surrogate :: "'w::len word \<Rightarrow> bool" where
  "is_trail_surrogate code_point \<longleftrightarrow> code_point \<ge> trail_surrogate_min \<and> code_point \<le> trail_surrogate_max"

definition is_surrogate :: "'w::len word \<Rightarrow> bool" where
  "is_surrogate code_point \<longleftrightarrow> code_point \<ge> lead_surrogate_min \<and> code_point \<le> trail_surrogate_max"

definition is_code_unit_start8 :: "u8 \<Rightarrow> bool" where
  "is_code_unit_start8 unit \<longleftrightarrow> unit AND 0b11000000 \<noteq> 0b10000000"

definition is_code_unit_start16 :: "u16 \<Rightarrow> bool" where
  "is_code_unit_start16 unit \<longleftrightarrow> unit AND 0b1101110000000000 \<noteq> 0b1101110000000000"

definition is_in_range :: "u32 \<Rightarrow> bool" where
  "is_in_range code_point \<longleftrightarrow> code_point \<le> max_legal_utf32"

definition is_code_point_valid :: "u32 \<Rightarrow> bool" where
  "is_code_point_valid code_point \<longleftrightarrow>
     code_point \<le> max_legal_utf32 \<and> code_point AND 0xFFFFF800 \<noteq> lead_surrogate_min"

definition utf8_length_from_utf32 :: "u32 \<Rightarrow> nat" where
  "utf8_length_from_utf32 code_point =
     (if code_point < 0x80 then 1
      else if code_point < 0x800 then 2
      else if code_point \<ge> 0xDC00 \<and> code_point < 0xE000 then 0
      else if code_point \<ge> 0xD800 \<and> code_point < 0xDC00 then 4
      else 3)"

definition utf16_length_from_utf32 :: "u32 \<Rightarrow> nat" where
  "utf16_length_from_utf32 code_point = (if code_point > 0xFFFF then 2 else 1)"

section \<open>Reading a code point\<close>

text \<open>The low bits of a unit as a code point, at their place.\<close>

definition bits_at :: "u32 \<Rightarrow> nat \<Rightarrow> u8 \<Rightarrow> u32" where
  "bits_at m n unit = push_bit n (ucast unit AND m)"

definition next_code_point8 :: "u8 list \<Rightarrow> (u32 \<times> u8 list) option" where
  "next_code_point8 pos =
     (case pos of [] \<Rightarrow> None
      | b0 # pos \<Rightarrow>
          if ucast b0 AND (0b10000000 :: u32) = 0 then Some (ucast b0, pos)
          else if ucast b0 AND (0b11100000 :: u32) = 0b11000000 then
            (case pos of b1 # pos \<Rightarrow> Some (bits_at 0b00011111 6 b0 OR bits_at 0b00111111 0 b1, pos)
             | _ \<Rightarrow> None)
          else if ucast b0 AND (0b11110000 :: u32) = 0b11100000 then
            (case pos of b1 # b2 # pos \<Rightarrow>
               Some (bits_at 0b00001111 12 b0 OR bits_at 0b00111111 6 b1 OR bits_at 0b00111111 0 b2, pos)
             | _ \<Rightarrow> None)
          else if ucast b0 AND (0b11111000 :: u32) = 0b11110000 then
            (case pos of b1 # b2 # b3 # pos \<Rightarrow>
               Some (bits_at 0b00000111 18 b0 OR bits_at 0b00111111 12 b1 OR bits_at 0b00111111 6 b2
                 OR bits_at 0b00111111 0 b3, pos)
             | _ \<Rightarrow> None)
          else Some (ucast b0, pos))"

text \<open>The bounded version takes what there is.\<close>

definition next_code_point8_bounded :: "u8 list \<Rightarrow> u32 \<times> u8 list" where
  "next_code_point8_bounded pos =
     (case pos of [] \<Rightarrow> (0, [])
      | [b0] \<Rightarrow> (ucast b0, [])
      | b0 # b1 # pos \<Rightarrow>
          if ucast b0 AND (0b10000000 :: u32) = 0 then (ucast b0, b1 # pos)
          else if ucast b0 AND (0b11100000 :: u32) = 0b11000000 then
            (bits_at 0b00011111 6 b0 OR bits_at 0b00111111 0 b1, pos)
          else if ucast b0 AND (0b11110000 :: u32) = 0b11100000 then
            (let val = bits_at 0b00001111 12 b0 OR bits_at 0b00111111 6 b1 in
             case pos of [] \<Rightarrow> (val, []) | b2 # pos \<Rightarrow> (val OR bits_at 0b00111111 0 b2, pos))
          else if ucast b0 AND (0b11111000 :: u32) = 0b11110000 then
            (let val = bits_at 0b00000111 18 b0 OR bits_at 0b00111111 12 b1 in
             case pos of [] \<Rightarrow> (val, [])
             | b2 # pos \<Rightarrow>
                (let val = val OR bits_at 0b00111111 6 b2 in
                 case pos of [] \<Rightarrow> (val, []) | b3 # pos \<Rightarrow> (val OR bits_at 0b00111111 0 b3, pos)))
          else (ucast b0, b1 # pos))"

definition next_code_point16 :: "u16 list \<Rightarrow> (u32 \<times> u16 list) option" where
  "next_code_point16 pos =
     (case pos of [] \<Rightarrow> None
      | u0 # pos \<Rightarrow>
          if ucast u0 AND (0xFC00 :: u32) = 0xD800 then
            (case pos of u1 # pos \<Rightarrow> Some (push_bit 16 (ucast u0) OR ucast u1, pos) | [] \<Rightarrow> None)
          else Some (ucast u0, pos))"

definition next_code_point16_bounded :: "u16 list \<Rightarrow> u32 \<times> u16 list" where
  "next_code_point16_bounded pos =
     (case pos of [] \<Rightarrow> (0, [])
      | [u0] \<Rightarrow> (ucast u0, [])
      | u0 # u1 # pos \<Rightarrow>
          if ucast u0 AND (0xFC00 :: u32) = 0xD800 then (push_bit 16 (ucast u0) OR ucast u1, pos)
          else (ucast u0, u1 # pos))"

definition prev_code_point8 :: "u8 list \<Rightarrow> (u32 \<times> u8 list) option" where
  "prev_code_point8 pos =
     (case pos of [] \<Rightarrow> None
      | b # pos \<Rightarrow>
          if drop_bit 6 (ucast b :: u32) \<noteq> 0b10 then Some (ucast b, pos)
          else (case pos of [] \<Rightarrow> None
          | c # pos \<Rightarrow>
              let val = bits_at 0b00111111 0 b in
              if drop_bit 6 c \<noteq> 0b10 then Some (val OR bits_at 0b00011111 6 c, pos)
              else (case pos of [] \<Rightarrow> None
              | d # pos \<Rightarrow>
                  let val = val OR bits_at 0b00111111 6 c in
                  if drop_bit 6 d \<noteq> 0b10 then Some (val OR bits_at 0b00001111 12 d, pos)
                  else (case pos of [] \<Rightarrow> None
                  | e # pos \<Rightarrow>
                      let val = val OR bits_at 0b00111111 12 d in
                      if drop_bit 6 e \<noteq> 0b10 then Some (val OR bits_at 0b00000111 18 e, pos)
                      else Some (val OR bits_at 0b00111111 18 e, pos)))))"

text \<open>The UTF-16 version reads the same unit twice and does not step back to the first one.\<close>

definition prev_code_point16 :: "u16 list \<Rightarrow> (u32 \<times> u16 list) option" where
  "prev_code_point16 pos =
     (case pos of [] \<Rightarrow> None
      | u # pos \<Rightarrow>
          if ucast u AND (0xFC00 :: u32) \<noteq> 0b1101110000000000 then Some (ucast u, pos)
          else Some ((ucast u AND 0b0000001111111111) OR push_bit 10 (ucast u AND 0b0000001111111111), pos))"

section \<open>Moving by characters\<close>

definition utf8_skip :: "nat list" where
  "utf8_skip =
    [1, 1, 1, 1, 1, 1, 1, 1, 1, 1, 1, 1, 1, 1, 1, 1, 1, 1, 1, 1, 1, 1, 1, 1, 1, 1, 1, 1, 1, 1, 1, 1,
     1, 1, 1, 1, 1, 1, 1, 1, 1, 1, 1, 1, 1, 1, 1, 1, 1, 1, 1, 1, 1, 1, 1, 1, 1, 1, 1, 1, 1, 1, 1, 1,
     1, 1, 1, 1, 1, 1, 1, 1, 1, 1, 1, 1, 1, 1, 1, 1, 1, 1, 1, 1, 1, 1, 1, 1, 1, 1, 1, 1, 1, 1, 1, 1,
     1, 1, 1, 1, 1, 1, 1, 1, 1, 1, 1, 1, 1, 1, 1, 1, 1, 1, 1, 1, 1, 1, 1, 1, 1, 1, 1, 1, 1, 1, 1, 1,
     1, 1, 1, 1, 1, 1, 1, 1, 1, 1, 1, 1, 1, 1, 1, 1, 1, 1, 1, 1, 1, 1, 1, 1, 1, 1, 1, 1, 1, 1, 1, 1,
     1, 1, 1, 1, 1, 1, 1, 1, 1, 1, 1, 1, 1, 1, 1, 1, 1, 1, 1, 1, 1, 1, 1, 1, 1, 1, 1, 1, 1, 1, 1, 1,
     2, 2, 2, 2, 2, 2, 2, 2, 2, 2, 2, 2, 2, 2, 2, 2, 2, 2, 2, 2, 2, 2, 2, 2, 2, 2, 2, 2, 2, 2, 2, 2,
     3, 3, 3, 3, 3, 3, 3, 3, 3, 3, 3, 3, 3, 3, 3, 3, 4, 4, 4, 4, 4, 4, 4, 4, 5, 5, 5, 5, 6, 6, 1, 1]"

definition required_length_of8 :: "u8 \<Rightarrow> nat" where
  "required_length_of8 val = utf8_skip ! unat val"

definition required_length_of16 :: "u16 \<Rightarrow> nat" where
  "required_length_of16 val = (if val AND 0xFC00 = 0xD800 then 2 else 1)"

text \<open>An iterator may stand at the end, but not after it.\<close>

definition advance :: "nat \<Rightarrow> 'a list \<Rightarrow> 'a list option" where
  "advance n pos = (if n \<le> length pos then Some (drop n pos) else None)"

definition copy_next_into8 :: "u8 list \<Rightarrow> u8 list \<Rightarrow> (u8 list \<times> u8 list \<times> nat) option" where
  "copy_next_into8 ito from =
     Option.bind (load from 0) (\<lambda>b.
       let size = utf8_skip ! unat b in
       map_option (\<lambda>rest. (ito @ take size from, rest, size)) (advance size from))"

definition next_char8 :: "u8 list \<Rightarrow> u8 list option" where
  "next_char8 pos = Option.bind (load pos 0) (\<lambda>b. advance (utf8_skip ! unat b) pos)"

definition next_char16 :: "u16 list \<Rightarrow> u16 list option" where
  "next_char16 pos =
     Option.bind (advance 1 pos) (\<lambda>pos. Option.bind (load pos 0) (\<lambda>u.
       if \<not> (u < trail_surrogate_min \<or> u > trail_surrogate_max) then advance 1 pos else Some pos))"

fun next_char8_count :: "nat \<Rightarrow> u8 list \<Rightarrow> u8 list option" where
  "next_char8_count 0 pos = Some pos"
| "next_char8_count (Suc count) pos = Option.bind (next_char8 pos) (next_char8_count count)"

text \<open>At most five units are tested; the sixth is skipped without a test.\<close>

fun prev_char8_loop :: "nat \<Rightarrow> u8 list \<Rightarrow> u8 list option" where
  "prev_char8_loop n [] = None"
| "prev_char8_loop 0 (b # pos) = Some pos"
| "prev_char8_loop (Suc n) (b # pos) = (if b AND 0xC0 \<noteq> 0x80 then Some pos else prev_char8_loop n pos)"

definition prev_char8 :: "u8 list \<Rightarrow> u8 list option" where
  "prev_char8 = prev_char8_loop 5"

definition prev_char16 :: "u16 list \<Rightarrow> u16 list option" where
  "prev_char16 pos =
     (case pos of [] \<Rightarrow> None
      | u # pos \<Rightarrow> if \<not> (u < trail_surrogate_min \<or> u > trail_surrogate_max) then advance 1 pos else Some pos)"

fun prev_char8_count :: "nat \<Rightarrow> u8 list \<Rightarrow> u8 list option" where
  "prev_char8_count 0 pos = Some pos"
| "prev_char8_count (Suc count) pos = Option.bind (prev_char8 pos) (prev_char8_count count)"

section \<open>Appending a code point\<close>

definition append_utf8 :: "u8 list \<Rightarrow> u32 \<Rightarrow> u8 list \<times> nat" where
  "append_utf8 out ccp =
     (if ccp < 0x80 then (out @ [ucast ccp], 1)
      else if ccp < 0x800 then
        (out @ [ucast (drop_bit 6 ccp OR 0xC0), ucast ((ccp AND 0x3F) OR 0x80)], 2)
      else if ccp < 0x10000 then
        (out @ [ucast (drop_bit 12 ccp OR 0xE0), ucast ((drop_bit 6 ccp AND 0x3F) OR 0x80),
                ucast ((ccp AND 0x3F) OR 0x80)], 3)
      else
        (out @ [ucast (drop_bit 18 ccp OR 0xF0), ucast ((drop_bit 12 ccp AND 0x3F) OR 0x80),
                ucast ((drop_bit 6 ccp AND 0x3F) OR 0x80), ucast ((ccp AND 0x3F) OR 0x80)], 4))"

definition append_utf16 :: "u16 list \<Rightarrow> u32 \<Rightarrow> u16 list \<times> nat" where
  "append_utf16 out ccp =
     (if ccp \<le> max_bmp then (out @ [ucast ccp], 1)
      else (out @ [ucast (0xD7C0 + drop_bit 10 ccp), ucast (0xDC00 + (ccp AND 0x3FF))], 2))"

definition append_utf32 :: "u32 list \<Rightarrow> u32 \<Rightarrow> u32 list \<times> nat" where
  "append_utf32 out code_point = (out @ [code_point], 1)"

text \<open>A UTF-16 unit appended to a UTF-8 output, as a code point of its own.\<close>

definition append_utf8_of16 :: "u8 list \<Rightarrow> u16 \<Rightarrow> u8 list \<times> nat" where
  "append_utf8_of16 out code_point =
     (if code_point AND 0xFF80 \<noteq> 0 then
        (if code_point AND 0xF800 \<noteq> 0 then
           (out @ [ucast (0xE0 OR drop_bit 12 code_point), ucast (0x80 OR (drop_bit 6 code_point AND 0x3F)),
                   ucast (0x80 OR (code_point AND 0x3F))], 3)
         else (out @ [ucast (0xC0 OR drop_bit 6 code_point), ucast (0x80 OR (code_point AND 0x3F))], 2))
      else (out @ [ucast code_point], 1))"

definition checked_append_utf8 :: "u8 list \<Rightarrow> u32 \<Rightarrow> u8 list \<times> bool" where
  "checked_append_utf8 out code_point =
     (if \<not> is_code_point_valid code_point then (out, False) else (fst (append_utf8 out code_point), True))"

text \<open>The characters up to a NUL; without one the end of the text is passed.\<close>

function count_nul8 :: "u8 list \<Rightarrow> nat \<Rightarrow> nat option" where
  "count_nul8 pos len =
     Option.bind (load pos 0) (\<lambda>b.
       if b = 0 then Some len
       else if 0 < utf8_skip ! unat b then Option.bind (next_char8 pos) (\<lambda>pos. count_nul8 pos (len + 1)) else None)"
  by pat_completeness auto
termination
  by (relation "measure (\<lambda>(pos, _). length pos)")
    (auto simp: next_char8_def advance_def load_def split: if_splits)

declare count_nul8.simps [simp del]

end
