(* ===== verification/Unicode_Codec.thy ===== *)
theory Unicode_Codec
  imports Unicode_Utf
begin

unbundle bit_operations_syntax

text \<open>
  What is written by the functions of \<^verbatim>\<open>webpp/unicode/unicode.hpp\<close> and read back by
  them: the bits of the octets of UTF-8 and of the units of UTF-16, the round trip of UTF-8, the
  length that is announced for it, and the reading of the surrogate pairs of UTF-16.
\<close>

section \<open>Bits of the octets\<close>

lemma and_take_bit:
  "(x :: 'w::len word) AND 0x3F = take_bit 6 x" "x AND 0x1F = take_bit 5 x" "x AND 0x0F = take_bit 4 x" "x AND 0x07 = take_bit 3 x"
  by (simp_all add: take_bit_eq_mask mask_eq_exp_minus_1)

lemma tag_bits:
  "bit (0xC0 :: int) n \<longleftrightarrow> n = 6 \<or> n = 7" "bit (0x80 :: int) n \<longleftrightarrow> n = 7"
  "bit (0xE0 :: int) n \<longleftrightarrow> n = 5 \<or> n = 6 \<or> n = 7" "bit (0xF0 :: int) n \<longleftrightarrow> n = 4 \<or> n = 5 \<or> n = 6 \<or> n = 7"
proof -
  have c: "(0xC0 :: int) = push_bit 6 1 OR push_bit 7 1" "(0x80 :: int) = push_bit 7 1"
    "(0xE0 :: int) = push_bit 5 1 OR push_bit 6 1 OR push_bit 7 1" "(0xF0 :: int) = push_bit 4 1 OR push_bit 5 1 OR push_bit 6 1 OR push_bit 7 1"
    by simp_all
  show "bit (0xC0 :: int) n \<longleftrightarrow> n = 6 \<or> n = 7" "bit (0x80 :: int) n \<longleftrightarrow> n = 7"
    "bit (0xE0 :: int) n \<longleftrightarrow> n = 5 \<or> n = 6 \<or> n = 7" "bit (0xF0 :: int) n \<longleftrightarrow> n = 4 \<or> n = 5 \<or> n = 6 \<or> n = 7"
    unfolding c bit_or_iff bit_push_bit_iff bit_1_iff by auto
qed

lemma small_bits: "(c :: u32) < 2 ^ k \<Longrightarrow> k < 32 \<Longrightarrow> bit c n \<Longrightarrow> n < k"
proof (rule ccontr)
  assume "c < 2 ^ k" "k < 32" "bit c n" "\<not> n < k"
  then have "take_bit k c = c" by (intro less_mask_eq [unfolded take_bit_eq_mask [symmetric]]) simp
  then show False using \<open>bit c n\<close> \<open>\<not> n < k\<close> by (metis bit_take_bit_iff)
qed

lemma octet_bits:
  "bits_at 0x3F j (ucast ((x AND 0x3F) OR 0x80)) = push_bit j (take_bit 6 x)"
  "bits_at 0x1F j (ucast (x OR 0xC0)) = push_bit j (take_bit 5 x)"
  "bits_at 0x0F j (ucast (x OR 0xE0)) = push_bit j (take_bit 4 x)"
  "bits_at 0x07 j (ucast (x OR 0xF0)) = push_bit j (take_bit 3 x)"
  for x :: u32
  unfolding bits_at_def
  by (rule arg_cong [where f = "push_bit j"], rule bit_word_eqI,
      auto simp: and_take_bit bit_or_iff bit_take_bit_iff bit_unsigned_iff tag_bits)+

lemma mask_test:
  fixes x m t :: "'w::len word"
  assumes "\<And>n. bit t n \<Longrightarrow> bit m n"
  shows "x AND m = t \<longleftrightarrow> (\<forall>n. bit m n \<longrightarrow> (bit x n \<longleftrightarrow> bit t n))"
  using assms by (auto simp: bit_eq_iff bit_and_iff dest: bit_imp_le_length)

lemma tag8: "bit (0xF8 :: u32) n \<longleftrightarrow> n = 3 \<or> n = 4 \<or> n = 5 \<or> n = 6 \<or> n = 7"
proof -
  have c: "(0xF8 :: u32) = push_bit 3 1 OR push_bit 4 1 OR push_bit 5 1 OR push_bit 6 1 OR push_bit 7 1" by simp
  show ?thesis unfolding c bit_or_iff bit_push_bit_iff bit_1_iff by auto
qed

lemma tag8_int: "bit (0xF8 :: int) n \<longleftrightarrow> n = 3 \<or> n = 4 \<or> n = 5 \<or> n = 6 \<or> n = 7"
proof -
  have c: "(0xF8 :: int) = push_bit 3 1 OR push_bit 4 1 OR push_bit 5 1 OR push_bit 6 1 OR push_bit 7 1" by simp
  show ?thesis unfolding c bit_or_iff bit_push_bit_iff bit_1_iff by auto
qed

lemma octet_tests:
  "ucast b AND (0x80 :: u32) = 0 \<longleftrightarrow> \<not> bit b 7"
  "ucast b AND (0xE0 :: u32) = 0xC0 \<longleftrightarrow> bit b 7 \<and> bit b 6 \<and> \<not> bit b 5"
  "ucast b AND (0xF0 :: u32) = 0xE0 \<longleftrightarrow> bit b 7 \<and> bit b 6 \<and> bit b 5 \<and> \<not> bit b 4"
  "ucast b AND (0xF8 :: u32) = 0xF0 \<longleftrightarrow> bit b 7 \<and> bit b 6 \<and> bit b 5 \<and> bit b 4 \<and> \<not> bit b 3"
  for b :: u8
  by (subst mask_test; auto simp: tag_bits tag8 tag8_int bit_unsigned_iff)+

lemma octet_cont: "b AND 0xC0 = 0x80 \<longleftrightarrow> bit b 7 \<and> \<not> bit b 6" for b :: u8
  by (subst mask_test; auto simp: tag_bits)

lemma octet_tags:
  "b AND 0xE0 = 0xC0 \<longleftrightarrow> bit b 7 \<and> bit b 6 \<and> \<not> bit b 5"
  "b AND 0xF0 = 0xE0 \<longleftrightarrow> bit b 7 \<and> bit b 6 \<and> bit b 5 \<and> \<not> bit b 4"
  "b AND 0xF8 = 0xF0 \<longleftrightarrow> bit b 7 \<and> bit b 6 \<and> bit b 5 \<and> bit b 4 \<and> \<not> bit b 3"
  for b :: u8
  by (subst mask_test; auto simp: tag_bits tag8_int)+

lemma high_u8: "0x80 \<le> b \<longleftrightarrow> bit b 7" for b :: u8
proof -
  have "bit b 7 \<longleftrightarrow> bit (unat b) 7" using bit_imp_le_length [of b 7] by (auto simp: bit_unsigned_iff)
  also have "\<dots> \<longleftrightarrow> odd (unat b div 128)" by (simp add: bit_iff_odd)
  also have "\<dots> \<longleftrightarrow> 128 \<le> unat b"
  proof (cases "unat b < 128")
    case False
    then have "unat b div 128 = 1" using unat_u8_less [of b] by (intro div_nat_eqI) simp_all
    then show ?thesis using False by simp
  qed simp
  finally show ?thesis by (simp add: word_le_nat_alt)
qed

lemma clear_low_bits: "w AND NOT (mask k) = w - take_bit k w" for w :: "'w::len word"
proof -
  have "w AND NOT (mask k) = push_bit k (drop_bit k w)"
    by (intro bit_word_eqI) (auto simp: bit_and_iff bit_not_iff bit_mask_iff bit_push_bit_iff bit_drop_bit_eq)
  then show ?thesis using bits_ident [of k w] by (simp add: eq_diff_eq)
qed

lemma unat_clear_low_bits: "unat (w AND NOT (mask k)) = unat w div 2 ^ k * 2 ^ k" for w :: "'w::len word"
proof -
  have low: "unat (take_bit k w) = unat w mod 2 ^ k" by (subst unsigned_take_bit_eq) (simp only: take_bit_eq_mod)
  then have "take_bit k w \<le> w" by (simp add: word_le_nat_alt)
  then have "unat (w AND NOT (mask k)) = unat w - unat w mod 2 ^ k" by (simp add: clear_low_bits unat_sub low)
  then show ?thesis by (simp add: minus_mod_eq_div_mult)
qed

text \<open>The first octets of the characters of each length, as ranges of numbers.\<close>

lemma octet_ranges:
  "bit b 7 \<longleftrightarrow> 128 \<le> unat b"
  "b AND 0xE0 = 0xC0 \<longleftrightarrow> 192 \<le> unat b \<and> unat b < 224"
  "b AND 0xF0 = 0xE0 \<longleftrightarrow> 224 \<le> unat b \<and> unat b < 240"
  "b AND 0xF8 = 0xF0 \<longleftrightarrow> 240 \<le> unat b \<and> unat b < 248"
  for b :: u8
proof -
  have masks: "(0xE0 :: u8) = NOT (mask 5)" "(0xF0 :: u8) = NOT (mask 4)" "(0xF8 :: u8) = NOT (mask 3)" by code_simp+
  have range: "n div d * d = q * d \<longleftrightarrow> q * d \<le> n \<and> n < Suc q * d" if "0 < d" for n d q :: nat
    using that by (metis div_mult_self_is_m less_eq_div_iff_mult_less_eq div_less_iff_less_mult le_antisym less_Suc_eq_le mult.commute mult_right_cancel not_gr_zero order_refl lessI)
  show "bit b 7 \<longleftrightarrow> 128 \<le> unat b" using high_u8 [of b] by (simp add: word_le_nat_alt)
  show "b AND 0xE0 = 0xC0 \<longleftrightarrow> 192 \<le> unat b \<and> unat b < 224"
    unfolding masks word_unat_eq_iff unat_clear_low_bits using range [of 32 "unat b" 6] by simp
  show "b AND 0xF0 = 0xE0 \<longleftrightarrow> 224 \<le> unat b \<and> unat b < 240"
    unfolding masks(2) word_unat_eq_iff unat_clear_low_bits using range [of 16 "unat b" 14] by simp
  show "b AND 0xF8 = 0xF0 \<longleftrightarrow> 240 \<le> unat b \<and> unat b < 248"
    unfolding masks(3) word_unat_eq_iff unat_clear_low_bits using range [of 8 "unat b" 30] by simp
qed

lemma octet_ranges32:
  "ucast b AND (0x80 :: u32) = 0 \<longleftrightarrow> unat b < 128"
  "ucast b AND (0xE0 :: u32) = 0xC0 \<longleftrightarrow> 192 \<le> unat b \<and> unat b < 224"
  "ucast b AND (0xF0 :: u32) = 0xE0 \<longleftrightarrow> 224 \<le> unat b \<and> unat b < 240"
  "ucast b AND (0xF8 :: u32) = 0xF0 \<longleftrightarrow> 240 \<le> unat b \<and> unat b < 248"
  for b :: u8
proof -
  show "ucast b AND (0x80 :: u32) = 0 \<longleftrightarrow> unat b < 128" unfolding octet_tests(1) octet_ranges(1) by auto
qed (simp_all only: octet_tests(2-4) octet_tags [symmetric] octet_ranges(2-4))

lemma top_two_bits:
  fixes x :: "'w::len word"
  assumes "3 \<le> LENGTH('w)" "\<And>n. 8 \<le> n \<Longrightarrow> \<not> bit x n"
  shows "drop_bit 6 x = 2 \<longleftrightarrow> bit x 7 \<and> \<not> bit x 6"
proof -
  have "drop_bit 6 x = 2 \<longleftrightarrow> (\<forall>n < LENGTH('w). bit x (6 + n) \<longleftrightarrow> n = 1)"
    by (auto simp: bit_eq_iff bit_drop_bit_eq bit_2_iff)
  also have "\<dots> \<longleftrightarrow> bit x 7 \<and> \<not> bit x 6"
  proof
    assume all: "\<forall>n < LENGTH('w). bit x (6 + n) \<longleftrightarrow> n = 1"
    show "bit x 7 \<and> \<not> bit x 6"
      using all [rule_format, of 1] all [rule_format, of 0] assms(1) by simp
  next
    assume x: "bit x 7 \<and> \<not> bit x 6"
    have "bit x (6 + n) \<longleftrightarrow> n = 1" for n
    proof -
      consider "n = 0" | "n = 1" | "8 \<le> 6 + n" by linarith
      then show ?thesis using x assms(2) by cases auto
    qed
    then show "\<forall>n < LENGTH('w). bit x (6 + n) \<longleftrightarrow> n = 1" by blast
  qed
  finally show ?thesis .
qed

lemma octet_top:
  "drop_bit 6 b = (2 :: u8) \<longleftrightarrow> bit b 7 \<and> \<not> bit b 6"
  "drop_bit 6 (ucast b :: u32) = 2 \<longleftrightarrow> bit b 7 \<and> \<not> bit b 6"
proof -
  have high: "8 \<le> n \<Longrightarrow> \<not> bit b n" for n using bit_imp_le_length [of b n] by auto
  show "drop_bit 6 b = (2 :: u8) \<longleftrightarrow> bit b 7 \<and> \<not> bit b 6"
    by (rule top_two_bits) (simp_all add: high)
  show "drop_bit 6 (ucast b :: u32) = 2 \<longleftrightarrow> bit b 7 \<and> \<not> bit b 6"
    by (subst top_two_bits) (simp_all add: high bit_unsigned_iff)
qed

text \<open>The bits that tell the octets of the encoder apart.\<close>

lemma encoded_tags:
  "bit (ucast ((x AND 0x3F) OR 0x80) :: u8) 7" "\<not> bit (ucast ((x AND 0x3F) OR 0x80) :: u8) 6"
  "bit (ucast (x OR 0xC0) :: u8) 7" "bit (ucast (x OR 0xC0) :: u8) 6"
  "bit (ucast (x OR 0xE0) :: u8) 7" "bit (ucast (x OR 0xE0) :: u8) 6" "bit (ucast (x OR 0xE0) :: u8) 5"
  "bit (ucast (x OR 0xF0) :: u8) 7" "bit (ucast (x OR 0xF0) :: u8) 6" "bit (ucast (x OR 0xF0) :: u8) 5" "bit (ucast (x OR 0xF0) :: u8) 4"
  "bit (ucast (x OR 0xC0) :: u8) 5 \<longleftrightarrow> bit x 5" "bit (ucast (x OR 0xE0) :: u8) 4 \<longleftrightarrow> bit x 4" "bit (ucast (x OR 0xF0) :: u8) 3 \<longleftrightarrow> bit x 3"
  for x :: u32
  by (simp_all add: bit_unsigned_iff bit_or_iff bit_and_iff tag_bits and_take_bit bit_take_bit_iff)

lemma join_bits:
  "c < 0x800 \<Longrightarrow> push_bit 6 (take_bit 5 (drop_bit 6 c)) OR push_bit 0 (take_bit 6 c) = c"
  "c < 0x10000 \<Longrightarrow> push_bit 12 (take_bit 4 (drop_bit 12 c)) OR push_bit 6 (take_bit 6 (drop_bit 6 c)) OR push_bit 0 (take_bit 6 c) = c"
  "c < 0x200000 \<Longrightarrow> push_bit 18 (take_bit 3 (drop_bit 18 c)) OR push_bit 12 (take_bit 6 (drop_bit 12 c))
     OR push_bit 6 (take_bit 6 (drop_bit 6 c)) OR push_bit 0 (take_bit 6 c) = c"
  for c :: u32
proof -
  assume "c < 0x800"
  then have b: "bit c n \<Longrightarrow> n < 11" for n using small_bits [of c 11 n] by simp
  show "push_bit 6 (take_bit 5 (drop_bit 6 c)) OR push_bit 0 (take_bit 6 c) = c"
    by (rule bit_word_eqI, rename_tac n, case_tac "n < 6"; case_tac "n < 12"; case_tac "n < 18";
      auto simp: bit_or_iff bit_push_bit_iff bit_take_bit_iff bit_drop_bit_eq dest: b)
next
  assume "c < 0x10000"
  then have b: "bit c n \<Longrightarrow> n < 16" for n using small_bits [of c 16 n] by simp
  show "push_bit 12 (take_bit 4 (drop_bit 12 c)) OR push_bit 6 (take_bit 6 (drop_bit 6 c)) OR push_bit 0 (take_bit 6 c) = c"
    by (rule bit_word_eqI, rename_tac n, case_tac "n < 6"; case_tac "n < 12"; case_tac "n < 18";
      auto simp: bit_or_iff bit_push_bit_iff bit_take_bit_iff bit_drop_bit_eq dest: b)
next
  assume "c < 0x200000"
  then have b: "bit c n \<Longrightarrow> n < 21" for n using small_bits [of c 21 n] by simp
  show "push_bit 18 (take_bit 3 (drop_bit 18 c)) OR push_bit 12 (take_bit 6 (drop_bit 12 c))
     OR push_bit 6 (take_bit 6 (drop_bit 6 c)) OR push_bit 0 (take_bit 6 c) = c"
    by (rule bit_word_eqI, rename_tac n, case_tac "n < 6"; case_tac "n < 12"; case_tac "n < 18";
      auto simp: bit_or_iff bit_push_bit_iff bit_take_bit_iff bit_drop_bit_eq dest: b)
qed


lemma utf8_skip_blocks:
  "utf8_skip = replicate 192 1 @ replicate 32 2 @ replicate 16 3 @ replicate 8 4 @ replicate 4 5 @ replicate 2 6 @ replicate 2 1"
  by (simp add: utf8_skip_def numeral_eq_Suc)

lemma utf8_skip_nth:
  "n < 192 \<Longrightarrow> utf8_skip ! n = 1"
  "192 \<le> n \<Longrightarrow> n < 224 \<Longrightarrow> utf8_skip ! n = 2"
  "224 \<le> n \<Longrightarrow> n < 240 \<Longrightarrow> utf8_skip ! n = 3"
  "240 \<le> n \<Longrightarrow> n < 248 \<Longrightarrow> utf8_skip ! n = 4"
  unfolding utf8_skip_blocks by (auto simp: nth_append)

lemma unat_power_u32:
  assumes "k < 32"
  shows "unat (2 ^ k :: u32) = 2 ^ k"
proof -
  have "(2 :: nat) ^ k < 2 ^ 32" using assms by (intro power_strict_increasing) simp_all
  then have "unat (of_nat (2 ^ k) :: u32) = 2 ^ k" by (subst unat_of_nat) (simp add: take_bit_nat_eq_self)
  then show ?thesis by simp
qed

lemma or_tag:
  fixes x :: u32
  assumes "x < 2 ^ k" "k < 8" "\<And>n. bit (t :: u32) n \<Longrightarrow> k \<le> n \<and> n < 8" "unat t + 2 ^ k \<le> 256"
  shows "unat (ucast (x OR t) :: u8) = unat x + unat t"
proof -
  have "x AND t = 0"
  proof (rule bit_word_eqI)
    fix n show "bit (x AND t) n \<longleftrightarrow> bit (0 :: u32) n"
      using small_bits [of x k n] assms(1-2) assms(3) [of n] by (auto simp: bit_and_iff)
  qed
  then have "x OR t = x + t" by (simp add: disjunctive_add_eq_or)
  moreover have "unat x < 2 ^ k" using assms(1,2) by (simp add: word_less_nat_alt unat_power_u32)
  ultimately show ?thesis using assms(4) by (simp add: unat_word_ariths unsigned_ucast_eq take_bit_eq_mod)
qed

lemma unat_drop_u32: "unat (drop_bit k c) = unat c div 2 ^ k" for c :: u32
  unfolding unat_drop_bit_eq by (simp add: drop_bit_eq_div)

lemma small_drop:
  "c < 0x800 \<Longrightarrow> drop_bit 6 c < 0x20" "c < 0x10000 \<Longrightarrow> drop_bit 12 c < 0x10" "c < 0x200000 \<Longrightarrow> drop_bit 18 c < 0x8"
  for c :: u32
  unfolding word_less_nat_alt unat_drop_u32 by simp_all

lemma encoded_lead:
  "x < 0x20 \<Longrightarrow> utf8_skip ! unat (ucast (x OR 0xC0) :: u8) = 2 \<and> \<not> bit x 5"
  "x < 0x10 \<Longrightarrow> utf8_skip ! unat (ucast (x OR 0xE0) :: u8) = 3 \<and> \<not> bit x 4"
  "x < 0x8 \<Longrightarrow> utf8_skip ! unat (ucast (x OR 0xF0) :: u8) = 4 \<and> \<not> bit x 3"
  for x :: u32
proof -
  show "utf8_skip ! unat (ucast (x OR 0xC0) :: u8) = 2 \<and> \<not> bit x 5" if x: "x < 0x20"
  proof -
    have "unat (ucast (x OR 0xC0) :: u8) = unat x + 192" using or_tag [of x 5 "0xC0"] x by (fastforce simp: tag_bits)
    then show ?thesis using small_bits [of x 5 5] x by (auto simp: word_less_nat_alt intro: utf8_skip_nth)
  qed
  show "utf8_skip ! unat (ucast (x OR 0xE0) :: u8) = 3 \<and> \<not> bit x 4" if x: "x < 0x10"
  proof -
    have "unat (ucast (x OR 0xE0) :: u8) = unat x + 224" using or_tag [of x 4 "0xE0"] x by (fastforce simp: tag_bits)
    then show ?thesis using small_bits [of x 4 4] x by (auto simp: word_less_nat_alt intro: utf8_skip_nth)
  qed
  show "utf8_skip ! unat (ucast (x OR 0xF0) :: u8) = 4 \<and> \<not> bit x 3" if x: "x < 0x8"
  proof -
    have "unat (ucast (x OR 0xF0) :: u8) = unat x + 240" using or_tag [of x 3 "0xF0"] x by (fastforce simp: tag_bits)
    then show ?thesis using small_bits [of x 3 3] x by (auto simp: word_less_nat_alt intro: utf8_skip_nth)
  qed
qed

lemmas join_bits_forward = join_bits [simplified]

lemma join_bits_nested:
  "c < 0x10000 \<Longrightarrow> (push_bit 12 (take_bit 4 (drop_bit 12 c)) OR push_bit 6 (take_bit 6 (drop_bit 6 c))) OR take_bit 6 c = c"
  "c < 0x200000 \<Longrightarrow> ((push_bit 18 (take_bit 3 (drop_bit 18 c)) OR push_bit 12 (take_bit 6 (drop_bit 12 c)))
     OR push_bit 6 (take_bit 6 (drop_bit 6 c))) OR take_bit 6 c = c"
  for c :: u32
  using join_bits_forward [of c] by (simp_all add: or.assoc)

lemma join_bits_backward:
  "c < 0x800 \<Longrightarrow> take_bit 6 c OR push_bit 6 (take_bit 5 (drop_bit 6 c)) = c"
  "c < 0x10000 \<Longrightarrow> (take_bit 6 c OR push_bit 6 (take_bit 6 (drop_bit 6 c))) OR push_bit 12 (take_bit 4 (drop_bit 12 c)) = c"
  "c < 0x200000 \<Longrightarrow> ((take_bit 6 c OR push_bit 6 (take_bit 6 (drop_bit 6 c))) OR push_bit 12 (take_bit 6 (drop_bit 12 c)))
     OR push_bit 18 (take_bit 3 (drop_bit 18 c)) = c"
  for c :: u32
  using join_bits_forward [of c] by (simp_all add: or.assoc or.commute or.left_commute)

lemma prev_char8_loop_numeral:
  "prev_char8_loop (numeral k) (b # pos) = (if b AND 0xC0 \<noteq> 0x80 then Some pos else prev_char8_loop (pred_numeral k) pos)"
  by (simp add: numeral_eq_Suc)

section \<open>The octets of a code point\<close>

text \<open>C16: The octets that are written for a code point of up to 21 bits are read back as that code
  point, from either end, alone or before other text, by the reader with and without a bound; the
  number returned is their number and the one that the table gives for the first octet; and the
  moves by a character skip exactly these octets.\<close>

theorem utf8_round_trip:
  assumes "c < 0x200000"
  shows "\<exists>bs. append_utf8 out c = (out @ bs, length bs)
    \<and> next_code_point8 (bs @ rest) = Some (c, rest)
    \<and> next_code_point8_bounded (bs @ rest) = (c, rest)
    \<and> prev_code_point8 (rev bs @ before) = Some (c, before)
    \<and> required_length_of8 (hd bs) = length bs
    \<and> next_char8 (bs @ rest) = Some rest
    \<and> prev_char8 (rev bs @ before) = Some before"
proof -
  note tests = octet_tests octet_cont octet_top encoded_tags and bits = octet_bits join_bits_forward join_bits_nested join_bits_backward
  note defs = append_utf8_def next_code_point8_def next_code_point8_bounded_def prev_code_point8_def
    required_length_of8_def next_char8_def prev_char8_def advance_def
  consider (one) "c < 0x80" | (two) "\<not> c < 0x80" "c < 0x800" | (three) "\<not> c < 0x80" "\<not> c < 0x800" "c < 0x10000"
    | (four) "\<not> c < 0x80" "\<not> c < 0x800" "\<not> c < 0x10000" by blast
  then show ?thesis
  proof cases
    case one
    have "\<not> bit c 7" using small_bits [of c 7 7] one by auto
    then have low: "\<not> bit (ucast c :: u8) 7" by (simp add: bit_unsigned_iff)
    have "unat c < 128" using one by (simp add: word_less_nat_alt)
    then have num: "unat (ucast c :: u8) = unat c" by (simp add: unsigned_ucast_eq take_bit_nat_eq_self)
    have "n < 7" if "bit c n" for n using small_bits [of c 7 n] one that by simp
    then have restored: "(ucast (ucast c :: u8) :: u32) = c"
      by (intro bit_word_eqI) (fastforce simp: bit_unsigned_iff)
    have "c AND 0x80 = 0" "drop_bit 6 c \<noteq> 2"
      using octet_tests(1) [of "ucast c"] octet_top(2) [of "ucast c"] low restored by simp_all
    then show ?thesis
      using one low num restored \<open>unat c < 128\<close>
      by (intro exI [of _ "[ucast c]"]) (simp add: defs octet_cont utf8_skip_nth prev_char8_loop_numeral split: list.split)
  next
    case two
    then show ?thesis
      using encoded_lead(1) [OF small_drop(1) [OF two(2)]]
      by (intro exI [of _ "[ucast (drop_bit 6 c OR 0xC0), ucast ((c AND 0x3F) OR 0x80)]"])
         (simp add: defs tests bits utf8_skip_nth prev_char8_loop_numeral)
  next
    case three
    then show ?thesis
      using encoded_lead(2) [OF small_drop(2) [OF three(3)]]
      by (intro exI [of _ "[ucast (drop_bit 12 c OR 0xE0), ucast ((drop_bit 6 c AND 0x3F) OR 0x80),
          ucast ((c AND 0x3F) OR 0x80)]"])
         (simp add: defs tests bits utf8_skip_nth prev_char8_loop_numeral)
  next
    case four
    then show ?thesis
      using encoded_lead(3) [OF small_drop(3) [OF assms]] assms
      by (intro exI [of _ "[ucast (drop_bit 18 c OR 0xF0), ucast ((drop_bit 12 c AND 0x3F) OR 0x80),
          ucast ((drop_bit 6 c AND 0x3F) OR 0x80), ucast ((c AND 0x3F) OR 0x80)]"])
         (simp add: defs tests bits utf8_skip_nth prev_char8_loop_numeral)
  qed
qed
theorem utf8_round_trip_witness:
  "\<exists>bs. append_utf8 [0x20] 0x20AC = ([0x20] @ bs, length bs)
    \<and> next_code_point8 (bs @ [0x41]) = Some (0x20AC, [0x41])
    \<and> next_code_point8_bounded (bs @ [0x41]) = (0x20AC, [0x41])
    \<and> prev_code_point8 (rev bs @ [0x20]) = Some (0x20AC, [0x20])
    \<and> required_length_of8 (hd bs) = length bs
    \<and> next_char8 (bs @ [0x41]) = Some [0x41]
    \<and> prev_char8 (rev bs @ [0x20]) = Some [0x20]"
  by (rule utf8_round_trip) simp

section \<open>Surrogate pairs\<close>

lemma utf16_units:
  assumes "0x10000 \<le> c" "c \<le> (0x10FFFF :: u32)"
  shows "unat (ucast (0xD7C0 + drop_bit 10 c) :: u16) = 0xD7C0 + unat c div 1024"
    "unat (ucast (0xDC00 + (c AND 0x3FF)) :: u16) = 0xDC00 + unat c mod 1024"
proof -
  have le: "0x10000 \<le> unat c" "unat c \<le> 0x10FFFF" using assms by (simp_all add: word_le_nat_alt)
  then have "unat c div 1024 \<le> 0x43F" by simp
  then show "unat (ucast (0xD7C0 + drop_bit 10 c) :: u16) = 0xD7C0 + unat c div 1024"
    by (simp add: unsigned_ucast_eq unat_word_ariths unat_drop_u32 take_bit_eq_mod)
  have m: "c AND 0x3FF = take_bit 10 c" by (simp add: take_bit_eq_mask mask_eq_exp_minus_1)
  have "unat (c AND 0x3FF) = unat c mod 1024"
    by (simp add: m take_bit_eq_mod unat_mod_distrib)
  then show "unat (ucast (0xDC00 + (c AND 0x3FF)) :: u16) = 0xDC00 + unat c mod 1024"
    by (simp add: unsigned_ucast_eq unat_word_ariths take_bit_eq_mod)
qed
lemma upper_six: "u AND 0xFC00 = push_bit 10 (drop_bit 10 u)" for u :: u16
proof (rule bit_word_eqI)
  fix n assume n: "n < LENGTH(16)"
  have c: "(0xFC00 :: u16) = push_bit 10 (mask 6)" by (simp add: mask_eq_exp_minus_1)
  show "bit (u AND 0xFC00) n \<longleftrightarrow> bit (push_bit 10 (drop_bit 10 u)) n"
    unfolding c using n by (auto simp: bit_and_iff bit_push_bit_iff bit_drop_bit_eq bit_mask_iff)
qed

lemma unat_upper_six: "unat (push_bit 10 (drop_bit 10 x)) = 1024 * (unat x div 1024)" for x :: u16
proof -
  have "1024 * (unat x div 1024) < 2 ^ 16" using unsigned_less [of x, where ?'a = nat] by simp
  then show ?thesis by (simp add: push_bit_eq_mult drop_bit_eq_div unat_word_ariths unat_div_distrib)
qed

lemma surrogate_tests:
  "u AND 0xFC00 = 0xD800 \<longleftrightarrow> is_lead_surrogate u" "u AND 0xFC00 = 0xDC00 \<longleftrightarrow> is_trail_surrogate u" for u :: u16
proof -
  have inj: "push_bit 10 (drop_bit 10 u) = t \<longleftrightarrow> 1024 * (unat u div 1024) = unat t" for t :: u16
    by (simp add: word_unat_eq_iff unat_upper_six)
  have "u AND 0xFC00 = 0xD800 \<longleftrightarrow> unat u div 1024 = 54" "u AND 0xFC00 = 0xDC00 \<longleftrightarrow> unat u div 1024 = 55"
    unfolding upper_six inj by auto
  then show "u AND 0xFC00 = 0xD800 \<longleftrightarrow> is_lead_surrogate u" "u AND 0xFC00 = 0xDC00 \<longleftrightarrow> is_trail_surrogate u"
    unfolding is_lead_surrogate_def is_trail_surrogate_def lead_surrogate_min_def lead_surrogate_max_def
      trail_surrogate_min_def trail_surrogate_max_def word_le_nat_alt by auto
qed

lemma or_shift:
  fixes x y :: u32
  assumes "unat x < 2 ^ k" "unat y * 2 ^ k < 2 ^ 32" "k < 32"
  shows "unat (push_bit k y OR x) = unat y * 2 ^ k + unat x" "unat (x OR push_bit k y) = unat y * 2 ^ k + unat x"
proof -
  have small: "x < 2 ^ k"
    using assms(1,3) by (simp add: word_less_nat_alt unat_power_u32)
  have p: "unat (push_bit k y) = unat y * 2 ^ k"
    using assms(2,3) by (simp add: push_bit_eq_mult unat_word_ariths unat_power_u32)
  have "push_bit k y AND x = 0"
    by (rule bit_word_eqI) (auto simp: bit_and_iff bit_push_bit_iff dest: small_bits [OF small assms(3)])
  then have "push_bit k y OR x = push_bit k y + x" by (simp add: disjunctive_add_eq_or)
  moreover have "unat y * 2 ^ k + unat x < 2 ^ 32"
  proof -
    have split: "(2 :: nat) ^ 32 = 2 ^ (32 - k) * 2 ^ k" using assms(3) by (simp flip: power_add)
    then have "unat y + 1 \<le> 2 ^ (32 - k)" using assms(2) by (metis Suc_eq_plus1 Suc_leI mult_less_cancel2)
    then have "(unat y + 1) * 2 ^ k \<le> 2 ^ 32" unfolding split by (rule mult_le_mono1)
    then show ?thesis using assms(1) by simp
  qed
  ultimately show "unat (push_bit k y OR x) = unat y * 2 ^ k + unat x"
    by (simp add: unat_word_ariths p)
  then show "unat (x OR push_bit k y) = unat y * 2 ^ k + unat x" by (simp add: or.commute)
qed

lemma unat_ucast_u16: "unat (ucast u :: u32) = unat u" for u :: u16
  using unsigned_less [of u, where ?'a = nat] by (simp add: unsigned_ucast_eq take_bit_nat_eq_self)

lemma low_ten: "unat (c AND 0x3FF) = unat c mod 1024" for c :: u32
proof -
  have "c AND 0x3FF = take_bit 10 c" by (simp add: take_bit_eq_mask mask_eq_exp_minus_1)
  then show ?thesis by (simp add: take_bit_eq_mod unat_mod_distrib)
qed

lemma trail_test32: "ucast u AND (0xFC00 :: u32) = 0xDC00 \<longleftrightarrow> is_trail_surrogate u" for u :: u16
proof -
  have "ucast u AND (0xFC00 :: u32) = ucast (u AND 0xFC00)" by (simp add: unsigned_and_eq)
  moreover have "ucast (u AND 0xFC00) = (0xDC00 :: u32) \<longleftrightarrow> u AND 0xFC00 = 0xDC00"
    by (simp add: word_unat_eq_iff unat_ucast_u16)
  ultimately show ?thesis by (simp add: surrogate_tests)
qed

lemma lead_test32: "ucast u AND (0xFC00 :: u32) = 0xD800 \<longleftrightarrow> is_lead_surrogate u" for u :: u16
proof -
  have "ucast u AND (0xFC00 :: u32) = ucast (u AND 0xFC00)" by (simp add: unsigned_and_eq)
  moreover have "ucast (u AND 0xFC00) = (0xD800 :: u32) \<longleftrightarrow> u AND 0xFC00 = 0xD800"
    by (simp add: word_unat_eq_iff unat_ucast_u16)
  ultimately show ?thesis by (simp add: surrogate_tests)
qed

lemma read_after_lead:
  assumes "is_lead_surrogate l"
  shows "\<exists>d. next_code_point16 (l # t # rest) = Some (d, rest) \<and> unat d = unat l * 0x10000 + unat t"
proof -
  have "unat l < 2 ^ 16" "unat t < 2 ^ 16" using unsigned_less [of l, where ?'a = nat] unsigned_less [of t, where ?'a = nat] by simp_all
  then have "unat (push_bit 16 (ucast l) OR ucast t :: u32) = unat l * 0x10000 + unat t"
    using or_shift(1) [of "ucast t" 16 "ucast l"] unfolding unat_ucast_u16 by simp
  then show ?thesis using assms lead_test32 [of l] by (simp add: next_code_point16_def)
qed

lemma read_before_trail:
  assumes "is_trail_surrogate t"
  shows "\<exists>d. prev_code_point16 (t # before) = Some (d, before) \<and> unat d = 0x401 * (unat t - 0xDC00)"
proof -
  have "0xDC00 \<le> unat t" "unat t \<le> 0xDFFF"
    using assms by (simp_all add: is_trail_surrogate_def trail_surrogate_min_def trail_surrogate_max_def word_le_nat_alt)
  then have "unat t mod 1024 = unat t - 0xDC00" using mod_mult_self1 [of "unat t - 0xDC00" 55 1024] by simp
  then have low: "unat (ucast t AND (0x3FF :: u32)) = unat t - 0xDC00" unfolding low_ten unat_ucast_u16 by simp
  have "unat ((ucast t AND 0x3FF) OR push_bit 10 (ucast t AND 0x3FF) :: u32) = 0x401 * (unat t - 0xDC00)"
    using or_shift(2) [of "ucast t AND 0x3FF" 10 "ucast t AND 0x3FF"] \<open>unat t \<le> 0xDFFF\<close> unfolding low by simp
  then show ?thesis using assms trail_test32 [of t] by (simp add: prev_code_point16_def)
qed

text \<open>C29: A code point above the Basic Multilingual Plane is written as a lead and a trail
  surrogate that determine it by the formula of the standard, and the moves by a character pass the
  pair as one; but the reader returns the two units next to each other, never the code point, and
  the reader that goes backward stops between them and uses the trail surrogate twice: it finds the code
  point exactly when the ten bits of the trail are those of the lead plus 64.\<close>

theorem utf16_pair_reading:
  assumes "0x10000 \<le> c" "c \<le> max_utf16"
  shows "\<exists>l t. append_utf16 out c = (out @ [l, t], 2) \<and> is_lead_surrogate l \<and> is_trail_surrogate t
    \<and> unat c = 0x10000 + (unat l - 0xD800) * 0x400 + (unat t - 0xDC00)
    \<and> required_length_of16 l = 2 \<and> prev_char16 (t # l # before) = Some before \<and> next_char16 (l # t # rest) = Some rest
    \<and> (\<exists>d. next_code_point16 (l # t # rest) = Some (d, rest) \<and> unat d = unat l * 0x10000 + unat t \<and> d \<noteq> c)
    \<and> (\<exists>d. prev_code_point16 (t # l # before) = Some (d, l # before) \<and> unat d = 0x401 * (unat t - 0xDC00)
        \<and> (d = c \<longleftrightarrow> unat t - 0xDC00 = (unat l - 0xD800) + 64))"
proof -
  let ?l = "ucast (0xD7C0 + drop_bit 10 c) :: u16" and ?t = "ucast (0xDC00 + (c AND 0x3FF)) :: u16"
  have le: "0x10000 \<le> unat c" "unat c \<le> 0x10FFFF" using assms by (simp_all add: word_le_nat_alt max_utf16_def)
  note l = utf16_units(1) [OF assms [unfolded max_utf16_def]] and t = utf16_units(2) [OF assms [unfolded max_utf16_def]]
  have d: "64 \<le> unat c div 1024" "unat c div 1024 \<le> 0x43F"
    using div_le_mono [OF le(1), of 1024] div_le_mono [OF le(2), of 1024] by simp_all
  have lead: "is_lead_surrogate ?l" using d
    by (simp add: is_lead_surrogate_def lead_surrogate_min_def lead_surrogate_max_def word_le_nat_alt l)
  have trail: "is_trail_surrogate ?t"
    by (simp add: is_trail_surrogate_def trail_surrogate_min_def trail_surrogate_max_def word_le_nat_alt t)
  show ?thesis
  proof (rule exI [of _ ?l], rule exI [of _ ?t], intro conjI)
    show "append_utf16 out c = (out @ [?l, ?t], 2)" using assms
      by (auto simp: append_utf16_def max_bmp_def word_le_nat_alt)
    show formula: "unat c = 0x10000 + (unat ?l - 0xD800) * 0x400 + (unat ?t - 0xDC00)"
      using d unfolding l t by (simp add: algebra_simps)
    show "required_length_of16 ?l = 2" using lead by (simp add: required_length_of16_def surrogate_tests)
    show "prev_char16 (?t # ?l # before) = Some before" "next_char16 (?l # ?t # rest) = Some rest"
      using trail by (auto simp: prev_char16_def next_char16_def is_trail_surrogate_def advance_def)
    show "\<exists>d. next_code_point16 (?l # ?t # rest) = Some (d, rest) \<and> unat d = unat ?l * 0x10000 + unat ?t \<and> d \<noteq> c"
      using read_after_lead [OF lead, of ?t rest] le(2) d(1) unfolding l by fastforce
    obtain d where p: "prev_code_point16 (?t # ?l # before) = Some (d, ?l # before)" "unat d = 0x401 * (unat ?t - 0xDC00)"
      using read_before_trail [OF trail] by blast
    have arith: "0x401 * y = 0x10000 + x * 0x400 + y \<longleftrightarrow> y = x + 64" for x y :: nat by auto
    have "d = c \<longleftrightarrow> unat d = unat c" by (simp add: word_unat_eq_iff)
    also have "\<dots> \<longleftrightarrow> unat ?t - 0xDC00 = (unat ?l - 0xD800) + 64"
      unfolding p(2) formula by (rule arith)
    finally show "\<exists>d. prev_code_point16 (?t # ?l # before) = Some (d, ?l # before) \<and> unat d = 0x401 * (unat ?t - 0xDC00)
        \<and> (d = c \<longleftrightarrow> unat ?t - 0xDC00 = (unat ?l - 0xD800) + 64)"
      using p by blast
  qed (rule lead trail)+
qed

theorem utf16_pair_reading_witness:
  "\<exists>l t. append_utf16 [] 0x1F600 = ([] @ [l, t], 2) \<and> is_lead_surrogate l \<and> is_trail_surrogate t
    \<and> unat (0x1F600 :: u32) = 0x10000 + (unat l - 0xD800) * 0x400 + (unat t - 0xDC00)
    \<and> required_length_of16 l = 2 \<and> prev_char16 (t # l # []) = Some [] \<and> next_char16 (l # t # [0x41]) = Some [0x41]
    \<and> (\<exists>d. next_code_point16 (l # t # [0x41]) = Some (d, [0x41]) \<and> unat d = unat l * 0x10000 + unat t \<and> d \<noteq> 0x1F600)
    \<and> (\<exists>d. prev_code_point16 (t # l # []) = Some (d, l # []) \<and> unat d = 0x401 * (unat t - 0xDC00)
        \<and> (d = 0x1F600 \<longleftrightarrow> unat t - 0xDC00 = (unat l - 0xD800) + 64))"
  by (rule utf16_pair_reading) (simp_all add: max_utf16_def)

section \<open>Classes of units and code points\<close>

lemma tag_bits16:
  "bit (0xDC00 :: int) n \<longleftrightarrow> n = 10 \<or> n = 11 \<or> n = 12 \<or> n = 14 \<or> n = 15"
  "bit (0xFC00 :: int) n \<longleftrightarrow> n = 10 \<or> n = 11 \<or> n = 12 \<or> n = 13 \<or> n = 14 \<or> n = 15"
proof -
  have c: "(0xDC00 :: int) = push_bit 10 1 OR push_bit 11 1 OR push_bit 12 1 OR push_bit 14 1 OR push_bit 15 1"
    "(0xFC00 :: int) = push_bit 10 1 OR push_bit 11 1 OR push_bit 12 1 OR push_bit 13 1 OR push_bit 14 1 OR push_bit 15 1"
    by simp_all
  show "bit (0xDC00 :: int) n \<longleftrightarrow> n = 10 \<or> n = 11 \<or> n = 12 \<or> n = 14 \<or> n = 15"
    "bit (0xFC00 :: int) n \<longleftrightarrow> n = 10 \<or> n = 11 \<or> n = 12 \<or> n = 13 \<or> n = 14 \<or> n = 15"
    unfolding c bit_or_iff bit_push_bit_iff bit_1_iff by auto
qed

lemma top_units: "u AND 0xFC00 = 0xFC00 \<longleftrightarrow> 0xFC00 \<le> u" for u :: u16
proof -
  have "u AND 0xFC00 = 0xFC00 \<longleftrightarrow> 1024 * (unat u div 1024) = 0xFC00"
    by (simp add: upper_six word_unat_eq_iff unat_upper_six)
  then show ?thesis using unsigned_less [of u, where ?'a = nat] by (auto simp: word_le_nat_alt)
qed

lemma is_code_unit_start16_iff: "is_code_unit_start16 u \<longleftrightarrow> \<not> is_trail_surrogate u \<and> u < 0xFC00"
proof -
  have "u AND 0xDC00 = 0xDC00 \<longleftrightarrow> u AND 0xFC00 = 0xDC00 \<or> u AND 0xFC00 = 0xFC00"
    by (subst (1 2 3) mask_test) (auto simp: tag_bits16)
  then show ?thesis unfolding is_code_unit_start16_def surrogate_tests(2) top_units by auto
qed

lemma surrogate_mask: "c AND 0xFFFFF800 = 0xD800 \<longleftrightarrow> unat c div 2048 = 27" for c :: u32
proof -
  have m: "c AND 0xFFFFF800 = push_bit 11 (drop_bit 11 c)"
  proof (rule bit_word_eqI)
    fix n assume n: "n < LENGTH(32)"
    have e: "(0xFFFFF800 :: u32) = push_bit 11 (mask 21)" by (simp add: mask_eq_exp_minus_1)
    show "bit (c AND 0xFFFFF800) n \<longleftrightarrow> bit (push_bit 11 (drop_bit 11 c)) n"
      unfolding e using n by (auto simp: bit_and_iff bit_push_bit_iff bit_drop_bit_eq bit_mask_iff)
  qed
  have "2048 * (unat c div 2048) < 2 ^ 32" using unsigned_less [of c, where ?'a = nat] by simp
  then have "unat (push_bit 11 (drop_bit 11 c)) = 2048 * (unat c div 2048)"
    by (simp add: push_bit_eq_mult drop_bit_eq_div unat_word_ariths unat_div_distrib)
  then show ?thesis unfolding m by (auto simp: word_unat_eq_iff)
qed

lemma is_code_point_valid_iff: "is_code_point_valid c \<longleftrightarrow> is_in_range c \<and> \<not> is_surrogate c"
  unfolding is_code_point_valid_def is_in_range_def is_surrogate_def lead_surrogate_min_def surrogate_mask
    trail_surrogate_max_def word_le_nat_alt by auto

lemma utf8_length_agreement:
  "utf8_length_from_utf32 c = snd (append_utf8 out c) \<longleftrightarrow> c < 0x10000 \<and> \<not> (0xD800 \<le> c \<and> c < 0xE000)"
  by (cases "c < 0x80"; cases "c < 0x800"; cases "c < 0x10000"; cases "c < 0xDC00"; cases "c < 0xE000"; cases "c < 0xD800")
     (auto simp: utf8_length_from_utf32_def append_utf8_def word_less_nat_alt word_le_nat_alt)


text \<open>The mask that tests for surrogates accepts exactly the code points in range that are not
  surrogates, as the alternative in the comment does, so the checked writer refuses all others and
  leaves its output unchanged. The test for the first unit of a character is right in UTF-8 for
  every octet, but in UTF-16 it also refuses the units from FC00 on. The length that is announced for a code
  point is the number of octets that are written exactly for the code points of the Basic
  Multilingual Plane that are not surrogates.\<close>

theorem unicode_classes:
  "checked_append_utf8 out c =
     (if is_in_range c \<and> \<not> is_surrogate c then (fst (append_utf8 out c), True) else (out, False))
   \<and> (is_code_unit_start8 b \<longleftrightarrow> \<not> is_trail b)
   \<and> (is_code_unit_start16 u \<longleftrightarrow> \<not> is_trail_surrogate u \<and> u < 0xFC00)
   \<and> (utf8_length_from_utf32 c = snd (append_utf8 out c) \<longleftrightarrow> c < 0x10000 \<and> \<not> (0xD800 \<le> c \<and> c < 0xE000))"
proof (intro conjI)
  show "checked_append_utf8 out c =
     (if is_in_range c \<and> \<not> is_surrogate c then (fst (append_utf8 out c), True) else (out, False))"
    by (simp add: checked_append_utf8_def is_code_point_valid_iff)
  have "mask 8 AND b = b" by (rule bit_word_eqI) (simp add: bit_and_iff bit_mask_iff)
  then have "mask8 b = b" by (simp add: mask8_def mask_eq_exp_minus_1)
  then show "is_code_unit_start8 b \<longleftrightarrow> \<not> is_trail b"
    by (simp add: is_code_unit_start8_def is_trail_def octet_cont octet_top)
qed (rule is_code_unit_start16_iff utf8_length_agreement)+

text \<open>A text in UTF-8.\<close>

definition utf8_of :: "u32 list \<Rightarrow> u8 list" where
  "utf8_of cps = concat (map (\<lambda>c. fst (append_utf8 [] c)) cps)"

lemma utf8_of_simps [simp]: "utf8_of [] = []" "utf8_of (c # cps) = fst (append_utf8 [] c) @ utf8_of cps"
  by (simp_all add: utf8_of_def)

lemma append_utf8_not_empty: "fst (append_utf8 [] c) \<noteq> []"
  by (simp add: append_utf8_def)

text \<open>The octets of a code point, read by the reader without a bound.\<close>

lemma next_append_utf8:
  assumes "c < 0x200000"
  shows "next_code_point8 (fst (append_utf8 [] c) @ rest) = Some (c, rest)"
proof -
  note tests = octet_tests octet_cont octet_top encoded_tags and bits = octet_bits join_bits_forward join_bits_nested
  consider (one) "c < 0x80" | (two) "\<not> c < 0x80" "c < 0x800" | (three) "\<not> c < 0x80" "\<not> c < 0x800" "c < 0x10000"
    | (four) "\<not> c < 0x80" "\<not> c < 0x800" "\<not> c < 0x10000" by blast
  then show ?thesis
  proof cases
    case one
    have "\<not> bit c 7" using small_bits [of c 7 7] one by auto
    then have low: "\<not> bit (ucast c :: u8) 7" by (simp add: bit_unsigned_iff)
    have "n < 7" if "bit c n" for n using small_bits [of c 7 n] one that by simp
    then have restored: "(ucast (ucast c :: u8) :: u32) = c"
      by (intro bit_word_eqI) (fastforce simp: bit_unsigned_iff)
    have "c AND 0x80 = 0" using octet_tests(1) [of "ucast c"] low restored by simp
    then show ?thesis using one restored by (simp add: append_utf8_def next_code_point8_def)
  next
    case two
    then show ?thesis
      using encoded_lead(1) [OF small_drop(1) [OF two(2)]] by (simp add: append_utf8_def next_code_point8_def tests bits)
  next
    case three
    then show ?thesis
      using encoded_lead(2) [OF small_drop(2) [OF three(3)]] by (simp add: append_utf8_def next_code_point8_def tests bits)
  next
    case four
    then show ?thesis
      using encoded_lead(3) [OF small_drop(3) [OF assms]] assms by (simp add: append_utf8_def next_code_point8_def tests bits)
  qed
qed

end
