(* ===== verification/Hangul.thy ===== *)
theory Hangul
  imports Unicode_Codec
begin

unbundle bit_operations_syntax

text \<open>
  \<^verbatim>\<open>webpp/unicode/hangul.hpp\<close>: the arithmetic of the Hangul syllables. The constants
  are \<^verbatim>\<open>unsigned long\<close>, so an expression that uses one of them has 64 bits and
  one where they are cast to the code point type has 32. A function with a
  \<^verbatim>\<open>webpp_assume\<close> is \<^const>\<open>None\<close> where the assumption fails.
\<close>

section \<open>Constants and classes\<close>

definition hangul_syllable_base :: u64 where "hangul_syllable_base = 0xAC00"
definition hangul_leading_base :: u64 where "hangul_leading_base = 0x1100"
definition hangul_vowel_base :: u64 where "hangul_vowel_base = 0x1161"
definition hangul_trailing_base :: u64 where "hangul_trailing_base = 0x11A7"
definition hangul_leading_count :: u64 where "hangul_leading_count = 19"
definition hangul_vowel_count :: u64 where "hangul_vowel_count = 21"
definition hangul_trailing_count :: u64 where "hangul_trailing_count = 28"
definition hangul_block_count :: u64 where "hangul_block_count = hangul_vowel_count * hangul_trailing_count"
definition hangul_syllable_count :: u64 where "hangul_syllable_count = hangul_leading_count * hangul_block_count"

definition is_hangul_code_point :: "u32 \<Rightarrow> bool" where
  "is_hangul_code_point code_point \<longleftrightarrow>
     code_point \<ge> ucast hangul_syllable_base \<and> code_point < ucast (hangul_syllable_base + hangul_syllable_count)"

definition is_hangul_leading :: "u32 \<Rightarrow> bool" where
  "is_hangul_leading code_point \<longleftrightarrow>
     code_point \<ge> ucast hangul_leading_base \<and> code_point < ucast (hangul_leading_base + hangul_leading_count)"

definition is_hangul_trailing :: "u32 \<Rightarrow> bool" where
  "is_hangul_trailing code_point \<longleftrightarrow>
     code_point \<ge> ucast hangul_trailing_base \<and> code_point < ucast (hangul_trailing_base + hangul_trailing_count)"

definition is_hangul_vowel :: "u32 \<Rightarrow> bool" where
  "is_hangul_vowel code_point \<longleftrightarrow>
     code_point \<ge> ucast hangul_vowel_base \<and> code_point < ucast (hangul_vowel_base + hangul_vowel_count)"

section \<open>Decomposition\<close>

definition hangul_decompose_length_utf32 :: "u32 \<Rightarrow> nat option" where
  "hangul_decompose_length_utf32 code_point =
     (if \<not> is_hangul_code_point code_point then None
      else if (ucast code_point - hangul_syllable_base) mod hangul_trailing_count \<noteq> 0 then Some 3
      else Some 2)"

definition hangul_decompose_length_utf8 :: "u32 \<Rightarrow> nat option" where
  "hangul_decompose_length_utf8 code_point = map_option (\<lambda>n. n * 3) (hangul_decompose_length_utf32 code_point)"

text \<open>The template over the character type chooses by the type.\<close>

definition hangul_decompose_length :: "bool \<Rightarrow> u32 \<Rightarrow> nat option" where
  "hangul_decompose_length is_utf8 code_point =
     (if is_utf8 then hangul_decompose_length_utf8 code_point else hangul_decompose_length_utf32 code_point)"

record decomposed_hangul_code_point =
  leading :: u32
  vowel :: u32
  trailing :: u32

definition invalid_trailing :: u32 where "invalid_trailing = ucast hangul_trailing_base"

definition decomposed_hangul :: "u32 \<Rightarrow> decomposed_hangul_code_point" where
  "decomposed_hangul code_point =
     (let pos = ucast code_point - hangul_syllable_base;
          leading_pos = pos div hangul_block_count;
          vowel_pos = (pos mod hangul_block_count) div hangul_trailing_count;
          trailing_pos = pos mod hangul_trailing_count in
      \<lparr> leading = ucast (hangul_leading_base + leading_pos),
        vowel = ucast (hangul_vowel_base + vowel_pos),
        trailing = (if trailing_pos \<noteq> 0 then ucast (hangul_trailing_base + trailing_pos) else invalid_trailing) \<rparr>)"

text \<open>The function is a template over the output: \<open>app\<close> is \<open>unchecked::append\<close> for
  its character type.\<close>

definition decompose_hangul :: "('o \<Rightarrow> u32 \<Rightarrow> 'o \<times> nat) \<Rightarrow> 'o \<Rightarrow> u32 \<Rightarrow> 'o \<times> nat" where
  "decompose_hangul app out code_point =
     (let d = decomposed_hangul code_point;
          (out, n1) = app out (leading d);
          (out, n2) = app out (vowel d) in
      if trailing d \<noteq> invalid_trailing then
        (let (out, n3) = app out (trailing d) in (out, n1 + n2 + n3))
      else (out, n1 + n2))"

section \<open>Composition\<close>

definition compose_hangul :: "u32 \<Rightarrow> u32 \<Rightarrow> u32" where
  "compose_hangul lhs rhs =
     (if is_hangul_leading lhs \<and> is_hangul_vowel rhs then
        (let leading_pos = lhs - ucast hangul_leading_base;
             vowel_pos = rhs - ucast hangul_vowel_base;
             leading_vowel_pos = leading_pos * ucast hangul_block_count + vowel_pos * ucast hangul_trailing_count in
         ucast hangul_syllable_base + leading_vowel_pos)
      else if is_hangul_code_point lhs
            \<and> (lhs - ucast hangul_syllable_base) mod ucast hangul_trailing_count = 0
            \<and> is_hangul_trailing rhs then
        lhs + rhs - ucast hangul_trailing_base
      else 0)"

section \<open>The same over the natural numbers\<close>

lemmas hangul_constants = hangul_syllable_base_def hangul_leading_base_def hangul_vowel_base_def
  hangul_trailing_base_def hangul_leading_count_def hangul_vowel_count_def hangul_trailing_count_def
  hangul_block_count_def hangul_syllable_count_def invalid_trailing_def

lemma hangul_classes:
  "is_hangul_code_point c \<longleftrightarrow> 0xAC00 \<le> unat c \<and> unat c < 0xAC00 + 11172"
  "is_hangul_leading c \<longleftrightarrow> 0x1100 \<le> unat c \<and> unat c < 0x1100 + 19"
  "is_hangul_vowel c \<longleftrightarrow> 0x1161 \<le> unat c \<and> unat c < 0x1161 + 21"
  "is_hangul_trailing c \<longleftrightarrow> 0x11A7 \<le> unat c \<and> unat c < 0x11A7 + 28"
  by (simp_all add: is_hangul_code_point_def is_hangul_leading_def is_hangul_vowel_def is_hangul_trailing_def
      hangul_constants word_le_nat_alt word_less_nat_alt)

lemma unat_ucast_u32: "unat (ucast c :: u64) = unat c" for c :: u32
  using unsigned_less [of c, where ?'a = nat] by (simp add: unsigned_ucast_eq take_bit_nat_eq_self)

lemma unat_ucast_down: "unat w < 2 ^ 32 \<Longrightarrow> unat (ucast w :: u32) = unat w" for w :: u64
  by (simp add: unsigned_ucast_eq take_bit_nat_eq_self)

lemma syllable_position:
  assumes "is_hangul_code_point c"
  shows "unat (ucast c - hangul_syllable_base) = unat c - 0xAC00"
  using assms by (simp add: hangul_classes hangul_syllable_base_def unat_sub word_le_nat_alt unat_ucast_u32)

lemma unat_base_plus: "unat b + unat w < 2 ^ 32 \<Longrightarrow> unat (ucast (b + w) :: u32) = unat b + unat w" for b w :: u64
  by (subst unat_ucast_down) (simp_all add: unat_word_ariths)

lemma decomposed_parts:
  assumes "is_hangul_code_point c"
  shows "unat (leading (decomposed_hangul c)) = 0x1100 + (unat c - 0xAC00) div 588"
    "unat (vowel (decomposed_hangul c)) = 0x1161 + (unat c - 0xAC00) mod 588 div 28"
    "unat (trailing (decomposed_hangul c)) = 0x11A7 + (unat c - 0xAC00) mod 28"
proof -
  define p where "p = ucast c - hangul_syllable_base"
  define n where "n = unat c - 0xAC00"
  have p: "unat p = n" using syllable_position [OF assms] by (simp add: p_def n_def)
  have small: "n < 11172" using assms by (simp add: hangul_classes less_diff_conv2 n_def)
  have parts: "unat (p div 588) = n div 588" "unat (p mod 588 div 28) = n mod 588 div 28" "unat (p mod 28) = n mod 28"
    by (simp_all add: unat_div_distrib unat_mod_distrib p)
  have bounds: "n div 588 < 19" "n mod 588 div 28 < 21" "n mod 28 < 28"
    using small div_less_iff_less_mult [of 28 "n mod 588" 21] by simp_all
  have d: "leading (decomposed_hangul c) = ucast (hangul_leading_base + p div 588)"
    "vowel (decomposed_hangul c) = ucast (hangul_vowel_base + p mod 588 div 28)"
    "trailing (decomposed_hangul c) = ucast (hangul_trailing_base + p mod 28)"
    by (simp_all add: decomposed_hangul_def Let_def p_def hangul_block_count_def hangul_vowel_count_def
        hangul_trailing_count_def invalid_trailing_def)
  show "unat (leading (decomposed_hangul c)) = 0x1100 + (unat c - 0xAC00) div 588"
    unfolding d n_def [symmetric] by (subst unat_base_plus) (use bounds in \<open>simp_all add: parts hangul_leading_base_def\<close>)
  show "unat (vowel (decomposed_hangul c)) = 0x1161 + (unat c - 0xAC00) mod 588 div 28"
    unfolding d n_def [symmetric] by (subst unat_base_plus) (use bounds in \<open>simp_all add: parts hangul_vowel_base_def\<close>)
  show "unat (trailing (decomposed_hangul c)) = 0x11A7 + (unat c - 0xAC00) mod 28"
    unfolding d n_def [symmetric] by (subst unat_base_plus) (use bounds in \<open>simp_all add: parts hangul_trailing_base_def\<close>)
qed

lemma compose_pair:
  assumes "is_hangul_leading l" "is_hangul_vowel v"
  shows "unat (compose_hangul l v) = 0xAC00 + (unat l - 0x1100) * 588 + (unat v - 0x1161) * 28"
proof -
  define a b where "a = l - 0x1100" and "b = v - 0x1161"
  have num: "unat a = unat l - 0x1100" "unat b = unat v - 0x1161"
    using assms by (simp_all add: hangul_classes unat_sub word_le_nat_alt a_def b_def)
  have "unat a < 19" "unat b < 21" using assms unfolding num by (auto simp: hangul_classes)
  then have "unat (0xAC00 + (a * 588 + b * 28)) = 0xAC00 + unat a * 588 + unat b * 28"
    by (simp add: unat_word_ariths)
  moreover have "compose_hangul l v = 0xAC00 + (a * 588 + b * 28)"
    using assms unfolding a_def b_def by (simp add: compose_hangul_def hangul_constants)
  ultimately show ?thesis by (simp add: num)
qed

lemma compose_third:
  assumes "is_hangul_code_point c" "(unat c - 0xAC00) mod 28 = 0" "is_hangul_trailing t"
  shows "unat (compose_hangul c t) = unat c + (unat t - 0x11A7)"
proof -
  have "unat (c - 0xAC00) = unat c - 0xAC00" using assms(1) by (simp add: hangul_classes unat_sub word_le_nat_alt)
  then have m: "(c - 0xAC00) mod 28 = 0" using assms(2) by (simp add: word_unat_eq_iff unat_mod_distrib)
  have n: "\<not> is_hangul_leading c" using assms(1) by (simp add: hangul_classes)
  have "unat (c + t) = unat c + unat t" using assms(1,3) by (simp add: hangul_classes unat_word_ariths)
  then have "unat (c + t - 0x11A7) = unat c + (unat t - 0x11A7)"
    using assms(3) by (simp add: hangul_classes unat_sub word_le_nat_alt)
  then show ?thesis using assms(1,3) n m by (simp add: compose_hangul_def hangul_constants)
qed


section \<open>Properties\<close>

lemma decomposed_classes:
  assumes "is_hangul_code_point c"
  shows "is_hangul_leading (leading (decomposed_hangul c))" "is_hangul_vowel (vowel (decomposed_hangul c))"
    "is_hangul_trailing (trailing (decomposed_hangul c))"
proof -
  have "(unat c - 0xAC00) div 588 < 19" "(unat c - 0xAC00) mod 588 div 28 < 21"
    using assms div_less_iff_less_mult [of 28 "(unat c - 0xAC00) mod 588" 21] by (auto simp: hangul_classes)
  then show "is_hangul_leading (leading (decomposed_hangul c))" "is_hangul_vowel (vowel (decomposed_hangul c))"
    "is_hangul_trailing (trailing (decomposed_hangul c))"
    using assms by (simp_all add: hangul_classes(2-4) decomposed_parts)
qed

lemma compose_leading_vowel:
  assumes "is_hangul_code_point c"
  shows "unat (compose_hangul (leading (decomposed_hangul c)) (vowel (decomposed_hangul c)))
    = unat c - (unat c - 0xAC00) mod 28"
proof -
  define n where "n = unat c - 0xAC00"
  have c: "unat c = 0xAC00 + n" using assms by (simp add: n_def hangul_classes)
  have "n mod 588 mod 28 = n mod 28" by (rule mod_mod_cancel) simp
  then have "n div 588 * 588 + n mod 588 div 28 * 28 + n mod 28 = n" by (metis add.assoc div_mult_mod_eq)
  then show ?thesis
    using compose_pair [OF decomposed_classes(1,2) [OF assms]] mod_less_eq_dividend [of n 28]
    by (simp add: decomposed_parts [OF assms] c del: mod_less_eq_dividend) linarith
qed

text \<open>C24: A syllable is decomposed into a leading consonant, a vowel and perhaps a trailing consonant.
  What is written is two or three code points, as many as the length function says, and composing
  them in order gives back the syllable.\<close>

theorem hangul_round_trip:
  assumes "is_hangul_code_point c"
  shows "\<exists>l v. is_hangul_leading l \<and> is_hangul_vowel v \<and>
    (decompose_hangul append_utf32 out c = (out @ [l, v], 2) \<and> hangul_decompose_length_utf32 c = Some 2
       \<and> compose_hangul l v = c
     \<or> (\<exists>t. decompose_hangul append_utf32 out c = (out @ [l, v, t], 3) \<and> hangul_decompose_length_utf32 c = Some 3
       \<and> is_hangul_trailing t \<and> compose_hangul (compose_hangul l v) t = c))"
proof -
  let ?d = "decomposed_hangul c" and ?n = "unat c - 0xAC00"
  note cls = decomposed_classes [OF assms]
  have len: "hangul_decompose_length_utf32 c = Some (if ?n mod 28 = 0 then 2 else 3)"
    using assms syllable_position [OF assms]
    by (simp add: hangul_decompose_length_utf32_def hangul_trailing_count_def word_unat_eq_iff unat_mod_distrib)
  have last: "trailing ?d = invalid_trailing \<longleftrightarrow> ?n mod 28 = 0"
    by (simp add: word_unat_eq_iff decomposed_parts [OF assms] hangul_constants)
  have lv: "unat (compose_hangul (leading ?d) (vowel ?d)) = unat c - ?n mod 28"
    by (rule compose_leading_vowel [OF assms])
  show ?thesis
  proof (cases "?n mod 28 = 0")
    case True
    then have "compose_hangul (leading ?d) (vowel ?d) = c" using lv by (simp add: word_unat_eq_iff)
    then show ?thesis
      by - (rule exI [where x = "leading ?d"], rule exI [where x = "vowel ?d"],
          use cls True len last in \<open>simp add: decompose_hangul_def append_utf32_def Let_def\<close>)
  next
    case False
    let ?lv = "compose_hangul (leading ?d) (vowel ?d)"
    have c: "unat c = 0xAC00 + ?n" "?n < 11172" using assms by (auto simp: hangul_classes)
    then have base: "unat ?lv = 0xAC00 + 28 * (?n div 28)" using lv by (simp add: minus_mod_eq_mult_div [symmetric])
    then have "is_hangul_code_point ?lv" "(unat ?lv - 0xAC00) mod 28 = 0"
      using c by (auto simp: hangul_classes)
    then have "unat (compose_hangul ?lv (trailing ?d)) = unat c"
      using compose_third [of ?lv "trailing ?d"] cls(3) base c
      by (simp add: decomposed_parts [OF assms])
    then have "compose_hangul ?lv (trailing ?d) = c" by (simp add: word_unat_eq_iff)
    then show ?thesis
      by - (rule exI [where x = "leading ?d"], rule exI [where x = "vowel ?d"],
          use cls False len last in \<open>simp add: decompose_hangul_def append_utf32_def Let_def\<close>)
  qed
qed

theorem hangul_round_trip_witness:
  "\<exists>l v. is_hangul_leading l \<and> is_hangul_vowel v \<and>
    (decompose_hangul append_utf32 [] 0xAC01 = ([] @ [l, v], 2) \<and> hangul_decompose_length_utf32 0xAC01 = Some 2
       \<and> compose_hangul l v = 0xAC01
     \<or> (\<exists>t. decompose_hangul append_utf32 [] 0xAC01 = ([] @ [l, v, t], 3) \<and> hangul_decompose_length_utf32 0xAC01 = Some 3
       \<and> is_hangul_trailing t \<and> compose_hangul (compose_hangul l v) t = 0xAC01))"
  by (rule hangul_round_trip) (simp add: hangul_classes)

text \<open>In UTF-8 each part has three octets.\<close>

lemma append_utf8_jamo:
  "0x800 \<le> unat c \<Longrightarrow> unat c < 0x10000 \<Longrightarrow> \<exists>bs. \<forall>out. append_utf8 out c = (out @ bs, 3)"
  by (simp add: append_utf8_def word_less_nat_alt)

lemma hangul_length_utf8:
  assumes "is_hangul_code_point c"
  shows "hangul_decompose_length_utf8 c = Some (snd (decompose_hangul append_utf8 out c))"
proof -
  obtain l where l: "append_utf8 out (leading (decomposed_hangul c)) = (out @ l, 3)" for out
    using append_utf8_jamo decomposed_classes(1) [OF assms] by (fastforce simp: hangul_classes)
  obtain v where v: "append_utf8 out (vowel (decomposed_hangul c)) = (out @ v, 3)" for out
    using append_utf8_jamo decomposed_classes(2) [OF assms] by (fastforce simp: hangul_classes)
  obtain t where t: "append_utf8 out (trailing (decomposed_hangul c)) = (out @ t, 3)" for out
    using append_utf8_jamo decomposed_classes(3) [OF assms] by (fastforce simp: hangul_classes)
  have last: "trailing (decomposed_hangul c) = invalid_trailing \<longleftrightarrow> (unat c - 0xAC00) mod 28 = 0"
    by (simp add: word_unat_eq_iff decomposed_parts [OF assms] hangul_constants)
  have len: "(ucast c - hangul_syllable_base) mod 28 = 0 \<longleftrightarrow> (unat c - 0xAC00) mod 28 = 0"
    by (simp add: syllable_position [OF assms] word_unat_eq_iff unat_mod_distrib)
  show ?thesis using assms
    by (simp add: hangul_decompose_length_utf8_def hangul_decompose_length_utf32_def decompose_hangul_def Let_def
        last len l v t hangul_trailing_count_def)
qed

text \<open>Two code points compose exactly when they are a leading consonant and a vowel, or a syllable
  without a trailing consonant and a code point of the range of trailing consonants, and the result
  is always a syllable. That range begins with a code point that is no consonant, with which a
  syllable composes to itself.\<close>

theorem compose_hangul_iff:
  "(compose_hangul l r \<noteq> 0 \<longleftrightarrow> is_hangul_leading l \<and> is_hangul_vowel r
     \<or> is_hangul_code_point l \<and> (unat l - 0xAC00) mod 28 = 0 \<and> is_hangul_trailing r)
   \<and> (compose_hangul l r = 0 \<or> is_hangul_code_point (compose_hangul l r))
   \<and> compose_hangul (compose_hangul 0x1100 0x1161) 0x11A7 = compose_hangul 0x1100 0x1161"
proof (intro conjI)
  have first: "is_hangul_code_point (compose_hangul l r)" if "is_hangul_leading l" "is_hangul_vowel r"
  proof -
    have "(unat l - 0x1100) * 588 + (unat r - 0x1161) * 28 < 11172" using that by (auto simp: hangul_classes)
    then show ?thesis using compose_pair [OF that] by (simp add: hangul_classes(1))
  qed
  have second: "is_hangul_code_point (compose_hangul l r)"
    if "is_hangul_code_point l" "(unat l - 0xAC00) mod 28 = 0" "is_hangul_trailing r"
  proof -
    obtain k where "unat l - 0xAC00 = 28 * k" using \<open>(unat l - 0xAC00) mod 28 = 0\<close> by (auto elim: dvdE)
    then have "unat l - 0xAC00 + 28 \<le> 11172" using that(1) by (auto simp: hangul_classes)
    then show ?thesis using that compose_third [OF that] by (auto simp: hangul_classes)
  qed
  have none: "compose_hangul l r = 0" if "\<not> (is_hangul_leading l \<and> is_hangul_vowel r)"
    "\<not> (is_hangul_code_point l \<and> (unat l - 0xAC00) mod 28 = 0 \<and> is_hangul_trailing r)"
  proof -
    have "(l - ucast hangul_syllable_base) mod ucast hangul_trailing_count = 0 \<longleftrightarrow> (unat l - 0xAC00) mod 28 = 0"
      if "is_hangul_code_point l"
      using that by (simp add: hangul_constants word_unat_eq_iff unat_mod_distrib hangul_classes unat_sub word_le_nat_alt)
    then show ?thesis using that unfolding compose_hangul_def by meson
  qed
  have zero: "\<not> is_hangul_code_point 0" by (simp add: hangul_classes)
  show "compose_hangul l r \<noteq> 0 \<longleftrightarrow> is_hangul_leading l \<and> is_hangul_vowel r
     \<or> is_hangul_code_point l \<and> (unat l - 0xAC00) mod 28 = 0 \<and> is_hangul_trailing r"
    using first second none zero by metis
  show "compose_hangul l r = 0 \<or> is_hangul_code_point (compose_hangul l r)"
    using first second none by metis
  show "compose_hangul (compose_hangul 0x1100 0x1161) 0x11A7 = compose_hangul 0x1100 0x1161"
    by (simp add: compose_hangul_def hangul_classes hangul_constants)
qed

end
