(* ===== verification/Code_Point_Swap.thy ===== *)
theory Code_Point_Swap
  imports Unicode_Codec
begin

text \<open>
  \<open>swap_code_points\<close> of \<^verbatim>\<open>webpp/unicode/unicode.hpp\<close> for UTF-8. The two
  algorithms of the standard library that it calls are written out on lists with positions;
  \<^const>\<open>None\<close> is a call whose precondition fails: a position out of the list, two
  ranges to be swapped that overlap, or a rotation whose middle is not between its ends.
\<close>

section \<open>Two algorithms of the standard library\<close>

definition swap_ranges :: "nat \<Rightarrow> nat \<Rightarrow> nat \<Rightarrow> 'a list \<Rightarrow> 'a list option" where
  "swap_ranges first1 last1 first2 str =
     (let n = last1 - first1 in
      if first1 \<le> last1 \<and> last1 \<le> length str \<and> first2 + n \<le> length str \<and> (last1 \<le> first2 \<or> first2 + n \<le> first1) then
        Some (map (\<lambda>i. str ! (if first1 \<le> i \<and> i < last1 then first2 + (i - first1)
                              else if first2 \<le> i \<and> i < first2 + n then first1 + (i - first2) else i)) [0..<length str])
      else None)"

definition rotate_range :: "nat \<Rightarrow> nat \<Rightarrow> nat \<Rightarrow> 'a list \<Rightarrow> 'a list option" where
  "rotate_range first middle final str =
     (if first \<le> middle \<and> middle \<le> final \<and> final \<le> length str then
        Some (take first str @ drop middle (take final str) @ drop first (take middle str) @ drop final str)
      else None)"

section \<open>The swap\<close>

definition swap_code_points8 :: "u8 list \<Rightarrow> nat \<Rightarrow> nat \<Rightarrow> u8 list option" where
  "swap_code_points8 str lhs rhs =
     (let (lhs, rhs) = (if lhs > rhs then (rhs, lhs) else (lhs, rhs)) in
      do {
        l \<leftarrow> load str lhs;
        r \<leftarrow> load str rhs;
        let lhs_length = required_length_of8 l;
        let rhs_length = required_length_of8 r;
        str \<leftarrow> swap_ranges lhs (lhs + rhs_length) rhs str;
        if lhs_length = rhs_length then Some str
        else
          (let middle = (if lhs_length > rhs_length then lhs else rhs) + lhs_length in
           rotate_range (lhs + rhs_length) middle (rhs + rhs_length) str)
      })"

section \<open>Lists in pieces\<close>

lemma map_upt_nth: "n = length ys \<Longrightarrow> (\<And>i. i < n \<Longrightarrow> f i = ys ! i) \<Longrightarrow> map f [0..<n] = ys"
  by (auto intro: nth_equalityI)

lemma swap_ranges_pieces:
  assumes "length X = length Y"
  shows "swap_ranges (length A) (length A + length X) (length A + length X + length G) (A @ X @ G @ Y @ B)
    = Some (A @ Y @ G @ X @ B)"
proof -
  let ?a = "length A" and ?x = "length X" and ?g = "length G"
  let ?p = "\<lambda>i. if ?a \<le> i \<and> i < ?a + ?x then ?a + ?x + ?g + (i - ?a)
      else if ?a + ?x + ?g \<le> i \<and> i < ?a + ?x + ?g + ?x then ?a + (i - (?a + ?x + ?g)) else i"
  have at: "(A @ X @ G @ Y @ B) ! ?p i = (A @ Y @ G @ X @ B) ! i" if "i < length (A @ X @ G @ Y @ B)" for i
  proof -
    consider "i < ?a" | j where "i = ?a + j" "j < ?x" | j where "i = ?a + (?x + j)" "j < ?g"
      | j where "i = ?a + (?x + (?g + j))" "j < ?x" | j where "i = ?a + (?x + (?g + (?x + j)))"
      by (metis add.assoc le_add_diff_inverse linorder_not_less nat_add_left_cancel_less)
    then show ?thesis
    proof cases
      case 1 then show ?thesis by (simp add: nth_append)
    next
      case 2 then show ?thesis using assms by (simp add: nth_append)
    next
      case 3 then show ?thesis using assms by (simp add: nth_append)
    next
      case 4 then show ?thesis using assms by (simp add: nth_append)
    next
      case 5 then show ?thesis using assms by (simp add: nth_append)
    qed
  qed
  have "map (\<lambda>i. (A @ X @ G @ Y @ B) ! ?p i) [0..<length (A @ X @ G @ Y @ B)] = A @ Y @ G @ X @ B"
  proof (rule map_upt_nth)
    show "length (A @ X @ G @ Y @ B) = length (A @ Y @ G @ X @ B)" using assms by simp
  qed (rule at)
  moreover have "swap_ranges ?a (?a + ?x) (?a + ?x + ?g) (A @ X @ G @ Y @ B)
      = Some (map (\<lambda>i. (A @ X @ G @ Y @ B) ! ?p i) [0..<length (A @ X @ G @ Y @ B)])"
    unfolding swap_ranges_def Let_def add_diff_cancel_left' by (rule if_P) (use assms in simp)
  ultimately show ?thesis by (simp only:)
qed

lemma rotate_range_pieces:
  "rotate_range (length A) (length A + length X) (length A + length X + length Y) (A @ X @ Y @ B) = Some (A @ Y @ X @ B)"
  by (simp add: rotate_range_def)


lemma swap_ranges_overlap: "first1 < last1 \<Longrightarrow> first1 \<le> first2 \<Longrightarrow> first2 < last1 \<Longrightarrow> swap_ranges first1 last1 first2 str = None"
  by (auto simp: swap_ranges_def Let_def)

text \<open>C27: Two characters of UTF-8 that stand apart are exchanged, whatever their lengths and the
  order of the positions, when the first one and what is between them are as long as the second; a
  shorter first character next to a longer second one gives a swap of overlapping ranges.\<close>

theorem swap_code_points8_correct:
  fixes A L G R B :: "u8 list"
  assumes "L \<noteq> []" "R \<noteq> []" "required_length_of8 (hd L) = length L" "required_length_of8 (hd R) = length R"
  defines "str \<equiv> A @ L @ G @ R @ B" and "lhs \<equiv> length A" and "rhs \<equiv> length A + length L + length G"
  shows "swap_code_points8 str lhs rhs = (if length R \<le> length L + length G then Some (A @ R @ G @ L @ B) else None)
    \<and> swap_code_points8 str rhs lhs = swap_code_points8 str lhs rhs"
proof (intro conjI)
  have pos: "lhs < rhs" using assms(1) by (simp add: lhs_def rhs_def)
  then show "swap_code_points8 str rhs lhs = swap_code_points8 str lhs rhs" by (simp add: swap_code_points8_def)
  have loads: "load str lhs = Some (hd L)" "load str rhs = Some (hd R)"
    using assms(1,2) by (auto simp: str_def lhs_def rhs_def load_def nth_append hd_conv_nth)
  have unfolded: "swap_code_points8 str lhs rhs = Option.bind (swap_ranges lhs (lhs + length R) rhs str) (\<lambda>str.
      if length L = length R then Some str
      else rotate_range (lhs + length R) ((if length L > length R then lhs else rhs) + length L) (rhs + length R) str)"
    using pos loads assms(3,4) by (simp add: swap_code_points8_def Let_def cong: if_cong)
  consider (overlap) "length L + length G < length R" | (longer) "length R < length L"
    | (equal) "length R = length L" | (shorter) "length L < length R" "length R \<le> length L + length G" by linarith
  then show "swap_code_points8 str lhs rhs = (if length R \<le> length L + length G then Some (A @ R @ G @ L @ B) else None)"
  proof cases
    case overlap
    then have "swap_ranges lhs (lhs + length R) rhs str = None" using assms(2) by (intro swap_ranges_overlap) (simp_all add: lhs_def rhs_def)
    then show ?thesis using overlap unfolding unfolded by simp
  next
    case longer
    define L1 L2 where "L1 = take (length R) L" and "L2 = drop (length R) L"
    have L: "L = L1 @ L2" "length L1 = length R" using longer by (simp_all add: L1_def L2_def)
    have "swap_ranges lhs (lhs + length R) rhs str = Some (A @ R @ L2 @ G @ L1 @ B)"
      using swap_ranges_pieces [of L1 R A "L2 @ G" B] by (simp add: str_def lhs_def rhs_def L ac_simps)
    moreover have "rotate_range (lhs + length R) (lhs + length L) (rhs + length R) (A @ R @ L2 @ G @ L1 @ B) = Some (A @ R @ G @ L @ B)"
      using rotate_range_pieces [of "A @ R" L2 "G @ L1" B] by (simp add: lhs_def rhs_def L ac_simps)
    ultimately show ?thesis using longer unfolding unfolded by simp
  next
    case equal
    then show ?thesis using swap_ranges_pieces [of L R A G B] unfolding unfolded by (simp add: str_def lhs_def rhs_def)
  next
    case shorter
    define k where "k = length R - length L"
    define G1 G2 where "G1 = take k G" and "G2 = drop k G"
    have G: "G = G1 @ G2" "length G1 = k" "length R = length L + k" using shorter by (simp_all add: G1_def G2_def k_def)
    have "swap_ranges lhs (lhs + length R) rhs str = Some (A @ R @ G2 @ L @ G1 @ B)"
      using swap_ranges_pieces [of "L @ G1" R A G2 B] by (simp add: str_def lhs_def rhs_def G ac_simps)
    moreover have "rotate_range (lhs + length R) (rhs + length L) (rhs + length R) (A @ R @ G2 @ L @ G1 @ B) = Some (A @ R @ G @ L @ B)"
      using rotate_range_pieces [of "A @ R" "G2 @ L" G1 B] by (simp add: lhs_def rhs_def G ac_simps)
    ultimately show ?thesis using shorter unfolding unfolded by simp
  qed
qed

theorem swap_code_points8_correct_witness:
  "swap_code_points8 ([0x41] @ [0xC3, 0xA9] @ [0x42] @ [0xE2, 0x82, 0xAC] @ []) (length [0x41 :: u8])
      (length [0x41 :: u8] + length [0xC3, 0xA9 :: u8] + length [0x42 :: u8])
    = (if length [0xE2, 0x82, 0xAC :: u8] \<le> length [0xC3, 0xA9 :: u8] + length [0x42 :: u8]
       then Some ([0x41] @ [0xE2, 0x82, 0xAC] @ [0x42] @ [0xC3, 0xA9] @ []) else None)"
  by (rule swap_code_points8_correct [THEN conjunct1]) (simp_all add: required_length_of8_def utf8_skip_def)

lemma swap_adjacent_short_first: "swap_code_points8 [0x61, 0xCC, 0x81] 0 1 = None"
  by (simp add: swap_code_points8_def swap_ranges_def required_length_of8_def utf8_skip_def)

end
