(* ===== verification/Normalization.thy ===== *)
theory Normalization
  imports Unicode_Utf Ccc_Tables "HOL-Library.Multiset"
begin

unbundle bit_operations_syntax

text \<open>
  \<^verbatim>\<open>webpp/unicode/normalization.hpp\<close>: the canonical combining class of a code
  point, that is looked up in the two tables of \<^verbatim>\<open>ccc_tables.hpp\<close>, and the
  canonical ordering of a text of UTF-32. The decomposition and the composition are in theories of their own.
\<close>

section \<open>The canonical combining class\<close>

definition trailing_zero_cccs :: u32 where "trailing_zero_cccs = 0x1E980"

definition ccc_get_position :: "nat \<Rightarrow> u32 \<Rightarrow> nat" where
  "ccc_get_position pos request_position = (pos + unat (request_position AND 0x7F)) mod 2 ^ 16"

text \<open>The lookup with every access to a table checked.\<close>

definition ccc_lookup :: "u32 \<Rightarrow> nat option" where
  "ccc_lookup code_point =
     (if code_point \<ge> trailing_zero_cccs then Some 0
      else do {
        code \<leftarrow> load ccc_indices (unat (drop_bit 7 code_point));
        load ccc_values (ccc_get_position code code_point)
      })"

definition ccc_of :: "u32 \<Rightarrow> nat" where
  "ccc_of code_point = the (ccc_lookup code_point)"

section \<open>The tables\<close>

lemma table_lengths: "length ccc_indices = 979" "length ccc_values = 8176"
  by (simp_all add: ccc_indices_def ccc_values_def ccc_values_0_def ccc_values_1_def ccc_values_2_def ccc_values_3_def ccc_values_4_def ccc_values_5_def ccc_values_6_def ccc_values_7_def ccc_values_8_def ccc_values_9_def ccc_values_10_def ccc_values_11_def ccc_indices_0_def ccc_indices_1_def ccc_indices_2_def ccc_indices_3_def)

lemma indices_bounded: "list_all (\<lambda>pos. pos \<le> 8048) ccc_indices"
  by (simp add: ccc_indices_def ccc_indices_0_def ccc_indices_1_def ccc_indices_2_def ccc_indices_3_def)

text \<open>C28: The lookup of the combining class never reads outside of one of the two tables, whatever the
  code point, and the position that it computes fits into its 16 bits.\<close>

theorem ccc_lookup_in_bounds:
  "ccc_lookup code_point = Some (ccc_of code_point) \<and>
   (if code_point < trailing_zero_cccs
    then ccc_get_position (ccc_indices ! unat (drop_bit 7 code_point)) code_point
      = ccc_indices ! unat (drop_bit 7 code_point) + unat code_point mod 128
    else ccc_of code_point = 0)"
proof (intro conjI)
  have mask: "code_point AND 0x7F = take_bit 7 code_point" by (simp add: take_bit_eq_mask mask_eq_exp_minus_1)
  have low: "unat (code_point AND 0x7F) = unat code_point mod 128" by (simp add: mask take_bit_eq_mod unat_mod_distrib)
  have high: "unat (drop_bit 7 code_point) = unat code_point div 128" by (simp add: drop_bit_eq_div unat_div_distrib)
  have pos: "unat (drop_bit 7 code_point) < 979" "ccc_indices ! unat (drop_bit 7 code_point) \<le> 8048"
    if "code_point < trailing_zero_cccs"
  proof -
    show "unat (drop_bit 7 code_point) < 979"
      using that unfolding high trailing_zero_cccs_def word_less_nat_alt by simp
    then show "ccc_indices ! unat (drop_bit 7 code_point) \<le> 8048"
      using indices_bounded by (simp add: list_all_length table_lengths)
  qed
  have at: "ccc_get_position (ccc_indices ! unat (drop_bit 7 code_point)) code_point
      = ccc_indices ! unat (drop_bit 7 code_point) + unat code_point mod 128"
    "ccc_get_position (ccc_indices ! unat (drop_bit 7 code_point)) code_point < 8176"
    if "code_point < trailing_zero_cccs"
  proof -
    have "unat code_point mod 128 < 128" by simp
    then show "ccc_get_position (ccc_indices ! unat (drop_bit 7 code_point)) code_point
      = ccc_indices ! unat (drop_bit 7 code_point) + unat code_point mod 128"
      using pos(2) [OF that] unfolding ccc_get_position_def low by simp
    then show "ccc_get_position (ccc_indices ! unat (drop_bit 7 code_point)) code_point < 8176"
      using pos(2) [OF that] \<open>unat code_point mod 128 < 128\<close> by linarith
  qed
  have "\<exists>n. ccc_lookup code_point = Some n"
    using pos(1) at(2) by (auto simp: ccc_lookup_def table_lengths load_def not_le)
  then show "ccc_lookup code_point = Some (ccc_of code_point)" by (auto simp: ccc_of_def)
  show "if code_point < trailing_zero_cccs
   then ccc_get_position (ccc_indices ! unat (drop_bit 7 code_point)) code_point
     = ccc_indices ! unat (drop_bit 7 code_point) + unat code_point mod 128
   else ccc_of code_point = 0"
    using at(1) by (simp add: ccc_of_def ccc_lookup_def not_less)
qed

section \<open>Starters and blocked marks\<close>

definition is_starter :: "u32 \<Rightarrow> bool" where
  "is_starter code_point \<longleftrightarrow> ccc_of code_point = 0"

definition is_blocked :: "u32 list \<Rightarrow> bool option" where
  "is_blocked inp = Option.bind (load inp 0) (\<lambda>a. map_option (\<lambda>b. ccc_of a \<ge> ccc_of b) (load inp 1))"

section \<open>The loops\<close>

text \<open>The loops for UTF-32, where a move by a character is a move by one and a swap of code points is
  a swap of elements. The first function is the inner loop: \<open>back_pos\<close> is its number.\<close>

fun reorder_back :: "nat \<Rightarrow> nat \<Rightarrow> u32 list \<Rightarrow> u32 list" where
  "reorder_back ccc 0 str = str"
| "reorder_back ccc (Suc prev) str =
     (if ccc_of (str ! prev) \<le> ccc then str
      else reorder_back ccc prev (str[Suc prev := str ! prev, prev := str ! Suc prev]))"

lemma reorder_back_length [simp]: "length (reorder_back ccc b xs) = length xs"
  by (induction b arbitrary: xs) auto

function reorder_from :: "u32 list \<Rightarrow> nat \<Rightarrow> u32 list" where
  "reorder_from str pos =
     (if pos \<ge> length str then str
      else
        let back_pos = pos; ccc = ccc_of (str ! pos); pos = pos + 1 in
        if ccc = 0 then (if pos = length str then str else reorder_from str (pos + 1))
        else reorder_from (reorder_back ccc back_pos str) pos)"
  by pat_completeness auto
termination by (relation "measure (\<lambda>(str, pos). length str - pos)") auto

declare reorder_from.simps [simp del]

definition canonical_reorder :: "u32 list \<Rightarrow> u32 list" where
  "canonical_reorder str = (if str = [] then str else reorder_from str 1)"

section \<open>The canonical order\<close>

text \<open>The order of the standard: each run of code points that are not starters is sorted by the
  combining class, and those of one class keep their order.\<close>

function canonical_order :: "u32 list \<Rightarrow> u32 list" where
  "canonical_order [] = []"
| "canonical_order (x # xs) =
     (if is_starter x then x # canonical_order xs
      else sort_key ccc_of (takeWhile (Not \<circ> is_starter) (x # xs)) @ canonical_order (dropWhile (Not \<circ> is_starter) (x # xs)))"
  by pat_completeness auto
termination by (relation "measure length") (auto simp: length_dropWhile_le le_imp_less_Suc)

declare canonical_order.simps(2) [simp del]

lemma canonical_order_single [simp]: "canonical_order [x] = [x]"
  by (simp add: canonical_order.simps)

lemma canonical_order_run:
  assumes "\<And>x. x \<in> set r \<Longrightarrow> \<not> is_starter x"
  shows "canonical_order r = sort_key ccc_of r"
proof (cases r)
  case (Cons y ys)
  then have "takeWhile (Not \<circ> is_starter) r = r" "dropWhile (Not \<circ> is_starter) r = []"
    using assms by (auto simp: takeWhile_eq_all_conv)
  then show ?thesis using assms unfolding Cons by (simp only: canonical_order.simps) simp
qed simp

lemma canonical_order_starter:
  assumes "is_starter s"
  shows "canonical_order (xs @ s # ys) = canonical_order xs @ s # canonical_order ys"
  using assms
proof (induction xs rule: canonical_order.induct)
  case (2 x xs)
  show ?case
  proof (cases "is_starter x")
    case False
    have "takeWhile (Not \<circ> is_starter) ((x # xs) @ s # ys) = takeWhile (Not \<circ> is_starter) (x # xs)"
      using 2(3) by (induction xs) auto
    moreover have "dropWhile (Not \<circ> is_starter) ((x # xs) @ s # ys) = dropWhile (Not \<circ> is_starter) (x # xs) @ s # ys"
      using 2(3) by (induction xs) auto
    ultimately show ?thesis using 2(2) [OF False 2(3)] False
      by (simp add: canonical_order.simps del: takeWhile.simps dropWhile.simps sort_key_simps)
  qed (use 2 in \<open>simp add: canonical_order.simps\<close>)
qed (simp add: canonical_order.simps)

lemma sorted_takeWhile_le:
  assumes "sorted (map f xs)"
  shows "x \<in> set (dropWhile (\<lambda>x. f x \<le> k) xs) \<Longrightarrow> k < f x"
  using assms by (induction xs) (auto split: if_splits)

lemma sort_key_snoc:
  fixes f :: "'a \<Rightarrow> nat"
  shows "sort_key f (xs @ [z]) = takeWhile (\<lambda>x. f x \<le> f z) (sort_key f xs) @ z # dropWhile (\<lambda>x. f x \<le> f z) (sort_key f xs)"
proof -
  define t d where "t = takeWhile (\<lambda>x. f x \<le> f z) (sort_key f xs)" and "d = dropWhile (\<lambda>x. f x \<le> f z) (sort_key f xs)"
  have td: "t @ d = sort_key f xs" by (simp add: t_def d_def)
  have s: "sorted (map f (t @ d))" unfolding td by simp
  have big: "x \<in> set d \<Longrightarrow> f z < f x" for x unfolding d_def by (rule sorted_takeWhile_le [of f "sort_key f xs"]) auto
  have small: "x \<in> set t \<Longrightarrow> f x \<le> f z" for x unfolding t_def by (rule set_takeWhileD [THEN conjunct2])
  have "sort_key f (xs @ [z]) = t @ z # d"
  proof (rule properties_for_sort_key)
    have "mset t + mset d = mset xs" by (metis td mset_append mset_sort)
    then show "mset (t @ z # d) = mset (xs @ [z])" by simp
    show "sorted (map f (t @ z # d))" using s big small by (auto simp: sorted_append intro: less_imp_le)
    fix k
    have "filter (\<lambda>x. f k = f x) t @ filter (\<lambda>x. f k = f x) d = filter (\<lambda>x. f k = f x) xs"
      using sort_key_stable [of f "f k" xs] unfolding td [symmetric] filter_append by (simp add: eq_commute [of "f k"])
    moreover have "filter (\<lambda>x. f z = f x) d = []" using big by (force simp: filter_empty_conv)
    ultimately show "filter (\<lambda>x. f k = f x) (t @ z # d) = filter (\<lambda>x. f k = f x) (xs @ [z])" by auto
  qed
  then show ?thesis by (simp only: t_def d_def)
qed

lemma mset_canonical_order [simp]: "mset (canonical_order xs) = mset xs"
proof (induction xs rule: canonical_order.induct)
  case (2 x xs)
  have "mset (x # xs) = mset (takeWhile (Not \<circ> is_starter) (x # xs)) + mset (dropWhile (Not \<circ> is_starter) (x # xs))"
    by (metis mset_append takeWhile_dropWhile_id)
  then show ?case using 2 by (simp add: canonical_order.simps del: takeWhile.simps dropWhile.simps sort_key_simps)
qed simp

lemma length_canonical_order [simp]: "length (canonical_order xs) = length xs"
  by (metis mset_canonical_order size_mset)

lemma last_run:
  obtains p s r where "xs = p @ s # r" "is_starter s" "\<forall>x \<in> set r. \<not> is_starter x"
  | "\<forall>x \<in> set xs. \<not> is_starter x"
  by (metis split_list_last_prop)

lemma reorder_back_move:
  assumes "\<forall>b \<in> set B. k < ccc_of b" "A = [] \<or> ccc_of (last A) \<le> k"
  shows "reorder_back k (length A + length B) (A @ B @ z # Q) = A @ z # B @ Q"
  using assms(1)
proof (induction B arbitrary: Q rule: rev_induct)
  case Nil
  show ?case
  proof (cases A rule: rev_cases)
    case (snoc A' a)
    then show ?thesis using assms(2) by (simp add: nth_append)
  qed simp
next
  case (snoc b B)
  have "\<not> ccc_of ((A @ (B @ [b]) @ z # Q) ! (length A + length B)) \<le> k" using snoc.prems by (simp add: nth_append)
  moreover have "(A @ (B @ [b]) @ z # Q)[Suc (length A + length B) := b, length A + length B := z] = A @ B @ z # b # Q"
    by (simp add: list_update_append)
  ultimately show ?case using snoc by (simp add: nth_append)
qed

lemma reorder_back_order:
  assumes "\<not> is_starter z"
  shows "reorder_back (ccc_of z) (length ys) (canonical_order ys @ z # Q) = canonical_order (ys @ [z]) @ Q"
proof -
  have step: "reorder_back (ccc_of z) (length P + length r) ((P @ sort_key ccc_of r) @ z # Q) = (P @ sort_key ccc_of (r @ [z])) @ Q"
    if "P = [] \<or> is_starter (last P)" for P r
  proof -
    define t d where "t = takeWhile (\<lambda>x. ccc_of x \<le> ccc_of z) (sort_key ccc_of r)"
      and "d = dropWhile (\<lambda>x. ccc_of x \<le> ccc_of z) (sort_key ccc_of r)"
    have td: "sort_key ccc_of r = t @ d" "sort_key ccc_of (r @ [z]) = t @ z # d"
      by (simp_all only: sort_key_snoc t_def d_def takeWhile_dropWhile_id)
    then have len: "length r = length t + length d" by (metis length_append length_sort)
    have "\<forall>b \<in> set d. ccc_of z < ccc_of b" using sorted_takeWhile_le [of ccc_of "sort_key ccc_of r"] by (auto simp: d_def)
    moreover have "P @ t = [] \<or> ccc_of (last (P @ t)) \<le> ccc_of z"
      using that set_takeWhileD [of "last t" "\<lambda>x. ccc_of x \<le> ccc_of z" "sort_key ccc_of r"]
      by (cases "t = []") (auto simp: is_starter_def t_def [symmetric])
    ultimately have "reorder_back (ccc_of z) (length (P @ t) + length d) ((P @ t) @ d @ z # Q) = (P @ t) @ z # d @ Q"
      by (rule reorder_back_move)
    then show ?thesis by (simp add: td len add.assoc)
  qed
  consider (run) p s r where "ys = p @ s # r" "is_starter s" "\<forall>x \<in> set r. \<not> is_starter x"
    | (all) "\<forall>x \<in> set ys. \<not> is_starter x" by (rule last_run)
  then show ?thesis
  proof cases
    case run
    then have "canonical_order r = sort_key ccc_of r" "canonical_order (r @ [z]) = sort_key ccc_of (r @ [z])"
      using assms by (auto intro!: canonical_order_run)
    then show ?thesis using step [of "canonical_order p @ [s]" r] run
      by (simp add: canonical_order_starter)
  next
    case all
    then have "canonical_order ys = sort_key ccc_of ys" "canonical_order (ys @ [z]) = sort_key ccc_of (ys @ [z])"
      using assms by (auto intro!: canonical_order_run)
    then show ?thesis using step [of "[]" ys] by simp
  qed
qed

lemma reorder_from_order: "reorder_from (canonical_order ys @ zs) (length ys) = canonical_order (ys @ zs)"
proof (induction zs arbitrary: ys rule: length_induct)
  case (1 zs)
  show ?case
  proof (cases zs)
    case Nil
    then show ?thesis by (simp add: reorder_from.simps [of "canonical_order ys"])
  next
    case (Cons z zs')
    show ?thesis
    proof (cases "is_starter z")
      case True
      show ?thesis
      proof (cases zs')
        case Nil
        then show ?thesis using True Cons
          by (subst reorder_from.simps) (simp add: is_starter_def [symmetric] Let_def canonical_order_starter nth_append)
      next
        case (Cons w zs'')
        have "canonical_order (ys @ [z, w]) = canonical_order ys @ [z, w]" using True by (simp add: canonical_order_starter)
        then have "reorder_from (canonical_order ys @ [z, w] @ zs'') (length ys + 2) = canonical_order (ys @ [z, w] @ zs'')"
          using 1 [rule_format, of zs'' "ys @ [z, w]"] \<open>zs = z # zs'\<close> Cons by simp
        then show ?thesis using True Cons \<open>zs = z # zs'\<close>
          by (subst reorder_from.simps) (simp add: is_starter_def [symmetric] Let_def nth_append)
      qed
    next
      case False
      then have "reorder_from (canonical_order (ys @ [z]) @ zs') (length (ys @ [z])) = canonical_order (ys @ [z] @ zs')"
        using 1 [rule_format, of zs' "ys @ [z]"] Cons by simp
      then show ?thesis using False Cons
        by (subst reorder_from.simps) (simp add: is_starter_def [symmetric] Let_def nth_append reorder_back_order)
    qed
  qed
qed

lemma sorted_successively:
  fixes f :: "'a \<Rightarrow> nat"
  shows "sorted (map f xs) \<Longrightarrow> successively (\<lambda>a b. f b = 0 \<or> f a \<le> f b) xs"
  by (induction xs) (auto simp: successively_Cons neq_Nil_conv)

lemma no_reorderable_pair: "successively (\<lambda>a b. ccc_of b = 0 \<or> ccc_of a \<le> ccc_of b) (canonical_order xs)"
proof (induction xs rule: canonical_order.induct)
  case (2 x xs)
  let ?r = "takeWhile (Not \<circ> is_starter) (x # xs)" and ?q = "dropWhile (Not \<circ> is_starter) (x # xs)"
  show ?case
  proof (cases "is_starter x")
    case True
    then show ?thesis using 2(1) by (auto simp: canonical_order.simps successively_Cons is_starter_def)
  next
    case False
    have "successively (\<lambda>a b. ccc_of b = 0 \<or> ccc_of a \<le> ccc_of b) (sort_key ccc_of ?r)"
      by (rule sorted_successively) simp
    moreover have "canonical_order ?q = [] \<or> ccc_of (hd (canonical_order ?q)) = 0"
    proof (cases ?q)
      case (Cons y ys)
      then have "is_starter y" by (metis comp_apply dropWhile_eq_Cons_conv)
      then show ?thesis unfolding Cons by (simp add: canonical_order.simps is_starter_def)
    qed simp
    ultimately show ?thesis using 2(2) [OF False] False
      by (simp add: canonical_order.simps successively_append_iff del: takeWhile.simps dropWhile.simps sort_key_simps) auto
  qed
qed simp

text \<open>C4: The insertion loops put the marks after each starter into the canonical order of the
  standard: the text is permuted, each run between starters is sorted by the combining class
  without exchanging code points of one class, and no reorderable pair is left. The step that skips
  the code point after a starter loses nothing, and the loops always end.\<close>

theorem canonical_reorder_order:
  "canonical_reorder str = canonical_order str \<and> mset (canonical_reorder str) = mset str
    \<and> successively (\<lambda>a b. ccc_of b = 0 \<or> ccc_of a \<le> ccc_of b) (canonical_reorder str)"
proof (intro conjI)
  show eq: "canonical_reorder str = canonical_order str"
  proof (cases str)
    case (Cons x xs)
    then show ?thesis using reorder_from_order [of "[x]" xs] by (simp add: canonical_reorder_def)
  qed (simp add: canonical_reorder_def)
  show "mset (canonical_reorder str) = mset str" by (simp add: eq)
  show "successively (\<lambda>a b. ccc_of b = 0 \<or> ccc_of a \<le> ccc_of b) (canonical_reorder str)"
    unfolding eq by (rule no_reorderable_pair)
qed

end
