(* ===== verification/Memory_Gate.thy ===== *)
theory Memory_Gate
  imports Webpp_Prelude
begin

text \<open>
  The storage gates of \<^verbatim>\<open>webpp/storage\<close> that keep their values in memory
  (\<^verbatim>\<open>memory_gate.hpp\<close>) or nowhere (\<^verbatim>\<open>null_gate.hpp\<close>), and the
  concept \<^verbatim>\<open>StorageGateType\<close> of \<^verbatim>\<open>cache_concepts.hpp\<close> as a
  locale. The ordered map is a partial function from keys to pairs of options and value. A C++ move
  leaves an object in a state that its type chooses: \<open>mv\<close> and \<open>mo\<close> say what is
  left of a value and of options.
\<close>

record ('k, 'v, 'o) cache_tuple =
  tuple_key :: 'k
  tuple_value :: 'v
  tuple_options :: 'o

section \<open>The memory gate\<close>

type_synonym ('k, 'v, 'o) memory_gate = "'k \<rightharpoonup> 'o \<times> 'v"

definition memory_gate_new :: "('k, 'v, 'o) memory_gate" where
  "memory_gate_new = Map.empty"

definition memory_gate_get ::
  "('v \<Rightarrow> 'v) \<Rightarrow> ('o \<Rightarrow> 'o) \<Rightarrow> 'k \<Rightarrow> ('k, 'v, 'o) memory_gate \<Rightarrow> ('k, 'v, 'o) cache_tuple option \<times> ('k, 'v, 'o) memory_gate" where
  "memory_gate_get mv mo key gate =
     (case gate key of
        Some (opts, value) \<Rightarrow>
          (Some \<lparr>tuple_key = key, tuple_value = value, tuple_options = opts\<rparr>, gate(key \<mapsto> (mo opts, mv value)))
      | None \<Rightarrow> (None, gate))"

text \<open>The pointers to a node, that is identified by its key.\<close>

definition memory_gate_get_ptr :: "'k \<Rightarrow> ('k, 'v, 'o) memory_gate \<Rightarrow> 'k option" where
  "memory_gate_get_ptr key gate = (case gate key of Some _ \<Rightarrow> Some key | None \<Rightarrow> None)"

definition memory_gate_set :: "'k \<Rightarrow> 'v \<Rightarrow> 'o \<Rightarrow> ('k, 'v, 'o) memory_gate \<Rightarrow> ('k, 'v, 'o) memory_gate" where
  "memory_gate_set key value opts gate = gate(key \<mapsto> (opts, value))"

definition memory_gate_set_options :: "'k \<Rightarrow> 'o \<Rightarrow> ('k, 'v, 'o) memory_gate \<Rightarrow> ('k, 'v, 'o) memory_gate" where
  "memory_gate_set_options key opts gate =
     (case gate key of Some (_, value) \<Rightarrow> gate(key \<mapsto> (opts, value)) | None \<Rightarrow> gate)"

definition memory_gate_erase :: "'k \<Rightarrow> ('k, 'v, 'o) memory_gate \<Rightarrow> ('k, 'v, 'o) memory_gate" where
  "memory_gate_erase key gate = gate(key := None)"

definition memory_gate_erase_if ::
  "(('k, 'v, 'o) cache_tuple \<Rightarrow> bool) \<Rightarrow> ('k, 'v, 'o) memory_gate \<Rightarrow> ('k, 'v, 'o) memory_gate" where
  "memory_gate_erase_if predicate gate =
     (\<lambda>key. case gate key of
        Some (opts, value) \<Rightarrow>
          if predicate \<lparr>tuple_key = key, tuple_value = value, tuple_options = opts\<rparr> then None else Some (opts, value)
      | None \<Rightarrow> None)"

text \<open>An iterator is the number of nodes before it.\<close>

definition memory_gate_begin :: "('k, 'v, 'o) memory_gate \<Rightarrow> nat" where "memory_gate_begin gate = 0"
definition memory_gate_end :: "('k, 'v, 'o) memory_gate \<Rightarrow> nat" where "memory_gate_end gate = memory_gate_begin gate"

section \<open>The null gate\<close>

definition null_gate_get :: "'k \<Rightarrow> unit \<Rightarrow> ('k, 'v, 'o) cache_tuple option \<times> unit" where
  "null_gate_get value gate = (None, gate)"

definition null_gate_set :: "'k \<Rightarrow> 'v \<Rightarrow> 'o \<Rightarrow> unit \<Rightarrow> unit" where "null_gate_set key value opts gate = gate"
definition null_gate_set_options :: "'k \<Rightarrow> 'o \<Rightarrow> unit \<Rightarrow> unit" where "null_gate_set_options key opts gate = gate"
definition null_gate_erase :: "'k \<Rightarrow> unit \<Rightarrow> unit" where "null_gate_erase input gate = gate"
definition null_gate_erase_if :: "(('k, 'v, 'o) cache_tuple \<Rightarrow> bool) \<Rightarrow> unit \<Rightarrow> unit" where
  "null_gate_erase_if predicate gate = gate"

section \<open>The interface of a gate\<close>

text \<open>
  A gate holds at most one pair for each key; \<open>kept\<close> tells which pairs survive a
  \<open>set\<close>: all of them in the memory gate, none in the null gate. \<open>taken\<close> is what
  reading leaves.
\<close>

locale storage_gate =
  fixes content :: "'g \<Rightarrow> 'k \<Rightarrow> ('o \<times> 'v) option"
    and gget :: "'k \<Rightarrow> 'g \<Rightarrow> ('k, 'v, 'o) cache_tuple option \<times> 'g"
    and gset :: "'k \<Rightarrow> 'v \<Rightarrow> 'o \<Rightarrow> 'g \<Rightarrow> 'g"
    and gset_options :: "'k \<Rightarrow> 'o \<Rightarrow> 'g \<Rightarrow> 'g"
    and gerase :: "'k \<Rightarrow> 'g \<Rightarrow> 'g"
    and gerase_if :: "(('k, 'v, 'o) cache_tuple \<Rightarrow> bool) \<Rightarrow> 'g \<Rightarrow> 'g"
    and kept :: bool and taken :: "'o \<times> 'v \<Rightarrow> 'o \<times> 'v"
  assumes get_value: "fst (gget k g) = map_option (\<lambda>(opts, v). \<lparr>tuple_key = k, tuple_value = v, tuple_options = opts\<rparr>) (content g k)"
    and get_content: "content (snd (gget k g)) = (content g)(k := map_option taken (content g k))"
    and set_content: "content (gset k v opts g) = (content g)(k := if kept then Some (opts, v) else None)"
    and set_options_content: "content (gset_options k opts g) = (content g)(k := map_option (\<lambda>(_, v). (opts, v)) (content g k))"
    and erase_content: "content (gerase k g) = (content g)(k := None)"
    and erase_if_content: "content (gerase_if pred g) = (\<lambda>k. case content g k of
        None \<Rightarrow> None
      | Some (opts, v) \<Rightarrow> if pred \<lparr>tuple_key = k, tuple_value = v, tuple_options = opts\<rparr> then None else Some (opts, v))"
begin

lemmas content_simps = get_value get_content set_content set_options_content erase_content erase_if_content

lemma get_after_set: "kept \<Longrightarrow> map_option tuple_value (fst (gget k (gset k v opts g))) = Some v"
  by (simp add: content_simps)

lemma get_after_erase: "fst (gget k (gerase k g)) = None"
  by (simp add: content_simps)

lemma get_other: "k \<noteq> k' \<Longrightarrow> content (snd (gget k' g)) k = content g k"
  by (simp add: content_simps)

text \<open>Erasing by a condition that all pairs satisfy empties the gate.\<close>

lemma erase_all: "content (gerase_if (\<lambda>_. True) g) = Map.empty"
  by (auto simp: content_simps split: option.splits)

end

interpretation mg: storage_gate "\<lambda>g. g" "memory_gate_get mv mo" memory_gate_set memory_gate_set_options
  memory_gate_erase memory_gate_erase_if True "\<lambda>(opts, v). (mo opts, mv v)" for mv mo
  by unfold_locales
    (auto simp: memory_gate_get_def memory_gate_set_def memory_gate_set_options_def memory_gate_erase_def
      memory_gate_erase_if_def fun_eq_iff split: option.splits)

interpretation ng: storage_gate "\<lambda>_ _. None" null_gate_get null_gate_set null_gate_set_options
  null_gate_erase null_gate_erase_if False "\<lambda>p. p"
  by unfold_locales
    (auto simp: null_gate_get_def null_gate_set_def null_gate_set_options_def null_gate_erase_def null_gate_erase_if_def)

lemma memory_gate_no_iteration: "memory_gate_begin gate = memory_gate_end gate"
  by (simp add: memory_gate_end_def)

end
