(* ===== verification/Lru_Cache.thy ===== *)
theory Lru_Cache
  imports Memory_Gate
begin

text \<open>
  \<^verbatim>\<open>webpp/storage/lru_cache.hpp\<close>: the strategy that gives every use a time stamp
  and erases the old ones after each \<open>set\<close>. The strategy is a template over its gate, whose
  operations are arguments of the definitions. \<^verbatim>\<open>size_t\<close> has 64 bits, and the
  counter of the uses wraps.
\<close>

section \<open>The strategy\<close>

record 'g lru =
  max_size :: u64
  next_usage :: u64
  gate :: 'g

definition default_max_size :: u64 where "default_max_size = 1024"

definition lru_new :: "'g \<Rightarrow> u64 \<Rightarrow> 'g lru" where
  "lru_new input_gate max_size_value = \<lparr>max_size = max_size_value, next_usage = 1, gate = input_gate\<rparr>"

definition lru_clean_up :: "((('k, 'v, u64) cache_tuple \<Rightarrow> bool) \<Rightarrow> 'g \<Rightarrow> 'g) \<Rightarrow> 'g lru \<Rightarrow> 'g lru" where
  "lru_clean_up gerase_if s =
     (if next_usage s \<le> max_size s then s
      else
        let break_index = next_usage s - max_size s in
        s\<lparr>gate := gerase_if (\<lambda>item. tuple_options item < break_index) (gate s)\<rparr>)"

definition lru_set ::
  "('k \<Rightarrow> 'v \<Rightarrow> u64 \<Rightarrow> 'g \<Rightarrow> 'g) \<Rightarrow> ((('k, 'v, u64) cache_tuple \<Rightarrow> bool) \<Rightarrow> 'g \<Rightarrow> 'g) \<Rightarrow> 'k \<Rightarrow> 'v \<Rightarrow> 'g lru \<Rightarrow> 'g lru" where
  "lru_set gset gerase_if key value s =
     lru_clean_up gerase_if (s\<lparr>gate := gset key value (next_usage s) (gate s), next_usage := next_usage s + 1\<rparr>)"

definition lru_get ::
  "('k \<Rightarrow> 'g \<Rightarrow> ('k, 'v, u64) cache_tuple option \<times> 'g) \<Rightarrow> ('k \<Rightarrow> u64 \<Rightarrow> 'g \<Rightarrow> 'g) \<Rightarrow> 'k \<Rightarrow> 'g lru \<Rightarrow> 'v option \<times> 'g lru" where
  "lru_get gget gset_options key s =
     (let (data, g) = gget key (gate s); s = s\<lparr>gate := g\<rparr> in
      case data of
        None \<Rightarrow> (None, s)
      | Some bundle \<Rightarrow>
          (Some (tuple_value bundle),
           s\<lparr>gate := gset_options key (next_usage s) (gate s), next_usage := next_usage s + 1\<rparr>))"

definition lru_get_ptr ::
  "('k \<Rightarrow> 'g \<Rightarrow> 'p option) \<Rightarrow> ('k \<Rightarrow> u64 \<Rightarrow> 'g \<Rightarrow> 'g) \<Rightarrow> 'k \<Rightarrow> 'g lru \<Rightarrow> 'p option \<times> 'g lru" where
  "lru_get_ptr gget_ptr gset_options key s =
     (case gget_ptr key (gate s) of
        None \<Rightarrow> (None, s)
      | Some p \<Rightarrow>
          (Some p, s\<lparr>gate := gset_options key (next_usage s) (gate s), next_usage := next_usage s + 1\<rparr>))"

section \<open>Time stamps\<close>

text \<open>The state after uses with the stamps 1 to \<open>n - 1\<close>: the stamps of the pairs are different and in
  the past, and there are not more pairs than the cache is made for.\<close>

definition lru_wf :: "nat \<Rightarrow> ('k \<Rightarrow> (u64 \<times> 'v) option) \<Rightarrow> 'g lru \<Rightarrow> bool" where
  "lru_wf n content s \<longleftrightarrow> unat (next_usage s) = n \<and> 0 < n
     \<and> (\<forall>k opts v. content k = Some (opts, v) \<longrightarrow> 0 < unat opts \<and> unat opts < n)
     \<and> (\<forall>k k' opts v v'. content k = Some (opts, v) \<and> content k' = Some (opts, v') \<longrightarrow> k = k')
     \<and> finite (dom content) \<and> card (dom content) \<le> unat (max_size s)"

text \<open>Different stamps from a window give at most as many pairs as the window is wide.\<close>

lemma stamps_in_window:
  fixes content :: "'k \<Rightarrow> (u64 \<times> 'v) option"
  assumes inj: "\<forall>k k' opts v v'. content k = Some (opts, v) \<and> content k' = Some (opts, v') \<longrightarrow> k = k'"
    and window: "\<And>k opts v. content k = Some (opts, v) \<Longrightarrow> a \<le> unat opts \<and> unat opts < b"
  shows "finite (dom content)" "card (dom content) \<le> b - a"
proof -
  let ?f = "\<lambda>k. unat (fst (the (content k)))"
  have i: "inj_on ?f (dom content)"
    using inj by (auto simp: inj_on_def word_unat_eq_iff [symmetric])
  have s: "?f ` dom content \<subseteq> {a..<b}" using window by force
  show "finite (dom content)" by (rule inj_on_finite [OF i s]) simp
  show "card (dom content) \<le> b - a" using card_inj_on_le [OF i s] by simp
qed

text \<open>A use of a key keeps the stamps different and in the past.\<close>

lemma stamp_step:
  fixes c c' :: "'k \<Rightarrow> (u64 \<times> 'v) option"
  assumes wf: "lru_wf n c s"
    and step: "\<And>k' opts v. c' k' = Some (opts, v) \<Longrightarrow> k' = k \<and> opts = next_usage s \<or> k' \<noteq> k \<and> c k' = Some (opts, v)"
  shows "c' k' = Some (opts, v) \<Longrightarrow> 0 < unat opts \<and> unat opts < Suc n"
    "\<forall>k k' opts v v'. c' k = Some (opts, v) \<and> c' k' = Some (opts, v') \<longrightarrow> k = k'"
proof -
  have past: "c k' = Some (opts, v) \<Longrightarrow> 0 < unat opts \<and> unat opts < n" for k' opts v
    using wf unfolding lru_wf_def by blast
  have now: "unat (next_usage s) = n" "0 < n" using wf by (simp_all add: lru_wf_def)
  show "c' k' = Some (opts, v) \<Longrightarrow> 0 < unat opts \<and> unat opts < Suc n"
    using step [of k' opts v] past [of k' opts v] now by auto
  have "a = b" if "c' a = Some (opts, v)" "c' b = Some (opts, v')" for a b opts v v'
    using step [OF that(1)] step [OF that(2)] past [of a opts v] past [of b opts v'] now wf
    unfolding lru_wf_def by (metis less_irrefl)
  then show "\<forall>k k' opts v v'. c' k = Some (opts, v) \<and> c' k' = Some (opts, v') \<longrightarrow> k = k'" by blast
qed

text \<open>A gate whose options are the time stamps, which a move does not change.\<close>

locale stamp_gate = storage_gate content gget gset gset_options gerase gerase_if kept taken
  for content :: "'g \<Rightarrow> 'k \<Rightarrow> (u64 \<times> 'v) option" and gget gset gset_options gerase gerase_if kept taken +
  assumes taken_stamp: "fst (taken p) = fst p"
begin

text \<open>What one \<open>set\<close> leaves: the new pair and the pairs whose stamps are among the last ones.\<close>

lemma set_content_lru:
  assumes "unat (next_usage s) = n" "Suc n < 2 ^ 64"
  shows "content (gate (lru_set gset gerase_if k v s)) k' =
    (case ((content (gate s))(k := if kept then Some (next_usage s, v) else None)) k' of
       None \<Rightarrow> None
     | Some (opts, w) \<Rightarrow> if unat opts + unat (max_size s) \<le> n then None else Some (opts, w))"
proof -
  have n: "unat (next_usage s + 1) = Suc n" using assms by (simp add: unat_word_ariths)
  have less: "opts < next_usage s + 1 - max_size s \<longleftrightarrow> unat opts + unat (max_size s) \<le> n"
    if "\<not> next_usage s + 1 \<le> max_size s" for opts
  proof -
    have "unat (next_usage s + 1 - max_size s) = Suc n - unat (max_size s)"
      using that n by (subst unat_sub) (simp_all add: word_le_nat_alt)
    then show ?thesis using that n by (auto simp: word_less_nat_alt word_le_nat_alt)
  qed
  have fit: "\<not> unat opts + unat (max_size s) \<le> n" if "next_usage s + 1 \<le> max_size s" for opts :: u64
    using that n by (simp add: word_le_nat_alt)
  show ?thesis
    by (auto simp: lru_set_def lru_clean_up_def Let_def content_simps less fit split: option.splits)
qed

lemma set_usage: "next_usage (lru_set gset gerase_if k v s) = next_usage s + 1"
  "max_size (lru_set gset gerase_if k v s) = max_size s"
  by (simp_all add: lru_set_def lru_clean_up_def Let_def)

lemma get_content_lru:
  "content (gate (snd (lru_get gget gset_options k s))) =
     (content (gate s))(k := map_option (\<lambda>p. (next_usage s, snd (taken p))) (content (gate s) k))"
  "fst (lru_get gget gset_options k s) = map_option snd (content (gate s) k)"
  "next_usage (snd (lru_get gget gset_options k s)) = (if content (gate s) k = None then next_usage s else next_usage s + 1)"
  "max_size (snd (lru_get gget gset_options k s)) = max_size s"
proof -
  obtain data g where g: "gget k (gate s) = (data, g)" by (cases "gget k (gate s)")
  have d: "data = map_option (\<lambda>(opts, v). \<lparr>tuple_key = k, tuple_value = v, tuple_options = opts\<rparr>) (content (gate s) k)"
    and c: "content g = (content (gate s))(k := map_option taken (content (gate s) k))"
    using get_value [of k "gate s"] get_content [of k "gate s"] by (simp_all add: g)
  show "content (gate (snd (lru_get gget gset_options k s))) =
     (content (gate s))(k := map_option (\<lambda>p. (next_usage s, snd (taken p))) (content (gate s) k))"
    by (cases "content (gate s) k")
      (auto simp: lru_get_def g d c content_simps fun_eq_iff case_prod_unfold)
  show "fst (lru_get gget gset_options k s) = map_option snd (content (gate s) k)"
    "next_usage (snd (lru_get gget gset_options k s)) = (if content (gate s) k = None then next_usage s else next_usage s + 1)"
    "max_size (snd (lru_get gget gset_options k s)) = max_size s"
    by (cases "content (gate s) k"; auto simp: lru_get_def g d)+
qed

lemma set_wf:
  assumes wf: "lru_wf n (content (gate s)) s" and n: "Suc n < 2 ^ 64"
  shows "lru_wf (Suc n) (content (gate (lru_set gset gerase_if k v s))) (lru_set gset gerase_if k v s)"
proof -
  let ?c = "content (gate (lru_set gset gerase_if k v s))"
  have now: "unat (next_usage s) = n" "0 < n" using wf by (simp_all add: lru_wf_def)
  note c = set_content_lru [OF now(1) n, of k v]
  have step: "k' = k \<and> opts = next_usage s \<or> k' \<noteq> k \<and> content (gate s) k' = Some (opts, w)"
    if "?c k' = Some (opts, w)" for k' opts w
    using that unfolding c by (auto split: if_splits option.splits)
  have past: "0 < unat opts \<and> unat opts < Suc n" if c: "?c k' = Some (opts, w)" for k' opts w
    using wf step c by (rule stamp_step(1) [where c' = ?c and k = k])
  have inj: "\<forall>k k' opts v v'. ?c k = Some (opts, v) \<and> ?c k' = Some (opts, v') \<longrightarrow> k = k'"
    using wf step by (rule stamp_step(2) [where c' = ?c and k = k])
  have "Suc n - unat (max_size s) \<le> unat opts \<and> unat opts < Suc n" if "?c k' = Some (opts, w)" for k' opts w
    using past [OF that] that unfolding c by (auto split: if_splits option.splits)
  then have fin: "finite (dom ?c)" "card (dom ?c) \<le> Suc n - (Suc n - unat (max_size s))"
    by (rule stamps_in_window [OF inj], blast)+
  have "unat (next_usage s + 1) = Suc n" using now n by (simp add: unat_word_ariths)
  moreover have "card (dom ?c) \<le> unat (max_size s)" using fin(2) by linarith
  ultimately show ?thesis using past inj fin(1) unfolding lru_wf_def set_usage by blast
qed

lemma touch_wf:
  assumes wf: "lru_wf n (content (gate s)) s" and n: "Suc n < 2 ^ 64"
  shows "lru_wf (if content (gate s) k = None then n else Suc n)
    (content (gate (snd (lru_get gget gset_options k s)))) (snd (lru_get gget gset_options k s))"
proof -
  let ?c = "content (gate (snd (lru_get gget gset_options k s)))"
  have now: "unat (next_usage s) = n" "0 < n" using wf by (simp_all add: lru_wf_def)
  show ?thesis
  proof (cases "content (gate s) k")
    case None
    then have "?c = content (gate s)" by (simp add: get_content_lru fun_eq_iff)
    then show ?thesis using wf None by (simp add: lru_wf_def get_content_lru)
  next
    case (Some p)
    have step: "k' = k \<and> opts = next_usage s \<or> k' \<noteq> k \<and> content (gate s) k' = Some (opts, w)"
      if "?c k' = Some (opts, w)" for k' opts w
      using that Some unfolding get_content_lru by (auto split: if_splits)
    have past: "0 < unat opts \<and> unat opts < Suc n" if c: "?c k' = Some (opts, w)" for k' opts w
      using wf step c by (rule stamp_step(1) [where c' = ?c and k = k])
    have inj: "\<forall>k k' opts v v'. ?c k = Some (opts, v) \<and> ?c k' = Some (opts, v') \<longrightarrow> k = k'"
      using wf step by (rule stamp_step(2) [where c' = ?c and k = k])
    have "dom ?c = dom (content (gate s))" using Some by (auto simp: get_content_lru)
    moreover have "unat (next_usage (snd (lru_get gget gset_options k s))) = Suc n"
      using now n Some by (simp add: get_content_lru unat_word_ariths)
    moreover have "finite (dom (content (gate s)))" "card (dom (content (gate s))) \<le> unat (max_size s)"
      using wf by (simp_all add: lru_wf_def)
    ultimately show ?thesis using past inj Some unfolding lru_wf_def get_content_lru(4) by simp
  qed
qed

end

section \<open>The strategy over the memory gate\<close>

text \<open>Moving a time stamp copies it.\<close>

interpretation ml: stamp_gate "\<lambda>g. g" "memory_gate_get mv (\<lambda>opts. opts)" memory_gate_set memory_gate_set_options
  memory_gate_erase memory_gate_erase_if True "\<lambda>(opts, v). (opts, mv v)" for mv
  by (rule stamp_gate.intro [OF mg.storage_gate_axioms stamp_gate_axioms.intro]) (simp add: case_prod_unfold)

interpretation nl: stamp_gate "\<lambda>_ _. None" null_gate_get null_gate_set null_gate_set_options
  null_gate_erase null_gate_erase_if False "\<lambda>p. p"
  by unfold_locales simp

text \<open>What a program does with a cache; the last operation writes through a pointer that
  \<open>get_ptr\<close> returned for a key.\<close>

datatype ('k, 'v) lru_use =
    Use_Set 'k 'v
  | Use_Get 'k
  | Use_Get_Ptr 'k
  | Use_Write 'k 'v

type_synonym ('k, 'v) mem_lru = "('k, 'v, u64) memory_gate lru"

definition write_ptr :: "'k \<Rightarrow> 'v \<Rightarrow> ('k, 'v) mem_lru \<Rightarrow> ('k, 'v) mem_lru" where
  "write_ptr p value s = s\<lparr>gate := (gate s)(p := map_option (\<lambda>(opts, _). (opts, value)) (gate s p))\<rparr>"

fun lru_step :: "('v \<Rightarrow> 'v) \<Rightarrow> ('k, 'v) lru_use \<Rightarrow> ('k, 'v) mem_lru \<Rightarrow> ('k, 'v) mem_lru" where
  "lru_step mv (Use_Set k v) s = lru_set memory_gate_set memory_gate_erase_if k v s"
| "lru_step mv (Use_Get k) s = snd (lru_get (memory_gate_get mv (\<lambda>opts. opts)) memory_gate_set_options k s)"
| "lru_step mv (Use_Get_Ptr k) s = snd (lru_get_ptr memory_gate_get_ptr memory_gate_set_options k s)"
| "lru_step mv (Use_Write k v) s = write_ptr k v s"

definition lru_run :: "('v \<Rightarrow> 'v) \<Rightarrow> u64 \<Rightarrow> ('k, 'v) lru_use list \<Rightarrow> ('k, 'v) mem_lru" where
  "lru_run mv max_size_value uses = fold (lru_step mv) uses (lru_new memory_gate_new max_size_value)"

lemma lru_get_ptr_as_get:
  "snd (lru_get_ptr memory_gate_get_ptr memory_gate_set_options k s) =
     snd (lru_get (memory_gate_get (\<lambda>v. v) (\<lambda>opts. opts)) memory_gate_set_options k s)"
  "fst (lru_get_ptr memory_gate_get_ptr memory_gate_set_options k s) = (if gate s k = None then None else Some k)"
  by (cases "gate s k"; auto simp: lru_get_ptr_def lru_get_def memory_gate_get_ptr_def memory_gate_get_def
      memory_gate_set_options_def fun_upd_idem)+

lemma write_ptr_wf:
  assumes "lru_wf n (gate s) s"
  shows "lru_wf n (gate (write_ptr k v s)) (write_ptr k v s)"
proof -
  have "dom (gate (write_ptr k v s)) = dom (gate s)" by (auto simp: write_ptr_def)
  moreover have "\<exists>w'. gate s k' = Some (opts, w')" if "gate (write_ptr k v s) k' = Some (opts, w)" for k' opts w
    using that by (auto simp: write_ptr_def split: if_splits)
  moreover have "next_usage (write_ptr k v s) = next_usage s" "max_size (write_ptr k v s) = max_size s"
    by (simp_all add: write_ptr_def)
  ultimately show ?thesis using assms unfolding lru_wf_def by metis
qed

lemma lru_step_wf:
  assumes "lru_wf n (gate s) s" "Suc n < 2 ^ 64"
  shows "(lru_wf n (gate (lru_step mv use s)) (lru_step mv use s) \<or> lru_wf (Suc n) (gate (lru_step mv use s)) (lru_step mv use s))
    \<and> max_size (lru_step mv use s) = max_size s"
proof (cases use)
  case (Use_Set k v)
  then show ?thesis using ml.set_wf [OF assms] by (simp add: ml.set_usage)
next
  case (Use_Get k)
  then show ?thesis using ml.touch_wf [OF assms, where mv = mv and k = k] by (auto simp: ml.get_content_lru(4) split: if_splits)
next
  case (Use_Get_Ptr k)
  then show ?thesis using ml.touch_wf [OF assms, where mv = "\<lambda>v. v" and k = k]
    by (auto simp: lru_get_ptr_as_get(1) ml.get_content_lru(4) split: if_splits)
next
  case (Use_Write k v)
  then show ?thesis using write_ptr_wf [OF assms(1)] by (simp add: write_ptr_def)
qed

lemma lru_run_wf:
  assumes "Suc (length uses) < 2 ^ 64"
  shows "\<exists>n \<le> Suc (length uses). lru_wf n (gate (lru_run mv m uses)) (lru_run mv m uses) \<and> max_size (lru_run mv m uses) = m"
  using assms
proof (induction uses rule: rev_induct)
  case Nil
  show ?case by (simp add: lru_run_def lru_new_def lru_wf_def memory_gate_new_def)
next
  case (snoc use uses)
  then obtain n where n: "n \<le> Suc (length uses)" "lru_wf n (gate (lru_run mv m uses)) (lru_run mv m uses)"
    "max_size (lru_run mv m uses) = m" by auto
  have run: "lru_run mv m (uses @ [use]) = lru_step mv use (lru_run mv m uses)" by (simp add: lru_run_def)
  have "Suc n < 2 ^ 64" using snoc.prems n(1) by simp
  from lru_step_wf [OF n(2) this, of mv use] n(1,3) show ?case
    unfolding run by (metis Suc_le_mono le_SucI length_append_singleton)
qed

section \<open>Properties\<close>

text \<open>C12: However a cache of the memory gate is used, fewer than 2 to the 64 times, it never holds more
  pairs than it is made for, and the time stamps of its pairs are different and all in the past.\<close>

theorem lru_cache_bounded:
  assumes "Suc (length uses) < 2 ^ 64"
  shows "finite (dom (gate (lru_run mv m uses))) \<and> card (dom (gate (lru_run mv m uses))) \<le> unat m
    \<and> (\<forall>k opts v. gate (lru_run mv m uses) k = Some (opts, v) \<longrightarrow> opts < next_usage (lru_run mv m uses))
    \<and> (\<forall>k k' opts v v'. gate (lru_run mv m uses) k = Some (opts, v) \<and> gate (lru_run mv m uses) k' = Some (opts, v') \<longrightarrow> k = k')"
proof -
  obtain n where "lru_wf n (gate (lru_run mv m uses)) (lru_run mv m uses)" "max_size (lru_run mv m uses) = m"
    using lru_run_wf [OF assms] by blast
  then show ?thesis unfolding lru_wf_def word_less_nat_alt by metis
qed

theorem lru_cache_bounded_witness:
  "card (dom (gate (lru_run (\<lambda>v. v) 1 [Use_Set (1 :: nat) True, Use_Get 1, Use_Set 2 False, Use_Get_Ptr 1]))) \<le> unat (1 :: u64)"
  by (rule lru_cache_bounded [THEN conjunct2, THEN conjunct1]) simp

text \<open>C23: A \<open>set\<close> stores the pair, unless the cache is made for no pair, and erases exactly the other
  pairs whose last use is not among the last uses that the cache is made for. The uses are counted,
  not the keys: using one key again and again erases another one although there is room for both.\<close>

theorem lru_set_erases:
  fixes mv :: "'v \<Rightarrow> 'v" and m :: u64 and uses :: "('k, 'v) lru_use list"
  assumes "Suc (Suc (length uses)) < 2 ^ 64"
  defines "s \<equiv> lru_run mv m uses"
  shows "gate (lru_set memory_gate_set memory_gate_erase_if k v s) k' =
      (if k' = k then if m = 0 then None else Some (next_usage s, v)
       else case gate s k' of
         None \<Rightarrow> None
       | Some (opts, w) \<Rightarrow> if unat opts + unat m \<le> unat (next_usage s) then None else Some (opts, w))
    \<and> dom (gate (lru_run mv 2 [Use_Set False a, Use_Set True b, Use_Set True b])) = {True}"
proof (intro conjI)
  obtain n where n: "n \<le> Suc (length uses)" "lru_wf n (gate s) s" "max_size s = m"
    using lru_run_wf [of uses mv m] assms(1) by (auto simp: s_def)
  have "unat (next_usage s) = n" "Suc n < 2 ^ 64" using n(1,2) assms(1) by (simp_all add: lru_wf_def)
  from ml.set_content_lru [OF this, of k v k'] this(1) n(3)
  show "gate (lru_set memory_gate_set memory_gate_erase_if k v s) k' =
      (if k' = k then if m = 0 then None else Some (next_usage s, v)
       else case gate s k' of
         None \<Rightarrow> None
       | Some (opts, w) \<Rightarrow> if unat opts + unat m \<le> unat (next_usage s) then None else Some (opts, w))"
    by (auto simp: unat_eq_0)
  show "dom (gate (lru_run mv 2 [Use_Set False a, Use_Set True b, Use_Set True b])) = {True}"
    by (auto simp: lru_run_def lru_new_def memory_gate_new_def lru_set_def lru_clean_up_def memory_gate_set_def
        memory_gate_erase_if_def Let_def dom_def split: if_splits option.splits)
qed

theorem lru_set_erases_witness:
  "gate (lru_set memory_gate_set memory_gate_erase_if (2 :: nat) False (lru_run (\<lambda>v. v) 1 [Use_Set 1 True])) 1 =
      (if 1 = (2 :: nat) then if (1 :: u64) = 0 then None else Some (next_usage (lru_run (\<lambda>v. v) 1 [Use_Set (1 :: nat) True]), False)
       else case gate (lru_run (\<lambda>v. v) 1 [Use_Set 1 True]) (1 :: nat) of
         None \<Rightarrow> None
       | Some (opts, w) \<Rightarrow> if unat opts + unat (1 :: u64) \<le> unat (next_usage (lru_run (\<lambda>v. v) 1 [Use_Set (1 :: nat) True])) then None
           else Some (opts, w))"
  by (rule lru_set_erases [THEN conjunct1]) simp

text \<open>C26: Reading a value takes it out of the cache: the first \<open>get\<close> of a key returns the stored
  value and the next one what the move has left of it. A pointer leaves the value in its place, and
  what is written through it is read later.\<close>

theorem lru_get_takes_value:
  fixes mv :: "'v \<Rightarrow> 'v"
  defines "get \<equiv> lru_get (memory_gate_get mv (\<lambda>opts. opts)) memory_gate_set_options"
    and "get_ptr \<equiv> lru_get_ptr memory_gate_get_ptr memory_gate_set_options"
  shows "fst (get k s) = map_option snd (gate s k)
    \<and> fst (get k (snd (get k s))) = map_option (\<lambda>(_, v). mv v) (gate s k)
    \<and> fst (get k (snd (get_ptr k s))) = fst (get k s)
    \<and> (case fst (get_ptr k s) of Some p \<Rightarrow> fst (get k (write_ptr p v (snd (get_ptr k s)))) = Some v | None \<Rightarrow> gate s k = None)"
proof (intro conjI)
  show "fst (get k s) = map_option snd (gate s k)"
    "fst (get k (snd (get k s))) = map_option (\<lambda>(_, v). mv v) (gate s k)"
    by (simp_all add: get_def ml.get_content_lru option.map_comp comp_def case_prod_unfold)
  show "fst (get k (snd (get_ptr k s))) = fst (get k s)"
    by (simp add: get_def get_ptr_def lru_get_ptr_as_get ml.get_content_lru option.map_comp comp_def case_prod_unfold)
  show "case fst (get_ptr k s) of Some p \<Rightarrow> fst (get k (write_ptr p v (snd (get_ptr k s)))) = Some v | None \<Rightarrow> gate s k = None"
    by (cases "gate s k") (auto simp: get_def get_ptr_def lru_get_ptr_as_get ml.get_content_lru write_ptr_def)
qed

end
