(* ===== verification/Cache.thy ===== *)
theory Cache
  imports Lru_Cache
begin

text \<open>
  \<^verbatim>\<open>webpp/storage/cache.hpp\<close>: the class that every cache is, over a strategy whose
  operations are arguments of the definitions, and the result object that
  \<^verbatim>\<open>operator[]\<close> and \<open>emplace_get\<close> return. Such an object refers to its
  cache; its operations take and return the state of the cache.
\<close>

section \<open>The class\<close>

record ('k, 'v) cache_result =
  the_key :: 'k
  result_value :: "'v option"

definition cache_set :: "('k \<Rightarrow> 'v \<Rightarrow> 's \<Rightarrow> 's) \<Rightarrow> 'k \<Rightarrow> 'v \<Rightarrow> 's \<Rightarrow> 's" where
  "cache_set sset key value s = sset key value s"

definition cache_get :: "('k \<Rightarrow> 's \<Rightarrow> 'v option \<times> 's) \<Rightarrow> 'k \<Rightarrow> 's \<Rightarrow> 'v option \<times> 's" where
  "cache_get sget key s = sget key s"

definition cache_get_default :: "('k \<Rightarrow> 's \<Rightarrow> 'v option \<times> 's) \<Rightarrow> 'k \<Rightarrow> 'v \<Rightarrow> 's \<Rightarrow> 'v \<times> 's" where
  "cache_get_default sget key default_value s =
     (let (data, s) = sget key s in (case data of Some value \<Rightarrow> value | None \<Rightarrow> default_value, s))"

definition cache_index :: "('k \<Rightarrow> 's \<Rightarrow> 'v option \<times> 's) \<Rightarrow> 'k \<Rightarrow> 's \<Rightarrow> ('k, 'v) cache_result \<times> 's" where
  "cache_index sget key s = (let (data, s) = cache_get sget key s in (\<lparr>the_key = key, result_value = data\<rparr>, s))"

definition cache_emplace_get ::
  "('k \<Rightarrow> 'v \<Rightarrow> 's \<Rightarrow> 's) \<Rightarrow> ('k \<Rightarrow> 's \<Rightarrow> 'v option \<times> 's) \<Rightarrow> 'k \<Rightarrow> 'v \<Rightarrow> 's \<Rightarrow> ('k, 'v) cache_result \<times> 's" where
  "cache_emplace_get sset sget key value s =
     (let (data, s) = sget key s in
      case data of
        Some found \<Rightarrow> (\<lparr>the_key = key, result_value = Some found\<rparr>, s)
      | None \<Rightarrow> (\<lparr>the_key = key, result_value = Some value\<rparr>, cache_set sset key value s))"

definition cache_emplace_get_ptr ::
  "('k \<Rightarrow> 'v \<Rightarrow> 's \<Rightarrow> 's) \<Rightarrow> ('k \<Rightarrow> 's \<Rightarrow> 'p option \<times> 's) \<Rightarrow> 'k \<Rightarrow> 'v \<Rightarrow> 's \<Rightarrow> 'p option \<times> 's" where
  "cache_emplace_get_ptr sset sget_ptr key value s =
     (let (p, s) = sget_ptr key s in
      case p of Some _ \<Rightarrow> (p, s) | None \<Rightarrow> sget_ptr key (cache_set sset key value s))"

text \<open>The result object: assigning a value writes it to the cache only; saving writes the value of the
  object, whose absence throws an exception.\<close>

definition cache_result_assign ::
  "('k \<Rightarrow> 'v \<Rightarrow> 's \<Rightarrow> 's) \<Rightarrow> 'v \<Rightarrow> ('k, 'v) cache_result \<Rightarrow> 's \<Rightarrow> ('k, 'v) cache_result \<times> 's" where
  "cache_result_assign sset new_val r s = (r, cache_set sset (the_key r) new_val s)"

definition cache_result_key :: "('k, 'v) cache_result \<Rightarrow> 'k" where
  "cache_result_key r = the_key r"

definition cache_result_save ::
  "('k \<Rightarrow> 'v \<Rightarrow> 's \<Rightarrow> 's) \<Rightarrow> ('k, 'v) cache_result \<Rightarrow> 's \<Rightarrow> (('k, 'v) cache_result \<times> 's) option" where
  "cache_result_save sset r s =
     map_option (\<lambda>value. (r, cache_set sset (the_key r) value s)) (result_value r)"

section \<open>The interface of a strategy\<close>

text \<open>\<open>view\<close> is what a cache holds, and \<open>roomy\<close> that it keeps a pair that is set.\<close>

locale cache_strategy =
  fixes view :: "'s \<Rightarrow> 'k \<Rightarrow> 'v option"
    and sset :: "'k \<Rightarrow> 'v \<Rightarrow> 's \<Rightarrow> 's"
    and sget :: "'k \<Rightarrow> 's \<Rightarrow> 'v option \<times> 's"
    and roomy :: "'s \<Rightarrow> bool" and left :: "'v \<Rightarrow> 'v"
  assumes sget_value: "fst (sget k s) = view s k"
    and sget_view: "view (snd (sget k s)) = (view s)(k := map_option left (view s k))"
    and sset_view: "roomy s \<Longrightarrow> view (sset k v s) k = Some v"
    and sget_roomy: "roomy (snd (sget k s)) = roomy s"
begin

lemma emplace_get_value:
  "result_value (fst (cache_emplace_get sset sget k v s)) = Some (case view s k of Some w \<Rightarrow> w | None \<Rightarrow> v)"
  using sget_value [of k s] by (auto simp: cache_emplace_get_def case_prod_unfold split: option.splits)

lemma emplace_get_view:
  "roomy s \<Longrightarrow> view (snd (cache_emplace_get sset sget k v s)) k = Some (case view s k of Some w \<Rightarrow> left w | None \<Rightarrow> v)"
  using sget_value [of k s] sget_view [of k s] sset_view [of "snd (sget k s)" k v] sget_roomy [of k s]
  by (auto simp: cache_emplace_get_def cache_set_def case_prod_unfold split: option.splits)

text \<open>Saving the object that \<open>operator[]\<close> returned puts the value back that reading took.\<close>

lemma index_save:
  "roomy s \<Longrightarrow> case cache_index sget k s of (r, s') \<Rightarrow>
     case cache_result_save sset r s' of Some (_, s'') \<Rightarrow> view s'' k = view s k | None \<Rightarrow> view s k = None"
  using sget_value [of k s] sset_view [of "snd (sget k s)" k "the (view s k)"] sget_roomy [of k s]
  by (auto simp: cache_index_def cache_get_def cache_result_save_def cache_set_def case_prod_unfold split: option.splits)

lemma index_assign:
  "roomy s \<Longrightarrow> case cache_index sget k s of (r, s') \<Rightarrow> view (snd (cache_result_assign sset v r s')) k = Some v"
  using sset_view [of "snd (sget k s)" k v] sget_roomy [of k s]
  by (auto simp: cache_index_def cache_get_def cache_result_assign_def cache_set_def case_prod_unfold Let_def)

end

section \<open>The LRU cache in memory\<close>

abbreviation mem_set :: "'k \<Rightarrow> 'v \<Rightarrow> ('k, 'v) mem_lru \<Rightarrow> ('k, 'v) mem_lru" where
  "mem_set \<equiv> lru_set memory_gate_set memory_gate_erase_if"

abbreviation mem_get :: "('v \<Rightarrow> 'v) \<Rightarrow> 'k \<Rightarrow> ('k, 'v) mem_lru \<Rightarrow> 'v option \<times> ('k, 'v) mem_lru" where
  "mem_get mv \<equiv> lru_get (memory_gate_get mv (\<lambda>opts. opts)) memory_gate_set_options"

abbreviation mem_get_ptr :: "'k \<Rightarrow> ('k, 'v) mem_lru \<Rightarrow> 'k option \<times> ('k, 'v) mem_lru" where
  "mem_get_ptr \<equiv> lru_get_ptr memory_gate_get_ptr memory_gate_set_options"

text \<open>A pair that is set stays, also where the counter wraps.\<close>

lemma mem_set_kept:
  assumes "max_size s \<noteq> 0"
  shows "gate (mem_set k v s) k = Some (next_usage s, v)"
proof (cases "next_usage s + 1 \<le> max_size s")
  case True
  then show ?thesis by (simp add: lru_set_def lru_clean_up_def memory_gate_set_def)
next
  case False
  then have "next_usage s + 1 \<noteq> 0" by auto
  then have n: "unat (next_usage s + 1) = Suc (unat (next_usage s))" by (simp add: add.commute [of "next_usage s"] unatSuc)
  moreover have "unat (max_size s) \<noteq> 0" using assms by (simp add: unat_eq_0)
  ultimately have "unat (next_usage s + 1 - max_size s) \<le> unat (next_usage s)"
    using False by (subst unat_sub) (simp_all add: word_le_nat_alt)
  then have "\<not> next_usage s < next_usage s + 1 - max_size s" by (simp add: word_less_nat_alt)
  then show ?thesis using False
    by (simp add: lru_set_def lru_clean_up_def memory_gate_set_def memory_gate_erase_if_def Let_def)
qed

interpretation mc: cache_strategy "\<lambda>s k. map_option snd (gate s k)" mem_set "mem_get mv" "\<lambda>s. max_size s \<noteq> 0" mv for mv
  by unfold_locales
    (auto simp: ml.get_content_lru mem_set_kept option.map_comp comp_def case_prod_unfold fun_eq_iff)

text \<open>C25: Over the LRU cache in memory, \<open>emplace_get\<close> gives the stored value or stores the given one,
  but what it leaves of a stored value is what a move leaves; saving the object that
  \<open>operator[]\<close> returned restores it, and fails exactly where the key is missing; a value
  assigned to that object is in the cache afterwards.\<close>

theorem cache_results:
  assumes "max_size s \<noteq> 0"
  shows "result_value (fst (cache_emplace_get mem_set (mem_get mv) k v s)) = Some (case gate s k of Some (_, w) \<Rightarrow> w | None \<Rightarrow> v)
    \<and> map_option snd (gate (snd (cache_emplace_get mem_set (mem_get mv) k v s)) k)
       = Some (case gate s k of Some (_, w) \<Rightarrow> mv w | None \<Rightarrow> v)
    \<and> (case cache_index (mem_get mv) k s of (r, s') \<Rightarrow>
       case cache_result_save mem_set r s' of
         Some (_, s'') \<Rightarrow> map_option snd (gate s'' k) = map_option snd (gate s k) | None \<Rightarrow> gate s k = None)
    \<and> (case cache_index (mem_get mv) k s of (r, s') \<Rightarrow>
       map_option snd (gate (snd (cache_result_assign mem_set v r s')) k) = Some v)"
proof (intro conjI)
  show "result_value (fst (cache_emplace_get mem_set (mem_get mv) k v s)) = Some (case gate s k of Some (_, w) \<Rightarrow> w | None \<Rightarrow> v)"
    using mc.emplace_get_value [where mv = mv and k = k and v = v and s = s] by (auto split: option.splits)
  show "map_option snd (gate (snd (cache_emplace_get mem_set (mem_get mv) k v s)) k)
       = Some (case gate s k of Some (_, w) \<Rightarrow> mv w | None \<Rightarrow> v)"
    using mc.emplace_get_view [OF assms, where mv = mv and k = k and v = v] by (auto split: option.splits)
  show "case cache_index (mem_get mv) k s of (r, s') \<Rightarrow>
       case cache_result_save mem_set r s' of
         Some (_, s'') \<Rightarrow> map_option snd (gate s'' k) = map_option snd (gate s k) | None \<Rightarrow> gate s k = None"
    using mc.index_save [OF assms, where mv = mv and k = k] by (simp only: option.map_disc_iff)
  show "case cache_index (mem_get mv) k s of (r, s') \<Rightarrow>
       map_option snd (gate (snd (cache_result_assign mem_set v r s')) k) = Some v"
    by (rule mc.index_assign [OF assms])
qed

theorem cache_results_witness:
  "map_option snd (gate (snd (cache_emplace_get mem_set (mem_get (\<lambda>_. [])) (1 :: nat) [True] (lru_new [1 \<mapsto> (0, [False])] 4))) 1)
     = Some (case gate (lru_new [1 \<mapsto> (0 :: u64, [False])] 4) (1 :: nat) of Some (_, w) \<Rightarrow> [] | None \<Rightarrow> [True])"
  by (rule cache_results [THEN conjunct2, THEN conjunct1]) (simp add: lru_new_def)

end
