(* ===== verification/Http_Verbs.thy ===== *)
theory Http_Verbs
  imports Webpp_Prelude
begin

text \<open>
  The request methods of \<^verbatim>\<open>webpp/http/verbs.hpp\<close>: the enumeration, the decision tree that
  recognises the name of a method, its text, and the tests for safe and idempotent methods. A view is the
  text that is left; an index outside of it is \<^const>\<open>None\<close>. The recogniser and the printer
  interpret the locale \<open>canonical_codec\<close>: a text has at most one method and a method exactly one text.
\<close>

datatype verb =
    verb_unknown
  | verb_del
  | verb_get
  | verb_head
  | verb_post
  | verb_put
  | verb_connect
  | verb_options
  | verb_trace
  | verb_copy
  | verb_lock
  | verb_mkcol
  | verb_move
  | verb_propfind
  | verb_proppatch
  | verb_search
  | verb_unlock
  | verb_bind
  | verb_rebind
  | verb_unbind
  | verb_acl
  | verb_report
  | verb_mkactivity
  | verb_checkout
  | verb_merge
  | verb_msearch
  | verb_notify
  | verb_subscribe
  | verb_unsubscribe
  | verb_patch
  | verb_purge
  | verb_mkcalendar
  | verb_link
  | verb_unlink

definition string_to_verb :: "string \<Rightarrow> verb option" where
  "string_to_verb str =
     (if length str < 3 then Some verb_unknown
      else do {
        c \<leftarrow> load str 0;
        let v = drop 1 str;
        (if c = CHR ''A'' then
           (if v = ''CL'' then Some verb_acl else Some verb_unknown)
         else if c = CHR ''B'' then
           (if v = ''IND'' then Some verb_bind else Some verb_unknown)
         else if c = CHR ''C'' then do {
           c \<leftarrow> load v 0;
           let v = drop 1 v;
           (if c = CHR ''H'' then
              (if v = ''ECKOUT'' then Some verb_checkout else Some verb_unknown)
            else if c = CHR ''O'' then
              (if v = ''NNECT'' then Some verb_connect
               else if v = ''PY'' then Some verb_copy
               else Some verb_unknown)
            else Some verb_unknown) }
         else if c = CHR ''D'' then
           (if v = ''ELETE'' then Some verb_del else Some verb_unknown)
         else if c = CHR ''G'' then
           (if v = ''ET'' then Some verb_get else Some verb_unknown)
         else if c = CHR ''H'' then
           (if v = ''EAD'' then Some verb_head else Some verb_unknown)
         else if c = CHR ''L'' then
           (if v = ''INK'' then Some verb_link
            else if v = ''OCK'' then Some verb_lock
            else Some verb_unknown)
         else if c = CHR ''M'' then do {
           c \<leftarrow> load v 0;
           let v = drop 1 v;
           (if c = CHR ''-'' then
              (if v = ''SEARCH'' then Some verb_msearch else Some verb_unknown)
            else if c = CHR ''E'' then
              (if v = ''RGE'' then Some verb_merge else Some verb_unknown)
            else if c = CHR ''K'' then
              (if v = ''ACTIVITY'' then Some verb_mkactivity
               else do {
                 d \<leftarrow> load v 0;
                 (if d = CHR ''C'' then
                    (if drop 1 v = ''ALENDAR'' then Some verb_mkcalendar
                     else if drop 1 v = ''OL'' then Some verb_mkcol
                     else Some verb_unknown)
                  else Some verb_unknown) })
            else if c = CHR ''O'' then
              (if v = ''VE'' then Some verb_move else Some verb_unknown)
            else Some verb_unknown) }
         else if c = CHR ''N'' then
           (if v = ''OTIFY'' then Some verb_notify else Some verb_unknown)
         else if c = CHR ''O'' then
           (if v = ''PTIONS'' then Some verb_options else Some verb_unknown)
         else if c = CHR ''P'' then do {
           c \<leftarrow> load v 0;
           let v = drop 1 v;
           (if c = CHR ''A'' then
              (if v = ''TCH'' then Some verb_patch else Some verb_unknown)
            else if c = CHR ''O'' then
              (if v = ''ST'' then Some verb_post else Some verb_unknown)
            else if c = CHR ''R'' then
              (if v = ''OPFIND'' then Some verb_propfind
               else if v = ''OPPATCH'' then Some verb_proppatch
               else Some verb_unknown)
            else if c = CHR ''U'' then
              (if v = ''RGE'' then Some verb_purge
               else if v = ''T'' then Some verb_put
               else Some verb_unknown)
            else Some verb_unknown) }
         else if c = CHR ''R'' then do {
           c \<leftarrow> load v 0;
           (if c \<noteq> CHR ''E'' then Some verb_unknown
            else if drop 1 v = ''BIND'' then Some verb_rebind
            else if drop 1 v = ''PORT'' then Some verb_report
            else Some verb_unknown) }
         else if c = CHR ''S'' then
           (if v = ''EARCH'' then Some verb_search
            else if v = ''UBSCRIBE'' then Some verb_subscribe
            else Some verb_unknown)
         else if c = CHR ''T'' then
           (if v = ''RACE'' then Some verb_trace else Some verb_unknown)
         else if c = CHR ''U'' then do {
           c \<leftarrow> load v 0;
           (if c \<noteq> CHR ''N'' then Some verb_unknown
            else if drop 1 v = ''BIND'' then Some verb_unbind
            else if drop 1 v = ''LINK'' then Some verb_unlink
            else if drop 1 v = ''LOCK'' then Some verb_unlock
            else if drop 1 v = ''SUBSCRIBE'' then Some verb_unsubscribe
            else Some verb_unknown) }
         else Some verb_unknown) })"

fun verb_to_string :: "verb \<Rightarrow> string" where
  "verb_to_string verb_del = ''DELETE''"
| "verb_to_string verb_get = ''GET''"
| "verb_to_string verb_head = ''HEAD''"
| "verb_to_string verb_post = ''POST''"
| "verb_to_string verb_put = ''PUT''"
| "verb_to_string verb_connect = ''CONNECT''"
| "verb_to_string verb_options = ''OPTIONS''"
| "verb_to_string verb_trace = ''TRACE''"
| "verb_to_string verb_copy = ''COPY''"
| "verb_to_string verb_lock = ''LOCK''"
| "verb_to_string verb_mkcol = ''MKCOL''"
| "verb_to_string verb_move = ''MOVE''"
| "verb_to_string verb_propfind = ''PROPFIND''"
| "verb_to_string verb_proppatch = ''PROPPATCH''"
| "verb_to_string verb_search = ''SEARCH''"
| "verb_to_string verb_unlock = ''UNLOCK''"
| "verb_to_string verb_bind = ''BIND''"
| "verb_to_string verb_rebind = ''REBIND''"
| "verb_to_string verb_unbind = ''UNBIND''"
| "verb_to_string verb_acl = ''ACL''"
| "verb_to_string verb_report = ''REPORT''"
| "verb_to_string verb_mkactivity = ''MKACTIVITY''"
| "verb_to_string verb_checkout = ''CHECKOUT''"
| "verb_to_string verb_merge = ''MERGE''"
| "verb_to_string verb_msearch = ''M-SEARCH''"
| "verb_to_string verb_notify = ''NOTIFY''"
| "verb_to_string verb_subscribe = ''SUBSCRIBE''"
| "verb_to_string verb_unsubscribe = ''UNSUBSCRIBE''"
| "verb_to_string verb_patch = ''PATCH''"
| "verb_to_string verb_purge = ''PURGE''"
| "verb_to_string verb_mkcalendar = ''MKCALENDAR''"
| "verb_to_string verb_link = ''LINK''"
| "verb_to_string verb_unlink = ''UNLINK''"
| "verb_to_string verb_unknown = ''<unknown>''"

definition is_verb_safe_text :: "string \<Rightarrow> bool" where
  "is_verb_safe_text verb_name \<longleftrightarrow>
     verb_name = ''GET'' \<or> verb_name = ''HEAD'' \<or> verb_name = ''OPTIONS'' \<or> verb_name = ''TRACE''"

definition is_verb_safe :: "verb \<Rightarrow> bool" where
  "is_verb_safe v \<longleftrightarrow> v = verb_get \<or> v = verb_head \<or> v = verb_options \<or> v = verb_trace"

definition is_verb_idempotent_text :: "string \<Rightarrow> bool" where
  "is_verb_idempotent_text verb_name \<longleftrightarrow>
     is_verb_safe_text verb_name \<or> verb_name = ''PUT'' \<or> verb_name = ''DELETE''"

definition is_verb_idempotent :: "verb \<Rightarrow> bool" where
  "is_verb_idempotent v \<longleftrightarrow> (if v = verb_put \<or> v = verb_del then True else is_verb_safe v)"

section \<open>Recognising and printing\<close>

lemma string_to_verb_text: "v \<noteq> verb_unknown \<Longrightarrow> string_to_verb (verb_to_string v) = Some v"
  by (cases v) (simp_all add: string_to_verb_def load_def Let_def)

lemma string_to_verb_unknown_text: "string_to_verb (verb_to_string verb_unknown) = Some verb_unknown"
  by (simp add: string_to_verb_def load_def Let_def)

lemma load_0: "load xs 0 = (case xs of [] \<Rightarrow> None | x # _ \<Rightarrow> Some x)"
  by (cases xs) (simp_all add: load_def)

lemma string_to_verb_total: "string_to_verb s \<noteq> None"
proof (cases "length s < 3")
  case False
  then obtain a b c t where "s = a # b # c # t"
    by (cases s; cases "tl s"; cases "tl (tl s)") auto
  then show ?thesis by (simp add: string_to_verb_def load_0 Let_def)
qed (simp add: string_to_verb_def)

lemma string_to_verb_sound:
  assumes "string_to_verb s = Some v" "v \<noteq> verb_unknown"
  shows "verb_to_string v = s"
proof -
  have "\<not> length s < 3" using assms by (auto simp: string_to_verb_def)
  then obtain a b c t where "s = a # b # c # t"
    by (cases s; cases "tl s"; cases "tl (tl s)") auto
  then show ?thesis
    using assms by (auto simp: string_to_verb_def load_0 Let_def split: if_splits)
qed

text \<open>The texts of the known methods and the recogniser are a codec.\<close>

definition known_verb :: "string \<Rightarrow> verb option" where
  "known_verb s = Option.bind (string_to_verb s) (\<lambda>v. if v = verb_unknown then None else Some v)"

interpretation verb_codec: canonical_codec "\<lambda>v. v \<noteq> verb_unknown" "\<lambda>v. Some (verb_to_string v)" known_verb
  by unfold_locales
    (auto simp: known_verb_def string_to_verb_text string_to_verb_sound split: bind_splits if_splits)

text \<open>C36: The recogniser never reads outside of its text. It returns a known method exactly for the text
  of that method, and the unknown method exactly for the texts of no known method.\<close>

theorem string_to_verb_iff:
  "string_to_verb s \<noteq> None
    \<and> (string_to_verb s = Some v \<longleftrightarrow>
        (if v = verb_unknown then s \<notin> verb_to_string ` (UNIV - {verb_unknown}) else s = verb_to_string v))"
proof -
  obtain w where w: "string_to_verb s = Some w" using string_to_verb_total by blast
  have known: "known_verb s = Some v \<longleftrightarrow> v \<noteq> verb_unknown \<and> verb_to_string v = s" for v
    using verb_codec.parse_iff [of s v] by simp
  show ?thesis
  proof (cases "w = verb_unknown")
    case True
    then have none: "known_verb s = None" using w by (simp add: known_verb_def)
    then have "s \<noteq> verb_to_string u" if "u \<noteq> verb_unknown" for u using known [of u] that by auto
    with w True show ?thesis by auto
  next
    case False
    then have "known_verb s = Some w" using w by (simp add: known_verb_def)
    with w False show ?thesis using known [of w] known [of v] by (cases "v = w") auto
  qed
qed

text \<open>The tests for safe and for idempotent methods agree on the text and on the method that is
  recognised in it, also for texts of no method.\<close>

theorem verb_classes_agree:
  "\<exists>v. string_to_verb s = Some v \<and> is_verb_safe_text s = is_verb_safe v \<and> is_verb_idempotent_text s = is_verb_idempotent v"
proof -
  obtain w where w: "string_to_verb s = Some w" using string_to_verb_total by blast
  show ?thesis
  proof (cases "w = verb_unknown")
    case True
    then have "s \<noteq> verb_to_string u" if "u \<noteq> verb_unknown" for u
      using w that string_to_verb_text [OF that] by auto
    from this [of verb_get] this [of verb_head] this [of verb_options] this [of verb_trace] this [of verb_put] this [of verb_del]
    show ?thesis
      using w True by (simp add: is_verb_safe_text_def is_verb_safe_def is_verb_idempotent_text_def is_verb_idempotent_def)
  next
    case False
    have "verb_to_string w = s" using string_to_verb_sound [OF w False] .
    then show ?thesis
      using w by (cases w) (auto simp: is_verb_safe_text_def is_verb_safe_def is_verb_idempotent_text_def is_verb_idempotent_def)
  qed
qed

end
