(* ===== verification/Versions.thy ===== *)
theory Versions
  imports Casts "HOL-Library.Sublist"
begin

unbundle bit_operations_syntax

text \<open>
  The two version classes: \<^verbatim>\<open>basic_version\<close> of \<^verbatim>\<open>webpp/utils/version.hpp\<close> with its
  default octets of 16 bits, and \<^verbatim>\<open>http::version\<close> of \<^verbatim>\<open>webpp/http/http_version.hpp\<close>.
  The position that \<open>find\<close> returns is an option, whose \<^const>\<open>None\<close> is \<^verbatim>\<open>npos\<close>;
  adding one to it wraps around to zero.
\<close>

definition find_dot :: "string \<Rightarrow> nat option" where
  "find_dot str = (if CHR ''.'' \<in> set str then Some (length (takeWhile (\<lambda>c. c \<noteq> CHR ''.'') str)) else None)"

definition after_dot :: "nat option \<Rightarrow> nat" where
  "after_dot dot = (case dot of None \<Rightarrow> 0 | Some d \<Rightarrow> d + 1)"

definition before_dot :: "string \<Rightarrow> string" where
  "before_dot str = (case find_dot str of None \<Rightarrow> str | Some d \<Rightarrow> take d str)"

text \<open>The conversion that assumes a safe input has no errors in base ten.\<close>

definition to_uint16 :: "string \<Rightarrow> u16" where
  "to_uint16 str = (case to_unsigned assume_safe 10 str of Inr v \<Rightarrow> v | Inl _ \<Rightarrow> 0)"

section \<open>The general version\<close>

type_synonym basic_version = "u16 list"

fun from_safe_string_loop :: "string \<Rightarrow> basic_version \<Rightarrow> basic_version" where
  "from_safe_string_loop str [] = []"
| "from_safe_string_loop str (octet # octets) =
     (if find_dot str = None \<and> str = [] then replicate (Suc (length octets)) 0
      else to_uint16 (before_dot str) # from_safe_string_loop (drop (after_dot (find_dot str)) str) octets)"

definition version_from_safe_string :: "string \<Rightarrow> basic_version \<Rightarrow> basic_version" where
  "version_from_safe_string inp_str v = from_safe_string_loop inp_str v"

fun from_string_loop :: "string \<Rightarrow> basic_version \<Rightarrow> bool \<times> basic_version" where
  "from_string_loop str [] = (True, [])"
| "from_string_loop str (octet # octets) =
     (if find_dot str = None \<and> str = [] then (True, replicate (Suc (length octets)) 0)
      else (case to_unsigned use_expected 10 (before_dot str) of
          Inr value \<Rightarrow> map_prod id ((#) value) (from_string_loop (drop (after_dot (find_dot str)) str) octets)
        | Inl _ \<Rightarrow> (False, octet # octets)))"

definition version_from_string :: "string \<Rightarrow> basic_version \<Rightarrow> bool \<times> basic_version" where
  "version_from_string inp_str v = from_string_loop inp_str v"

fun octet_text :: "nat \<Rightarrow> string" where
  "octet_text num = digit_char (num mod 10) # (if num div 10 = 0 then [] else octet_text (num div 10))"

declare octet_text.simps [simp del]

fun version_to_string :: "basic_version \<Rightarrow> string" where
  "version_to_string [] = []"
| "version_to_string [it] = octet_text (unat it)"
| "version_to_string (it # octets) = octet_text (unat it) @ CHR ''.'' # version_to_string octets"

text \<open>The assignment operators that a macro defines; the operands are promoted to \<^verbatim>\<open>int\<close>.\<close>

datatype assign_op = op_set | op_add | op_mul | op_sub | op_div | op_mod

definition apply_op :: "assign_op \<Rightarrow> u16 \<Rightarrow> u16 \<Rightarrow> u16 option" where
  "apply_op opr x y =
     (case opr of
        op_set \<Rightarrow> Some y
      | op_add \<Rightarrow> Some (x + y)
      | op_sub \<Rightarrow> Some (x - y)
      | op_mul \<Rightarrow> if int32_range (uint x * uint y) then Some (x * y) else None
      | op_div \<Rightarrow> if y = 0 then None else Some (x div y)
      | op_mod \<Rightarrow> if y = 0 then None else Some (x mod y))"

definition op_at :: "assign_op \<Rightarrow> nat \<Rightarrow> u16 \<Rightarrow> basic_version \<Rightarrow> basic_version option" where
  "op_at opr i y v = do { x \<leftarrow> load v i; r \<leftarrow> apply_op opr x y; store v i r }"

definition version_op_u16 :: "assign_op \<Rightarrow> u16 \<Rightarrow> basic_version \<Rightarrow> basic_version option" where
  "version_op_u16 opr new_value v = store v (length v - 1) new_value"

definition version_op_u32 :: "assign_op \<Rightarrow> u32 \<Rightarrow> basic_version \<Rightarrow> basic_version option" where
  "version_op_u32 opr new_value v = do {
     v \<leftarrow> op_at opr 1 (ucast new_value) v;
     op_at opr 0 (ucast (drop_bit 16 new_value)) v }"

text \<open>
  The index is unsigned, and is promoted before it is compared with minus one: the loop goes on after
  index zero with the greatest index, which no version has.
\<close>

fun op_u64_loop :: "assign_op \<Rightarrow> nat \<Rightarrow> u64 \<Rightarrow> basic_version \<Rightarrow> basic_version option" where
  "op_u64_loop opr 0 new_value v = do {
     v \<leftarrow> op_at opr 0 (ucast new_value) v;
     op_at opr 65535 (ucast (drop_bit 16 new_value)) v }"
| "op_u64_loop opr (Suc index) new_value v = do {
     v \<leftarrow> op_at opr (Suc index) (ucast new_value) v;
     op_u64_loop opr index (drop_bit 16 new_value) v }"

definition version_op_u64 :: "assign_op \<Rightarrow> u64 \<Rightarrow> basic_version \<Rightarrow> basic_version option" where
  "version_op_u64 opr new_value v = op_u64_loop opr (length v - 1) new_value v"

fun version_op_version :: "assign_op \<Rightarrow> basic_version \<Rightarrow> basic_version \<Rightarrow> basic_version option" where
  "version_op_version opr [] new_val = Some []"
| "version_op_version opr v [] = Some v"
| "version_op_version opr (x # v) (y # new_val) = do {
     r \<leftarrow> apply_op opr x y;
     v \<leftarrow> version_op_version opr v new_val;
     Some (r # v) }"

definition version_eq :: "basic_version \<Rightarrow> basic_version \<Rightarrow> bool" where
  "version_eq v other \<longleftrightarrow> v = other"

definition version_eq_text :: "basic_version \<Rightarrow> string \<Rightarrow> bool" where
  "version_eq_text v other =
     (let r = version_from_string other (replicate (length v) 0) in
      if \<not> fst r then False else v = snd r)"

text \<open>The other version of another length: its iterator must not pass its end.\<close>

fun version_eq_other :: "basic_version \<Rightarrow> basic_version \<Rightarrow> bool option" where
  "version_eq_other [] other = Some True"
| "version_eq_other (item # v) [] = None"
| "version_eq_other (item # v) (x # other) = (if item \<noteq> x then Some False else version_eq_other v other)"

fun version_compare :: "basic_version \<Rightarrow> basic_version \<Rightarrow> partial_ordering" where
  "version_compare (x # v) (y # other) =
     (if x < y then po_less else if y < x then po_greater else version_compare v other)"
| "version_compare _ _ = po_equivalent"

definition version_compare_text :: "basic_version \<Rightarrow> string \<Rightarrow> partial_ordering" where
  "version_compare_text v other =
     (let r = version_from_string other (replicate (length v) 0) in
      if \<not> fst r then po_unordered else version_compare v (snd r))"

fun version_compare_other :: "basic_version \<Rightarrow> basic_version \<Rightarrow> partial_ordering" where
  "version_compare_other [] rhs = (if list_all (\<lambda>y. y = 0) rhs then po_equivalent else po_less)"
| "version_compare_other (x # lhs) [] = (if list_all (\<lambda>y. y = 0) (x # lhs) then po_equivalent else po_greater)"
| "version_compare_other (x # lhs) (y # rhs) =
     (if y < x then po_greater else if x < y then po_less else version_compare_other lhs rhs)"

section \<open>The version of HTTP\<close>

text \<open>Packed as major and minor.\<close>

datatype http_version = Http_Version (version_value: u32)

definition pack_version :: "u16 \<Rightarrow> u16 \<Rightarrow> u32" where
  "pack_version major minor = push_bit 16 (ucast major) OR ucast minor"

definition version_parse_string :: "string \<Rightarrow> u32" where
  "version_parse_string str =
     (let dot = find_dot str;
          major = to_uint16 (before_dot str);
          minor = to_uint16 (drop (after_dot dot) str) in
      pack_version major minor)"

definition version_of_string :: "string \<Rightarrow> http_version" where
  "version_of_string str = Http_Version (version_parse_string str)"

definition version_new :: "u16 \<Rightarrow> u16 \<Rightarrow> http_version" where
  "version_new major minor = Http_Version (pack_version major minor)"

definition version_unknown :: http_version where "version_unknown = Http_Version 0"

definition major_value :: "http_version \<Rightarrow> u16" where
  "major_value v = ucast (drop_bit 16 (version_value v))"

definition minor_value :: "http_version \<Rightarrow> u16" where
  "minor_value v = ucast (version_value v AND 0xFFFF)"

definition is_unknown_version :: "http_version \<Rightarrow> bool" where
  "is_unknown_version v \<longleftrightarrow> version_value v = 0"

definition from_server_protocol :: "string \<Rightarrow> http_version" where
  "from_server_protocol str =
     (if \<not> prefix ''HTTP'' str then version_unknown
      else let str = drop 4 str in
        if prefix ''/'' str then version_of_string (drop 1 str)
        else if prefix ''S/'' str then version_of_string (drop 2 str)
        else version_unknown)"

definition http_version_less_eq :: "http_version \<Rightarrow> http_version \<Rightarrow> bool" where
  "http_version_less_eq v w \<longleftrightarrow> version_value v \<le> version_value w"

definition http_version_less :: "http_version \<Rightarrow> http_version \<Rightarrow> bool" where
  "http_version_less v w \<longleftrightarrow> version_value v < version_value w"

instantiation http_version :: linorder
begin

definition less_eq_http_version :: "http_version \<Rightarrow> http_version \<Rightarrow> bool" where "less_eq_http_version = http_version_less_eq"

definition less_http_version :: "http_version \<Rightarrow> http_version \<Rightarrow> bool" where "less_http_version = http_version_less"

instance
  by standard (auto simp: less_eq_http_version_def less_http_version_def http_version_less_eq_def
    http_version_less_def intro: http_version.expand)

end

fun include_version :: "http_version list \<Rightarrow> http_version \<Rightarrow> bool" where
  "include_version [] ver = False"
| "include_version (v # versions) ver = (if ver = v then True else include_version versions ver)"

definition all_http_versions :: "http_version list" where
  "all_http_versions = map version_of_string [''0.9'', ''1.0'', ''1.1'', ''2.0'', ''3.0'']"


section \<open>Decimal texts\<close>

lemma octet_text_digits: "octet_text n \<noteq> [] \<and> list_all is_digit (octet_text n)"
proof (induction n rule: octet_text.induct)
  case (1 n)
  have d: "is_digit (digit_char (n mod 10))" by (simp add: is_digit_digit_char)
  show ?case using 1 d by (subst (1 2) octet_text.simps) simp
qed

definition decimal :: "nat \<Rightarrow> string" where
  "decimal n = rev (octet_text n)"

lemma decimal_digits: "decimal n \<noteq> []" "list_all is_digit (decimal n)"
  using octet_text_digits [of n] by (simp_all add: decimal_def list_all_iff)

lemma digit_value_digit_char: "d < 10 \<Longrightarrow> digit_value (digit_char d) = d"
  by (simp add: digit_value_def)

lemma digits_value_snoc: "digits_value (s @ [c]) = digits_value s * 10 + digit_value c"
  by (simp add: digits_value_def)

lemma digits_value_decimal: "digits_value (decimal n) = n"
proof (induction n rule: octet_text.induct)
  case (1 n)
  have c: "digit_value (digit_char (n mod 10)) = n mod 10" by (simp add: digit_value_digit_char)
  show ?case
  proof (cases "n div 10 = 0")
    case True
    then show ?thesis using c by (simp add: decimal_def octet_text.simps [of n] digits_value_def)
  next
    case False
    with 1 have "digits_value (decimal (n div 10)) = n div 10" by simp
    moreover have "decimal n = decimal (n div 10) @ [digit_char (n mod 10)]"
      using False by (simp add: decimal_def octet_text.simps [of n])
    ultimately show ?thesis using c by (simp add: digits_value_snoc)
  qed
qed

lemma no_dot: "list_all is_digit s \<Longrightarrow> CHR ''.'' \<notin> set s"
  by (auto simp: list_all_iff is_digit_ord)

lemma find_dot_append: "CHR ''.'' \<notin> set s \<Longrightarrow> find_dot (s @ CHR ''.'' # t) = Some (length s)"
  by (auto simp: find_dot_def takeWhile_append)

lemma find_dot_none: "CHR ''.'' \<notin> set s \<Longrightarrow> find_dot s = None"
  by (simp add: find_dot_def)

section \<open>Reading a version\<close>

fun join_dots :: "string list \<Rightarrow> string" where
  "join_dots [] = []"
| "join_dots [d] = d"
| "join_dots (d # ds) = d @ CHR ''.'' # join_dots ds"

definition octet_of :: "string \<Rightarrow> u16" where
  "octet_of d = of_nat (digits_value d)"

text \<open>One step on a text of digits, with and without a dot after it.\<close>

lemma step_dot:
  assumes "list_all is_digit d" "d \<noteq> []"
  shows "from_string_loop (d @ CHR ''.'' # t) (octet # octets) = map_prod id ((#) (octet_of d)) (from_string_loop t octets)"
  using assms no_dot [OF assms(1)]
  by (simp add: find_dot_append before_dot_def after_dot_def to_unsigned_digits list_all_iff octet_of_def)

lemma step_last:
  assumes "list_all is_digit d" "d \<noteq> []"
  shows "from_string_loop d (octet # octets) = map_prod id ((#) (octet_of d)) (from_string_loop d octets)"
  using assms no_dot [OF assms(1)]
  by (simp add: find_dot_none before_dot_def after_dot_def to_unsigned_digits list_all_iff octet_of_def)

lemma from_string_last:
  "list_all is_digit d \<Longrightarrow> d \<noteq> [] \<Longrightarrow> from_string_loop d v = (True, replicate (length v) (octet_of d))"
  by (induction v) (simp_all add: step_last del: from_string_loop.simps(2))

lemma from_string_join:
  assumes "ds \<noteq> []" "list_all (\<lambda>d. d \<noteq> [] \<and> list_all is_digit d) ds"
  shows "from_string_loop (join_dots ds) v =
    (True, take (length v) (map octet_of ds @ replicate (length v - length ds) (octet_of (last ds))))"
  using assms
proof (induction ds arbitrary: v rule: join_dots.induct)
  case (2 d)
  then show ?case by (cases v) (simp_all add: from_string_last del: from_string_loop.simps(2))
next
  case (3 d d' ds)
  then show ?case by (cases v) (simp_all add: step_dot del: from_string_loop.simps(2))
qed simp

text \<open>The digits of an octet are written from the last to the first.\<close>

definition reversed_octet :: "u16 \<Rightarrow> u16" where
  "reversed_octet octet = octet_of (rev (decimal (unat octet)))"

lemma version_to_string_join: "version_to_string v = join_dots (map (\<lambda>octet. rev (decimal (unat octet))) v)"
  by (induction v rule: version_to_string.induct) (simp_all add: decimal_def)

lemma octet_of_decimal: "octet_of (decimal (unat octet)) = octet"
  by (simp add: octet_of_def digits_value_decimal)

text \<open>C37: A version is read from numbers between dots: each is taken modulo its width, those after the
  last octet are ignored, and when there are too few of them the last one is repeated in the octets that
  are left. Reading the text that was written gives the octets with their decimal digits reversed.\<close>

theorem version_from_string_results:
  assumes "ds \<noteq> []" and "list_all (\<lambda>d. d \<noteq> [] \<and> list_all is_digit d) ds" and "v \<noteq> []"
  shows "version_from_string (join_dots ds) old =
      (True, take (length old) (map octet_of ds @ replicate (length old - length ds) (octet_of (last ds))))
    \<and> version_from_string (version_to_string v) v = (True, map reversed_octet v)
    \<and> version_from_string (join_dots (map (\<lambda>octet. decimal (unat octet)) v)) v = (True, v)"
proof -
  have both: "list_all (\<lambda>d. d \<noteq> [] \<and> list_all is_digit d) (map (\<lambda>octet. rev (decimal (unat octet))) v)"
    "list_all (\<lambda>d. d \<noteq> [] \<and> list_all is_digit d) (map (\<lambda>octet. decimal (unat octet)) v)"
    using decimal_digits by (simp_all add: list_all_iff)
  show ?thesis
    using from_string_join [OF assms(1,2), of old] from_string_join [OF _ both(1), of v]
      from_string_join [OF _ both(2), of v] assms(3)
    by (simp add: version_from_string_def version_to_string_join comp_def octet_of_decimal)
      (simp add: reversed_octet_def [abs_def])
qed

theorem version_from_string_results_witness:
  "version_from_string ''1.2'' [0, 0, 0] = (True, [1, 2, 2])
    \<and> version_from_string (version_to_string [1, 20, 3]) [1, 20, 3] = (True, [1, 2, 3])"
proof -
  note r = version_from_string_results [of "[''1'', ''2'']" "[1, 20, 3]" "[0, 0, 0]"]
  have "list_all (\<lambda>d. d \<noteq> [] \<and> list_all is_digit d) [''1'', ''2'']" by code_simp
  moreover have "octet_of ''1'' = 1" "octet_of ''2'' = 2" by code_simp+
  moreover have "map reversed_octet [1, 20, 3] = [1, 2, 3]" by code_simp
  ultimately show ?thesis using r by simp
qed

section \<open>Assignments and comparisons\<close>

lemma op_u64_undefined: "index < length v \<Longrightarrow> length v \<le> 255 \<Longrightarrow> op_u64_loop opr index new_value v = None"
proof (induction opr index new_value v rule: op_u64_loop.induct)
  case (1 opr new_value v)
  have "length v' = length v" if "op_at opr 0 y v = Some v'" for v' y
    using that by (auto simp: op_at_def dest!: store_length split: bind_splits)
  then show ?case
    using 1 by (auto simp: op_at_def [of _ 65535] load_def split: bind_splits)
next
  case (2 opr index new_value v)
  have "length v' = length v" if "op_at opr (Suc index) y v = Some v'" for v' y
    using that by (auto simp: op_at_def dest!: store_length split: bind_splits)
  then show ?case using 2 by (auto split: bind_splits)
qed

fun pad_version :: "nat \<Rightarrow> basic_version \<Rightarrow> basic_version" where
  "pad_version n v = v @ replicate (n - length v) 0"

lemma version_compare_zeros:
  "version_compare (replicate (length rhs) 0) rhs = (if list_all (\<lambda>y. y = 0) rhs then po_equivalent else po_less)"
  "version_compare lhs (replicate (length lhs) 0) = (if list_all (\<lambda>y. y = 0) lhs then po_equivalent else po_greater)"
  by (induction rhs, simp_all add: word_neq_0_conv [symmetric], induction lhs)
    (auto simp: word_neq_0_conv [symmetric])




section \<open>Properties of the HTTP version\<close>

lemma pack_version_bits:
  "bit (pack_version a b) n \<longleftrightarrow> (if n < 16 then bit b n else n < 32 \<and> bit a (n - 16))"
  using bit_imp_le_length [of b n] bit_imp_le_length [of a "n - 16"]
  by (auto simp: pack_version_def bit_simps)

lemma unat_pack_version: "unat (pack_version a b) = unat a * 2 ^ 16 + unat b"
proof -
  have "unat (push_bit 16 (ucast a) :: u32) = unat a * 2 ^ 16"
  proof -
    have "unat a < 2 ^ 16" using unsigned_less [of a] by simp
    then show ?thesis
      by (simp add: push_bit_eq_mult unat_mult_lem [THEN iffD1] unsigned_ucast_eq unat_word_ariths
        take_bit_nat_eq_self push_bit_nat_eq unsigned_push_bit_eq)
  qed
  moreover have "push_bit 16 (ucast a) AND (ucast b :: u32) = 0"
    by (rule bit_eqI) (auto simp: bit_simps dest: bit_imp_le_length)
  then have "pack_version a b = push_bit 16 (ucast a) + ucast b"
    using word_plus_and_or [of "push_bit 16 (ucast a) :: u32" "ucast b"] by (simp add: pack_version_def)
  moreover have "unat (ucast b :: u32) = unat b"
    by (simp add: unsigned_ucast_eq take_bit_nat_eq_self unsigned_less [THEN order_less_le_trans])
  moreover have "unat a < 2 ^ 16" "unat b < 2 ^ 16" using unsigned_less [of a] unsigned_less [of b] by simp_all
  ultimately show ?thesis
    by (simp add: unat_word_ariths)
qed

lemma and_16: "w AND 0xFFFF = take_bit 16 (w :: u32)"
  by (simp add: take_bit_eq_mask mask_eq_exp_minus_1)

lemma version_parts:
  "major_value (version_new a b) = a" "minor_value (version_new a b) = b"
  by (rule bit_word_eqI, simp add: major_value_def minor_value_def version_new_def bit_simps pack_version_bits and_16)+

lemma version_of_parts: "version_new (major_value v) (minor_value v) = v"
proof (cases v)
  case (Http_Version x)
  have "pack_version (ucast (drop_bit 16 x)) (ucast (x AND 0xFFFF)) = x"
    by (rule bit_word_eqI) (auto simp: pack_version_bits bit_simps and_16)
  with Http_Version show ?thesis by (simp add: version_new_def major_value_def minor_value_def)
qed


lemma to_uint16_decimal: "to_uint16 (decimal (unat a)) = a"
  using to_unsigned_digits [of "decimal (unat a)" assume_safe, where 'w = 16] decimal_digits [of "unat a"]
  by (simp add: to_uint16_def list_all_iff digits_value_decimal)

lemma version_of_string_text:
  "version_of_string (decimal (unat a) @ CHR ''.'' # decimal (unat b)) = version_new a b"
  "version_of_string (decimal (unat a)) = version_new a a"
  using no_dot [OF decimal_digits(2), of "unat a"]
  by (simp_all add: version_of_string_def version_parse_string_def Let_def version_new_def before_dot_def after_dot_def
    find_dot_append find_dot_none to_uint16_decimal)

text \<open>A version of HTTP is its major and its minor number. It is read back from their decimal
  texts with a dot, also after the name of the protocol; a text with one number only gives that number
  for both parts.\<close>

theorem http_version_round_trip:
  "major_value (version_new a b) = a \<and> minor_value (version_new a b) = b
    \<and> version_new (major_value v) (minor_value v) = v
    \<and> (let numbers = decimal (unat a) @ CHR ''.'' # decimal (unat b) in
        version_of_string numbers = version_new a b
        \<and> from_server_protocol (''HTTP/'' @ numbers) = version_new a b
        \<and> from_server_protocol (''HTTPS/'' @ numbers) = version_new a b)
    \<and> version_of_string (decimal (unat a)) = version_new a a"
  by (simp add: version_parts version_of_parts version_of_string_text from_server_protocol_def Let_def)

text \<open>The comparison of the packed numbers is the comparison of the major numbers and then of
  the minor numbers; a version is unknown when both are zero.\<close>

theorem http_version_order:
  "(http_version_less v w \<longleftrightarrow> major_value v < major_value w \<or> major_value v = major_value w \<and> minor_value v < minor_value w)
    \<and> (http_version_less_eq v w \<longleftrightarrow> \<not> http_version_less w v)
    \<and> (v = w \<longleftrightarrow> major_value v = major_value w \<and> minor_value v = minor_value w)
    \<and> (is_unknown_version v \<longleftrightarrow> major_value v = 0 \<and> minor_value v = 0)"
proof -
  have val: "unat (version_value v) = unat (major_value v) * 2 ^ 16 + unat (minor_value v)" for v
    using version_of_parts [of v] unat_pack_version [of "major_value v" "minor_value v"]
    by (metis http_version.sel version_new_def)
  have bound: "unat (minor_value v) < 2 ^ 16" for v using unsigned_less [of "minor_value v"] by simp
  have less: "http_version_less v w \<longleftrightarrow> major_value v < major_value w \<or> major_value v = major_value w \<and> minor_value v < minor_value w"
    using val [of v] val [of w] bound [of v] bound [of w]
    by (auto simp: http_version_less_def word_less_nat_alt word_unat_eq_iff)
  moreover have "http_version_less_eq v w \<longleftrightarrow> \<not> http_version_less w v"
    by (auto simp: http_version_less_eq_def http_version_less_def)
  moreover have "v = w \<longleftrightarrow> major_value v = major_value w \<and> minor_value v = minor_value w"
    using version_of_parts by metis
  moreover have "is_unknown_version v \<longleftrightarrow> major_value v = 0 \<and> minor_value v = 0"
    using val [of v] by (auto simp: is_unknown_version_def word_unat_eq_iff)
  ultimately show ?thesis by blast
qed

end
