(* ===== verification/Composition_Tables.thy ===== *)
theory Composition_Tables
  imports Webpp_Prelude
begin

text \<open>
  The tables of \<^verbatim>\<open>webpp/unicode/details/composition_tables.hpp\<close>, number by number. A second code
  point comes with the start and the modulus of its part of the table of first code points, whose entries are
  the low byte of a first code point and the composition. The second table is cut into pieces of whole lines.
\<close>

definition cp2s_rem :: nat where "cp2s_rem = 313"

definition cp2s :: "(nat \<times> nat \<times> nat) list" where
  "cp2s =
    [(0, 0, 1), (0, 0, 1), (0, 0, 1), (0, 0, 1), (0, 0, 1), (0, 0, 1), (0, 0, 1), (0, 0, 1), (0, 0, 1),
     (0, 0, 1), (0, 0, 1), (0, 0, 1), (0, 0, 1), (0, 0, 1), (0, 0, 1), (2519, 2676, 1), (0, 0, 1),
     (0, 0, 1), (0, 0, 1), (69818, 2813, 7), (0, 0, 1), (0, 0, 1), (0, 0, 1), (0, 0, 1), (0, 0, 1),
     (0, 0, 1), (0, 0, 1), (0, 0, 1), (3158, 2685, 1), (0, 0, 1), (0, 0, 1), (0, 0, 1), (0, 0, 1),
     (0, 0, 1), (0, 0, 1), (0, 0, 1), (71087, 2825, 2), (70462, 2820, 1), (0, 0, 1), (0, 0, 1), (0, 0, 1),
     (0, 0, 1), (0, 0, 1), (0, 0, 1), (0, 0, 1), (0, 0, 1), (0, 0, 1), (0, 0, 1), (0, 0, 1), (0, 0, 1),
     (0, 0, 1), (0, 0, 1), (0, 0, 1), (0, 0, 1), (1619, 2658, 1), (1620, 2659, 12), (1621, 2669, 1),
     (0, 0, 1), (0, 0, 1), (0, 0, 1), (0, 0, 1), (2878, 2677, 1), (70487, 2821, 1), (0, 0, 1), (0, 0, 1),
     (0, 0, 1), (0, 0, 1), (0, 0, 1), (0, 0, 1), (0, 0, 1), (0, 0, 1), (0, 0, 1), (0, 0, 1),
     (4142, 2698, 1), (0, 0, 1), (0, 0, 1), (0, 0, 1), (0, 0, 1), (0, 0, 1), (6965, 2699, 16), (0, 0, 1),
     (0, 0, 1), (0, 0, 1), (0, 0, 1), (0, 0, 1), (2902, 2678, 1), (2903, 2679, 1), (3530, 2694, 2),
     (0, 0, 1), (0, 0, 1), (0, 0, 1), (0, 0, 1), (3535, 2696, 1), (0, 0, 1), (70832, 2822, 1), (0, 0, 1),
     (0, 0, 1), (0, 0, 1), (0, 0, 1), (0, 0, 1), (0, 0, 1), (0, 0, 1), (0, 0, 1), (0, 0, 1),
     (70842, 2823, 1), (0, 0, 1), (0, 0, 1), (70845, 2824, 1), (3551, 2697, 1), (0, 0, 1), (0, 0, 1),
     (0, 0, 1), (0, 0, 1), (0, 0, 1), (0, 0, 1), (0, 0, 1), (0, 0, 1), (0, 0, 1), (0, 0, 1), (0, 0, 1),
     (0, 0, 1), (0, 0, 1), (0, 0, 1), (0, 0, 1), (0, 0, 1), (0, 0, 1), (0, 0, 1), (0, 0, 1),
     (69927, 2818, 2), (0, 0, 1), (0, 0, 1), (0, 0, 1), (0, 0, 1), (0, 0, 1), (0, 0, 1), (0, 0, 1),
     (3266, 2686, 1), (0, 0, 1), (0, 0, 1), (0, 0, 1), (0, 0, 1), (0, 0, 1), (768, 0, 357), (769, 337, 545),
     (770, 875, 112), (771, 987, 72), (772, 1059, 226), (0, 0, 1), (774, 1280, 153), (775, 1429, 103),
     (776, 1532, 218), (777, 1747, 70), (778, 1817, 15), (779, 1832, 9), (780, 1840, 63), (3285, 2687, 3),
     (3286, 2690, 1), (783, 1902, 30), (0, 0, 1), (785, 1930, 25), (0, 0, 1), (787, 1954, 27),
     (788, 1981, 27), (0, 0, 1), (0, 0, 1), (0, 0, 1), (0, 0, 1), (0, 0, 1), (0, 0, 1), (795, 2008, 5),
     (0, 0, 1), (0, 0, 1), (0, 0, 1), (2364, 2670, 5), (0, 0, 1), (0, 0, 1), (0, 0, 1), (803, 2013, 76),
     (804, 2089, 3), (805, 2091, 3), (806, 2094, 5), (807, 2099, 50), (808, 2149, 15), (0, 0, 1), (0, 0, 1),
     (0, 0, 1), (0, 0, 1), (813, 2163, 18), (814, 2179, 3), (3006, 2680, 2), (816, 2182, 13),
     (817, 2193, 37), (0, 0, 1), (0, 0, 1), (0, 0, 1), (0, 0, 1), (0, 0, 1), (0, 0, 1), (824, 2230, 150),
     (0, 0, 1), (0, 0, 1), (0, 0, 1), (0, 0, 1), (0, 0, 1), (0, 0, 1), (0, 0, 1), (0, 0, 1), (0, 0, 1),
     (834, 2380, 106), (0, 0, 1), (0, 0, 1), (837, 2486, 217), (0, 0, 1), (0, 0, 1), (3031, 2682, 3),
     (0, 0, 1), (0, 0, 1), (0, 0, 1), (0, 0, 1), (0, 0, 1), (0, 0, 1), (0, 0, 1), (0, 0, 1), (0, 0, 1),
     (0, 0, 1), (0, 0, 1), (0, 0, 1), (0, 0, 1), (0, 0, 1), (0, 0, 1), (0, 0, 1), (0, 0, 1), (0, 0, 1),
     (0, 0, 1), (12441, 2715, 95), (12442, 2801, 13), (0, 0, 1), (0, 0, 1), (0, 0, 1), (0, 0, 1), (0, 0, 1),
     (0, 0, 1), (0, 0, 1), (0, 0, 1), (0, 0, 1), (0, 0, 1), (0, 0, 1), (0, 0, 1), (0, 0, 1), (0, 0, 1),
     (0, 0, 1), (0, 0, 1), (0, 0, 1), (0, 0, 1), (0, 0, 1), (0, 0, 1), (0, 0, 1), (0, 0, 1), (0, 0, 1),
     (0, 0, 1), (3390, 2691, 2), (0, 0, 1), (0, 0, 1), (0, 0, 1), (0, 0, 1), (0, 0, 1), (0, 0, 1),
     (0, 0, 1), (0, 0, 1), (0, 0, 1), (0, 0, 1), (0, 0, 1), (0, 0, 1), (0, 0, 1), (0, 0, 1), (0, 0, 1),
     (0, 0, 1), (0, 0, 1), (0, 0, 1), (0, 0, 1), (0, 0, 1), (0, 0, 1), (0, 0, 1), (0, 0, 1), (0, 0, 1),
     (3415, 2693, 1), (0, 0, 1), (0, 0, 1), (0, 0, 1), (0, 0, 1), (0, 0, 1), (0, 0, 1), (0, 0, 1),
     (0, 0, 1), (0, 0, 1), (0, 0, 1), (0, 0, 1), (0, 0, 1), (0, 0, 1), (0, 0, 1), (0, 0, 1), (0, 0, 1),
     (0, 0, 1), (2494, 2675, 1), (0, 0, 1), (0, 0, 1), (0, 0, 1), (71984, 2827, 1)]"

definition cp1s_0 :: "(nat \<times> nat) list" where
  "cp1s_0 =
    [(0, 0), (0, 0), (0, 0), (0, 0), (0, 0), (0, 0), (53, 1104), (0, 0), (0, 0), (56, 1117), (0, 0), (0, 0),
     (0, 0), (0, 0), (0, 0), (0, 0), (0, 0), (0, 0), (0, 0), (0, 0), (0, 0), (0, 0), (0, 0), (0, 0), (0, 0),
     (0, 0), (0, 0), (0, 0), (0, 0), (0, 0), (0, 0), (0, 0), (0, 0), (0, 0), (0, 0), (0, 0), (0, 0), (0, 0),
     (0, 0), (0, 0), (0, 0), (0, 0), (0, 0), (0, 0), (0, 0), (0, 0), (0, 0), (0, 0), (0, 0), (0, 0), (0, 0),
     (0, 0), (0, 0), (0, 0), (0, 0), (0, 0), (0, 0), (0, 0), (0, 0), (160, 7900), (161, 7901), (0, 0),
     (0, 0), (0, 0), (0, 0), (65, 192), (0, 0), (0, 0), (0, 0), (69, 200), (0, 0), (0, 0), (0, 0),
     (73, 204), (175, 7914), (176, 7915), (0, 0), (0, 0), (78, 504), (79, 210), (0, 0), (0, 0), (0, 7938),
     (1, 7939), (0, 0), (85, 217), (0, 0), (87, 7808), (0, 0), (89, 7922), (8, 7946), (9, 7947), (0, 0),
     (0, 0), (0, 0), (0, 0), (0, 0), (97, 224), (16, 7954), (17, 7955), (0, 0), (101, 232), (0, 0), (0, 0),
     (0, 0), (105, 236), (24, 7962), (25, 7963), (0, 0), (0, 0), (110, 505), (111, 242), (0, 0), (0, 0),
     (32, 7970), (33, 7971), (0, 0), (117, 249), (0, 0), (119, 7809), (0, 0), (121, 7923), (40, 7978),
     (41, 7979), (0, 0), (0, 0), (0, 0), (0, 0), (0, 0), (0, 0), (48, 7986), (49, 7987), (0, 0), (0, 0),
     (0, 0), (0, 0), (0, 0), (0, 0), (56, 7994), (57, 7995), (0, 0), (0, 0), (0, 0), (0, 0), (0, 0), (0, 0),
     (64, 8002), (65, 8003), (0, 0), (0, 0), (0, 0), (0, 0), (0, 0), (0, 0), (72, 8010), (73, 8011), (0, 0),
     (0, 0), (0, 0), (0, 0), (0, 0), (0, 0), (80, 8018), (81, 8019), (0, 0), (0, 0), (0, 0), (0, 0),
     (168, 8173), (0, 0), (0, 0), (89, 8027), (0, 0), (0, 0), (0, 0), (0, 0), (0, 0), (0, 0), (96, 8034),
     (97, 8035), (0, 0), (0, 0), (0, 0), (0, 0), (0, 0), (0, 0), (104, 8042), (105, 8043), (0, 0), (0, 0),
     (0, 0), (0, 0), (0, 0), (0, 0), (194, 7846), (0, 0), (0, 0), (0, 0), (0, 0), (145, 8122), (0, 0),
     (0, 0), (202, 7872), (149, 8136), (0, 0), (151, 8138), (0, 0), (153, 8154), (0, 0), (0, 0), (0, 0),
     (0, 0), (212, 7890), (159, 8184), (0, 0), (0, 0), (0, 0), (0, 0), (0, 0), (165, 8170), (220, 475),
     (0, 0), (0, 0), (169, 8186), (0, 0), (0, 0), (226, 7847), (0, 0), (0, 0), (0, 0), (0, 0), (177, 8048),
     (0, 0), (0, 0), (234, 7873), (181, 8050), (0, 0), (183, 8052), (0, 0), (185, 8054), (0, 0), (0, 0),
     (0, 0), (0, 0), (244, 7891), (191, 8056), (0, 0), (0, 0), (0, 0), (0, 0), (0, 0), (197, 8058),
     (252, 476), (0, 0), (0, 0), (201, 8060), (202, 8146), (203, 8162), (2, 7856), (3, 7857), (0, 0),
     (0, 0), (0, 0), (0, 0), (0, 0), (0, 0), (0, 0), (0, 0), (0, 0), (0, 0), (0, 0), (0, 0), (0, 0),
     (191, 8141), (18, 7700), (19, 7701), (0, 0), (0, 0), (0, 0), (0, 0), (0, 0), (0, 0), (0, 0), (0, 0),
     (0, 0), (0, 0), (0, 0), (0, 0), (0, 0), (0, 0), (0, 0), (0, 0), (0, 0), (0, 0), (0, 0), (0, 0), (0, 0),
     (0, 0), (0, 0), (0, 0), (0, 0), (0, 0), (0, 0), (0, 0), (0, 0), (0, 0), (0, 0), (0, 0), (0, 0), (0, 0),
     (0, 0), (0, 0), (0, 0), (0, 0), (0, 0), (0, 0), (0, 0), (0, 0), (0, 0), (0, 0), (0, 0), (0, 0), (0, 0),
     (0, 0), (0, 0), (0, 0), (0, 0), (0, 0), (0, 0), (0, 0), (0, 0), (21, 1024), (76, 7760), (77, 7761),
     (24, 1037), (0, 0), (254, 8157), (0, 0), (0, 0), (0, 0), (0, 0), (0, 0), (0, 0), (0, 0), (0, 0),
     (0, 0), (0, 0), (0, 0), (0, 0), (0, 0), (0, 0), (0, 0), (254, 8158), (0, 0), (0, 0), (0, 0), (0, 0),
     (0, 0), (0, 0), (0, 0), (0, 0), (0, 0), (0, 0), (0, 0), (0, 0), (0, 0), (0, 0), (0, 0), (0, 0), (0, 0),
     (0, 0), (0, 0), (0, 0), (0, 0), (0, 0), (0, 0), (0, 0), (0, 0), (0, 0), (0, 0), (0, 0), (0, 0), (0, 0),
     (0, 0), (0, 0), (0, 0), (0, 0), (0, 0), (0, 0), (0, 0), (0, 0), (0, 0), (0, 0), (0, 0), (0, 0), (0, 0),
     (0, 0), (0, 0), (0, 0), (0, 0), (0, 0), (0, 0), (65, 193), (0, 0), (67, 262), (0, 0), (69, 201),
     (0, 0), (71, 500), (0, 0), (73, 205), (0, 0), (75, 7728), (76, 313), (77, 7742), (78, 323), (79, 211),
     (80, 7764), (0, 0), (82, 340), (83, 346), (0, 0), (85, 218), (0, 0), (87, 7810), (0, 0), (89, 221),
     (90, 377), (0, 0), (0, 0), (0, 0), (0, 0), (0, 0), (0, 0), (97, 225), (0, 0), (99, 263), (0, 0),
     (101, 233), (0, 0), (103, 501), (0, 0), (105, 237), (0, 0), (107, 7729), (108, 314), (109, 7743),
     (110, 324), (111, 243), (112, 7765), (0, 0), (114, 341), (115, 347), (0, 0), (117, 250), (0, 0),
     (119, 7811), (0, 0), (121, 253), (122, 378), (0, 0), (0, 0), (0, 0), (0, 0), (0, 0), (0, 0), (0, 0),
     (0, 0), (0, 0), (0, 0), (0, 0), (0, 0), (0, 0), (0, 0), (0, 0), (0, 0), (0, 0), (0, 0), (0, 0), (0, 0),
     (0, 0), (0, 0), (0, 0), (0, 0), (0, 0), (0, 0), (0, 0), (0, 0), (0, 0), (0, 0), (0, 0), (0, 0), (0, 0),
     (0, 0), (0, 0), (0, 0), (0, 0), (0, 0), (0, 0), (0, 0), (0, 0), (0, 0), (0, 0), (0, 0), (0, 0),
     (168, 901), (0, 0), (0, 0), (0, 0), (0, 0), (0, 0), (0, 0), (0, 0), (0, 0), (0, 0), (0, 0), (0, 0),
     (0, 0), (0, 0), (0, 0), (0, 0), (0, 0), (0, 0), (0, 0), (0, 0), (0, 0), (0, 0), (0, 0), (0, 0), (0, 0),
     (0, 0), (194, 7844), (0, 0), (0, 0), (197, 506), (198, 508), (199, 7688), (0, 0), (0, 0), (202, 7870),
     (0, 0), (0, 0), (0, 0), (0, 0), (207, 7726), (0, 0), (0, 0), (0, 0), (0, 0), (212, 7888), (213, 7756),
     (0, 0), (0, 0), (216, 510), (0, 0), (0, 0), (0, 0), (220, 471), (0, 0), (0, 0), (0, 0), (0, 0), (0, 0),
     (226, 7845), (0, 0), (0, 0), (229, 507), (230, 509), (231, 7689), (0, 0), (0, 0), (234, 7871), (0, 0),
     (0, 0), (0, 0), (0, 0), (239, 7727), (0, 0), (0, 0), (0, 0), (0, 0), (244, 7889), (245, 7757), (0, 0),
     (0, 0), (248, 511), (0, 0), (0, 0), (0, 0), (252, 472), (0, 0), (0, 0), (0, 0), (0, 0), (0, 0),
     (2, 7854), (3, 7855), (0, 0), (0, 0), (0, 0), (0, 0), (0, 0), (0, 0), (0, 0), (0, 0), (0, 0), (0, 0),
     (0, 0), (0, 0), (0, 0), (0, 0), (18, 7702), (19, 7703), (0, 0), (0, 0), (0, 0), (0, 0), (0, 0), (0, 0),
     (0, 0), (0, 0), (0, 0), (0, 0), (0, 0), (0, 0), (0, 0), (0, 0), (0, 0), (0, 0), (0, 0), (0, 0), (0, 0),
     (0, 0), (0, 0), (0, 0), (0, 0), (0, 0), (0, 0), (0, 0), (0, 0), (0, 0), (0, 0), (0, 0), (0, 7940),
     (1, 7941), (0, 0), (0, 0), (0, 0), (0, 0), (0, 0), (0, 0), (8, 7948), (9, 7949), (0, 0), (0, 0),
     (0, 0), (0, 0), (0, 0), (0, 0), (16, 7956), (17, 7957), (0, 0), (0, 0), (0, 0), (0, 0), (0, 0), (0, 0),
     (24, 7964), (25, 7965), (76, 7762), (77, 7763), (0, 0), (0, 0), (0, 0), (0, 0), (32, 7972), (33, 7973),
     (0, 0), (0, 0), (0, 0), (0, 0), (0, 0), (0, 0), (40, 7980), (41, 7981), (0, 0), (0, 0), (0, 0), (0, 0),
     (0, 0), (0, 0), (48, 7988), (49, 7989), (0, 0), (0, 0), (0, 0), (0, 0), (104, 7800), (105, 7801),
     (56, 7996)]"

definition cp1s_1 :: "(nat \<times> nat) list" where
  "cp1s_1 =
    [(57, 7997), (0, 0), (0, 0), (0, 0), (0, 0), (145, 902), (0, 0), (64, 8004), (65, 8005), (149, 904),
     (0, 0), (151, 905), (0, 0), (153, 906), (0, 0), (72, 8012), (73, 8013), (0, 0), (0, 0), (159, 908),
     (0, 0), (0, 0), (0, 0), (80, 8020), (81, 8021), (165, 910), (0, 0), (0, 0), (0, 0), (169, 911), (0, 0),
     (0, 0), (89, 8029), (0, 0), (0, 0), (0, 0), (0, 0), (177, 940), (0, 0), (96, 8036), (97, 8037),
     (181, 941), (0, 0), (183, 942), (0, 0), (185, 943), (0, 0), (104, 8044), (105, 8045), (0, 0), (0, 0),
     (191, 972), (0, 0), (160, 7898), (161, 7899), (0, 0), (0, 0), (197, 973), (0, 0), (0, 0), (0, 0),
     (201, 974), (202, 912), (203, 944), (0, 0), (0, 0), (0, 0), (0, 0), (175, 7912), (176, 7913),
     (210, 979), (0, 0), (0, 0), (0, 0), (0, 0), (0, 0), (0, 0), (0, 0), (0, 0), (0, 0), (0, 0), (0, 0),
     (0, 0), (0, 0), (0, 0), (0, 0), (0, 0), (0, 0), (0, 0), (0, 0), (0, 0), (0, 0), (0, 0), (0, 0), (0, 0),
     (0, 0), (0, 0), (0, 0), (0, 0), (0, 0), (0, 0), (0, 0), (0, 0), (0, 0), (0, 0), (0, 0), (0, 0), (0, 0),
     (0, 0), (0, 0), (0, 0), (0, 0), (0, 0), (0, 0), (0, 0), (0, 0), (0, 0), (0, 0), (0, 0), (0, 0), (0, 0),
     (0, 0), (0, 0), (0, 0), (0, 0), (0, 0), (0, 0), (0, 0), (0, 0), (0, 0), (0, 0), (0, 0), (0, 0), (0, 0),
     (191, 8142), (19, 1027), (0, 0), (0, 0), (0, 0), (0, 0), (0, 0), (0, 0), (26, 1036), (0, 0), (0, 0),
     (0, 0), (0, 0), (0, 0), (0, 0), (0, 0), (0, 0), (0, 0), (0, 0), (0, 0), (0, 0), (0, 0), (0, 0), (0, 0),
     (0, 0), (0, 0), (0, 0), (0, 0), (0, 0), (0, 0), (0, 0), (0, 0), (0, 0), (51, 1107), (0, 0), (0, 0),
     (0, 0), (0, 0), (0, 0), (0, 0), (58, 1116), (160, 7852), (161, 7853), (0, 0), (115, 349), (0, 0),
     (117, 251), (0, 0), (119, 373), (0, 0), (121, 375), (122, 7825), (0, 0), (0, 0), (0, 0), (0, 0),
     (0, 0), (0, 0), (0, 0), (0, 0), (0, 0), (0, 0), (0, 0), (0, 0), (0, 0), (184, 7878), (185, 7879),
     (0, 0), (0, 0), (0, 0), (0, 0), (0, 0), (0, 0), (0, 0), (0, 0), (0, 0), (0, 0), (0, 0), (0, 0), (0, 0),
     (0, 0), (0, 0), (0, 0), (0, 0), (0, 0), (204, 7896), (205, 7897), (0, 0), (0, 0), (0, 0), (0, 0),
     (0, 0), (0, 0), (0, 0), (0, 0), (0, 0), (0, 0), (0, 0), (0, 0), (0, 0), (0, 0), (0, 0), (0, 0), (0, 0),
     (0, 0), (0, 0), (65, 194), (0, 0), (67, 264), (0, 0), (69, 202), (0, 0), (71, 284), (72, 292),
     (73, 206), (74, 308), (0, 0), (0, 0), (0, 0), (0, 0), (79, 212), (0, 0), (0, 0), (0, 0), (83, 348),
     (0, 0), (85, 219), (0, 0), (87, 372), (0, 0), (89, 374), (90, 7824), (0, 0), (0, 0), (0, 0), (0, 0),
     (0, 0), (0, 0), (97, 226), (0, 0), (99, 265), (0, 0), (101, 234), (0, 0), (103, 285), (104, 293),
     (105, 238), (106, 309), (0, 0), (0, 0), (0, 0), (0, 0), (111, 244), (176, 7919), (73, 296), (0, 0),
     (0, 0), (0, 0), (0, 0), (78, 209), (79, 213), (0, 0), (0, 0), (226, 7851), (0, 0), (0, 0), (85, 360),
     (86, 7804), (0, 0), (0, 0), (89, 7928), (234, 7877), (0, 0), (0, 0), (0, 0), (0, 0), (0, 0), (0, 0),
     (97, 227), (0, 0), (0, 0), (244, 7895), (101, 7869), (0, 0), (0, 0), (0, 0), (105, 297), (0, 0),
     (0, 0), (0, 0), (0, 0), (110, 241), (111, 245), (0, 0), (0, 0), (2, 7860), (3, 7861), (0, 0),
     (117, 361), (118, 7805), (0, 0), (0, 0), (121, 7929), (194, 7850), (0, 0), (0, 0), (0, 0), (0, 0),
     (0, 0), (160, 7904), (161, 7905), (202, 7876), (0, 0), (0, 0), (0, 0), (0, 0), (0, 0), (0, 0),
     (65, 195), (0, 0), (0, 0), (212, 7894), (69, 7868), (0, 0), (175, 7918), (0, 0), (0, 0), (228, 479),
     (0, 0), (230, 483), (0, 0), (0, 0), (0, 0), (0, 0), (145, 8121), (0, 0), (0, 0), (0, 0), (0, 0),
     (0, 0), (0, 0), (0, 0), (153, 8153), (0, 0), (245, 557), (246, 555), (0, 0), (0, 0), (0, 0), (0, 0),
     (0, 0), (252, 470), (0, 0), (0, 0), (165, 8169), (0, 0), (0, 0), (0, 0), (0, 0), (0, 0), (0, 0),
     (0, 0), (0, 0), (234, 492), (235, 493), (0, 0), (177, 8113), (0, 0), (0, 0), (0, 0), (0, 0), (0, 0),
     (0, 0), (0, 0), (185, 8145), (54, 7736), (55, 7737), (0, 0), (0, 0), (0, 0), (0, 0), (0, 0), (0, 0),
     (0, 0), (0, 0), (0, 0), (197, 8161), (0, 0), (0, 0), (0, 0), (65, 256), (0, 0), (0, 0), (0, 0),
     (69, 274), (0, 0), (71, 7712), (0, 0), (73, 298), (0, 0), (0, 0), (0, 0), (0, 0), (0, 0), (79, 332),
     (0, 0), (0, 0), (0, 0), (0, 0), (0, 0), (85, 362), (90, 7772), (91, 7773), (0, 0), (89, 562), (0, 0),
     (0, 0), (0, 0), (0, 0), (0, 0), (0, 0), (0, 0), (97, 257), (38, 480), (39, 481), (0, 0), (101, 275),
     (0, 0), (103, 7713), (0, 0), (105, 299), (46, 560), (47, 561), (0, 0), (0, 0), (0, 0), (111, 333),
     (0, 0), (0, 0), (0, 0), (0, 0), (0, 0), (117, 363), (0, 0), (0, 0), (0, 0), (121, 563), (0, 0), (0, 0),
     (0, 0), (0, 0), (0, 0), (0, 0), (0, 0), (0, 0), (0, 0), (0, 0), (0, 0), (0, 0), (0, 0), (0, 0), (0, 0),
     (0, 0), (0, 0), (0, 0), (0, 0), (0, 0), (0, 0), (0, 0), (24, 1250), (0, 0), (0, 0), (0, 0), (0, 0),
     (0, 0), (0, 0), (0, 0), (0, 0), (0, 0), (0, 0), (35, 1262), (0, 0), (0, 0), (0, 0), (0, 0), (0, 0),
     (0, 0), (0, 0), (0, 0), (0, 0), (0, 0), (0, 0), (0, 0), (0, 0), (0, 0), (0, 0), (0, 0), (0, 0), (0, 0),
     (0, 0), (0, 0), (56, 1251), (0, 0), (0, 0), (0, 0), (0, 0), (0, 0), (0, 0), (0, 0), (0, 0), (0, 0),
     (0, 0), (67, 1263), (0, 0), (0, 0), (0, 0), (0, 0), (0, 0), (0, 0), (0, 0), (0, 0), (196, 478), (0, 0),
     (198, 482), (0, 0), (0, 0), (0, 0), (0, 0), (0, 0), (0, 0), (0, 0), (0, 0), (0, 0), (0, 0), (0, 0),
     (0, 0), (0, 0), (0, 0), (213, 556), (214, 554), (0, 0), (0, 0), (0, 0), (0, 0), (0, 0), (220, 469),
     (0, 0), (48, 1233), (0, 0), (153, 8152), (0, 0), (0, 0), (53, 1239), (54, 1218), (0, 0), (56, 1081),
     (0, 0), (0, 0), (0, 0), (0, 0), (0, 0), (165, 8168), (0, 0), (0, 0), (0, 0), (0, 0), (67, 1118),
     (0, 0), (0, 0), (0, 0), (0, 0), (0, 0), (0, 0), (177, 8112), (0, 0), (0, 0), (0, 0), (0, 0), (0, 0),
     (0, 0), (0, 0), (185, 8144), (0, 0), (160, 7862), (161, 7863), (0, 0), (0, 0), (0, 0), (0, 0), (0, 0),
     (0, 0), (0, 0), (0, 0), (197, 8160), (0, 0), (0, 0), (0, 0), (0, 0), (0, 0), (0, 0), (0, 0), (0, 0),
     (0, 0), (0, 0), (0, 0), (0, 0), (0, 0), (0, 0), (0, 0), (0, 0), (0, 0), (65, 258), (0, 0), (0, 0),
     (0, 0), (69, 276), (0, 0), (71, 286), (0, 0), (73, 300), (0, 0), (0, 0), (0, 0), (0, 0), (0, 0),
     (79, 334), (0, 0), (0, 0), (0, 0), (0, 0), (0, 0), (85, 364), (0, 0), (0, 0), (0, 0), (0, 0), (0, 0),
     (0, 0), (0, 0), (40, 7708), (41, 7709), (0, 0), (0, 0), (97, 259), (0, 0), (0, 0), (0, 0), (101, 277),
     (0, 0), (103, 287), (0, 0), (105, 301), (0, 0), (0, 0), (0, 0), (0, 0), (0, 0), (111, 335), (0, 0),
     (0, 0), (0, 0), (0, 0), (0, 0), (117, 365), (0, 0), (0, 0)]"

definition cp1s_2 :: "(nat \<times> nat) list" where
  "cp1s_2 =
    [(0, 0), (0, 0), (16, 1232), (0, 0), (0, 0), (0, 0), (0, 0), (21, 1238), (22, 1217), (0, 0), (24, 1049),
     (0, 0), (0, 0), (0, 0), (0, 0), (0, 0), (0, 0), (0, 0), (0, 0), (0, 0), (0, 0), (35, 1038), (0, 0),
     (0, 0), (0, 0), (0, 0), (0, 0), (0, 0), (145, 8120), (103, 289), (104, 7715), (0, 0), (0, 0), (0, 0),
     (0, 0), (109, 7745), (110, 7749), (111, 559), (112, 7767), (0, 0), (114, 7769), (115, 7777),
     (116, 7787), (0, 0), (0, 0), (119, 7815), (120, 7819), (121, 7823), (122, 380), (0, 0), (0, 0), (0, 0),
     (0, 0), (0, 0), (0, 0), (0, 0), (0, 0), (0, 0), (0, 0), (0, 0), (0, 0), (0, 0), (0, 0), (0, 0), (0, 0),
     (0, 0), (90, 7780), (91, 7781), (0, 0), (0, 0), (0, 0), (0, 0), (96, 7782), (97, 7783), (0, 0), (0, 0),
     (0, 0), (0, 0), (0, 0), (0, 0), (0, 0), (0, 0), (98, 7784), (99, 7785), (0, 0), (0, 0), (0, 0), (0, 0),
     (0, 0), (0, 0), (0, 0), (0, 0), (0, 0), (0, 0), (65, 550), (66, 7682), (67, 266), (68, 7690),
     (69, 278), (70, 7710), (71, 288), (72, 7714), (73, 304), (127, 7835), (0, 0), (0, 0), (77, 7744),
     (78, 7748), (79, 558), (80, 7766), (0, 0), (82, 7768), (83, 7776), (84, 7786), (0, 0), (0, 0),
     (87, 7814), (88, 7818), (89, 7822), (90, 379), (0, 0), (0, 0), (0, 0), (0, 0), (0, 0), (0, 0),
     (97, 551), (98, 7683), (99, 267), (100, 7691), (101, 279), (102, 7711), (0, 0), (67, 1265), (0, 0),
     (0, 0), (0, 0), (71, 1269), (0, 0), (0, 0), (0, 0), (75, 1273), (0, 0), (77, 1261), (0, 0), (0, 0),
     (0, 0), (0, 0), (0, 0), (0, 0), (0, 0), (0, 0), (86, 1111), (0, 0), (0, 0), (0, 0), (0, 0), (0, 0),
     (0, 0), (245, 7759), (0, 0), (0, 0), (0, 0), (0, 0), (0, 0), (0, 0), (0, 0), (0, 0), (0, 0), (0, 0),
     (0, 0), (0, 0), (0, 0), (0, 0), (0, 0), (0, 0), (0, 0), (0, 0), (0, 0), (0, 0), (0, 0), (153, 938),
     (0, 0), (0, 0), (0, 0), (0, 0), (0, 0), (0, 0), (0, 0), (0, 0), (0, 0), (0, 0), (0, 0), (165, 939),
     (0, 0), (0, 0), (0, 0), (65, 196), (0, 0), (0, 0), (0, 0), (69, 203), (0, 0), (0, 0), (72, 7718),
     (73, 207), (0, 0), (0, 0), (0, 0), (0, 0), (0, 0), (79, 214), (0, 0), (185, 970), (0, 0), (0, 0),
     (0, 0), (85, 220), (0, 0), (87, 7812), (88, 7820), (89, 376), (0, 0), (0, 0), (0, 0), (197, 971),
     (0, 0), (0, 0), (0, 0), (97, 228), (0, 0), (0, 0), (0, 0), (101, 235), (0, 0), (0, 0), (104, 7719),
     (105, 239), (210, 980), (0, 0), (0, 0), (0, 0), (0, 0), (111, 246), (0, 0), (0, 0), (0, 0), (0, 0),
     (116, 7831), (117, 252), (0, 0), (119, 7813), (120, 7821), (121, 255), (0, 0), (0, 0), (0, 0), (0, 0),
     (0, 0), (0, 0), (0, 0), (0, 0), (0, 0), (0, 0), (0, 0), (0, 0), (0, 0), (0, 0), (0, 0), (0, 0), (0, 0),
     (0, 0), (0, 0), (0, 0), (0, 0), (0, 0), (106, 7802), (107, 7803), (0, 0), (0, 0), (0, 0), (0, 0),
     (216, 1242), (217, 1243), (0, 0), (0, 0), (0, 0), (0, 0), (0, 0), (0, 0), (6, 1031), (0, 0), (0, 0),
     (0, 0), (0, 0), (0, 0), (0, 0), (0, 0), (232, 1258), (233, 1259), (16, 1234), (0, 0), (0, 0), (0, 0),
     (0, 0), (21, 1025), (22, 1244), (23, 1246), (24, 1252), (0, 0), (0, 0), (0, 0), (0, 0), (0, 0),
     (30, 1254), (0, 0), (0, 0), (0, 0), (0, 0), (35, 1264), (0, 0), (0, 0), (0, 0), (39, 1268), (0, 0),
     (0, 0), (0, 0), (43, 1272), (0, 0), (45, 1260), (0, 0), (0, 0), (48, 1235), (0, 0), (0, 0), (0, 0),
     (0, 0), (53, 1105), (54, 1245), (55, 1247), (56, 1253), (0, 0), (0, 0), (0, 0), (0, 0), (213, 7758),
     (62, 1255), (0, 0), (0, 0), (212, 7892), (73, 7880), (0, 0), (0, 0), (0, 0), (0, 0), (0, 0),
     (79, 7886), (0, 0), (175, 7916), (176, 7917), (0, 0), (0, 0), (85, 7910), (226, 7849), (0, 0), (0, 0),
     (89, 7926), (0, 0), (0, 0), (0, 0), (0, 0), (234, 7875), (0, 0), (0, 0), (97, 7843), (0, 0), (0, 0),
     (0, 0), (101, 7867), (0, 0), (0, 0), (244, 7893), (105, 7881), (0, 0), (0, 0), (0, 0), (0, 0), (0, 0),
     (111, 7887), (0, 0), (0, 0), (0, 0), (0, 0), (0, 0), (117, 7911), (2, 7858), (3, 7859), (0, 0),
     (121, 7927), (0, 0), (0, 0), (194, 7848), (0, 0), (0, 0), (0, 0), (0, 0), (0, 0), (0, 0), (0, 0),
     (202, 7874), (0, 0), (0, 0), (65, 7842), (160, 7902), (161, 7903), (0, 0), (69, 7866), (0, 0),
     (121, 7833), (0, 0), (0, 0), (0, 0), (65, 197), (0, 0), (97, 229), (0, 0), (0, 0), (85, 366), (0, 0),
     (117, 367), (0, 0), (119, 7832), (117, 369), (0, 0), (67, 1267), (111, 337), (85, 368), (0, 0),
     (35, 1266), (79, 336), (252, 474), (0, 0), (65, 461), (0, 0), (67, 268), (68, 270), (69, 282), (0, 0),
     (71, 486), (72, 542), (73, 463), (0, 0), (75, 488), (76, 317), (0, 0), (78, 327), (79, 465), (0, 0),
     (0, 0), (82, 344), (83, 352), (84, 356), (85, 467), (0, 0), (0, 0), (0, 0), (0, 0), (90, 381),
     (146, 495), (0, 0), (0, 0), (220, 473), (0, 0), (0, 0), (97, 462), (0, 0), (99, 269), (100, 271),
     (101, 283), (0, 0), (103, 487), (104, 543), (105, 464), (106, 496), (107, 489), (108, 318), (0, 0),
     (110, 328), (111, 466), (0, 0), (0, 0), (114, 345), (115, 353), (116, 357), (117, 468), (0, 0), (0, 0),
     (0, 0), (0, 0), (122, 382), (0, 0), (183, 494), (116, 1142), (117, 1143), (0, 0), (0, 0), (0, 0),
     (65, 512), (0, 0), (97, 513), (0, 0), (69, 516), (0, 0), (101, 517), (0, 0), (73, 520), (0, 0),
     (105, 521), (0, 0), (0, 0), (0, 0), (79, 524), (0, 0), (111, 525), (82, 528), (0, 0), (114, 529),
     (85, 532), (0, 0), (117, 533), (0, 0), (101, 519), (0, 0), (0, 0), (79, 526), (105, 523), (0, 0),
     (82, 530), (0, 0), (0, 0), (85, 534), (111, 527), (0, 0), (0, 0), (114, 531), (65, 514), (0, 0),
     (117, 535), (0, 0), (69, 518), (0, 0), (0, 0), (97, 515), (73, 522), (177, 7936), (151, 7976), (0, 0),
     (153, 7992), (181, 7952), (0, 0), (183, 7968), (0, 0), (185, 7984), (159, 8008), (0, 0), (0, 0),
     (0, 0), (0, 0), (191, 8000), (0, 0), (193, 8164), (0, 0), (0, 0), (169, 8040), (197, 8016), (0, 0),
     (145, 7944), (0, 0), (201, 8032), (0, 0), (149, 7960), (177, 7937), (151, 7977), (0, 0), (153, 7993),
     (181, 7953), (0, 0), (183, 7969), (0, 0), (185, 7985), (159, 8009), (0, 0), (161, 8172), (0, 0),
     (0, 0), (191, 8001), (165, 8025), (193, 8165), (0, 0), (0, 0), (169, 8041), (197, 8017), (0, 0),
     (145, 7945), (0, 0), (201, 8033), (0, 0), (149, 7961), (85, 431), (111, 417), (117, 432), (0, 0),
     (79, 416), (76, 7734), (77, 7746), (78, 7750), (79, 7884), (0, 0), (0, 0), (82, 7770), (83, 7778),
     (84, 7788), (85, 7908), (86, 7806), (87, 7816), (0, 0), (89, 7924), (90, 7826), (0, 0), (0, 0), (0, 0),
     (0, 0), (0, 0), (0, 0), (97, 7841), (98, 7685), (0, 0), (100, 7693), (101, 7865), (0, 0), (0, 0),
     (104, 7717), (105, 7883), (0, 0), (107, 7731), (108, 7735), (109, 7747), (110, 7751), (111, 7885),
     (160, 7906), (161, 7907), (114, 7771), (115, 7779), (116, 7789), (117, 7909), (118, 7807), (119, 7817),
     (0, 0), (121, 7925), (122, 7827), (0, 0), (0, 0), (0, 0), (0, 0), (175, 7920), (176, 7921), (0, 0),
     (0, 0), (0, 0), (0, 0), (0, 0), (0, 0), (0, 0), (0, 0), (0, 0), (0, 0), (0, 0), (0, 0), (65, 7840),
     (66, 7684), (0, 0), (68, 7692), (69, 7864), (0, 0), (0, 0), (72, 7716), (73, 7882), (0, 0), (75, 7730),
     (117, 7795), (85, 7794), (0, 0), (97, 7681), (65, 7680), (115, 537), (116, 539), (0, 0), (83, 536),
     (84, 538), (100, 7697)]"

definition cp1s_3 :: "(nat \<times> nat) list" where
  "cp1s_3 =
    [(101, 553), (0, 0), (103, 291), (104, 7721), (0, 0), (0, 0), (107, 311), (108, 316), (0, 0),
     (110, 326), (0, 0), (0, 0), (0, 0), (114, 343), (115, 351), (116, 355), (67, 199), (68, 7696),
     (69, 552), (0, 0), (71, 290), (72, 7720), (0, 0), (0, 0), (75, 310), (76, 315), (0, 0), (78, 325),
     (0, 0), (0, 0), (0, 0), (82, 342), (83, 350), (84, 354), (0, 0), (0, 0), (0, 0), (0, 0), (0, 0),
     (0, 0), (0, 0), (0, 0), (0, 0), (0, 0), (0, 0), (0, 0), (0, 0), (0, 0), (99, 231), (105, 303), (0, 0),
     (0, 0), (0, 0), (79, 490), (65, 260), (111, 491), (97, 261), (0, 0), (69, 280), (85, 370), (101, 281),
     (117, 371), (73, 302), (108, 7741), (0, 0), (110, 7755), (0, 0), (76, 7740), (0, 0), (78, 7754),
     (0, 0), (116, 7793), (117, 7799), (100, 7699), (101, 7705), (84, 7792), (85, 7798), (68, 7698),
     (69, 7704), (72, 7722), (0, 0), (104, 7723), (117, 7797), (105, 7725), (0, 0), (0, 0), (69, 7706),
     (0, 0), (0, 0), (85, 7796), (73, 7724), (0, 0), (101, 7707), (0, 0), (75, 7732), (76, 7738),
     (114, 7775), (78, 7752), (116, 7791), (0, 0), (0, 0), (82, 7774), (0, 0), (84, 7790), (122, 7829),
     (0, 0), (0, 0), (0, 0), (0, 0), (90, 7828), (0, 0), (0, 0), (0, 0), (0, 0), (0, 0), (0, 0), (0, 0),
     (98, 7687), (0, 0), (100, 7695), (0, 0), (0, 0), (66, 7686), (104, 7830), (68, 7694), (0, 0),
     (107, 7733), (108, 7739), (0, 0), (110, 7753), (146, 8931), (0, 0), (0, 0), (0, 0), (0, 0), (0, 0),
     (0, 0), (3, 8708), (0, 0), (0, 0), (0, 0), (0, 0), (8, 8713), (0, 0), (0, 0), (11, 8716), (162, 8876),
     (0, 0), (0, 0), (0, 0), (0, 0), (0, 0), (168, 8877), (169, 8878), (0, 0), (171, 8879), (0, 0), (0, 0),
     (0, 0), (0, 0), (0, 0), (0, 0), (178, 8938), (179, 8939), (180, 8940), (181, 8941), (0, 0), (0, 0),
     (0, 0), (35, 8740), (0, 0), (37, 8742), (144, 8602), (0, 0), (146, 8603), (0, 0), (148, 8622), (0, 0),
     (0, 0), (0, 0), (0, 0), (0, 0), (0, 0), (0, 0), (0, 0), (0, 0), (0, 0), (0, 0), (0, 0), (0, 0),
     (60, 8814), (61, 8800), (62, 8815), (0, 0), (60, 8769), (0, 0), (0, 0), (0, 0), (0, 0), (0, 0), (0, 0),
     (67, 8772), (0, 0), (69, 8775), (0, 0), (0, 0), (72, 8777), (0, 0), (0, 0), (0, 0), (0, 0), (77, 8813),
     (0, 0), (0, 0), (0, 0), (0, 0), (0, 0), (0, 0), (0, 0), (0, 0), (0, 0), (0, 0), (0, 0), (0, 0), (0, 0),
     (0, 0), (0, 0), (0, 0), (0, 0), (0, 0), (0, 0), (97, 8802), (0, 0), (0, 0), (100, 8816), (101, 8817),
     (208, 8653), (0, 0), (210, 8655), (0, 0), (212, 8654), (0, 0), (0, 0), (0, 0), (0, 0), (0, 0), (0, 0),
     (0, 0), (114, 8820), (115, 8821), (0, 0), (0, 0), (118, 8824), (119, 8825), (0, 0), (0, 0),
     (122, 8832), (123, 8833), (124, 8928), (125, 8929), (0, 0), (0, 0), (0, 0), (0, 0), (130, 8836),
     (131, 8837), (0, 0), (0, 0), (134, 8840), (135, 8841), (0, 0), (0, 0), (0, 0), (0, 0), (0, 0), (0, 0),
     (0, 0), (0, 0), (0, 0), (145, 8930), (0, 0), (0, 0), (0, 0), (0, 0), (0, 0), (0, 0), (0, 0), (0, 0),
     (0, 0), (0, 0), (0, 0), (197, 8166), (0, 0), (0, 0), (0, 0), (201, 8182), (202, 8151), (203, 8167),
     (32, 7974), (33, 7975), (0, 0), (0, 0), (0, 0), (0, 0), (0, 0), (0, 0), (40, 7982), (41, 7983),
     (254, 8159), (0, 0), (0, 0), (0, 0), (0, 0), (0, 0), (48, 7990), (49, 7991), (0, 0), (0, 0), (0, 0),
     (0, 0), (0, 0), (0, 0), (56, 7998), (57, 7999), (0, 0), (0, 0), (0, 0), (0, 0), (0, 0), (0, 0), (0, 0),
     (0, 0), (0, 0), (0, 0), (0, 0), (0, 0), (0, 0), (0, 0), (0, 0), (0, 0), (0, 0), (0, 0), (168, 8129),
     (0, 0), (0, 0), (0, 0), (80, 8022), (81, 8023), (0, 0), (0, 0), (0, 0), (191, 8143), (0, 0), (0, 0),
     (0, 0), (89, 8031), (0, 0), (0, 0), (0, 0), (0, 0), (0, 0), (0, 0), (96, 8038), (97, 8039), (0, 0),
     (0, 0), (0, 0), (0, 0), (0, 0), (0, 0), (104, 8046), (105, 8047), (0, 7942), (1, 7943), (0, 0), (0, 0),
     (0, 0), (177, 8118), (0, 0), (0, 0), (8, 7950), (9, 7951), (0, 0), (183, 8134), (0, 0), (185, 8150),
     (0, 0), (0, 0), (0, 0), (96, 8096), (97, 8097), (98, 8098), (99, 8099), (100, 8100), (101, 8101),
     (102, 8102), (103, 8103), (104, 8104), (105, 8105), (106, 8106), (107, 8107), (108, 8108), (109, 8109),
     (110, 8110), (111, 8111), (112, 8114), (0, 0), (0, 0), (0, 0), (116, 8130), (0, 0), (0, 0), (0, 0),
     (0, 0), (0, 0), (0, 0), (0, 0), (124, 8178), (0, 0), (0, 0), (0, 0), (0, 0), (0, 0), (0, 0), (0, 0),
     (0, 0), (0, 0), (0, 0), (0, 0), (0, 0), (0, 0), (145, 8124), (0, 0), (0, 0), (0, 0), (0, 0), (0, 0),
     (151, 8140), (0, 0), (0, 0), (0, 0), (0, 0), (0, 0), (0, 0), (0, 0), (0, 0), (0, 0), (0, 0), (0, 0),
     (0, 0), (0, 0), (0, 0), (0, 0), (0, 0), (0, 0), (169, 8188), (0, 0), (0, 0), (172, 8116), (0, 0),
     (174, 8132), (0, 0), (0, 0), (177, 8115), (0, 0), (0, 0), (0, 0), (0, 0), (0, 0), (183, 8131), (0, 0),
     (0, 0), (0, 0), (0, 0), (0, 0), (182, 8119), (0, 0), (0, 0), (0, 0), (0, 0), (0, 0), (0, 0), (0, 0),
     (0, 0), (0, 0), (0, 0), (0, 0), (201, 8179), (0, 0), (0, 0), (0, 0), (198, 8135), (206, 8180), (0, 0),
     (0, 0), (0, 0), (0, 0), (0, 0), (0, 0), (0, 0), (0, 0), (0, 0), (0, 0), (0, 0), (0, 0), (0, 0), (0, 0),
     (0, 0), (0, 0), (0, 0), (0, 8064), (1, 8065), (2, 8066), (3, 8067), (4, 8068), (5, 8069), (6, 8070),
     (7, 8071), (8, 8072), (9, 8073), (10, 8074), (11, 8075), (12, 8076), (13, 8077), (14, 8078),
     (15, 8079), (0, 0), (0, 0), (0, 0), (0, 0), (0, 0), (0, 0), (0, 0), (0, 0), (0, 0), (0, 0), (0, 0),
     (0, 0), (0, 0), (246, 8183), (0, 0), (0, 0), (32, 8080), (33, 8081), (34, 8082), (35, 8083),
     (36, 8084), (37, 8085), (38, 8086), (39, 8087), (40, 8088), (41, 8089), (42, 8090), (43, 8091),
     (44, 8092), (45, 8093), (46, 8094), (47, 8095), (39, 1570), (72, 1572), (193, 1730), (74, 1574),
     (39, 1571), (0, 0), (0, 0), (210, 1747), (0, 0), (0, 0), (213, 1728), (39, 1573), (51, 2356), (0, 0),
     (48, 2353), (0, 0), (40, 2345), (199, 2507), (199, 2508), (71, 2891), (71, 2888), (71, 2892),
     (198, 3018), (199, 3019), (0, 0), (146, 2964), (198, 3020), (70, 3144), (198, 3274), (198, 3271),
     (202, 3275), (191, 3264), (198, 3272), (70, 3402), (71, 3403), (70, 3404), (220, 3549), (217, 3546),
     (217, 3548), (217, 3550), (37, 4134), (0, 0), (17, 6930), (66, 6979), (0, 0), (0, 0), (5, 6918),
     (0, 0), (7, 6920), (0, 0), (9, 6922), (58, 6971), (11, 6924), (60, 6973), (13, 6926), (62, 6976),
     (63, 6977), (157, 12446), (253, 12542), (0, 0), (0, 0), (0, 0), (0, 0), (0, 0), (0, 0), (70, 12436),
     (166, 12532), (0, 0), (0, 0), (0, 0), (75, 12364), (171, 12460), (77, 12366), (173, 12462),
     (79, 12368), (175, 12464), (81, 12370), (177, 12466), (83, 12372), (179, 12468), (85, 12374),
     (181, 12470), (87, 12376), (183, 12472), (89, 12378), (185, 12474), (91, 12380), (187, 12476),
     (93, 12382), (189, 12478), (95, 12384), (191, 12480), (97, 12386), (193, 12482), (0, 0), (100, 12389),
     (196, 12485), (102, 12391), (198, 12487), (104, 12393), (200, 12489), (0, 0), (0, 0), (0, 0), (0, 0),
     (0, 0), (111, 12400), (207, 12496), (0, 0), (114, 12403), (210, 12499), (0, 0), (117, 12406),
     (213, 12502), (0, 0), (120, 12409), (216, 12505), (0, 0), (123, 12412), (219, 12508), (0, 0), (0, 0),
     (0, 0), (0, 0), (0, 0), (0, 0), (0, 0), (0, 0), (0, 0), (0, 0), (0, 0), (0, 0), (0, 0), (0, 0), (0, 0),
     (0, 0), (0, 0), (0, 0), (0, 0), (239, 12535), (240, 12536), (241, 12537)]"

definition cp1s_4 :: "(nat \<times> nat) list" where
  "cp1s_4 =
    [(242, 12538), (114, 12404), (219, 12509), (207, 12497), (117, 12407), (0, 0), (210, 12500),
     (120, 12410), (0, 0), (213, 12503), (123, 12413), (111, 12401), (216, 12506), (165, 69803), (0, 0),
     (153, 69786), (0, 0), (155, 69788), (50, 69935), (49, 69934), (71, 70475), (71, 70476), (185, 70844),
     (185, 70843), (185, 70846), (184, 71098), (185, 71099), (53, 71992)]"

definition cp1s :: "(nat \<times> nat) list" where
  "cp1s = cp1s_0 @ cp1s_1 @ cp1s_2 @ cp1s_3 @ cp1s_4"

end
