(* ===== verification/Composition.thy ===== *)
theory Composition
  imports Composition_Tables Hangul
begin

text \<open>
  The composition of two code points in \<^verbatim>\<open>webpp/unicode/normalization.hpp\<close>. The second code point
  selects an entry of a hash table, which selects a part of the table of first code points. An access outside
  of a table and a division by zero are \<^const>\<open>None\<close>.
\<close>

definition canonical_composed :: "u32 \<Rightarrow> u32 \<Rightarrow> u32 option" where
  "canonical_composed lhs rhs =
     (let pos2 = unat rhs mod cp2s_rem in
      if length cp2s \<le> pos2 then Some replacement_char
      else do {
        (cp2, cp1_pos, cp1_rem) \<leftarrow> load cp2s pos2;
        (if cp2 = 0 \<or> of_nat cp2 \<noteq> rhs then
           (let hangul = compose_hangul lhs rhs in
            if hangul \<noteq> 0 then Some hangul else Some replacement_char)
         else if cp1_rem = 0 then None
         else do {
           (cp1_mask, replacement) \<leftarrow> load cp1s (cp1_pos + unat lhs mod cp1_rem);
           (if unat lhs mod 256 \<noteq> cp1_mask then Some replacement_char else Some (of_nat replacement)) }) })"

section \<open>The tables fit together\<close>

lemma cp1s_length: "length cp1s = 2828"
  by (simp add: cp1s_def cp1s_0_def cp1s_1_def cp1s_2_def cp1s_3_def cp1s_4_def)

lemma cp2s_fit: "list_all (\<lambda>(cp2, pos, m). 0 < m \<and> pos + m \<le> 2828) cp2s"
  by (simp add: cp2s_def)

definition second_entry :: "u32 \<Rightarrow> (nat \<times> nat) option" where
  "second_entry rhs =
     (let pos2 = unat rhs mod cp2s_rem in
      if length cp2s \<le> pos2 then None
      else case cp2s ! pos2 of (cp2, pos, m) \<Rightarrow> if cp2 = 0 \<or> of_nat cp2 \<noteq> rhs then None else Some (pos, m))"

lemma second_entry_fits: "second_entry rhs = Some (pos, m) \<Longrightarrow> 0 < m \<and> pos + m \<le> length cp1s"
proof -
  assume e: "second_entry rhs = Some (pos, m)"
  then have "unat rhs mod cp2s_rem < length cp2s" "\<exists>cp2. cp2s ! (unat rhs mod cp2s_rem) = (cp2, pos, m)"
    by (auto simp: second_entry_def Let_def split: if_splits prod.splits)
  then obtain cp2 where "(cp2, pos, m) \<in> set cp2s" by (metis nth_mem)
  with cp2s_fit show ?thesis by (auto simp: list_all_iff cp1s_length)
qed

lemma canonical_composed_entry:
  "canonical_composed lhs rhs =
     (case second_entry rhs of
        None \<Rightarrow> Some (if length cp2s \<le> unat rhs mod cp2s_rem \<or> compose_hangul lhs rhs = 0 then replacement_char else compose_hangul lhs rhs)
      | Some (pos, m) \<Rightarrow> (case cp1s ! (pos + unat lhs mod m) of
          (low, replacement) \<Rightarrow> Some (if unat lhs mod 256 \<noteq> low then replacement_char else of_nat replacement)))"
proof (cases "second_entry rhs")
  case None
  then show ?thesis
    by (auto simp: canonical_composed_def second_entry_def Let_def load_def split: if_splits prod.splits)
next
  case (Some e)
  obtain pos m where e: "e = (pos, m)" by (cases e)
  have fits: "0 < m" "pos + m \<le> length cp1s" using second_entry_fits Some e by auto
  have "unat lhs mod m < m" using fits(1) by simp
  then have "pos + unat lhs mod m < length cp1s" using fits(2) by linarith
  with Some e fits(1) show ?thesis
    by (auto simp: canonical_composed_def second_entry_def Let_def split: if_splits prod.splits)
qed

text \<open>C39: The composition stays inside of both tables and never divides by zero.\<close>

theorem canonical_composed_in_bounds: "canonical_composed lhs rhs \<noteq> None"
  by (auto simp: canonical_composed_entry split: option.split prod.split)

text \<open>A first code point is only told from others by its low byte and its place in the part of the table:
  two first code points that agree in both have the same composition with a second one.\<close>

lemma canonical_composed_collisions:
  assumes "second_entry rhs = Some (pos, m)" and "unat lhs mod 256 = unat lhs' mod 256" and "unat lhs mod m = unat lhs' mod m"
  shows "canonical_composed lhs rhs = canonical_composed lhs' rhs"
  using assms(2,3) by (simp add: canonical_composed_entry assms(1))

lemma entry_300: "second_entry 0x300 = Some (0, 357)"
  by (simp add: second_entry_def cp2s_def cp2s_rem_def Let_def)

text \<open>So a code point that has no composition with the grave accent composes with it as the letter A does.\<close>

lemma canonical_composed_wrongly:
  "canonical_composed 0x41 0x300 = Some 0xC0 \<and> canonical_composed 0x16541 0x300 = Some 0xC0"
proof -
  have "canonical_composed 0x41 0x300 = Some 0xC0"
    by (simp add: canonical_composed_entry entry_300 cp1s_def cp1s_0_def)
  then show ?thesis
    using canonical_composed_collisions [OF entry_300, of "0x41" "0x16541"] by simp
qed

text \<open>The empty entries of the table are those of a first code point with the low byte zero, whose
  composition is the code point zero.\<close>

lemma canonical_composed_to_nul: "canonical_composed 0x400 0x300 = Some 0"
  by (simp add: canonical_composed_entry entry_300 cp1s_def cp1s_0_def)

end
