(* ===== verification/Decomposition_Tables.thy ===== *)
theory Decomposition_Tables
  imports Webpp_Prelude
begin

text \<open>
  The arrays \<^verbatim>\<open>decomp_indices\<close> and \<^verbatim>\<open>decomp_values\<close> of
  \<^verbatim>\<open>webpp/unicode/details/decomposition_tables.hpp\<close>, number by number and byte by byte. The
  bytes are cut into the pieces that the comments of the file announce: a piece has the mappings of
  64 code points, each in a slot of the same number of bytes. The end of the last slots of a piece can
  lie in the next piece. Each piece comes with the check that the characters of each of its slots end with the slot or with a
  NUL in it.
\<close>

text \<open>Of a slot \<open>n\<close> bytes are left, the first \<open>m\<close> of which belong to a character that has begun.\<close>

fun slot_ok :: "nat \<Rightarrow> nat \<Rightarrow> int list \<Rightarrow> int list option" where
  "slot_ok 0 m xs = (if m = 0 then Some xs else None)"
| "slot_ok (Suc n) m [] = None"
| "slot_ok (Suc n) (Suc m) (b # r) = (if 128 \<le> b \<and> b < 192 then slot_ok n m r else None)"
| "slot_ok (Suc n) 0 (b # r) =
     (if b = 0 then Some (drop n r)
      else if b < 128 then (if 0 < b then slot_ok n 0 r else None)
      else if b < 192 then None
      else if b < 224 then slot_ok n 1 r
      else if b < 240 then slot_ok n 2 r
      else if b < 248 then slot_ok n 3 r
      else None)"

fun slots_ok :: "nat \<Rightarrow> nat \<Rightarrow> int list \<Rightarrow> bool" where
  "slots_ok 0 ml xs = (xs = [])"
| "slots_ok (Suc k) ml xs = (case slot_ok ml 0 xs of None \<Rightarrow> False | Some ys \<Rightarrow> slots_ok k ml ys)"

section \<open>The indices\<close>

definition decomp_indices_0 :: "int list" where
  "decomp_indices_0 =
    [0, 0, 0, 3, 49155, 97539, 145923, 191749, 273669, 0, 0, 0, 0, 355588, 419846, 515588, 581124, 642564,
     0, 707844, 0, 0, 0, 0, 767236, 0, 0, 832772, 0, 0, 0, 0, 0, 0, 0, 0, 887814, 979974, 0, 1075462,
     1160710, 1252614, 0, 0, 0, 1348870, 1442054, 1537798, 0, 1634054, 0, 1732361, 0, 1877254, 0, 1968905,
     0, 0, 0, 0, 0, 2115590, 2213638, 0, 2302726, 0, 0, 0, 0, 0, 0, 0, 0, 0, 0, 0, 0, 0, 0, 0, 0, 0, 0, 0,
     0, 0, 0, 0, 0, 0, 0, 0, 0, 0, 0, 0, 0, 0, 0, 0, 0, 0, 0, 0, 0, 0, 0, 0, 2399494, 2497798, 0, 0, 0, 0,
     0, 0, 0, 0, 0, 0, 2596101, 2678021, 2759941, 2841861, 2923782, 3022086, 3120392, 3251206, 3349507, 0,
     0, 0, 3388931, 0, 3431429, 3510021, 3590917, 3672581, 3754501, 3828229, 3899651, 0, 0, 0, 0, 0, 0, 0,
     0, 0, 0, 0, 0, 0, 0, 0, 0, 0, 0, 0, 0, 0, 0, 0, 0, 0, 0, 0, 0, 0, 0, 3941637, 0, 0, 0, 0, 0, 0, 0, 0,
     0, 0, 0, 0, 0, 0, 0, 0, 0, 0, 0, 0, 0, 4020486, 4115718, 4214022, 0, 0, 0, 0, 0, 0, 0, 0, 0, 0, 0, 0,
     0, 0, 0, 0, 0, 0, 0, 0, 0, 0, 0, 0]"

lemma indices_0: "filter (\<lambda>e. e \<noteq> 0) decomp_indices_0 =
    [3, 49155, 97539, 145923, 191749, 273669, 355588, 419846, 515588, 581124, 642564, 707844, 767236,
     832772, 887814, 979974, 1075462, 1160710, 1252614, 1348870, 1442054, 1537798, 1634054, 1732361,
     1877254, 1968905, 2115590, 2213638, 2302726, 2399494, 2497798, 2596101, 2678021, 2759941, 2841861,
     2923782, 3022086, 3120392, 3251206, 3349507, 3388931, 3431429, 3510021, 3590917, 3672581, 3754501,
     3828229, 3899651, 3941637, 4020486, 4115718, 4214022]"
  "length decomp_indices_0 = 220"
  by code_simp+

definition decomp_indices_1 :: "int list" where
  "decomp_indices_1 =
    [0, 0, 0, 0, 0, 0, 0, 0, 0, 0, 0, 0, 0, 0, 0, 0, 0, 0, 0, 0, 0, 0, 0, 0, 0, 0, 0, 0, 0, 0, 0, 0, 0, 0,
     0, 0, 0, 0, 0, 0, 0, 0, 0, 0, 0, 0, 0, 0, 0, 0, 0, 0, 0, 0, 0, 0, 0, 0, 0, 0, 0, 0, 0, 0, 0, 0, 0, 0,
     0, 0, 0, 0, 0, 0, 0, 0, 0, 0, 0, 0, 0, 0, 0, 0, 0, 0, 0, 0, 0, 0, 0, 0, 0, 0, 0, 0, 0, 0, 0, 0, 0, 0,
     0, 0, 0, 0, 0, 0, 0, 0, 0, 0, 0, 0, 0, 0, 0, 0, 0, 0, 0, 0, 0, 0, 0, 0, 0, 0, 0, 0, 0, 0, 0, 0, 0, 0,
     0, 0, 0, 0, 0, 0, 0, 0, 0, 0, 0, 0, 0, 0, 0, 0, 0, 0, 0, 0, 0, 0, 0, 0, 0, 0, 0, 0, 0, 0, 0, 0, 0, 0,
     0, 0, 0, 0, 0, 0, 0, 0, 0, 0, 0, 0, 0, 0, 0, 0, 0, 0, 0, 0, 0, 0, 0, 0, 0, 0, 0, 0, 0, 0, 0, 0, 0, 0,
     0, 0, 0, 0, 0, 0, 0, 0, 0, 0, 0, 0, 0, 0, 0, 0]"

lemma indices_1: "filter (\<lambda>e. e \<noteq> 0) decomp_indices_1 =
    []"
  "length decomp_indices_1 = 220"
  by code_simp+

definition decomp_indices_2 :: "int list" where
  "decomp_indices_2 =
    [0, 0, 0, 0, 0, 0, 0, 0, 0, 0, 0, 0, 0, 0, 0, 0, 0, 0, 0, 0, 0, 0, 0, 0, 0, 0, 0, 0, 0, 0, 0, 0, 0, 0,
     0, 0, 0, 0, 0, 0, 0, 0, 0, 0, 0, 0, 0, 0, 0, 0, 0, 0, 0, 0, 0, 0, 0, 0, 0, 0, 0, 0, 0, 0, 0, 0, 0, 0,
     0, 0, 0, 0, 0, 0, 0, 0, 0, 0, 0, 0, 0, 0, 0, 0, 0, 0, 0, 0, 0, 0, 0, 0, 0, 0, 0, 0, 0, 0, 0, 0, 0, 0,
     0, 0, 0, 0, 0, 0, 0, 0, 0, 0, 0, 0, 0, 0, 0, 0, 0, 0, 0, 0, 0, 0, 0, 0, 0, 0, 0, 0, 0, 0, 0, 0, 0, 0,
     0, 0, 0, 0, 0, 0, 0, 0, 0, 0, 0, 0, 0, 0, 0, 0, 0, 0, 0, 0, 0, 0, 0, 0, 0, 0, 0, 0, 0, 0, 0, 0, 0, 0,
     0, 0, 0, 0, 0, 0, 0, 0, 0, 0, 0, 0, 0, 0, 0, 0, 0, 0, 0, 0, 0, 0, 0, 0, 0, 0, 0, 0, 0, 0, 0, 0, 0, 0,
     0, 0, 0, 0, 0, 0, 0, 0, 0, 0, 0, 0, 0, 0, 0, 0]"

lemma indices_2: "filter (\<lambda>e. e \<noteq> 0) decomp_indices_2 =
    []"
  "length decomp_indices_2 = 220"
  by code_simp+

definition decomp_indices_3 :: "int list" where
  "decomp_indices_3 =
    [0, 0, 0, 0, 0, 0, 0, 0, 0, 0, 0, 0, 0, 0, 0, 0, 0, 0, 0, 0, 0, 0, 0, 0, 0, 0, 0, 0, 0, 0, 0, 0, 0, 0,
     0, 0, 0, 0, 0, 0, 0, 0, 0, 0, 0, 0, 0, 0, 0, 0, 0, 0, 0, 0, 0, 0, 0, 0, 0, 0, 0, 0, 0, 0, 0, 0, 0, 0,
     0, 0, 0, 0, 0, 0, 0, 0, 0, 0, 0, 0, 0, 0, 0, 0, 0, 0, 0, 0, 0, 0, 0, 0, 0, 0, 0, 0, 0, 0, 0, 0, 0, 0,
     0, 0, 0, 0, 0, 0, 0, 0, 0, 0, 0, 0, 0, 0, 0, 0, 0, 0, 0, 0, 0, 0, 0, 0, 0, 0, 0, 0, 0, 0, 0, 0, 0, 0,
     0, 0, 0, 0, 0, 0, 0, 0, 0, 0, 0, 0, 0, 0, 0, 0, 0, 0, 0, 0, 0, 0, 0, 0, 0, 0, 0, 0, 0, 0, 0, 0, 0, 0,
     0, 0, 0, 0, 0, 0, 0, 0, 0, 0, 0, 0, 0, 0, 0, 0, 0, 0, 0, 0, 0, 0, 0, 0, 0, 0, 0, 0, 0, 0, 0, 0, 0, 0,
     0, 0, 0, 0, 0, 0, 0, 0, 0, 0, 0, 0, 0, 0, 0, 0]"

lemma indices_3: "filter (\<lambda>e. e \<noteq> 0) decomp_indices_3 =
    []"
  "length decomp_indices_3 = 220"
  by code_simp+

definition decomp_indices_4 :: "int list" where
  "decomp_indices_4 =
    [0, 0, 0, 0, 0, 0, 0, 0, 0, 0, 0, 0, 0, 0, 0, 0, 0, 0, 0, 0, 0, 0, 0, 0, 0, 0, 0, 0, 0, 0, 0, 0, 0, 0,
     0, 0, 0, 0, 0, 0, 0, 0, 0, 0, 0, 0, 0, 0, 0, 0, 0, 0, 0, 0, 0, 0, 0, 0, 0, 0, 0, 0, 0, 0, 0, 0, 0, 0,
     0, 0, 0, 0, 0, 0, 0, 0, 0, 0, 0, 0, 0, 0, 0, 0, 0, 0, 0, 0, 0, 0, 0, 0, 0, 0, 0, 0, 0, 0, 0, 0, 0, 0,
     0, 0, 0, 0, 0, 0, 0, 0, 0, 0, 0, 0, 0, 0, 4312323, 4361475, 4410627, 4459779, 4508931, 4558084,
     4623619, 4672772, 4730886, 4829188, 0, 0, 0, 0, 0, 0, 0, 0, 0, 0, 0, 0, 0, 0, 0, 0, 0, 0, 0, 0, 0, 0,
     0, 0, 0, 0, 0, 0, 0, 0, 0, 0, 0, 0, 0, 0, 0, 0, 0, 0, 0, 0, 0, 0, 0, 0, 0, 0, 0, 0, 0, 0, 0, 0, 0, 0,
     0, 0, 0, 0, 0, 0, 0, 0, 0, 0, 0, 0, 0, 0, 0, 0, 0, 0, 0, 0, 0, 0, 0, 0, 0, 0, 0, 0, 4888072, 0,
     5007368, 0, 0, 0, 0, 0, 0, 0]"

lemma indices_4: "filter (\<lambda>e. e \<noteq> 0) decomp_indices_4 =
    [4312323, 4361475, 4410627, 4459779, 4508931, 4558084, 4623619, 4672772, 4730886, 4829188, 4888072,
     5007368]"
  "length decomp_indices_4 = 220"
  by code_simp+

definition decomp_indices_5 :: "int list" where
  "decomp_indices_5 =
    [0, 5135624, 0, 0, 0, 0, 5251592, 0, 0, 0, 5380616, 0, 0, 0, 0, 0, 0, 0, 0, 0, 0, 0, 0, 0, 5503496, 0,
     0, 0, 0, 0, 0, 0, 0, 0, 0, 0, 0, 0, 0, 0, 0, 0, 0, 0, 0, 0, 0, 0, 0, 0, 0, 0, 0, 0, 0, 0, 0, 0, 0, 0,
     0, 0, 0, 0, 0, 0, 0, 0, 0, 0, 0, 0, 0, 0, 0, 0, 0, 0, 0, 0, 0, 0, 0, 0, 0, 0, 0, 0, 0, 0, 0, 0, 0, 0,
     0, 0, 0, 0, 0, 0, 0, 0, 0, 0, 0, 0, 0, 0, 0, 0, 0, 0, 0, 0, 0, 0, 0, 0, 0, 0, 0, 0, 0, 0, 0, 0, 0, 0,
     0, 0, 0, 0, 0, 0, 0, 0, 0, 0, 0, 0, 0, 0, 0, 0, 0, 0, 0, 0, 0, 0, 0, 0, 0, 0, 0, 0, 0, 0, 0, 0, 0, 0,
     0, 0, 0, 0, 0, 0, 0, 0, 0, 0, 0, 0, 0, 0, 0, 0, 0, 0, 0, 0, 0, 0, 0, 0, 0, 0, 0, 0, 0, 0, 0, 0, 0, 0,
     0, 0, 0, 0, 0, 0, 0, 0, 0, 0, 0, 0, 0, 0, 0, 0, 0, 0, 0, 0, 0, 0, 0, 0]"

lemma indices_5: "filter (\<lambda>e. e \<noteq> 0) decomp_indices_5 =
    [5135624, 5251592, 5380616, 5503496]"
  "length decomp_indices_5 = 220"
  by code_simp+

definition decomp_indices_6 :: "int list" where
  "decomp_indices_6 =
    [0, 0, 0, 0, 0, 0, 0, 0, 0, 0, 0, 0, 0, 0, 0, 0, 0, 0, 0, 0, 0, 0, 0, 0, 0, 0, 0, 0, 0, 0, 0, 0, 0, 0,
     0, 0, 0, 0, 0, 0, 0, 0, 0, 0, 0, 0, 0, 0, 0, 0, 0, 0, 0, 0, 0, 0, 0, 0, 0, 0, 0, 0, 0, 0, 0, 0, 0, 0,
     0, 0, 0, 0, 0, 0, 0, 0, 0, 0, 0, 0, 0, 0, 0, 0, 0, 0, 0, 0, 0, 0, 0, 0, 0, 0, 0, 0, 0, 0, 0, 0, 0, 0,
     0, 0, 0, 0, 0, 0, 0, 0, 0, 0, 0, 0, 0, 0, 0, 0, 0, 0, 0, 0, 0, 0, 0, 0, 0, 0, 0, 0, 0, 0, 0, 0, 0, 0,
     0, 0, 0, 0, 0, 0, 0, 0, 0, 0, 0, 0, 0, 0, 0, 0, 0, 0, 0, 0, 0, 0, 0, 0, 0, 0, 0, 0, 0, 0, 0, 0, 0, 0,
     0, 0, 0, 0, 0, 0, 0, 0, 0, 0, 0, 0, 0, 0, 0, 0, 0, 0, 0, 0, 0, 0, 0, 0, 0, 0, 0, 0, 0, 0, 0, 0, 0, 0,
     0, 0, 0, 0, 0, 0, 0, 0, 0, 0, 0, 0, 0, 0, 0, 0]"

lemma indices_6: "filter (\<lambda>e. e \<noteq> 0) decomp_indices_6 =
    []"
  "length decomp_indices_6 = 220"
  by code_simp+

definition decomp_indices_7 :: "int list" where
  "decomp_indices_7 =
    [0, 0, 0, 0, 0, 0, 0, 0, 0, 0, 0, 0, 0, 0, 0, 0, 0, 0, 0, 0, 0, 0, 0, 0, 0, 0, 0, 0, 0, 0, 0, 0, 0, 0,
     0, 0, 0, 0, 0, 0, 0, 0, 0, 0, 0, 0, 0, 0, 0, 0, 0, 0, 0, 0, 0, 0, 0, 0, 0, 0, 0, 0, 0, 0, 0, 0, 0, 0,
     0, 0, 0, 0, 0, 0, 0, 0, 0, 0, 0, 0, 0, 0, 0, 0, 0, 0, 0, 0, 0, 0, 0, 0, 0, 0, 0, 0, 0, 0, 0, 0, 0, 0,
     0, 0, 0, 0, 0, 0, 0, 0, 0, 0, 0, 0, 0, 0, 0, 0, 0, 0, 0, 0, 0, 0, 0, 0, 0, 0, 0, 0, 0, 0, 0, 0, 0, 0,
     0, 0, 0, 0, 0, 0, 0, 0, 0, 0, 0, 0, 0, 0, 0, 0, 0, 0, 0, 0, 0, 0, 0, 0, 0, 0, 0, 0, 0, 0, 0, 0, 0, 0,
     0, 0, 0, 0, 0, 0, 0, 0, 0, 0, 0, 0, 0, 0, 0, 0, 0, 0, 0, 0, 0, 0, 0, 0, 0, 0, 0, 0, 0, 0, 0, 0, 0, 0,
     0, 0, 0, 0, 0, 0, 0, 0, 0, 0, 0, 0, 0, 0, 0, 0]"

lemma indices_7: "filter (\<lambda>e. e \<noteq> 0) decomp_indices_7 =
    []"
  "length decomp_indices_7 = 220"
  by code_simp+

definition decomp_indices_8 :: "int list" where
  "decomp_indices_8 =
    [0, 0, 0, 0, 0, 0, 0, 0, 0, 0, 0, 0, 0, 0, 0, 0, 0, 0, 0, 0, 0, 0, 0, 0, 0, 0, 0, 0, 0, 0, 0, 0, 0, 0,
     0, 0, 0, 0, 0, 0, 0, 0, 0, 0, 0, 0, 0, 0, 0, 0, 0, 0, 0, 0, 0, 0, 0, 0, 0, 0, 0, 0, 0, 0, 0, 0, 0, 0,
     0, 0, 0, 0, 0, 0, 0, 0, 0, 0, 0, 0, 0, 0, 0, 0, 0, 0, 0, 0, 0, 0, 0, 0, 0, 0, 0, 0, 0, 0, 0, 0, 0,
     5626892, 5808396, 6005004, 0, 0, 0, 0, 0, 0, 0, 0, 0, 0, 0, 0, 0, 0, 0, 0, 0, 0, 0, 0, 0, 0, 0, 0, 0,
     0, 0, 0, 0, 0, 0, 0, 0, 0, 0, 0, 0, 0, 0, 0, 0, 0, 0, 0, 0, 0, 0, 0, 0, 0, 0, 0, 0, 0, 0, 0, 0, 0, 0,
     0, 0, 0, 0, 0, 0, 0, 0, 0, 0, 0, 0, 0, 0, 0, 0, 0, 0, 0, 0, 0, 0, 0, 0, 0, 0, 0, 0, 0, 0, 0, 0, 0, 0,
     0, 0, 0, 0, 0, 0, 0, 0, 0, 0, 0, 0, 0, 0, 0, 0, 0, 0, 0, 0, 0, 0, 0]"

lemma indices_8: "filter (\<lambda>e. e \<noteq> 0) decomp_indices_8 =
    [5626892, 5808396, 6005004]"
  "length decomp_indices_8 = 220"
  by code_simp+

definition decomp_indices_9 :: "int list" where
  "decomp_indices_9 =
    [0, 0, 0, 0, 0, 0, 0, 0, 0, 0, 0, 0, 0, 0, 0, 0, 0, 0, 0, 0, 0, 0, 0, 0, 0, 0, 0, 0, 0, 0, 0, 0, 0, 0,
     0, 0, 0, 0, 0, 0, 0, 0, 0, 0, 0, 0, 0, 0, 0, 0, 0, 0, 0, 0, 0, 0, 0, 0, 0, 0, 0, 0, 0, 0, 0, 0, 0, 0,
     0, 0, 0, 0, 0, 0, 0, 0, 0, 0, 0, 0, 0, 0, 0, 0, 0, 0, 0, 0, 0, 0, 0, 0, 0, 0, 0, 0, 0, 0, 0, 0, 0, 0,
     0, 0, 0, 0, 0, 0, 0, 0, 0, 0, 0, 0, 0, 0, 0, 0, 0, 0, 0, 0, 0, 0, 0, 0, 0, 0, 0, 0, 0, 0, 0, 0, 0, 0,
     0, 0, 0, 0, 0, 0, 0, 0, 0, 0, 0, 0, 0, 0, 0, 0, 0, 0, 0, 0, 0, 0, 0, 0, 0, 0, 0, 0, 0, 0, 0, 0, 0, 0,
     0, 0, 0, 0, 0, 0, 0, 0, 0, 0, 0, 0, 0, 0, 0, 0, 0, 0, 0, 0, 0, 0, 0, 0, 0, 0, 0, 0, 0, 0, 0, 0, 0, 0,
     0, 0, 0, 0, 0, 0, 0, 0, 0, 0, 0, 0, 0, 0, 0, 0]"

lemma indices_9: "filter (\<lambda>e. e \<noteq> 0) decomp_indices_9 =
    []"
  "length decomp_indices_9 = 220"
  by code_simp+

definition decomp_indices_10 :: "int list" where
  "decomp_indices_10 =
    [0, 0, 0, 0, 0, 0, 0, 0, 0, 0, 0, 0, 0, 0, 0, 0, 0, 0, 0, 0, 0, 0, 0, 0, 0, 0, 0, 0, 0, 0, 0, 0, 0, 0,
     0, 0, 0, 0, 0, 0, 0, 0, 0, 0, 0, 0, 0, 0, 0, 0, 0, 0, 0, 0, 0, 0, 0, 0, 0, 0, 0, 0, 0, 0, 0, 0, 0, 0,
     0, 0, 0, 0, 0, 0, 0, 0, 0, 0, 0, 0, 0, 0, 0, 0, 0, 0, 0, 0, 0, 0, 0, 0, 0, 0, 0, 0, 0, 0, 0, 0, 0, 0,
     0, 0, 0, 0, 0, 0, 0, 0, 0, 0, 0, 0, 0, 0, 0, 0, 0, 0, 0, 0, 0, 0, 0, 0, 0, 0, 0, 0, 0, 0, 0, 0, 0, 0,
     0, 0, 0, 0, 0, 0, 0, 0, 0, 0, 0, 0, 0, 0, 0, 0, 0, 0, 0, 0, 0, 0, 0, 0, 0, 0, 0, 0, 0, 0, 0, 0, 0, 0,
     0, 0, 0, 0, 0, 0, 0, 0, 0, 0, 0, 0, 0, 0, 0, 0, 0, 0, 0, 0, 0, 0, 0, 0, 0, 0, 0, 0, 0, 0, 0, 0, 0, 0,
     0, 0, 0, 0, 0, 0, 0, 0, 0, 0, 0, 0, 0, 0, 0, 0]"

lemma indices_10: "filter (\<lambda>e. e \<noteq> 0) decomp_indices_10 =
    []"
  "length decomp_indices_10 = 220"
  by code_simp+

definition decomp_indices_11 :: "int list" where
  "decomp_indices_11 =
    [0, 0, 0, 0, 0, 0, 0, 0, 0, 0, 0, 0, 0, 0, 0, 0, 0, 0, 0, 0, 0, 0, 0, 0, 0, 0, 0, 0, 0, 0, 0, 0, 0, 0,
     0, 0, 0, 0, 0, 0, 0, 0, 0, 0, 0, 0, 0, 0, 0, 0, 0, 0, 0, 0, 0, 0, 0, 0, 0, 0, 0, 0, 0, 0, 0, 0, 0, 0,
     0, 0, 0, 0, 0, 0, 0, 0, 0, 0, 0, 0, 0, 0, 0, 0, 0, 0, 0, 0, 0, 0, 0, 0, 0, 0, 0, 0, 0, 0, 0, 0, 0, 0,
     0, 0, 0, 0, 0, 0, 0, 0, 0, 0, 0, 0, 0, 0, 0, 0, 0, 0, 0, 0, 0, 0, 0, 0, 0, 0, 0, 0, 0, 0, 0, 0, 0, 0,
     0, 0, 0, 0, 0, 0, 0, 0, 0, 0, 0, 0, 0, 0, 0, 0, 0, 0, 0, 0, 0, 0, 0, 0, 0, 0, 0, 0, 0, 0, 0, 0, 0, 0,
     0, 0, 0, 0, 0, 0, 0, 0, 0, 0, 0, 0, 0, 0, 0, 0, 0, 0, 0, 0, 0, 0, 0, 0, 0, 0, 0, 0, 0, 0, 0, 0, 0, 0,
     0, 0, 0, 0, 0, 0, 0, 0, 0, 0, 0, 0, 0, 0, 0, 0]"

lemma indices_11: "filter (\<lambda>e. e \<noteq> 0) decomp_indices_11 =
    []"
  "length decomp_indices_11 = 220"
  by code_simp+

definition decomp_indices_12 :: "int list" where
  "decomp_indices_12 =
    [0, 0, 0, 0, 0, 0, 0, 0, 0, 0, 0, 0, 0, 0, 0, 0, 0, 0, 0, 0, 0, 0, 0, 0, 0, 0, 0, 0, 0, 0, 0, 0, 0, 0,
     0, 0, 0, 0, 0, 0, 0, 0, 0, 0, 0, 0, 0, 0, 0, 0, 0, 0, 0, 0, 0, 0, 0, 0, 0, 0, 0, 0, 0, 0, 0, 0, 0, 0,
     0, 0, 0, 0, 0, 0, 0, 0, 0, 0, 0, 0, 0, 0, 0, 0, 0, 0, 0, 0, 0, 0, 0, 0, 0, 0, 0, 0, 0, 0, 0, 0, 0, 0,
     0, 0, 0, 0, 0, 0, 0, 0, 0, 0, 0, 0, 0, 0, 0, 0, 0, 0, 0, 0, 0, 0, 0, 0, 0, 0, 0, 0, 0, 0, 0, 0, 0, 0,
     0, 0, 0, 0, 0, 0, 0, 0, 0, 0, 0, 0, 0, 0, 0, 0, 0, 0, 0, 0, 0, 0, 0, 0, 0, 0, 0, 0, 0, 0, 0, 0, 0, 0,
     0, 0, 0, 0, 0, 0, 0, 0, 0, 0, 0, 0, 0, 0, 0, 0, 0, 0, 0, 0, 0, 0, 0, 0, 0, 0, 0, 0, 0, 0, 0, 0, 0, 0,
     0, 0, 0, 0, 0, 0, 0, 0, 0, 0, 0, 0, 0, 0, 0, 0]"

lemma indices_12: "filter (\<lambda>e. e \<noteq> 0) decomp_indices_12 =
    []"
  "length decomp_indices_12 = 220"
  by code_simp+

definition decomp_indices_13 :: "int list" where
  "decomp_indices_13 =
    [0, 0, 0, 0, 0, 0, 0, 0, 0, 0, 0, 0, 0, 0, 0, 0, 0, 0, 0, 0, 0, 0, 0, 0, 0, 0, 0, 0, 0, 0, 0, 0, 0, 0,
     0, 0, 0, 0, 0, 0, 0, 0, 0, 0, 0, 0, 0, 0, 0, 0, 0, 0, 0, 0, 0, 0, 0, 0, 0, 0, 0, 0, 0, 0, 0, 0, 0, 0,
     0, 0, 0, 0, 0, 0, 0, 0, 0, 0, 0, 0, 0, 0, 0, 0, 0, 0, 0, 0, 0, 0, 0, 0, 0, 0, 0, 0, 0, 0, 0, 0, 0, 0,
     0, 0, 0, 0, 0, 0, 0, 0, 0, 0, 0, 0, 0, 0, 0, 0, 0, 0, 0, 0, 0, 0, 0, 0, 0, 0, 0, 0, 0, 0, 0, 0, 0, 0,
     0, 0, 0, 0, 0, 0, 0, 0, 0, 0, 0, 0, 0, 0, 0, 0, 0, 0, 0, 0, 0, 0, 0, 0, 0, 0, 0, 0, 0, 0, 0, 0, 0, 0,
     0, 0, 0, 0, 0, 0, 0, 0, 0, 0, 6201604, 6267140, 6332676, 6398212, 6463748, 6529284, 6594820, 6660356,
     6725892]"

lemma indices_13: "filter (\<lambda>e. e \<noteq> 0) decomp_indices_13 =
    [6201604, 6267140, 6332676, 6398212, 6463748, 6529284, 6594820, 6660356, 6725892]"
  "length decomp_indices_13 = 189" "last decomp_indices_13 = 6725892"
  by code_simp+

definition decomp_index_numbers :: "int list" where
  "decomp_index_numbers = decomp_indices_0 @ decomp_indices_1 @ decomp_indices_2 @ decomp_indices_3 @
     decomp_indices_4 @ decomp_indices_5 @ decomp_indices_6 @ decomp_indices_7 @
     decomp_indices_8 @ decomp_indices_9 @ decomp_indices_10 @ decomp_indices_11 @
     decomp_indices_12 @ decomp_indices_13"

definition decomp_indices :: "u32 list" where
  "decomp_indices = map word_of_int decomp_index_numbers"

lemmas indices_nonzero = indices_0(1) indices_1(1) indices_2(1) indices_3(1) indices_4(1) indices_5(1) indices_6(1) indices_7(1) indices_8(1) indices_9(1) indices_10(1) indices_11(1) indices_12(1) indices_13(1)

lemmas indices_lengths = indices_0(2) indices_1(2) indices_2(2) indices_3(2) indices_4(2) indices_5(2) indices_6(2) indices_7(2) indices_8(2) indices_9(2) indices_10(2) indices_11(2) indices_12(2) indices_13(2)

section \<open>The values\<close>

definition decomp_values_79 :: "int list" where
  "decomp_values_79 =
    [233, 160, 169, 0, 240, 169, 150, 182, 233, 163, 162, 0, 228, 172, 179, 0, 233, 164, 169, 0, 233, 166,
     167, 0, 233, 167, 130, 0, 233, 167, 190, 0, 228, 175, 142, 0, 240, 169, 172, 176, 233, 172, 146, 0,
     233, 177, 128, 0, 233, 179, 189, 0, 228, 179, 142, 0, 228, 179, 173, 0, 233, 181, 167, 0, 240, 170,
     131, 142, 228, 179, 184, 0, 240, 170, 132, 133, 240, 170, 136, 142, 240, 170, 138, 145, 233, 186, 187,
     0, 228, 181, 150, 0, 233, 187, 185, 0, 233, 187, 190, 0, 233, 188, 133, 0, 233, 188, 143, 0, 233, 188,
     150, 0, 233, 188, 187, 0, 240, 170, 152, 128]"

lemma piece_79: "slots_ok 30 4 (decomp_values_79)" "length decomp_values_79 = 120"
  by code_simp+

definition decomp_values_78 :: "int list" where
  "decomp_values_78 =
    [232, 159, 161, 0, 232, 160, 129, 0, 228, 151, 185, 0, 232, 161, 160, 0, 232, 161, 163, 0, 240, 167,
     153, 167, 232, 163, 151, 0, 232, 163, 158, 0, 228, 152, 181, 0, 232, 163, 186, 0, 227, 146, 187, 0,
     240, 167, 162, 174, 240, 167, 165, 166, 228, 154, 190, 0, 228, 155, 135, 0, 232, 170, 160, 0, 232, 171,
     173, 0, 232, 174, 138, 0, 232, 177, 149, 0, 240, 167, 178, 168, 232, 178, 171, 0, 232, 179, 129, 0,
     232, 180, 155, 0, 232, 181, 183, 0, 240, 167, 188, 175, 240, 160, 160, 132, 232, 183, 139, 0, 232, 182,
     188, 0, 232, 183, 176, 0, 240, 160, 163, 158, 232, 187, 148, 0, 232, 188, 184, 0, 240, 168, 151, 146,
     240, 168, 151, 173, 233, 130, 148, 0, 233, 131, 177, 0, 233, 132, 145, 0, 240, 168, 156, 174, 233, 132,
     155, 0, 233, 136, 184, 0, 233, 139, 151, 0, 233, 139, 152, 0, 233, 137, 188, 0, 233, 143, 185, 0, 233,
     144, 149, 0, 240, 168, 175, 186, 233, 150, 139, 0, 228, 166, 149, 0, 233, 150, 183, 0, 240, 168, 181,
     183, 228, 167, 166, 0, 233, 155, 131, 0, 229, 182, 178, 0, 233, 156, 163, 0, 240, 169, 133, 133, 240,
     169, 136, 154, 228, 169, 174, 0, 228, 169, 182, 0, 233, 159, 160, 0, 240, 169, 144, 138, 228, 170, 178,
     0, 240, 169, 146, 150, 233, 160, 139, 0, 233, 160, 139, 0]"

lemma piece_78: "slots_ok 64 4 (decomp_values_78)" "length decomp_values_78 = 256"
  by code_simp+

definition decomp_values_77 :: "int list" where
  "decomp_values_77 =
    [240, 163, 141, 159, 228, 143, 149, 0, 232, 130, 178, 0, 232, 132, 131, 0, 228, 144, 139, 0, 232, 132,
     190, 0, 229, 170, 181, 0, 240, 166, 158, 167, 240, 166, 158, 181, 240, 163, 142, 147, 240, 163, 142,
     156, 232, 136, 129, 0, 232, 136, 132, 0, 232, 190, 158, 0, 228, 145, 171, 0, 232, 138, 145, 0, 232,
     138, 139, 0, 232, 138, 157, 0, 229, 138, 179, 0, 232, 138, 177, 0, 232, 138, 179, 0, 232, 138, 189, 0,
     232, 139, 166, 0, 240, 166, 172, 188, 232, 139, 165, 0, 232, 140, 157, 0, 232, 141, 163, 0, 232, 142,
     173, 0, 232, 140, 163, 0, 232, 142, 189, 0, 232, 143, 167, 0, 232, 145, 151, 0, 232, 141, 147, 0, 232,
     143, 138, 0, 232, 143, 140, 0, 232, 143, 156, 0, 240, 166, 176, 182, 240, 166, 181, 171, 240, 166, 179,
     149, 228, 148, 171, 0, 232, 147, 177, 0, 232, 147, 179, 0, 232, 148, 150, 0, 240, 167, 143, 138, 232,
     149, 164, 0, 240, 166, 188, 172, 228, 149, 157, 0, 228, 149, 161, 0, 240, 166, 190, 177, 240, 167, 131,
     146, 228, 149, 171, 0, 232, 153, 144, 0, 232, 153, 156, 0, 232, 153, 167, 0, 232, 153, 169, 0, 232,
     154, 169, 0, 232, 154, 136, 0, 232, 156, 142, 0, 232, 155, 162, 0, 232, 157, 185, 0, 232, 156, 168, 0,
     232, 157, 171, 0, 232, 158, 134, 0, 228, 151, 151, 0]"

lemma piece_77: "slots_ok 64 4 (decomp_values_77)" "length decomp_values_77 = 256"
  by code_simp+

definition decomp_values_76 :: "int list" where
  "decomp_values_76 =
    [231, 155, 180, 0, 240, 165, 131, 179, 240, 165, 131, 178, 240, 165, 132, 153, 240, 165, 132, 179, 231,
     156, 158, 0, 231, 156, 159, 0, 231, 156, 159, 0, 231, 157, 138, 0, 228, 128, 185, 0, 231, 158, 139, 0,
     228, 129, 134, 0, 228, 130, 150, 0, 240, 165, 144, 157, 231, 161, 142, 0, 231, 162, 140, 0, 231, 163,
     140, 0, 228, 131, 163, 0, 240, 165, 152, 166, 231, 165, 150, 0, 240, 165, 154, 154, 240, 165, 155, 133,
     231, 166, 143, 0, 231, 167, 171, 0, 228, 132, 175, 0, 231, 169, 128, 0, 231, 169, 138, 0, 231, 169,
     143, 0, 240, 165, 165, 188, 240, 165, 170, 167, 240, 165, 170, 167, 231, 171, 174, 0, 228, 136, 130, 0,
     240, 165, 174, 171, 231, 175, 134, 0, 231, 175, 137, 0, 228, 136, 167, 0, 240, 165, 178, 128, 231, 179,
     146, 0, 228, 138, 160, 0, 231, 179, 168, 0, 231, 179, 163, 0, 231, 180, 128, 0, 240, 165, 190, 134,
     231, 181, 163, 0, 228, 140, 129, 0, 231, 183, 135, 0, 231, 184, 130, 0, 231, 185, 133, 0, 228, 140,
     180, 0, 240, 166, 136, 168, 240, 166, 137, 135, 228, 141, 153, 0, 240, 166, 139, 153, 231, 189, 186, 0,
     240, 166, 140, 190, 231, 190, 149, 0, 231, 191, 186, 0, 232, 128, 133, 0, 240, 166, 147, 154, 240, 166,
     148, 163, 232, 129, 160, 0, 240, 166, 150, 168, 232, 129, 176, 0]"

lemma piece_76: "slots_ok 64 4 (decomp_values_76)" "length decomp_values_76 = 256"
  by code_simp+

definition decomp_values_75 :: "int list" where
  "decomp_values_75 =
    [230, 180, 190, 0, 230, 181, 183, 0, 230, 181, 129, 0, 230, 181, 169, 0, 230, 181, 184, 0, 230, 182,
     133, 0, 240, 163, 180, 158, 230, 180, 180, 0, 230, 184, 175, 0, 230, 185, 174, 0, 227, 180, 179, 0,
     230, 187, 139, 0, 230, 187, 135, 0, 240, 163, 187, 145, 230, 183, 185, 0, 230, 189, 174, 0, 240, 163,
     189, 158, 240, 163, 190, 142, 230, 191, 134, 0, 231, 128, 185, 0, 231, 128, 158, 0, 231, 128, 155, 0,
     227, 182, 150, 0, 231, 129, 138, 0, 231, 129, 189, 0, 231, 129, 183, 0, 231, 130, 173, 0, 240, 160,
     148, 165, 231, 133, 133, 0, 240, 164, 137, 163, 231, 134, 156, 0, 240, 164, 142, 171, 231, 136, 168, 0,
     231, 136, 181, 0, 231, 137, 144, 0, 240, 164, 152, 136, 231, 138, 128, 0, 231, 138, 149, 0, 240, 164,
     156, 181, 240, 164, 160, 148, 231, 141, 186, 0, 231, 142, 139, 0, 227, 186, 172, 0, 231, 142, 165, 0,
     227, 186, 184, 0, 227, 186, 184, 0, 231, 145, 135, 0, 231, 145, 156, 0, 231, 145, 177, 0, 231, 146,
     133, 0, 231, 147, 138, 0, 227, 188, 155, 0, 231, 148, 164, 0, 240, 164, 176, 182, 231, 148, 190, 0,
     240, 164, 178, 146, 231, 149, 176, 0, 240, 162, 134, 159, 231, 152, 144, 0, 240, 164, 190, 161, 240,
     164, 190, 184, 240, 165, 129, 132, 227, 191, 188, 0, 228, 128, 136, 0]"

lemma piece_75: "slots_ok 64 4 (decomp_values_75)" "length decomp_values_75 = 256"
  by code_simp+

definition decomp_values_74 :: "int list" where
  "decomp_values_74 =
    [230, 143, 133, 0, 230, 142, 169, 0, 227, 168, 174, 0, 230, 145, 169, 0, 230, 145, 190, 0, 230, 146,
     157, 0, 230, 145, 183, 0, 227, 169, 172, 0, 230, 149, 143, 0, 230, 149, 172, 0, 240, 163, 128, 138,
     230, 151, 163, 0, 230, 155, 184, 0, 230, 153, 137, 0, 227, 172, 153, 0, 230, 154, 145, 0, 227, 172,
     136, 0, 227, 171, 164, 0, 229, 134, 146, 0, 229, 134, 149, 0, 230, 156, 128, 0, 230, 154, 156, 0, 232,
     130, 173, 0, 228, 143, 153, 0, 230, 156, 151, 0, 230, 156, 155, 0, 230, 156, 161, 0, 230, 157, 158, 0,
     230, 157, 147, 0, 240, 163, 143, 131, 227, 173, 137, 0, 230, 159, 186, 0, 230, 158, 133, 0, 230, 161,
     146, 0, 230, 162, 133, 0, 240, 163, 145, 173, 230, 162, 142, 0, 230, 160, 159, 0, 230, 164, 148, 0,
     227, 174, 157, 0, 230, 165, 130, 0, 230, 166, 163, 0, 230, 167, 170, 0, 230, 170, 168, 0, 240, 163,
     154, 163, 230, 171, 155, 0, 227, 176, 152, 0, 230, 172, 161, 0, 240, 163, 162, 167, 230, 173, 148, 0,
     227, 177, 142, 0, 230, 173, 178, 0, 230, 174, 159, 0, 230, 174, 186, 0, 230, 174, 187, 0, 240, 163,
     170, 141, 240, 161, 180, 139, 240, 163, 171, 186, 230, 177, 142, 0, 240, 163, 178, 188, 230, 178, 191,
     0, 230, 179, 141, 0, 230, 177, 167, 0, 230, 180, 150, 0]"

lemma piece_74: "slots_ok 64 4 (decomp_values_74)" "length decomp_values_74 = 256"
  by code_simp+

definition decomp_values_73 :: "int list" where
  "decomp_values_73 =
    [229, 181, 188, 0, 229, 183, 161, 0, 229, 183, 162, 0, 227, 160, 175, 0, 229, 183, 189, 0, 229, 184,
     168, 0, 229, 184, 189, 0, 229, 185, 169, 0, 227, 161, 162, 0, 240, 162, 134, 131, 227, 161, 188, 0,
     229, 186, 176, 0, 229, 186, 179, 0, 229, 186, 182, 0, 229, 187, 138, 0, 240, 170, 142, 146, 229, 187,
     190, 0, 240, 162, 140, 177, 240, 162, 140, 177, 232, 136, 129, 0, 229, 188, 162, 0, 229, 188, 162, 0,
     227, 163, 135, 0, 240, 163, 138, 184, 240, 166, 135, 154, 229, 189, 162, 0, 229, 189, 171, 0, 227, 163,
     163, 0, 229, 190, 154, 0, 229, 191, 141, 0, 229, 191, 151, 0, 229, 191, 185, 0, 230, 130, 129, 0, 227,
     164, 186, 0, 227, 164, 156, 0, 230, 130, 148, 0, 240, 162, 155, 148, 230, 131, 135, 0, 230, 133, 136,
     0, 230, 133, 140, 0, 230, 133, 142, 0, 230, 133, 140, 0, 230, 133, 186, 0, 230, 134, 142, 0, 230, 134,
     178, 0, 230, 134, 164, 0, 230, 134, 175, 0, 230, 135, 158, 0, 230, 135, 178, 0, 230, 135, 182, 0, 230,
     136, 144, 0, 230, 136, 155, 0, 230, 137, 157, 0, 230, 138, 177, 0, 230, 139, 148, 0, 230, 141, 144, 0,
     240, 162, 172, 140, 230, 140, 189, 0, 230, 139, 188, 0, 230, 141, 168, 0, 230, 142, 131, 0, 230, 143,
     164, 0, 240, 162, 175, 177, 230, 144, 162, 0]"

lemma piece_73: "slots_ok 64 4 (decomp_values_73)" "length decomp_values_73 = 256"
  by code_simp+

definition decomp_values_72 :: "int list" where
  "decomp_values_72 =
    [229, 146, 162, 0, 229, 147, 182, 0, 229, 148, 144, 0, 229, 149, 147, 0, 229, 149, 163, 0, 229, 150,
     132, 0, 229, 150, 132, 0, 229, 150, 153, 0, 229, 150, 171, 0, 229, 150, 179, 0, 229, 151, 130, 0, 229,
     156, 150, 0, 229, 152, 134, 0, 229, 156, 151, 0, 229, 153, 145, 0, 229, 153, 180, 0, 229, 136, 135, 0,
     229, 163, 174, 0, 229, 159, 142, 0, 229, 159, 180, 0, 229, 160, 141, 0, 229, 158, 139, 0, 229, 160,
     178, 0, 229, 160, 177, 0, 229, 162, 172, 0, 240, 161, 147, 164, 229, 163, 178, 0, 229, 163, 183, 0,
     229, 164, 134, 0, 229, 164, 154, 0, 229, 164, 162, 0, 229, 165, 162, 0, 240, 161, 154, 168, 240, 161,
     155, 170, 229, 167, 172, 0, 229, 168, 155, 0, 229, 168, 167, 0, 229, 167, 152, 0, 229, 169, 166, 0,
     227, 155, 174, 0, 227, 155, 188, 0, 229, 172, 136, 0, 229, 172, 190, 0, 229, 172, 190, 0, 240, 161,
     167, 136, 229, 175, 131, 0, 229, 175, 152, 0, 229, 175, 167, 0, 229, 175, 179, 0, 240, 161, 172, 152,
     229, 175, 191, 0, 229, 176, 134, 0, 229, 189, 147, 0, 229, 176, 162, 0, 227, 158, 129, 0, 229, 177,
     160, 0, 229, 177, 174, 0, 229, 179, 128, 0, 229, 178, 141, 0, 240, 161, 183, 164, 229, 181, 131, 0,
     240, 161, 183, 166, 229, 181, 174, 0, 229, 181, 171, 0]"

lemma piece_72: "slots_ok 64 4 (decomp_values_72)" "length decomp_values_72 = 256"
  by code_simp+

definition decomp_values_71 :: "int list" where
  "decomp_values_71 =
    [228, 184, 189, 0, 228, 184, 184, 0, 228, 185, 129, 0, 240, 160, 132, 162, 228, 189, 160, 0, 228, 190,
     174, 0, 228, 190, 187, 0, 229, 128, 130, 0, 229, 129, 186, 0, 229, 130, 153, 0, 229, 131, 167, 0, 229,
     131, 143, 0, 227, 146, 158, 0, 240, 160, 152, 186, 229, 133, 141, 0, 229, 133, 148, 0, 229, 133, 164,
     0, 229, 133, 183, 0, 240, 160, 148, 156, 227, 146, 185, 0, 229, 133, 167, 0, 229, 134, 141, 0, 240,
     160, 149, 139, 229, 134, 151, 0, 229, 134, 164, 0, 228, 187, 140, 0, 229, 134, 172, 0, 229, 134, 181,
     0, 240, 169, 135, 159, 229, 135, 181, 0, 229, 136, 131, 0, 227, 147, 159, 0, 229, 136, 187, 0, 229,
     137, 134, 0, 229, 137, 178, 0, 229, 137, 183, 0, 227, 148, 149, 0, 229, 139, 135, 0, 229, 139, 137, 0,
     229, 139, 164, 0, 229, 139, 186, 0, 229, 140, 133, 0, 229, 140, 134, 0, 229, 140, 151, 0, 229, 141,
     137, 0, 229, 141, 145, 0, 229, 141, 154, 0, 229, 141, 179, 0, 229, 141, 189, 0, 229, 141, 191, 0, 229,
     141, 191, 0, 229, 141, 191, 0, 240, 160, 168, 172, 231, 129, 176, 0, 229, 143, 138, 0, 229, 143, 159,
     0, 240, 160, 173, 163, 229, 143, 171, 0, 229, 143, 177, 0, 229, 144, 134, 0, 229, 146, 158, 0, 229,
     144, 184, 0, 229, 145, 136, 0, 229, 145, 168, 0]"

lemma piece_71: "slots_ok 64 4 (decomp_values_71)" "length decomp_values_71 = 256"
  by code_simp+

definition decomp_values_70 :: "int list" where
  "decomp_values_70 =
    [240, 157, 134, 186, 240, 157, 133, 165, 240, 157, 133, 175, 0, 0, 0, 0, 0, 0, 0, 0, 0, 0, 0, 0, 0, 0,
     0, 0, 0, 0, 0, 0, 0, 0, 0, 0, 0, 0, 0, 0, 0, 0, 0, 0, 0, 0, 0, 0, 0, 0, 0, 0, 0, 0, 0, 0, 0, 0, 0, 0,
     0, 0, 0, 0, 0, 0, 0, 0, 0, 0, 0, 0, 0, 0, 0, 0, 0, 0, 0, 0, 0, 0, 0, 0, 0, 0, 0, 0, 0, 0, 0, 0, 0, 0,
     0, 0, 0, 0, 0, 0, 0, 0, 0, 0, 0, 0, 0, 0, 0, 0, 0, 0, 0, 0, 0, 0, 0, 0, 0, 0, 0, 0, 0, 0, 0, 0, 0, 0,
     0, 0, 0, 0, 0, 0, 0, 0, 0, 0, 0, 0, 0, 0, 0, 0, 0, 0, 0, 0, 0, 0, 0, 0, 0, 0, 0, 0, 0, 0, 0, 0, 0, 0,
     0, 0, 0, 0, 0, 0, 0, 0, 0, 0, 0, 0, 0, 0, 0, 0, 0, 0, 0, 0, 0, 0, 0, 0, 0, 0, 0, 0, 0, 0, 0, 0, 0, 0,
     0, 0, 0, 0, 0, 0, 0, 0, 0, 0, 0, 0, 0, 0, 0, 0, 0, 0, 0, 0, 0, 0, 0, 0, 0, 0, 0, 0, 0, 0, 0, 0, 0, 0,
     0, 0, 0, 0, 0, 0, 0, 0, 0, 0, 0, 0, 0, 0, 0, 0, 0, 0, 0, 0, 0, 0, 0, 0, 0, 0, 0, 0, 0, 0, 0, 0, 0, 0,
     0, 0, 0, 0, 0, 0, 0, 0, 0, 0, 0, 0, 0, 0, 0, 0, 0, 0, 0, 0, 0, 0, 0, 0, 0, 0, 0, 0, 0, 0, 0, 0, 0, 0,
     0, 0, 0, 0, 0, 0, 0, 0, 0, 0, 0, 0, 0, 0, 0, 0, 0, 0, 0, 0, 0, 0, 0, 0, 0, 0, 0, 0, 0, 0, 0, 0, 0, 0,
     0, 0, 0, 0, 0, 0, 0, 0, 0, 0, 0, 0, 0, 0, 0, 0, 0, 0, 0, 0, 0, 0, 0, 0, 0, 0, 0, 0, 0, 0, 0, 0, 0, 0,
     0, 0, 0, 0, 0, 0, 0, 0, 0, 0, 0, 0, 0, 0, 0, 0, 0, 0, 0, 0, 0, 0, 0, 0, 0, 0, 0, 0, 0, 0, 0, 0, 0, 0,
     0, 0, 0, 0, 0, 0, 0, 0, 0, 0, 0, 0, 0, 0, 0, 0, 0, 0, 0, 0, 0, 0, 0, 0, 0, 0, 0, 0, 0, 0, 0, 0, 0, 0,
     0, 0, 0, 0, 0, 0, 0, 0, 0, 0, 0, 0, 0, 0, 0, 0, 0, 0, 0, 0, 0, 0, 0, 0, 0, 0, 0, 0, 0, 0, 0, 0, 0, 0,
     0, 0, 0, 0, 0, 0, 0, 0, 0, 0, 0, 0, 0, 0, 0, 0, 0, 0, 0, 0, 0, 0, 0, 0, 0, 0, 0, 0, 0, 0, 0, 0, 0, 0,
     0, 0, 0, 0, 0, 0, 0, 0, 0, 0, 0, 0, 0, 0, 0, 0, 0, 0, 0, 0, 0, 0, 0, 0, 0, 0, 0, 0, 0, 0, 0, 0, 0, 0,
     0, 0, 0, 0, 0, 0, 0, 0, 0, 0, 0, 0, 0, 0, 0, 0, 0, 0, 0, 0, 0, 0, 0, 0, 0, 0, 0, 0, 0, 0, 0, 0, 0, 0,
     0, 0, 0, 0, 0, 0, 0, 0, 0, 0, 0, 0, 0, 0, 0, 0, 0, 0, 0, 0, 0, 0, 0, 0, 0, 0, 0, 0, 0, 0, 0, 0, 0, 0,
     0, 0, 0, 0, 0, 0, 0, 0, 0, 0, 0, 0, 0, 0, 0, 0, 0, 0, 0, 0, 0, 0, 0, 0, 0, 0, 0, 0, 0, 0, 0, 0, 0, 0,
     0, 0, 0, 0, 0, 0, 0, 0, 0, 0, 0, 0, 0, 0, 0, 0, 0, 0, 0, 0, 0, 0, 0, 0, 0, 0, 0, 0, 0, 0, 0, 0, 0, 0,
     0, 0, 0, 0, 0, 0, 0, 0, 0, 0, 0, 0, 0, 0, 0, 0, 0, 0, 0, 0, 0, 0, 0, 0, 0, 0, 0, 0, 0, 0, 0, 0, 0, 0,
     0, 0, 0, 0, 0, 0, 0, 0, 0, 0, 0, 0, 0, 0, 0, 0, 0, 0, 0, 0, 0, 0, 0, 0, 0, 0, 0, 0, 0, 0, 0, 0, 0, 0,
     0, 0, 0, 0, 0, 0, 0, 0, 0, 0, 0, 0, 0, 0, 0, 0, 0, 0, 0, 0, 0, 0, 0, 0, 0, 0, 0, 0]"

lemma piece_70: "slots_ok 64 12 (decomp_values_70)" "length decomp_values_70 = 768"
  by code_simp+

definition decomp_values_69 :: "int list" where
  "decomp_values_69 =
    [0, 0, 0, 0, 0, 0, 0, 0, 0, 0, 0, 0, 0, 0, 0, 0, 0, 0, 0, 0, 0, 0, 0, 0, 0, 0, 0, 0, 0, 0, 0, 0, 0, 0,
     0, 0, 0, 0, 0, 0, 0, 0, 0, 0, 0, 0, 0, 0, 0, 0, 0, 0, 0, 0, 0, 0, 0, 0, 0, 0, 0, 0, 0, 0, 0, 0, 0, 0,
     0, 0, 0, 0, 0, 0, 0, 0, 0, 0, 0, 0, 0, 0, 0, 0, 0, 0, 0, 0, 0, 0, 0, 0, 0, 0, 0, 0, 0, 0, 0, 0, 0, 0,
     0, 0, 0, 0, 0, 0, 0, 0, 0, 0, 0, 0, 0, 0, 0, 0, 0, 0, 0, 0, 0, 0, 0, 0, 0, 0, 0, 0, 0, 0, 0, 0, 0, 0,
     0, 0, 0, 0, 0, 0, 0, 0, 0, 0, 0, 0, 0, 0, 0, 0, 0, 0, 0, 0, 0, 0, 0, 0, 0, 0, 0, 0, 0, 0, 0, 0, 0, 0,
     0, 0, 0, 0, 0, 0, 0, 0, 0, 0, 0, 0, 0, 0, 0, 0, 0, 0, 0, 0, 0, 0, 0, 0, 0, 0, 0, 0, 0, 0, 0, 0, 0, 0,
     0, 0, 0, 0, 0, 0, 0, 0, 0, 0, 0, 0, 0, 0, 0, 0, 0, 0, 0, 0, 0, 0, 0, 0, 0, 0, 0, 0, 0, 0, 0, 0, 0, 0,
     0, 0, 0, 0, 0, 0, 0, 0, 0, 0, 0, 0, 0, 0, 0, 0, 0, 0, 0, 0, 0, 0, 0, 0, 0, 0, 0, 0, 0, 0, 0, 0, 0, 0,
     0, 0, 0, 0, 0, 0, 0, 0, 0, 0, 0, 0, 0, 0, 0, 0, 0, 0, 0, 0, 0, 0, 0, 0, 0, 0, 0, 0, 0, 0, 0, 0, 0, 0,
     0, 0, 0, 0, 0, 0, 0, 0, 0, 0, 0, 0, 0, 0, 0, 0, 0, 0, 0, 0, 0, 0, 0, 0, 0, 0, 0, 0, 0, 0, 0, 0, 0, 0,
     0, 0, 0, 0, 0, 0, 0, 0, 0, 0, 0, 0, 0, 0, 0, 0, 0, 0, 0, 0, 0, 0, 0, 0, 0, 0, 0, 0, 0, 0, 0, 0, 0, 0,
     0, 0, 0, 0, 0, 0, 0, 0, 0, 0, 0, 0, 0, 0, 0, 0, 0, 0, 0, 0, 0, 0, 0, 0, 0, 0, 0, 0, 0, 0, 0, 0, 0, 0,
     0, 0, 0, 0, 0, 0, 0, 0, 0, 0, 0, 0, 0, 0, 0, 0, 0, 0, 0, 0, 0, 0, 0, 0, 0, 0, 0, 0, 0, 0, 0, 0, 0, 0,
     0, 0, 0, 0, 0, 0, 0, 0, 0, 0, 0, 0, 0, 0, 0, 0, 0, 0, 0, 0, 0, 0, 0, 0, 0, 0, 0, 0, 0, 0, 0, 0, 0, 0,
     0, 0, 0, 0, 0, 0, 0, 0, 0, 0, 0, 0, 0, 0, 0, 0, 0, 0, 0, 0, 0, 0, 0, 0, 0, 0, 0, 0, 0, 0, 0, 0, 0, 0,
     0, 0, 0, 0, 0, 0, 0, 0, 0, 0, 0, 0, 0, 0, 0, 0, 0, 0, 0, 0, 0, 0, 0, 0, 0, 0, 0, 0, 0, 0, 0, 0, 0, 0,
     0, 0, 0, 0, 0, 0, 0, 0, 0, 0, 0, 0, 0, 0, 0, 0, 0, 0, 0, 0, 0, 0, 0, 0, 0, 0, 0, 0, 0, 0, 0, 0, 0, 0,
     0, 0, 0, 0, 0, 0, 0, 0, 0, 0, 0, 0, 0, 0, 0, 0, 0, 0, 0, 0, 0, 0, 0, 0, 0, 0, 0, 0, 0, 0, 0, 0, 0, 0,
     0, 0, 0, 0, 0, 0, 0, 0, 0, 0, 0, 0, 0, 0, 0, 0, 0, 0, 0, 0, 0, 0, 0, 0, 0, 0, 0, 0, 0, 0, 0, 0, 0, 0,
     0, 0, 0, 0, 0, 0, 0, 0, 0, 0, 0, 0, 0, 0, 0, 0, 0, 0, 0, 0, 0, 0, 0, 0, 0, 0, 0, 0, 0, 0, 0, 0, 0, 0,
     0, 0, 0, 0, 0, 0, 0, 0, 0, 0, 0, 0, 0, 0, 0, 0, 0, 0, 0, 0, 0, 0, 0, 0, 0, 0, 0, 0, 240, 157, 134, 185,
     240, 157, 133, 165, 0, 0, 0, 0, 240, 157, 134, 186, 240, 157, 133, 165, 0, 0, 0, 0, 240, 157, 134, 185,
     240, 157, 133, 165, 240, 157, 133, 174, 240, 157, 134, 186, 240, 157, 133, 165, 240, 157, 133, 174,
     240, 157, 134, 185, 240, 157, 133, 165, 240, 157, 133, 175]"

lemma piece_69: "slots_ok 64 12 (decomp_values_69)" "length decomp_values_69 = 768"
  by code_simp+

definition decomp_values_68 :: "int list" where
  "decomp_values_68 =
    [0, 0, 0, 0, 0, 0, 0, 0, 0, 0, 0, 0, 0, 0, 0, 0, 0, 0, 0, 0, 0, 0, 0, 0, 0, 0, 0, 0, 0, 0, 0, 0, 0, 0,
     0, 0, 0, 0, 0, 0, 0, 0, 0, 0, 0, 0, 0, 0, 0, 0, 0, 0, 0, 0, 0, 0, 0, 0, 0, 0, 0, 0, 0, 0, 0, 0, 0, 0,
     0, 0, 0, 0, 0, 0, 0, 0, 0, 0, 0, 0, 0, 0, 0, 0, 0, 0, 0, 0, 0, 0, 0, 0, 0, 0, 0, 0, 0, 0, 0, 0, 0, 0,
     0, 0, 0, 0, 0, 0, 0, 0, 0, 0, 0, 0, 0, 0, 0, 0, 0, 0, 0, 0, 0, 0, 0, 0, 0, 0, 0, 0, 0, 0, 0, 0, 0, 0,
     0, 0, 0, 0, 0, 0, 0, 0, 0, 0, 0, 0, 0, 0, 0, 0, 0, 0, 0, 0, 0, 0, 0, 0, 0, 0, 0, 0, 0, 0, 0, 0, 0, 0,
     0, 0, 0, 0, 0, 0, 0, 0, 0, 0, 0, 0, 0, 0, 0, 0, 0, 0, 0, 0, 0, 0, 0, 0, 0, 0, 0, 0, 0, 0, 0, 0, 0, 0,
     0, 0, 0, 0, 0, 0, 0, 0, 0, 0, 0, 0, 0, 0, 0, 0, 0, 0, 0, 0, 0, 0, 0, 0, 0, 0, 0, 0, 0, 0, 0, 0, 0, 0,
     0, 0, 0, 0, 0, 0, 0, 0, 0, 0, 0, 0, 0, 0, 0, 0, 0, 0, 0, 0, 0, 0, 0, 0, 0, 0, 0, 0, 0, 0, 0, 0, 0, 0,
     0, 0, 0, 0, 0, 0, 0, 0, 0, 0, 0, 0, 0, 0, 0, 0, 0, 0, 0, 0, 0, 0, 0, 0, 0, 0, 0, 0, 0, 0, 0, 0, 0, 0,
     0, 0, 0, 0, 0, 0, 0, 0, 0, 0, 0, 0, 0, 0, 0, 0, 0, 0, 0, 0, 0, 0, 0, 0, 0, 0, 0, 0, 0, 0, 0, 0, 0, 0,
     0, 0, 0, 0, 0, 0, 0, 0, 0, 0, 0, 0, 0, 0, 0, 0, 0, 0, 0, 0, 240, 157, 133, 151, 240, 157, 133, 165, 0,
     0, 0, 0, 240, 157, 133, 152, 240, 157, 133, 165, 0, 0, 0, 0, 240, 157, 133, 152, 240, 157, 133, 165,
     240, 157, 133, 174, 240, 157, 133, 152, 240, 157, 133, 165, 240, 157, 133, 175, 240, 157, 133, 152,
     240, 157, 133, 165, 240, 157, 133, 176, 240, 157, 133, 152, 240, 157, 133, 165, 240, 157, 133, 177,
     240, 157, 133, 152, 240, 157, 133, 165, 240, 157, 133, 178, 0, 0, 0, 0, 0, 0, 0, 0, 0, 0, 0, 0, 0, 0,
     0, 0, 0, 0, 0, 0, 0, 0, 0, 0, 0, 0, 0, 0, 0, 0, 0, 0, 0, 0, 0, 0, 0, 0, 0, 0, 0, 0, 0, 0, 0, 0, 0, 0,
     0, 0, 0, 0, 0, 0, 0, 0, 0, 0, 0, 0, 0, 0, 0, 0, 0, 0, 0, 0, 0, 0, 0, 0, 0, 0, 0, 0, 0, 0, 0, 0, 0, 0,
     0, 0, 0, 0, 0, 0, 0, 0, 0, 0, 0, 0, 0, 0, 0, 0, 0, 0, 0, 0, 0, 0, 0, 0, 0, 0, 0, 0, 0, 0, 0, 0, 0, 0,
     0, 0, 0, 0, 0, 0, 0, 0, 0, 0, 0, 0, 0, 0, 0, 0, 0, 0, 0, 0, 0, 0, 0, 0, 0, 0, 0, 0, 0, 0, 0, 0, 0, 0,
     0, 0, 0, 0, 0, 0, 0, 0, 0, 0, 0, 0, 0, 0, 0, 0, 0, 0, 0, 0, 0, 0, 0, 0, 0, 0, 0, 0, 0, 0, 0, 0, 0, 0,
     0, 0, 0, 0, 0, 0, 0, 0, 0, 0, 0, 0, 0, 0, 0, 0, 0, 0, 0, 0, 0, 0, 0, 0, 0, 0, 0, 0, 0, 0, 0, 0, 0, 0,
     0, 0, 0, 0, 0, 0, 0, 0, 0, 0, 0, 0, 0, 0, 0, 0, 0, 0, 0, 0, 0, 0, 0, 0, 0, 0, 0, 0, 0, 0, 0, 0, 0, 0,
     0, 0, 0, 0, 0, 0, 0, 0, 0, 0, 0, 0, 0]"

lemma piece_68: "slots_ok 64 12 (decomp_values_68 @ take 59 decomp_values_69)" "length decomp_values_68 = 709"
  by code_simp+

definition decomp_values_67 :: "int list" where
  "decomp_values_67 =
    [0, 0, 0, 0, 0, 0, 0, 0, 0, 0, 0, 0, 0, 0, 0, 0, 0, 0, 0, 0, 0, 0, 0, 0, 0, 0, 0, 0, 0, 0, 0, 0, 0, 0,
     0, 0, 0, 0, 0, 0, 0, 0, 0, 0, 0, 0, 0, 0, 0, 0, 0, 0, 0, 0, 0, 0, 0, 0, 0, 0, 0, 0, 0, 0, 0, 0, 0, 0,
     0, 0, 0, 0, 0, 0, 0, 0, 0, 0, 0, 0, 0, 0, 0, 0, 0, 0, 0, 0, 0, 0, 0, 0, 0, 0, 0, 0, 0, 0, 0, 0, 0, 0,
     0, 0, 0, 0, 0, 0, 0, 0, 0, 0, 0, 0, 0, 0, 0, 0, 0, 0, 0, 0, 0, 0, 0, 0, 0, 0, 0, 0, 0, 0, 0, 0, 0, 0,
     0, 0, 0, 0, 0, 0, 0, 0, 0, 0, 0, 0, 0, 0, 0, 0, 0, 0, 0, 0, 0, 0, 0, 0, 0, 0, 0, 0, 0, 0, 0, 0, 0, 0,
     0, 0, 0, 0, 0, 0, 0, 0, 0, 0, 0, 0, 0, 0, 0, 0, 0, 0, 0, 0, 0, 0, 0, 0, 0, 0, 0, 0, 0, 0, 0, 0, 0, 0,
     0, 0, 0, 0, 0, 0, 0, 0, 0, 0, 0, 0, 0, 0, 0, 0, 0, 0, 0, 0, 0, 0, 0, 0, 0, 0, 0, 0, 0, 0, 0, 0, 0, 0,
     0, 0, 0, 0, 0, 0, 0, 0, 0, 0, 0, 0, 0, 0, 0, 0, 0, 0, 0, 0, 0, 0, 0, 0, 0, 0, 0, 0, 0, 0, 0, 0, 0, 0,
     0, 0, 0, 0, 0, 0, 0, 0, 0, 0, 0, 0, 0, 0, 0, 0, 0, 0, 0, 0, 0, 0, 0, 0, 0, 0, 0, 0, 0, 0, 0, 0, 0, 0,
     0, 0, 0, 0, 0, 0, 0, 0, 0, 0, 0, 0, 0, 0, 0, 0, 0, 0, 0, 0, 0, 0, 0, 0, 0, 0, 0, 0, 0, 0, 0, 0, 0, 0,
     0, 0, 0, 0, 0, 0, 0, 0, 0, 0, 0, 0, 0, 0, 0, 0, 0, 0, 0, 0, 0, 0, 0, 0, 0, 0, 0, 0, 0, 0, 0, 0, 0, 0,
     0, 0, 0, 0, 0, 0, 0, 0, 0, 0, 0, 0, 0, 0, 0, 0, 0, 0, 0, 0, 0, 0, 0, 0, 0, 0, 0, 0, 0, 0, 0, 0, 0, 0,
     0, 0, 0, 0, 0, 0, 0, 0, 0, 0, 0, 0, 0, 0, 0, 0, 0, 0, 0, 0, 0, 0, 0, 0, 0, 0, 0, 0, 0, 0, 0, 0, 0, 0,
     0, 0, 0, 0, 0, 0, 240, 145, 164, 181, 240, 145, 164, 176, 0, 0, 0, 0, 0, 0, 0, 0, 0, 0, 0, 0, 0, 0, 0,
     0, 0, 0, 0, 0, 0, 0, 0, 0, 0, 0]"

lemma piece_67: "slots_ok 64 8 (decomp_values_67 @ take 30 decomp_values_68)" "length decomp_values_67 = 482"
  by code_simp+

definition decomp_values_66 :: "int list" where
  "decomp_values_66 =
    [0, 0, 0, 0, 0, 0, 0, 0, 0, 0, 0, 0, 0, 0, 0, 0, 0, 0, 0, 0, 0, 0, 0, 0, 0, 0, 0, 0, 0, 0, 0, 0, 0, 0,
     0, 0, 0, 0, 0, 0, 0, 0, 0, 0, 0, 0, 0, 0, 0, 0, 0, 0, 0, 0, 0, 0, 0, 0, 0, 0, 0, 0, 0, 0, 0, 0, 0, 0,
     0, 0, 0, 0, 0, 0, 0, 0, 0, 0, 0, 0, 0, 0, 0, 0, 0, 0, 0, 0, 0, 0, 0, 0, 0, 0, 0, 0, 0, 0, 0, 0, 0, 0,
     0, 0, 0, 0, 0, 0, 0, 0, 0, 0, 0, 0, 0, 0, 0, 0, 0, 0, 0, 0, 0, 0, 0, 0, 0, 0, 0, 0, 0, 0, 0, 0, 0, 0,
     0, 0, 0, 0, 0, 0, 0, 0, 0, 0, 0, 0, 0, 0, 0, 0, 0, 0, 0, 0, 0, 0, 0, 0, 0, 0, 0, 0, 0, 0, 0, 0, 0, 0,
     0, 0, 0, 0, 0, 0, 0, 0, 0, 0, 0, 0, 0, 0, 0, 0, 0, 0, 0, 0, 0, 0, 0, 0, 0, 0, 0, 0, 0, 0, 0, 0, 0, 0,
     0, 0, 0, 0, 0, 0, 0, 0, 0, 0, 0, 0, 0, 0, 0, 0, 0, 0, 0, 0, 0, 0, 0, 0, 0, 0, 0, 0, 0, 0, 0, 0, 0, 0,
     0, 0, 0, 0, 0, 0, 0, 0, 0, 0, 0, 0, 0, 0, 0, 0, 0, 0, 0, 0, 0, 0, 0, 0, 0, 0, 0, 0, 0, 0, 0, 0, 0, 0,
     0, 0, 0, 0, 0, 0, 0, 0, 0, 0, 0, 0, 0, 0, 0, 0, 0, 0, 0, 0, 0, 0, 0, 0, 0, 0, 0, 0, 0, 0, 0, 0, 0, 0,
     0, 0, 0, 0, 0, 0, 0, 0, 0, 0, 0, 0, 0, 0, 0, 0, 0, 0, 0, 0, 0, 0, 0, 0, 0, 0, 0, 0, 0, 0, 0, 0, 0, 0,
     0, 0, 0, 0, 0, 0, 0, 0, 0, 0, 0, 0, 0, 0, 0, 0, 0, 0, 0, 0, 0, 0, 0, 0, 0, 0, 0, 0, 0, 0, 0, 0, 0, 0,
     0, 0, 0, 0, 0, 0, 0, 0, 0, 0, 0, 0, 0, 0, 0, 0, 0, 0, 0, 0, 0, 0, 0, 0, 0, 0, 0, 0, 0, 0, 0, 0, 0, 0,
     0, 0, 0, 0, 0, 0, 0, 0, 0, 0, 0, 0, 0, 0, 0, 0, 0, 0, 0, 0, 0, 0, 0, 0, 0, 0, 0, 0, 0, 0, 0, 0, 0, 0,
     0, 0, 0, 0, 0, 0, 0, 0, 0, 0, 0, 0, 0, 0, 0, 0, 0, 0, 0, 0, 0, 0, 240, 145, 150, 184, 240, 145, 150,
     175, 240, 145, 150, 185, 240, 145, 150, 175]"

lemma piece_66: "slots_ok 64 8 (decomp_values_66 @ take 32 decomp_values_67)" "length decomp_values_66 = 480"
  by code_simp+

definition decomp_values_65 :: "int list" where
  "decomp_values_65 =
    [0, 0, 0, 0, 0, 0, 0, 0, 0, 0, 0, 0, 0, 0, 0, 0, 0, 0, 0, 0, 0, 0, 0, 0, 0, 0, 0, 0, 0, 0, 0, 0, 0, 0,
     0, 0, 0, 0, 0, 0, 0, 0, 0, 0, 0, 0, 0, 0, 0, 0, 0, 0, 0, 0, 0, 0, 0, 0, 0, 0, 0, 0, 0, 0, 0, 0, 0, 0,
     0, 0, 0, 0, 0, 0, 0, 0, 0, 0, 0, 0, 0, 0, 0, 0, 0, 0, 0, 0, 0, 0, 0, 0, 0, 0, 0, 0, 0, 0, 0, 0, 0, 0,
     0, 0, 0, 0, 0, 0, 0, 0, 0, 0, 0, 0, 0, 0, 0, 0, 0, 0, 0, 0, 0, 0, 0, 0, 0, 0, 0, 0, 0, 0, 0, 0, 0, 0,
     0, 0, 0, 0, 0, 0, 0, 0, 0, 0, 0, 0, 0, 0, 0, 0, 0, 0, 0, 0, 0, 0, 0, 0, 0, 0, 0, 0, 0, 0, 0, 0, 0, 0,
     0, 0, 0, 0, 0, 0, 0, 0, 0, 0, 0, 0, 0, 0, 0, 0, 0, 0, 0, 0, 0, 0, 0, 0, 0, 0, 0, 0, 0, 0, 0, 0, 0, 0,
     0, 0, 0, 0, 0, 0, 0, 0, 0, 0, 0, 0, 0, 0, 0, 0, 0, 0, 0, 0, 0, 0, 0, 0, 0, 0, 0, 0, 0, 0, 0, 0, 0, 0,
     0, 0, 0, 0, 0, 0, 0, 0, 0, 0, 0, 0, 0, 0, 0, 0, 0, 0, 0, 0, 0, 0, 0, 0, 0, 0, 0, 0, 0, 0, 0, 0, 0, 0,
     0, 0, 0, 0, 0, 0, 0, 0, 0, 0, 0, 0, 0, 0, 0, 0, 0, 0, 0, 0, 0, 0, 0, 0, 0, 0, 0, 0, 0, 0, 0, 0, 0, 0,
     0, 0, 0, 0, 0, 0, 0, 0, 0, 0, 0, 0, 0, 0, 0, 0, 0, 0, 0, 0, 0, 0, 0, 0, 0, 0, 0, 0, 0, 0, 0, 0, 0, 0,
     0, 0, 0, 0, 0, 0, 0, 0, 0, 0, 0, 0, 0, 0, 0, 0, 0, 0, 0, 0, 0, 0, 0, 0, 0, 0, 0, 0, 0, 0, 0, 0, 0, 0,
     0, 0, 0, 0, 0, 0, 0, 0, 0, 0, 0, 0, 0, 0, 0, 0, 0, 0, 0, 0, 0, 0, 0, 0, 0, 0, 0, 0, 0, 0, 0, 0, 0, 0,
     0, 0, 0, 0, 0, 0, 0, 0, 0, 0, 0, 0, 0, 0, 0, 0, 0, 0, 0, 0, 0, 0, 0, 0, 0, 0, 0, 0, 0, 0, 0, 0, 0, 0,
     0, 0, 0, 0, 0, 0, 0, 0, 0, 0, 0, 0, 0, 0, 0, 0, 0, 0, 0, 0, 0, 0, 0, 0, 0, 0, 0, 0, 0, 0, 240, 145,
     146, 185, 240, 145, 146, 186, 240, 145, 146, 185, 240, 145, 146, 176, 0, 0, 0, 0, 0, 0, 0, 0, 240, 145,
     146, 185, 240, 145, 146, 189]"

lemma piece_65: "slots_ok 64 8 (decomp_values_65 @ take 8 decomp_values_66)" "length decomp_values_65 = 504"
  by code_simp+

definition decomp_values_64 :: "int list" where
  "decomp_values_64 =
    [0, 0, 0, 0, 0, 0, 0, 0, 0, 0, 0, 0, 0, 0, 0, 0, 0, 0, 0, 0, 0, 0, 0, 0, 0, 0, 0, 0, 0, 0, 0, 0, 0, 0,
     0, 0, 0, 0, 0, 0, 0, 0, 0, 0, 0, 0, 0, 0, 0, 0, 0, 0, 0, 0, 0, 0, 0, 0, 0, 0, 0, 0, 0, 0, 0, 0, 0, 0,
     0, 0, 0, 0, 0, 0, 0, 0, 0, 0, 0, 0, 0, 0, 0, 0, 0, 0, 0, 0, 240, 145, 141, 135, 240, 145, 140, 190,
     240, 145, 141, 135, 240, 145, 141, 151, 0, 0, 0, 0, 0, 0, 0, 0, 0, 0, 0, 0, 0, 0, 0, 0, 0, 0, 0, 0, 0,
     0, 0, 0, 0, 0, 0, 0, 0, 0, 0, 0, 0, 0, 0, 0, 0, 0, 0, 0, 0, 0, 0, 0, 0, 0, 0, 0, 0, 0, 0, 0, 0, 0, 0,
     0, 0, 0, 0, 0, 0, 0, 0, 0, 0, 0, 0, 0, 0, 0, 0, 0, 0, 0, 0, 0, 0, 0, 0, 0, 0, 0, 0, 0, 0, 0, 0, 0, 0,
     0, 0, 0, 0, 0, 0, 0, 0, 0, 0, 0, 0, 0, 0, 0, 0, 0, 0, 0, 0, 0, 0, 0, 0, 0, 0, 0, 0, 0, 0, 0, 0, 0, 0,
     0, 0, 0, 0, 0, 0, 0, 0, 0, 0, 0, 0, 0, 0, 0, 0, 0, 0, 0, 0, 0, 0, 0, 0, 0, 0, 0, 0, 0, 0, 0, 0, 0, 0,
     0, 0, 0, 0, 0, 0, 0, 0, 0, 0, 0, 0, 0, 0, 0, 0, 0, 0, 0, 0, 0, 0, 0, 0, 0, 0, 0, 0, 0, 0, 0, 0, 0, 0,
     0, 0, 0, 0, 0, 0, 0, 0, 0, 0, 0, 0, 0, 0, 0, 0, 0, 0, 0, 0, 0, 0, 0, 0, 0, 0, 0, 0, 0, 0, 0, 0, 0, 0,
     0, 0, 0, 0, 0, 0, 0, 0, 0, 0, 0, 0, 0, 0, 0, 0, 0, 0, 0, 0, 0, 0, 0, 0, 0, 0, 0, 0, 0, 0, 0, 0, 0, 0,
     0, 0, 0, 0, 0, 0, 0, 0, 0, 0, 0, 0, 0, 0, 0, 0, 0, 0, 0, 0, 0, 0, 0, 0, 0, 0, 0, 0, 0, 0, 0, 0, 0, 0,
     0, 0, 0, 0, 0, 0, 0, 0, 0, 0, 0, 0, 0, 0, 0, 0, 0, 0, 0, 0, 0, 0, 0, 0, 0, 0, 0, 0, 0, 0, 0, 0, 0, 0,
     0, 0, 0, 0, 0, 0, 0, 0, 0, 0, 0, 0, 0, 0, 0, 0, 0, 0, 0, 0, 0, 0]"

lemma piece_64: "slots_ok 64 8 (decomp_values_64 @ take 59 decomp_values_65)" "length decomp_values_64 = 453"
  by code_simp+

definition decomp_values_63 :: "int list" where
  "decomp_values_63 =
    [0, 0, 0, 0, 0, 0, 0, 0, 0, 0, 0, 0, 0, 0, 0, 0, 0, 0, 0, 0, 0, 0, 0, 0, 0, 0, 0, 0, 0, 0, 0, 0, 0, 0,
     0, 0, 0, 0, 0, 0, 0, 0, 0, 0, 0, 0, 0, 0, 0, 0, 0, 0, 0, 0, 0, 0, 0, 0, 0, 0, 0, 0, 0, 0, 0, 0, 0, 0,
     0, 0, 0, 0, 0, 0, 0, 0, 0, 0, 0, 0, 0, 0, 0, 0, 0, 0, 0, 0, 0, 0, 0, 0, 0, 0, 0, 0, 0, 0, 0, 0, 0, 0,
     0, 0, 0, 0, 0, 0, 0, 0, 0, 0, 0, 0, 0, 0, 0, 0, 0, 0, 0, 0, 0, 0, 0, 0, 0, 0, 0, 0, 0, 0, 0, 0, 0, 0,
     0, 0, 0, 0, 0, 0, 0, 0, 0, 0, 0, 0, 0, 0, 0, 0, 0, 0, 0, 0, 0, 0, 0, 0, 0, 0, 0, 0, 0, 0, 0, 0, 0, 0,
     0, 0, 0, 0, 0, 0, 0, 0, 0, 0, 0, 0, 0, 0, 0, 0, 0, 0, 0, 0, 0, 0, 0, 0, 0, 0, 0, 0, 0, 0, 0, 0, 0, 0,
     0, 0, 0, 0, 0, 0, 0, 0, 0, 0, 0, 0, 0, 0, 0, 0, 0, 0, 0, 0, 0, 0, 0, 0, 0, 0, 0, 0, 0, 0, 0, 0, 0, 0,
     0, 0, 0, 0, 0, 0, 0, 0, 0, 0, 0, 0, 0, 0, 0, 0, 0, 0, 0, 0, 0, 0, 0, 0, 0, 0, 0, 0, 0, 0, 0, 0, 0, 0,
     0, 0, 0, 0, 0, 0, 0, 0, 0, 0, 0, 0, 0, 0, 0, 0, 0, 0, 0, 0, 0, 0, 0, 0, 0, 0, 0, 0, 0, 0, 0, 0, 0, 0,
     0, 0, 0, 0, 0, 0, 0, 0, 0, 0, 0, 0, 0, 0, 0, 0, 0, 0, 0, 0, 0, 0, 0, 0, 0, 0, 0, 0, 0, 0, 0, 0, 0, 0,
     0, 0, 0, 0, 0, 0, 0, 0, 0, 0, 0, 0, 0, 0, 0, 0, 0, 0, 0, 0, 0, 0, 0, 0, 0, 0, 0, 0, 240, 145, 132, 177,
     240, 145, 132, 167, 240, 145, 132, 178, 240, 145, 132, 167, 0, 0, 0, 0, 0, 0, 0, 0, 0, 0, 0, 0, 0, 0,
     0, 0, 0, 0, 0, 0, 0, 0, 0, 0, 0, 0, 0, 0, 0, 0, 0, 0, 0, 0, 0, 0, 0, 0, 0, 0, 0, 0, 0, 0, 0, 0, 0, 0,
     0, 0, 0, 0, 0, 0, 0, 0, 0, 0, 0, 0, 0, 0, 0, 0, 0, 0, 0, 0, 0, 0, 0, 0, 0, 0, 0, 0, 0, 0, 0, 0, 0, 0,
     0, 0, 0, 0, 0, 0, 0, 0, 0, 0, 0, 0, 0, 0, 0, 0, 0, 0, 0, 0, 0, 0, 0, 0, 0, 0, 0, 0, 0, 0, 0, 0, 0, 0, 0]"

lemma piece_63: "slots_ok 64 8 (decomp_values_63 @ take 11 decomp_values_64)" "length decomp_values_63 = 501"
  by code_simp+

definition decomp_values_62 :: "int list" where
  "decomp_values_62 =
    [0, 0, 0, 0, 0, 0, 0, 0, 0, 0, 0, 0, 0, 0, 0, 0, 0, 0, 0, 0, 0, 0, 0, 0, 0, 0, 0, 0, 0, 0, 0, 0, 0, 0,
     0, 0, 0, 0, 0, 0, 0, 0, 0, 0, 0, 0, 0, 0, 0, 0, 0, 0, 0, 0, 0, 0, 0, 0, 0, 0, 0, 0, 0, 0, 0, 0, 0, 0,
     0, 0, 0, 0, 0, 0, 0, 0, 0, 0, 0, 0, 0, 0, 0, 0, 0, 0, 0, 0, 0, 0, 0, 0, 0, 0, 0, 0, 0, 0, 0, 0, 0, 0,
     0, 0, 0, 0, 0, 0, 0, 0, 0, 0, 0, 0, 0, 0, 0, 0, 0, 0, 0, 0, 0, 0, 0, 0, 0, 0, 0, 0, 0, 0, 0, 0, 0, 0,
     0, 0, 0, 0, 0, 0, 0, 0, 0, 0, 0, 0, 0, 0, 0, 0, 0, 0, 0, 0, 0, 0, 0, 0, 0, 0, 0, 0, 0, 0, 0, 0, 0, 0,
     0, 0, 0, 0, 0, 0, 0, 0, 0, 0, 0, 0, 0, 0, 0, 0, 0, 0, 0, 0, 0, 0, 0, 0, 0, 0, 0, 0, 0, 0, 0, 0, 0, 0,
     0, 0, 0, 0, 240, 145, 130, 153, 240, 145, 130, 186, 0, 0, 0, 0, 0, 0, 0, 0, 240, 145, 130, 155, 240,
     145, 130, 186, 0, 0, 0, 0, 0, 0, 0, 0, 0, 0, 0, 0, 0, 0, 0, 0, 0, 0, 0, 0, 0, 0, 0, 0, 0, 0, 0, 0, 0,
     0, 0, 0, 0, 0, 0, 0, 0, 0, 0, 0, 0, 0, 0, 0, 0, 0, 0, 0, 0, 0, 0, 0, 0, 0, 0, 0, 0, 0, 0, 0, 0, 0, 0,
     0, 0, 0, 0, 0, 0, 0, 0, 0, 0, 0, 0, 0, 0, 0, 0, 0, 0, 0, 0, 0, 0, 0, 0, 0, 0, 0, 0, 0, 0, 0, 0, 0, 0,
     0, 0, 0, 0, 0, 0, 0, 0, 0, 0, 0, 0, 0, 0, 0, 240, 145, 130, 165, 240, 145, 130, 186, 0, 0, 0, 0, 0, 0,
     0, 0, 0, 0, 0, 0, 0, 0, 0, 0, 0, 0, 0, 0, 0, 0, 0, 0, 0, 0, 0, 0, 0, 0, 0, 0, 0, 0, 0, 0, 0, 0, 0, 0,
     0, 0, 0, 0, 0, 0, 0, 0, 0, 0, 0, 0, 0, 0, 0, 0, 0, 0, 0, 0, 0, 0, 0, 0, 0, 0, 0, 0, 0, 0, 0, 0, 0, 0,
     0, 0, 0, 0, 0, 0, 0, 0, 0, 0, 0, 0, 0, 0, 0, 0, 0, 0, 0, 0, 0, 0, 0, 0, 0, 0, 0, 0, 0, 0, 0, 0, 0, 0,
     0, 0, 0, 0, 0, 0]"

lemma piece_62: "slots_ok 64 8 (decomp_values_62 @ take 46 decomp_values_63)" "length decomp_values_62 = 466"
  by code_simp+

definition decomp_values_61 :: "int list" where
  "decomp_values_61 =
    [215, 160, 214, 188, 215, 161, 214, 188, 0, 0, 0, 0, 215, 163, 214, 188, 215, 164, 214, 188, 0, 0, 0, 0,
     215, 166, 214, 188, 215, 167, 214, 188, 215, 168, 214, 188, 215, 169, 214, 188, 215, 170, 214, 188,
     215, 149, 214, 185, 215, 145, 214, 191, 215, 155, 214, 191, 215, 164, 214, 191, 0, 0, 0, 0, 0, 0, 0, 0,
     0, 0, 0, 0, 0, 0, 0, 0, 0, 0, 0, 0, 0, 0, 0, 0, 0, 0, 0, 0, 0, 0, 0, 0, 0, 0, 0, 0, 0, 0, 0, 0, 0, 0,
     0, 0, 0, 0, 0, 0, 0, 0, 0, 0, 0, 0, 0, 0, 0, 0, 0, 0, 0, 0, 0, 0, 0, 0, 0, 0, 0, 0, 0, 0, 0, 0, 0, 0,
     0, 0, 0, 0, 0, 0, 0, 0, 0, 0, 0, 0, 0, 0, 0, 0, 0, 0, 0, 0, 0, 0, 0, 0, 0, 0, 0, 0, 0, 0, 0, 0, 0, 0,
     0, 0, 0, 0, 0, 0, 0, 0, 0, 0, 0, 0, 0, 0, 0, 0, 0, 0, 0, 0, 0, 0, 0, 0, 0, 0, 0, 0, 0, 0, 0, 0, 0, 0,
     0, 0, 0, 0, 0, 0, 0, 0, 0, 0, 0, 0, 0, 0, 0, 0, 0, 0, 0, 0, 0, 0, 0, 0, 0, 0]"

lemma piece_61: "slots_ok 64 4 (decomp_values_61 @ take 26 decomp_values_62)" "length decomp_values_61 = 230"
  by code_simp+

definition decomp_values_60 :: "int list" where
  "decomp_values_60 =
    [0, 0, 0, 0, 0, 0, 0, 0, 0, 0, 0, 0, 0, 0, 0, 0, 0, 0, 0, 0, 0, 0, 0, 0, 0, 0, 0, 0, 0, 0, 0, 0, 0, 0,
     0, 0, 0, 0, 0, 0, 0, 0, 0, 0, 0, 0, 0, 0, 0, 0, 0, 0, 0, 0, 0, 0, 0, 0, 0, 0, 0, 0, 0, 0, 0, 0, 0, 0,
     0, 0, 0, 0, 0, 0, 0, 0, 0, 0, 0, 0, 0, 0, 0, 0, 0, 0, 0, 0, 0, 0, 0, 0, 0, 0, 0, 0, 0, 0, 0, 0, 0, 0,
     0, 0, 0, 0, 0, 0, 0, 0, 0, 0, 0, 0, 0, 0, 0, 0, 0, 0, 0, 0, 0, 0, 0, 0, 0, 0, 0, 0, 0, 0, 0, 0, 0, 0,
     0, 0, 0, 0, 0, 0, 0, 0, 0, 0, 0, 0, 0, 0, 0, 0, 0, 0, 0, 0, 0, 0, 0, 0, 0, 0, 0, 0, 0, 0, 0, 0, 0, 0,
     0, 0, 0, 0, 215, 153, 214, 180, 0, 0, 0, 0, 0, 0, 0, 0, 215, 178, 214, 183, 0, 0, 0, 0, 0, 0, 0, 0, 0,
     0, 0, 0, 0, 0, 0, 0, 0, 0, 0, 0, 0, 0, 0, 0, 0, 0, 0, 0, 0, 0, 0, 0, 0, 0, 0, 0, 0, 0, 0, 0, 0, 0, 0,
     0, 0, 0, 0, 0, 0, 0, 0, 0, 0, 0, 0, 0, 0, 0, 0, 0, 0, 0, 215, 169, 215, 129, 0, 0, 215, 169, 215, 130,
     0, 0, 215, 169, 214, 188, 215, 129, 215, 169, 214, 188, 215, 130, 215, 144, 214, 183, 0, 0, 215, 144,
     214, 184, 0, 0, 215, 144, 214, 188, 0, 0, 215, 145, 214, 188, 0, 0, 215, 146, 214, 188, 0, 0, 215, 147,
     214, 188, 0, 0, 215, 148, 214, 188, 0, 0, 215, 149, 214, 188, 0, 0, 215, 150, 214, 188, 0, 0, 0, 0, 0,
     0, 0, 0, 215, 152, 214, 188, 0, 0, 215, 153, 214, 188, 0, 0, 215, 154, 214, 188, 0, 0, 215, 155, 214,
     188, 0, 0, 215, 156, 214, 188, 0, 0, 0, 0, 0, 0, 0, 0, 215, 158, 214, 188, 0, 0, 0, 0, 0, 0, 0, 0]"

lemma piece_60: "slots_ok 64 6 (decomp_values_60)" "length decomp_values_60 = 384"
  by code_simp+

definition decomp_values_59 :: "int list" where
  "decomp_values_59 =
    [232, 174, 138, 0, 232, 180, 136, 0, 232, 188, 184, 0, 233, 129, 178, 0, 233, 134, 153, 0, 233, 137,
     182, 0, 233, 153, 188, 0, 233, 155, 163, 0, 233, 157, 150, 0, 233, 159, 155, 0, 233, 159, 191, 0, 233,
     160, 139, 0, 233, 160, 187, 0, 233, 172, 146, 0, 233, 190, 156, 0, 240, 162, 161, 138, 240, 162, 161,
     132, 240, 163, 143, 149, 227, 174, 157, 0, 228, 128, 152, 0, 228, 128, 185, 0, 240, 165, 137, 137, 240,
     165, 179, 144, 240, 167, 187, 147, 233, 189, 131, 0, 233, 190, 142, 0, 0, 0, 0, 0, 0, 0, 0, 0, 0, 0, 0,
     0, 0, 0, 0, 0, 0, 0, 0, 0, 0, 0, 0, 0, 0, 0, 0, 0, 0, 0, 0, 0, 0, 0, 0, 0, 0, 0, 0, 0, 0, 0, 0, 0, 0,
     0, 0, 0, 0, 0, 0, 0, 0, 0, 0, 0, 0, 0, 0, 0, 0, 0, 0, 0, 0, 0, 0, 0, 0, 0, 0, 0, 0, 0, 0, 0, 0, 0, 0,
     0, 0, 0, 0, 0, 0, 0, 0, 0, 0, 0, 0, 0, 0, 0, 0, 0, 0, 0, 0, 0, 0, 0, 0, 0, 0, 0, 0, 0, 0, 0, 0, 0, 0,
     0, 0, 0, 0, 0, 0, 0, 0, 0, 0]"

lemma piece_59: "slots_ok 64 4 (decomp_values_59 @ take 29 decomp_values_60)" "length decomp_values_59 = 227"
  by code_simp+

definition decomp_values_58 :: "int list" where
  "decomp_values_58 =
    [229, 169, 162, 229, 172, 168, 229, 187, 146, 229, 187, 153, 229, 189, 169, 229, 190, 173, 230, 131,
     152, 230, 133, 142, 230, 132, 136, 230, 134, 142, 230, 133, 160, 230, 135, 178, 230, 136, 180, 230,
     143, 132, 230, 144, 156, 230, 145, 146, 230, 149, 150, 230, 153, 180, 230, 156, 151, 230, 156, 155,
     230, 157, 150, 230, 173, 185, 230, 174, 186, 230, 181, 129, 230, 187, 155, 230, 187, 139, 230, 188,
     162, 231, 128, 158, 231, 133, 174, 231, 158, 167, 231, 136, 181, 231, 138, 175, 231, 140, 170, 231,
     145, 177, 231, 148, 134, 231, 148, 187, 231, 152, 157, 231, 152, 159, 231, 155, 138, 231, 155, 155,
     231, 155, 180, 231, 157, 138, 231, 157, 128, 231, 163, 140, 231, 170, 177, 231, 175, 128, 231, 177,
     187, 231, 181, 155, 231, 183, 180, 231, 188, 190, 232, 128, 133, 232, 141, 146, 232, 143, 175, 232,
     157, 185, 232, 165, 129, 232, 166, 134, 232, 166, 150, 232, 170, 191, 232, 171, 184, 232, 171, 139,
     232, 172, 129, 232, 171, 190, 232, 171, 173, 232, 172, 185]"

lemma piece_58: "slots_ok 64 3 (decomp_values_58)" "length decomp_values_58 = 192"
  by code_simp+

definition decomp_values_57 :: "int list" where
  "decomp_values_57 =
    [230, 135, 178, 0, 230, 149, 143, 0, 230, 151, 162, 0, 230, 154, 145, 0, 230, 162, 133, 0, 230, 181,
     183, 0, 230, 184, 154, 0, 230, 188, 162, 0, 231, 133, 174, 0, 231, 136, 171, 0, 231, 144, 162, 0, 231,
     162, 145, 0, 231, 164, 190, 0, 231, 165, 137, 0, 231, 165, 136, 0, 231, 165, 144, 0, 231, 165, 150, 0,
     231, 165, 157, 0, 231, 166, 141, 0, 231, 166, 142, 0, 231, 169, 128, 0, 231, 170, 129, 0, 231, 175,
     128, 0, 231, 183, 180, 0, 231, 184, 137, 0, 231, 185, 129, 0, 231, 189, 178, 0, 232, 128, 133, 0, 232,
     135, 173, 0, 232, 137, 185, 0, 232, 137, 185, 0, 232, 145, 151, 0, 232, 164, 144, 0, 232, 166, 150, 0,
     232, 172, 129, 0, 232, 172, 185, 0, 232, 179, 147, 0, 232, 180, 136, 0, 232, 190, 182, 0, 233, 128,
     184, 0, 233, 155, 163, 0, 233, 159, 191, 0, 233, 160, 187, 0, 230, 129, 181, 0, 240, 164, 139, 174,
     232, 136, 152, 0, 0, 0, 0, 0, 0, 0, 0, 0, 228, 184, 166, 0, 229, 134, 181, 0, 229, 133, 168, 0, 228,
     190, 128, 0, 229, 133, 133, 0, 229, 134, 128, 0, 229, 139, 135, 0, 229, 139, 186, 0, 229, 150, 157, 0,
     229, 149, 149, 0, 229, 150, 153, 0, 229, 151, 162, 0, 229, 161, 154, 0, 229, 162, 179, 0, 229, 165,
     132, 0, 229, 165, 148, 0]"

lemma piece_57: "slots_ok 64 4 (decomp_values_57)" "length decomp_values_57 = 256"
  by code_simp+

definition decomp_values_56 :: "int list" where
  "decomp_values_56 =
    [229, 136, 135, 229, 186, 166, 230, 139, 147, 231, 179, 150, 229, 174, 133, 230, 180, 158, 230, 154,
     180, 232, 188, 187, 232, 161, 140, 233, 153, 141, 232, 166, 139, 229, 187, 147, 229, 133, 128, 229,
     151, 128, 0, 0, 0, 0, 0, 0, 229, 161, 154, 0, 0, 0, 230, 153, 180, 0, 0, 0, 0, 0, 0, 229, 135, 158,
     231, 140, 170, 231, 155, 138, 231, 164, 188, 231, 165, 158, 231, 165, 165, 231, 166, 143, 233, 157,
     150, 231, 178, 190, 231, 190, 189, 0, 0, 0, 232, 152, 146, 0, 0, 0, 232, 171, 184, 0, 0, 0, 0, 0, 0,
     233, 128, 184, 233, 131, 189, 0, 0, 0, 0, 0, 0, 0, 0, 0, 233, 163, 175, 233, 163, 188, 233, 164, 168,
     233, 182, 180, 233, 131, 158, 233, 154, 183, 228, 190, 174, 229, 131, 167, 229, 133, 141, 229, 139,
     137, 229, 139, 164, 229, 141, 145, 229, 150, 157, 229, 152, 134, 229, 153, 168, 229, 161, 128, 229,
     162, 168, 229, 177, 164, 229, 177, 174, 230, 130, 148, 230, 133, 168, 230, 134, 142]"

lemma piece_56: "slots_ok 64 3 (decomp_values_56)" "length decomp_values_56 = 192"
  by code_simp+

definition decomp_values_55 :: "int list" where
  "decomp_values_55 =
    [231, 135, 142, 231, 153, 130, 232, 147, 188, 233, 129, 188, 233, 190, 141, 230, 154, 136, 233, 152,
     174, 229, 138, 137, 230, 157, 187, 230, 159, 179, 230, 181, 129, 230, 186, 156, 231, 144, 137, 231,
     149, 153, 231, 161, 171, 231, 180, 144, 233, 161, 158, 229, 133, 173, 230, 136, 174, 233, 153, 184,
     229, 128, 171, 229, 180, 153, 230, 183, 170, 232, 188, 170, 229, 190, 139, 230, 133, 132, 230, 160,
     151, 231, 142, 135, 233, 154, 134, 229, 136, 169, 229, 144, 143, 229, 177, 165, 230, 152, 147, 230,
     157, 142, 230, 162, 168, 230, 179, 165, 231, 144, 134, 231, 151, 162, 231, 189, 185, 232, 163, 143,
     232, 163, 161, 233, 135, 140, 233, 155, 162, 229, 140, 191, 230, 186, 186, 229, 144, 157, 231, 135,
     144, 231, 146, 152, 232, 151, 186, 233, 154, 163, 233, 177, 151, 233, 186, 159, 230, 158, 151, 230,
     183, 139, 232, 135, 168, 231, 171, 139, 231, 172, 160, 231, 178, 146, 231, 139, 128, 231, 130, 153,
     232, 173, 152, 228, 187, 128, 232, 140, 182, 229, 136, 186]"

lemma piece_55: "slots_ok 64 3 (decomp_values_55)" "length decomp_values_55 = 192"
  by code_simp+

definition decomp_values_54 :: "int list" where
  "decomp_values_54 =
    [229, 145, 130, 229, 165, 179, 229, 187, 172, 230, 151, 133, 230, 191, 190, 231, 164, 170, 233, 150,
     173, 233, 169, 170, 233, 186, 151, 233, 187, 142, 229, 138, 155, 230, 155, 134, 230, 173, 183, 232,
     189, 162, 229, 185, 180, 230, 134, 144, 230, 136, 128, 230, 146, 154, 230, 188, 163, 231, 133, 137,
     231, 146, 137, 231, 167, 138, 231, 183, 180, 232, 129, 175, 232, 188, 166, 232, 147, 174, 233, 128,
     163, 233, 141, 138, 229, 136, 151, 229, 138, 163, 229, 146, 189, 231, 131, 136, 232, 163, 130, 232,
     170, 170, 229, 187, 137, 229, 191, 181, 230, 141, 187, 230, 174, 174, 231, 176, 190, 231, 141, 181,
     228, 187, 164, 229, 155, 185, 229, 175, 167, 229, 182, 186, 230, 128, 156, 231, 142, 178, 231, 145,
     169, 231, 190, 154, 232, 129, 134, 233, 136, 180, 233, 155, 182, 233, 157, 136, 233, 160, 152, 228,
     190, 139, 231, 166, 174, 233, 134, 180, 233, 154, 184, 230, 131, 161, 228, 186, 134, 229, 131, 154,
     229, 175, 174, 229, 176, 191, 230, 150, 153, 230, 168, 130]"

lemma piece_54: "slots_ok 64 3 (decomp_values_54)" "length decomp_values_54 = 192"
  by code_simp+

definition decomp_values_53 :: "int list" where
  "decomp_values_53 =
    [233, 185, 191, 232, 171, 150, 229, 163, 159, 229, 188, 132, 231, 177, 160, 232, 129, 190, 231, 137,
     162, 231, 163, 138, 232, 179, 130, 233, 155, 183, 229, 163, 152, 229, 177, 162, 230, 168, 147, 230,
     183, 154, 230, 188, 143, 231, 180, 175, 231, 184, 183, 233, 153, 139, 229, 139, 146, 232, 130, 139,
     229, 135, 156, 229, 135, 140, 231, 168, 156, 231, 182, 190, 232, 143, 177, 233, 153, 181, 232, 174,
     128, 230, 139, 143, 230, 168, 130, 232, 171, 190, 228, 184, 185, 229, 175, 167, 230, 128, 146, 231,
     142, 135, 231, 149, 176, 229, 140, 151, 231, 163, 187, 228, 190, 191, 229, 190, 169, 228, 184, 141,
     230, 179, 140, 230, 149, 184, 231, 180, 162, 229, 143, 131, 229, 161, 158, 231, 156, 129, 232, 145,
     137, 232, 170, 170, 230, 174, 186, 232, 190, 176, 230, 178, 136, 230, 139, 190, 232, 139, 165, 230,
     142, 160, 231, 149, 165, 228, 186, 174, 229, 133, 169, 229, 135, 137, 230, 162, 129, 231, 179, 167,
     232, 137, 175, 232, 171, 146, 233, 135, 143, 229, 139, 181]"

lemma piece_53: "slots_ok 64 3 (decomp_values_53)" "length decomp_values_53 = 192"
  by code_simp+

definition decomp_values_52 :: "int list" where
  "decomp_values_52 =
    [232, 177, 136, 230, 155, 180, 232, 187, 138, 232, 179, 136, 230, 187, 145, 228, 184, 178, 229, 143,
     165, 233, 190, 156, 233, 190, 156, 229, 165, 145, 233, 135, 145, 229, 150, 135, 229, 165, 136, 230,
     135, 182, 231, 153, 169, 231, 190, 133, 232, 152, 191, 232, 158, 186, 232, 163, 184, 233, 130, 143,
     230, 168, 130, 230, 180, 155, 231, 131, 153, 231, 143, 158, 232, 144, 189, 233, 133, 170, 233, 167,
     177, 228, 186, 130, 229, 141, 181, 230, 172, 132, 231, 136, 155, 232, 152, 173, 233, 184, 158, 229,
     181, 144, 230, 191, 171, 232, 151, 141, 232, 165, 164, 230, 139, 137, 232, 135, 152, 232, 160, 159,
     229, 187, 138, 230, 156, 151, 230, 181, 170, 231, 139, 188, 233, 131, 142, 228, 190, 134, 229, 134,
     183, 229, 139, 158, 230, 147, 132, 230, 171, 147, 231, 136, 144, 231, 155, 167, 232, 128, 129, 232,
     152, 134, 232, 153, 156, 232, 183, 175, 233, 156, 178, 233, 173, 175, 233, 183, 186, 231, 162, 140,
     231, 165, 191, 231, 182, 160, 232, 143, 137, 233, 140, 132]"

lemma piece_52: "slots_ok 64 3 (decomp_values_52)" "length decomp_values_52 = 192"
  by code_simp+

definition decomp_values_51 :: "int list" where
  "decomp_values_51 =
    [227, 130, 191, 227, 130, 153, 0, 0, 0, 0, 0, 0, 227, 131, 129, 227, 130, 153, 0, 0, 0, 0, 0, 0, 0, 0,
     0, 0, 0, 0, 227, 131, 132, 227, 130, 153, 0, 0, 0, 0, 0, 0, 227, 131, 134, 227, 130, 153, 0, 0, 0, 0,
     0, 0, 227, 131, 136, 227, 130, 153, 0, 0, 0, 0, 0, 0, 0, 0, 0, 0, 0, 0, 0, 0, 0, 0, 0, 0, 0, 0, 0, 0,
     0, 0, 0, 0, 0, 0, 0, 0, 0, 0, 0, 0, 0, 0, 227, 131, 143, 227, 130, 153, 227, 131, 143, 227, 130, 154,
     0, 0, 0, 0, 0, 0, 227, 131, 146, 227, 130, 153, 227, 131, 146, 227, 130, 154, 0, 0, 0, 0, 0, 0, 227,
     131, 149, 227, 130, 153, 227, 131, 149, 227, 130, 154, 0, 0, 0, 0, 0, 0, 227, 131, 152, 227, 130, 153,
     227, 131, 152, 227, 130, 154, 0, 0, 0, 0, 0, 0, 227, 131, 155, 227, 130, 153, 227, 131, 155, 227, 130,
     154, 0, 0, 0, 0, 0, 0, 0, 0, 0, 0, 0, 0, 0, 0, 0, 0, 0, 0, 0, 0, 0, 0, 0, 0, 0, 0, 0, 0, 0, 0, 0, 0, 0,
     0, 0, 0, 0, 0, 0, 0, 0, 0, 0, 0, 0, 0, 0, 0, 0, 0, 0, 0, 0, 0, 0, 0, 0, 0, 0, 0, 0, 0, 0, 0, 0, 0, 0,
     0, 0, 0, 0, 0, 0, 0, 0, 0, 0, 0, 0, 0, 0, 0, 0, 0, 0, 0, 0, 0, 0, 0, 0, 0, 0, 0, 0, 0, 0, 0, 0, 0, 0,
     0, 0, 0, 0, 0, 0, 0, 0, 0, 0, 0, 0, 0, 0, 0, 0, 0, 0, 0, 0, 0, 0, 0, 0, 0, 0, 0, 0, 0, 0, 0, 227, 130,
     166, 227, 130, 153, 0, 0, 0, 0, 0, 0, 0, 0, 0, 0, 0, 0, 227, 131, 175, 227, 130, 153, 227, 131, 176,
     227, 130, 153, 227, 131, 177, 227, 130, 153, 227, 131, 178, 227, 130, 153, 0, 0, 0, 0, 0, 0, 0, 0, 0,
     0, 0, 0, 0, 0, 0, 0, 0, 0, 227, 131, 189, 227, 130, 153, 0, 0, 0, 0, 0, 0]"

lemma piece_51: "slots_ok 64 6 (decomp_values_51)" "length decomp_values_51 = 384"
  by code_simp+

definition decomp_values_50 :: "int list" where
  "decomp_values_50 =
    [0, 0, 0, 0, 0, 0, 0, 0, 0, 0, 0, 0, 0, 0, 0, 0, 0, 0, 0, 0, 0, 0, 0, 0, 0, 0, 0, 0, 0, 0, 0, 0, 0, 0,
     0, 0, 0, 0, 0, 0, 0, 0, 0, 0, 0, 0, 0, 0, 0, 0, 0, 0, 0, 0, 0, 0, 0, 0, 0, 0, 0, 0, 0, 0, 0, 0, 0, 0,
     0, 0, 0, 0, 0, 0, 0, 0, 0, 0, 0, 0, 0, 0, 0, 0, 0, 0, 0, 0, 0, 0, 0, 0, 0, 0, 0, 0, 0, 0, 0, 0, 0, 0,
     0, 0, 0, 0, 0, 0, 0, 0, 0, 0, 0, 0, 0, 0, 0, 0, 0, 0, 227, 129, 134, 227, 130, 153, 0, 0, 0, 0, 0, 0,
     0, 0, 0, 0, 0, 0, 0, 0, 0, 0, 0, 0, 0, 0, 0, 0, 0, 0, 0, 0, 0, 0, 0, 0, 0, 0, 0, 0, 0, 0, 0, 0, 0, 0,
     0, 0, 0, 0, 0, 0, 0, 0, 0, 0, 0, 0, 0, 0, 227, 130, 157, 227, 130, 153, 0, 0, 0, 0, 0, 0, 0, 0, 0, 0,
     0, 0, 0, 0, 0, 0, 0, 0, 0, 0, 0, 0, 0, 0, 0, 0, 0, 0, 0, 0, 0, 0, 0, 0, 0, 0, 0, 0, 0, 0, 0, 0, 0, 0,
     0, 0, 0, 0, 0, 0, 0, 0, 0, 0, 0, 0, 0, 0, 0, 0, 0, 0, 0, 0, 0, 0, 0, 0, 0, 0, 0, 0, 0, 0, 0, 0, 0, 0,
     227, 130, 171, 227, 130, 153, 0, 0, 0, 0, 0, 0, 227, 130, 173, 227, 130, 153, 0, 0, 0, 0, 0, 0, 227,
     130, 175, 227, 130, 153, 0, 0, 0, 0, 0, 0, 227, 130, 177, 227, 130, 153, 0, 0, 0, 0, 0, 0, 227, 130,
     179, 227, 130, 153, 0, 0, 0, 0, 0, 0, 227, 130, 181, 227, 130, 153, 0, 0, 0, 0, 0, 0, 227, 130, 183,
     227, 130, 153, 0, 0, 0, 0, 0, 0, 227, 130, 185, 227, 130, 153, 0, 0, 0, 0, 0, 0, 227, 130, 187, 227,
     130, 153, 0, 0, 0, 0, 0, 0, 227, 130, 189, 227, 130, 153, 0, 0, 0, 0, 0, 0]"

lemma piece_50: "slots_ok 64 6 (decomp_values_50)" "length decomp_values_50 = 384"
  by code_simp+

definition decomp_values_49 :: "int list" where
  "decomp_values_49 =
    [0, 0, 0, 0, 0, 0, 0, 0, 0, 0, 0, 0, 0, 0, 0, 0, 0, 0, 0, 0, 0, 0, 0, 0, 0, 0, 0, 0, 0, 0, 0, 0, 0, 0,
     0, 0, 0, 0, 0, 0, 0, 0, 0, 0, 0, 0, 0, 0, 0, 0, 0, 0, 0, 0, 0, 0, 0, 0, 0, 0, 0, 0, 0, 0, 0, 0, 0, 0,
     0, 0, 0, 0, 227, 129, 139, 227, 130, 153, 0, 0, 0, 0, 0, 0, 227, 129, 141, 227, 130, 153, 0, 0, 0, 0,
     0, 0, 227, 129, 143, 227, 130, 153, 0, 0, 0, 0, 0, 0, 227, 129, 145, 227, 130, 153, 0, 0, 0, 0, 0, 0,
     227, 129, 147, 227, 130, 153, 0, 0, 0, 0, 0, 0, 227, 129, 149, 227, 130, 153, 0, 0, 0, 0, 0, 0, 227,
     129, 151, 227, 130, 153, 0, 0, 0, 0, 0, 0, 227, 129, 153, 227, 130, 153, 0, 0, 0, 0, 0, 0, 227, 129,
     155, 227, 130, 153, 0, 0, 0, 0, 0, 0, 227, 129, 157, 227, 130, 153, 0, 0, 0, 0, 0, 0, 227, 129, 159,
     227, 130, 153, 0, 0, 0, 0, 0, 0, 227, 129, 161, 227, 130, 153, 0, 0, 0, 0, 0, 0, 0, 0, 0, 0, 0, 0, 227,
     129, 164, 227, 130, 153, 0, 0, 0, 0, 0, 0, 227, 129, 166, 227, 130, 153, 0, 0, 0, 0, 0, 0, 227, 129,
     168, 227, 130, 153, 0, 0, 0, 0, 0, 0, 0, 0, 0, 0, 0, 0, 0, 0, 0, 0, 0, 0, 0, 0, 0, 0, 0, 0, 0, 0, 0, 0,
     0, 0, 0, 0, 0, 0, 0, 0, 227, 129, 175, 227, 130, 153, 227, 129, 175, 227, 130, 154, 0, 0, 0, 0, 0, 0,
     227, 129, 178, 227, 130, 153, 227, 129, 178, 227, 130, 154, 0, 0, 0, 0, 0, 0, 227, 129, 181, 227, 130,
     153, 227, 129, 181, 227, 130, 154, 0, 0, 0, 0, 0, 0, 227, 129, 184, 227, 130, 153, 227, 129, 184, 227,
     130, 154, 0, 0, 0, 0, 0, 0, 227, 129, 187, 227, 130, 153, 227, 129, 187, 227, 130, 154]"

lemma piece_49: "slots_ok 64 6 (decomp_values_49 @ take 12 decomp_values_50)" "length decomp_values_49 = 372"
  by code_simp+

definition decomp_values_48 :: "int list" where
  "decomp_values_48 =
    [0, 0, 0, 0, 0, 0, 0, 0, 0, 0, 0, 0, 0, 0, 0, 0, 0, 0, 0, 0, 0, 0, 0, 0, 0, 0, 0, 0, 0, 0, 0, 0, 0, 0,
     0, 0, 0, 0, 0, 0, 0, 0, 0, 0, 0, 0, 0, 0, 0, 0, 0, 0, 0, 0, 0, 0, 0, 0, 0, 0, 0, 0, 0, 0, 0, 0, 0, 0,
     0, 0, 0, 0, 0, 0, 0, 0, 0, 0, 0, 0, 0, 0, 0, 0, 0, 0, 0, 0, 0, 0, 0, 0, 0, 0, 0, 0, 0, 0, 0, 0, 0, 0,
     0, 0, 0, 0, 0, 0, 0, 0, 0, 0, 0, 0, 0, 0, 0, 0, 0, 0, 0, 0, 0, 0, 0, 0, 0, 0, 0, 0, 0, 0, 0, 0, 0, 0,
     0, 0, 0, 0, 226, 171, 157, 204, 184, 0, 0, 0, 0, 0, 0, 0, 0, 0, 0, 0, 0, 0, 0, 0, 0, 0, 0, 0, 0, 0, 0,
     0, 0, 0, 0, 0, 0, 0, 0, 0, 0, 0, 0, 0, 0, 0, 0, 0, 0, 0, 0, 0, 0, 0, 0, 0, 0, 0, 0, 0, 0, 0, 0, 0, 0,
     0, 0, 0, 0, 0, 0, 0, 0, 0, 0, 0, 0, 0, 0, 0, 0, 0, 0, 0, 0, 0, 0, 0, 0, 0, 0, 0, 0, 0, 0, 0, 0, 0, 0,
     0, 0, 0, 0, 0, 0, 0, 0, 0, 0, 0, 0, 0, 0, 0, 0, 0, 0, 0, 0, 0, 0, 0, 0, 0, 0, 0, 0, 0, 0, 0, 0, 0, 0,
     0, 0, 0, 0, 0, 0, 0, 0, 0, 0, 0, 0, 0, 0, 0, 0, 0, 0, 0, 0, 0, 0, 0, 0, 0, 0, 0, 0, 0, 0, 0, 0, 0, 0,
     0, 0, 0, 0, 0]"

lemma piece_48: "slots_ok 64 5 (decomp_values_48 @ take 12 decomp_values_49)" "length decomp_values_48 = 308"
  by code_simp+

definition decomp_values_47 :: "int list" where
  "decomp_values_47 =
    [0, 0, 0, 0, 0, 0, 0, 0, 0, 0, 0, 0, 0, 0, 0, 0, 0, 0, 0, 0, 0, 0, 0, 0, 0, 0, 0, 0, 0, 0, 0, 0, 0, 0,
     0, 0, 0, 0, 0, 0, 0, 0, 0, 0, 0, 0, 0, 0, 0, 0, 0, 0, 0, 0, 0, 0, 0, 0, 0, 0, 0, 0, 0, 0, 0, 0, 0, 0,
     0, 0, 0, 0, 0, 0, 0, 0, 0, 0, 0, 0, 0, 0, 0, 0, 0, 0, 0, 0, 0, 0, 0, 0, 0, 0, 0, 0, 0, 0, 0, 0, 0, 0,
     0, 0, 0, 0, 0, 0, 0, 0, 0, 0, 0, 0, 0, 0, 0, 0, 0, 0, 0, 0, 0, 227, 128, 136, 227, 128, 137, 0, 0, 0,
     0, 0, 0, 0, 0, 0, 0, 0, 0, 0, 0, 0, 0, 0, 0, 0, 0, 0, 0, 0, 0, 0, 0, 0, 0, 0, 0, 0, 0, 0, 0, 0]"

lemma piece_47: "slots_ok 64 3 (decomp_values_47 @ take 28 decomp_values_48)" "length decomp_values_47 = 164"
  by code_simp+

definition decomp_values_46 :: "int list" where
  "decomp_values_46 =
    [0, 0, 0, 0, 0, 0, 0, 0, 0, 0, 0, 0, 0, 0, 0, 0, 0, 0, 0, 0, 0, 0, 0, 0, 0, 0, 0, 0, 0, 0, 0, 0, 0, 0,
     0, 0, 0, 0, 0, 0, 0, 0, 0, 0, 0, 0, 0, 0, 0, 0, 0, 0, 0, 0, 0, 0, 0, 0, 0, 0, 0, 0, 0, 0, 0, 0, 0, 0,
     0, 0, 0, 0, 0, 0, 0, 0, 0, 0, 0, 0, 0, 0, 0, 0, 0, 0, 0, 0, 0, 0, 0, 0, 0, 0, 0, 0, 0, 0, 0, 0, 0, 0,
     0, 0, 0, 0, 0, 0, 0, 0, 0, 0, 0, 0, 0, 0, 0, 0, 0, 0, 0, 0, 0, 0, 0, 0, 0, 0, 0, 0, 0, 0, 0, 0, 0, 0,
     0, 0, 0, 0, 0, 0, 0, 0, 0, 0, 0, 0, 0, 0, 0, 0, 0, 0, 0, 0, 0, 0, 0, 0, 226, 137, 188, 204, 184, 226,
     137, 189, 204, 184, 226, 138, 145, 204, 184, 226, 138, 146, 204, 184, 0, 0, 0, 0, 0, 0, 0, 0, 0, 0, 0,
     0, 0, 0, 0, 0, 0, 0, 0, 0, 0, 0, 0, 0, 0, 0, 0, 0, 0, 0, 226, 138, 178, 204, 184, 226, 138, 179, 204,
     184, 226, 138, 180, 204, 184, 226, 138, 181, 204, 184, 0, 0, 0, 0, 0, 0, 0, 0, 0, 0, 0, 0, 0, 0, 0, 0,
     0, 0, 0, 0, 0, 0, 0, 0, 0, 0, 0, 0, 0, 0, 0, 0, 0, 0, 0, 0, 0, 0, 0, 0, 0, 0, 0, 0, 0, 0, 0, 0, 0]"

lemma piece_46: "slots_ok 64 5 (decomp_values_46 @ take 41 decomp_values_47)" "length decomp_values_46 = 279"
  by code_simp+

definition decomp_values_45 :: "int list" where
  "decomp_values_45 =
    [226, 137, 186, 204, 184, 226, 137, 187, 204, 184, 0, 0, 0, 0, 0, 0, 0, 0, 0, 0, 226, 138, 130, 204,
     184, 226, 138, 131, 204, 184, 0, 0, 0, 0, 0, 0, 0, 0, 0, 0, 226, 138, 134, 204, 184, 226, 138, 135,
     204, 184, 0, 0, 0, 0, 0, 0, 0, 0, 0, 0, 0, 0, 0, 0, 0, 0, 0, 0, 0, 0, 0, 0, 0, 0, 0, 0, 0, 0, 0, 0, 0,
     0, 0, 0, 0, 0, 0, 0, 0, 0, 0, 0, 0, 0, 0, 0, 0, 0, 0, 0, 0, 0, 0, 0, 0, 0, 0, 0, 0, 0, 0, 0, 0, 0, 0,
     0, 0, 0, 0, 0, 0, 0, 0, 0, 0, 0, 0, 0, 0, 0, 0, 0, 0, 0, 0, 0, 0, 0, 0, 0, 0, 0, 0, 0, 0, 0, 0, 0, 0,
     0, 0, 0, 0, 0, 0, 0, 0, 0, 0, 0, 0, 0, 0, 0, 0, 0, 0, 0, 0, 0, 0, 0, 0, 0, 0, 0, 0, 0, 0, 0, 0, 0, 0,
     0, 0, 0, 0, 0, 0, 0, 0, 0, 0, 0, 0, 0, 0, 0, 0, 0, 0, 0, 0, 0, 0, 0, 0, 0, 0, 0, 0, 0, 0, 0, 0, 0, 0,
     0, 0, 0, 226, 138, 162, 204, 184, 226, 138, 168, 204, 184, 226, 138, 169, 204, 184, 226, 138, 171, 204,
     184, 0, 0, 0, 0, 0, 0, 0, 0, 0, 0, 0, 0, 0, 0, 0, 0, 0, 0, 0, 0, 0, 0, 0, 0, 0, 0, 0, 0, 0, 0, 0, 0, 0,
     0, 0, 0, 0, 0, 0, 0, 0, 0, 0, 0, 0, 0, 0, 0]"

lemma piece_45: "slots_ok 64 5 (decomp_values_45 @ take 32 decomp_values_46)" "length decomp_values_45 = 288"
  by code_simp+

definition decomp_values_44 :: "int list" where
  "decomp_values_44 =
    [0, 0, 0, 0, 0, 226, 136, 188, 204, 184, 0, 0, 0, 0, 0, 0, 0, 0, 0, 0, 226, 137, 131, 204, 184, 0, 0, 0,
     0, 0, 0, 0, 0, 0, 0, 226, 137, 133, 204, 184, 0, 0, 0, 0, 0, 226, 137, 136, 204, 184, 0, 0, 0, 0, 0, 0,
     0, 0, 0, 0, 0, 0, 0, 0, 0, 0, 0, 0, 0, 0, 0, 0, 0, 0, 0, 0, 0, 0, 0, 0, 0, 0, 0, 0, 0, 0, 0, 0, 0, 0,
     0, 0, 0, 0, 0, 0, 0, 0, 0, 0, 0, 0, 0, 0, 0, 0, 0, 0, 0, 0, 0, 0, 0, 0, 0, 0, 0, 0, 0, 0, 0, 0, 0, 0,
     0, 0, 0, 0, 0, 0, 0, 0, 0, 0, 0, 0, 0, 0, 0, 0, 0, 0, 0, 0, 0, 0, 0, 0, 0, 0, 0, 0, 0, 0, 0, 0, 0, 0,
     0, 0, 61, 204, 184, 0, 0, 0, 0, 0, 0, 0, 226, 137, 161, 204, 184, 0, 0, 0, 0, 0, 0, 0, 0, 0, 0, 0, 0,
     0, 0, 0, 0, 0, 0, 0, 0, 0, 0, 0, 0, 0, 0, 0, 0, 0, 0, 0, 0, 0, 0, 0, 0, 0, 0, 0, 0, 0, 0, 0, 0, 0, 0,
     0, 0, 0, 0, 226, 137, 141, 204, 184, 60, 204, 184, 0, 0, 62, 204, 184, 0, 0, 226, 137, 164, 204, 184,
     226, 137, 165, 204, 184, 0, 0, 0, 0, 0, 0, 0, 0, 0, 0, 226, 137, 178, 204, 184, 226, 137, 179, 204,
     184, 0, 0, 0, 0, 0, 0, 0, 0, 0, 0, 226, 137, 182, 204, 184, 226, 137, 183, 204, 184, 0, 0, 0, 0, 0, 0,
     0, 0, 0, 0, 0, 0, 0, 0, 0, 0, 0, 0, 0, 0, 0, 0, 0, 0, 0, 0, 0, 0, 0, 0]"

lemma piece_44: "slots_ok 64 5 (decomp_values_44)" "length decomp_values_44 = 320"
  by code_simp+

definition decomp_values_43 :: "int list" where
  "decomp_values_43 =
    [0, 0, 0, 0, 0, 0, 0, 0, 0, 0, 0, 0, 0, 0, 0, 0, 0, 0, 0, 0, 226, 136, 131, 204, 184, 0, 0, 0, 0, 0, 0,
     0, 0, 0, 0, 0, 0, 0, 0, 0, 0, 0, 0, 0, 0, 226, 136, 136, 204, 184, 0, 0, 0, 0, 0, 0, 0, 0, 0, 0, 226,
     136, 139, 204, 184, 0, 0, 0, 0, 0, 0, 0, 0, 0, 0, 0, 0, 0, 0, 0, 0, 0, 0, 0, 0, 0, 0, 0, 0, 0, 0, 0, 0,
     0, 0, 0, 0, 0, 0, 0, 0, 0, 0, 0, 0, 0, 0, 0, 0, 0, 0, 0, 0, 0, 0, 0, 0, 0, 0, 0, 0, 0, 0, 0, 0, 0, 0,
     0, 0, 0, 0, 0, 0, 0, 0, 0, 0, 0, 0, 0, 0, 0, 0, 0, 0, 0, 0, 0, 0, 0, 0, 0, 0, 0, 0, 0, 0, 0, 0, 0, 0,
     0, 0, 0, 0, 0, 0, 0, 0, 0, 0, 0, 0, 0, 0, 0, 0, 0, 0, 0, 226, 136, 163, 204, 184, 0, 0, 0, 0, 0, 226,
     136, 165, 204, 184, 0, 0, 0, 0, 0, 0, 0, 0, 0, 0, 0, 0, 0, 0, 0, 0, 0, 0, 0, 0, 0, 0, 0, 0, 0, 0, 0, 0,
     0, 0, 0, 0, 0, 0, 0, 0, 0, 0, 0, 0, 0, 0, 0, 0, 0, 0, 0, 0, 0, 0, 0, 0, 0, 0, 0, 0, 0, 0, 0, 0, 0, 0,
     0, 0, 0, 0, 0, 0, 0, 0, 0, 0, 0, 0, 0, 0, 0, 0, 0, 0, 0, 0, 0, 0, 0, 0, 0, 0, 0, 0, 0, 0, 0, 0, 0, 0,
     0, 0, 0, 0, 0, 0, 0, 0, 0, 0, 0, 0, 0, 0, 0, 0, 0, 0, 0, 0, 0, 0, 0, 0, 0, 0, 0, 0]"

lemma piece_43: "slots_ok 64 5 (decomp_values_43 @ take (Suc 0) decomp_values_44)" "length decomp_values_43 = 319"
  by code_simp+

definition decomp_values_42 :: "int list" where
  "decomp_values_42 =
    [0, 0, 0, 0, 0, 0, 0, 0, 0, 0, 0, 0, 0, 0, 0, 0, 0, 0, 0, 0, 0, 0, 0, 0, 0, 0, 0, 0, 0, 0, 0, 0, 0, 0,
     0, 0, 0, 0, 0, 0, 0, 0, 0, 0, 0, 0, 0, 0, 0, 0, 0, 0, 0, 0, 0, 0, 0, 0, 0, 0, 0, 0, 0, 0, 0, 226, 135,
     144, 204, 184, 226, 135, 148, 204, 184, 226, 135, 146, 204, 184, 0, 0, 0, 0, 0, 0, 0, 0, 0, 0, 0, 0, 0,
     0, 0, 0, 0, 0, 0, 0, 0, 0, 0, 0, 0, 0, 0, 0, 0, 0, 0, 0, 0, 0, 0, 0, 0, 0, 0, 0, 0, 0, 0, 0, 0, 0, 0,
     0, 0, 0, 0, 0, 0, 0, 0, 0, 0, 0, 0, 0, 0, 0, 0, 0, 0, 0, 0, 0, 0, 0, 0, 0, 0, 0, 0, 0, 0, 0, 0, 0, 0,
     0, 0, 0, 0, 0, 0, 0, 0, 0, 0, 0, 0, 0, 0, 0, 0, 0, 0, 0, 0, 0, 0, 0, 0, 0, 0, 0, 0, 0, 0, 0, 0, 0, 0,
     0, 0, 0, 0, 0, 0, 0, 0, 0, 0, 0, 0, 0, 0, 0, 0, 0, 0, 0, 0, 0, 0, 0, 0, 0, 0, 0, 0, 0, 0, 0, 0, 0, 0,
     0, 0, 0, 0, 0, 0, 0, 0, 0, 0, 0, 0, 0, 0, 0, 0, 0, 0, 0, 0, 0, 0, 0, 0, 0, 0, 0, 0, 0, 0, 0, 0, 0, 0,
     0, 0, 0, 0, 0, 0, 0, 0, 0, 0, 0, 0, 0, 0, 0, 0, 0, 0, 0, 0, 0, 0, 0, 0, 0, 0, 0, 0, 0, 0, 0, 0, 0, 0,
     0, 0, 0, 0, 0, 0, 0, 0, 0, 0, 0, 0, 0, 0, 0, 0, 0, 0, 0]"

lemma piece_42: "slots_ok 64 5 (decomp_values_42 @ take 4 decomp_values_43)" "length decomp_values_42 = 316"
  by code_simp+

definition decomp_values_41 :: "int list" where
  "decomp_values_41 =
    [0, 0, 0, 0, 0, 0, 0, 0, 0, 0, 0, 0, 0, 0, 0, 0, 0, 0, 0, 0, 0, 0, 0, 0, 0, 0, 0, 0, 0, 0, 0, 0, 0, 0,
     0, 0, 0, 0, 0, 0, 0, 0, 0, 0, 0, 0, 0, 0, 0, 0, 0, 0, 0, 0, 0, 0, 0, 0, 0, 0, 0, 0, 0, 0, 0, 0, 0, 0,
     0, 0, 0, 0, 0, 0, 0, 0, 0, 0, 0, 0, 0, 0, 0, 0, 0, 0, 0, 0, 0, 0, 0, 0, 0, 0, 0, 0, 0, 0, 0, 0, 0, 0,
     0, 0, 0, 0, 0, 0, 0, 0, 0, 0, 0, 0, 0, 0, 0, 0, 0, 0, 0, 0, 0, 0, 0, 0, 0, 0, 0, 0, 226, 134, 144, 204,
     184, 226, 134, 146, 204, 184, 0, 0, 0, 0, 0, 0, 0, 0, 0, 0, 0, 0, 0, 0, 0, 0, 0, 0, 0, 0, 0, 0, 0, 0,
     0, 0, 0, 0, 0, 0, 0, 0, 0, 0, 0, 0, 0, 0, 0, 0, 0, 0, 0, 0, 0, 0, 0, 0, 0, 0, 0, 0, 0, 0, 0, 0, 0, 0,
     0, 0, 0, 0, 0, 0, 0, 0, 0, 0, 0, 0, 0, 0, 0, 0, 0, 0, 0, 0, 0, 0, 0, 0, 0, 0, 0, 0, 0, 0, 0, 0, 226,
     134, 148, 204, 184, 0, 0, 0, 0, 0, 0, 0, 0, 0, 0, 0, 0, 0, 0, 0, 0, 0, 0, 0, 0, 0, 0, 0, 0, 0, 0, 0, 0,
     0, 0, 0, 0, 0, 0, 0, 0, 0, 0, 0, 0, 0, 0, 0, 0, 0, 0, 0, 0, 0, 0, 0, 0, 0, 0, 0, 0, 0, 0, 0, 0, 0, 0,
     0, 0, 0, 0, 0, 0, 0, 0, 0, 0]"

lemma piece_41: "slots_ok 64 5 (decomp_values_41 @ take 13 decomp_values_42)" "length decomp_values_41 = 307"
  by code_simp+

definition decomp_values_40 :: "int list" where
  "decomp_values_40 =
    [0, 0, 0, 0, 0, 0, 0, 0, 0, 0, 0, 0, 0, 0, 0, 0, 0, 0, 0, 0, 0, 0, 0, 0, 0, 0, 0, 0, 0, 0, 0, 0, 0, 0,
     0, 0, 0, 0, 0, 0, 0, 0, 0, 0, 0, 0, 0, 0, 0, 0, 0, 0, 0, 0, 0, 0, 0, 0, 0, 0, 0, 0, 0, 0, 0, 0, 0, 0,
     0, 0, 0, 0, 0, 0, 0, 0, 0, 0, 0, 0, 0, 0, 0, 0, 0, 0, 0, 0, 0, 0, 0, 0, 0, 0, 0, 0, 0, 0, 0, 0, 0, 0,
     0, 0, 0, 0, 0, 0, 0, 0, 0, 0, 0, 0, 206, 169, 0, 0, 0, 0, 0, 0, 0, 0, 0, 0, 75, 0, 0, 65, 204, 138, 0,
     0, 0, 0, 0, 0, 0, 0, 0, 0, 0, 0, 0, 0, 0, 0, 0, 0, 0, 0, 0, 0, 0, 0, 0, 0, 0, 0, 0, 0, 0, 0, 0, 0]"

lemma piece_40: "slots_ok 64 3 (decomp_values_40 @ take 26 decomp_values_41)" "length decomp_values_40 = 166"
  by code_simp+

definition decomp_values_39 :: "int list" where
  "decomp_values_39 =
    [226, 128, 130, 226, 128, 131, 0, 0, 0, 0, 0, 0, 0, 0, 0, 0, 0, 0, 0, 0, 0, 0, 0, 0, 0, 0, 0, 0, 0, 0,
     0, 0, 0, 0, 0, 0, 0, 0, 0, 0, 0, 0, 0, 0, 0, 0, 0, 0, 0, 0, 0, 0, 0, 0, 0, 0, 0, 0, 0, 0, 0, 0, 0, 0,
     0, 0, 0, 0, 0, 0, 0, 0, 0, 0, 0, 0, 0, 0, 0, 0, 0, 0, 0, 0, 0, 0, 0, 0, 0, 0, 0, 0, 0, 0, 0, 0, 0, 0,
     0, 0, 0, 0, 0, 0, 0, 0, 0, 0, 0, 0, 0, 0, 0, 0, 0, 0, 0, 0, 0, 0, 0, 0, 0, 0, 0, 0, 0, 0, 0, 0, 0, 0,
     0, 0, 0, 0, 0, 0, 0, 0, 0, 0, 0, 0, 0, 0, 0, 0, 0, 0, 0, 0, 0, 0]"

lemma piece_39: "slots_ok 64 3 (decomp_values_39 @ take 38 decomp_values_40)" "length decomp_values_39 = 154"
  by code_simp+

definition decomp_values_38 :: "int list" where
  "decomp_values_38 =
    [0, 0, 0, 0, 0, 0, 194, 168, 205, 130, 0, 0, 206, 183, 204, 128, 205, 133, 206, 183, 205, 133, 0, 0,
     206, 183, 204, 129, 205, 133, 0, 0, 0, 0, 0, 0, 206, 183, 205, 130, 0, 0, 206, 183, 205, 130, 205, 133,
     206, 149, 204, 128, 0, 0, 206, 149, 204, 129, 0, 0, 206, 151, 204, 128, 0, 0, 206, 151, 204, 129, 0, 0,
     206, 151, 205, 133, 0, 0, 225, 190, 191, 204, 128, 0, 225, 190, 191, 204, 129, 0, 225, 190, 191, 205,
     130, 0, 206, 185, 204, 134, 0, 0, 206, 185, 204, 132, 0, 0, 206, 185, 204, 136, 204, 128, 206, 185,
     204, 136, 204, 129, 0, 0, 0, 0, 0, 0, 0, 0, 0, 0, 0, 0, 206, 185, 205, 130, 0, 0, 206, 185, 204, 136,
     205, 130, 206, 153, 204, 134, 0, 0, 206, 153, 204, 132, 0, 0, 206, 153, 204, 128, 0, 0, 206, 153, 204,
     129, 0, 0, 0, 0, 0, 0, 0, 0, 225, 191, 190, 204, 128, 0, 225, 191, 190, 204, 129, 0, 225, 191, 190,
     205, 130, 0, 207, 133, 204, 134, 0, 0, 207, 133, 204, 132, 0, 0, 207, 133, 204, 136, 204, 128, 207,
     133, 204, 136, 204, 129, 207, 129, 204, 147, 0, 0, 207, 129, 204, 148, 0, 0, 207, 133, 205, 130, 0, 0,
     207, 133, 204, 136, 205, 130, 206, 165, 204, 134, 0, 0, 206, 165, 204, 132, 0, 0, 206, 165, 204, 128,
     0, 0, 206, 165, 204, 129, 0, 0, 206, 161, 204, 148, 0, 0, 194, 168, 204, 128, 0, 0, 194, 168, 204, 129,
     0, 0, 96, 0, 0, 0, 0, 0, 0, 0, 0, 0, 0, 0, 0, 0, 0, 0, 0, 0, 207, 137, 204, 128, 205, 133, 207, 137,
     205, 133, 0, 0, 207, 137, 204, 129, 205, 133, 0, 0, 0, 0, 0, 0, 207, 137, 205, 130, 0, 0, 207, 137,
     205, 130, 205, 133, 206, 159, 204, 128, 0, 0, 206, 159, 204, 129, 0, 0, 206, 169, 204, 128, 0, 0, 206,
     169, 204, 129, 0, 0, 206, 169, 205, 133, 0, 0, 194, 180, 0, 0, 0, 0, 0, 0, 0, 0, 0, 0, 0, 0, 0, 0, 0, 0]"

lemma piece_38: "slots_ok 64 6 (decomp_values_38)" "length decomp_values_38 = 384"
  by code_simp+

definition decomp_values_37 :: "int list" where
  "decomp_values_37 =
    [206, 177, 204, 147, 205, 133, 0, 0, 206, 177, 204, 148, 205, 133, 0, 0, 206, 177, 204, 147, 204, 128,
     205, 133, 206, 177, 204, 148, 204, 128, 205, 133, 206, 177, 204, 147, 204, 129, 205, 133, 206, 177,
     204, 148, 204, 129, 205, 133, 206, 177, 204, 147, 205, 130, 205, 133, 206, 177, 204, 148, 205, 130,
     205, 133, 206, 145, 204, 147, 205, 133, 0, 0, 206, 145, 204, 148, 205, 133, 0, 0, 206, 145, 204, 147,
     204, 128, 205, 133, 206, 145, 204, 148, 204, 128, 205, 133, 206, 145, 204, 147, 204, 129, 205, 133,
     206, 145, 204, 148, 204, 129, 205, 133, 206, 145, 204, 147, 205, 130, 205, 133, 206, 145, 204, 148,
     205, 130, 205, 133, 206, 183, 204, 147, 205, 133, 0, 0, 206, 183, 204, 148, 205, 133, 0, 0, 206, 183,
     204, 147, 204, 128, 205, 133, 206, 183, 204, 148, 204, 128, 205, 133, 206, 183, 204, 147, 204, 129,
     205, 133, 206, 183, 204, 148, 204, 129, 205, 133, 206, 183, 204, 147, 205, 130, 205, 133, 206, 183,
     204, 148, 205, 130, 205, 133, 206, 151, 204, 147, 205, 133, 0, 0, 206, 151, 204, 148, 205, 133, 0, 0,
     206, 151, 204, 147, 204, 128, 205, 133, 206, 151, 204, 148, 204, 128, 205, 133, 206, 151, 204, 147,
     204, 129, 205, 133, 206, 151, 204, 148, 204, 129, 205, 133, 206, 151, 204, 147, 205, 130, 205, 133,
     206, 151, 204, 148, 205, 130, 205, 133, 207, 137, 204, 147, 205, 133, 0, 0, 207, 137, 204, 148, 205,
     133, 0, 0, 207, 137, 204, 147, 204, 128, 205, 133, 207, 137, 204, 148, 204, 128, 205, 133, 207, 137,
     204, 147, 204, 129, 205, 133, 207, 137, 204, 148, 204, 129, 205, 133, 207, 137, 204, 147, 205, 130,
     205, 133, 207, 137, 204, 148, 205, 130, 205, 133, 206, 169, 204, 147, 205, 133, 0, 0, 206, 169, 204,
     148, 205, 133, 0, 0, 206, 169, 204, 147, 204, 128, 205, 133, 206, 169, 204, 148, 204, 128, 205, 133,
     206, 169, 204, 147, 204, 129, 205, 133, 206, 169, 204, 148, 204, 129, 205, 133, 206, 169, 204, 147,
     205, 130, 205, 133, 206, 169, 204, 148, 205, 130, 205, 133, 206, 177, 204, 134, 0, 0, 0, 0, 206, 177,
     204, 132, 0, 0, 0, 0, 206, 177, 204, 128, 205, 133, 0, 0, 206, 177, 205, 133, 0, 0, 0, 0, 206, 177,
     204, 129, 205, 133, 0, 0, 0, 0, 0, 0, 0, 0, 0, 0, 206, 177, 205, 130, 0, 0, 0, 0, 206, 177, 205, 130,
     205, 133, 0, 0, 206, 145, 204, 134, 0, 0, 0, 0, 206, 145, 204, 132, 0, 0, 0, 0, 206, 145, 204, 128, 0,
     0, 0, 0, 206, 145, 204, 129, 0, 0, 0, 0, 206, 145, 205, 133, 0, 0, 0, 0, 0, 0, 0, 0, 0, 0, 0, 0, 206,
     185, 0, 0, 0, 0, 0, 0, 0, 0, 0, 0, 0, 0, 0]"

lemma piece_37: "slots_ok 64 8 (decomp_values_37 @ take (Suc 0) decomp_values_38)" "length decomp_values_37 = 511"
  by code_simp+

definition decomp_values_36 :: "int list" where
  "decomp_values_36 =
    [206, 191, 204, 147, 0, 0, 206, 191, 204, 148, 0, 0, 206, 191, 204, 147, 204, 128, 206, 191, 204, 148,
     204, 128, 206, 191, 204, 147, 204, 129, 206, 191, 204, 148, 204, 129, 0, 0, 0, 0, 0, 0, 0, 0, 0, 0, 0,
     0, 206, 159, 204, 147, 0, 0, 206, 159, 204, 148, 0, 0, 206, 159, 204, 147, 204, 128, 206, 159, 204,
     148, 204, 128, 206, 159, 204, 147, 204, 129, 206, 159, 204, 148, 204, 129, 0, 0, 0, 0, 0, 0, 0, 0, 0,
     0, 0, 0, 207, 133, 204, 147, 0, 0, 207, 133, 204, 148, 0, 0, 207, 133, 204, 147, 204, 128, 207, 133,
     204, 148, 204, 128, 207, 133, 204, 147, 204, 129, 207, 133, 204, 148, 204, 129, 207, 133, 204, 147,
     205, 130, 207, 133, 204, 148, 205, 130, 0, 0, 0, 0, 0, 0, 206, 165, 204, 148, 0, 0, 0, 0, 0, 0, 0, 0,
     206, 165, 204, 148, 204, 128, 0, 0, 0, 0, 0, 0, 206, 165, 204, 148, 204, 129, 0, 0, 0, 0, 0, 0, 206,
     165, 204, 148, 205, 130, 207, 137, 204, 147, 0, 0, 207, 137, 204, 148, 0, 0, 207, 137, 204, 147, 204,
     128, 207, 137, 204, 148, 204, 128, 207, 137, 204, 147, 204, 129, 207, 137, 204, 148, 204, 129, 207,
     137, 204, 147, 205, 130, 207, 137, 204, 148, 205, 130, 206, 169, 204, 147, 0, 0, 206, 169, 204, 148, 0,
     0, 206, 169, 204, 147, 204, 128, 206, 169, 204, 148, 204, 128, 206, 169, 204, 147, 204, 129, 206, 169,
     204, 148, 204, 129, 206, 169, 204, 147, 205, 130, 206, 169, 204, 148, 205, 130, 206, 177, 204, 128, 0,
     0, 206, 177, 204, 129, 0, 0, 206, 181, 204, 128, 0, 0, 206, 181, 204, 129, 0, 0, 206, 183, 204, 128, 0,
     0, 206, 183, 204, 129, 0, 0, 206, 185, 204, 128, 0, 0, 206, 185, 204, 129, 0, 0, 206, 191, 204, 128, 0,
     0, 206, 191, 204, 129, 0, 0, 207, 133, 204, 128, 0, 0, 207, 133, 204, 129, 0, 0, 207, 137, 204, 128, 0,
     0, 207, 137, 204, 129, 0, 0, 0, 0, 0, 0, 0, 0, 0, 0, 0, 0, 0, 0]"

lemma piece_36: "slots_ok 64 6 (decomp_values_36)" "length decomp_values_36 = 384"
  by code_simp+

definition decomp_values_35 :: "int list" where
  "decomp_values_35 =
    [206, 177, 204, 147, 0, 0, 206, 177, 204, 148, 0, 0, 206, 177, 204, 147, 204, 128, 206, 177, 204, 148,
     204, 128, 206, 177, 204, 147, 204, 129, 206, 177, 204, 148, 204, 129, 206, 177, 204, 147, 205, 130,
     206, 177, 204, 148, 205, 130, 206, 145, 204, 147, 0, 0, 206, 145, 204, 148, 0, 0, 206, 145, 204, 147,
     204, 128, 206, 145, 204, 148, 204, 128, 206, 145, 204, 147, 204, 129, 206, 145, 204, 148, 204, 129,
     206, 145, 204, 147, 205, 130, 206, 145, 204, 148, 205, 130, 206, 181, 204, 147, 0, 0, 206, 181, 204,
     148, 0, 0, 206, 181, 204, 147, 204, 128, 206, 181, 204, 148, 204, 128, 206, 181, 204, 147, 204, 129,
     206, 181, 204, 148, 204, 129, 0, 0, 0, 0, 0, 0, 0, 0, 0, 0, 0, 0, 206, 149, 204, 147, 0, 0, 206, 149,
     204, 148, 0, 0, 206, 149, 204, 147, 204, 128, 206, 149, 204, 148, 204, 128, 206, 149, 204, 147, 204,
     129, 206, 149, 204, 148, 204, 129, 0, 0, 0, 0, 0, 0, 0, 0, 0, 0, 0, 0, 206, 183, 204, 147, 0, 0, 206,
     183, 204, 148, 0, 0, 206, 183, 204, 147, 204, 128, 206, 183, 204, 148, 204, 128, 206, 183, 204, 147,
     204, 129, 206, 183, 204, 148, 204, 129, 206, 183, 204, 147, 205, 130, 206, 183, 204, 148, 205, 130,
     206, 151, 204, 147, 0, 0, 206, 151, 204, 148, 0, 0, 206, 151, 204, 147, 204, 128, 206, 151, 204, 148,
     204, 128, 206, 151, 204, 147, 204, 129, 206, 151, 204, 148, 204, 129, 206, 151, 204, 147, 205, 130,
     206, 151, 204, 148, 205, 130, 206, 185, 204, 147, 0, 0, 206, 185, 204, 148, 0, 0, 206, 185, 204, 147,
     204, 128, 206, 185, 204, 148, 204, 128, 206, 185, 204, 147, 204, 129, 206, 185, 204, 148, 204, 129,
     206, 185, 204, 147, 205, 130, 206, 185, 204, 148, 205, 130, 206, 153, 204, 147, 0, 0, 206, 153, 204,
     148, 0, 0, 206, 153, 204, 147, 204, 128, 206, 153, 204, 148, 204, 128, 206, 153, 204, 147, 204, 129,
     206, 153, 204, 148, 204, 129, 206, 153, 204, 147, 205, 130, 206, 153, 204, 148, 205, 130]"

lemma piece_35: "slots_ok 64 6 (decomp_values_35)" "length decomp_values_35 = 384"
  by code_simp+

definition decomp_values_34 :: "int list" where
  "decomp_values_34 =
    [69, 204, 130, 204, 128, 101, 204, 130, 204, 128, 69, 204, 130, 204, 137, 101, 204, 130, 204, 137, 69,
     204, 130, 204, 131, 101, 204, 130, 204, 131, 69, 204, 163, 204, 130, 101, 204, 163, 204, 130, 73, 204,
     137, 0, 0, 105, 204, 137, 0, 0, 73, 204, 163, 0, 0, 105, 204, 163, 0, 0, 79, 204, 163, 0, 0, 111, 204,
     163, 0, 0, 79, 204, 137, 0, 0, 111, 204, 137, 0, 0, 79, 204, 130, 204, 129, 111, 204, 130, 204, 129,
     79, 204, 130, 204, 128, 111, 204, 130, 204, 128, 79, 204, 130, 204, 137, 111, 204, 130, 204, 137, 79,
     204, 130, 204, 131, 111, 204, 130, 204, 131, 79, 204, 163, 204, 130, 111, 204, 163, 204, 130, 79, 204,
     155, 204, 129, 111, 204, 155, 204, 129, 79, 204, 155, 204, 128, 111, 204, 155, 204, 128, 79, 204, 155,
     204, 137, 111, 204, 155, 204, 137, 79, 204, 155, 204, 131, 111, 204, 155, 204, 131, 79, 204, 155, 204,
     163, 111, 204, 155, 204, 163, 85, 204, 163, 0, 0, 117, 204, 163, 0, 0, 85, 204, 137, 0, 0, 117, 204,
     137, 0, 0, 85, 204, 155, 204, 129, 117, 204, 155, 204, 129, 85, 204, 155, 204, 128, 117, 204, 155, 204,
     128, 85, 204, 155, 204, 137, 117, 204, 155, 204, 137, 85, 204, 155, 204, 131, 117, 204, 155, 204, 131,
     85, 204, 155, 204, 163, 117, 204, 155, 204, 163, 89, 204, 128, 0, 0, 121, 204, 128, 0, 0, 89, 204, 163,
     0, 0, 121, 204, 163, 0, 0, 89, 204, 137, 0, 0, 121, 204, 137, 0, 0, 89, 204, 131, 0, 0, 121, 204, 131,
     0, 0, 0, 0, 0, 0, 0, 0, 0, 0, 0, 0, 0, 0, 0, 0, 0, 0, 0, 0, 0, 0, 0, 0, 0, 0, 0, 0, 0, 0, 0, 0]"

lemma piece_34: "slots_ok 64 5 (decomp_values_34)" "length decomp_values_34 = 320"
  by code_simp+

definition decomp_values_33 :: "int list" where
  "decomp_values_33 =
    [87, 204, 128, 0, 0, 119, 204, 128, 0, 0, 87, 204, 129, 0, 0, 119, 204, 129, 0, 0, 87, 204, 136, 0, 0,
     119, 204, 136, 0, 0, 87, 204, 135, 0, 0, 119, 204, 135, 0, 0, 87, 204, 163, 0, 0, 119, 204, 163, 0, 0,
     88, 204, 135, 0, 0, 120, 204, 135, 0, 0, 88, 204, 136, 0, 0, 120, 204, 136, 0, 0, 89, 204, 135, 0, 0,
     121, 204, 135, 0, 0, 90, 204, 130, 0, 0, 122, 204, 130, 0, 0, 90, 204, 163, 0, 0, 122, 204, 163, 0, 0,
     90, 204, 177, 0, 0, 122, 204, 177, 0, 0, 104, 204, 177, 0, 0, 116, 204, 136, 0, 0, 119, 204, 138, 0, 0,
     121, 204, 138, 0, 0, 0, 0, 0, 0, 0, 197, 191, 204, 135, 0, 0, 0, 0, 0, 0, 0, 0, 0, 0, 0, 0, 0, 0, 0, 0,
     0, 0, 0, 0, 0, 65, 204, 163, 0, 0, 97, 204, 163, 0, 0, 65, 204, 137, 0, 0, 97, 204, 137, 0, 0, 65, 204,
     130, 204, 129, 97, 204, 130, 204, 129, 65, 204, 130, 204, 128, 97, 204, 130, 204, 128, 65, 204, 130,
     204, 137, 97, 204, 130, 204, 137, 65, 204, 130, 204, 131, 97, 204, 130, 204, 131, 65, 204, 163, 204,
     130, 97, 204, 163, 204, 130, 65, 204, 134, 204, 129, 97, 204, 134, 204, 129, 65, 204, 134, 204, 128,
     97, 204, 134, 204, 128, 65, 204, 134, 204, 137, 97, 204, 134, 204, 137, 65, 204, 134, 204, 131, 97,
     204, 134, 204, 131, 65, 204, 163, 204, 134, 97, 204, 163, 204, 134, 69, 204, 163, 0, 0, 101, 204, 163,
     0, 0, 69, 204, 137, 0, 0, 101, 204, 137, 0, 0, 69, 204, 131, 0, 0, 101, 204, 131, 0, 0, 69, 204, 130,
     204, 129, 101, 204, 130, 204, 129]"

lemma piece_33: "slots_ok 64 5 (decomp_values_33)" "length decomp_values_33 = 320"
  by code_simp+

definition decomp_values_32 :: "int list" where
  "decomp_values_32 =
    [77, 204, 135, 0, 0, 109, 204, 135, 0, 0, 77, 204, 163, 0, 0, 109, 204, 163, 0, 0, 78, 204, 135, 0, 0,
     110, 204, 135, 0, 0, 78, 204, 163, 0, 0, 110, 204, 163, 0, 0, 78, 204, 177, 0, 0, 110, 204, 177, 0, 0,
     78, 204, 173, 0, 0, 110, 204, 173, 0, 0, 79, 204, 131, 204, 129, 111, 204, 131, 204, 129, 79, 204, 131,
     204, 136, 111, 204, 131, 204, 136, 79, 204, 132, 204, 128, 111, 204, 132, 204, 128, 79, 204, 132, 204,
     129, 111, 204, 132, 204, 129, 80, 204, 129, 0, 0, 112, 204, 129, 0, 0, 80, 204, 135, 0, 0, 112, 204,
     135, 0, 0, 82, 204, 135, 0, 0, 114, 204, 135, 0, 0, 82, 204, 163, 0, 0, 114, 204, 163, 0, 0, 82, 204,
     163, 204, 132, 114, 204, 163, 204, 132, 82, 204, 177, 0, 0, 114, 204, 177, 0, 0, 83, 204, 135, 0, 0,
     115, 204, 135, 0, 0, 83, 204, 163, 0, 0, 115, 204, 163, 0, 0, 83, 204, 129, 204, 135, 115, 204, 129,
     204, 135, 83, 204, 140, 204, 135, 115, 204, 140, 204, 135, 83, 204, 163, 204, 135, 115, 204, 163, 204,
     135, 84, 204, 135, 0, 0, 116, 204, 135, 0, 0, 84, 204, 163, 0, 0, 116, 204, 163, 0, 0, 84, 204, 177, 0,
     0, 116, 204, 177, 0, 0, 84, 204, 173, 0, 0, 116, 204, 173, 0, 0, 85, 204, 164, 0, 0, 117, 204, 164, 0,
     0, 85, 204, 176, 0, 0, 117, 204, 176, 0, 0, 85, 204, 173, 0, 0, 117, 204, 173, 0, 0, 85, 204, 131, 204,
     129, 117, 204, 131, 204, 129, 85, 204, 132, 204, 136, 117, 204, 132, 204, 136, 86, 204, 131, 0, 0, 118,
     204, 131, 0, 0, 86, 204, 163, 0, 0, 118, 204, 163, 0, 0]"

lemma piece_32: "slots_ok 64 5 (decomp_values_32)" "length decomp_values_32 = 320"
  by code_simp+

definition decomp_values_31 :: "int list" where
  "decomp_values_31 =
    [65, 204, 165, 0, 0, 97, 204, 165, 0, 0, 66, 204, 135, 0, 0, 98, 204, 135, 0, 0, 66, 204, 163, 0, 0, 98,
     204, 163, 0, 0, 66, 204, 177, 0, 0, 98, 204, 177, 0, 0, 67, 204, 167, 204, 129, 99, 204, 167, 204, 129,
     68, 204, 135, 0, 0, 100, 204, 135, 0, 0, 68, 204, 163, 0, 0, 100, 204, 163, 0, 0, 68, 204, 177, 0, 0,
     100, 204, 177, 0, 0, 68, 204, 167, 0, 0, 100, 204, 167, 0, 0, 68, 204, 173, 0, 0, 100, 204, 173, 0, 0,
     69, 204, 132, 204, 128, 101, 204, 132, 204, 128, 69, 204, 132, 204, 129, 101, 204, 132, 204, 129, 69,
     204, 173, 0, 0, 101, 204, 173, 0, 0, 69, 204, 176, 0, 0, 101, 204, 176, 0, 0, 69, 204, 167, 204, 134,
     101, 204, 167, 204, 134, 70, 204, 135, 0, 0, 102, 204, 135, 0, 0, 71, 204, 132, 0, 0, 103, 204, 132, 0,
     0, 72, 204, 135, 0, 0, 104, 204, 135, 0, 0, 72, 204, 163, 0, 0, 104, 204, 163, 0, 0, 72, 204, 136, 0,
     0, 104, 204, 136, 0, 0, 72, 204, 167, 0, 0, 104, 204, 167, 0, 0, 72, 204, 174, 0, 0, 104, 204, 174, 0,
     0, 73, 204, 176, 0, 0, 105, 204, 176, 0, 0, 73, 204, 136, 204, 129, 105, 204, 136, 204, 129, 75, 204,
     129, 0, 0, 107, 204, 129, 0, 0, 75, 204, 163, 0, 0, 107, 204, 163, 0, 0, 75, 204, 177, 0, 0, 107, 204,
     177, 0, 0, 76, 204, 163, 0, 0, 108, 204, 163, 0, 0, 76, 204, 163, 204, 132, 108, 204, 163, 204, 132,
     76, 204, 177, 0, 0, 108, 204, 177, 0, 0, 76, 204, 173, 0, 0, 108, 204, 173, 0, 0, 77, 204, 129, 0, 0,
     109, 204, 129, 0, 0]"

lemma piece_31: "slots_ok 64 5 (decomp_values_31)" "length decomp_values_31 = 320"
  by code_simp+

definition decomp_values_30 :: "int list" where
  "decomp_values_30 =
    [225, 172, 190, 225, 172, 181, 225, 172, 191, 225, 172, 181, 0, 0, 0, 0, 0, 0, 225, 173, 130, 225, 172,
     181, 0, 0, 0, 0, 0, 0, 0, 0, 0, 0, 0, 0, 0, 0, 0, 0, 0, 0, 0, 0, 0, 0, 0, 0, 0, 0, 0, 0, 0, 0, 0, 0, 0,
     0, 0, 0, 0, 0, 0, 0, 0, 0, 0, 0, 0, 0, 0, 0, 0, 0, 0, 0, 0, 0, 0, 0, 0, 0, 0, 0, 0, 0, 0, 0, 0, 0, 0,
     0, 0, 0, 0, 0, 0, 0, 0, 0, 0, 0, 0, 0, 0, 0, 0, 0, 0, 0, 0, 0, 0, 0, 0, 0, 0, 0, 0, 0, 0, 0, 0, 0, 0,
     0, 0, 0, 0, 0, 0, 0, 0, 0, 0, 0, 0, 0, 0, 0, 0, 0, 0, 0, 0, 0, 0, 0, 0, 0, 0, 0, 0, 0, 0, 0, 0, 0, 0,
     0, 0, 0, 0, 0, 0, 0, 0, 0, 0, 0, 0, 0, 0, 0, 0, 0, 0, 0, 0, 0, 0, 0, 0, 0, 0, 0, 0, 0, 0, 0, 0, 0, 0,
     0, 0, 0, 0, 0, 0, 0, 0, 0, 0, 0, 0, 0, 0, 0, 0, 0, 0, 0, 0, 0, 0, 0, 0, 0, 0, 0, 0, 0, 0, 0, 0, 0, 0,
     0, 0, 0, 0, 0, 0, 0, 0, 0, 0, 0, 0, 0, 0, 0, 0, 0, 0, 0, 0, 0, 0, 0, 0, 0, 0, 0, 0, 0, 0, 0, 0, 0, 0,
     0, 0, 0, 0, 0, 0, 0, 0, 0, 0, 0, 0, 0, 0, 0, 0, 0, 0, 0, 0, 0, 0, 0, 0, 0, 0, 0, 0, 0, 0, 0, 0, 0, 0,
     0, 0, 0, 0, 0, 0, 0, 0, 0, 0, 0, 0, 0, 0, 0, 0, 0, 0, 0, 0, 0, 0, 0, 0, 0, 0, 0, 0, 0, 0, 0, 0, 0, 0,
     0, 0, 0, 0, 0, 0, 0, 0, 0, 0, 0, 0, 0, 0, 0, 0, 0, 0, 0, 0, 0, 0, 0, 0, 0, 0, 0, 0, 0, 0, 0, 0, 0, 0,
     0, 0, 0, 0, 0, 0, 0, 0, 0, 0, 0, 0, 0, 0, 0, 0, 0, 0, 0, 0, 0]"

lemma piece_30: "slots_ok 64 6 (decomp_values_30)" "length decomp_values_30 = 384"
  by code_simp+

definition decomp_values_29 :: "int list" where
  "decomp_values_29 =
    [0, 0, 0, 0, 0, 0, 0, 0, 0, 0, 0, 0, 0, 0, 0, 0, 0, 0, 0, 0, 0, 0, 0, 0, 0, 0, 0, 0, 0, 0, 0, 0, 0, 0,
     0, 0, 225, 172, 133, 225, 172, 181, 0, 0, 0, 0, 0, 0, 225, 172, 135, 225, 172, 181, 0, 0, 0, 0, 0, 0,
     225, 172, 137, 225, 172, 181, 0, 0, 0, 0, 0, 0, 225, 172, 139, 225, 172, 181, 0, 0, 0, 0, 0, 0, 225,
     172, 141, 225, 172, 181, 0, 0, 0, 0, 0, 0, 0, 0, 0, 0, 0, 0, 0, 0, 0, 0, 0, 0, 225, 172, 145, 225, 172,
     181, 0, 0, 0, 0, 0, 0, 0, 0, 0, 0, 0, 0, 0, 0, 0, 0, 0, 0, 0, 0, 0, 0, 0, 0, 0, 0, 0, 0, 0, 0, 0, 0, 0,
     0, 0, 0, 0, 0, 0, 0, 0, 0, 0, 0, 0, 0, 0, 0, 0, 0, 0, 0, 0, 0, 0, 0, 0, 0, 0, 0, 0, 0, 0, 0, 0, 0, 0,
     0, 0, 0, 0, 0, 0, 0, 0, 0, 0, 0, 0, 0, 0, 0, 0, 0, 0, 0, 0, 0, 0, 0, 0, 0, 0, 0, 0, 0, 0, 0, 0, 0, 0,
     0, 0, 0, 0, 0, 0, 0, 0, 0, 0, 0, 0, 0, 0, 0, 0, 0, 0, 0, 0, 0, 0, 0, 0, 0, 0, 0, 0, 0, 0, 0, 0, 0, 0,
     0, 0, 0, 0, 0, 0, 0, 0, 0, 0, 0, 0, 0, 0, 0, 0, 0, 0, 0, 0, 0, 0, 0, 0, 0, 0, 0, 0, 0, 0, 0, 0, 0, 0,
     0, 0, 0, 0, 0, 0, 0, 0, 0, 0, 0, 0, 0, 0, 0, 0, 0, 0, 0, 0, 0, 0, 0, 0, 0, 0, 0, 0, 0, 0, 0, 0, 0, 0,
     0, 0, 0, 0, 0, 0, 0, 0, 0, 0, 0, 0, 0, 0, 0, 0, 0, 0, 0, 0, 0, 0, 0, 0, 0, 0, 0, 0, 0, 0, 0, 0, 0, 0,
     0, 0, 0, 225, 172, 186, 225, 172, 181, 0, 0, 0, 0, 0, 0, 225, 172, 188, 225, 172, 181, 0, 0, 0, 0, 0,
     0, 0, 0, 0, 0, 0, 0]"

lemma piece_29: "slots_ok 64 6 (decomp_values_29)" "length decomp_values_29 = 384"
  by code_simp+

definition decomp_values_28 :: "int list" where
  "decomp_values_28 =
    [0, 0, 0, 0, 0, 0, 0, 0, 0, 0, 0, 0, 0, 0, 0, 0, 0, 0, 0, 0, 0, 0, 0, 0, 0, 0, 0, 0, 0, 0, 0, 0, 0, 0,
     0, 0, 0, 0, 0, 0, 0, 0, 0, 0, 0, 0, 0, 0, 0, 0, 0, 0, 0, 0, 0, 0, 0, 0, 0, 0, 0, 0, 0, 0, 0, 0, 0, 0,
     0, 0, 0, 0, 0, 0, 0, 0, 0, 0, 0, 0, 0, 0, 0, 0, 0, 0, 0, 0, 0, 0, 0, 0, 0, 0, 0, 0, 0, 0, 0, 0, 0, 0,
     0, 0, 0, 0, 0, 0, 0, 0, 0, 0, 0, 0, 0, 0, 0, 0, 0, 0, 0, 0, 0, 0, 0, 0, 0, 0, 0, 0, 0, 0, 0, 0, 0, 0,
     0, 0, 0, 0, 0, 0, 0, 0, 0, 0, 0, 0, 0, 0, 0, 0, 0, 0, 0, 0, 0, 0, 0, 0, 0, 0, 0, 0, 0, 0, 0, 0, 0, 0,
     0, 0, 0, 0, 0, 0, 0, 0, 0, 0, 0, 0, 0, 0, 0, 0, 0, 0, 0, 0, 0, 0, 0, 0, 0, 0, 0, 0, 0, 0, 0, 0, 0, 0,
     0, 0, 0, 0, 0, 0, 0, 0, 0, 0, 0, 0, 0, 0, 0, 0, 0, 0, 0, 0, 0, 0, 0, 0, 225, 128, 165, 225, 128, 174,
     0, 0, 0, 0, 0, 0, 0, 0, 0, 0, 0, 0, 0, 0, 0, 0, 0, 0, 0, 0, 0, 0, 0, 0, 0, 0, 0, 0, 0, 0, 0, 0, 0, 0,
     0, 0, 0, 0, 0, 0, 0, 0, 0, 0, 0, 0, 0, 0, 0, 0, 0, 0, 0, 0, 0, 0, 0, 0, 0, 0, 0, 0, 0, 0, 0, 0, 0, 0,
     0, 0, 0, 0, 0, 0, 0, 0, 0, 0, 0, 0, 0, 0, 0, 0, 0, 0, 0, 0, 0, 0, 0, 0, 0, 0, 0, 0, 0, 0, 0, 0, 0, 0,
     0, 0, 0, 0, 0, 0, 0, 0, 0, 0, 0, 0, 0, 0, 0, 0, 0, 0, 0, 0, 0, 0, 0, 0, 0, 0, 0, 0, 0, 0, 0, 0, 0, 0,
     0, 0, 0, 0, 0, 0, 0, 0]"

lemma piece_28: "slots_ok 64 6 (decomp_values_28 @ take 6 decomp_values_29)" "length decomp_values_28 = 378"
  by code_simp+

definition decomp_values_27 :: "int list" where
  "decomp_values_27 =
    [0, 0, 0, 0, 0, 0, 224, 189, 177, 224, 190, 128, 0, 0, 0, 0, 0, 0, 0, 0, 0, 0, 0, 0, 0, 0, 0, 0, 0, 0,
     0, 0, 0, 0, 0, 0, 0, 0, 0, 0, 0, 0, 0, 0, 0, 0, 0, 0, 0, 0, 0, 0, 0, 0, 0, 0, 0, 0, 0, 0, 0, 0, 0, 0,
     0, 0, 0, 0, 0, 0, 0, 0, 0, 0, 0, 0, 0, 0, 0, 0, 0, 0, 0, 0, 0, 0, 0, 0, 0, 0, 0, 0, 0, 0, 0, 0, 0, 0,
     0, 0, 0, 0, 0, 0, 0, 0, 0, 0, 0, 0, 0, 0, 0, 0, 224, 190, 146, 224, 190, 183, 0, 0, 0, 0, 0, 0, 0, 0,
     0, 0, 0, 0, 0, 0, 0, 0, 0, 0, 0, 0, 0, 0, 0, 0, 0, 0, 0, 0, 0, 0, 0, 0, 0, 0, 0, 0, 0, 0, 0, 0, 0, 0,
     0, 0, 0, 0, 0, 0, 0, 0, 0, 0, 0, 0, 224, 190, 156, 224, 190, 183, 0, 0, 0, 0, 0, 0, 0, 0, 0, 0, 0, 0,
     0, 0, 0, 0, 0, 0, 0, 0, 0, 0, 0, 0, 224, 190, 161, 224, 190, 183, 0, 0, 0, 0, 0, 0, 0, 0, 0, 0, 0, 0,
     0, 0, 0, 0, 0, 0, 0, 0, 0, 0, 0, 0, 224, 190, 166, 224, 190, 183, 0, 0, 0, 0, 0, 0, 0, 0, 0, 0, 0, 0,
     0, 0, 0, 0, 0, 0, 0, 0, 0, 0, 0, 0, 224, 190, 171, 224, 190, 183, 0, 0, 0, 0, 0, 0, 0, 0, 0, 0, 0, 0,
     0, 0, 0, 0, 0, 0, 0, 0, 0, 0, 0, 0, 0, 0, 0, 0, 0, 0, 0, 0, 0, 0, 0, 0, 0, 0, 0, 0, 0, 0, 0, 0, 0, 0,
     0, 0, 0, 0, 0, 0, 0, 0, 0, 0, 0, 0, 0, 0, 0, 0, 0, 0, 0, 0, 0, 0, 0, 0, 0, 0, 224, 190, 144, 224, 190,
     181]"

lemma piece_27: "slots_ok 64 6 (decomp_values_27 @ take 36 decomp_values_28)" "length decomp_values_27 = 348"
  by code_simp+

definition decomp_values_26 :: "int list" where
  "decomp_values_26 =
    [0, 0, 0, 0, 0, 0, 0, 0, 0, 0, 0, 0, 0, 0, 0, 0, 0, 0, 224, 189, 130, 224, 190, 183, 0, 0, 0, 0, 0, 0,
     0, 0, 0, 0, 0, 0, 0, 0, 0, 0, 0, 0, 0, 0, 0, 0, 0, 0, 0, 0, 0, 0, 0, 0, 0, 0, 0, 0, 0, 0, 0, 0, 0, 0,
     0, 0, 0, 0, 0, 0, 0, 0, 0, 0, 0, 0, 0, 0, 224, 189, 140, 224, 190, 183, 0, 0, 0, 0, 0, 0, 0, 0, 0, 0,
     0, 0, 0, 0, 0, 0, 0, 0, 0, 0, 0, 0, 0, 0, 224, 189, 145, 224, 190, 183, 0, 0, 0, 0, 0, 0, 0, 0, 0, 0,
     0, 0, 0, 0, 0, 0, 0, 0, 0, 0, 0, 0, 0, 0, 224, 189, 150, 224, 190, 183, 0, 0, 0, 0, 0, 0, 0, 0, 0, 0,
     0, 0, 0, 0, 0, 0, 0, 0, 0, 0, 0, 0, 0, 0, 224, 189, 155, 224, 190, 183, 0, 0, 0, 0, 0, 0, 0, 0, 0, 0,
     0, 0, 0, 0, 0, 0, 0, 0, 0, 0, 0, 0, 0, 0, 0, 0, 0, 0, 0, 0, 0, 0, 0, 0, 0, 0, 0, 0, 0, 0, 0, 0, 0, 0,
     0, 0, 0, 0, 0, 0, 0, 0, 0, 0, 0, 0, 0, 0, 0, 0, 0, 0, 0, 0, 0, 0, 0, 0, 0, 0, 0, 0, 224, 189, 128, 224,
     190, 181, 0, 0, 0, 0, 0, 0, 0, 0, 0, 0, 0, 0, 0, 0, 0, 0, 0, 0, 0, 0, 0, 0, 0, 0, 0, 0, 0, 0, 0, 0, 0,
     0, 0, 0, 0, 0, 0, 0, 0, 0, 0, 0, 0, 0, 0, 0, 0, 0, 0, 0, 0, 0, 0, 0, 224, 189, 177, 224, 189, 178, 0,
     0, 0, 0, 0, 0, 224, 189, 177, 224, 189, 180, 224, 190, 178, 224, 190, 128, 0, 0, 0, 0, 0, 0, 224, 190,
     179, 224, 190, 128, 0, 0, 0, 0, 0, 0, 0, 0, 0, 0, 0, 0, 0, 0, 0, 0, 0, 0, 0, 0, 0, 0, 0, 0, 0, 0, 0, 0,
     0, 0, 0, 0, 0, 0, 0, 0, 0, 0, 0, 0, 0]"

lemma piece_26: "slots_ok 64 6 (decomp_values_26 @ take (Suc 0) decomp_values_27)" "length decomp_values_26 = 383"
  by code_simp+

definition decomp_values_25 :: "int list" where
  "decomp_values_25 =
    [0, 0, 0, 0, 0, 0, 0, 0, 0, 0, 0, 0, 0, 0, 0, 0, 0, 0, 0, 0, 0, 0, 0, 0, 0, 0, 0, 0, 0, 0, 0, 0, 0, 0,
     0, 0, 0, 0, 0, 0, 0, 0, 0, 0, 0, 0, 0, 0, 0, 0, 0, 0, 0, 0, 0, 0, 0, 0, 0, 0, 0, 0, 0, 0, 0, 0, 0, 0,
     0, 0, 0, 0, 0, 0, 0, 0, 0, 0, 0, 0, 0, 0, 0, 0, 0, 0, 0, 0, 0, 0, 0, 0, 0, 0, 0, 0, 0, 0, 0, 0, 0, 0,
     0, 0, 0, 0, 0, 0, 0, 0, 0, 0, 0, 0, 0, 0, 0, 0, 0, 0, 0, 0, 0, 0, 0, 0, 0, 0, 0, 0, 0, 0, 0, 0, 0, 0,
     0, 0, 0, 0, 0, 0, 0, 0, 0, 0, 0, 0, 0, 0, 0, 0, 0, 0, 0, 0, 0, 0, 0, 0, 0, 0, 0, 0, 0, 0, 0, 0, 0, 0,
     0, 0, 0, 0, 0, 0, 0, 0, 0, 0, 0, 0, 0, 0, 0, 0, 0, 0, 0, 0, 0, 0, 0, 0, 0, 0, 0, 0, 0, 0, 0, 0, 0, 0,
     0, 0, 0, 0, 0, 0, 0, 0, 0, 0, 0, 0, 0, 0, 0, 0, 0, 0, 0, 0, 0, 0, 0, 0, 0, 0, 0, 0, 0, 0, 224, 183,
     153, 224, 183, 138, 0, 0, 0, 0, 0, 0, 0, 0, 0, 0, 0, 0, 224, 183, 153, 224, 183, 143, 0, 0, 0, 224,
     183, 153, 224, 183, 143, 224, 183, 138, 224, 183, 153, 224, 183, 159, 0, 0, 0, 0, 0, 0, 0, 0, 0, 0, 0,
     0, 0, 0, 0, 0, 0, 0, 0, 0, 0, 0, 0, 0, 0, 0, 0, 0, 0, 0, 0, 0, 0, 0, 0, 0, 0, 0, 0, 0, 0, 0, 0, 0, 0,
     0, 0, 0, 0, 0, 0, 0, 0, 0, 0, 0, 0, 0, 0, 0, 0, 0, 0, 0, 0, 0, 0, 0, 0, 0, 0, 0, 0, 0, 0, 0, 0, 0, 0,
     0, 0, 0, 0, 0, 0, 0, 0, 0, 0, 0, 0, 0, 0, 0, 0, 0, 0, 0, 0, 0, 0, 0, 0, 0, 0, 0, 0, 0, 0, 0, 0, 0, 0,
     0, 0, 0, 0, 0, 0, 0, 0, 0, 0, 0, 0, 0, 0, 0, 0, 0, 0, 0, 0, 0, 0, 0, 0, 0, 0, 0, 0, 0, 0, 0, 0, 0, 0,
     0, 0, 0, 0, 0, 0, 0, 0, 0, 0, 0, 0, 0, 0, 0, 0, 0, 0, 0, 0, 0, 0, 0, 0, 0, 0, 0, 0, 0, 0, 0, 0, 0, 0,
     0, 0, 0, 0, 0, 0, 0, 0, 0, 0, 0, 0, 0, 0, 0, 0, 0, 0, 0, 0, 0, 0, 0, 0, 0, 0, 0, 0, 0, 0, 0, 0, 0, 0,
     0, 0, 0, 0, 0, 0, 0, 0, 0, 0, 0, 0, 0, 0, 0, 0, 0, 0, 0, 0, 0, 0, 0, 0, 0, 0, 0, 0, 0, 0, 0, 0, 0, 0,
     0, 0, 0, 0, 0, 0, 0, 0, 0, 0, 0, 0, 0, 0, 0, 0, 0, 0, 0, 0, 0, 0, 0, 0, 0, 0, 0, 0, 0, 0, 0, 0, 0, 0,
     0, 0, 0, 0, 0, 0, 0, 0, 0, 0, 0, 0, 0, 0]"

lemma piece_25: "slots_ok 64 9 (decomp_values_25 @ take 3 decomp_values_26)" "length decomp_values_25 = 573"
  by code_simp+

definition decomp_values_24 :: "int list" where
  "decomp_values_24 =
    [0, 0, 0, 0, 0, 0, 0, 0, 0, 0, 0, 0, 0, 0, 0, 0, 0, 0, 0, 0, 0, 0, 0, 0, 0, 0, 0, 0, 0, 0, 0, 0, 0, 0,
     0, 0, 0, 0, 0, 0, 0, 0, 0, 0, 0, 0, 0, 0, 0, 0, 0, 0, 0, 0, 0, 0, 0, 0, 0, 0, 224, 181, 134, 224, 180,
     190, 224, 181, 135, 224, 180, 190, 224, 181, 134, 224, 181, 151, 0, 0, 0, 0, 0, 0, 0, 0, 0, 0, 0, 0, 0,
     0, 0, 0, 0, 0, 0, 0, 0, 0, 0, 0, 0, 0, 0, 0, 0, 0, 0, 0, 0, 0, 0, 0, 0, 0, 0, 0, 0, 0, 0, 0, 0, 0, 0,
     0, 0, 0, 0, 0, 0, 0, 0, 0, 0, 0, 0, 0, 0, 0, 0, 0, 0, 0, 0, 0, 0, 0, 0, 0, 0, 0, 0, 0, 0, 0, 0, 0, 0,
     0, 0, 0, 0, 0, 0, 0, 0, 0, 0, 0, 0, 0, 0, 0, 0, 0, 0, 0, 0, 0, 0, 0, 0, 0, 0, 0, 0, 0, 0, 0, 0, 0, 0,
     0, 0, 0, 0, 0, 0, 0, 0, 0, 0, 0, 0, 0, 0, 0, 0, 0, 0, 0, 0, 0, 0, 0, 0, 0, 0, 0, 0, 0, 0, 0, 0, 0, 0,
     0, 0, 0, 0, 0, 0, 0, 0, 0, 0, 0, 0, 0, 0, 0, 0, 0, 0, 0, 0, 0, 0, 0, 0, 0, 0, 0, 0, 0, 0, 0, 0, 0, 0,
     0, 0, 0, 0, 0, 0, 0, 0, 0, 0, 0, 0, 0, 0, 0, 0, 0, 0, 0, 0, 0, 0, 0, 0, 0, 0, 0, 0, 0, 0, 0, 0, 0, 0,
     0, 0, 0, 0, 0, 0, 0, 0, 0, 0, 0, 0, 0, 0, 0, 0, 0, 0, 0, 0, 0, 0, 0, 0, 0, 0, 0, 0, 0, 0, 0, 0, 0, 0,
     0, 0, 0, 0, 0, 0, 0, 0, 0, 0, 0, 0, 0, 0, 0, 0, 0, 0, 0, 0, 0, 0, 0, 0, 0, 0, 0, 0, 0]"

lemma piece_24: "slots_ok 64 6 (decomp_values_24 @ take 26 decomp_values_25)" "length decomp_values_24 = 358"
  by code_simp+

definition decomp_values_23 :: "int list" where
  "decomp_values_23 =
    [224, 178, 191, 224, 179, 149, 0, 0, 0, 0, 0, 0, 0, 0, 0, 0, 0, 0, 0, 0, 0, 0, 0, 0, 0, 0, 0, 0, 0, 0,
     0, 0, 0, 0, 0, 0, 0, 0, 0, 0, 0, 0, 0, 0, 0, 0, 0, 0, 0, 0, 0, 0, 0, 0, 0, 0, 0, 0, 0, 0, 0, 0, 0, 224,
     179, 134, 224, 179, 149, 0, 0, 0, 224, 179, 134, 224, 179, 150, 0, 0, 0, 0, 0, 0, 0, 0, 0, 0, 0, 0,
     224, 179, 134, 224, 179, 130, 0, 0, 0, 224, 179, 134, 224, 179, 130, 224, 179, 149, 0, 0, 0, 0, 0, 0,
     0, 0, 0, 0, 0, 0, 0, 0, 0, 0, 0, 0, 0, 0, 0, 0, 0, 0, 0, 0, 0, 0, 0, 0, 0, 0, 0, 0, 0, 0, 0, 0, 0, 0,
     0, 0, 0, 0, 0, 0, 0, 0, 0, 0, 0, 0, 0, 0, 0, 0, 0, 0, 0, 0, 0, 0, 0, 0, 0, 0, 0, 0, 0, 0, 0, 0, 0, 0,
     0, 0, 0, 0, 0, 0, 0, 0, 0, 0, 0, 0, 0, 0, 0, 0, 0, 0, 0, 0, 0, 0, 0, 0, 0, 0, 0, 0, 0, 0, 0, 0, 0, 0,
     0, 0, 0, 0, 0, 0, 0, 0, 0, 0, 0, 0, 0, 0, 0, 0, 0, 0, 0, 0, 0, 0, 0, 0, 0, 0, 0, 0, 0, 0, 0, 0, 0, 0,
     0, 0, 0, 0, 0, 0, 0, 0, 0, 0, 0, 0, 0, 0, 0, 0, 0, 0, 0, 0, 0, 0, 0, 0, 0, 0, 0, 0, 0, 0, 0, 0, 0, 0,
     0, 0, 0, 0, 0, 0, 0, 0, 0, 0, 0, 0, 0, 0, 0, 0, 0, 0, 0, 0, 0, 0, 0, 0, 0, 0, 0, 0, 0, 0, 0, 0, 0, 0,
     0, 0, 0, 0, 0, 0, 0, 0, 0, 0, 0, 0, 0, 0, 0, 0, 0, 0, 0, 0, 0, 0, 0, 0, 0, 0, 0, 0, 0, 0, 0, 0, 0, 0,
     0, 0, 0, 0, 0, 0, 0, 0, 0, 0, 0, 0, 0, 0, 0, 0, 0, 0, 0, 0, 0, 0, 0, 0, 0, 0, 0, 0, 0, 0, 0, 0, 0, 0,
     0, 0, 0, 0, 0, 0, 0, 0, 0, 0, 0, 0, 0, 0, 0, 0, 0, 0, 0, 0, 0, 0, 0, 0, 0, 0, 0, 0, 0, 0, 0, 0, 0, 0,
     0, 0, 0, 0, 0, 0, 0, 0, 0, 0, 0, 0, 0, 0, 0, 0, 0, 0, 0, 0, 0, 0, 0, 0, 0, 0, 0, 0, 0, 0, 0, 0, 0, 0,
     0, 0, 0, 0, 0, 0, 0, 0, 0, 0, 0, 0, 0, 0, 0, 0, 0, 0, 0, 0, 0, 0, 0, 0, 0, 0, 0, 0, 0, 0, 0, 0, 0, 0,
     0, 0, 0, 0, 0, 0, 0, 0, 0, 0, 0, 0, 0, 0, 0, 0, 0, 0, 0, 0, 0, 0, 0, 0, 0, 0, 0, 0, 0, 0, 0, 0, 0, 0,
     0, 0, 0, 0, 0, 0, 0, 0, 0, 0, 0, 0, 0, 0, 0, 0, 0, 0, 0, 0, 0, 0, 0, 0, 0, 0, 0, 0, 0, 0, 0, 0, 0, 0,
     0, 0, 0, 0, 0, 0, 0, 0, 0, 0]"

lemma piece_23: "slots_ok 64 9 (decomp_values_23 @ take 10 decomp_values_24)" "length decomp_values_23 = 566"
  by code_simp+

definition decomp_values_22 :: "int list" where
  "decomp_values_22 =
    [0, 0, 0, 0, 0, 0, 0, 0, 0, 0, 0, 0, 0, 0, 0, 0, 0, 0, 0, 0, 0, 0, 0, 0, 0, 0, 0, 0, 0, 0, 0, 0, 0, 0,
     0, 0, 0, 0, 0, 0, 0, 0, 0, 0, 0, 0, 0, 0, 224, 177, 134, 224, 177, 150, 0, 0, 0, 0, 0, 0, 0, 0, 0, 0,
     0, 0, 0, 0, 0, 0, 0, 0, 0, 0, 0, 0, 0, 0, 0, 0, 0, 0, 0, 0, 0, 0, 0, 0, 0, 0, 0, 0, 0, 0, 0, 0, 0, 0,
     0, 0, 0, 0, 0, 0, 0, 0, 0, 0, 0, 0, 0, 0, 0, 0, 0, 0, 0, 0, 0, 0, 0, 0, 0, 0, 0, 0, 0, 0, 0, 0, 0, 0,
     0, 0, 0, 0, 0, 0, 0, 0, 0, 0, 0, 0, 0, 0, 0, 0, 0, 0, 0, 0, 0, 0, 0, 0, 0, 0, 0, 0, 0, 0, 0, 0, 0, 0,
     0, 0, 0, 0, 0, 0, 0, 0, 0, 0, 0, 0, 0, 0, 0, 0, 0, 0, 0, 0, 0, 0, 0, 0, 0, 0, 0, 0, 0, 0, 0, 0, 0, 0,
     0, 0, 0, 0, 0, 0, 0, 0, 0, 0, 0, 0, 0, 0, 0, 0, 0, 0, 0, 0, 0, 0, 0, 0, 0, 0, 0, 0, 0, 0, 0, 0, 0, 0,
     0, 0, 0, 0, 0, 0, 0, 0, 0, 0, 0, 0, 0, 0, 0, 0, 0, 0, 0, 0, 0, 0, 0, 0, 0, 0, 0, 0, 0, 0, 0, 0, 0, 0,
     0, 0, 0, 0, 0, 0, 0, 0, 0, 0, 0, 0, 0, 0, 0, 0, 0, 0, 0, 0, 0, 0, 0, 0, 0, 0, 0, 0, 0, 0, 0, 0, 0, 0,
     0, 0, 0, 0, 0, 0, 0, 0, 0, 0, 0, 0, 0, 0, 0, 0, 0, 0, 0, 0, 0, 0, 0, 0, 0, 0, 0, 0, 0, 0, 0, 0, 0, 0,
     0, 0, 0, 0, 0, 0, 0, 0, 0, 0, 0, 0, 0, 0, 0, 0, 0, 0, 0, 0, 0, 0, 0, 0, 0, 0, 0, 0, 0, 0, 0, 0, 0, 0,
     0, 0, 0, 0, 0, 0, 0, 0, 0, 0, 0, 0, 0, 0]"

lemma piece_22: "slots_ok 64 6 (decomp_values_22)" "length decomp_values_22 = 384"
  by code_simp+

definition decomp_values_21 :: "int list" where
  "decomp_values_21 =
    [0, 0, 0, 0, 0, 0, 0, 0, 0, 0, 0, 0, 0, 0, 0, 0, 0, 0, 0, 0, 0, 0, 0, 0, 0, 0, 0, 0, 0, 0, 0, 0, 0, 0,
     0, 0, 0, 0, 0, 0, 0, 0, 0, 0, 0, 0, 0, 0, 0, 0, 0, 0, 0, 0, 0, 0, 0, 0, 0, 0, 224, 175, 134, 224, 174,
     190, 224, 175, 135, 224, 174, 190, 224, 175, 134, 224, 175, 151, 0, 0, 0, 0, 0, 0, 0, 0, 0, 0, 0, 0, 0,
     0, 0, 0, 0, 0, 0, 0, 0, 0, 0, 0, 0, 0, 0, 0, 0, 0, 0, 0, 0, 0, 0, 0, 0, 0, 0, 0, 0, 0, 0, 0, 0, 0, 0,
     0, 0, 0, 0, 0, 0, 0, 0, 0, 0, 0, 0, 0, 0, 0, 0, 0, 0, 0, 0, 0, 0, 0, 0, 0, 0, 0, 0, 0, 0, 0, 0, 0, 0,
     0, 0, 0, 0, 0, 0, 0, 0, 0, 0, 0, 0, 0, 0, 0, 0, 0, 0, 0, 0, 0, 0, 0, 0, 0, 0, 0, 0, 0, 0, 0, 0, 0, 0,
     0, 0, 0, 0, 0, 0, 0, 0, 0, 0, 0, 0, 0, 0, 0, 0, 0, 0, 0, 0, 0, 0, 0, 0, 0, 0, 0, 0, 0, 0, 0, 0, 0, 0,
     0, 0, 0, 0, 0, 0, 0, 0, 0, 0, 0, 0, 0, 0, 0, 0, 0, 0, 0, 0, 0, 0, 0, 0, 0, 0, 0, 0, 0, 0, 0, 0, 0, 0,
     0, 0, 0, 0, 0, 0, 0, 0, 0, 0, 0, 0, 0, 0, 0, 0, 0, 0, 0, 0, 0, 0, 0, 0, 0, 0, 0, 0, 0, 0, 0, 0, 0, 0,
     0, 0, 0, 0, 0, 0, 0, 0, 0, 0, 0, 0, 0, 0, 0, 0, 0, 0, 0, 0, 0, 0, 0, 0, 0, 0, 0, 0, 0, 0, 0, 0, 0, 0,
     0, 0, 0, 0, 0, 0, 0, 0, 0, 0, 0, 0, 0, 0, 0, 0, 0, 0, 0, 0, 0, 0, 0, 0, 0, 0, 0, 0, 0, 0, 0, 0, 0, 0,
     0, 0, 0, 0, 0, 0, 0, 0, 0, 0, 0, 0, 0]"

lemma piece_21: "slots_ok 64 6 (decomp_values_21 @ take 8 decomp_values_22)" "length decomp_values_21 = 376"
  by code_simp+

definition decomp_values_20 :: "int list" where
  "decomp_values_20 =
    [0, 0, 0, 0, 0, 0, 0, 0, 0, 0, 0, 0, 0, 0, 0, 0, 0, 0, 0, 0, 0, 0, 0, 0, 0, 0, 0, 0, 0, 0, 0, 0, 0, 0,
     0, 0, 0, 0, 0, 0, 0, 0, 0, 0, 0, 0, 0, 0, 0, 0, 0, 0, 0, 0, 0, 0, 0, 0, 0, 0, 0, 0, 0, 0, 0, 0, 0, 0,
     0, 0, 0, 0, 0, 0, 0, 0, 0, 0, 0, 0, 0, 0, 0, 0, 0, 0, 0, 0, 0, 0, 0, 0, 0, 0, 0, 0, 0, 0, 0, 0, 0, 0,
     0, 0, 0, 0, 0, 0, 0, 0, 0, 0, 0, 0, 0, 0, 0, 0, 0, 0, 224, 174, 146, 224, 175, 151, 0, 0, 0, 0, 0, 0,
     0, 0, 0, 0, 0, 0, 0, 0, 0, 0, 0, 0, 0, 0, 0, 0, 0, 0, 0, 0, 0, 0, 0, 0, 0, 0, 0, 0, 0, 0, 0, 0, 0, 0,
     0, 0, 0, 0, 0, 0, 0, 0, 0, 0, 0, 0, 0, 0, 0, 0, 0, 0, 0, 0, 0, 0, 0, 0, 0, 0, 0, 0, 0, 0, 0, 0, 0, 0,
     0, 0, 0, 0, 0, 0, 0, 0, 0, 0, 0, 0, 0, 0, 0, 0, 0, 0, 0, 0, 0, 0, 0, 0, 0, 0, 0, 0, 0, 0, 0, 0, 0, 0,
     0, 0, 0, 0, 0, 0, 0, 0, 0, 0, 0, 0, 0, 0, 0, 0, 0, 0, 0, 0, 0, 0, 0, 0, 0, 0, 0, 0, 0, 0, 0, 0, 0, 0,
     0, 0, 0, 0, 0, 0, 0, 0, 0, 0, 0, 0, 0, 0, 0, 0, 0, 0, 0, 0, 0, 0, 0, 0, 0, 0, 0, 0, 0, 0, 0, 0, 0, 0,
     0, 0, 0, 0, 0, 0, 0, 0, 0, 0, 0, 0, 0, 0, 0, 0, 0, 0, 0, 0, 0, 0, 0, 0, 0, 0, 0, 0, 0, 0, 0, 0, 0, 0,
     0, 0, 0, 0, 0, 0, 0, 0, 0, 0, 0, 0, 0, 0, 0, 0, 0, 0, 0, 0, 0, 0, 0, 0, 0, 0, 0, 0, 0, 0, 0, 0, 0, 0,
     0, 0, 0, 0]"

lemma piece_20: "slots_ok 64 6 (decomp_values_20 @ take 10 decomp_values_21)" "length decomp_values_20 = 374"
  by code_simp+

definition decomp_values_19 :: "int list" where
  "decomp_values_19 =
    [0, 0, 0, 0, 0, 0, 0, 0, 0, 0, 0, 0, 0, 0, 0, 0, 0, 0, 0, 0, 0, 0, 0, 0, 0, 0, 0, 0, 0, 0, 0, 0, 0, 0,
     0, 0, 0, 0, 0, 0, 0, 0, 0, 0, 0, 0, 0, 0, 224, 173, 135, 224, 173, 150, 0, 0, 0, 0, 0, 0, 0, 0, 0, 0,
     0, 0, 224, 173, 135, 224, 172, 190, 224, 173, 135, 224, 173, 151, 0, 0, 0, 0, 0, 0, 0, 0, 0, 0, 0, 0,
     0, 0, 0, 0, 0, 0, 0, 0, 0, 0, 0, 0, 0, 0, 0, 0, 0, 0, 0, 0, 0, 0, 0, 0, 0, 0, 0, 0, 0, 0, 0, 0, 0, 0,
     0, 0, 0, 0, 0, 0, 0, 0, 0, 0, 0, 0, 0, 0, 0, 0, 0, 0, 0, 0, 0, 0, 0, 0, 0, 0, 0, 0, 0, 0, 0, 0, 0, 0,
     0, 0, 0, 0, 0, 0, 0, 0, 0, 0, 224, 172, 161, 224, 172, 188, 224, 172, 162, 224, 172, 188, 0, 0, 0, 0,
     0, 0, 0, 0, 0, 0, 0, 0, 0, 0, 0, 0, 0, 0, 0, 0, 0, 0, 0, 0, 0, 0, 0, 0, 0, 0, 0, 0, 0, 0, 0, 0, 0, 0,
     0, 0, 0, 0, 0, 0, 0, 0, 0, 0, 0, 0, 0, 0, 0, 0, 0, 0, 0, 0, 0, 0, 0, 0, 0, 0, 0, 0, 0, 0, 0, 0, 0, 0,
     0, 0, 0, 0, 0, 0, 0, 0, 0, 0, 0, 0, 0, 0, 0, 0, 0, 0, 0, 0, 0, 0, 0, 0, 0, 0, 0, 0, 0, 0, 0, 0, 0, 0,
     0, 0, 0, 0, 0, 0, 0, 0, 0, 0, 0, 0, 0, 0, 0, 0, 0, 0, 0, 0, 0, 0, 0, 0, 0, 0, 0, 0, 0, 0, 0, 0, 0, 0,
     0, 0, 0, 0, 0, 0, 0, 0, 0, 0, 0, 0, 0, 0, 0, 0, 0, 0, 0, 0, 0, 0, 0, 0, 0, 0, 0, 0, 0, 0, 0, 0, 0, 0,
     0, 0, 0, 0, 0, 0, 0, 0, 0, 0]"

lemma piece_19: "slots_ok 64 6 (decomp_values_19 @ take 20 decomp_values_20)" "length decomp_values_19 = 364"
  by code_simp+

definition decomp_values_18 :: "int list" where
  "decomp_values_18 =
    [0, 0, 0, 0, 0, 0, 0, 0, 0, 0, 0, 0, 0, 0, 0, 0, 0, 0, 0, 0, 0, 0, 0, 0, 0, 0, 0, 0, 0, 0, 0, 0, 0, 0,
     0, 0, 0, 0, 0, 0, 0, 0, 0, 0, 0, 0, 0, 0, 0, 0, 0, 0, 0, 0, 0, 0, 0, 0, 0, 0, 0, 0, 0, 0, 0, 0, 0, 0,
     0, 0, 0, 0, 0, 0, 0, 0, 0, 0, 0, 0, 0, 0, 0, 0, 0, 0, 0, 0, 0, 0, 0, 0, 0, 0, 0, 0, 0, 0, 0, 0, 0, 0,
     0, 0, 0, 0, 0, 0, 0, 0, 0, 0, 0, 0, 0, 0, 0, 0, 0, 0, 0, 0, 0, 0, 0, 0, 0, 0, 0, 0, 0, 0, 0, 0, 0, 0,
     0, 0, 0, 0, 0, 0, 0, 0, 0, 0, 0, 0, 0, 0, 224, 168, 150, 224, 168, 188, 224, 168, 151, 224, 168, 188,
     224, 168, 156, 224, 168, 188, 0, 0, 0, 0, 0, 0, 0, 0, 0, 0, 0, 0, 224, 168, 171, 224, 168, 188, 0, 0,
     0, 0, 0, 0, 0, 0, 0, 0, 0, 0, 0, 0, 0, 0, 0, 0, 0, 0, 0, 0, 0, 0, 0, 0, 0, 0, 0, 0, 0, 0, 0, 0, 0, 0,
     0, 0, 0, 0, 0, 0, 0, 0, 0, 0, 0, 0, 0, 0, 0, 0, 0, 0, 0, 0, 0, 0, 0, 0, 0, 0, 0, 0, 0, 0, 0, 0, 0, 0,
     0, 0, 0, 0, 0, 0, 0, 0, 0, 0, 0, 0, 0, 0, 0, 0, 0, 0, 0, 0, 0, 0, 0, 0, 0, 0, 0, 0, 0, 0, 0, 0, 0, 0,
     0, 0, 0, 0, 0, 0, 0, 0, 0, 0, 0, 0, 0, 0, 0, 0, 0, 0, 0, 0, 0, 0, 0, 0, 0, 0, 0, 0, 0, 0, 0, 0, 0, 0,
     0, 0, 0, 0, 0, 0, 0, 0, 0, 0, 0, 0, 0, 0, 0, 0, 0, 0, 0, 0, 0, 0, 0, 0, 0, 0, 0, 0, 0, 0, 0, 0, 0, 0,
     0, 0, 0, 0, 0, 0, 0, 0, 0, 0, 0, 0, 0, 0, 0, 0, 0, 0]"

lemma piece_18: "slots_ok 64 6 (decomp_values_18 @ take 8 decomp_values_19)" "length decomp_values_18 = 376"
  by code_simp+

definition decomp_values_17 :: "int list" where
  "decomp_values_17 =
    [0, 0, 0, 0, 0, 0, 0, 0, 0, 0, 0, 0, 0, 0, 0, 0, 0, 0, 0, 0, 0, 0, 0, 0, 0, 0, 0, 0, 0, 0, 0, 0, 0, 0,
     0, 0, 0, 0, 0, 0, 0, 0, 0, 0, 0, 0, 0, 0, 0, 0, 0, 0, 0, 0, 0, 0, 0, 0, 0, 0, 0, 0, 0, 0, 0, 0, 0, 0,
     0, 0, 0, 0, 0, 0, 0, 0, 0, 0, 0, 0, 0, 0, 0, 0, 0, 0, 0, 0, 0, 0, 0, 0, 0, 0, 0, 0, 0, 0, 0, 0, 0, 0,
     0, 0, 0, 0, 0, 0, 0, 0, 0, 0, 0, 0, 0, 0, 0, 0, 0, 0, 0, 0, 0, 0, 0, 0, 0, 0, 0, 0, 0, 0, 0, 0, 0, 0,
     0, 0, 0, 0, 0, 0, 0, 0, 0, 0, 0, 0, 0, 0, 0, 0, 0, 0, 0, 0, 0, 0, 0, 0, 0, 0, 0, 0, 0, 0, 0, 0, 0, 0,
     0, 0, 0, 0, 0, 0, 0, 0, 0, 0, 0, 0, 0, 0, 0, 0, 0, 0, 0, 0, 0, 0, 0, 0, 0, 0, 0, 0, 0, 0, 0, 0, 0, 0,
     0, 0, 0, 0, 0, 0, 0, 0, 0, 0, 0, 0, 0, 0, 0, 0, 0, 0, 0, 0, 0, 0, 0, 0, 0, 0, 0, 0, 0, 0, 0, 0, 0, 0,
     0, 0, 0, 0, 0, 0, 0, 0, 0, 0, 0, 0, 0, 0, 0, 0, 0, 0, 0, 0, 0, 0, 0, 0, 0, 0, 0, 0, 0, 0, 0, 0, 0, 0,
     0, 0, 0, 0, 0, 0, 0, 0, 0, 0, 0, 0, 0, 0, 0, 0, 0, 0, 0, 0, 0, 0, 0, 0, 0, 0, 0, 0, 0, 0, 0, 0, 0, 0,
     224, 168, 178, 224, 168, 188, 0, 0, 0, 0, 0, 0, 0, 0, 0, 0, 0, 0, 224, 168, 184, 224, 168, 188, 0, 0,
     0, 0, 0, 0, 0, 0, 0, 0, 0, 0, 0, 0, 0, 0, 0, 0, 0, 0, 0, 0, 0, 0, 0, 0, 0, 0, 0]"

lemma piece_17: "slots_ok 64 6 (decomp_values_17 @ take 25 decomp_values_18)" "length decomp_values_17 = 359"
  by code_simp+

definition decomp_values_16 :: "int list" where
  "decomp_values_16 =
    [0, 0, 0, 0, 0, 0, 0, 0, 0, 0, 0, 0, 0, 0, 0, 0, 0, 0, 0, 0, 0, 0, 0, 0, 0, 0, 0, 0, 0, 0, 0, 0, 0, 0,
     0, 0, 0, 0, 0, 0, 0, 0, 0, 0, 0, 0, 0, 0, 0, 0, 0, 0, 0, 0, 0, 0, 0, 0, 0, 0, 0, 0, 0, 0, 0, 0, 224,
     167, 135, 224, 166, 190, 224, 167, 135, 224, 167, 151, 0, 0, 0, 0, 0, 0, 0, 0, 0, 0, 0, 0, 0, 0, 0, 0,
     0, 0, 0, 0, 0, 0, 0, 0, 0, 0, 0, 0, 0, 0, 0, 0, 0, 0, 0, 0, 0, 0, 0, 0, 0, 0, 0, 0, 0, 0, 0, 0, 0, 0,
     0, 0, 0, 0, 0, 0, 0, 0, 0, 0, 0, 0, 0, 0, 0, 0, 0, 0, 0, 0, 0, 0, 0, 0, 0, 0, 0, 0, 0, 0, 0, 0, 0, 0,
     0, 0, 0, 0, 0, 0, 224, 166, 161, 224, 166, 188, 224, 166, 162, 224, 166, 188, 0, 0, 0, 0, 0, 0, 224,
     166, 175, 224, 166, 188, 0, 0, 0, 0, 0, 0, 0, 0, 0, 0, 0, 0, 0, 0, 0, 0, 0, 0, 0, 0, 0, 0, 0, 0, 0, 0,
     0, 0, 0, 0, 0, 0, 0, 0, 0, 0, 0, 0, 0, 0, 0, 0, 0, 0, 0, 0, 0, 0, 0, 0, 0, 0, 0, 0, 0, 0, 0, 0, 0, 0,
     0, 0, 0, 0, 0, 0, 0, 0, 0, 0, 0, 0, 0, 0, 0, 0, 0, 0, 0, 0, 0, 0, 0, 0, 0, 0, 0, 0, 0, 0, 0, 0, 0, 0,
     0, 0, 0, 0, 0, 0, 0, 0, 0, 0, 0, 0, 0, 0, 0, 0, 0, 0, 0, 0, 0, 0, 0, 0, 0, 0, 0, 0, 0, 0, 0, 0, 0, 0,
     0, 0, 0, 0, 0, 0, 0, 0, 0, 0, 0, 0, 0]"

lemma piece_16: "slots_ok 64 6 (decomp_values_16 @ take 51 decomp_values_17)" "length decomp_values_16 = 333"
  by code_simp+

definition decomp_values_15 :: "int list" where
  "decomp_values_15 =
    [0, 0, 0, 0, 0, 0, 0, 0, 0, 0, 0, 0, 0, 0, 0, 0, 0, 0, 0, 0, 0, 0, 0, 0, 0, 0, 0, 0, 0, 0, 0, 0, 0, 0,
     0, 0, 0, 0, 0, 0, 0, 0, 0, 0, 0, 0, 0, 0, 0, 0, 0, 0, 0, 0, 0, 0, 0, 0, 0, 0, 0, 0, 0, 0, 0, 0, 0, 0,
     0, 0, 0, 0, 0, 0, 0, 0, 0, 0, 0, 0, 0, 0, 0, 0, 0, 0, 0, 0, 0, 0, 0, 0, 0, 0, 0, 0, 0, 0, 0, 0, 0, 0,
     0, 0, 0, 0, 0, 0, 0, 0, 0, 0, 0, 0, 0, 0, 0, 0, 0, 0, 0, 0, 0, 0, 0, 0, 0, 0, 0, 0, 0, 0, 0, 0, 0, 0,
     0, 0, 0, 0, 0, 0, 0, 0, 224, 164, 149, 224, 164, 188, 224, 164, 150, 224, 164, 188, 224, 164, 151, 224,
     164, 188, 224, 164, 156, 224, 164, 188, 224, 164, 161, 224, 164, 188, 224, 164, 162, 224, 164, 188,
     224, 164, 171, 224, 164, 188, 224, 164, 175, 224, 164, 188, 0, 0, 0, 0, 0, 0, 0, 0, 0, 0, 0, 0, 0, 0,
     0, 0, 0, 0, 0, 0, 0, 0, 0, 0, 0, 0, 0, 0, 0, 0, 0, 0, 0, 0, 0, 0, 0, 0, 0, 0, 0, 0, 0, 0, 0, 0, 0, 0,
     0, 0, 0, 0, 0, 0, 0, 0, 0, 0, 0, 0, 0, 0, 0, 0, 0, 0, 0, 0, 0, 0, 0, 0, 0, 0, 0, 0, 0, 0, 0, 0, 0, 0,
     0, 0, 0, 0, 0, 0, 0, 0, 0, 0, 0, 0, 0, 0, 0, 0, 0, 0, 0, 0, 0, 0, 0, 0, 0, 0, 0, 0, 0, 0, 0, 0, 0, 0,
     0, 0, 0, 0, 0, 0, 0, 0, 0, 0, 0, 0, 0, 0, 0, 0, 0, 0, 0, 0, 0, 0, 0, 0, 0, 0, 0, 0, 0, 0, 0, 0, 0, 0,
     0, 0, 0, 0, 0, 0, 0, 0, 0, 0, 0, 0, 0, 0, 0, 0, 0, 0, 0, 0, 0, 0, 0, 0, 0, 0, 0, 0, 0, 0, 0]"

lemma piece_15: "slots_ok 64 6 (decomp_values_15 @ take 11 decomp_values_16)" "length decomp_values_15 = 373"
  by code_simp+

definition decomp_values_14 :: "int list" where
  "decomp_values_14 =
    [0, 0, 0, 0, 0, 0, 0, 0, 0, 0, 0, 0, 0, 0, 0, 0, 0, 0, 0, 0, 0, 0, 0, 0, 0, 0, 0, 0, 0, 0, 0, 0, 0, 0,
     0, 0, 0, 0, 0, 0, 0, 0, 0, 0, 0, 0, 0, 0, 0, 0, 0, 0, 0, 0, 0, 0, 0, 0, 0, 0, 0, 0, 0, 0, 0, 0, 0, 0,
     0, 0, 0, 0, 0, 0, 0, 0, 0, 0, 0, 0, 0, 0, 0, 0, 0, 0, 0, 0, 0, 0, 0, 0, 0, 0, 0, 0, 0, 0, 0, 0, 0, 0,
     0, 0, 0, 0, 0, 0, 0, 0, 0, 0, 0, 0, 0, 0, 0, 0, 0, 0, 0, 0, 0, 0, 0, 0, 0, 0, 0, 0, 0, 0, 0, 0, 0, 0,
     0, 0, 0, 0, 0, 0, 0, 0, 0, 0, 0, 0, 0, 0, 0, 0, 0, 0, 0, 0, 0, 0, 0, 0, 0, 0, 0, 0, 0, 0, 0, 0, 0, 0,
     0, 0, 0, 0, 0, 0, 0, 0, 0, 0, 0, 0, 0, 0, 0, 0, 0, 0, 0, 0, 0, 0, 0, 0, 0, 0, 0, 0, 0, 0, 0, 0, 0, 0,
     0, 0, 0, 0, 0, 0, 0, 0, 0, 0, 0, 0, 0, 0, 0, 0, 0, 0, 0, 0, 0, 0, 0, 0, 0, 0, 0, 0, 0, 0, 0, 0, 0, 0,
     0, 0, 0, 0, 0, 0, 0, 0, 224, 164, 168, 224, 164, 188, 0, 0, 0, 0, 0, 0, 0, 0, 0, 0, 0, 0, 0, 0, 0, 0,
     0, 0, 0, 0, 0, 0, 0, 0, 0, 0, 0, 0, 0, 0, 0, 0, 0, 0, 0, 0, 0, 0, 0, 0, 0, 0, 224, 164, 176, 224, 164,
     188, 0, 0, 0, 0, 0, 0, 0, 0, 0, 0, 0, 0, 224, 164, 179, 224, 164, 188, 0, 0, 0, 0, 0, 0, 0, 0, 0, 0, 0,
     0, 0, 0, 0, 0, 0, 0, 0, 0, 0, 0, 0, 0, 0, 0, 0, 0, 0, 0, 0, 0, 0, 0, 0, 0, 0, 0, 0, 0, 0, 0]"

lemma piece_14: "slots_ok 64 6 (decomp_values_14 @ take 24 decomp_values_15)" "length decomp_values_14 = 360"
  by code_simp+

definition decomp_values_13 :: "int list" where
  "decomp_values_13 =
    [219, 149, 217, 148, 0, 0, 0, 0, 219, 129, 217, 148, 0, 0, 0, 0, 0, 0, 0, 0, 0, 0, 0, 0, 0, 0, 0, 0, 0,
     0, 0, 0, 0, 0, 0, 0, 0, 0, 0, 0, 0, 0, 0, 0, 0, 0, 0, 0, 0, 0, 0, 0, 0, 0, 0, 0, 0, 0, 0, 0, 0, 0, 0,
     0, 0, 0, 0, 0, 0, 0, 0, 0, 0, 0, 0, 0, 219, 146, 217, 148, 0, 0, 0, 0, 0, 0, 0, 0, 0, 0, 0, 0, 0, 0, 0,
     0, 0, 0, 0, 0, 0, 0, 0, 0, 0, 0, 0, 0, 0, 0, 0, 0, 0, 0, 0, 0, 0, 0, 0, 0, 0, 0, 0, 0, 0, 0, 0, 0, 0,
     0, 0, 0, 0, 0, 0, 0, 0, 0, 0, 0, 0, 0, 0, 0, 0, 0, 0, 0, 0, 0, 0, 0, 0, 0, 0, 0, 0, 0, 0, 0, 0, 0, 0,
     0, 0, 0, 0, 0, 0, 0, 0, 0, 0, 0, 0, 0, 0, 0, 0, 0, 0, 0, 0, 0, 0, 0, 0, 0, 0, 0, 0, 0, 0, 0, 0, 0, 0,
     0, 0, 0, 0, 0, 0, 0, 0, 0, 0, 0, 0, 0, 0, 0, 0, 0, 0]"

lemma piece_13: "slots_ok 64 4 (decomp_values_13 @ take 41 decomp_values_14)" "length decomp_values_13 = 215"
  by code_simp+

definition decomp_values_12 :: "int list" where
  "decomp_values_12 =
    [0, 0, 0, 0, 0, 0, 0, 0, 0, 0, 0, 0, 0, 0, 0, 0, 0, 0, 0, 0, 0, 0, 0, 0, 0, 0, 0, 0, 0, 0, 0, 0, 0, 0,
     0, 0, 0, 0, 0, 0, 0, 0, 0, 0, 0, 0, 0, 0, 0, 0, 0, 0, 0, 0, 0, 0, 0, 0, 0, 0, 0, 0, 0, 0, 0, 0, 0, 0,
     0, 0, 0, 0, 0, 0, 0, 0, 0, 0, 0, 0, 0, 0, 0, 0, 0, 0, 0, 0, 0, 0, 0, 0, 0, 0, 0, 0, 0, 0, 0, 0, 0, 0,
     0, 0, 0, 0, 0, 0, 0, 0, 0, 0, 0, 0, 0, 0, 0, 0, 0, 0, 0, 0, 0, 0, 0, 0, 0, 0, 0, 0, 0, 0, 0, 0, 0, 0,
     216, 167, 217, 147, 216, 167, 217, 148, 217, 136, 217, 148, 216, 167, 217, 149, 217, 138, 217, 148, 0,
     0, 0, 0, 0, 0, 0, 0, 0, 0, 0, 0, 0, 0, 0, 0, 0, 0, 0, 0, 0, 0, 0, 0, 0, 0, 0, 0, 0, 0, 0, 0, 0, 0, 0,
     0, 0, 0, 0, 0, 0, 0, 0, 0, 0, 0, 0, 0, 0, 0, 0, 0, 0, 0, 0, 0, 0, 0, 0, 0, 0, 0, 0, 0, 0, 0, 0, 0, 0,
     0, 0, 0, 0, 0, 0, 0, 0, 0, 0, 0, 0, 0, 0, 0, 0, 0, 0, 0, 0, 0, 0, 0, 0, 0, 0, 0, 0, 0, 0, 0]"

lemma piece_12: "slots_ok 64 4 (decomp_values_12)" "length decomp_values_12 = 256"
  by code_simp+

definition decomp_values_11 :: "int list" where
  "decomp_values_11 =
    [0, 0, 0, 0, 208, 150, 204, 134, 208, 182, 204, 134, 0, 0, 0, 0, 0, 0, 0, 0, 0, 0, 0, 0, 0, 0, 0, 0, 0,
     0, 0, 0, 0, 0, 0, 0, 0, 0, 0, 0, 0, 0, 0, 0, 0, 0, 0, 0, 0, 0, 0, 0, 0, 0, 0, 0, 0, 0, 0, 0, 0, 0, 0,
     0, 208, 144, 204, 134, 208, 176, 204, 134, 208, 144, 204, 136, 208, 176, 204, 136, 0, 0, 0, 0, 0, 0, 0,
     0, 208, 149, 204, 134, 208, 181, 204, 134, 0, 0, 0, 0, 0, 0, 0, 0, 211, 152, 204, 136, 211, 153, 204,
     136, 208, 150, 204, 136, 208, 182, 204, 136, 208, 151, 204, 136, 208, 183, 204, 136, 0, 0, 0, 0, 0, 0,
     0, 0, 208, 152, 204, 132, 208, 184, 204, 132, 208, 152, 204, 136, 208, 184, 204, 136, 208, 158, 204,
     136, 208, 190, 204, 136, 0, 0, 0, 0, 0, 0, 0, 0, 211, 168, 204, 136, 211, 169, 204, 136, 208, 173, 204,
     136, 209, 141, 204, 136, 208, 163, 204, 132, 209, 131, 204, 132, 208, 163, 204, 136, 209, 131, 204,
     136, 208, 163, 204, 139, 209, 131, 204, 139, 208, 167, 204, 136, 209, 135, 204, 136, 0, 0, 0, 0, 0, 0,
     0, 0, 208, 171, 204, 136, 209, 139, 204, 136]"

lemma piece_11: "slots_ok 64 4 (decomp_values_11 @ take 24 decomp_values_12)" "length decomp_values_11 = 232"
  by code_simp+

definition decomp_values_10 :: "int list" where
  "decomp_values_10 =
    [0, 0, 0, 0, 0, 0, 0, 0, 0, 0, 0, 0, 0, 0, 0, 0, 0, 0, 0, 0, 0, 0, 0, 0, 0, 0, 0, 0, 0, 0, 0, 0, 0, 0,
     0, 0, 0, 0, 0, 0, 0, 0, 0, 0, 0, 0, 0, 0, 0, 0, 0, 0, 0, 0, 0, 0, 0, 0, 0, 0, 0, 0, 0, 0, 208, 181,
     204, 128, 208, 181, 204, 136, 0, 0, 0, 0, 208, 179, 204, 129, 0, 0, 0, 0, 0, 0, 0, 0, 0, 0, 0, 0, 209,
     150, 204, 136, 0, 0, 0, 0, 0, 0, 0, 0, 0, 0, 0, 0, 0, 0, 0, 0, 208, 186, 204, 129, 208, 184, 204, 128,
     209, 131, 204, 134, 0, 0, 0, 0, 0, 0, 0, 0, 0, 0, 0, 0, 0, 0, 0, 0, 0, 0, 0, 0, 0, 0, 0, 0, 0, 0, 0, 0,
     0, 0, 0, 0, 0, 0, 0, 0, 0, 0, 0, 0, 0, 0, 0, 0, 0, 0, 0, 0, 0, 0, 0, 0, 0, 0, 0, 0, 0, 0, 0, 0, 0, 0,
     0, 0, 0, 0, 0, 0, 0, 0, 0, 0, 0, 0, 0, 0, 0, 0, 0, 0, 0, 0, 0, 0, 0, 0, 0, 0, 0, 0, 0, 0, 209, 180,
     204, 143, 209, 181, 204, 143, 0, 0, 0, 0, 0, 0, 0, 0, 0, 0, 0, 0, 0, 0, 0, 0, 0, 0, 0, 0, 0, 0, 0, 0,
     0, 0, 0, 0, 0, 0, 0]"

lemma piece_10: "slots_ok 64 4 (decomp_values_10 @ take (Suc 0) decomp_values_11)" "length decomp_values_10 = 255"
  by code_simp+

definition decomp_values_9 :: "int list" where
  "decomp_values_9 =
    [208, 149, 204, 128, 208, 149, 204, 136, 0, 0, 0, 0, 208, 147, 204, 129, 0, 0, 0, 0, 0, 0, 0, 0, 0, 0,
     0, 0, 208, 134, 204, 136, 0, 0, 0, 0, 0, 0, 0, 0, 0, 0, 0, 0, 0, 0, 0, 0, 208, 154, 204, 129, 208, 152,
     204, 128, 208, 163, 204, 134, 0, 0, 0, 0, 0, 0, 0, 0, 0, 0, 0, 0, 0, 0, 0, 0, 0, 0, 0, 0, 0, 0, 0, 0,
     0, 0, 0, 0, 0, 0, 0, 0, 0, 0, 0, 0, 0, 0, 0, 0, 208, 152, 204, 134, 0, 0, 0, 0, 0, 0, 0, 0, 0, 0, 0, 0,
     0, 0, 0, 0, 0, 0, 0, 0, 0, 0, 0, 0, 0, 0, 0, 0, 0, 0, 0, 0, 0, 0, 0, 0, 0, 0, 0, 0, 0, 0, 0, 0, 0, 0,
     0, 0, 0, 0, 0, 0, 0, 0, 0, 0, 0, 0, 0, 0, 0, 0, 0, 0, 0, 0, 0, 0, 0, 0, 0, 0, 0, 0, 0, 0, 0, 0, 0, 0,
     0, 0, 0, 0, 0, 0, 0, 0, 0, 0, 0, 0, 0, 0, 0, 0, 0, 0, 0, 0, 0, 0, 0, 0, 0, 0, 0, 0, 0, 0, 0, 0, 0, 0,
     0, 0, 0, 0, 0, 0, 0, 0, 0, 0, 208, 184, 204, 134, 0, 0, 0, 0, 0, 0, 0, 0]"

lemma piece_9: "slots_ok 64 4 (decomp_values_9 @ take 16 decomp_values_10)" "length decomp_values_9 = 240"
  by code_simp+

definition decomp_values_8 :: "int list" where
  "decomp_values_8 =
    [0, 0, 0, 0, 0, 0, 0, 0, 0, 0, 0, 0, 0, 0, 0, 0, 0, 0, 0, 0, 0, 0, 0, 0, 0, 0, 0, 0, 0, 0, 0, 0, 0, 0,
     0, 0, 0, 0, 0, 0, 206, 185, 204, 136, 207, 133, 204, 136, 206, 191, 204, 129, 207, 133, 204, 129, 207,
     137, 204, 129, 0, 0, 0, 0, 0, 0, 0, 0, 0, 0, 0, 0, 0, 0, 0, 0, 207, 146, 204, 129, 207, 146, 204, 136,
     0, 0, 0, 0, 0, 0, 0, 0, 0, 0, 0, 0, 0, 0, 0, 0, 0, 0, 0, 0, 0, 0, 0, 0, 0, 0, 0, 0, 0, 0, 0, 0, 0, 0,
     0, 0, 0, 0, 0, 0, 0, 0, 0, 0, 0, 0, 0, 0, 0, 0, 0, 0, 0, 0, 0, 0, 0, 0, 0, 0, 0, 0, 0, 0, 0, 0, 0, 0,
     0, 0, 0, 0, 0, 0, 0, 0, 0, 0, 0, 0, 0, 0, 0, 0, 0, 0, 0, 0, 0, 0, 0, 0, 0, 0, 0, 0, 0, 0, 0, 0, 0, 0,
     0, 0, 0, 0, 0, 0, 0, 0, 0, 0, 0, 0, 0, 0, 0, 0, 0, 0, 0, 0, 0, 0, 0, 0, 0, 0, 0, 0, 0, 0, 0, 0, 0, 0,
     0, 0, 0, 0, 0, 0, 0, 0, 0, 0, 0, 0, 0, 0, 0, 0, 0, 0, 0, 0, 0, 0, 0, 0, 0, 0, 0, 0, 0, 0, 0, 0, 0, 0,
     0, 0]"

lemma piece_8: "slots_ok 64 4 (decomp_values_8)" "length decomp_values_8 = 256"
  by code_simp+

definition decomp_values_7 :: "int list" where
  "decomp_values_7 =
    [0, 0, 0, 0, 0, 0, 0, 0, 0, 0, 0, 0, 0, 0, 0, 0, 0, 0, 0, 0, 0, 0, 0, 0, 0, 0, 0, 0, 0, 0, 194, 168,
     204, 129, 0, 0, 206, 145, 204, 129, 0, 0, 194, 183, 0, 0, 0, 0, 206, 149, 204, 129, 0, 0, 206, 151,
     204, 129, 0, 0, 206, 153, 204, 129, 0, 0, 0, 0, 0, 0, 0, 0, 206, 159, 204, 129, 0, 0, 0, 0, 0, 0, 0, 0,
     206, 165, 204, 129, 0, 0, 206, 169, 204, 129, 0, 0, 206, 185, 204, 136, 204, 129, 0, 0, 0, 0, 0, 0, 0,
     0, 0, 0, 0, 0, 0, 0, 0, 0, 0, 0, 0, 0, 0, 0, 0, 0, 0, 0, 0, 0, 0, 0, 0, 0, 0, 0, 0, 0, 0, 0, 0, 0, 0,
     0, 0, 0, 0, 0, 0, 0, 0, 0, 0, 0, 0, 0, 0, 0, 0, 0, 0, 0, 0, 0, 0, 0, 0, 0, 0, 0, 0, 0, 0, 0, 0, 0, 0,
     0, 0, 0, 0, 0, 0, 0, 0, 0, 0, 0, 0, 0, 0, 0, 0, 0, 0, 0, 0, 0, 0, 0, 0, 0, 0, 0, 0, 0, 0, 0, 0, 0, 0,
     0, 0, 0, 0, 0, 0, 0, 0, 0, 0, 0, 0, 0, 0, 0, 0, 0, 0, 0, 0, 0, 0, 0, 0, 0, 0, 0, 0, 0, 0, 0, 0, 0, 0,
     0, 0, 0, 0, 0, 0, 0, 206, 153, 204, 136, 0, 0, 206, 165, 204, 136, 0, 0, 206, 177, 204, 129, 0, 0, 206,
     181, 204, 129, 0, 0, 206, 183, 204, 129, 0, 0, 206, 185, 204, 129, 0, 0, 207, 133, 204, 136, 204, 129,
     0, 0, 0, 0, 0, 0, 0, 0, 0, 0, 0, 0, 0, 0, 0, 0, 0, 0, 0, 0, 0, 0, 0, 0, 0, 0, 0, 0, 0, 0, 0, 0, 0, 0,
     0, 0, 0, 0, 0, 0, 0, 0, 0, 0, 0, 0, 0, 0, 0, 0, 0, 0, 0, 0, 0, 0, 0, 0, 0, 0, 0, 0, 0, 0, 0, 0, 0, 0,
     0, 0, 0, 0, 0, 0, 0, 0, 0, 0, 0, 0]"

lemma piece_7: "slots_ok 64 6 (decomp_values_7 @ take 10 decomp_values_8)" "length decomp_values_7 = 374"
  by code_simp+

definition decomp_values_6 :: "int list" where
  "decomp_values_6 =
    [204, 128, 0, 0, 204, 129, 0, 0, 0, 0, 0, 0, 204, 147, 0, 0, 204, 136, 204, 129, 0, 0, 0, 0, 0, 0, 0, 0,
     0, 0, 0, 0, 0, 0, 0, 0, 0, 0, 0, 0, 0, 0, 0, 0, 0, 0, 0, 0, 0, 0, 0, 0, 0, 0, 0, 0, 0, 0, 0, 0, 0, 0,
     0, 0, 0, 0, 0, 0, 0, 0, 0, 0, 0, 0, 0, 0, 0, 0, 0, 0, 0, 0, 0, 0, 0, 0, 0, 0, 0, 0, 0, 0, 0, 0, 0, 0,
     0, 0, 0, 0, 0, 0, 0, 0, 0, 0, 0, 0, 0, 0, 0, 0, 0, 0, 0, 0, 0, 0, 0, 0, 0, 0, 0, 0, 0, 0, 0, 0, 0, 0,
     0, 0, 0, 0, 0, 0, 0, 0, 0, 0, 0, 0, 0, 0, 0, 0, 0, 0, 0, 0, 0, 0, 0, 0, 0, 0, 0, 0, 0, 0, 0, 0, 0, 0,
     0, 0, 0, 0, 0, 0, 0, 0, 0, 0, 0, 0, 0, 0, 0, 0, 0, 0, 0, 0, 0, 0, 0, 0, 0, 0, 0, 0, 0, 0, 0, 0, 0, 0,
     0, 0, 0, 0, 0, 0, 0, 0, 0, 0, 202, 185, 0, 0, 0, 0, 0, 0, 0, 0, 0, 0, 0, 0, 0, 0, 0, 0, 0, 0, 0, 0, 0,
     0, 0, 0, 0, 0, 0, 0, 0, 0, 0, 0, 0, 0, 0, 0, 0, 0, 59, 0, 0]"

lemma piece_6: "slots_ok 64 4 (decomp_values_6 @ take 5 decomp_values_7)" "length decomp_values_6 = 251"
  by code_simp+

definition decomp_values_5 :: "int list" where
  "decomp_values_5 =
    [65, 204, 143, 0, 0, 97, 204, 143, 0, 0, 65, 204, 145, 0, 0, 97, 204, 145, 0, 0, 69, 204, 143, 0, 0,
     101, 204, 143, 0, 0, 69, 204, 145, 0, 0, 101, 204, 145, 0, 0, 73, 204, 143, 0, 0, 105, 204, 143, 0, 0,
     73, 204, 145, 0, 0, 105, 204, 145, 0, 0, 79, 204, 143, 0, 0, 111, 204, 143, 0, 0, 79, 204, 145, 0, 0,
     111, 204, 145, 0, 0, 82, 204, 143, 0, 0, 114, 204, 143, 0, 0, 82, 204, 145, 0, 0, 114, 204, 145, 0, 0,
     85, 204, 143, 0, 0, 117, 204, 143, 0, 0, 85, 204, 145, 0, 0, 117, 204, 145, 0, 0, 83, 204, 166, 0, 0,
     115, 204, 166, 0, 0, 84, 204, 166, 0, 0, 116, 204, 166, 0, 0, 0, 0, 0, 0, 0, 0, 0, 0, 0, 0, 72, 204,
     140, 0, 0, 104, 204, 140, 0, 0, 0, 0, 0, 0, 0, 0, 0, 0, 0, 0, 0, 0, 0, 0, 0, 0, 0, 0, 0, 0, 0, 0, 0, 0,
     0, 0, 0, 0, 0, 0, 65, 204, 135, 0, 0, 97, 204, 135, 0, 0, 69, 204, 167, 0, 0, 101, 204, 167, 0, 0, 79,
     204, 136, 204, 132, 111, 204, 136, 204, 132, 79, 204, 131, 204, 132, 111, 204, 131, 204, 132, 79, 204,
     135, 0, 0, 111, 204, 135, 0, 0, 79, 204, 135, 204, 132, 111, 204, 135, 204, 132, 89, 204, 132, 0, 0,
     121, 204, 132, 0, 0, 0, 0, 0, 0, 0, 0, 0, 0, 0, 0, 0, 0, 0, 0, 0, 0, 0, 0, 0, 0, 0, 0, 0, 0, 0, 0, 0,
     0, 0, 0, 0, 0, 0, 0, 0, 0, 0, 0, 0, 0, 0, 0, 0, 0, 0, 0, 0, 0, 0, 0, 0, 0, 0, 0, 0, 0, 0, 0, 0, 0]"

lemma piece_5: "slots_ok 64 5 (decomp_values_5)" "length decomp_values_5 = 320"
  by code_simp+

definition decomp_values_4 :: "int list" where
  "decomp_values_4 =
    [0, 0, 0, 0, 0, 0, 0, 0, 0, 0, 0, 0, 0, 0, 0, 0, 0, 0, 0, 0, 0, 0, 0, 0, 0, 0, 0, 0, 0, 0, 0, 0, 0, 0,
     0, 0, 0, 0, 0, 0, 0, 0, 0, 0, 0, 0, 0, 0, 0, 0, 0, 0, 0, 0, 0, 0, 0, 0, 0, 0, 0, 0, 0, 0, 0, 65, 204,
     140, 0, 0, 97, 204, 140, 0, 0, 73, 204, 140, 0, 0, 105, 204, 140, 0, 0, 79, 204, 140, 0, 0, 111, 204,
     140, 0, 0, 85, 204, 140, 0, 0, 117, 204, 140, 0, 0, 85, 204, 136, 204, 132, 117, 204, 136, 204, 132,
     85, 204, 136, 204, 129, 117, 204, 136, 204, 129, 85, 204, 136, 204, 140, 117, 204, 136, 204, 140, 85,
     204, 136, 204, 128, 117, 204, 136, 204, 128, 0, 0, 0, 0, 0, 65, 204, 136, 204, 132, 97, 204, 136, 204,
     132, 65, 204, 135, 204, 132, 97, 204, 135, 204, 132, 195, 134, 204, 132, 0, 195, 166, 204, 132, 0, 0,
     0, 0, 0, 0, 0, 0, 0, 0, 0, 71, 204, 140, 0, 0, 103, 204, 140, 0, 0, 75, 204, 140, 0, 0, 107, 204, 140,
     0, 0, 79, 204, 168, 0, 0, 111, 204, 168, 0, 0, 79, 204, 168, 204, 132, 111, 204, 168, 204, 132, 198,
     183, 204, 140, 0, 202, 146, 204, 140, 0, 106, 204, 140, 0, 0, 0, 0, 0, 0, 0, 0, 0, 0, 0, 0, 0, 0, 0, 0,
     0, 71, 204, 129, 0, 0, 103, 204, 129, 0, 0, 0, 0, 0, 0, 0, 0, 0, 0, 0, 0, 78, 204, 128, 0, 0, 110, 204,
     128, 0, 0, 65, 204, 138, 204, 129, 97, 204, 138, 204, 129, 195, 134, 204, 129, 0, 195, 166, 204, 129,
     0, 195, 152, 204, 129, 0, 195, 184, 204, 129, 0]"

lemma piece_4: "slots_ok 64 5 (decomp_values_4)" "length decomp_values_4 = 320"
  by code_simp+

definition decomp_values_3 :: "int list" where
  "decomp_values_3 =
    [0, 0, 0, 0, 0, 0, 0, 0, 0, 0, 0, 0, 0, 0, 0, 0, 0, 0, 0, 0, 0, 0, 0, 0, 0, 0, 0, 0, 0, 0, 0, 0, 0, 0,
     0, 0, 0, 0, 0, 0, 0, 0, 0, 0, 0, 0, 0, 0, 0, 0, 0, 0, 0, 0, 0, 0, 0, 0, 0, 0, 0, 0, 0, 0, 0, 0, 0, 0,
     0, 0, 0, 0, 0, 0, 0, 0, 0, 0, 0, 0, 0, 0, 0, 0, 0, 0, 0, 0, 0, 0, 0, 0, 0, 0, 0, 0, 79, 204, 155, 111,
     204, 155, 0, 0, 0, 0, 0, 0, 0, 0, 0, 0, 0, 0, 0, 0, 0, 0, 0, 0, 0, 0, 0, 0, 0, 0, 0, 0, 0, 0, 0, 0, 0,
     0, 0, 0, 0, 0, 0, 0, 0, 85, 204, 155, 117, 204, 155, 0, 0, 0, 0, 0, 0, 0, 0, 0, 0, 0, 0, 0, 0, 0, 0, 0,
     0, 0, 0, 0, 0, 0, 0, 0, 0, 0, 0, 0, 0, 0, 0]"

lemma piece_3: "slots_ok 64 3 (decomp_values_3 @ take 13 decomp_values_4)" "length decomp_values_3 = 179"
  by code_simp+

definition decomp_values_2 :: "int list" where
  "decomp_values_2 =
    [0, 0, 0, 0, 0, 0, 0, 0, 0, 78, 204, 129, 110, 204, 129, 78, 204, 167, 110, 204, 167, 78, 204, 140, 110,
     204, 140, 0, 0, 0, 0, 0, 0, 0, 0, 0, 79, 204, 132, 111, 204, 132, 79, 204, 134, 111, 204, 134, 79, 204,
     139, 111, 204, 139, 0, 0, 0, 0, 0, 0, 82, 204, 129, 114, 204, 129, 82, 204, 167, 114, 204, 167, 82,
     204, 140, 114, 204, 140, 83, 204, 129, 115, 204, 129, 83, 204, 130, 115, 204, 130, 83, 204, 167, 115,
     204, 167, 83, 204, 140, 115, 204, 140, 84, 204, 167, 116, 204, 167, 84, 204, 140, 116, 204, 140, 0, 0,
     0, 0, 0, 0, 85, 204, 131, 117, 204, 131, 85, 204, 132, 117, 204, 132, 85, 204, 134, 117, 204, 134, 85,
     204, 138, 117, 204, 138, 85, 204, 139, 117, 204, 139, 85, 204, 168, 117, 204, 168, 87, 204, 130, 119,
     204, 130, 89, 204, 130, 121, 204, 130, 89, 204, 136, 90, 204, 129, 122, 204, 129, 90, 204, 135, 122,
     204, 135, 90, 204, 140, 122, 204, 140]"

lemma piece_2: "slots_ok 64 3 (decomp_values_2 @ take 3 decomp_values_3)" "length decomp_values_2 = 189"
  by code_simp+

definition decomp_values_1 :: "int list" where
  "decomp_values_1 =
    [65, 204, 132, 97, 204, 132, 65, 204, 134, 97, 204, 134, 65, 204, 168, 97, 204, 168, 67, 204, 129, 99,
     204, 129, 67, 204, 130, 99, 204, 130, 67, 204, 135, 99, 204, 135, 67, 204, 140, 99, 204, 140, 68, 204,
     140, 100, 204, 140, 0, 0, 0, 0, 0, 0, 69, 204, 132, 101, 204, 132, 69, 204, 134, 101, 204, 134, 69,
     204, 135, 101, 204, 135, 69, 204, 168, 101, 204, 168, 69, 204, 140, 101, 204, 140, 71, 204, 130, 103,
     204, 130, 71, 204, 134, 103, 204, 134, 71, 204, 135, 103, 204, 135, 71, 204, 167, 103, 204, 167, 72,
     204, 130, 104, 204, 130, 0, 0, 0, 0, 0, 0, 73, 204, 131, 105, 204, 131, 73, 204, 132, 105, 204, 132,
     73, 204, 134, 105, 204, 134, 73, 204, 168, 105, 204, 168, 73, 204, 135, 0, 0, 0, 0, 0, 0, 0, 0, 0, 74,
     204, 130, 106, 204, 130, 75, 204, 167, 107, 204, 167, 0, 0, 0, 76, 204, 129, 108, 204, 129, 76, 204,
     167, 108, 204, 167, 76, 204, 140, 108, 204, 140]"

lemma piece_1: "slots_ok 64 3 (decomp_values_1 @ take 3 decomp_values_2)" "length decomp_values_1 = 189"
  by code_simp+

definition decomp_values_0 :: "int list" where
  "decomp_values_0 =
    [65, 204, 128, 65, 204, 129, 65, 204, 130, 65, 204, 131, 65, 204, 136, 65, 204, 138, 0, 0, 0, 67, 204,
     167, 69, 204, 128, 69, 204, 129, 69, 204, 130, 69, 204, 136, 73, 204, 128, 73, 204, 129, 73, 204, 130,
     73, 204, 136, 0, 0, 0, 78, 204, 131, 79, 204, 128, 79, 204, 129, 79, 204, 130, 79, 204, 131, 79, 204,
     136, 0, 0, 0, 0, 0, 0, 85, 204, 128, 85, 204, 129, 85, 204, 130, 85, 204, 136, 89, 204, 129, 0, 0, 0,
     0, 0, 0, 97, 204, 128, 97, 204, 129, 97, 204, 130, 97, 204, 131, 97, 204, 136, 97, 204, 138, 0, 0, 0,
     99, 204, 167, 101, 204, 128, 101, 204, 129, 101, 204, 130, 101, 204, 136, 105, 204, 128, 105, 204, 129,
     105, 204, 130, 105, 204, 136, 0, 0, 0, 110, 204, 131, 111, 204, 128, 111, 204, 129, 111, 204, 130, 111,
     204, 131, 111, 204, 136, 0, 0, 0, 0, 0, 0, 117, 204, 128, 117, 204, 129, 117, 204, 130, 117, 204, 136,
     121, 204, 129, 0, 0, 0, 121, 204, 136]"

lemma piece_0: "slots_ok 64 3 (decomp_values_0)" "length decomp_values_0 = 192"
  by code_simp+

definition decomp_pieces :: "(nat \<times> nat \<times> int list) list" where
  "decomp_pieces =
    [(0, 3, decomp_values_0),
     (192, 3, decomp_values_1),
     (381, 3, decomp_values_2),
     (570, 3, decomp_values_3),
     (749, 5, decomp_values_4),
     (1069, 5, decomp_values_5),
     (1389, 4, decomp_values_6),
     (1640, 6, decomp_values_7),
     (2014, 4, decomp_values_8),
     (2270, 4, decomp_values_9),
     (2510, 4, decomp_values_10),
     (2765, 4, decomp_values_11),
     (2997, 4, decomp_values_12),
     (3253, 4, decomp_values_13),
     (3468, 6, decomp_values_14),
     (3828, 6, decomp_values_15),
     (4201, 6, decomp_values_16),
     (4534, 6, decomp_values_17),
     (4893, 6, decomp_values_18),
     (5269, 6, decomp_values_19),
     (5633, 6, decomp_values_20),
     (6007, 6, decomp_values_21),
     (6383, 6, decomp_values_22),
     (6767, 9, decomp_values_23),
     (7333, 6, decomp_values_24),
     (7691, 9, decomp_values_25),
     (8264, 6, decomp_values_26),
     (8647, 6, decomp_values_27),
     (8995, 6, decomp_values_28),
     (9373, 6, decomp_values_29),
     (9757, 6, decomp_values_30),
     (10141, 5, decomp_values_31),
     (10461, 5, decomp_values_32),
     (10781, 5, decomp_values_33),
     (11101, 5, decomp_values_34),
     (11421, 6, decomp_values_35),
     (11805, 6, decomp_values_36),
     (12189, 8, decomp_values_37),
     (12700, 6, decomp_values_38),
     (13084, 3, decomp_values_39),
     (13238, 3, decomp_values_40),
     (13404, 5, decomp_values_41),
     (13711, 5, decomp_values_42),
     (14027, 5, decomp_values_43),
     (14346, 5, decomp_values_44),
     (14666, 5, decomp_values_45),
     (14954, 5, decomp_values_46),
     (15233, 3, decomp_values_47),
     (15397, 5, decomp_values_48),
     (15705, 6, decomp_values_49),
     (16077, 6, decomp_values_50),
     (16461, 6, decomp_values_51),
     (16845, 3, decomp_values_52),
     (17037, 3, decomp_values_53),
     (17229, 3, decomp_values_54),
     (17421, 3, decomp_values_55),
     (17613, 3, decomp_values_56),
     (17805, 4, decomp_values_57),
     (18061, 3, decomp_values_58),
     (18253, 4, decomp_values_59),
     (18480, 6, decomp_values_60),
     (18864, 4, decomp_values_61),
     (19094, 8, decomp_values_62),
     (19560, 8, decomp_values_63),
     (20061, 8, decomp_values_64),
     (20514, 8, decomp_values_65),
     (21018, 8, decomp_values_66),
     (21498, 8, decomp_values_67),
     (21980, 12, decomp_values_68),
     (22689, 12, decomp_values_69),
     (23457, 12, decomp_values_70),
     (24225, 4, decomp_values_71),
     (24481, 4, decomp_values_72),
     (24737, 4, decomp_values_73),
     (24993, 4, decomp_values_74),
     (25249, 4, decomp_values_75),
     (25505, 4, decomp_values_76),
     (25761, 4, decomp_values_77),
     (26017, 4, decomp_values_78),
     (26273, 4, decomp_values_79)]"

lemmas piece_lengths =
  piece_0(2) piece_1(2) piece_2(2) piece_3(2) piece_4(2) piece_5(2) piece_6(2) piece_7(2)
  piece_8(2) piece_9(2) piece_10(2) piece_11(2) piece_12(2) piece_13(2) piece_14(2) piece_15(2)
  piece_16(2) piece_17(2) piece_18(2) piece_19(2) piece_20(2) piece_21(2) piece_22(2) piece_23(2)
  piece_24(2) piece_25(2) piece_26(2) piece_27(2) piece_28(2) piece_29(2) piece_30(2) piece_31(2)
  piece_32(2) piece_33(2) piece_34(2) piece_35(2) piece_36(2) piece_37(2) piece_38(2) piece_39(2)
  piece_40(2) piece_41(2) piece_42(2) piece_43(2) piece_44(2) piece_45(2) piece_46(2) piece_47(2)
  piece_48(2) piece_49(2) piece_50(2) piece_51(2) piece_52(2) piece_53(2) piece_54(2) piece_55(2)
  piece_56(2) piece_57(2) piece_58(2) piece_59(2) piece_60(2) piece_61(2) piece_62(2) piece_63(2)
  piece_64(2) piece_65(2) piece_66(2) piece_67(2) piece_68(2) piece_69(2) piece_70(2) piece_71(2)
  piece_72(2) piece_73(2) piece_74(2) piece_75(2) piece_76(2) piece_77(2) piece_78(2) piece_79(2)

lemmas piece_slots =
  piece_0(1) piece_1(1) piece_2(1) piece_3(1) piece_4(1) piece_5(1) piece_6(1) piece_7(1)
  piece_8(1) piece_9(1) piece_10(1) piece_11(1) piece_12(1) piece_13(1) piece_14(1) piece_15(1)
  piece_16(1) piece_17(1) piece_18(1) piece_19(1) piece_20(1) piece_21(1) piece_22(1) piece_23(1)
  piece_24(1) piece_25(1) piece_26(1) piece_27(1) piece_28(1) piece_29(1) piece_30(1) piece_31(1)
  piece_32(1) piece_33(1) piece_34(1) piece_35(1) piece_36(1) piece_37(1) piece_38(1) piece_39(1)
  piece_40(1) piece_41(1) piece_42(1) piece_43(1) piece_44(1) piece_45(1) piece_46(1) piece_47(1)
  piece_48(1) piece_49(1) piece_50(1) piece_51(1) piece_52(1) piece_53(1) piece_54(1) piece_55(1)
  piece_56(1) piece_57(1) piece_58(1) piece_59(1) piece_60(1) piece_61(1) piece_62(1) piece_63(1)
  piece_64(1) piece_65(1) piece_66(1) piece_67(1) piece_68(1) piece_69(1) piece_70(1) piece_71(1)
  piece_72(1) piece_73(1) piece_74(1) piece_75(1) piece_76(1) piece_77(1) piece_78(1) piece_79(1)

fun bytes_of :: "(nat \<times> nat \<times> int list) list \<Rightarrow> int list" where
  "bytes_of [] = []"
| "bytes_of ((_, _, piece) # rest) = piece @ bytes_of rest"

definition decomp_numbers :: "int list" where
  "decomp_numbers = bytes_of decomp_pieces"

definition decomp_values :: "u8 list" where
  "decomp_values = map word_of_int decomp_numbers"

section \<open>The layout of the tables\<close>

text \<open>The pieces follow each other, and the slots of each of them are in it and the next one; only the last
  one has fewer slots.\<close>

fun layout :: "nat \<Rightarrow> (nat \<times> nat \<times> int list) list \<Rightarrow> bool" where
  "layout p [] = True"
| "layout p [(pos, ml, piece)] = (pos = p \<and> ml \<noteq> 0 \<and> slots_ok 30 ml piece \<and> length piece = 30 * ml)"
| "layout p ((pos, ml, piece) # (pos', ml', piece') # rest) =
     (pos = p \<and> ml \<noteq> 0 \<and> length piece \<le> 64 * ml \<and> 64 * ml - length piece \<le> length piece'
      \<and> slots_ok 64 ml (piece @ take (64 * ml - length piece) piece')
      \<and> layout (p + length piece) ((pos', ml', piece') # rest))"

lemma layout_pieces: "layout 0 decomp_pieces"
  by (simp add: decomp_pieces_def piece_lengths piece_slots)

lemma indices_are_pieces:
  "filter (\<lambda>e. e \<noteq> 0) decomp_index_numbers = map (\<lambda>(pos, ml, _). int pos * 256 + int ml) decomp_pieces"
  by (simp add: decomp_index_numbers_def decomp_pieces_def indices_nonzero)

lemma indices_length: "length decomp_index_numbers = 3049"
  by (simp add: decomp_index_numbers_def indices_lengths)

lemma last_index: "last decomp_index_numbers = 6725892"
  by (simp add: decomp_index_numbers_def indices_13(3) last_append length_0_conv [symmetric] indices_lengths del: length_0_conv)

end
