(* ===== verification/Decomposition.thy ===== *)
theory Decomposition
  imports Hangul Decomposition_Tables
begin

unbundle bit_operations_syntax

text \<open>
  The canonical decomposition of a code point (\<open>unicode/normalization.hpp\<close>): the lookup in the
  tables of \<open>details/decomposition_tables.hpp\<close> and the copy of the mapping, which is stored in UTF-8.
  The functions are templates over the encoding of the output: \<open>app\<close> appends a code point, \<open>copy\<close>
  the character that a pointer into the table stands on. A pointer is the rest of the table, with the
  NUL that ends the literal. The assumptions \<open>webpp_assume\<close> have an effect with some compilers and none with
  others: \<open>assuming\<close> tells which.
\<close>

section \<open>The lookup\<close>

definition trailing_mapped_deomps :: u32 where "trailing_mapped_deomps = 0x2FA40"

definition max_utf8_mapped_length :: u8 where "max_utf8_mapped_length = 0"

record decomp_index =
  di_pos :: u16
  di_max_length :: u8

definition decomp_index_of :: "u32 \<Rightarrow> decomp_index" where
  "decomp_index_of v = \<lparr>di_pos = ucast (drop_bit 8 v), di_max_length = ucast (v AND 0xFF)\<rparr>"

definition get_position :: "decomp_index \<Rightarrow> u32 \<Rightarrow> u16" where
  "get_position code request_position =
     di_pos code + (ucast request_position AND 0x3F) * ucast (di_max_length code)"

definition decomp_ptr :: "decomp_index \<Rightarrow> u32 \<Rightarrow> u8 list" where
  "decomp_ptr code code_point = drop (unat (get_position code code_point)) (decomp_values @ [0])"

partial_function (option) decompose_loop ::
  "('o \<Rightarrow> u8 list \<Rightarrow> ('o \<times> u8 list) option) \<Rightarrow> int \<Rightarrow> 'o \<Rightarrow> u8 list \<Rightarrow> ('o \<times> u8 list) option" where
  "decompose_loop copy end_ptr out ptr =
     Option.bind (load ptr 0) (\<lambda>b.
       if b = 0 \<or> int (length ptr) = end_ptr then Some (out, ptr)
       else Option.bind (copy out ptr) (\<lambda>(out, ptr). decompose_loop copy end_ptr out ptr))"

definition canonical_decompose_to ::
  "bool \<Rightarrow> ('o \<Rightarrow> u32 \<Rightarrow> 'o \<times> nat) \<Rightarrow> ('o \<Rightarrow> u8 list \<Rightarrow> ('o \<times> u8 list) option) \<Rightarrow> 'o \<Rightarrow> u32 \<Rightarrow> ('o \<times> nat) option" where
  "canonical_decompose_to assuming app copy out code_point =
     (if code_point \<ge> trailing_mapped_deomps then Some (app out code_point)
      else if is_hangul_code_point code_point then Some (decompose_hangul app out code_point)
      else Option.bind (load decomp_indices (unat (drop_bit 6 code_point))) (\<lambda>v.
        let code = decomp_index_of v in
        if di_max_length code = 0 then Some (app out code_point)
        else if assuming \<and> \<not> di_max_length code \<le> max_utf8_mapped_length then None
        else
          let start_ptr = decomp_ptr code code_point in
          Option.bind (decompose_loop copy (int (length start_ptr) - int (unat (di_max_length code))) out start_ptr) (\<lambda>(out, ptr).
            let len = length start_ptr - length ptr in
            Some (if len = 0 then app out code_point else (out, len)))))"

text \<open>The copies into UTF-8 and into UTF-32.\<close>

definition copy_into8 :: "u8 list \<Rightarrow> u8 list \<Rightarrow> (u8 list \<times> u8 list) option" where
  "copy_into8 out src = map_option (\<lambda>(out, src, _). (out, src)) (copy_next_into8 out src)"

definition copy_into32 :: "u32 list \<Rightarrow> u8 list \<Rightarrow> (u32 list \<times> u8 list) option" where
  "copy_into32 out src = map_option (\<lambda>(c, src). (fst (append_utf32 out c), src)) (next_code_point8 src)"

definition canonical_decompose_to8 :: "bool \<Rightarrow> u8 list \<Rightarrow> u32 \<Rightarrow> (u8 list \<times> nat) option" where
  "canonical_decompose_to8 assuming = canonical_decompose_to assuming append_utf8 copy_into8"

definition canonical_decompose_to32 :: "bool \<Rightarrow> u32 list \<Rightarrow> u32 \<Rightarrow> (u32 list \<times> nat) option" where
  "canonical_decompose_to32 assuming = canonical_decompose_to assuming append_utf32 copy_into32"

text \<open>The decomposition of a text of UTF-32.\<close>

fun decompose_text_to ::
  "('o \<Rightarrow> u32 \<Rightarrow> ('o \<times> nat) option) \<Rightarrow> 'o \<Rightarrow> u32 list \<Rightarrow> nat \<Rightarrow> ('o \<times> nat) option" where
  "decompose_text_to decompose out [] count = Some (out, count)"
| "decompose_text_to decompose out (c # str) count =
     Option.bind (decompose out c) (\<lambda>(out, n). decompose_text_to decompose out str (count + n))"

section \<open>The slots of the table\<close>

lemma slot_ok_rest: "slot_ok n m xs = Some ys \<Longrightarrow> m \<le> n \<and> ys = drop n xs"
  by (induction n m xs rule: slot_ok.induct) (auto split: if_splits)

lemma slot_ok_continue: "slot_ok n m xs = Some ys \<Longrightarrow> m \<le> length xs \<and> slot_ok (n - m) 0 (drop m xs) = Some ys"
  by (induction n m xs rule: slot_ok.induct) (auto split: if_splits)

lemma slot_ok_append: "slot_ok n m xs = Some ys \<Longrightarrow> \<exists>zs. slot_ok n m (xs @ added) = Some zs"
  by (induction n m xs rule: slot_ok.induct) (auto split: if_splits)

lemma slots_ok_nth:
  "slots_ok k ml xs \<Longrightarrow> r < k \<Longrightarrow> \<exists>ys. slot_ok ml 0 (drop (r * ml) xs) = Some ys"
proof (induction k ml xs arbitrary: r rule: slots_ok.induct)
  case (2 k ml xs)
  obtain ys where ys: "slot_ok ml 0 xs = Some ys" "slots_ok k ml ys" using 2(2) by (auto split: option.splits)
  show ?case
  proof (cases r)
    case (Suc r')
    then show ?thesis using 2(1) [OF ys, of r'] 2(3) slot_ok_rest [OF ys(1)] by (simp add: add.commute)
  qed (use ys in simp)
qed simp

lemma layout_slots:
  "layout p tbl \<Longrightarrow> (pos, ml, piece) \<in> set tbl \<Longrightarrow>
     p \<le> pos \<and> ml \<noteq> 0 \<and> pos - p + 30 * ml \<le> length (bytes_of tbl)
     \<and> (\<forall>r. r < 30 \<or> r < 64 \<and> (pos, ml, piece) \<noteq> last tbl \<longrightarrow>
          (\<exists>ys. slot_ok ml 0 (drop (pos - p + r * ml) (bytes_of tbl)) = Some ys))
     \<and> ((pos, ml, piece) = last tbl \<longrightarrow> length (bytes_of tbl) = pos - p + 30 * ml)"
proof (induction p tbl rule: layout.induct)
  case (2 p pos' ml' piece')
  then show ?case using slots_ok_nth [of 30 ml' piece'] by auto
next
  case (3 p pos' ml' piece' pos'' ml'' piece'' rest)
  let ?tail = "bytes_of ((pos'', ml'', piece'') # rest)"
  let ?all = "bytes_of ((pos', ml', piece') # (pos'', ml'', piece'') # rest)"
  have all: "?all = piece' @ ?tail" by simp
  have l: "pos' = p" "ml' \<noteq> 0" "length piece' \<le> 64 * ml'" "64 * ml' - length piece' \<le> length piece''"
    "slots_ok 64 ml' (piece' @ take (64 * ml' - length piece') piece'')"
    "layout (p + length piece') ((pos'', ml'', piece'') # rest)"
    using 3(2) by simp_all
  show ?case
  proof (cases "(pos, ml, piece) \<in> set ((pos'', ml'', piece'') # rest)")
    case True
    note IH = 3(1) [OF l(6) True]
    have le: "p + length piece' \<le> pos" using IH by simp
    have drop: "drop (pos - p + n) ?all = drop (pos - (p + length piece') + n) ?tail" for n
    proof -
      have "pos - p + n = length piece' + (pos - (p + length piece') + n)" using le by simp
      then show ?thesis unfolding all by simp
    qed
    have eqs: "length ?all = length piece' + length ?tail" "pos - p = length piece' + (pos - (p + length piece'))"
      using le unfolding all by simp_all
    have last: "last ((pos', ml', piece') # (pos'', ml'', piece'') # rest) = last ((pos'', ml'', piece'') # rest)" by simp
    have "p \<le> pos" "ml \<noteq> 0" using le IH by simp_all
    moreover have "pos - p + 30 * ml \<le> length ?all" using IH eqs by linarith
    moreover have "length ?all = pos - p + 30 * ml" if "(pos, ml, piece) = last ((pos', ml', piece') # (pos'', ml'', piece'') # rest)"
      using IH eqs that unfolding last by linarith
    moreover have "\<exists>ys. slot_ok ml 0 (drop (pos - p + r * ml) ?all) = Some ys"
      if "r < 30 \<or> r < 64 \<and> (pos, ml, piece) \<noteq> last ((pos', ml', piece') # (pos'', ml'', piece'') # rest)" for r
      using IH that unfolding last drop by blast
    ultimately show ?thesis by blast
  next
    case False
    then have this_piece: "pos = p" "ml = ml'" "piece = piece'" using 3(3) l(1) by auto
    let ?slots = "piece' @ take (64 * ml' - length piece') piece''"
    have len: "length ?slots = 64 * ml'" using l by simp
    have slots: "?all = ?slots @ drop (64 * ml' - length piece') piece'' @ bytes_of rest" by simp
    have "\<exists>ys. slot_ok ml' 0 (drop (r * ml') ?all) = Some ys" if "r < 64" for r
    proof -
      have "r * ml' \<le> length ?slots" using that unfolding len by simp
      then have "drop (r * ml') ?all = drop (r * ml') ?slots @ drop (64 * ml' - length piece') piece'' @ bytes_of rest"
        unfolding slots by (simp only: drop_append) simp
      then show ?thesis using slots_ok_nth [OF l(5) that] slot_ok_append by metis
    qed
    moreover have "30 * ml' \<le> length ?all" using len unfolding slots by simp
    moreover have "(pos, ml, piece) \<noteq> last ((pos', ml', piece') # (pos'', ml'', piece'') # rest)"
      using False last_in_set [of "(pos'', ml'', piece'') # rest"] by auto
    ultimately show ?thesis using this_piece l(2) by (auto simp del: bytes_of.simps last.simps)
  qed
qed simp

section \<open>The copy of a slot\<close>

definition lead_size :: "u8 \<Rightarrow> nat" where
  "lead_size b = (if unat b < 128 then 1 else if unat b < 224 then 2 else if unat b < 240 then 3 else 4)"

definition is_lead :: "u8 \<Rightarrow> bool" where
  "is_lead b \<longleftrightarrow> unat b < 128 \<or> 192 \<le> unat b \<and> unat b < 248"

function slot_chars :: "nat \<Rightarrow> u8 list \<Rightarrow> u8 list list" where
  "slot_chars n src =
     (if n = 0 then [] else case src of [] \<Rightarrow> []
      | b # rest \<Rightarrow> if b = 0 then [] else take (lead_size b) src # slot_chars (n - lead_size b) (drop (lead_size b) src))"
  by pat_completeness auto
termination
  by (relation "measure fst") (auto simp: lead_size_def)

declare slot_chars.simps [simp del]

text \<open>What the two copies have in common: a character is read by the size that its first octet announces.\<close>

locale char_copy =
  fixes copy :: "'o \<Rightarrow> u8 list \<Rightarrow> ('o \<times> u8 list) option" and put_char :: "'o \<Rightarrow> u8 list \<Rightarrow> 'o"
  assumes copy_char:
    "is_lead b \<Longrightarrow> Suc (length conts) = lead_size b \<Longrightarrow> copy out (b # conts @ rest) = Some (put_char out (b # conts), rest)"
begin

lemma copy_slot:
  assumes "slot_ok n 0 xs = Some ys" "tail \<noteq> []"
  shows "decompose_loop copy (int (length xs + length tail) - int n) out (map word_of_int xs @ tail) =
    Some (foldl put_char out (slot_chars n (map word_of_int xs @ tail)),
      drop (length (concat (slot_chars n (map word_of_int xs @ tail)))) (map word_of_int xs @ tail))"
  using assms
proof (induction n arbitrary: xs out rule: less_induct)
  case (less n)
  show ?case
  proof (cases n)
    case 0
    obtain b rest where src: "map word_of_int xs @ tail = b # rest" using less.prems(2) by (cases "map word_of_int xs @ tail") auto
    moreover have "length xs + length tail = length (b # rest)" using src by (metis length_append length_map)
    ultimately show ?thesis using 0 by (subst decompose_loop.simps) (simp add: slot_chars.simps load_def)
  next
    case (Suc n')
    then obtain b r where xs: "xs = b # r" using less.prems(1) by (cases xs) auto
    let ?b = "word_of_int b :: u8"
    let ?src = "?b # map word_of_int r @ tail"
    show ?thesis
    proof (cases "b = 0")
      case True
      then show ?thesis using Suc xs by (subst decompose_loop.simps) (simp add: slot_chars.simps [of "Suc n'"] load_def)
    next
      case False
      then have range: "0 < b" "b < 248" "b < 128 \<or> 192 \<le> b"
        using less.prems(1) unfolding Suc xs by (auto split: if_splits)
      then have ub: "unat ?b = nat b" using range by (simp add: unsigned_of_int take_bit_int_eq_self)
      define k where "k = lead_size ?b - 1"
      have k: "lead_size ?b = Suc k" by (simp add: k_def lead_size_def)
      have lead: "is_lead ?b" using range ub by (auto simp: is_lead_def)
      have b0: "?b \<noteq> 0" using range ub by (auto simp: word_unat_eq_iff)
      have cont: "slot_ok n' k r = Some ys"
        using less.prems(1) range False unfolding Suc xs k_def lead_size_def ub by (auto split: if_splits)
      note moves = slot_ok_continue [OF cont] and fits = slot_ok_rest [OF cont]
      have copied: "copy out ?src = Some (put_char out (?b # map word_of_int (take k r)), map word_of_int (drop k r) @ tail)"
        using copy_char [OF lead, of "map word_of_int (take k r)" out "map word_of_int (drop k r) @ tail"] k moves
        by (simp add: append_assoc [symmetric] map_append [symmetric] del: append_assoc map_append)
      have chars: "slot_chars n ?src = (?b # map word_of_int (take k r)) # slot_chars (n' - k) (map word_of_int (drop k r) @ tail)"
        using b0 moves by (subst slot_chars.simps) (simp add: Suc k take_map drop_map)
      have not_end: "int (length ?src) \<noteq> int (length xs + length tail) - int n" using Suc xs by simp
      have end_ptr: "int (length xs + length tail) - int n = int (length (drop k r) + length tail) - int (n' - k)"
        using moves fits by (simp add: xs Suc)
      have "decompose_loop copy (int (length xs + length tail) - int n) out ?src =
          decompose_loop copy (int (length xs + length tail) - int n) (put_char out (?b # map word_of_int (take k r)))
            (map word_of_int (drop k r) @ tail)"
        using b0 copied not_end by (subst decompose_loop.simps) (simp add: load_def)
      also have "\<dots> = Some (foldl put_char (put_char out (?b # map word_of_int (take k r))) (slot_chars (n' - k) (map word_of_int (drop k r) @ tail)),
          drop (length (concat (slot_chars (n' - k) (map word_of_int (drop k r) @ tail)))) (map word_of_int (drop k r) @ tail))"
        unfolding end_ptr using less.IH [of "n' - k" "drop k r" "put_char out (?b # map word_of_int (take k r))"] moves Suc less.prems(2) by simp
      finally show ?thesis
        using moves unfolding xs by (simp add: chars drop_map take_map add.commute)
    qed
  qed
qed

end

lemma utf8_skip_lead: "is_lead b \<Longrightarrow> utf8_skip ! unat b = lead_size b"
  by (auto simp: is_lead_def lead_size_def utf8_skip_nth)

interpretation copy8: char_copy copy_into8 "(@)"
  by unfold_locales
    (auto simp: copy_into8_def copy_next_into8_def load_def advance_def utf8_skip_lead Let_def take_Cons' drop_Cons' split: if_splits)

definition char_value :: "u8 list \<Rightarrow> u32" where
  "char_value bs = fst (the (next_code_point8 bs))"

interpretation copy32: char_copy copy_into32 "\<lambda>out bs. out @ [char_value bs]"
proof unfold_locales
  fix b :: u8 and conts rest :: "u8 list" and out :: "u32 list"
  assume lead: "is_lead b" and len: "Suc (length conts) = lead_size b"
  consider "unat b < 128" | "192 \<le> unat b" "unat b < 224" | "224 \<le> unat b" "unat b < 240" | "240 \<le> unat b" "unat b < 248"
    using lead unfolding is_lead_def by linarith
  then have "next_code_point8 (b # conts @ rest) = Some (char_value (b # conts), rest)"
  proof cases
    case 1
    then show ?thesis using len by (simp add: char_value_def next_code_point8_def octet_ranges32 lead_size_def)
  next
    case 2
    then obtain b1 where "conts = [b1]" using len by (auto simp: lead_size_def length_Suc_conv)
    then show ?thesis using 2 by (simp add: char_value_def next_code_point8_def octet_ranges32)
  next
    case 3
    then obtain b1 b2 where "conts = [b1, b2]" using len by (auto simp: lead_size_def length_Suc_conv numeral_eq_Suc)
    then show ?thesis using 3 by (simp add: char_value_def next_code_point8_def octet_ranges32)
  next
    case 4
    then obtain b1 b2 b3 where "conts = [b1, b2, b3]" using len by (auto simp: lead_size_def length_Suc_conv numeral_eq_Suc)
    then show ?thesis using 4 by (simp add: char_value_def next_code_point8_def octet_ranges32)
  qed
  then show "copy_into32 out (b # conts @ rest) = Some (out @ [char_value (b # conts)], rest)"
    by (simp add: copy_into32_def append_utf32_def)
qed

section \<open>The mapping of a code point\<close>

text \<open>The number of bytes of a mapping, and what the table holds for a code point.\<close>

definition max_length_of :: "u32 \<Rightarrow> nat" where
  "max_length_of c = unat (di_max_length (decomp_index_of (decomp_indices ! unat (drop_bit 6 c))))"

definition mapped_from :: "u32 \<Rightarrow> u8 list" where
  "mapped_from c = decomp_ptr (decomp_index_of (decomp_indices ! unat (drop_bit 6 c))) c"

definition mapping_of :: "u32 \<Rightarrow> u8 list" where
  "mapping_of c = takeWhile (\<lambda>b. b \<noteq> 0) (take (max_length_of c) (mapped_from c))"

lemma index_in_range: "c < 0x2FA40 \<Longrightarrow> unat (drop_bit 6 c) < length decomp_indices" for c :: u32
  by (simp add: decomp_indices_def indices_length unat_drop_u32 word_less_nat_alt div_less_iff_less_mult)

lemma decode_index:
  assumes "pos < 65536" "ml < 256"
  shows "di_pos (decomp_index_of (word_of_int (int pos * 256 + int ml))) = of_nat pos"
    and "di_max_length (decomp_index_of (word_of_int (int pos * 256 + int ml))) = of_nat ml"
proof -
  have v: "(word_of_int (int pos * 256 + int ml) :: u32) = of_nat (pos * 256 + ml)" by simp
  have small: "pos * 256 + ml < 4294967296" using assms by simp
  have num: "unat (of_nat (pos * 256 + ml) :: u32) = pos * 256 + ml"
    using small by (simp add: unat_of_nat take_bit_nat_eq_self del: of_nat_add of_nat_mult)
  have "unat (ucast (drop_bit 8 (of_nat (pos * 256 + ml) :: u32)) :: u16) = pos"
    using assms by (simp add: unsigned_ucast_eq unsigned_take_bit_eq unat_drop_u32 num take_bit_nat_eq_self del: of_nat_add of_nat_mult)
  then show "di_pos (decomp_index_of (word_of_int (int pos * 256 + int ml))) = of_nat pos"
    unfolding v decomp_index_of_def using assms by (simp add: word_unat_eq_iff unat_of_nat take_bit_nat_eq_self)
  have mask: "(0xFF :: u32) = mask 8" by code_simp
  have "unat (ucast (take_bit 8 w) :: u8) = unat w mod 256" for w :: u32
    unfolding unsigned_ucast_eq unsigned_take_bit_eq by (simp add: take_bit_eq_mod)
  then have "unat (ucast ((of_nat (pos * 256 + ml) :: u32) AND 0xFF) :: u8) = ml"
    unfolding mask take_bit_eq_mask [symmetric] using assms(2) by (simp add: num del: of_nat_add of_nat_mult)
  then show "di_max_length (decomp_index_of (word_of_int (int pos * 256 + int ml))) = of_nat ml"
    unfolding v decomp_index_of_def using assms by (simp add: word_unat_eq_iff unat_of_nat take_bit_nat_eq_self)
qed

text \<open>The entries of the table, up to the last code points of its last piece.\<close>

lemma pieces_bounded: "list_all (\<lambda>(pos, ml, _). pos < 26274 \<and> ml < 13) decomp_pieces"
  by (simp add: decomp_pieces_def)

lemma last_piece: "last decomp_pieces = (26273, 4, decomp_values_79)"
  by (simp add: decomp_pieces_def)

lemma decomp_values_length: "length decomp_values = 26393"
  using layout_slots [OF layout_pieces, of 26273 4 decomp_values_79] last_in_set [of decomp_pieces]
  by (simp add: decomp_values_def decomp_numbers_def last_piece) (simp add: decomp_pieces_def)

lemma index_cases:
  assumes "i < 3049"
  obtains (none) "decomp_index_numbers ! i = 0"
  | (piece) pos ml bs where "(pos, ml, bs) \<in> set decomp_pieces" "decomp_index_numbers ! i = int pos * 256 + int ml"
      "(pos, ml, bs) = last decomp_pieces \<longleftrightarrow> i = 3048"
proof (cases "decomp_index_numbers ! i = 0")
  case False
  let ?xs = decomp_index_numbers
  have "?xs ! i \<in> set (filter (\<lambda>e. e \<noteq> 0) ?xs)" using False assms indices_length by simp
  then obtain pos ml bs where p: "(pos, ml, bs) \<in> set decomp_pieces" "?xs ! i = int pos * 256 + int ml"
    unfolding indices_are_pieces by auto
  have ne: "?xs \<noteq> []" using indices_length by auto
  have split: "?xs = butlast ?xs @ [6725892]" using append_butlast_last_id [OF ne] last_index by simp
  have "filter (\<lambda>e. e \<noteq> 0) (butlast ?xs) @ [6725892] = map (\<lambda>(pos, ml, _). int pos * 256 + int ml) decomp_pieces"
    using indices_are_pieces by (subst (asm) split) simp
  then have rest: "filter (\<lambda>e. e \<noteq> 0) (butlast ?xs) = map (\<lambda>(pos, ml, _). int pos * 256 + int ml) (butlast decomp_pieces)"
    by (metis butlast_snoc map_butlast)
  have last_only: "6725892 \<notin> set (map (\<lambda>(pos, ml, _). int pos * 256 + int ml) (butlast decomp_pieces))"
    by (simp add: decomp_pieces_def)
  have once: "6725892 \<notin> set (butlast ?xs)"
  proof
    assume "6725892 \<in> set (butlast ?xs)"
    then have "6725892 \<in> set (filter (\<lambda>e. e \<noteq> 0) (butlast ?xs))" by simp
    then show False using last_only unfolding rest by blast
  qed
  have "?xs ! i = 6725892 \<longleftrightarrow> i = 3048"
  proof
    assume "?xs ! i = 6725892"
    show "i = 3048"
    proof (rule ccontr)
      assume "i \<noteq> 3048"
      then have "i < length (butlast ?xs)" using assms indices_length by simp
      then show False using once \<open>?xs ! i = 6725892\<close> by (metis nth_butlast nth_mem)
    qed
  next
    assume "i = 3048"
    then show "?xs ! i = 6725892" using last_index ne indices_length by (simp add: last_conv_nth)
  qed
  moreover have "(pos, ml, bs) = last decomp_pieces \<longleftrightarrow> int pos * 256 + int ml = 6725892"
  proof
    assume "int pos * 256 + int ml = 6725892"
    show "(pos, ml, bs) = last decomp_pieces"
    proof (rule ccontr)
      assume "(pos, ml, bs) \<noteq> last decomp_pieces"
      then have "(pos, ml, bs) \<in> set (butlast decomp_pieces)"
        using p(1) append_butlast_last_id [of decomp_pieces] by (metis Un_iff empty_iff insert_iff list.set(1,2) set_append)
      then have "int pos * 256 + int ml \<in> set (map (\<lambda>(pos, ml, _). int pos * 256 + int ml) (butlast decomp_pieces))" by force
      then show False using last_only \<open>int pos * 256 + int ml = 6725892\<close> by metis
    qed
  qed (simp add: last_piece)
  ultimately show ?thesis using piece p by simp
qed (use none in blast)

lemma unat_get_position:
  assumes "pos < 26274" "ml < 13"
  shows "unat (get_position \<lparr>di_pos = of_nat pos, di_max_length = of_nat ml\<rparr> c) = pos + unat c mod 64 * ml"
proof -
  have mask: "(0x3F :: u16) = mask 6" by code_simp
  have r: "unat ((ucast c :: u16) AND 0x3F) = unat c mod 64"
    unfolding mask take_bit_eq_mask [symmetric] unsigned_take_bit_eq unsigned_ucast_eq
    by (simp add: take_bit_eq_mod mod_mod_cancel)
  have m: "unat (ucast (of_nat ml :: u8) :: u16) = ml"
    using assms by (simp add: unsigned_ucast_eq unat_of_nat take_bit_nat_eq_self)
  have p: "unat (of_nat pos :: u16) = pos" using assms by (simp add: unat_of_nat take_bit_nat_eq_self)
  have "unat c mod 64 * ml \<le> 63 * 12" using assms by (intro mult_le_mono) auto
  then show ?thesis using assms by (simp add: get_position_def unat_word_ariths r m p)
qed

lemma slot_cases:
  assumes "c < 0x2FA40"
  obtains (unmapped) "max_length_of c = 0" "c < 0x2FA00"
  | (slot) xs ys where "max_length_of c \<noteq> 0" "mapped_from c = map word_of_int xs @ [0]"
      "slot_ok (max_length_of c) 0 xs = Some ys" "c < 0x2FA1E"
  | (ending) "max_length_of c \<noteq> 0" "mapped_from c = [0]" "c = 0x2FA1E"
  | (outside) "max_length_of c \<noteq> 0" "mapped_from c = []" "0x2FA1F \<le> c"
proof -
  define i where "i = unat c div 64"
  have drop: "unat (drop_bit 6 c) = i" by (simp add: i_def unat_drop_u32)
  have c: "unat c = i * 64 + unat c mod 64" by (simp add: i_def)
  have i: "i < 3049" using assms by (simp add: i_def word_less_nat_alt div_less_iff_less_mult)
  have entry: "decomp_indices ! i = word_of_int (decomp_index_numbers ! i)"
    using i by (simp add: decomp_indices_def indices_length)
  show ?thesis
    using i
  proof (cases rule: index_cases)
    case none
    have "i \<noteq> 3048" using none last_index indices_length last_conv_nth [of decomp_index_numbers] by force
    then have "unat c < 0x2FA00" using c i by linarith
    then show ?thesis
      using unmapped by (simp add: max_length_of_def drop entry none decomp_index_of_def word_less_nat_alt)
  next
    case (piece pos ml bs)
    have b: "pos < 26274" "ml < 13" using pieces_bounded piece(1) by (auto simp: list_all_iff)
    define r where "r = unat c mod 64"
    define q where "q = pos + r * ml"
    have code: "decomp_index_of (decomp_indices ! i) = \<lparr>di_pos = of_nat pos, di_max_length = of_nat ml\<rparr>"
      unfolding entry piece(2) using decode_index [of pos ml] b by simp
    have ml: "max_length_of c = ml" using b by (simp add: max_length_of_def drop code unat_of_nat_u8)
    have from_q: "mapped_from c = drop q (decomp_values @ [0])"
      by (simp add: mapped_from_def decomp_ptr_def drop code unat_get_position [OF b] q_def r_def)
    note slots = layout_slots [OF layout_pieces piece(1)]
    have r: "r < 64" by (simp add: r_def)
    show ?thesis
    proof (cases "i = 3048 \<and> 30 \<le> r")
      case False
      then have "r < 30 \<or> r < 64 \<and> (pos, ml, bs) \<noteq> last decomp_pieces" using r piece(3) by auto
      then obtain ys where ys: "slot_ok ml 0 (drop q decomp_numbers) = Some ys" using slots by (auto simp: decomp_numbers_def q_def)
      then have "drop q decomp_numbers \<noteq> []" using slots by (cases ml) auto
      then have "mapped_from c = map word_of_int (drop q decomp_numbers) @ [0]"
        by (simp add: from_q decomp_values_def drop_map)
      moreover have "unat c < 0x2FA1E" using c i False by (auto simp: r_def)
      ultimately show ?thesis using slot ys slots ml by (auto simp: word_less_nat_alt)
    next
      case True
      then have "(pos, ml, bs) = (26273, 4, decomp_values_79)" using piece(3) last_piece by simp
      then have q: "q = 26273 + r * 4" "ml = 4" by (simp_all add: q_def)
      show ?thesis
      proof (cases "r = 30")
        case r30: True
        then have "c = 0x2FA1E" using c True by (simp add: r_def word_unat_eq_iff)
        then show ?thesis using ending from_q q r30 ml decomp_values_length by simp
      next
        case False
        then have "31 \<le> r" using True by simp
        then have "0x2FA1F \<le> unat c" using c True by (simp add: r_def)
        moreover have "mapped_from c = []" using from_q q \<open>31 \<le> r\<close> decomp_values_length by simp
        ultimately show ?thesis using outside ml q by (simp add: word_le_nat_alt)
      qed
    qed
  qed
qed

lemma lead_size_pos: "0 < lead_size b"
  by (simp add: lead_size_def)

lemma length_slot_chars: "length (concat (slot_chars n src)) \<le> length src"
proof (induction n src rule: slot_chars.induct)
  case (1 n src)
  show ?case
  proof (cases "n = 0 \<or> src = [] \<or> hd src = 0")
    case True
    then show ?thesis by (cases src) (auto simp: slot_chars.simps [of n])
  next
    case False
    then obtain b rest where src: "src = b # rest" "n \<noteq> 0" "b \<noteq> 0" by (cases src) auto
    have "length (concat (slot_chars (n - lead_size b) (drop (lead_size b) src))) \<le> length src - lead_size b"
      using 1 [OF src(2,1,3)] src(1) by simp
    then show ?thesis using src by (subst slot_chars.simps) simp
  qed
qed

lemma slot_chars_empty: "concat (slot_chars n src) = [] \<longleftrightarrow> slot_chars n src = []"
proof (cases src)
  case (Cons b rest)
  obtain k where "lead_size b = Suc k" using lead_size_pos [of b] by (cases "lead_size b") auto
  then show ?thesis by (simp add: slot_chars.simps [of n] Cons)
qed (simp add: slot_chars.simps [of n])

text \<open>What a decomposition writes, for either of the outputs.\<close>

context char_copy begin

lemma decompose_result:
  "canonical_decompose_to False app copy out c =
    (if 0x2FA40 \<le> c then Some (app out c)
     else if is_hangul_code_point c then Some (decompose_hangul app out c)
     else if 0x2FA1F \<le> c then None
     else let chars = slot_chars (max_length_of c) (mapped_from c) in
       Some (if chars = [] then app out c else (foldl put_char out chars, length (concat chars))))"
proof (cases "0x2FA40 \<le> c \<or> is_hangul_code_point c")
  case True
  then show ?thesis by (auto simp: canonical_decompose_to_def trailing_mapped_deomps_def)
next
  case False
  then have c: "c < 0x2FA40" by (simp add: not_le)
  let ?code = "decomp_index_of (decomp_indices ! unat (drop_bit 6 c))"
  have zero: "di_max_length ?code = 0 \<longleftrightarrow> max_length_of c = 0" by (simp add: max_length_of_def word_unat_eq_iff)
  have found: "canonical_decompose_to False app copy out c =
      (if max_length_of c = 0 then Some (app out c)
       else Option.bind (decompose_loop copy (int (length (mapped_from c)) - int (max_length_of c)) out (mapped_from c)) (\<lambda>(out, ptr).
         let len = length (mapped_from c) - length ptr in Some (if len = 0 then app out c else (out, len))))"
    using c False index_in_range [OF c]
    by (simp add: canonical_decompose_to_def trailing_mapped_deomps_def Let_def zero mapped_from_def [symmetric] max_length_of_def [symmetric])
  have loop_end: "decompose_loop copy e out [0] = Some (out, [0])" for e by (subst decompose_loop.simps) (simp add: load_def)
  have loop_out: "decompose_loop copy e out [] = None" for e by (subst decompose_loop.simps) (simp add: load_def)
  show ?thesis
    using c
  proof (cases rule: slot_cases)
    case unmapped
    have "c < 0x2FA1F" using unmapped(2) by (simp add: word_less_nat_alt)
    then show ?thesis using c False unmapped(1) by (simp add: found slot_chars.simps not_le)
  next
    case (slot xs ys)
    have small: "\<not> 0x2FA40 \<le> c" "\<not> 0x2FA1F \<le> c" using slot(4) by (simp_all add: word_less_nat_alt word_le_nat_alt)
    let ?chars = "slot_chars (max_length_of c) (mapped_from c)"
    have "decompose_loop copy (int (length (mapped_from c)) - int (max_length_of c)) out (mapped_from c) =
        Some (foldl put_char out ?chars, drop (length (concat ?chars)) (mapped_from c))"
      using copy_slot [OF slot(3), of "[0]" out] by (simp add: slot(2))
    moreover have "length (mapped_from c) - length (drop (length (concat ?chars)) (mapped_from c)) = length (concat ?chars)"
      using length_slot_chars [of "max_length_of c" "mapped_from c"] by simp
    moreover have "length (concat ?chars) = 0 \<longleftrightarrow> ?chars = []" using slot_chars_empty by (metis length_0_conv)
    ultimately show ?thesis unfolding found using False slot(1) small by (auto simp: Let_def)
  next
    case ending
    then show ?thesis unfolding found using False by (simp add: loop_end slot_chars.simps)
  next
    case outside
    then show ?thesis unfolding found using c False by (simp add: loop_out)
  qed
qed

end

section \<open>The mapping is the slot up to its padding\<close>

lemma slot_ok_conts: "slot_ok n m xs = Some ys \<Longrightarrow> x \<in> set (take m xs) \<Longrightarrow> 128 \<le> x \<and> x < 192"
proof (induction n m xs rule: slot_ok.induct)
  case (3 n m b r)
  then show ?case by (cases "128 \<le> b \<and> b < 192") auto
qed (simp_all only: take0 take.simps(1) list.set empty_iff slot_ok.simps option.distinct simp_thms if_cancel split: if_splits)

lemma takeWhile_append_all: "\<forall>x\<in>set xs. P x \<Longrightarrow> takeWhile P (xs @ ys) = xs @ takeWhile P ys"
  by (induction xs) auto

lemma slot_chars_concat:
  "slot_ok n 0 xs = Some ys \<Longrightarrow>
     concat (slot_chars n (map word_of_int xs @ tail)) = takeWhile (\<lambda>b. b \<noteq> 0) (take n (map word_of_int xs @ tail))"
proof (induction n arbitrary: xs rule: less_induct)
  case (less n)
  show ?case
  proof (cases n)
    case (Suc n')
    then obtain b r where xs: "xs = b # r" using less.prems by (cases xs) auto
    let ?b = "word_of_int b :: u8"
    show ?thesis
    proof (cases "b = 0")
      case True
      then show ?thesis using Suc xs by (simp add: slot_chars.simps)
    next
      case False
      then have range: "0 < b" "b < 248" "b < 128 \<or> 192 \<le> b"
        using less.prems unfolding Suc xs by (auto split: if_splits)
      then have ub: "unat ?b = nat b" by (simp add: unsigned_of_int take_bit_int_eq_self)
      define k where "k = lead_size ?b - 1"
      have k: "lead_size ?b = Suc k" by (simp add: k_def lead_size_def)
      have b0: "?b \<noteq> 0" using range ub by (auto simp: word_unat_eq_iff)
      have cont: "slot_ok n' k r = Some ys"
        using less.prems range False unfolding Suc xs k_def lead_size_def ub by (auto split: if_splits)
      note moves = slot_ok_continue [OF cont] and fits = slot_ok_rest [OF cont]
      have "word_of_int x \<noteq> (0 :: u8)" if "x \<in> set (take k r)" for x
      proof -
        have "128 \<le> x" "x < 192" using slot_ok_conts [OF cont that] by simp_all
        then have "unat (word_of_int x :: u8) = nat x" by (simp add: unsigned_of_int take_bit_int_eq_self)
        then show ?thesis using \<open>128 \<le> x\<close> by (auto simp: word_unat_eq_iff)
      qed
      then have conts: "\<forall>y\<in>set (map word_of_int (take k r)). y \<noteq> (0 :: u8)" by auto
      have "takeWhile (\<lambda>b. b \<noteq> 0) (take n' (map word_of_int r @ tail)) =
          map word_of_int (take k r) @ takeWhile (\<lambda>b. b \<noteq> 0) (take (n' - k) (map word_of_int (drop k r) @ tail))"
      proof -
        have r: "map word_of_int r @ tail = map word_of_int (take k r) @ map word_of_int (drop k r) @ tail"
          unfolding append_assoc [symmetric] map_append [symmetric] append_take_drop_id ..
        have "take n' (map word_of_int r @ tail) = map word_of_int (take k r) @ take (n' - k) (map word_of_int (drop k r) @ tail)"
          unfolding r using moves fits by (subst take_append) simp
        then show ?thesis using takeWhile_append_all [OF conts] by simp
      qed
      then show ?thesis
        using less.IH [of "n' - k" "drop k r"] moves b0 Suc
        by (subst slot_chars.simps) (simp add: xs k take_map drop_map)
    qed
  qed (simp add: slot_chars.simps)
qed

lemma mapping_of_chars:
  assumes "c < 0x2FA1F"
  shows "concat (slot_chars (max_length_of c) (mapped_from c)) = mapping_of c"
proof -
  have "c < 0x2FA40" using assms by (simp add: word_less_nat_alt)
  then show ?thesis
  proof (cases rule: slot_cases)
    case (slot xs ys)
    then show ?thesis using slot_chars_concat [OF slot(3), of "[0]"] by (simp add: mapping_of_def)
  qed (use assms in \<open>auto simp: mapping_of_def slot_chars.simps take_Cons' word_less_nat_alt word_le_nat_alt\<close>)
qed

lemma length_mapping_of: "length (mapping_of c) \<le> max_length_of c"
  using length_takeWhile_le [of "\<lambda>b. b \<noteq> 0" "take (max_length_of c) (mapped_from c)"] by (simp add: mapping_of_def)

section \<open>The result of the decomposition\<close>

definition outside_table :: "u32 \<Rightarrow> bool" where
  "outside_table c \<longleftrightarrow> 0x2FA1F \<le> c \<and> c < 0x2FA40"

lemma decompose_to8_result:
  "canonical_decompose_to8 False out c =
    (if outside_table c then None
     else if is_hangul_code_point c then Some (decompose_hangul append_utf8 out c)
     else if 0x2FA40 \<le> c \<or> mapping_of c = [] then Some (append_utf8 out c)
     else Some (out @ mapping_of c, length (mapping_of c)))"
proof -
  have foldl: "foldl (@) out xss = out @ concat xss" for out :: "u8 list" and xss by (induction xss arbitrary: out) auto
  have "is_hangul_code_point c \<Longrightarrow> c < 0x2FA1F \<and> \<not> 0x2FA40 \<le> c" by (auto simp: hangul_classes word_less_nat_alt word_le_nat_alt)
  moreover have "mapping_of c = [] \<longleftrightarrow> slot_chars (max_length_of c) (mapped_from c) = []" if "c < 0x2FA1F"
    using mapping_of_chars [OF that] slot_chars_empty by metis
  ultimately show ?thesis
    unfolding canonical_decompose_to8_def copy8.decompose_result outside_table_def Let_def foldl
    using mapping_of_chars by (auto simp: not_le not_less)
qed

text \<open>C11: The decomposition into UTF-8 writes what the table holds for the code point up to its padding, the jamo of
  a syllable, and the code point itself if there is no mapping. It leaves the table for the code points from
  U+2FA1F to U+2FA3F, whose slots are missing. When the assumptions of the code have an effect, it is undefined for
  every code point of a chunk that has a mapping, because their bound is zero.\<close>

theorem canonical_decompose_to8_result:
  "canonical_decompose_to8 assuming out c =
    (if is_hangul_code_point c then Some (decompose_hangul append_utf8 out c)
     else if outside_table c \<or> assuming \<and> c < 0x2FA40 \<and> 0 < max_length_of c then None
     else if 0x2FA40 \<le> c \<or> mapping_of c = [] then Some (append_utf8 out c)
     else Some (out @ mapping_of c, length (mapping_of c)))"
proof (cases "assuming \<and> c < 0x2FA40 \<and> max_length_of c \<noteq> 0 \<and> \<not> is_hangul_code_point c")
  case True
  then show ?thesis using index_in_range [of c]
    by (auto simp: canonical_decompose_to8_def canonical_decompose_to_def trailing_mapped_deomps_def max_utf8_mapped_length_def
        max_length_of_def Let_def word_unat_eq_iff)
next
  case False
  have "canonical_decompose_to8 assuming out c = canonical_decompose_to8 False out c"
    using False index_in_range [of c]
    by (auto simp: canonical_decompose_to8_def canonical_decompose_to_def trailing_mapped_deomps_def max_utf8_mapped_length_def
        max_length_of_def Let_def word_unat_eq_iff not_le)
  moreover have "is_hangul_code_point c \<Longrightarrow> \<not> outside_table c"
    by (auto simp: hangul_classes outside_table_def word_less_nat_alt word_le_nat_alt)
  ultimately show ?thesis unfolding decompose_to8_result using False by auto
qed

end
