(* ===== verification/Decompose_In_Place.thy ===== *)
theory Decompose_In_Place
  imports Decomposition
begin

text \<open>
  The decomposition of a text in place (\<open>unicode/normalization.hpp\<close>): the text is enlarged, moved to
  the end of its buffer, and written from the front while it is read. An output pointer is the buffer with a
  position, and \<^const>\<open>None\<close> after a write outside of it. Two points on which implementations differ are
  parameters: what an enlarged text holds behind its old end (\<open>fill\<close>), and whether a copy between
  ranges that overlap moves the data (\<open>moves\<close>) or is undefined, as the standard has it.
\<close>

section \<open>Writing through a pointer\<close>

type_synonym 'c out_ptr = "('c list \<times> nat) option"

definition put :: "'c out_ptr \<Rightarrow> 'c \<Rightarrow> 'c out_ptr" where
  "put st v = Option.bind st (\<lambda>(buf, ptr). map_option (\<lambda>buf. (buf, Suc ptr)) (store buf ptr v))"

definition put_utf32 :: "u32 out_ptr \<Rightarrow> u32 \<Rightarrow> u32 out_ptr \<times> nat" where
  "put_utf32 st code_point = (put st code_point, 1)"

definition put_utf8 :: "u8 out_ptr \<Rightarrow> u32 \<Rightarrow> u8 out_ptr \<times> nat" where
  "put_utf8 st code_point = (let (octets, n) = append_utf8 [] code_point in (foldl put st octets, n))"

definition put_from8 :: "u8 out_ptr \<Rightarrow> u8 list \<Rightarrow> (u8 out_ptr \<times> u8 list) option" where
  "put_from8 st src = map_option (\<lambda>(octets, src). (foldl put st octets, src)) (copy_into8 [] src)"

definition put_from32 :: "u32 out_ptr \<Rightarrow> u8 list \<Rightarrow> (u32 out_ptr \<times> u8 list) option" where
  "put_from32 st src = map_option (\<lambda>(c, src). (put st c, src)) (next_code_point8 src)"

definition next_code_point32 :: "u32 list \<Rightarrow> (u32 \<times> u32 list) option" where
  "next_code_point32 pos = (case pos of [] \<Rightarrow> None | c # pos \<Rightarrow> Some (c, pos))"

section \<open>The length that is required\<close>

record decomposition_details =
  max_length :: nat
  requires_mapping :: bool

definition mapped_length :: "bool \<Rightarrow> u32 \<Rightarrow> decomposition_details \<Rightarrow> decomposition_details option" where
  "mapped_length is_utf8 code_point info =
     (if is_hangul_code_point code_point then
        map_option (\<lambda>n. \<lparr>max_length = max_length info + n, requires_mapping = True\<rparr>)
          (hangul_decompose_length is_utf8 code_point)
      else if code_point \<ge> trailing_mapped_deomps then Some info
      else map_option (\<lambda>v.
        let code = decomp_index_of v in
        \<lparr>max_length = max_length info + unat (di_max_length code),
         requires_mapping = requires_mapping info \<or> di_max_length code \<noteq> 0\<rparr>)
        (load decomp_indices (unat (drop_bit 6 code_point))))"

partial_function (option) decomp_details_loop ::
  "('c list \<Rightarrow> (u32 \<times> 'c list) option) \<Rightarrow> bool \<Rightarrow> 'c list \<Rightarrow> decomposition_details \<Rightarrow> decomposition_details option" where
  "decomp_details_loop next_cp is_utf8 pos info =
     (if pos = [] then Some info
      else Option.bind (next_cp pos) (\<lambda>(code_point, pos).
        Option.bind (mapped_length is_utf8 code_point info) (\<lambda>info. decomp_details_loop next_cp is_utf8 pos info)))"

definition canon_decomp_details ::
  "('c list \<Rightarrow> (u32 \<times> 'c list) option) \<Rightarrow> bool \<Rightarrow> 'c list \<Rightarrow> decomposition_details option" where
  "canon_decomp_details next_cp is_utf8 str =
     map_option (\<lambda>info. info\<lparr>max_length := max_length info + length str\<rparr>)
       (decomp_details_loop next_cp is_utf8 str \<lparr>max_length = 0, requires_mapping = False\<rparr>)"

definition canonical_decomp_max_size ::
  "('c list \<Rightarrow> (u32 \<times> 'c list) option) \<Rightarrow> bool \<Rightarrow> 'c list \<Rightarrow> nat option" where
  "canonical_decomp_max_size next_cp is_utf8 str = map_option max_length (canon_decomp_details next_cp is_utf8 str)"

section \<open>The decomposition in place\<close>

text \<open>The copy of the first \<open>n\<close> units to a later position.\<close>

definition copy_to :: "bool \<Rightarrow> 'c list \<Rightarrow> nat \<Rightarrow> nat \<Rightarrow> 'c list option" where
  "copy_to moves buf n dest =
     (if length buf < dest + n then None
      else if dest < n \<and> \<not> moves then None
      else Some (take dest buf @ take n buf @ drop (dest + n) buf))"

partial_function (option) overwrite_loop ::
  "('c list \<Rightarrow> (u32 \<times> 'c list) option) \<Rightarrow> ('c out_ptr \<Rightarrow> u32 \<Rightarrow> ('c out_ptr \<times> nat) option)
     \<Rightarrow> nat \<Rightarrow> nat \<Rightarrow> 'c out_ptr \<Rightarrow> 'c out_ptr" where
  "overwrite_loop next_cp decompose backup_start backup_end st =
     Option.bind st (\<lambda>(buf, ptr).
       if backup_start = backup_end then Some (buf, ptr)
       else Option.bind (next_cp (drop backup_start buf)) (\<lambda>(code_point, rest).
         Option.bind (decompose (Some (buf, ptr)) code_point) (\<lambda>(st, _).
           overwrite_loop next_cp decompose (length buf - length rest) backup_end st)))"

definition overwrite ::
  "('c list \<Rightarrow> (u32 \<times> 'c list) option) \<Rightarrow> ('c out_ptr \<Rightarrow> u32 \<Rightarrow> ('c out_ptr \<times> nat) option)
     \<Rightarrow> bool \<Rightarrow> nat \<Rightarrow> 'c list \<Rightarrow> nat \<Rightarrow> 'c out_ptr" where
  "overwrite next_cp decompose moves cur_len buf len =
     (if cur_len = len then overwrite_loop next_cp decompose 0 cur_len (Some (buf, 0))
      else Option.bind (copy_to moves buf cur_len (len - cur_len)) (\<lambda>buf.
        overwrite_loop next_cp decompose (len - cur_len) len (Some (buf, 0))))"

definition canonical_decompose ::
  "('c list \<Rightarrow> (u32 \<times> 'c list) option) \<Rightarrow> bool \<Rightarrow> ('c out_ptr \<Rightarrow> u32 \<Rightarrow> ('c out_ptr \<times> nat) option)
     \<Rightarrow> bool \<Rightarrow> (nat \<Rightarrow> 'c) \<Rightarrow> 'c list \<Rightarrow> 'c list option" where
  "canonical_decompose next_cp is_utf8 decompose moves fill out =
     Option.bind (canon_decomp_details next_cp is_utf8 out) (\<lambda>info.
       if \<not> requires_mapping info then Some out
       else if max_length info < length out then None
       else map_option (\<lambda>(buf, len). take len buf)
         (overwrite next_cp decompose moves (length out)
           (out @ map fill [length out..<max_length info]) (max_length info)))"

definition canonical_decompose32 :: "bool \<Rightarrow> bool \<Rightarrow> (nat \<Rightarrow> u32) \<Rightarrow> u32 list \<Rightarrow> u32 list option" where
  "canonical_decompose32 assuming =
     canonical_decompose next_code_point32 False (canonical_decompose_to assuming put_utf32 put_from32)"

definition canonical_decompose8 :: "bool \<Rightarrow> bool \<Rightarrow> (nat \<Rightarrow> u8) \<Rightarrow> u8 list \<Rightarrow> u8 list option" where
  "canonical_decompose8 assuming =
     canonical_decompose next_code_point8 True (canonical_decompose_to assuming put_utf8 put_from8)"

section \<open>What is added to the length\<close>

definition added_length :: "bool \<Rightarrow> u32 \<Rightarrow> nat" where
  "added_length is_utf8 c =
     (if is_hangul_code_point c then the (hangul_decompose_length is_utf8 c)
      else if c \<ge> trailing_mapped_deomps then 0 else max_length_of c)"

lemma hangul_length_positive:
  "is_hangul_code_point c \<Longrightarrow> \<exists>n. hangul_decompose_length is_utf8 c = Some (Suc n)"
  by (simp add: hangul_decompose_length_def hangul_decompose_length_utf8_def hangul_decompose_length_utf32_def numeral_eq_Suc)

lemma mapped_length_result:
  "mapped_length is_utf8 c info =
     Some \<lparr>max_length = max_length info + added_length is_utf8 c,
       requires_mapping = requires_mapping info \<or> added_length is_utf8 c \<noteq> 0\<rparr>"
proof (cases "is_hangul_code_point c")
  case True
  then show ?thesis using hangul_length_positive [OF True, of is_utf8] by (auto simp: mapped_length_def added_length_def)
next
  case False
  show ?thesis
  proof (cases "c \<ge> trailing_mapped_deomps")
    case outside: False
    then have c: "c < 0x2FA40" by (simp add: trailing_mapped_deomps_def not_le)
    then show ?thesis using False outside index_in_range [OF c]
      by (simp add: mapped_length_def added_length_def max_length_of_def Let_def word_unat_eq_iff)
  qed (use False in \<open>simp add: mapped_length_def added_length_def\<close>)
qed

section \<open>Writing units\<close>

lemma put_undefined [simp]: "foldl put None vs = None"
  by (induction vs) (simp_all add: put_def)

lemma put_units:
  "length vs \<le> length ys \<Longrightarrow>
     foldl put (Some (xs @ ys, length xs)) vs = Some (xs @ vs @ drop (length vs) ys, length xs + length vs)"
proof (induction vs arbitrary: xs ys)
  case (Cons v vs)
  then obtain y ys' where ys: "ys = y # ys'" by (cases ys) auto
  show ?case using Cons.IH [of ys' "xs @ [v]"] Cons.prems by (simp add: ys put_def)
qed simp

section \<open>The text that is written\<close>

text \<open>A way of writing a text in units: how a code point is written and read, and what the decomposition of a code
  point writes. What is written for a code point fits in the place of its units and the length that is added.\<close>

locale decomposed_text =
  fixes enc :: "u32 \<Rightarrow> 'c list" and valid :: "u32 \<Rightarrow> bool" and is_utf8 :: bool
    and next_cp :: "'c list \<Rightarrow> (u32 \<times> 'c list) option"
    and decompose :: "'c out_ptr \<Rightarrow> u32 \<Rightarrow> ('c out_ptr \<times> nat) option"
    and units :: "u32 \<Rightarrow> 'c list option"
  assumes next_enc: "valid c \<Longrightarrow> next_cp (enc c @ rest) = Some (c, rest)"
    and enc_not_empty: "enc c \<noteq> []"
    and decompose_units: "map_option fst (decompose st c) = map_option (foldl put st) (units c)"
    and units_fit: "units c = Some us \<Longrightarrow> length us \<le> length (enc c) + added_length is_utf8 c"
    and units_unmapped: "added_length is_utf8 c = 0 \<Longrightarrow> units c = Some (enc c)"
begin

lemma details_loop_result:
  "\<forall>c\<in>set cs. valid c \<Longrightarrow>
     decomp_details_loop next_cp is_utf8 (concat (map enc cs)) info =
       Some \<lparr>max_length = max_length info + sum_list (map (added_length is_utf8) cs),
         requires_mapping = requires_mapping info \<or> (\<exists>c\<in>set cs. added_length is_utf8 c \<noteq> 0)\<rparr>"
  by (induction cs arbitrary: info)
    (subst decomp_details_loop.simps; auto simp: enc_not_empty next_enc mapped_length_result)+

lemma details_result:
  assumes "\<forall>c\<in>set cs. valid c"
  shows "canon_decomp_details next_cp is_utf8 (concat (map enc cs)) =
    Some \<lparr>max_length = sum_list (map (added_length is_utf8) cs) + length (concat (map enc cs)),
      requires_mapping = (\<exists>c\<in>set cs. added_length is_utf8 c \<noteq> 0)\<rparr>"
  by (simp add: canon_decomp_details_def details_loop_result [OF assms])

lemma overwrite_loop_result:
  assumes "\<forall>c\<in>set cs. valid c" "sum_list (map (added_length is_utf8) cs) \<le> length gap"
  shows "map_option (\<lambda>(buf, len). take len buf)
      (overwrite_loop next_cp decompose (length w + length gap) (length (w @ gap @ concat (map enc cs)))
        (Some (w @ gap @ concat (map enc cs), length w)))
    = map_option (\<lambda>us. w @ concat us) (those (map units cs))"
  using assms
proof (induction cs arbitrary: w gap)
  case Nil
  then show ?case by (subst overwrite_loop.simps) simp
next
  case (Cons c cs)
  let ?rest = "concat (map enc cs)"
  let ?buf = "w @ gap @ enc c @ ?rest"
  have read: "next_cp (drop (length w + length gap) ?buf) = Some (c, ?rest)" using next_enc Cons.prems by simp
  have going: "length w + length gap \<noteq> length ?buf" using enc_not_empty [of c] by simp
  show ?case
  proof (cases "units c")
    case None
    then have "decompose (Some (?buf, length w)) c = None" using decompose_units [of "Some (?buf, length w)" c] by simp
    then show ?thesis using read going by (subst overwrite_loop.simps) (simp add: None)
  next
    case (Some us)
    have fits: "length us \<le> length gap + length (enc c)" using units_fit [OF Some] Cons.prems by simp
    let ?gap = "drop (length us) (gap @ enc c)"
    have "foldl put (Some (?buf, length w)) us = Some (w @ us @ ?gap @ ?rest, length w + length us)"
      using put_units [of us "gap @ enc c @ ?rest" w] fits by simp
    then obtain n where written: "decompose (Some (?buf, length w)) c = Some (Some (w @ us @ ?gap @ ?rest, length w + length us), n)"
      using decompose_units [of "Some (?buf, length w)" c] by (auto simp: Some)
    have start: "length ?buf - length ?rest = length (w @ us) + length ?gap" using fits by simp
    have stop: "length ?buf = length ((w @ us) @ ?gap @ ?rest)" using fits by simp
    have step: "overwrite_loop next_cp decompose (length w + length gap) (length ?buf) (Some (?buf, length w)) =
        overwrite_loop next_cp decompose (length (w @ us) + length ?gap) (length ((w @ us) @ ?gap @ ?rest))
          (Some ((w @ us) @ ?gap @ ?rest, length (w @ us)))"
      using read going written enc_not_empty [of c] unfolding start [symmetric] stop [symmetric]
      by (subst overwrite_loop.simps) simp
    have room: "sum_list (map (added_length is_utf8) cs) \<le> length ?gap" using units_fit [OF Some] Cons.prems fits by simp
    show ?thesis
      using Cons.IH [of ?gap "w @ us"] Cons.prems room step by (simp add: Some option.map_comp comp_def)
  qed
qed

lemma those_unmapped: "\<forall>c\<in>set cs. added_length is_utf8 c = 0 \<Longrightarrow> those (map units cs) = Some (map enc cs)"
  by (induction cs) (simp_all add: units_unmapped)

lemma canonical_decompose_result:
  assumes "\<forall>c\<in>set cs. valid c"
  shows "canonical_decompose next_cp is_utf8 decompose moves fill (concat (map enc cs)) =
    (let n = sum_list (map (added_length is_utf8) cs) in
     if \<not> moves \<and> 0 < n \<and> n < length (concat (map enc cs)) then None
     else map_option concat (those (map units cs)))"
proof -
  let ?str = "concat (map enc cs)" and ?n = "sum_list (map (added_length is_utf8) cs)"
  have none: "?n = 0 \<longleftrightarrow> (\<forall>c\<in>set cs. added_length is_utf8 c = 0)" by (induction cs) auto
  show ?thesis
  proof (cases "?n = 0")
    case True
    then show ?thesis
      using none those_unmapped [of cs] by (simp add: canonical_decompose_def details_result [OF assms] Let_def)
  next
    case False
    let ?fill = "map fill [length ?str..<?n + length ?str]"
    define gap where "gap = take ?n (?str @ ?fill)"
    have gap: "length gap = ?n" by (simp add: gap_def)
    have moved: "copy_to moves (?str @ ?fill) (length ?str) ?n =
        (if \<not> moves \<and> ?n < length ?str then None else Some (gap @ ?str))"
      by (auto simp: copy_to_def gap_def)
    have loop: "map_option (\<lambda>(buf, len). take len buf)
        (overwrite_loop next_cp decompose ?n (?n + length ?str) (Some (gap @ ?str, 0))) =
        map_option concat (those (map units cs))"
      using overwrite_loop_result [OF assms, of gap "[]"] by (simp add: gap)
    have "\<exists>c\<in>set cs. added_length is_utf8 c \<noteq> 0" using False none by simp
    then have "canonical_decompose next_cp is_utf8 decompose moves fill ?str =
        map_option (\<lambda>(buf, len). take len buf)
          (Option.bind (copy_to moves (?str @ ?fill) (length ?str) ?n) (\<lambda>buf.
            overwrite_loop next_cp decompose ?n (?n + length ?str) (Some (buf, 0))))"
      using False by (simp add: canonical_decompose_def details_result [OF assms] overwrite_def del: sum_list_eq_0_iff)
    then show ?thesis using False by (simp add: moved loop Let_def del: sum_list_eq_0_iff)
  qed
qed

lemma max_size_result:
  "\<forall>c\<in>set cs. valid c \<Longrightarrow> canonical_decomp_max_size next_cp is_utf8 (concat (map enc cs)) =
     Some (sum_list (map (added_length is_utf8) cs) + length (concat (map enc cs)))"
  by (simp add: canonical_decomp_max_size_def details_result)

end

section \<open>The two encodings\<close>

lemma append_utf8_at: "append_utf8 out c = (out @ fst (append_utf8 [] c), length (fst (append_utf8 [] c)))"
  by (simp add: append_utf8_def)

definition octets_of :: "u32 \<Rightarrow> u8 list" where
  "octets_of c = fst (append_utf8 [] c)"

lemma append_utf8_octets: "append_utf8 out c = (out @ octets_of c, length (octets_of c))"
  unfolding octets_of_def by (rule append_utf8_at)

interpretation put8: char_copy put_from8 "foldl put"
  by unfold_locales (simp add: put_from8_def copy8.copy_char)

interpretation put32: char_copy put_from32 "\<lambda>st bs. put st (char_value bs)"
proof unfold_locales
  fix b :: u8 and conts rest :: "u8 list" and st :: "u32 out_ptr"
  assume "is_lead b" "Suc (length conts) = lead_size b"
  then have "copy_into32 [] (b # conts @ rest) = Some ([] @ [char_value (b # conts)], rest)" by (rule copy32.copy_char)
  then show "put_from32 st (b # conts @ rest) = Some (put st (char_value (b # conts)), rest)"
    by (auto simp: copy_into32_def put_from32_def append_utf32_def)
qed

definition units8 :: "u32 \<Rightarrow> u8 list option" where
  "units8 c = map_option fst (canonical_decompose_to8 False [] c)"

definition units32 :: "u32 \<Rightarrow> u32 list option" where
  "units32 c = map_option fst (canonical_decompose_to32 False [] c)"

lemma foldl_parts: "foldl (\<lambda>st bs. foldl f st bs) st xss = foldl f st (concat xss)"
  by (induction xss arbitrary: st) simp_all

lemma foldl_append_parts: "foldl (@) xs xss = xs @ concat xss"
  by (induction xss arbitrary: xs) simp_all

lemma foldl_append_values: "foldl (\<lambda>out bs. out @ [f bs]) xs xss = xs @ map f xss"
  by (induction xss arbitrary: xs) simp_all

lemma foldl_put_values: "foldl (\<lambda>st bs. put st (f bs)) st xss = foldl put st (map f xss)"
  by (induction xss arbitrary: st) simp_all

lemma put_hangul8: "fst (decompose_hangul put_utf8 st c) = foldl put st (fst (decompose_hangul append_utf8 [] c))"
  by (simp add: decompose_hangul_def put_utf8_def append_utf8_octets Let_def)

lemma put_hangul32: "fst (decompose_hangul put_utf32 st c) = foldl put st (fst (decompose_hangul append_utf32 [] c))"
  by (simp add: decompose_hangul_def put_utf32_def append_utf32_def Let_def)

lemma decompose_units8:
  "map_option fst (canonical_decompose_to False put_utf8 put_from8 st c) = map_option (foldl put st) (units8 c)"
  unfolding units8_def canonical_decompose_to8_def put8.decompose_result copy8.decompose_result
  by (simp add: put_hangul8 foldl_parts foldl_append_parts Let_def put_utf8_def split_def)

lemma decompose_units32:
  "map_option fst (canonical_decompose_to False put_utf32 put_from32 st c) = map_option (foldl put st) (units32 c)"
  unfolding units32_def canonical_decompose_to32_def put32.decompose_result copy32.decompose_result
  by (simp add: put_hangul32 foldl_put_values [where f = char_value] foldl_append_values [where f = char_value] Let_def put_utf32_def append_utf32_def)

lemma not_hangul_above: "0x2FA40 \<le> c \<Longrightarrow> \<not> is_hangul_code_point c"
  by (auto simp: hangul_classes word_le_nat_alt)

lemma units8_fit:
  assumes "units8 c = Some us"
  shows "length us \<le> length (octets_of c) + added_length True c"
proof (cases "is_hangul_code_point c")
  case True
  have "snd (decompose_hangul append_utf8 [] c) = length (fst (decompose_hangul append_utf8 [] c))"
    by (simp add: decompose_hangul_def append_utf8_octets Let_def)
  then show ?thesis
    using assms True hangul_length_utf8 [OF True, of "[]"] not_hangul_above [of c]
    by (auto simp: units8_def decompose_to8_result added_length_def hangul_decompose_length_def split: if_splits)
next
  case False
  then show ?thesis
    using assms length_mapping_of [of c]
    by (auto simp: units8_def append_utf8_octets decompose_to8_result added_length_def trailing_mapped_deomps_def split: if_splits)
qed

lemma unmapped_empty: "max_length_of c = 0 \<Longrightarrow> mapping_of c = []"
  by (simp add: mapping_of_def)

lemma outside_is_mapped: "outside_table c \<Longrightarrow> max_length_of c \<noteq> 0"
  by (cases rule: slot_cases [of c]) (auto simp: outside_table_def word_less_nat_alt word_le_nat_alt)

lemma unmapped_facts:
  assumes "added_length is_utf8 c = 0"
  shows "\<not> is_hangul_code_point c" "\<not> outside_table c" "0x2FA40 \<le> c \<or> max_length_of c = 0"
proof -
  show hangul: "\<not> is_hangul_code_point c"
    using assms hangul_length_positive [of c is_utf8] by (auto simp: added_length_def)
  then show "0x2FA40 \<le> c \<or> max_length_of c = 0"
    using assms by (auto simp: added_length_def trailing_mapped_deomps_def split: if_splits)
  then show "\<not> outside_table c"
    using outside_is_mapped [of c] by (metis outside_table_def not_le)
qed

lemma units8_unmapped: "added_length True c = 0 \<Longrightarrow> units8 c = Some (octets_of c)"
  using unmapped_facts [of True c] unmapped_empty [of c]
  by (auto simp: units8_def decompose_to8_result append_utf8_octets)

lemma slot_chars_not_empty: "xs \<in> set (slot_chars n src) \<Longrightarrow> xs \<noteq> []"
proof (induction n src rule: slot_chars.induct)
  case (1 n src)
  have "lead_size b \<noteq> 0" for b by (simp add: lead_size_def)
  note [simp] = this
  show ?case using 1 by (subst (asm) (2) slot_chars.simps) (auto split: if_splits list.splits)
qed

lemma length_le_concat: "(\<And>xs. xs \<in> set xss \<Longrightarrow> xs \<noteq> []) \<Longrightarrow> length xss \<le> length (concat xss)"
proof (induction xss)
  case (Cons xs xss)
  obtain y ys where "xs = y # ys" using Cons.prems [of xs] by (cases xs) auto
  moreover have "length xss \<le> length (concat xss)" using Cons by simp
  ultimately show ?case by simp
qed simp

lemma units32_fit:
  assumes "units32 c = Some us"
  shows "length us \<le> 1 + added_length False c"
proof (cases "is_hangul_code_point c")
  case True
  have "length us = (if trailing (decomposed_hangul c) \<noteq> invalid_trailing then 3 else 2)"
    using assms True not_hangul_above [of c]
    by (auto simp: units32_def canonical_decompose_to32_def copy32.decompose_result decompose_hangul_def append_utf32_def Let_def
        split: if_splits)
  then show ?thesis using True hangul_length_positive [OF True, of False]
    by (auto simp: added_length_def hangul_decompose_length_def hangul_decompose_length_utf32_def split: if_splits)
next
  case False
  show ?thesis
  proof (cases "c < 0x2FA1F")
    case True
    let ?chars = "slot_chars (max_length_of c) (mapped_from c)"
    have "length ?chars \<le> length (concat ?chars)" using slot_chars_not_empty by (rule length_le_concat)
    also have "\<dots> \<le> max_length_of c" using mapping_of_chars [OF True] length_mapping_of [of c] by simp
    finally show ?thesis using assms False True
      by (auto simp: units32_def canonical_decompose_to32_def copy32.decompose_result foldl_append_values [where f = char_value]
          append_utf32_def added_length_def trailing_mapped_deomps_def Let_def split: if_splits)
  next
    case above: False
    then show ?thesis using assms False
      by (auto simp: units32_def canonical_decompose_to32_def copy32.decompose_result append_utf32_def split: if_splits)
  qed
qed

lemma units32_unmapped: "added_length False c = 0 \<Longrightarrow> units32 c = Some [c]"
  using unmapped_facts [of False c] unmapped_empty [of c]
  by (auto simp: units32_def canonical_decompose_to32_def copy32.decompose_result append_utf32_def slot_chars.simps outside_table_def
      not_le not_less Let_def)

interpretation text32: decomposed_text "\<lambda>c. [c]" "\<lambda>_. True" False next_code_point32
    "canonical_decompose_to False put_utf32 put_from32" units32
  by unfold_locales (simp_all add: next_code_point32_def decompose_units32 units32_fit [simplified] units32_unmapped)

interpretation text8: decomposed_text octets_of "\<lambda>c. c < 0x200000" True next_code_point8
    "canonical_decompose_to False put_utf8 put_from8" units8
  by unfold_locales
    (simp_all add: octets_of_def next_append_utf8 append_utf8_not_empty decompose_units8 units8_fit [unfolded octets_of_def]
      units8_unmapped [unfolded octets_of_def])

section \<open>The text in place is the text that is written anew\<close>

lemma decompose_text_units:
  assumes "\<And>out c. map_option fst (decompose out c) = map_option (\<lambda>us. out @ us) (units c)"
  shows "map_option fst (decompose_text_to decompose out cs count) = map_option (\<lambda>us. out @ concat us) (those (map units cs))"
proof (induction cs arbitrary: out count)
  case (Cons c cs)
  show ?case
  proof (cases "units c")
    case None
    then have "decompose out c = None" using assms [of out c] by simp
    then show ?thesis by (simp add: None)
  next
    case (Some us)
    then obtain n where "decompose out c = Some (out @ us, n)" using assms [of out c] by auto
    then show ?thesis using Cons.IH by (simp add: Some option.map_comp comp_def)
  qed
qed simp

lemma decompose_hangul8_at: "fst (decompose_hangul append_utf8 out c) = out @ fst (decompose_hangul append_utf8 [] c)"
  by (simp add: decompose_hangul_def append_utf8_octets Let_def)

lemma decompose_hangul32_at: "fst (decompose_hangul append_utf32 out c) = out @ fst (decompose_hangul append_utf32 [] c)"
  by (simp add: decompose_hangul_def append_utf32_def Let_def)

lemma units8_at: "map_option fst (canonical_decompose_to8 False out c) = map_option (\<lambda>us. out @ us) (units8 c)"
  by (simp add: units8_def decompose_to8_result append_utf8_octets decompose_hangul8_at [of out])

lemma units32_at: "map_option fst (canonical_decompose_to32 False out c) = map_option (\<lambda>us. out @ us) (units32 c)"
  by (simp add: units32_def canonical_decompose_to32_def copy32.decompose_result append_utf32_def decompose_hangul32_at [of out]
      foldl_append_values [where f = char_value] Let_def)

lemma text_units8:
  "map_option fst (decompose_text_to (canonical_decompose_to8 False) [] cs 0) = map_option concat (those (map units8 cs))"
  using decompose_text_units [where decompose = "canonical_decompose_to8 False" and units = units8, OF units8_at] by simp

lemma text_units32:
  "map_option fst (decompose_text_to (canonical_decompose_to32 False) [] cs 0) = map_option concat (those (map units32 cs))"
  using decompose_text_units [where decompose = "canonical_decompose_to32 False" and units = units32, OF units32_at] by simp

text \<open>C9: The decomposition in place of a text of UTF-32 gives what the decomposition of its code points one after
  the other appends to an empty text: no part is overwritten before it is read, and nothing is written outside of the
  buffer of the length that was computed. Both are undefined for the same texts, except that the copy to the end of the
  buffer has overlapping ranges, which only some implementations of the copy allow, when the text grows by less
  than its length.\<close>

theorem canonical_decompose32_result:
  "canonical_decompose32 False moves fill str =
    (if \<exists>n. canonical_decomp_max_size next_code_point32 False str = Some n
          \<and> length str < n \<and> n < 2 * length str \<and> moves = False then None
     else map_option fst (decompose_text_to (canonical_decompose_to32 False) [] str 0))"
  using text32.canonical_decompose_result [of str moves fill] text32.max_size_result [of str]
  by (auto simp: canonical_decompose32_def Let_def text_units32 simp del: sum_list_eq_0_iff)

text \<open>C10: The same holds for the UTF-8 of code points of up to 21 bits, in a build where
  \<^verbatim>\<open>webpp_assume\<close> has no effect: the decomposition in place gives what the decomposition of the code points
  one after the other appends, unless the text grows, by less than its length, where copies between overlapping
  ranges are undefined.\<close>

theorem canonical_decompose8_result:
  assumes "\<forall>c\<in>set cs. c < 0x200000"
  shows "canonical_decompose8 False moves fill (utf8_of cs) =
    (if \<exists>n. canonical_decomp_max_size next_code_point8 True (utf8_of cs) = Some n
          \<and> length (utf8_of cs) < n \<and> n < 2 * length (utf8_of cs) \<and> moves = False then None
     else map_option fst (decompose_text_to (canonical_decompose_to8 False) [] cs 0))"
  using text8.canonical_decompose_result [OF assms, of moves fill] text8.max_size_result [OF assms]
  by (auto simp: canonical_decompose8_def Let_def text_units8 utf8_of_def octets_of_def [symmetric] simp del: sum_list_eq_0_iff)

theorem canonical_decompose8_result_witness:
  "canonical_decompose8 False True (\<lambda>_. 0) (utf8_of [0x41, 0x2F9FF]) =
    (if \<exists>n. canonical_decomp_max_size next_code_point8 True (utf8_of [0x41, 0x2F9FF]) = Some n
          \<and> length (utf8_of [0x41, 0x2F9FF]) < n \<and> n < 2 * length (utf8_of [0x41, 0x2F9FF]) \<and> True = False then None
     else map_option fst (decompose_text_to (canonical_decompose_to8 False) [] [0x41, 0x2F9FF] 0))"
  by (rule canonical_decompose8_result) simp

end
