(* ===== verification/Idna_Table.thy ===== *)
theory Idna_Table
  imports Webpp_Prelude
begin

text \<open>
  The array \<^verbatim>\<open>idna_mapping_table\<close> of
  \<^verbatim>\<open>webpp/uri/idna/details/idna_mapping_table.hpp\<close>, number by number. It is cut into pieces of
  whole lines, each with the check that its first code points increase, from the last one of the piece
  before it.
\<close>

text \<open>The first code points of the entries, whose numbers have their highest bit set, increase; the result is
  the last of them.\<close>

fun check_starts :: "int \<Rightarrow> int list \<Rightarrow> int option" where
  "check_starts p [] = Some p"
| "check_starts p (x # xs) =
     (if x < 2147483648 then (if 0 \<le> x then check_starts p xs else None)
      else if x < 4294967296 \<and> p < x mod 16777216 then check_starts (x mod 16777216) xs
      else None)"

lemma check_starts_append:
  "check_starts p xs = Some q \<Longrightarrow> check_starts p (xs @ ys) = check_starts q ys"
  by (induction p xs rule: check_starts.induct) (auto split: if_splits)

lemmas check_starts_literal = check_starts.simps if_True

definition idna_mapping_table_0 :: "int list" where
  "idna_mapping_table_0 =
    [2566914113, 2130706529, 4278190208, 159, 2147483808, 32, 2147483816, 32, 776, 2147483818, 97,
     2147483821, 2147483823, 32, 772, 2164261042, 2130706482, 2147483828, 32, 769, 2147483829, 956,
     2147483832, 32, 807, 2147483833, 49, 2147483834, 111, 2147483836, 49, 8260, 52, 2147483837, 49, 8260,
     50, 2147483838, 51, 8260, 52, 2516582592, 2130706656, 2248147160, 2130706680, 2147483904, 257,
     2147483906, 259, 2147483908, 261, 2147483910, 263, 2147483912, 265, 2147483914, 267, 2147483916, 269,
     2147483918, 271, 2147483920, 273, 2147483922, 275, 2147483924, 277, 2147483926, 279, 2147483928, 281,
     2147483930, 283, 2147483932, 285, 2147483934, 287, 2147483936, 289, 2147483938, 291, 2147483940, 293,
     2147483942, 295, 2147483944, 297, 2147483946, 299, 2147483948, 301, 2147483950, 303, 2147483952, 105,
     775, 2164261170, 105, 106, 2147483956, 309, 2147483958, 311, 2147483961, 314, 2147483963, 316,
     2147483965, 318, 2164261183, 108, 183, 2147483969, 322, 2147483971, 324, 2147483973, 326, 2147483975,
     328, 2147483977, 700, 110, 2147483978, 331, 2147483980, 333, 2147483982, 335, 2147483984, 337,
     2147483986, 339, 2147483988, 341, 2147483990, 343, 2147483992, 345, 2147483994, 347, 2147483996, 349,
     2147483998, 351, 2147484000, 353, 2147484002, 355, 2147484004, 357, 2147484006, 359, 2147484008, 361,
     2147484010, 363, 2147484012, 365, 2147484014, 367, 2147484016, 369, 2147484018, 371, 2147484020, 373,
     2147484022, 375, 2147484024, 255, 2147484025, 378, 2147484027, 380, 2147484029, 382, 2147484031, 115,
     2147484033, 595, 2147484034, 387, 2147484036, 389, 2147484038, 596, 2147484039, 392, 2164261257,
     2130707030, 2147484043, 396, 2147484046, 477, 2147484047, 601, 2147484048, 603, 2147484049, 402,
     2147484051, 608, 2147484052, 611, 2147484054, 617, 2147484055, 616, 2147484056, 409, 2147484060, 623,
     2147484061, 626, 2147484063, 629, 2147484064, 417, 2147484066, 419, 2147484068, 421, 2147484070, 640,
     2147484071, 424, 2147484073, 643, 2147484076, 429, 2147484078, 648, 2147484079, 432, 2164261297,
     2130707082, 2147484083, 436, 2147484085, 438, 2147484087, 658, 2147484088, 441, 2147484092, 445,
     2181038532, 100, 382, 2181038535, 108, 106, 2181038538, 110, 106, 2147484109, 462, 2147484111, 464,
     2147484113, 466, 2147484115, 468, 2147484117, 470, 2147484119, 472, 2147484121, 474, 2147484123, 476,
     2147484126, 479, 2147484128, 481, 2147484130, 483, 2147484132, 485, 2147484134, 487, 2147484136, 489,
     2147484138, 491, 2147484140, 493, 2147484142, 495, 2181038577, 100, 122, 2147484148, 501, 2147484150,
     405, 2147484151, 447, 2147484152, 505, 2147484154, 507, 2147484156, 509, 2147484158, 511, 2147484160,
     513, 2147484162, 515, 2147484164, 517, 2147484166, 519]"

lemma check_starts_0: "check_starts (- 1) idna_mapping_table_0 = Some 518"
  by code_simp

definition idna_mapping_table_1 :: "int list" where
  "idna_mapping_table_1 =
    [2147484168, 521, 2147484170, 523, 2147484172, 525, 2147484174, 527, 2147484176, 529, 2147484178, 531,
     2147484180, 533, 2147484182, 535, 2147484184, 537, 2147484186, 539, 2147484188, 541, 2147484190, 543,
     2147484192, 414, 2147484194, 547, 2147484196, 549, 2147484198, 551, 2147484200, 553, 2147484202, 555,
     2147484204, 557, 2147484206, 559, 2147484208, 561, 2147484210, 563, 2147484218, 11365, 2147484219, 572,
     2147484221, 410, 2147484222, 11366, 2147484225, 578, 2147484227, 384, 2147484228, 649, 2147484229, 652,
     2147484230, 583, 2147484232, 585, 2147484234, 587, 2147484236, 589, 2147484238, 591, 2147484336, 104,
     2147484337, 614, 2147484338, 106, 2147484339, 114, 2147484340, 633, 2147484341, 635, 2147484342, 641,
     2147484343, 119, 2147484344, 121, 2147484376, 32, 774, 2147484377, 32, 775, 2147484378, 32, 778,
     2147484379, 32, 808, 2147484380, 32, 771, 2147484381, 32, 779, 2147484384, 611, 2147484385, 108,
     2147484386, 115, 2147484387, 120, 2147484388, 661, 2164261696, 2130707200, 2147484483, 787, 2147484484,
     776, 769, 2147484485, 953, 2147484495, 2147484528, 881, 2147484530, 883, 2147484532, 697, 2147484534,
     887, 4278190968, 889, 2147484538, 32, 953, 2147484542, 59, 2147484543, 1011, 4278190976, 899,
     2147484548, 32, 769, 2147484549, 32, 776, 769, 2147484550, 940, 2147484551, 183, 2181038984,
     2130707373, 4278190987, 907, 2147484556, 972, 4278190989, 909, 2164261774, 2130707405, 2415920017,
     2130707377, 4278191010, 930, 2281702307, 2130707395, 2147484623, 983, 2147484624, 946, 2147484625, 952,
     2147484626, 965, 2147484627, 973, 2147484628, 971, 2147484629, 966, 2147484630, 960, 2147484632, 985,
     2147484634, 987, 2147484636, 989, 2147484638, 991, 2147484640, 993, 2147484642, 995, 2147484644, 997,
     2147484646, 999, 2147484648, 1001, 2147484650, 1003, 2147484652, 1005, 2147484654, 1007, 2147484656,
     954, 2147484657, 961, 2147484658, 963, 2147484660, 952, 2147484661, 949, 2147484663, 1016, 2147484665,
     963, 2147484666, 1019, 2181039101, 2130707323, 2399142912, 2130707536, 2667578384, 2130707504,
     2147484768, 1121, 2147484770, 1123, 2147484772, 1125, 2147484774, 1127, 2147484776, 1129, 2147484778,
     1131, 2147484780, 1133, 2147484782, 1135, 2147484784, 1137, 2147484786, 1139, 2147484788, 1141,
     2147484790, 1143, 2147484792, 1145, 2147484794, 1147, 2147484796, 1149, 2147484798, 1151, 2147484800,
     1153, 2147484810, 1163, 2147484812, 1165, 2147484814, 1167, 2147484816, 1169, 2147484818, 1171,
     2147484820, 1173, 2147484822, 1175, 2147484824, 1177, 2147484826, 1179, 2147484828, 1181, 2147484830,
     1183, 2147484832, 1185, 2147484834, 1187, 2147484836, 1189, 2147484838, 1191, 2147484840, 1193,
     2147484842, 1195, 2147484844, 1197, 2147484846, 1199, 2147484848, 1201]"

lemma check_starts_1: "check_starts 518 idna_mapping_table_1 = Some 1200"
  by code_simp

definition idna_mapping_table_2 :: "int list" where
  "idna_mapping_table_2 =
    [2147484850, 1203, 2147484852, 1205, 2147484854, 1207, 2147484856, 1209, 2147484858, 1211, 2147484860,
     1213, 2147484862, 1215, 4278191296, 1216, 2147484865, 1218, 2147484867, 1220, 2147484869, 1222,
     2147484871, 1224, 2147484873, 1226, 2147484875, 1228, 2147484877, 1230, 2147484880, 1233, 2147484882,
     1235, 2147484884, 1237, 2147484886, 1239, 2147484888, 1241, 2147484890, 1243, 2147484892, 1245,
     2147484894, 1247, 2147484896, 1249, 2147484898, 1251, 2147484900, 1253, 2147484902, 1255, 2147484904,
     1257, 2147484906, 1259, 2147484908, 1261, 2147484910, 1263, 2147484912, 1265, 2147484914, 1267,
     2147484916, 1269, 2147484918, 1271, 2147484920, 1273, 2147484922, 1275, 2147484924, 1277, 2147484926,
     1279, 2147484928, 1281, 2147484930, 1283, 2147484932, 1285, 2147484934, 1287, 2147484936, 1289,
     2147484938, 1291, 2147484940, 1293, 2147484942, 1295, 2147484944, 1297, 2147484946, 1299, 2147484948,
     1301, 2147484950, 1303, 2147484952, 1305, 2147484954, 1307, 2147484956, 1309, 2147484958, 1311,
     2147484960, 1313, 2147484962, 1315, 2147484964, 1317, 2147484966, 1319, 2147484968, 1321, 2147484970,
     1323, 2147484972, 1325, 2147484974, 1327, 4278191408, 1328, 2768241969, 2130707809, 4278191447, 1368,
     2147485063, 1381, 1410, 4278191499, 1420, 4278191504, 1424, 4278191560, 1487, 4278191595, 1518,
     4278191605, 1541, 4278191644, 1564, 2147485301, 1575, 1652, 2147485302, 1608, 1652, 2147485303, 1735,
     1652, 2147485304, 1610, 1652, 4278191837, 1757, 4278191886, 1807, 4278191947, 1868, 4278192050, 1983,
     4278192123, 2044, 4278192174, 2095, 4278192191, 2111, 4278192220, 2141, 4278192223, 2143, 4278192235,
     2159, 4278192271, 2199, 4278192354, 2274, 2147486040, 2325, 2364, 2147486041, 2326, 2364, 2147486042,
     2327, 2364, 2147486043, 2332, 2364, 2147486044, 2337, 2364, 2147486045, 2338, 2364, 2147486046, 2347,
     2364, 2147486047, 2351, 2364, 4278192516, 2436, 4278192525, 2446, 4278192529, 2450, 4278192553, 2473,
     4278192561, 2481, 4278192563, 2485, 4278192570, 2491, 4278192581, 2502, 4278192585, 2506, 4278192591,
     2518, 4278192600, 2523, 2147486172, 2465, 2492, 2147486173, 2466, 2492, 4278192606, 2526, 2147486175,
     2479, 2492, 4278192612, 2533, 4278192639, 2560, 4278192644, 2564, 4278192651, 2574, 4278192657, 2578,
     4278192681, 2601, 4278192689, 2609, 2147486259, 2610, 2620, 4278192692, 2612, 2147486262, 2616, 2620,
     4278192695, 2615, 4278192698, 2619, 4278192701, 2621, 4278192707, 2630, 4278192713, 2634, 4278192718,
     2640, 4278192722, 2648, 2147486297, 2582, 2620, 2147486298, 2583, 2620, 2147486299, 2588, 2620,
     4278192733, 2653, 2147486302, 2603, 2620, 4278192735, 2661, 4278192759, 2688, 4278192772, 2692,
     4278192782, 2702, 4278192786, 2706, 4278192809, 2729, 4278192817, 2737, 4278192820, 2740, 4278192826,
     2747, 4278192838, 2758, 4278192842, 2762, 4278192846, 2767, 4278192849, 2783, 4278192868, 2789,
     4278192882, 2808]"

lemma check_starts_2: "check_starts 1200 idna_mapping_table_2 = Some 2802"
  by code_simp

definition idna_mapping_table_3 :: "int list" where
  "idna_mapping_table_3 =
    [4278192896, 2816, 4278192900, 2820, 4278192909, 2830, 4278192913, 2834, 4278192937, 2857, 4278192945,
     2865, 4278192948, 2868, 4278192954, 2875, 4278192965, 2886, 4278192969, 2890, 4278192974, 2900,
     4278192984, 2907, 2147486556, 2849, 2876, 2147486557, 2850, 2876, 4278192990, 2910, 4278192996, 2917,
     4278193016, 2945, 4278193028, 2948, 4278193035, 2957, 4278193041, 2961, 4278193046, 2968, 4278193051,
     2971, 4278193053, 2973, 4278193056, 2978, 4278193061, 2983, 4278193067, 2989, 4278193082, 3005,
     4278193091, 3013, 4278193097, 3017, 4278193102, 3023, 4278193105, 3030, 4278193112, 3045, 4278193147,
     3071, 4278193165, 3085, 4278193169, 3089, 4278193193, 3113, 4278193210, 3131, 4278193221, 3141,
     4278193225, 3145, 4278193230, 3156, 4278193239, 3159, 4278193243, 3164, 4278193246, 3167, 4278193252,
     3173, 4278193264, 3190, 4278193293, 3213, 4278193297, 3217, 4278193321, 3241, 4278193332, 3252,
     4278193338, 3259, 4278193349, 3269, 4278193353, 3273, 4278193358, 3284, 4278193367, 3292, 4278193375,
     3295, 4278193380, 3301, 4278193392, 3312, 4278193396, 3327, 4278193421, 3341, 4278193425, 3345,
     4278193477, 3397, 4278193481, 3401, 4278193488, 3411, 4278193508, 3429, 4278193536, 3456, 4278193540,
     3460, 4278193559, 3481, 4278193586, 3506, 4278193596, 3516, 4278193598, 3519, 4278193607, 3529,
     4278193611, 3534, 4278193621, 3541, 4278193623, 3543, 4278193632, 3557, 4278193648, 3569, 4278193653,
     3584, 2147487283, 3661, 3634, 4278193723, 3646, 4278193756, 3712, 4278193795, 3715, 4278193797, 3717,
     4278193803, 3723, 4278193828, 3748, 4278193830, 3750, 2147487411, 3789, 3762, 4278193854, 3775,
     4278193861, 3781, 4278193863, 3783, 4278193871, 3791, 4278193882, 3803, 2147487452, 3755, 3737,
     2147487453, 3755, 3745, 4278193888, 3839, 2147487500, 3851, 2147487555, 3906, 4023, 4278193992, 3912,
     2147487565, 3916, 4023, 2147487570, 3921, 4023, 2147487575, 3926, 4023, 2147487580, 3931, 4023,
     2147487593, 3904, 4021, 4278194029, 3952, 2147487603, 3953, 3954, 2147487605, 3953, 3956, 2147487606,
     4018, 3968, 2147487607, 4018, 3953, 3968, 2147487608, 4019, 3968, 2147487609, 4019, 3953, 3968,
     2147487617, 3953, 3968, 2147487635, 3986, 4023, 4278194072, 3992, 2147487645, 3996, 4023, 2147487650,
     4001, 4023, 2147487655, 4006, 4023, 2147487660, 4011, 4023, 2147487673, 3984, 4021, 4278194109, 4029,
     4278194125, 4045, 4278194139, 4095, 4278194336, 4294, 2147487943, 11559, 4278194376, 4300, 2147487949,
     11565, 4278194382, 4303, 2147487996, 4316, 4278194527, 4448, 4278194761, 4681, 4278194766, 4687,
     4278194775, 4695, 4278194777, 4697, 4278194782, 4703, 4278194825, 4745, 4278194830, 4751, 4278194865,
     4785, 4278194870, 4791, 4278194879, 4799, 4278194881, 4801, 4278194886, 4807, 4278194903, 4823,
     4278194961, 4881, 4278194966, 4887, 4278195035, 4956, 4278195069, 4991, 4278195098, 5023, 4278195190,
     5111, 2231374840, 2130711536, 4278195198, 5119, 4278195840, 5760]"

lemma check_starts_3: "check_starts 2802 idna_mapping_table_3 = Some 5760"
  by code_simp

definition idna_mapping_table_4 :: "int list" where
  "idna_mapping_table_4 =
    [4278195869, 5791, 4278195961, 5887, 4278195990, 5918, 4278196023, 5951, 4278196052, 5983, 4278196077,
     5997, 4278196081, 6001, 4278196084, 6015, 4278196148, 6069, 4278196190, 6111, 4278196202, 6127,
     4278196218, 6143, 4278196230, 6150, 2181044235, 4278196238, 6158, 2147489807, 4278196250, 6175,
     4278196345, 6271, 4278196395, 6319, 4278196470, 6399, 4278196511, 6431, 4278196524, 6447, 4278196540,
     6463, 4278196545, 6467, 4278196590, 6511, 4278196597, 6527, 4278196652, 6575, 4278196682, 6607,
     4278196699, 6621, 4278196764, 6685, 4278196831, 6751, 4278196861, 6782, 4278196874, 6799, 4278196890,
     6815, 4278196910, 6831, 4278196943, 6911, 4278197069, 6991, 4278197119, 7039, 4278197236, 7163,
     4278197304, 7226, 4278197322, 7244, 2147490944, 1074, 2147490945, 1076, 2147490946, 1086, 2147490947,
     1089, 2164268164, 1090, 2147490950, 1098, 2147490951, 1123, 2147490952, 42571, 4278197385, 7311,
     2852134032, 2130710736, 4278197435, 7356, 2181045437, 2130710781, 4278197448, 7375, 4278197499, 7423,
     2147491116, 97, 2147491117, 230, 2147491118, 98, 2164268336, 2130706532, 2147491122, 477, 2264931635,
     2130706535, 2147491132, 111, 2147491133, 547, 2147491134, 112, 2147491135, 114, 2164268352, 2130706548,
     2147491138, 119, 2147491139, 97, 2164268356, 2130707024, 2147491142, 7426, 2147491143, 98, 2164268360,
     2130706532, 2147491146, 601, 2164268363, 2130707035, 2147491149, 103, 2147491151, 107, 2147491152, 109,
     2147491153, 331, 2147491154, 111, 2147491155, 596, 2164268372, 2130713878, 2147491158, 112, 2164268375,
     2130706548, 2147491161, 7453, 2147491162, 623, 2147491163, 118, 2147491164, 7461, 2181045597,
     2130707378, 2164268384, 2130707398, 2147491170, 105, 2147491171, 114, 2164268388, 2130706549,
     2164268390, 2130707378, 2147491176, 961, 2164268393, 2130707398, 2147491192, 1085, 2147491227, 594,
     2147491228, 99, 2147491229, 597, 2147491230, 240, 2147491231, 604, 2147491232, 102, 2147491233, 607,
     2147491234, 609, 2147491235, 613, 2181045668, 2130707048, 2147491239, 7547, 2147491240, 669,
     2147491241, 621, 2147491242, 7557, 2147491243, 671, 2147491244, 625, 2147491245, 624, 2197822894,
     2130707058, 2147491250, 632, 2164268467, 2130707074, 2147491253, 427, 2164268470, 2130707081,
     2147491256, 7452, 2164268473, 2130707083, 2147491259, 122, 2181045692, 2130707088, 2147491263, 952,
     2147491328, 7681, 2147491330, 7683, 2147491332, 7685, 2147491334, 7687, 2147491336, 7689, 2147491338,
     7691, 2147491340, 7693, 2147491342, 7695, 2147491344, 7697, 2147491346, 7699, 2147491348, 7701,
     2147491350, 7703, 2147491352, 7705, 2147491354, 7707, 2147491356, 7709, 2147491358, 7711, 2147491360,
     7713, 2147491362, 7715, 2147491364, 7717, 2147491366, 7719, 2147491368, 7721, 2147491370, 7723,
     2147491372, 7725, 2147491374, 7727, 2147491376, 7729, 2147491378, 7731]"

lemma check_starts_4: "check_starts 5760 idna_mapping_table_4 = Some 7730"
  by code_simp

definition idna_mapping_table_5 :: "int list" where
  "idna_mapping_table_5 =
    [2147491380, 7733, 2147491382, 7735, 2147491384, 7737, 2147491386, 7739, 2147491388, 7741, 2147491390,
     7743, 2147491392, 7745, 2147491394, 7747, 2147491396, 7749, 2147491398, 7751, 2147491400, 7753,
     2147491402, 7755, 2147491404, 7757, 2147491406, 7759, 2147491408, 7761, 2147491410, 7763, 2147491412,
     7765, 2147491414, 7767, 2147491416, 7769, 2147491418, 7771, 2147491420, 7773, 2147491422, 7775,
     2147491424, 7777, 2147491426, 7779, 2147491428, 7781, 2147491430, 7783, 2147491432, 7785, 2147491434,
     7787, 2147491436, 7789, 2147491438, 7791, 2147491440, 7793, 2147491442, 7795, 2147491444, 7797,
     2147491446, 7799, 2147491448, 7801, 2147491450, 7803, 2147491452, 7805, 2147491454, 7807, 2147491456,
     7809, 2147491458, 7811, 2147491460, 7813, 2147491462, 7815, 2147491464, 7817, 2147491466, 7819,
     2147491468, 7821, 2147491470, 7823, 2147491472, 7825, 2147491474, 7827, 2147491476, 7829, 2147491482,
     97, 702, 2147491483, 7777, 2147491486, 223, 2147491488, 7841, 2147491490, 7843, 2147491492, 7845,
     2147491494, 7847, 2147491496, 7849, 2147491498, 7851, 2147491500, 7853, 2147491502, 7855, 2147491504,
     7857, 2147491506, 7859, 2147491508, 7861, 2147491510, 7863, 2147491512, 7865, 2147491514, 7867,
     2147491516, 7869, 2147491518, 7871, 2147491520, 7873, 2147491522, 7875, 2147491524, 7877, 2147491526,
     7879, 2147491528, 7881, 2147491530, 7883, 2147491532, 7885, 2147491534, 7887, 2147491536, 7889,
     2147491538, 7891, 2147491540, 7893, 2147491542, 7895, 2147491544, 7897, 2147491546, 7899, 2147491548,
     7901, 2147491550, 7903, 2147491552, 7905, 2147491554, 7907, 2147491556, 7909, 2147491558, 7911,
     2147491560, 7913, 2147491562, 7915, 2147491564, 7917, 2147491566, 7919, 2147491568, 7921, 2147491570,
     7923, 2147491572, 7925, 2147491574, 7927, 2147491576, 7929, 2147491578, 7931, 2147491580, 7933,
     2147491582, 7935, 2264932104, 2130714368, 4278198038, 7959, 2231377688, 2130714384, 4278198046, 7967,
     2264932136, 2130714400, 2264932152, 2130714416, 4278198086, 8007, 2231377736, 2130714432, 4278198094,
     8015, 4278198104, 8024, 2147491673, 8017, 4278198106, 8026, 2147491675, 8019, 4278198108, 8028,
     2147491677, 8021, 4278198110, 8030, 2147491679, 8023, 2264932200, 2130714464, 2147491697, 940,
     2147491699, 941, 2147491701, 942, 2147491703, 943, 2147491705, 972, 2147491707, 973, 2147491709, 974,
     4278198142, 8063, 2147491712, 7936, 953, 2147491713, 7937, 953, 2147491714, 7938, 953, 2147491715,
     7939, 953, 2147491716, 7940, 953, 2147491717, 7941, 953, 2147491718, 7942, 953, 2147491719, 7943, 953,
     2147491720, 7936, 953, 2147491721, 7937, 953, 2147491722, 7938, 953, 2147491723, 7939, 953, 2147491724,
     7940, 953, 2147491725, 7941, 953, 2147491726, 7942, 953, 2147491727, 7943, 953, 2147491728, 7968, 953,
     2147491729, 7969, 953, 2147491730, 7970, 953, 2147491731, 7971, 953, 2147491732, 7972, 953, 2147491733,
     7973, 953, 2147491734, 7974, 953]"

lemma check_starts_5: "check_starts 7730 idna_mapping_table_5 = Some 8086"
  by code_simp

definition idna_mapping_table_6 :: "int list" where
  "idna_mapping_table_6 =
    [2147491735, 7975, 953, 2147491736, 7968, 953, 2147491737, 7969, 953, 2147491738, 7970, 953, 2147491739,
     7971, 953, 2147491740, 7972, 953, 2147491741, 7973, 953, 2147491742, 7974, 953, 2147491743, 7975, 953,
     2147491744, 8032, 953, 2147491745, 8033, 953, 2147491746, 8034, 953, 2147491747, 8035, 953, 2147491748,
     8036, 953, 2147491749, 8037, 953, 2147491750, 8038, 953, 2147491751, 8039, 953, 2147491752, 8032, 953,
     2147491753, 8033, 953, 2147491754, 8034, 953, 2147491755, 8035, 953, 2147491756, 8036, 953, 2147491757,
     8037, 953, 2147491758, 8038, 953, 2147491759, 8039, 953, 2147491762, 8048, 953, 2147491763, 945, 953,
     2147491764, 940, 953, 4278198197, 8117, 2147491767, 8118, 953, 2164268984, 2130714544, 2147491770,
     8048, 2147491771, 940, 2147491772, 945, 953, 2147491773, 32, 787, 2147491774, 953, 2147491775, 32, 787,
     2147491776, 32, 834, 2147491777, 32, 776, 834, 2147491778, 8052, 953, 2147491779, 951, 953, 2147491780,
     942, 953, 4278198213, 8133, 2147491783, 8134, 953, 2147491784, 8050, 2147491785, 941, 2147491786, 8052,
     2147491787, 942, 2147491788, 951, 953, 2147491789, 32, 787, 768, 2147491790, 32, 787, 769, 2147491791,
     32, 787, 834, 2147491795, 912, 4278198228, 8149, 2164269016, 2130714576, 2147491802, 8054, 2147491803,
     943, 4278198236, 8156, 2147491805, 32, 788, 768, 2147491806, 32, 788, 769, 2147491807, 32, 788, 834,
     2147491811, 944, 2164269032, 2130714592, 2147491818, 8058, 2147491819, 973, 2147491820, 8165,
     2147491821, 32, 776, 768, 2147491822, 32, 776, 769, 2147491823, 96, 4278198256, 8177, 2147491826, 8060,
     953, 2147491827, 969, 953, 2147491828, 974, 953, 4278198261, 8181, 2147491831, 8182, 953, 2147491832,
     8056, 2147491833, 972, 2147491834, 8060, 2147491835, 974, 2147491836, 969, 953, 2147491837, 32, 769,
     2147491838, 32, 788, 4278198271, 8191, 2315264000, 32, 2147491851, 4278198286, 8207, 2147491857, 8208,
     2147491863, 32, 819, 4278198308, 8230, 4278198312, 8238, 2147491887, 32, 2147491891, 8242, 8242,
     2147491892, 8242, 8242, 8242, 2147491894, 8245, 8245, 2147491895, 8245, 8245, 8245, 2147491900, 33, 33,
     2147491902, 32, 773, 2147491911, 63, 63, 2147491912, 63, 33, 2147491913, 33, 63, 2147491927, 8242,
     8242, 8242, 8242, 2147491935, 32, 2147491936, 4278198369, 8291, 2147491940, 4278198373, 8303,
     2147491952, 48, 2147491953, 105, 4278198386, 8307, 2231378036, 2130706484, 2147491962, 43, 2147491963,
     8722, 2147491964, 61, 2164269181, 2130706472, 2147491967, 110, 2298486912, 2130706480, 2147491978, 43,
     2147491979, 8722, 2147491980, 61, 2164269197, 2130706472, 4278198415, 8335, 2147491984, 97, 2147491985,
     101, 2147491986, 111, 2147491987, 120, 2147491988, 601, 2147491989, 104, 2197823638, 2130706539,
     2147491994, 112, 2164269211, 2130706547, 4278198429, 8351, 2147492008, 114, 115, 4278198465, 8399,
     4278198513, 8447, 2147492096, 97, 47, 99, 2147492097, 97, 47, 115, 2147492098, 99, 2147492099, 176, 99,
     2147492101, 99, 47, 111, 2147492102, 99, 47, 117, 2147492103, 603, 2147492105, 176, 102, 2147492106,
     103, 2197823755, 104, 2147492111, 295, 2164269328, 105, 2164269330, 108, 2147492117, 110, 2147492118,
     110, 111]"

lemma check_starts_6: "check_starts 8086 idna_mapping_table_6 = Some 8470"
  by code_simp

definition idna_mapping_table_7 :: "int list" where
  "idna_mapping_table_7 =
    [2164269337, 2130706544, 2181046555, 114, 2147492128, 115, 109, 2147492129, 116, 101, 108, 2147492130,
     116, 109, 2147492132, 122, 2147492134, 969, 2147492136, 122, 2147492138, 107, 2147492139, 229,
     2164269356, 2130706530, 2164269359, 101, 2147492145, 102, 4278198578, 8498, 2147492147, 109,
     2147492148, 111, 2197823797, 2130707920, 2147492153, 105, 2147492155, 102, 97, 120, 2147492156, 960,
     2164269373, 947, 2147492159, 960, 2147492160, 8721, 2164269381, 100, 2147492167, 101, 2164269384,
     2130706537, 2147492176, 49, 8260, 55, 2147492177, 49, 8260, 57, 2147492178, 49, 8260, 49, 48,
     2147492179, 49, 8260, 51, 2147492180, 50, 8260, 51, 2147492181, 49, 8260, 53, 2147492182, 50, 8260, 53,
     2147492183, 51, 8260, 53, 2147492184, 52, 8260, 53, 2147492185, 49, 8260, 54, 2147492186, 53, 8260, 54,
     2147492187, 49, 8260, 56, 2147492188, 51, 8260, 56, 2147492189, 53, 8260, 56, 2147492190, 55, 8260, 56,
     2147492191, 49, 8260, 2147492192, 105, 2147492193, 105, 105, 2147492194, 105, 105, 105, 2147492195,
     105, 118, 2147492196, 118, 2147492197, 118, 105, 2147492198, 118, 105, 105, 2147492199, 118, 105, 105,
     105, 2147492200, 105, 120, 2147492201, 120, 2147492202, 120, 105, 2147492203, 120, 105, 105,
     2147492204, 108, 2164269421, 2130706531, 2147492207, 109, 2147492208, 105, 2147492209, 105, 105,
     2147492210, 105, 105, 105, 2147492211, 105, 118, 2147492212, 118, 2147492213, 118, 105, 2147492214,
     118, 105, 105, 2147492215, 118, 105, 105, 105, 2147492216, 105, 120, 2147492217, 120, 2147492218, 120,
     105, 2147492219, 120, 105, 105, 2147492220, 108, 2164269437, 2130706531, 2147492223, 109, 4278198659,
     8579, 2147492233, 48, 8260, 51, 4278198668, 8591, 2147492396, 8747, 8747, 2147492397, 8747, 8747, 8747,
     2147492399, 8750, 8750, 2147492400, 8750, 8750, 8750, 2164269865, 2130718728, 4278199335, 9279,
     4278199371, 9311, 2281710688, 2130706481, 2147492969, 49, 48, 2147492970, 49, 49, 2147492971, 49, 50,
     2147492972, 49, 51, 2147492973, 49, 52, 2147492974, 49, 53, 2147492975, 49, 54, 2147492976, 49, 55,
     2147492977, 49, 56, 2147492978, 49, 57, 2147492979, 50, 48, 2147492980, 40, 49, 41, 2147492981, 40, 50,
     41, 2147492982, 40, 51, 41, 2147492983, 40, 52, 41, 2147492984, 40, 53, 41, 2147492985, 40, 54, 41,
     2147492986, 40, 55, 41, 2147492987, 40, 56, 41, 2147492988, 40, 57, 41, 2147492989, 40, 49, 48, 41,
     2147492990, 40, 49, 49, 41, 2147492991, 40, 49, 50, 41, 2147492992, 40, 49, 51, 41, 2147492993, 40, 49,
     52, 41, 2147492994, 40, 49, 53, 41, 2147492995, 40, 49, 54, 41, 2147492996, 40, 49, 55, 41, 2147492997,
     40, 49, 56, 41, 2147492998, 40, 49, 57, 41, 2147492999, 40, 50, 48, 41, 4278199432, 9371, 2147493020,
     40, 97, 41, 2147493021, 40, 98, 41, 2147493022, 40, 99, 41, 2147493023, 40, 100, 41, 2147493024, 40,
     101, 41, 2147493025, 40, 102, 41, 2147493026, 40, 103, 41, 2147493027, 40, 104, 41, 2147493028, 40,
     105, 41, 2147493029, 40, 106, 41, 2147493030, 40, 107, 41, 2147493031, 40, 108, 41, 2147493032, 40,
     109, 41, 2147493033, 40, 110, 41, 2147493034, 40, 111, 41, 2147493035, 40, 112, 41, 2147493036, 40,
     113, 41, 2147493037, 40, 114, 41, 2147493038, 40, 115, 41, 2147493039, 40, 116, 41, 2147493040, 40,
     117, 41, 2147493041, 40, 118, 41, 2147493042, 40, 119, 41, 2147493043, 40, 120, 41, 2147493044, 40,
     121, 41, 2147493045, 40, 122, 41, 2566923446, 2130706529, 2566923472, 2130706529, 2147493098, 48,
     2147494412, 8747, 8747, 8747, 8747, 2147494516, 58, 58, 61, 2147494517, 61, 61, 2147494518, 61, 61, 61,
     2147494620, 10973, 824]"

lemma check_starts_7: "check_starts 8470 idna_mapping_table_7 = Some 10972"
  by code_simp

definition idna_mapping_table_8 :: "int list" where
  "idna_mapping_table_8 =
    [4278201204, 11125, 4278201238, 11158, 2936024064, 2130717744, 2147495008, 11361, 2147495010, 619,
     2147495011, 7549, 2147495012, 637, 2147495015, 11368, 2147495017, 11370, 2147495019, 11372, 2147495021,
     593, 2147495022, 625, 2147495023, 592, 2147495024, 594, 2147495026, 11379, 2147495029, 11382,
     2147495036, 106, 2147495037, 118, 2164272254, 2130707007, 2147495040, 11393, 2147495042, 11395,
     2147495044, 11397, 2147495046, 11399, 2147495048, 11401, 2147495050, 11403, 2147495052, 11405,
     2147495054, 11407, 2147495056, 11409, 2147495058, 11411, 2147495060, 11413, 2147495062, 11415,
     2147495064, 11417, 2147495066, 11419, 2147495068, 11421, 2147495070, 11423, 2147495072, 11425,
     2147495074, 11427, 2147495076, 11429, 2147495078, 11431, 2147495080, 11433, 2147495082, 11435,
     2147495084, 11437, 2147495086, 11439, 2147495088, 11441, 2147495090, 11443, 2147495092, 11445,
     2147495094, 11447, 2147495096, 11449, 2147495098, 11451, 2147495100, 11453, 2147495102, 11455,
     2147495104, 11457, 2147495106, 11459, 2147495108, 11461, 2147495110, 11463, 2147495112, 11465,
     2147495114, 11467, 2147495116, 11469, 2147495118, 11471, 2147495120, 11473, 2147495122, 11475,
     2147495124, 11477, 2147495126, 11479, 2147495128, 11481, 2147495130, 11483, 2147495132, 11485,
     2147495134, 11487, 2147495136, 11489, 2147495138, 11491, 2147495147, 11500, 2147495149, 11502,
     2147495154, 11507, 4278201588, 11512, 4278201638, 11558, 4278201640, 11564, 4278201646, 11567,
     4278201704, 11630, 2147495279, 11617, 4278201713, 11646, 4278201751, 11679, 4278201767, 11687,
     4278201775, 11695, 4278201783, 11703, 4278201791, 11711, 4278201799, 11719, 4278201807, 11727,
     4278201815, 11735, 4278201823, 11743, 4278201950, 11903, 4278202010, 11930, 2147495583, 27597,
     2147495667, 40863, 4278202100, 12031, 2147495680, 19968, 2147495681, 20008, 2147495682, 20022,
     2147495683, 20031, 2147495684, 20057, 2147495685, 20101, 2147495686, 20108, 2147495687, 20128,
     2147495688, 20154, 2147495689, 20799, 2147495690, 20837, 2147495691, 20843, 2147495692, 20866,
     2147495693, 20886, 2147495694, 20907, 2147495695, 20960, 2147495696, 20981, 2147495697, 20992,
     2147495698, 21147, 2147495699, 21241, 2147495700, 21269, 2147495701, 21274, 2147495702, 21304,
     2147495703, 21313, 2147495704, 21340, 2147495705, 21353, 2147495706, 21378, 2147495707, 21430,
     2147495708, 21448, 2147495709, 21475, 2147495710, 22231, 2147495711, 22303, 2147495712, 22763,
     2147495713, 22786, 2147495714, 22794, 2147495715, 22805, 2147495716, 22823, 2147495717, 22899,
     2147495718, 23376, 2147495719, 23424, 2147495720, 23544, 2147495721, 23567, 2147495722, 23586,
     2147495723, 23608, 2147495724, 23662, 2147495725, 23665, 2147495726, 24027, 2147495727, 24037,
     2147495728, 24049, 2147495729, 24062, 2147495730, 24178, 2147495731, 24186, 2147495732, 24191,
     2147495733, 24308, 2147495734, 24318, 2147495735, 24331]"

lemma check_starts_8: "check_starts 10972 idna_mapping_table_8 = Some 12087"
  by code_simp

definition idna_mapping_table_9 :: "int list" where
  "idna_mapping_table_9 =
    [2147495736, 24339, 2147495737, 24400, 2147495738, 24417, 2147495739, 24435, 2147495740, 24515,
     2147495741, 25096, 2147495742, 25142, 2147495743, 25163, 2147495744, 25903, 2147495745, 25908,
     2147495746, 25991, 2147495747, 26007, 2147495748, 26020, 2147495749, 26041, 2147495750, 26080,
     2147495751, 26085, 2147495752, 26352, 2147495753, 26376, 2147495754, 26408, 2147495755, 27424,
     2147495756, 27490, 2147495757, 27513, 2147495758, 27571, 2147495759, 27595, 2147495760, 27604,
     2147495761, 27611, 2147495762, 27663, 2147495763, 27668, 2147495764, 27700, 2147495765, 28779,
     2147495766, 29226, 2147495767, 29238, 2147495768, 29243, 2147495769, 29247, 2147495770, 29255,
     2147495771, 29273, 2147495772, 29275, 2147495773, 29356, 2147495774, 29572, 2147495775, 29577,
     2147495776, 29916, 2147495777, 29926, 2147495778, 29976, 2147495779, 29983, 2147495780, 29992,
     2147495781, 30000, 2147495782, 30091, 2147495783, 30098, 2147495784, 30326, 2147495785, 30333,
     2147495786, 30382, 2147495787, 30399, 2147495788, 30446, 2147495789, 30683, 2147495790, 30690,
     2147495791, 30707, 2147495792, 31034, 2147495793, 31160, 2147495794, 31166, 2147495795, 31348,
     2147495796, 31435, 2147495797, 31481, 2147495798, 31859, 2147495799, 31992, 2147495800, 32566,
     2147495801, 32593, 2147495802, 32650, 2147495803, 32701, 2147495804, 32769, 2147495805, 32780,
     2147495806, 32786, 2147495807, 32819, 2147495808, 32895, 2147495809, 32905, 2147495810, 33251,
     2147495811, 33258, 2147495812, 33267, 2147495813, 33276, 2147495814, 33292, 2147495815, 33307,
     2147495816, 33311, 2147495817, 33390, 2147495818, 33394, 2147495819, 33400, 2147495820, 34381,
     2147495821, 34411, 2147495822, 34880, 2147495823, 34892, 2147495824, 34915, 2147495825, 35198,
     2147495826, 35211, 2147495827, 35282, 2147495828, 35328, 2147495829, 35895, 2147495830, 35910,
     2147495831, 35925, 2147495832, 35960, 2147495833, 35997, 2147495834, 36196, 2147495835, 36208,
     2147495836, 36275, 2147495837, 36523, 2147495838, 36554, 2147495839, 36763, 2147495840, 36784,
     2147495841, 36789, 2147495842, 37009, 2147495843, 37193, 2147495844, 37318, 2147495845, 37324,
     2147495846, 37329, 2147495847, 38263, 2147495848, 38272, 2147495849, 38428, 2147495850, 38582,
     2147495851, 38585, 2147495852, 38632, 2147495853, 38737, 2147495854, 38750, 2147495855, 38754,
     2147495856, 38761, 2147495857, 38859, 2147495858, 38893, 2147495859, 38899, 2147495860, 38913,
     2147495861, 39080, 2147495862, 39131, 2147495863, 39135, 2147495864, 39318, 2147495865, 39321,
     2147495866, 39340, 2147495867, 39592, 2147495868, 39640, 2147495869, 39647, 2147495870, 39717,
     2147495871, 39727, 2147495872, 39730, 2147495873, 39740, 2147495874, 39770, 2147495875, 40165,
     2147495876, 40565, 2147495877, 40575, 2147495878, 40613, 2147495879, 40635, 2147495880, 40643,
     2147495881, 40653, 2147495882, 40657, 2147495883, 40697, 2147495884, 40701]"

lemma check_starts_9: "check_starts 12087 idna_mapping_table_9 = Some 12236"
  by code_simp

definition idna_mapping_table_10 :: "int list" where
  "idna_mapping_table_10 =
    [2147495885, 40718, 2147495886, 40723, 2147495887, 40736, 2147495888, 40763, 2147495889, 40778,
     2147495890, 40786, 2147495891, 40845, 2147495892, 40860, 2147495893, 40864, 4278202326, 12287,
     2147495936, 32, 2147495938, 46, 2147495990, 12306, 2147495992, 21313, 2164273209, 2130727748,
     4278202432, 12352, 4278202519, 12440, 2147496091, 32, 12441, 2147496092, 32, 12442, 2147496095, 12424,
     12426, 2147496191, 12467, 12488, 4278202624, 12548, 4278202672, 12592, 2164273457, 2130710784,
     2147496243, 4522, 2147496244, 4354, 2164273461, 2130710956, 2181050679, 2130710787, 2231382330,
     2130710960, 2147496256, 4378, 2181050689, 2130710790, 2147496260, 4385, 2298491205, 2130710793,
     2483040591, 2130710881, 4278202724, 12644, 2164273509, 2130710804, 2164273511, 2130710983, 2147496297,
     4556, 2147496298, 4558, 2147496299, 4563, 2147496300, 4567, 2147496301, 4569, 2147496302, 4380,
     2147496303, 4573, 2147496304, 4575, 2164273521, 2130710813, 2147496307, 4384, 2164273524, 2130710818,
     2147496310, 4391, 2147496311, 4393, 2214605176, 2130710827, 2147496317, 4402, 2147496318, 4406,
     2147496319, 4416, 2147496320, 4423, 2147496321, 4428, 2164273538, 2130711025, 2181050756, 2130710871,
     2164273543, 2130710916, 2147496329, 4488, 2164273546, 2130710929, 2147496332, 4500, 2147496333, 4510,
     2147496334, 4513, 4278202767, 12687, 2147496338, 19968, 2147496339, 20108, 2147496340, 19977,
     2147496341, 22235, 2147496342, 19978, 2147496343, 20013, 2147496344, 19979, 2147496345, 30002,
     2147496346, 20057, 2147496347, 19993, 2147496348, 19969, 2147496349, 22825, 2147496350, 22320,
     2147496351, 20154, 4278202852, 12783, 2147496448, 40, 4352, 41, 2147496449, 40, 4354, 41, 2147496450,
     40, 4355, 41, 2147496451, 40, 4357, 41, 2147496452, 40, 4358, 41, 2147496453, 40, 4359, 41, 2147496454,
     40, 4361, 41, 2147496455, 40, 4363, 41, 2147496456, 40, 4364, 41, 2147496457, 40, 4366, 41, 2147496458,
     40, 4367, 41, 2147496459, 40, 4368, 41, 2147496460, 40, 4369, 41, 2147496461, 40, 4370, 41, 2147496462,
     40, 44032, 41, 2147496463, 40, 45208, 41, 2147496464, 40, 45796, 41, 2147496465, 40, 46972, 41,
     2147496466, 40, 47560, 41, 2147496467, 40, 48148, 41, 2147496468, 40, 49324, 41, 2147496469, 40, 50500,
     41, 2147496470, 40, 51088, 41, 2147496471, 40, 52264, 41, 2147496472, 40, 52852, 41, 2147496473, 40,
     53440, 41, 2147496474, 40, 54028, 41, 2147496475, 40, 54616, 41, 2147496476, 40, 51452, 41, 2147496477,
     40, 50724, 51204, 41, 2147496478, 40, 50724, 54980, 41, 4278202911, 12831, 2147496480, 40, 19968, 41,
     2147496481, 40, 20108, 41, 2147496482, 40, 19977, 41, 2147496483, 40, 22235, 41, 2147496484, 40, 20116,
     41, 2147496485, 40, 20845, 41, 2147496486, 40, 19971, 41, 2147496487, 40, 20843, 41, 2147496488, 40,
     20061, 41, 2147496489, 40, 21313, 41, 2147496490, 40, 26376, 41, 2147496491, 40, 28779, 41, 2147496492,
     40, 27700, 41, 2147496493, 40, 26408, 41, 2147496494, 40, 37329, 41, 2147496495, 40, 22303, 41,
     2147496496, 40, 26085, 41, 2147496497, 40, 26666, 41, 2147496498, 40, 26377, 41, 2147496499, 40, 31038,
     41, 2147496500, 40, 21517, 41, 2147496501, 40, 29305, 41, 2147496502, 40, 36001, 41, 2147496503, 40,
     31069, 41, 2147496504, 40, 21172, 41, 2147496505, 40, 20195, 41, 2147496506, 40, 21628, 41, 2147496507,
     40, 23398, 41, 2147496508, 40, 30435, 41, 2147496509, 40, 20225, 41, 2147496510, 40, 36039, 41,
     2147496511, 40, 21332, 41, 2147496512, 40, 31085, 41, 2147496513, 40, 20241, 41, 2147496514, 40, 33258,
     41, 2147496515, 40, 33267, 41, 2147496516, 21839]"

lemma check_starts_10: "check_starts 12236 idna_mapping_table_10 = Some 12868"
  by code_simp

definition idna_mapping_table_11 :: "int list" where
  "idna_mapping_table_11 =
    [2147496517, 24188, 2147496518, 25991, 2147496519, 31631, 2147496528, 112, 116, 101, 2147496529, 50, 49,
     2147496530, 50, 50, 2147496531, 50, 51, 2147496532, 50, 52, 2147496533, 50, 53, 2147496534, 50, 54,
     2147496535, 50, 55, 2147496536, 50, 56, 2147496537, 50, 57, 2147496538, 51, 48, 2147496539, 51, 49,
     2147496540, 51, 50, 2147496541, 51, 51, 2147496542, 51, 52, 2147496543, 51, 53, 2147496544, 4352,
     2164273761, 2130710786, 2181050979, 2130710789, 2147496550, 4361, 2164273767, 2130710795, 2214605417,
     2130710798, 2147496558, 44032, 2147496559, 45208, 2147496560, 45796, 2147496561, 46972, 2147496562,
     47560, 2147496563, 48148, 2147496564, 49324, 2147496565, 50500, 2147496566, 51088, 2147496567, 52264,
     2147496568, 52852, 2147496569, 53440, 2147496570, 54028, 2147496571, 54616, 2147496572, 52280, 44256,
     2147496573, 51452, 51032, 2147496574, 50864, 2147496576, 19968, 2147496577, 20108, 2147496578, 19977,
     2147496579, 22235, 2147496580, 20116, 2147496581, 20845, 2147496582, 19971, 2147496583, 20843,
     2147496584, 20061, 2147496585, 21313, 2147496586, 26376, 2147496587, 28779, 2147496588, 27700,
     2147496589, 26408, 2147496590, 37329, 2147496591, 22303, 2147496592, 26085, 2147496593, 26666,
     2147496594, 26377, 2147496595, 31038, 2147496596, 21517, 2147496597, 29305, 2147496598, 36001,
     2147496599, 31069, 2147496600, 21172, 2147496601, 31192, 2147496602, 30007, 2147496603, 22899,
     2147496604, 36969, 2147496605, 20778, 2147496606, 21360, 2147496607, 27880, 2147496608, 38917,
     2147496609, 20241, 2147496610, 20889, 2147496611, 27491, 2147496612, 19978, 2147496613, 20013,
     2147496614, 19979, 2147496615, 24038, 2147496616, 21491, 2147496617, 21307, 2147496618, 23447,
     2147496619, 23398, 2147496620, 30435, 2147496621, 20225, 2147496622, 36039, 2147496623, 21332,
     2147496624, 22812, 2147496625, 51, 54, 2147496626, 51, 55, 2147496627, 51, 56, 2147496628, 51, 57,
     2147496629, 52, 48, 2147496630, 52, 49, 2147496631, 52, 50, 2147496632, 52, 51, 2147496633, 52, 52,
     2147496634, 52, 53, 2147496635, 52, 54, 2147496636, 52, 55, 2147496637, 52, 56, 2147496638, 52, 57,
     2147496639, 53, 48, 2147496640, 49, 26376, 2147496641, 50, 26376, 2147496642, 51, 26376, 2147496643,
     52, 26376, 2147496644, 53, 26376, 2147496645, 54, 26376, 2147496646, 55, 26376, 2147496647, 56, 26376,
     2147496648, 57, 26376, 2147496649, 49, 48, 26376, 2147496650, 49, 49, 26376, 2147496651, 49, 50, 26376,
     2147496652, 104, 103, 2147496653, 101, 114, 103, 2147496654, 101, 118, 2147496655, 108, 116, 100,
     2147496656, 12450, 2147496657, 12452, 2147496658, 12454, 2147496659, 12456, 2164273876, 2130718890,
     2147496662, 12461, 2147496663, 12463, 2147496664, 12465, 2147496665, 12467, 2147496666, 12469,
     2147496667, 12471, 2147496668, 12473, 2147496669, 12475, 2147496670, 12477, 2147496671, 12479,
     2147496672, 12481, 2147496673, 12484, 2147496674, 12486, 2147496675, 12488, 2231382756, 2130718922,
     2147496682, 12498, 2147496683, 12501, 2147496684, 12504, 2147496685, 12507, 2214605550, 2130718942,
     2147496691, 12516, 2147496692, 12518]"

lemma check_starts_11: "check_starts 12868 idna_mapping_table_11 = Some 13044"
  by code_simp

definition idna_mapping_table_12 :: "int list" where
  "idna_mapping_table_12 =
    [2231382773, 2130718952, 2197828347, 2130718959, 2147496703, 20196, 21644, 2147496704, 12450, 12497,
     12540, 12488, 2147496705, 12450, 12523, 12501, 12449, 2147496706, 12450, 12531, 12506, 12450,
     2147496707, 12450, 12540, 12523, 2147496708, 12452, 12491, 12531, 12464, 2147496709, 12452, 12531,
     12481, 2147496710, 12454, 12457, 12531, 2147496711, 12456, 12473, 12463, 12540, 12489, 2147496712,
     12456, 12540, 12459, 12540, 2147496713, 12458, 12531, 12473, 2147496714, 12458, 12540, 12512,
     2147496715, 12459, 12452, 12522, 2147496716, 12459, 12521, 12483, 12488, 2147496717, 12459, 12525,
     12522, 12540, 2147496718, 12460, 12525, 12531, 2147496719, 12460, 12531, 12510, 2147496720, 12462,
     12460, 2147496721, 12462, 12491, 12540, 2147496722, 12461, 12517, 12522, 12540, 2147496723, 12462,
     12523, 12480, 12540, 2147496724, 12461, 12525, 2147496725, 12461, 12525, 12464, 12521, 12512,
     2147496726, 12461, 12525, 12513, 12540, 12488, 12523, 2147496727, 12461, 12525, 12527, 12483, 12488,
     2147496728, 12464, 12521, 12512, 2147496729, 12464, 12521, 12512, 12488, 12531, 2147496730, 12463,
     12523, 12476, 12452, 12525, 2147496731, 12463, 12525, 12540, 12493, 2147496732, 12465, 12540, 12473,
     2147496733, 12467, 12523, 12490, 2147496734, 12467, 12540, 12509, 2147496735, 12469, 12452, 12463,
     12523, 2147496736, 12469, 12531, 12481, 12540, 12512, 2147496737, 12471, 12522, 12531, 12464,
     2147496738, 12475, 12531, 12481, 2147496739, 12475, 12531, 12488, 2147496740, 12480, 12540, 12473,
     2147496741, 12487, 12471, 2147496742, 12489, 12523, 2147496743, 12488, 12531, 2147496744, 12490, 12494,
     2147496745, 12494, 12483, 12488, 2147496746, 12495, 12452, 12484, 2147496747, 12497, 12540, 12475,
     12531, 12488, 2147496748, 12497, 12540, 12484, 2147496749, 12496, 12540, 12524, 12523, 2147496750,
     12500, 12450, 12473, 12488, 12523, 2147496751, 12500, 12463, 12523, 2147496752, 12500, 12467,
     2147496753, 12499, 12523, 2147496754, 12501, 12449, 12521, 12483, 12489, 2147496755, 12501, 12451,
     12540, 12488, 2147496756, 12502, 12483, 12471, 12455, 12523, 2147496757, 12501, 12521, 12531,
     2147496758, 12504, 12463, 12479, 12540, 12523, 2147496759, 12506, 12477, 2147496760, 12506, 12491,
     12498, 2147496761, 12504, 12523, 12484, 2147496762, 12506, 12531, 12473, 2147496763, 12506, 12540,
     12472, 2147496764, 12505, 12540, 12479, 2147496765, 12509, 12452, 12531, 12488, 2147496766, 12508,
     12523, 12488, 2147496767, 12507, 12531, 2147496768, 12509, 12531, 12489, 2147496769, 12507, 12540,
     12523, 2147496770, 12507, 12540, 12531, 2147496771, 12510, 12452, 12463, 12525, 2147496772, 12510,
     12452, 12523, 2147496773, 12510, 12483, 12495, 2147496774, 12510, 12523, 12463, 2147496775, 12510,
     12531, 12471, 12519, 12531, 2147496776, 12511, 12463, 12525, 12531, 2147496777, 12511, 12522,
     2147496778, 12511, 12522, 12496, 12540, 12523, 2147496779, 12513, 12460, 2147496780, 12513, 12460,
     12488, 12531, 2147496781, 12513, 12540, 12488, 12523, 2147496782, 12516, 12540, 12489, 2147496783,
     12516, 12540, 12523, 2147496784, 12518, 12450, 12531, 2147496785, 12522, 12483, 12488, 12523,
     2147496786, 12522, 12521, 2147496787, 12523, 12500, 12540, 2147496788, 12523, 12540, 12502, 12523,
     2147496789, 12524, 12512, 2147496790, 12524, 12531, 12488, 12466, 12531, 2147496791, 12527, 12483,
     12488, 2147496792, 48, 28857, 2147496793, 49, 28857, 2147496794, 50, 28857, 2147496795, 51, 28857,
     2147496796, 52, 28857, 2147496797, 53, 28857, 2147496798, 54, 28857, 2147496799, 55, 28857, 2147496800,
     56, 28857, 2147496801, 57, 28857, 2147496802, 49, 48, 28857, 2147496803, 49, 49, 28857, 2147496804, 49,
     50, 28857, 2147496805, 49, 51, 28857, 2147496806, 49, 52, 28857, 2147496807, 49, 53, 28857, 2147496808,
     49, 54, 28857, 2147496809, 49, 55, 28857, 2147496810, 49, 56, 28857, 2147496811, 49, 57, 28857,
     2147496812, 50, 48, 28857, 2147496813, 50, 49, 28857, 2147496814, 50, 50, 28857, 2147496815, 50, 51,
     28857, 2147496816, 50, 52, 28857, 2147496817, 104, 112, 97, 2147496818, 100, 97, 2147496819, 97, 117,
     2147496820, 98, 97, 114, 2147496821, 111, 118, 2147496822, 112, 99, 2147496823, 100, 109, 2147496824,
     100, 109, 50, 2147496825, 100, 109, 51, 2147496826, 105, 117, 2147496827, 24179, 25104, 2147496828,
     26157, 21644, 2147496829, 22823, 27491, 2147496830, 26126, 27835, 2147496831, 26666, 24335, 20250,
     31038, 2147496832, 112, 97, 2147496833, 110, 97, 2147496834, 956, 97, 2147496835, 109, 97, 2147496836,
     107, 97, 2147496837, 107, 98, 2147496838, 109, 98, 2147496839, 103, 98, 2147496840, 99, 97, 108,
     2147496841, 107, 99, 97, 108, 2147496842, 112, 102, 2147496843, 110, 102, 2147496844, 956, 102,
     2147496845, 956, 103, 2147496846, 109, 103, 2147496847, 107, 103, 2147496848, 104, 122, 2147496849,
     107, 104, 122]"

lemma check_starts_12: "check_starts 13044 idna_mapping_table_12 = Some 13201"
  by code_simp

definition idna_mapping_table_13 :: "int list" where
  "idna_mapping_table_13 =
    [2147496850, 109, 104, 122, 2147496851, 103, 104, 122, 2147496852, 116, 104, 122, 2147496853, 956, 108,
     2147496854, 109, 108, 2147496855, 100, 108, 2147496856, 107, 108, 2147496857, 102, 109, 2147496858,
     110, 109, 2147496859, 956, 109, 2147496860, 109, 109, 2147496861, 99, 109, 2147496862, 107, 109,
     2147496863, 109, 109, 50, 2147496864, 99, 109, 50, 2147496865, 109, 50, 2147496866, 107, 109, 50,
     2147496867, 109, 109, 51, 2147496868, 99, 109, 51, 2147496869, 109, 51, 2147496870, 107, 109, 51,
     2147496871, 109, 8725, 115, 2147496872, 109, 8725, 115, 50, 2147496873, 112, 97, 2147496874, 107, 112,
     97, 2147496875, 109, 112, 97, 2147496876, 103, 112, 97, 2147496877, 114, 97, 100, 2147496878, 114, 97,
     100, 8725, 115, 2147496879, 114, 97, 100, 8725, 115, 50, 2147496880, 112, 115, 2147496881, 110, 115,
     2147496882, 956, 115, 2147496883, 109, 115, 2147496884, 112, 118, 2147496885, 110, 118, 2147496886,
     956, 118, 2147496887, 109, 118, 2147496888, 107, 118, 2147496889, 109, 118, 2147496890, 112, 119,
     2147496891, 110, 119, 2147496892, 956, 119, 2147496893, 109, 119, 2147496894, 107, 119, 2147496895,
     109, 119, 2147496896, 107, 969, 2147496897, 109, 969, 4278203330, 13250, 2147496899, 98, 113,
     2147496900, 99, 99, 2147496901, 99, 100, 2147496902, 99, 8725, 107, 103, 4278203335, 13255, 2147496904,
     100, 98, 2147496905, 103, 121, 2147496906, 104, 97, 2147496907, 104, 112, 2147496908, 105, 110,
     2147496909, 107, 107, 2147496910, 107, 109, 2147496911, 107, 116, 2147496912, 108, 109, 2147496913,
     108, 110, 2147496914, 108, 111, 103, 2147496915, 108, 120, 2147496916, 109, 98, 2147496917, 109, 105,
     108, 2147496918, 109, 111, 108, 2147496919, 112, 104, 4278203352, 13272, 2147496921, 112, 112, 109,
     2147496922, 112, 114, 2147496923, 115, 114, 2147496924, 115, 118, 2147496925, 119, 98, 2147496926, 118,
     8725, 109, 2147496927, 97, 8725, 109, 2147496928, 49, 26085, 2147496929, 50, 26085, 2147496930, 51,
     26085, 2147496931, 52, 26085, 2147496932, 53, 26085, 2147496933, 54, 26085, 2147496934, 55, 26085,
     2147496935, 56, 26085, 2147496936, 57, 26085, 2147496937, 49, 48, 26085, 2147496938, 49, 49, 26085,
     2147496939, 49, 50, 26085, 2147496940, 49, 51, 26085, 2147496941, 49, 52, 26085, 2147496942, 49, 53,
     26085, 2147496943, 49, 54, 26085, 2147496944, 49, 55, 26085, 2147496945, 49, 56, 26085, 2147496946, 49,
     57, 26085, 2147496947, 50, 48, 26085, 2147496948, 50, 49, 26085, 2147496949, 50, 50, 26085, 2147496950,
     50, 51, 26085, 2147496951, 50, 52, 26085, 2147496952, 50, 53, 26085, 2147496953, 50, 54, 26085,
     2147496954, 50, 55, 26085, 2147496955, 50, 56, 26085, 2147496956, 50, 57, 26085, 2147496957, 51, 48,
     26085, 2147496958, 51, 49, 26085, 2147496959, 103, 97, 108, 4278232205, 42127, 4278232263, 42191,
     4278232620, 42559, 2147526208, 42561, 2147526210, 42563, 2147526212, 42565, 2147526214, 42567,
     2147526216, 42569, 2147526218, 42571, 2147526220, 42573, 2147526222, 42575, 2147526224, 42577,
     2147526226, 42579, 2147526228, 42581, 2147526230, 42583, 2147526232, 42585, 2147526234, 42587,
     2147526236, 42589, 2147526238, 42591, 2147526240, 42593, 2147526242, 42595, 2147526244, 42597,
     2147526246, 42599, 2147526248, 42601, 2147526250, 42603, 2147526252, 42605, 2147526272, 42625,
     2147526274, 42627, 2147526276, 42629, 2147526278, 42631, 2147526280, 42633, 2147526282, 42635,
     2147526284, 42637, 2147526286, 42639, 2147526288, 42641, 2147526290, 42643, 2147526292, 42645,
     2147526294, 42647, 2147526296, 42649]"

lemma check_starts_13: "check_starts 13201 idna_mapping_table_13 = Some 42648"
  by code_simp

definition idna_mapping_table_14 :: "int list" where
  "idna_mapping_table_14 =
    [2147526298, 42651, 2147526300, 1098, 2147526301, 1100, 4278232824, 42751, 2147526434, 42787,
     2147526436, 42789, 2147526438, 42791, 2147526440, 42793, 2147526442, 42795, 2147526444, 42797,
     2147526446, 42799, 2147526450, 42803, 2147526452, 42805, 2147526454, 42807, 2147526456, 42809,
     2147526458, 42811, 2147526460, 42813, 2147526462, 42815, 2147526464, 42817, 2147526466, 42819,
     2147526468, 42821, 2147526470, 42823, 2147526472, 42825, 2147526474, 42827, 2147526476, 42829,
     2147526478, 42831, 2147526480, 42833, 2147526482, 42835, 2147526484, 42837, 2147526486, 42839,
     2147526488, 42841, 2147526490, 42843, 2147526492, 42845, 2147526494, 42847, 2147526496, 42849,
     2147526498, 42851, 2147526500, 42853, 2147526502, 42855, 2147526504, 42857, 2147526506, 42859,
     2147526508, 42861, 2147526510, 42863, 2147526512, 42863, 2147526521, 42874, 2147526523, 42876,
     2147526525, 7545, 2147526526, 42879, 2147526528, 42881, 2147526530, 42883, 2147526532, 42885,
     2147526534, 42887, 2147526539, 42892, 2147526541, 613, 2147526544, 42897, 2147526546, 42899,
     2147526550, 42903, 2147526552, 42905, 2147526554, 42907, 2147526556, 42909, 2147526558, 42911,
     2147526560, 42913, 2147526562, 42915, 2147526564, 42917, 2147526566, 42919, 2147526568, 42921,
     2147526570, 614, 2147526571, 604, 2147526572, 609, 2147526573, 620, 2147526574, 618, 2147526576, 670,
     2147526577, 647, 2147526578, 669, 2147526579, 43859, 2147526580, 42933, 2147526582, 42935, 2147526584,
     42937, 2147526586, 42939, 2147526588, 42941, 2147526590, 42943, 2147526592, 42945, 2147526594, 42947,
     2147526596, 42900, 2147526597, 642, 2147526598, 7566, 2147526599, 42952, 2147526601, 42954, 4278233035,
     42959, 2147526608, 42961, 4278233042, 42962, 4278233044, 42964, 2147526614, 42967, 2147526616, 42969,
     4278233050, 42993, 2147526642, 99, 2147526643, 102, 2147526644, 113, 2147526645, 42998, 2147526648,
     295, 2147526649, 339, 4278233133, 43055, 4278233146, 43071, 4278233208, 43135, 4278233286, 43213,
     4278233306, 43231, 4278233428, 43358, 4278233469, 43391, 4278233550, 43470, 4278233562, 43485,
     4278233599, 43519, 4278233655, 43583, 4278233678, 43599, 4278233690, 43611, 4278233795, 43738,
     4278233847, 43776, 4278233863, 43784, 4278233871, 43792, 4278233879, 43807, 4278233895, 43815,
     4278233903, 43823, 2147527516, 42791, 2147527517, 43831, 2147527518, 619, 2147527519, 43858,
     2147527529, 653, 4278233964, 43887, 3472927600, 2130711456, 4278234094, 44015, 4278234106, 44031,
     4278245284, 55215, 4278245319, 55242, 4278245372, 63743, 2147547392, 35912, 2147547393, 26356,
     2147547394, 36554, 2147547395, 36040, 2147547396, 28369, 2147547397, 20018, 2147547398, 21477,
     2164324615, 40860, 2147547401, 22865, 2147547402, 37329, 2147547403, 21895, 2147547404, 22856,
     2147547405, 25078, 2147547406, 30313, 2147547407, 32645, 2147547408, 34367, 2147547409, 34746]"

lemma check_starts_14: "check_starts 42648 idna_mapping_table_14 = Some 63761"
  by code_simp

definition idna_mapping_table_15 :: "int list" where
  "idna_mapping_table_15 =
    [2147547410, 35064, 2147547411, 37007, 2147547412, 27138, 2147547413, 27931, 2147547414, 28889,
     2147547415, 29662, 2147547416, 33853, 2147547417, 37226, 2147547418, 39409, 2147547419, 20098,
     2147547420, 21365, 2147547421, 27396, 2147547422, 29211, 2147547423, 34349, 2147547424, 40478,
     2147547425, 23888, 2147547426, 28651, 2147547427, 34253, 2147547428, 35172, 2147547429, 25289,
     2147547430, 33240, 2147547431, 34847, 2147547432, 24266, 2147547433, 26391, 2147547434, 28010,
     2147547435, 29436, 2147547436, 37070, 2147547437, 20358, 2147547438, 20919, 2147547439, 21214,
     2147547440, 25796, 2147547441, 27347, 2147547442, 29200, 2147547443, 30439, 2147547444, 32769,
     2147547445, 34310, 2147547446, 34396, 2147547447, 36335, 2147547448, 38706, 2147547449, 39791,
     2147547450, 40442, 2147547451, 30860, 2147547452, 31103, 2147547453, 32160, 2147547454, 33737,
     2147547455, 37636, 2147547456, 40575, 2147547457, 35542, 2147547458, 22751, 2147547459, 24324,
     2147547460, 31840, 2147547461, 32894, 2147547462, 29282, 2147547463, 30922, 2147547464, 36034,
     2147547465, 38647, 2147547466, 22744, 2147547467, 23650, 2147547468, 27155, 2147547469, 28122,
     2147547470, 28431, 2147547471, 32047, 2147547472, 32311, 2147547473, 38475, 2147547474, 21202,
     2147547475, 32907, 2147547476, 20956, 2147547477, 20940, 2147547478, 31260, 2147547479, 32190,
     2147547480, 33777, 2147547481, 38517, 2147547482, 35712, 2147547483, 25295, 2147547484, 27138,
     2147547485, 35582, 2147547486, 20025, 2147547487, 23527, 2147547488, 24594, 2147547489, 29575,
     2147547490, 30064, 2147547491, 21271, 2147547492, 30971, 2147547493, 20415, 2147547494, 24489,
     2147547495, 19981, 2147547496, 27852, 2147547497, 25976, 2147547498, 32034, 2147547499, 21443,
     2147547500, 22622, 2147547501, 30465, 2147547502, 33865, 2147547503, 35498, 2147547504, 27578,
     2147547505, 36784, 2147547506, 27784, 2147547507, 25342, 2147547508, 33509, 2147547509, 25504,
     2147547510, 30053, 2147547511, 20142, 2147547512, 20841, 2147547513, 20937, 2147547514, 26753,
     2147547515, 31975, 2147547516, 33391, 2147547517, 35538, 2147547518, 37327, 2147547519, 21237,
     2147547520, 21570, 2147547521, 22899, 2147547522, 24300, 2147547523, 26053, 2147547524, 28670,
     2147547525, 31018, 2147547526, 38317, 2147547527, 39530, 2147547528, 40599, 2147547529, 40654,
     2147547530, 21147, 2147547531, 26310, 2147547532, 27511, 2147547533, 36706, 2147547534, 24180,
     2147547535, 24976, 2147547536, 25088, 2147547537, 25754, 2147547538, 28451, 2147547539, 29001,
     2147547540, 29833, 2147547541, 31178, 2147547542, 32244, 2147547543, 32879, 2147547544, 36646,
     2147547545, 34030, 2147547546, 36899, 2147547547, 37706, 2147547548, 21015, 2147547549, 21155,
     2147547550, 21693, 2147547551, 28872, 2147547552, 35010, 2147547553, 35498, 2147547554, 24265,
     2147547555, 24565, 2147547556, 25467, 2147547557, 27566, 2147547558, 31806]"

lemma check_starts_15: "check_starts 63761 idna_mapping_table_15 = Some 63910"
  by code_simp

definition idna_mapping_table_16 :: "int list" where
  "idna_mapping_table_16 =
    [2147547559, 29557, 2147547560, 20196, 2147547561, 22265, 2147547562, 23527, 2147547563, 23994,
     2147547564, 24604, 2147547565, 29618, 2147547566, 29801, 2147547567, 32666, 2147547568, 32838,
     2147547569, 37428, 2147547570, 38646, 2147547571, 38728, 2147547572, 38936, 2147547573, 20363,
     2147547574, 31150, 2147547575, 37300, 2147547576, 38584, 2147547577, 24801, 2147547578, 20102,
     2147547579, 20698, 2147547580, 23534, 2147547581, 23615, 2147547582, 26009, 2147547583, 27138,
     2147547584, 29134, 2147547585, 30274, 2147547586, 34044, 2147547587, 36988, 2147547588, 40845,
     2147547589, 26248, 2147547590, 38446, 2147547591, 21129, 2147547592, 26491, 2147547593, 26611,
     2147547594, 27969, 2147547595, 28316, 2147547596, 29705, 2147547597, 30041, 2147547598, 30827,
     2147547599, 32016, 2147547600, 39006, 2147547601, 20845, 2147547602, 25134, 2147547603, 38520,
     2147547604, 20523, 2147547605, 23833, 2147547606, 28138, 2147547607, 36650, 2147547608, 24459,
     2147547609, 24900, 2147547610, 26647, 2147547611, 29575, 2147547612, 38534, 2147547613, 21033,
     2147547614, 21519, 2147547615, 23653, 2147547616, 26131, 2147547617, 26446, 2147547618, 26792,
     2147547619, 27877, 2147547620, 29702, 2147547621, 30178, 2147547622, 32633, 2147547623, 35023,
     2147547624, 35041, 2147547625, 37324, 2147547626, 38626, 2147547627, 21311, 2147547628, 28346,
     2147547629, 21533, 2147547630, 29136, 2147547631, 29848, 2147547632, 34298, 2147547633, 38563,
     2147547634, 40023, 2147547635, 40607, 2147547636, 26519, 2147547637, 28107, 2147547638, 33256,
     2147547639, 31435, 2147547640, 31520, 2147547641, 31890, 2147547642, 29376, 2147547643, 28825,
     2147547644, 35672, 2147547645, 20160, 2147547646, 33590, 2147547647, 21050, 2147547648, 20999,
     2147547649, 24230, 2147547650, 25299, 2147547651, 31958, 2147547652, 23429, 2147547653, 27934,
     2147547654, 26292, 2147547655, 36667, 2147547656, 34892, 2147547657, 38477, 2147547658, 35211,
     2147547659, 24275, 2147547660, 20800, 2147547661, 21952, 2147547664, 22618, 2147547666, 26228,
     2147547669, 20958, 2147547670, 29482, 2147547671, 30410, 2147547672, 31036, 2147547673, 31070,
     2147547674, 31077, 2147547675, 31119, 2147547676, 38742, 2147547677, 31934, 2147547678, 32701,
     2147547680, 34322, 2147547682, 35576, 2147547685, 36920, 2147547686, 37117, 2147547690, 39151,
     2147547691, 39164, 2147547692, 39208, 2147547693, 40372, 2147547694, 37086, 2147547695, 38583,
     2147547696, 20398, 2147547697, 20711, 2147547698, 20813, 2147547699, 21193, 2147547700, 21220,
     2147547701, 21329, 2147547702, 21917, 2147547703, 22022, 2147547704, 22120, 2147547705, 22592,
     2147547706, 22696, 2147547707, 23652, 2147547708, 23662, 2147547709, 24724, 2147547710, 24936,
     2147547711, 24974, 2147547712, 25074, 2147547713, 25935, 2147547714, 26082, 2147547715, 26257,
     2147547716, 26757, 2147547717, 28023, 2147547718, 28186, 2147547719, 28450]"

lemma check_starts_16: "check_starts 63910 idna_mapping_table_16 = Some 64071"
  by code_simp

definition idna_mapping_table_17 :: "int list" where
  "idna_mapping_table_17 =
    [2147547720, 29038, 2147547721, 29227, 2147547722, 29730, 2147547723, 30865, 2147547724, 31038,
     2147547725, 31049, 2147547726, 31048, 2147547727, 31056, 2147547728, 31062, 2147547729, 31069,
     2164324946, 2130737549, 2147547732, 31296, 2147547733, 31361, 2147547734, 31680, 2147547735, 32244,
     2147547736, 32265, 2147547737, 32321, 2147547738, 32626, 2147547739, 32773, 2147547740, 33261,
     2164324957, 33401, 2147547743, 33879, 2147547744, 35088, 2147547745, 35222, 2147547746, 35585,
     2147547747, 35641, 2147547748, 36051, 2147547749, 36104, 2147547750, 36790, 2147547751, 36920,
     2147547752, 38627, 2147547753, 38911, 2147547754, 38971, 2147547755, 24693, 2147547756, 148206,
     2147547757, 33304, 4278254190, 64111, 2147547760, 20006, 2147547761, 20917, 2147547762, 20840,
     2147547763, 20352, 2147547764, 20805, 2147547765, 20864, 2147547766, 21191, 2147547767, 21242,
     2147547768, 21917, 2147547769, 21845, 2147547770, 21913, 2147547771, 21986, 2147547772, 22618,
     2147547773, 22707, 2147547774, 22852, 2147547775, 22868, 2147547776, 23138, 2147547777, 23336,
     2147547778, 24274, 2147547779, 24281, 2147547780, 24425, 2147547781, 24493, 2147547782, 24792,
     2147547783, 24910, 2147547784, 24840, 2147547785, 24974, 2147547786, 24928, 2147547787, 25074,
     2147547788, 25140, 2147547789, 25540, 2147547790, 25628, 2147547791, 25682, 2147547792, 25942,
     2147547793, 26228, 2147547794, 26391, 2147547795, 26395, 2147547796, 26454, 2147547797, 27513,
     2147547798, 27578, 2147547799, 27969, 2147547800, 28379, 2147547801, 28363, 2147547802, 28450,
     2147547803, 28702, 2147547804, 29038, 2147547805, 30631, 2147547806, 29237, 2147547807, 29359,
     2147547808, 29482, 2147547809, 29809, 2147547810, 29958, 2147547811, 30011, 2147547812, 30237,
     2147547813, 30239, 2147547814, 30410, 2147547815, 30427, 2147547816, 30452, 2147547817, 30538,
     2147547818, 30528, 2147547819, 30924, 2147547820, 31409, 2147547821, 31680, 2147547822, 31867,
     2147547823, 32091, 2147547824, 32244, 2147547825, 32574, 2147547826, 32773, 2147547827, 33618,
     2147547828, 33775, 2147547829, 34681, 2147547830, 35137, 2147547831, 35206, 2147547832, 35222,
     2147547833, 35519, 2147547834, 35576, 2147547835, 35531, 2147547836, 35585, 2147547837, 35582,
     2147547838, 35565, 2147547839, 35641, 2147547840, 35722, 2147547841, 36104, 2147547842, 36664,
     2147547843, 36978, 2147547844, 37273, 2147547845, 37494, 2147547846, 38524, 2147547847, 38627,
     2147547848, 38742, 2147547849, 38875, 2147547850, 38911, 2147547851, 38923, 2147547852, 38971,
     2147547853, 39698, 2147547854, 40860, 2147547855, 141386, 2147547856, 141380, 2147547857, 144341,
     2147547858, 15261, 2147547859, 16408, 2147547860, 16441, 2147547861, 152137, 2147547862, 154832,
     2147547863, 163539, 2147547864, 40771, 2147547865, 40846, 4278254298, 64255, 2147547904, 102, 102,
     2147547905, 102, 105, 2147547906, 102, 108, 2147547907, 102, 102, 105, 2147547908, 102, 102, 108]"

lemma check_starts_17: "check_starts 64071 idna_mapping_table_17 = Some 64260"
  by code_simp

definition idna_mapping_table_18 :: "int list" where
  "idna_mapping_table_18 =
    [2164325125, 115, 116, 4278254343, 64274, 2147547923, 1396, 1398, 2147547924, 1396, 1381, 2147547925,
     1396, 1387, 2147547926, 1406, 1398, 2147547927, 1396, 1389, 4278254360, 64284, 2147547933, 1497, 1460,
     2147547935, 1522, 1463, 2147547936, 1506, 2147547937, 1488, 2164325154, 2130707923, 2181102372,
     2130707931, 2147547943, 1512, 2147547944, 1514, 2147547945, 43, 2147547946, 1513, 1473, 2147547947,
     1513, 1474, 2147547948, 1513, 1468, 1473, 2147547949, 1513, 1468, 1474, 2147547950, 1488, 1463,
     2147547951, 1488, 1464, 2147547952, 1488, 1468, 2147547953, 1489, 1468, 2147547954, 1490, 1468,
     2147547955, 1491, 1468, 2147547956, 1492, 1468, 2147547957, 1493, 1468, 2147547958, 1494, 1468,
     4278254391, 64311, 2147547960, 1496, 1468, 2147547961, 1497, 1468, 2147547962, 1498, 1468, 2147547963,
     1499, 1468, 2147547964, 1500, 1468, 4278254397, 64317, 2147547966, 1502, 1468, 4278254399, 64319,
     2147547968, 1504, 1468, 2147547969, 1505, 1468, 4278254402, 64322, 2147547971, 1507, 1468, 2147547972,
     1508, 1468, 4278254405, 64325, 2147547974, 1510, 1468, 2147547975, 1511, 1468, 2147547976, 1512, 1468,
     2147547977, 1513, 1468, 2147547978, 1514, 1468, 2147547979, 1493, 1465, 2147547980, 1489, 1471,
     2147547981, 1499, 1471, 2147547982, 1508, 1471, 2147547983, 1488, 1500, 2164325200, 1649, 2197879634,
     1659, 2197879638, 1662, 2197879642, 1664, 2197879646, 1658, 2197879650, 1663, 2197879654, 1657,
     2197879658, 1700, 2197879662, 1702, 2197879666, 1668, 2197879670, 1667, 2197879674, 1670, 2197879678,
     1671, 2164325250, 1677, 2164325252, 1676, 2164325254, 1678, 2164325256, 1672, 2164325258, 1688,
     2164325260, 1681, 2197879694, 1705, 2197879698, 1711, 2197879702, 1715, 2197879706, 1713, 2164325278,
     1722, 2197879712, 1723, 2164325284, 1728, 2197879718, 1729, 2197879722, 1726, 2164325294, 1746,
     2164325296, 1747, 4278254531, 64466, 2197879763, 1709, 2164325335, 1735, 2164325337, 1734, 2164325339,
     1736, 2147548125, 1735, 1652, 2164325342, 1739, 2164325344, 1733, 2164325346, 1737, 2197879780, 1744,
     2164325352, 1609, 2164325354, 1574, 1575, 2164325356, 1574, 1749, 2164325358, 1574, 1608, 2164325360,
     1574, 1735, 2164325362, 1574, 1734, 2164325364, 1574, 1736, 2181102582, 1574, 1744, 2181102585, 1574,
     1609, 2197879804, 1740, 2147548160, 1574, 1580, 2147548161, 1574, 1581, 2147548162, 1574, 1605,
     2147548163, 1574, 1609, 2147548164, 1574, 1610, 2147548165, 1576, 1580, 2147548166, 1576, 1581,
     2147548167, 1576, 1582, 2147548168, 1576, 1605, 2147548169, 1576, 1609, 2147548170, 1576, 1610,
     2147548171, 1578, 1580, 2147548172, 1578, 1581, 2147548173, 1578, 1582, 2147548174, 1578, 1605,
     2147548175, 1578, 1609, 2147548176, 1578, 1610, 2147548177, 1579, 1580, 2147548178, 1579, 1605,
     2147548179, 1579, 1609, 2147548180, 1579, 1610, 2147548181, 1580, 1581, 2147548182, 1580, 1605,
     2147548183, 1581, 1580, 2147548184, 1581, 1605, 2147548185, 1582, 1580, 2147548186, 1582, 1581,
     2147548187, 1582, 1605, 2147548188, 1587, 1580, 2147548189, 1587, 1581, 2147548190, 1587, 1582,
     2147548191, 1587, 1605, 2147548192, 1589, 1581, 2147548193, 1589, 1605, 2147548194, 1590, 1580,
     2147548195, 1590, 1581, 2147548196, 1590, 1582, 2147548197, 1590, 1605, 2147548198, 1591, 1581,
     2147548199, 1591, 1605, 2147548200, 1592, 1605, 2147548201, 1593, 1580, 2147548202, 1593, 1605,
     2147548203, 1594, 1580]"

lemma check_starts_18: "check_starts 64260 idna_mapping_table_18 = Some 64555"
  by code_simp

definition idna_mapping_table_19 :: "int list" where
  "idna_mapping_table_19 =
    [2147548204, 1594, 1605, 2147548205, 1601, 1580, 2147548206, 1601, 1581, 2147548207, 1601, 1582,
     2147548208, 1601, 1605, 2147548209, 1601, 1609, 2147548210, 1601, 1610, 2147548211, 1602, 1581,
     2147548212, 1602, 1605, 2147548213, 1602, 1609, 2147548214, 1602, 1610, 2147548215, 1603, 1575,
     2147548216, 1603, 1580, 2147548217, 1603, 1581, 2147548218, 1603, 1582, 2147548219, 1603, 1604,
     2147548220, 1603, 1605, 2147548221, 1603, 1609, 2147548222, 1603, 1610, 2147548223, 1604, 1580,
     2147548224, 1604, 1581, 2147548225, 1604, 1582, 2147548226, 1604, 1605, 2147548227, 1604, 1609,
     2147548228, 1604, 1610, 2147548229, 1605, 1580, 2147548230, 1605, 1581, 2147548231, 1605, 1582,
     2147548232, 1605, 1605, 2147548233, 1605, 1609, 2147548234, 1605, 1610, 2147548235, 1606, 1580,
     2147548236, 1606, 1581, 2147548237, 1606, 1582, 2147548238, 1606, 1605, 2147548239, 1606, 1609,
     2147548240, 1606, 1610, 2147548241, 1607, 1580, 2147548242, 1607, 1605, 2147548243, 1607, 1609,
     2147548244, 1607, 1610, 2147548245, 1610, 1580, 2147548246, 1610, 1581, 2147548247, 1610, 1582,
     2147548248, 1610, 1605, 2147548249, 1610, 1609, 2147548250, 1610, 1610, 2147548251, 1584, 1648,
     2147548252, 1585, 1648, 2147548253, 1609, 1648, 2147548254, 32, 1612, 1617, 2147548255, 32, 1613, 1617,
     2147548256, 32, 1614, 1617, 2147548257, 32, 1615, 1617, 2147548258, 32, 1616, 1617, 2147548259, 32,
     1617, 1648, 2147548260, 1574, 1585, 2147548261, 1574, 1586, 2147548262, 1574, 1605, 2147548263, 1574,
     1606, 2147548264, 1574, 1609, 2147548265, 1574, 1610, 2147548266, 1576, 1585, 2147548267, 1576, 1586,
     2147548268, 1576, 1605, 2147548269, 1576, 1606, 2147548270, 1576, 1609, 2147548271, 1576, 1610,
     2147548272, 1578, 1585, 2147548273, 1578, 1586, 2147548274, 1578, 1605, 2147548275, 1578, 1606,
     2147548276, 1578, 1609, 2147548277, 1578, 1610, 2147548278, 1579, 1585, 2147548279, 1579, 1586,
     2147548280, 1579, 1605, 2147548281, 1579, 1606, 2147548282, 1579, 1609, 2147548283, 1579, 1610,
     2147548284, 1601, 1609, 2147548285, 1601, 1610, 2147548286, 1602, 1609, 2147548287, 1602, 1610,
     2147548288, 1603, 1575, 2147548289, 1603, 1604, 2147548290, 1603, 1605, 2147548291, 1603, 1609,
     2147548292, 1603, 1610, 2147548293, 1604, 1605, 2147548294, 1604, 1609, 2147548295, 1604, 1610,
     2147548296, 1605, 1575, 2147548297, 1605, 1605, 2147548298, 1606, 1585, 2147548299, 1606, 1586,
     2147548300, 1606, 1605, 2147548301, 1606, 1606, 2147548302, 1606, 1609, 2147548303, 1606, 1610,
     2147548304, 1609, 1648, 2147548305, 1610, 1585, 2147548306, 1610, 1586, 2147548307, 1610, 1605,
     2147548308, 1610, 1606, 2147548309, 1610, 1609, 2147548310, 1610, 1610, 2147548311, 1574, 1580,
     2147548312, 1574, 1581, 2147548313, 1574, 1582, 2147548314, 1574, 1605, 2147548315, 1574, 1607,
     2147548316, 1576, 1580, 2147548317, 1576, 1581, 2147548318, 1576, 1582, 2147548319, 1576, 1605,
     2147548320, 1576, 1607, 2147548321, 1578, 1580, 2147548322, 1578, 1581, 2147548323, 1578, 1582,
     2147548324, 1578, 1605, 2147548325, 1578, 1607, 2147548326, 1579, 1605, 2147548327, 1580, 1581,
     2147548328, 1580, 1605, 2147548329, 1581, 1580, 2147548330, 1581, 1605, 2147548331, 1582, 1580,
     2147548332, 1582, 1605, 2147548333, 1587, 1580, 2147548334, 1587, 1581, 2147548335, 1587, 1582,
     2147548336, 1587, 1605, 2147548337, 1589, 1581, 2147548338, 1589, 1582, 2147548339, 1589, 1605,
     2147548340, 1590, 1580, 2147548341, 1590, 1581, 2147548342, 1590, 1582, 2147548343, 1590, 1605,
     2147548344, 1591, 1581, 2147548345, 1592, 1605, 2147548346, 1593, 1580, 2147548347, 1593, 1605,
     2147548348, 1594, 1580, 2147548349, 1594, 1605, 2147548350, 1601, 1580, 2147548351, 1601, 1581,
     2147548352, 1601, 1582]"

lemma check_starts_19: "check_starts 64555 idna_mapping_table_19 = Some 64704"
  by code_simp

definition idna_mapping_table_20 :: "int list" where
  "idna_mapping_table_20 =
    [2147548353, 1601, 1605, 2147548354, 1602, 1581, 2147548355, 1602, 1605, 2147548356, 1603, 1580,
     2147548357, 1603, 1581, 2147548358, 1603, 1582, 2147548359, 1603, 1604, 2147548360, 1603, 1605,
     2147548361, 1604, 1580, 2147548362, 1604, 1581, 2147548363, 1604, 1582, 2147548364, 1604, 1605,
     2147548365, 1604, 1607, 2147548366, 1605, 1580, 2147548367, 1605, 1581, 2147548368, 1605, 1582,
     2147548369, 1605, 1605, 2147548370, 1606, 1580, 2147548371, 1606, 1581, 2147548372, 1606, 1582,
     2147548373, 1606, 1605, 2147548374, 1606, 1607, 2147548375, 1607, 1580, 2147548376, 1607, 1605,
     2147548377, 1607, 1648, 2147548378, 1610, 1580, 2147548379, 1610, 1581, 2147548380, 1610, 1582,
     2147548381, 1610, 1605, 2147548382, 1610, 1607, 2147548383, 1574, 1605, 2147548384, 1574, 1607,
     2147548385, 1576, 1605, 2147548386, 1576, 1607, 2147548387, 1578, 1605, 2147548388, 1578, 1607,
     2147548389, 1579, 1605, 2147548390, 1579, 1607, 2147548391, 1587, 1605, 2147548392, 1587, 1607,
     2147548393, 1588, 1605, 2147548394, 1588, 1607, 2147548395, 1603, 1604, 2147548396, 1603, 1605,
     2147548397, 1604, 1605, 2147548398, 1606, 1605, 2147548399, 1606, 1607, 2147548400, 1610, 1605,
     2147548401, 1610, 1607, 2147548402, 1600, 1614, 1617, 2147548403, 1600, 1615, 1617, 2147548404, 1600,
     1616, 1617, 2147548405, 1591, 1609, 2147548406, 1591, 1610, 2147548407, 1593, 1609, 2147548408, 1593,
     1610, 2147548409, 1594, 1609, 2147548410, 1594, 1610, 2147548411, 1587, 1609, 2147548412, 1587, 1610,
     2147548413, 1588, 1609, 2147548414, 1588, 1610, 2147548415, 1581, 1609, 2147548416, 1581, 1610,
     2147548417, 1580, 1609, 2147548418, 1580, 1610, 2147548419, 1582, 1609, 2147548420, 1582, 1610,
     2147548421, 1589, 1609, 2147548422, 1589, 1610, 2147548423, 1590, 1609, 2147548424, 1590, 1610,
     2147548425, 1588, 1580, 2147548426, 1588, 1581, 2147548427, 1588, 1582, 2147548428, 1588, 1605,
     2147548429, 1588, 1585, 2147548430, 1587, 1585, 2147548431, 1589, 1585, 2147548432, 1590, 1585,
     2147548433, 1591, 1609, 2147548434, 1591, 1610, 2147548435, 1593, 1609, 2147548436, 1593, 1610,
     2147548437, 1594, 1609, 2147548438, 1594, 1610, 2147548439, 1587, 1609, 2147548440, 1587, 1610,
     2147548441, 1588, 1609, 2147548442, 1588, 1610, 2147548443, 1581, 1609, 2147548444, 1581, 1610,
     2147548445, 1580, 1609, 2147548446, 1580, 1610, 2147548447, 1582, 1609, 2147548448, 1582, 1610,
     2147548449, 1589, 1609, 2147548450, 1589, 1610, 2147548451, 1590, 1609, 2147548452, 1590, 1610,
     2147548453, 1588, 1580, 2147548454, 1588, 1581, 2147548455, 1588, 1582, 2147548456, 1588, 1605,
     2147548457, 1588, 1585, 2147548458, 1587, 1585, 2147548459, 1589, 1585, 2147548460, 1590, 1585,
     2147548461, 1588, 1580, 2147548462, 1588, 1581, 2147548463, 1588, 1582, 2147548464, 1588, 1605,
     2147548465, 1587, 1607, 2147548466, 1588, 1607, 2147548467, 1591, 1605, 2147548468, 1587, 1580,
     2147548469, 1587, 1581, 2147548470, 1587, 1582, 2147548471, 1588, 1580, 2147548472, 1588, 1581,
     2147548473, 1588, 1582, 2147548474, 1591, 1605, 2147548475, 1592, 1605, 2164325692, 1575, 1611,
     2147548496, 1578, 1580, 1605, 2164325713, 1578, 1581, 1580, 2147548499, 1578, 1581, 1605, 2147548500,
     1578, 1582, 1605, 2147548501, 1578, 1605, 1580, 2147548502, 1578, 1605, 1581, 2147548503, 1578, 1605,
     1582, 2164325720, 1580, 1605, 1581, 2147548506, 1581, 1605, 1610, 2147548507, 1581, 1605, 1609,
     2147548508, 1587, 1581, 1580, 2147548509, 1587, 1580, 1581, 2147548510, 1587, 1580, 1609, 2164325727,
     1587, 1605, 1581, 2147548513, 1587, 1605, 1580, 2164325730, 1587, 1605, 1605, 2164325732, 1589, 1581,
     1581, 2147548518, 1589, 1605, 1605, 2164325735, 1588, 1581, 1605, 2147548521, 1588, 1580, 1610,
     2164325738, 1588, 1605, 1582, 2164325740, 1588, 1605, 1605, 2147548526, 1590, 1581, 1609, 2164325743,
     1590, 1582, 1605, 2164325745, 1591, 1605, 1581]"

lemma check_starts_20: "check_starts 64704 idna_mapping_table_20 = Some 64881"
  by code_simp

definition idna_mapping_table_21 :: "int list" where
  "idna_mapping_table_21 =
    [2147548531, 1591, 1605, 1605, 2147548532, 1591, 1605, 1610, 2147548533, 1593, 1580, 1605, 2164325750,
     1593, 1605, 1605, 2147548536, 1593, 1605, 1609, 2147548537, 1594, 1605, 1605, 2147548538, 1594, 1605,
     1610, 2147548539, 1594, 1605, 1609, 2164325756, 1601, 1582, 1605, 2147548542, 1602, 1605, 1581,
     2147548543, 1602, 1605, 1605, 2147548544, 1604, 1581, 1605, 2147548545, 1604, 1581, 1610, 2147548546,
     1604, 1581, 1609, 2164325763, 1604, 1580, 1580, 2164325765, 1604, 1582, 1605, 2164325767, 1604, 1605,
     1581, 2147548553, 1605, 1581, 1580, 2147548554, 1605, 1581, 1605, 2147548555, 1605, 1581, 1610,
     2147548556, 1605, 1580, 1581, 2147548557, 1605, 1580, 1605, 2147548558, 1605, 1582, 1580, 2147548559,
     1605, 1582, 1605, 4278254992, 64913, 2147548562, 1605, 1580, 1582, 2147548563, 1607, 1605, 1580,
     2147548564, 1607, 1605, 1605, 2147548565, 1606, 1581, 1605, 2147548566, 1606, 1581, 1609, 2164325783,
     1606, 1580, 1605, 2147548569, 1606, 1580, 1609, 2147548570, 1606, 1605, 1610, 2147548571, 1606, 1605,
     1609, 2164325788, 1610, 1605, 1605, 2147548574, 1576, 1582, 1610, 2147548575, 1578, 1580, 1610,
     2147548576, 1578, 1580, 1609, 2147548577, 1578, 1582, 1610, 2147548578, 1578, 1582, 1609, 2147548579,
     1578, 1605, 1610, 2147548580, 1578, 1605, 1609, 2147548581, 1580, 1605, 1610, 2147548582, 1580, 1581,
     1609, 2147548583, 1580, 1605, 1609, 2147548584, 1587, 1582, 1609, 2147548585, 1589, 1581, 1610,
     2147548586, 1588, 1581, 1610, 2147548587, 1590, 1581, 1610, 2147548588, 1604, 1580, 1610, 2147548589,
     1604, 1605, 1610, 2147548590, 1610, 1581, 1610, 2147548591, 1610, 1580, 1610, 2147548592, 1610, 1605,
     1610, 2147548593, 1605, 1605, 1610, 2147548594, 1602, 1605, 1610, 2147548595, 1606, 1581, 1610,
     2147548596, 1602, 1605, 1581, 2147548597, 1604, 1581, 1605, 2147548598, 1593, 1605, 1610, 2147548599,
     1603, 1605, 1610, 2147548600, 1606, 1580, 1581, 2147548601, 1605, 1582, 1610, 2147548602, 1604, 1580,
     1605, 2147548603, 1603, 1605, 1605, 2147548604, 1604, 1580, 1605, 2147548605, 1606, 1580, 1581,
     2147548606, 1580, 1581, 1610, 2147548607, 1581, 1580, 1610, 2147548608, 1605, 1580, 1610, 2147548609,
     1601, 1605, 1610, 2147548610, 1576, 1581, 1610, 2147548611, 1603, 1605, 1605, 2147548612, 1593, 1580,
     1605, 2147548613, 1589, 1605, 1605, 2147548614, 1587, 1582, 1610, 2147548615, 1606, 1580, 1610,
     4278255048, 64974, 4278255056, 65007, 2147548656, 1589, 1604, 1746, 2147548657, 1602, 1604, 1746,
     2147548658, 1575, 1604, 1604, 1607, 2147548659, 1575, 1603, 1576, 1585, 2147548660, 1605, 1581, 1605,
     1583, 2147548661, 1589, 1604, 1593, 1605, 2147548662, 1585, 1587, 1608, 1604, 2147548663, 1593, 1604,
     1610, 1607, 2147548664, 1608, 1587, 1604, 1605, 2147548665, 1589, 1604, 1609, 2147548666, 1589, 1604,
     1609, 32, 1575, 1604, 1604, 1607, 32, 1593, 1604, 1610, 1607, 32, 1608, 1587, 1604, 1605, 2147548667,
     1580, 1604, 32, 1580, 1604, 1575, 1604, 1607, 2147548668, 1585, 1740, 1575, 1604, 2399206912,
     2147548688, 44, 2147548689, 12289, 4278255122, 65042, 2164325907, 2130706490, 2147548693, 33,
     2147548694, 63, 2164325911, 2130718742, 4278255129, 65055, 4278255152, 65072, 2147548721, 8212,
     2147548722, 8211, 2164325939, 95, 2164325941, 2130706472, 2147548727, 123, 2147548728, 125, 2164325945,
     2130718740, 2164325947, 2130718736, 2164325949, 2130718730, 2164325951, 2130718728, 2197880385,
     2130718732, 2147548743, 91, 2147548744, 93, 2197880393, 32, 773, 2181103181, 95, 2147548752, 44,
     2147548753, 12289, 4278255186, 65107, 2147548756, 59, 2147548757, 58, 2147548758, 63, 2147548759, 33,
     2147548760, 8212, 2164325977, 2130706472, 2147548763, 123, 2147548764, 125, 2164325981, 2130718740,
     2147548767, 35, 2147548768, 38, 2164325985, 2130706474, 2147548771, 45, 2147548772, 60, 2147548773, 62,
     2147548774, 61, 4278255207, 65127, 2147548776, 92, 2164325993, 2130706468, 2147548779, 64, 4278255212,
     65135, 2147548784, 32, 1611, 2147548785, 1600, 1611, 2147548786, 32, 1612, 2147548788, 32, 1613,
     4278255221, 65141, 2147548790, 32, 1614, 2147548791, 1600, 1614, 2147548792, 32, 1615]"

lemma check_starts_21: "check_starts 64881 idna_mapping_table_21 = Some 65144"
  by code_simp

definition idna_mapping_table_22 :: "int list" where
  "idna_mapping_table_22 =
    [2147548793, 1600, 1615, 2147548794, 32, 1616, 2147548795, 1600, 1616, 2147548796, 32, 1617, 2147548797,
     1600, 1617, 2147548798, 32, 1618, 2147548799, 1600, 1618, 2147548800, 1569, 2164326017, 1570,
     2164326019, 1571, 2164326021, 1572, 2164326023, 1573, 2197880457, 1574, 2164326029, 1575, 2197880463,
     1576, 2164326035, 1577, 2197880469, 1578, 2197880473, 1579, 2197880477, 1580, 2197880481, 1581,
     2197880485, 1582, 2164326057, 1583, 2164326059, 1584, 2164326061, 1585, 2164326063, 1586, 2197880497,
     1587, 2197880501, 1588, 2197880505, 1589, 2197880509, 1590, 2197880513, 1591, 2197880517, 1592,
     2197880521, 1593, 2197880525, 1594, 2197880529, 1601, 2197880533, 1602, 2197880537, 1603, 2197880541,
     1604, 2197880545, 1605, 2197880549, 1606, 2197880553, 1607, 2164326125, 1608, 2164326127, 1609,
     2197880561, 1610, 2164326133, 1604, 1570, 2164326135, 1604, 1571, 2164326137, 1604, 1573, 2164326139,
     1604, 1575, 4278255357, 65278, 2147548927, 4278255360, 65280, 2667642625, 2130706465, 2566979361,
     2130706529, 2734751547, 2130706523, 2164326239, 2130717061, 2147549025, 46, 2164326242, 2130718732,
     2147549028, 12289, 2147549029, 12539, 2147549030, 12530, 2147549031, 12449, 2147549032, 12451,
     2147549033, 12453, 2147549034, 12455, 2147549035, 12457, 2147549036, 12515, 2147549037, 12517,
     2147549038, 12519, 2147549039, 12483, 2147549040, 12540, 2147549041, 12450, 2147549042, 12452,
     2147549043, 12454, 2147549044, 12456, 2164326261, 2130718890, 2147549047, 12461, 2147549048, 12463,
     2147549049, 12465, 2147549050, 12467, 2147549051, 12469, 2147549052, 12471, 2147549053, 12473,
     2147549054, 12475, 2147549055, 12477, 2147549056, 12479, 2147549057, 12481, 2147549058, 12484,
     2147549059, 12486, 2147549060, 12488, 2231435141, 2130718922, 2147549067, 12498, 2147549068, 12501,
     2147549069, 12504, 2147549070, 12507, 2214657935, 2130718942, 2147549076, 12516, 2147549077, 12518,
     2231435158, 2130718952, 2147549084, 12527, 2147549085, 12531, 2164326302, 2130718873, 4278255520,
     65440, 2164326305, 2130710784, 2147549091, 4522, 2147549092, 4354, 2164326309, 2130710956, 2181103527,
     2130710787, 2231435178, 2130710960, 2147549104, 4378, 2181103537, 2130710790, 2147549108, 4385,
     2298544053, 2130710793, 4278255551, 65473, 2231435202, 2130710881, 4278255560, 65481, 2231435210,
     2130710887, 4278255568, 65489, 2231435218, 2130710893, 4278255576, 65497, 2181103578, 2130710899,
     4278255581, 65503, 2164326368, 2130706594, 2147549154, 172, 2147549155, 32, 772, 2147549156, 166,
     2147549157, 165, 2147549158, 8361, 4278255591, 65511, 2147549160, 9474, 2197880809, 2130715024,
     2147549165, 9632, 2147549166, 9675, 4278255599, 65535, 4278255628, 65548, 4278255655, 65575,
     4278255675, 65595, 4278255678, 65598, 4278255694, 65615, 4278255710, 65663, 4278255867, 65791,
     4278255875, 65798, 4278255924, 65846, 4278256015, 65935, 4278256029, 65951, 4278256033, 65999,
     4278256126, 66175, 4278256285, 66207, 4278256337, 66271, 4278256380, 66303, 4278256420, 66348]"

lemma check_starts_22: "check_starts 65144 idna_mapping_table_22 = Some 66340"
  by code_simp

definition idna_mapping_table_23 :: "int list" where
  "idna_mapping_table_23 =
    [4278256459, 66383, 4278256507, 66431, 4278256542, 66462, 4278256580, 66503, 4278256598, 66559,
     2801861632, 2130773032, 4278256798, 66719, 4278256810, 66735, 2734752944, 2130773208, 4278256852,
     66775, 4278256892, 66815, 4278256936, 66863, 4278256996, 66926, 2315322736, 2130773399, 4278257019,
     66939, 2382431612, 2130773411, 4278257035, 66955, 2248213900, 2130773427, 4278257043, 66963,
     2164327828, 2130773435, 4278257046, 66966, 4278257058, 66978, 4278257074, 66994, 4278257082, 67002,
     4278257085, 67071, 4278257463, 67391, 4278257494, 67423, 4278257512, 67455, 2164328321, 2130707152,
     2147551107, 230, 2147551108, 665, 2147551109, 595, 4278257542, 67462, 2147551111, 675, 2147551112,
     43878, 2147551113, 677, 2147551114, 676, 2164328331, 2130707030, 2147551117, 7569, 2147551118, 600,
     2147551119, 606, 2147551120, 681, 2147551121, 612, 2147551122, 610, 2147551123, 608, 2147551124, 667,
     2147551125, 295, 2147551126, 668, 2147551127, 615, 2147551128, 644, 2164328345, 2130707114, 2147551131,
     620, 2147551132, 122628, 2147551133, 42894, 2147551134, 622, 2147551135, 122629, 2147551136, 654,
     2147551137, 122630, 2147551138, 248, 2164328355, 2130707062, 2147551141, 113, 2147551142, 634,
     2147551143, 122632, 2164328360, 2130707069, 2147551146, 640, 2147551147, 680, 2147551148, 678,
     2147551149, 43879, 2147551150, 679, 2147551151, 648, 2147551152, 11377, 4278257585, 67505, 2147551154,
     655, 2164328371, 2130707105, 2147551157, 664, 2181105590, 2130706880, 2147551161, 122634, 2147551162,
     122654, 4278257595, 67583, 4278257670, 67591, 4278257673, 67593, 4278257718, 67638, 4278257721, 67643,
     4278257725, 67646, 4278257750, 67670, 4278257823, 67750, 4278257840, 67807, 4278257907, 67827,
     4278257910, 67834, 4278257948, 67870, 4278257978, 67902, 4278257984, 67967, 4278258104, 68027,
     4278258128, 68049, 4278258180, 68100, 4278258183, 68107, 4278258196, 68116, 4278258200, 68120,
     4278258230, 68151, 4278258235, 68158, 4278258249, 68175, 4278258265, 68191, 4278258336, 68287,
     4278258407, 68330, 4278258423, 68351, 4278258486, 68408, 4278258518, 68439, 4278258547, 68471,
     4278258578, 68504, 4278258589, 68520, 4278258608, 68607, 4278258761, 68735, 2986413184, 2130775232,
     4278258867, 68799, 4278258931, 68857, 4278258984, 68911, 4278259002, 69215, 4278259327, 69247,
     4278259370, 69290, 4278259374, 69295, 4278259378, 69372, 4278259496, 69423, 4278259546, 69487,
     4278259594, 69551, 4278259660, 69599, 4278259703, 69631, 4278259790, 69713, 4278259830, 69758,
     4278259901, 69821, 4278259907, 69839, 4278259945, 69871, 4278259962, 69887, 4278260021, 69941,
     4278260040, 69967, 4278260087, 70015, 4278260192, 70112, 4278260213, 70143, 4278260242, 70162,
     4278260290, 70271, 4278260359, 70279, 4278260361, 70281, 4278260366, 70286, 4278260382, 70302,
     4278260394, 70319, 4278260459, 70383, 4278260474, 70399, 4278260484, 70404, 4278260493, 70414,
     4278260497, 70418]"

lemma check_starts_23: "check_starts 66340 idna_mapping_table_23 = Some 70417"
  by code_simp

definition idna_mapping_table_24 :: "int list" where
  "idna_mapping_table_24 =
    [4278260521, 70441, 4278260529, 70449, 4278260532, 70452, 4278260538, 70458, 4278260549, 70470,
     4278260553, 70474, 4278260558, 70479, 4278260561, 70486, 4278260568, 70492, 4278260580, 70501,
     4278260589, 70511, 4278260597, 70655, 4278260828, 70748, 4278260834, 70783, 4278260936, 70863,
     4278260954, 71039, 4278261174, 71095, 4278261214, 71167, 4278261317, 71247, 4278261338, 71263,
     4278261357, 71295, 4278261434, 71359, 4278261450, 71423, 4278261531, 71452, 4278261548, 71471,
     4278261575, 71679, 4278261820, 71839, 2667649184, 2130778304, 4278262003, 71934, 4278262023, 71944,
     4278262026, 71947, 4278262036, 71956, 4278262039, 71959, 4278262070, 71990, 4278262073, 71994,
     4278262087, 72015, 4278262106, 72095, 4278262184, 72105, 4278262232, 72153, 4278262245, 72191,
     4278262344, 72271, 4278262435, 72367, 4278262521, 72447, 4278262538, 72703, 4278262793, 72713,
     4278262839, 72759, 4278262854, 72783, 4278262893, 72815, 4278262928, 72849, 4278262952, 72872,
     4278262967, 72959, 4278263047, 72967, 4278263050, 72970, 4278263095, 73017, 4278263099, 73019,
     4278263102, 73022, 4278263112, 73039, 4278263130, 73055, 4278263142, 73062, 4278263145, 73065,
     4278263183, 73103, 4278263186, 73106, 4278263193, 73119, 4278263210, 73439, 4278263545, 73471,
     4278263569, 73489, 4278263611, 73533, 4278263642, 73647, 4278263729, 73663, 4278263794, 73726,
     4278264730, 74751, 4278264943, 74863, 4278264949, 74879, 4278265156, 77711, 4278267891, 77823,
     4278268976, 78911, 4278269014, 82943, 4278273607, 92159, 4278282809, 92735, 4278282847, 92767,
     4278282858, 92781, 4278282943, 92863, 4278282954, 92879, 4278282990, 92911, 4278282998, 92927,
     4278283078, 93007, 4278283098, 93018, 4278283106, 93026, 4278283128, 93052, 4278283152, 93759,
     2667671104, 2130800224, 4278283931, 93951, 4278284107, 94030, 4278284168, 94094, 4278284192, 94175,
     4278284261, 94191, 4278284274, 94207, 4278290424, 100351, 4278291670, 101631, 4278291721, 110575,
     4278300660, 110580, 4278300668, 110588, 4278300671, 110591, 4278300963, 110897, 4278300979, 110927,
     4278301011, 110932, 4278301014, 110947, 4278301032, 110959, 4278301436, 113663, 4278303851, 113775,
     4278303869, 113791, 4278303881, 113807, 4278303898, 113819, 2197929120, 4278303908, 118527, 4278308654,
     118575, 4278308679, 118607, 4278308804, 118783, 4278309110, 119039, 4278309159, 119080, 2147602782,
     119127, 119141, 2147602783, 119128, 119141, 2147602784, 119128, 119141, 119150, 2147602785, 119128,
     119141, 119151, 2147602786, 119128, 119141, 119152, 2147602787, 119128, 119141, 119153, 2147602788,
     119128, 119141, 119154, 4278309235, 119162, 2147602875, 119225, 119141, 2147602876, 119226, 119141,
     2147602877, 119225, 119141, 119150, 2147602878, 119226, 119141, 119150, 2147602879, 119225, 119141,
     119151, 2147602880, 119226, 119141, 119151, 4278309355, 119295, 4278309446, 119487, 4278309588, 119519,
     4278309620, 119551, 4278309719, 119647, 4278309753, 119807, 2567033856, 2130706529, 2567033882,
     2130706529, 2567033908, 2130706529, 2248266830, 2130706529, 4278309973, 119893, 2432816214, 2130706537,
     2567033960, 2130706529, 2567033986, 2130706529, 2147603612, 97]"

lemma check_starts_24: "check_starts 70417 idna_mapping_table_24 = Some 119964"
  by code_simp

definition idna_mapping_table_25 :: "int list" where
  "idna_mapping_table_25 =
    [4278310045, 119965, 2164380830, 2130706531, 4278310048, 119969, 2147603618, 103, 4278310051, 119972,
     2164380837, 2130706538, 4278310055, 119976, 2197935273, 2130706542, 4278310061, 119981, 2265044142,
     2130706547, 2197935286, 2130706529, 4278310074, 119994, 2147603643, 102, 4278310076, 119996,
     2248266941, 2130706536, 4278310084, 120004, 2315375813, 2130706544, 2567034064, 2130706529, 2567034090,
     2130706529, 2164380932, 2130706529, 4278310150, 120070, 2197935367, 2130706532, 4278310155, 120076,
     2265044237, 2130706538, 4278310165, 120085, 2248267030, 2130706547, 4278310173, 120093, 2567034142,
     2130706529, 2164380984, 2130706529, 4278310202, 120122, 2197935419, 2130706532, 4278310207, 120127,
     2214712640, 2130706537, 4278310213, 120133, 2147603782, 111, 4278310215, 120137, 2248267082,
     2130706547, 4278310225, 120145, 2567034194, 2130706529, 2567034220, 2130706529, 2567034246, 2130706529,
     2567034272, 2130706529, 2567034298, 2130706529, 2567034324, 2130706529, 2567034350, 2130706529,
     2567034376, 2130706529, 2567034402, 2130706529, 2567034428, 2130706529, 2567034454, 2130706529,
     2567034480, 2130706529, 2567034506, 2130706529, 2147604132, 305, 2147604133, 567, 4278310566, 120487,
     2416039592, 2130707377, 2147604153, 952, 2248267450, 2130707395, 2147604161, 8711, 2416039618,
     2130707377, 2164381395, 963, 2231490261, 2130707396, 2147604187, 8706, 2147604188, 949, 2147604189,
     952, 2147604190, 954, 2147604191, 966, 2147604192, 961, 2147604193, 960, 2416039650, 2130707377,
     2147604211, 952, 2248267508, 2130707395, 2147604219, 8711, 2416039676, 2130707377, 2164381453, 963,
     2231490319, 2130707396, 2147604245, 8706, 2147604246, 949, 2147604247, 952, 2147604248, 954,
     2147604249, 966, 2147604250, 961, 2147604251, 960, 2416039708, 2130707377, 2147604269, 952, 2248267566,
     2130707395, 2147604277, 8711, 2416039734, 2130707377, 2164381511, 963, 2231490377, 2130707396,
     2147604303, 8706, 2147604304, 949, 2147604305, 952, 2147604306, 954, 2147604307, 966, 2147604308, 961,
     2147604309, 960, 2416039766, 2130707377, 2147604327, 952, 2248267624, 2130707395, 2147604335, 8711,
     2416039792, 2130707377, 2164381569, 963, 2231490435, 2130707396, 2147604361, 8706, 2147604362, 949,
     2147604363, 952, 2147604364, 954, 2147604365, 966, 2147604366, 961, 2147604367, 960, 2416039824,
     2130707377, 2147604385, 952, 2248267682, 2130707395, 2147604393, 8711, 2416039850, 2130707377,
     2164381627, 963, 2231490493, 2130707396, 2147604419, 8706, 2147604420, 949, 2147604421, 952,
     2147604422, 954, 2147604423, 966, 2147604424, 961, 2147604425, 960, 2164381642, 989, 4278310860,
     120781, 2298599374, 2130706480, 2298599384, 2130706480, 2298599394, 2130706480, 2298599404, 2130706480,
     2298599414, 2130706480, 4278311564, 121498, 4278311584, 121504, 4278311600, 122623, 4278312735, 122660,
     4278312747, 122879, 4278312967, 122887, 4278312985, 122906, 4278312994, 122914, 4278312997, 122917,
     4278313003, 122927, 2281824304, 2130707504, 2181161017, 2130707514, 2315378748, 2130707518, 2147606599,
     1099, 2164383816, 2130707533, 2147606602, 42633, 2147606603, 1241, 2147606604, 1110]"

lemma check_starts_25: "check_starts 119964 idna_mapping_table_25 = Some 122956"
  by code_simp

definition idna_mapping_table_26 :: "int list" where
  "idna_mapping_table_26 =
    [2147606605, 1112, 2147606606, 1257, 2147606607, 1199, 2147606608, 1231, 2281824337, 2130707504,
     2164383834, 2130707514, 2164383836, 2130707518, 2147606622, 1089, 2231492703, 2130707523, 2164383845,
     2130707530, 2147606631, 1169, 2147606632, 1110, 2147606633, 1109, 2147606634, 1119, 2147606635, 1195,
     2147606636, 42577, 2147606637, 1201, 4278313070, 123022, 4278313104, 123135, 4278313261, 123183,
     4278313278, 123199, 4278313290, 123213, 4278313296, 123535, 4278313647, 123583, 4278313722, 123646,
     4278313728, 124111, 4278314234, 124895, 4278314983, 124903, 4278314988, 124908, 4278314991, 124911,
     4278315007, 124927, 4278315205, 125126, 4278315223, 125183, 2701256960, 2130831650, 4278315340, 125263,
     4278315354, 125277, 4278315360, 126064, 4278316213, 126208, 4278316350, 126463, 2164387328, 2130708007,
     2147610114, 1580, 2147610115, 1583, 4278316548, 126468, 2147610117, 1608, 2147610118, 1586, 2147610119,
     1581, 2147610120, 1591, 2147610121, 1610, 2197941770, 2130708035, 2147610126, 1587, 2147610127, 1593,
     2147610128, 1601, 2147610129, 1589, 2147610130, 1602, 2147610131, 1585, 2147610132, 1588, 2164387349,
     2130708010, 2147610135, 1582, 2147610136, 1584, 2147610137, 1590, 2147610138, 1592, 2147610139, 1594,
     2147610140, 1646, 2147610141, 1722, 2147610142, 1697, 2147610143, 1647, 4278316576, 126496, 2147610145,
     1576, 2147610146, 1580, 4278316579, 126499, 2147610148, 1607, 4278316581, 126502, 2147610151, 1581,
     4278316584, 126504, 2147610153, 1610, 2197941802, 2130708035, 2147610158, 1587, 2147610159, 1593,
     2147610160, 1601, 2147610161, 1589, 2147610162, 1602, 4278316595, 126515, 2147610164, 1588, 2164387381,
     2130708010, 2147610167, 1582, 4278316600, 126520, 2147610169, 1590, 4278316602, 126522, 2147610171,
     1594, 4278316604, 126529, 2147610178, 1580, 4278316611, 126534, 2147610183, 1581, 4278316616, 126536,
     2147610185, 1610, 4278316618, 126538, 2147610187, 1604, 4278316620, 126540, 2147610189, 1606,
     2147610190, 1587, 2147610191, 1593, 4278316624, 126544, 2147610193, 1589, 2147610194, 1602, 4278316627,
     126547, 2147610196, 1588, 4278316629, 126550, 2147610199, 1582, 4278316632, 126552, 2147610201, 1590,
     4278316634, 126554, 2147610203, 1594, 4278316636, 126556, 2147610205, 1722, 4278316638, 126558,
     2147610207, 1647, 4278316640, 126560, 2147610209, 1576, 2147610210, 1580, 4278316643, 126563,
     2147610212, 1607, 4278316645, 126566, 2147610215, 1581, 2147610216, 1591, 2147610217, 1610, 2147610218,
     1603, 4278316651, 126571, 2164387436, 2130708037, 2147610222, 1587, 2147610223, 1593, 2147610224, 1601,
     2147610225, 1589, 2147610226, 1602, 4278316659, 126579, 2147610228, 1588, 2164387445, 2130708010,
     2147610231, 1582, 4278316664, 126584, 2147610233, 1590, 2147610234, 1592, 2147610235, 1594, 2147610236,
     1646, 4278316669, 126589, 2147610238, 1697, 4278316671, 126591, 2164387456, 2130708007, 2147610242,
     1580, 2147610243, 1583, 2164387460, 2130708039]"

lemma check_starts_26: "check_starts 122956 idna_mapping_table_26 = Some 126596"
  by code_simp

definition idna_mapping_table_27 :: "int list" where
  "idna_mapping_table_27 =
    [2147610246, 1586, 2147610247, 1581, 2147610248, 1591, 2147610249, 1610, 4278316682, 126602, 2181164683,
     2130708036, 2147610254, 1587, 2147610255, 1593, 2147610256, 1601, 2147610257, 1589, 2147610258, 1602,
     2147610259, 1585, 2147610260, 1588, 2164387477, 2130708010, 2147610263, 1582, 2147610264, 1584,
     2147610265, 1590, 2147610266, 1592, 2147610267, 1594, 4278316700, 126624, 2147610273, 1576, 2147610274,
     1580, 2147610275, 1583, 4278316708, 126628, 2147610277, 1608, 2147610278, 1586, 2147610279, 1581,
     2147610280, 1591, 2147610281, 1610, 4278316714, 126634, 2181164715, 2130708036, 2147610286, 1587,
     2147610287, 1593, 2147610288, 1601, 2147610289, 1589, 2147610290, 1602, 2147610291, 1585, 2147610292,
     1588, 2164387509, 2130708010, 2147610295, 1582, 2147610296, 1584, 2147610297, 1590, 2147610298, 1592,
     2147610299, 1594, 4278316732, 126703, 4278316786, 126975, 4278317100, 127023, 4278317204, 127135,
     4278317231, 127152, 4278317248, 127168, 4278317264, 127184, 4278317302, 127232, 2147610881, 48, 44,
     2147610882, 49, 44, 2147610883, 50, 44, 2147610884, 51, 44, 2147610885, 52, 44, 2147610886, 53, 44,
     2147610887, 54, 44, 2147610888, 55, 44, 2147610889, 56, 44, 2147610890, 57, 44, 2147610896, 40, 97, 41,
     2147610897, 40, 98, 41, 2147610898, 40, 99, 41, 2147610899, 40, 100, 41, 2147610900, 40, 101, 41,
     2147610901, 40, 102, 41, 2147610902, 40, 103, 41, 2147610903, 40, 104, 41, 2147610904, 40, 105, 41,
     2147610905, 40, 106, 41, 2147610906, 40, 107, 41, 2147610907, 40, 108, 41, 2147610908, 40, 109, 41,
     2147610909, 40, 110, 41, 2147610910, 40, 111, 41, 2147610911, 40, 112, 41, 2147610912, 40, 113, 41,
     2147610913, 40, 114, 41, 2147610914, 40, 115, 41, 2147610915, 40, 116, 41, 2147610916, 40, 117, 41,
     2147610917, 40, 118, 41, 2147610918, 40, 119, 41, 2147610919, 40, 120, 41, 2147610920, 40, 121, 41,
     2147610921, 40, 122, 41, 2147610922, 12308, 115, 12309, 2147610923, 99, 2147610924, 114, 2147610925,
     99, 100, 2147610926, 119, 122, 2567041328, 2130706529, 2147610954, 104, 118, 2147610955, 109, 118,
     2147610956, 115, 100, 2147610957, 115, 115, 2147610958, 112, 112, 118, 2147610959, 119, 99, 2147610986,
     109, 99, 2147610987, 109, 100, 2147610988, 109, 114, 2147611024, 100, 106, 4278317486, 127461,
     2147611136, 12411, 12363, 2147611137, 12467, 12467, 2147611138, 12469, 4278317571, 127503, 2147611152,
     25163, 2147611153, 23383, 2147611154, 21452, 2147611155, 12487, 2147611156, 20108, 2147611157, 22810,
     2147611158, 35299, 2147611159, 22825, 2147611160, 20132, 2147611161, 26144, 2147611162, 28961,
     2147611163, 26009, 2147611164, 21069, 2147611165, 24460, 2147611166, 20877, 2147611167, 26032,
     2147611168, 21021, 2147611169, 32066, 2147611170, 29983, 2147611171, 36009, 2147611172, 22768,
     2147611173, 21561, 2147611174, 28436, 2147611175, 25237, 2147611176, 25429, 2147611177, 19968,
     2147611178, 19977, 2147611179, 36938, 2147611180, 24038, 2147611181, 20013, 2147611182, 21491,
     2147611183, 25351, 2147611184, 36208, 2147611185, 25171, 2147611186, 31105, 2147611187, 31354,
     2147611188, 21512, 2147611189, 28288, 2147611190, 26377, 2147611191, 26376]"

lemma check_starts_27: "check_starts 126596 idna_mapping_table_27 = Some 127543"
  by code_simp

definition idna_mapping_table_28 :: "int list" where
  "idna_mapping_table_28 =
    [2147611192, 30003, 2147611193, 21106, 2147611194, 21942, 2147611195, 37197, 4278317628, 127551,
     2147611200, 12308, 26412, 12309, 2147611201, 12308, 19977, 12309, 2147611202, 12308, 20108, 12309,
     2147611203, 12308, 23433, 12309, 2147611204, 12308, 28857, 12309, 2147611205, 12308, 25171, 12309,
     2147611206, 12308, 30423, 12309, 2147611207, 12308, 21213, 12309, 2147611208, 12308, 25943, 12309,
     4278317641, 127567, 2147611216, 24471, 2147611217, 21487, 4278317650, 127583, 4278317670, 127743,
     4278318808, 128731, 4278318829, 128751, 4278318845, 128767, 4278318967, 128890, 4278319066, 128991,
     4278319084, 129007, 4278319089, 129023, 4278319116, 129039, 4278319176, 129103, 4278319194, 129119,
     4278319240, 129167, 4278319278, 129199, 4278319282, 129279, 4278319700, 129631, 4278319726, 129647,
     4278319741, 129663, 4278319753, 129679, 4278319806, 129726, 4278319814, 129741, 4278319836, 129759,
     4278319849, 129775, 4278319865, 129791, 4278320019, 129939, 4278320075, 130031, 2298608624, 2130706480,
     4278320122, 131071, 4278363872, 173823, 4278368058, 177983, 4278368286, 178207, 4278374050, 183983,
     4278381537, 191471, 4278382174, 194559, 2147678208, 20029, 2147678209, 20024, 2147678210, 20033,
     2147678211, 131362, 2147678212, 20320, 2147678213, 20398, 2147678214, 20411, 2147678215, 20482,
     2147678216, 20602, 2147678217, 20633, 2147678218, 20711, 2147678219, 20687, 2147678220, 13470,
     2147678221, 132666, 2147678222, 20813, 2147678223, 20820, 2147678224, 20836, 2147678225, 20855,
     2147678226, 132380, 2147678227, 13497, 2147678228, 20839, 2147678229, 20877, 2147678230, 132427,
     2147678231, 20887, 2147678232, 20900, 2147678233, 20172, 2147678234, 20908, 2147678235, 20917,
     2147678236, 168415, 2147678237, 20981, 2147678238, 20995, 2147678239, 13535, 2147678240, 21051,
     2147678241, 21062, 2147678242, 21106, 2147678243, 21111, 2147678244, 13589, 2147678245, 21191,
     2147678246, 21193, 2147678247, 21220, 2147678248, 21242, 2164455465, 2130727685, 2147678251, 21271,
     2147678252, 21321, 2147678253, 21329, 2147678254, 21338, 2147678255, 21363, 2147678256, 21373,
     2181232689, 21375, 2147678260, 133676, 2147678261, 28784, 2147678262, 21450, 2147678263, 21471,
     2147678264, 133987, 2147678265, 21483, 2147678266, 21489, 2147678267, 21510, 2147678268, 21662,
     2147678269, 21560, 2147678270, 21576, 2147678271, 21608, 2147678272, 21666, 2147678273, 21750,
     2147678274, 21776, 2147678275, 21843, 2147678276, 21859, 2164455493, 21892, 2147678279, 21913,
     2147678280, 21931, 2147678281, 21939, 2147678282, 21954, 2147678283, 22294, 2147678284, 22022,
     2147678285, 22295, 2147678286, 22097, 2147678287, 22132, 2147678288, 20999, 2147678289, 22766,
     2147678290, 22478, 2147678291, 22516, 2147678292, 22541, 2147678293, 22411, 2147678294, 22578,
     2147678295, 22577, 2147678296, 22700, 2147678297, 136420, 2147678298, 22770, 2147678299, 22775,
     2147678300, 22790, 2147678301, 22810, 2147678302, 22818, 2147678303, 22882, 2147678304, 136872,
     2147678305, 136938, 2147678306, 23020, 2147678307, 23067, 2147678308, 23079, 2147678309, 23000]"

lemma check_starts_28: "check_starts 127543 idna_mapping_table_28 = Some 194661"
  by code_simp

definition idna_mapping_table_29 :: "int list" where
  "idna_mapping_table_29 =
    [2147678310, 23142, 2147678311, 14062, 4278384744, 194664, 2147678313, 23304, 2164455530, 23358,
     2147678316, 137672, 2147678317, 23491, 2147678318, 23512, 2147678319, 23527, 2147678320, 23539,
     2147678321, 138008, 2147678322, 23551, 2147678323, 23558, 4278384756, 194676, 2147678325, 23586,
     2147678326, 14209, 2147678327, 23648, 2147678328, 23662, 2147678329, 23744, 2147678330, 23693,
     2147678331, 138724, 2147678332, 23875, 2147678333, 138726, 2147678334, 23918, 2147678335, 23915,
     2147678336, 23932, 2164455553, 2130730465, 2147678339, 14383, 2147678340, 24061, 2147678341, 24104,
     2147678342, 24125, 2147678343, 24169, 2147678344, 14434, 2147678345, 139651, 2147678346, 14460,
     2147678347, 24240, 2147678348, 24243, 2147678349, 24246, 2147678350, 24266, 2147678351, 172946,
     2147678352, 24318, 2164455569, 140081, 2147678355, 33281, 2164455572, 24354, 2147678358, 14535,
     2147678359, 144056, 2147678360, 156122, 2147678361, 24418, 2147678362, 24427, 2147678363, 14563,
     2147678364, 24474, 2147678365, 24525, 2147678366, 24535, 2147678367, 24569, 2147678368, 24705,
     2147678369, 14650, 2147678370, 14620, 2147678371, 24724, 2147678372, 141012, 2147678373, 24775,
     2147678374, 24904, 2147678375, 24908, 2147678376, 24910, 2147678377, 24908, 2147678378, 24954,
     2147678379, 24974, 2147678380, 25010, 2147678381, 24996, 2147678382, 25007, 2147678383, 25054,
     2147678384, 25074, 2147678385, 25078, 2147678386, 25104, 2147678387, 25115, 2147678388, 25181,
     2147678389, 25265, 2147678390, 25300, 2147678391, 25424, 2147678392, 142092, 2147678393, 25405,
     2147678394, 25340, 2147678395, 25448, 2147678396, 25475, 2147678397, 25572, 2147678398, 142321,
     2147678399, 25634, 2147678400, 25541, 2147678401, 25513, 2147678402, 14894, 2147678403, 25705,
     2147678404, 25726, 2147678405, 25757, 2147678406, 25719, 2147678407, 14956, 2147678408, 25935,
     2147678409, 25964, 2147678410, 143370, 2147678411, 26083, 2147678412, 26360, 2147678413, 26185,
     2147678414, 15129, 2147678415, 26257, 2147678416, 15112, 2147678417, 15076, 2147678418, 20882,
     2147678419, 20885, 2147678420, 26368, 2147678421, 26268, 2147678422, 32941, 2147678423, 17369,
     2147678424, 26391, 2147678425, 26395, 2147678426, 26401, 2147678427, 26462, 2147678428, 26451,
     2147678429, 144323, 2147678430, 15177, 2147678431, 26618, 2147678432, 26501, 2147678433, 26706,
     2147678434, 26757, 2147678435, 144493, 2147678436, 26766, 2147678437, 26655, 2147678438, 26900,
     2147678439, 15261, 2147678440, 26946, 2147678441, 27043, 2147678442, 27114, 2147678443, 27304,
     2147678444, 145059, 2147678445, 27355, 2147678446, 15384, 2147678447, 27425, 2147678448, 145575,
     2147678449, 27476, 2147678450, 15438, 2147678451, 27506, 2147678452, 27551, 2164455669, 2130734010,
     2147678455, 146061, 2147678456, 138507, 2147678457, 146170, 2147678458, 27726, 2147678459, 146620,
     2147678460, 27839, 2147678461, 27853, 2147678462, 27751, 2147678463, 27926]"

lemma check_starts_29: "check_starts 194661 idna_mapping_table_29 = Some 194815"
  by code_simp

definition idna_mapping_table_30 :: "int list" where
  "idna_mapping_table_30 =
    [2147678464, 27966, 2147678465, 28023, 2147678466, 27969, 2147678467, 28009, 2147678468, 28024,
     2147678469, 28037, 2147678470, 146718, 2147678471, 27956, 2147678472, 28207, 2147678473, 28270,
     2147678474, 15667, 2147678475, 28363, 2147678476, 28359, 2147678477, 147153, 2147678478, 28153,
     2147678479, 28526, 2147678480, 147294, 2147678481, 147342, 2147678482, 28614, 2147678483, 28729,
     2147678484, 28702, 2147678485, 28699, 2147678486, 15766, 2147678487, 28746, 2147678488, 28797,
     2147678489, 28791, 2147678490, 28845, 2147678491, 132389, 2147678492, 28997, 2147678493, 148067,
     2147678494, 29084, 4278384927, 194847, 2147678496, 29224, 2147678497, 29237, 2147678498, 29264,
     2147678499, 149000, 2147678500, 29312, 2147678501, 29333, 2147678502, 149301, 2147678503, 149524,
     2147678504, 29562, 2147678505, 29579, 2147678506, 16044, 2147678507, 29605, 2164455724, 16056,
     2147678510, 29767, 2147678511, 29788, 2147678512, 29809, 2147678513, 29829, 2147678514, 29898,
     2147678515, 16155, 2147678516, 29988, 2147678517, 150582, 2147678518, 30014, 2147678519, 150674,
     2147678520, 30064, 2147678521, 139679, 2147678522, 30224, 2147678523, 151457, 2147678524, 151480,
     2147678525, 151620, 2147678526, 16380, 2147678527, 16392, 2147678528, 30452, 2147678529, 151795,
     2147678530, 151794, 2147678531, 151833, 2147678532, 151859, 2147678533, 30494, 2164455750, 30495,
     2147678536, 30538, 2147678537, 16441, 2147678538, 30603, 2147678539, 16454, 2147678540, 16534,
     2147678541, 152605, 2147678542, 30798, 2147678543, 30860, 2147678544, 30924, 2147678545, 16611,
     2147678546, 153126, 2147678547, 31062, 2147678548, 153242, 2147678549, 153285, 2147678550, 31119,
     2147678551, 31211, 2147678552, 16687, 2147678553, 31296, 2147678554, 31306, 2147678555, 31311,
     2147678556, 153980, 2164455773, 154279, 4278384991, 194911, 2147678560, 16898, 2147678561, 154539,
     2147678562, 31686, 2147678563, 31689, 2147678564, 16935, 2147678565, 154752, 2147678566, 31954,
     2147678567, 17056, 2147678568, 31976, 2147678569, 31971, 2147678570, 32000, 2147678571, 155526,
     2147678572, 32099, 2147678573, 17153, 2147678574, 32199, 2147678575, 32258, 2147678576, 32325,
     2147678577, 17204, 2147678578, 156200, 2147678579, 156231, 2147678580, 17241, 2147678581, 156377,
     2147678582, 32634, 2147678583, 156478, 2147678584, 32661, 2147678585, 32762, 2147678586, 32773,
     2147678587, 156890, 2147678588, 156963, 2147678589, 32864, 2147678590, 157096, 2147678591, 32880,
     2147678592, 144223, 2147678593, 17365, 2147678594, 32946, 2147678595, 33027, 2147678596, 17419,
     2147678597, 33086, 2147678598, 23221, 2147678599, 157607, 2147678600, 157621, 2147678601, 144275,
     2147678602, 144284, 2147678603, 33281, 2147678604, 33284, 2147678605, 36766, 2147678606, 17515,
     2147678607, 33425, 2147678608, 33419, 2147678609, 33437, 2147678610, 21171, 2147678611, 33457,
     2147678612, 33459, 2147678613, 33469, 2147678614, 33510, 2147678615, 158524]"

lemma check_starts_30: "check_starts 194815 idna_mapping_table_30 = Some 194967"
  by code_simp

definition idna_mapping_table_31 :: "int list" where
  "idna_mapping_table_31 =
    [2147678616, 33509, 2147678617, 33565, 2147678618, 33635, 2147678619, 33709, 2147678620, 33571,
     2147678621, 33725, 2147678622, 33767, 2147678623, 33879, 2147678624, 33619, 2147678625, 33738,
     2147678626, 33740, 2147678627, 33756, 2147678628, 158774, 2147678629, 159083, 2147678630, 158933,
     2147678631, 17707, 2147678632, 34033, 2147678633, 34035, 2147678634, 34070, 2147678635, 160714,
     2147678636, 34148, 2147678637, 159532, 2147678638, 17757, 2147678639, 17761, 2147678640, 159665,
     2147678641, 159954, 2147678642, 17771, 2147678643, 34384, 2147678644, 34396, 2147678645, 34407,
     2147678646, 34409, 2147678647, 34473, 2147678648, 34440, 2147678649, 34574, 2147678650, 34530,
     2147678651, 34681, 2147678652, 34600, 2147678653, 34667, 2147678654, 34694, 4278385087, 195007,
     2147678656, 34785, 2147678657, 34817, 2147678658, 17913, 2147678659, 34912, 2147678660, 34915,
     2147678661, 161383, 2147678662, 35031, 2147678663, 35038, 2147678664, 17973, 2147678665, 35066,
     2147678666, 13499, 2147678667, 161966, 2147678668, 162150, 2147678669, 18110, 2147678670, 18119,
     2147678671, 35488, 2147678672, 35565, 2147678673, 35722, 2147678674, 35925, 2147678675, 162984,
     2147678676, 36011, 2147678677, 36033, 2147678678, 36123, 2147678679, 36215, 2147678680, 163631,
     2147678681, 133124, 2147678682, 36299, 2147678683, 36284, 2147678684, 36336, 2147678685, 133342,
     2147678686, 36564, 2147678687, 36664, 2147678688, 165330, 2147678689, 165357, 2147678690, 37012,
     2147678691, 37105, 2147678692, 37137, 2147678693, 165678, 2147678694, 37147, 2147678695, 37432,
     2164455912, 2130744023, 2147678698, 37500, 2147678699, 37881, 2147678700, 37909, 2147678701, 166906,
     2147678702, 38283, 2147678703, 18837, 2147678704, 38327, 2147678705, 167287, 2147678706, 18918,
     2147678707, 38595, 2147678708, 23986, 2147678709, 38691, 2147678710, 168261, 2147678711, 168474,
     2147678712, 19054, 2147678713, 19062, 2147678714, 38880, 2147678715, 168970, 2147678716, 19122,
     2147678717, 169110, 2164455934, 38923, 2147678720, 38953, 2147678721, 169398, 2147678722, 39138,
     2147678723, 19251, 2147678724, 39209, 2147678725, 39335, 2147678726, 39362, 2147678727, 39422,
     2147678728, 19406, 2147678729, 170800, 2147678730, 39698, 2147678731, 40000, 2147678732, 40189,
     2147678733, 19662, 2147678734, 19693, 2147678735, 40295, 2147678736, 172238, 2147678737, 19704,
     2147678738, 172293, 2147678739, 172558, 2147678740, 172689, 2147678741, 40635, 2147678742, 19798,
     2147678743, 40697, 2147678744, 40702, 2147678745, 40709, 2147678746, 40719, 2147678747, 40726,
     2147678748, 40763, 2147678749, 173568, 4278385182, 196607, 4278391627, 201551, 4278395824, 917759,
     4262330624, 4027449727, 4279108080, 1114111, 4294967295]"

lemma check_starts_31: "check_starts 194967 idna_mapping_table_31 = Some 16777215"
  by code_simp

text \<open>The array.\<close>

definition idna_mapping_numbers :: "int list" where
  "idna_mapping_numbers = concat
    [idna_mapping_table_0,
     idna_mapping_table_1,
     idna_mapping_table_2,
     idna_mapping_table_3,
     idna_mapping_table_4,
     idna_mapping_table_5,
     idna_mapping_table_6,
     idna_mapping_table_7,
     idna_mapping_table_8,
     idna_mapping_table_9,
     idna_mapping_table_10,
     idna_mapping_table_11,
     idna_mapping_table_12,
     idna_mapping_table_13,
     idna_mapping_table_14,
     idna_mapping_table_15,
     idna_mapping_table_16,
     idna_mapping_table_17,
     idna_mapping_table_18,
     idna_mapping_table_19,
     idna_mapping_table_20,
     idna_mapping_table_21,
     idna_mapping_table_22,
     idna_mapping_table_23,
     idna_mapping_table_24,
     idna_mapping_table_25,
     idna_mapping_table_26,
     idna_mapping_table_27,
     idna_mapping_table_28,
     idna_mapping_table_29,
     idna_mapping_table_30,
     idna_mapping_table_31]"

definition idna_mapping_table :: "u32 list" where
  "idna_mapping_table = map word_of_int idna_mapping_numbers"

lemma check_starts_table: "check_starts (- 1) idna_mapping_numbers = Some 16777215"
  by (simp only: idna_mapping_numbers_def concat.simps append_Nil2
    check_starts_append [OF check_starts_0]
    check_starts_append [OF check_starts_1]
    check_starts_append [OF check_starts_2]
    check_starts_append [OF check_starts_3]
    check_starts_append [OF check_starts_4]
    check_starts_append [OF check_starts_5]
    check_starts_append [OF check_starts_6]
    check_starts_append [OF check_starts_7]
    check_starts_append [OF check_starts_8]
    check_starts_append [OF check_starts_9]
    check_starts_append [OF check_starts_10]
    check_starts_append [OF check_starts_11]
    check_starts_append [OF check_starts_12]
    check_starts_append [OF check_starts_13]
    check_starts_append [OF check_starts_14]
    check_starts_append [OF check_starts_15]
    check_starts_append [OF check_starts_16]
    check_starts_append [OF check_starts_17]
    check_starts_append [OF check_starts_18]
    check_starts_append [OF check_starts_19]
    check_starts_append [OF check_starts_20]
    check_starts_append [OF check_starts_21]
    check_starts_append [OF check_starts_22]
    check_starts_append [OF check_starts_23]
    check_starts_append [OF check_starts_24]
    check_starts_append [OF check_starts_25]
    check_starts_append [OF check_starts_26]
    check_starts_append [OF check_starts_27]
    check_starts_append [OF check_starts_28]
    check_starts_append [OF check_starts_29]
    check_starts_append [OF check_starts_30]
    check_starts_31)

end
