(* ===== verification/Idna_Mapping.thy ===== *)
theory Idna_Mapping
  imports Idna_Table Unicode_Utf
begin

unbundle bit_operations_syntax

text \<open>
  \<^verbatim>\<open>webpp/uri/idna/idna_mappings.hpp\<close>: the search for the entry of a code point in the table of
  UTS 46, and the mapping of one code point. An iterator into the table is an index; one that leaves the
  table is \<^const>\<open>None\<close>. The search halves a length and steps back to the first code point of an
  entry, so it is a partial function, which is proved to return in the locale \<open>entry_table\<close>. The function
  \<^verbatim>\<open>map\<close> of the file calls the mapping of one code point without its output, which does not compile.
\<close>

section \<open>The masks\<close>

definition disallowed_mask :: u32 where "disallowed_mask = 0xFF000000"
definition mapped_mask :: u32 where "mapped_mask = 0x80000000"
definition sequenced_mask :: u32 where "sequenced_mask = 0x7F000000"
definition sequenced_check_mask :: u32 where "sequenced_check_mask = sequenced_mask OR mapped_mask"

section \<open>The search\<close>

fun to_first_point :: "u32 list \<Rightarrow> nat \<Rightarrow> nat \<Rightarrow> (nat \<times> nat) option" where
  "to_first_point table middle remaining =
     (case load table middle of
        None \<Rightarrow> None
      | Some x \<Rightarrow>
          if x AND mapped_mask \<noteq> 0 then Some (middle, remaining)
          else if middle = 0 then None
          else to_first_point table (middle - 1) (remaining + 1))"

declare to_first_point.simps [simp del]

function linear_search :: "u32 list \<Rightarrow> u32 \<Rightarrow> nat \<Rightarrow> nat \<Rightarrow> nat option" where
  "linear_search table element middle chosen =
     (if middle = length table then Some chosen
      else case load table middle of
        None \<Rightarrow> None
      | Some x \<Rightarrow>
          if x AND mapped_mask = 0 then linear_search table element (middle + 1) chosen
          else if x OR disallowed_mask > element then Some chosen
          else linear_search table element (middle + 1) middle)"
  by pat_completeness auto
termination
  by (relation "measure (\<lambda>(table, _, middle, _). length table - middle)") (auto simp: load_def split: if_splits)

declare linear_search.simps [simp del]

partial_function (option) search_loop :: "u32 list \<Rightarrow> u32 \<Rightarrow> nat \<Rightarrow> nat \<Rightarrow> nat option" where
  "search_loop table element chosen len =
     (case to_first_point table (chosen + len div 2) 0 of
        None \<Rightarrow> None
      | Some (middle, remaining) \<Rightarrow>
          if chosen = middle then linear_search table element (middle + remaining + 1) chosen
          else if table ! middle OR disallowed_mask \<le> element
            then search_loop table element middle (len div 2 + remaining)
          else search_loop table element chosen (len div 2))"

definition find_mapping_in :: "u32 list \<Rightarrow> u32 \<Rightarrow> nat option" where
  "find_mapping_in table asked_char =
     (if asked_char AND disallowed_mask \<noteq> 0 then Some (length table - 1)
      else search_loop table (asked_char OR disallowed_mask) 0 (length table))"

definition find_mapping_code_point :: "u32 \<Rightarrow> nat option" where
  "find_mapping_code_point = find_mapping_in idna_mapping_table"

section \<open>The mapping of a code point\<close>

fun append_mapped :: "u32 list \<Rightarrow> u8 list \<Rightarrow> u8 list option" where
  "append_mapped [] out = None"
| "append_mapped (x # rest) out =
     (if x AND mapped_mask = 0 then append_mapped rest (fst (append_utf8 out (x AND NOT disallowed_mask)))
      else Some out)"

text \<open>The argument \<open>asserts\<close> tells whether assertions are compiled in; a failing one aborts.\<close>

definition perform_mapping :: "bool \<Rightarrow> u32 \<Rightarrow> u8 list \<Rightarrow> (bool \<times> u8 list) option" where
  "perform_mapping asserts cur_char out = do {
     pos \<leftarrow> find_mapping_code_point cur_char;
     first_code_point \<leftarrow> load idna_mapping_table pos;
     let len = drop_bit 24 (first_code_point AND NOT mapped_mask);
     (if len = disallowed_mask then do {
        range_end \<leftarrow> load idna_mapping_table (pos + 1);
        let range_start = first_code_point AND NOT disallowed_mask;
        (if asserts \<and> \<not> (range_start \<le> cur_char \<and> cur_char \<le> range_end) then None else Some (False, out)) }
      else do {
        let range_start = first_code_point AND NOT disallowed_mask;
        let range_end = range_start + len;
        next_value \<leftarrow> load idna_mapping_table (pos + 1);
        (if asserts \<and> \<not> (range_start \<le> cur_char \<and> cur_char \<le> range_end) then None
         else if next_value AND sequenced_check_mask \<noteq> 0 then
           Some (True, fst (append_utf8 out ((next_value AND NOT disallowed_mask) + (cur_char - range_start))))
         else map_option (Pair True) (append_mapped (drop (pos + 1) idna_mapping_table) out)) }) }"

section \<open>The search in a table of entries\<close>

definition first_point :: "u32 list \<Rightarrow> nat \<Rightarrow> bool" where
  "first_point table i \<longleftrightarrow> i < length table \<and> table ! i AND mapped_mask \<noteq> 0"

definition entry_key :: "u32 \<Rightarrow> u32" where
  "entry_key x = x OR disallowed_mask"

text \<open>The entry that a look at all of the table finds: the last one that does not start after the code
  point, or the first entry.\<close>

definition entry_of :: "u32 list \<Rightarrow> u32 \<Rightarrow> nat" where
  "entry_of table asked =
     fold (\<lambda>i best. if first_point table i \<and> entry_key (table ! i) \<le> entry_key asked then i else best) [0..<length table] 0"

locale entry_table =
  fixes table :: "u32 list"
  assumes starts: "first_point table 0"
    and ordered: "first_point table i \<Longrightarrow> first_point table j \<Longrightarrow> i < j \<Longrightarrow> entry_key (table ! i) < entry_key (table ! j)"
begin

lemma to_first_point_result:
  assumes "first_point table c" "c \<le> middle" "middle < length table"
  shows "\<exists>m r. to_first_point table middle remaining = Some (m, remaining + r) \<and> first_point table m
    \<and> c \<le> m \<and> m + r = middle \<and> (\<forall>j. m < j \<and> j \<le> middle \<longrightarrow> \<not> first_point table j)"
  using assms(2,3)
proof (induction middle arbitrary: remaining)
  case 0
  then show ?case using assms(1) by (subst to_first_point.simps) (auto simp: first_point_def)
next
  case (Suc middle)
  show ?case
  proof (cases "first_point table (Suc middle)")
    case True
    then show ?thesis
      using Suc.prems by (intro exI [of _ "Suc middle"] exI [of _ 0]) (auto simp: to_first_point.simps first_point_def)
  next
    case False
    then have "c \<le> middle" using Suc.prems assms(1) le_Suc_eq by blast
    with Suc obtain m r where IH: "to_first_point table middle (remaining + 1) = Some (m, remaining + 1 + r)" "first_point table m"
      "c \<le> m" "m + r = middle" "\<forall>j. m < j \<and> j \<le> middle \<longrightarrow> \<not> first_point table j"
      by (metis Suc_lessD)
    have "to_first_point table (Suc middle) remaining = to_first_point table middle (remaining + 1)"
      using False Suc.prems by (subst to_first_point.simps) (simp add: first_point_def)
    then show ?thesis
      using IH False by (intro exI [of _ m] exI [of _ "Suc r"]) (auto simp: le_Suc_eq)
  qed
qed

definition is_entry :: "u32 \<Rightarrow> nat \<Rightarrow> bool" where
  "is_entry el i \<longleftrightarrow> first_point table i \<and> (i = 0 \<or> entry_key (table ! i) \<le> el)
     \<and> (\<forall>j. first_point table j \<and> i < j \<longrightarrow> el < entry_key (table ! j))"

lemma linear_search_result:
  assumes "middle \<le> length table" "first_point table chosen" "chosen = 0 \<or> entry_key (table ! chosen) \<le> el"
    and "chosen < middle" "\<forall>j. chosen < j \<and> j < middle \<longrightarrow> \<not> first_point table j"
  shows "\<exists>i. linear_search table el middle chosen = Some i \<and> is_entry el i"
  using assms
proof (induction "length table - middle" arbitrary: middle chosen)
  case 0
  then show ?case
    by (intro exI [of _ chosen]) (auto simp: linear_search.simps is_entry_def first_point_def)
next
  case (Suc n)
  then have lt: "middle < length table" by simp
  have hyp: "n = length table - (middle + 1)" using Suc(2) by simp
  show ?case
  proof (cases "first_point table middle")
    case False
    then have step: "linear_search table el middle chosen = linear_search table el (middle + 1) chosen"
      using lt by (subst linear_search.simps) (simp add: first_point_def)
    have "\<forall>j. chosen < j \<and> j < middle + 1 \<longrightarrow> \<not> first_point table j"
      using Suc.prems(5) False less_Suc_eq by auto
    with Suc(1) [OF hyp, of chosen] Suc.prems lt show ?thesis unfolding step by auto
  next
    case True
    show ?thesis
    proof (cases "el < entry_key (table ! middle)")
      case above: True
      have "linear_search table el middle chosen = Some chosen"
        using lt True above by (subst linear_search.simps) (simp add: first_point_def entry_key_def)
      moreover have "el < entry_key (table ! j)" if "first_point table j" "chosen < j" for j
      proof -
        have "\<not> j < middle" using Suc.prems(5) that by auto
        then show ?thesis using above ordered [OF True that(1)] by (cases "j = middle") auto
      qed
      ultimately show ?thesis using Suc.prems by (auto simp: is_entry_def)
    next
      case below: False
      then have step: "linear_search table el middle chosen = linear_search table el (middle + 1) middle"
        using lt True by (subst linear_search.simps) (simp add: first_point_def entry_key_def)
      have "\<forall>j. middle < j \<and> j < middle + 1 \<longrightarrow> \<not> first_point table j" by auto
      with Suc(1) [OF hyp, of middle] True below lt show ?thesis unfolding step by (simp add: not_less)
    qed
  qed
qed

lemma search_loop_result:
  assumes "first_point table chosen" "chosen = 0 \<or> entry_key (table ! chosen) \<le> el" "chosen + len \<le> length table"
  shows "\<exists>i. search_loop table el chosen len = Some i \<and> is_entry el i"
  using assms
proof (induction "(length table - chosen, len)" arbitrary: chosen len rule: wf_induct_rule [OF wf_lex_prod [OF wf_less_than wf_less_than]])
  case (1 chosen len)
  have "chosen + len div 2 < length table"
    using 1(2,4) by (cases "len = 0") (auto simp: first_point_def)
  then obtain m r where m: "to_first_point table (chosen + len div 2) 0 = Some (m, r)" "first_point table m"
    "chosen \<le> m" "m + r = chosen + len div 2" "\<forall>j. m < j \<and> j \<le> chosen + len div 2 \<longrightarrow> \<not> first_point table j"
    using to_first_point_result [OF 1(2), of "chosen + len div 2" 0] by auto
  consider "chosen = m" | "chosen < m" "entry_key (table ! m) \<le> el" | "chosen < m" "el < entry_key (table ! m)"
    using m(3) by fastforce
  then show ?case
  proof cases
    case 1
    have "search_loop table el chosen len = linear_search table el (m + r + 1) chosen"
      using m(1) \<open>chosen = m\<close> by (subst search_loop.simps) simp
    then show ?thesis
      using linear_search_result [of "m + r + 1" chosen el] \<open>chosen = m\<close> m "1.prems" \<open>chosen + len div 2 < length table\<close>
      by (auto simp: less_Suc_eq_le)
  next
    case 2
    have "search_loop table el chosen len = search_loop table el m (len div 2 + r)"
      using m(1) 2 by (subst search_loop.simps) (simp add: entry_key_def)
    moreover have "m + (len div 2 + r) \<le> length table" using m(4) "1.prems" by simp
    moreover have "length table - m < length table - chosen" using 2(1) m(2) by (auto simp: first_point_def)
    ultimately show ?thesis
      using 1(1) [of m "len div 2 + r"] 2 m(2) by auto
  next
    case 3
    have "search_loop table el chosen len = search_loop table el chosen (len div 2)"
      using m(1) 3 by (subst search_loop.simps) (simp add: entry_key_def not_le [symmetric])
    moreover have "len div 2 < len" using 3(1) m(4) by (cases "len = 0") auto
    ultimately show ?thesis
      using 1(1) [of chosen "len div 2"] "1.prems" by auto
  qed
qed


lemma is_entry_unique: "is_entry el i \<Longrightarrow> is_entry el j \<Longrightarrow> i = j"
  using ordered unfolding is_entry_def by (metis linorder_neqE_nat not_less not_less_zero)

lemma entry_of_is_entry: "is_entry (entry_key asked) (entry_of table asked)"
proof -
  let ?f = "\<lambda>i best. if first_point table i \<and> entry_key (table ! i) \<le> entry_key asked then i else best"
  have "first_point table (fold ?f [0..<n] 0) \<and> (fold ?f [0..<n] 0 = 0 \<or> entry_key (table ! fold ?f [0..<n] 0) \<le> entry_key asked)
    \<and> (\<forall>j. first_point table j \<and> fold ?f [0..<n] 0 < j \<and> j < n \<longrightarrow> entry_key asked < entry_key (table ! j))" for n
    by (induction n) (auto simp: starts not_le less_Suc_eq)
  from this [of "length table"] show ?thesis
    by (auto simp: is_entry_def entry_of_def first_point_def)
qed

lemma search_finds: "search_loop table (entry_key asked) 0 (length table) = Some (entry_of table asked)"
  using search_loop_result [of 0 "entry_key asked" "length table"] starts entry_of_is_entry is_entry_unique by auto

lemma find_mapping_in_result:
  "find_mapping_in table asked =
     Some (if asked AND disallowed_mask \<noteq> 0 then length table - 1 else entry_of table asked)"
  using search_finds [of asked] by (simp add: find_mapping_in_def entry_key_def)

lemma find_mapping_in_bound: "find_mapping_in table asked = Some i \<Longrightarrow> i < length table"
  using starts entry_of_is_entry [of asked]
  by (auto simp: find_mapping_in_result is_entry_def first_point_def split: if_splits)

end

section \<open>The table of UTS 46 is a table of entries\<close>

lemma uint_of_number: "0 \<le> x \<Longrightarrow> x < 4294967296 \<Longrightarrow> uint (word_of_int x :: u32) = x"
  by (simp add: uint_word_of_int_eq take_bit_int_eq_self)

lemma high_bit_iff: "w AND mapped_mask \<noteq> 0 \<longleftrightarrow> 2147483648 \<le> uint w"
proof -
  have "mapped_mask = 2 ^ 31" by (simp add: mapped_mask_def)
  then have "w AND mapped_mask \<noteq> 0 \<longleftrightarrow> bit w 31" using and_exp_eq_0_iff_not_bit [of w 31] by simp
  moreover have "bit w 31 \<longleftrightarrow> odd (uint w div 2147483648)"
    using bit_uint_iff [of w 31] by (simp add: bit_iff_odd)
  moreover have "uint w div 2147483648 = (if 2147483648 \<le> uint w then 1 else 0)"
    using uint_lt2p [of w] uint_ge_0 [of w] by (auto simp: div_pos_pos_trivial)
  ultimately show ?thesis by auto
qed

lemma uint_entry_key: "uint (entry_key w) = 4278190080 + uint w mod 16777216"
proof -
  define a where "a = uint w"
  have a: "bit a n \<Longrightarrow> n < 32" for n
    using bit_imp_le_length [of w n] by (simp add: a_def bit_uint_iff)
  have mask: "(4278190080 :: int) = push_bit 24 (mask 8)" by (simp add: mask_eq_exp_minus_1)
  have "uint (entry_key w) = a OR 4278190080"
    by (simp add: entry_key_def disallowed_mask_def unsigned_or_eq a_def)
  also have "\<dots> = 4278190080 OR take_bit 24 a"
    unfolding mask by (rule bit_eqI) (auto simp: bit_simps dest: a)
  also have "\<dots> = 4278190080 + take_bit 24 a"
  proof -
    have "4278190080 AND take_bit 24 a = 0" unfolding mask by (rule bit_eqI) (auto simp: bit_simps)
    then show ?thesis using plus_and_or [of "4278190080" "take_bit 24 a"] by simp
  qed
  finally show ?thesis by (simp add: a_def take_bit_eq_mod)
qed

lemma check_starts_ordered:
  "check_starts p xs = Some q \<Longrightarrow>
     (\<forall>x \<in> set xs. 0 \<le> x \<and> x < 4294967296)
     \<and> (\<forall>j < length xs. 2147483648 \<le> xs ! j \<longrightarrow> p < xs ! j mod 16777216)
     \<and> (\<forall>i j. i < j \<and> j < length xs \<and> 2147483648 \<le> xs ! i \<and> 2147483648 \<le> xs ! j \<longrightarrow> xs ! i mod 16777216 < xs ! j mod 16777216)"
proof (induction p xs rule: check_starts.induct)
  case (2 p x xs)
  show ?case
  proof (cases "x < 2147483648")
    case True
    with 2 show ?thesis by (auto simp: nth_Cons split: if_splits nat.splits)
  next
    case False
    with 2 show ?thesis by (fastforce simp: nth_Cons split: if_splits nat.splits)
  qed
qed simp


lemma table_nth:
  assumes "i < length idna_mapping_table"
  shows "uint (idna_mapping_table ! i) = idna_mapping_numbers ! i"
proof -
  have "idna_mapping_numbers ! i \<in> set idna_mapping_numbers" using assms by (simp add: idna_mapping_table_def)
  then have "0 \<le> idna_mapping_numbers ! i \<and> idna_mapping_numbers ! i < 4294967296"
    using check_starts_ordered [OF check_starts_table] by blast
  with assms show ?thesis by (simp add: idna_mapping_table_def uint_of_number)
qed

lemma idna_first_point:
  "first_point idna_mapping_table i \<longleftrightarrow> i < length idna_mapping_numbers \<and> 2147483648 \<le> idna_mapping_numbers ! i"
  using table_nth [of i] by (auto simp: first_point_def high_bit_iff idna_mapping_table_def simp del: nth_map)

lemma idna_table_Cons: "\<exists>rest. idna_mapping_numbers = 2566914113 # rest"
  by (simp add: idna_mapping_numbers_def idna_mapping_table_0_def)

lemma idna_starts: "first_point idna_mapping_table 0"
proof -
  obtain rest where r: "idna_mapping_numbers = 2566914113 # rest" using idna_table_Cons ..
  show ?thesis unfolding idna_first_point r by simp
qed

lemma idna_ordered:
  assumes "first_point idna_mapping_table i" "first_point idna_mapping_table j" "i < j"
  shows "entry_key (idna_mapping_table ! i) < entry_key (idna_mapping_table ! j)"
proof -
  have "idna_mapping_numbers ! i mod 16777216 < idna_mapping_numbers ! j mod 16777216"
    using assms check_starts_ordered [OF check_starts_table] by (simp add: idna_first_point)
  moreover have "i < length idna_mapping_table" "j < length idna_mapping_table"
    using assms by (simp_all add: first_point_def)
  ultimately show ?thesis by (simp add: word_less_def uint_entry_key table_nth)
qed

interpretation idna: entry_table idna_mapping_table
  by unfold_locales (rule idna_starts, rule idna_ordered)

section \<open>Properties\<close>

lemma find_mapping_code_point_entry:
  "find_mapping_code_point asked =
      Some (if asked AND disallowed_mask \<noteq> 0 then length idna_mapping_table - 1 else entry_of idna_mapping_table asked)"
  using idna.find_mapping_in_result [of asked] by (simp add: find_mapping_code_point_def)

lemma find_mapping_code_point_bound: "find_mapping_code_point asked = Some i \<Longrightarrow> i < length idna_mapping_table"
  using idna.find_mapping_in_bound [of asked] by (simp add: find_mapping_code_point_def)

text \<open>C34: The search returns for every code point and stays in the table; it finds the last entry that
  starts at or before the code point, as a look at all of the table does, and the entry at the end of the
  table for numbers of more than 24 bits.\<close>

theorem find_mapping_code_point_result:
  "find_mapping_code_point asked =
      Some (if asked AND disallowed_mask \<noteq> 0 then length idna_mapping_table - 1 else entry_of idna_mapping_table asked)
    \<and> the (find_mapping_code_point asked) < length idna_mapping_table"
  using find_mapping_code_point_entry [of asked] find_mapping_code_point_bound [of asked] by simp

lemma entry_length_byte: "drop_bit 24 (x AND NOT mapped_mask) \<noteq> disallowed_mask" for x :: u32
proof
  assume "drop_bit 24 (x AND NOT mapped_mask) = disallowed_mask"
  then have "bit (drop_bit 24 (x AND NOT mapped_mask)) 31 = bit disallowed_mask 31" by simp
  moreover have "bit disallowed_mask 31" by (simp add: disallowed_mask_def)
  ultimately show False by (simp add: bit_simps)
qed

lemma mapped_code_points:
  assumes "\<not> (\<forall>x \<in> set xs. x AND mapped_mask = 0)"
  shows "append_mapped xs out =
    Some (fold (\<lambda>x out. fst (append_utf8 out (x AND NOT disallowed_mask))) (takeWhile (\<lambda>x. x AND mapped_mask = 0) xs) out)"
  using assms by (induction xs arbitrary: out) auto

lemma perform_mapping_at:
  assumes "find_mapping_code_point c = Some i"
  shows "perform_mapping False c out =
    (case load idna_mapping_table (i + 1) of
       None \<Rightarrow> None
     | Some next_value \<Rightarrow>
         if next_value AND sequenced_check_mask \<noteq> 0
         then Some (True, fst (append_utf8 out ((next_value AND NOT disallowed_mask) + (c - (idna_mapping_table ! i AND NOT disallowed_mask)))))
         else map_option (Pair True) (append_mapped (drop (i + 1) idna_mapping_table) out))"
proof -
  have "i < length idna_mapping_table" using find_mapping_code_point_bound [OF assms] .
  then show ?thesis
    using assms entry_length_byte by (simp add: perform_mapping_def Let_def del: drop_bit_and split: option.split)
qed


text \<open>The end of the table.\<close>

lemma idna_table_last:
  "idna_mapping_numbers \<noteq> []" "last idna_mapping_numbers = 4294967295"
  using idna_table_Cons by (auto simp: idna_mapping_numbers_def idna_mapping_table_31_def last_append)

lemma last_key: "entry_key (idna_mapping_table ! (length idna_mapping_table - 1)) = 4294967295"
proof -
  have n: "length idna_mapping_table - 1 < length idna_mapping_table"
    using idna_table_last(1) by (simp add: idna_mapping_table_def)
  have "uint (idna_mapping_table ! (length idna_mapping_table - 1)) = 4294967295"
    unfolding table_nth [OF n] using idna_table_last by (simp add: idna_mapping_table_def last_conv_nth)
  then have "uint (entry_key (idna_mapping_table ! (length idna_mapping_table - 1))) = 4294967295"
    by (simp add: uint_entry_key)
  then show ?thesis by (simp add: word_uint_eq_iff)
qed

lemma last_first_point: "first_point idna_mapping_table (length idna_mapping_table - 1)"
  using idna_table_last unfolding idna_first_point
  by (simp add: idna_mapping_table_def last_conv_nth)

lemma key_max_iff: "entry_key c = 4294967295 \<longleftrightarrow> uint c mod 16777216 = 16777215"
  by (simp add: word_uint_eq_iff uint_entry_key)

lemma high_byte_iff: "c AND disallowed_mask = 0 \<longleftrightarrow> uint c < 16777216"
proof -
  have mask: "disallowed_mask = push_bit 24 (mask 8)" by (simp add: disallowed_mask_def mask_eq_exp_minus_1)
  have "take_bit 24 c = c" if "c AND disallowed_mask = 0"
  proof (rule bit_word_eqI)
    fix n assume n: "n < LENGTH(32)"
    have "\<not> bit (c AND disallowed_mask) n" using that by simp
    with n show "bit (take_bit 24 c) n = bit c n" unfolding mask by (auto simp: bit_simps)
  qed
  moreover have "c AND disallowed_mask = 0" if "take_bit 24 c = c"
  proof (rule bit_word_eqI)
    fix n assume "n < LENGTH(32)"
    have "bit c n \<Longrightarrow> n < 24" using that by (metis bit_take_bit_iff)
    then show "bit (c AND disallowed_mask) n = bit 0 n" unfolding mask by (auto simp: bit_simps)
  qed
  moreover have "take_bit 24 c = c \<longleftrightarrow> uint c mod 16777216 = uint c"
    unfolding word_uint_eq_iff unsigned_take_bit_eq take_bit_eq_mod [of 24 "uint c"] by simp
  ultimately show ?thesis using uint_ge_0 [of c] by (auto simp: mod_pos_pos_trivial)
qed

lemma found_last_iff: "find_mapping_code_point c = Some (length idna_mapping_table - 1) \<longleftrightarrow> 0xFFFFFF \<le> c"
proof (cases "c AND disallowed_mask = 0")
  case False
  then have "0xFFFFFF \<le> c" by (simp add: high_byte_iff word_le_def)
  with False show ?thesis by (simp add: find_mapping_code_point_entry)
next
  case True
  then have small: "uint c < 16777216" by (simp add: high_byte_iff)
  have le: "0xFFFFFF \<le> c \<longleftrightarrow> uint c = 16777215" using small by (auto simp: word_le_def)
  have "length idna_mapping_table - 1 \<noteq> 0"
  proof
    assume "length idna_mapping_table - 1 = 0"
    then have "last idna_mapping_numbers = idna_mapping_numbers ! 0"
      using idna_table_last(1) by (simp add: last_conv_nth idna_mapping_table_def)
    moreover obtain rest where r: "idna_mapping_numbers = 2566914113 # rest" using idna_table_Cons ..
    have "idna_mapping_numbers ! 0 = 2566914113" unfolding r by simp
    ultimately show False using idna_table_last(2) by simp
  qed
  moreover have "j \<le> length idna_mapping_table - 1" if "first_point idna_mapping_table j" for j
    using that by (auto simp: first_point_def)
  then have later: "\<not> (first_point idna_mapping_table j \<and> length idna_mapping_table - 1 < j)" for j
    by (meson not_le)
  ultimately have "idna.is_entry (entry_key c) (length idna_mapping_table - 1) \<longleftrightarrow> 4294967295 \<le> entry_key c"
    using last_first_point unfolding idna.is_entry_def last_key by (simp only: later simp_thms)
  moreover have "4294967295 \<le> entry_key c \<longleftrightarrow> uint c = 16777215"
    using small by (auto simp: word_le_def uint_entry_key mod_pos_pos_trivial)
  ultimately have "entry_of idna_mapping_table c = length idna_mapping_table - 1 \<longleftrightarrow> uint c = 16777215"
    using idna.entry_of_is_entry [of c] idna.is_entry_unique by metis
  with True le show ?thesis by (simp add: find_mapping_code_point_entry)
qed

text \<open>C35: What the mapping writes: a code point that the table disallows is mapped as any other, and the code
  point of an entry without values is mapped to the start of the next entry, or to a code point after it.
  The numbers from \<open>0xFFFFFF\<close> have no entry after theirs, and the table is left.\<close>

theorem perform_mapping_result:
  "perform_mapping asserts c out \<noteq> Some (False, r)
    \<and> perform_mapping False c out =
      (if 0xFFFFFF \<le> c then None
       else let i = entry_of idna_mapping_table c;
                next_value = idna_mapping_table ! (i + 1);
                start = idna_mapping_table ! i AND NOT disallowed_mask in
         Some (True,
           if next_value AND sequenced_check_mask \<noteq> 0
           then fst (append_utf8 out ((next_value AND NOT disallowed_mask) + (c - start)))
           else fold (\<lambda>x out. fst (append_utf8 out (x AND NOT disallowed_mask)))
                  (takeWhile (\<lambda>x. x AND mapped_mask = 0) (drop (i + 1) idna_mapping_table)) out))"
proof
  show "perform_mapping asserts c out \<noteq> Some (False, r)"
    by (auto simp: perform_mapping_def Let_def entry_length_byte simp del: drop_bit_and split: bind_splits if_splits)
  obtain i where i: "find_mapping_code_point c = Some i" "i < length idna_mapping_table"
    using find_mapping_code_point_entry [of c] find_mapping_code_point_bound [of c] by auto
  show "perform_mapping False c out =
      (if 0xFFFFFF \<le> c then None
       else let i = entry_of idna_mapping_table c;
                next_value = idna_mapping_table ! (i + 1);
                start = idna_mapping_table ! i AND NOT disallowed_mask in
         Some (True,
           if next_value AND sequenced_check_mask \<noteq> 0
           then fst (append_utf8 out ((next_value AND NOT disallowed_mask) + (c - start)))
           else fold (\<lambda>x out. fst (append_utf8 out (x AND NOT disallowed_mask)))
                  (takeWhile (\<lambda>x. x AND mapped_mask = 0) (drop (i + 1) idna_mapping_table)) out))"
  proof (cases "0xFFFFFF \<le> c")
    case True
    then have "i = length idna_mapping_table - 1" using found_last_iff [of c] i by simp
    then have "load idna_mapping_table (i + 1) = None" using i(2) by (auto simp: load_def)
    then show ?thesis
      using True by (simp add: perform_mapping_at [OF i(1)])
  next
    case False
    then have "i \<noteq> length idna_mapping_table - 1" using found_last_iff [of c] i by auto
    then have lt: "i + 1 < length idna_mapping_table" using i(2) by simp
    have "c AND disallowed_mask = 0" using False by (simp add: high_byte_iff word_le_def)
    then have entry: "i = entry_of idna_mapping_table c" using i(1) by (simp add: find_mapping_code_point_entry)
    have "last idna_mapping_table \<in> set (drop (i + 1) idna_mapping_table)"
      using lt last_in_set [of "drop (i + 1) idna_mapping_table"] by (simp add: last_drop)
    moreover have "last idna_mapping_table AND mapped_mask \<noteq> 0"
    proof -
      have "idna_mapping_table \<noteq> []" using lt by auto
      then show ?thesis using last_first_point unfolding first_point_def by (simp only: last_conv_nth simp_thms)
    qed
    ultimately have ends: "\<not> (\<forall>x \<in> set (drop (i + 1) idna_mapping_table). x AND mapped_mask = 0)" by blast
    show ?thesis
      using False lt by (simp add: perform_mapping_at [OF i(1)] mapped_code_points [OF ends, simplified] Let_def entry [symmetric] del: drop_drop)
  qed
qed


text \<open>Two examples: the soft hyphen, which is ignored by UTS 46, becomes a macron, and the first
  disallowed control character becomes the last of its range.\<close>

lemma entry_of_eqI:
  assumes "first_point idna_mapping_table i" "first_point idna_mapping_table j"
    and "\<forall>k. i < k \<and> k < j \<longrightarrow> \<not> first_point idna_mapping_table k"
    and "entry_key (idna_mapping_table ! i) \<le> entry_key c" "entry_key c < entry_key (idna_mapping_table ! j)"
  shows "entry_of idna_mapping_table c = i"
proof -
  have "entry_key c < entry_key (idna_mapping_table ! k)" if k: "first_point idna_mapping_table k" "i < k" for k
  proof (cases "k = j")
    case False
    with assms(3) k have "j < k" by (meson linorder_neqE_nat)
    then show ?thesis using assms(5) idna.ordered [OF assms(2) k(1)] by simp
  qed (use assms(5) in simp)
  with assms(1,4) have "idna.is_entry (entry_key c) i" by (simp add: idna.is_entry_def)
  then show ?thesis using idna.is_entry_unique idna.entry_of_is_entry by blast
qed

lemma idna_table_begin:
  "\<exists>rest. idna_mapping_table = [2566914113, 2130706529, 4278190208, 159, 2147483808, 32, 2147483816, 32, 776,
     2147483818, 97, 2147483821, 2147483823] @ rest"
  by (simp add: idna_mapping_table_def idna_mapping_numbers_def idna_mapping_table_0_def)

lemma perform_mapping_examples:
  "perform_mapping False 0xAD [] = Some (True, fst (append_utf8 [] 0xAF))"
  "perform_mapping False 0x80 [] = Some (True, fst (append_utf8 [] 0x9F))"
proof -
  obtain rest where t: "idna_mapping_table = [2566914113, 2130706529, 4278190208, 159, 2147483808, 32, 2147483816, 32, 776,
     2147483818, 97, 2147483821, 2147483823] @ rest" using idna_table_begin ..
  have "entry_of idna_mapping_table 0xAD = 11"
    by (rule entry_of_eqI [of _ 12]) (simp_all add: first_point_def t mapped_mask_def entry_key_def disallowed_mask_def)
  moreover have "entry_of idna_mapping_table 0x80 = 2"
  proof (rule entry_of_eqI [of _ 4])
    show "\<forall>k. 2 < k \<and> k < 4 \<longrightarrow> \<not> first_point idna_mapping_table k"
    proof (intro allI impI)
      fix k :: nat assume "2 < k \<and> k < 4"
      then have "k = 3" by simp
      then show "\<not> first_point idna_mapping_table k" by (simp add: first_point_def t mapped_mask_def)
    qed
  qed (simp_all add: first_point_def t mapped_mask_def entry_key_def disallowed_mask_def)
  ultimately show "perform_mapping False 0xAD [] = Some (True, fst (append_utf8 [] 0xAF))"
    "perform_mapping False 0x80 [] = Some (True, fst (append_utf8 [] 0x9F))"
    using perform_mapping_result [THEN conjunct2]
    by (simp_all add: Let_def t sequenced_check_mask_def sequenced_mask_def mapped_mask_def disallowed_mask_def)
qed

end
