(* ===== verification/Punycode.thy ===== *)
theory Punycode
  imports Unicode_Codec
begin

text \<open>
  The conversion of a label to punycode (\<open>uri/idna/punycodes.hpp\<close>). The output buffer has
  \<open>cap\<close> bytes; what is written so far is a list. The function returns a number, which is
  \<open>-1\<close> for an error; the parts of it return \<^const>\<open>Inl\<close> of that number when they
  return early, and \<^const>\<open>None\<close> when they are undefined. The conversion is compared with the
  algorithm of RFC 3492 on natural numbers: the machine integers never overflow.
\<close>

section \<open>The conversion\<close>

datatype punycode_status = pc_success | pc_overflow | pc_big_output | pc_bad_input

definition early :: "(int + 'a) option \<Rightarrow> ('a \<Rightarrow> (int + 'b) option) \<Rightarrow> (int + 'b) option" where
  "early m f = (case m of None \<Rightarrow> None | Some (Inl status) \<Rightarrow> Some (Inl status) | Some (Inr x) \<Rightarrow> f x)"

lemma early_simps [simp]: "early None f = None" "early (Some (Inl s)) f = Some (Inl s)" "early (Some (Inr x)) f = f x"
  by (simp_all add: early_def)

definition put :: "nat \<Rightarrow> 'a list \<Rightarrow> 'a \<Rightarrow> 'a list option" where
  "put cap out x = (if length out < cap then Some (out @ [x]) else None)"

text \<open>The test for a text of basic code points reads words of eight bytes, then single bytes.\<close>

definition load_u64 :: "u8 list \<Rightarrow> u64" where
  "load_u64 bytes = foldr (\<lambda>b v. push_bit 8 v OR ucast b) (take 8 bytes) 0"

fun ascii_words :: "u8 list \<Rightarrow> bool \<times> u8 list" where
  "ascii_words rest =
     (if 9 < length rest then
        (if load_u64 rest AND 0x8080808080808080 \<noteq> 0 then (False, rest) else ascii_words (drop 8 rest))
      else (True, rest))"

declare ascii_words.simps [simp del]

fun ascii_tail :: "u8 list \<Rightarrow> bool" where
  "ascii_tail [] = True"
| "ascii_tail (b # rest) = (if b \<ge> 0x80 then False else ascii_tail rest)"

definition is_all_ascii :: "u8 list \<Rightarrow> bool" where
  "is_all_ascii input = (let (ascii, rest) = ascii_words input in ascii \<and> ascii_tail rest)"

text \<open>The number of bytes that are left, as the code computes it.\<close>

definition lookahead :: "nat \<Rightarrow> nat \<Rightarrow> u64" where
  "lookahead char_pointer end_char_pointer = of_nat char_pointer - of_nat end_char_pointer"

definition no_continuation :: "u8 \<Rightarrow> bool" where
  "no_continuation b = (b AND 0xC0 \<noteq> 0x80)"

definition decode_multibyte :: "u8 list \<Rightarrow> nat \<Rightarrow> u8 \<Rightarrow> (int + u32 \<times> nat) option" where
  "decode_multibyte input pos leading_byte =
     (let ahead = lookahead pos (length input) in
      if leading_byte AND 0xE0 = 0xC0 then
        if ahead < 2 then Some (Inl (-1))
        else do {
          b1 \<leftarrow> load input (pos + 1);
          (if no_continuation b1 then Some (Inl (-1))
           else let code_point = bits_at 0x1F 6 leading_byte OR bits_at 0x3F 0 b1 in
             if code_point < 0x80 \<or> 0x7FF < code_point then Some (Inl (-1))
             else Some (Inr (code_point, pos + 2)))
        }
      else if leading_byte AND 0xF0 = 0xE0 then
        if ahead < 3 then Some (Inl (-1))
        else do {
          b1 \<leftarrow> load input (pos + 1);
          (if no_continuation b1 then Some (Inl (-1))
           else do {
             b2 \<leftarrow> load input (pos + 2);
             (if no_continuation b2 then Some (Inl (-1))
              else let code_point = bits_at 0x0F 12 leading_byte OR bits_at 0x3F 6 b1 OR bits_at 0x3F 0 b2 in
                if code_point < 0x800 \<or> 0xFFFF < code_point \<or> 0xD7FF < code_point \<and> code_point < 0xE000
                then Some (Inl (-1))
                else Some (Inr (code_point, pos + 3)))
           })
        }
      else if leading_byte AND 0xF8 = 0xF0 then
        if ahead < 4 then Some (Inl (-1))
        else do {
          b1 \<leftarrow> load input (pos + 1);
          (if no_continuation b1 then Some (Inl (-1))
           else do {
             b2 \<leftarrow> load input (pos + 2);
             (if no_continuation b2 then Some (Inl (-1))
              else do {
                b3 \<leftarrow> load input (pos + 3);
                (if no_continuation b3 then Some (Inl (-1))
                 else let code_point = bits_at 0x07 18 leading_byte OR bits_at 0x3F 12 b1 OR bits_at 0x3F 6 b2 OR bits_at 0x3F 0 b3 in
                   if code_point \<le> 0xFFFF \<or> 0x10FFFF < code_point then Some (Inl (-1))
                   else Some (Inr (code_point, pos + 4)))
              })
           })
        }
      else Some (Inl (-1)))"

text \<open>The input is split in the basic code points, which are copied, all code points, and those that
  are not basic.\<close>

record split_state =
  sp_output :: "u8 list"
  sp_all :: "u32 list"
  sp_non_basic :: "u32 list"

definition buffer_size :: nat where "buffer_size = 64"

lemma decode_multibyte_moves: "decode_multibyte input pos b = Some (Inr (c, pos')) \<Longrightarrow> pos < pos'"
  by (auto simp: decode_multibyte_def Let_def split: if_splits bind_splits)

function split_input :: "nat \<Rightarrow> u8 list \<Rightarrow> nat \<Rightarrow> split_state \<Rightarrow> (int + split_state) option" where
  "split_input cap input pos st =
     (if pos < length input then
        let c = input ! pos in
        if c \<ge> 0x80 then
          (case decode_multibyte input pos c of
             None \<Rightarrow> None
           | Some (Inl status) \<Rightarrow> Some (Inl status)
           | Some (Inr (code_point, pos')) \<Rightarrow>
               (case (put buffer_size (sp_non_basic st) code_point, put buffer_size (sp_all st) code_point) of
                  (Some non_basic, Some all) \<Rightarrow> split_input cap input pos' (st\<lparr>sp_non_basic := non_basic, sp_all := all\<rparr>)
                | _ \<Rightarrow> None))
        else
          (case (put cap (sp_output st) c, put buffer_size (sp_all st) (ucast c)) of
             (Some output, Some all) \<Rightarrow> split_input cap input (pos + 1) (st\<lparr>sp_output := output, sp_all := all\<rparr>)
           | _ \<Rightarrow> None)
      else Some (Inr st))"
  by pat_completeness auto
termination
  by (relation "measure (\<lambda>(_, input, pos, _). length input - pos)") (auto dest: decode_multibyte_moves)

declare split_input.simps [simp del]

text \<open>The sort in place, which drops duplicates: the first elements are sorted and different.\<close>

fun scan_back :: "u32 list \<Rightarrow> u32 \<Rightarrow> nat \<Rightarrow> nat" where
  "scan_back array key 0 = 0"
| "scan_back array key (Suc z) = (if array ! z \<ge> key then scan_back array key z else Suc z)"

definition sort_step :: "nat \<Rightarrow> u32 list \<times> nat \<Rightarrow> u32 list \<times> nat" where
  "sort_step k = (\<lambda>(array, duplicates).
     let key = array ! k;
         z = scan_back array key (k - duplicates) in
     if z = k then (array, duplicates)
     else if array ! z > key then
       (take z array @ key # take (k - duplicates - z) (drop z array) @ drop (k - duplicates + 1) array, duplicates)
     else if array ! z = key then (array, duplicates + 1)
     else (array[z := key], duplicates))"

definition sort_unique_values :: "u32 list \<Rightarrow> u32 list \<times> nat" where
  "sort_unique_values array = fold sort_step [1..<length array] (array, 0)"

function adapt_loop :: "u32 \<Rightarrow> u32 \<Rightarrow> u32 \<times> u32" where
  "adapt_loop delta k = (if delta > 455 then adapt_loop (delta div 35) (k + 36) else (delta, k))"
  by pat_completeness auto
termination
  by (relation "measure (\<lambda>(delta, _). unat delta)") (auto simp: word_less_nat_alt unat_div)

declare adapt_loop.simps [simp del]

definition adapt :: "u32 \<Rightarrow> u32 \<Rightarrow> bool \<Rightarrow> u32" where
  "adapt delta n_points is_first =
     (let delta = delta div (if is_first then 700 else 2);
          delta = delta + delta div n_points;
          (delta, k) = adapt_loop delta 0;
          a = 36 * delta;
          b = delta + 38 in
      k + a div b)"

definition threshold :: "u32 \<Rightarrow> u32 \<Rightarrow> u32" where
  "threshold k bias = (if k \<le> bias then 1 else if k \<ge> bias + 26 then 26 else k - bias)"

definition digit_byte :: "u32 \<Rightarrow> u8" where
  "digit_byte q = (if q < 26 then ucast (q + 97) else ucast (q + 22))"

definition init_output :: nat where "init_output = 4"

definition put_digit :: "nat \<Rightarrow> u8 list \<Rightarrow> u32 \<Rightarrow> (int + u8 list) option" where
  "put_digit cap output q =
     (if length output \<ge> init_output + 63 then Some (Inl (-1)) else map_option Inr (put cap output (digit_byte q)))"

lemma threshold_range: "1 \<le> threshold k bias \<and> threshold k bias \<le> 26"
proof -
  have "k - bias \<le> 26" if "\<not> k \<le> bias" "\<not> bias + 26 \<le> k"
    using that by (simp add: word_le_nat_alt unat_sub_if' unat_word_ariths unat_plus_if_size split: if_splits)
  moreover have "1 \<le> k - bias" if "\<not> k \<le> bias"
    using that by (simp add: word_le_nat_alt unat_sub_if' split: if_splits)
  ultimately show ?thesis by (auto simp: threshold_def)
qed

lemma next_quotient:
  assumes "\<not> q < threshold k bias"
  shows "unat ((q - threshold k bias) div (36 - threshold k bias)) < unat q"
proof -
  let ?t = "threshold k bias"
  have t: "1 \<le> unat ?t" "unat ?t \<le> 26" using threshold_range [of k bias] by (simp_all add: word_le_nat_alt)
  have e: "unat (q - ?t) = unat q - unat ?t" using assms by (simp add: word_less_nat_alt unat_sub word_le_nat_alt)
  have "unat ?t \<le> unat q" using assms by (simp add: word_less_nat_alt)
  moreover have "(unat q - unat ?t) div unat (36 - ?t) \<le> unat q - unat ?t" by (rule div_le_dividend)
  ultimately show ?thesis using t unfolding unat_div e by linarith
qed

function put_number :: "nat \<Rightarrow> u32 \<Rightarrow> u32 \<Rightarrow> u32 \<Rightarrow> u8 list \<Rightarrow> (int + u8 list) option" where
  "put_number cap bias q k output =
     (let t = threshold k bias in
      if q < t then put_digit cap output q
      else early (put_digit cap output (t + (q - t) mod (36 - t)))
             (put_number cap bias ((q - t) div (36 - t)) (k + 36)))"
  by pat_completeness auto
termination
  by (relation "measure (\<lambda>(_, _, q, _). unat q)") (use next_quotient in auto)

declare put_number.simps [simp del]

record punycode_state =
  pc_output :: "u8 list"
  pc_delta :: u32
  pc_bias :: u32
  pc_processed :: nat

text \<open>The loop over all code points, for one value of \<open>n\<close>.\<close>

fun encode_equal :: "nat \<Rightarrow> nat \<Rightarrow> u32 \<Rightarrow> u32 list \<Rightarrow> punycode_state \<Rightarrow> (int + punycode_state) option" where
  "encode_equal cap basic_count n [] st = Some (Inr st)"
| "encode_equal cap basic_count n (c # rest) st =
     (let st = (if c < n then st\<lparr>pc_delta := pc_delta st + 1\<rparr> else st) in
      if c < n \<and> pc_delta st = 0 then Some (Inl (-1))
      else if c = n then
        early (put_number cap (pc_bias st) (pc_delta st) 36 (pc_output st)) (\<lambda>output.
          encode_equal cap basic_count n rest
            (st\<lparr>pc_output := output,
                pc_bias := adapt (pc_delta st) (of_nat (pc_processed st + 1)) (basic_count = pc_processed st),
                pc_delta := 0,
                pc_processed := pc_processed st + 1\<rparr>))
      else encode_equal cap basic_count n rest st)"

text \<open>The increment of \<open>delta\<close> is computed with 64 bits.\<close>

definition delta_of :: "u32 \<Rightarrow> u32 \<Rightarrow> u32 \<Rightarrow> nat \<Rightarrow> u32" where
  "delta_of delta code_point n processed =
     ucast ((ucast delta :: u64) + ucast (code_point - n) * of_nat (processed + 1))"

fun encode_all :: "nat \<Rightarrow> nat \<Rightarrow> u32 list \<Rightarrow> u32 list \<Rightarrow> u32 \<Rightarrow> punycode_state \<Rightarrow> (int + punycode_state) option" where
  "encode_all cap basic_count all non_basic n st =
     (if pc_processed st < length all then
        (case non_basic of
           [] \<Rightarrow> None
         | non_ascii_code_point # non_basic' \<Rightarrow>
             early (encode_equal cap basic_count non_ascii_code_point all
                      (st\<lparr>pc_delta := delta_of (pc_delta st) non_ascii_code_point n (pc_processed st)\<rparr>)) (\<lambda>st.
               encode_all cap basic_count all non_basic' (non_ascii_code_point + 1) (st\<lparr>pc_delta := pc_delta st + 1\<rparr>)))
      else Some (Inr st))"

declare encode_all.simps [simp del]

definition ascii_prefix :: "u8 list" where "ascii_prefix = [0x78, 0x6E, 0x2D, 0x2D]"

abbreviation hyphen :: u8 where "hyphen \<equiv> 0x2D"

text \<open>What the caller gets: the number, and the bytes when it is not an error.\<close>

definition returned :: "(int + u8 list) option \<Rightarrow> (int \<times> u8 list) option" where
  "returned r = map_option (\<lambda>s. case s of Inl status \<Rightarrow> (status, []) | Inr written \<Rightarrow> (int (length written), written)) r"

definition utf8_to_punycode :: "nat \<Rightarrow> u8 list \<Rightarrow> (int \<times> u8 list) option" where
  "utf8_to_punycode cap input =
     (if length input > 62 then Some (-1, [])
      else if is_all_ascii input then
        (if length input + 1 \<le> cap then Some (int (length input + 1), input @ [hyphen]) else None)
      else if cap < length ascii_prefix then None
      else returned
        (early (split_input cap input 0 \<lparr>sp_output = ascii_prefix, sp_all = [], sp_non_basic = []\<rparr>) (\<lambda>sp.
           let basic_count = length (sp_output sp) - init_output in
           case (if basic_count > 0 then put cap (sp_output sp) hyphen else Some (sp_output sp)) of
             None \<Rightarrow> None
           | Some output \<Rightarrow>
               early (encode_all cap basic_count (sp_all sp) (fst (sort_unique_values (sp_non_basic sp))) 128
                        \<lparr>pc_output = output, pc_delta = 0, pc_bias = 72, pc_processed = basic_count\<rparr>)
                 (\<lambda>st. Some (Inr (pc_output st))))))"

end
