(* ===== verification/Punycode_Decode.thy ===== *)
theory Punycode_Decode
  imports Punycode
begin

text \<open>
  What the first half of the conversion does: the test for basic code points, the split of the input
  in characters, which are read as UTF-8, and the sort of the code points in place.
\<close>

section \<open>The test for basic code points\<close>

lemma bit_fold_bytes:
  "bit (foldr (\<lambda>b v. push_bit 8 v OR ucast b) bs 0 :: u64) n \<longleftrightarrow> n < 64 \<and> n div 8 < length bs \<and> bit (bs ! (n div 8)) (n mod 8)"
  for bs :: "u8 list"
proof (induction bs arbitrary: n)
  case (Cons b bs)
  show ?case
  proof (cases "n < 8")
    case True
    then show ?thesis by (auto simp: bit_or_iff bit_push_bit_iff bit_unsigned_iff)
  next
    case False
    then have "n div 8 = Suc ((n - 8) div 8)" "n mod 8 = (n - 8) mod 8" by (simp_all add: div_if mod_if)
    then show ?thesis using False Cons [of "n - 8"] bit_imp_le_length [of b n] by (auto simp: bit_or_iff bit_push_bit_iff bit_unsigned_iff)
  qed
qed simp

lemma nonzero_bit: "w \<noteq> 0 \<longleftrightarrow> (\<exists>n. bit w n)" for w :: "'w::len word"
  by (auto simp: bit_eq_iff dest: bit_imp_le_length)

lemma high_bits_word: "8 \<le> length bytes \<Longrightarrow> load_u64 bytes AND 0x8080808080808080 \<noteq> 0 \<longleftrightarrow> (\<exists>i < 8. 0x80 \<le> bytes ! i)"
proof -
  assume len: "8 \<le> length bytes"
  have mask: "(0x8080808080808080 :: u64) = foldr (\<lambda>b v. push_bit 8 v OR ucast b) (replicate 8 (0x80 :: u8)) 0"
    by code_simp
  have index: "n div 8 < 8" if "n < 64" for n :: nat using that by (simp add: less_mult_imp_div_less)
  have m: "bit (0x8080808080808080 :: u64) n \<longleftrightarrow> n < 64 \<and> n mod 8 = 7" for n
    unfolding mask bit_fold_bytes using index [of n] by (auto simp: tag_bits)
  have l: "bit (load_u64 bytes) n \<longleftrightarrow> n < 64 \<and> bit (bytes ! (n div 8)) (n mod 8)" for n
    unfolding load_u64_def bit_fold_bytes using index [of n] len by auto
  have iff: "bit (load_u64 bytes AND 0x8080808080808080) n \<longleftrightarrow> n < 64 \<and> n mod 8 = 7 \<and> bit (bytes ! (n div 8)) 7" for n
    by (simp only: bit_and_iff m l) metis
  have "load_u64 bytes AND 0x8080808080808080 \<noteq> 0 \<longleftrightarrow> (\<exists>n < 64. n mod 8 = 7 \<and> bit (bytes ! (n div 8)) 7)"
    by (simp only: nonzero_bit iff)
  also have "\<dots> \<longleftrightarrow> (\<exists>i < 8. bit (bytes ! i) 7)"
  proof
    assume "\<exists>n < 64. n mod 8 = 7 \<and> bit (bytes ! (n div 8)) 7"
    then show "\<exists>i < 8. bit (bytes ! i) 7" using index by blast
  next
    assume "\<exists>i < 8. bit (bytes ! i) 7"
    then obtain i where "i < 8" "bit (bytes ! i) 7" by blast
    then show "\<exists>n < 64. n mod 8 = 7 \<and> bit (bytes ! (n div 8)) 7" by (intro exI [of _ "i * 8 + 7"]) auto
  qed
  finally show ?thesis by (simp add: high_u8)
qed

lemma ascii_tail_iff: "ascii_tail rest \<longleftrightarrow> list_all (\<lambda>b. b < 0x80) rest"
  by (induction rest) auto

lemma is_all_ascii_iff: "is_all_ascii input \<longleftrightarrow> list_all (\<lambda>b. b < 0x80) input"
proof -
  have "(case ascii_words rest of (ascii, rest) \<Rightarrow> ascii \<and> ascii_tail rest) \<longleftrightarrow> list_all (\<lambda>b. b < 0x80) rest" for rest
  proof (induction rest rule: ascii_words.induct)
    case (1 rest)
    have word: "load_u64 rest AND 0x8080808080808080 \<noteq> 0 \<longleftrightarrow> \<not> list_all (\<lambda>b. b < 0x80) (take 8 rest)" if "9 < length rest"
      using that high_bits_word [of rest] by (auto simp: list_all_length not_less)
    have split: "list_all (\<lambda>b. b < 0x80) rest \<longleftrightarrow> list_all (\<lambda>b. b < 0x80) (take 8 rest) \<and> list_all (\<lambda>b. b < 0x80) (drop 8 rest)"
      using list_all_append [of _ "take 8 rest" "drop 8 rest"] by simp
    show ?case using 1 word split by (subst ascii_words.simps) (auto simp: ascii_tail_iff)
  qed
  then show ?thesis by (simp add: is_all_ascii_def)
qed

section \<open>The characters of the input\<close>

lemma lookahead_large:
  assumes "pos < end" "end \<le> 62" "k \<le> 4"
  shows "\<not> lookahead pos end < k"
proof -
  have "unat (lookahead pos end) = 2 ^ 64 - (end - pos)"
    using assms(1,2) by (simp add: lookahead_def unat_sub_if' unat_of_nat take_bit_nat_eq_self)
  then show ?thesis using assms by (simp add: word_less_nat_alt word_le_nat_alt)
qed

lemma surrogate_iff: "c AND 0xFFFFF800 = 0xD800 \<longleftrightarrow> 0xD7FF < c \<and> c < 0xE000" for c :: u32
proof -
  have m: "(0xFFFFF800 :: u32) = NOT (mask 11)" by code_simp
  have high: "c AND 0xFFFFF800 = c - take_bit 11 c"
  proof -
    have "c AND 0xFFFFF800 = push_bit 11 (drop_bit 11 c)"
      unfolding m
      by (intro bit_word_eqI) (auto simp: bit_and_iff bit_not_iff bit_mask_iff bit_push_bit_iff bit_drop_bit_eq)
    then show ?thesis using bits_ident [of 11 c] by (simp add: eq_diff_eq)
  qed
  have "unat (take_bit 11 c) = unat c mod 2048" by (simp add: take_bit_eq_mod unat_mod)
  moreover from this have "take_bit 11 c \<le> c" by (simp add: word_le_nat_alt)
  ultimately have "unat (c - take_bit 11 c) = unat c - unat c mod 2048" by (simp add: unat_sub)
  moreover have "x - x mod 2048 = 55296 \<longleftrightarrow> 55295 < x \<and> x < 57344" for x :: nat
  proof -
    have "x - x mod 2048 = x div 2048 * 2048" by (rule minus_mod_eq_div_mult)
    then have "x - x mod 2048 = 55296 \<longleftrightarrow> 27 \<le> x div 2048 \<and> x div 2048 < 28" by linarith
    then show ?thesis by (auto simp: less_eq_div_iff_mult_less_eq div_less_iff_less_mult)
  qed
  ultimately show ?thesis unfolding high by (simp add: word_less_nat_alt word_unat_eq_iff)
qed

lemma valid_iff: "is_code_point_valid c \<longleftrightarrow> c \<le> 0x10FFFF \<and> \<not> (0xD7FF < c \<and> c < 0xE000)"
  using surrogate_iff [of c] by (simp add: is_code_point_valid_def max_legal_utf32_def lead_surrogate_min_def)

text \<open>A character of several bytes is read as its code point when all of its bytes are there, and the input
  is left when the first bytes of a character stand at its end.\<close>

lemma decode_multibyte_append:
  assumes "is_code_point_valid c" "0x80 \<le> c" "length (pre @ fst (append_utf8 [] c) @ post) \<le> 62"
  shows "decode_multibyte (pre @ fst (append_utf8 [] c) @ post) (length pre) (hd (fst (append_utf8 [] c))) =
      Some (Inr (c, length pre + length (fst (append_utf8 [] c))))
    \<and> 0x80 \<le> hd (fst (append_utf8 [] c))"
proof -
  have la: "\<not> lookahead (length pre) (length (pre @ fst (append_utf8 [] c) @ post)) < k" if "k \<le> 4" for k
    using lookahead_large [of "length pre" "length (pre @ fst (append_utf8 [] c) @ post)" k] that assms(3) append_utf8_not_empty [of c]
    by (cases "fst (append_utf8 [] c)") auto
  note tests = octet_tags octet_cont encoded_tags no_continuation_def high_u8
    and bits = octet_bits join_bits_forward join_bits_nested
  have big: "\<not> c < 0x80" using assms(2) by simp
  have valid: "c \<le> 0x10FFFF" "\<not> (0xD7FF < c \<and> c < 0xE000)" using assms(1) by (simp_all add: valid_iff)
  consider (two) "c < 0x800" | (three) "\<not> c < 0x800" "c < 0x10000" | (four) "\<not> c < 0x10000" by blast
  then show ?thesis
  proof cases
    case two
    then have "\<not> 0x7FF < c" by (simp add: word_less_nat_alt)
    with two show ?thesis
      using la [of 2] encoded_lead(1) [OF small_drop(1) [OF two]] big valid
      by (simp add: decode_multibyte_def append_utf8_def tests bits nth_append)
  next
    case three
    then have "\<not> 0xFFFF < c" by (simp add: word_less_nat_alt)
    with three show ?thesis
      using la [of 3] encoded_lead(2) [OF small_drop(2) [OF three(2)]] big valid
      by (simp add: decode_multibyte_def append_utf8_def tests bits nth_append)
  next
    case four
    moreover have "\<not> c \<le> 0xFFFF" "\<not> c < 0x800" using four by (simp_all add: word_less_nat_alt word_le_nat_alt)
    moreover have "c < 0x200000" using valid(1) by (simp add: word_le_nat_alt word_less_nat_alt)
    ultimately show ?thesis
      using la [of 4] encoded_lead(3) [OF small_drop(3)] big valid
      by (simp add: decode_multibyte_def append_utf8_def tests bits nth_append)
  qed
qed

lemma decode_multibyte_truncated:
  assumes "is_code_point_valid c" "0 < k" "k < length (fst (append_utf8 [] c))"
    and "length (pre @ take k (fst (append_utf8 [] c))) \<le> 62"
  shows "decode_multibyte (pre @ take k (fst (append_utf8 [] c))) (length pre) (hd (fst (append_utf8 [] c))) = None
    \<and> 0x80 \<le> hd (fst (append_utf8 [] c))"
proof -
  have la: "\<not> lookahead (length pre) (length pre + k) < j" if "j \<le> 4" for j
    using lookahead_large [of "length pre" "length pre + k" j] that assms(2,3,4) by simp
  note tests = octet_tags octet_cont encoded_tags no_continuation_def high_u8
  have big: "\<not> c < 0x80" using assms(2,3) by (auto simp: append_utf8_def)
  have valid: "c \<le> 0x10FFFF" using assms(1) by (simp add: valid_iff)
  have "k < 4" using assms(3) by (auto simp: append_utf8_def split: if_splits)
  then consider (a) "k = Suc 0" | (b) "k = Suc (Suc 0)" | (d) "k = Suc (Suc (Suc 0))" using assms(2) by linarith
  note ks = this
  consider (two) "c < 0x800" | (three) "\<not> c < 0x800" "c < 0x10000" | (four) "\<not> c < 0x10000" "\<not> c < 0x800"
    by (cases "c < 0x10000"; cases "c < 0x800") (auto simp: word_less_nat_alt)
  then show ?thesis
  proof cases
    case two
    then have "k = 1" using assms(2,3) big by (simp add: append_utf8_def)
    then show ?thesis
      using two la [of 2] encoded_lead(1) [OF small_drop(1) [OF two]] big
      by (simp add: decode_multibyte_def append_utf8_def tests nth_append load_def)
  next
    case three
    then have "k = Suc 0 \<or> k = Suc (Suc 0)" using assms(2,3) big by (auto simp: append_utf8_def)
    then show ?thesis
      using three la [of 3] encoded_lead(2) [OF small_drop(2) [OF three(2)]] big
      by (auto simp: decode_multibyte_def append_utf8_def tests nth_append load_def)
  next
    case four
    moreover have "c < 0x200000" using valid(1) by (simp add: word_le_nat_alt word_less_nat_alt)
    ultimately show ?thesis
      using la [of 4] encoded_lead(3) [OF small_drop(3)] big
      by (cases rule: ks) (simp_all add: decode_multibyte_def append_utf8_def tests nth_append load_def)
  qed
qed

lemma ascii_unit: "c < 0x80 \<Longrightarrow> (ucast (ucast c :: u8) :: u32) = c \<and> \<not> 0x80 \<le> (ucast c :: u8)" for c :: u32
proof -
  assume "c < 0x80"
  then have "unat c < 128" by (simp add: word_less_nat_alt)
  then have "unat (ucast c :: u8) = unat c" by (simp add: unsigned_ucast_eq take_bit_nat_eq_self)
  then show ?thesis using \<open>unat c < 128\<close>
    by (auto simp: word_le_nat_alt word_unat_eq_iff unsigned_ucast_eq unsigned_take_bit_eq take_bit_nat_eq_self)
qed

definition split_of :: "u32 list \<Rightarrow> split_state \<Rightarrow> split_state" where
  "split_of cps st = \<lparr>sp_output = sp_output st @ map ucast (filter (\<lambda>c. c < 0x80) cps), sp_all = sp_all st @ cps,
     sp_non_basic = sp_non_basic st @ filter (\<lambda>c. \<not> c < 0x80) cps\<rparr>"

lemma split_input_utf8:
  assumes "list_all is_code_point_valid cps" "length (pre @ utf8_of cps @ post) \<le> 62"
    and "length (sp_output st) \<le> cap" "length (sp_all st) + length cps \<le> buffer_size" "length (sp_non_basic st) \<le> length (sp_all st)"
  shows "split_input cap (pre @ utf8_of cps @ post) (length pre) st =
    (if length (sp_output (split_of cps st)) \<le> cap
     then split_input cap (pre @ utf8_of cps @ post) (length pre + length (utf8_of cps)) (split_of cps st)
     else None)"
  using assms
proof (induction cps arbitrary: pre st)
  case Nil
  then show ?case by (cases st) (simp add: split_of_def)
next
  case (Cons c cps)
  let ?enc = "fst (append_utf8 [] c)"
  let ?input = "pre @ ?enc @ utf8_of cps @ post"
  have at: "length pre < length ?input" "?input ! length pre = hd ?enc"
  proof -
    obtain b bs where "?enc = b # bs" using append_utf8_not_empty [of c] by (cases ?enc) auto
    then show "length pre < length ?input" "?input ! length pre = hd ?enc" by simp_all
  qed
  have rest: "is_code_point_valid c" "list_all is_code_point_valid cps" "length ((pre @ ?enc) @ utf8_of cps @ post) \<le> 62"
    using Cons.prems by simp_all
  show ?case
  proof (cases "c < 0x80")
    case True
    then have e: "?enc = [ucast c]" by (simp add: append_utf8_def)
    note IH = Cons.IH [OF rest(2,3)]
    show ?thesis
    proof (cases "length (sp_output st) < cap")
      case False
      then show ?thesis using at True Cons.prems(3) ascii_unit [OF True]
        by (subst split_input.simps) (simp add: e put_def split_of_def)
    next
      case fits: True
      have "split_input cap ?input (length pre) st =
          split_input cap ?input (length (pre @ ?enc)) (st\<lparr>sp_output := sp_output st @ [ucast c], sp_all := sp_all st @ [c]\<rparr>)"
        using at True fits Cons.prems(4) ascii_unit [OF True] by (subst split_input.simps) (simp add: e put_def Let_def)
      also have "\<dots> = (if length (sp_output (split_of (c # cps) st)) \<le> cap
          then split_input cap ?input (length pre + length (utf8_of (c # cps))) (split_of (c # cps) st) else None)"
        using IH [of "st\<lparr>sp_output := sp_output st @ [ucast c], sp_all := sp_all st @ [c]\<rparr>"] Cons.prems fits True
        by (simp add: split_of_def e)
      finally show ?thesis by simp
    qed
  next
    case False
    then have big: "0x80 \<le> c" by simp
    have bound: "length (pre @ ?enc @ (utf8_of cps @ post)) \<le> 62" using rest(3) by simp
    note multi = decode_multibyte_append [OF rest(1) big bound]
    have "split_input cap ?input (length pre) st =
        split_input cap ?input (length (pre @ ?enc)) (st\<lparr>sp_non_basic := sp_non_basic st @ [c], sp_all := sp_all st @ [c]\<rparr>)"
      using at multi Cons.prems(4,5) by (subst split_input.simps) (simp add: put_def Let_def)
    also have "\<dots> = (if length (sp_output (split_of (c # cps) st)) \<le> cap
        then split_input cap ?input (length pre + length (utf8_of (c # cps))) (split_of (c # cps) st) else None)"
      using Cons.IH [OF rest(2,3), of "st\<lparr>sp_non_basic := sp_non_basic st @ [c], sp_all := sp_all st @ [c]\<rparr>"] Cons.prems False
      by (simp add: split_of_def add.assoc)
    finally show ?thesis by simp
  qed
qed

end
