(* ===== verification/Punycode_Sort.thy ===== *)
theory Punycode_Sort
  imports Punycode
begin

text \<open>
  The sort in place of the array of code points, which drops duplicates.
\<close>

section \<open>The sort in place\<close>

text \<open>Before step \<open>k\<close> the first elements are sorted and different, they are the elements that have been
  seen, and the cells between them and \<open>k\<close> hold values that are among them.\<close>

definition sort_inv :: "u32 list \<Rightarrow> nat \<Rightarrow> u32 list \<times> nat \<Rightarrow> bool" where
  "sort_inv xs k = (\<lambda>(array, d).
     d < k \<and> length array = length xs \<and> sorted_wrt (<) (take (k - d) array)
     \<and> set (take (k - d) array) = set (take k xs) \<and> drop k array = drop k xs
     \<and> (\<forall>j. k - d \<le> j \<longrightarrow> j < k \<longrightarrow> array ! j \<in> set (take (k - d) array)))"

lemma scan_back_result:
  assumes "sorted_wrt (<) (take L array)" and "L \<le> length array"
  shows "scan_back array key L \<le> L \<and> (\<forall>j < scan_back array key L. array ! j < key)
    \<and> (\<forall>j. scan_back array key L \<le> j \<longrightarrow> j < L \<longrightarrow> key \<le> array ! j)"
  using assms
proof (induction L)
  case (Suc L)
  have sorted: "sorted_wrt (<) (take L array)"
    using Suc.prems by (simp add: take_Suc_conv_app_nth sorted_wrt_append)
  have below: "array ! j < array ! L" if "j < L" for j
  proof -
    have "array ! j \<in> set (take L array)" using that Suc.prems(2) by (auto simp: in_set_conv_nth)
    then show ?thesis using Suc.prems by (simp add: take_Suc_conv_app_nth sorted_wrt_append)
  qed
  show ?case
    using Suc.IH [OF sorted] Suc.prems(2) below by (auto simp: less_Suc_eq not_le intro: less_trans)
qed simp

text \<open>The insertion of a key before the first element that is greater.\<close>

definition inserted :: "u32 list \<Rightarrow> nat \<Rightarrow> nat \<Rightarrow> u32 \<Rightarrow> u32 list" where
  "inserted array L z key = take z array @ key # take (L - z) (drop z array) @ drop (Suc L) array"

lemma inserted_result:
  assumes sorted: "sorted_wrt (<) (take L array)" and z: "z < L" "L < length array"
    and low: "\<And>j. j < z \<Longrightarrow> array ! j < key" and gt: "key < array ! z"
  shows "sorted_wrt (<) (take (Suc L) (inserted array L z key))
    \<and> set (take (Suc L) (inserted array L z key)) = insert key (set (take L array))
    \<and> drop (Suc L) (inserted array L z key) = drop (Suc L) array
    \<and> length (inserted array L z key) = length array"
proof -
  have prefix: "take L array = take z array @ take (L - z) (drop z array)"
    using z by (metis take_add le_add_diff_inverse less_imp_le)
  have first: "take (Suc L) (inserted array L z key) = take z array @ key # take (L - z) (drop z array)"
    using z by (simp add: inserted_def Suc_diff_le)
  have mono: "array ! i < array ! j" if "i < j" "j < L" for i j
    using sorted_wrt_nth_less [OF sorted that(1)] that z by simp
  have above: "key < x" if "x \<in> set (take (L - z) (drop z array))" for x
  proof -
    obtain i where "i < L - z" "x = array ! (z + i)" using \<open>x \<in> _\<close> z by (auto simp: in_set_conv_nth)
    then show ?thesis using gt mono [of z "z + i"] by (cases "i = 0") (auto intro: less_trans)
  qed
  have "sorted_wrt (<) (take z array @ key # take (L - z) (drop z array))"
    using sorted low above z unfolding prefix by (auto simp: sorted_wrt_append in_set_conv_nth)
  then show ?thesis using z by (auto simp: first prefix) (auto simp: inserted_def Suc_diff_le)
qed

lemma sort_step_inv:
  assumes inv: "sort_inv xs k (array, d)" and k: "k < length xs"
  shows "sort_inv xs (Suc k) (sort_step k (array, d))"
proof -
  define L where "L = k - d"
  define key where "key = array ! k"
  define z where "z = scan_back array key L"
  have d: "d < k" and len: "length array = length xs" and sorted: "sorted_wrt (<) (take L array)"
    and elems: "set (take L array) = set (take k xs)" and rest: "drop k array = drop k xs"
    and stale: "\<And>j. L \<le> j \<Longrightarrow> j < k \<Longrightarrow> array ! j \<in> set (take L array)"
    using inv by (auto simp: sort_inv_def L_def)
  have L: "0 < L" "L \<le> k" "L < length array" using d k len by (auto simp: L_def)
  have key: "key = xs ! k" using rest k len by (metis key_def hd_drop_conv_nth)
  have seen: "set (take (Suc k) xs) = insert key (set (take L array))"
    using k elems key by (simp add: take_Suc_conv_app_nth)
  have rest': "drop (Suc k) array = drop (Suc k) xs" using rest by (metis drop_Suc tl_drop)
  have z: "z \<le> L" and low: "\<And>j. j < z \<Longrightarrow> array ! j < key" and high: "\<And>j. z \<le> j \<Longrightarrow> j < L \<Longrightarrow> key \<le> array ! j"
    using scan_back_result [OF sorted, of key] L by (auto simp: z_def)
  have stale_low: "array ! j < key" if zL: "z = L" and j: "L \<le> j" "j < k" for j
  proof -
    obtain i where "i < L" "array ! j = array ! i" using stale [OF j] by (auto simp: in_set_conv_nth)
    then show ?thesis using low [of i] zL by simp
  qed
  show ?thesis
  proof (cases "z = L")
    case True
    have append: "sorted_wrt (<) (take L array @ [key])" using sorted low True L by (auto simp: sorted_wrt_append in_set_conv_nth)
    show ?thesis
    proof (cases "L = k")
      case True
      then have "sort_step k (array, d) = (array, d)" "d = 0"
        using \<open>z = L\<close> d by (auto simp: sort_step_def Let_def L_def key_def z_def)
      then show ?thesis
        using True append d len seen rest' L k by (auto simp: sort_inv_def take_Suc_conv_app_nth key_def)
    next
      case False
      then have "L < k" using L by simp
      then have "array ! L < key" using stale_low [of L] \<open>z = L\<close> by simp
      then have "sort_step k (array, d) = (array[L := key], d)"
        using \<open>z = L\<close> False by (auto simp: sort_step_def Let_def L_def [symmetric] key_def [symmetric] z_def [symmetric])
      moreover have "take (Suc L) (array[L := key]) = take L array @ [key]" using L by (simp add: take_list_update_Suc)
      moreover have "Suc k - d = Suc L" using d by (simp add: L_def)
      moreover have "array[L := key] ! j \<in> insert key (set (take L array))" if "Suc L \<le> j" "j < Suc k" for j
        using that stale [of j] by (cases "j = k") (auto simp: key_def)
      ultimately show ?thesis
        using append d len seen rest' \<open>L < k\<close> by (auto simp: sort_inv_def drop_update_cancel)
    qed
  next
    case False
    then have zL: "z < L" using z by simp
    then have ge: "key \<le> array ! z" using high by simp
    show ?thesis
    proof (cases "array ! z = key")
      case True
      then have "key \<in> set (take L array)" using zL L by (auto simp: in_set_conv_nth)
      moreover have "sort_step k (array, d) = (array, Suc d)"
        using True zL L by (auto simp: sort_step_def Let_def L_def [symmetric] key_def [symmetric] z_def [symmetric])
      ultimately show ?thesis
        using d len sorted seen rest' stale key_def by (auto simp: sort_inv_def L_def [symmetric] less_Suc_eq)
    next
      case False
      then have gt: "key < array ! z" using ge by simp
      note insertion = inserted_result [OF sorted zL L(3) low gt]
      have step: "sort_step k (array, d) = (inserted array L z key, d)"
        using gt zL L by (auto simp: sort_step_def Let_def L_def [symmetric] key_def [symmetric] z_def [symmetric] inserted_def)
      have same: "inserted array L z key ! j = array ! j" if "Suc L \<le> j" "j < length array" for j
      proof -
        have "length (inserted array L z key) = length array" using insertion by blast
        then have "drop (Suc L) (inserted array L z key) ! (j - Suc L) = inserted array L z key ! j"
          "drop (Suc L) array ! (j - Suc L) = array ! j" using that by simp_all
        then show ?thesis using insertion by simp
      qed
      have after: "drop (Suc k) (inserted array L z key) = drop (Suc k) array"
      proof -
        have "drop (k - L) (drop (Suc L) (inserted array L z key)) = drop (k - L) (drop (Suc L) array)" using insertion by simp
        then show ?thesis using L by simp
      qed
      have "inserted array L z key ! j \<in> insert key (set (take L array))" if "Suc L \<le> j" "j < Suc k" for j
        using that same [of j] stale [of j] k len by (cases "j = k") (auto simp: key_def)
      moreover have "Suc k - d = Suc L" using d by (simp add: L_def)
      ultimately show ?thesis
        using d len seen rest' insertion after step by (auto simp: sort_inv_def)
    qed
  qed
qed

lemma sort_unique_values_result:
  "take (length xs - snd (sort_unique_values xs)) (fst (sort_unique_values xs)) = sorted_list_of_set (set xs)
   \<and> length (fst (sort_unique_values xs)) = length xs"
proof (cases "xs = []")
  case True
  then show ?thesis by (simp add: sort_unique_values_def)
next
  case False
  have "1 \<le> n \<Longrightarrow> n \<le> length xs \<Longrightarrow> sort_inv xs n (fold sort_step [1..<n] (xs, 0))" for n
  proof (induction n)
    case (Suc n)
    show ?case
    proof (cases "n = 0")
      case True
      then show ?thesis using False by (auto simp: sort_inv_def take_Suc)
    next
      case False
      then show ?thesis using Suc sort_step_inv [of xs n] by (auto simp: split_paired_all) (metis surj_pair)
    qed
  qed simp
  from this [of "length xs"] False have inv: "sort_inv xs (length xs) (sort_unique_values xs)"
    by (simp add: sort_unique_values_def Suc_le_eq)
  then have sorted: "sorted_wrt (<) (take (length xs - snd (sort_unique_values xs)) (fst (sort_unique_values xs)))"
    and elems: "set (take (length xs - snd (sort_unique_values xs)) (fst (sort_unique_values xs))) = set xs"
    and len: "length (fst (sort_unique_values xs)) = length xs"
    by (auto simp: sort_inv_def case_prod_beta)
  show ?thesis using sorted_list_of_set.idem_if_sorted_distinct strict_sorted_equal [of _ "sorted_list_of_set (set xs)"] sorted elems len
    by (metis List.finite_set set_sorted_list_of_set strict_sorted_list_of_set)
qed

end
