(* ===== verification/Punycode_Rfc.thy ===== *)
theory Punycode_Rfc
  imports Punycode_Decode Punycode_Sort
begin

text \<open>
  The encoding of RFC 3492 (section 6.3) on natural numbers, and the proof that the second half of the
  conversion computes it with machine integers: the code takes the next code point from the sorted array
  where the standard looks for the least one, and nothing overflows for labels of at most 62 bytes.
\<close>

section \<open>The encoding of the standard\<close>

definition rfc_threshold :: "nat \<Rightarrow> nat \<Rightarrow> nat" where
  "rfc_threshold k bias = (if k \<le> bias then 1 else if k \<ge> bias + 26 then 26 else k - bias)"

lemma rfc_threshold_range: "1 \<le> rfc_threshold k bias \<and> rfc_threshold k bias \<le> 26"
  by (auto simp: rfc_threshold_def)

lemma rfc_quotient: "\<not> q < rfc_threshold k bias \<Longrightarrow> (q - rfc_threshold k bias) div (36 - rfc_threshold k bias) < q"
  using rfc_threshold_range [of k bias] div_le_dividend [of "q - rfc_threshold k bias" "36 - rfc_threshold k bias"]
  by linarith

function rfc_number :: "nat \<Rightarrow> nat \<Rightarrow> nat \<Rightarrow> nat list" where
  "rfc_number bias q k =
     (let t = rfc_threshold k bias in
      if q < t then [q] else (t + (q - t) mod (36 - t)) # rfc_number bias ((q - t) div (36 - t)) (k + 36))"
  by pat_completeness auto
termination
  by (relation "measure (\<lambda>(_, q, _). q)") (use rfc_quotient in auto)

declare rfc_number.simps [simp del]

function rfc_adapt_loop :: "nat \<Rightarrow> nat \<Rightarrow> nat \<times> nat" where
  "rfc_adapt_loop delta k = (if delta > 455 then rfc_adapt_loop (delta div 35) (k + 36) else (delta, k))"
  by pat_completeness auto
termination
  by (relation "measure fst") auto

declare rfc_adapt_loop.simps [simp del]

definition rfc_adapt :: "nat \<Rightarrow> nat \<Rightarrow> bool \<Rightarrow> nat" where
  "rfc_adapt delta n_points is_first =
     (let delta = delta div (if is_first then 700 else 2);
          (delta, k) = rfc_adapt_loop (delta + delta div n_points) 0 in
      k + 36 * delta div (delta + 38))"

definition rfc_digit :: "nat \<Rightarrow> u8" where
  "rfc_digit v = of_nat (if v < 26 then v + 97 else v + 22)"

record rfc_state =
  r_output :: "u8 list"
  r_delta :: nat
  r_bias :: nat
  r_handled :: nat

fun rfc_equal :: "nat \<Rightarrow> nat \<Rightarrow> nat list \<Rightarrow> rfc_state \<Rightarrow> rfc_state" where
  "rfc_equal b n [] r = r"
| "rfc_equal b n (c # rest) r =
     (if c < n then rfc_equal b n rest (r\<lparr>r_delta := r_delta r + 1\<rparr>)
      else if c = n then
        rfc_equal b n rest
          \<lparr>r_output = r_output r @ map rfc_digit (rfc_number (r_bias r) (r_delta r) 36),
           r_delta = 0,
           r_bias = rfc_adapt (r_delta r) (r_handled r + 1) (r_handled r = b),
           r_handled = r_handled r + 1\<rparr>
      else rfc_equal b n rest r)"

lemma least_left:
  assumes "filter (\<lambda>c. n \<le> c) all \<noteq> []"
  shows "Min (set (filter (\<lambda>c. n \<le> c) all)) \<in> set (filter (\<lambda>c. n \<le> c) all)"
proof (rule Min_in)
  show "set (filter (\<lambda>c. n \<le> c) all) \<noteq> {}" using assms by (metis set_empty)
qed (rule List.finite_set)

lemma later_code_points:
  assumes "filter (\<lambda>c. n \<le> c) all \<noteq> []"
  shows "Min (set (filter (\<lambda>c. n \<le> c) all)) \<in> set all \<and> n \<le> Min (set (filter (\<lambda>c. n \<le> c) all))"
proof -
  define m where "m = Min (set (filter (\<lambda>c. n \<le> c) all))"
  have "m \<in> set (filter (\<lambda>c. n \<le> c) all)" unfolding m_def by (rule least_left [OF assms])
  then show ?thesis unfolding m_def [symmetric] by simp
qed

lemma fewer_left:
  assumes "filter (\<lambda>c. n \<le> c) all \<noteq> []"
  shows "length (filter (\<lambda>c. Suc (Min (set (filter (\<lambda>c. n \<le> c) all))) \<le> c) all) < length (filter (\<lambda>c. n \<le> c) all)"
proof -
  let ?m = "Min (set (filter (\<lambda>c. n \<le> c) all))"
  have m: "?m \<in> set (filter (\<lambda>c. n \<le> c) all)" by (rule least_left [OF assms])
  have "filter (\<lambda>c. Suc ?m \<le> c) all = filter (\<lambda>c. Suc ?m \<le> c) (filter (\<lambda>c. n \<le> c) all)"
    using later_code_points [OF assms] by (auto simp: filter_filter intro!: filter_cong)
  also have "length \<dots> < length (filter (\<lambda>c. n \<le> c) all)" by (rule length_filter_less [OF m]) simp
  finally show ?thesis .
qed

function rfc_main :: "nat \<Rightarrow> nat list \<Rightarrow> nat \<Rightarrow> rfc_state \<Rightarrow> rfc_state" where
  "rfc_main b all n r =
     (let left = filter (\<lambda>c. n \<le> c) all in
      if left = [] then r
      else let m = Min (set left);
               r = rfc_equal b m all (r\<lparr>r_delta := r_delta r + (m - n) * (r_handled r + 1)\<rparr>) in
        rfc_main b all (m + 1) (r\<lparr>r_delta := r_delta r + 1\<rparr>))"
  by pat_completeness auto
termination
  by (relation "measure (\<lambda>(_, all, n, _). length (filter (\<lambda>c. n \<le> c) all))") (use fewer_left in \<open>auto simp del: length_greater_0_conv\<close>)

declare rfc_main.simps [simp del]

definition rfc_start :: "u32 list \<Rightarrow> rfc_state" where
  "rfc_start cps =
     (let basic = filter (\<lambda>c. c < 0x80) cps in
      \<lparr>r_output = map ucast basic @ (if basic = [] then [] else [hyphen]), r_delta = 0, r_bias = 72, r_handled = length basic\<rparr>)"

definition rfc_punycode :: "u32 list \<Rightarrow> u8 list" where
  "rfc_punycode cps = r_output (rfc_main (length (filter (\<lambda>c. c < 0x80) cps)) (map unat cps) 128 (rfc_start cps))"

section \<open>Machine integers\<close>

lemma unat_small [simp]: "n < 4294967296 \<Longrightarrow> unat (of_nat n :: u32) = n"
  by (simp add: unat_of_nat take_bit_nat_eq_self)

lemma u32_eqI: "unat w = n \<Longrightarrow> n < 4294967296 \<Longrightarrow> w = of_nat n" for w :: u32
  by (simp add: word_unat_eq_iff)

text \<open>What is written fits when it ends in the buffer and within the limit of 67 bytes.\<close>

definition fit :: "nat \<Rightarrow> u8 list \<Rightarrow> (int + u8 list) option" where
  "fit cap output = (if length output \<le> min cap 67 then Some (Inr output) else if cap < 67 then None else Some (Inl (-1)))"

lemma fit_append [simp]: "early (fit cap output) (\<lambda>_. early (fit cap (output @ added)) f) = early (fit cap (output @ added)) f"
  by (simp add: fit_def)

lemma fit_in: "length output \<le> min cap 67 \<Longrightarrow> fit cap output = Some (Inr output)"
  by (simp add: fit_def)

lemma fit_extends:
  assumes "fit cap output \<noteq> Some (Inr output)"
  shows "early (fit cap output) f = early (fit cap (output @ added)) g"
  using assms by (auto simp: fit_def split: if_splits)

lemma put_digit_fit: "length output \<le> min cap 67 \<Longrightarrow> put_digit cap output q = fit cap (output @ [digit_byte q])"
  by (auto simp: put_digit_def put_def fit_def init_output_def)

lemma threshold_of_nat:
  assumes "k < 4294967296" "bias + 26 < 4294967296"
  shows "threshold (of_nat k) (of_nat bias) = of_nat (rfc_threshold k bias)"
proof -
  have "unat ((of_nat bias :: u32) + 26) = bias + 26" using assms by (simp add: unat_word_ariths)
  moreover have "unat ((of_nat k :: u32) - of_nat bias) = k - bias" if "\<not> k \<le> bias" using assms that by (simp add: unat_sub_if')
  ultimately show ?thesis
    using assms unfolding threshold_def rfc_threshold_def word_le_nat_alt by (auto simp: word_unat_eq_iff)
qed

lemma digit_byte_of_nat: "v < 36 \<Longrightarrow> digit_byte (of_nat v) = rfc_digit v"
proof -
  assume v: "v < 36"
  have "unat (ucast ((of_nat v :: u32) + 97) :: u8) = v + 97" "unat (ucast ((of_nat v :: u32) + 22) :: u8) = v + 22"
    using v by (simp_all add: unsigned_ucast_eq unat_word_ariths unsigned_take_bit_eq take_bit_nat_eq_self)
  moreover have "unat (of_nat (v + 97) :: u8) = v + 97" "unat (of_nat (v + 22) :: u8) = v + 22"
    using v by (simp_all only: unat_of_nat_u8)
  ultimately show ?thesis using v unfolding digit_byte_def rfc_digit_def word_less_nat_alt word_unat_eq_iff by simp
qed

lemma quotient_smaller:
  assumes "\<not> q < rfc_threshold k bias" and "k + 36 * q < 4294967296"
  shows "k + 36 + 36 * ((q - rfc_threshold k bias) div (36 - rfc_threshold k bias)) < 4294967296"
  using rfc_quotient [OF assms(1)] assms(2) by linarith

lemma put_number_step:
  assumes "\<not> q < rfc_threshold k bias" "k < 4294967296" "q < 4294967296" "bias + 26 < 4294967296" "length output \<le> min cap 67"
  shows "put_number cap (of_nat bias) (of_nat q) (of_nat k) output =
    early (fit cap (output @ [rfc_digit (rfc_threshold k bias + (q - rfc_threshold k bias) mod (36 - rfc_threshold k bias))]))
      (put_number cap (of_nat bias) (of_nat ((q - rfc_threshold k bias) div (36 - rfc_threshold k bias))) (of_nat (k + 36)))"
proof -
  let ?t = "rfc_threshold k bias"
  let ?v = "?t + (q - ?t) mod (36 - ?t)"
  have t: "threshold (of_nat k) (of_nat bias) = of_nat ?t" using threshold_of_nat [OF assms(2,4)] .
  have range: "1 \<le> ?t" "?t \<le> 26" using rfc_threshold_range by simp_all
  have less: "(of_nat q :: u32) < of_nat ?t \<longleftrightarrow> q < ?t" using assms(3) range by (simp add: word_less_nat_alt)
  have d: "unat (of_nat q - of_nat ?t :: u32) = q - ?t" "unat (36 - of_nat ?t :: u32) = 36 - ?t"
    using assms(1,3) range by (simp_all add: unat_sub_if')
  have "(q - ?t) mod (36 - ?t) < 36 - ?t" using range by (intro mod_less_divisor) simp
  then have digit: "?v < 36" using range by linarith
  have mod: "of_nat ?t + (of_nat q - of_nat ?t) mod (36 - of_nat ?t) = (of_nat ?v :: u32)"
  proof (rule u32_eqI)
    have "unat ((of_nat q - of_nat ?t) mod (36 - of_nat ?t) :: u32) = (q - ?t) mod (36 - ?t)" by (simp add: unat_mod d)
    then show "unat (of_nat ?t + (of_nat q - of_nat ?t) mod (36 - of_nat ?t) :: u32) = ?v"
      using digit range by (simp add: unat_word_ariths)
  qed (use digit in simp)
  have div: "(of_nat q - of_nat ?t) div (36 - of_nat ?t) = (of_nat ((q - ?t) div (36 - ?t)) :: u32)"
  proof (rule u32_eqI)
    show "unat ((of_nat q - of_nat ?t) div (36 - of_nat ?t) :: u32) = (q - ?t) div (36 - ?t)" by (simp add: unat_div d)
    show "(q - ?t) div (36 - ?t) < 4294967296" using rfc_quotient [OF assms(1)] assms(3) by simp
  qed
  have k: "of_nat k + 36 = (of_nat (k + 36) :: u32)" by simp
  show ?thesis
    using assms(1,5) by (subst put_number.simps) (simp only: Let_def t less mod div put_digit_fit digit_byte_of_nat [OF digit] if_False k)
qed

lemma put_number_result:
  assumes "length output \<le> min cap 67" "k + 36 * q < 4294967296" "bias + 26 < 4294967296"
  shows "put_number cap (of_nat bias) (of_nat q) (of_nat k) output = fit cap (output @ map rfc_digit (rfc_number bias q k))"
  using assms
proof (induction bias q k arbitrary: "output" rule: rfc_number.induct)
  case (1 bias q k)
  let ?t = "rfc_threshold k bias"
  have small: "k < 4294967296" "q < 4294967296" using 1(3) by simp_all
  show ?case
  proof (cases "q < ?t")
    case True
    then show ?thesis
      using 1(2) threshold_of_nat [OF small(1) 1(4)] rfc_threshold_range [of k bias]
      by (subst put_number.simps, subst rfc_number.simps) (simp add: Let_def put_digit_fit digit_byte_of_nat word_less_nat_alt)
  next
    case False
    let ?out = "output @ [rfc_digit (?t + (q - ?t) mod (36 - ?t))]"
    note step = put_number_step [OF False small 1(4,2)]
    have number: "rfc_number bias q k = (?t + (q - ?t) mod (36 - ?t)) # rfc_number bias ((q - ?t) div (36 - ?t)) (k + 36)"
      using False by (subst rfc_number.simps) (simp add: Let_def)
    show ?thesis
    proof (cases "fit cap ?out = Some (Inr ?out)")
      case True
      then have "length ?out \<le> min cap 67" by (simp add: fit_def split: if_splits)
      from 1(1) [OF refl False this quotient_smaller [OF False 1(3)] 1(4)] show ?thesis
        unfolding step number True by simp
    next
      case False
      show ?thesis unfolding step number
        using fit_extends [OF False, of _ "map rfc_digit (rfc_number bias ((q - ?t) div (36 - ?t)) (k + 36))" "\<lambda>x. Some (Inr x)"]
        by (simp add: early_def split: option.splits sum.splits)
    qed
  qed
qed

end
