(* ===== verification/Punycode_Encode.thy ===== *)
theory Punycode_Encode
  imports Punycode_Rfc
begin

text \<open>
  The loops of the conversion compute the encoding of the standard: the bias, the loop over all code
  points for one value, and the loop over the values.
\<close>

section \<open>The bias\<close>

lemma adapt_loop_of_nat:
  assumes "k + 36 * delta < 4294967296"
  shows "adapt_loop (of_nat delta) (of_nat k) = map_prod of_nat of_nat (rfc_adapt_loop delta k)
    \<and> snd (rfc_adapt_loop delta k) + 36 * fst (rfc_adapt_loop delta k) \<le> k + 36 * delta
    \<and> fst (rfc_adapt_loop delta k) \<le> 455"
  using assms
proof (induction delta k rule: rfc_adapt_loop.induct)
  case (1 delta k)
  show ?case
  proof (cases "delta > 455")
    case True
    have le: "k + 36 + 36 * (delta div 35) \<le> k + 36 * delta" using True by linarith
    have "(of_nat delta :: u32) div 35 = of_nat (delta div 35)"
    proof (rule u32_eqI)
      show "unat ((of_nat delta :: u32) div 35) = delta div 35" using 1(2) by (simp add: unat_div)
    qed (use 1(2) in linarith)
    moreover have "(of_nat k :: u32) + 36 = of_nat (k + 36)" by simp
    ultimately have step: "adapt_loop (of_nat delta) (of_nat k) = adapt_loop (of_nat (delta div 35)) (of_nat (k + 36))"
      using True 1(2) by (subst adapt_loop.simps) (simp only: word_less_nat_alt, simp)
    have "rfc_adapt_loop delta k = rfc_adapt_loop (delta div 35) (k + 36)"
      using True by (subst rfc_adapt_loop.simps) simp
    then show ?thesis using 1(1) [OF True] le 1(2) step by simp
  next
    case False
    then show ?thesis using 1(2)
      by (subst adapt_loop.simps, subst (1 2 3 4) rfc_adapt_loop.simps) (simp add: word_less_nat_alt)
  qed
qed

lemma adapt_of_nat:
  assumes "36 * delta < 4294967296" "0 < n_points" "n_points < 4294967296"
  shows "adapt (of_nat delta) (of_nat n_points) first = of_nat (rfc_adapt delta n_points first)
    \<and> rfc_adapt delta n_points first \<le> 36 * delta"
proof -
  define d0 where "d0 = delta div (if first then 700 else 2)"
  define d1 where "d1 = d0 + d0 div n_points"
  obtain d2 k where loop: "rfc_adapt_loop d1 0 = (d2, k)" by fastforce
  have "d0 div n_points \<le> d0" by (rule div_le_dividend)
  moreover have "d0 \<le> delta div 2" unfolding d0_def by (cases first) (auto intro: div_le_mono2)
  ultimately have d1: "d1 \<le> delta" unfolding d1_def by linarith
  have l: "adapt_loop (of_nat d1) 0 = (of_nat d2, of_nat k)" and le: "k + 36 * d2 \<le> 36 * d1" and d2: "d2 \<le> 455"
    using adapt_loop_of_nat [of 0 d1] d1 assms(1) by (simp_all add: loop)
  have w0: "(of_nat delta :: u32) div (if first then 700 else 2) = of_nat d0"
    by (rule u32_eqI) (use assms in \<open>auto simp: d0_def unat_div\<close>)
  have w1: "(of_nat d0 :: u32) + of_nat d0 div of_nat n_points = of_nat d1"
  proof (rule u32_eqI)
    have "unat ((of_nat d0 :: u32) div of_nat n_points) = d0 div n_points"
      using \<open>d0 \<le> delta div 2\<close> assms by (simp add: unat_div)
    then show "unat ((of_nat d0 :: u32) + of_nat d0 div of_nat n_points) = d1"
      using d1 assms(1) \<open>d0 \<le> delta div 2\<close> by (simp only: unat_word_ariths) (simp add: d1_def)
  qed (use d1 assms(1) in simp)
  have quot: "36 * d2 div (d2 + 38) \<le> 36 * d2" by (rule div_le_dividend)
  have lt: "k + 36 * d2 div (d2 + 38) < 4294967296" using le d1 assms(1) quot by linarith
  have w2: "(of_nat k :: u32) + 36 * of_nat d2 div (of_nat d2 + 38) = of_nat (k + 36 * d2 div (d2 + 38))"
  proof (rule u32_eqI)
    have "unat (36 * (of_nat d2 :: u32) div (of_nat d2 + 38)) = 36 * d2 div (d2 + 38)"
      using d2 by (simp add: unat_div unat_word_ariths)
    then show "unat ((of_nat k :: u32) + 36 * of_nat d2 div (of_nat d2 + 38)) = k + 36 * d2 div (d2 + 38)"
      using lt by (simp add: unat_word_ariths)
  qed (rule lt)
  have "rfc_adapt delta n_points first = k + 36 * d2 div (d2 + 38)"
    by (simp add: rfc_adapt_def d0_def [symmetric] d1_def [symmetric] loop)
  moreover have "adapt (of_nat delta) (of_nat n_points) first = of_nat (k + 36 * d2 div (d2 + 38))"
    unfolding adapt_def Let_def w0 w1 l using w2 by simp
  moreover have "k + 36 * d2 div (d2 + 38) \<le> 36 * delta" using le d1 quot by linarith
  ultimately show ?thesis by simp
qed

section \<open>The loop over the code points\<close>

definition machine :: "rfc_state \<Rightarrow> punycode_state" where
  "machine r = \<lparr>pc_output = ascii_prefix @ r_output r, pc_delta = of_nat (r_delta r), pc_bias = of_nat (r_bias r),
     pc_processed = r_handled r\<rparr>"

lemma rfc_equal_output: "\<exists>added. r_output (rfc_equal b n all r) = r_output r @ added"
  by (induction b n all r rule: rfc_equal.induct) auto

lemma rfc_equal_facts:
  assumes "r_delta r + length all \<le> d" "36 * d < 4294967000" "r_bias r \<le> 36 * d"
    and "r_handled r + length all < 4294967296"
  shows "r_handled (rfc_equal b n all r) = r_handled r + length (filter (\<lambda>c. c = n) all)
    \<and> r_delta (rfc_equal b n all r) \<le> (if n \<in> set all then length all else r_delta r + length all)
    \<and> r_bias (rfc_equal b n all r) \<le> 36 * d"
  using assms
proof (induction b n all r rule: rfc_equal.induct)
  case (2 b n c rest r)
  have "rfc_adapt (r_delta r) (r_handled r + 1) (r_handled r = b) \<le> 36 * d"
    using adapt_of_nat [of "r_delta r" "r_handled r + 1" "r_handled r = b"] 2(4-7) by simp
  then show ?case using 2 by (auto split: if_splits)
qed simp

lemma encode_equal_result:
  assumes "length (ascii_prefix @ r_output r) \<le> min cap 67" "r_delta r + length all \<le> d" "36 * d < 4294967000"
    and "r_bias r \<le> 36 * d" "r_handled r + length all < 4294967296"
  shows "encode_equal cap b n all (machine r) =
    early (fit cap (ascii_prefix @ r_output (rfc_equal b (unat n) (map unat all) r)))
      (\<lambda>_. Some (Inr (machine (rfc_equal b (unat n) (map unat all) r))))"
  using assms
proof (induction all arbitrary: r)
  case Nil
  then show ?case by (simp add: fit_in)
next
  case (Cons c all)
  consider (low) "c < n" | (equal) "c = n" | (high) "\<not> c < n" "c \<noteq> n" by blast
  then show ?case
  proof cases
    case low
    have "unat (of_nat (r_delta r + 1) :: u32) \<noteq> 0" using Cons.prems(2,3) by (subst unat_small) simp_all
    then have "(of_nat (r_delta r) + 1 :: u32) \<noteq> 0" by (metis of_nat_1 of_nat_add unat_0)
    then have "encode_equal cap b n (c # all) (machine r) = encode_equal cap b n all (machine (r\<lparr>r_delta := r_delta r + 1\<rparr>))"
      using low less_imp_neq [OF low] by (simp add: machine_def Let_def add.commute)
    then show ?thesis
      using low Cons.IH [of "r\<lparr>r_delta := r_delta r + 1\<rparr>"] Cons.prems by (simp add: word_less_nat_alt)
  next
    case equal
    let ?digits = "map rfc_digit (rfc_number (r_bias r) (r_delta r) 36)"
    let ?out = "ascii_prefix @ r_output r @ ?digits"
    let ?r = "\<lparr>r_output = r_output r @ ?digits, r_delta = 0,
      r_bias = rfc_adapt (r_delta r) (r_handled r + 1) (r_handled r = b), r_handled = r_handled r + 1\<rparr>"
    have digits: "put_number cap (of_nat (r_bias r)) (of_nat (r_delta r)) 36 (ascii_prefix @ r_output r) = fit cap ?out"
      using put_number_result [of "ascii_prefix @ r_output r" cap 36 "r_delta r" "r_bias r"] Cons.prems by simp
    have adapt: "adapt (of_nat (r_delta r)) (of_nat (r_handled r + 1)) first = of_nat (rfc_adapt (r_delta r) (r_handled r + 1) first)"
      "rfc_adapt (r_delta r) (r_handled r + 1) first \<le> 36 * d" for first
      using adapt_of_nat [of "r_delta r" "r_handled r + 1" first] Cons.prems by simp_all
    have step: "encode_equal cap b n (c # all) (machine r) = early (fit cap ?out) (\<lambda>output. encode_equal cap b n all ((machine ?r)\<lparr>pc_output := output\<rparr>))"
      using equal adapt(1) [of "b = r_handled r"] digits by (simp add: machine_def eq_commute [of b])
    have spec: "rfc_equal b (unat n) (map unat (c # all)) r = rfc_equal b (unat n) (map unat all) ?r" using equal by simp
    obtain added where added: "r_output (rfc_equal b (unat n) (map unat all) ?r) = r_output ?r @ added"
      using rfc_equal_output by blast
    show ?thesis
    proof (cases "fit cap ?out = Some (Inr ?out)")
      case True
      then have "length (ascii_prefix @ r_output ?r) \<le> min cap 67" by (simp add: fit_def split: if_splits)
      moreover have "(machine ?r)\<lparr>pc_output := ?out\<rparr> = machine ?r" by (simp add: machine_def)
      ultimately show ?thesis unfolding step spec True using Cons.IH [of ?r] Cons.prems adapt(2) by simp
    next
      case False
      show ?thesis unfolding step spec added using fit_extends [OF False] by simp
    qed
  next
    case high
    then have "\<not> unat c < unat n" "unat c \<noteq> unat n" by (simp_all add: word_less_nat_alt word_unat_eq_iff)
    then show ?thesis using high Cons by (simp add: Let_def)
  qed
qed

section \<open>The loop over the values\<close>

lemma delta_of_small:
  assumes "x < 4294967296" "unat n \<le> unat m" "x + (unat m - unat n) * (h + 1) < 4294967296"
  shows "delta_of (of_nat x) m n h = of_nat (x + (unat m - unat n) * (h + 1))"
proof -
  have diff: "m - n = of_nat (unat m - unat n)" using assms(2) by (simp add: of_nat_diff)
  have lift: "(ucast (of_nat y :: u32) :: u64) = of_nat y" if "y < 4294967296" for y
    using that by (simp add: unsigned_of_nat take_bit_nat_eq_self)
  have "unat m - unat n < 4294967296" using unsigned_less [of m, where ?'a = nat] by simp
  then have "(ucast (of_nat x :: u32) :: u64) + ucast (m - n) * of_nat (h + 1) = of_nat (x + (unat m - unat n) * (h + 1))"
    unfolding diff using assms(1) by (simp only: lift of_nat_add of_nat_mult)
  then have "delta_of (of_nat x) m n h = ucast (of_nat (x + (unat m - unat n) * (h + 1)) :: u64)" unfolding delta_of_def by simp
  also have "\<dots> = of_nat (x + (unat m - unat n) * (h + 1))"
    using assms(3) by (simp add: unsigned_of_nat take_bit_nat_eq_self del: of_nat_add of_nat_mult)
  finally show ?thesis .
qed

definition later :: "u32 list \<Rightarrow> u32 \<Rightarrow> u32 set" where
  "later cps n = {c \<in> set cps. n \<le> c}"

lemma finite_later [simp]: "finite (later cps n)" by (simp add: later_def)

text \<open>The next value of the sorted array is the least code point that is left.\<close>

lemma later_Cons:
  assumes sorted: "sorted_list_of_set (later cps n) = m # ns" and bound: "unat m \<le> 0x10FFFF"
  shows "m \<in> set cps \<and> n \<le> m \<and> unat (m + 1) = unat m + 1 \<and> ns = sorted_list_of_set (later cps (m + 1))
    \<and> Min (set (filter (\<lambda>c. unat n \<le> c) (map unat cps))) = unat m
    \<and> filter (\<lambda>c. unat n \<le> c) (map unat cps) \<noteq> []
    \<and> length (filter (\<lambda>c. c < m + 1) cps) = length (filter (\<lambda>c. c < n) cps) + length (filter (\<lambda>c. c = unat m) (map unat cps))"
proof -
  have ne: "later cps n \<noteq> {}" using sorted by auto
  have "sorted_list_of_set (later cps n) = Min (later cps n) # sorted_list_of_set (later cps n - {Min (later cps n)})"
    using ne by (intro sorted_list_of_set_nonempty) simp_all
  then have m: "m = Min (later cps n)" and ns: "ns = sorted_list_of_set (later cps n - {m})" using sorted by auto
  have "m \<in> later cps n" unfolding m using ne by (intro Min_in) simp_all
  then have mem: "m \<in> set cps" "n \<le> m" by (simp_all add: later_def)
  have least: "m \<le> c" if "c \<in> set cps" "n \<le> c" for c unfolding m using that by (intro Min_le) (simp_all add: later_def)
  have next_value: "unat (m + 1) = unat m + 1" using bound by (simp add: unat_word_ariths)
  have "later cps n - {m} = later cps (m + 1)"
  proof -
    have "n \<le> c \<and> c \<noteq> m \<longleftrightarrow> m + 1 \<le> c" if "c \<in> set cps" for c
      using least [OF that] mem(2) next_value by (auto simp: word_le_nat_alt word_unat_eq_iff)
    then show ?thesis by (auto simp: later_def)
  qed
  moreover have "Min (set (filter (\<lambda>c. unat n \<le> c) (map unat cps))) = unat m"
  proof (rule Min_eqI)
    show "unat m \<in> set (filter (\<lambda>c. unat n \<le> c) (map unat cps))" using mem by (simp add: word_le_nat_alt)
    show "unat m \<le> y" if "y \<in> set (filter (\<lambda>c. unat n \<le> c) (map unat cps))" for y
      using that least by (auto simp: word_le_nat_alt)
  qed simp
  moreover have "filter (\<lambda>c. unat n \<le> c) (map unat cps) \<noteq> []"
    using mem by (auto simp: filter_empty_conv word_le_nat_alt)
  moreover have "length (filter (\<lambda>c. c < m + 1) xs) = length (filter (\<lambda>c. c < n) xs) + length (filter (\<lambda>c. c = unat m) (map unat xs))"
    if "set xs \<subseteq> set cps" for xs
    using that
  proof (induction xs)
    case (Cons c xs)
    have "c < m + 1 \<longleftrightarrow> c < n \<or> c = m" "\<not> (c < n \<and> c = m)"
      using least [of c] mem(2) next_value Cons.prems
      by (cases "unat n \<le> unat c"; auto simp: word_less_nat_alt word_le_nat_alt word_unat_eq_iff)+
    then show ?case using Cons by (auto simp: word_unat_eq_iff)
  qed simp
  ultimately show ?thesis using mem next_value ns by simp
qed

lemma early_assoc: "early (early m f) g = early m (\<lambda>x. early (f x) g)"
  by (simp add: early_def split: option.split sum.split)

lemma none_later: "sorted_list_of_set (later cps n) = [] \<longleftrightarrow> filter (\<lambda>c. unat n \<le> c) (map unat cps) = []"
  by (auto simp: later_def filter_empty_conv word_le_nat_alt)

lemma rfc_main_step:
  assumes "sorted_list_of_set (later cps n) = m # ns" "unat m \<le> 0x10FFFF"
  shows "rfc_main b (map unat cps) (unat n) r =
    (let r = rfc_equal b (unat m) (map unat cps) (r\<lparr>r_delta := r_delta r + (unat m - unat n) * (r_handled r + 1)\<rparr>)
     in rfc_main b (map unat cps) (unat (m + 1)) (r\<lparr>r_delta := r_delta r + 1\<rparr>))"
  using later_Cons [OF assms] by (subst rfc_main.simps) (simp add: Let_def)

lemma rfc_main_output: "\<exists>added. r_output (rfc_main b all n r) = r_output r @ added"
proof (induction b all n r rule: rfc_main.induct)
  case (1 b all n r)
  show ?case
  proof (cases "filter (\<lambda>c. n \<le> c) all = []")
    case True
    then show ?thesis by (subst rfc_main.simps) simp
  next
    case False
    let ?m = "Min (set (filter (\<lambda>c. n \<le> c) all))"
    obtain r' where r': "r' = rfc_equal b ?m all (r\<lparr>r_delta := r_delta r + (?m - n) * (r_handled r + 1)\<rparr>)" by blast
    obtain added where "r_output r' = r_output r @ added"
      using rfc_equal_output [of b ?m all "r\<lparr>r_delta := r_delta r + (?m - n) * (r_handled r + 1)\<rparr>"] r' by auto
    moreover obtain added' where "r_output (rfc_main b all (?m + 1) (r'\<lparr>r_delta := r_delta r' + 1\<rparr>)) = r_output r' @ added'"
      using 1 [OF refl False refl r'] by auto
    ultimately show ?thesis
      using False r' by (subst rfc_main.simps) (simp add: Let_def)
  qed
qed

lemma encode_all_result:
  assumes "list_all (\<lambda>c. unat c \<le> 0x10FFFF) cps" "length cps \<le> 62"
    and "unat n \<le> 0x110000" "r_delta r \<le> 63" "r_bias r \<le> 36 * 71000000"
    and "r_handled r = length (filter (\<lambda>c. c < n) cps)" "length (ascii_prefix @ r_output r) \<le> min cap 67"
  shows "encode_all cap b cps (sorted_list_of_set (later cps n) @ junk) n (machine r) =
    early (fit cap (ascii_prefix @ r_output (rfc_main b (map unat cps) (unat n) r)))
      (\<lambda>_. Some (Inr (machine (rfc_main b (map unat cps) (unat n) r))))"
  using assms
proof (induction "sorted_list_of_set (later cps n)" arbitrary: n r)
  case Nil
  then have none: "filter (\<lambda>c. unat n \<le> c) (map unat cps) = []" using none_later by metis
  then have "filter (\<lambda>c. c < n) cps = cps" by (auto simp: filter_empty_conv filter_id_conv word_less_nat_alt not_le)
  then have "r_handled r = length cps" using Nil.prems(6) by simp
  moreover have "rfc_main b (map unat cps) (unat n) r = r" using none by (subst rfc_main.simps) simp
  ultimately show ?case using Nil.prems(7) by (subst encode_all.simps) (simp add: machine_def fit_in)
next
  case (Cons m ns)
  note sorted = Cons.hyps(2) [symmetric]
  have "m \<in> later cps n" using sorted set_sorted_list_of_set [of "later cps n"] by (metis finite_later list.set_intros(1))
  then have bound: "unat m \<le> 0x10FFFF" using Cons.prems(1) by (simp add: later_def list_all_iff)
  note step = later_Cons [OF sorted bound]
  let ?x = "r_delta r + (unat m - unat n) * (r_handled r + 1)"
  let ?r1 = "r\<lparr>r_delta := ?x\<rparr>"
  let ?r2 = "rfc_equal b (unat m) (map unat cps) ?r1"
  let ?r3 = "?r2\<lparr>r_delta := r_delta ?r2 + 1\<rparr>"
  have "length (filter (\<lambda>c. c < n) cps) < length cps"
    using step by (intro length_filter_less [of m]) (auto simp: not_less)
  then have handled: "r_handled r < length cps" using Cons.prems(6) by simp
  have "(unat m - unat n) * (r_handled r + 1) \<le> 1114111 * 62"
    using bound handled Cons.prems(2) by (intro mult_le_mono) simp_all
  then have x: "?x + 62 \<le> 71000000" using Cons.prems(4) by linarith
  have delta: "delta_of (of_nat (r_delta r)) m n (r_handled r) = of_nat ?x"
    using x step Cons.prems(4) by (intro delta_of_small) (simp_all add: word_le_nat_alt)
  have facts: "r_handled ?r2 = r_handled r + length (filter (\<lambda>c. c = unat m) (map unat cps)) \<and> r_delta ?r2 \<le> 62 \<and> r_bias ?r2 \<le> 36 * 71000000"
    using rfc_equal_facts [of ?r1 "map unat cps" 71000000 b "unat m"] x step handled Cons.prems(2,5) by simp
  have inner: "encode_equal cap b m cps ((machine r)\<lparr>pc_delta := delta_of (pc_delta (machine r)) m n (pc_processed (machine r))\<rparr>) =
      early (fit cap (ascii_prefix @ r_output ?r2)) (\<lambda>_. Some (Inr (machine ?r2)))"
    using encode_equal_result [of ?r1 cap cps 71000000 b m] x Cons.prems(2,5,7) handled delta by (simp add: machine_def)
  have spec: "rfc_main b (map unat cps) (unat n) r = rfc_main b (map unat cps) (unat (m + 1)) ?r3"
    using rfc_main_step [OF sorted bound, of b r] by (simp add: Let_def)
  have mach: "(machine q)\<lparr>pc_delta := pc_delta (machine q) + 1\<rparr> = machine (q\<lparr>r_delta := r_delta q + 1\<rparr>)" for q
    by (simp add: machine_def add.commute)
  have processed: "pc_processed (machine r) < length cps" using handled by (simp add: machine_def)
  have unfolded: "encode_all cap b cps (sorted_list_of_set (later cps n) @ junk) n (machine r) =
      early (fit cap (ascii_prefix @ r_output ?r2)) (\<lambda>_. encode_all cap b cps (ns @ junk) (m + 1) (machine ?r3))"
    unfolding sorted using processed by (subst encode_all.simps) (simp only: append_Cons list.case if_True inner early_assoc early_simps mach)
  show ?case
  proof (cases "fit cap (ascii_prefix @ r_output ?r2) = Some (Inr (ascii_prefix @ r_output ?r2))")
    case True
    then have fits: "length (ascii_prefix @ r_output ?r3) \<le> min cap 67" by (simp add: fit_def split: if_splits)
    have "encode_all cap b cps (sorted_list_of_set (later cps (m + 1)) @ junk) (m + 1) (machine ?r3) =
        early (fit cap (ascii_prefix @ r_output (rfc_main b (map unat cps) (unat (m + 1)) ?r3)))
          (\<lambda>_. Some (Inr (machine (rfc_main b (map unat cps) (unat (m + 1)) ?r3))))"
      by (rule Cons.hyps(1)) (use step facts bound fits Cons.prems in simp_all)
    then show ?thesis unfolding unfolded spec True using step by simp
  next
    case False
    obtain added where added: "r_output (rfc_main b (map unat cps) (unat (m + 1)) ?r3) = r_output ?r3 @ added"
      using rfc_main_output by blast
    show ?thesis unfolding unfolded spec added using fit_extends [OF False] by simp
  qed
qed

end
