(* ===== verification/Punycode_Correct.thy ===== *)
theory Punycode_Correct
  imports Punycode_Encode "HOL-Library.Code_Target_Nat"
begin

text \<open>
  The properties of the conversion to punycode: what it returns for a label in UTF-8, and for one that
  ends inside of a character.
\<close>

lemma utf8_high: "list_all (\<lambda>b. b < 0x80) (fst (append_utf8 [] c)) \<longleftrightarrow> c < 0x80"
proof (cases "c < 0x80")
  case True
  then show ?thesis using ascii_unit [OF True] by (simp add: append_utf8_def not_le)
next
  case False
  then have "0x80 \<le> hd (fst (append_utf8 [] c))" by (auto simp: append_utf8_def high_u8 encoded_tags)
  then have "\<not> hd (fst (append_utf8 [] c)) < 0x80" by simp
  then show ?thesis using False append_utf8_not_empty [of c] by (auto simp: list_all_iff)
qed

lemma utf8_of_ascii: "is_all_ascii (utf8_of cps) \<longleftrightarrow> list_all (\<lambda>c. c < 0x80) cps"
  unfolding is_all_ascii_iff by (induction cps) (simp_all add: utf8_high)

lemma utf8_of_length: "length cps \<le> length (utf8_of cps)"
proof (induction cps)
  case (Cons c cps)
  moreover have "1 \<le> length (fst (append_utf8 [] c))" using append_utf8_not_empty [of c] by (simp add: Suc_le_eq)
  ultimately show ?case by simp
qed simp

lemma split_utf8_of:
  assumes "list_all is_code_point_valid cps" "length (utf8_of cps) \<le> 62" "4 \<le> cap"
  shows "split_input cap (utf8_of cps) 0 \<lparr>sp_output = ascii_prefix, sp_all = [], sp_non_basic = []\<rparr> =
    (let basic = filter (\<lambda>c. c < 0x80) cps in
     if 4 + length basic \<le> cap
     then Some (Inr \<lparr>sp_output = ascii_prefix @ map ucast basic, sp_all = cps, sp_non_basic = filter (\<lambda>c. \<not> c < 0x80) cps\<rparr>)
     else None)"
  using split_input_utf8 [OF assms(1), of "[]" "[]" "\<lparr>sp_output = ascii_prefix, sp_all = [], sp_non_basic = []\<rparr>" cap]
    assms utf8_of_length [of cps]
  by (simp add: ascii_prefix_def split_of_def buffer_size_def split_input.simps [of cap "utf8_of cps" "length (utf8_of cps)"])

lemma sorted_non_basic:
  "\<exists>junk. fst (sort_unique_values (filter (\<lambda>c. \<not> c < 0x80) cps)) = sorted_list_of_set (later cps 128) @ junk"
proof -
  have "set (filter (\<lambda>c. \<not> c < 0x80) cps) = later cps 128" by (auto simp: later_def not_less)
  then show ?thesis
    using sort_unique_values_result [of "filter (\<lambda>c. \<not> c < 0x80) cps"] by (metis append_take_drop_id)
qed

text \<open>C8: The label is converted to what RFC 3492 gives for its code points, after the prefix, when this fits in
  the buffer; the limit that the function checks is 67 bytes, so that a smaller buffer, such as the 63 bytes
  that its comment asks for, is left. A label of basic code points gets a hyphen and no prefix.\<close>

theorem utf8_to_punycode_is_rfc3492:
  assumes "list_all is_code_point_valid cps" and "length (utf8_of cps) \<le> 62"
  shows "utf8_to_punycode cap (utf8_of cps) =
    (let out = if list_all (\<lambda>c. c < 0x80) cps then utf8_of cps @ [hyphen] else ascii_prefix @ rfc_punycode cps in
     if length out \<le> min cap 67 then Some (int (length out), out) else if cap < 67 then None else Some (-1, []))"
proof (cases "list_all (\<lambda>c. c < 0x80) cps")
  case True
  then show ?thesis using assms by (auto simp: utf8_to_punycode_def utf8_of_ascii)
next
  case mixed: False
  let ?b = "length (filter (\<lambda>c. c < 0x80) cps)"
  let ?start = "rfc_start cps"
  obtain added where added: "rfc_punycode cps = r_output ?start @ added"
    using rfc_main_output unfolding rfc_punycode_def by blast
  have b: "?b \<le> 62" using utf8_of_length [of cps] assms(2) length_filter_le [of "\<lambda>c. c < 0x80" cps] by linarith
  have out: "r_output ?start = map ucast (filter (\<lambda>c. c < 0x80) cps) @ (if ?b > 0 then [hyphen] else [])"
    by (simp add: rfc_start_def Let_def)
  have not_ascii: "\<not> is_all_ascii (utf8_of cps)" using mixed by (simp add: utf8_of_ascii)
  show ?thesis
  proof (cases "length (ascii_prefix @ r_output ?start) \<le> cap")
    case False
    then have "length (ascii_prefix @ rfc_punycode cps) > cap" using added by simp
    moreover have "cap < 67" using False out b by (simp add: ascii_prefix_def split: if_splits)
    moreover have "utf8_to_punycode cap (utf8_of cps) = None"
      using False out assms not_ascii split_utf8_of [OF assms, of cap]
      by (auto simp: utf8_to_punycode_def Let_def ascii_prefix_def init_output_def put_def returned_def split: if_splits)
    ultimately show ?thesis using mixed by (simp add: Let_def)
  next
    case True
    then have cap: "4 \<le> cap" "4 + ?b \<le> cap" using out by (simp_all add: ascii_prefix_def)
    have hyphen: "(if ?b > 0 then put cap (ascii_prefix @ map ucast (filter (\<lambda>c. c < 0x80) cps)) hyphen
        else Some (ascii_prefix @ map ucast (filter (\<lambda>c. c < 0x80) cps))) = Some (ascii_prefix @ r_output ?start)"
      using True out by (auto simp: put_def ascii_prefix_def split: if_splits)
    have start: "\<lparr>pc_output = ascii_prefix @ r_output ?start, pc_delta = 0, pc_bias = 72, pc_processed = ?b\<rparr> = machine ?start"
      by (simp add: machine_def rfc_start_def Let_def)
    obtain junk where junk: "fst (sort_unique_values (filter (\<lambda>c. \<not> c < 0x80) cps)) = sorted_list_of_set (later cps 128) @ junk"
      using sorted_non_basic by blast
    have "list_all (\<lambda>c. unat c \<le> 0x10FFFF) cps"
      using assms(1) by (auto simp: list_all_iff valid_iff word_le_nat_alt)
    moreover have "length cps \<le> 62" using utf8_of_length [of cps] assms(2) by simp
    moreover have "length (ascii_prefix @ r_output ?start) \<le> min cap 67" using True out b by (simp add: ascii_prefix_def)
    ultimately have all: "encode_all cap ?b cps (sorted_list_of_set (later cps 128) @ junk) 128 (machine ?start) =
        early (fit cap (ascii_prefix @ rfc_punycode cps))
          (\<lambda>_. Some (Inr (machine (rfc_main ?b (map unat cps) 128 ?start))))"
      using encode_all_result [of cps 128 ?start cap ?b junk] by (simp add: rfc_punycode_def) (simp add: rfc_start_def Let_def)
    have "early (fit cap (ascii_prefix @ rfc_punycode cps)) (\<lambda>_. Some (Inr (pc_output (machine (rfc_main ?b (map unat cps) 128 ?start)))))
        = fit cap (ascii_prefix @ rfc_punycode cps)"
      by (simp add: fit_def machine_def rfc_punycode_def)
    then have result: "early (encode_all cap ?b cps (fst (sort_unique_values (filter (\<lambda>c. \<not> c < 0x80) cps))) 128 (machine ?start))
        (\<lambda>st. Some (Inr (pc_output st))) = fit cap (ascii_prefix @ rfc_punycode cps)"
      unfolding junk all early_assoc early_simps .
    have split: "split_input cap (utf8_of cps) 0 \<lparr>sp_output = ascii_prefix, sp_all = [], sp_non_basic = []\<rparr> =
        Some (Inr \<lparr>sp_output = ascii_prefix @ map ucast (filter (\<lambda>c. c < 0x80) cps), sp_all = cps,
          sp_non_basic = filter (\<lambda>c. \<not> c < 0x80) cps\<rparr>)"
      using split_utf8_of [OF assms cap(1)] cap(2) by (simp add: Let_def)
    have count: "length (ascii_prefix @ map ucast (filter (\<lambda>c. c < 0x80) cps)) - init_output = ?b"
      by (simp add: ascii_prefix_def init_output_def)
    have "\<not> cap < length ascii_prefix" "\<not> 62 < length (utf8_of cps)" using cap(1) assms(2) by (simp_all add: ascii_prefix_def)
    then have "utf8_to_punycode cap (utf8_of cps) = returned (fit cap (ascii_prefix @ rfc_punycode cps))"
      using not_ascii
      by (simp only: utf8_to_punycode_def split early_simps split_state.select_convs count Let_def hyphen option.case start result if_False)
    then show ?thesis using mixed by (auto simp: returned_def fit_def Let_def)
  qed
qed

theorem utf8_to_punycode_is_rfc3492_witness:
  "utf8_to_punycode 67 (utf8_of [0x6D, 0xFC, 0x6E]) = Some (10, [0x78, 0x6E, 0x2D, 0x2D, 0x6D, 0x6E, 0x2D, 0x78, 0x6B, 0x61])
   \<and> utf8_to_punycode 63 (utf8_of (replicate 56 0x61 @ [0xFC])) = None"
proof -
  have "rfc_punycode [0x6D, 0xFC, 0x6E] = [0x6D, 0x6E, 0x2D, 0x78, 0x6B, 0x61]" by code_simp
  moreover have "length (rfc_punycode (replicate 56 0x61 @ [0xFC])) = 60" by code_simp
  moreover have "list_all is_code_point_valid [0x6D, 0xFC, 0x6E]" "list_all is_code_point_valid (replicate 56 0x61 @ [0xFC])"
    by (simp_all add: list_all_iff valid_iff)
  moreover have "length (utf8_of [0x6D, 0xFC, 0x6E]) \<le> 62" "length (utf8_of (replicate 56 0x61 @ [0xFC])) \<le> 62"
    by (simp_all add: utf8_of_def append_utf8_def)
  ultimately show ?thesis
    using utf8_to_punycode_is_rfc3492 [of "[0x6D, 0xFC, 0x6E]" 67]
      utf8_to_punycode_is_rfc3492 [of "replicate 56 0x61 @ [0xFC]" 63]
    by (simp add: ascii_prefix_def Let_def)
qed

text \<open>C40: When the input ends inside of a character, its bytes are read past its end, because the number of bytes
  that are left is computed with the wrong sign. An input that is too long is an error.\<close>

theorem utf8_to_punycode_truncated:
  assumes "list_all is_code_point_valid (cps @ [c])" and "0 < k" and "k < length (fst (append_utf8 [] c))"
  shows "utf8_to_punycode cap (utf8_of cps @ take k (fst (append_utf8 [] c))) =
    (if length (utf8_of cps @ take k (fst (append_utf8 [] c))) \<le> 62 then None else Some (-1, []))"
proof (cases "length (utf8_of cps @ take k (fst (append_utf8 [] c))) \<le> 62")
  case False
  then show ?thesis by (simp add: utf8_to_punycode_def)
next
  case True
  let ?enc = "take k (fst (append_utf8 [] c))"
  let ?input = "utf8_of cps @ ?enc"
  let ?st = "\<lparr>sp_output = ascii_prefix, sp_all = [], sp_non_basic = []\<rparr>"
  have enc: "?enc \<noteq> []" "hd ?enc = hd (fst (append_utf8 [] c))" using assms(2) append_utf8_not_empty [of c] by simp_all
  have valid: "is_code_point_valid c" using assms(1) by simp
  note cut = decode_multibyte_truncated [OF valid assms(2,3) True]
  have "?input ! length (utf8_of cps) = hd (fst (append_utf8 [] c))" using enc by (metis hd_conv_nth nth_append_length_plus add_0_right)
  then have undefined: "split_input cap ?input (length (utf8_of cps)) st = None" for st
    using cut enc by (subst split_input.simps) (simp add: Let_def)
  have "\<not> list_all (\<lambda>b. b < 0x80) ?enc"
    using cut enc by (metis hd_in_set list_all_iff not_less)
  then have "\<not> is_all_ascii ?input" by (simp add: is_all_ascii_iff)
  moreover have "split_input cap ?input 0 ?st = None" if "length ascii_prefix \<le> cap"
    using split_input_utf8 [of cps "[]" ?enc ?st cap] undefined assms(1) True that utf8_of_length [of cps]
    by (simp add: buffer_size_def split: if_splits)
  ultimately show ?thesis using True by (auto simp: utf8_to_punycode_def returned_def)
qed

theorem utf8_to_punycode_truncated_witness:
  "utf8_to_punycode 67 [0x61, 0xC3] = None"
proof -
  have "list_all is_code_point_valid ([0x61] @ [0xFC])" by (simp add: valid_iff)
  moreover have "fst (append_utf8 [] 0xFC) = [0xC3, 0xBC]" "utf8_of [0x61] = [0x61]" by code_simp+
  ultimately show ?thesis using utf8_to_punycode_truncated [of "[0x61]" "0xFC" 1 67] by simp
qed

end
