(* ===== verification/Uri_Status.thy ===== *)
theory Uri_Status
  imports Ip_Status
begin

unbundle bit_operations_syntax

text \<open>
  \<^verbatim>\<open>webpp/uri/uri_status.hpp\<close>: the options of the URI parser, the status word that the
  parser keeps, with one value and any number of warnings, and the iterator over its parts.
\<close>

section \<open>The options\<close>

record uri_parsing_options =
  eof_is_valid :: bool
  parse_credentails :: bool
  empty_host_is_error :: bool
  parse_punycodes :: bool
  option_parse_port :: bool
  option_parse_queries :: bool
  option_parse_fragment :: bool
  allow_trailing_empty_ipv4_octet :: bool
  allow_multiple_trailing_empty_ipv4_octets :: bool
  allow_ipv4_hex_octets :: bool
  allow_ipv4_octal_octets :: bool
  allow_invalid_characters :: bool
  allow_file_hosts :: bool
  handle_windows_drive_letters :: bool
  ignore_tabs_or_newlines :: bool
  option_handle_dots_in_paths :: bool
  use_std3_ascii_rules :: bool
  verify_dns_length :: bool

definition standard_uri_parsing_options :: uri_parsing_options where
  "standard_uri_parsing_options =
     \<lparr>eof_is_valid = True, parse_credentails = True, empty_host_is_error = True, parse_punycodes = True,
      option_parse_port = True, option_parse_queries = True, option_parse_fragment = True,
      allow_trailing_empty_ipv4_octet = True, allow_multiple_trailing_empty_ipv4_octets = False,
      allow_ipv4_hex_octets = True, allow_ipv4_octal_octets = True, allow_invalid_characters = True,
      allow_file_hosts = True, handle_windows_drive_letters = True, ignore_tabs_or_newlines = True,
      option_handle_dots_in_paths = True, use_std3_ascii_rules = False, verify_dns_length = False\<rparr>"

definition strict_uri_parsing_options :: uri_parsing_options where
  "strict_uri_parsing_options =
     \<lparr>eof_is_valid = False, parse_credentails = True, empty_host_is_error = True, parse_punycodes = True,
      option_parse_port = True, option_parse_queries = True, option_parse_fragment = True,
      allow_trailing_empty_ipv4_octet = False, allow_multiple_trailing_empty_ipv4_octets = False,
      allow_ipv4_hex_octets = False, allow_ipv4_octal_octets = False, allow_invalid_characters = False,
      allow_file_hosts = False, handle_windows_drive_letters = False, ignore_tabs_or_newlines = False,
      option_handle_dots_in_paths = True, use_std3_ascii_rules = False, verify_dns_length = True\<rparr>"

definition loose_uri_parsing_options :: uri_parsing_options where
  "loose_uri_parsing_options =
     \<lparr>eof_is_valid = True, parse_credentails = True, empty_host_is_error = True, parse_punycodes = True,
      option_parse_port = True, option_parse_queries = True, option_parse_fragment = True,
      allow_trailing_empty_ipv4_octet = True, allow_multiple_trailing_empty_ipv4_octets = True,
      allow_ipv4_hex_octets = True, allow_ipv4_octal_octets = True, allow_invalid_characters = True,
      allow_file_hosts = True, handle_windows_drive_letters = True, ignore_tabs_or_newlines = True,
      option_handle_dots_in_paths = True, use_std3_ascii_rules = False, verify_dns_length = False\<rparr>"

section \<open>The status\<close>

definition valid_bit :: u32 where "valid_bit = 0"
definition error_bit :: u32 where "error_bit = push_bit 20 1"
definition warning_bit :: u32 where "warning_bit = drop_bit 1 error_bit"
definition values_mask :: u32 where "values_mask = 0b11111111 OR error_bit OR valid_bit"
definition warnings_mask :: u32 where "warnings_mask = NOT values_mask"

datatype uri_status =
    us_unparsed | us_valid | us_valid_punycode | us_invalid_character | us_too_long | us_empty_string |
    us_invalid_scheme_character | us_scheme_ended_unexpectedly | us_incompatible_schemes |
    us_missing_following_solidus | us_missing_scheme_non_relative_url | us_valid_path_or_authority |
    us_valid_authority | us_valid_file_host | us_valid_port | us_valid_authority_end |
    us_subdomain_too_long | us_dot_at_end | us_begin_with_hyphen | us_end_with_hyphen | us_double_hyphen
    | us_empty_subdomain | us_host_missing | us_invalid_host_code_point | us_invalid_domain_code_point |
    us_has_credentials | us_ipv4_trailing_empty_octet | us_ipv4_non_decimal_octet |
    us_ip_too_little_octets | us_ip_too_many_octets | us_ip_invalid_octet_range |
    us_ip_invalid_leading_zero | us_ip_bad_ending | us_ip_invalid_character | us_ip_invalid_colon_usage
    | us_ipv6_unclosed | us_ipv6_char_after_closing | us_port_out_of_range | us_port_invalid |
    us_valid_path | us_valid_opaque_path | us_reverse_solidus_used | us_windows_drive_letter_used |
    us_windows_drive_letter_in_ralative_url | us_windows_drive_letter_as_host | us_valid_queries |
    us_invalid_queries_character | us_valid_fragment

primrec status_code :: "uri_status \<Rightarrow> u32" where
  "status_code us_unparsed = 0"
| "status_code us_valid = valid_bit OR 1"
| "status_code us_valid_punycode = valid_bit OR 2"
| "status_code us_invalid_character = drop_bit 0 warning_bit"
| "status_code us_too_long = error_bit OR 1"
| "status_code us_empty_string = error_bit OR 2"
| "status_code us_invalid_scheme_character = error_bit OR 3"
| "status_code us_scheme_ended_unexpectedly = error_bit OR 4"
| "status_code us_incompatible_schemes = error_bit OR 5"
| "status_code us_missing_following_solidus = drop_bit 1 warning_bit"
| "status_code us_missing_scheme_non_relative_url = error_bit OR 6"
| "status_code us_valid_path_or_authority = valid_bit OR 3"
| "status_code us_valid_authority = valid_bit OR 4"
| "status_code us_valid_file_host = valid_bit OR 5"
| "status_code us_valid_port = valid_bit OR 6"
| "status_code us_valid_authority_end = valid_bit OR 7"
| "status_code us_subdomain_too_long = error_bit OR 7"
| "status_code us_dot_at_end = error_bit OR 8"
| "status_code us_begin_with_hyphen = error_bit OR 9"
| "status_code us_end_with_hyphen = error_bit OR 10"
| "status_code us_double_hyphen = error_bit OR 11"
| "status_code us_empty_subdomain = error_bit OR 12"
| "status_code us_host_missing = error_bit OR 13"
| "status_code us_invalid_host_code_point = error_bit OR 14"
| "status_code us_invalid_domain_code_point = error_bit OR 15"
| "status_code us_has_credentials = drop_bit 2 warning_bit"
| "status_code us_ipv4_trailing_empty_octet = drop_bit 3 warning_bit"
| "status_code us_ipv4_non_decimal_octet = drop_bit 4 warning_bit"
| "status_code us_ip_too_little_octets = error_bit OR ucast (ip_address_status_code ip_too_little_octets)"
| "status_code us_ip_too_many_octets = error_bit OR ucast (ip_address_status_code ip_too_many_octets)"
| "status_code us_ip_invalid_octet_range = error_bit OR ucast (ip_address_status_code ip_invalid_octet_range)"
| "status_code us_ip_invalid_leading_zero = error_bit OR ucast (ip_address_status_code ip_invalid_leading_zero)"
| "status_code us_ip_bad_ending = error_bit OR ucast (ip_address_status_code ip_bad_ending)"
| "status_code us_ip_invalid_character = error_bit OR ucast (ip_address_status_code ip_invalid_character)"
| "status_code us_ip_invalid_colon_usage = error_bit OR ucast (ip_address_status_code ip_invalid_colon_usage)"
| "status_code us_ipv6_unclosed = error_bit OR 16"
| "status_code us_ipv6_char_after_closing = error_bit OR 17"
| "status_code us_port_out_of_range = error_bit OR 18"
| "status_code us_port_invalid = error_bit OR 19"
| "status_code us_valid_path = valid_bit OR 8"
| "status_code us_valid_opaque_path = valid_bit OR 9"
| "status_code us_reverse_solidus_used = drop_bit 5 warning_bit"
| "status_code us_windows_drive_letter_used = drop_bit 6 warning_bit"
| "status_code us_windows_drive_letter_in_ralative_url = drop_bit 7 warning_bit"
| "status_code us_windows_drive_letter_as_host = drop_bit 8 warning_bit"
| "status_code us_valid_queries = valid_bit OR 10"
| "status_code us_invalid_queries_character = error_bit OR 20"
| "status_code us_valid_fragment = valid_bit OR 11"

primrec uri_status_to_string :: "uri_status \<Rightarrow> string" where
  "uri_status_to_string us_unparsed =
      ''The URI is not parsed.''"
| "uri_status_to_string us_valid =
      ''Valid URI''"
| "uri_status_to_string us_valid_punycode =
      ''Valid URI with unicode domain name which contains punycode''"
| "uri_status_to_string us_invalid_character =
      ''Found an invalid character in the URI; more info: ''
      @ ''https://url.spec.whatwg.org/#invalid-url-unit''"
| "uri_status_to_string us_too_long =
      ''The URI is too long, max allowed character is 255''"
| "uri_status_to_string us_empty_string =
      ''The URI is empty.''"
| "uri_status_to_string us_valid_path_or_authority =
      ''Valid scheme that should be followed by a path or an authority.''"
| "uri_status_to_string us_valid_authority =
      ''Valid scheme that should be followed by an authority (a host optionally with username ''
      @ ''and password or port).''"
| "uri_status_to_string us_valid_file_host =
      ''Valid URI until host, scheme is 'file:'; parsing is not done yet.''"
| "uri_status_to_string us_valid_port =
      ''Valid URI until port, there's a port but parsing is not done yet.''"
| "uri_status_to_string us_valid_authority_end =
      ''Valid URI until the authority ends (meaning the next part of the URI should be a path, ''
      @ ''query, fragment, or a combination of them); parsing is not done yet.''"
| "uri_status_to_string us_invalid_scheme_character =
      ''Invlaid character found in the scheme of the URI.''"
| "uri_status_to_string us_scheme_ended_unexpectedly =
      ''This URI doesn't seem to have enough information, not even a qualified scheme.''"
| "uri_status_to_string us_incompatible_schemes =
      ''The new URI Scheme is not compatible with the old one; can't merge them.''"
| "uri_status_to_string us_missing_following_solidus =
      ''The URI's scheme is not followed by \"//\"; more information: ''
      @ ''https://url.spec.whatwg.org/#special-scheme-missing-following-solidus''"
| "uri_status_to_string us_missing_scheme_non_relative_url =
      ''The URI is missing scheme, and nothing was provided by the base URI; more info: ''
      @ ''https://url.spec.whatwg.org/#missing-scheme-non-relative-url''"
| "uri_status_to_string us_subdomain_too_long =
      ''The subdomain is too long, max allowed character in a sub-domain is 63''"
| "uri_status_to_string us_dot_at_end =
      ''The domain ended unexpectedly; domains cannot have a dot at the end (this is not a dns ''
      @ ''record)''"
| "uri_status_to_string us_begin_with_hyphen =
      ''The domain cannot start with hyphens''"
| "uri_status_to_string us_end_with_hyphen =
      ''The domain cannot end with hyphens''"
| "uri_status_to_string us_double_hyphen =
      ''The domain cannot have double hyphens unless it's a punycode''"
| "uri_status_to_string us_empty_subdomain =
      ''A domain/sub-domain cannot be empty (no double dotting)''"
| "uri_status_to_string us_host_missing =
      ''Based on the URI's scheme, this URL must have a host; more info: ''
      @ ''https://url.spec.whatwg.org/#host-missing''"
| "uri_status_to_string us_invalid_host_code_point =
      ''Invalid character found in the opaque host (opaque means that URI is not ftp, http, ''
      @ ''https, ws, or wss); more info: https://url.spec.whatwg.org/#host-invalid-code-point''"
| "uri_status_to_string us_invalid_domain_code_point =
      ''Invalid character found in the domain name (domain name is not host; 'domain' is only ''
      @ ''applied to ftp, http, https, ws, or wss protocols); more info: ''
      @ ''https://url.spec.whatwg.org/#domain-invalid-code-point''"
| "uri_status_to_string us_has_credentials =
      ''The input has credentials (username or password), it is a deprecated feature of URIs; ''
      @ ''more info: https://url.spec.whatwg.org/#invalid-credentials and ''
      @ ''https://httpwg.org/specs/rfc9110.html#http.userinfo''"
| "uri_status_to_string us_ipv4_trailing_empty_octet =
      ''IPv4 in the host has empty octet(s); more info: ''
      @ ''https://url.spec.whatwg.org/#ipv4-empty-part''"
| "uri_status_to_string us_ipv4_non_decimal_octet =
      ''The input has non-decimal IPv4 in it's host; more info: ''
      @ ''https://url.spec.whatwg.org/#ipv4-non-decimal-part''"
| "uri_status_to_string us_ip_too_little_octets =
      ''Host's IP address doesn't have enough octets (4 octets for IPv4, and 8 parts for ''
      @ ''uncompressed IPv6); more info at https://url.spec.whatwg.org/#ipv6-too-few-pieces''"
| "uri_status_to_string us_ip_too_many_octets =
      ''Host's IP address has too many octets (4 octets for IPv4, and 8 parts for uncompressed ''
      @ ''IPv6); more info at https://url.spec.whatwg.org/#ipv6-too-many-pieces and ''
      @ ''https://url.spec.whatwg.org/#ipv6-too-many-pieces and ''
      @ ''https://url.spec.whatwg.org/#ipv4-in-ipv6-too-many-pieces ''
      @ ''andhttps://url.spec.whatwg.org/#ipv4-too-many-parts''"
| "uri_status_to_string us_ip_invalid_octet_range =
      ''Out of range IP address octet found; more info at ''
      @ ''https://url.spec.whatwg.org/#ipv4-out-of-range-part and ''
      @ ''https://url.spec.whatwg.org/#ipv4-in-ipv6-out-of-range-part''"
| "uri_status_to_string us_ip_invalid_leading_zero =
      ''Host's IPv4's octet starts with a leading zero''"
| "uri_status_to_string us_ip_bad_ending =
      ''Host's IP address ended unexpectedly.''"
| "uri_status_to_string us_ip_invalid_character =
      ''Host's IP address has an invalid character''"
| "uri_status_to_string us_ip_invalid_colon_usage =
      ''The host's IPv6 address is using a colon where it shouldn't''"
| "uri_status_to_string us_ipv6_unclosed =
      ''IPv6 is missing the closing character ']'; more info: ''
      @ ''https://url.spec.whatwg.org/#ipv6-unclosed''"
| "uri_status_to_string us_ipv6_char_after_closing =
      ''Invalid character found after closing (the ']' character) an IPv6 host.''"
| "uri_status_to_string us_port_out_of_range =
      ''Port number is too big; more info: https://url.spec.whatwg.org/#port-out-of-range''"
| "uri_status_to_string us_port_invalid =
      ''Invalid characters used in port; more info: https://url.spec.whatwg.org/#port-invalid''"
| "uri_status_to_string us_valid_path =
      ''Valid URI until path; parsing is not done yet.''"
| "uri_status_to_string us_valid_opaque_path =
      ''Valid URI until opaque path; parsing is not done yet.''"
| "uri_status_to_string us_reverse_solidus_used =
      ''The URI is using backslash instead of a forward slash; more info: ''
      @ ''https://url.spec.whatwg.org/#invalid-reverse-solidus''"
| "uri_status_to_string us_windows_drive_letter_used =
      ''Windows Drive Letters is being used inside the 'file:' scheme.''"
| "uri_status_to_string us_windows_drive_letter_in_ralative_url =
      ''The URI is relative, starts with Windows Drive Letter, and the base URI's scheme is 'file:'; ''
      @ ''more info: https://url.spec.whatwg.org/#file-invalid-windows-drive-letter''"
| "uri_status_to_string us_windows_drive_letter_as_host =
      ''A 'file:' URI cannot have a Windows Drive Letter as a host; more info: ''
      @ ''https://url.spec.whatwg.org/#file-invalid-windows-drive-letter-host''"
| "uri_status_to_string us_valid_queries =
      ''Valid URI until queries, parsing is not done yet.''"
| "uri_status_to_string us_invalid_queries_character =
      ''Invalid character found in queries.''"
| "uri_status_to_string us_valid_fragment =
      ''Valid URI until fragment, parsing is not done yet.''"

definition uri_is_valid :: "u32 \<Rightarrow> bool" where
  "uri_is_valid status \<longleftrightarrow> error_bit AND status = 0"

definition has_warnings :: "u32 \<Rightarrow> bool" where
  "has_warnings status \<longleftrightarrow> status AND warnings_mask \<noteq> 0"

definition has_warning :: "u32 \<Rightarrow> u32 \<Rightarrow> bool" where
  "has_warning status warning \<longleftrightarrow> status AND warning = warning"

definition has_error :: "u32 \<Rightarrow> bool" where
  "has_error status \<longleftrightarrow> error_bit AND status = error_bit"

definition get_value :: "u32 \<Rightarrow> u32" where
  "get_value status = status AND values_mask"

definition has_error_of :: "u32 \<Rightarrow> uri_status \<Rightarrow> bool" where
  "has_error_of status expected_err \<longleftrightarrow> get_value status = status_code expected_err"

definition set_valid :: "u32 \<Rightarrow> uri_status \<Rightarrow> u32" where
  "set_valid status value = (status AND NOT values_mask) OR status_code value"

definition set_error :: "u32 \<Rightarrow> uri_status \<Rightarrow> u32" where
  "set_error status value = status_code value"

definition set_warning :: "u32 \<Rightarrow> uri_status \<Rightarrow> u32" where
  "set_warning status value = status OR status_code value"

definition bit_floor :: "u32 \<Rightarrow> u32" where
  "bit_floor x = (case find (bit x) (rev [0..<32]) of None \<Rightarrow> 0 | Some n \<Rightarrow> push_bit n 1)"

definition get_warning :: "u32 \<Rightarrow> u32" where
  "get_warning status = bit_floor (warnings_mask AND status)"

section \<open>The iterator\<close>

record uri_status_iterator =
  si_status :: u32
  si_current :: u32

definition status_iterator :: "u32 \<Rightarrow> uri_status_iterator" where
  "status_iterator inp_status = \<lparr>si_status = inp_status, si_current = get_warning inp_status\<rparr>"

definition status_iterator_end :: uri_status_iterator where
  "status_iterator_end = \<lparr>si_status = 0, si_current = status_code us_unparsed\<rparr>"

definition status_iterator_next :: "uri_status_iterator \<Rightarrow> uri_status_iterator" where
  "status_iterator_next it =
     (if has_warnings (si_status it) then
        let left_most_warning_bit = bit_floor (warnings_mask AND si_status it);
            status = si_status it AND NOT left_most_warning_bit
        in \<lparr>si_status = status, si_current = (if has_warnings status then get_warning status else status)\<rparr>
      else \<lparr>si_status = 0, si_current = 0\<rparr>)"

definition status_iterator_eq :: "uri_status_iterator \<Rightarrow> uri_status_iterator \<Rightarrow> bool" where
  "status_iterator_eq lhs rhs \<longleftrightarrow> si_status lhs = si_status rhs"

end
