(* ===== verification/Ascii_Case.thy ===== *)
theory Ascii_Case
  imports Webpp_Prelude
begin

text \<open>
  \<^verbatim>\<open>webpp/strings/to_case.hpp\<close> and \<^verbatim>\<open>webpp/strings/iequals.hpp\<close>, without the
  optional vector library: the case of ASCII characters and texts, and comparisons that ignore it. The caller
  tells with a template argument which of the texts is known to be in lower or in upper case.
\<close>

section \<open>The case of a character\<close>

definition to_upper_copy :: "char \<Rightarrow> char" where
  "to_upper_copy inp_char =
     (if 0x61 \<le> ord inp_char \<and> ord inp_char \<le> 0x7A then char_of (ord inp_char - 0x20) else inp_char)"

definition to_lower_copy :: "char \<Rightarrow> char" where
  "to_lower_copy inp_char =
     (if 0x41 \<le> ord inp_char \<and> ord inp_char \<le> 0x5A then char_of (ord inp_char + 0x20) else inp_char)"

text \<open>In place, up to an end.\<close>

fun simple_to_lower :: "string \<Rightarrow> string" where
  "simple_to_lower [] = []"
| "simple_to_lower (c # start) = to_lower_copy c # simple_to_lower start"

fun simple_to_upper :: "string \<Rightarrow> string" where
  "simple_to_upper [] = []"
| "simple_to_upper (c # start) = to_upper_copy c # simple_to_upper start"

text \<open>In place, up to a NUL; without one the text is left.\<close>

fun to_lower_nul :: "string \<Rightarrow> string option" where
  "to_lower_nul [] = None"
| "to_lower_nul (c # pos) = (if c = CHR 0x00 then Some (c # pos) else map_option (Cons (to_lower_copy c)) (to_lower_nul pos))"

fun to_upper_nul :: "string \<Rightarrow> string option" where
  "to_upper_nul [] = None"
| "to_upper_nul (c # pos) = (if c = CHR 0x00 then Some (c # pos) else map_option (Cons (to_upper_copy c)) (to_upper_nul pos))"

text \<open>From one array to another.\<close>

fun lower_to_array :: "string \<Rightarrow> string \<Rightarrow> nat \<Rightarrow> nat \<Rightarrow> string option" where
  "lower_to_array inp arr out 0 = Some arr"
| "lower_to_array inp arr out (Suc n) =
     Option.bind (load inp 0) (\<lambda>c. Option.bind (store arr out (to_lower_copy c)) (\<lambda>arr. lower_to_array (tl inp) arr (Suc out) n))"

fun upper_to_array :: "string \<Rightarrow> string \<Rightarrow> nat \<Rightarrow> nat \<Rightarrow> string option" where
  "upper_to_array inp arr out 0 = Some arr"
| "upper_to_array inp arr out (Suc n) =
     Option.bind (load inp 0) (\<lambda>c. Option.bind (store arr out (to_upper_copy c)) (\<lambda>arr. upper_to_array (tl inp) arr (Suc out) n))"

definition lower_to :: "string \<Rightarrow> string option" where
  "lower_to inp = lower_to_array inp (replicate (length inp) (CHR 0x00)) 0 (length inp)"

definition upper_to :: "string \<Rightarrow> string option" where
  "upper_to inp = upper_to_array inp (replicate (length inp) (CHR 0x00)) 0 (length inp)"

definition ends_with_char :: "string \<Rightarrow> char \<Rightarrow> bool" where
  "ends_with_char str inp_char \<longleftrightarrow> str \<noteq> [] \<and> last str = inp_char"

section \<open>Comparisons\<close>

datatype char_case = lowered | uppered | unknown

datatype char_case_side =
    first_lowered | second_lowered | both_lowered | first_uppered | second_uppered | both_uppered | both_unknown

fun char_case_to_side :: "char_case \<Rightarrow> char_case_side" where
  "char_case_to_side lowered = both_lowered"
| "char_case_to_side uppered = both_uppered"
| "char_case_to_side unknown = both_unknown"

fun char_cases_to_side :: "char_case \<Rightarrow> char_case \<Rightarrow> char_case_side" where
  "char_cases_to_side lowered inp_case_b = (case inp_case_b of lowered \<Rightarrow> both_lowered | _ \<Rightarrow> first_lowered)"
| "char_cases_to_side uppered inp_case_b = (case inp_case_b of uppered \<Rightarrow> both_uppered | _ \<Rightarrow> first_uppered)"
| "char_cases_to_side unknown inp_case_b =
     (case inp_case_b of lowered \<Rightarrow> second_lowered | uppered \<Rightarrow> second_uppered | unknown \<Rightarrow> both_unknown)"

fun iequals_char :: "char_case_side \<Rightarrow> char \<Rightarrow> char \<Rightarrow> bool" where
  "iequals_char both_lowered lhs rhs \<longleftrightarrow> lhs = rhs"
| "iequals_char both_uppered lhs rhs \<longleftrightarrow> lhs = rhs"
| "iequals_char first_lowered lhs rhs \<longleftrightarrow> lhs = rhs \<or> lhs = to_lower_copy rhs"
| "iequals_char first_uppered lhs rhs \<longleftrightarrow> lhs = rhs \<or> lhs = to_upper_copy rhs"
| "iequals_char second_lowered lhs rhs \<longleftrightarrow> lhs = rhs \<or> to_lower_copy lhs = rhs"
| "iequals_char second_uppered lhs rhs \<longleftrightarrow> lhs = rhs \<or> to_upper_copy lhs = rhs"
| "iequals_char both_unknown lhs rhs \<longleftrightarrow> (if lhs = rhs then True else to_lower_copy lhs = to_lower_copy rhs)"

definition iequals_str_char :: "char_case_side \<Rightarrow> string \<Rightarrow> char \<Rightarrow> bool" where
  "iequals_str_char side lhs rhs \<longleftrightarrow> (if length lhs \<noteq> 1 then False else iequals_char side (lhs ! 0) rhs)"

fun iequals_loop :: "char_case_side \<Rightarrow> string \<Rightarrow> string \<Rightarrow> bool" where
  "iequals_loop side (c1 # it1) (c2 # it2) \<longleftrightarrow>
     (if c1 \<noteq> c2 \<and>
         (case side of
            first_lowered \<Rightarrow> c1 \<noteq> to_lower_copy c2
          | second_lowered \<Rightarrow> to_lower_copy c1 \<noteq> c2
          | first_uppered \<Rightarrow> c1 \<noteq> to_upper_copy c2
          | second_uppered \<Rightarrow> to_upper_copy c1 = c2
          | _ \<Rightarrow> to_lower_copy c1 \<noteq> to_lower_copy c2)
      then False else iequals_loop side it1 it2)"
| "iequals_loop side _ _ \<longleftrightarrow> True"

definition iequals :: "char_case_side \<Rightarrow> string \<Rightarrow> string \<Rightarrow> bool" where
  "iequals side str1 str2 \<longleftrightarrow>
     (if length str1 \<noteq> length str2 then False
      else if side = both_lowered \<or> side = both_uppered then str1 = str2
      else iequals_loop side str1 str2)"

section \<open>Facts on the case\<close>

lemma ord_lower [simp]: "ord (to_lower_copy c) = (if 0x41 \<le> ord c \<and> ord c \<le> 0x5A then ord c + 0x20 else ord c)"
  by (simp add: to_lower_copy_def)

lemma ord_upper [simp]: "ord (to_upper_copy c) = (if 0x61 \<le> ord c \<and> ord c \<le> 0x7A then ord c - 0x20 else ord c)"
proof -
  have "ord c - 0x20 < 256" using ord_less_256 [of c] by linarith
  then show ?thesis by (simp add: to_upper_copy_def)
qed

lemma case_idempotent [simp]:
  "to_lower_copy (to_lower_copy c) = to_lower_copy c" "to_upper_copy (to_upper_copy c) = to_upper_copy c"
  "to_lower_copy (to_upper_copy c) = to_lower_copy c" "to_upper_copy (to_lower_copy c) = to_upper_copy c"
  by (auto simp: char_eq_ord_iff)

lemma same_case: "to_lower_copy a = to_lower_copy b \<longleftrightarrow> to_upper_copy a = to_upper_copy b"
  by (metis case_idempotent(3,4))

lemma simple_case_map: "simple_to_lower s = map to_lower_copy s" "simple_to_upper s = map to_upper_copy s"
  by (induction s) simp_all

lemma case_nul: "to_lower_copy c = CHR 0x00 \<longleftrightarrow> c = CHR 0x00" "to_upper_copy c = CHR 0x00 \<longleftrightarrow> c = CHR 0x00"
  by (auto simp: char_eq_ord_iff split: if_splits)

lemma to_lower_nul_result:
  "CHR 0x00 \<notin> set s \<Longrightarrow> to_lower_nul (s @ CHR 0x00 # rest) = Some (map to_lower_copy s @ CHR 0x00 # rest)"
  by (induction s) auto

lemma lower_to_array_result:
  "length arr = out + length inp \<Longrightarrow>
     lower_to_array inp arr out (length inp) = Some (take out arr @ map to_lower_copy inp)"
proof (induction inp arbitrary: arr out)
  case (Cons c inp)
  then show ?case using Cons.IH [of "arr[out := to_lower_copy c]" "Suc out"] by (simp add: take_list_update_Suc)
qed simp

lemma lower_to_result: "lower_to s = Some (map to_lower_copy s)"
  unfolding lower_to_def by (subst lower_to_array_result) simp_all

text \<open>A comparison of texts compares their characters; with \<open>second_uppered\<close> the test is inverted,
  so that two characters count as equal unless they are the same up to the case and not the same.\<close>

lemma iequals_loop_pairs:
  "length s = length t \<Longrightarrow> side \<noteq> both_lowered \<Longrightarrow> side \<noteq> both_uppered \<Longrightarrow>
     iequals_loop side s t =
       list_all2 (\<lambda>a b. if side = second_uppered then a = b \<or> to_upper_copy a \<noteq> b else iequals_char side a b) s t"
  by (induction s t rule: list_induct2) (auto split: char_case_side.splits)

theorem iequals_result:
  "iequals side s t \<longleftrightarrow>
     list_all2 (\<lambda>a b. if side = second_uppered then a = b \<or> to_upper_copy a \<noteq> b else iequals_char side a b) s t"
proof (cases "length s = length t")
  case True
  show ?thesis
  proof (cases "side = both_lowered \<or> side = both_uppered")
    case True
    then show ?thesis by (auto simp: iequals_def list.rel_eq)
  next
    case False
    then show ?thesis using True iequals_loop_pairs [of s t side] by (simp add: iequals_def)
  qed
next
  case False
  then show ?thesis by (auto simp: iequals_def dest: list_all2_lengthD)
qed

text \<open>With a text that is in the case that is announced, the comparison ignores the case.\<close>

lemma map_eq_pairs: "map f s = map g t \<longleftrightarrow> list_all2 (\<lambda>a b. f a = g b) s t"
  by (simp add: list.rel_eq [symmetric] list_all2_map1 list_all2_map2)

lemma map_same: "map f s = s \<Longrightarrow> a \<in> set s \<Longrightarrow> f a = a"
  by (metis map_eq_conv map_ident)

lemma pairs_cong:
  "(\<And>a b. a \<in> set s \<Longrightarrow> b \<in> set t \<Longrightarrow> P a b \<longleftrightarrow> Q a b) \<Longrightarrow> list_all2 P s t \<longleftrightarrow> list_all2 Q s t"
  by (rule list.rel_cong) auto

lemma iequals_unknown: "iequals both_unknown s t \<longleftrightarrow> map to_lower_copy s = map to_lower_copy t"
  unfolding iequals_result map_eq_pairs by (rule pairs_cong) auto

lemma iequals_first_lowered:
  assumes "map to_lower_copy s = s"
  shows "iequals first_lowered s t \<longleftrightarrow> map to_lower_copy s = map to_lower_copy t"
  unfolding iequals_result map_eq_pairs
proof (rule pairs_cong)
  fix a b assume "a \<in> set s"
  then have "to_lower_copy a = a" by (rule map_same [OF assms])
  then show "(if first_lowered = second_uppered then a = b \<or> to_upper_copy a \<noteq> b else iequals_char first_lowered a b) \<longleftrightarrow>
    to_lower_copy a = to_lower_copy b" by auto
qed

lemma iequals_first_uppered:
  assumes "map to_upper_copy s = s"
  shows "iequals first_uppered s t \<longleftrightarrow> map to_lower_copy s = map to_lower_copy t"
  unfolding iequals_result map_eq_pairs
proof (rule pairs_cong)
  fix a b assume "a \<in> set s"
  then have "to_upper_copy a = a" by (rule map_same [OF assms])
  then show "(if first_uppered = second_uppered then a = b \<or> to_upper_copy a \<noteq> b else iequals_char first_uppered a b) \<longleftrightarrow>
    to_lower_copy a = to_lower_copy b" using same_case [of a b] by auto
qed

lemma iequals_su_inverted: "iequals second_uppered ''a'' ''A'' = False" "iequals second_uppered ''a'' ''b'' = True"
  by code_simp+

end
