(* ===== verification/Special_Schemes.thy ===== *)
theory Special_Schemes
  imports Ascii_Case Uri_Charsets
begin

unbundle bit_operations_syntax

text \<open>
  \<^verbatim>\<open>webpp/uri/details/iiequals.hpp\<close> and \<^verbatim>\<open>webpp/uri/details/special_schemes.hpp\<close>: comparisons
  that ignore some characters, and the schemes with a known port. The port is found by the code of a
  scheme, a number of 64 bits that holds its last seven characters.
\<close>

section \<open>Comparisons that ignore characters\<close>

fun iiequals_loop :: "charset \<Rightarrow> char_case_side \<Rightarrow> string \<Rightarrow> string \<Rightarrow> bool" where
  "iiequals_loop ignored side [] rhs_it \<longleftrightarrow> list_all (charset_contains ignored) rhs_it"
| "iiequals_loop ignored side (l # lhs_it) [] \<longleftrightarrow> list_all (charset_contains ignored) (l # lhs_it)"
| "iiequals_loop ignored side (l # lhs_it) (r # rhs_it) \<longleftrightarrow>
     (if iequals_char side l r then iiequals_loop ignored side lhs_it rhs_it
      else if charset_contains ignored l then iiequals_loop ignored side lhs_it (r # rhs_it)
      else if charset_contains ignored r then iiequals_loop ignored side (l # lhs_it) rhs_it
      else False)"

definition iiequals :: "charset \<Rightarrow> char_case_side \<Rightarrow> string \<Rightarrow> string \<Rightarrow> bool" where
  "iiequals ignored side inp_lhs inp_rhs \<longleftrightarrow>
     (if ignored = [] then iequals side inp_lhs inp_rhs else iiequals_loop ignored side inp_lhs inp_rhs)"

definition iiequals_fl :: "charset \<Rightarrow> string \<Rightarrow> string \<Rightarrow> bool" where
  "iiequals_fl ignored lhs rhs = iiequals ignored first_lowered lhs rhs"

section \<open>Schemes\<close>

definition one_byte :: nat where "one_byte = 8"

fun encoded_scheme_loop :: "string \<Rightarrow> u64 \<Rightarrow> u64" where
  "encoded_scheme_loop [] scheme_code = scheme_code"
| "encoded_scheme_loop (c # str) scheme_code =
     encoded_scheme_loop str (push_bit one_byte (scheme_code OR of_nat (ord c)))"

definition encoded_scheme :: "string \<Rightarrow> u64" where
  "encoded_scheme str = encoded_scheme_loop str 0"

datatype scheme_type = not_special | special_scheme | file_scheme_type

definition is_file_scheme :: "string \<Rightarrow> bool" where
  "is_file_scheme scheme = iiequals_fl TABS_OR_NEWLINES ''file'' scheme"

definition is_file_scheme_type :: "scheme_type \<Rightarrow> bool" where
  "is_file_scheme_type scheme \<longleftrightarrow> scheme = file_scheme_type"

definition add_to_code :: "bool \<Rightarrow> u64 \<Rightarrow> char \<Rightarrow> u64" where
  "add_to_code sg scheme_code c = push_bit one_byte (scheme_code OR word_of_int (char_int sg (to_lower_copy c)))"

fun known_port_loop :: "bool \<Rightarrow> bool \<Rightarrow> string \<Rightarrow> u64 \<Rightarrow> u64" where
  "known_port_loop sg check [] scheme_code = scheme_code"
| "known_port_loop sg check (ith_char # scheme) scheme_code =
     (if check \<and> ith_char \<in> {CHR 0x0D, CHR 0x0A, CHR 0x09} then known_port_loop sg check scheme scheme_code
      else known_port_loop sg check scheme (add_to_code sg scheme_code ith_char))"

definition known_port :: "bool \<Rightarrow> bool \<Rightarrow> string \<Rightarrow> u16" where
  "known_port sg check scheme =
     (let scheme_code = known_port_loop sg check scheme 0 in
      if scheme_code = encoded_scheme ''http'' \<or> scheme_code = encoded_scheme ''ws'' then 80
      else if scheme_code = encoded_scheme ''https'' \<or> scheme_code = encoded_scheme ''wss'' then 443
      else if scheme_code = encoded_scheme ''ftp'' then 21
      else 0)"

definition is_special_scheme :: "bool \<Rightarrow> string \<Rightarrow> bool" where
  "is_special_scheme sg scheme \<longleftrightarrow> known_port sg True scheme \<noteq> 0 \<or> is_file_scheme scheme"

definition is_special_scheme_type :: "scheme_type \<Rightarrow> bool" where
  "is_special_scheme_type scheme \<longleftrightarrow> scheme \<noteq> not_special"

section \<open>What the comparison ignores\<close>

abbreviation kept :: "string \<Rightarrow> string" where
  "kept s \<equiv> filter (\<lambda>c. c \<notin> set TABS_OR_NEWLINES) s"

lemma tabs_lower: "to_lower_copy c \<in> set TABS_OR_NEWLINES \<longleftrightarrow> c \<in> set TABS_OR_NEWLINES"
  by (auto simp: TABS_OR_NEWLINES_def char_eq_ord_iff split: if_splits)

lemma tabs_same:
  "iequals_char first_lowered l r \<Longrightarrow> l \<in> set TABS_OR_NEWLINES \<longleftrightarrow> r \<in> set TABS_OR_NEWLINES"
  using tabs_lower [of r] by auto

lemma iiequals_loop_result:
  "iiequals_loop TABS_OR_NEWLINES first_lowered s t \<longleftrightarrow> list_all2 (iequals_char first_lowered) (kept s) (kept t)"
proof (induction TABS_OR_NEWLINES first_lowered s t rule: iiequals_loop.induct)
  case (1 t)
  then show ?case by (auto simp: list_all_iff filter_empty_conv list_all2_Nil)
next
  case (2 l s)
  then show ?case by (auto simp: list_all_iff filter_empty_conv list_all2_Nil2)
next
  case (3 l s r t)
  then show ?case using tabs_same [of l r] by (auto simp del: iequals_char.simps)
qed

lemma iiequals_fl_result:
  assumes "map to_lower_copy s = s"
  shows "iiequals_fl TABS_OR_NEWLINES s t \<longleftrightarrow> kept s = map to_lower_copy (kept t)"
proof -
  have "map to_lower_copy (kept s) = kept s"
  proof -
    have "\<forall>c\<in>set s. to_lower_copy c = c" using assms map_same by metis
    then show ?thesis by (intro map_idI) simp
  qed
  moreover have "TABS_OR_NEWLINES \<noteq> []" by (simp add: TABS_OR_NEWLINES_def)
  moreover have "list_all2 (iequals_char first_lowered) (kept s) (kept t) \<longleftrightarrow> iequals first_lowered (kept s) (kept t)"
    by (simp add: iequals_result del: iequals_char.simps)
  ultimately show ?thesis
    by (simp add: iiequals_fl_def iiequals_def iiequals_loop_result iequals_first_lowered)
qed

lemma is_file_scheme_iff: "is_file_scheme s \<longleftrightarrow> map to_lower_copy (kept s) = ''file''"
proof -
  have "map to_lower_copy ''file'' = ''file''" "kept ''file'' = ''file''" by code_simp+
  then show ?thesis unfolding is_file_scheme_def by (auto simp: iiequals_fl_result)
qed

section \<open>The code of a scheme\<close>

fun ncode :: "string \<Rightarrow> nat" where
  "ncode [] = 0"
| "ncode (c # t) = (ncode t + ord c) * 256"

definition plain :: "string \<Rightarrow> bool" where
  "plain s \<longleftrightarrow> list_all (\<lambda>c. 0 < ord c \<and> ord c < 128) s"

text \<open>The number of a text that is read from its end.\<close>

lemma unat_add_char:
  assumes "unat code mod 256 = 0" "ord c < 256"
  shows "unat (push_bit one_byte (code OR of_nat (ord c) :: u64)) = (unat code + ord c) * 256 mod 2 ^ 64"
    and "unat (push_bit one_byte (code OR of_nat (ord c) :: u64)) mod 256 = 0"
proof -
  have "code AND of_nat (ord c) = 0"
  proof (rule bit_word_eqI)
    fix n
    have "take_bit 8 (of_nat (ord c) :: u64) = of_nat (ord c)"
    proof -
      have "unat (of_nat (ord c) :: u64) = ord c"
      proof -
        have "ord c < 18446744073709551616" using ord_less_256 [of c] by linarith
        then show ?thesis by (simp add: unat_of_nat)
      qed
      then show ?thesis using assms(2) by (simp add: word_unat_eq_iff unsigned_take_bit_eq take_bit_nat_eq_self)
    qed
    then have low: "bit (of_nat (ord c) :: u64) n \<Longrightarrow> n < 8" by (metis bit_take_bit_iff)
    have "unat (take_bit 8 code) = 0" unfolding unsigned_take_bit_eq using assms(1) by (simp add: take_bit_eq_mod)
    then have "take_bit 8 code = 0" by (simp only: unat_eq_zero)
    then have "n < 8 \<Longrightarrow> \<not> bit code n" by (metis bit_0_eq bit_take_bit_iff bot_apply bot_bool_def)
    then show "bit (code AND of_nat (ord c)) n = bit (0 :: u64) n" using low by (auto simp: bit_and_iff)
  qed
  then have "code OR of_nat (ord c) = code + of_nat (ord c)" by (simp add: disjunctive_add_eq_or)
  then show *: "unat (push_bit one_byte (code OR of_nat (ord c) :: u64)) = (unat code + ord c) * 256 mod 2 ^ 64"
    using assms(2)
    by (simp add: one_byte_def push_bit_eq_mult unat_word_ariths unat_of_nat take_bit_eq_mod mod_mult_left_eq mod_mult_right_eq mod_simps)
  show "unat (push_bit one_byte (code OR of_nat (ord c) :: u64)) mod 256 = 0"
    unfolding * by (simp add: mod_mod_cancel)
qed

lemma fold_code: "encoded_scheme_loop s code = fold (\<lambda>c code. push_bit one_byte (code OR of_nat (ord c))) s code"
  by (induction s arbitrary: code) auto

lemma encoded_scheme_number:
  "list_all (\<lambda>c. ord c < 256) s \<Longrightarrow>
     unat (encoded_scheme s) = ncode (rev s) mod 2 ^ 64 \<and> unat (encoded_scheme s) mod 256 = 0"
proof (induction s rule: rev_induct)
  case (snoc c s)
  have all: "list_all (\<lambda>c. ord c < 256) s" by (simp add: list_all_iff)
  note IH = conjunct1 [OF snoc.IH [OF all]] conjunct2 [OF snoc.IH [OF all]]
  have "encoded_scheme (s @ [c]) = push_bit one_byte (encoded_scheme s OR of_nat (ord c))"
    by (simp add: encoded_scheme_def fold_code)
  moreover have "(ncode (rev s) mod 2 ^ 64 + ord c) * 256 mod 2 ^ 64 = (ncode (rev s) + ord c) * 256 mod 2 ^ 64"
    by (metis mod_add_left_eq mod_mult_left_eq)
  ultimately show ?case using unat_add_char [OF IH(2), of c] IH(1) by simp
qed (simp add: encoded_scheme_def)

lemma ncode_low: "ncode t mod 256 = 0"
  by (cases t) simp_all

lemma digit_mod:
  fixes A c M :: nat
  assumes "c < 256" "A mod 256 = 0"
  shows "(A + c) mod (256 * M) = A mod (256 * M) + c"
proof -
  obtain a where A: "A = 256 * a" using assms(2) by (metis mod_0_imp_dvd dvdE)
  show ?thesis using assms(1) by (simp add: A mod_mult2_eq)
qed

lemma next_digit:
  fixes A B c d :: nat
  assumes "(A + c) * 256 mod 256 ^ Suc (Suc k) = (B + d) * 256 mod 256 ^ Suc (Suc k)"
    "c < 256" "d < 256" "A mod 256 = 0" "B mod 256 = 0"
  shows "c = d \<and> A mod 256 ^ Suc k = B mod 256 ^ Suc k"
proof -
  have "(A + c) * 256 mod (256 ^ Suc k * 256) = (B + d) * 256 mod (256 ^ Suc k * 256)" using assms(1) by (simp add: mult.commute)
  then have "(A + c) mod 256 ^ Suc k = (B + d) mod 256 ^ Suc k" unfolding mod_mult_mult2 by simp
  then have eq: "A mod 256 ^ Suc k + c = B mod 256 ^ Suc k + d"
    using digit_mod [OF assms(2,4)] digit_mod [OF assms(3,5)] by simp
  have "A mod 256 ^ Suc k mod 256 = 0" "B mod 256 ^ Suc k mod 256 = 0"
    using assms(4,5) by (simp_all add: mod_mod_cancel)
  moreover have "(A mod 256 ^ Suc k + c) mod 256 = (B mod 256 ^ Suc k + d) mod 256" using eq by simp
  ultimately have "c mod 256 = d mod 256" by (metis add_0 mod_add_left_eq)
  then show ?thesis using eq assms(2,3) by simp
qed

lemma ncode_prefix:
  "plain s \<Longrightarrow> plain t \<Longrightarrow> length t + 2 \<le> k \<Longrightarrow> ncode s mod 256 ^ k = ncode t mod 256 ^ k \<Longrightarrow> s = t"
proof (induction t arbitrary: s k)
  case Nil
  obtain k' where k: "k = Suc (Suc k')" using Nil.prems(3) by (cases k; cases "k - 1") auto
  show ?case
  proof (cases s)
    case (Cons c s')
    then have c: "0 < ord c" "ord c < 128" using Nil.prems(1) by (simp_all add: plain_def)
    have "(ncode s' + ord c) * 256 mod 256 ^ Suc (Suc k') = (0 + 0) * 256 mod 256 ^ Suc (Suc k')"
      using Nil.prems(4) Cons k by simp
    then have "ord c = 0" using next_digit [of "ncode s'" "ord c" k' 0 0] ncode_low [of s'] by simp
    then show ?thesis using c by simp
  qed simp
next
  case (Cons d t)
  obtain k' where k: "k = Suc (Suc k')" "length t + 2 \<le> Suc k'" using Cons.prems(3) by (cases k; cases "k - 1") auto
  have d: "0 < ord d" "plain t" using Cons.prems(2) by (simp_all add: plain_def)
  show ?case
  proof (cases s)
    case Nil
    have "(0 + 0) * 256 mod 256 ^ Suc (Suc k') = (ncode t + ord d) * 256 mod 256 ^ Suc (Suc k')"
      using Cons.prems(4) Nil k(1) by simp
    then have "0 = ord d" using next_digit [of 0 0 k' "ncode t" "ord d"] ncode_low [of t] by simp
    then show ?thesis using d by simp
  next
    case s: (Cons c s')
    have "(ncode s' + ord c) * 256 mod 256 ^ Suc (Suc k') = (ncode t + ord d) * 256 mod 256 ^ Suc (Suc k')"
      using Cons.prems(4) s k(1) by simp
    then have "ord c = ord d" "ncode s' mod 256 ^ Suc k' = ncode t mod 256 ^ Suc k'"
      using next_digit [of "ncode s'" "ord c" k' "ncode t" "ord d"] ncode_low [of s'] ncode_low [of t] by simp_all
    moreover have "plain s'" using Cons.prems(1) s by (simp add: plain_def)
    ultimately have "s' = t" "c = d" using Cons.IH [OF _ d(2) k(2)] char_eq_ord_iff [of c d] by blast+
    then show ?thesis using s by simp
  qed
qed

text \<open>A text of at most six characters is recognised by its code among all texts without NUL of ASCII.\<close>

lemma encoded_scheme_eq_iff:
  assumes "plain s" "plain t" "length t \<le> 6"
  shows "encoded_scheme s = encoded_scheme t \<longleftrightarrow> s = t"
proof
  assume "encoded_scheme s = encoded_scheme t"
  moreover have "list_all (\<lambda>c. ord c < 256) u" for u by (simp add: list_all_iff)
  ultimately have "ncode (rev s) mod 2 ^ 64 = ncode (rev t) mod 2 ^ 64" using encoded_scheme_number by metis
  moreover have "(2 :: nat) ^ 64 = 256 ^ 8" by simp
  ultimately have "ncode (rev s) mod 256 ^ 8 = ncode (rev t) mod 256 ^ 8" by metis
  then have "rev s = rev t" using assms ncode_prefix [of "rev s" "rev t" 8] by (simp add: plain_def)
  then show "s = t" by simp
qed simp

lemma known_port_loop_result:
  "list_all (\<lambda>c. ord c < 128) s \<Longrightarrow>
     known_port_loop sg True s code = encoded_scheme_loop (map to_lower_copy (kept s)) code"
  by (induction s arbitrary: code)
    (auto simp: TABS_OR_NEWLINES_def add_to_code_def)

lemma known_port_unchecked:
  "list_all (\<lambda>c. ord c < 128) s \<Longrightarrow> known_port_loop sg False s code = encoded_scheme_loop (map to_lower_copy s) code"
  by (induction s arbitrary: code) (auto simp: add_to_code_def)

text \<open>The known ports: case, tabs and newlines of the scheme do not matter, and no other text of ASCII without NUL has a
  port, of whatever length it is.\<close>

theorem known_port_result:
  assumes "plain scheme"
  shows "known_port sg True scheme =
    (case map_of [(''http'', 80), (''ws'', 80), (''https'', 443), (''wss'', 443), (''ftp'', 21)] (map to_lower_copy (kept scheme)) of
       Some port \<Rightarrow> port | None \<Rightarrow> 0)"
proof -
  let ?s = "map to_lower_copy (kept scheme)"
  have ascii: "list_all (\<lambda>c. ord c < 128) scheme" using assms by (auto simp: plain_def list_all_iff)
  have "plain ?s" using assms by (auto simp: plain_def list_all_iff)
  then have code: "known_port_loop sg True scheme 0 = encoded_scheme t \<longleftrightarrow> ?s = t" if "plain t" "length t \<le> 6" for t
    using encoded_scheme_eq_iff [OF _ that, of ?s] known_port_loop_result [OF ascii] by (simp add: encoded_scheme_def)
  have plains: "plain ''http''" "plain ''ws''" "plain ''https''" "plain ''wss''" "plain ''ftp''" by code_simp+
  show ?thesis by (simp add: known_port_def code plains)
qed

lemma special_scheme_iff:
  assumes "plain scheme"
  shows "is_special_scheme sg scheme \<longleftrightarrow>
    map to_lower_copy (kept scheme) \<in> {''http'', ''https'', ''ws'', ''wss'', ''ftp'', ''file''}"
  by (simp add: is_special_scheme_def known_port_result [OF assms] is_file_scheme_iff)

end
