(* ===== verification/Uri_Context.thy ===== *)
theory Uri_Context
  imports Uri_Status Special_Schemes Ascii_Hex
begin

text \<open>
  The state of the URI parser, as it is when the components are views into the text and there is no base
  URI: \<^verbatim>\<open>parsing_uri_context\<close> over \<^verbatim>\<open>uri_components\<close> of
  \<^verbatim>\<open>webpp/uri/details/uri_components.hpp\<close>, the helpers of
  \<^verbatim>\<open>uri_helpers.hpp\<close>, and the \<^verbatim>\<open>component_encoder\<close> of
  \<^verbatim>\<open>uri_components_encoding.hpp\<close>, which only looks for characters when the output cannot be
  modified. A position is a number; an access outside of the text is \<^const>\<open>None\<close>. The sets of
  characters of the parser have members of ASCII only, and are lists here.
\<close>

section \<open>The components\<close>

datatype components =
    comp_scheme | comp_host | comp_username | comp_password | comp_port | comp_path | comp_queries | comp_fragment

record uri_components =
  m_scheme :: string
  m_username :: string
  m_password :: string
  m_hostname :: string
  m_port :: string
  m_path :: string
  m_queries :: string
  m_fragment :: string

fun set_value_to :: "components \<Rightarrow> string \<Rightarrow> uri_components \<Rightarrow> uri_components" where
  "set_value_to comp_scheme v out = out\<lparr>m_scheme := v\<rparr>"
| "set_value_to comp_username v out = out\<lparr>m_username := v\<rparr>"
| "set_value_to comp_password v out = out\<lparr>m_password := v\<rparr>"
| "set_value_to comp_port v out = out\<lparr>m_port := v\<rparr>"
| "set_value_to comp_host v out = out\<lparr>m_hostname := v\<rparr>"
| "set_value_to comp_path v out = out\<lparr>m_path := v\<rparr>"
| "set_value_to comp_queries v out = out\<lparr>m_queries := v\<rparr>"
| "set_value_to comp_fragment v out = out\<lparr>m_fragment := v\<rparr>"

fun get_output_from :: "components \<Rightarrow> uri_components \<Rightarrow> string" where
  "get_output_from comp_scheme out = m_scheme out"
| "get_output_from comp_username out = m_username out"
| "get_output_from comp_password out = m_password out"
| "get_output_from comp_port out = m_port out"
| "get_output_from comp_host out = m_hostname out"
| "get_output_from comp_path out = m_path out"
| "get_output_from comp_queries out = m_queries out"
| "get_output_from comp_fragment out = m_fragment out"

definition no_components :: uri_components where
  "no_components = \<lparr>m_scheme = [], m_username = [], m_password = [], m_hostname = [], m_port = [], m_path = [],
     m_queries = [], m_fragment = []\<rparr>"

section \<open>The context\<close>

record uri_ctx =
  ctx_text :: string
  ctx_pos :: nat
  ctx_out :: uri_components
  ctx_status :: u32
  ctx_scheme :: scheme_type

definition new_ctx :: "string \<Rightarrow> uri_ctx" where
  "new_ctx str =
     \<lparr>ctx_text = str, ctx_pos = 0, ctx_out = no_components, ctx_status = status_code us_unparsed, ctx_scheme = not_special\<rparr>"

definition at_end :: "uri_ctx \<Rightarrow> bool" where
  "at_end ctx \<longleftrightarrow> ctx_pos ctx = length (ctx_text ctx)"

definition cur :: "uri_ctx \<Rightarrow> char option" where
  "cur ctx = load (ctx_text ctx) (ctx_pos ctx)"

definition move :: "nat \<Rightarrow> uri_ctx \<Rightarrow> uri_ctx" where
  "move n ctx = ctx\<lparr>ctx_pos := ctx_pos ctx + n\<rparr>"

definition warn :: "uri_status \<Rightarrow> uri_ctx \<Rightarrow> uri_ctx" where
  "warn w ctx = ctx\<lparr>ctx_status := set_warning (ctx_status ctx) w\<rparr>"

definition valid_as :: "uri_status \<Rightarrow> uri_ctx \<Rightarrow> uri_ctx" where
  "valid_as v ctx = ctx\<lparr>ctx_status := set_valid (ctx_status ctx) v\<rparr>"

definition fail_as :: "uri_status \<Rightarrow> uri_ctx \<Rightarrow> uri_ctx" where
  "fail_as e ctx = ctx\<lparr>ctx_status := set_error (ctx_status ctx) e\<rparr>"

definition sub_view :: "string \<Rightarrow> nat \<Rightarrow> nat \<Rightarrow> string option" where
  "sub_view str b e = (if b \<le> e \<and> e \<le> length str then Some (take (e - b) (drop b str)) else None)"

definition set_value :: "components \<Rightarrow> nat \<Rightarrow> nat \<Rightarrow> uri_ctx \<Rightarrow> uri_ctx option" where
  "set_value part b e ctx =
     map_option (\<lambda>v. ctx\<lparr>ctx_out := set_value_to part v (ctx_out ctx)\<rparr>) (sub_view (ctx_text ctx) b e)"

definition clear_value :: "components \<Rightarrow> uri_ctx \<Rightarrow> uri_ctx" where
  "clear_value part ctx = ctx\<lparr>ctx_out := set_value_to part [] (ctx_out ctx)\<rparr>"

definition has_value :: "components \<Rightarrow> uri_ctx \<Rightarrow> bool" where
  "has_value part ctx \<longleftrightarrow> get_output_from part (ctx_out ctx) \<noteq> []"

section \<open>Helpers\<close>

definition is_tab :: "char \<Rightarrow> bool" where
  "is_tab c \<longleftrightarrow> c \<in> {CHR 0x0A, CHR 0x0D, CHR 0x09}"

fun inc_if_loop :: "char list \<Rightarrow> string \<Rightarrow> nat \<Rightarrow> u32 \<Rightarrow> bool \<times> nat \<times> u32" where
  "inc_if_loop arr [] pos status = (False, pos, status)"
| "inc_if_loop arr (c # rest) pos status =
     (case arr of [] \<Rightarrow> (True, pos, status)
      | a # arr' \<Rightarrow>
          if is_tab c then inc_if_loop arr rest (Suc pos) (set_warning status us_invalid_character)
          else if c \<noteq> a then (False, pos, status)
          else inc_if_loop arr' rest (Suc pos) status)"

definition inc_if :: "char list \<Rightarrow> uri_ctx \<Rightarrow> bool \<times> uri_ctx" where
  "inc_if arr ctx =
     (if take (length arr) (drop (ctx_pos ctx) (ctx_text ctx)) = arr then (True, move (length arr) ctx) else (False, ctx))"

definition safely_inc_if :: "uri_parsing_options \<Rightarrow> char list \<Rightarrow> uri_ctx \<Rightarrow> bool \<times> uri_ctx" where
  "safely_inc_if opts arr ctx =
     (if ignore_tabs_or_newlines opts then
        (let (found, pos, status) = inc_if_loop arr (drop (ctx_pos ctx) (ctx_text ctx)) (ctx_pos ctx) (ctx_status ctx) in
         (found, ctx\<lparr>ctx_pos := pos, ctx_status := status\<rparr>))
      else inc_if arr ctx)"

section \<open>The encoder of a component\<close>

text \<open>The position moves to the next character of a set; the result tells if there is none.\<close>

definition find_next :: "char list \<Rightarrow> uri_ctx \<Rightarrow> (bool \<times> uri_ctx) option" where
  "find_next chars ctx =
     (if ctx_pos ctx \<le> length (ctx_text ctx) then
        let ctx = move (length (takeWhile (\<lambda>c. c \<notin> set chars) (drop (ctx_pos ctx) (ctx_text ctx)))) ctx in
        Some (at_end ctx, ctx)
      else None)"

fun percent_digits :: "string \<Rightarrow> nat \<Rightarrow> nat \<Rightarrow> bool \<times> nat" where
  "percent_digits [] pos count = (False, pos)"
| "percent_digits (c # rest) pos count =
     (if is_tab c then percent_digits rest (Suc pos) count
      else if \<not> is_hex_digit (ord c) then (False, Suc pos)
      else if Suc count = 2 \<or> rest = [] then (Suc count = 2, Suc pos)
      else percent_digits rest (Suc pos) (Suc count))"

definition validate_percent_encode :: "bool \<Rightarrow> uri_ctx \<Rightarrow> (bool \<times> uri_ctx) option" where
  "validate_percent_encode check ctx =
     (if check then
        (let ctx = move 1 ctx; (valid, pos) = percent_digits (drop (ctx_pos ctx) (ctx_text ctx)) (ctx_pos ctx) 0
         in Some (valid, ctx\<lparr>ctx_pos := pos\<rparr>))
      else if ctx_pos ctx + 2 \<le> length (ctx_text ctx) then
        Option.bind (load (ctx_text ctx) (ctx_pos ctx + 1)) (\<lambda>c1.
          if is_hex_digit (ord c1) then
            Option.bind (load (ctx_text ctx) (ctx_pos ctx + 2)) (\<lambda>c2. Some (is_hex_digit (ord c2), move 2 ctx))
          else Some (False, move 2 ctx))
      else Some (False, move 1 ctx))"

end
