(* ===== verification/Uri_Scheme.thy ===== *)
theory Uri_Scheme
  imports Uri_Context
begin

text \<open>
  \<^verbatim>\<open>parse_scheme\<close> of \<^verbatim>\<open>webpp/uri/scheme.hpp\<close> and the states that it ends in, without
  a base URI. A loop over the text takes the rest of the text, from the current position, as a list.
\<close>

section \<open>The states after the scheme\<close>

definition file_slash_state :: "uri_parsing_options \<Rightarrow> uri_ctx \<Rightarrow> uri_ctx option" where
  "file_slash_state opts ctx =
     (if at_end ctx then Some (valid_as us_valid_path ctx)
      else Option.bind (cur ctx) (\<lambda>c. Some (
        if c = CHR 0x5C \<or> c = CHR ''/'' then
          (let ctx = (if c = CHR 0x5C then warn us_reverse_solidus_used ctx else ctx) in
           if allow_file_hosts opts then valid_as us_valid_file_host ctx else valid_as us_valid_path ctx)
        else if is_tab c \<and> ignore_tabs_or_newlines opts then valid_as us_valid_path (warn us_invalid_character ctx)
        else valid_as us_valid_path ctx)))"

definition file_host_or_path :: "uri_parsing_options \<Rightarrow> uri_ctx \<Rightarrow> uri_ctx" where
  "file_host_or_path opts ctx =
     (if allow_file_hosts opts then valid_as us_valid_file_host ctx else valid_as us_valid_path ctx)"

fun file_loop :: "uri_parsing_options \<Rightarrow> string \<Rightarrow> uri_ctx \<Rightarrow> uri_ctx option" where
  "file_loop opts [] ctx = Some (valid_as us_valid ctx)"
| "file_loop opts (c # rest) ctx =
     (if c = CHR 0x5C then file_slash_state opts (warn us_reverse_solidus_used ctx)
      else if c = CHR ''/'' then file_slash_state opts ctx
      else if c = CHR 0x00 then
        (if eof_is_valid opts then Some (valid_as us_valid ctx)
         else Some (file_host_or_path opts (warn us_invalid_character ctx)))
      else if is_tab c \<and> ignore_tabs_or_newlines opts then file_loop opts rest (move 1 (warn us_invalid_character ctx))
      else Some (file_host_or_path opts ctx))"

definition file_state :: "uri_parsing_options \<Rightarrow> uri_ctx \<Rightarrow> uri_ctx option" where
  "file_state opts ctx = file_loop opts (drop (ctx_pos ctx) (ctx_text ctx)) (clear_value comp_host ctx)"

definition no_scheme_state :: "uri_ctx \<Rightarrow> uri_ctx" where
  "no_scheme_state ctx = fail_as us_missing_scheme_non_relative_url ctx"

fun ignore_slashes :: "uri_parsing_options \<Rightarrow> string \<Rightarrow> uri_ctx \<Rightarrow> uri_ctx" where
  "ignore_slashes opts [] ctx = valid_as us_valid_authority ctx"
| "ignore_slashes opts (c # rest) ctx =
     (if c = CHR 0x5C \<or> c = CHR ''/'' then ignore_slashes opts rest (move 1 (warn us_missing_following_solidus ctx))
      else if c = CHR 0x00 \<and> eof_is_valid opts then fail_as us_scheme_ended_unexpectedly ctx
      else if is_tab c \<and> ignore_tabs_or_newlines opts then
        ignore_slashes opts rest (move 1 (warn us_invalid_character ctx))
      else valid_as us_valid_authority ctx)"

definition special_authority_ignore_slashes_state :: "uri_parsing_options \<Rightarrow> uri_ctx \<Rightarrow> uri_ctx" where
  "special_authority_ignore_slashes_state opts ctx = ignore_slashes opts (drop (ctx_pos ctx) (ctx_text ctx)) ctx"

section \<open>The scheme\<close>

definition set_scheme :: "uri_ctx \<Rightarrow> uri_ctx option" where
  "set_scheme ctx = set_value comp_scheme 0 (ctx_pos ctx) ctx"

text \<open>The first character: the result tells if it is a letter. A text of tabs and newlines only is read past its end.\<close>

fun scheme_start :: "uri_parsing_options \<Rightarrow> string \<Rightarrow> uri_ctx \<Rightarrow> (bool \<times> uri_ctx) option" where
  "scheme_start opts [] ctx = None"
| "scheme_start opts (c # rest) ctx =
     (if c \<in> set ALPHA then Some (True, ctx)
      else if ignore_tabs_or_newlines opts \<and> is_tab c then scheme_start opts rest (move 1 (warn us_invalid_character ctx))
      else Some (False, ctx))"

definition alnum_plus :: "char list" where
  "alnum_plus = ALPHA_DIGIT @ ''+-.''"

text \<open>The other characters: the code of the scheme at the colon, or \<^const>\<open>None\<close> with the error.\<close>

fun scheme_loop :: "bool \<Rightarrow> uri_parsing_options \<Rightarrow> string \<Rightarrow> u64 \<Rightarrow> uri_ctx \<Rightarrow> u64 option \<times> uri_ctx" where
  "scheme_loop sg opts [] scheme_code ctx = (None, fail_as us_scheme_ended_unexpectedly ctx)"
| "scheme_loop sg opts (c # rest) scheme_code ctx =
     (if c = CHR '':'' then (Some scheme_code, ctx)
      else if c = CHR 0x00 then
        (None, fail_as (if eof_is_valid opts then us_scheme_ended_unexpectedly else us_invalid_scheme_character) ctx)
      else if is_tab c \<and> ignore_tabs_or_newlines opts then
        scheme_loop sg opts rest scheme_code (move 1 (warn us_invalid_character ctx))
      else if c \<notin> set alnum_plus then
        (None, fail_as us_invalid_scheme_character ctx)
      else scheme_loop sg opts rest (add_to_code sg scheme_code c) (move 1 ctx))"

definition scheme_of_file :: "uri_parsing_options \<Rightarrow> uri_ctx \<Rightarrow> uri_ctx option" where
  "scheme_of_file opts ctx =
     (let (found, ctx) = safely_inc_if opts ''//'' ((move 1 ctx)\<lparr>ctx_scheme := file_scheme_type\<rparr>) in
      file_state opts (if \<not> found then warn us_missing_following_solidus ctx else ctx))"

definition scheme_of_other :: "uri_parsing_options \<Rightarrow> uri_ctx \<Rightarrow> uri_ctx" where
  "scheme_of_other opts ctx =
     (let (found, ctx) = safely_inc_if opts ''/'' ((move 1 ctx)\<lparr>ctx_scheme := not_special\<rparr>) in
      if found then
        (let (found, ctx) = safely_inc_if opts ''/'' ctx in
         if found then valid_as us_valid_authority ctx else valid_as us_valid_path ctx)
      else valid_as us_valid_opaque_path (clear_value comp_path ctx))"

definition scheme_of_special :: "uri_parsing_options \<Rightarrow> uri_ctx \<Rightarrow> uri_ctx" where
  "scheme_of_special opts ctx =
     (let (found, ctx) = safely_inc_if opts ''//'' ((move 1 ctx)\<lparr>ctx_scheme := special_scheme\<rparr>) in
      special_authority_ignore_slashes_state opts (if \<not> found then warn us_missing_following_solidus ctx else ctx))"

definition parse_scheme :: "bool \<Rightarrow> uri_parsing_options \<Rightarrow> uri_ctx \<Rightarrow> uri_ctx option" where
  "parse_scheme sg opts ctx =
     (if at_end ctx then Some (ctx\<lparr>ctx_status := status_code us_empty_string\<rparr>)
      else Option.bind (scheme_start opts (drop (ctx_pos ctx) (ctx_text ctx)) ctx) (\<lambda>(alpha, ctx).
        if \<not> alpha then Some (no_scheme_state (clear_value comp_scheme (ctx\<lparr>ctx_pos := 0\<rparr>)))
        else Option.bind (cur ctx) (\<lambda>c.
          let ctx = move 1 ctx;
              (code, ctx) = scheme_loop sg opts (drop (ctx_pos ctx) (ctx_text ctx)) (add_to_code sg 0 c) ctx
          in case code of
               None \<Rightarrow> Some ctx
             | Some scheme_code \<Rightarrow>
                 Option.bind (set_scheme ctx) (\<lambda>ctx.
                   if scheme_code \<in> {encoded_scheme ''http'', encoded_scheme ''https'', encoded_scheme ''ws'',
                                     encoded_scheme ''wss'', encoded_scheme ''ftp''}
                   then Some (scheme_of_special opts ctx)
                   else if scheme_code = encoded_scheme ''file'' then scheme_of_file opts ctx
                   else Some (scheme_of_other opts ctx)))))"

end
