(* ===== verification/Uri_Host.thy ===== *)
theory Uri_Host
  imports Uri_Context Inet_Pton6
begin

unbundle bit_operations_syntax

text \<open>
  The parts of an authority: \<^verbatim>\<open>parse_port\<close> of \<^verbatim>\<open>webpp/uri/port.hpp\<close>, the IP addresses of a
  host in \<^verbatim>\<open>webpp/uri/details/host_ip.hpp\<close>, and \<^verbatim>\<open>parse_credentials\<close> of
  \<^verbatim>\<open>webpp/uri/credentials.hpp\<close>.
\<close>

section \<open>The port\<close>

definition max_port_number :: u16 where "max_port_number = 65535"
definition well_known_upper_port :: u16 where "well_known_upper_port = 1024"

lemma not_digit_marks [simp, char_class]:
  "\<not> is_digit (CHR 0x5C)" "\<not> is_digit (CHR 0x00)" "\<not> is_digit (CHR ''?'')" "\<not> is_digit (CHR ''#'')"
  by (simp_all add: is_digit_ord)

definition port_ends :: "char list" where
  "port_ends = [CHR 0x5C, CHR 0x00, CHR ''/'', CHR ''?'', CHR ''#'']"

datatype port_exit = Port_Failed uri_ctx | Port_Stopped u32 uri_ctx

fun port_loop :: "uri_parsing_options \<Rightarrow> string \<Rightarrow> u32 \<Rightarrow> uri_ctx \<Rightarrow> port_exit" where
  "port_loop opts [] port_value ctx = Port_Stopped port_value ctx"
| "port_loop opts (c # rest) port_value ctx =
     (if is_digit c then
        (let port_value = port_value * 10 + of_nat (ord c - 48); ctx = move 1 ctx in
         if port_value > ucast max_port_number then Port_Failed (fail_as us_port_out_of_range ctx)
         else port_loop opts rest port_value ctx)
      else if c = CHR 0x5C \<and> is_special_scheme_type (ctx_scheme ctx) then Port_Stopped port_value ctx
      else if c \<in> set port_ends then Port_Stopped port_value ctx
      else if is_tab c \<and> ignore_tabs_or_newlines opts then
        port_loop opts rest port_value (move 1 (warn us_invalid_character ctx))
      else Port_Failed (fail_as us_port_invalid ctx))"

fun skip_zeros :: "string \<Rightarrow> nat \<Rightarrow> nat \<Rightarrow> nat option" where
  "skip_zeros [] beg pos = (if Suc beg = pos then Some beg else None)"
| "skip_zeros (c # rest) beg pos = (if Suc beg \<noteq> pos \<and> c = CHR ''0'' then skip_zeros rest (Suc beg) pos else Some beg)"

definition parse_port :: "bool \<Rightarrow> uri_parsing_options \<Rightarrow> uri_ctx \<Rightarrow> uri_ctx option" where
  "parse_port sg opts ctx =
     (if at_end ctx then Some (valid_as us_valid ctx)
      else if \<not> option_parse_port opts then Some (warn us_invalid_character ctx)
      else case port_loop opts (drop (ctx_pos ctx) (ctx_text ctx)) 0 ctx of
             Port_Failed ctx \<Rightarrow> Some ctx
           | Port_Stopped port_value ctx' \<Rightarrow>
               Option.bind (skip_zeros (drop (ctx_pos ctx) (ctx_text ctx)) (ctx_pos ctx) (ctx_pos ctx')) (\<lambda>beg.
               Option.bind (if port_value = ucast (known_port sg True (get_output_from comp_scheme (ctx_out ctx')))
                            then Some (clear_value comp_port ctx')
                            else set_value comp_port beg (ctx_pos ctx') ctx') (\<lambda>ctx.
               Some (valid_as us_valid_authority_end ctx))))"

section \<open>Is the last segment of a host a number?\<close>

text \<open>The dots at the end: the position before them, or \<^const>\<open>None\<close> when it meets the first character of the host.\<close>

fun skip_dots :: "bool \<Rightarrow> string \<Rightarrow> nat \<Rightarrow> nat \<Rightarrow> uri_ctx \<Rightarrow> (nat option \<times> uri_ctx) option" where
  "skip_dots multiple text beg fin ctx =
     Option.bind (load text fin) (\<lambda>c.
       if c = CHR ''.'' then
         (let ctx = warn us_ipv4_trailing_empty_octet ctx in
          case fin of
            0 \<Rightarrow> None
          | Suc fin \<Rightarrow>
              if fin = beg then Some (None, ctx)
              else if multiple then skip_dots multiple text beg fin ctx
              else Some (Some fin, ctx))
       else Some (Some fin, ctx))"

fun ends_with_number :: "string \<Rightarrow> nat \<Rightarrow> bool \<Rightarrow> nat \<Rightarrow> bool option" where
  "ends_with_number text beg must_be_hex pos =
     (if pos = beg then Some (\<not> must_be_hex)
      else Option.bind (load text pos) (\<lambda>c.
        if c = CHR ''.'' then Some (\<not> must_be_hex)
        else if is_digit c \<or> c \<in> set ''ABCDEFabcdef'' then
          (case pos of 0 \<Rightarrow> None | Suc pos \<Rightarrow> ends_with_number text beg (must_be_hex \<or> \<not> is_digit c) pos)
        else if c = CHR ''X'' \<or> c = CHR ''x'' then
          (if pos < beg + 1 then Some False
           else Option.bind (load text (pos - 1)) (\<lambda>c.
             if c \<noteq> CHR ''0'' then Some False
             else if pos - 1 = beg then Some True
             else Option.bind (load text (pos - 2)) (\<lambda>c. Some (c = CHR ''.''))))
        else Some False))"

declare skip_dots.simps [simp del] ends_with_number.simps [simp del]

definition is_possible_ends_with_ipv4 :: "uri_parsing_options \<Rightarrow> nat \<Rightarrow> nat \<Rightarrow> uri_ctx \<Rightarrow> (bool \<times> uri_ctx) option" where
  "is_possible_ends_with_ipv4 opts beg fin ctx =
     Option.bind (skip_dots (allow_multiple_trailing_empty_ipv4_octets opts) (ctx_text ctx) beg fin ctx) (\<lambda>(fin, ctx).
       case fin of
         None \<Rightarrow> Some (False, ctx)
       | Some fin \<Rightarrow>
           Option.bind (ends_with_number (ctx_text ctx) beg False fin) (\<lambda>possible. Some (possible, ctx)))"

section \<open>An IPv4 address as a host\<close>

definition invalid_num :: u64 where "invalid_num = 4294967296"

definition octet_digit :: "uri_parsing_options \<Rightarrow> u64 \<Rightarrow> char \<Rightarrow> u64" where
  "octet_digit opts octet_base c =
     of_int (hex_digit (allow_ipv4_hex_octets opts \<and> octet_base = 16) (uint invalid_num) (ord c))"

text \<open>One octet: \<^const>\<open>None\<close> for an invalid character, or the octet and the rest of the host.\<close>

fun ipv4_octet :: "uri_parsing_options \<Rightarrow> u64 \<Rightarrow> u64 \<Rightarrow> string \<Rightarrow> (u64 \<times> string) option" where
  "ipv4_octet opts octet_base octet [] = Some (octet, [])"
| "ipv4_octet opts octet_base octet (c # src) =
     (let digit = octet * octet_base + octet_digit opts octet_base c in
      if digit \<ge> invalid_num then (if c = CHR ''.'' then Some (octet, src) else None)
      else ipv4_octet opts octet_base digit src)"

definition octet_base :: "uri_parsing_options \<Rightarrow> string \<Rightarrow> u64 \<times> string" where
  "octet_base opts src =
     (case src of
        [] \<Rightarrow> (10, [])
      | c # rest \<Rightarrow>
          if c = CHR ''0'' then
            (let base = (if allow_ipv4_octal_octets opts then 8 else 10) in
             if allow_ipv4_hex_octets opts then
               (case rest of
                  [] \<Rightarrow> (base, [])
                | d # rest' \<Rightarrow> if d = CHR ''x'' \<or> d = CHR ''X'' then (16, rest') else (base, rest))
             else (base, src))
          else (10, src))"

record ipv4_state =
  v4_src :: string
  v4_octets :: nat
  v4_octet :: u64
  v4_out :: "u8 list"
  v4_status :: u32

datatype ipv4_exit = Ipv4_Failed ipv4_state | Ipv4_Stopped ipv4_state

lemma ipv4_octet_shorter: "ipv4_octet opts base octet src = Some (octet', src') \<Longrightarrow> length src' \<le> length src"
  by (induction opts base octet src rule: ipv4_octet.induct) (auto simp: Let_def split: if_splits)

lemma octet_base_shorter: "octet_base opts src = (base, src') \<Longrightarrow> length src' \<le> length src"
  by (auto simp: octet_base_def Let_def split: list.splits if_splits)

lemma ipv4_octet_progress:
  "ipv4_octet opts base octet src = Some (octet', d # rest) \<Longrightarrow> Suc (length rest) < length src"
proof (induction opts base octet src rule: ipv4_octet.induct)
  case (2 opts base octet c src)
  then show ?case
    by (auto simp: Let_def split: if_splits)
qed simp

function host_ipv4_octets :: "uri_parsing_options \<Rightarrow> ipv4_state \<Rightarrow> ipv4_exit option" where
  "host_ipv4_octets opts st =
     (if v4_src st = [] then None
      else case octet_base opts (v4_src st) of (base, src) \<Rightarrow>
        (case ipv4_octet opts base 0 src of
           None \<Rightarrow> Some (Ipv4_Failed (st\<lparr>v4_status := set_error (v4_status st) us_ip_invalid_character\<rparr>))
         | Some (octet, src) \<Rightarrow>
             (let status = (if (allow_ipv4_hex_octets opts \<or> allow_ipv4_octal_octets opts) \<and> base \<noteq> 10 \<and> octet \<noteq> 0
                            then set_warning (v4_status st) us_ipv4_non_decimal_octet else v4_status st)
              in case src of
                [] \<Rightarrow> Some (Ipv4_Stopped (st\<lparr>v4_src := [], v4_octet := octet, v4_status := status\<rparr>))
              | d # rest \<Rightarrow>
                  if d = CHR ''.'' then
                    Some (Ipv4_Stopped (st\<lparr>v4_src := CHR ''.'' # d # rest, v4_octet := octet, v4_status := status\<rparr>))
                  else if octet > 255 then
                    Some (Ipv4_Failed (st\<lparr>v4_status := set_error status us_ip_invalid_octet_range\<rparr>))
                  else
                    (case store (v4_out st) (v4_octets st - 1) (ucast octet) of
                       None \<Rightarrow> None
                     | Some out \<Rightarrow>
                         host_ipv4_octets opts
                           \<lparr>v4_src = d # rest, v4_octets = v4_octets st + 1, v4_octet = octet, v4_out = out,
                            v4_status = status\<rparr>))))"
  by pat_completeness auto
termination
  by (relation "measure (\<lambda>(opts, st). length (v4_src st))")
    (auto dest!: ipv4_octet_progress octet_base_shorter [OF sym])

declare host_ipv4_octets.simps [simp del]

text \<open>The characters after the last octet; the status, or the error.\<close>

definition ipv4_ending :: "uri_parsing_options \<Rightarrow> string \<Rightarrow> u32 \<Rightarrow> u32 + u32" where
  "ipv4_ending opts src status =
     (case src of
        [] \<Rightarrow> Inr status
      | c # rest \<Rightarrow>
          if c \<noteq> CHR ''.'' then Inr status
          else if allow_multiple_trailing_empty_ipv4_octets opts then
            (if list_all (\<lambda>c. c = CHR ''.'') src then Inr status else Inl (set_error status us_ip_invalid_character))
          else if allow_trailing_empty_ipv4_octet opts then
            (if rest = [] then Inr (set_warning status us_ipv4_trailing_empty_octet)
             else Inl (set_error status us_ip_invalid_character))
          else Inl (set_error status us_ip_invalid_character))"

text \<open>The last octet fills the bytes that are left.\<close>

function fill_octets :: "nat \<Rightarrow> u64 \<Rightarrow> u8 list \<Rightarrow> (u64 \<times> u8 list) option" where
  "fill_octets octets octet out =
     (if octets = 5 then Some (octet, out)
      else if octets > 5 then None
      else case store out (octets - 1) (ucast (drop_bit ((4 - octets) * 8) octet)) of
             None \<Rightarrow> None
           | Some out \<Rightarrow> fill_octets (octets + 1) (octet AND NOT (push_bit ((4 - octets) * 8) 0xFF)) out)"
  by pat_completeness auto
termination by (relation "measure (\<lambda>(octets, _). 5 - octets)") auto

declare fill_octets.simps [simp del]

definition ipv4_first :: "uri_parsing_options \<Rightarrow> ipv4_state \<Rightarrow> ipv4_exit option" where
  "ipv4_first opts st = (if hd (v4_src st) \<noteq> CHR ''.'' then host_ipv4_octets opts st else Some (Ipv4_Stopped st))"

definition ipv4_last :: "uri_parsing_options \<Rightarrow> ipv4_state \<Rightarrow> (bool \<times> u8 list \<times> u32) option" where
  "ipv4_last opts st =
     (case ipv4_ending opts (v4_src st) (v4_status st) of
        Inl status \<Rightarrow> Some (False, v4_out st, status)
      | Inr status \<Rightarrow>
          if allow_multiple_trailing_empty_ipv4_octets opts \<or> allow_trailing_empty_ipv4_octet opts then
            Option.bind (fill_octets (v4_octets st) (v4_octet st) (v4_out st)) (\<lambda>(octet, out).
              if octet \<noteq> 0 then Some (False, out, set_error status us_ip_too_many_octets)
              else Some (True, out, status))
          else if v4_octets st \<noteq> 5 then Some (False, v4_out st, set_error status us_ip_too_little_octets)
          else if v4_octet st \<noteq> 0 then Some (False, v4_out st, set_error status us_ip_too_many_octets)
          else Some (True, v4_out st, status))"

text \<open>The result tells to continue; then the bytes that were written, and the status.\<close>

definition parse_host_ipv4 :: "uri_parsing_options \<Rightarrow> string \<Rightarrow> u8 list \<Rightarrow> u32 \<Rightarrow> (bool \<times> u8 list \<times> u32) option" where
  "parse_host_ipv4 opts src out status =
     (if src = [] then Some (False, out, set_error status us_ip_bad_ending)
      else
        Option.bind (ipv4_first opts \<lparr>v4_src = src, v4_octets = 1, v4_octet = 0, v4_out = out, v4_status = status\<rparr>) (\<lambda>e.
          case e of
            Ipv4_Failed st \<Rightarrow> Some (False, v4_out st, v4_status st)
          | Ipv4_Stopped st \<Rightarrow> ipv4_last opts st))"

section \<open>An IPv6 address as a host\<close>

definition after_ipv6 :: "uri_ctx \<Rightarrow> uri_ctx option" where
  "after_ipv6 ctx =
     (if at_end ctx then Some (valid_as us_valid ctx)
      else Option.bind (cur ctx) (\<lambda>c. Some (
        if c = CHR ''/'' then valid_as us_valid_path ctx
        else if c = CHR '':'' then move 1 (valid_as us_valid_port ctx)
        else if c = CHR ''#'' then move 1 (valid_as us_valid_fragment ctx)
        else if c = CHR ''?'' then move 1 (valid_as us_valid_queries ctx)
        else fail_as us_ipv6_char_after_closing ctx)))"

definition parse_host_ipv6 :: "uri_ctx \<Rightarrow> (bool \<times> uri_ctx) option" where
  "parse_host_ipv6 ctx =
     (if has_value comp_host ctx then Some (False, fail_as us_invalid_domain_code_point ctx)
      else
        let beg = ctx_pos ctx; ctx = move 1 ctx in
        Option.bind (inet_pton6 (CHR '']'') (replicate 16 0) (drop (ctx_pos ctx) (ctx_text ctx))) (\<lambda>(result, ipv6_bytes, src).
          let ctx = ctx\<lparr>ctx_pos := length (ctx_text ctx) - length src\<rparr> in
          if result = v6_valid then Some (False, fail_as us_ipv6_unclosed ctx)
          else if result = v6_valid_special then
            Option.bind (cur ctx) (\<lambda>c.
              if c = CHR '']'' then
                (let ctx = move 1 ctx in
                 Option.bind (set_value comp_host beg (ctx_pos ctx) ctx) (\<lambda>ctx.
                 Option.bind (after_ipv6 ctx) (\<lambda>ctx. Some (False, ctx))))
              else Some (False, fail_as us_ipv6_unclosed ctx))
          else Some (False, ctx\<lparr>ctx_status := error_bit OR ucast (inet_pton6_status_code result)\<rparr>)))"

section \<open>Credentials\<close>

definition parse_credentials :: "nat \<Rightarrow> nat option \<Rightarrow> uri_ctx \<Rightarrow> uri_ctx option" where
  "parse_credentials beg password_token_pos ctx =
     (let ctx = warn us_has_credentials ctx; atsign_pos = ctx_pos ctx in
      if atsign_pos \<noteq> length (ctx_text ctx) then
        Option.bind (set_value comp_username beg
            (case password_token_pos of None \<Rightarrow> atsign_pos | Some p \<Rightarrow> min p atsign_pos) (clear_value comp_username ctx)) (\<lambda>ctx.
          case password_token_pos of
            None \<Rightarrow> Some ctx
          | Some p \<Rightarrow> set_value comp_password (p + 1) atsign_pos (clear_value comp_password ctx))
      else Some ctx)"

definition parse_username :: "uri_parsing_options \<Rightarrow> uri_ctx \<Rightarrow> uri_ctx option" where
  "parse_username opts ctx =
     (if \<not> parse_credentails opts \<or> at_end ctx then Some ctx
      else set_value comp_username (ctx_pos ctx) (length (ctx_text ctx))
             (clear_value comp_username (warn us_has_credentials ctx)))"

definition parse_password :: "uri_parsing_options \<Rightarrow> uri_ctx \<Rightarrow> uri_ctx option" where
  "parse_password opts ctx =
     (if \<not> parse_credentails opts \<or> at_end ctx then Some ctx
      else set_value comp_password (ctx_pos ctx) (length (ctx_text ctx))
             (clear_value comp_password (warn us_has_credentials ctx)))"

end
