(* ===== verification/Uri_Authority.thy ===== *)
theory Uri_Authority
  imports Uri_Host
begin

unbundle bit_operations_syntax

text \<open>
  \<^verbatim>\<open>webpp/uri/authority.hpp\<close>: credentials, host and port, the host of a file, and what follows
  an authority; with the checks of \<^verbatim>\<open>webpp/uri/details/windows_drive_letter.hpp\<close>.
\<close>

section \<open>Windows drive letters\<close>

definition has_windows_driver_letter :: "string \<Rightarrow> nat \<Rightarrow> bool option" where
  "has_windows_driver_letter str pos =
     Option.bind (load str pos) (\<lambda>c.
       if c \<in> set ALPHA then Option.bind (load str (pos + 1)) (\<lambda>c. Some (c = CHR '':'' \<or> c = CHR ''|'')) else Some False)"

definition has_normalized_windows_driver_letter :: "string \<Rightarrow> nat \<Rightarrow> bool option" where
  "has_normalized_windows_driver_letter str pos =
     Option.bind (load str pos) (\<lambda>c.
       if c \<in> set ALPHA then Option.bind (load str (pos + 1)) (\<lambda>c. Some (c = CHR '':'')) else Some False)"

text \<open>The first three characters, without tabs, newlines and slashes at the start; \<^const>\<open>None\<close> for a tab that is not ignored.\<close>

fun drive_letters :: "bool \<Rightarrow> string \<Rightarrow> char list \<Rightarrow> char list option" where
  "drive_letters ignore [] letters = Some letters"
| "drive_letters ignore (c # rest) letters =
     (if length letters = 3 then Some letters
      else if is_tab c then (if ignore then drive_letters ignore rest letters else None)
      else if (c = CHR 0x5C \<or> c = CHR ''/'') \<and> letters = [] then drive_letters ignore rest letters
      else drive_letters ignore rest (letters @ [c]))"

definition pad3 :: "char list \<Rightarrow> char list" where
  "pad3 letters = take 3 (letters @ replicate 3 (CHR 0x00))"

definition starts_with_windows_driver_letter :: "uri_parsing_options \<Rightarrow> string \<Rightarrow> nat \<Rightarrow> bool option" where
  "starts_with_windows_driver_letter opts str pos =
     (if length str < pos then None
      else if length str - pos < 2 then Some False
      else if length str - pos = 2 then has_windows_driver_letter str pos
      else case drive_letters (ignore_tabs_or_newlines opts) (drop pos str) [] of
             None \<Rightarrow> Some False
           | Some letters \<Rightarrow>
               Option.bind (has_windows_driver_letter (pad3 letters) 0) (\<lambda>found.
                 Some (found \<and> pad3 letters ! 2 \<in> {CHR ''/'', CHR 0x5C, CHR ''?'', CHR ''#''})))"

section \<open>The pieces of an authority\<close>

definition forbidden_hosts :: "char list" where
  "forbidden_hosts =
     [CHR 0x00, CHR 0x09, CHR 0x0D, CHR 0x0A, CHR '' '', CHR ''#'', CHR ''/'', CHR '':'', CHR ''<'', CHR ''>'', CHR ''?'',
      CHR ''@'', CHR ''['', CHR 0x5C, CHR '']'', CHR 0x5E, CHR ''|'', CHR ''%'']"

definition forbidden_domains :: "char list" where
  "forbidden_domains = forbidden_hosts @ map char_of [0x00..<0x20] @ [CHR 0x7F, CHR ''.'']"

text \<open>These are the members of the tables of \<^verbatim>\<open>constants.hpp\<close>, with a percent sign and a dot.\<close>

lemma forbidden_tables:
  "map_option (\<lambda>b. b \<or> c = CHR ''%'') (in_table sg (FORBIDDEN_HOST_CODE_POINTS sg) c) = Some (c \<in> set forbidden_hosts)"
  "map_option (\<lambda>b. b \<or> c = CHR ''.'') (in_table sg (FORBIDDEN_DOMAIN_CODE_POINTS sg) c) = Some (c \<in> set forbidden_domains)"
proof -
  have low: "c \<in> char_of ` {0..<32 :: nat} \<longleftrightarrow> ord c \<le> 0x1F"
  proof
    assume "ord c \<le> 0x1F"
    then show "c \<in> char_of ` {0..<32 :: nat}" by (intro image_eqI [of _ _ "ord c"]) simp_all
  qed auto
  have domain: "c \<in> set forbidden_domains \<longleftrightarrow> c \<in> set forbidden_hosts \<or> ord c \<le> 0x1F \<or> c = CHR 0x7F \<or> c = CHR ''.''"
    unfolding forbidden_domains_def set_append set_map set_upt Un_iff low by simp
  define b where "b \<longleftrightarrow> c \<in> set (butlast forbidden_hosts)"
  have "forbidden_hosts = butlast forbidden_hosts @ [CHR ''%'']" by (simp add: forbidden_hosts_def)
  then have host: "b \<or> c = CHR ''%'' \<longleftrightarrow> c \<in> set forbidden_hosts"
    unfolding b_def by (metis set_append Un_iff list.set(1,2) insert_iff empty_iff)
  have b: "in_table sg (FORBIDDEN_HOST_CODE_POINTS sg) c = Some b"
    unfolding b_def in_host_table by (simp add: forbidden_hosts_def)
  show "map_option (\<lambda>b. b \<or> c = CHR ''%'') (in_table sg (FORBIDDEN_HOST_CODE_POINTS sg) c) = Some (c \<in> set forbidden_hosts)"
    using host by (simp only: b option.map)
  have "(b \<or> ord c \<le> 0x1F) \<or> c \<in> set [CHR ''%'', CHR 0x7F] \<longleftrightarrow> (b \<or> c = CHR ''%'') \<or> ord c \<le> 0x1F \<or> c = CHR 0x7F" by auto
  then show "map_option (\<lambda>b. b \<or> c = CHR ''.'') (in_table sg (FORBIDDEN_DOMAIN_CODE_POINTS sg) c) = Some (c \<in> set forbidden_domains)"
    unfolding in_domain_table [OF b] option.map domain host by blast
qed

record authority_state =
  au_ctx :: uri_ctx
  au_host_begin :: nat
  au_colon_pos :: "nat option"
  au_skip_last_char :: bool
  au_must_contain_credentials :: bool

datatype authority_exit = Au_Continue authority_state | Au_Break authority_state | Au_Return uri_ctx

abbreviation au_with :: "authority_state \<Rightarrow> uri_ctx \<Rightarrow> authority_state" where
  "au_with st ctx \<equiv> st\<lparr>au_ctx := ctx\<rparr>"

text \<open>A case of the switch that ends with break.\<close>

definition after_switch :: "uri_parsing_options \<Rightarrow> bool \<Rightarrow> authority_state \<Rightarrow> uri_ctx \<Rightarrow> authority_exit" where
  "after_switch opts is_special st ctx =
     (if au_must_contain_credentials st then Au_Return ctx
      else if ctx_pos ctx = au_host_begin st then
        (if empty_host_is_error opts \<and> is_special then Au_Return (fail_as us_host_missing ctx)
         else if at_end ctx then Au_Break (au_with st (valid_as us_valid_path ctx))
         else Au_Break (au_with st ctx))
      else Au_Break (au_with st ctx))"

text \<open>
  A colon starts a port or a password: the port is parsed with the default options, and an invalid one is
  taken back.
\<close>

definition authority_colon :: "bool \<Rightarrow> uri_parsing_options \<Rightarrow> bool \<Rightarrow> authority_state \<Rightarrow> uri_ctx \<Rightarrow> authority_exit option" where
  "authority_colon sg opts is_special st ctx =
     (if \<not> parse_credentails opts \<and> \<not> option_parse_port opts then
        Some (Au_Continue (au_with st (move 1 (warn us_invalid_character ctx))))
      else if \<not> parse_credentails opts then Some (after_switch opts is_special st (valid_as us_valid_port ctx))
      else
        let st = st\<lparr>au_colon_pos := (if au_colon_pos st = None then Some (ctx_pos ctx) else au_colon_pos st)\<rparr>;
            pre_port_pos = ctx_pos ctx in
        Option.bind (parse_port sg standard_uri_parsing_options (valid_as us_valid_port (move 1 ctx))) (\<lambda>ctx.
          if has_error_of (ctx_status ctx) us_port_invalid then
            Some (Au_Continue (st\<lparr>au_must_contain_credentials := True,
                                  au_ctx := (clear_value comp_port ctx)\<lparr>ctx_pos := pre_port_pos + 1\<rparr>\<rparr>))
          else
            Option.bind (set_value comp_host (au_host_begin st) pre_port_pos ctx) (\<lambda>ctx.
              if pre_port_pos = au_host_begin st then
                (if empty_host_is_error opts \<and> is_special then Some (Au_Return (fail_as us_host_missing ctx))
                 else if at_end ctx then Some (Au_Return (valid_as us_valid_path ctx))
                 else Some (Au_Return ctx))
              else Some (Au_Return ctx))))"

definition authority_at_sign :: "uri_parsing_options \<Rightarrow> nat \<Rightarrow> authority_state \<Rightarrow> uri_ctx \<Rightarrow> authority_exit option" where
  "authority_at_sign opts authority_begin st ctx =
     (if parse_credentails opts then
        Option.bind (parse_credentials authority_begin (au_colon_pos st) ctx) (\<lambda>ctx.
          let ctx = clear_value comp_host (move 1 ctx) in
          Some (Au_Continue (st\<lparr>au_must_contain_credentials := False, au_ctx := ctx, au_host_begin := ctx_pos ctx\<rparr>)))
      else Some (Au_Return (warn us_invalid_character (warn us_has_credentials ctx))))"

definition authority_tail_mark ::
  "bool \<Rightarrow> uri_status \<Rightarrow> uri_parsing_options \<Rightarrow> bool \<Rightarrow> authority_state \<Rightarrow> uri_ctx \<Rightarrow> authority_exit" where
  "authority_tail_mark parsed v opts is_special st ctx =
     (if au_must_contain_credentials st then Au_Return ctx
      else if parsed then after_switch opts is_special (st\<lparr>au_skip_last_char := True\<rparr>) (valid_as v ctx)
      else Au_Continue (au_with st (move 1 (warn us_invalid_character ctx))))"

definition bad_code_point :: "bool \<Rightarrow> uri_ctx \<Rightarrow> authority_exit" where
  "bad_code_point is_special ctx =
     Au_Return (fail_as (if is_special then us_invalid_domain_code_point else us_invalid_host_code_point) ctx)"

definition authority_nul :: "uri_parsing_options \<Rightarrow> bool \<Rightarrow> authority_state \<Rightarrow> uri_ctx \<Rightarrow> authority_exit" where
  "authority_nul opts is_special st ctx =
     (if au_must_contain_credentials st then Au_Return ctx
      else if eof_is_valid opts then
        (if empty_host_is_error opts \<and> ctx_pos ctx = au_host_begin st then Au_Return (fail_as us_host_missing ctx)
         else after_switch opts is_special st (valid_as us_valid_path ctx))
      else bad_code_point is_special ctx)"

definition authority_switch ::
  "bool \<Rightarrow> uri_parsing_options \<Rightarrow> bool \<Rightarrow> nat \<Rightarrow> authority_state \<Rightarrow> uri_ctx \<Rightarrow> char \<Rightarrow> authority_exit option" where
  "authority_switch sg opts is_special authority_begin st ctx c =
     (if c = CHR ''['' then
        Option.bind (parse_host_ipv6 ctx) (\<lambda>(should_continue, ctx).
          if \<not> should_continue then Some (Au_Return ctx) else Some (after_switch opts is_special st ctx))
      else if c = CHR '':'' then authority_colon sg opts is_special st ctx
      else if c = CHR 0x5C \<and> \<not> is_special then Some (after_switch opts is_special st ctx)
      else if c = CHR 0x5C \<or> c = CHR ''/'' then
        (if au_must_contain_credentials st then Some (Au_Return ctx)
         else Some (after_switch opts is_special st (valid_as us_valid_path ctx)))
      else if c = CHR ''.'' then Some (Au_Continue (au_with st (move 1 ctx)))
      else if c = CHR ''?'' then
        Some (authority_tail_mark (option_parse_queries opts) us_valid_queries opts is_special st ctx)
      else if c = CHR ''#'' then
        Some (authority_tail_mark (option_parse_fragment opts) us_valid_fragment opts is_special st ctx)
      else if c = CHR ''%'' then
        (if \<not> is_special then
           Option.bind (validate_percent_encode (ignore_tabs_or_newlines opts) ctx) (\<lambda>(valid, ctx).
             Some (Au_Continue (au_with st (if \<not> valid then warn us_invalid_character ctx else ctx))))
         else Some (Au_Return (fail_as us_invalid_domain_code_point ctx)))
      else if is_tab c then
        (if ignore_tabs_or_newlines opts then Some (Au_Continue (au_with st (move 1 (warn us_invalid_character ctx))))
         else Some (bad_code_point is_special ctx))
      else if c = CHR ''@'' then authority_at_sign opts authority_begin st ctx
      else if c = CHR 0x00 then Some (authority_nul opts is_special st ctx)
      else Some (bad_code_point is_special ctx))"

definition authority_step ::
  "bool \<Rightarrow> uri_parsing_options \<Rightarrow> bool \<Rightarrow> nat \<Rightarrow> authority_state \<Rightarrow> authority_exit option" where
  "authority_step sg opts is_special authority_begin st =
     Option.bind (find_next (if is_special then forbidden_domains else forbidden_hosts) (au_ctx st)) (\<lambda>(fin, ctx).
       if fin then
         (if empty_host_is_error opts \<and> \<not> is_special \<and> ctx_pos ctx = authority_begin
          then Some (Au_Return (fail_as us_host_missing ctx))
          else Some (Au_Break (au_with st (valid_as us_valid_path ctx))))
       else Option.bind (cur ctx) (authority_switch sg opts is_special authority_begin st ctx))"

section \<open>A step that continues moves on\<close>

lemma move_simps [simp]:
  "ctx_pos (move n ctx) = ctx_pos ctx + n" "ctx_text (move n ctx) = ctx_text ctx" "ctx_out (move n ctx) = ctx_out ctx"
  "ctx_status (move n ctx) = ctx_status ctx" "ctx_scheme (move n ctx) = ctx_scheme ctx"
  by (simp_all add: move_def)

lemma status_simps [simp]:
  "ctx_pos (warn w ctx) = ctx_pos ctx" "ctx_text (warn w ctx) = ctx_text ctx" "ctx_out (warn w ctx) = ctx_out ctx"
  "ctx_scheme (warn w ctx) = ctx_scheme ctx"
  "ctx_pos (valid_as w ctx) = ctx_pos ctx" "ctx_text (valid_as w ctx) = ctx_text ctx" "ctx_out (valid_as w ctx) = ctx_out ctx"
  "ctx_scheme (valid_as w ctx) = ctx_scheme ctx"
  "ctx_pos (fail_as w ctx) = ctx_pos ctx" "ctx_text (fail_as w ctx) = ctx_text ctx" "ctx_out (fail_as w ctx) = ctx_out ctx"
  "ctx_scheme (fail_as w ctx) = ctx_scheme ctx"
  by (simp_all add: warn_def valid_as_def fail_as_def)

lemma clear_value_simps [simp]:
  "ctx_pos (clear_value part ctx) = ctx_pos ctx" "ctx_text (clear_value part ctx) = ctx_text ctx"
  "ctx_status (clear_value part ctx) = ctx_status ctx" "ctx_scheme (clear_value part ctx) = ctx_scheme ctx"
  by (simp_all add: clear_value_def)

lemma set_value_facts:
  "set_value part b e ctx = Some ctx' \<Longrightarrow>
     ctx_pos ctx' = ctx_pos ctx \<and> ctx_text ctx' = ctx_text ctx \<and> ctx_status ctx' = ctx_status ctx
     \<and> ctx_scheme ctx' = ctx_scheme ctx \<and> b \<le> e \<and> e \<le> length (ctx_text ctx)
     \<and> ctx_out ctx' = set_value_to part (take (e - b) (drop b (ctx_text ctx))) (ctx_out ctx)"
  by (auto simp: set_value_def sub_view_def split: if_splits)

lemma find_next_facts:
  "find_next chars ctx = Some (fin, ctx') \<Longrightarrow>
     ctx_pos ctx \<le> ctx_pos ctx' \<and> ctx_text ctx' = ctx_text ctx \<and> ctx_pos ctx' \<le> length (ctx_text ctx)
     \<and> (fin \<longleftrightarrow> ctx_pos ctx' = length (ctx_text ctx)) \<and> ctx_out ctx' = ctx_out ctx \<and> ctx_status ctx' = ctx_status ctx
     \<and> ctx_scheme ctx' = ctx_scheme ctx"
  using length_takeWhile_le [of "\<lambda>c. c \<notin> set chars" "drop (ctx_pos ctx) (ctx_text ctx)"]
  by (auto simp: find_next_def at_end_def Let_def split: if_splits)

lemma percent_digits_moves: "pos \<le> snd (percent_digits rest pos count) \<and> snd (percent_digits rest pos count) \<le> pos + length rest"
  by (induction rest pos count rule: percent_digits.induct) auto

lemma validate_percent_encode_facts:
  assumes "validate_percent_encode check ctx = Some (valid, ctx')" "ctx_pos ctx < length (ctx_text ctx)"
  shows "ctx_pos ctx < ctx_pos ctx' \<and> ctx_text ctx' = ctx_text ctx \<and> ctx_out ctx' = ctx_out ctx
    \<and> ctx_status ctx' = ctx_status ctx \<and> ctx_scheme ctx' = ctx_scheme ctx \<and> ctx_pos ctx' \<le> length (ctx_text ctx)"
proof (cases check)
  case True
  obtain v p where r: "percent_digits (drop (Suc (ctx_pos ctx)) (ctx_text ctx)) (Suc (ctx_pos ctx)) 0 = (v, p)"
    by fastforce
  show ?thesis
    using assms True percent_digits_moves [of "Suc (ctx_pos ctx)" "drop (Suc (ctx_pos ctx)) (ctx_text ctx)" 0]
    by (auto simp: validate_percent_encode_def Let_def r)
next
  case False
  then show ?thesis
    using assms by (auto simp: validate_percent_encode_def Let_def bind_eq_Some_conv load_def split: if_splits)
qed

lemma parse_credentials_facts:
  "parse_credentials beg token ctx = Some ctx' \<Longrightarrow>
     ctx_pos ctx' = ctx_pos ctx \<and> ctx_text ctx' = ctx_text ctx \<and> ctx_scheme ctx' = ctx_scheme ctx"
  by (auto simp: parse_credentials_def Let_def bind_eq_Some_conv dest!: set_value_facts split: if_splits option.splits)

primrec port_exit_ctx :: "port_exit \<Rightarrow> uri_ctx" where
  "port_exit_ctx (Port_Failed ctx) = ctx"
| "port_exit_ctx (Port_Stopped port_value ctx) = ctx"

lemma port_loop_facts:
  "ctx_text (port_exit_ctx (port_loop opts rest v ctx)) = ctx_text ctx
     \<and> ctx_out (port_exit_ctx (port_loop opts rest v ctx)) = ctx_out ctx
     \<and> ctx_scheme (port_exit_ctx (port_loop opts rest v ctx)) = ctx_scheme ctx
     \<and> ctx_pos (port_exit_ctx (port_loop opts rest v ctx)) \<le> ctx_pos ctx + length rest"
proof (induction rest arbitrary: v ctx)
  case (Cons c rest)
  show ?case
    using Cons.IH [of "v * 10 + of_nat (ord c - 48)" "move 1 ctx"] Cons.IH [of v "move 1 (warn us_invalid_character ctx)"]
    by (simp add: Let_def)
qed simp

lemma parse_port_facts:
  "parse_port sg opts ctx = Some ctx' \<Longrightarrow> ctx_pos ctx \<le> length (ctx_text ctx) \<Longrightarrow>
     ctx_text ctx' = ctx_text ctx \<and> ctx_scheme ctx' = ctx_scheme ctx \<and> ctx_pos ctx' \<le> length (ctx_text ctx)"
  using port_loop_facts [of opts "drop (ctx_pos ctx) (ctx_text ctx)" 0 ctx]
  by (auto simp: parse_port_def bind_eq_Some_conv dest!: set_value_facts split: if_splits port_exit.splits)

lemma cur_in: "cur ctx = Some c \<longleftrightarrow> ctx_pos ctx < length (ctx_text ctx) \<and> c = ctx_text ctx ! ctx_pos ctx"
  by (auto simp: cur_def load_def)

lemma after_switch_continues: "after_switch opts is_special st ctx \<noteq> Au_Continue st'"
  by (simp add: after_switch_def)

lemma authority_switch_continues:
  assumes "authority_switch sg opts is_special authority_begin st ctx c = Some (Au_Continue st')" "ctx_pos ctx < length (ctx_text ctx)"
  shows "ctx_pos ctx < ctx_pos (au_ctx st') \<and> ctx_text (au_ctx st') = ctx_text ctx \<and> ctx_pos (au_ctx st') \<le> length (ctx_text ctx)"
  using assms
  by (auto simp: authority_switch_def authority_colon_def authority_tail_mark_def authority_at_sign_def authority_nul_def
      bad_code_point_def after_switch_continues Let_def bind_eq_Some_conv
      dest!: validate_percent_encode_facts parse_credentials_facts parse_port_facts split: if_splits)

lemma authority_step_continues:
  assumes "authority_step sg opts is_special authority_begin st = Some (Au_Continue st')"
  shows "ctx_pos (au_ctx st) < ctx_pos (au_ctx st') \<and> ctx_text (au_ctx st') = ctx_text (au_ctx st)
    \<and> ctx_pos (au_ctx st) < length (ctx_text (au_ctx st))"
  using assms
  by (auto simp: authority_step_def bind_eq_Some_conv cur_in dest!: find_next_facts authority_switch_continues split: if_splits)

section \<open>The loop\<close>

function authority_loop ::
  "bool \<Rightarrow> uri_parsing_options \<Rightarrow> bool \<Rightarrow> nat \<Rightarrow> authority_state \<Rightarrow> authority_exit option" where
  "authority_loop sg opts is_special authority_begin st =
     (case authority_step sg opts is_special authority_begin st of
        None \<Rightarrow> None
      | Some (Au_Continue st) \<Rightarrow> authority_loop sg opts is_special authority_begin st
      | Some (Au_Break st) \<Rightarrow> Some (Au_Break st)
      | Some (Au_Return ctx) \<Rightarrow> Some (Au_Return ctx))"
  by pat_completeness auto
termination
  by (relation "measure (\<lambda>(sg, opts, is_special, authority_begin, st). length (ctx_text (au_ctx st)) - ctx_pos (au_ctx st))")
    (auto dest!: authority_step_continues)

declare authority_loop.simps [simp del]

definition end_of_host :: "authority_state \<Rightarrow> uri_ctx \<Rightarrow> uri_ctx option" where
  "end_of_host st ctx =
     map_option (\<lambda>ctx. if au_skip_last_char st then move 1 ctx else ctx)
       (set_value comp_host (au_host_begin st) (ctx_pos ctx) ctx)"

definition finish_host :: "uri_parsing_options \<Rightarrow> authority_state \<Rightarrow> uri_ctx option" where
  "finish_host opts st =
     (let ctx = au_ctx st in
      if ctx_pos ctx = 0 then None
      else Option.bind (is_possible_ends_with_ipv4 opts (au_host_begin st) (ctx_pos ctx - 1) ctx) (\<lambda>(possible, ctx).
        if possible then
          Option.bind (sub_view (ctx_text ctx) (au_host_begin st) (ctx_pos ctx)) (\<lambda>host.
          Option.bind (parse_host_ipv4 opts host (replicate 4 0) (ctx_status ctx)) (\<lambda>(should_continue, ipv4_octets_data, status).
            if \<not> should_continue then Some (ctx\<lparr>ctx_status := status\<rparr>)
            else end_of_host st (ctx\<lparr>ctx_status := status\<rparr>)))
        else end_of_host st ctx))"

definition parse_authority_pieces :: "bool \<Rightarrow> uri_parsing_options \<Rightarrow> bool \<Rightarrow> uri_ctx \<Rightarrow> uri_ctx option" where
  "parse_authority_pieces sg opts is_special ctx =
     Option.bind (authority_loop sg opts is_special (ctx_pos ctx)
         \<lparr>au_ctx = ctx, au_host_begin = ctx_pos ctx, au_colon_pos = None, au_skip_last_char = False,
          au_must_contain_credentials = False\<rparr>) (\<lambda>e.
       case e of
         Au_Return ctx \<Rightarrow> Some ctx
       | Au_Break st \<Rightarrow> finish_host opts st
       | Au_Continue st \<Rightarrow> None)"

section \<open>The host of a file\<close>

text \<open>Back to the last slash, or to the start of the text.\<close>

fun back_to_slash :: "string \<Rightarrow> nat \<Rightarrow> nat option" where
  "back_to_slash str pos =
     Option.bind (load str pos) (\<lambda>c.
       if c = CHR ''/'' \<or> c = CHR 0x5C then Some pos
       else case pos of 0 \<Rightarrow> None | Suc pos \<Rightarrow> if pos = 0 then Some pos else back_to_slash str pos)"

declare back_to_slash.simps [simp del]

definition file_host_options :: "uri_parsing_options \<Rightarrow> uri_parsing_options" where
  "file_host_options opts = opts\<lparr>parse_credentails := False, empty_host_is_error := False, option_parse_port := False\<rparr>"

definition parse_file_host :: "bool \<Rightarrow> uri_parsing_options \<Rightarrow> uri_ctx \<Rightarrow> uri_ctx option" where
  "parse_file_host sg opts ctx =
     Option.bind (if handle_windows_drive_letters opts
                  then starts_with_windows_driver_letter opts (ctx_text ctx) (ctx_pos ctx) else Some False) (\<lambda>drive.
       if drive then
         Option.bind (back_to_slash (ctx_text ctx) (ctx_pos ctx)) (\<lambda>pos.
           Some (valid_as us_valid_path (warn us_windows_drive_letter_as_host (ctx\<lparr>ctx_pos := pos\<rparr>))))
       else
         Option.bind (parse_authority_pieces sg (file_host_options opts) True ctx) (\<lambda>ctx.
           let ctx = (if has_value comp_host ctx
                         \<and> iiequals_fl TABS_OR_NEWLINES ''localhost'' (get_output_from comp_host (ctx_out ctx))
                      then clear_value comp_host ctx else ctx) in
           Option.bind (if handle_windows_drive_letters opts
                        then starts_with_windows_driver_letter opts (ctx_text ctx) (ctx_pos ctx) else Some False) (\<lambda>drive.
             Some (if drive then warn us_windows_drive_letter_as_host ctx else ctx))))"

section \<open>The end of an authority\<close>

fun special_authority_end :: "uri_parsing_options \<Rightarrow> string \<Rightarrow> uri_ctx \<Rightarrow> uri_ctx option" where
  "special_authority_end opts [] ctx = None"
| "special_authority_end opts (c # rest) ctx =
     (if is_tab c then
        (if ignore_tabs_or_newlines opts then special_authority_end opts rest (move 1 (warn us_invalid_character ctx))
         else Some (valid_as us_valid_path ctx))
      else if c = CHR 0x5C then Some (valid_as us_valid_path (warn us_reverse_solidus_used ctx))
      else Some (valid_as us_valid_path ctx))"

fun other_authority_end :: "uri_parsing_options \<Rightarrow> string \<Rightarrow> uri_ctx \<Rightarrow> uri_ctx option" where
  "other_authority_end opts [] ctx = None"
| "other_authority_end opts (c # rest) ctx =
     (if c = CHR ''?'' then
        Some (if option_parse_queries opts then clear_value comp_queries (move 1 (valid_as us_valid_queries ctx))
              else warn us_invalid_character ctx)
      else if c = CHR ''#'' then
        Some (if option_parse_fragment opts then clear_value comp_fragment (move 1 (valid_as us_valid_fragment ctx))
              else warn us_invalid_character ctx)
      else if is_tab c \<and> ignore_tabs_or_newlines opts then
        other_authority_end opts rest (move 1 (warn us_invalid_character ctx))
      else Some (clear_value comp_path (valid_as us_valid_path ctx)))"

definition parse_authority_end :: "uri_parsing_options \<Rightarrow> uri_ctx \<Rightarrow> uri_ctx option" where
  "parse_authority_end opts ctx =
     (if at_end ctx then Some (valid_as us_valid ctx)
      else if is_special_scheme_type (ctx_scheme ctx) then
        special_authority_end opts (drop (ctx_pos ctx) (ctx_text ctx)) ctx
      else other_authority_end opts (drop (ctx_pos ctx) (ctx_text ctx)) ctx)"

section \<open>The authority\<close>

definition host_missing_or_valid :: "uri_parsing_options \<Rightarrow> uri_ctx \<Rightarrow> uri_ctx" where
  "host_missing_or_valid opts ctx =
     (if empty_host_is_error opts then fail_as us_host_missing ctx else valid_as us_valid ctx)"

text \<open>The start of an authority: \<open>Inl\<close> a context to return, or \<open>Inr\<close> one to go on with.\<close>

fun authority_start :: "uri_parsing_options \<Rightarrow> string \<Rightarrow> uri_ctx \<Rightarrow> (uri_ctx + uri_ctx) option" where
  "authority_start opts [] ctx = None"
| "authority_start opts (c # rest) ctx =
     (if c = CHR '':'' then
        Some (if \<not> parse_credentails opts then Inl (host_missing_or_valid opts ctx) else Inr ctx)
      else if c = CHR 0x00 then Some (if eof_is_valid opts then Inr ctx else Inl (host_missing_or_valid opts ctx))
      else if c = CHR ''?'' \<and> \<not> is_special_scheme_type (ctx_scheme ctx) then Some (Inr ctx)
      else if c \<in> set ''?/#'' \<or> c = CHR 0x5C then
        Some (if empty_host_is_error opts then
                (if is_special_scheme_type (ctx_scheme ctx) then Inl (fail_as us_host_missing ctx)
                 else Inr (valid_as us_valid ctx))
              else Inl (valid_as us_valid ctx))
      else if is_tab c \<and> ignore_tabs_or_newlines opts then
        authority_start opts rest (move 1 (warn us_invalid_character ctx))
      else Some (Inr ctx))"

definition parse_authority :: "bool \<Rightarrow> uri_parsing_options \<Rightarrow> uri_ctx \<Rightarrow> uri_ctx option" where
  "parse_authority sg opts ctx =
     (if at_end ctx then Some (host_missing_or_valid opts ctx)
      else if allow_file_hosts opts \<and> is_file_scheme_type (ctx_scheme ctx) then
        parse_file_host sg standard_uri_parsing_options ctx
      else Option.bind (authority_start opts (drop (ctx_pos ctx) (ctx_text ctx)) ctx) (\<lambda>e.
        case e of
          Inl ctx \<Rightarrow> Some ctx
        | Inr ctx \<Rightarrow> parse_authority_pieces sg opts (is_special_scheme_type (ctx_scheme ctx)) ctx))"

end
