(* ===== verification/Uri_Tail.thy ===== *)
theory Uri_Tail
  imports Uri_Authority
begin

unbundle bit_operations_syntax

text \<open>
  The parsers of a path in \<^verbatim>\<open>webpp/uri/path.hpp\<close>, of the queries in \<^verbatim>\<open>webpp/uri/queries.hpp\<close> and of a
  fragment in \<^verbatim>\<open>webpp/uri/fragment.hpp\<close>, with the start of a path that is a Windows drive letter. A step of a loop
  goes on with a context, breaks out of the loop, or returns from the function.
\<close>

datatype tail_exit = Tail_Continue uri_ctx | Tail_Break uri_ctx | Tail_Return uri_ctx

section \<open>Drive letters at the start of a path\<close>

text \<open>
  The position after at most three characters, and the characters; a tab that is not ignored ends the
  function (\<^const>\<open>None\<close>), with the warnings so far.
\<close>

fun path_drive_letters ::
  "bool \<Rightarrow> string \<Rightarrow> nat \<Rightarrow> char list \<Rightarrow> uri_ctx \<Rightarrow> (nat \<times> char list) option \<times> uri_ctx" where
  "path_drive_letters ignore [] pos letters ctx = (Some (pos, letters), ctx)"
| "path_drive_letters ignore (c # rest) pos letters ctx =
     (if length letters = 3 then (Some (pos, letters), ctx)
      else if is_tab c then
        (if ignore then path_drive_letters ignore rest (Suc pos) letters (warn us_invalid_character ctx) else (None, ctx))
      else
        let ctx = (if c = CHR 0x5C then warn us_reverse_solidus_used ctx else ctx) in
        path_drive_letters ignore rest (Suc pos)
          (if (c = CHR 0x5C \<or> c = CHR ''/'') \<and> letters = [] then letters else letters @ [c]) ctx)"

text \<open>
  The encoder moves over the separator and two letters, then to the character before the position, and
  over a slash after the letters.
\<close>

definition use_drive_letter :: "nat \<Rightarrow> bool \<Rightarrow> uri_ctx \<Rightarrow> uri_ctx" where
  "use_drive_letter pos slash ctx =
     (let ctx = move 1 (move 1 (move 1 (warn us_windows_drive_letter_used ctx)));
          ctx = ctx\<lparr>ctx_pos := ctx_pos ctx + pos - ctx_pos ctx - 1\<rparr>
      in if slash then move 0 (move 1 ctx) else ctx)"

definition handle_windows_driver_letter :: "uri_parsing_options \<Rightarrow> uri_ctx \<Rightarrow> uri_ctx option" where
  "handle_windows_driver_letter opts ctx =
     (if \<not> handle_windows_drive_letters opts \<or> \<not> is_file_scheme_type (ctx_scheme ctx) then Some ctx
      else if length (ctx_text ctx) < ctx_pos ctx then None
      else if length (ctx_text ctx) - ctx_pos ctx < 2 then Some ctx
      else if length (ctx_text ctx) - ctx_pos ctx = 2 then
        Option.bind (has_windows_driver_letter (ctx_text ctx) (ctx_pos ctx)) (\<lambda>found.
          Some (if found then use_drive_letter (ctx_pos ctx + 2) False ctx else ctx))
      else
        case path_drive_letters (ignore_tabs_or_newlines opts) (drop (ctx_pos ctx) (ctx_text ctx)) (ctx_pos ctx) [] ctx of
          (None, ctx) \<Rightarrow> Some ctx
        | (Some (pos, letters), ctx) \<Rightarrow>
            Option.bind (has_windows_driver_letter (pad3 letters) 0) (\<lambda>found. Some (
              if \<not> found then ctx
              else if pad3 letters ! 2 = CHR ''/'' \<or> pad3 letters ! 2 = CHR 0x5C then use_drive_letter pos True ctx
              else if pad3 letters ! 2 = CHR ''?'' \<or> pad3 letters ! 2 = CHR ''#'' then use_drive_letter (pos - 1) False ctx
              else ctx)))"

section \<open>Dots in a path\<close>

text \<open>
  The number of dots of a segment, of eight bits, or \<^const>\<open>None\<close> for an ordinary segment. A segment is not removed from a
  view: then the result only tells that there are one or two dots.
\<close>

fun count_dots :: "bool \<Rightarrow> string \<Rightarrow> u8 \<Rightarrow> char \<Rightarrow> u8 option" where
  "count_dots ignore [] dots prev = Some dots"
| "count_dots ignore (c # rest) dots prev =
     (if c = CHR ''%'' then (if prev \<noteq> CHR 0x00 then None else count_dots ignore rest dots (CHR ''%''))
      else if c = CHR ''2'' then (if prev \<noteq> CHR ''%'' then None else count_dots ignore rest dots (CHR ''2''))
      else if c = CHR ''e'' \<or> c = CHR ''E'' then
        (if prev \<noteq> CHR ''2'' then None else count_dots ignore rest (dots + 1) (CHR 0x00))
      else if c = CHR ''.'' then count_dots ignore rest (dots + 1) prev
      else if is_tab c \<and> ignore then count_dots ignore rest dots prev
      else None)"

definition handle_dots_in_paths :: "uri_parsing_options \<Rightarrow> nat \<Rightarrow> uri_ctx \<Rightarrow> bool option" where
  "handle_dots_in_paths opts segment_begin ctx =
     (if \<not> option_handle_dots_in_paths opts then Some False
      else map_option (\<lambda>segment. count_dots (ignore_tabs_or_newlines opts) segment 0 (CHR 0x00) \<in> {Some 1, Some 2})
             (sub_view (ctx_text ctx) segment_begin (ctx_pos ctx)))"

section \<open>Loops\<close>

text \<open>What the loops of the parsers have in common: a step that continues moves on in the text.\<close>

locale tail_loop =
  fixes one_step :: "uri_ctx \<Rightarrow> tail_exit option" and run :: "uri_ctx \<Rightarrow> tail_exit option"
  assumes run_step:
      "run ctx = (case one_step ctx of
         None \<Rightarrow> None
       | Some (Tail_Continue ctx) \<Rightarrow> run ctx
       | Some (Tail_Break ctx) \<Rightarrow> Some (Tail_Break ctx)
       | Some (Tail_Return ctx) \<Rightarrow> Some (Tail_Return ctx))"
    and moves_on:
      "one_step ctx = Some (Tail_Continue ctx') \<Longrightarrow>
         ctx_pos ctx < ctx_pos ctx' \<and> ctx_text ctx' = ctx_text ctx \<and> ctx_pos ctx < length (ctx_text ctx)"
begin

lemma run_invariant:
  assumes "\<And>ctx ctx'. keeps ctx \<Longrightarrow> one_step ctx = Some (Tail_Continue ctx') \<Longrightarrow> keeps ctx'"
    and "\<And>ctx ctx'. keeps ctx \<Longrightarrow> one_step ctx = Some (Tail_Break ctx') \<Longrightarrow> broken ctx'"
    and "\<And>ctx ctx'. keeps ctx \<Longrightarrow> one_step ctx = Some (Tail_Return ctx') \<Longrightarrow> returned ctx'"
  shows "run ctx = Some e \<Longrightarrow> keeps ctx \<Longrightarrow>
    (case e of Tail_Continue ctx' \<Rightarrow> False | Tail_Break ctx' \<Rightarrow> broken ctx' | Tail_Return ctx' \<Rightarrow> returned ctx')"
proof (induction "length (ctx_text ctx) - ctx_pos ctx" arbitrary: ctx rule: less_induct)
  case less
  obtain s where s: "one_step ctx = Some s"
    using less.prems(1) run_step [of ctx] by (cases "one_step ctx") auto
  show ?case
  proof (cases s)
    case (Tail_Continue ctx')
    have "length (ctx_text ctx') - ctx_pos ctx' < length (ctx_text ctx) - ctx_pos ctx" "run ctx' = Some e"
      using moves_on [OF s [unfolded Tail_Continue]] less.prems(1) run_step [of ctx] s Tail_Continue by auto
    then show ?thesis
      using less.hyps assms(1) [OF less.prems(2) s [unfolded Tail_Continue]] by blast
  qed (use less.prems run_step [of ctx] s assms(2,3) in auto)
qed

end

section \<open>Opaque paths\<close>

definition opaque_characters :: "char list" where
  "opaque_characters = [CHR 0x00, CHR ''%'', CHR ''#'', CHR ''?'', CHR 0x0D, CHR 0x09, CHR 0x0A]"

definition opaque_step :: "uri_parsing_options \<Rightarrow> nat \<Rightarrow> uri_ctx \<Rightarrow> tail_exit option" where
  "opaque_step opts beg ctx =
     Option.bind (find_next opaque_characters ctx) (\<lambda>(fin, ctx).
       if fin then map_option Tail_Return (set_value comp_path beg (ctx_pos ctx) (valid_as us_valid ctx))
       else Option.bind (cur ctx) (\<lambda>c.
         if c = CHR 0x00 then
           Some (if eof_is_valid opts then Tail_Break (valid_as us_valid ctx)
                 else Tail_Continue (warn us_invalid_character (move 1 ctx)))
         else if c = CHR ''?'' then Some (Tail_Break (valid_as us_valid_queries (clear_value comp_queries ctx)))
         else if c = CHR ''#'' then Some (Tail_Break (valid_as us_valid_fragment (clear_value comp_fragment ctx)))
         else if c = CHR ''%'' then
           Option.bind (validate_percent_encode (ignore_tabs_or_newlines opts) ctx) (\<lambda>(valid, ctx).
             Some (Tail_Continue (if valid then ctx else warn us_invalid_character (move 1 ctx))))
         else Some (Tail_Continue (warn us_invalid_character (move 1 ctx)))))"

lemma opaque_step_continues:
  assumes "opaque_step opts beg ctx = Some (Tail_Continue ctx')"
  shows "ctx_pos ctx < ctx_pos ctx' \<and> ctx_text ctx' = ctx_text ctx \<and> ctx_pos ctx < length (ctx_text ctx)"
proof -
  obtain ctx1 where f: "find_next opaque_characters ctx = Some (False, ctx1)" and c: "ctx_pos ctx1 < length (ctx_text ctx1)"
    and r: "ctx_pos ctx1 < ctx_pos ctx' \<and> ctx_text ctx' = ctx_text ctx1"
    using assms
    by (simp add: opaque_step_def bind_eq_Some_conv split: if_split_asm prod.split_asm)
      (auto simp: bind_eq_Some_conv cur_in dest!: validate_percent_encode_facts)
  then show ?thesis
    using find_next_facts [OF f] by auto
qed

function opaque_loop :: "uri_parsing_options \<Rightarrow> nat \<Rightarrow> uri_ctx \<Rightarrow> tail_exit option" where
  "opaque_loop opts beg ctx =
     (case opaque_step opts beg ctx of
        None \<Rightarrow> None
      | Some (Tail_Continue ctx) \<Rightarrow> opaque_loop opts beg ctx
      | Some (Tail_Break ctx) \<Rightarrow> Some (Tail_Break ctx)
      | Some (Tail_Return ctx) \<Rightarrow> Some (Tail_Return ctx))"
  by pat_completeness auto
termination
  by (relation "measure (\<lambda>(opts, beg, ctx). length (ctx_text ctx) - ctx_pos ctx)") (auto dest!: opaque_step_continues)

declare opaque_loop.simps [simp del]

interpretation opaque_run: tail_loop "opaque_step opts beg" "opaque_loop opts beg" for opts beg
  by unfold_locales (rule opaque_loop.simps, rule opaque_step_continues)

definition parse_opaque_path :: "uri_parsing_options \<Rightarrow> uri_ctx \<Rightarrow> uri_ctx option" where
  "parse_opaque_path opts ctx =
     Option.bind (opaque_loop opts (ctx_pos ctx) ctx) (\<lambda>e.
       case e of
         Tail_Break ctx' \<Rightarrow> map_option (move 1) (set_value comp_path (ctx_pos ctx) (ctx_pos ctx') ctx')
       | Tail_Return ctx \<Rightarrow> Some ctx
       | Tail_Continue ctx \<Rightarrow> None)"

section \<open>Paths\<close>

definition path_characters :: "char list" where
  "path_characters =
     [CHR 0x5C, CHR 0x00, CHR ''/'', CHR ''?'', CHR ''#'', CHR ''%'', CHR 0x0D, CHR 0x0A, CHR 0x09]"

text \<open>Both answers about the dots of a segment move over the slash: only an output that can be modified differs.\<close>

definition path_step :: "uri_parsing_options \<Rightarrow> nat \<Rightarrow> uri_ctx \<Rightarrow> tail_exit option" where
  "path_step opts beg ctx =
     Option.bind (find_next path_characters ctx) (\<lambda>(fin, ctx).
       if fin then Some (Tail_Break ctx)
       else Option.bind (cur ctx) (\<lambda>c.
         if c = CHR 0x5C \<or> c = CHR ''/'' then
           (let ctx = (if c = CHR 0x5C then warn us_reverse_solidus_used ctx else ctx) in
            Option.bind (handle_dots_in_paths opts beg ctx) (\<lambda>dots.
              if dots then Some (Tail_Continue (move 1 ctx)) else Some (Tail_Continue (move 1 ctx))))
         else if c = CHR ''?'' then Some (Tail_Break (valid_as us_valid_queries ctx))
         else if c = CHR ''#'' then Some (Tail_Break (valid_as us_valid_fragment ctx))
         else if c = CHR ''%'' then
           Option.bind (validate_percent_encode (ignore_tabs_or_newlines opts) ctx) (\<lambda>(valid, ctx).
             Some (Tail_Continue (if valid then ctx else warn us_invalid_character ctx)))
         else if is_tab c then
           Some (if ignore_tabs_or_newlines opts then Tail_Continue (move 1 (warn us_invalid_character ctx))
                 else Tail_Break (warn us_invalid_character ctx))
         else if c = CHR 0x00 \<and> eof_is_valid opts then Some (Tail_Break ctx)
         else Some (Tail_Break (warn us_invalid_character ctx))))"

lemma path_step_continues:
  assumes "path_step opts beg ctx = Some (Tail_Continue ctx')"
  shows "ctx_pos ctx < ctx_pos ctx' \<and> ctx_text ctx' = ctx_text ctx \<and> ctx_pos ctx < length (ctx_text ctx)"
proof -
  obtain ctx1 c where f: "find_next path_characters ctx = Some (False, ctx1)" and c: "cur ctx1 = Some c"
    using assms by (auto simp: path_step_def bind_eq_Some_conv split: if_split_asm)
  have pos: "ctx_pos ctx1 < length (ctx_text ctx1)" using c by (simp add: cur_in)
  have "ctx_pos ctx1 < ctx_pos ctx' \<and> ctx_text ctx' = ctx_text ctx1"
    using assms
    by (simp add: path_step_def f c Let_def split: if_split_asm)
      (auto simp: bind_eq_Some_conv dest!: validate_percent_encode_facts [OF _ pos] split: if_split_asm)
  then show ?thesis
    using find_next_facts [OF f] pos by auto
qed

function path_loop :: "uri_parsing_options \<Rightarrow> nat \<Rightarrow> uri_ctx \<Rightarrow> tail_exit option" where
  "path_loop opts beg ctx =
     (case path_step opts beg ctx of
        None \<Rightarrow> None
      | Some (Tail_Continue ctx) \<Rightarrow> path_loop opts beg ctx
      | Some (Tail_Break ctx) \<Rightarrow> Some (Tail_Break ctx)
      | Some (Tail_Return ctx) \<Rightarrow> Some (Tail_Return ctx))"
  by pat_completeness auto
termination
  by (relation "measure (\<lambda>(opts, beg, ctx). length (ctx_text ctx) - ctx_pos ctx)") (auto dest!: path_step_continues)

declare path_loop.simps [simp del]

interpretation path_run: tail_loop "path_step opts beg" "path_loop opts beg" for opts beg
  by unfold_locales (rule path_loop.simps, rule path_step_continues)

definition parse_path :: "uri_parsing_options \<Rightarrow> uri_ctx \<Rightarrow> uri_ctx option" where
  "parse_path opts ctx =
     (if \<not> is_special_scheme_type (ctx_scheme ctx) then parse_opaque_path opts ctx
      else
        let beg = ctx_pos ctx in
        Option.bind (handle_windows_driver_letter opts ctx) (\<lambda>ctx.
        Option.bind (path_loop opts beg ctx) (\<lambda>e.
          case e of
            Tail_Break ctx \<Rightarrow>
              Option.bind (handle_dots_in_paths opts beg ctx) (\<lambda>_.
              Option.bind (set_value comp_path beg (ctx_pos ctx) ctx) (\<lambda>ctx.
                if at_end ctx then Some (valid_as us_valid ctx)
                else Option.bind (cur ctx) (\<lambda>c.
                  Some (if eof_is_valid opts \<and> c \<noteq> CHR 0x00 then move 1 ctx else valid_as us_valid ctx))))
          | _ \<Rightarrow> None)))"

section \<open>Queries\<close>

definition query_characters :: "char list" where
  "query_characters = [CHR ''#'', CHR ''%'', CHR 0x0D, CHR 0x0A, CHR 0x09, CHR 0x00]"

definition queries_step :: "uri_parsing_options \<Rightarrow> uri_ctx \<Rightarrow> tail_exit option" where
  "queries_step opts ctx =
     Option.bind (find_next query_characters ctx) (\<lambda>(fin, ctx).
       if fin then Some (Tail_Break ctx)
       else Option.bind (cur ctx) (\<lambda>c.
         if c = CHR ''#'' then Some (Tail_Break (valid_as us_valid_fragment (clear_value comp_fragment ctx)))
         else if c = CHR ''%'' then
           Option.bind (validate_percent_encode (ignore_tabs_or_newlines opts) ctx) (\<lambda>(valid, ctx).
             Some (if valid then Tail_Continue ctx
                   else if allow_invalid_characters opts then Tail_Continue (warn us_invalid_character ctx)
                   else Tail_Return (fail_as us_invalid_queries_character ctx)))
         else if c = CHR 0x00 \<and> eof_is_valid opts then Some (Tail_Break ctx)
         else if ignore_tabs_or_newlines opts then Some (Tail_Continue (move 1 (warn us_invalid_character ctx)))
         else if allow_invalid_characters opts then Some (Tail_Continue (move 1 (warn us_invalid_character ctx)))
         else Some (Tail_Return (fail_as us_invalid_queries_character ctx))))"

lemma queries_step_continues:
  assumes "queries_step opts ctx = Some (Tail_Continue ctx')"
  shows "ctx_pos ctx < ctx_pos ctx' \<and> ctx_text ctx' = ctx_text ctx \<and> ctx_pos ctx < length (ctx_text ctx)"
proof -
  obtain ctx1 c where f: "find_next query_characters ctx = Some (False, ctx1)" and c: "cur ctx1 = Some c"
    using assms by (auto simp: queries_step_def bind_eq_Some_conv split: if_split_asm)
  have pos: "ctx_pos ctx1 < length (ctx_text ctx1)" using c by (simp add: cur_in)
  have "ctx_pos ctx1 < ctx_pos ctx' \<and> ctx_text ctx' = ctx_text ctx1"
    using assms
    by (simp add: queries_step_def f c split: if_split_asm)
      (auto simp: bind_eq_Some_conv dest!: validate_percent_encode_facts [OF _ pos] split: if_split_asm)
  then show ?thesis
    using find_next_facts [OF f] pos by auto
qed

function queries_loop :: "uri_parsing_options \<Rightarrow> uri_ctx \<Rightarrow> tail_exit option" where
  "queries_loop opts ctx =
     (case queries_step opts ctx of
        None \<Rightarrow> None
      | Some (Tail_Continue ctx) \<Rightarrow> queries_loop opts ctx
      | Some (Tail_Break ctx) \<Rightarrow> Some (Tail_Break ctx)
      | Some (Tail_Return ctx) \<Rightarrow> Some (Tail_Return ctx))"
  by pat_completeness auto
termination
  by (relation "measure (\<lambda>(opts, ctx). length (ctx_text ctx) - ctx_pos ctx)") (auto dest!: queries_step_continues)

declare queries_loop.simps [simp del]

interpretation queries_run: tail_loop "queries_step opts" "queries_loop opts" for opts
  by unfold_locales (rule queries_loop.simps, rule queries_step_continues)

definition parse_queries :: "uri_parsing_options \<Rightarrow> uri_ctx \<Rightarrow> uri_ctx option" where
  "parse_queries opts ctx =
     (if at_end ctx then Some (valid_as us_valid ctx)
      else if \<not> option_parse_queries opts then
        Some (if allow_invalid_characters opts then warn us_invalid_character ctx
              else fail_as us_invalid_queries_character ctx)
      else Option.bind (queries_loop opts ctx) (\<lambda>e.
        case e of
          Tail_Break ctx' \<Rightarrow>
            Option.bind (set_value comp_queries (ctx_pos ctx) (ctx_pos ctx') ctx') (\<lambda>ctx.
              Some (if at_end ctx then valid_as us_valid ctx else move 1 ctx))
        | Tail_Return ctx \<Rightarrow> Some ctx
        | Tail_Continue ctx \<Rightarrow> None))"

section \<open>Fragments\<close>

definition fragment_step :: "uri_parsing_options \<Rightarrow> uri_ctx \<Rightarrow> tail_exit option" where
  "fragment_step opts ctx =
     Option.bind (find_next [CHR ''%''] ctx) (\<lambda>(fin, ctx).
       if fin then Some (Tail_Break ctx)
       else Option.bind (cur ctx) (\<lambda>c.
         if c = CHR ''%'' then
           Option.bind (validate_percent_encode (ignore_tabs_or_newlines opts) ctx) (\<lambda>(valid, ctx).
             Some (Tail_Continue (if valid then ctx else warn us_invalid_character ctx)))
         else Some (Tail_Continue (warn us_invalid_character ctx))))"

lemma find_next_stops:
  assumes "find_next chars ctx = Some (False, ctx')" "cur ctx' = Some c"
  shows "c \<in> set chars"
proof -
  let ?rest = "drop (ctx_pos ctx) (ctx_text ctx)"
  let ?n = "length (takeWhile (\<lambda>c. c \<notin> set chars) ?rest)"
  have c': "ctx_pos ctx' = ctx_pos ctx + ?n" "ctx_text ctx' = ctx_text ctx" and le: "ctx_pos ctx \<le> length (ctx_text ctx)"
    using assms(1) by (auto simp: find_next_def Let_def split: if_splits)
  then have "?n < length ?rest" "c = ?rest ! ?n"
    using assms(2) by (auto simp: cur_in)
  then show ?thesis
    using nth_length_takeWhile [of "\<lambda>c. c \<notin> set chars" ?rest] by simp
qed

lemma fragment_step_continues:
  assumes "fragment_step opts ctx = Some (Tail_Continue ctx')"
  shows "ctx_pos ctx < ctx_pos ctx' \<and> ctx_text ctx' = ctx_text ctx \<and> ctx_pos ctx < length (ctx_text ctx)"
proof -
  obtain ctx1 c where f: "find_next [CHR ''%''] ctx = Some (False, ctx1)" and c: "cur ctx1 = Some c"
    using assms by (auto simp: fragment_step_def bind_eq_Some_conv split: if_splits)
  then have "c = CHR ''%''"
    using find_next_stops by fastforce
  then show ?thesis
    using assms f c
    by (auto simp: fragment_step_def bind_eq_Some_conv dest!: find_next_facts validate_percent_encode_facts
        cur_in [THEN iffD1])
qed

function fragment_loop :: "uri_parsing_options \<Rightarrow> uri_ctx \<Rightarrow> tail_exit option" where
  "fragment_loop opts ctx =
     (case fragment_step opts ctx of
        None \<Rightarrow> None
      | Some (Tail_Continue ctx) \<Rightarrow> fragment_loop opts ctx
      | Some (Tail_Break ctx) \<Rightarrow> Some (Tail_Break ctx)
      | Some (Tail_Return ctx) \<Rightarrow> Some (Tail_Return ctx))"
  by pat_completeness auto
termination
  by (relation "measure (\<lambda>(opts, ctx). length (ctx_text ctx) - ctx_pos ctx)") (auto dest!: fragment_step_continues)

declare fragment_loop.simps [simp del]

interpretation fragment_run: tail_loop "fragment_step opts" "fragment_loop opts" for opts
  by unfold_locales (rule fragment_loop.simps, rule fragment_step_continues)

definition parse_fragment :: "uri_parsing_options \<Rightarrow> uri_ctx \<Rightarrow> uri_ctx option" where
  "parse_fragment opts ctx =
     (if at_end ctx then Some (valid_as us_valid ctx)
      else if option_parse_fragment opts then
        Option.bind (fragment_loop opts ctx) (\<lambda>e.
          case e of
            Tail_Break ctx' \<Rightarrow>
              Option.bind (set_value comp_fragment (ctx_pos ctx) (ctx_pos ctx') ctx') (\<lambda>ctx. Some (valid_as us_valid ctx))
          | _ \<Rightarrow> None)
      else Some (warn us_invalid_character ctx))"

end
