(* ===== verification/Uri_Parser.thy ===== *)
theory Uri_Parser
  imports Uri_Scheme Uri_Tail
begin

unbundle bit_operations_syntax

text \<open>
  \<^verbatim>\<open>parse_uri\<close> of \<^verbatim>\<open>webpp/uri/uri.hpp\<close>: a loop that calls the parser of the component named by the
  status, until the status is an error or valid. The loop may run forever: then
  \<^verbatim>\<open>continue_parsing_uri\<close> is \<^const>\<open>None\<close>. Its result is \<^term>\<open>Some None\<close> when a parser
  accesses the text out of bounds, or when the status names no parser.
\<close>

definition parse_uri_step :: "bool \<Rightarrow> uri_parsing_options \<Rightarrow> uri_ctx \<Rightarrow> (bool \<times> uri_ctx) option" where
  "parse_uri_step sg opts ctx =
     (let continue_with = map_option (Pair False); v = get_value (ctx_status ctx) in
      if v = status_code us_valid \<or> v = status_code us_valid_punycode then Some (True, ctx)
      else if v = status_code us_valid_authority then continue_with (parse_authority sg opts ctx)
      else if v = status_code us_valid_file_host then
        (if allow_file_hosts opts then continue_with (parse_file_host sg opts ctx) else None)
      else if v = status_code us_valid_port then continue_with (parse_port sg opts ctx)
      else if v = status_code us_valid_authority_end then continue_with (parse_authority_end opts ctx)
      else if v = status_code us_valid_opaque_path then continue_with (parse_opaque_path opts ctx)
      else if v = status_code us_valid_path then continue_with (parse_path opts ctx)
      else if v = status_code us_valid_queries then continue_with (parse_queries opts ctx)
      else if v = status_code us_valid_fragment then continue_with (parse_fragment opts ctx)
      else if v = status_code us_unparsed then continue_with (parse_scheme sg opts ctx)
      else None)"

partial_function (option) continue_parsing_uri :: "bool \<Rightarrow> uri_parsing_options \<Rightarrow> uri_ctx \<Rightarrow> uri_ctx option option" where
  "continue_parsing_uri sg opts ctx =
     (if has_error (ctx_status ctx) then Some (Some ctx)
      else case parse_uri_step sg opts ctx of
             None \<Rightarrow> Some None
           | Some (finished, ctx) \<Rightarrow> if finished then Some (Some ctx) else continue_parsing_uri sg opts ctx)"

definition parse_uri :: "bool \<Rightarrow> uri_parsing_options \<Rightarrow> string \<Rightarrow> uri_ctx option option" where
  "parse_uri sg opts str = continue_parsing_uri sg opts (new_ctx str)"

end
