(* ===== verification/Uri_Views.thy ===== *)
theory Uri_Views
  imports Uri_Parser "HOL-Library.Sublist"
begin

text \<open>
  The components are views: every parser keeps the text of its context, and each component that it records is a
  part of that text.
\<close>

definition views :: "string \<Rightarrow> uri_ctx \<Rightarrow> bool" where
  "views str ctx \<longleftrightarrow> ctx_text ctx = str \<and> (\<forall>part. sublist (get_output_from part (ctx_out ctx)) str)"

named_theorems viewing "the parsers keep the views"

lemma get_set_value [simp]:
  "get_output_from p (set_value_to q v out) = (if p = q then v else get_output_from p out)"
  by (cases p; cases q) simp_all

lemma views_simps [simp]:
  "views str (move n ctx) = views str ctx" "views str (warn w ctx) = views str ctx"
  "views str (valid_as w ctx) = views str ctx" "views str (fail_as w ctx) = views str ctx"
  "views str (ctx\<lparr>ctx_pos := p\<rparr>) = views str ctx" "views str (ctx\<lparr>ctx_status := s\<rparr>) = views str ctx"
  "views str (ctx\<lparr>ctx_scheme := t\<rparr>) = views str ctx"
  by (simp_all add: views_def)

lemma views_clear [simp]: "views str ctx \<Longrightarrow> views str (clear_value part ctx)"
  by (simp add: views_def clear_value_def)

lemma views_set [viewing]: "set_value part b e ctx = Some ctx' \<Longrightarrow> views str ctx \<Longrightarrow> views str ctx'"
  using sublist_order.order_trans [OF sublist_take sublist_drop]
  by (auto simp: views_def dest!: set_value_facts)

lemma views_set_imp: "set_value part b e ctx = Some ctx' \<Longrightarrow> views str ctx \<longrightarrow> views str ctx'"
  by (blast intro: views_set)

lemma views_new [simp]: "views str (new_ctx str)"
  unfolding views_def new_ctx_def no_components_def
proof (intro conjI allI)
  fix part show "sublist (get_output_from part (ctx_out \<lparr>ctx_text = str, ctx_pos = 0,
     ctx_out = \<lparr>m_scheme = [], m_username = [], m_password = [], m_hostname = [], m_port = [], m_path = [],
     m_queries = [], m_fragment = []\<rparr>, ctx_status = status_code us_unparsed, ctx_scheme = not_special\<rparr>)) str"
    by (cases part) simp_all
qed simp

lemma views_same: "ctx_text ctx' = ctx_text ctx \<Longrightarrow> ctx_out ctx' = ctx_out ctx \<Longrightarrow> views str ctx' = views str ctx"
  by (simp add: views_def)

lemma views_inc [viewing]: "safely_inc_if opts arr ctx = (found, ctx') \<Longrightarrow> views str ctx \<Longrightarrow> views str ctx'"
  by (auto simp: safely_inc_if_def inc_if_def Let_def split: if_splits prod.splits)

lemma views_find_next [viewing]: "find_next chars ctx = Some (fin, ctx') \<Longrightarrow> views str ctx \<Longrightarrow> views str ctx'"
  by (auto dest!: find_next_facts simp: views_def)

lemma views_percent [viewing]:
  "validate_percent_encode check ctx = Some (valid, ctx') \<Longrightarrow> views str ctx \<Longrightarrow> views str ctx'"
  by (auto simp: validate_percent_encode_def Let_def bind_eq_Some_conv split: if_splits prod.splits)

section \<open>The scheme\<close>

lemma views_file_slash [viewing]: "file_slash_state opts ctx = Some ctx' \<Longrightarrow> views str ctx \<Longrightarrow> views str ctx'"
  by (auto simp: file_slash_state_def Let_def bind_eq_Some_conv split: if_splits)

lemma views_file_host_or_path [simp]: "views str (file_host_or_path opts ctx) = views str ctx"
  by (simp add: file_host_or_path_def)

lemma views_file_loop: "file_loop opts rest ctx = Some ctx' \<Longrightarrow> views str ctx \<Longrightarrow> views str ctx'"
  by (induction opts rest ctx rule: file_loop.induct) (auto split: if_splits dest: views_file_slash [where str = str])

lemma views_file_state [viewing]: "file_state opts ctx = Some ctx' \<Longrightarrow> views str ctx \<Longrightarrow> views str ctx'"
  unfolding file_state_def by (erule views_file_loop) simp

lemma views_ignore_slashes: "views str (ignore_slashes opts rest ctx) = views str ctx"
  by (induction opts rest ctx rule: ignore_slashes.induct) auto

lemma views_scheme_start: "scheme_start opts rest ctx = Some (alpha, ctx') \<Longrightarrow> views str ctx \<Longrightarrow> views str ctx'"
  by (induction opts rest ctx rule: scheme_start.induct) (auto split: if_splits)

lemma views_scheme_loop: "views str (snd (scheme_loop sg opts rest code ctx)) = views str ctx"
  by (induction sg opts rest code ctx rule: scheme_loop.induct) auto

lemma views_scheme_of_file [viewing]: "scheme_of_file opts ctx = Some ctx' \<Longrightarrow> views str ctx \<Longrightarrow> views str ctx'"
  by (auto simp: scheme_of_file_def Let_def split: prod.splits if_splits dest!: views_inc [where str = str] views_file_state [where str = str])

lemma views_scheme_of_other: "views str ctx \<Longrightarrow> views str (scheme_of_other opts ctx)"
  by (auto simp: scheme_of_other_def Let_def split: prod.splits dest!: views_inc [where str = str])

lemma views_scheme_of_special: "views str ctx \<Longrightarrow> views str (scheme_of_special opts ctx)"
  by (auto simp: scheme_of_special_def special_authority_ignore_slashes_state_def views_ignore_slashes Let_def
      split: prod.splits dest!: views_inc [where str = str])

lemma views_parse_scheme [viewing]:
  assumes "parse_scheme sg opts ctx = Some ctx'" "views str ctx"
  shows "views str ctx'"
proof (cases "at_end ctx")
  case False
  then obtain alpha ctx1 where s: "scheme_start opts (drop (ctx_pos ctx) (ctx_text ctx)) ctx = Some (alpha, ctx1)"
    using assms(1) by (auto simp: parse_scheme_def bind_eq_Some_conv)
  note v = views_scheme_start [OF s assms(2)]
  show ?thesis
  proof (cases alpha)
    case True
    define rest where "rest = drop (Suc (ctx_pos ctx1)) (ctx_text ctx1)"
    obtain c where c: "cur ctx1 = Some c"
      using assms(1) False s True by (auto simp: parse_scheme_def bind_eq_Some_conv)
    obtain code ctx2 where l: "scheme_loop sg opts rest (add_to_code sg 0 c) (move 1 ctx1) = (code, ctx2)"
      by fastforce
    have v2: "views str ctx2"
      using views_scheme_loop [of str sg opts rest "add_to_code sg 0 c" "move 1 ctx1"] l v by simp
    show ?thesis
      using assms(1) False s True c l v2
      by (auto simp: parse_scheme_def rest_def set_scheme_def bind_eq_Some_conv Let_def split: option.splits if_splits
          dest: views_set [where str = str] views_scheme_of_other [where str = str] views_scheme_of_special [where str = str] views_scheme_of_file [where str = str])
  qed (use assms(1) False s v in \<open>auto simp: parse_scheme_def no_scheme_state_def\<close>)
qed (use assms in \<open>auto simp: parse_scheme_def\<close>)

section \<open>The authority\<close>

lemma views_port_loop: "views str (port_exit_ctx (port_loop opts rest v ctx)) = views str ctx"
  using port_loop_facts [of opts rest v ctx] by (intro views_same) auto

lemma views_parse_port [viewing]: "parse_port sg opts ctx = Some ctx' \<Longrightarrow> views str ctx \<Longrightarrow> views str ctx'"
  using views_port_loop [of str opts "drop (ctx_pos ctx) (ctx_text ctx)" 0 ctx]
  by (auto simp: parse_port_def bind_eq_Some_conv split: if_splits port_exit.splits dest: views_set [where str = str])

lemma views_after_ipv6 [viewing]: "after_ipv6 ctx = Some ctx' \<Longrightarrow> views str ctx \<Longrightarrow> views str ctx'"
  by (auto simp: after_ipv6_def bind_eq_Some_conv split: if_splits)

lemma views_ipv6 [viewing]: "parse_host_ipv6 ctx = Some (b, ctx') \<Longrightarrow> views str ctx \<Longrightarrow> views str ctx'"
  by (auto simp: parse_host_ipv6_def Let_def bind_eq_Some_conv split: if_splits dest!: views_after_ipv6 [where str = str] views_set [where str = str])

lemma views_credentials [viewing]: "parse_credentials beg token ctx = Some ctx' \<Longrightarrow> views str ctx \<Longrightarrow> views str ctx'"
  by (auto simp: parse_credentials_def Let_def bind_eq_Some_conv split: if_splits option.splits
      dest!: views_set [where str = str, OF _ views_clear])

fun exit_views :: "string \<Rightarrow> authority_exit \<Rightarrow> bool" where
  "exit_views str (Au_Continue st) = views str (au_ctx st)"
| "exit_views str (Au_Break st) = views str (au_ctx st)"
| "exit_views str (Au_Return ctx) = views str ctx"

lemma views_after_switch [simp]: "exit_views str (after_switch opts is_special st ctx) = views str ctx"
  by (simp add: after_switch_def)

lemma views_authority_colon:
  assumes "authority_colon sg opts is_special st ctx = Some e" "views str ctx"
  shows "exit_views str e"
proof (cases "parse_credentails opts")
  case True
  obtain ctx1 where p: "parse_port sg standard_uri_parsing_options (valid_as us_valid_port (move 1 ctx)) = Some ctx1"
    using assms(1) True by (auto simp: authority_colon_def Let_def bind_eq_Some_conv)
  have v: "views str ctx1"
    using views_parse_port [OF p] assms(2) by simp
  show ?thesis
  proof (cases "has_error_of (ctx_status ctx1) us_port_invalid")
    case False
    then obtain ctx2 where h: "set_value comp_host (au_host_begin st) (ctx_pos ctx) ctx1 = Some ctx2"
      using assms(1) True p by (auto simp: authority_colon_def Let_def bind_eq_Some_conv)
    have "views str ctx2" using h v by (rule views_set)
    then show ?thesis
      using assms(1) True p False h by (simp add: authority_colon_def Let_def split: if_split_asm) auto
  qed (use assms(1) True p v in \<open>auto simp: authority_colon_def Let_def\<close>)
qed (use assms in \<open>simp add: authority_colon_def split: if_split_asm; auto\<close>)

lemma views_authority_switch:
  "authority_switch sg opts is_special authority_begin st ctx c = Some e \<Longrightarrow> views str ctx \<Longrightarrow> exit_views str e"
  by (simp add: authority_switch_def split: if_split_asm)
    (auto simp: authority_tail_mark_def authority_at_sign_def authority_nul_def bad_code_point_def Let_def bind_eq_Some_conv
      split: if_splits dest: views_authority_colon [where str = str] views_ipv6 [where str = str] views_percent [where str = str] views_credentials [where str = str])

lemma views_authority_step:
  "authority_step sg opts is_special authority_begin st = Some e \<Longrightarrow> views str (au_ctx st) \<Longrightarrow> exit_views str e"
  by (auto simp: authority_step_def bind_eq_Some_conv split: if_splits dest!: views_find_next [where str = str]
      intro: views_authority_switch [where str = str])

lemma views_authority_loop:
  "authority_loop sg opts is_special authority_begin st = Some e \<Longrightarrow> views str (au_ctx st) \<Longrightarrow> exit_views str e"
proof (induction sg opts is_special authority_begin st rule: authority_loop.induct)
  case (1 sg opts is_special authority_begin st)
  then show ?case
    using views_authority_step [of sg opts is_special authority_begin st _ str]
    by (subst (asm) authority_loop.simps) (fastforce split: option.splits authority_exit.splits)
qed

lemma views_skip_dots: "skip_dots multiple str' beg fin ctx = Some (r, ctx') \<Longrightarrow> views str ctx \<Longrightarrow> views str ctx'"
proof (induction multiple str' beg fin ctx rule: skip_dots.induct)
  case (1 multiple str' beg fin ctx)
  show ?case
    using 1(2,3) by (subst (asm) skip_dots.simps)
      (auto simp: Let_def bind_eq_Some_conv split: if_splits nat.splits intro: 1(1))
qed

lemma views_end_of_host: "end_of_host st ctx = Some ctx' \<Longrightarrow> views str ctx \<Longrightarrow> views str ctx'"
  by (auto simp: end_of_host_def dest!: views_set [where str = str] split: if_splits)

lemma views_possible [viewing]:
  "is_possible_ends_with_ipv4 opts beg fin ctx = Some (possible, ctx') \<Longrightarrow> views str ctx \<Longrightarrow> views str ctx'"
  by (auto simp: is_possible_ends_with_ipv4_def bind_eq_Some_conv split: option.splits dest: views_skip_dots [where str = str])

lemma views_finish_host:
  assumes "finish_host opts st = Some ctx'" "views str (au_ctx st)"
  shows "views str ctx'"
proof -
  let ?ctx = "au_ctx st"
  obtain possible ctx1 where p: "is_possible_ends_with_ipv4 opts (au_host_begin st) (ctx_pos ?ctx - 1) ?ctx = Some (possible, ctx1)"
    using assms(1) by (auto simp: finish_host_def Let_def bind_eq_Some_conv split: if_splits)
  then have "views str ctx1"
    using assms(2) by (rule views_possible)
  then show ?thesis
    using assms(1) p
    by (auto simp: finish_host_def Let_def bind_eq_Some_conv split: if_splits dest: views_end_of_host [where str = str])
qed

lemma views_pieces [viewing]:
  assumes "parse_authority_pieces sg opts is_special ctx = Some ctx'" "views str ctx"
  shows "views str ctx'"
proof -
  let ?st = "\<lparr>au_ctx = ctx, au_host_begin = ctx_pos ctx, au_colon_pos = None, au_skip_last_char = False,
          au_must_contain_credentials = False\<rparr>"
  obtain e where e: "authority_loop sg opts is_special (ctx_pos ctx) ?st = Some e"
    using assms(1) by (auto simp: parse_authority_pieces_def bind_eq_Some_conv)
  then have "exit_views str e"
    using assms(2) by (intro views_authority_loop [OF e]) simp
  then show ?thesis
    using assms(1) e by (cases e) (auto simp: parse_authority_pieces_def intro: views_finish_host)
qed

lemma views_file_host [viewing]: "parse_file_host sg opts ctx = Some ctx' \<Longrightarrow> views str ctx \<Longrightarrow> views str ctx'"
  by (auto simp: parse_file_host_def Let_def bind_eq_Some_conv split: if_splits dest!: views_pieces [where str = str])

lemma views_special_end: "special_authority_end opts rest ctx = Some ctx' \<Longrightarrow> views str ctx \<Longrightarrow> views str ctx'"
  by (induction opts rest ctx rule: special_authority_end.induct) (auto split: if_splits)

lemma views_other_end: "other_authority_end opts rest ctx = Some ctx' \<Longrightarrow> views str ctx \<Longrightarrow> views str ctx'"
  by (induction opts rest ctx rule: other_authority_end.induct) (auto split: if_splits)

lemma views_authority_end [viewing]: "parse_authority_end opts ctx = Some ctx' \<Longrightarrow> views str ctx \<Longrightarrow> views str ctx'"
  by (auto simp: parse_authority_end_def split: if_splits intro: views_special_end [where str = str] views_other_end [where str = str])

fun sum_views :: "string \<Rightarrow> uri_ctx + uri_ctx \<Rightarrow> bool" where
  "sum_views str (Inl ctx) = views str ctx"
| "sum_views str (Inr ctx) = views str ctx"

lemma views_authority_start: "authority_start opts rest ctx = Some e \<Longrightarrow> views str ctx \<Longrightarrow> sum_views str e"
proof (induction rest arbitrary: ctx)
  case (Cons c rest)
  have "e \<in> {Inl (host_missing_or_valid opts ctx), Inr ctx, Inl (fail_as us_host_missing ctx), Inr (valid_as us_valid ctx),
      Inl (valid_as us_valid ctx)} \<or> authority_start opts rest (move 1 (warn us_invalid_character ctx)) = Some e"
    using Cons.prems(1) by (simp only: authority_start.simps option.inject split: if_split_asm) blast+
  then show ?case
    using Cons.IH [of "move 1 (warn us_invalid_character ctx)"] Cons.prems(2) by (auto simp: host_missing_or_valid_def)
qed simp

lemma views_authority [viewing]:
  assumes "parse_authority sg opts ctx = Some ctx'" "views str ctx"
  shows "views str ctx'"
proof (cases "at_end ctx \<or> allow_file_hosts opts \<and> is_file_scheme_type (ctx_scheme ctx)")
  case True
  then show ?thesis
    using assms
    by (auto simp: parse_authority_def host_missing_or_valid_def split: if_splits dest: views_file_host [where str = str])
next
  case False
  then obtain e where e: "authority_start opts (drop (ctx_pos ctx) (ctx_text ctx)) ctx = Some e"
    using assms(1) by (auto simp: parse_authority_def bind_eq_Some_conv)
  show ?thesis
    using views_authority_start [OF e assms(2)] assms(1) e False
    by (cases e) (auto simp: parse_authority_def dest: views_pieces [where str = str])
qed

section \<open>The path, the queries and the fragment\<close>

fun tail_views :: "string \<Rightarrow> tail_exit \<Rightarrow> bool" where
  "tail_views str (Tail_Continue ctx) = views str ctx"
| "tail_views str (Tail_Break ctx) = views str ctx"
| "tail_views str (Tail_Return ctx) = views str ctx"

lemma views_letters: "views str (snd (path_drive_letters ignore rest pos letters ctx)) = views str ctx"
  by (induction ignore rest pos letters ctx rule: path_drive_letters.induct) (auto simp: Let_def)

lemma views_use_letter [simp]: "views str (use_drive_letter pos slash ctx) = views str ctx"
  by (simp add: use_drive_letter_def Let_def)

lemma views_handle_letter [viewing]: "handle_windows_driver_letter opts ctx = Some ctx' \<Longrightarrow> views str ctx \<Longrightarrow> views str ctx'"
  using views_letters [of str "ignore_tabs_or_newlines opts" "drop (ctx_pos ctx) (ctx_text ctx)" "ctx_pos ctx" "[]" ctx]
  by (auto simp: handle_windows_driver_letter_def bind_eq_Some_conv split: if_splits prod.splits option.splits)

lemma views_opaque_step:
  assumes "opaque_step opts beg ctx = Some e" "views str ctx"
  shows "tail_views str e"
proof -
  obtain fin ctx1 where f: "find_next opaque_characters ctx = Some (fin, ctx1)"
    using assms(1) by (auto simp: opaque_step_def bind_eq_Some_conv)
  note v = views_find_next [OF f assms(2)]
  show ?thesis
    using assms(1) v
    by (simp add: opaque_step_def f Let_def bind_eq_Some_conv split: if_split_asm)
      (auto simp: bind_eq_Some_conv split: if_splits
        dest: views_percent [where str = str] dest!: views_set_imp [where str = str])
qed

lemma views_path_step:
  assumes "path_step opts beg ctx = Some e" "views str ctx"
  shows "tail_views str e"
proof -
  obtain fin ctx1 where f: "find_next path_characters ctx = Some (fin, ctx1)"
    using assms(1) by (auto simp: path_step_def bind_eq_Some_conv)
  note v = views_find_next [OF f assms(2)]
  show ?thesis
  proof (cases fin)
    case False
    then obtain c where c: "cur ctx1 = Some c"
      using assms(1) by (auto simp: path_step_def f bind_eq_Some_conv)
    show ?thesis
      using assms(1) v False
      by (simp add: path_step_def f c Let_def split: if_split_asm)
        (auto simp: bind_eq_Some_conv dest: views_percent [where str = str] split: if_split_asm)
  qed (use assms(1) v f in \<open>auto simp: path_step_def\<close>)
qed

lemma views_queries_step:
  assumes "queries_step opts ctx = Some e" "views str ctx"
  shows "tail_views str e"
proof -
  obtain fin ctx1 where f: "find_next query_characters ctx = Some (fin, ctx1)"
    using assms(1) by (auto simp: queries_step_def bind_eq_Some_conv)
  note v = views_find_next [OF f assms(2)]
  show ?thesis
    using assms(1) v
    by (simp add: queries_step_def f Let_def bind_eq_Some_conv split: if_split_asm)
      (auto simp: bind_eq_Some_conv split: if_splits
        dest: views_percent [where str = str])
qed

lemma views_fragment_step:
  assumes "fragment_step opts ctx = Some e" "views str ctx"
  shows "tail_views str e"
proof -
  obtain fin ctx1 where f: "find_next [CHR ''%''] ctx = Some (fin, ctx1)"
    using assms(1) by (auto simp: fragment_step_def bind_eq_Some_conv)
  note v = views_find_next [OF f assms(2)]
  show ?thesis
    using assms(1) v
    by (simp add: fragment_step_def f Let_def bind_eq_Some_conv split: if_split_asm)
      (auto simp: bind_eq_Some_conv split: if_splits
        dest: views_percent [where str = str])
qed

context tail_loop begin

lemma run_views:
  assumes "\<And>ctx e. one_step ctx = Some e \<Longrightarrow> views str ctx \<Longrightarrow> tail_views str e"
  shows "run ctx = Some e \<Longrightarrow> views str ctx \<Longrightarrow> tail_views str e"
proof -
  have keeps: "views str ctx'" if "views str ctx" "one_step ctx = Some (Tail_Continue ctx')" for ctx ctx'
    using assms [OF that(2,1)] by simp
  have broken: "views str ctx'" if "views str ctx" "one_step ctx = Some (Tail_Break ctx')" for ctx ctx'
    using assms [OF that(2,1)] by simp
  have returned: "views str ctx'" if "views str ctx" "one_step ctx = Some (Tail_Return ctx')" for ctx ctx'
    using assms [OF that(2,1)] by simp
  assume r: "run ctx = Some e" "views str ctx"
  have "case e of Tail_Continue ctx' \<Rightarrow> False | Tail_Break ctx' \<Rightarrow> views str ctx' | Tail_Return ctx' \<Rightarrow> views str ctx'"
    by (rule run_invariant [where keeps = "views str", OF _ _ _ r]) (fact keeps, fact broken, fact returned)
  then show ?thesis by (cases e) simp_all
qed

end

lemma views_opaque_loop: "opaque_loop opts beg ctx = Some e \<Longrightarrow> views str ctx \<Longrightarrow> tail_views str e"
  by (rule opaque_run.run_views) (rule views_opaque_step | assumption)+

lemma views_path_loop: "path_loop opts beg ctx = Some e \<Longrightarrow> views str ctx \<Longrightarrow> tail_views str e"
  by (rule path_run.run_views) (rule views_path_step | assumption)+

lemma views_queries_loop: "queries_loop opts ctx = Some e \<Longrightarrow> views str ctx \<Longrightarrow> tail_views str e"
  by (rule queries_run.run_views) (rule views_queries_step | assumption)+

lemma views_fragment_loop: "fragment_loop opts ctx = Some e \<Longrightarrow> views str ctx \<Longrightarrow> tail_views str e"
  by (rule fragment_run.run_views) (rule views_fragment_step | assumption)+

lemma views_opaque [viewing]:
  assumes "parse_opaque_path opts ctx = Some ctx'" "views str ctx"
  shows "views str ctx'"
proof -
  obtain e where e: "opaque_loop opts (ctx_pos ctx) ctx = Some e"
    using assms(1) by (auto simp: parse_opaque_path_def bind_eq_Some_conv)
  show ?thesis
    using views_opaque_loop [OF e assms(2)] assms(1) e
    by (cases e) (auto simp: parse_opaque_path_def dest!: views_set_imp [where str = str])
qed

lemma views_path [viewing]:
  assumes "parse_path opts ctx = Some ctx'" "views str ctx"
  shows "views str ctx'"
proof (cases "is_special_scheme_type (ctx_scheme ctx)")
  case True
  then obtain ctx1 e where h: "handle_windows_driver_letter opts ctx = Some ctx1" and e: "path_loop opts (ctx_pos ctx) ctx1 = Some e"
    using assms(1) by (auto simp: parse_path_def Let_def bind_eq_Some_conv)
  then have "tail_views str e"
    using assms(2) by (intro views_path_loop [OF e] views_handle_letter [OF h])
  then show ?thesis
    using assms(1) h e True
    by (cases e) (auto simp: parse_path_def Let_def bind_eq_Some_conv split: if_splits dest!: views_set_imp [where str = str])
qed (use assms views_opaque in \<open>auto simp: parse_path_def\<close>)

lemma views_queries [viewing]:
  assumes "parse_queries opts ctx = Some ctx'" "views str ctx"
  shows "views str ctx'"
proof (cases "at_end ctx \<or> \<not> option_parse_queries opts")
  case False
  then obtain e where e: "queries_loop opts ctx = Some e"
    using assms(1) by (auto simp: parse_queries_def bind_eq_Some_conv)
  show ?thesis
    using views_queries_loop [OF e assms(2)] assms(1) e False
    by (cases e) (auto simp: parse_queries_def bind_eq_Some_conv split: if_splits dest!: views_set_imp [where str = str])
qed (use assms in \<open>auto simp: parse_queries_def split: if_splits\<close>)

lemma views_fragment [viewing]:
  assumes "parse_fragment opts ctx = Some ctx'" "views str ctx"
  shows "views str ctx'"
proof (cases "at_end ctx \<or> \<not> option_parse_fragment opts")
  case False
  then obtain e where e: "fragment_loop opts ctx = Some e"
    using assms(1) by (auto simp: parse_fragment_def bind_eq_Some_conv)
  show ?thesis
    using views_fragment_loop [OF e assms(2)] assms(1) e False
    by (cases e) (auto simp: parse_fragment_def bind_eq_Some_conv split: if_splits dest!: views_set_imp [where str = str])
qed (use assms in \<open>auto simp: parse_fragment_def split: if_splits\<close>)

section \<open>The whole parser\<close>

lemma views_step:
  assumes "parse_uri_step sg opts ctx = Some (finished, ctx')" "views str ctx"
  shows "views str ctx'"
  using assms
  by (simp add: parse_uri_step_def Let_def split: if_split_asm)
    (auto dest: views_authority views_file_host views_parse_port views_authority_end views_opaque views_path
      views_queries views_fragment views_parse_scheme)

lemma views_continue: "continue_parsing_uri sg opts ctx = Some r \<Longrightarrow> views str ctx \<Longrightarrow> pred_option (views str) r"
proof -
  assume "continue_parsing_uri sg opts ctx = Some r" "views str ctx"
  moreover have "continue_parsing_uri sg opts ctx = Some r \<Longrightarrow> views str ctx \<longrightarrow> pred_option (views str) r"
  proof (rule continue_parsing_uri.raw_induct [of "\<lambda>sg opts ctx r. views str ctx \<longrightarrow> pred_option (views str) r"], goal_cases)
    case (1 parse sg opts ctx r)
    then show ?case
      by (auto split: if_splits option.splits prod.splits dest: views_step [where str = str])
  qed
  ultimately show ?thesis by blast
qed

end
