(* ===== verification/Uri_Status_Laws.thy ===== *)
theory Uri_Status_Laws
  imports Uri_Status
begin

unbundle bit_operations_syntax

text \<open>
  The laws of the status word of the URI parser: a value replaces the value and keeps the warnings, a warning is
  added and keeps the value, an error replaces all. A loop over a status visits its warnings and then its value.
\<close>

section \<open>The highest bit\<close>

lemma find_highest_bit:
  "find (bit x) (rev [0..<32]) = Some n \<longleftrightarrow> n < 32 \<and> bit x n \<and> (\<forall>m. n < m \<and> m < 32 \<longrightarrow> \<not> bit x m)" for x :: u32
proof
  assume "find (bit x) (rev [0..<32]) = Some n"
  then obtain i where i: "i < 32" "rev [0..<32] ! i = n" "bit x n" "\<forall>j<i. \<not> bit x (rev [0..<32] ! j)"
    by (auto simp: find_Some_iff)
  then have n: "n = 31 - i" by (simp add: rev_nth)
  have "\<not> bit x m" if "n < m" "m < 32" for m
    using i(4) [rule_format, of "31 - m"] that n i(1) by (simp add: rev_nth)
  then show "n < 32 \<and> bit x n \<and> (\<forall>m. n < m \<and> m < 32 \<longrightarrow> \<not> bit x m)" using i n by simp
next
  assume n: "n < 32 \<and> bit x n \<and> (\<forall>m. n < m \<and> m < 32 \<longrightarrow> \<not> bit x m)"
  have "\<not> bit x (31 - j)" if "j < 31 - n" for j
  proof -
    have "n < 31 - j" "31 - j < 32" using that by linarith+
    then show ?thesis using n by blast
  qed
  then show "find (bit x) (rev [0..<32]) = Some n"
    unfolding find_Some_iff using n by (intro exI [of _ "31 - n"]) (auto simp: rev_nth)
qed

lemma bit_floor_zero: "bit_floor 0 = 0"
proof -
  have "find (bit (0 :: u32)) (rev [0..<32]) = None" unfolding find_None_iff by simp
  then show ?thesis unfolding bit_floor_def by simp
qed

lemma bit_floor_highest:
  assumes "x \<noteq> 0"
  obtains n where "n < 32" "bit x n" "bit_floor x = push_bit n 1" "\<And>m. n < m \<Longrightarrow> m < 32 \<Longrightarrow> \<not> bit x m"
proof (cases "find (bit x) (rev [0..<32])")
  case None
  then have "\<forall>n<32. \<not> bit x n" by (auto simp: find_None_iff)
  then have "x = 0" by (intro bit_word_eqI) simp
  then show ?thesis using assms by simp
next
  case (Some n)
  then have "bit_floor x = push_bit n 1" unfolding bit_floor_def by simp
  then show ?thesis using that [of n] Some by (auto simp only: find_highest_bit)
qed

lemma and_not_less: "bit x n \<Longrightarrow> unat (x AND NOT (push_bit n 1)) < unat x" for x :: u32
proof -
  assume b: "bit x n"
  have "\<not> bit (x AND NOT (push_bit n 1)) n" by (simp add: bit_simps)
  then have "x AND NOT (push_bit n 1) \<noteq> x" using b by metis
  moreover have "x AND NOT (push_bit n 1) \<le> x" by (rule word_and_le2)
  ultimately show ?thesis by (metis order.not_eq_order_implies_strict word_less_nat_alt)
qed

section \<open>The loop over a status\<close>

lemma next_shrinks: "si_status it \<noteq> 0 \<Longrightarrow> unat (si_status (status_iterator_next it)) < unat (si_status it)"
proof (cases "has_warnings (si_status it)")
  case True
  let ?w = "warnings_mask AND si_status it"
  have "?w \<noteq> 0" using True by (simp add: has_warnings_def and.commute)
  then obtain n where n: "bit ?w n" "bit_floor ?w = push_bit n 1" using bit_floor_highest by blast
  then show ?thesis using True and_not_less [of "si_status it" n] by (simp add: status_iterator_next_def bit_and_iff Let_def)
qed (simp add: status_iterator_next_def unat_gt_0)

function visited_statuses :: "uri_status_iterator \<Rightarrow> u32 list" where
  "visited_statuses it =
     (if status_iterator_eq it status_iterator_end then []
      else si_current it # visited_statuses (status_iterator_next it))"
  by pat_completeness auto
termination
  by (relation "measure (\<lambda>it. unat (si_status it))")
    (use next_shrinks in \<open>auto simp: status_iterator_eq_def status_iterator_end_def\<close>)

declare visited_statuses.simps [simp del]

definition warning_bits :: "u32 \<Rightarrow> u32 list" where
  "warning_bits s = map (\<lambda>n. push_bit n 1) (filter (bit (s AND warnings_mask)) (rev [0..<32]))"

lemma filter_highest:
  fixes x :: u32
  assumes "n < 32" "bit x n" "\<And>m. n < m \<Longrightarrow> m < 32 \<Longrightarrow> \<not> bit x m"
  shows "filter (bit x) (rev [0..<32]) = n # filter (bit (x AND NOT (push_bit n 1))) (rev [0..<32])"
proof -
  have "[0..<32] = [0..<n] @ n # [Suc n..<32]" using upt_add_eq_append [of 0 n "32 - n"] upt_conv_Cons [of n 32] assms(1) by simp
  then have split: "rev [0..<32] = rev [Suc n..<32] @ n # rev [0..<n]" by simp
  have "filter (bit y) (rev [Suc n..<32]) = []" if "\<And>m. n < m \<Longrightarrow> m < 32 \<Longrightarrow> \<not> bit y m" for y :: u32
    using that by (auto simp: filter_empty_conv)
  note above = this [of x, OF assms(3)] this [of "x AND NOT (push_bit n 1)"]
  have below: "filter (bit (x AND NOT (push_bit n 1))) (rev [0..<n]) = filter (bit x) (rev [0..<n])"
    using assms(1) by (intro filter_cong) (auto simp: bit_simps)
  show ?thesis unfolding split filter_append using above assms below by (simp add: bit_simps)
qed

lemma no_warning_bits: "\<not> has_warnings s \<Longrightarrow> warning_bits s = []"
  by (simp add: has_warnings_def warning_bits_def filter_empty_conv)

lemma mask_split:
  assumes "s AND warnings_mask = 0"
  shows "get_value s = s"
  unfolding get_value_def
proof (rule bit_word_eqI)
  fix n assume n: "n < LENGTH(32)"
  have "\<not> bit (s AND warnings_mask) n" unfolding assms by simp
  then show "bit (s AND values_mask) n = bit s n"
    using n by (auto simp: warnings_mask_def bit_simps)
qed

lemma visited_end: "visited_statuses \<lparr>si_status = 0, si_current = c\<rparr> = []"
  by (simp add: visited_statuses.simps status_iterator_eq_def status_iterator_end_def)

lemma visited_value: "\<not> has_warnings s \<Longrightarrow> visited_statuses \<lparr>si_status = s, si_current = c\<rparr> = (if s = 0 then [] else [c])"
  by (subst visited_statuses.simps) (simp add: status_iterator_eq_def status_iterator_end_def status_iterator_next_def visited_end)

lemma visited_warnings:
  "has_warnings s \<Longrightarrow>
     visited_statuses (status_iterator s) = warning_bits s @ (if get_value s = 0 then [] else [get_value s])"
proof (induction "unat s" arbitrary: s rule: less_induct)
  case less
  let ?w = "warnings_mask AND s"
  obtain n where n: "n < 32" "bit ?w n" "bit_floor ?w = push_bit n 1" "\<And>m. n < m \<Longrightarrow> m < 32 \<Longrightarrow> \<not> bit ?w m"
    using bit_floor_highest [of ?w] less.prems by (auto simp: has_warnings_def and.commute)
  define s' where "s' = s AND NOT (push_bit n 1)"
  have s0: "s \<noteq> 0" using less.prems by (auto simp: has_warnings_def)
  have smaller: "unat s' < unat s" unfolding s'_def using and_not_less [of s n] n(2) by (simp add: bit_and_iff)
  have same_value: "get_value s' = get_value s"
    using n(2) unfolding get_value_def s'_def warnings_mask_def by (auto intro!: bit_word_eqI simp: bit_simps)
  have bits: "warning_bits s = push_bit n 1 # warning_bits s'"
  proof -
    have "(s AND warnings_mask) AND NOT (push_bit n 1) = s' AND warnings_mask" by (simp add: s'_def ac_simps)
    then show ?thesis
      using filter_highest [of n "s AND warnings_mask"] n(1,2,4) unfolding warning_bits_def by (simp add: and.commute)
  qed
  have "visited_statuses (status_iterator s) = push_bit n 1 # visited_statuses \<lparr>si_status = s', si_current = (if has_warnings s' then get_warning s' else s')\<rparr>"
    using s0 less.prems n(3)
    by (subst visited_statuses.simps) (simp add: status_iterator_def status_iterator_eq_def status_iterator_end_def status_iterator_next_def
        get_warning_def Let_def s'_def)
  also have "\<dots> = push_bit n 1 # warning_bits s' @ (if get_value s' = 0 then [] else [get_value s'])"
  proof (cases "has_warnings s'")
    case True
    then show ?thesis using less.hyps [OF smaller True] by (simp add: status_iterator_def)
  next
    case False
    then have "get_value s' = s'" using mask_split [of s'] by (simp add: has_warnings_def)
    then show ?thesis using False by (simp add: visited_value no_warning_bits)
  qed
  finally show ?case by (simp add: bits same_value)
qed

text \<open>A loop over a status ends, and visits the warnings of the status from the highest bit to the lowest, each once,
  and then its value. A status with a value and no warning is visited as if it were not parsed.\<close>

theorem visited_result:
  "visited_statuses (status_iterator s) =
    (if has_warnings s then warning_bits s @ (if get_value s = 0 then [] else [get_value s])
     else if s = 0 then [] else [status_code us_unparsed])"
  using visited_warnings [of s] visited_value [of s 0]
  by (auto simp: status_iterator_def get_warning_def has_warnings_def and.commute bit_floor_zero)

section \<open>The updates\<close>

lemma masks: "values_mask = 0x1000FF" "warnings_mask = 0xFFEFFF00"
  by code_simp+

text \<open>An update of the status: a value replaces the value and keeps the warnings; a warning is added once, keeps the
  value and the other warnings; an error leaves nothing else.\<close>

lemma warning_codes: "has_warnings (status_code v) \<longrightarrow> status_code v AND values_mask = 0"
  by (cases v) (simp_all add: has_warnings_def masks warning_bit_def error_bit_def valid_bit_def)

lemma get_value_warning: "has_warnings (status_code v) \<Longrightarrow> get_value (set_warning s v) = get_value s"
  using warning_codes [of v] unfolding get_value_def set_warning_def by (simp add: bit.conj_disj_distrib2)

lemma get_value_valid:
  assumes "\<not> has_warnings (status_code v)"
  shows "get_value (set_valid s v) = status_code v"
proof -
  have "get_value (status_code v) = status_code v"
    using assms by (intro mask_split) (simp add: has_warnings_def)
  moreover have "get_value (set_valid s v) = get_value (status_code v)"
    unfolding get_value_def set_valid_def by (auto intro!: bit_word_eqI simp: bit_simps)
  ultimately show ?thesis by simp
qed

lemma has_error_value: "has_error (get_value s) = has_error s"
  unfolding has_error_def get_value_def values_mask_def
  by (metis (no_types, lifting) and.assoc and.commute word_ao_absorbs(7) or.commute or.assoc)

theorem status_updates:
  "if has_warnings (status_code v)
   then get_value (set_warning s v) = get_value s \<and> has_warning (set_warning s v) (status_code v)
     \<and> set_warning (set_warning s v) v = set_warning s v
     \<and> (has_warning s w \<le> has_warning (set_warning s v) w)
   else has_error_of (set_valid s v) v \<and> set_valid s v AND warnings_mask = s AND warnings_mask
     \<and> (has_error (set_valid s v) \<longleftrightarrow> has_error (status_code v))
     \<and> has_error_of (set_error s v) v \<and> has_warnings (set_error s v) = False"
proof (cases "has_warnings (status_code v)")
  case True
  then have "get_value (set_warning s v) = get_value s"
    by (rule get_value_warning)
  moreover have "has_warning (set_warning s v) (status_code v)" "set_warning (set_warning s v) v = set_warning s v"
    by (auto simp: has_warning_def set_warning_def intro!: bit_word_eqI simp: bit_simps)
  moreover have "has_warning (set_warning s v) w" if "has_warning s w"
  proof -
    have "bit s n" if "bit w n" for n using \<open>has_warning s w\<close> that unfolding has_warning_def by (metis bit_and_iff)
    then show ?thesis by (auto simp: has_warning_def set_warning_def intro!: bit_word_eqI simp: bit_simps)
  qed
  ultimately show ?thesis using True by auto
next
  case False
  then have none: "status_code v AND warnings_mask = 0" by (simp add: has_warnings_def)
  have val: "get_value (set_valid s v) = status_code v"
    using False by (rule get_value_valid)
  moreover have "get_value (status_code v) = status_code v"
    using none by (rule mask_split)
  moreover have "set_valid s v AND warnings_mask = s AND warnings_mask"
    using none unfolding set_valid_def by (simp add: bit.conj_disj_distrib2 warnings_mask_def)
  moreover have "has_error (set_valid s v) \<longleftrightarrow> has_error (status_code v)"
    using val has_error_value [of "set_valid s v"] by simp
  ultimately show ?thesis using False by (simp add: has_error_of_def set_error_def)
qed

end
