(* ===== verification/Uri_Ranks.thy ===== *)
theory Uri_Ranks
  imports Uri_Views Uri_Status_Laws
begin

text \<open>
  The rank of a status: how far the parser has come. The parsers of the scheme, the port, the end of an authority, the path,
  the queries and the fragment lower it, or keep it and move on in the text.
\<close>

section \<open>The rank of a status\<close>

definition rank_order :: "uri_status list" where
  "rank_order = [us_valid, us_valid_fragment, us_valid_queries, us_valid_path, us_valid_opaque_path,
     us_valid_authority_end, us_valid_port, us_valid_authority, us_valid_file_host, us_unparsed]"

definition rank_of :: "u32 \<Rightarrow> nat" where
  "rank_of status =
     (if has_error status then 0 else length (takeWhile (\<lambda>v. status_code v \<noteq> get_value status) rank_order))"

abbreviation rank :: "uri_ctx \<Rightarrow> nat" where
  "rank ctx \<equiv> rank_of (ctx_status ctx)"

lemma rank_of_value: "rank_of s = rank_of t" if "get_value s = get_value t"
  using that has_error_value [of s] has_error_value [of t] by (simp add: rank_of_def)

lemma ranked_warnings:
  "has_warnings (status_code us_invalid_character)" "has_warnings (status_code us_missing_following_solidus)"
  "has_warnings (status_code us_has_credentials)" "has_warnings (status_code us_ipv4_trailing_empty_octet)"
  "has_warnings (status_code us_ipv4_non_decimal_octet)" "has_warnings (status_code us_reverse_solidus_used)"
  "has_warnings (status_code us_windows_drive_letter_used)" "has_warnings (status_code us_windows_drive_letter_as_host)"
  by code_simp+

lemma ranks:
  "rank_of (status_code us_valid) = 0" "rank_of (status_code us_valid_fragment) = 1"
  "rank_of (status_code us_valid_queries) = 2" "rank_of (status_code us_valid_path) = 3"
  "rank_of (status_code us_valid_opaque_path) = 4" "rank_of (status_code us_valid_authority_end) = 5"
  "rank_of (status_code us_valid_port) = 6" "rank_of (status_code us_valid_authority) = 7"
  "rank_of (status_code us_valid_file_host) = 8" "rank_of (status_code us_unparsed) = 9"
  by code_simp+

lemma valid_codes:
  "\<not> has_warnings (status_code us_valid)" "\<not> has_warnings (status_code us_valid_fragment)"
  "\<not> has_warnings (status_code us_valid_queries)" "\<not> has_warnings (status_code us_valid_path)"
  "\<not> has_warnings (status_code us_valid_opaque_path)" "\<not> has_warnings (status_code us_valid_authority_end)"
  "\<not> has_warnings (status_code us_valid_port)" "\<not> has_warnings (status_code us_valid_authority)"
  "\<not> has_warnings (status_code us_valid_file_host)"
  by code_simp+

lemma rank_valid: "\<not> has_warnings (status_code v) \<Longrightarrow> rank (valid_as v ctx) = rank_of (status_code v)"
  by (intro rank_of_value) (simp add: valid_as_def get_value_valid get_value_valid [of v "status_code v", simplified] mask_split has_warnings_def)

lemma rank_warn: "has_warnings (status_code w) \<Longrightarrow> rank (warn w ctx) = rank ctx"
  by (intro rank_of_value) (simp add: warn_def get_value_warning)

lemmas rank_simps [simp] =
  rank_valid [OF valid_codes(1), simplified ranks] rank_valid [OF valid_codes(2), simplified ranks]
  rank_valid [OF valid_codes(3), simplified ranks] rank_valid [OF valid_codes(4), simplified ranks]
  rank_valid [OF valid_codes(5), simplified ranks] rank_valid [OF valid_codes(6), simplified ranks]
  rank_valid [OF valid_codes(7), simplified ranks] rank_valid [OF valid_codes(8), simplified ranks]
  rank_valid [OF valid_codes(9), simplified ranks]
  rank_warn [OF ranked_warnings(1)] rank_warn [OF ranked_warnings(2)] rank_warn [OF ranked_warnings(3)]
  rank_warn [OF ranked_warnings(4)] rank_warn [OF ranked_warnings(5)] rank_warn [OF ranked_warnings(6)]
  rank_warn [OF ranked_warnings(7)] rank_warn [OF ranked_warnings(8)]

lemma error_codes:
  "has_error (status_code us_host_missing)" "has_error (status_code us_invalid_domain_code_point)"
  "has_error (status_code us_invalid_host_code_point)" "has_error (status_code us_port_out_of_range)"
  "has_error (status_code us_port_invalid)" "has_error (status_code us_ipv6_unclosed)"
  "has_error (status_code us_ipv6_char_after_closing)" "has_error (status_code us_scheme_ended_unexpectedly)"
  "has_error (status_code us_invalid_scheme_character)" "has_error (status_code us_missing_scheme_non_relative_url)"
  "has_error (status_code us_empty_string)" "has_error (status_code us_invalid_queries_character)"
  "has_error (status_code us_ip_invalid_character)" "has_error (status_code us_ip_invalid_octet_range)"
  "has_error (status_code us_ip_bad_ending)" "has_error (status_code us_ip_too_little_octets)"
  "has_error (status_code us_ip_too_many_octets)"
  by (simp_all add: has_error_def)

lemma rank_fail [simp]: "has_error (status_code e) \<Longrightarrow> rank (fail_as e ctx) = 0"
  by (simp add: fail_as_def set_error_def rank_of_def)

lemma rank_ipv6_error [simp]: "rank_of (error_bit OR x) = 0"
  by (simp add: rank_of_def has_error_def)

lemma standard_simps [simp]:
  "eof_is_valid standard_uri_parsing_options" "parse_credentails standard_uri_parsing_options"
  "empty_host_is_error standard_uri_parsing_options" "option_parse_port standard_uri_parsing_options"
  "option_parse_queries standard_uri_parsing_options" "option_parse_fragment standard_uri_parsing_options"
  "allow_trailing_empty_ipv4_octet standard_uri_parsing_options"
  "\<not> allow_multiple_trailing_empty_ipv4_octets standard_uri_parsing_options"
  "allow_ipv4_hex_octets standard_uri_parsing_options" "allow_ipv4_octal_octets standard_uri_parsing_options"
  "allow_invalid_characters standard_uri_parsing_options" "allow_file_hosts standard_uri_parsing_options"
  "handle_windows_drive_letters standard_uri_parsing_options" "ignore_tabs_or_newlines standard_uri_parsing_options"
  by (simp_all add: standard_uri_parsing_options_def)

lemma rank_frames [simp]:
  "rank (ctx\<lparr>ctx_pos := p\<rparr>) = rank ctx" "rank (ctx\<lparr>ctx_scheme := t\<rparr>) = rank ctx"
  by simp_all

lemma rank_set_value: "set_value part b e ctx = Some ctx' \<Longrightarrow> rank ctx' = rank ctx"
  by (auto dest: set_value_facts)

lemma rank_find_next: "find_next chars ctx = Some (fin, ctx') \<Longrightarrow> rank ctx' = rank ctx"
  by (auto dest: find_next_facts)

lemma rank_percent: "validate_percent_encode check ctx = Some (valid, ctx') \<Longrightarrow> rank ctx' = rank ctx"
  by (auto simp: validate_percent_encode_def Let_def bind_eq_Some_conv split: if_splits prod.splits)

lemmas rank_fails [simp] = error_codes [THEN rank_fail]

section \<open>The scheme\<close>

lemma rank_file_slash: "file_slash_state opts ctx = Some ctx' \<Longrightarrow> rank ctx' < 9 \<and> ctx_scheme ctx' = ctx_scheme ctx"
  by (auto simp: file_slash_state_def Let_def bind_eq_Some_conv split: if_splits)

lemma rank_file_loop: "file_loop opts rest ctx = Some ctx' \<Longrightarrow> rank ctx' < 9 \<and> ctx_scheme ctx' = ctx_scheme ctx"
  by (induction opts rest ctx rule: file_loop.induct)
    (auto simp: file_host_or_path_def split: if_splits dest: rank_file_slash)

lemma rank_ignore_slashes: "rank (ignore_slashes opts rest ctx) < 8"
  by (induction opts rest ctx rule: ignore_slashes.induct) auto

lemma rank_scheme_loop: "fst (scheme_loop sg opts rest code ctx) = None \<Longrightarrow> rank (snd (scheme_loop sg opts rest code ctx)) = 0"
  by (induction sg opts rest code ctx rule: scheme_loop.induct) (auto split: if_splits)

lemma rank_special: "rank (scheme_of_special opts ctx) < 8"
  by (simp add: scheme_of_special_def special_authority_ignore_slashes_state_def rank_ignore_slashes Let_def split: prod.split)

lemma rank_other: "rank (scheme_of_other opts ctx) < 8"
  by (simp add: scheme_of_other_def Let_def split: prod.split)

lemma inc_scheme: "safely_inc_if opts arr ctx = (found, ctx') \<Longrightarrow> ctx_scheme ctx' = ctx_scheme ctx"
  by (auto simp: safely_inc_if_def inc_if_def Let_def split: if_splits prod.splits)

lemma rank_of_file:
  assumes "scheme_of_file opts ctx = Some ctx'"
  shows "rank ctx' < 9 \<and> ctx_scheme ctx' = file_scheme_type"
proof -
  obtain found ctx1 where i: "safely_inc_if opts ''//'' ((move 1 ctx)\<lparr>ctx_scheme := file_scheme_type\<rparr>) = (found, ctx1)"
    by fastforce
  show ?thesis
    using assms i inc_scheme [OF i]
    by (auto simp: scheme_of_file_def file_state_def Let_def dest!: rank_file_loop split: if_splits)
qed

lemma rank_scheme:
  assumes "parse_scheme sg opts ctx = Some ctx'"
  shows "rank ctx' < 9 \<and> (rank ctx' < 8 \<or> ctx_scheme ctx' = file_scheme_type)"
proof (cases "at_end ctx")
  case False
  then obtain alpha ctx1 where s: "scheme_start opts (drop (ctx_pos ctx) (ctx_text ctx)) ctx = Some (alpha, ctx1)"
    using assms by (auto simp: parse_scheme_def bind_eq_Some_conv)
  show ?thesis
  proof (cases alpha)
    case True
    define rest where "rest = drop (Suc (ctx_pos ctx1)) (ctx_text ctx1)"
    obtain c where c: "cur ctx1 = Some c"
      using assms False s True by (auto simp: parse_scheme_def bind_eq_Some_conv)
    obtain code ctx2 where l: "scheme_loop sg opts rest (add_to_code sg 0 c) (move 1 ctx1) = (code, ctx2)"
      by fastforce
    have "code = None \<Longrightarrow> rank ctx2 = 0"
      using rank_scheme_loop [of sg opts rest "add_to_code sg 0 c" "move 1 ctx1"] l by simp
    moreover have "rank (scheme_of_special opts ctx) < 9" "rank (scheme_of_other opts ctx) < 9" for ctx
      using rank_special [of opts ctx] rank_other [of opts ctx] by simp_all
    ultimately show ?thesis
      using assms False s True c l rank_special rank_other
      by (auto simp: parse_scheme_def rest_def bind_eq_Some_conv Let_def
          split: option.splits if_splits prod.splits dest!: rank_of_file)
  qed (use assms False s in \<open>auto simp: parse_scheme_def no_scheme_state_def\<close>)
qed (use assms in \<open>auto simp: parse_scheme_def\<close>)

section \<open>The port and the end of an authority\<close>

lemma rank_port_loop: "port_loop opts rest v ctx = Port_Failed ctx' \<Longrightarrow> rank ctx' = 0"
  by (induction opts rest v ctx rule: port_loop.induct) (auto simp: Let_def split: if_splits)

lemma rank_port: "parse_port sg standard_uri_parsing_options ctx = Some ctx' \<Longrightarrow> rank ctx' < 6"
  by (auto simp: parse_port_def bind_eq_Some_conv split: if_splits port_exit.splits
      dest: rank_port_loop)

lemma rank_special_end: "special_authority_end opts rest ctx = Some ctx' \<Longrightarrow> rank ctx' < 5"
  by (induction opts rest ctx rule: special_authority_end.induct) (auto split: if_splits)

lemma rank_other_end:
  "other_authority_end opts rest ctx = Some ctx' \<Longrightarrow> opts = standard_uri_parsing_options \<Longrightarrow> rank ctx' < 5"
  by (induction opts rest ctx rule: other_authority_end.induct) (auto simp: split: if_splits)

lemma rank_authority_end: "parse_authority_end standard_uri_parsing_options ctx = Some ctx' \<Longrightarrow> rank ctx' < 5"
  by (auto simp: parse_authority_end_def split: if_splits dest: rank_special_end rank_other_end)

section \<open>The path, the queries and the fragment\<close>

lemma rank_opaque_step:
  assumes "opaque_step opts beg ctx = Some e"
  shows "case e of Tail_Continue ctx' \<Rightarrow> True | Tail_Break ctx' \<Rightarrow> rank ctx' < 3 | Tail_Return ctx' \<Rightarrow> rank ctx' < 3"
  using assms
  by (simp add: opaque_step_def bind_eq_Some_conv split: if_split_asm prod.split_asm)
    (auto simp: bind_eq_Some_conv split: if_splits dest: rank_set_value)

lemma rank_opaque_loop:
  "opaque_loop opts beg ctx = Some e \<Longrightarrow>
     (case e of Tail_Continue ctx' \<Rightarrow> False | Tail_Break ctx' \<Rightarrow> rank ctx' < 3 | Tail_Return ctx' \<Rightarrow> rank ctx' < 3)"
  by (rule opaque_run.run_invariant [where keeps = "\<lambda>_. True"]) (auto dest: rank_opaque_step)

lemma rank_opaque:
  assumes "parse_opaque_path opts ctx = Some ctx'"
  shows "rank ctx' < 3"
proof -
  obtain e where e: "opaque_loop opts (ctx_pos ctx) ctx = Some e"
    using assms by (auto simp: parse_opaque_path_def bind_eq_Some_conv)
  show ?thesis
    using rank_opaque_loop [OF e] assms e by (cases e) (auto simp: parse_opaque_path_def dest: rank_set_value)
qed

lemma path_step_break:
  assumes "path_step standard_uri_parsing_options beg ctx = Some e"
  shows "case e of Tail_Continue ctx' \<Rightarrow> True | Tail_Return ctx' \<Rightarrow> False
     | Tail_Break ctx' \<Rightarrow> rank ctx' < 3 \<or> at_end ctx' \<or> cur ctx' = Some (CHR 0x00)"
proof -
  obtain fin ctx1 where f: "find_next path_characters ctx = Some (fin, ctx1)"
    using assms by (auto simp: path_step_def bind_eq_Some_conv)
  show ?thesis
  proof (cases fin)
    case True
    then show ?thesis using assms find_next_facts [OF f] by (auto simp: path_step_def f at_end_def)
  next
    case False
    then obtain c where c: "cur ctx1 = Some c" using assms by (auto simp: path_step_def f bind_eq_Some_conv)
    have "c \<in> set path_characters" using f False c by (auto intro: find_next_stops)
    then have "c = CHR 0x5C \<or> c = CHR ''/'' \<or> c = CHR ''?'' \<or> c = CHR ''#'' \<or> c = CHR ''%'' \<or> is_tab c \<or> c = CHR 0x00"
      by (auto simp: path_characters_def is_tab_def)
    then show ?thesis
      using assms False c
      by (simp add: path_step_def f Let_def bind_eq_Some_conv split: if_split_asm)
        (auto simp: bind_eq_Some_conv)
  qed
qed

lemma path_loop_break:
  assumes "path_loop standard_uri_parsing_options beg ctx = Some e"
  shows "case e of Tail_Continue ctx' \<Rightarrow> False | Tail_Break ctx' \<Rightarrow> rank ctx' < 3 \<or> at_end ctx' \<or> cur ctx' = Some (CHR 0x00)
     | Tail_Return ctx' \<Rightarrow> False"
  by (rule path_run.run_invariant [where keeps = "\<lambda>_. True", OF _ _ _ assms]) (auto dest: path_step_break)

lemma rank_path:
  assumes "parse_path standard_uri_parsing_options ctx = Some ctx'"
  shows "rank ctx' < 3"
proof (cases "is_special_scheme_type (ctx_scheme ctx)")
  case True
  then obtain ctx1 e where h: "handle_windows_driver_letter standard_uri_parsing_options ctx = Some ctx1"
    and e: "path_loop standard_uri_parsing_options (ctx_pos ctx) ctx1 = Some e"
    using assms by (auto simp: parse_path_def Let_def bind_eq_Some_conv)
  then obtain ctx2 where b: "e = Tail_Break ctx2" "rank ctx2 < 3 \<or> at_end ctx2 \<or> cur ctx2 = Some (CHR 0x00)"
    using path_loop_break [OF e] by (cases e) auto
  obtain ctx3 where v: "set_value comp_path (ctx_pos ctx) (ctx_pos ctx2) ctx2 = Some ctx3"
    and r: "(if at_end ctx3 then Some (valid_as us_valid ctx3)
             else Option.bind (cur ctx3) (\<lambda>c. Some (if eof_is_valid standard_uri_parsing_options \<and> c \<noteq> CHR 0x00 then move 1 ctx3 else valid_as us_valid ctx3))) = Some ctx'"
    using assms h e True b(1) by (auto simp: parse_path_def Let_def bind_eq_Some_conv)
  have "at_end ctx3 = at_end ctx2" "cur ctx3 = cur ctx2" "rank ctx3 = rank ctx2"
    using set_value_facts [OF v] by (simp_all add: at_end_def cur_def)
  then show ?thesis
    using b(2) r by (cases "cur ctx2") (auto split: if_splits)
qed (use assms rank_opaque in \<open>auto simp: parse_path_def\<close>)

lemma queries_step_break:
  assumes "queries_step standard_uri_parsing_options ctx = Some e"
  shows "case e of Tail_Continue ctx' \<Rightarrow> rank ctx' = rank ctx | Tail_Return ctx' \<Rightarrow> False
     | Tail_Break ctx' \<Rightarrow> (rank ctx' < 2 \<or> rank ctx' = rank ctx) \<and> ctx_pos ctx \<le> ctx_pos ctx' \<and> ctx_text ctx' = ctx_text ctx"
proof -
  obtain fin ctx1 where f: "find_next query_characters ctx = Some (fin, ctx1)"
    using assms by (auto simp: queries_step_def bind_eq_Some_conv)
  show ?thesis
    using assms find_next_facts [OF f]
    by (simp add: queries_step_def f Let_def bind_eq_Some_conv split: if_split_asm)
      (auto simp: bind_eq_Some_conv split: if_splits dest: rank_percent)
qed

lemma queries_loop_break:
  assumes "queries_loop standard_uri_parsing_options ctx = Some e"
  shows "case e of Tail_Continue ctx' \<Rightarrow> False
     | Tail_Break ctx' \<Rightarrow> (rank ctx' < 2 \<or> rank ctx' = rank ctx) \<and> ctx_pos ctx \<le> ctx_pos ctx' \<and> ctx_text ctx' = ctx_text ctx
     | Tail_Return ctx' \<Rightarrow> False"
  by (rule queries_run.run_invariant [where keeps = "\<lambda>ctx'. rank ctx' = rank ctx \<and> ctx_pos ctx \<le> ctx_pos ctx' \<and> ctx_text ctx' = ctx_text ctx",
        OF _ _ _ assms])
    (auto dest: queries_step_break queries_step_continues)

lemma rank_queries:
  assumes "parse_queries standard_uri_parsing_options ctx = Some ctx'" "2 \<le> rank ctx"
  shows "rank ctx' < 2 \<or> rank ctx' = rank ctx \<and> ctx_pos ctx < ctx_pos ctx' \<and> ctx_pos ctx < length (ctx_text ctx)"
proof (cases "at_end ctx")
  case False
  then obtain e where e: "queries_loop standard_uri_parsing_options ctx = Some e"
    using assms False by (auto simp: parse_queries_def bind_eq_Some_conv)
  show ?thesis
    using assms False e queries_loop_break [OF e]
    by (cases e) (auto simp: parse_queries_def bind_eq_Some_conv at_end_def split: if_splits dest!: set_value_facts)
qed (use assms in \<open>auto simp: parse_queries_def\<close>)

lemma rank_fragment:
  assumes "parse_fragment standard_uri_parsing_options ctx = Some ctx'"
  shows "rank ctx' = 0"
proof (cases "at_end ctx")
  case False
  then obtain e where e: "fragment_loop standard_uri_parsing_options ctx = Some e"
    using assms by (auto simp: parse_fragment_def bind_eq_Some_conv)
  then show ?thesis
    using assms False by (cases e) (auto simp: parse_fragment_def bind_eq_Some_conv)
qed (use assms in \<open>auto simp: parse_fragment_def\<close>)

section \<open>An IPv4 host\<close>

lemma rank_set_error [simp]: "has_error (status_code e) \<Longrightarrow> rank_of (set_error s e) = 0"
  by (simp add: set_error_def rank_of_def)

lemmas rank_set_errors [simp] = error_codes [THEN rank_set_error]

lemma rank_set_warning: "has_warnings (status_code w) \<Longrightarrow> rank_of (set_warning s w) = rank_of s"
  by (intro rank_of_value) (simp add: get_value_warning)

lemmas rank_set_warnings [simp] = ranked_warnings [THEN rank_set_warning]

definition kept_rank :: "u32 \<Rightarrow> u32 \<Rightarrow> bool" where
  "kept_rank s t \<longleftrightarrow> rank_of t = rank_of s \<or> rank_of t = 0"

lemma kept_rank_simps [simp]: "kept_rank s s" "rank_of t = 0 \<Longrightarrow> kept_rank s t" "rank_of t = rank_of s \<Longrightarrow> kept_rank s t"
  by (simp_all add: kept_rank_def)

lemma rank_ipv4_octets:
  "host_ipv4_octets opts st = Some e \<Longrightarrow>
     kept_rank (v4_status st) (case e of Ipv4_Failed st' \<Rightarrow> v4_status st' | Ipv4_Stopped st' \<Rightarrow> v4_status st')"
proof (induction opts st rule: host_ipv4_octets.induct)
  case (1 opts st)
  show ?case
    using 1(2)
    by (simp add: host_ipv4_octets.simps [of opts st] Let_def split: if_split_asm prod.split_asm option.split_asm list.split_asm)
      (auto dest!: 1(1) simp: Let_def kept_rank_def)
qed

lemma rank_ipv4_ending: "kept_rank t (case ipv4_ending opts rest t of Inl u \<Rightarrow> u | Inr u \<Rightarrow> u)"
  by (auto simp: ipv4_ending_def split: list.split)

lemma rank_ipv4_last: "ipv4_last opts st = Some (b, out, s') \<Longrightarrow> kept_rank (v4_status st) s'"
  using rank_ipv4_ending [of "v4_status st" opts "v4_src st"]
  by (auto simp: ipv4_last_def kept_rank_def bind_eq_Some_conv split: sum.splits if_splits)

lemma rank_ipv4:
  assumes "parse_host_ipv4 opts src out s = Some (b, out', s')"
  shows "kept_rank s s'"
proof (cases "src = []")
  case False
  let ?st = "\<lparr>v4_src = src, v4_octets = 1, v4_octet = 0, v4_out = out, v4_status = s\<rparr>"
  obtain e where e: "ipv4_first opts ?st = Some e"
    using assms False by (auto simp: parse_host_ipv4_def bind_eq_Some_conv)
  then have k: "kept_rank s (case e of Ipv4_Failed st' \<Rightarrow> v4_status st' | Ipv4_Stopped st' \<Rightarrow> v4_status st')"
    using rank_ipv4_octets [of opts ?st e] by (auto simp: ipv4_first_def split: if_splits)
  show ?thesis
  proof (cases e)
    case (Ipv4_Failed st)
    then show ?thesis using assms False e k by (auto simp: parse_host_ipv4_def)
  next
    case (Ipv4_Stopped st)
    then have "ipv4_last opts st = Some (b, out', s')"
      using assms False e by (simp add: parse_host_ipv4_def)
    then show ?thesis
      using rank_ipv4_last [of opts st b out' s'] k Ipv4_Stopped by (auto simp: kept_rank_def)
  qed
qed (use assms in \<open>auto simp: parse_host_ipv4_def\<close>)

end
