(* ===== verification/Uri_Returns.thy ===== *)
theory Uri_Returns
  imports Uri_Ranks
begin

text \<open>
  Does the parser return? With the standard options each step lowers the rank of the status, or keeps it and
  moves on in the text, unless the host of a file has an at sign: then the parser runs forever.
\<close>

section \<open>The authority\<close>

lemma rank_port_invalid: "has_error_of s us_port_invalid \<Longrightarrow> rank_of s = 0"
  using error_codes(5) has_error_value [of s] by (simp add: has_error_of_def rank_of_def)

lemma rank_after_ipv6: "after_ipv6 ctx = Some ctx' \<Longrightarrow> rank ctx' < 7"
  by (auto simp: after_ipv6_def bind_eq_Some_conv split: if_splits)

lemma rank_ipv6: "parse_host_ipv6 ctx = Some (b, ctx') \<Longrightarrow> rank ctx' < 7 \<and> \<not> b"
  by (auto simp: parse_host_ipv6_def Let_def bind_eq_Some_conv split: if_splits dest!: rank_after_ipv6)

lemma rank_credentials:
  "parse_credentials beg token ctx = Some ctx' \<Longrightarrow>
     rank ctx' = rank ctx \<and> ctx_pos ctx' = ctx_pos ctx \<and> ctx_text ctx' = ctx_text ctx \<and> ctx_scheme ctx' = ctx_scheme ctx"
  by (auto simp: parse_credentials_def Let_def bind_eq_Some_conv split: if_splits option.splits dest!: set_value_facts)

lemma after_switch_return: "after_switch opts is_special st ctx = Au_Return ctx' \<Longrightarrow> rank ctx' = 0 \<or> au_must_contain_credentials st \<and> ctx' = ctx"
  by (auto simp: after_switch_def split: if_splits)

lemma after_switch_break: "after_switch opts is_special st ctx = Au_Break st' \<Longrightarrow> rank (au_ctx st') = 3 \<or> au_ctx st' = ctx"
  by (auto simp: after_switch_def split: if_splits)

text \<open>What an exit of the loop means for the rank of the context that it started with.\<close>

fun exit_rank :: "uri_parsing_options \<Rightarrow> bool \<Rightarrow> uri_ctx \<Rightarrow> authority_exit \<Rightarrow> bool" where
  "exit_rank opts is_special ctx (Au_Continue st) \<longleftrightarrow>
     kept_rank (ctx_status ctx) (ctx_status (au_ctx st)) \<and> (au_must_contain_credentials st \<longrightarrow> rank (au_ctx st) = 0)
     \<and> ctx_scheme (au_ctx st) = ctx_scheme ctx"
| "exit_rank opts is_special ctx (Au_Break st) \<longleftrightarrow>
     rank (au_ctx st) < 7
     \<or> \<not> is_special \<and> kept_rank (ctx_status ctx) (ctx_status (au_ctx st)) \<and> cur (au_ctx st) = Some (CHR 0x5C)
       \<and> ctx_pos ctx \<le> ctx_pos (au_ctx st) \<and> ctx_text (au_ctx st) = ctx_text ctx \<and> ctx_scheme (au_ctx st) = ctx_scheme ctx"
| "exit_rank opts is_special ctx (Au_Return ctx') \<longleftrightarrow>
     rank ctx' < 7 \<or> \<not> parse_credentails opts \<and> CHR ''@'' \<in> set (ctx_text ctx)"

lemma exit_rank_after_switch: "rank ctx' < 7 \<Longrightarrow> exit_rank opts is_special ctx (after_switch opts is_special st ctx')"
  by (auto simp: after_switch_def)

lemma exit_rank_colon:
  assumes "authority_colon sg opts is_special st ctx = Some e" "au_must_contain_credentials st \<longrightarrow> rank ctx = 0"
    "ctx_pos ctx < length (ctx_text ctx)"
  shows "exit_rank opts is_special ctx e"
proof (cases "parse_credentails opts")
  case True
  let ?ctx = "valid_as us_valid_port (move 1 ctx)"
  obtain ctx1 where p: "parse_port sg standard_uri_parsing_options ?ctx = Some ctx1"
    using assms(1) True by (auto simp: authority_colon_def Let_def bind_eq_Some_conv)
  have r: "rank ctx1 < 6" using rank_port [OF p] .
  have f: "ctx_scheme ctx1 = ctx_scheme ctx"
    using parse_port_facts [OF p] assms(3) by simp
  show ?thesis
    using assms True p r f
    by (auto simp: authority_colon_def Let_def bind_eq_Some_conv rank_port_invalid split: if_splits dest!: rank_set_value)
next
  case False
  then show ?thesis
    using assms by (auto simp: authority_colon_def intro: exit_rank_after_switch split: if_splits)
qed

lemma exit_rank_tail_mark:
  "rank (valid_as v ctx) < 7 \<Longrightarrow> au_must_contain_credentials st \<longrightarrow> rank ctx = 0 \<Longrightarrow>
     exit_rank opts is_special ctx (authority_tail_mark parsed v opts is_special st ctx)"
  by (auto simp: authority_tail_mark_def intro: exit_rank_after_switch)

lemma exit_rank_nul:
  "au_must_contain_credentials st \<longrightarrow> rank ctx = 0 \<Longrightarrow> exit_rank opts is_special ctx (authority_nul opts is_special st ctx)"
  by (auto simp: authority_nul_def bad_code_point_def intro: exit_rank_after_switch)

lemma exit_rank_bad: "exit_rank opts is_special ctx (bad_code_point is_special' ctx')"
  by (simp add: bad_code_point_def)

lemma exit_rank_backslash:
  "cur ctx = Some (CHR 0x5C) \<Longrightarrow> au_must_contain_credentials st \<longrightarrow> rank ctx = 0 \<Longrightarrow>
     exit_rank opts False ctx (after_switch opts False st ctx)"
  by (auto simp: after_switch_def)

lemma exit_rank_at_sign:
  "authority_at_sign opts authority_begin st ctx = Some e \<Longrightarrow> cur ctx = Some (CHR ''@'') \<Longrightarrow> exit_rank opts is_special ctx e"
  by (auto simp: authority_at_sign_def bind_eq_Some_conv Let_def cur_in split: if_splits
      dest!: rank_credentials)

lemma exit_rank_switch:
  assumes "authority_switch sg opts is_special authority_begin st ctx c = Some e"
    and must: "au_must_contain_credentials st \<longrightarrow> rank ctx = 0" and c: "cur ctx = Some c"
  shows "exit_rank opts is_special ctx e"
proof -
  have pos: "ctx_pos ctx < length (ctx_text ctx)"
    using c by (auto simp: cur_in)
  consider "c = CHR ''[''" | "c = CHR '':''" | "c = CHR 0x5C" | "c = CHR ''/''" | "c = CHR ''.''" | "c = CHR ''?''"
    | "c = CHR ''#''" | "c = CHR ''%''" | "c \<notin> {CHR ''['', CHR '':'', CHR 0x5C, CHR ''/'', CHR ''.'', CHR ''?'', CHR ''#'', CHR ''%''}"
    unfolding insert_iff empty_iff by satx
  then show ?thesis
  proof cases
    case 1
    then show ?thesis using assms(1) by (auto simp: authority_switch_def bind_eq_Some_conv dest!: rank_ipv6)
  next
    case 2
    then show ?thesis using assms(1) exit_rank_colon [OF _ must pos] by (simp add: authority_switch_def)
  next
    case 3
    then show ?thesis using assms(1) c must exit_rank_backslash [of ctx st opts]
      by (cases is_special) (auto simp: authority_switch_def intro: exit_rank_after_switch split: if_splits)
  next
    case 4
    then show ?thesis using assms(1) must
      by (auto simp: authority_switch_def intro: exit_rank_after_switch split: if_splits)
  next
    case 5
    then show ?thesis using assms(1) must by (auto simp: authority_switch_def)
  next
    case 6
    then show ?thesis using assms(1) must by (auto simp: authority_switch_def simp del: exit_rank.simps intro: exit_rank_tail_mark)
  next
    case 7
    then show ?thesis using assms(1) must by (auto simp: authority_switch_def simp del: exit_rank.simps intro: exit_rank_tail_mark)
  next
    case 8
    then show ?thesis using assms(1) must
      by (auto simp: authority_switch_def bind_eq_Some_conv split: if_splits dest!: validate_percent_encode_facts [OF _ pos])
  next
    case 9
    have tab: "exit_rank opts is_special ctx (Au_Continue (au_with st (move 1 (warn us_invalid_character ctx))))"
      using must by simp
    have "authority_switch sg opts is_special authority_begin st ctx c =
       (if is_tab c then
          (if ignore_tabs_or_newlines opts then Some (Au_Continue (au_with st (move 1 (warn us_invalid_character ctx))))
           else Some (bad_code_point is_special ctx))
        else if c = CHR ''@'' then authority_at_sign opts authority_begin st ctx
        else if c = CHR 0x00 then Some (authority_nul opts is_special st ctx)
        else Some (bad_code_point is_special ctx))"
      using 9 by (simp add: authority_switch_def)
    then show ?thesis
      using assms(1) exit_rank_at_sign [of opts authority_begin st ctx e is_special] exit_rank_nul [OF must, of opts is_special]
        exit_rank_bad [of opts is_special ctx is_special ctx] tab c
      by (auto simp del: exit_rank.simps split: if_split_asm)
  qed
qed

lemma exit_rank_step:
  assumes "authority_step sg opts is_special authority_begin st = Some e"
    "au_must_contain_credentials st \<longrightarrow> rank (au_ctx st) = 0"
  shows "exit_rank opts is_special (au_ctx st) e"
proof -
  obtain fin ctx where f: "find_next (if is_special then forbidden_domains else forbidden_hosts) (au_ctx st) = Some (fin, ctx)"
    using assms(1) by (auto simp: authority_step_def bind_eq_Some_conv)
  note facts = find_next_facts [OF f]
  show ?thesis
  proof (cases fin)
    case False
    then obtain c where c: "cur ctx = Some c" "authority_switch sg opts is_special authority_begin st ctx c = Some e"
      using assms(1) by (auto simp: authority_step_def f bind_eq_Some_conv)
    then have "exit_rank opts is_special ctx e"
      using assms(2) facts by (intro exit_rank_switch) auto
    then show ?thesis using facts by (cases e) auto
  qed (use assms f in \<open>auto simp: authority_step_def split: if_splits\<close>)
qed

lemma exit_rank_loop:
  "authority_loop sg opts is_special authority_begin st = Some e \<Longrightarrow> au_must_contain_credentials st \<longrightarrow> rank (au_ctx st) = 0 \<Longrightarrow>
     exit_rank opts is_special (au_ctx st) e"
proof (induction sg opts is_special authority_begin st rule: authority_loop.induct)
  case (1 sg opts is_special authority_begin st)
  obtain s where s: "authority_step sg opts is_special authority_begin st = Some s"
    using "1.prems"(1) by (auto simp: authority_loop.simps [of sg opts is_special authority_begin st] split: option.splits)
  note r = exit_rank_step [OF s "1.prems"(2)]
  show ?case
  proof (cases s)
    case (Au_Continue st')
    then have "exit_rank opts is_special (au_ctx st') e"
      using 1 s r by (auto simp: authority_loop.simps [of sg opts is_special authority_begin st])
    then show ?thesis
      using Au_Continue r authority_step_continues [OF s [unfolded Au_Continue]] by (cases e) (auto simp: kept_rank_def)
  qed (use "1.prems"(1) s r in \<open>auto simp: authority_loop.simps [of sg opts is_special authority_begin st]\<close>)
qed

definition only_warned :: "uri_ctx \<Rightarrow> uri_ctx \<Rightarrow> bool" where
  "only_warned ctx ctx' \<longleftrightarrow>
     rank ctx' = rank ctx \<and> ctx_pos ctx' = ctx_pos ctx \<and> ctx_text ctx' = ctx_text ctx \<and> ctx_scheme ctx' = ctx_scheme ctx"

lemma only_warned_simps [simp]:
  "only_warned ctx ctx" "only_warned (warn us_ipv4_trailing_empty_octet ctx) ctx' = only_warned ctx ctx'"
  "only_warned ctx (warn us_ipv4_trailing_empty_octet ctx') = only_warned ctx ctx'"
  by (simp_all add: only_warned_def)

lemma skip_dots_facts: "skip_dots multiple str beg fin ctx = Some (r, ctx') \<Longrightarrow> only_warned ctx ctx'"
proof (induction multiple str beg fin ctx rule: skip_dots.induct)
  case (1 multiple str beg fin ctx)
  have "only_warned (warn us_ipv4_trailing_empty_octet ctx) ctx'"
    if "skip_dots True str beg x (warn us_ipv4_trailing_empty_octet ctx) = Some (r, ctx')" "fin = Suc x" "multiple" "x \<noteq> beg"
      "load str fin = Some (CHR ''.'')" for x
    using 1(1) [of "CHR ''.''" "warn us_ipv4_trailing_empty_octet ctx" x] that by simp
  then show ?case
    using 1(2) by (subst (asm) skip_dots.simps) (auto simp: Let_def bind_eq_Some_conv split: if_splits nat.splits)
qed

lemma possible_facts:
  "is_possible_ends_with_ipv4 opts beg fin ctx = Some (possible, ctx') \<Longrightarrow> only_warned ctx ctx'"
  by (auto simp: is_possible_ends_with_ipv4_def bind_eq_Some_conv split: option.splits dest: skip_dots_facts)

lemma end_of_host_facts:
  "end_of_host st ctx = Some ctx' \<Longrightarrow>
     rank ctx' = rank ctx \<and> ctx_pos ctx \<le> ctx_pos ctx' \<and> ctx_text ctx' = ctx_text ctx \<and> ctx_scheme ctx' = ctx_scheme ctx"
  by (auto simp: end_of_host_def dest!: set_value_facts)

lemma finish_host_facts:
  assumes "finish_host opts st = Some ctx'"
  shows "kept_rank (ctx_status (au_ctx st)) (ctx_status ctx') \<and> ctx_pos (au_ctx st) \<le> ctx_pos ctx'
    \<and> ctx_text ctx' = ctx_text (au_ctx st) \<and> ctx_scheme ctx' = ctx_scheme (au_ctx st)"
proof -
  let ?ctx = "au_ctx st"
  obtain possible ctx1 where p: "is_possible_ends_with_ipv4 opts (au_host_begin st) (ctx_pos ?ctx - 1) ?ctx = Some (possible, ctx1)"
    using assms by (auto simp: finish_host_def Let_def bind_eq_Some_conv split: if_splits)
  note f = possible_facts [OF p, unfolded only_warned_def]
  show ?thesis
  proof (cases possible)
    case True
    then obtain host b out s where h: "parse_host_ipv4 opts host (replicate 4 0) (ctx_status ctx1) = Some (b, out, s)"
      and r: "(if \<not> b then Some (ctx1\<lparr>ctx_status := s\<rparr>) else end_of_host st (ctx1\<lparr>ctx_status := s\<rparr>)) = Some ctx'"
      using assms p by (auto simp: finish_host_def Let_def bind_eq_Some_conv split: if_splits)
    show ?thesis
      using r f rank_ipv4 [OF h] by (auto simp: kept_rank_def split: if_splits dest!: end_of_host_facts)
  qed (use assms p f in \<open>auto simp: finish_host_def Let_def split: if_splits dest!: end_of_host_facts\<close>)
qed

lemma rank_pieces:
  assumes "parse_authority_pieces sg opts is_special ctx = Some ctx'"
    "parse_credentails opts \<or> CHR ''@'' \<notin> set (ctx_text ctx)"
  shows "rank ctx' < 7 \<or> \<not> is_special \<and> kept_rank (ctx_status ctx) (ctx_status ctx') \<and> ctx_scheme ctx' = ctx_scheme ctx
    \<and> ctx_text ctx' = ctx_text ctx \<and> (\<exists>p. ctx_pos ctx \<le> p \<and> p \<le> ctx_pos ctx' \<and> load (ctx_text ctx) p = Some (CHR 0x5C))"
proof -
  let ?st = "\<lparr>au_ctx = ctx, au_host_begin = ctx_pos ctx, au_colon_pos = None, au_skip_last_char = False,
          au_must_contain_credentials = False\<rparr>"
  obtain e where e: "authority_loop sg opts is_special (ctx_pos ctx) ?st = Some e"
    using assms(1) by (auto simp: parse_authority_pieces_def bind_eq_Some_conv)
  have r: "exit_rank opts is_special ctx e"
    using exit_rank_loop [OF e] by simp
  show ?thesis
  proof (cases e)
    case (Au_Break st)
    then have "finish_host opts st = Some ctx'"
      using assms(1) e by (simp add: parse_authority_pieces_def)
    from finish_host_facts [OF this] show ?thesis
      using r Au_Break by (fastforce simp: kept_rank_def cur_def)
  qed (use assms e r in \<open>auto simp: parse_authority_pieces_def\<close>)
qed

lemma rank_file_host:
  assumes "parse_file_host sg standard_uri_parsing_options ctx = Some ctx'" "CHR ''@'' \<notin> set (ctx_text ctx)"
  shows "rank ctx' < 7"
  using assms(1)
  by (auto simp: parse_file_host_def Let_def bind_eq_Some_conv split: if_splits
      dest!: rank_pieces [where is_special = True, OF _ disjI2 [OF assms(2)]])

lemma drop_Suc_nth_eq: "drop p str = c # rest \<Longrightarrow> p < length str \<and> str ! p = c \<and> drop (Suc p) str = rest"
  by (metis Cons_nth_drop_Suc drop_all list.distinct(1) list.inject not_le)

definition started :: "uri_ctx \<Rightarrow> uri_ctx + uri_ctx \<Rightarrow> bool" where
  "started ctx e \<longleftrightarrow>
     (case e of Inl ctx' \<Rightarrow> rank ctx' = 0
      | Inr ctx' \<Rightarrow> ctx_pos ctx \<le> ctx_pos ctx' \<and> ctx_text ctx' = ctx_text ctx \<and> ctx_scheme ctx' = ctx_scheme ctx
          \<and> (rank ctx' = 0 \<or> rank ctx' = rank ctx \<and> (\<exists>c. cur ctx' = Some c \<and> c \<noteq> CHR 0x5C)))"

lemma started_rules:
  "rank ctx' = 0 \<Longrightarrow> started ctx (Inl ctx')"
  "started ctx (Inr (valid_as us_valid ctx))"
  "cur ctx = Some c \<Longrightarrow> c \<noteq> CHR 0x5C \<Longrightarrow> started ctx (Inr ctx)"
  "started (move 1 (warn us_invalid_character ctx)) e \<Longrightarrow> started ctx e"
  by (auto simp: started_def split: sum.splits)

lemma authority_start_facts:
  "authority_start opts rest ctx = Some e \<Longrightarrow> opts = standard_uri_parsing_options \<Longrightarrow> rest = drop (ctx_pos ctx) (ctx_text ctx) \<Longrightarrow>
     started ctx e"
proof (induction opts rest ctx rule: authority_start.induct)
  case (2 opts c rest ctx)
  have "drop (ctx_pos ctx) (ctx_text ctx) = c # rest" using 2(4) by simp
  then have c: "cur ctx = Some c" and rest: "rest = drop (Suc (ctx_pos ctx)) (ctx_text ctx)"
    using drop_Suc_nth_eq [of "ctx_pos ctx" "ctx_text ctx" c rest] by (auto simp: cur_in)
  show ?case
  proof (cases "c \<in> {CHR 0x5C, CHR '':'', CHR 0x00, CHR ''?'', CHR ''/'', CHR ''#''}")
    case True
    then consider "c = CHR 0x5C" | "c \<noteq> CHR 0x5C" "c = CHR '':'' \<or> c = CHR 0x00 \<or> c = CHR ''?'' \<or> c = CHR ''/'' \<or> c = CHR ''#''"
      by blast
    then show ?thesis
    proof cases
      case 1
      then show ?thesis
        using 2(2,3) by (auto intro: started_rules split: if_splits)
    next
      case b: 2
      have "e \<in> {Inr ctx, Inl (fail_as us_host_missing ctx), Inr (valid_as us_valid ctx)}"
        using b(2) 2(2,3) by (elim disjE) (simp_all split: if_split_asm)
      then show ?thesis using c b(1) by (auto intro: started_rules)
    qed
  next
    case False
    then have "authority_start opts (c # rest) ctx =
        (if is_tab c \<and> ignore_tabs_or_newlines opts then authority_start opts rest (move 1 (warn us_invalid_character ctx))
         else Some (Inr ctx))"
      by simp
    then show ?thesis
      using 2 c rest False by (cases "is_tab c") (auto intro: started_rules)
  qed
qed simp

lemma rank_authority:
  assumes "parse_authority sg standard_uri_parsing_options ctx = Some ctx'" "7 \<le> rank ctx"
    "ctx_scheme ctx \<noteq> file_scheme_type \<or> CHR ''@'' \<notin> set (ctx_text ctx)"
  shows "rank ctx' < 7 \<or> rank ctx' = rank ctx \<and> ctx_pos ctx < ctx_pos ctx' \<and> ctx_pos ctx < length (ctx_text ctx)
    \<and> ctx_scheme ctx' = ctx_scheme ctx"
proof -
  consider "at_end ctx" | "\<not> at_end ctx" "is_file_scheme_type (ctx_scheme ctx)"
    | "\<not> at_end ctx" "\<not> is_file_scheme_type (ctx_scheme ctx)"
    by blast
  then show ?thesis
  proof cases
    case 2
    then show ?thesis
      using assms by (auto simp: parse_authority_def is_file_scheme_type_def dest!: rank_file_host)
  next
    case 3
    then obtain e where e: "authority_start standard_uri_parsing_options (drop (ctx_pos ctx) (ctx_text ctx)) ctx = Some e"
      using assms(1) by (auto simp: parse_authority_def bind_eq_Some_conv)
    note start = authority_start_facts [OF e refl refl, unfolded started_def]
    show ?thesis
    proof (cases e)
      case (Inl ctx1)
      then show ?thesis using assms(1) 3 e start by (simp add: parse_authority_def)
    next
      case (Inr ctx1)
      then have p: "parse_authority_pieces sg standard_uri_parsing_options (is_special_scheme_type (ctx_scheme ctx1)) ctx1 = Some ctx'"
        using assms(1) 3 e by (simp add: parse_authority_def)
      have s: "ctx_pos ctx \<le> ctx_pos ctx1" "ctx_text ctx1 = ctx_text ctx" "ctx_scheme ctx1 = ctx_scheme ctx"
        "rank ctx1 = 0 \<or> rank ctx1 = rank ctx \<and> (\<exists>c. cur ctx1 = Some c \<and> c \<noteq> CHR 0x5C)"
        using start Inr by simp_all
      from rank_pieces [OF p] consider "rank ctx' < 7"
        | q where "kept_rank (ctx_status ctx1) (ctx_status ctx')" "ctx_scheme ctx' = ctx_scheme ctx1" "ctx_pos ctx1 \<le> q"
            "q \<le> ctx_pos ctx'" "load (ctx_text ctx1) q = Some (CHR 0x5C)"
        by auto
      then show ?thesis
      proof cases
        case 2
        then show ?thesis
          using s by (cases "q = ctx_pos ctx1") (auto simp: kept_rank_def cur_def load_def split: if_splits)
      qed simp
    qed
  qed (use assms in \<open>auto simp: parse_authority_def host_missing_or_valid_def\<close>)
qed

section \<open>The steps of the parser\<close>

lemma rank_of_status:
  assumes "\<not> has_error s" "get_value s = status_code v" "v \<in> set rank_order"
  shows "rank_of s = rank_of (status_code v)"
proof -
  have "get_value (status_code v) = status_code v"
    using assms(3) by (auto simp: rank_order_def) code_simp+
  then show ?thesis using assms(2) by (intro rank_of_value) simp
qed

lemma step_value:
  assumes "parse_uri_step sg opts ctx = Some (False, ctx')"
  obtains
    "get_value (ctx_status ctx) = status_code us_valid_authority" "parse_authority sg opts ctx = Some ctx'"
  | "get_value (ctx_status ctx) = status_code us_valid_file_host" "parse_file_host sg opts ctx = Some ctx'"
  | "get_value (ctx_status ctx) = status_code us_valid_port" "parse_port sg opts ctx = Some ctx'"
  | "get_value (ctx_status ctx) = status_code us_valid_authority_end" "parse_authority_end opts ctx = Some ctx'"
  | "get_value (ctx_status ctx) = status_code us_valid_opaque_path" "parse_opaque_path opts ctx = Some ctx'"
  | "get_value (ctx_status ctx) = status_code us_valid_path" "parse_path opts ctx = Some ctx'"
  | "get_value (ctx_status ctx) = status_code us_valid_queries" "parse_queries opts ctx = Some ctx'"
  | "get_value (ctx_status ctx) = status_code us_valid_fragment" "parse_fragment opts ctx = Some ctx'"
  | "get_value (ctx_status ctx) = status_code us_unparsed" "parse_scheme sg opts ctx = Some ctx'"
  using assms by (simp add: parse_uri_step_def Let_def del: status_code.simps split: if_split_asm)

text \<open>What the first step establishes, and every other step keeps.\<close>

definition no_file_at_sign :: "uri_ctx \<Rightarrow> bool" where
  "no_file_at_sign ctx \<longleftrightarrow>
     CHR ''@'' \<notin> set (ctx_text ctx) \<or> rank ctx < 7 \<or> rank ctx = 7 \<and> ctx_scheme ctx \<noteq> file_scheme_type"

lemma step_decreases:
  assumes step: "parse_uri_step sg standard_uri_parsing_options ctx = Some (False, ctx')"
    and e: "\<not> has_error (ctx_status ctx)" and f: "no_file_at_sign ctx" and v: "views str ctx"
  shows "no_file_at_sign ctx'"
    and "rank ctx' < rank ctx \<or> rank ctx' = rank ctx \<and> ctx_pos ctx < ctx_pos ctx' \<and> ctx_pos ctx < length str"
proof -
  have t: "ctx_text ctx = str" "ctx_text ctx' = str"
    using v views_step [OF step v] by (simp_all add: views_def)
  have r: "rank ctx = rank_of (status_code v)" if "get_value (ctx_status ctx) = status_code v" "v \<in> set rank_order" for v
    using rank_of_status [OF e that] .
  have mem: "us_valid_authority \<in> set rank_order" "us_valid_file_host \<in> set rank_order" "us_valid_port \<in> set rank_order"
    "us_valid_authority_end \<in> set rank_order" "us_valid_opaque_path \<in> set rank_order" "us_valid_path \<in> set rank_order"
    "us_valid_queries \<in> set rank_order" "us_valid_fragment \<in> set rank_order" "us_unparsed \<in> set rank_order"
    by (simp_all add: rank_order_def)
  have "no_file_at_sign ctx'
    \<and> (rank ctx' < rank ctx \<or> rank ctx' = rank ctx \<and> ctx_pos ctx < ctx_pos ctx' \<and> ctx_pos ctx < length str)"
    using step
  proof (cases rule: step_value)
    case 1
    then show ?thesis using r [OF 1(1) mem(1)] ranks f t rank_authority [OF 1(2)] by (auto simp: no_file_at_sign_def)
  next
    case 2
    then show ?thesis using r [OF 2(1) mem(2)] ranks f t rank_file_host [OF 2(2)] by (auto simp: no_file_at_sign_def)
  next
    case 3
    then show ?thesis using r [OF 3(1) mem(3)] ranks rank_port [OF 3(2)] by (auto simp: no_file_at_sign_def)
  next
    case 4
    then show ?thesis using r [OF 4(1) mem(4)] ranks rank_authority_end [OF 4(2)] by (auto simp: no_file_at_sign_def)
  next
    case 5
    then show ?thesis using r [OF 5(1) mem(5)] ranks rank_opaque [OF 5(2)] by (auto simp: no_file_at_sign_def)
  next
    case 6
    then show ?thesis using r [OF 6(1) mem(6)] ranks rank_path [OF 6(2)] by (auto simp: no_file_at_sign_def)
  next
    case 7
    then show ?thesis using r [OF 7(1) mem(7)] ranks t rank_queries [OF 7(2)] by (auto simp: no_file_at_sign_def)
  next
    case 8
    then show ?thesis using r [OF 8(1) mem(8)] ranks rank_fragment [OF 8(2)] by (auto simp: no_file_at_sign_def)
  next
    case 9
    then show ?thesis using r [OF 9(1) mem(9)] ranks f t rank_scheme [OF 9(2)] by (auto simp: no_file_at_sign_def)
  qed
  then show "no_file_at_sign ctx'"
    and "rank ctx' < rank ctx \<or> rank ctx' = rank ctx \<and> ctx_pos ctx < ctx_pos ctx' \<and> ctx_pos ctx < length str"
    by blast+
qed

lemma step_finished:
  assumes "parse_uri_step sg opts ctx = Some (True, ctx')" "rank ctx \<le> 9" "\<not> has_error (ctx_status ctx)"
  shows "ctx' = ctx \<and> get_value (ctx_status ctx) = status_code us_valid"
proof -
  let ?v = "get_value (ctx_status ctx)"
  have "ctx' = ctx \<and> (?v = status_code us_valid \<or> ?v = status_code us_valid_punycode)"
    using assms(1) by (simp add: parse_uri_step_def Let_def split: if_split_asm del: status_code.simps)
  moreover have "rank ctx = 10" if "?v = status_code us_valid_punycode"
  proof -
    have "rank_of (status_code us_valid_punycode) = 10" "get_value (status_code us_valid_punycode) = status_code us_valid_punycode"
      by code_simp+
    then show ?thesis using rank_of_value [of "ctx_status ctx" "status_code us_valid_punycode"] that by (simp del: status_code.simps)
  qed
  ultimately show ?thesis using assms(2) by auto
qed

definition finished_well :: "uri_ctx \<Rightarrow> bool" where
  "finished_well ctx \<longleftrightarrow> has_error (ctx_status ctx) \<or> get_value (ctx_status ctx) = status_code us_valid"

lemma continue_returns:
  "views str ctx \<Longrightarrow> no_file_at_sign ctx \<Longrightarrow> rank ctx \<le> 9 \<Longrightarrow>
     \<exists>r. continue_parsing_uri sg standard_uri_parsing_options ctx = Some r \<and> pred_option finished_well r"
proof (induction "(rank ctx, length str - ctx_pos ctx)" arbitrary: ctx
    rule: wf_induct_rule [OF wf_lex_prod [OF wf_less_than wf_less_than]])
  case (1 ctx)
  show ?case
  proof (cases "has_error (ctx_status ctx)")
    case False
    show ?thesis
    proof (cases "parse_uri_step sg standard_uri_parsing_options ctx")
      case (Some p)
      then obtain finished ctx' where p: "parse_uri_step sg standard_uri_parsing_options ctx = Some (finished, ctx')"
        by (cases p) auto
      show ?thesis
      proof (cases finished)
        case True
        then show ?thesis
          using step_finished [of sg standard_uri_parsing_options ctx ctx'] False p 1(4)
          by (subst continue_parsing_uri.simps) (simp add: finished_well_def)
      next
        case False': False
        have s: "parse_uri_step sg standard_uri_parsing_options ctx = Some (False, ctx')" using p False' by simp
        have "\<exists>r. continue_parsing_uri sg standard_uri_parsing_options ctx' = Some r \<and> pred_option finished_well r"
          using step_decreases [OF s False 1(3,2)] 1(4) by (intro 1(1) views_step [OF s 1(2)]) auto
        then show ?thesis
          using False s by (subst continue_parsing_uri.simps) simp
      qed
    qed (use False in \<open>subst continue_parsing_uri.simps, simp\<close>)
  qed (subst continue_parsing_uri.simps, simp add: finished_well_def)
qed

lemma continue_result:
  assumes "views str ctx" "no_file_at_sign ctx" "rank ctx \<le> 9"
  shows "\<exists>r. continue_parsing_uri sg standard_uri_parsing_options ctx = Some r \<and> pred_option (\<lambda>ctx. views str ctx \<and> finished_well ctx) r"
proof -
  obtain r where r: "continue_parsing_uri sg standard_uri_parsing_options ctx = Some r" "pred_option finished_well r"
    using continue_returns [OF assms] by blast
  then show ?thesis using views_continue [OF r(1) assms(1)] by (cases r) auto
qed

lemma parse_uri_result:
  assumes "CHR ''@'' \<notin> set str
    \<or> (\<forall>ctx. parse_scheme sg standard_uri_parsing_options (new_ctx str) = Some ctx \<longrightarrow> ctx_scheme ctx \<noteq> file_scheme_type)"
  shows "\<exists>r. parse_uri sg standard_uri_parsing_options str = Some r \<and> pred_option (\<lambda>ctx. views str ctx \<and> finished_well ctx) r"
proof (cases "CHR ''@'' \<in> set str")
  case False
  then have "no_file_at_sign (new_ctx str)"
    by (simp add: no_file_at_sign_def new_ctx_def)
  moreover have "rank (new_ctx str) \<le> 9" unfolding new_ctx_def using ranks(10) by (simp del: status_code.simps)
  ultimately show ?thesis
    unfolding parse_uri_def by (intro continue_result [OF views_new])
next
  case True
  let ?ctx = "new_ctx str"
  have start: "ctx_status ?ctx = status_code us_unparsed"
    by (simp add: new_ctx_def)
  have unparsed: "get_value (status_code us_unparsed) = status_code us_unparsed" "\<not> has_error (status_code us_unparsed)"
    by code_simp+
  have others: "status_code us_unparsed \<noteq> status_code us_valid" "status_code us_unparsed \<noteq> status_code us_valid_punycode"
    "status_code us_unparsed \<noteq> status_code us_valid_authority" "status_code us_unparsed \<noteq> status_code us_valid_file_host"
    "status_code us_unparsed \<noteq> status_code us_valid_port" "status_code us_unparsed \<noteq> status_code us_valid_authority_end"
    "status_code us_unparsed \<noteq> status_code us_valid_opaque_path" "status_code us_unparsed \<noteq> status_code us_valid_path"
    "status_code us_unparsed \<noteq> status_code us_valid_queries" "status_code us_unparsed \<noteq> status_code us_valid_fragment"
    by code_simp+
  have step: "parse_uri_step sg standard_uri_parsing_options ?ctx
      = map_option (Pair False) (parse_scheme sg standard_uri_parsing_options ?ctx)"
    unfolding parse_uri_step_def Let_def start unparsed using others by (simp del: status_code.simps)
  have e: "\<not> has_error (ctx_status ?ctx)"
    unfolding start by (rule unparsed)
  show ?thesis
  proof (cases "parse_scheme sg standard_uri_parsing_options ?ctx")
    case None
    then show ?thesis
      using e step unfolding parse_uri_def by (subst continue_parsing_uri.simps) simp
  next
    case (Some ctx)
    have v: "views str ctx" using views_parse_scheme [OF Some views_new] .
    have "rank ctx < 8" using rank_scheme [OF Some] assms True Some by auto
    then have "no_file_at_sign ctx" using assms True Some by (auto simp: no_file_at_sign_def)
    from continue_result [OF v this] \<open>rank ctx < 8\<close> show ?thesis
      using e step Some unfolding parse_uri_def by (subst continue_parsing_uri.simps) simp
  qed
qed

text \<open>C6: With the standard options, the parser returns for every text without an at sign and for every text with another scheme than
  that of files; when it has not read out of bounds, it has kept the text, every component is a part of the text, and
  the status is an error or valid.
\<close>

theorem parse_uri_returns:
  assumes "CHR ''@'' \<notin> set str
    \<or> (\<forall>ctx. parse_scheme sg standard_uri_parsing_options (new_ctx str) = Some ctx \<longrightarrow> ctx_scheme ctx \<noteq> file_scheme_type)"
  shows "\<exists>r. parse_uri sg standard_uri_parsing_options str = Some r
    \<and> (\<forall>ctx. r = Some ctx \<longrightarrow> ctx_text ctx = str \<and> (\<forall>part. sublist (get_output_from part (ctx_out ctx)) str)
          \<and> (has_error (ctx_status ctx) \<or> get_value (ctx_status ctx) = status_code us_valid))"
proof -
  obtain r where "parse_uri sg standard_uri_parsing_options str = Some r" "pred_option (\<lambda>ctx. views str ctx \<and> finished_well ctx) r"
    using parse_uri_result [OF assms] by blast
  then show ?thesis by (intro exI [of _ r]) (auto simp: views_def finished_well_def)
qed

theorem parse_uri_returns_witness:
  "\<exists>r. parse_uri True standard_uri_parsing_options ''http://x.org/'' = Some r
    \<and> (\<forall>ctx. r = Some ctx \<longrightarrow> ctx_text ctx = ''http://x.org/'' \<and> (\<forall>part. sublist (get_output_from part (ctx_out ctx)) ''http://x.org/'')
          \<and> (has_error (ctx_status ctx) \<or> get_value (ctx_status ctx) = status_code us_valid))"
  by (rule parse_uri_returns) simp

end
