(* ===== verification/Uri_Http.thy ===== *)
theory Uri_Http
  imports Uri_Ranks
begin

text \<open>
  What the parser finds in an ordinary text: a special scheme, a host, a path, queries and a fragment. The host is a name, the
  path has no character that has to be looked at apart from slashes.
\<close>

section \<open>The rest of a text\<close>

definition remains :: "string \<Rightarrow> uri_ctx \<Rightarrow> bool" where
  "remains s ctx \<longleftrightarrow> ctx_pos ctx \<le> length (ctx_text ctx) \<and> drop (ctx_pos ctx) (ctx_text ctx) = s"

lemma remains_simps [simp]:
  "remains s (warn w ctx) = remains s ctx" "remains s (valid_as v ctx) = remains s ctx"
  "remains s (clear_value part ctx) = remains s ctx" "remains s (ctx\<lparr>ctx_out := out\<rparr>) = remains s ctx"
  by (simp_all add: remains_def)

lemma remains_new [simp]: "remains str (new_ctx str)"
  by (simp add: remains_def new_ctx_def)

lemma remains_move: "remains (s @ t) ctx \<Longrightarrow> remains t (move (length s) ctx)"
proof -
  assume r: "remains (s @ t) ctx"
  then have "drop (length s) (drop (ctx_pos ctx) (ctx_text ctx)) = t" by (simp add: remains_def del: drop_drop)
  moreover have "length (drop (ctx_pos ctx) (ctx_text ctx)) = length s + length t" using r by (simp add: remains_def del: length_drop)
  moreover have "ctx_pos ctx \<le> length (ctx_text ctx)" using r by (simp add: remains_def)
  then have "ctx_pos ctx + length s \<le> length (ctx_text ctx)" using calculation(2) by simp
  ultimately show ?thesis by (simp add: remains_def add.commute)
qed

lemma remains_next: "remains (c # t) ctx \<Longrightarrow> cur ctx = Some c \<and> \<not> at_end ctx \<and> remains t (move 1 ctx)"
  using remains_move [of "[c]" t ctx] nth_via_drop [of "ctx_pos ctx" "ctx_text ctx" c t]
  by (auto simp: remains_def cur_def load_def at_end_def)

lemma remains_end: "remains [] ctx \<Longrightarrow> at_end ctx"
  by (simp add: remains_def at_end_def)

lemma remains_stop:
  assumes "remains (s @ c # t) ctx" "set s \<inter> set chars = {}" "c \<in> set chars"
  shows "find_next chars ctx = Some (False, move (length s) ctx)"
proof -
  have "takeWhile (\<lambda>c. c \<notin> set chars) (s @ c # t) = s"
    using assms(2,3) by (subst takeWhile_append2) auto
  then show ?thesis
    using assms(1) remains_next [OF remains_move [OF assms(1)]] by (simp add: find_next_def remains_def Let_def)
qed

lemma remains_to_end:
  assumes "remains s ctx" "set s \<inter> set chars = {}"
  shows "find_next chars ctx = Some (True, move (length s) ctx)"
proof -
  have "takeWhile (\<lambda>c. c \<notin> set chars) (drop (ctx_pos ctx) (ctx_text ctx)) = s"
    using assms by (auto simp: remains_def takeWhile_eq_all_conv)
  moreover have "at_end (move (length s) ctx)" using assms(1) remains_end remains_move [of s "[]" ctx] by simp
  ultimately show ?thesis using assms(1) by (simp only: find_next_def remains_def Let_def if_True simp_thms)
qed

lemma remains_value:
  assumes "remains (s @ t) ctx" "ctx_text ctx' = ctx_text ctx"
  shows "set_value part (ctx_pos ctx) (ctx_pos ctx + length s) ctx'
    = Some (ctx'\<lparr>ctx_out := set_value_to part s (ctx_out ctx')\<rparr>)"
proof -
  have "length (ctx_text ctx) - ctx_pos ctx = length s + length t" using assms(1) by (simp add: remains_def flip: length_drop)
  moreover have "ctx_pos ctx \<le> length (ctx_text ctx)" using assms(1) by (simp add: remains_def)
  ultimately show ?thesis
    using assms by (simp add: set_value_def sub_view_def remains_def)
qed

section \<open>The scheme\<close>

abbreviation specials :: "string list" where
  "specials \<equiv> [''http'', ''https'', ''ws'', ''wss'', ''ftp'']"

lemma alpha_ord: "c \<in> set ALPHA \<longleftrightarrow> ord c \<in> {0x41..0x5A} \<union> {0x61..0x7A}"
  by (auto simp: ALPHA_def LOWER_ALPHA_def UPPER_ALPHA_def set_charset_range)

lemma special_letters: "to_lower_copy c \<in> set ''fhpstw'' \<Longrightarrow> c \<in> set ALPHA \<and> ord c < 128"
proof -
  assume "to_lower_copy c \<in> set ''fhpstw''"
  moreover have "d \<in> set ''fhpstw'' \<Longrightarrow> ord d \<in> {0x61..0x7A}" for d by auto
  ultimately have "ord (to_lower_copy c) \<in> {0x61..0x7A}" by blast
  then show ?thesis by (auto simp: alpha_ord split: if_splits)
qed

lemma special_scheme_letters:
  assumes "map to_lower_copy s \<in> set specials"
  shows "s \<noteq> []" "set s \<subseteq> set ALPHA" "list_all (\<lambda>c. ord c < 128) s"
proof -
  have "\<forall>x\<in>set specials. set x \<subseteq> set ''fhpstw''" by simp
  then have "set (map to_lower_copy s) \<subseteq> set ''fhpstw''" using assms by (rule bspec)
  then have "c \<in> set ALPHA \<and> ord c < 128" if "c \<in> set s" for c
    by (rule special_letters [OF subsetD]) (simp add: that del: list.set)
  then show "set s \<subseteq> set ALPHA" "list_all (\<lambda>c. ord c < 128) s" by (auto simp: list_all_iff)
  show "s \<noteq> []"
  proof
    assume "s = []"
    then show False using assms by simp
  qed
qed

lemma letters: "c \<in> set ALPHA \<Longrightarrow> c \<in> set alnum_plus \<and> c \<noteq> CHR '':'' \<and> c \<noteq> CHR 0x00 \<and> \<not> is_tab c"
proof -
  assume c: "c \<in> set ALPHA"
  have "c \<noteq> d" if "\<not> ord d \<in> {0x41..0x5A} \<union> {0x61..0x7A}" for d using c that by (auto simp: alpha_ord)
  then have "c \<noteq> CHR '':''" "c \<noteq> CHR 0x00" "c \<noteq> CHR 0x0A" "c \<noteq> CHR 0x0D" "c \<noteq> CHR 0x09" by simp_all
  moreover have "c \<in> set alnum_plus" using c by (simp add: alnum_plus_def ALPHA_DIGIT_def)
  ultimately show ?thesis by (simp add: is_tab_def)
qed

lemma scheme_loop_letters:
  "set s \<subseteq> set ALPHA \<Longrightarrow>
     scheme_loop sg opts (s @ CHR '':'' # rest) code ctx = (Some (known_port_loop sg False s code), move (length s) ctx)"
  by (induction s arbitrary: code ctx) (auto simp: letters move_def)

lemma slashes:
  "inc_if_loop ''//'' (CHR ''/'' # CHR ''/'' # c # rest) pos status = (True, Suc (Suc pos), status)"
  by (simp add: is_tab_def)

definition http_ctx :: "string \<Rightarrow> uri_components \<Rightarrow> nat \<Rightarrow> uri_status \<Rightarrow> uri_ctx" where
  "http_ctx str out pos v =
     \<lparr>ctx_text = str, ctx_pos = pos, ctx_out = out, ctx_status = status_code v, ctx_scheme = special_scheme\<rparr>"

lemma set_valid_plain: "\<not> has_warnings (status_code v) \<Longrightarrow> set_valid (status_code v) w = status_code w"
  by (simp add: set_valid_def has_warnings_def warnings_mask_def)

lemma unparsed_plain [simp]: "set_valid (status_code us_unparsed) v = status_code v"
  by (rule set_valid_plain) code_simp

lemmas plain_status [simp] = valid_codes [THEN set_valid_plain]

lemma http_scheme:
  assumes "map to_lower_copy s \<in> set specials" "c \<notin> set [CHR 0x5C, CHR ''/'', CHR 0x00]" "\<not> is_tab c"
  shows "parse_scheme sg standard_uri_parsing_options (new_ctx (s @ ''://'' @ c # rest))
    = Some (http_ctx (s @ ''://'' @ c # rest) (no_components\<lparr>m_scheme := s\<rparr>) (length s + 3) us_valid_authority)"
proof -
  let ?str = "s @ ''://'' @ c # rest"
  obtain a s' where s: "s = a # s'" using special_scheme_letters(1) [OF assms(1)] by (cases s) auto
  have a: "a \<in> set ALPHA" and s': "set s' \<subseteq> set ALPHA" using special_scheme_letters(2) [OF assms(1)] s by auto
  have "known_port_loop sg False s' (add_to_code sg 0 a) = known_port_loop sg False s 0" by (simp add: s)
  also have "\<dots> = encoded_scheme (map to_lower_copy s)"
    using known_port_unchecked [OF special_scheme_letters(3) [OF assms(1)]] by (simp add: encoded_scheme_def)
  finally have code: "known_port_loop sg False s' (add_to_code sg 0 a) = encoded_scheme (map to_lower_copy s)" .
  have special: "encoded_scheme (map to_lower_copy s)
      \<in> {encoded_scheme ''http'', encoded_scheme ''https'', encoded_scheme ''ws'', encoded_scheme ''wss'', encoded_scheme ''ftp''}"
    using assms(1) by auto
  have start: "scheme_start standard_uri_parsing_options ?str (new_ctx ?str) = Some (True, new_ctx ?str)"
    using a by (simp add: s)
  have loop: "scheme_loop sg standard_uri_parsing_options (s' @ ''://'' @ c # rest) (add_to_code sg 0 a) (move (Suc 0) (new_ctx ?str))
      = (Some (encoded_scheme (map to_lower_copy s)), move (length s) (new_ctx ?str))"
    using scheme_loop_letters [OF s', of sg standard_uri_parsing_options "''//'' @ c # rest"] code
    by (simp add: s move_def)
  have drops: "drop (Suc 0) ?str = s' @ ''://'' @ c # rest" "drop (Suc (length s)) ?str = ''//'' @ c # rest"
    "drop (Suc (Suc (Suc (length s)))) ?str = c # rest" by (simp_all add: s)
  have set: "set_scheme (move (length s) (new_ctx ?str))
      = Some (move (length s) (new_ctx ?str)\<lparr>ctx_out := no_components\<lparr>m_scheme := s\<rparr>\<rparr>)"
    by (simp add: set_scheme_def set_value_def sub_view_def new_ctx_def)
  have final: "scheme_of_special standard_uri_parsing_options (move (length s) (new_ctx ?str)\<lparr>ctx_out := no_components\<lparr>m_scheme := s\<rparr>\<rparr>)
      = http_ctx ?str (no_components\<lparr>m_scheme := s\<rparr>) (length s + 3) us_valid_authority"
    using assms(2,3)
    by (simp add: scheme_of_special_def safely_inc_if_def special_authority_ignore_slashes_state_def drops slashes new_ctx_def move_def
        valid_as_def http_ctx_def del: inc_if_loop.simps status_code.simps)
  have cur: "cur (new_ctx ?str) = Some a" "\<not> at_end (new_ctx ?str)"
    by (simp_all add: cur_def load_def at_end_def new_ctx_def s)
  have pos: "ctx_pos (new_ctx ?str) = 0" "ctx_text (new_ctx ?str) = ?str" by (simp_all add: new_ctx_def)
  show ?thesis
    unfolding parse_scheme_def
    by (simp only: cur start pos drop_0 bind.bind_lunit if_False if_True prod.case Let_def move_simps drops loop option.case set special bind.bind_lunit if_True
        not_True_eq_False plus_nat.add_0 One_nat_def final HOL.simp_thms)
qed

section \<open>The host\<close>

lemma http_ctx_simps [simp]:
  "ctx_text (http_ctx str out p v) = str" "ctx_pos (http_ctx str out p v) = p" "ctx_out (http_ctx str out p v) = out"
  "ctx_scheme (http_ctx str out p v) = special_scheme" "ctx_status (http_ctx str out p v) = status_code v"
  "move n (http_ctx str out p v) = http_ctx str out (p + n) v"
  "http_ctx str out p v\<lparr>ctx_out := out'\<rparr> = http_ctx str out' p v"
  by (simp_all add: http_ctx_def move_def)

lemma http_ctx_valid:
  "\<not> has_warnings (status_code w) \<Longrightarrow> valid_as v (http_ctx str out p w) = http_ctx str out p v"
  by (simp add: http_ctx_def valid_as_def set_valid_plain del: status_code.simps)

lemmas http_ctx_valids [simp] = valid_codes [THEN http_ctx_valid]

lemma move_move [simp]: "move n (move m ctx) = move (m + n) ctx"
  by (simp add: move_def add.assoc)

definition host_name :: "string \<Rightarrow> bool" where
  "host_name h \<longleftrightarrow> 2 \<le> length h \<and> list_all (\<lambda>c. c = CHR ''.'' \<or> c \<notin> set forbidden_domains) h
     \<and> \<not> is_digit (last h) \<and> last h \<notin> set ''.ABCDEFabcdefXx''"

lemma domain_marks: "CHR ''/'' \<in> set forbidden_domains" "CHR ''.'' \<in> set forbidden_domains"
  by (simp_all add: forbidden_domains_def forbidden_hosts_def)

lemma slash_switch:
  assumes "\<not> au_must_contain_credentials st" "ctx_pos ctx \<noteq> au_host_begin st"
  shows "authority_switch sg opts True ab st ctx (CHR ''/'') = Some (Au_Break (au_with st (valid_as us_valid_path ctx)))"
  using assms by (simp add: authority_switch_def after_switch_def)

lemma dot_switch: "authority_switch sg opts True ab st ctx (CHR ''.'') = Some (Au_Continue (au_with st (move 1 ctx)))"
  by (simp add: authority_switch_def)

lemma without_dot: "list_all (\<lambda>c. c = d \<or> c \<notin> S) h \<Longrightarrow> d \<notin> set h \<Longrightarrow> set h \<inter> S = {}"
  by (induction h) auto

lemma host_loop:
  assumes "remains (h @ CHR ''/'' # rest) (au_ctx st)" "list_all (\<lambda>c. c = CHR ''.'' \<or> c \<notin> set forbidden_domains) h"
    "\<not> au_must_contain_credentials st" "ctx_pos (au_ctx st) + length h \<noteq> au_host_begin st"
  shows "authority_loop sg opts True ab st = Some (Au_Break (au_with st (valid_as us_valid_path (move (length h) (au_ctx st)))))"
  using assms
proof (induction "length h" arbitrary: h st rule: less_induct)
  case less
  show ?case
  proof (cases "CHR ''.'' \<in> set h")
    case False
    then have "set h \<inter> set forbidden_domains = {}" by (rule without_dot [OF less(3)])
    from remains_stop [OF less(2) this domain_marks(1)]
    have step: "authority_step sg opts True ab st = Some (Au_Break (au_with st (valid_as us_valid_path (move (length h) (au_ctx st)))))"
      using remains_next [OF remains_move [OF less(2)]] slash_switch [of st "move (length h) (au_ctx st)"] less(4,5)
      by (simp add: authority_step_def)
    show ?thesis by (subst authority_loop.simps) (simp add: step)
  next
    case True
    then obtain h1 h2 where h: "h = h1 @ CHR ''.'' # h2" "CHR ''.'' \<notin> set h1" by (meson split_list_first)
    have r: "remains (h1 @ CHR ''.'' # h2 @ CHR ''/'' # rest) (au_ctx st)" using less(2) by (simp add: h)
    have "list_all (\<lambda>c. c = CHR ''.'' \<or> c \<notin> set forbidden_domains) h1" using less(3) by (simp add: h)
    from without_dot [OF this h(2)] have "set h1 \<inter> set forbidden_domains = {}" .
    from remains_stop [OF r this domain_marks(2)]
    have step: "authority_step sg opts True ab st = Some (Au_Continue (au_with st (move (length h1 + 1) (au_ctx st))))"
      using remains_next [OF remains_move [OF r]] by (simp add: authority_step_def dot_switch)
    have r2: "remains (h2 @ CHR ''/'' # rest) (move (length h1 + 1) (au_ctx st))"
      using remains_next [OF remains_move [OF r]] by simp
    let ?st = "au_with st (move (length h1 + 1) (au_ctx st))"
    have "authority_loop sg opts True ab ?st = Some (Au_Break (au_with ?st (valid_as us_valid_path (move (length h2) (au_ctx ?st)))))"
      using less(3,4,5) r2 by (intro less(1)) (simp_all add: h)
    then show ?thesis by (subst authority_loop.simps) (simp add: step h)
  qed
qed

lemma remains_last:
  assumes "remains (s @ t) ctx" "s \<noteq> []"
  shows "load (ctx_text ctx) (ctx_pos ctx + length s - 1) = Some (last s)"
proof -
  have d: "drop (ctx_pos ctx) (ctx_text ctx) = s @ t" and le: "ctx_pos ctx \<le> length (ctx_text ctx)"
    using assms(1) by (simp_all add: remains_def)
  have len: "length (ctx_text ctx) - ctx_pos ctx = length s + length t" using d by (metis length_append length_drop)
  have "ctx_text ctx ! (ctx_pos ctx + (length s - 1)) = (s @ t) ! (length s - 1)" using le by (simp flip: d)
  also have "\<dots> = last s" using assms(2) by (simp add: nth_append last_conv_nth)
  finally show ?thesis using assms(2) len le by (cases s) (simp_all add: load_def)
qed

lemma name_no_ipv4:
  assumes "host_name h" "remains (h @ t) ctx" "ctx_text ctx' = ctx_text ctx"
  shows "is_possible_ends_with_ipv4 opts (ctx_pos ctx) (ctx_pos ctx + length h - 1) ctx' = Some (False, ctx')"
proof -
  have h: "2 \<le> length h" "\<not> is_digit (last h)" "last h \<notin> set ''.ABCDEFabcdefXx''"
    using assms(1) by (simp_all only: host_name_def simp_thms)
  have l: "load (ctx_text ctx') (ctx_pos ctx + length h - 1) = Some (last h)"
    unfolding assms(3) using h(1) by (intro remains_last [OF assms(2)]) auto
  have "last h \<noteq> CHR ''.''" "last h \<notin> set ''ABCDEFabcdef''" "last h \<noteq> CHR ''X''" "last h \<noteq> CHR ''x''"
    using h(3) by simp_all
  then have "skip_dots m (ctx_text ctx') (ctx_pos ctx) (ctx_pos ctx + length h - 1) ctx' = Some (Some (ctx_pos ctx + length h - 1), ctx')"
    "ends_with_number (ctx_text ctx') (ctx_pos ctx) False (ctx_pos ctx + length h - 1) = Some False" for m
    using l h(1,2) by (subst skip_dots.simps ends_with_number.simps; simp del: list.set)+
  then show ?thesis by (simp add: is_possible_ends_with_ipv4_def)
qed

lemma name_start:
  assumes "host_name h"
  obtains c h' where "h = c # h'" "c \<notin> set ('':?/#'' @ [CHR 0x5C, CHR 0x00])" "\<not> is_tab c"
proof -
  obtain c h' where h: "h = c # h'" using assms by (cases h) (auto simp: host_name_def)
  then have c: "c = CHR ''.'' \<or> c \<notin> set forbidden_domains" using assms by (simp add: host_name_def del: list.set)
  have marks: "d \<in> set forbidden_domains \<and> d \<noteq> CHR ''.''" if "d \<in> set ('':?/#'' @ [CHR 0x5C, CHR 0x00, CHR 0x0A, CHR 0x0D, CHR 0x09])" for d
    using that by (auto simp: forbidden_domains_def forbidden_hosts_def)
  then have no: "c \<notin> set ('':?/#'' @ [CHR 0x5C, CHR 0x00, CHR 0x0A, CHR 0x0D, CHR 0x09])" using c by blast
  then have "c \<notin> set ('':?/#'' @ [CHR 0x5C, CHR 0x00])" "\<not> is_tab c" by (simp_all add: is_tab_def)
  then show ?thesis using that h by blast
qed

lemma http_authority:
  assumes "remains (h @ CHR ''/'' # rest) (http_ctx str out p us_valid_authority)" "host_name h"
  shows "parse_authority sg standard_uri_parsing_options (http_ctx str out p us_valid_authority)
    = Some (http_ctx str (out\<lparr>m_hostname := h\<rparr>) (p + length h) us_valid_path)"
proof -
  let ?ctx = "http_ctx str out p us_valid_authority"
  obtain c h' where h: "h = c # h'" and c: "c \<notin> set ('':?/#'' @ [CHR 0x5C, CHR 0x00])" "\<not> is_tab c"
    using name_start [OF assms(2)] .
  let ?st = "\<lparr>au_ctx = ?ctx, au_host_begin = p, au_colon_pos = None, au_skip_last_char = False, au_must_contain_credentials = False\<rparr>"
  let ?last = "http_ctx str out (p + length h) us_valid_path"
  let ?fin = "\<lparr>au_ctx = ?last, au_host_begin = p, au_colon_pos = None, au_skip_last_char = False, au_must_contain_credentials = False\<rparr>"
  have name: "list_all (\<lambda>c. c = CHR ''.'' \<or> c \<notin> set forbidden_domains) h" "2 \<le> length h"
    using assms(2) by (simp_all only: host_name_def simp_thms)
  have "authority_loop sg standard_uri_parsing_options True p ?st
      = Some (Au_Break (au_with ?st (valid_as us_valid_path (move (length h) (au_ctx ?st)))))"
    by (rule host_loop [where rest = rest]) (use assms(1) name in auto)
  then have loop: "authority_loop sg standard_uri_parsing_options True p ?st = Some (Au_Break ?fin)"
    by (simp add: valid_codes)
  have v: "set_value comp_host p (p + length h) ?last = Some (http_ctx str (out\<lparr>m_hostname := h\<rparr>) (p + length h) us_valid_path)"
    using remains_value [OF assms(1), of ?last comp_host] by simp
  have finish: "finish_host standard_uri_parsing_options ?fin
      = Some (http_ctx str (out\<lparr>m_hostname := h\<rparr>) (p + length h) us_valid_path)"
    using name_no_ipv4 [OF assms(2) assms(1), of ?last standard_uri_parsing_options] v h
    by (simp add: finish_host_def Let_def end_of_host_def)
  have "drop p str = c # h' @ CHR ''/'' # rest" "\<not> at_end ?ctx"
    using assms(1) remains_next [of c "h' @ CHR ''/'' # rest" ?ctx] by (simp_all add: remains_def h)
  moreover have "authority_start standard_uri_parsing_options (c # h' @ CHR ''/'' # rest) ?ctx = Some (Inr ?ctx)"
    using c by simp
  ultimately show ?thesis
    by (simp add: parse_authority_def is_file_scheme_type_def is_special_scheme_type_def parse_authority_pieces_def loop finish)
qed

section \<open>The path, the queries and the fragment\<close>

definition plain_path :: "string \<Rightarrow> bool" where
  "plain_path p \<longleftrightarrow> list_all (\<lambda>c. c = CHR ''/'' \<or> c \<notin> set path_characters) p"

lemma path_marks: "CHR ''/'' \<in> set path_characters" "CHR ''?'' \<in> set path_characters"
  by (simp_all add: path_characters_def)

lemma dots_known:
  "beg \<le> ctx_pos ctx \<Longrightarrow> ctx_pos ctx \<le> length (ctx_text ctx) \<Longrightarrow> \<exists>b. handle_dots_in_paths opts beg ctx = Some b"
  by (cases "option_handle_dots_in_paths opts") (auto simp: handle_dots_in_paths_def sub_view_def)

lemma plain_path_loop:
  assumes "remains (p @ CHR ''?'' # rest) ctx" "plain_path p" "beg \<le> ctx_pos ctx"
  shows "path_loop opts beg ctx = Some (Tail_Break (valid_as us_valid_queries (move (length p) ctx)))"
  using assms
proof (induction "length p" arbitrary: p ctx rule: less_induct)
  case less
  note p = less(3) [unfolded plain_path_def]
  show ?case
  proof (cases "CHR ''/'' \<in> set p")
    case False
    from remains_stop [OF less(2) without_dot [OF p False] path_marks(2)]
    have step: "path_step opts beg ctx = Some (Tail_Break (valid_as us_valid_queries (move (length p) ctx)))"
      using remains_next [OF remains_move [OF less(2)]] by (simp add: path_step_def)
    show ?thesis by (subst path_loop.simps) (simp add: step)
  next
    case True
    then obtain p1 p2 where split: "p = p1 @ CHR ''/'' # p2" "CHR ''/'' \<notin> set p1" by (meson split_list_first)
    have r: "remains (p1 @ CHR ''/'' # p2 @ CHR ''?'' # rest) ctx" using less(2) by (simp add: split)
    have "list_all (\<lambda>c. c = CHR ''/'' \<or> c \<notin> set path_characters) p1" using p by (simp add: split)
    note stop = remains_stop [OF r without_dot [OF this split(2)] path_marks(1)]
    have at: "remains (CHR ''/'' # p2 @ CHR ''?'' # rest) (move (length p1) ctx)" by (rule remains_move [OF r])
    then obtain b where "handle_dots_in_paths opts beg (move (length p1) ctx) = Some b"
      using dots_known [of beg "move (length p1) ctx" opts] less(4) by (auto simp: remains_def)
    then have step: "path_step opts beg ctx = Some (Tail_Continue (move (length p1 + 1) ctx))"
      using stop remains_next [OF at] by (simp add: path_step_def Let_def)
    have r2: "remains (p2 @ CHR ''?'' # rest) (move (length p1 + 1) ctx)" using remains_next [OF at] by simp
    have "path_loop opts beg (move (length p1 + 1) ctx)
        = Some (Tail_Break (valid_as us_valid_queries (move (length p2) (move (length p1 + 1) ctx))))"
      using p less(4) r2 by (intro less(1)) (simp_all add: split plain_path_def)
    then show ?thesis by (subst path_loop.simps) (simp add: step split)
  qed
qed

lemma http_path:
  assumes "remains (p @ CHR ''?'' # rest) (http_ctx str out pos us_valid_path)" "plain_path p"
  shows "parse_path standard_uri_parsing_options (http_ctx str out pos us_valid_path)
    = Some (http_ctx str (out\<lparr>m_path := p\<rparr>) (pos + length p + 1) us_valid_queries)"
proof -
  let ?ctx = "http_ctx str out pos us_valid_path"
  let ?last = "http_ctx str out (pos + length p) us_valid_queries"
  have loop: "path_loop standard_uri_parsing_options pos ?ctx = Some (Tail_Break ?last)"
    using plain_path_loop [OF assms, of pos standard_uri_parsing_options] by (simp add: valid_codes)
  have r: "remains (CHR ''?'' # rest) (http_ctx str out' (pos + length p) us_valid_queries)" for out'
    using remains_move [OF assms(1)] by (simp add: remains_def)
  obtain b where d: "handle_dots_in_paths standard_uri_parsing_options pos ?last = Some b"
    using dots_known [of pos ?last standard_uri_parsing_options] r [of out] by (auto simp: remains_def)
  have v: "set_value comp_path pos (pos + length p) ?last = Some (http_ctx str (out\<lparr>m_path := p\<rparr>) (pos + length p) us_valid_queries)"
    using remains_value [OF assms(1), of ?last comp_path] by simp
  show ?thesis
    using remains_next [OF r [of "out\<lparr>m_path := p\<rparr>"]]
    by (simp add: parse_path_def is_special_scheme_type_def handle_windows_driver_letter_def is_file_scheme_type_def Let_def loop d v)
qed

lemma http_queries:
  assumes "remains (q @ CHR ''#'' # rest) (http_ctx str out pos us_valid_queries)" "set q \<inter> set query_characters = {}"
  shows "parse_queries standard_uri_parsing_options (http_ctx str out pos us_valid_queries)
    = Some (http_ctx str (out\<lparr>m_fragment := [], m_queries := q\<rparr>) (pos + length q + 1) us_valid_fragment)"
proof -
  let ?ctx = "http_ctx str out pos us_valid_queries"
  let ?last = "http_ctx str (out\<lparr>m_fragment := []\<rparr>) (pos + length q) us_valid_fragment"
  have "CHR ''#'' \<in> set query_characters" by (simp add: query_characters_def)
  from remains_stop [OF assms(1,2) this]
  have step: "queries_step standard_uri_parsing_options ?ctx = Some (Tail_Break ?last)"
    using remains_next [OF remains_move [OF assms(1)]]
    by (simp add: queries_step_def clear_value_def valid_codes)
  have loop: "queries_loop standard_uri_parsing_options ?ctx = Some (Tail_Break ?last)"
    by (subst queries_loop.simps) (simp add: step)
  have v: "set_value comp_queries pos (pos + length q) ?last
      = Some (http_ctx str (out\<lparr>m_fragment := [], m_queries := q\<rparr>) (pos + length q) us_valid_fragment)"
    using remains_value [OF assms(1), of ?last comp_queries] by simp
  have r: "remains (CHR ''#'' # rest) (http_ctx str out' (pos + length q) v')" for out' v'
    using remains_move [OF assms(1)] by (simp add: remains_def)
  have "\<not> at_end ?ctx" using assms(1) by (auto simp: remains_def at_end_def)
  then show ?thesis
    using remains_next [OF r] by (simp add: parse_queries_def loop v)
qed

lemma http_fragment:
  assumes "remains f (http_ctx str out pos us_valid_fragment)" "CHR ''%'' \<notin> set f" "m_fragment out = []"
  shows "parse_fragment standard_uri_parsing_options (http_ctx str out pos us_valid_fragment)
    = Some (http_ctx str (out\<lparr>m_fragment := f\<rparr>) (pos + length f) us_valid)"
proof (cases "f = []")
  case True
  then have "at_end (http_ctx str out pos us_valid_fragment)" using assms(1) remains_end by simp
  moreover have "out\<lparr>m_fragment := []\<rparr> = out" using assms(3) by simp
  ultimately show ?thesis using True by (simp add: parse_fragment_def valid_codes)
next
  case False
  let ?ctx = "http_ctx str out pos us_valid_fragment"
  let ?last = "http_ctx str out (pos + length f) us_valid_fragment"
  have "find_next [CHR ''%''] ?ctx = Some (True, ?last)"
    using remains_to_end [OF assms(1), of "[CHR ''%'']"] assms(2) by simp
  then have step: "fragment_step standard_uri_parsing_options ?ctx = Some (Tail_Break ?last)" by (simp add: fragment_step_def)
  have loop: "fragment_loop standard_uri_parsing_options ?ctx = Some (Tail_Break ?last)"
    by (subst fragment_loop.simps) (simp add: step)
  have v: "set_value comp_fragment pos (pos + length f) ?last = Some (http_ctx str (out\<lparr>m_fragment := f\<rparr>) (pos + length f) us_valid_fragment)"
    using remains_value [of f "[]" ?ctx ?last comp_fragment] assms(1) by simp
  have "\<not> at_end ?ctx" using assms(1) False by (auto simp: remains_def at_end_def)
  then show ?thesis by (simp add: parse_fragment_def loop v valid_codes)
qed

section \<open>The whole text\<close>

lemma codes:
  "status_code us_unparsed = 0" "status_code us_valid = 1" "status_code us_valid_punycode = 2" "status_code us_valid_authority = 4"
  "status_code us_valid_file_host = 5" "status_code us_valid_port = 6" "status_code us_valid_authority_end = 7"
  "status_code us_valid_path = 8" "status_code us_valid_opaque_path = 9" "status_code us_valid_queries = 10"
  "status_code us_valid_fragment = 11"
  by code_simp+

lemma code_values:
  "get_value 0 = 0" "get_value 1 = 1" "get_value 4 = 4" "get_value 8 = 8" "get_value 10 = 10" "get_value 11 = 11"
  by code_simp+

lemma codes_no_error:
  "\<not> has_error 0" "\<not> has_error 1" "\<not> has_error 4" "\<not> has_error 8" "\<not> has_error 10" "\<not> has_error 11"
  by code_simp+

lemma http_steps:
  "parse_uri_step sg opts (http_ctx str out p us_valid) = Some (True, http_ctx str out p us_valid)"
  "parse_uri_step sg opts (http_ctx str out p us_valid_authority)
     = map_option (Pair False) (parse_authority sg opts (http_ctx str out p us_valid_authority))"
  "parse_uri_step sg opts (http_ctx str out p us_valid_path)
     = map_option (Pair False) (parse_path opts (http_ctx str out p us_valid_path))"
  "parse_uri_step sg opts (http_ctx str out p us_valid_queries)
     = map_option (Pair False) (parse_queries opts (http_ctx str out p us_valid_queries))"
  "parse_uri_step sg opts (http_ctx str out p us_valid_fragment)
     = map_option (Pair False) (parse_fragment opts (http_ctx str out p us_valid_fragment))"
  "parse_uri_step sg opts (new_ctx str) = map_option (Pair False) (parse_scheme sg opts (new_ctx str))"
  unfolding parse_uri_step_def http_ctx_def new_ctx_def codes Let_def by (simp_all add: code_values)

lemma continue_on:
  "parse_uri_step sg opts ctx = Some (False, ctx') \<Longrightarrow> \<not> has_error (ctx_status ctx) \<Longrightarrow>
     continue_parsing_uri sg opts ctx = continue_parsing_uri sg opts ctx'"
  by (simp add: continue_parsing_uri.simps [of sg opts ctx])

lemma continue_done:
  "parse_uri_step sg opts ctx = Some (True, ctx') \<Longrightarrow> \<not> has_error (ctx_status ctx) \<Longrightarrow>
     continue_parsing_uri sg opts ctx = Some (Some ctx')"
  by (simp add: continue_parsing_uri.simps [of sg opts ctx])

lemma http_no_error:
  "\<not> has_error (ctx_status (new_ctx str))" "\<not> has_error (ctx_status (http_ctx str out p us_valid))"
  "\<not> has_error (ctx_status (http_ctx str out p us_valid_authority))" "\<not> has_error (ctx_status (http_ctx str out p us_valid_path))"
  "\<not> has_error (ctx_status (http_ctx str out p us_valid_queries))" "\<not> has_error (ctx_status (http_ctx str out p us_valid_fragment))"
  unfolding http_ctx_def new_ctx_def codes by (simp_all add: codes_no_error)

lemma remains_http: "remains s ctx \<Longrightarrow> ctx_text ctx = str \<Longrightarrow> ctx_pos ctx = p \<Longrightarrow> remains s (http_ctx str out p v)"
  by (simp add: remains_def)

text \<open>C5: A special scheme in letters of any case, a host that is a name, a path, queries and a fragment, as they are written, are
  the components that the parser finds, and it finds them valid without a warning.
\<close>

theorem parse_uri_http:
  assumes "map to_lower_copy s \<in> set specials" "host_name h" "plain_path p"
    "set q \<inter> set query_characters = {}" "CHR ''%'' \<notin> set f"
  shows "\<exists>ctx. parse_uri sg standard_uri_parsing_options (s @ ''://'' @ h @ ''/'' @ p @ ''?'' @ q @ ''#'' @ f) = Some (Some ctx)
    \<and> ctx_status ctx = status_code us_valid
    \<and> ctx_out ctx = \<lparr>m_scheme = s, m_username = [], m_password = [], m_hostname = h, m_port = [], m_path = ''/'' @ p,
         m_queries = q, m_fragment = f\<rparr>"
proof -
  let ?opts = standard_uri_parsing_options
  let ?tail = "h @ CHR ''/'' # p @ CHR ''?'' # q @ CHR ''#'' # f"
  let ?str = "s @ ''://'' @ ?tail"
  let ?out = "no_components\<lparr>m_scheme := s\<rparr>"
  let ?out2 = "?out\<lparr>m_hostname := h\<rparr>" let ?out3 = "?out2\<lparr>m_path := CHR ''/'' # p\<rparr>"
  let ?out4 = "?out3\<lparr>m_fragment := [], m_queries := q\<rparr>"
  obtain c h' where h: "h = c # h'" "c \<notin> set ('':?/#'' @ [CHR 0x5C, CHR 0x00])" "\<not> is_tab c"
    using name_start [OF assms(2)] .
  have r1: "remains ?tail (http_ctx ?str out (length s + 3) v)" for out v
    by (simp add: remains_def)
  have r2: "remains (CHR ''/'' # p @ CHR ''?'' # q @ CHR ''#'' # f) (http_ctx ?str out (length s + 3 + length h) v)" for out v
    using remains_move [OF r1] by simp
  have r2': "remains ((CHR ''/'' # p) @ CHR ''?'' # q @ CHR ''#'' # f) (http_ctx ?str out (length s + 3 + length h) v)" for out v
    using r2 by simp
  have r3: "remains (q @ CHR ''#'' # f) (http_ctx ?str out (length s + 3 + length h + length (CHR ''/'' # p) + 1) v)" for out v
    using remains_next [OF remains_move [OF r2']]
    by (simp add: add.assoc)
  have r4: "remains f (http_ctx ?str out (length s + 3 + length h + length (CHR ''/'' # p) + 1 + length q + 1) v)" for out v
    using remains_next [OF remains_move [OF r3]] by simp
  have path: "plain_path (CHR ''/'' # p)" using assms(3) by (simp add: plain_path_def)
  have 1: "parse_scheme sg ?opts (new_ctx ?str) = Some (http_ctx ?str ?out (length s + 3) us_valid_authority)"
    using http_scheme [OF assms(1), where c = c and rest = "h' @ CHR ''/'' # p @ CHR ''?'' # q @ CHR ''#'' # f" and sg = sg] h by simp
  note 2 = http_authority [OF r1 assms(2), of sg ?out]
  note 3 = http_path [OF r2' [of ?out2] path]
  note 4 = http_queries [OF r3 [of ?out3] assms(4)]
  have "m_fragment ?out4 = []" by simp
  note 5 = http_fragment [OF r4 assms(5) this]
  let ?p2 = "length s + 3 + length h" let ?p3 = "?p2 + length (CHR ''/'' # p) + 1" let ?p4 = "?p3 + length q + 1"
  let ?done = "http_ctx ?str (?out4\<lparr>m_fragment := f\<rparr>) (?p4 + length f) us_valid"
  have s1: "parse_uri_step sg ?opts (new_ctx ?str) = Some (False, http_ctx ?str ?out (length s + 3) us_valid_authority)"
    unfolding http_steps 1 by (rule option.map)
  have s2: "parse_uri_step sg ?opts (http_ctx ?str ?out (length s + 3) us_valid_authority) = Some (False, http_ctx ?str ?out2 ?p2 us_valid_path)"
    unfolding http_steps 2 by (rule option.map)
  have s3: "parse_uri_step sg ?opts (http_ctx ?str ?out2 ?p2 us_valid_path) = Some (False, http_ctx ?str ?out3 ?p3 us_valid_queries)"
    unfolding http_steps 3 by (rule option.map)
  have s4: "parse_uri_step sg ?opts (http_ctx ?str ?out3 ?p3 us_valid_queries) = Some (False, http_ctx ?str ?out4 ?p4 us_valid_fragment)"
    unfolding http_steps 4 by (rule option.map)
  have s5: "parse_uri_step sg ?opts (http_ctx ?str ?out4 ?p4 us_valid_fragment) = Some (False, ?done)"
    unfolding http_steps 5 by (rule option.map)
  note continue_on [OF s1 http_no_error(1)]
  also note continue_on [OF s2 http_no_error(3)]
  also note continue_on [OF s3 http_no_error(4)]
  also note continue_on [OF s4 http_no_error(5)]
  also note continue_on [OF s5 http_no_error(6)]
  also note continue_done [OF http_steps(1) http_no_error(2)]
  finally have "continue_parsing_uri sg ?opts (new_ctx ?str) = Some (Some ?done)" .
  then show ?thesis by (simp add: parse_uri_def no_components_def)
qed

theorem parse_uri_http_witness:
  "\<exists>ctx. parse_uri True standard_uri_parsing_options ''HTTP://my.org/a/..?x=1#top'' = Some (Some ctx)
    \<and> ctx_status ctx = status_code us_valid
    \<and> ctx_out ctx = \<lparr>m_scheme = ''HTTP'', m_username = [], m_password = [], m_hostname = ''my.org'', m_port = [],
         m_path = ''/a/..'', m_queries = ''x=1'', m_fragment = ''top''\<rparr>"
proof -
  have "map to_lower_copy ''HTTP'' \<in> set specials" "host_name ''my.org''" "plain_path ''a/..''"
    "set ''x=1'' \<inter> set query_characters = {}" "CHR ''%'' \<notin> set ''top''"
    by code_simp+
  from parse_uri_http [OF this, of True] show ?thesis by simp
qed

end
