(* ===== verification/Uri_Cases.thy ===== *)
theory Uri_Cases
  imports Uri_Http
begin

text \<open>
  Texts on which the parser goes wrong: one on which it runs forever, which is why \<open>parse_uri_returns\<close> has a
  hypothesis, and some that it reads past their end.
\<close>

section \<open>The host of a file with an at sign\<close>

text \<open>The context between the steps: its position and its status.\<close>

definition at_sign_ctx :: "nat \<Rightarrow> u32 \<Rightarrow> uri_ctx" where
  "at_sign_ctx pos status =
     \<lparr>ctx_text = ''file://a@b'', ctx_pos = pos, ctx_out = no_components\<lparr>m_scheme := ''file''\<rparr>, ctx_status = status,
      ctx_scheme = file_scheme_type\<rparr>"

lemma at_sign_scheme: "parse_uri_step sg standard_uri_parsing_options (new_ctx ''file://a@b'') = Some (False, at_sign_ctx 7 5)"
  by (induction sg rule: bool.induct) code_simp+

lemma at_sign_host: "parse_uri_step sg standard_uri_parsing_options (at_sign_ctx 7 5) = Some (False, at_sign_ctx 8 655365)"
  by (induction sg rule: bool.induct) code_simp+

lemma at_sign_again: "parse_uri_step sg standard_uri_parsing_options (at_sign_ctx 8 655365) = Some (False, at_sign_ctx 8 655365)"
  by (induction sg rule: bool.induct) code_simp+

lemma at_sign_no_error:
  "\<not> has_error (ctx_status (new_ctx ''file://a@b''))" "\<not> has_error (ctx_status (at_sign_ctx 7 5))"
  "\<not> has_error (ctx_status (at_sign_ctx 8 655365))"
  by code_simp+

lemma step_repeats:
  assumes step: "parse_uri_step sg opts ctx = Some (False, ctx)" and e: "\<not> has_error (ctx_status ctx)"
  shows "continue_parsing_uri sg opts ctx = None"
proof -
  have "continue_parsing_uri sg opts ctx \<noteq> Some r" for r
  proof
    assume "continue_parsing_uri sg opts ctx = Some r"
    then have "\<not> (sg = sg \<and> opts = opts \<and> ctx = ctx)"
    proof (rule continue_parsing_uri.raw_induct
        [where P = "\<lambda>sg' opts' ctx' r. \<not> (sg' = sg \<and> opts' = opts \<and> ctx' = ctx)", rotated], goal_cases)
      case (1 parse sg' opts' ctx' r)
      show ?case
      proof
        assume "sg' = sg \<and> opts' = opts \<and> ctx' = ctx"
        then have "parse sg opts ctx = Some r" using 1(2) step e by (simp split: if_split_asm)
        from 1(1) [OF this] show False by simp
      qed
    qed
    then show False by simp
  qed
  then show ?thesis by (cases "continue_parsing_uri sg opts ctx") auto
qed

lemma file_at_sign_never_returns: "parse_uri sg standard_uri_parsing_options ''file://a@b'' = None"
  unfolding parse_uri_def
  by (simp only: continue_on [OF at_sign_scheme at_sign_no_error(1)] continue_on [OF at_sign_host at_sign_no_error(2)]
      step_repeats [OF at_sign_again at_sign_no_error(3)])

section \<open>Reading past the end\<close>

lemma tabs_out_of_bounds: "parse_uri sg standard_uri_parsing_options [CHR 0x09] = Some None"
proof -
  have "parse_uri_step sg standard_uri_parsing_options (new_ctx [CHR 0x09]) = None"
    "\<not> has_error (ctx_status (new_ctx [CHR 0x09]))"
    by (induction sg rule: bool.induct; code_simp)+
  then show ?thesis
    unfolding parse_uri_def by (simp add: continue_parsing_uri.simps [of sg standard_uri_parsing_options "new_ctx [CHR 0x09]"])
qed

lemma percent_out_of_bounds: "parse_uri sg standard_uri_parsing_options ''a:%'' = Some None"
proof -
  define ctx where "ctx = \<lparr>ctx_text = ''a:%'', ctx_pos = 2, ctx_out = no_components\<lparr>m_scheme := ''a''\<rparr>,
    ctx_status = status_code us_valid_opaque_path, ctx_scheme = not_special\<rparr>"
  have "parse_uri_step sg standard_uri_parsing_options (new_ctx ''a:%'') = Some (False, ctx)"
    "\<not> has_error (ctx_status (new_ctx ''a:%''))"
    unfolding ctx_def by (induction sg rule: bool.induct; code_simp)+
  moreover have "parse_uri_step sg standard_uri_parsing_options ctx = None" "\<not> has_error (ctx_status ctx)"
    unfolding ctx_def by (induction sg rule: bool.induct; code_simp)+
  ultimately show ?thesis
    unfolding parse_uri_def by (simp add: continue_on continue_parsing_uri.simps [of sg standard_uri_parsing_options ctx])
qed

section \<open>A host of one character\<close>

text \<open>It counts as a number, because its first character is not looked at, and is no IPv4 address.\<close>

lemma one_character_host:
  "\<exists>ctx. parse_uri sg standard_uri_parsing_options ''http://x/'' = Some (Some ctx) \<and> ctx_status ctx = status_code us_ip_invalid_character"
proof -
  let ?opts = standard_uri_parsing_options
  let ?ctx = "http_ctx ''http://x/'' (no_components\<lparr>m_scheme := ''http''\<rparr>) 7 us_valid_authority"
  let ?last = "?ctx\<lparr>ctx_pos := 8, ctx_status := status_code us_ip_invalid_character\<rparr>"
  have "map to_lower_copy ''http'' \<in> set specials" by code_simp
  from http_scheme [OF this, of "CHR ''x''" sg "''/''"]
  have s1: "parse_uri_step sg ?opts (new_ctx ''http://x/'') = Some (False, ?ctx)"
    by (simp add: http_steps is_tab_def)
  have "parse_authority sg ?opts ?ctx = Some ?last" by (induction sg rule: bool.induct) code_simp+
  then have s2: "parse_uri_step sg ?opts ?ctx = Some (False, ?last)" by (simp add: http_steps)
  have "has_error (ctx_status ?last)" by code_simp
  then have "continue_parsing_uri sg ?opts ?last = Some (Some ?last)" by (subst continue_parsing_uri.simps) simp
  then have "parse_uri sg ?opts ''http://x/'' = Some (Some ?last)"
    unfolding parse_uri_def continue_on [OF s1 http_no_error(1)] continue_on [OF s2 http_no_error(3)] .
  then show ?thesis by auto
qed

end
