(* ===== verification/Spec2Isabelle.thy ===== *)
theory Spec2Isabelle
  imports Ip_Address Path_Traverser Hangul Code_Point_Swap Normalization Cache Http_Verbs Versions
    Composition Decompose_In_Place Idna_Mapping Punycode_Correct Uri_Returns Uri_Cases
begin

text \<open>
  A verification development for the header library webpp: its Internet addresses, character
  sets, percent-encoding, URI parser and paths, Unicode algorithms and caches, the mapping step and the
  punycode of internationalised domain names, and the value types of HTTP. It is a shallow embedding: each
  function of the C++ code is a function of HOL with the name it has in the source (overloads and members
  get a prefix or a suffix), in the order of the source.

  \<^bold>\<open>Conventions.\<close> A machine integer is a word of its width, so that arithmetic wraps
  around. Undefined behaviour, that is an access outside of an array, a shift by the width of the type,
  a false assumption, the overflow of a signed integer, is the value \<^const>\<open>None\<close>; a
  theorem that a function never returns it is a safety theorem. A text is a list of bytes; an iterator
  into a text is the part that it has not passed. An output array is a list that is passed in and
  returned. Status enumerations are datatypes together with their codes. All definitions are executable;
  loops are structural recursions or have a termination proof; those that move in ways that need an
  argument, in \<open>Uri_Path\<close>, \<open>Path_Traverser\<close>, \<open>Idna_Mapping\<close>, \<open>Decomposition\<close>,
  \<open>Decompose_In_Place\<close> and \<open>Uri_Parser\<close>, are partial functions that are proved to return where the code
  is defined, or, for the URI parser, where it returns. No fuel is used.

  \<^bold>\<open>Shared\<close> (theory \<open>Webpp_Prelude\<close>): the integer types, checked accesses, and the
  locales of textual formats, \<open>text_codec\<close> and \<open>canonical_codec\<close>.

  \<^bold>\<open>Internet addresses\<close> (directory \<open>ip\<close>). \<open>Ip_Status\<close>: \<open>ip.hpp\<close>.
  \<open>Inet_Ntop4\<close>, \<open>Inet_Ntop6\<close>: the printers of \<open>inet_ntop.hpp\<close>.
  \<open>Inet_Pton4\<close>, \<open>Inet_Pton6\<close>: the parsers of \<open>inet_pton.hpp\<close>, with the facts
  that a parser only writes its own cells, and which texts it accepts. \<open>Inet6_Roundtrip\<close>: the
  parsers invert the printers, which interpret the codec locales. \<open>Ip_Validators\<close>:
  \<open>ip_validators.hpp\<close>. \<open>Ipv4\<close>, \<open>Ipv4_Laws\<close>, \<open>Ipv4_Class\<close>:
  the class \<open>ipv4\<close>, its prefix arithmetic, and its contracts: the objects that a program can build
  (an inductive set) keep the invariant of the byte shared by prefix and status. \<open>Ipv6\<close>,
  \<open>Ipv6_Class\<close>: the same for \<open>ipv6\<close>. \<open>Ip_Address\<close>: the variant of both.

  \<^bold>\<open>Characters and conversions.\<close> \<open>Ascii_Hex\<close>: the digits of \<open>strings/hex.hpp\<close>.
  \<open>Casts\<close>: \<open>convert/casts.hpp\<close>. \<open>Ascii_Validators\<close>:
  \<open>strings/validators.hpp\<close>. \<open>Charset\<close>: the three representations of a set of characters
  of \<open>strings/charset.hpp\<close>; the locale \<open>char_set\<close> states what their clients rely on, and
  is interpreted on each of them; the tables refine the list of members. \<open>Uri_Charsets\<close>: the sets of
  \<open>uri/details/constants.hpp\<close>, compared with RFC 3986 and the WHATWG standard.
  \<open>Percent_Encoding\<close>: \<open>uri/encoding.hpp\<close>; the locale \<open>percent_set\<close> is the contract
  of a set of characters under which encoding is reversible, interpreted on the sets of the library.

  \<^bold>\<open>Paths\<close> (directory \<open>uri\<close>). \<open>Uri_Path\<close>: the class \<open>basic_path\<close> of
  \<open>path.hpp\<close>; the removal of dot segments is a loop over two stacks, and on absolute paths the
  algorithm of RFC 3986. \<open>Path_Traverser\<close>: the two walkers of \<open>path_traverser.hpp\<close>, the one over
  a text described by the parts between its slashes.

  \<^bold>\<open>URI parser\<close> (directory \<open>uri\<close>). It is modelled for components that are views into the text, without a
  base URI; the options are a record, with the three presets of the source. \<open>Uri_Status\<close>, \<open>Uri_Status_Laws\<close>:
  \<open>uri_status.hpp\<close>, the status word, what its updates change, and what its iterator visits.
  \<open>Ascii_Case\<close>, \<open>Special_Schemes\<close>: \<open>to_case.hpp\<close>, \<open>iequals.hpp\<close>, \<open>iiequals.hpp\<close> and
  \<open>special_schemes.hpp\<close>; the code of a scheme in 64 bits identifies the known ones among all texts.
  \<open>Uri_Context\<close>: the context that all parsers pass on, its components, and the searches of the component encoder.
  \<open>Uri_Scheme\<close>, \<open>Uri_Host\<close>, \<open>Uri_Authority\<close>, \<open>Uri_Tail\<close>: \<open>parse_scheme\<close>; ports, credentials and IP
  addresses; authorities and the hosts of files; paths, queries and fragments. A loop is a step, that continues, breaks or
  returns, and a function that repeats it; the locale \<open>tail_loop\<close> carries invariants along the four loops of \<open>Uri_Tail\<close>,
  that interpret it. \<open>Uri_Parser\<close>: the loop of \<open>uri.hpp\<close> over the status. There a reading out of bounds is
  \<^term>\<open>Some None\<close>, and \<^const>\<open>None\<close> is a loop that does not end. \<open>Uri_Views\<close>: every component is a part of
  the text. \<open>Uri_Ranks\<close>, \<open>Uri_Returns\<close>: a step lowers the rank of the status or moves on, so that the parser returns,
  for all texts except those of files with an at sign. \<open>Uri_Http\<close>: which components an ordinary text has.
  \<open>Uri_Cases\<close>: a text on which the parser runs forever and texts that are read past their end.

  \<^bold>\<open>Unicode\<close> (directory \<open>unicode\<close>). \<open>Unicode_Utf\<close>:
  \<open>unicode.hpp\<close>, with a definition for each of the encodings that a template is used with.
  \<open>Unicode_Codec\<close>: what is written is read back in UTF-8, and what becomes of the surrogate
  pairs of UTF-16. \<open>Code_Point_Swap\<close>: the exchange of two characters of different lengths in
  place. \<open>Hangul\<close>: \<open>hangul.hpp\<close>, decomposition and composition are inverse.
  \<open>Ccc_Tables\<close>: the two arrays of \<open>details/ccc_tables.hpp\<close>, number by number.
  \<open>Normalization\<close>: the combining class of a code point and the canonical ordering of
  \<open>normalization.hpp\<close> on UTF-32, which is compared with the order of the standard: stable sorts
  of the runs between starters. \<open>Composition_Tables\<close>, \<open>Composition\<close>: the tables
  of \<open>details/composition_tables.hpp\<close> and \<open>canonical_composed\<close>; the lookups stay in the tables,
  and which first code points they confuse. \<open>Decomposition_Tables\<close>, \<open>Decomposition\<close>: the tables of
  \<open>details/decomposition_tables.hpp\<close>, whose slots are checked piece by piece, and \<open>canonical_decompose_to\<close>;
  the locale \<open>char_copy\<close> is what the copies into the two encodings have in common.
  \<open>Decompose_In_Place\<close>: \<open>canonical_decompose\<close>, which reads and writes one buffer; the locale
  \<open>decomposed_text\<close> states why nothing is overwritten before it is read, and is interpreted on UTF-32 and UTF-8.

  \<^bold>\<open>Caches\<close> (directory \<open>storage\<close>). \<open>Memory_Gate\<close>: the gates in memory
  and the null gate; the locale \<open>storage_gate\<close> is the concept that a strategy relies on,
  interpreted on both. \<open>Lru_Cache\<close>: the strategy over any gate; its invariant is proved in
  the locale \<open>stamp_gate\<close> and carried along every sequence of uses. \<open>Cache\<close>: the class
  over a strategy; the locale \<open>cache_strategy\<close> is interpreted on the strategy over the memory
  gate. What a C++ move leaves of a value is a parameter.

  \<^bold>\<open>Domain names\<close> (directory \<open>uri/idna\<close>). \<open>Idna_Table\<close>: the mapping
  table, number by number, in chunks that are checked one by one for the order of their entries.
  \<open>Idna_Mapping\<close>: \<open>idna_mappings.hpp\<close>; the locale \<open>entry_table\<close> states what the search
  needs of a table, and is interpreted on the table of the library; the search is proved equal to a scan.
  \<open>Punycode\<close>: \<open>punycodes.hpp\<close>. \<open>Punycode_Decode\<close>, \<open>Punycode_Sort\<close>: the split of the
  label in code points and their sort in place. \<open>Punycode_Rfc\<close>: the encoding of RFC 3492 on natural
  numbers, which \<open>Punycode_Encode\<close> and \<open>Punycode_Correct\<close> prove equal to the conversion with words
  of 32 bits: none of them overflows for a label of at most 62 bytes.

  \<^bold>\<open>HTTP\<close> (directory \<open>http\<close>). \<open>Http_Verbs\<close>: \<open>verbs.hpp\<close>, whose recogniser of
  methods interprets \<open>canonical_codec\<close>. \<open>Versions\<close>: \<open>http_version.hpp\<close> and the general
  \<open>utils/version.hpp\<close>, with an instance of \<open>linorder\<close>.

  \<^bold>\<open>Plan.\<close> Next are the outputs of the URI parser that can be modified or are split into segments, base URIs, and the
  string utilities.

  \<^bold>\<open>Not modelled.\<close> Hashing, stream output, memory allocation and capacity; sockets, servers,
  files and compression, which are calls to other libraries; type-level code; the composition of a text,
  which does not instantiate for UTF-32; the reference table of IDNA, whose only use does not compile; the classes that
  store a single component of a URI, and their rendering.
\<close>

end
